(* ===== verification/Numerics.thy ===== *)
theory Numerics
  imports Complex_Main "HOL-Library.Log_Nat"
begin

text \<open>
  The two number systems of the engine.  A \<^verbatim>\<open>number\<close> is an IEEE-754 double, a
  \<^verbatim>\<open>Decimal\<close> (package decimal.js) is an arbitrary precision decimal whose arithmetic
  rounds each exact result to 20 significant digits, half away from zero.  Both are modelled by
  one datatype: a finite rational, an infinity, or NaN; every arithmetic operation takes the
  rounding function it applies to the exact result.  decimal.js is not part of the repository,
  so its rounding function is a parameter \<open>rd\<close> of every definition that computes with
  decimals, and the locale \<open>decimal_rounding\<close> below states the documented behaviour the
  theorems rely on.  The doubles' rounding \<open>b64\<close> is part of the language and is defined
  here (round to nearest, ties to even, 53 significant bits; the exponent range, which no
  price or capital of the engine comes near, is not limited).  Signed zeros are not
  distinguished.
\<close>

section \<open>Significant-digit rounding\<close>

text \<open>The contract: rounding to \<open>p\<close> significant base-\<open>b\<close> digits.\<close>

locale digit_rounding =
  fixes b :: nat and p :: nat and rd :: "rat \<Rightarrow> rat"
  assumes base_ge_2: "2 \<le> b"
    and rd_mono: "x \<le> y \<Longrightarrow> rd x \<le> rd y"
    and rd_minus: "rd (- x) = - rd x"
    and rd_exact: "\<bar>n\<bar> \<le> int b ^ p \<Longrightarrow> rd (of_int n * of_nat b powi k) = of_int n * of_nat b powi k"
begin

lemma rd_int: "\<bar>n\<bar> \<le> int b ^ p \<Longrightarrow> rd (of_int n) = of_int n"
  using rd_exact [of n 0] by simp

lemma rd_0 [simp]: "rd 0 = 0"
  using rd_int [of 0] base_ge_2 by simp

lemma one_le_pow: "(1::int) \<le> int b ^ p"
  using base_ge_2 by simp

lemma rd_1 [simp]: "rd 1 = 1"
  using rd_int [of 1] one_le_pow by simp

lemma rd_nonneg: "0 \<le> x \<Longrightarrow> 0 \<le> rd x"
  using rd_mono [of 0 x] by simp

lemma rd_nonpos: "x \<le> 0 \<Longrightarrow> rd x \<le> 0"
  using rd_mono [of x 0] by simp

lemma rd_power: "rd (of_nat b powi k) = of_nat b powi k"
  using rd_exact [of 1 k] one_le_pow by simp

lemma rd_pos:
  assumes "0 < x"
  shows "0 < rd x"
proof -
  obtain n :: nat where "inverse x < of_nat n"
    using reals_Archimedean2 by blast
  also have "of_nat n \<le> (of_nat b ^ n :: rat)"
  proof -
    have "n < 2 ^ n" by simp
    also have "(2::nat) ^ n \<le> b ^ n" using base_ge_2 by (rule power_mono) simp
    finally have "n \<le> b ^ n" by simp
    then show ?thesis by (metis of_nat_le_iff of_nat_power)
  qed
  finally have lt: "inverse x < of_nat b ^ n" .
  have b0: "(0::rat) < of_nat b ^ n" using base_ge_2 by simp
  have "of_nat b powi (- int n) = inverse (of_nat b ^ n :: rat)"
    by (simp add: power_int_minus)
  also have "\<dots> \<le> x"
    using lt assms b0 by (metis inverse_inverse_eq inverse_positive_iff_positive le_imp_inverse_le less_imp_le)
  finally have "rd (of_nat b powi (- int n)) \<le> rd x" by (rule rd_mono)
  moreover have "(0::rat) < of_nat b powi (- int n)"
    using base_ge_2 by simp
  ultimately show ?thesis by (simp only: rd_power)
qed

lemma rd_neg: "x < 0 \<Longrightarrow> rd x < 0"
  using rd_pos [of "- x"] rd_minus [of x] by simp

lemma rd_nonneg_iff [simp]: "0 \<le> rd x \<longleftrightarrow> 0 \<le> x"
  using rd_neg rd_nonneg by (meson leD leI)

lemma rd_pos_iff [simp]: "0 < rd x \<longleftrightarrow> 0 < x"
  using rd_nonpos rd_pos by (meson leD leI)

lemma rd_neg_iff [simp]: "rd x < 0 \<longleftrightarrow> x < 0"
  using rd_nonneg_iff [of x] by (simp add: not_le [symmetric] del: rd_nonneg_iff)

lemma rd_nonpos_iff [simp]: "rd x \<le> 0 \<longleftrightarrow> x \<le> 0"
  using rd_pos_iff [of x] by (simp add: not_less [symmetric] del: rd_pos_iff)

lemma rd_zero_iff [simp]: "rd x = 0 \<longleftrightarrow> x = 0"
  by (metis rd_neg rd_pos rd_0 less_irrefl linorder_neqE)

text \<open>A bound that is representable survives rounding.\<close>

lemma rd_le_fix: "x \<le> y \<Longrightarrow> rd y = y \<Longrightarrow> rd x \<le> y"
  using rd_mono [of x y] by simp

lemma fix_le_rd: "x \<le> y \<Longrightarrow> rd x = x \<Longrightarrow> x \<le> rd y"
  using rd_mono [of x y] by simp

lemma rd_sub_le: "0 \<le> y \<Longrightarrow> x \<le> z \<Longrightarrow> rd z = z \<Longrightarrow> rd (x - y) \<le> z"
  by (rule rd_le_fix) auto

lemma rd_swap: "rd (x - y) = - rd (y - x)"
  using rd_minus [of "y - x"] by simp

end

text \<open>The documented law set decimal.js relies on: 20 decimal digits.\<close>

locale decimal_rounding = digit_rounding 10 20 rd for rd

subsection \<open>An executable rounding function\<close>

definition expo :: "nat \<Rightarrow> rat \<Rightarrow> int" where
  "expo b x = (if 1 \<le> x then int (floorlog b (nat \<lfloor>x\<rfloor>)) - 1
     else - int (floorlog b (nat (\<lceil>inverse x\<rceil> - 1))))"

definition quantum :: "nat \<Rightarrow> nat \<Rightarrow> rat \<Rightarrow> rat" where
  "quantum b p x = of_nat b powi (expo b x - int p + 1)"

definition sig_round :: "nat \<Rightarrow> nat \<Rightarrow> (rat \<Rightarrow> int) \<Rightarrow> rat \<Rightarrow> rat" where
  "sig_round b p tie x =
     (if x = 0 then 0
      else sgn x * (of_int (tie (\<bar>x\<bar> / quantum b p \<bar>x\<bar>)) * quantum b p \<bar>x\<bar>))"

definition half_up :: "rat \<Rightarrow> int" where
  "half_up y = \<lfloor>y + 1/2\<rfloor>"

definition half_even :: "rat \<Rightarrow> int" where
  "half_even y = (let f = \<lfloor>y\<rfloor>; d = y - of_int f in
     if d < 1/2 then f else if 1/2 < d then f + 1 else if even f then f else f + 1)"

lemma floorlog_le: "1 < b \<Longrightarrow> 0 < n \<Longrightarrow> b ^ (floorlog b n - 1) \<le> n"
  using floorlog_bounds [of n b] by simp

lemma less_floorlog: "1 < b \<Longrightarrow> n < b ^ floorlog b n"
  using floorlog_bounds [of n b] by (cases "n = 0") auto

lemma expo_bounds:
  assumes b: "1 < b" and x: "0 < x"
  shows "of_nat b powi expo b x \<le> x \<and> x < of_nat b powi (expo b x + 1)"
proof (cases "1 \<le> x")
  case True
  let ?n = "nat \<lfloor>x\<rfloor>" and ?l = "floorlog b (nat \<lfloor>x\<rfloor>)"
  have n: "0 < ?n" using True by simp
  have l: "0 < ?l" using b n by (simp add: floorlog_def)
  have nx: "of_nat ?n \<le> x" using True by simp
  have xn: "x < of_nat (Suc ?n)" using True by simp linarith
  have "of_nat (b ^ (?l - 1)) \<le> (of_nat ?n :: rat)"
    using floorlog_le [OF b n] by (simp only: of_nat_le_iff)
  then have lo: "of_nat b ^ (?l - 1) \<le> x" using nx by simp
  have "Suc ?n \<le> b ^ ?l" using less_floorlog [OF b, of ?n] by simp
  then have "of_nat (Suc ?n) \<le> (of_nat (b ^ ?l) :: rat)" by (simp only: of_nat_le_iff)
  then have hi: "x < of_nat b ^ ?l" using xn by simp
  have e: "expo b x = int (?l - 1)" and e1: "expo b x + 1 = int ?l"
    using True l by (simp_all add: expo_def of_nat_diff)
  from lo hi show ?thesis
    unfolding e1 unfolding e by simp
next
  case False
  let ?y = "inverse x"
  let ?N = "nat (\<lceil>?y\<rceil> - 1)" and ?m = "floorlog b (nat (\<lceil>inverse x\<rceil> - 1))"
  have y: "1 < ?y" using False x by (simp add: one_less_inverse_iff)
  then have N: "0 < ?N" by linarith
  have m: "0 < ?m" using b N by (simp add: floorlog_def)
  have Ny: "of_nat ?N < ?y" using y by linarith
  have yN: "?y \<le> of_nat (Suc ?N)" using y by linarith
  have "of_nat (b ^ (?m - 1)) \<le> (of_nat ?N :: rat)"
    using floorlog_le [OF b N] by (simp only: of_nat_le_iff)
  then have lo: "of_nat b ^ (?m - 1) < ?y"
    unfolding of_nat_power by (rule le_less_trans [OF _ Ny])
  have "Suc ?N \<le> b ^ ?m" using less_floorlog [OF b, of ?N] by simp
  then have "of_nat (Suc ?N) \<le> (of_nat (b ^ ?m) :: rat)" by (simp only: of_nat_le_iff)
  then have hi: "?y \<le> of_nat b ^ ?m" using yN by simp
  have e: "expo b x = - int ?m" using False by (simp add: expo_def)
  have e1: "expo b x + 1 = - int (?m - 1)" using m unfolding e by (simp add: of_nat_diff)
  have b0: "(0::rat) < of_nat b" using b by simp
  have "inverse (of_nat b ^ ?m) \<le> x"
    using le_imp_inverse_le [OF hi] x by simp
  moreover have "x < inverse (of_nat b ^ (?m - 1))"
    using less_imp_inverse_less [OF lo] b0 by simp
  ultimately show ?thesis
    unfolding e1 unfolding e by (simp add: power_int_minus)
qed

text \<open>Any monotone integer tie rule that fixes the integers gives the contract.\<close>

locale sig_param =
  fixes b p :: nat and tie :: "rat \<Rightarrow> int"
  assumes b2: "2 \<le> b"
    and p1: "1 \<le> p"
    and tie_mono: "x \<le> y \<Longrightarrow> tie x \<le> tie y"
    and tie_int: "tie (of_int n) = n"
begin

lemma b1: "1 < b" and br: "(1::rat) < of_nat b" and b0: "(0::rat) < of_nat b"
  using b2 by simp_all

lemma quantum_pos: "0 < quantum b p x"
  unfolding quantum_def using b0 by simp

lemma sig_round_pos: "0 < x \<Longrightarrow> sig_round b p tie x = of_int (tie (x / quantum b p x)) * quantum b p x"
  by (simp add: sig_round_def)

lemma sig_round_minus: "sig_round b p tie (- x) = - sig_round b p tie x"
  by (simp add: sig_round_def)

lemma powi_nat_add: "(of_nat b :: rat) powi (int m + j) = of_nat b ^ m * of_nat b powi j"
  using b0 by (simp add: power_int_add)

lemma powi_quantum:
  "of_nat b powi expo b x = of_nat b ^ (p - 1) * quantum b p x"
  "of_nat b powi (expo b x + 1) = of_nat b ^ p * quantum b p x"
  unfolding quantum_def powi_nat_add [symmetric] using p1 by (simp_all add: of_nat_diff)

lemma tie_pow: "tie (of_nat b ^ n) = int b ^ n"
  using tie_int [of "int b ^ n"] by simp

lemma sig_round_bounds:
  assumes x: "0 < x"
  shows "of_nat b powi expo b x \<le> sig_round b p tie x"
    and "sig_round b p tie x \<le> of_nat b powi (expo b x + 1)"
proof -
  let ?q = "quantum b p x"
  have q: "0 < ?q" by (rule quantum_pos)
  from expo_bounds [OF b1 x] have "of_nat b ^ (p - 1) * ?q \<le> x" "x \<le> of_nat b ^ p * ?q"
    unfolding powi_quantum by simp_all
  then have "of_nat b ^ (p - 1) \<le> x / ?q" "x / ?q \<le> of_nat b ^ p"
    using q by (simp_all add: pos_le_divide_eq pos_divide_le_eq)
  then have "int b ^ (p - 1) \<le> tie (x / ?q)" "tie (x / ?q) \<le> int b ^ p"
    using tie_mono tie_pow by metis+
  then have "(of_int (int b ^ (p - 1)) :: rat) \<le> of_int (tie (x / ?q))"
    "(of_int (tie (x / ?q)) :: rat) \<le> of_int (int b ^ p)"
    by (simp_all only: of_int_le_iff)
  then show "of_nat b powi expo b x \<le> sig_round b p tie x"
    and "sig_round b p tie x \<le> of_nat b powi (expo b x + 1)"
    unfolding powi_quantum sig_round_pos [OF x] using q by simp_all
qed

lemma expo_mono:
  assumes "0 < x" "x \<le> y"
  shows "expo b x \<le> expo b y"
proof -
  have "of_nat b powi expo b x < (of_nat b powi (expo b y + 1) :: rat)"
    using expo_bounds [OF b1, of x] expo_bounds [OF b1, of y] assms by linarith
  then have "expo b x < expo b y + 1"
    using br by (metis linorder_not_le order.strict_implies_order power_int_increasing)
  then show ?thesis by simp
qed

lemma sig_round_mono_pos:
  assumes x: "0 < x" and xy: "x \<le> y"
  shows "sig_round b p tie x \<le> sig_round b p tie y"
proof -
  from x xy have y: "0 < y" by simp
  consider "expo b x = expo b y" | "expo b x + 1 \<le> expo b y"
    using expo_mono [OF x xy] by linarith
  then show ?thesis
  proof cases
    case 1
    then have q: "quantum b p x = quantum b p y" by (simp add: quantum_def)
    have "tie (x / quantum b p y) \<le> tie (y / quantum b p y)"
      using xy quantum_pos [of y] by (intro tie_mono divide_right_mono) auto
    then show ?thesis
      using quantum_pos [of y] by (simp add: sig_round_pos x y q)
  next
    case 2
    have "sig_round b p tie x \<le> of_nat b powi (expo b x + 1)"
      by (rule sig_round_bounds(2) [OF x])
    also have "\<dots> \<le> of_nat b powi expo b y"
      using 2 br by (intro power_int_increasing) auto
    also have "\<dots> \<le> sig_round b p tie y" by (rule sig_round_bounds(1) [OF y])
    finally show ?thesis .
  qed
qed

lemma sig_round_nonneg: "0 \<le> x \<Longrightarrow> 0 \<le> sig_round b p tie x"
proof (cases "x = 0")
  case False
  assume "0 \<le> x"
  with False have "0 < x" by simp
  from sig_round_bounds(1) [OF this] show ?thesis
    using b0 by (meson order_trans zero_less_power_int less_imp_le)
qed (simp add: sig_round_def)

lemma sig_round_mono:
  assumes xy: "x \<le> y"
  shows "sig_round b p tie x \<le> sig_round b p tie y"
proof -
  consider "0 < x" | "x \<le> 0" "0 \<le> y" | "y < 0" by linarith
  then show ?thesis
  proof cases
    case 1 then show ?thesis using xy by (rule sig_round_mono_pos)
  next
    case 2
    have "0 \<le> sig_round b p tie (- x)" using 2 by (intro sig_round_nonneg) simp
    then show ?thesis using sig_round_nonneg [OF 2(2)] by (simp add: sig_round_minus)
  next
    case 3
    then have "sig_round b p tie (- y) \<le> sig_round b p tie (- x)"
      using xy by (intro sig_round_mono_pos) auto
    then show ?thesis by (simp add: sig_round_minus)
  qed
qed

lemma sig_round_fix:
  assumes x: "0 < x" and m: "x = of_int m * quantum b p x"
  shows "sig_round b p tie x = x"
proof -
  have "x / quantum b p x = of_int m"
    using m quantum_pos [of x] by (simp add: divide_eq_eq)
  then show ?thesis using m by (simp add: sig_round_pos [OF x] tie_int)
qed

lemma sig_round_exact_lt:
  assumes n: "0 < n" "n < int b ^ p"
  shows "sig_round b p tie (of_int n * of_nat b powi k) = of_int n * of_nat b powi k"
    (is "_ ?x = ?x")
proof -
  have x: "0 < ?x" using n b0 by simp
  have "of_nat b powi expo b ?x \<le> ?x" using expo_bounds [OF b1 x] by simp
  also have "?x < of_int (int b ^ p) * of_nat b powi k"
    using n b0 by (intro mult_strict_right_mono) (simp_all only: of_int_less_iff zero_less_power_int)
  also have "\<dots> = of_nat b powi (int p + k)" using b0 by (simp add: power_int_add)
  finally have "expo b ?x < int p + k"
    using br by (metis linorder_not_le order.strict_implies_order power_int_increasing)
  then have j: "expo b ?x - int p + 1 \<le> k" by simp
  let ?j = "nat (k - (expo b ?x - int p + 1))"
  have "int ?j + (expo b ?x - int p + 1) = k" using j by simp
  then have "(of_nat b :: rat) powi k = of_nat b ^ ?j * quantum b p ?x"
    unfolding quantum_def powi_nat_add [symmetric] by (simp only:)
  then have "?x = of_int n * (of_nat b ^ ?j * quantum b p ?x)"
    by (rule arg_cong)
  then have "?x = of_int (n * int b ^ ?j) * quantum b p ?x"
    by (simp only: of_int_mult of_int_power of_int_of_nat_eq mult.assoc)
  then show ?thesis by (rule sig_round_fix [OF x])
qed

lemma sig_round_exact_pos:
  assumes n: "0 < n" "n \<le> int b ^ p"
  shows "sig_round b p tie (of_int n * of_nat b powi k) = of_int n * of_nat b powi k"
proof (cases "n < int b ^ p")
  case True
  with n(1) show ?thesis by (rule sig_round_exact_lt)
next
  case False
  with n have "n = int b ^ p" by simp
  moreover have "int b ^ p = int b ^ (p - 1) * int b"
    using p1 by (simp add: power_eq_if)
  ultimately have "of_int n * of_nat b powi k = (of_int (int b ^ (p - 1)) * of_nat b powi (k + 1) :: rat)"
    using b0 by (simp add: power_int_add)
  moreover have "int b ^ (p - 1) < int b ^ p"
    using p1 b2 by (intro power_strict_increasing) auto
  ultimately show ?thesis
    using sig_round_exact_lt [of "int b ^ (p - 1)" "k + 1"] b2 by simp
qed

lemma sig_round_exact:
  assumes n: "\<bar>n\<bar> \<le> int b ^ p"
  shows "sig_round b p tie (of_int n * of_nat b powi k) = of_int n * of_nat b powi k"
proof -
  consider "0 < n" | "n = 0" | "n < 0" by linarith
  then show ?thesis
  proof cases
    case 1 then show ?thesis using n by (intro sig_round_exact_pos) auto
  next
    case 2 then show ?thesis by (simp add: sig_round_def)
  next
    case 3
    then have "sig_round b p tie (of_int (- n) * of_nat b powi k) = of_int (- n) * of_nat b powi k"
      using n by (intro sig_round_exact_pos) auto
    then show ?thesis by (simp add: sig_round_minus)
  qed
qed

lemma digits: "digit_rounding b p (sig_round b p tie)"
  by unfold_locales (use b2 sig_round_mono sig_round_minus sig_round_exact in auto)

end

sublocale sig_param \<subseteq> sr: digit_rounding b p "sig_round b p tie"
  by (rule digits)

text \<open>decimal.js with its default precision and rounding mode, and IEEE-754 binary64.\<close>

definition dec20 :: "rat \<Rightarrow> rat" where
  "dec20 = sig_round 10 20 half_up"

definition b64 :: "rat \<Rightarrow> rat" where
  "b64 = sig_round 2 53 half_even"

lemma half_up_mono: "x \<le> y \<Longrightarrow> half_up x \<le> half_up y"
  unfolding half_up_def by (intro floor_mono) simp

lemma half_up_int: "half_up (of_int n) = n"
  unfolding half_up_def by (simp add: floor_eq_iff)

lemma half_even_cases:
  "half_even y = \<lfloor>y\<rfloor> \<and> y - of_int \<lfloor>y\<rfloor> \<le> 1/2 \<or> half_even y = \<lfloor>y\<rfloor> + 1 \<and> 1/2 \<le> y - of_int \<lfloor>y\<rfloor>"
  unfolding half_even_def Let_def by auto

lemma half_even_mono:
  assumes xy: "x \<le> y"
  shows "half_even x \<le> half_even y"
proof (cases "\<lfloor>x\<rfloor> = \<lfloor>y\<rfloor>")
  case True
  then show ?thesis using xy unfolding half_even_def Let_def by auto
next
  case False
  then have "\<lfloor>x\<rfloor> + 1 \<le> \<lfloor>y\<rfloor>" using floor_mono [OF xy] by linarith
  then show ?thesis using half_even_cases [of x] half_even_cases [of y] by linarith
qed

lemma half_even_int: "half_even (of_int n) = n"
  unfolding half_even_def by simp

interpretation d20: sig_param 10 20 half_up
  rewrites "sig_round 10 20 half_up = dec20"
  by unfold_locales (auto simp: half_up_mono half_up_int dec20_def)

interpretation dbl: sig_param 2 53 half_even
  rewrites "sig_round 2 53 half_even = b64"
  by unfold_locales (auto simp: half_even_mono half_even_int b64_def)

interpretation d20: decimal_rounding dec20
  unfolding decimal_rounding_def using d20.sr.digit_rounding_axioms by simp

text \<open>
  Amounts with at most eight decimals (the precision of the database columns) and at most
  \<open>10\<^sup>12\<close> in size fit in 20 digits: arithmetic that stays among them is exact.
\<close>

definition money :: "rat \<Rightarrow> bool" where
  "money x \<longleftrightarrow> (of_int \<lfloor>x * 10 ^ 8\<rfloor> = x * 10 ^ 8) \<and> \<bar>x\<bar> \<le> 10 ^ 12"

definition grid :: "rat \<Rightarrow> bool" where
  "grid x \<longleftrightarrow> of_int \<lfloor>x * 10 ^ 8\<rfloor> = x * 10 ^ 8"

lemma grid_iff: "grid x \<longleftrightarrow> (\<exists>n::int. x * 10 ^ 8 = of_int n)"
  unfolding grid_def by (metis floor_of_int)

lemma money_iff: "money x \<longleftrightarrow> grid x \<and> \<bar>x\<bar> \<le> 10 ^ 12"
  by (simp add: money_def grid_def)

lemma grid_0 [simp]: "grid 0"
  by (simp add: grid_def)

lemma grid_add [simp, intro]: "grid x \<Longrightarrow> grid y \<Longrightarrow> grid (x + y)"
  unfolding grid_iff by (metis distrib_right of_int_add)

lemma grid_minus [simp]: "grid (- x) \<longleftrightarrow> grid x"
  unfolding grid_iff by (metis minus_mult_left of_int_minus minus_minus)

lemma grid_diff [simp, intro]: "grid x \<Longrightarrow> grid y \<Longrightarrow> grid (x - y)"
  using grid_add [of x "- y"] by simp

lemma money_exact_form:
  "money x \<Longrightarrow> \<exists>n. \<bar>n\<bar> \<le> (10::int) ^ 20 \<and> x = of_int n * 10 powi (- 8)"
proof -
  assume "money x"
  then obtain n :: int where n: "x * 10 ^ 8 = of_int n" and x: "\<bar>x\<bar> \<le> 10 ^ 12"
    unfolding money_iff grid_iff by blast
  have "\<bar>of_int n :: rat\<bar> = \<bar>x\<bar> * 10 ^ 8" unfolding n [symmetric] by (simp add: abs_mult)
  also have "\<dots> \<le> 10 ^ 12 * 10 ^ 8" using x by (intro mult_right_mono) auto
  finally have "of_int \<bar>n\<bar> \<le> (of_int (10 ^ 20) :: rat)" by simp
  then have "\<bar>n\<bar> \<le> 10 ^ 20" by (simp only: of_int_le_iff)
  moreover have "x = of_int n * 10 powi (- 8)"
    unfolding n [symmetric] by (simp add: power_int_def power_one_over)
  ultimately show ?thesis by blast
qed

context decimal_rounding
begin

lemma rd_money:
  assumes "money x"
  shows "rd x = x"
proof -
  obtain n where n: "\<bar>n\<bar> \<le> (10::int) ^ 20" and x: "x = of_int n * 10 powi (- 8)"
    using money_exact_form [OF assms] by blast
  have "rd (of_int n * of_nat 10 powi (- 8)) = of_int n * of_nat 10 powi (- 8)"
    using n by (intro rd_exact) simp
  then show ?thesis unfolding x by (simp only: of_nat_numeral)
qed

lemma rd_grid: "grid x \<Longrightarrow> \<bar>x\<bar> \<le> 10 ^ 12 \<Longrightarrow> rd x = x"
  by (rule rd_money) (simp add: money_iff)

end

section \<open>Numbers with NaN and the infinities\<close>

datatype xr = Fin rat | PInf | NInf | NaN

type_synonym decimal = xr
type_synonym jsnum = xr

fun is_fin :: "xr \<Rightarrow> bool" where
  "is_fin (Fin _) = True"
| "is_fin _ = False"

fun fin_val :: "xr \<Rightarrow> rat" where
  "fin_val (Fin x) = x"
| "fin_val _ = 0"

fun is_nan :: "xr \<Rightarrow> bool" where
  "is_nan NaN = True"
| "is_nan _ = False"

definition inf_of_sign :: "rat \<Rightarrow> xr" where
  "inf_of_sign s = (if 0 < s then PInf else if s < 0 then NInf else NaN)"

fun xsgn :: "xr \<Rightarrow> rat" where
  "xsgn (Fin x) = sgn x"
| "xsgn PInf = 1"
| "xsgn NInf = - 1"
| "xsgn NaN = 0"

fun xneg :: "xr \<Rightarrow> xr" where
  "xneg (Fin x) = Fin (- x)"
| "xneg PInf = NInf"
| "xneg NInf = PInf"
| "xneg NaN = NaN"

fun xabs :: "xr \<Rightarrow> xr" where
  "xabs (Fin x) = Fin \<bar>x\<bar>"
| "xabs PInf = PInf"
| "xabs NInf = PInf"
| "xabs NaN = NaN"

fun xadd :: "(rat \<Rightarrow> rat) \<Rightarrow> xr \<Rightarrow> xr \<Rightarrow> xr" where
  "xadd r (Fin x) (Fin y) = Fin (r (x + y))"
| "xadd r NaN _ = NaN"
| "xadd r _ NaN = NaN"
| "xadd r PInf NInf = NaN"
| "xadd r NInf PInf = NaN"
| "xadd r PInf _ = PInf"
| "xadd r _ PInf = PInf"
| "xadd r NInf _ = NInf"
| "xadd r _ NInf = NInf"

definition xsub :: "(rat \<Rightarrow> rat) \<Rightarrow> xr \<Rightarrow> xr \<Rightarrow> xr" where
  "xsub r a b = xadd r a (xneg b)"

fun xmul :: "(rat \<Rightarrow> rat) \<Rightarrow> xr \<Rightarrow> xr \<Rightarrow> xr" where
  "xmul r (Fin x) (Fin y) = Fin (r (x * y))"
| "xmul r NaN _ = NaN"
| "xmul r _ NaN = NaN"
| "xmul r a b = inf_of_sign (xsgn a * xsgn b)"

fun xdiv :: "(rat \<Rightarrow> rat) \<Rightarrow> xr \<Rightarrow> xr \<Rightarrow> xr" where
  "xdiv r (Fin x) (Fin y) = (if y = 0 then inf_of_sign (sgn x) else Fin (r (x / y)))"
| "xdiv r NaN _ = NaN"
| "xdiv r _ NaN = NaN"
| "xdiv r (Fin _) _ = Fin 0"
| "xdiv r a (Fin y) = inf_of_sign (xsgn a * (if y < 0 then - 1 else 1))"
| "xdiv r _ _ = NaN"

fun xle :: "xr \<Rightarrow> xr \<Rightarrow> bool" where
  "xle NaN _ = False"
| "xle _ NaN = False"
| "xle NInf _ = True"
| "xle _ PInf = True"
| "xle (Fin x) (Fin y) = (x \<le> y)"
| "xle _ _ = False"

fun xlt :: "xr \<Rightarrow> xr \<Rightarrow> bool" where
  "xlt NaN _ = False"
| "xlt _ NaN = False"
| "xlt NInf b = (b \<noteq> NInf)"
| "xlt a PInf = (a \<noteq> PInf)"
| "xlt (Fin x) (Fin y) = (x < y)"
| "xlt _ _ = False"

abbreviation xge :: "xr \<Rightarrow> xr \<Rightarrow> bool" where "xge a b \<equiv> xle b a"
abbreviation xgt :: "xr \<Rightarrow> xr \<Rightarrow> bool" where "xgt a b \<equiv> xlt b a"

definition xeq :: "xr \<Rightarrow> xr \<Rightarrow> bool" where
  "xeq a b \<longleftrightarrow> a = b \<and> a \<noteq> NaN"

definition is_zero :: "xr \<Rightarrow> bool" where
  "is_zero a \<longleftrightarrow> a = Fin 0"

definition is_negative :: "xr \<Rightarrow> bool" where
  "is_negative a \<longleftrightarrow> xlt a (Fin 0)"

text \<open>\<^verbatim>\<open>Decimal.max\<close>, \<^verbatim>\<open>Decimal.min\<close>, \<^verbatim>\<open>Math.max\<close>, \<^verbatim>\<open>Math.min\<close>: NaN if either is.\<close>

definition xmax :: "xr \<Rightarrow> xr \<Rightarrow> xr" where
  "xmax a b = (if a = NaN \<or> b = NaN then NaN else if xlt a b then b else a)"

definition xmin :: "xr \<Rightarrow> xr \<Rightarrow> xr" where
  "xmin a b = (if a = NaN \<or> b = NaN then NaN else if xlt b a then b else a)"

fun xmap :: "(rat \<Rightarrow> rat) \<Rightarrow> xr \<Rightarrow> xr" where
  "xmap f (Fin x) = Fin (f x)"
| "xmap f PInf = PInf"
| "xmap f NInf = NInf"
| "xmap f NaN = NaN"


lemma xsub_Fin [simp]: "xsub r (Fin x) (Fin y) = Fin (r (x - y))"
  by (simp add: xsub_def)

lemma xmax_Fin [simp]: "xmax (Fin x) (Fin y) = Fin (max x y)"
  by (simp add: xmax_def max_def)

lemma xmin_Fin [simp]: "xmin (Fin x) (Fin y) = Fin (min x y)"
  by (simp add: xmin_def min_def)

lemma xeq_Fin [simp]: "xeq (Fin x) (Fin y) \<longleftrightarrow> x = y"
  by (simp add: xeq_def)

lemma is_zero_Fin [simp]: "is_zero (Fin x) \<longleftrightarrow> x = 0"
  by (simp add: is_zero_def)

lemma is_negative_Fin [simp]: "is_negative (Fin x) \<longleftrightarrow> x < 0"
  by (simp add: is_negative_def)

lemma is_fin_iff: "is_fin a \<longleftrightarrow> (\<exists>x. a = Fin x)"
  by (cases a) auto

lemma is_finE:
  assumes "is_fin a"
  obtains x where "a = Fin x"
  using assms by (cases a) auto

lemma xdiv_Fin: "y \<noteq> 0 \<Longrightarrow> xdiv r (Fin x) (Fin y) = Fin (r (x / y))"
  by simp

lemma nan_compare [simp]: "\<not> xle a NaN" "\<not> xlt a NaN" "\<not> xle NaN a" "\<not> xlt NaN a"
  by (cases a; simp)+

lemma nan_arith [simp]:
  "xadd r NaN a = NaN" "xadd r a NaN = NaN" "xsub r NaN a = NaN" "xsub r a NaN = NaN"
  "xmul r NaN a = NaN" "xmul r a NaN = NaN" "xdiv r NaN a = NaN" "xdiv r a NaN = NaN"
  by (cases a; simp add: xsub_def)+

section \<open>Conversions between the two number systems\<close>

text \<open>
  \<^verbatim>\<open>toNumber()\<close> gives the nearest double.  \<^verbatim>\<open>new Decimal(x)\<close> of a double
  \<open>x\<close> reads the text JavaScript prints for \<open>x\<close>: the decimal with the fewest
  digits (at most 17) that converts back to \<open>x\<close>.  A fractional literal in the source is the
  double nearest to it.
\<close>

definition to_number :: "decimal \<Rightarrow> jsnum" where
  "to_number = xmap b64"

definition shortest :: "rat \<Rightarrow> rat" where
  "shortest x =
     (case List.find (\<lambda>k. b64 (sig_round 10 k half_up x) = x) [1..<18] of
        Some k \<Rightarrow> sig_round 10 k half_up x
      | None \<Rightarrow> x)"

definition to_decimal :: "jsnum \<Rightarrow> decimal" where
  "to_decimal = xmap shortest"

definition js_lit :: "rat \<Rightarrow> jsnum" where
  "js_lit x = Fin (b64 x)"

lemma to_number_Fin [simp]: "to_number (Fin x) = Fin (b64 x)"
  by (simp add: to_number_def)

lemma to_decimal_Fin [simp]: "to_decimal (Fin x) = Fin (shortest x)"
  by (simp add: to_decimal_def)

lemma sig_param_10: "1 \<le> k \<Longrightarrow> sig_param 10 k half_up"
  by unfold_locales (auto simp: half_up_mono half_up_int)

text \<open>The sign of a double survives the conversion.\<close>

lemma shortest_cases:
  obtains k where "1 \<le> k" "shortest x = sig_round 10 k half_up x" | "shortest x = x"
proof (cases "List.find (\<lambda>k. b64 (sig_round 10 k half_up x) = x) [1..<18]")
  case None
  then show ?thesis using that(2) by (simp add: shortest_def)
next
  case (Some k)
  then have "1 \<le> k" by (auto simp: find_Some_iff)
  with Some show ?thesis using that(1) by (simp add: shortest_def)
qed

lemma digit_rounding_10: "1 \<le> k \<Longrightarrow> digit_rounding 10 k (sig_round 10 k half_up)"
  by (rule sig_param.digits [OF sig_param_10])

lemma shortest_pos_iff [simp]: "0 < shortest x \<longleftrightarrow> 0 < x"
  by (rule shortest_cases [of x])
    (auto simp: digit_rounding.rd_pos_iff [OF digit_rounding_10])

lemma shortest_neg_iff [simp]: "shortest x < 0 \<longleftrightarrow> x < 0"
  by (rule shortest_cases [of x])
    (auto simp: digit_rounding.rd_neg_iff [OF digit_rounding_10])

lemma shortest_0 [simp]: "shortest 0 = 0"
  using shortest_pos_iff [of 0] shortest_neg_iff [of 0] by linarith

text \<open>A double with one significant decimal digit prints as itself.\<close>

lemma shortest_one_digit:
  assumes "\<bar>m\<bar> \<le> 10" "x = of_int m * 10 powi j" "b64 x = x"
  shows "shortest x = x"
proof -
  have "digit_rounding 10 1 (sig_round 10 1 half_up)" by (rule digit_rounding_10) simp
  from digit_rounding.rd_exact [OF this, of m j] have k: "sig_round 10 1 half_up x = x"
    using assms(1,2) by simp
  have "[1..<18] = (1::nat) # [2..<18]" by (simp add: upt_rec)
  then show ?thesis using k assms(3) by (simp add: shortest_def)
qed

lemma b64_int: "\<bar>n\<bar> \<le> 2 ^ 53 \<Longrightarrow> b64 (of_int n) = of_int n"
  using dbl.sr.rd_int [of n] by simp

lemma dec20_int: "\<bar>n\<bar> \<le> 10 ^ 20 \<Longrightarrow> dec20 (of_int n) = of_int n"
  using d20.sr.rd_int [of n] by simp

lemma b64_half: "b64 (1/2) = 1/2"
  using dbl.sr.rd_exact [of 1 "- 1"] by (simp add: power_int_minus)

lemma shortest_half [simp]: "shortest (1/2) = 1/2"
  using shortest_one_digit [of 5 "1/2" "- 1"] b64_half by (simp add: power_int_minus)

lemma shortest_le_pow10:
  assumes "x \<le> 10 powi j"
  shows "shortest x \<le> 10 powi j"
proof (rule shortest_cases [of x])
  fix k :: nat
  assume k: "1 \<le> k" "shortest x = sig_round 10 k half_up x"
  note r = digit_rounding_10 [OF k(1)]
  have "sig_round 10 k half_up (10 powi j) = 10 powi j"
    using digit_rounding.rd_power [OF r, of j] by simp
  from digit_rounding.rd_le_fix [OF r assms this] show ?thesis by (simp add: k(2))
qed (use assms in simp)

lemma shortest_nonneg_iff [simp]: "0 \<le> shortest x \<longleftrightarrow> 0 \<le> x"
  using shortest_neg_iff [of x] by linarith

lemma sig_round_of_int:
  assumes "1 \<le> k" "0 < n"
  shows "\<exists>m::int. sig_round 10 k half_up (of_int n) = of_int m"
proof -
  let ?x = "of_int n :: rat" and ?e = "expo 10 (of_int n) - int k + 1"
  have y: "sig_round 10 k half_up ?x = of_int (half_up (?x / 10 powi ?e)) * 10 powi ?e"
    using assms(2) sig_param.sig_round_pos [OF sig_param_10 [OF assms(1)], of ?x] by (simp add: quantum_def)
  show ?thesis
  proof (cases "0 \<le> ?e")
    case True
    then have "(10::rat) powi ?e = of_int (10 ^ nat ?e)" by (simp add: power_int_def)
    then show ?thesis unfolding y by (metis of_int_mult)
  next
    case False
    then have "?x / 10 powi ?e = of_int (n * 10 ^ nat (- ?e))" by (simp add: power_int_def field_simps)
    then have "of_int (half_up (?x / 10 powi ?e)) = ?x / 10 powi ?e" by (simp only: half_up_int)
    then show ?thesis unfolding y by (intro exI [of _ n]) simp
  qed
qed

text \<open>Integers print as themselves, and a double below one prints as something below it.\<close>

lemma shortest_int:
  assumes "0 \<le> n" "n \<le> 10 ^ 15"
  shows "shortest (of_int n) = of_int n"
proof (cases "n = 0")
  case False
  then have n: "0 < n" using assms(1) by simp
  show ?thesis
  proof (cases "List.find (\<lambda>k. b64 (sig_round 10 k half_up (of_int n)) = of_int n) [1..<18]")
    case (Some k)
    then have k: "1 \<le> k" "b64 (sig_round 10 k half_up (of_int n)) = of_int n" by (auto simp: find_Some_iff)
    obtain m :: int where m: "sig_round 10 k half_up (of_int n) = of_int m"
      using sig_round_of_int [OF k(1) n] by blast
    note r = digit_rounding_10 [OF k(1)]
    have p15: "(10 :: rat) powi 15 = of_int (10 ^ 15)" by (simp add: power_int_def)
    have le: "(of_int n :: rat) \<le> 10 powi 15" unfolding p15 using assms(2) by (rule of_int_le_iff [THEN iffD2])
    have "sig_round 10 k half_up (10 powi 15) = 10 powi 15" using digit_rounding.rd_power [OF r, of 15] by simp
    from digit_rounding.rd_le_fix [OF r le this] have "m \<le> 10 ^ 15"
      unfolding m p15 by (rule of_int_le_iff [THEN iffD1])
    moreover have "0 \<le> m" using digit_rounding.rd_nonneg [OF r, of "of_int n"] assms(1) m by simp
    ultimately have "b64 (of_int m) = of_int m" by (intro b64_int) simp
    then show ?thesis using Some k m by (simp add: shortest_def)
  qed (simp add: shortest_def)
qed simp

lemma shortest_le_int:
  assumes "x \<le> of_int n" "0 \<le> n" "n \<le> 10 ^ 15"
  shows "shortest x \<le> of_int n"
proof (cases "x = of_int n")
  case False
  then have x: "x < of_int n" using assms(1) by simp
  show ?thesis
  proof (cases "List.find (\<lambda>k. b64 (sig_round 10 k half_up x) = x) [1..<18]")
    case (Some k)
    then have k: "b64 (sig_round 10 k half_up x) = x" by (auto simp: find_Some_iff)
    have "b64 (of_int n) = of_int n" using assms by (intro b64_int) simp
    then have "\<not> of_int n \<le> sig_round 10 k half_up x"
      using dbl.sr.rd_mono [of "of_int n" "sig_round 10 k half_up x"] k x by auto
    then show ?thesis using Some by (simp add: shortest_def)
  qed (use assms in \<open>simp add: shortest_def\<close>)
qed (use shortest_int assms in simp)

section \<open>Printing, and a total order\<close>

text \<open>The number \<^verbatim>\<open>toFixed(n)\<close> prints: halves go away from zero.\<close>

definition to_fixed :: "nat \<Rightarrow> decimal \<Rightarrow> decimal" where
  "to_fixed n = xmap (\<lambda>x. sgn x * of_int (half_up (\<bar>x\<bar> * 10 ^ n)) / 10 ^ n)"

text \<open>
  The order by which lists are sorted: the usual one, with the non-number last.  JavaScript's
  sort by a difference of prices is this one on the finite prices of a book.
\<close>

instantiation xr :: linorder
begin

definition less_eq_xr :: "xr \<Rightarrow> xr \<Rightarrow> bool" where
  "less_eq_xr a b \<longleftrightarrow> b = NaN \<or> xle a b"

definition less_xr :: "xr \<Rightarrow> xr \<Rightarrow> bool" where
  "less_xr a b \<longleftrightarrow> a \<noteq> NaN \<and> (b = NaN \<or> xlt a b)"

instance
proof
  fix x y z :: xr
  show "(x < y) = (x \<le> y \<and> \<not> y \<le> x)"
    by (cases x; cases y) (auto simp: less_eq_xr_def less_xr_def)
  show "x \<le> x"
    by (cases x) (auto simp: less_eq_xr_def)
  show "x \<le> y \<Longrightarrow> y \<le> z \<Longrightarrow> x \<le> z"
    by (cases x; cases y; cases z) (auto simp: less_eq_xr_def)
  show "x \<le> y \<Longrightarrow> y \<le> x \<Longrightarrow> x = y"
    by (cases x; cases y) (auto simp: less_eq_xr_def)
  show "x \<le> y \<or> y \<le> x"
    by (cases x; cases y) (auto simp: less_eq_xr_def)
qed

end

lemma xr_le_Fin [simp]: "(Fin x \<le> Fin y) = (x \<le> y)"
  by (simp add: less_eq_xr_def)

end
