(* ===== verification/Prelude.thy ===== *)
theory Prelude
  imports Numerics "HOL-Library.AList"
begin

text \<open>
  What every component shares: JavaScript's insertion-ordered \<^verbatim>\<open>Map\<close> and
  \<^verbatim>\<open>Set\<close> as association lists and distinct lists, sums of decimals, the
  platforms, and the collections of facts the component proofs draw on.
\<close>

named_theorems frame_simps \<open>which fields an operation leaves alone\<close>
named_theorems state_defs \<open>definitions unfolded by the invariant proofs\<close>

section \<open>Sets with insertion order\<close>

definition set_add :: "'a \<Rightarrow> 'a list \<Rightarrow> 'a list" where
  "set_add x xs = (if x \<in> set xs then xs else xs @ [x])"

definition set_delete :: "'a \<Rightarrow> 'a list \<Rightarrow> 'a list" where
  "set_delete x xs = filter (\<lambda>y. y \<noteq> x) xs"

definition set_of_list :: "'a list \<Rightarrow> 'a list" where
  "set_of_list xs = foldl (\<lambda>acc x. set_add x acc) [] xs"

lemma set_set_add [simp]: "set (set_add x xs) = insert x (set xs)"
  by (auto simp: set_add_def)

lemma set_set_delete [simp]: "set (set_delete x xs) = set xs - {x}"
  by (auto simp: set_delete_def)

lemma distinct_set_add [simp]: "distinct (set_add x xs) \<longleftrightarrow> distinct xs"
  by (auto simp: set_add_def)

lemma distinct_set_delete [simp]: "distinct xs \<Longrightarrow> distinct (set_delete x xs)"
  by (simp add: set_delete_def)

lemma set_delete_absent [simp]: "x \<notin> set xs \<Longrightarrow> set_delete x xs = xs"
  by (auto simp: set_delete_def filter_id_conv)

lemma set_delete_add [simp]: "x \<notin> set xs \<Longrightarrow> set_delete x (set_add x xs) = xs"
  by (auto simp: set_add_def set_delete_def filter_id_conv)

lemma set_add_present [simp]: "x \<in> set xs \<Longrightarrow> set_add x xs = xs"
  by (simp add: set_add_def)

lemma foldl_set_add: "set (foldl (\<lambda>acc x. set_add x acc) acc xs) = set acc \<union> set xs
    \<and> (distinct acc \<longrightarrow> distinct (foldl (\<lambda>acc x. set_add x acc) acc xs))"
  by (induction xs arbitrary: acc) auto

lemma set_of_list_set [simp]: "set (set_of_list xs) = set xs"
  and set_of_list_distinct [simp]: "distinct (set_of_list xs)"
  using foldl_set_add [of "[]" xs] by (simp_all add: set_of_list_def)

section \<open>Maps with insertion order\<close>

text \<open>
  \<^verbatim>\<open>map.get\<close> is \<open>map_of\<close>, \<^verbatim>\<open>map.set\<close> is \<open>AList.update\<close> (an
  existing key keeps its place, a new one goes last), \<^verbatim>\<open>map.delete\<close> is
  \<open>AList.delete\<close>.
\<close>

abbreviation map_set :: "'k \<Rightarrow> 'v \<Rightarrow> ('k \<times> 'v) list \<Rightarrow> ('k \<times> 'v) list" where
  "map_set \<equiv> AList.update"

abbreviation map_delete :: "'k \<Rightarrow> ('k \<times> 'v) list \<Rightarrow> ('k \<times> 'v) list" where
  "map_delete \<equiv> AList.delete"

definition keys_of :: "('k \<times> 'v) list \<Rightarrow> 'k list" where
  "keys_of m = map fst m"

lemma map_set_fresh: "map_of m k = None \<Longrightarrow> map_set k v m = m @ [(k, v)]"
  by (induction m) (auto split: if_splits)

lemma map_delete_fresh: "map_of m k = None \<Longrightarrow> map_delete k m = m"
  by (induction m) (auto simp: AList.delete_eq split: if_splits)

lemma map_delete_append: "map_delete k (m @ n) = map_delete k m @ map_delete k n"
  by (simp add: AList.delete_eq)

lemma map_delete_set_fresh: "map_of m k = None \<Longrightarrow> map_delete k (map_set k v m) = m"
  by (simp add: map_set_fresh map_delete_append map_delete_fresh)

lemma distinct_map_set: "distinct (map fst m) \<Longrightarrow> distinct (map fst (map_set k v m))"
  by (rule distinct_update)

lemma distinct_map_delete: "distinct (map fst m) \<Longrightarrow> distinct (map fst (map_delete k m))"
  by (rule distinct_delete)

text \<open>A distinct map split at one of its keys.\<close>

lemma map_of_split:
  assumes "map_of m k = Some v" "distinct (map fst m)"
  obtains xs ys where "m = xs @ (k, v) # ys" "map_of xs k = None" "map_of ys k = None"
proof -
  from assms(1) have "(k, v) \<in> set m" by (rule map_of_SomeD)
  then obtain xs ys where m: "m = xs @ (k, v) # ys" by (meson split_list)
  with assms(2) have "map_of xs k = None" "map_of ys k = None"
    by (auto simp: map_of_eq_None_iff)
  with m that show ?thesis by blast
qed

lemma map_delete_split:
  "map_of xs k = None \<Longrightarrow> map_of ys k = None \<Longrightarrow> map_delete k (xs @ (k, v) # ys) = xs @ ys"
  using map_delete_fresh [of xs k] map_delete_fresh [of ys k]
  by (simp add: map_delete_append)

lemma map_set_split:
  "map_of xs k = None \<Longrightarrow> map_set k w (xs @ (k, v) # ys) = xs @ (k, w) # ys"
  by (induction xs) (auto split: if_splits)

section \<open>Sums of decimals\<close>

definition xsum :: "(rat \<Rightarrow> rat) \<Rightarrow> decimal list \<Rightarrow> decimal" where
  "xsum rd xs = foldl (xadd rd) (Fin 0) xs"

lemma xsum_Nil [simp]: "xsum rd [] = Fin 0"
  by (simp add: xsum_def)

lemma xsum_snoc: "xsum rd (xs @ [x]) = xadd rd (xsum rd xs) x"
  by (simp add: xsum_def)

text \<open>Sums of non-negative money whose total is in range are exact.\<close>

context decimal_rounding
begin

lemma foldl_xadd_exact:
  assumes "grid a" "0 \<le> a" "list_all grid xs" "list_all (\<lambda>x. 0 \<le> x) xs"
    "a + sum_list xs \<le> 10 ^ 12"
  shows "foldl (xadd rd) (Fin a) (map Fin xs) = Fin (a + sum_list xs)"
  using assms
proof (induction xs arbitrary: a)
  case (Cons x xs)
  have "0 \<le> sum_list xs" using Cons.prems(4) by (auto simp: list_all_iff intro: sum_list_nonneg)
  then have "\<bar>a + x\<bar> \<le> 10 ^ 12" using Cons.prems by simp
  then have "rd (a + x) = a + x" using Cons.prems by (intro rd_grid) auto
  then show ?case using Cons.IH [of "a + x"] Cons.prems by (simp add: add.assoc)
qed simp

lemma xsum_exact:
  assumes "list_all grid xs" "list_all (\<lambda>x. 0 \<le> x) xs" "sum_list xs \<le> 10 ^ 12"
  shows "xsum rd (map Fin xs) = Fin (sum_list xs)"
  using foldl_xadd_exact [of 0 xs] assms by (simp add: xsum_def)

lemma foldl_xadd_nonneg:
  assumes "0 \<le> a" "list_all (\<lambda>x. 0 \<le> x) xs"
  shows "\<exists>t. foldl (xadd rd) (Fin a) (map Fin xs) = Fin t \<and> 0 \<le> t"
  using assms by (induction xs arbitrary: a) auto

end

lemma list_all_is_fin: "list_all is_fin xs \<Longrightarrow> map (\<lambda>x. Fin (fin_val x)) xs = xs"
  by (induction xs) (auto elim: is_finE)

section \<open>Errors as values\<close>

fun and_then :: "'e + 'a \<Rightarrow> ('a \<Rightarrow> 'e + 'b) \<Rightarrow> 'e + 'b" where
  "and_then (Inl e) f = Inl e"
| "and_then (Inr a) f = f a"

lemma and_then_Inr: "and_then m f = Inr b \<longleftrightarrow> (\<exists>a. m = Inr a \<and> f a = Inr b)"
  by (cases m) auto

section \<open>Platforms\<close>

datatype platform = Kalshi | Polymarket

fun other_platform :: "platform \<Rightarrow> platform" where
  "other_platform Kalshi = Polymarket"
| "other_platform Polymarket = Kalshi"

text \<open>The values of the enumeration \<^verbatim>\<open>PlatformId\<close>.\<close>

fun platform_id :: "platform \<Rightarrow> string" where
  "platform_id Kalshi = ''kalshi''"
| "platform_id Polymarket = ''polymarket''"

text \<open>Milliseconds since the epoch, and a UTC day's first instant.\<close>

type_synonym timestamp = int

definition utc_midnight :: "timestamp \<Rightarrow> timestamp" where
  "utc_midnight t = t - t mod 86400000"

lemma utc_midnight_le [simp]: "utc_midnight t \<le> t"
  by (simp add: utc_midnight_def)

end
