(* ===== verification/Financial.thy ===== *)
theory Financial
  imports Prelude
begin

text \<open>
  The pure financial functions under \<^verbatim>\<open>src/common/utils\<close> and
  \<^verbatim>\<open>src/common/constants\<close>: edges and fees (\<^verbatim>\<open>FinancialMath\<close>), the order
  book walk (\<^verbatim>\<open>calculateVwapWithFillInfo\<close>), leg profit and capital, residual sizes
  of partially exited positions, and the take-profit threshold.  The lemmas bound the average
  fill price by the prices of the levels it touches, show the entry cost baseline is never
  positive, and that residual sizes are what the exits left.
\<close>

section \<open>FinancialMath\<close>

datatype fm_error =
    MustNotBeNaN string
  | MustNotBeInfinity string
  | PositionSizeZero

fun validateDecimalInput :: "decimal \<Rightarrow> string \<Rightarrow> fm_error + unit" where
  "validateDecimalInput NaN name = Inl (MustNotBeNaN name)"
| "validateDecimalInput (Fin _) name = Inr ()"
| "validateDecimalInput _ name = Inl (MustNotBeInfinity name)"

fun validateNumberInput :: "jsnum \<Rightarrow> string \<Rightarrow> fm_error + unit" where
  "validateNumberInput NaN name = Inl (MustNotBeNaN name)"
| "validateNumberInput (Fin _) name = Inr ()"
| "validateNumberInput _ name = Inl (MustNotBeInfinity name)"

record fee_schedule =
  takerFeePercent :: jsnum
  takerFeeForPrice :: "(jsnum \<Rightarrow> jsnum) option"

definition calculateGrossEdge :: "(rat \<Rightarrow> rat) \<Rightarrow> decimal \<Rightarrow> decimal \<Rightarrow> fm_error + decimal" where
  "calculateGrossEdge rd buyPrice sellPrice =
     and_then (validateDecimalInput buyPrice ''buyPrice'') (\<lambda>_.
     and_then (validateDecimalInput sellPrice ''sellPrice'') (\<lambda>_.
     Inr (xsub rd sellPrice buyPrice)))"

definition calculateTakerFeeRate :: "(rat \<Rightarrow> rat) \<Rightarrow> decimal \<Rightarrow> fee_schedule \<Rightarrow> decimal" where
  "calculateTakerFeeRate rd price feeSchedule =
     (case takerFeeForPrice feeSchedule of
        Some f \<Rightarrow> to_decimal (f (to_number price))
      | None \<Rightarrow> xdiv rd (to_decimal (takerFeePercent feeSchedule)) (Fin 100))"

definition calculateNetEdge ::
  "(rat \<Rightarrow> rat) \<Rightarrow> decimal \<Rightarrow> decimal \<Rightarrow> decimal \<Rightarrow> fee_schedule \<Rightarrow> fee_schedule \<Rightarrow> decimal \<Rightarrow> decimal
     \<Rightarrow> fm_error + decimal" where
  "calculateNetEdge rd grossEdge buyPrice sellPrice buyFee sellFee gasEstimateUsd positionSizeUsd =
     and_then (validateDecimalInput grossEdge ''grossEdge'') (\<lambda>_.
     and_then (validateDecimalInput buyPrice ''buyPrice'') (\<lambda>_.
     and_then (validateDecimalInput sellPrice ''sellPrice'') (\<lambda>_.
     and_then (validateDecimalInput gasEstimateUsd ''gasEstimateUsd'') (\<lambda>_.
     and_then (validateDecimalInput positionSizeUsd ''positionSizeUsd'') (\<lambda>_.
     and_then (validateNumberInput (takerFeePercent buyFee) ''buyFeeSchedule.takerFeePercent'') (\<lambda>_.
     and_then (validateNumberInput (takerFeePercent sellFee) ''sellFeeSchedule.takerFeePercent'') (\<lambda>_.
     if is_zero positionSizeUsd then Inl PositionSizeZero
     else
       let buyFeeRate = calculateTakerFeeRate rd buyPrice buyFee;
           sellFeeRate = calculateTakerFeeRate rd sellPrice sellFee;
           buyFeeCost = xmul rd buyPrice buyFeeRate;
           sellFeeCost = xmul rd sellPrice sellFeeRate;
           gasFraction = xdiv rd gasEstimateUsd positionSizeUsd
       in Inr (xsub rd (xsub rd (xsub rd grossEdge buyFeeCost) sellFeeCost) gasFraction))))))))"

definition isAboveThreshold :: "decimal \<Rightarrow> decimal \<Rightarrow> fm_error + bool" where
  "isAboveThreshold netEdge threshold =
     and_then (validateDecimalInput netEdge ''netEdge'') (\<lambda>_.
     and_then (validateDecimalInput threshold ''threshold'') (\<lambda>_.
     Inr (xge netEdge threshold)))"

record entry_cost_params =
  kalshiEntryPrice :: decimal
  polymarketEntryPrice :: decimal
  kalshiSide :: string
  polymarketSide :: string
  kalshiSize :: decimal
  polymarketSize :: decimal
  entryClosePriceKalshi :: "decimal option"
  entryClosePricePolymarket :: "decimal option"
  entryKalshiFeeRate :: "decimal option"
  entryPolymarketFeeRate :: "decimal option"

definition entry_spread :: "(rat \<Rightarrow> rat) \<Rightarrow> string \<Rightarrow> decimal \<Rightarrow> decimal \<Rightarrow> decimal" where
  "entry_spread rd side entryPrice closePrice =
     (if side = ''buy'' then xmax (Fin 0) (xsub rd entryPrice closePrice)
      else xmax (Fin 0) (xsub rd closePrice entryPrice))"

definition computeEntryCostBaseline ::
  "(rat \<Rightarrow> rat) \<Rightarrow> 'a entry_cost_params_scheme \<Rightarrow> decimal" where
  "computeEntryCostBaseline rd ps =
     (case (entryClosePriceKalshi ps, entryClosePricePolymarket ps,
            entryKalshiFeeRate ps, entryPolymarketFeeRate ps) of
        (Some closeK, Some closeP, Some feeK, Some feeP) \<Rightarrow>
          let kalshiSpread = entry_spread rd (kalshiSide ps) (kalshiEntryPrice ps) closeK;
              polymarketSpread = entry_spread rd (polymarketSide ps) (polymarketEntryPrice ps) closeP;
              spreadCost = xadd rd (xmul rd kalshiSpread (kalshiSize ps))
                                   (xmul rd polymarketSpread (polymarketSize ps));
              entryExitFees =
                xadd rd (xmul rd (xmul rd closeK (kalshiSize ps)) feeK)
                        (xmul rd (xmul rd closeP (polymarketSize ps)) feeP)
          in xneg (xadd rd spreadCost entryExitFees)
      | _ \<Rightarrow> Fin 0)"

section \<open>Walking the order book\<close>

record price_level =
  price :: jsnum
  quantity :: jsnum

record order_book =
  bids :: "price_level list"
  asks :: "price_level list"

record vwap_fill_result =
  vwap :: decimal
  filledQty :: decimal
  totalQtyAvailable :: decimal

fun vwap_walk ::
  "(rat \<Rightarrow> rat) \<Rightarrow> price_level list \<Rightarrow> decimal \<Rightarrow> decimal \<Rightarrow> decimal \<times> decimal" where
  "vwap_walk rd [] remainingQty totalCost = (remainingQty, totalCost)"
| "vwap_walk rd (level # levels) remainingQty totalCost =
     (let levelQty = to_decimal (quantity level);
          levelPrice = to_decimal (price level);
          fillAtLevel = xmin remainingQty levelQty;
          totalCost' = xadd rd totalCost (xmul rd fillAtLevel levelPrice);
          remainingQty' = xsub rd remainingQty fillAtLevel
      in if xle remainingQty' (Fin 0) then (remainingQty', totalCost')
         else vwap_walk rd levels remainingQty' totalCost')"

definition calculateVwapWithFillInfo ::
  "(rat \<Rightarrow> rat) \<Rightarrow> order_book \<Rightarrow> string \<Rightarrow> decimal \<Rightarrow> vwap_fill_result option" where
  "calculateVwapWithFillInfo rd orderBook closeSide positionSize =
     (if xle positionSize (Fin 0) then None
      else
        let levels = (if closeSide = ''buy'' then bids orderBook else asks orderBook)
        in if levels = [] then None
           else
             let total = xsum rd (map (\<lambda>l. to_decimal (quantity l)) levels);
                 (remainingQty, totalCost) = vwap_walk rd levels positionSize (Fin 0);
                 filled = xsub rd positionSize remainingQty
             in if is_zero filled then None
                else Some \<lparr>vwap = xdiv rd totalCost filled, filledQty = filled,
                           totalQtyAvailable = total\<rparr>)"

definition calculateVwapClosePrice ::
  "(rat \<Rightarrow> rat) \<Rightarrow> order_book \<Rightarrow> string \<Rightarrow> decimal \<Rightarrow> decimal option" where
  "calculateVwapClosePrice rd orderBook closeSide positionSize =
     map_option vwap (calculateVwapWithFillInfo rd orderBook closeSide positionSize)"

section \<open>Leg profit, leg capital, residual size\<close>

definition calculateLegPnl ::
  "(rat \<Rightarrow> rat) \<Rightarrow> string \<Rightarrow> decimal \<Rightarrow> decimal \<Rightarrow> decimal \<Rightarrow> decimal" where
  "calculateLegPnl rd side entryPrice closePrice sz =
     (if side = ''buy'' then xmul rd (xsub rd closePrice entryPrice) sz
      else xmul rd (xsub rd entryPrice closePrice) sz)"

definition calculateLegCapital ::
  "(rat \<Rightarrow> rat) \<Rightarrow> string \<Rightarrow> decimal \<Rightarrow> decimal \<Rightarrow> decimal" where
  "calculateLegCapital rd side legPrice sz =
     (let effectivePrice = (if side = ''sell'' then xsub rd (Fin 1) legPrice else legPrice)
      in xmul rd sz effectivePrice)"

record residual_position =
  kalshiOrderId :: "string option"
  polymarketOrderId :: "string option"
  kalshiOrder :: "decimal option option"
  polymarketOrder :: "decimal option option"

record pair_order =
  orderId :: string
  order_platform :: string
  fillSize :: "decimal option"

definition entry_fill :: "decimal option option \<Rightarrow> decimal" where
  "entry_fill order = (case order of Some (Some sz) \<Rightarrow> sz | _ \<Rightarrow> Fin 0)"

definition truthy_id :: "string option \<Rightarrow> string list" where
  "truthy_id i = (case i of Some s \<Rightarrow> (if s = [] then [] else [s]) | None \<Rightarrow> [])"

definition exit_sums :: "(rat \<Rightarrow> rat) \<Rightarrow> pair_order list \<Rightarrow> decimal \<times> decimal" where
  "exit_sums rd exitOrders =
     foldl (\<lambda>(k, p) order.
       case fillSize order of
         None \<Rightarrow> (k, p)
       | Some s \<Rightarrow>
           if order_platform order = ''KALSHI'' then (xadd rd k s, p)
           else if order_platform order = ''POLYMARKET'' then (k, xadd rd p s)
           else (k, p)) (Fin 0, Fin 0) exitOrders"

record residual_size =
  residual_kalshi :: decimal
  residual_polymarket :: decimal
  floored :: bool

definition getResidualSize ::
  "(rat \<Rightarrow> rat) \<Rightarrow> residual_position \<Rightarrow> pair_order list \<Rightarrow> residual_size" where
  "getResidualSize rd position allPairOrders =
     (let kalshiEntryFill = entry_fill (kalshiOrder position);
          polymarketEntryFill = entry_fill (polymarketOrder position);
          entryOrderIds = truthy_id (kalshiOrderId position) @ truthy_id (polymarketOrderId position);
          exitOrders = filter (\<lambda>o'. orderId o' \<notin> set entryOrderIds) allPairOrders;
          (kalshiExitSum, polymarketExitSum) = exit_sums rd exitOrders;
          kalshiRaw = xsub rd kalshiEntryFill kalshiExitSum;
          polymarketRaw = xsub rd polymarketEntryFill polymarketExitSum
      in \<lparr>residual_kalshi = xmax kalshiRaw (Fin 0),
          residual_polymarket = xmax polymarketRaw (Fin 0),
          floored = is_negative kalshiRaw \<or> is_negative polymarketRaw\<rparr>)"

section \<open>Exit thresholds\<close>

definition SL_MULTIPLIER :: decimal where "SL_MULTIPLIER = Fin (- 2)"
definition TP_RATIO :: decimal where "TP_RATIO = Fin (4/5)"

definition computeTakeProfitThreshold :: "(rat \<Rightarrow> rat) \<Rightarrow> decimal \<Rightarrow> decimal \<Rightarrow> decimal" where
  "computeTakeProfitThreshold rd entryCostBaseline scaledInitialEdge =
     (let journeyTp = xadd rd entryCostBaseline
            (xmul rd (xsub rd scaledInitialEdge entryCostBaseline) TP_RATIO)
      in if xgt journeyTp (Fin 0) then journeyTp
         else xmax (Fin 0) (xmul rd scaledInitialEdge TP_RATIO))"

definition clamp01 :: "decimal \<Rightarrow> decimal" where
  "clamp01 raw = xmin (Fin 1) (xmax (Fin 0) raw)"

definition calculateExitProximity ::
  "(rat \<Rightarrow> rat) \<Rightarrow> decimal \<Rightarrow> decimal \<Rightarrow> decimal \<Rightarrow> decimal" where
  "calculateExitProximity rd currentPnl baseline target =
     (let denom = xsub rd target baseline
      in if is_zero denom then Fin 0
         else clamp01 (xdiv rd (xsub rd currentPnl baseline) denom))"

section \<open>The fill found by walking the book\<close>

text \<open>
  Prices and quantities with at most four decimals, so that one level's cost has at most
  eight and the running totals are exact.
\<close>

definition grid4 :: "rat \<Rightarrow> bool" where
  "grid4 x \<longleftrightarrow> of_int \<lfloor>x * 10 ^ 4\<rfloor> = x * 10 ^ 4"

lemma grid4_iff: "grid4 x \<longleftrightarrow> (\<exists>n::int. x * 10 ^ 4 = of_int n)"
  unfolding grid4_def by (metis floor_of_int)

lemma grid4_diff: "grid4 x \<Longrightarrow> grid4 y \<Longrightarrow> grid4 (x - y)"
  unfolding grid4_iff by (metis left_diff_distrib of_int_diff)

lemma grid4_mult_grid:
  assumes "grid4 x" "grid4 y"
  shows "grid (x * y)"
proof -
  obtain m n :: int where "x * 10 ^ 4 = of_int m" "y * 10 ^ 4 = of_int n"
    using assms unfolding grid4_iff by blast
  moreover have "x * y * 10 ^ 8 = (x * 10 ^ 4) * (y * 10 ^ 4)" by simp
  ultimately have "x * y * 10 ^ 8 = of_int (m * n)" by (simp only: of_int_mult)
  then show ?thesis unfolding grid_iff by blast
qed

lemma grid4_1: "grid4 1"
  by (simp add: grid4_def)

lemma grid4_grid: "grid4 x \<Longrightarrow> grid x"
  using grid4_mult_grid [of x 1] grid4_1 by simp

definition level_within :: "rat \<Rightarrow> rat \<Rightarrow> price_level \<Rightarrow> bool" where
  "level_within lo hi l =
     (case (to_decimal (quantity l), to_decimal (price l)) of
        (Fin q, Fin p) \<Rightarrow> 0 \<le> q \<and> grid4 q \<and> grid4 p \<and> lo \<le> p \<and> p \<le> hi
      | _ \<Rightarrow> False)"

lemma level_withinE:
  assumes "level_within lo hi l"
  obtains q p where "to_decimal (quantity l) = Fin q" "to_decimal (price l) = Fin p"
    "0 \<le> q" "grid4 q" "grid4 p" "lo \<le> p" "p \<le> hi"
  using assms by (auto simp: level_within_def split: xr.splits)

definition level_qty :: "price_level \<Rightarrow> rat" where
  "level_qty l = fin_val (to_decimal (quantity l))"

context decimal_rounding
begin

lemma walk_step:
  assumes q: "0 \<le> q" "grid4 q" and p: "grid4 p" "lo \<le> p" "p \<le> hi" "0 \<le> lo" "hi \<le> 1"
    and r: "0 \<le> r" "grid4 r" and f: "0 \<le> f" "f + r \<le> 10 ^ 12"
    and c: "grid c" "lo * f \<le> c" "c \<le> hi * f"
  shows "xadd rd (Fin c) (xmul rd (xmin (Fin r) (Fin q)) (Fin p)) = Fin (c + min r q * p)"
    and "xsub rd (Fin r) (xmin (Fin r) (Fin q)) = Fin (r - min r q)"
    and "grid (c + min r q * p)" "grid4 (r - min r q)"
    and "lo * (f + min r q) \<le> c + min r q * p" "c + min r q * p \<le> hi * (f + min r q)"
proof -
  let ?m = "min r q"
  have m: "0 \<le> ?m" "?m \<le> r" "grid4 ?m" using q r by (auto simp: min_def)
  have gm: "grid (?m * p)" using m(3) p(1) by (rule grid4_mult_grid)
  show lower: "lo * (f + ?m) \<le> c + ?m * p"
    using c(2) mult_left_mono [OF p(2) m(1)] by (simp add: algebra_simps)
  show upper: "c + ?m * p \<le> hi * (f + ?m)"
    using c(3) mult_left_mono [OF p(3) m(1)] by (simp add: algebra_simps)
  show g: "grid (c + ?m * p)" using c(1) gm by simp
  show g4: "grid4 (r - ?m)" using r(2) m(3) by (rule grid4_diff)
  have "0 \<le> p" using p by simp
  moreover have "p \<le> 1" using p by simp
  ultimately have mp: "0 \<le> ?m * p" "?m * p \<le> ?m"
    using mult_nonneg_nonneg [OF m(1), of p] mult_left_le [of p ?m] m(1) by blast+
  have c0: "0 \<le> c" using c(2) p(4) f(1) by (meson mult_nonneg_nonneg order_trans)
  have "hi * (f + ?m) \<le> 1 * (f + ?m)" using p(5) f m by (intro mult_right_mono) auto
  then have "c + ?m * p \<le> 10 ^ 12" using upper f m by simp
  then have "rd (c + ?m * p) = c + ?m * p" using g c0 mp by (intro rd_grid) auto
  moreover have "rd (?m * p) = ?m * p" using gm mp m f by (intro rd_grid) auto
  ultimately show "xadd rd (Fin c) (xmul rd (xmin (Fin r) (Fin q)) (Fin p)) = Fin (c + ?m * p)"
    by simp
  have "rd (r - ?m) = r - ?m" using g4 m f by (intro rd_grid grid4_grid) auto
  then show "xsub rd (Fin r) (xmin (Fin r) (Fin q)) = Fin (r - ?m)" by simp
qed

text \<open>The walk fills the smaller of the wanted and the available quantity, at a cost between
  the two price bounds.\<close>

lemma vwap_walk_fill:
  assumes "list_all (level_within lo hi) ls" "0 \<le> lo" "hi \<le> 1"
    and "0 \<le> r" "grid4 r" "0 \<le> f" "f + r \<le> 10 ^ 12"
    and "grid c" "lo * f \<le> c" "c \<le> hi * f"
  shows "\<exists>r' c'. vwap_walk rd ls (Fin r) (Fin c) = (Fin r', Fin c')
    \<and> r - r' = min r (sum_list (map level_qty ls))
    \<and> lo * (f + (r - r')) \<le> c' \<and> c' \<le> hi * (f + (r - r')) \<and> grid4 r'"
  using assms
proof (induction ls arbitrary: r c f)
  case Nil
  then show ?case by simp
next
  case (Cons l ls)
  from Cons.prems(1) obtain q p where l: "to_decimal (quantity l) = Fin q" "to_decimal (price l) = Fin p"
    and q: "0 \<le> q" "grid4 q" and p: "grid4 p" "lo \<le> p" "p \<le> hi" and ls: "list_all (level_within lo hi) ls"
    by (auto elim: level_withinE)
  have lq: "level_qty l = q" using l by (simp add: level_qty_def)
  have rest: "0 \<le> sum_list (map level_qty ls)"
    using ls by (intro sum_list_nonneg)
      (auto simp: list_all_iff level_qty_def elim!: level_withinE)
  let ?m = "min r q"
  have step: "xadd rd (Fin c) (xmul rd (xmin (Fin r) (Fin q)) (Fin p)) = Fin (c + ?m * p)"
    "xsub rd (Fin r) (xmin (Fin r) (Fin q)) = Fin (r - ?m)"
    "grid (c + ?m * p)" "grid4 (r - ?m)"
    "lo * (f + ?m) \<le> c + ?m * p" "c + ?m * p \<le> hi * (f + ?m)"
    using walk_step [OF q p Cons.prems(2-10)] by blast+
  have unfold: "vwap_walk rd (l # ls) (Fin r) (Fin c) =
      (if r - ?m \<le> 0 then (Fin (r - ?m), Fin (c + ?m * p))
       else vwap_walk rd ls (Fin (r - ?m)) (Fin (c + ?m * p)))"
    unfolding vwap_walk.simps Let_def l step by simp
  show ?case
  proof (cases "r - ?m \<le> 0")
    case True
    then have "?m = r" by (simp add: min_def split: if_splits)
    with True show ?thesis
      unfolding unfold using step rest lq Cons.prems(4) by (auto simp: min_def split: if_splits)
  next
    case False
    then have mq: "?m = q" and qr: "q < r" by (auto simp: min_def split: if_splits)
    have "\<exists>r' c'. vwap_walk rd ls (Fin (r - ?m)) (Fin (c + ?m * p)) = (Fin r', Fin c')
        \<and> (r - ?m) - r' = min (r - ?m) (sum_list (map level_qty ls))
        \<and> lo * ((f + ?m) + (r - ?m - r')) \<le> c' \<and> c' \<le> hi * ((f + ?m) + (r - ?m - r')) \<and> grid4 r'"
      using False q step Cons.prems(2,3,6,7) by (intro Cons.IH ls) (auto simp: mq)
    then obtain r' c' where w: "vwap_walk rd ls (Fin (r - q)) (Fin (c + q * p)) = (Fin r', Fin c')"
      "(r - q) - r' = min (r - q) (sum_list (map level_qty ls))"
      "lo * (f + (r - r')) \<le> c'" "c' \<le> hi * (f + (r - r'))" "grid4 r'"
      unfolding mq by (auto simp: algebra_simps)
    then have "r - r' = min r (sum_list (map level_qty (l # ls)))"
      using lq by (auto simp: min_def split: if_splits)
    with w False show ?thesis unfolding unfold mq by auto
  qed
qed

end

definition close_levels :: "order_book \<Rightarrow> string \<Rightarrow> price_level list" where
  "close_levels ob closeSide = (if closeSide = ''buy'' then bids ob else asks ob)"

text \<open>
  walking the book fills the smaller of the position and the whole side, reports no fill
  exactly when the side holds nothing, and its average price lies between any two bounds of
  the prices on that side.
\<close>
theorem vwap_fill_bounds:
  assumes rd: "decimal_rounding rd"
    and levels: "list_all (level_within lo hi) (close_levels ob closeSide)"
    and bounds: "0 \<le> lo" "hi \<le> 1" "money lo" "money hi"
    and s: "0 < s" "grid4 s" "s \<le> 10 ^ 12"
  shows "case calculateVwapWithFillInfo rd ob closeSide (Fin s) of
      None \<Rightarrow> sum_list (map level_qty (close_levels ob closeSide)) = 0
    | Some r \<Rightarrow> filledQty r = Fin (min s (sum_list (map level_qty (close_levels ob closeSide))))
        \<and> xle (Fin lo) (vwap r) \<and> xle (vwap r) (Fin hi)"
proof -
  let ?ls = "close_levels ob closeSide" and ?t = "sum_list (map level_qty (close_levels ob closeSide))"
  have t0: "0 \<le> ?t" using levels
    by (intro sum_list_nonneg) (auto simp: list_all_iff level_qty_def elim!: level_withinE)
  have "\<exists>r' c'. vwap_walk rd ?ls (Fin s) (Fin 0) = (Fin r', Fin c')
      \<and> s - r' = min s ?t \<and> lo * (0 + (s - r')) \<le> c' \<and> c' \<le> hi * (0 + (s - r')) \<and> grid4 r'"
    using s bounds by (intro decimal_rounding.vwap_walk_fill [OF rd levels]) auto
  then obtain r' c' where w: "vwap_walk rd ?ls (Fin s) (Fin 0) = (Fin r', Fin c')"
    and f: "s - r' = min s ?t" and c: "lo * (s - r') \<le> c'" "c' \<le> hi * (s - r')" and g: "grid4 r'"
    by auto
  have "rd (s - r') = s - r'"
    using s g f t0 by (intro decimal_rounding.rd_grid [OF rd] grid4_grid grid4_diff) auto
  then have fill: "xsub rd (Fin s) (Fin r') = Fin (min s ?t)" using f by simp
  have unfold: "calculateVwapWithFillInfo rd ob closeSide (Fin s) =
      (if ?ls = [] \<or> min s ?t = 0 then None
       else Some \<lparr>vwap = xdiv rd (Fin c') (Fin (min s ?t)), filledQty = Fin (min s ?t),
              totalQtyAvailable = xsum rd (map (\<lambda>l. to_decimal (quantity l)) ?ls)\<rparr>)"
    using s w fill by (simp add: calculateVwapWithFillInfo_def close_levels_def [symmetric] Let_def)
  show ?thesis
  proof (cases "?ls = [] \<or> min s ?t = 0")
    case True
    then show ?thesis unfolding unfold using s by (auto simp: min_def split: if_splits)
  next
    case False
    then have pos: "0 < min s ?t" using s t0 by auto
    have "lo \<le> c' / min s ?t" "c' / min s ?t \<le> hi"
      using c pos f by (simp_all add: pos_le_divide_eq pos_divide_le_eq)
    then have "lo \<le> rd (c' / min s ?t)" "rd (c' / min s ?t) \<le> hi"
      using bounds decimal_rounding.rd_money [OF rd] digit_rounding.fix_le_rd digit_rounding.rd_le_fix
        decimal_rounding.axioms [OF rd] by blast+
    moreover have "min s ?t \<noteq> 0" using pos by linarith
    ultimately show ?thesis unfolding unfold using False by simp
  qed
qed

definition sample_book :: order_book where
  "sample_book = \<lparr>bids = [\<lparr>price = Fin (1/2), quantity = Fin 10\<rparr>,
     \<lparr>price = Fin (1/4), quantity = Fin 10\<rparr>], asks = []\<rparr>"

theorem vwap_fill_bounds_witness:
  "case calculateVwapWithFillInfo dec20 sample_book ''buy'' (Fin 15) of
     None \<Rightarrow> sum_list (map level_qty (close_levels sample_book ''buy'')) = 0
   | Some r \<Rightarrow> filledQty r = Fin (min 15 (sum_list (map level_qty (close_levels sample_book ''buy''))))
       \<and> xle (Fin (1/4)) (vwap r) \<and> xle (vwap r) (Fin (1/2))"
proof (rule vwap_fill_bounds)
  show "decimal_rounding dec20" by (rule d20.decimal_rounding_axioms)
  show "list_all (level_within (1/4) (1/2)) (close_levels sample_book ''buy'')" by code_simp
  show "money (1/4)" "money (1/2)" "grid4 15" by code_simp+
qed simp_all

section \<open>Edges, baselines, residuals\<close>

definition nonneg_fin :: "xr \<Rightarrow> bool" where
  "nonneg_fin a = (case a of Fin x \<Rightarrow> 0 \<le> x | _ \<Rightarrow> False)"

lemma nonneg_fin_Fin [simp]: "nonneg_fin (Fin x) \<longleftrightarrow> 0 \<le> x"
  by (simp add: nonneg_fin_def)

lemma nonneg_finE:
  assumes "nonneg_fin a"
  obtains x where "a = Fin x" "0 \<le> x"
  using assms by (auto simp: nonneg_fin_def split: xr.splits)

context decimal_rounding
begin

lemma nonneg_fin_add: "nonneg_fin a \<Longrightarrow> nonneg_fin b \<Longrightarrow> nonneg_fin (xadd rd a b)"
  by (auto elim!: nonneg_finE)

lemma nonneg_fin_mul: "nonneg_fin a \<Longrightarrow> nonneg_fin b \<Longrightarrow> nonneg_fin (xmul rd a b)"
  by (auto elim!: nonneg_finE)

lemma nonneg_fin_spread: "is_fin a \<Longrightarrow> is_fin b \<Longrightarrow> nonneg_fin (entry_spread rd side a b)"
  by (auto simp: entry_spread_def elim!: is_finE)

lemmas nonneg_fin_intros = nonneg_fin_add nonneg_fin_mul nonneg_fin_spread

end

lemma xneg_nonneg_fin: "nonneg_fin a \<Longrightarrow> \<exists>b. xneg a = Fin b \<and> b \<le> 0"
  by (auto elim: nonneg_finE)

lemma nonneg_fin_is_fin: "nonneg_fin a \<Longrightarrow> is_fin a"
  by (auto elim: nonneg_finE)

text \<open>
  the entry cost baseline (spread crossed plus exit fees at entry) is never positive,
  whatever the sides and whether or not the entry close prices were recorded.
\<close>
theorem entry_cost_baseline_nonpositive:
  assumes rd: "decimal_rounding rd"
    and prices: "is_fin (kalshiEntryPrice ps)" "is_fin (polymarketEntryPrice ps)"
    and sizes: "nonneg_fin (kalshiSize ps)" "nonneg_fin (polymarketSize ps)"
    and closes: "pred_option nonneg_fin (entryClosePriceKalshi ps)"
      "pred_option nonneg_fin (entryClosePricePolymarket ps)"
    and fees: "pred_option nonneg_fin (entryKalshiFeeRate ps)"
      "pred_option nonneg_fin (entryPolymarketFeeRate ps)"
  shows "\<exists>b. computeEntryCostBaseline rd ps = Fin b \<and> b \<le> 0"
  using closes fees prices sizes unfolding computeEntryCostBaseline_def Let_def
  by (auto split: option.splits
      intro!: xneg_nonneg_fin decimal_rounding.nonneg_fin_intros [OF rd] nonneg_fin_is_fin)

theorem entry_cost_baseline_nonpositive_witness:
  "\<exists>b. computeEntryCostBaseline dec20
      \<lparr>kalshiEntryPrice = Fin (45/100), polymarketEntryPrice = Fin (1/2), kalshiSide = ''buy'',
       polymarketSide = ''sell'', kalshiSize = Fin 100, polymarketSize = Fin 100,
       entryClosePriceKalshi = Some (Fin (44/100)), entryClosePricePolymarket = Some (Fin (52/100)),
       entryKalshiFeeRate = Some (Fin (2/100)), entryPolymarketFeeRate = Some (Fin (2/100))\<rparr> = Fin b
      \<and> b \<le> 0"
  by (rule entry_cost_baseline_nonpositive [OF d20.decimal_rounding_axioms]) simp_all

lemma validateDecimalInput_Inr [simp]: "validateDecimalInput d name = Inr u \<longleftrightarrow> is_fin d"
  by (cases d) auto

lemma validateNumberInput_Inr [simp]: "validateNumberInput d name = Inr u \<longleftrightarrow> is_fin d"
  by (cases d) auto

text \<open>
  the net edge is computed exactly when every price, the gas estimate, the position size
  and both fee percentages are finite and the size is not zero; on every other input one of
  the documented errors is thrown.
\<close>
theorem net_edge_defined_iff:
  "(\<exists>e. calculateNetEdge rd gross buy sell buyFee sellFee gas sz = Inr e) \<longleftrightarrow>
     is_fin gross \<and> is_fin buy \<and> is_fin sell \<and> is_fin gas \<and> is_fin sz
     \<and> is_fin (takerFeePercent buyFee) \<and> is_fin (takerFeePercent sellFee) \<and> \<not> is_zero sz"
  unfolding calculateNetEdge_def Let_def by (auto simp: and_then_Inr)

text \<open>
  fees and gas only ever lower the edge: with non-negative prices, fee rates and gas the
  net edge is at most the gross edge (a gross edge the decimals can represent).
\<close>
theorem net_edge_le_gross_edge:
  assumes rd: "decimal_rounding rd" and g: "rd g = g"
    and pos: "0 \<le> b" "0 \<le> s" "0 \<le> gas" "0 < sz"
    and pct: "is_fin (takerFeePercent buyFee)" "is_fin (takerFeePercent sellFee)"
    and fees: "nonneg_fin (calculateTakerFeeRate rd (Fin b) buyFee)"
      "nonneg_fin (calculateTakerFeeRate rd (Fin s) sellFee)"
  shows "\<exists>n. calculateNetEdge rd (Fin g) (Fin b) (Fin s) buyFee sellFee (Fin gas) (Fin sz) = Inr (Fin n)
    \<and> n \<le> g"
proof -
  note dr = decimal_rounding.axioms [OF rd]
  obtain fb fs where f: "calculateTakerFeeRate rd (Fin b) buyFee = Fin fb" "0 \<le> fb"
    "calculateTakerFeeRate rd (Fin s) sellFee = Fin fs" "0 \<le> fs"
    using fees by (elim nonneg_finE)
  have "0 \<le> rd (b * fb)" "0 \<le> rd (s * fs)" "0 \<le> rd (gas / sz)"
    using pos f digit_rounding.rd_nonneg [OF dr] by simp_all
  then have "rd (rd (rd (g - rd (b * fb)) - rd (s * fs)) - rd (gas / sz)) \<le> g"
    using g by (intro digit_rounding.rd_sub_le [OF dr] order_refl)
  then show ?thesis
    using pos pct f by (auto simp: calculateNetEdge_def Let_def elim!: is_finE)
qed

definition flat_fee :: "rat \<Rightarrow> fee_schedule" where
  "flat_fee pct = \<lparr>takerFeePercent = Fin pct, takerFeeForPrice = None\<rparr>"

theorem net_edge_le_gross_edge_witness:
  "\<exists>n. calculateNetEdge dec20 (Fin (1/20)) (Fin (9/20)) (Fin (1/2)) (flat_fee 2) (flat_fee 2)
      (Fin (3/10)) (Fin 300) = Inr (Fin n) \<and> n \<le> 1/20"
proof (rule net_edge_le_gross_edge [OF d20.decimal_rounding_axioms])
  show "dec20 (1/20) = 1/20" by code_simp
  show "nonneg_fin (calculateTakerFeeRate dec20 (Fin (9/20)) (flat_fee 2))"
    "nonneg_fin (calculateTakerFeeRate dec20 (Fin (1/2)) (flat_fee 2))" by code_simp+
qed (simp_all add: flat_fee_def)

text \<open>The exit fills of one platform, summed exactly.\<close>

definition fill_val :: "pair_order \<Rightarrow> rat" where
  "fill_val o' = (case fillSize o' of Some (Fin x) \<Rightarrow> x | _ \<Rightarrow> 0)"

definition exit_fills :: "string \<Rightarrow> pair_order list \<Rightarrow> rat" where
  "exit_fills pl os = sum_list (map fill_val (filter (\<lambda>o'. order_platform o' = pl) os))"

definition exit_orders :: "residual_position \<Rightarrow> pair_order list \<Rightarrow> pair_order list" where
  "exit_orders pos os = filter (\<lambda>o'. orderId o' \<notin>
     set (truthy_id (kalshiOrderId pos) @ truthy_id (polymarketOrderId pos))) os"

definition money_fill :: "decimal \<Rightarrow> bool" where
  "money_fill a = (case a of Fin x \<Rightarrow> 0 \<le> x \<and> money x | _ \<Rightarrow> False)"

lemma money_fillE:
  assumes "money_fill a"
  obtains x where "a = Fin x" "0 \<le> x" "grid x" "x \<le> 10 ^ 12"
  using assms by (auto simp: money_fill_def money_iff split: xr.splits)

lemma exit_fills_Nil [simp]: "exit_fills pl [] = 0"
  by (simp add: exit_fills_def)

lemma exit_fills_Cons: "exit_fills pl (o' # os) =
    (if order_platform o' = pl then fill_val o' else 0) + exit_fills pl os"
  by (simp add: exit_fills_def)

lemma fill_val_nonneg: "pred_option money_fill (fillSize o') \<Longrightarrow> 0 \<le> fill_val o'"
  by (auto simp: fill_val_def split: option.splits xr.splits elim: money_fillE)

lemma exit_fills_nonneg:
  "list_all (\<lambda>o'. pred_option money_fill (fillSize o')) os \<Longrightarrow> 0 \<le> exit_fills pl os"
  by (induction os) (auto simp: exit_fills_Cons fill_val_nonneg)

lemma exit_fills_grid:
  "list_all (\<lambda>o'. pred_option money_fill (fillSize o')) os \<Longrightarrow> grid (exit_fills pl os)"
  by (induction os)
    (auto simp: exit_fills_Cons fill_val_def split: option.splits xr.splits elim: money_fillE
      intro!: grid_add)

context decimal_rounding
begin

lemma exit_sums_exact_from:
  assumes "list_all (\<lambda>o'. pred_option money_fill (fillSize o')) os"
    and "grid k" "0 \<le> k" "grid p" "0 \<le> p"
    and "k + exit_fills ''KALSHI'' os \<le> 10 ^ 12" "p + exit_fills ''POLYMARKET'' os \<le> 10 ^ 12"
  shows "foldl (\<lambda>(k, p) order.
       case fillSize order of
         None \<Rightarrow> (k, p)
       | Some s \<Rightarrow>
           if order_platform order = ''KALSHI'' then (xadd rd k s, p)
           else if order_platform order = ''POLYMARKET'' then (k, xadd rd p s)
           else (k, p)) (Fin k, Fin p) os
     = (Fin (k + exit_fills ''KALSHI'' os), Fin (p + exit_fills ''POLYMARKET'' os))"
  using assms
proof (induction os arbitrary: k p)
  case (Cons o' os)
  have rest: "0 \<le> exit_fills ''KALSHI'' os" "0 \<le> exit_fills ''POLYMARKET'' os"
    using Cons.prems(1) by (simp_all add: exit_fills_nonneg)
  show ?case
  proof (cases "fillSize o'")
    case None
    then have "fill_val o' = 0" by (simp add: fill_val_def)
    then have "exit_fills pl (o' # os) = exit_fills pl os" for pl
      by (simp add: exit_fills_Cons)
    then show ?thesis using None Cons.IH [of k p] Cons.prems by simp
  next
    case (Some s)
    then obtain x where x: "s = Fin x" "0 \<le> x" "grid x" and v: "fill_val o' = x"
      using Cons.prems(1) by (auto elim: money_fillE simp: fill_val_def)
    have "order_platform o' = ''KALSHI'' \<Longrightarrow> rd (k + x) = k + x"
      using Cons.prems x v rest by (intro rd_grid) (auto simp: exit_fills_Cons)
    moreover have "order_platform o' = ''POLYMARKET'' \<Longrightarrow> rd (p + x) = p + x"
      using Cons.prems x v rest by (intro rd_grid) (auto simp: exit_fills_Cons)
    ultimately show ?thesis
      using Cons.IH [of "k + x" p] Cons.IH [of k "p + x"] Cons.IH [of k p] Cons.prems Some x v
      by (auto simp: exit_fills_Cons add.assoc)
  qed
qed simp

lemma exit_sums_exact:
  assumes "list_all (\<lambda>o'. pred_option money_fill (fillSize o')) os"
    and "exit_fills ''KALSHI'' os \<le> 10 ^ 12" "exit_fills ''POLYMARKET'' os \<le> 10 ^ 12"
  shows "exit_sums rd os = (Fin (exit_fills ''KALSHI'' os), Fin (exit_fills ''POLYMARKET'' os))"
  unfolding exit_sums_def using exit_sums_exact_from [of os 0 0] assms by simp

lemma residual_exact:
  assumes "money_fill a" "grid x" "0 \<le> x" "x \<le> 10 ^ 12"
  shows "xsub rd a (Fin x) = Fin (fin_val a - x)"
  using assms by (auto elim!: money_fillE intro!: rd_grid)

end

lemma list_all_exit_orders: "list_all P os \<Longrightarrow> list_all P (exit_orders pos os)"
  by (auto simp: exit_orders_def list_all_iff)

text \<open>
  the residual size of each leg is what the entry filled less what the exit orders of that
  platform filled, floored at zero; the entry orders themselves are never subtracted, and
  \<^verbatim>\<open>floored\<close> reports exactly that some leg was exited beyond its entry.
\<close>
theorem residual_size_is_entry_minus_exits:
  assumes rd: "decimal_rounding rd"
    and entry: "money_fill (entry_fill (kalshiOrder pos))" "money_fill (entry_fill (polymarketOrder pos))"
    and fills: "list_all (\<lambda>o'. pred_option money_fill (fillSize o')) os"
    and total: "exit_fills ''KALSHI'' (exit_orders pos os) \<le> 10 ^ 12"
      "exit_fills ''POLYMARKET'' (exit_orders pos os) \<le> 10 ^ 12"
  shows "getResidualSize rd pos os =
    \<lparr>residual_kalshi = Fin (max (fin_val (entry_fill (kalshiOrder pos))
         - exit_fills ''KALSHI'' (exit_orders pos os)) 0),
     residual_polymarket = Fin (max (fin_val (entry_fill (polymarketOrder pos))
         - exit_fills ''POLYMARKET'' (exit_orders pos os)) 0),
     floored = (fin_val (entry_fill (kalshiOrder pos)) < exit_fills ''KALSHI'' (exit_orders pos os)
        \<or> fin_val (entry_fill (polymarketOrder pos)) < exit_fills ''POLYMARKET'' (exit_orders pos os))\<rparr>"
proof -
  note ex = list_all_exit_orders [OF fills, of pos]
  have "exit_sums rd (exit_orders pos os) =
      (Fin (exit_fills ''KALSHI'' (exit_orders pos os)), Fin (exit_fills ''POLYMARKET'' (exit_orders pos os)))"
    by (rule decimal_rounding.exit_sums_exact [OF rd ex total])
  moreover have "xsub rd (entry_fill (kalshiOrder pos)) (Fin (exit_fills ''KALSHI'' (exit_orders pos os)))
      = Fin (fin_val (entry_fill (kalshiOrder pos)) - exit_fills ''KALSHI'' (exit_orders pos os))"
    "xsub rd (entry_fill (polymarketOrder pos)) (Fin (exit_fills ''POLYMARKET'' (exit_orders pos os)))
      = Fin (fin_val (entry_fill (polymarketOrder pos)) - exit_fills ''POLYMARKET'' (exit_orders pos os))"
    using entry total exit_fills_nonneg [OF ex] exit_fills_grid [OF ex]
    by (simp_all add: decimal_rounding.residual_exact [OF rd])
  ultimately show ?thesis
    unfolding getResidualSize_def Let_def exit_orders_def [symmetric] by simp
qed

definition sample_residual :: residual_position where
  "sample_residual = \<lparr>kalshiOrderId = Some ''k1'', polymarketOrderId = Some ''p1'',
     kalshiOrder = Some (Some (Fin 10)), polymarketOrder = Some (Some (Fin 10))\<rparr>"

definition sample_orders :: "pair_order list" where
  "sample_orders = [\<lparr>orderId = ''k1'', order_platform = ''KALSHI'', fillSize = Some (Fin 10)\<rparr>,
     \<lparr>orderId = ''x1'', order_platform = ''KALSHI'', fillSize = Some (Fin 4)\<rparr>,
     \<lparr>orderId = ''x2'', order_platform = ''POLYMARKET'', fillSize = None\<rparr>]"

theorem residual_size_is_entry_minus_exits_witness:
  "getResidualSize dec20 sample_residual sample_orders =
     \<lparr>residual_kalshi = Fin 6, residual_polymarket = Fin 10, floored = False\<rparr>"
proof -
  have "getResidualSize dec20 sample_residual sample_orders =
    \<lparr>residual_kalshi = Fin (max (fin_val (entry_fill (kalshiOrder sample_residual))
         - exit_fills ''KALSHI'' (exit_orders sample_residual sample_orders)) 0),
     residual_polymarket = Fin (max (fin_val (entry_fill (polymarketOrder sample_residual))
         - exit_fills ''POLYMARKET'' (exit_orders sample_residual sample_orders)) 0),
     floored = (fin_val (entry_fill (kalshiOrder sample_residual))
          < exit_fills ''KALSHI'' (exit_orders sample_residual sample_orders)
        \<or> fin_val (entry_fill (polymarketOrder sample_residual))
          < exit_fills ''POLYMARKET'' (exit_orders sample_residual sample_orders))\<rparr>"
  proof (rule residual_size_is_entry_minus_exits [OF d20.decimal_rounding_axioms])
    show "list_all (\<lambda>o'. pred_option money_fill (fillSize o')) sample_orders"
      by (simp add: sample_orders_def money_fill_def money_def)
  qed code_simp+
  also have "\<dots> = \<lparr>residual_kalshi = Fin 6, residual_polymarket = Fin 10, floored = False\<rparr>"
    by code_simp
  finally show ?thesis .
qed

text \<open>Selling mirrors buying: the two sides of one leg have opposite profit.\<close>

lemma leg_pnl_opposite:
  assumes rd: "decimal_rounding rd" and fin: "is_fin e" "is_fin c" "is_fin z" and side: "side \<noteq> ''buy''"
  shows "calculateLegPnl rd side e c z = xneg (calculateLegPnl rd ''buy'' e c z)"
proof -
  obtain x y w where v: "e = Fin x" "c = Fin y" "z = Fin w" using fin by (elim is_finE)
  have "rd (x - y) * w = - (rd (y - x) * w)"
    using digit_rounding.rd_swap [OF decimal_rounding.axioms [OF rd], of x y] by simp
  then have "rd (rd (x - y) * w) = - rd (rd (y - x) * w)"
    using digit_rounding.rd_minus [OF decimal_rounding.axioms [OF rd]] by simp
  then show ?thesis using side by (simp add: calculateLegPnl_def v)
qed

lemma clamp01_bounds: "is_fin a \<Longrightarrow> \<exists>x. clamp01 a = Fin x \<and> 0 \<le> x \<and> x \<le> 1"
  by (auto simp: clamp01_def elim!: is_finE)

lemma clamp01_Fin: "clamp01 (Fin x) = Fin (min 1 (max 0 x))"
  by (simp add: clamp01_def)

lemma exit_proximity_unit:
  assumes rd: "decimal_rounding rd"
  shows "\<exists>x. calculateExitProximity rd (Fin pnl) (Fin base) (Fin target) = Fin x \<and> 0 \<le> x \<and> x \<le> 1"
  by (auto simp: calculateExitProximity_def Let_def clamp01_Fin)

lemma take_profit_positive:
  assumes rd: "decimal_rounding rd" and e: "0 < e"
  shows "\<exists>t. computeTakeProfitThreshold rd (Fin base) (Fin e) = Fin t \<and> 0 < t"
proof -
  have "0 < rd (e * 4/5)" using e digit_rounding.rd_pos [OF decimal_rounding.axioms [OF rd]] by simp
  then show ?thesis
    by (auto simp: computeTakeProfitThreshold_def TP_RATIO_def Let_def max_def)
qed

end
