(* ===== verification/ThresholdEvaluator.thy ===== *)
theory ThresholdEvaluator
  imports Financial
begin

text \<open>
  \<^verbatim>\<open>ThresholdEvaluatorService\<close>: when an open position exits.  The fixed mode checks
  stop loss, take profit and time in that order; the model mode evaluates six criteria and takes
  the triggered one of highest priority; the shadow mode returns the fixed result and attaches
  the model's.  The texts of the criteria and the log lines are left out.  \<^verbatim>\<open>Math.pow\<close>
  is a parameter, because the language leaves its value implementation-approximated.
\<close>

section \<open>Data\<close>

datatype exit_criterion =
    EdgeEvaporation | ModelConfidence | TimeDecay | RiskBudget | LiquidityDeterioration | ProfitCapture

datatype exit_mode = FixedMode | ModelMode | ShadowMode

fun EXIT_CRITERION_PRIORITY :: "exit_criterion \<Rightarrow> nat" where
  "EXIT_CRITERION_PRIORITY RiskBudget = 1"
| "EXIT_CRITERION_PRIORITY EdgeEvaporation = 2"
| "EXIT_CRITERION_PRIORITY LiquidityDeterioration = 3"
| "EXIT_CRITERION_PRIORITY ModelConfidence = 4"
| "EXIT_CRITERION_PRIORITY TimeDecay = 5"
| "EXIT_CRITERION_PRIORITY ProfitCapture = 6"

record criterion_result =
  cr_criterion :: exit_criterion
  cr_proximity :: decimal
  cr_triggered :: bool

datatype exit_type = StopLoss | TakeProfit | TimeBased | ByCriterion exit_criterion

record threshold_input =
  in_initialEdge :: decimal
  in_kalshiEntryPrice :: decimal
  in_polymarketEntryPrice :: decimal
  in_currentKalshiPrice :: decimal
  in_currentPolymarketPrice :: decimal
  in_kalshiSide :: string
  in_polymarketSide :: string
  in_kalshiSize :: decimal
  in_polymarketSize :: decimal
  in_kalshiFee :: decimal
  in_polymarketFee :: decimal
  in_resolutionDate :: "timestamp option"
  in_now :: timestamp
  in_entryClosePriceKalshi :: "decimal option"
  in_entryClosePricePolymarket :: "decimal option"
  in_entryKalshiFeeRate :: "decimal option"
  in_entryPolymarketFeeRate :: "decimal option"
  in_dataSource :: "string option"
  in_entryConfidenceScore :: "jsnum option"
  in_currentConfidenceScore :: "jsnum option"
  in_kalshiExitDepth :: "decimal option"
  in_polymarketExitDepth :: "decimal option"
  in_portfolioRiskApproaching :: bool
  in_edgeRankAmongOpen :: "jsnum option"
  in_totalOpenPositions :: "jsnum option"
  in_exitMode :: "exit_mode option"
  in_edgeEvapMultiplier :: "jsnum option"
  in_confidenceDropPct :: "jsnum option"
  in_timeDecayHorizonH :: "jsnum option"
  in_timeDecaySteepness :: "jsnum option"
  in_timeDecayTrigger :: "jsnum option"
  in_riskRankCutoff :: "jsnum option"
  in_minDepth :: "jsnum option"
  in_profitCaptureRatio :: "jsnum option"

record shadow_result =
  sh_triggered :: bool
  sh_type :: "exit_type option"
  sh_currentPnl :: decimal
  sh_criteria :: "criterion_result list option"

record threshold_result =
  res_triggered :: bool
  res_type :: "exit_type option"
  res_currentEdge :: decimal
  res_currentPnl :: decimal
  res_capturedEdgePercent :: decimal
  res_dataSource :: "string option"
  res_criteria :: "criterion_result list option"
  res_shadowModelResult :: "shadow_result option"

record eval_common =
  ec_currentPnl :: decimal
  ec_currentEdge :: decimal
  ec_capturedEdgePercent :: decimal
  ec_legSize :: decimal
  ec_scaledInitialEdge :: decimal
  ec_entryCostBaseline :: decimal

definition or_default :: "'a option \<Rightarrow> 'a \<Rightarrow> 'a" where
  "or_default x d = (case x of Some y \<Rightarrow> y | None \<Rightarrow> d)"

section \<open>Shared figures\<close>

definition baseline_params :: "threshold_input \<Rightarrow> entry_cost_params" where
  "baseline_params p = \<lparr>kalshiEntryPrice = in_kalshiEntryPrice p, polymarketEntryPrice = in_polymarketEntryPrice p,
     kalshiSide = in_kalshiSide p, polymarketSide = in_polymarketSide p,
     kalshiSize = in_kalshiSize p, polymarketSize = in_polymarketSize p,
     entryClosePriceKalshi = in_entryClosePriceKalshi p, entryClosePricePolymarket = in_entryClosePricePolymarket p,
     entryKalshiFeeRate = in_entryKalshiFeeRate p, entryPolymarketFeeRate = in_entryPolymarketFeeRate p\<rparr>"

definition computeCommon :: "(rat \<Rightarrow> rat) \<Rightarrow> threshold_input \<Rightarrow> eval_common" where
  "computeCommon rd p =
     (let kalshiPnl = calculateLegPnl rd (in_kalshiSide p) (in_kalshiEntryPrice p) (in_currentKalshiPrice p) (in_kalshiSize p);
          polymarketPnl = calculateLegPnl rd (in_polymarketSide p) (in_polymarketEntryPrice p)
            (in_currentPolymarketPrice p) (in_polymarketSize p);
          kalshiExitFee = xmul rd (xmul rd (in_currentKalshiPrice p) (in_kalshiSize p)) (in_kalshiFee p);
          polymarketExitFee = xmul rd (xmul rd (in_currentPolymarketPrice p) (in_polymarketSize p)) (in_polymarketFee p);
          totalExitFees = xadd rd kalshiExitFee polymarketExitFee;
          currentPnl = xsub rd (xadd rd kalshiPnl polymarketPnl) totalExitFees;
          legSize = in_kalshiSize p;
          scaledInitialEdge = xmul rd (in_initialEdge p) legSize
      in \<lparr>ec_currentPnl = currentPnl,
          ec_currentEdge = xdiv rd currentPnl (if is_zero legSize then Fin 1 else legSize),
          ec_capturedEdgePercent = (if is_zero scaledInitialEdge then Fin 0
            else xmul rd (xdiv rd currentPnl scaledInitialEdge) (Fin 100)),
          ec_legSize = legSize,
          ec_scaledInitialEdge = scaledInitialEdge,
          ec_entryCostBaseline = computeEntryCostBaseline rd (baseline_params p)\<rparr>)"

definition mk_result :: "threshold_input \<Rightarrow> eval_common \<Rightarrow> exit_type option \<Rightarrow> criterion_result list option \<Rightarrow> threshold_result" where
  "mk_result p c t crs = \<lparr>res_triggered = (t \<noteq> None), res_type = t, res_currentEdge = ec_currentEdge c,
     res_currentPnl = ec_currentPnl c, res_capturedEdgePercent = ec_capturedEdgePercent c,
     res_dataSource = in_dataSource p, res_criteria = crs, res_shadowModelResult = None\<rparr>"

definition hoursRemaining :: "timestamp \<Rightarrow> timestamp \<Rightarrow> jsnum" where
  "hoursRemaining resolution now = xdiv b64 (Fin (of_int (resolution - now))) (Fin 3600000)"

section \<open>The fixed mode\<close>

definition stopLossThreshold :: "(rat \<Rightarrow> rat) \<Rightarrow> eval_common \<Rightarrow> decimal" where
  "stopLossThreshold rd c = xadd rd (ec_entryCostBaseline c) (xmul rd (ec_scaledInitialEdge c) SL_MULTIPLIER)"

definition takeProfitThreshold :: "(rat \<Rightarrow> rat) \<Rightarrow> eval_common \<Rightarrow> decimal" where
  "takeProfitThreshold rd c = computeTakeProfitThreshold rd (ec_entryCostBaseline c) (ec_scaledInitialEdge c)"

definition evaluateFixed :: "(rat \<Rightarrow> rat) \<Rightarrow> threshold_input \<Rightarrow> eval_common \<Rightarrow> threshold_result" where
  "evaluateFixed rd p c =
     (if xle (ec_currentPnl c) (stopLossThreshold rd c) then mk_result p c (Some StopLoss) None
      else if xge (ec_currentPnl c) (takeProfitThreshold rd c) then mk_result p c (Some TakeProfit) None
      else if (case in_resolutionDate p of Some d \<Rightarrow> xle (hoursRemaining d (in_now p)) (Fin 48) | None \<Rightarrow> False)
        then mk_result p c (Some TimeBased) None
      else mk_result p c None None)"

section \<open>The six criteria\<close>

definition disabled :: "exit_criterion \<Rightarrow> criterion_result" where
  "disabled k = \<lparr>cr_criterion = k, cr_proximity = Fin 0, cr_triggered = False\<rparr>"

definition evaluateEdgeEvaporation :: "(rat \<Rightarrow> rat) \<Rightarrow> threshold_input \<Rightarrow> eval_common \<Rightarrow> criterion_result" where
  "evaluateEdgeEvaporation rd p c =
     (let multiplier = to_decimal (or_default (in_edgeEvapMultiplier p) (Fin (- 1)));
          threshold = xadd rd (ec_entryCostBaseline c) (xmul rd (ec_scaledInitialEdge c) multiplier);
          denom = xsub rd threshold (ec_entryCostBaseline c)
      in \<lparr>cr_criterion = EdgeEvaporation,
          cr_proximity = (if is_zero denom
            then (if xle (ec_currentPnl c) (ec_entryCostBaseline c) then Fin 1 else Fin 0)
            else clamp01 (xdiv rd (xsub rd (ec_currentPnl c) (ec_entryCostBaseline c)) denom)),
          cr_triggered = xle (ec_currentPnl c) threshold\<rparr>)"

definition evaluateModelConfidence :: "threshold_input \<Rightarrow> criterion_result" where
  "evaluateModelConfidence p =
     (let dropPct = or_default (in_confidenceDropPct p) (Fin 20) in
      case in_entryConfidenceScore p of
        None \<Rightarrow> disabled ModelConfidence
      | Some entryScore \<Rightarrow>
          if entryScore = Fin 0 then disabled ModelConfidence
          else
            let current = or_default (in_currentConfidenceScore p) entryScore;
                triggerThreshold = xmul b64 entryScore (xsub b64 (Fin 1) (xdiv b64 dropPct (Fin 100)));
                range' = xsub b64 entryScore triggerThreshold
            in \<lparr>cr_criterion = ModelConfidence,
                cr_proximity = (if xle range' (Fin 0)
                  then (if xle current triggerThreshold then Fin 1 else Fin 0)
                  else clamp01 (to_decimal (xsub b64 (Fin 1) (xdiv b64 (xsub b64 current triggerThreshold) range')))),
                cr_triggered = xle current triggerThreshold\<rparr>)"

definition evaluateTimeDecay :: "(jsnum \<Rightarrow> jsnum \<Rightarrow> jsnum) \<Rightarrow> threshold_input \<Rightarrow> criterion_result" where
  "evaluateTimeDecay pow p =
     (let horizonH = or_default (in_timeDecayHorizonH p) (Fin 168);
          steepness = or_default (in_timeDecaySteepness p) (Fin 2);
          trigger = or_default (in_timeDecayTrigger p) (js_lit (4/5)) in
      case in_resolutionDate p of
        None \<Rightarrow> disabled TimeDecay
      | Some d \<Rightarrow>
          let hours = hoursRemaining d (in_now p) in
          if xle hours (Fin 0) then \<lparr>cr_criterion = TimeDecay, cr_proximity = Fin 1, cr_triggered = True\<rparr>
          else
            let ratio = xmax (Fin 0) (xdiv b64 (xsub b64 horizonH hours) horizonH);
                clamped = clamp01 (to_decimal (pow ratio steepness))
            in \<lparr>cr_criterion = TimeDecay, cr_proximity = clamped, cr_triggered = xge clamped (to_decimal trigger)\<rparr>)"

definition evaluateRiskBudget :: "threshold_input \<Rightarrow> criterion_result" where
  "evaluateRiskBudget p =
     (let rankCutoff = or_default (in_riskRankCutoff p) (Fin 1) in
      if \<not> in_portfolioRiskApproaching p then disabled RiskBudget
      else (case (in_edgeRankAmongOpen p, in_totalOpenPositions p) of
              (Some rank, Some positions) \<Rightarrow>
                \<lparr>cr_criterion = RiskBudget,
                 cr_proximity = (if xle positions (Fin 1) then Fin 1
                   else clamp01 (to_decimal (xsub b64 (Fin 1)
                     (xdiv b64 (xsub b64 rank (Fin 1)) (xsub b64 positions (Fin 1)))))),
                 cr_triggered = xle rank rankCutoff\<rparr>
            | _ \<Rightarrow> disabled RiskBudget))"

definition evaluateLiquidityDeterioration :: "(rat \<Rightarrow> rat) \<Rightarrow> threshold_input \<Rightarrow> criterion_result" where
  "evaluateLiquidityDeterioration rd p =
     (let minDepth = to_decimal (or_default (in_minDepth p) (Fin 5)) in
      case (in_kalshiExitDepth p, in_polymarketExitDepth p) of
        (Some kd, Some pd) \<Rightarrow>
          let minSideDepth = xmin kd pd
          in \<lparr>cr_criterion = LiquidityDeterioration,
              cr_proximity = (if is_zero minDepth then Fin 0
                else xmax (Fin 0) (xsub rd (Fin 1) (xdiv rd minSideDepth minDepth))),
              cr_triggered = xlt minSideDepth minDepth\<rparr>
      | _ \<Rightarrow> disabled LiquidityDeterioration)"

definition evaluateProfitCapture :: "(rat \<Rightarrow> rat) \<Rightarrow> threshold_input \<Rightarrow> eval_common \<Rightarrow> criterion_result" where
  "evaluateProfitCapture rd p c =
     (let ratio = to_decimal (or_default (in_profitCaptureRatio p) (Fin (1/2)));
          profitTarget = xadd rd (ec_entryCostBaseline c) (xmul rd (ec_scaledInitialEdge c) ratio);
          denom = xsub rd profitTarget (ec_entryCostBaseline c)
      in \<lparr>cr_criterion = ProfitCapture,
          cr_proximity = (if is_zero denom
            then (if xge (ec_currentPnl c) (ec_entryCostBaseline c) then Fin 1 else Fin 0)
            else clamp01 (xdiv rd (xsub rd (ec_currentPnl c) (ec_entryCostBaseline c)) denom)),
          cr_triggered = xge (ec_currentPnl c) profitTarget\<rparr>)"

definition evaluateAllCriteria ::
  "(rat \<Rightarrow> rat) \<Rightarrow> (jsnum \<Rightarrow> jsnum \<Rightarrow> jsnum) \<Rightarrow> threshold_input \<Rightarrow> eval_common \<Rightarrow> criterion_result list" where
  "evaluateAllCriteria rd pow p c =
     [evaluateEdgeEvaporation rd p c, evaluateModelConfidence p, evaluateTimeDecay pow p,
      evaluateRiskBudget p, evaluateLiquidityDeterioration rd p, evaluateProfitCapture rd p c]"

definition evaluateModelDriven ::
  "(rat \<Rightarrow> rat) \<Rightarrow> (jsnum \<Rightarrow> jsnum \<Rightarrow> jsnum) \<Rightarrow> threshold_input \<Rightarrow> eval_common \<Rightarrow> threshold_result" where
  "evaluateModelDriven rd pow p c =
     (let criteria = evaluateAllCriteria rd pow p c;
          triggered = sort_key (\<lambda>cr. EXIT_CRITERION_PRIORITY (cr_criterion cr)) (filter cr_triggered criteria)
      in case triggered of
           [] \<Rightarrow> mk_result p c None (Some criteria)
         | first # _ \<Rightarrow> mk_result p c (Some (ByCriterion (cr_criterion first))) (Some criteria))"

definition evaluate :: "(rat \<Rightarrow> rat) \<Rightarrow> (jsnum \<Rightarrow> jsnum \<Rightarrow> jsnum) \<Rightarrow> threshold_input \<Rightarrow> threshold_result" where
  "evaluate rd pow p =
     (let common = computeCommon rd p in
      case or_default (in_exitMode p) FixedMode of
        FixedMode \<Rightarrow> evaluateFixed rd p common
      | ModelMode \<Rightarrow> evaluateModelDriven rd pow p common
      | ShadowMode \<Rightarrow>
          let fixedResult = evaluateFixed rd p common;
              modelResult = evaluateModelDriven rd pow p common
          in fixedResult\<lparr>res_criteria := res_criteria modelResult,
               res_shadowModelResult := Some \<lparr>sh_triggered = res_triggered modelResult,
                 sh_type = res_type modelResult, sh_currentPnl = res_currentPnl modelResult,
                 sh_criteria = res_criteria modelResult\<rparr>\<rparr>)"

section \<open>Which exit is taken\<close>

lemma priority_inj: "EXIT_CRITERION_PRIORITY a = EXIT_CRITERION_PRIORITY b \<longleftrightarrow> a = b"
  by (cases a; cases b) simp_all

lemma all_criteria_kinds:
  "map cr_criterion (evaluateAllCriteria rd pow p c) =
     [EdgeEvaporation, ModelConfidence, TimeDecay, RiskBudget, LiquidityDeterioration, ProfitCapture]"
  by (simp add: evaluateAllCriteria_def evaluateEdgeEvaporation_def evaluateModelConfidence_def
      evaluateTimeDecay_def evaluateRiskBudget_def evaluateLiquidityDeterioration_def evaluateProfitCapture_def
      disabled_def Let_def split: option.splits)

lemma sort_key_first:
  assumes "sort_key f xs = y # ys"
  shows "y \<in> set xs \<and> (\<forall>x \<in> set xs. f y \<le> f x)"
proof -
  have "set (y # ys) = set xs" using assms by (metis set_sort)
  moreover have "sorted (map f (y # ys))" using assms by (metis sorted_sort_key)
  ultimately show ?thesis by auto
qed

text \<open>
  the model mode exits exactly when some criterion triggers, and the exit it reports is the
  triggered criterion of highest priority: risk budget, edge evaporation, liquidity, confidence,
  time decay, profit capture.
\<close>
theorem model_exit_highest_priority:
  "(res_triggered (evaluateModelDriven rd pow p c) \<longleftrightarrow> (\<exists>cr \<in> set (evaluateAllCriteria rd pow p c). cr_triggered cr))
   \<and> (res_type (evaluateModelDriven rd pow p c) = Some (ByCriterion k) \<longleftrightarrow>
        (\<exists>cr \<in> set (evaluateAllCriteria rd pow p c). cr_criterion cr = k \<and> cr_triggered cr
          \<and> \<not> (\<exists>cr' \<in> set (evaluateAllCriteria rd pow p c). cr_triggered cr'
                \<and> EXIT_CRITERION_PRIORITY (cr_criterion cr') < EXIT_CRITERION_PRIORITY k)))"
proof -
  let ?cs = "evaluateAllCriteria rd pow p c"
  let ?f = "\<lambda>cr. EXIT_CRITERION_PRIORITY (cr_criterion cr)"
  show ?thesis
  proof (cases "sort_key ?f (filter cr_triggered ?cs)")
    case Nil
    then have "filter cr_triggered ?cs = []" by (metis set_empty set_sort)
    then have "\<not> (\<exists>cr \<in> set ?cs. cr_triggered cr)" by (simp add: filter_empty_conv)
    then show ?thesis using Nil by (auto simp: evaluateModelDriven_def mk_result_def)
  next
    case (Cons y ys)
    from sort_key_first [OF this] have y: "y \<in> set ?cs" "cr_triggered y"
      "\<And>x. x \<in> set ?cs \<Longrightarrow> cr_triggered x \<Longrightarrow> ?f y \<le> ?f x" by auto
    have "res_type (evaluateModelDriven rd pow p c) = Some (ByCriterion (cr_criterion y))"
      "res_triggered (evaluateModelDriven rd pow p c)"
      using Cons by (simp_all add: evaluateModelDriven_def mk_result_def)
    moreover have "cr_criterion y = k \<longleftrightarrow> (\<exists>cr \<in> set ?cs. cr_criterion cr = k \<and> cr_triggered cr
          \<and> \<not> (\<exists>cr' \<in> set ?cs. cr_triggered cr' \<and> ?f cr' < EXIT_CRITERION_PRIORITY k))"
      using y by (metis leD le_neq_implies_less priority_inj)
    ultimately show ?thesis using y by auto
  qed
qed

section \<open>Proximities\<close>

text \<open>
  The figures a criterion works with are finite.  The clamp then bounds every proximity, and a
  price criterion that triggers shows proximity one.
\<close>

definition finite_common :: "eval_common \<Rightarrow> bool" where
  "finite_common c \<longleftrightarrow> is_fin (ec_currentPnl c) \<and> is_fin (ec_scaledInitialEdge c) \<and> is_fin (ec_entryCostBaseline c)"

definition finite_config :: "threshold_input \<Rightarrow> bool" where
  "finite_config p \<longleftrightarrow>
     pred_option is_fin (in_edgeEvapMultiplier p) \<and> pred_option is_fin (in_profitCaptureRatio p)
     \<and> pred_option is_fin (in_confidenceDropPct p) \<and> pred_option is_fin (in_entryConfidenceScore p)
     \<and> pred_option is_fin (in_currentConfidenceScore p) \<and> pred_option is_fin (in_edgeRankAmongOpen p)
     \<and> pred_option is_fin (in_totalOpenPositions p) \<and> pred_option is_fin (in_timeDecayHorizonH p)
     \<and> pred_option is_fin (in_timeDecaySteepness p)
     \<and> pred_option (\<lambda>d. is_fin d \<and> xle (Fin 0) d) (in_kalshiExitDepth p)
     \<and> pred_option (\<lambda>d. is_fin d \<and> xle (Fin 0) d) (in_polymarketExitDepth p)
     \<and> pred_option (\<lambda>d. is_fin d \<and> xle (Fin 0) d) (in_minDepth p)"

definition unit_interval :: "decimal \<Rightarrow> bool" where
  "unit_interval d \<longleftrightarrow> (case d of Fin x \<Rightarrow> 0 \<le> x \<and> x \<le> 1 | _ \<Rightarrow> False)"

lemma unit_clamp: "is_fin a \<Longrightarrow> unit_interval (clamp01 a)"
  using clamp01_bounds [of a] by (auto simp: unit_interval_def)

lemma unit_clamp_not_nan: "a \<noteq> NaN \<Longrightarrow> unit_interval (clamp01 a)"
  by (cases a) (auto simp: unit_interval_def clamp01_def xmin_def xmax_def)

lemma unit_01 [simp]: "unit_interval (Fin 0)" "unit_interval (Fin 1)"
  by (simp_all add: unit_interval_def)

lemma is_fin_ops [simp]:
  "is_fin a \<Longrightarrow> is_fin b \<Longrightarrow> is_fin (xadd r a b)"
  "is_fin a \<Longrightarrow> is_fin b \<Longrightarrow> is_fin (xsub r a b)"
  "is_fin a \<Longrightarrow> is_fin b \<Longrightarrow> is_fin (xmul r a b)"
  "is_fin a \<Longrightarrow> is_fin b \<Longrightarrow> \<not> is_zero b \<Longrightarrow> is_fin (xdiv r a b)"
  by (cases a; cases b; simp)+

lemma is_fin_to_decimal [simp]: "is_fin (to_decimal a) = is_fin a"
  by (cases a) (simp_all add: to_decimal_def)

lemma is_fin_default: "pred_option is_fin x \<Longrightarrow> is_fin d \<Longrightarrow> is_fin (or_default x d)"
  by (cases x) (simp_all add: or_default_def)

lemma not_le_zero: "is_fin a \<Longrightarrow> \<not> xle a (Fin 0) \<Longrightarrow> \<not> is_zero a"
  by (cases a) auto

lemma evaporation_unit:
  assumes "finite_common c" "finite_config p"
  shows "unit_interval (cr_proximity (evaluateEdgeEvaporation rd p c))"
    and "unit_interval (cr_proximity (evaluateProfitCapture rd p c))"
  using assms is_fin_default [of "in_edgeEvapMultiplier p"] is_fin_default [of "in_profitCaptureRatio p"]
  by (simp_all add: evaluateEdgeEvaporation_def evaluateProfitCapture_def Let_def finite_common_def
      finite_config_def unit_clamp)

lemma confidence_unit:
  assumes "finite_config p"
  shows "unit_interval (cr_proximity (evaluateModelConfidence p))"
  using assms is_fin_default [of "in_confidenceDropPct p"] is_fin_default [of "in_currentConfidenceScore p"]
  by (auto simp: evaluateModelConfidence_def disabled_def Let_def finite_config_def not_le_zero
      intro!: unit_clamp split: option.splits)

lemma risk_budget_unit:
  assumes "finite_config p"
  shows "unit_interval (cr_proximity (evaluateRiskBudget p))"
  using assms
  by (auto simp: evaluateRiskBudget_def disabled_def Let_def finite_config_def not_le_zero
      intro!: unit_clamp split: option.splits elim!: is_finE)

lemma decay_ratio_nonneg:
  assumes "is_fin hz" "is_fin h" "\<not> xle h (Fin 0)"
  obtains x where "xmax (Fin 0) (xdiv b64 (xsub b64 hz h) hz) = Fin x" "0 \<le> x"
proof -
  obtain z g where z: "hz = Fin z" "h = Fin g" "0 < g" using assms by (auto elim!: is_finE)
  have "b64 (- g) < 0" using z(3) by simp
  then have "\<exists>x. xmax (Fin 0) (xdiv b64 (xsub b64 hz h) hz) = Fin x \<and> 0 \<le> x"
    using z by (cases "z = 0") (simp_all add: xmax_def inf_of_sign_def sgn_if)
  then show ?thesis using that by blast
qed

lemma time_decay_unit:
  assumes "finite_config p" "\<And>x y. 0 \<le> x \<Longrightarrow> pow (Fin x) (Fin y) \<noteq> NaN"
  shows "unit_interval (cr_proximity (evaluateTimeDecay pow p))"
proof -
  have hz: "is_fin (or_default (in_timeDecayHorizonH p) (Fin 168))"
    and st: "is_fin (or_default (in_timeDecaySteepness p) (Fin 2))"
    using assms(1) by (simp_all add: finite_config_def is_fin_default)
  have "unit_interval (clamp01 (to_decimal (pow (xmax (Fin 0) (xdiv b64 (xsub b64 (or_default (in_timeDecayHorizonH p) (Fin 168)) h)
      (or_default (in_timeDecayHorizonH p) (Fin 168)))) (or_default (in_timeDecaySteepness p) (Fin 2)))))"
    if h: "is_fin h" "\<not> xle h (Fin 0)" for h
  proof -
    obtain x where x: "xmax (Fin 0) (xdiv b64 (xsub b64 (or_default (in_timeDecayHorizonH p) (Fin 168)) h)
      (or_default (in_timeDecayHorizonH p) (Fin 168))) = Fin x" "0 \<le> x"
      by (rule decay_ratio_nonneg [OF hz h])
    obtain y where y: "or_default (in_timeDecaySteepness p) (Fin 2) = Fin y" using st by (rule is_finE)
    have "to_decimal (pow (Fin x) (Fin y)) \<noteq> NaN"
      using assms(2) [OF x(2), of y] by (cases "pow (Fin x) (Fin y)") (simp_all add: to_decimal_def)
    then show ?thesis unfolding x(1) y by (rule unit_clamp_not_nan)
  qed
  moreover have "is_fin (hoursRemaining d n)" for d n by (simp add: hoursRemaining_def xdiv_Fin)
  ultimately show ?thesis
    by (simp add: evaluateTimeDecay_def disabled_def Let_def split: option.splits)
qed

context decimal_rounding
begin

lemma liquidity_unit:
  assumes "finite_config p"
  shows "unit_interval (cr_proximity (evaluateLiquidityDeterioration rd p))"
proof (cases "\<exists>kd pd. in_kalshiExitDepth p = Some kd \<and> in_polymarketExitDepth p = Some pd")
  case False
  then show ?thesis
    by (auto simp: evaluateLiquidityDeterioration_def disabled_def Let_def split: option.splits)
next
  case True
  then obtain kd pd where s: "in_kalshiExitDepth p = Some kd" "in_polymarketExitDepth p = Some pd" by blast
  then obtain a b where ab: "kd = Fin a" "pd = Fin b" "0 \<le> a" "0 \<le> b"
    using assms by (auto simp: finite_config_def elim!: is_finE)
  obtain m where m: "or_default (in_minDepth p) (Fin 5) = Fin m" "0 \<le> m"
    using assms by (cases "in_minDepth p") (auto simp: finite_config_def or_default_def elim!: is_finE)
  have "0 \<le> rd (min a b / shortest m)" if "shortest m \<noteq> 0"
    using ab m by simp
  then have "rd (1 - rd (min a b / shortest m)) \<le> 1" if "shortest m \<noteq> 0"
    using that rd_mono [of "1 - rd (min a b / shortest m)" 1] by simp
  then show ?thesis
    by (auto simp: evaluateLiquidityDeterioration_def Let_def s ab m unit_interval_def max_def)
qed

text \<open>A decimal quotient whose numerator reaches the denominator is at least one.\<close>

lemma ratio_reaches_one:
  assumes "d < 0 \<and> n \<le> d \<or> 0 < d \<and> d \<le> n"
  shows "clamp01 (xdiv rd (Fin n) (Fin d)) = Fin 1"
proof -
  have "1 \<le> n / d" using assms by (auto simp: divide_le_eq le_divide_eq)
  then have "1 \<le> rd (n / d)" using fix_le_rd [of 1 "n / d"] by simp
  then show ?thesis using assms by (auto simp: clamp01_Fin)
qed

lemma evaporation_triggered_one:
  assumes "finite_common c" "finite_config p" "cr_triggered (evaluateEdgeEvaporation rd p c)"
    and "xle (xadd rd (ec_entryCostBaseline c) (xmul rd (ec_scaledInitialEdge c)
      (to_decimal (or_default (in_edgeEvapMultiplier p) (Fin (- 1)))))) (ec_entryCostBaseline c)"
  shows "cr_proximity (evaluateEdgeEvaporation rd p c) = Fin 1"
proof -
  obtain pnl e b where c: "ec_currentPnl c = Fin pnl" "ec_scaledInitialEdge c = Fin e" "ec_entryCostBaseline c = Fin b"
    using assms(1) by (auto simp: finite_common_def elim!: is_finE)
  obtain m where m: "or_default (in_edgeEvapMultiplier p) (Fin (- 1)) = Fin m"
    using assms(2) is_fin_default [of "in_edgeEvapMultiplier p" "Fin (- 1)"] by (auto simp: finite_config_def elim!: is_finE)
  let ?t = "rd (b + rd (e * shortest m))"
  have t: "?t \<le> b" "pnl \<le> ?t" using assms(3,4) by (simp_all add: evaluateEdgeEvaporation_def Let_def c m)
  show ?thesis
  proof (cases "?t = b")
    case True
    then show ?thesis using t by (simp add: evaluateEdgeEvaporation_def Let_def c m)
  next
    case False
    have "rd (?t - b) < 0" "rd (pnl - b) \<le> rd (?t - b)" using t False by (auto intro: rd_mono)
    then have "clamp01 (xdiv rd (Fin (rd (pnl - b))) (Fin (rd (?t - b)))) = Fin 1"
      by (intro ratio_reaches_one) simp
    then show ?thesis using \<open>rd (?t - b) < 0\<close>
      by (simp add: evaluateEdgeEvaporation_def Let_def c m del: xdiv.simps)
  qed
qed

lemma capture_triggered_one:
  assumes "finite_common c" "finite_config p" "cr_triggered (evaluateProfitCapture rd p c)"
    and "xle (ec_entryCostBaseline c) (xadd rd (ec_entryCostBaseline c) (xmul rd (ec_scaledInitialEdge c)
      (to_decimal (or_default (in_profitCaptureRatio p) (Fin (1/2))))))"
  shows "cr_proximity (evaluateProfitCapture rd p c) = Fin 1"
proof -
  obtain pnl e b where c: "ec_currentPnl c = Fin pnl" "ec_scaledInitialEdge c = Fin e" "ec_entryCostBaseline c = Fin b"
    using assms(1) by (auto simp: finite_common_def elim!: is_finE)
  obtain m where m: "or_default (in_profitCaptureRatio p) (Fin (1/2)) = Fin m"
    using assms(2) is_fin_default [of "in_profitCaptureRatio p" "Fin (1/2)"] by (auto simp: finite_config_def elim!: is_finE)
  let ?t = "rd (b + rd (e * shortest m))"
  have t: "b \<le> ?t" "?t \<le> pnl" using assms(3,4) by (simp_all add: evaluateProfitCapture_def Let_def c m)
  show ?thesis
  proof (cases "?t = b")
    case True
    then show ?thesis using t by (simp add: evaluateProfitCapture_def Let_def c m)
  next
    case False
    have "0 < rd (?t - b)" "rd (?t - b) \<le> rd (pnl - b)" using t False by (auto intro: rd_mono)
    then have "clamp01 (xdiv rd (Fin (rd (pnl - b))) (Fin (rd (?t - b)))) = Fin 1"
      by (intro ratio_reaches_one) simp
    then show ?thesis using \<open>0 < rd (?t - b)\<close>
      by (simp add: evaluateProfitCapture_def Let_def c m del: xdiv.simps)
  qed
qed

end

text \<open>
  with finite figures every one of the six proximities lies between 0 and 1.
\<close>
theorem criterion_proximities_unit:
  assumes "decimal_rounding rd" "finite_common c" "finite_config p"
    and "\<And>x y. 0 \<le> x \<Longrightarrow> pow (Fin x) (Fin y) \<noteq> NaN"
    and "cr \<in> set (evaluateAllCriteria rd pow p c)"
  shows "unit_interval (cr_proximity cr)"
  using assms(5) evaporation_unit [OF assms(2,3), of rd] confidence_unit [OF assms(3)] risk_budget_unit [OF assms(3)]
    time_decay_unit [OF assms(3), of pow, OF assms(4)] decimal_rounding.liquidity_unit [OF assms(1,3)]
  by (auto simp: evaluateAllCriteria_def)

definition sample_input :: threshold_input where
  "sample_input = \<lparr>in_initialEdge = Fin 1, in_kalshiEntryPrice = Fin 0, in_polymarketEntryPrice = Fin 0,
     in_currentKalshiPrice = Fin 0, in_currentPolymarketPrice = Fin 0, in_kalshiSide = ''buy'',
     in_polymarketSide = ''sell'', in_kalshiSize = Fin 10, in_polymarketSize = Fin 10, in_kalshiFee = Fin 0,
     in_polymarketFee = Fin 0, in_resolutionDate = Some 3600000, in_now = 0, in_entryClosePriceKalshi = None,
     in_entryClosePricePolymarket = None, in_entryKalshiFeeRate = None, in_entryPolymarketFeeRate = None,
     in_dataSource = None, in_entryConfidenceScore = None, in_currentConfidenceScore = None,
     in_kalshiExitDepth = None, in_polymarketExitDepth = None, in_portfolioRiskApproaching = False,
     in_edgeRankAmongOpen = None, in_totalOpenPositions = None, in_exitMode = Some ShadowMode,
     in_edgeEvapMultiplier = None, in_confidenceDropPct = None, in_timeDecayHorizonH = None,
     in_timeDecaySteepness = None, in_timeDecayTrigger = None, in_riskRankCutoff = None, in_minDepth = None,
     in_profitCaptureRatio = None\<rparr>"

lemma sample_common: "finite_common (computeCommon dec20 sample_input)" "finite_config sample_input"
  "ec_scaledInitialEdge (computeCommon dec20 sample_input) = Fin 10"
  "ec_entryCostBaseline (computeCommon dec20 sample_input) = Fin 0"
  using dec20_int [of 10] d20.sr.rd_0
  by (simp_all add: finite_common_def finite_config_def computeCommon_def sample_input_def calculateLegPnl_def
      baseline_params_def computeEntryCostBaseline_def Let_def)

theorem criterion_proximities_unit_witness:
  "unit_interval (cr_proximity (evaluateProfitCapture dec20 sample_input (computeCommon dec20 sample_input)))"
  by (rule criterion_proximities_unit [OF d20.decimal_rounding_axioms sample_common(1,2), where pow = "\<lambda>_ _. Fin 0"])
    (simp_all add: evaluateAllCriteria_def)

text \<open>
  a price criterion that triggers shows full proximity: edge evaporation when its threshold
  lies at or below the entry baseline, profit capture when its target lies at or above it.
\<close>
theorem triggered_price_criterion_full_proximity:
  assumes "decimal_rounding rd" "finite_common c" "finite_config p"
    and "xle (xadd rd (ec_entryCostBaseline c) (xmul rd (ec_scaledInitialEdge c)
      (to_decimal (or_default (in_edgeEvapMultiplier p) (Fin (- 1)))))) (ec_entryCostBaseline c)"
    and "xle (ec_entryCostBaseline c) (xadd rd (ec_entryCostBaseline c) (xmul rd (ec_scaledInitialEdge c)
      (to_decimal (or_default (in_profitCaptureRatio p) (Fin (1/2))))))"
  shows "(cr_triggered (evaluateEdgeEvaporation rd p c) \<longrightarrow> cr_proximity (evaluateEdgeEvaporation rd p c) = Fin 1)
    \<and> (cr_triggered (evaluateProfitCapture rd p c) \<longrightarrow> cr_proximity (evaluateProfitCapture rd p c) = Fin 1)"
  using decimal_rounding.evaporation_triggered_one [OF assms(1-3) _ assms(4)]
    decimal_rounding.capture_triggered_one [OF assms(1-3) _ assms(5)] by blast

lemma shortest_m1: "shortest (- 1) = - 1"
  using shortest_one_digit [of "- 1" "- 1" 0] b64_int [of "- 1"] by simp

theorem triggered_price_criterion_full_proximity_witness:
  "cr_triggered (evaluateEdgeEvaporation dec20 sample_input (computeCommon dec20 sample_input))
     \<longrightarrow> cr_proximity (evaluateEdgeEvaporation dec20 sample_input (computeCommon dec20 sample_input)) = Fin 1"
proof -
  let ?c = "computeCommon dec20 sample_input"
  have "dec20 (- 10) = - 10" "dec20 5 = 5" using dec20_int [of "- 10"] dec20_int [of 5] by simp_all
  then have "xle (xadd dec20 (ec_entryCostBaseline ?c) (xmul dec20 (ec_scaledInitialEdge ?c)
      (to_decimal (or_default (in_edgeEvapMultiplier sample_input) (Fin (- 1)))))) (ec_entryCostBaseline ?c)"
    "xle (ec_entryCostBaseline ?c) (xadd dec20 (ec_entryCostBaseline ?c) (xmul dec20 (ec_scaledInitialEdge ?c)
      (to_decimal (or_default (in_profitCaptureRatio sample_input) (Fin (1/2))))))"
    unfolding sample_common(3,4) by (simp_all add: sample_input_def or_default_def shortest_m1)
  from triggered_price_criterion_full_proximity [OF d20.decimal_rounding_axioms sample_common(1,2) this]
  show ?thesis by blast
qed

context decimal_rounding
begin

lemma stop_loss_negative:
  assumes "ec_scaledInitialEdge c = Fin e" "ec_entryCostBaseline c = Fin b" "0 < e" "b \<le> 0"
  shows "\<exists>t. stopLossThreshold rd c = Fin t \<and> t < 0"
proof -
  have "rd (e * (- 2)) < 0" using assms(3) by simp
  then have "b + rd (e * (- 2)) < 0" using assms(4) by linarith
  then have "rd (b + rd (e * (- 2))) < 0" by (rule rd_neg)
  then show ?thesis using assms(1,2) by (simp add: stopLossThreshold_def SL_MULTIPLIER_def)
qed

lemma fixed_sides:
  assumes "finite_common c" "ec_scaledInitialEdge c = Fin e" "0 < e" "ec_entryCostBaseline c = Fin b" "b \<le> 0"
  shows "(res_type (evaluateFixed rd p c) = Some StopLoss \<longleftrightarrow> xle (ec_currentPnl c) (stopLossThreshold rd c))
    \<and> (res_type (evaluateFixed rd p c) = Some TakeProfit \<longleftrightarrow> xge (ec_currentPnl c) (takeProfitThreshold rd c))
    \<and> (res_type (evaluateFixed rd p c) = Some StopLoss \<longrightarrow> xlt (ec_currentPnl c) (Fin 0))
    \<and> (res_type (evaluateFixed rd p c) = Some TakeProfit \<longrightarrow> xgt (ec_currentPnl c) (Fin 0))
    \<and> (res_type (evaluateFixed rd p c) = None \<longrightarrow>
         xlt (stopLossThreshold rd c) (ec_currentPnl c) \<and> xlt (ec_currentPnl c) (takeProfitThreshold rd c)
         \<and> (\<forall>d. in_resolutionDate p = Some d \<longrightarrow> \<not> xle (hoursRemaining d (in_now p)) (Fin 48)))"
proof -
  obtain t where t: "stopLossThreshold rd c = Fin t" "t < 0"
    using stop_loss_negative [OF assms(2,4,3,5)] by blast
  obtain u where u: "takeProfitThreshold rd c = Fin u" "0 < u"
    using take_profit_positive [OF decimal_rounding_axioms assms(3), of b]
    unfolding takeProfitThreshold_def assms(2,4) by blast
  obtain x where x: "ec_currentPnl c = Fin x" using assms(1) by (auto simp: finite_common_def elim!: is_finE)
  show ?thesis
    using t u by (auto simp: evaluateFixed_def mk_result_def x split: option.splits)
qed

end

text \<open>
  outside the model mode (so also in shadow mode) the exit is the fixed one: for a position
  with a positive edge and a baseline that is not positive, stop loss exactly at or below its
  threshold and only at a loss, take profit exactly at or above its threshold and only at a
  profit, and no exit only strictly between the two and more than 48 hours before resolution.
\<close>
theorem fixed_exit_decision:
  fixes pow :: "jsnum \<Rightarrow> jsnum \<Rightarrow> jsnum"
  assumes "decimal_rounding rd" "in_exitMode p \<noteq> Some ModelMode" "finite_common (computeCommon rd p)"
    and "ec_scaledInitialEdge (computeCommon rd p) = Fin e" "0 < e"
    and "ec_entryCostBaseline (computeCommon rd p) = Fin b" "b \<le> 0"
  defines "c \<equiv> computeCommon rd p" and "t \<equiv> res_type (evaluate rd pow p)"
  shows "(t = Some StopLoss \<longleftrightarrow> xle (ec_currentPnl c) (stopLossThreshold rd c))
    \<and> (t = Some TakeProfit \<longleftrightarrow> xge (ec_currentPnl c) (takeProfitThreshold rd c))
    \<and> (t = Some StopLoss \<longrightarrow> xlt (ec_currentPnl c) (Fin 0))
    \<and> (t = Some TakeProfit \<longrightarrow> xgt (ec_currentPnl c) (Fin 0))
    \<and> (t = None \<longrightarrow>
         xlt (stopLossThreshold rd c) (ec_currentPnl c) \<and> xlt (ec_currentPnl c) (takeProfitThreshold rd c)
         \<and> (\<forall>d. in_resolutionDate p = Some d \<longrightarrow> \<not> xle (hoursRemaining d (in_now p)) (Fin 48)))"
proof -
  have "t = res_type (evaluateFixed rd p c)"
    using assms(2) by (cases "in_exitMode p")
      (auto simp: evaluate_def t_def c_def or_default_def Let_def split: exit_mode.splits)
  then show ?thesis
    using decimal_rounding.fixed_sides [OF assms(1) assms(3-7), of p] unfolding c_def by simp
qed

theorem fixed_exit_decision_witness:
  "(res_type (evaluate dec20 (\<lambda>_ _. Fin 0) sample_input) = Some StopLoss) =
     xle (ec_currentPnl (computeCommon dec20 sample_input)) (stopLossThreshold dec20 (computeCommon dec20 sample_input))"
proof -
  have "in_exitMode sample_input \<noteq> Some ModelMode" by (simp add: sample_input_def)
  from fixed_exit_decision [OF d20.decimal_rounding_axioms this sample_common(1,3) _ sample_common(4), of "\<lambda>_ _. Fin 0"]
  show ?thesis by simp
qed

end
