(* ===== verification/Alerting.thy ===== *)
theory Alerting
  imports Prelude "HOL-Library.Multiset"
begin

text \<open>
  \<^verbatim>\<open>TelegramCircuitBreakerService\<close> and \<^verbatim>\<open>withRetry\<close>: alerts that cannot be sent
  wait in a bounded buffer; after enough consecutive failures a circuit breaker stops sending
  for a while; a success drains the buffer, most severe first.  What the HTTP call returns is an
  argument of each operation, one outcome per attempt.  A drain is modelled without other calls
  in between.  The lemmas show that the buffer stays bounded, whom an eviction takes, and what a
  drain delivers and keeps.
\<close>

section \<open>Retries\<close>

text \<open>
  The attempts \<open>attempt\<close>, \<open>attempt + 1\<close>, \dots with \<open>left\<close> more allowed after the
  first; the state threads through them, the last error is what is thrown.
\<close>

fun retry_loop :: "(nat \<Rightarrow> 's \<Rightarrow> 's \<times> ('e + 'a)) \<Rightarrow> nat \<Rightarrow> nat \<Rightarrow> 's \<Rightarrow> 's \<times> ('e + 'a)" where
  "retry_loop fn attempt 0 s = fn attempt s"
| "retry_loop fn attempt (Suc left) s =
     (case fn attempt s of
        (s', Inr a) \<Rightarrow> (s', Inr a)
      | (s', Inl e) \<Rightarrow> retry_loop fn (Suc attempt) left s')"

definition withRetry :: "(nat \<Rightarrow> 's \<Rightarrow> 's \<times> ('e + 'a)) \<Rightarrow> nat \<Rightarrow> 's \<Rightarrow> 's \<times> ('e + 'a)" where
  "withRetry fn maxRetries s = retry_loop fn 0 maxRetries s"

record retry_strategy =
  initialDelayMs :: jsnum
  maxDelayMs :: jsnum
  backoffMultiplier :: jsnum

text \<open>The wait before the next attempt; \<open>r\<close> is the value of \<^verbatim>\<open>Math.random()\<close>.\<close>

definition retryDelay :: "(jsnum \<Rightarrow> jsnum \<Rightarrow> jsnum) \<Rightarrow> retry_strategy \<Rightarrow> nat \<Rightarrow> jsnum \<Rightarrow> jsnum" where
  "retryDelay pow st attempt r =
     (let baseDelay = xmul b64 (initialDelayMs st) (pow (backoffMultiplier st) (Fin (of_nat attempt)));
          cappedDelay = xmin baseDelay (maxDelayMs st);
          jitter = xmul b64 cappedDelay (xadd b64 (Fin (1/2)) r)
      in xmin jitter (maxDelayMs st))"

section \<open>State\<close>

datatype severity = Critical | Warning | Info

fun SEVERITY_PRIORITY :: "severity \<Rightarrow> nat" where
  "SEVERITY_PRIORITY Critical = 3"
| "SEVERITY_PRIORITY Warning = 2"
| "SEVERITY_PRIORITY Info = 1"

record buffered_message =
  msgText :: string
  msgSeverity :: severity
  msgTimestamp :: timestamp

datatype circuit_state = CLOSED_CIRCUIT | OPEN_CIRCUIT | HALF_OPEN_CIRCUIT

record breaker =
  maxRetriesCfg :: jsnum
  bufferMaxSize :: jsnum
  circuitBreakMs :: jsnum
  consecutiveFailures :: nat
  circuitOpenUntil :: jsnum
  lastRetryAfterMs :: jsnum
  buffer :: "buffered_message list"
  draining :: bool

record breaker_settings =
  setMaxRetries :: "jsnum option"
  setBufferMaxSize :: "jsnum option"
  setCircuitBreakMs :: "jsnum option"

definition breaker_reloadConfig :: "breaker_settings \<Rightarrow> breaker \<Rightarrow> breaker" where
  "breaker_reloadConfig st b =
     b\<lparr>maxRetriesCfg := (case setMaxRetries st of Some v \<Rightarrow> v | None \<Rightarrow> maxRetriesCfg b),
       bufferMaxSize := (case setBufferMaxSize st of Some v \<Rightarrow> v | None \<Rightarrow> bufferMaxSize b),
       circuitBreakMs := (case setCircuitBreakMs st of Some v \<Rightarrow> v | None \<Rightarrow> circuitBreakMs b)\<rparr>"

section \<open>Sending\<close>

definition getCircuitState :: "timestamp \<Rightarrow> breaker \<Rightarrow> circuit_state" where
  "getCircuitState now b =
     (if xge (Fin (of_nat (consecutiveFailures b))) (maxRetriesCfg b) then
        if xge (Fin (of_int now)) (circuitOpenUntil b) then HALF_OPEN_CIRCUIT else OPEN_CIRCUIT
      else CLOSED_CIRCUIT)"

text \<open>
  The response: a network error, a 429 with the delay it asks for, another HTTP error, or a
  body that says whether it worked (an unreadable one counts as a failure).
\<close>

datatype http_outcome = NetworkError | TooManyRequests "jsnum option" | HttpError | Body bool

fun sendMessage :: "http_outcome \<Rightarrow> breaker \<Rightarrow> breaker \<times> bool" where
  "sendMessage NetworkError b = (b, False)"
| "sendMessage (TooManyRequests after) b =
     ((case after of
         Some r \<Rightarrow> if xgt r (Fin 0) then b\<lparr>lastRetryAfterMs := xmul b64 r (Fin 1000)\<rparr> else b
       | None \<Rightarrow> b), False)"
| "sendMessage HttpError b = (b, False)"
| "sendMessage (Body ok) b = (b, ok)"

definition lowest_priority :: "buffered_message list \<Rightarrow> nat option" where
  "lowest_priority ms = foldl (\<lambda>lowest m. case lowest of
     None \<Rightarrow> Some (SEVERITY_PRIORITY (msgSeverity m))
   | Some p \<Rightarrow> if SEVERITY_PRIORITY (msgSeverity m) < p then Some (SEVERITY_PRIORITY (msgSeverity m)) else Some p) None ms"

text \<open>Index and timestamp of the oldest message of the given priority, the first among equals.\<close>

definition oldest_of :: "nat option \<Rightarrow> buffered_message list \<Rightarrow> (nat \<times> timestamp) option" where
  "oldest_of lowest ms = foldl (\<lambda>best (i, m).
     if Some (SEVERITY_PRIORITY (msgSeverity m)) = lowest
        \<and> (case best of None \<Rightarrow> True | Some (_, t) \<Rightarrow> msgTimestamp m < t)
     then Some (i, msgTimestamp m) else best) None (enumerate 0 ms)"

definition evictLowestPriority :: "buffered_message list \<Rightarrow> buffered_message list" where
  "evictLowestPriority ms =
     (case oldest_of (lowest_priority ms) ms of
        Some (i, _) \<Rightarrow> take i ms @ drop (Suc i) ms
      | None \<Rightarrow> ms)"

definition bufferMessage :: "string \<Rightarrow> severity \<Rightarrow> timestamp \<Rightarrow> breaker \<Rightarrow> breaker" where
  "bufferMessage txt sev now b =
     (let msg = \<lparr>msgText = txt, msgSeverity = sev, msgTimestamp = now\<rparr>;
          ms = (if xge (Fin (of_nat (length (buffer b)))) (bufferMaxSize b)
                then evictLowestPriority (buffer b) else buffer b)
      in b\<lparr>buffer := ms @ [msg]\<rparr>)"

text \<open>The flag says whether a drain is scheduled.\<close>

definition triggerBufferDrain :: "breaker \<Rightarrow> breaker \<times> bool" where
  "triggerBufferDrain b = (if draining b \<or> buffer b = [] then (b, False) else (b\<lparr>draining := True\<rparr>, True))"

text \<open>\<open>now\<close> is read before the request and \<open>later\<close> after it.\<close>

definition enqueueAndSend ::
  "string \<Rightarrow> severity \<Rightarrow> timestamp \<Rightarrow> timestamp \<Rightarrow> http_outcome \<Rightarrow> breaker \<Rightarrow> breaker \<times> bool" where
  "enqueueAndSend txt sev now later outcome b =
     (if getCircuitState now b = OPEN_CIRCUIT then (bufferMessage txt sev now b, False)
      else
        let (b1, success) = sendMessage outcome b in
        if success then triggerBufferDrain (b1\<lparr>consecutiveFailures := 0, lastRetryAfterMs := Fin 0\<rparr>)
        else
          let b2 = bufferMessage txt sev later (b1\<lparr>consecutiveFailures := Suc (consecutiveFailures b1)\<rparr>)
          in (if xge (Fin (of_nat (consecutiveFailures b2))) (maxRetriesCfg b2)
              then b2\<lparr>circuitOpenUntil := xadd b64 (Fin (of_int later)) (xmax (circuitBreakMs b2) (lastRetryAfterMs b2))\<rparr>
              else b2, False))"

section \<open>Draining\<close>

definition drain_send :: "(nat \<Rightarrow> http_outcome) \<Rightarrow> breaker \<Rightarrow> breaker \<times> (unit + unit)" where
  "drain_send outcomes b = withRetry (\<lambda>attempt b. case sendMessage (outcomes attempt) b of
     (b', True) \<Rightarrow> (b', Inr ()) | (b', False) \<Rightarrow> (b', Inl ())) 2 b"

text \<open>
  The messages left of the sorted buffer, with the outcomes of each message's attempts; the
  result is the state, what was delivered and what stays.
\<close>

fun drain_loop ::
  "(nat \<Rightarrow> nat \<Rightarrow> http_outcome) \<Rightarrow> nat \<Rightarrow> buffered_message list \<Rightarrow> breaker
     \<Rightarrow> breaker \<times> buffered_message list \<times> buffered_message list" where
  "drain_loop outcomes i [] b = (b, [], [])"
| "drain_loop outcomes i (m # ms) b =
     (case drain_send (outcomes i) b of
        (b', Inr _) \<Rightarrow> (case drain_loop outcomes (Suc i) ms b' of (b'', sent, rest) \<Rightarrow> (b'', m # sent, rest))
      | (b', Inl _) \<Rightarrow> (b', [], m # ms))"

definition drain_order :: "buffered_message list \<Rightarrow> buffered_message list" where
  "drain_order ms = sort_key (\<lambda>m. 3 - SEVERITY_PRIORITY (msgSeverity m)) ms"

definition drainBuffer :: "(nat \<Rightarrow> nat \<Rightarrow> http_outcome) \<Rightarrow> breaker \<Rightarrow> breaker \<times> buffered_message list" where
  "drainBuffer outcomes b =
     (case drain_loop outcomes 0 (drain_order (buffer b)) b of
        (b', sent, rest) \<Rightarrow> (b'\<lparr>buffer := rest, draining := False\<rparr>, sent))"

section \<open>Facts\<close>

lemma priority_range: "1 \<le> SEVERITY_PRIORITY s \<and> SEVERITY_PRIORITY s \<le> 3"
  by (cases s) simp_all

lemma foldl_lowest:
  "foldl (\<lambda>lowest m. case lowest of
     None \<Rightarrow> Some (SEVERITY_PRIORITY (msgSeverity m))
   | Some p \<Rightarrow> if SEVERITY_PRIORITY (msgSeverity m) < p then Some (SEVERITY_PRIORITY (msgSeverity m)) else Some p) (Some p) ms
   = Some (foldl min p (map (\<lambda>m. SEVERITY_PRIORITY (msgSeverity m)) ms))"
  by (induction ms arbitrary: p) (auto simp: min_def)

lemma foldl_min_props:
  fixes p :: nat
  shows "foldl min p xs \<in> insert p (set xs) \<and> (\<forall>x \<in> insert p (set xs). foldl min p xs \<le> x)"
proof (induction xs arbitrary: p)
  case (Cons a xs)
  from Cons.IH [of "min p a"] show ?case by (auto simp: min_le_iff_disj min_def split: if_splits)
qed simp

lemma lowest_priority_props:
  assumes "ms \<noteq> []"
  obtains p where "lowest_priority ms = Some p" "p \<in> (\<lambda>m. SEVERITY_PRIORITY (msgSeverity m)) ` set ms"
    "\<And>m. m \<in> set ms \<Longrightarrow> p \<le> SEVERITY_PRIORITY (msgSeverity m)"
proof -
  obtain m ms' where m: "ms = m # ms'" using assms by (cases ms) auto
  let ?xs = "map (\<lambda>m. SEVERITY_PRIORITY (msgSeverity m)) ms'" and ?p = "SEVERITY_PRIORITY (msgSeverity m)"
  have "lowest_priority ms = Some (foldl min ?p ?xs)"
    by (simp add: lowest_priority_def m foldl_lowest)
  then show ?thesis using that [of "foldl min ?p ?xs"] foldl_min_props [of ?p ?xs] by (auto simp: m)
qed

text \<open>The running best of the search, over the messages seen so far.\<close>

lemma oldest_snoc:
  "oldest_of low (ms @ [m]) =
     (if Some (SEVERITY_PRIORITY (msgSeverity m)) = low
        \<and> (case oldest_of low ms of None \<Rightarrow> True | Some (_, t) \<Rightarrow> msgTimestamp m < t)
      then Some (length ms, msgTimestamp m) else oldest_of low ms)"
  by (simp add: oldest_of_def enumerate_append_eq)

lemma oldest_props:
  "case oldest_of low ms of
     None \<Rightarrow> \<forall>m \<in> set ms. Some (SEVERITY_PRIORITY (msgSeverity m)) \<noteq> low
   | Some (i, t) \<Rightarrow> i < length ms \<and> t = msgTimestamp (ms ! i) \<and> Some (SEVERITY_PRIORITY (msgSeverity (ms ! i))) = low
       \<and> (\<forall>m \<in> set ms. Some (SEVERITY_PRIORITY (msgSeverity m)) = low \<longrightarrow> t \<le> msgTimestamp m)"
proof (induction ms rule: rev_induct)
  case Nil
  then show ?case by (simp add: oldest_of_def)
next
  case (snoc m ms)
  then show ?case by (auto simp: oldest_snoc nth_append split: option.splits prod.splits if_splits)
qed

lemma eviction_split:
  assumes "ms \<noteq> []"
  shows "\<exists>as m bs. ms = as @ m # bs \<and> evictLowestPriority ms = as @ bs
    \<and> (\<forall>m' \<in> set ms. SEVERITY_PRIORITY (msgSeverity m) \<le> SEVERITY_PRIORITY (msgSeverity m')
        \<and> (msgSeverity m' = msgSeverity m \<longrightarrow> msgTimestamp m \<le> msgTimestamp m'))"
proof -
  obtain p where p: "lowest_priority ms = Some p" "p \<in> (\<lambda>m. SEVERITY_PRIORITY (msgSeverity m)) ` set ms"
    "\<And>m. m \<in> set ms \<Longrightarrow> p \<le> SEVERITY_PRIORITY (msgSeverity m)"
    using lowest_priority_props [OF assms] by blast
  obtain i t where o: "oldest_of (Some p) ms = Some (i, t)"
    using oldest_props [where low = "Some p" and ms = ms] p(2) by (auto split: option.splits)
  have i: "i < length ms" "t = msgTimestamp (ms ! i)" "SEVERITY_PRIORITY (msgSeverity (ms ! i)) = p"
    "\<And>m. m \<in> set ms \<Longrightarrow> SEVERITY_PRIORITY (msgSeverity m) = p \<Longrightarrow> t \<le> msgTimestamp m"
    using oldest_props [where low = "Some p" and ms = ms] o by auto
  have "ms = take i ms @ ms ! i # drop (Suc i) ms" using i(1) by (rule id_take_nth_drop)
  moreover have "evictLowestPriority ms = take i ms @ drop (Suc i) ms"
    by (simp add: evictLowestPriority_def p(1) o)
  moreover have "SEVERITY_PRIORITY (msgSeverity (ms ! i)) \<le> SEVERITY_PRIORITY (msgSeverity m')
        \<and> (msgSeverity m' = msgSeverity (ms ! i) \<longrightarrow> msgTimestamp (ms ! i) \<le> msgTimestamp m')" if "m' \<in> set ms" for m'
    using i(2,3) i(4) [OF that] p(3) [OF that] by auto
  ultimately show ?thesis by blast
qed

text \<open>
  an eviction takes one message out of a non-empty buffer and leaves the others in order:
  no other message is of lower severity, and none of the same severity is older.
\<close>
theorem eviction_takes_oldest_of_lowest:
  assumes "ms \<noteq> []"
  shows "\<exists>as m bs. ms = as @ m # bs \<and> evictLowestPriority ms = as @ bs
    \<and> (\<forall>m' \<in> set ms. SEVERITY_PRIORITY (msgSeverity m) \<le> SEVERITY_PRIORITY (msgSeverity m')
        \<and> (msgSeverity m' = msgSeverity m \<longrightarrow> msgTimestamp m \<le> msgTimestamp m'))"
  by (rule eviction_split [OF assms])

definition sample_messages :: "buffered_message list" where
  "sample_messages = [\<lparr>msgText = ''a'', msgSeverity = Critical, msgTimestamp = 1\<rparr>,
     \<lparr>msgText = ''b'', msgSeverity = Info, msgTimestamp = 3\<rparr>, \<lparr>msgText = ''c'', msgSeverity = Info, msgTimestamp = 2\<rparr>]"

theorem eviction_takes_oldest_of_lowest_witness:
  "\<exists>as m bs. sample_messages = as @ m # bs \<and> evictLowestPriority sample_messages = as @ bs
    \<and> (\<forall>m' \<in> set sample_messages. SEVERITY_PRIORITY (msgSeverity m) \<le> SEVERITY_PRIORITY (msgSeverity m')
        \<and> (msgSeverity m' = msgSeverity m \<longrightarrow> msgTimestamp m \<le> msgTimestamp m'))"
  by (rule eviction_takes_oldest_of_lowest) (simp add: sample_messages_def)

lemma evict_length: "length (evictLowestPriority ms) = length ms - 1"
proof (cases "ms = []")
  case True
  then show ?thesis by (simp add: evictLowestPriority_def lowest_priority_def oldest_of_def)
next
  case False
  then obtain as m bs where "ms = as @ m # bs" "evictLowestPriority ms = as @ bs"
    using eviction_split by blast
  then show ?thesis by simp
qed


section \<open>The buffer stays bounded, a drain loses nothing\<close>

definition within_capacity :: "nat \<Rightarrow> breaker \<Rightarrow> bool" where
  "within_capacity n b \<longleftrightarrow> bufferMaxSize b = Fin (of_nat n) \<and> length (buffer b) \<le> n"

lemma bufferMessage_bounded:
  assumes "within_capacity n b" "1 \<le> n"
  shows "within_capacity n (bufferMessage txt sev now b)"
  using assms evict_length [of "buffer b"]
  by (auto simp: within_capacity_def bufferMessage_def Let_def)

lemma sendMessage_frame [simp]:
  "buffer (fst (sendMessage out b)) = buffer b"
  "bufferMaxSize (fst (sendMessage out b)) = bufferMaxSize b"
  by (cases out; simp split: option.splits)+

lemma send_frame_pair: "sendMessage out b = (b', ok) \<Longrightarrow> buffer b' = buffer b \<and> bufferMaxSize b' = bufferMaxSize b"
  using sendMessage_frame [of out b] by simp

lemma send_within: "within_capacity n (fst (sendMessage out b)) = within_capacity n b"
  by (simp add: within_capacity_def)

text \<open>
  an alert never grows the buffer beyond its capacity (of at least one), whatever the
  circuit state and the outcome, and the alert itself is either sent or the last one buffered.
\<close>
theorem alert_sent_or_buffered:
  assumes "within_capacity n b" "1 \<le> n"
  shows "within_capacity n (fst (enqueueAndSend txt sev now later out b))
    \<and> (getCircuitState now b \<noteq> OPEN_CIRCUIT \<and> snd (sendMessage out b)
       \<or> (\<exists>ms t. buffer (fst (enqueueAndSend txt sev now later out b)) =
            ms @ [\<lparr>msgText = txt, msgSeverity = sev, msgTimestamp = t\<rparr>]))"
proof -
  obtain b1 ok where s: "sendMessage out b = (b1, ok)" by (cases "sendMessage out b") auto
  have w: "within_capacity n b1" using send_within [of n out b] assms(1) s by simp
  have w': "within_capacity n (b1\<lparr>consecutiveFailures := k\<rparr>)" for k using w by (simp add: within_capacity_def)
  have "within_capacity n (bufferMessage txt sev later (b1\<lparr>consecutiveFailures := k\<rparr>))" for k
    by (rule bufferMessage_bounded [OF w' assms(2)])
  then have "within_capacity n (fst (enqueueAndSend txt sev now later out b))"
    using bufferMessage_bounded [OF assms, of "txt" sev now] w
    by (auto simp: enqueueAndSend_def s Let_def triggerBufferDrain_def within_capacity_def)
  then show ?thesis
    by (auto simp: enqueueAndSend_def s Let_def bufferMessage_def)
qed

definition sample_breaker :: breaker where
  "sample_breaker = \<lparr>maxRetriesCfg = Fin 3, bufferMaxSize = Fin (of_nat 3), circuitBreakMs = Fin 60000,
     consecutiveFailures = 0, circuitOpenUntil = Fin 0, lastRetryAfterMs = Fin 0, buffer = sample_messages,
     draining = False\<rparr>"

theorem alert_sent_or_buffered_witness:
  "within_capacity 3 (fst (enqueueAndSend ''d'' Warning 5 6 NetworkError sample_breaker))"
proof -
  have "within_capacity 3 sample_breaker" by (simp add: within_capacity_def sample_breaker_def sample_messages_def)
  from alert_sent_or_buffered [OF this, of "''d''" Warning 5 6 NetworkError] show ?thesis by simp
qed

lemma drain_loop_splits:
  "drain_loop outs i ms b = (b', sent, rest) \<Longrightarrow> ms = sent @ rest \<and> bufferMaxSize b' = bufferMaxSize b"
proof (induction ms arbitrary: i b b' sent rest)
  case (Cons m ms)
  have frame: "bufferMaxSize (fst (retry_loop (\<lambda>attempt b. case sendMessage (o' attempt) b of
     (b', True) \<Rightarrow> (b', Inr ()) | (b', False) \<Rightarrow> (b', Inl ())) a k b)) = bufferMaxSize b" for o' a k b
  proof (induction k arbitrary: a b)
    case 0
    show ?case by (auto dest: send_frame_pair split: prod.splits bool.splits)
  next
    case (Suc k)
    show ?case
      using Suc.IH by (auto dest: send_frame_pair split: prod.splits bool.splits)
  qed
  obtain b1 res where d: "drain_send (outs i) b = (b1, res)" by (cases "drain_send (outs i) b") auto
  have "bufferMaxSize b1 = bufferMaxSize b"
    using d frame [of "outs i" 0 2 b] by (simp add: drain_send_def withRetry_def)
  then show ?case
    using Cons.prems Cons.IH d by (auto split: sum.splits prod.splits)
qed simp

text \<open>
  a drain delivers a first part of the buffer in order of severity (equal severities in
  arrival order) and keeps the rest, in that order, for later: nothing is lost or sent twice,
  and no message is delivered before a more severe one.
\<close>
theorem drain_delivers_prefix_by_severity:
  "case drainBuffer outs b of (b', sent) \<Rightarrow>
     sent @ buffer b' = drain_order (buffer b) \<and> mset (sent @ buffer b') = mset (buffer b)
     \<and> sorted (map (\<lambda>m. 3 - SEVERITY_PRIORITY (msgSeverity m)) (sent @ buffer b')) \<and> \<not> draining b'"
proof -
  obtain b' sent rest where d: "drain_loop outs 0 (drain_order (buffer b)) b = (b', sent, rest)"
    by (metis prod_cases3)
  have "sent @ rest = drain_order (buffer b)" using drain_loop_splits [OF d] by simp
  moreover have "sorted (map (\<lambda>m. 3 - SEVERITY_PRIORITY (msgSeverity m)) (drain_order (buffer b)))"
    by (simp add: drain_order_def)
  moreover have "mset (drain_order (buffer b)) = mset (buffer b)" by (simp add: drain_order_def)
  ultimately show ?thesis by (simp add: drainBuffer_def d del: map_append mset_append)
qed

text \<open>A retry makes at most one attempt more than it may repeat, and stops at the first success.\<close>

lemma withRetry_success:
  assumes "\<And>i. i \<le> n \<Longrightarrow> fn i = (\<lambda>s. (s + 1, if i = k then Inr a else Inl e))" "k \<le> n"
  shows "withRetry fn n (0::nat) = (k + 1, Inr a)"
proof -
  have "retry_loop fn i left (i::nat) = (k + 1, Inr a)" if "i \<le> k" "i + left = n" for i left
    using that
  proof (induction left arbitrary: i)
    case 0
    then show ?case using assms by simp
  next
    case (Suc left)
    then show ?case using assms(1) [of i] by (cases "i = k") auto
  qed
  from this [of 0 n] show ?thesis using assms(2) by (simp add: withRetry_def)
qed

end
