(* ===== verification/Correlation.thy ===== *)
theory Correlation
  imports Financial
begin

text \<open>
  \<^verbatim>\<open>CorrelationTrackerService\<close>: the capital deployed per correlation cluster, as a
  share of the bankroll.  A position row of the database is a record whose JSON columns are
  \<open>None\<close> when they do not parse (the code skips such a row).  The database query is the
  filter its \<^verbatim>\<open>where\<close> clause states.  The lemmas show what one full recalculation
  computes for every cluster, and that recalculating a single cluster gives the same entry and
  leaves the others alone.
\<close>

section \<open>State\<close>

record cluster_exposure =
  clusterId :: string
  clusterName :: string
  exposureUsd :: decimal
  exposurePct :: decimal
  pairCount :: nat

record tracker =
  clusterExposures :: "cluster_exposure list"
  trackerBankrollUsd :: decimal
  softLimitPct :: decimal

record leg_pair =
  kalshi_leg :: decimal
  polymarket_leg :: decimal

datatype position_status = OPEN | SINGLE_LEG_EXPOSED | EXIT_PARTIAL | RECONCILIATION_REQUIRED | CLOSED

record position_row =
  positionId :: string
  positionPairId :: string
  positionStatus :: position_status
  positionIsPaper :: bool
  positionSizes :: "leg_pair option"
  positionEntryPrices :: "leg_pair option"
  positionPolymarketSide :: "string option"
  positionKalshiSide :: "string option"
  positionExpectedEdge :: rat
  positionClusterId :: "string option"
  positionClusterName :: "string option"

datatype cluster_event = ClusterLimitApproached string string jsnum jsnum

section \<open>Operations\<close>

definition updateBankroll :: "decimal \<Rightarrow> tracker \<Rightarrow> tracker" where
  "updateBankroll b t = t\<lparr>trackerBankrollUsd := b\<rparr>"

definition truthy :: "string option \<Rightarrow> bool" where
  "truthy s = (case s of None \<Rightarrow> False | Some x \<Rightarrow> x \<noteq> [])"

definition is_active :: "position_status \<Rightarrow> bool" where
  "is_active st \<longleftrightarrow> st \<in> {OPEN, SINGLE_LEG_EXPOSED, EXIT_PARTIAL}"

definition findActive :: "string option \<Rightarrow> bool \<Rightarrow> position_row list \<Rightarrow> position_row list" where
  "findActive cid isPaper rows = filter (\<lambda>r. is_active (positionStatus r) \<and> positionIsPaper r = isPaper
     \<and> (truthy cid \<longrightarrow> positionClusterId r = cid)) rows"

definition legCapital :: "(rat \<Rightarrow> rat) \<Rightarrow> string option \<Rightarrow> decimal \<Rightarrow> decimal \<Rightarrow> decimal" where
  "legCapital rd side legPrice sz =
     (case side of
        Some s \<Rightarrow> if s \<noteq> [] then calculateLegCapital rd s legPrice sz else xmul rd sz legPrice
      | None \<Rightarrow> xmul rd sz legPrice)"

definition positionCapital :: "(rat \<Rightarrow> rat) \<Rightarrow> position_row \<Rightarrow> decimal option" where
  "positionCapital rd r =
     (case (positionSizes r, positionEntryPrices r) of
        (Some sizes, Some prices) \<Rightarrow>
          let polyCapital = legCapital rd (positionPolymarketSide r) (polymarket_leg prices) (polymarket_leg sizes);
              kalshiCapital = legCapital rd (positionKalshiSide r) (kalshi_leg prices) (kalshi_leg sizes)
          in Some (xadd rd polyCapital kalshiCapital)
      | _ \<Rightarrow> None)"

type_synonym cluster_map = "(string \<times> (string \<times> decimal \<times> nat)) list"

definition addPosition :: "(rat \<Rightarrow> rat) \<Rightarrow> position_row \<Rightarrow> cluster_map \<Rightarrow> cluster_map" where
  "addPosition rd r m =
     (case (positionClusterId r, positionClusterName r) of
        (Some cId, Some name) \<Rightarrow>
          if cId = [] then m
          else (case positionCapital rd r of
             None \<Rightarrow> m
           | Some cap \<Rightarrow>
               (case map_of m cId of
                  Some (name', sofar, n) \<Rightarrow> map_set cId (name', xadd rd sofar cap, n + 1) m
                | None \<Rightarrow> map_set cId (name, cap, 1) m))
      | _ \<Rightarrow> m)"

definition groupByCluster :: "(rat \<Rightarrow> rat) \<Rightarrow> position_row list \<Rightarrow> cluster_map" where
  "groupByCluster rd rows = foldl (\<lambda>m r. addPosition rd r m) [] rows"

definition toExposure :: "(rat \<Rightarrow> rat) \<Rightarrow> decimal \<Rightarrow> string \<times> (string \<times> decimal \<times> nat) \<Rightarrow> cluster_exposure" where
  "toExposure rd bankroll e = (case e of (cId, name, capital, n) \<Rightarrow>
     \<lparr>clusterId = cId, clusterName = name, exposureUsd = capital,
      exposurePct = xdiv rd capital bankroll, pairCount = n\<rparr>)"

definition softLimitEvents :: "tracker \<Rightarrow> cluster_event list" where
  "softLimitEvents t = map (\<lambda>e. ClusterLimitApproached (clusterName e) (clusterId e)
       (to_number (exposurePct e)) (to_number (softLimitPct t)))
     (filter (\<lambda>e. xge (exposurePct e) (softLimitPct t)) (clusterExposures t))"

definition recalculateClusterExposure ::
  "(rat \<Rightarrow> rat) \<Rightarrow> position_row list \<Rightarrow> string option \<Rightarrow> bool \<Rightarrow> tracker \<Rightarrow> tracker \<times> cluster_event list" where
  "recalculateClusterExposure rd db cid isPaper t =
     (let m = groupByCluster rd (findActive cid isPaper db);
          exposures =
            (case cid of
               Some c \<Rightarrow>
                 if c \<noteq> [] then
                   filter (\<lambda>e. clusterId e \<noteq> c) (clusterExposures t) @
                   (case map_of m c of
                      Some v \<Rightarrow> [toExposure rd (trackerBankrollUsd t) (c, v)]
                    | None \<Rightarrow> [])
                 else map (toExposure rd (trackerBankrollUsd t)) m
             | None \<Rightarrow> map (toExposure rd (trackerBankrollUsd t)) m);
          t' = t\<lparr>clusterExposures := exposures\<rparr>
      in (t', softLimitEvents t'))"

definition getAggregateExposurePct :: "(rat \<Rightarrow> rat) \<Rightarrow> tracker \<Rightarrow> decimal" where
  "getAggregateExposurePct rd t = xsum rd (map exposurePct (clusterExposures t))"

record triage_recommendation =
  triagePositionId :: string
  triagePairId :: string
  triageExpectedEdge :: rat
  triageCapitalDeployed :: decimal

definition toTriage :: "(rat \<Rightarrow> rat) \<Rightarrow> position_row \<Rightarrow> triage_recommendation list" where
  "toTriage rd r = (case positionCapital rd r of
     None \<Rightarrow> []
   | Some cap \<Rightarrow> [\<lparr>triagePositionId = positionId r, triagePairId = positionPairId r,
       triageExpectedEdge = positionExpectedEdge r, triageCapitalDeployed = cap\<rparr>])"

text \<open>The \<^verbatim>\<open>where\<close> clause always names the cluster here.\<close>

definition getTriageRecommendations ::
  "(rat \<Rightarrow> rat) \<Rightarrow> position_row list \<Rightarrow> string \<Rightarrow> bool \<Rightarrow> triage_recommendation list" where
  "getTriageRecommendations rd db cid isPaper =
     sort_key triageExpectedEdge (concat (map (toTriage rd)
       (filter (\<lambda>r. is_active (positionStatus r) \<and> positionIsPaper r = isPaper
          \<and> positionClusterId r = Some cid) db)))"

definition onPositionsChanged :: "(rat \<Rightarrow> rat) \<Rightarrow> position_row list \<Rightarrow> tracker \<Rightarrow> tracker \<times> cluster_event list" where
  "onPositionsChanged rd db t = recalculateClusterExposure rd db None False t"


section \<open>What a recalculation computes\<close>

text \<open>The name and capital one row adds to a cluster, if it adds any.\<close>

definition contribution :: "(rat \<Rightarrow> rat) \<Rightarrow> string \<Rightarrow> position_row \<Rightarrow> (string \<times> decimal) option" where
  "contribution rd c r =
     (if c \<noteq> [] \<and> positionClusterId r = Some c
      then (case (positionClusterName r, positionCapital rd r) of
              (Some n, Some x) \<Rightarrow> Some (n, x) | _ \<Rightarrow> None)
      else None)"

definition contributions :: "(rat \<Rightarrow> rat) \<Rightarrow> string \<Rightarrow> position_row list \<Rightarrow> (string \<times> decimal) list" where
  "contributions rd c rows = List.map_filter (contribution rd c) rows"

fun collect :: "(rat \<Rightarrow> rat) \<Rightarrow> (string \<times> decimal) list \<Rightarrow> (string \<times> decimal \<times> nat) option" where
  "collect rd [] = None"
| "collect rd ((n, x) # xs) = Some (n, foldl (xadd rd) x (map snd xs), Suc (length xs))"

lemma collect_snoc: "collect rd (xs @ [(n, x)]) =
    (case collect rd xs of None \<Rightarrow> Some (n, x, 1) | Some (m, y, k) \<Rightarrow> Some (m, xadd rd y x, Suc k))"
  by (cases xs) auto

lemma contributions_snoc: "contributions rd c (rows @ [r]) =
    contributions rd c rows @ (case contribution rd c r of None \<Rightarrow> [] | Some e \<Rightarrow> [e])"
  by (simp add: contributions_def map_filter_def split: option.splits)

lemma addPosition_lookup: "map_of (addPosition rd r m) c =
    (case contribution rd c r of
       None \<Rightarrow> map_of m c
     | Some (n, x) \<Rightarrow> (case map_of m c of None \<Rightarrow> Some (n, x, 1) | Some (k, y, i) \<Rightarrow> Some (k, xadd rd y x, Suc i)))"
  by (auto simp: addPosition_def contribution_def update_conv' split: option.splits)

lemma groupByCluster_snoc: "groupByCluster rd (rows @ [r]) = addPosition rd r (groupByCluster rd rows)"
  by (simp add: groupByCluster_def)

lemma groupByCluster_lookup: "map_of (groupByCluster rd rows) c = collect rd (contributions rd c rows)"
proof (induction rows rule: rev_induct)
  case Nil
  then show ?case by (simp add: groupByCluster_def contributions_def map_filter_def)
next
  case (snoc r rows)
  then show ?case
    by (auto simp: groupByCluster_snoc addPosition_lookup contributions_snoc collect_snoc
        split: option.splits)
qed

lemma addPosition_distinct: "distinct (map fst m) \<Longrightarrow> distinct (map fst (addPosition rd r m))"
  by (auto simp: addPosition_def distinct_map_set split: option.splits)

lemma groupByCluster_distinct: "distinct (map fst (groupByCluster rd rows))"
  by (induction rows rule: rev_induct) (auto simp: groupByCluster_snoc addPosition_distinct, simp add: groupByCluster_def)

lemma filter_key_distinct:
  "distinct (map fst m) \<Longrightarrow> filter (\<lambda>e. fst e = c) m = (case map_of m c of None \<Rightarrow> [] | Some v \<Rightarrow> [(c, v)])"
proof (induction m)
  case (Cons e m)
  obtain k v where e: "e = (k, v)" by (cases e)
  show ?case
  proof (cases "k = c")
    case True
    then have "map_of m c = None" using Cons.prems e by (simp add: map_of_eq_None_iff)
    then show ?thesis using Cons e True by simp
  qed (use Cons e in simp)
qed simp

lemma clusterId_toExposure [simp]: "clusterId (toExposure rd b e) = fst e"
  by (cases e) (auto simp: toExposure_def)

lemma filter_toExposure:
  "distinct (map fst m) \<Longrightarrow> filter (\<lambda>e. clusterId e = c) (map (toExposure rd b) m)
     = (case map_of m c of None \<Rightarrow> [] | Some v \<Rightarrow> [toExposure rd b (c, v)])"
  by (simp add: filter_map o_def filter_key_distinct split: option.splits)

lemma contributions_query:
  "truthy (Some c) \<Longrightarrow> contributions rd c (findActive (Some c) p db) = contributions rd c (findActive None p db)"
  by (induction db) (auto simp: contributions_def map_filter_def findActive_def truthy_def contribution_def)

lemma exposures_full:
  "clusterExposures (fst (recalculateClusterExposure rd db None p t)) =
     map (toExposure rd (trackerBankrollUsd t)) (groupByCluster rd (findActive None p db))"
  by (simp add: recalculateClusterExposure_def Let_def)

lemma exposures_one:
  "c \<noteq> [] \<Longrightarrow> clusterExposures (fst (recalculateClusterExposure rd db (Some c) p t)) =
     filter (\<lambda>e. clusterId e \<noteq> c) (clusterExposures t) @
       (case collect rd (contributions rd c (findActive None p db)) of
          None \<Rightarrow> [] | Some v \<Rightarrow> [toExposure rd (trackerBankrollUsd t) (c, v)])"
  by (simp add: recalculateClusterExposure_def Let_def groupByCluster_lookup contributions_query truthy_def)

text \<open>
  a full recalculation holds exactly one entry for a cluster that some active position
  with readable data belongs to, and none for the others; the entry counts those positions
  and sums their capital in row order.
\<close>
theorem full_recalculation_entry:
  "filter (\<lambda>e. clusterId e = c) (clusterExposures (fst (recalculateClusterExposure rd db None p t))) =
     (case contributions rd c (findActive None p db) of
        [] \<Rightarrow> []
      | (n, x) # xs \<Rightarrow>
          [\<lparr>clusterId = c, clusterName = n, exposureUsd = foldl (xadd rd) x (map snd xs),
            exposurePct = xdiv rd (foldl (xadd rd) x (map snd xs)) (trackerBankrollUsd t),
            pairCount = Suc (length xs)\<rparr>])"
  by (cases "contributions rd c (findActive None p db)")
    (auto simp: exposures_full filter_toExposure groupByCluster_distinct groupByCluster_lookup toExposure_def)

text \<open>
  recalculating one cluster gives it the entry a full recalculation would, and keeps every
  other cluster's entry as it was.
\<close>
theorem single_cluster_recalculation:
  assumes "c \<noteq> []"
  shows "filter (\<lambda>e. clusterId e = c)
        (clusterExposures (fst (recalculateClusterExposure rd db (Some c) p t)))
      = filter (\<lambda>e. clusterId e = c)
        (clusterExposures (fst (recalculateClusterExposure rd db None p t)))
    \<and> filter (\<lambda>e. clusterId e \<noteq> c)
        (clusterExposures (fst (recalculateClusterExposure rd db (Some c) p t)))
      = filter (\<lambda>e. clusterId e \<noteq> c) (clusterExposures t)"
  using assms by (simp add: exposures_one exposures_full filter_toExposure groupByCluster_distinct
      groupByCluster_lookup split: option.splits)

definition sample_rows :: "position_row list" where
  "sample_rows = [\<lparr>positionId = ''a'', positionPairId = ''p'', positionStatus = OPEN,
     positionIsPaper = False, positionSizes = Some \<lparr>kalshi_leg = Fin 100, polymarket_leg = Fin 100\<rparr>,
     positionEntryPrices = Some \<lparr>kalshi_leg = Fin (1/2), polymarket_leg = Fin (1/4)\<rparr>,
     positionPolymarketSide = Some ''buy'', positionKalshiSide = Some ''sell'',
     positionExpectedEdge = 1/50, positionClusterId = Some ''c'', positionClusterName = Some ''Politics''\<rparr>]"

definition sample_tracker :: tracker where
  "sample_tracker = \<lparr>clusterExposures = [], trackerBankrollUsd = Fin 1000, softLimitPct = Fin (3/25)\<rparr>"

theorem single_cluster_recalculation_witness:
  "filter (\<lambda>e. clusterId e = ''c'')
        (clusterExposures (fst (recalculateClusterExposure dec20 sample_rows (Some ''c'') False sample_tracker)))
      = filter (\<lambda>e. clusterId e = ''c'')
        (clusterExposures (fst (recalculateClusterExposure dec20 sample_rows None False sample_tracker)))
    \<and> filter (\<lambda>e. clusterId e \<noteq> ''c'')
        (clusterExposures (fst (recalculateClusterExposure dec20 sample_rows (Some ''c'') False sample_tracker)))
      = filter (\<lambda>e. clusterId e \<noteq> ''c'') (clusterExposures sample_tracker)"
  by (rule single_cluster_recalculation) simp

text \<open>
  Triage: the recommendations are ordered by ascending expected edge, and each is an active
  position of the asked cluster and mode.
\<close>

lemma triage_sorted: "sorted (map triageExpectedEdge (getTriageRecommendations rd db c p))"
  by (simp add: getTriageRecommendations_def)

lemma triage_members:
  "x \<in> set (getTriageRecommendations rd db c p) \<Longrightarrow>
     \<exists>r \<in> set db. positionId r = triagePositionId x \<and> is_active (positionStatus r)
       \<and> positionIsPaper r = p \<and> positionClusterId r = Some c"
  by (auto simp: getTriageRecommendations_def toTriage_def split: option.splits)

lemma updateBankroll_exposures [simp]: "clusterExposures (updateBankroll b t) = clusterExposures t"
  and updateBankroll_bankroll [simp]: "trackerBankrollUsd (updateBankroll b t) = b"
  by (simp_all add: updateBankroll_def)

end
