(* ===== verification/RiskState.thy ===== *)
theory RiskState
  imports Correlation
begin

text \<open>
  \<^verbatim>\<open>RiskStateManager\<close>, \<^verbatim>\<open>TradingHaltService\<close>, \<^verbatim>\<open>halt.utils\<close> and
  \<^verbatim>\<open>risk-config.utils\<close>: the two mode states (live, paper), the daily loss limit with its
  halt, the midnight reset, the persisted row and its restoration at start-up, and the
  validation of the configuration.  An operation takes the state and returns the new one with
  the list of its effects in order: events and upserts of the risk row.  The upsert may fail in
  the database; the code swallows that, so the state does not depend on it.  Logging is left
  out.  The data of the open reservations comes from a provider, as in the code.
\<close>

section \<open>State\<close>

definition DAILY_LOSS_LIMIT :: string where "DAILY_LOSS_LIMIT = ''daily_loss_limit''"
definition RECONCILIATION_DISCREPANCY :: string where
  "RECONCILIATION_DISCREPANCY = ''reconciliation_discrepancy''"

record mode_risk_state =
  openPositionCount :: int
  totalCapitalDeployed :: decimal
  dailyPnl :: decimal
  activeHaltReasons :: "string list"
  dailyLossApproachEmitted :: bool
  lastResetTimestamp :: "timestamp option"

definition createDefaultModeRiskState :: mode_risk_state where
  "createDefaultModeRiskState = \<lparr>openPositionCount = 0, totalCapitalDeployed = Fin 0,
     dailyPnl = Fin 0, activeHaltReasons = [], dailyLossApproachEmitted = False,
     lastResetTimestamp = None\<rparr>"

record risk_config =
  bankrollUsd :: jsnum
  paperBankrollUsd :: "jsnum option"
  maxPositionPct :: jsnum
  maxOpenPairs :: jsnum
  dailyLossPct :: jsnum

record risk_state =
  risk_cfg :: risk_config
  liveState :: mode_risk_state
  paperState :: mode_risk_state
  bankrollUpdatedAt :: timestamp
  risk_tracker :: tracker

text \<open>
  The column \<^verbatim>\<open>haltReason\<close> as \<^verbatim>\<open>JSON.parse\<close> sees it: empty or null, an array of
  strings, a string, any other JSON value, or text that is not JSON.
\<close>

datatype halt_column =
    NoHaltReason
  | HaltArray "string list"
  | HaltString string
  | HaltOther
  | HaltRaw string

record risk_row =
  rowOpenPositionCount :: int
  rowTotalCapitalDeployed :: decimal
  rowDailyPnl :: decimal
  rowLastResetTimestamp :: "timestamp option"
  rowTradingHalted :: bool
  rowHaltReason :: halt_column
  rowReservedCapital :: decimal
  rowReservedPositionSlots :: int

datatype risk_effect =
    TradingHalted string "string list"
  | TradingResumed string "string list"
  | LimitBreached string jsnum jsnum
  | LimitApproached string jsnum jsnum jsnum
  | DataCorruptionDetected bool
  | UpsertRiskRow bool risk_row
  | BudgetReserved string string decimal
  | BudgetCommitted string string decimal
  | BudgetReleased string string decimal

type_synonym reservation_data = "bool \<Rightarrow> int \<times> decimal"

definition getState :: "bool \<Rightarrow> 'a risk_state_scheme \<Rightarrow> mode_risk_state" where
  "getState isPaper s = (if isPaper then paperState s else liveState s)"

definition put_state :: "bool \<Rightarrow> mode_risk_state \<Rightarrow> 'a risk_state_scheme \<Rightarrow> 'a risk_state_scheme" where
  "put_state isPaper m s = (if isPaper then s\<lparr>paperState := m\<rparr> else s\<lparr>liveState := m\<rparr>)"

definition getBankrollForMode :: "bool \<Rightarrow> 'a risk_state_scheme \<Rightarrow> decimal" where
  "getBankrollForMode isPaper s = to_decimal
     (if isPaper
      then (case paperBankrollUsd (risk_cfg s) of Some b \<Rightarrow> b | None \<Rightarrow> bankrollUsd (risk_cfg s))
      else bankrollUsd (risk_cfg s))"

section \<open>Halts\<close>

definition applyHalt :: "string \<Rightarrow> bool \<Rightarrow> mode_risk_state \<Rightarrow> mode_risk_state \<times> risk_effect list \<times> bool" where
  "applyHalt reason isPaper m =
     (if reason \<in> set (activeHaltReasons m) then (m, [], False)
      else let m' = m\<lparr>activeHaltReasons := set_add reason (activeHaltReasons m)\<rparr>
        in (m', if isPaper then [] else [TradingHalted reason (activeHaltReasons m')], True))"

definition applyResume :: "string \<Rightarrow> bool \<Rightarrow> mode_risk_state \<Rightarrow> mode_risk_state \<times> risk_effect list \<times> bool" where
  "applyResume reason isLive m =
     (if reason \<notin> set (activeHaltReasons m) then (m, [], False)
      else let m' = m\<lparr>activeHaltReasons := set_delete reason (activeHaltReasons m)\<rparr>
        in (m', if isLive then [TradingResumed reason (activeHaltReasons m')] else [], True))"

definition isTradingHalted :: "bool \<Rightarrow> 'a risk_state_scheme \<Rightarrow> bool" where
  "isTradingHalted isPaper s \<longleftrightarrow> activeHaltReasons (getState isPaper s) \<noteq> []"

section \<open>Persistence\<close>

definition persisted_row :: "int \<times> decimal \<Rightarrow> mode_risk_state \<Rightarrow> risk_row" where
  "persisted_row r m = \<lparr>rowOpenPositionCount = openPositionCount m,
     rowTotalCapitalDeployed = totalCapitalDeployed m, rowDailyPnl = dailyPnl m,
     rowLastResetTimestamp = lastResetTimestamp m,
     rowTradingHalted = (activeHaltReasons m \<noteq> []),
     rowHaltReason = HaltArray (activeHaltReasons m),
     rowReservedCapital = snd r, rowReservedPositionSlots = fst r\<rparr>"

definition persistState :: "reservation_data \<Rightarrow> bool \<Rightarrow> 'a risk_state_scheme \<Rightarrow> risk_effect list" where
  "persistState prov isPaper s = [UpsertRiskRow isPaper (persisted_row (prov isPaper) (getState isPaper s))]"

definition haltTrading :: "reservation_data \<Rightarrow> string \<Rightarrow> 'a risk_state_scheme \<Rightarrow> 'a risk_state_scheme \<times> risk_effect list" where
  "haltTrading prov reason s =
     (let (m, evs, halted) = applyHalt reason False (getState False s);
          s' = put_state False m s
      in if halted then (s', evs @ persistState prov False s') else (s, []))"

definition resumeTrading :: "reservation_data \<Rightarrow> string \<Rightarrow> 'a risk_state_scheme \<Rightarrow> 'a risk_state_scheme \<times> risk_effect list" where
  "resumeTrading prov reason s =
     (let (m, evs, resumed) = applyResume reason True (getState False s);
          s' = put_state False m s
      in if resumed then (s', evs @ persistState prov False s') else (s, []))"

section \<open>Configuration\<close>

record engine_config_row =
  cfgBankrollUsd :: decimal
  cfgPaperBankrollUsd :: "decimal option"
  cfgUpdatedAt :: timestamp

record env_config =
  envMaxPositionPct :: jsnum
  envMaxOpenPairs :: jsnum
  envDailyLossPct :: jsnum

datatype config_error = BankrollInvalid | MaxPositionPctOutOfRange | MaxOpenPairsInvalid | DailyLossPctOutOfRange

definition is_integer :: "jsnum \<Rightarrow> bool" where
  "is_integer x \<longleftrightarrow> (case x of Fin q \<Rightarrow> of_int \<lfloor>q\<rfloor> = q | _ \<Rightarrow> False)"

text \<open>The first test also rejects 0, a missing value and NaN, which are falsy.\<close>

definition validateRiskConfigValues ::
  "jsnum option \<Rightarrow> jsnum option \<Rightarrow> env_config \<Rightarrow> config_error + risk_config" where
  "validateRiskConfigValues bankroll paperBankroll env =
     (case bankroll of
        None \<Rightarrow> Inl BankrollInvalid
      | Some b \<Rightarrow>
          if b = Fin 0 \<or> b = NaN \<or> xle b (Fin 0) then Inl BankrollInvalid
          else if xle (envMaxPositionPct env) (Fin 0) \<or> xgt (envMaxPositionPct env) (Fin 1)
            then Inl MaxPositionPctOutOfRange
          else if xle (envMaxOpenPairs env) (Fin 0) \<or> \<not> is_integer (envMaxOpenPairs env)
            then Inl MaxOpenPairsInvalid
          else if xle (envDailyLossPct env) (Fin 0) \<or> xgt (envDailyLossPct env) (Fin 1)
            then Inl DailyLossPctOutOfRange
          else Inr \<lparr>bankrollUsd = b, paperBankrollUsd = paperBankroll,
            maxPositionPct = envMaxPositionPct env, maxOpenPairs = envMaxOpenPairs env,
            dailyLossPct = envDailyLossPct env\<rparr>)"

text \<open>
  \<^verbatim>\<open>loadBankrollFromDb\<close>: the row of the database, or the one \<^verbatim>\<open>upsertBankroll\<close>
  returns for the seed when there is none; both are read the same way.
\<close>

definition loadBankrollFromDb ::
  "engine_config_row option \<Rightarrow> engine_config_row \<Rightarrow> jsnum \<times> jsnum option \<times> timestamp" where
  "loadBankrollFromDb row seeded =
     (let r = (case row of Some r \<Rightarrow> r | None \<Rightarrow> seeded)
      in (to_number (cfgBankrollUsd r), map_option to_number (cfgPaperBankrollUsd r), cfgUpdatedAt r))"

definition reloadBankroll :: "engine_config_row option \<Rightarrow> 'a risk_state_scheme \<Rightarrow> 'a risk_state_scheme" where
  "reloadBankroll row s =
     (case row of
        None \<Rightarrow> s
      | Some r \<Rightarrow>
          let b = to_number (cfgBankrollUsd r);
              cfg = risk_cfg s
          in s\<lparr>risk_cfg := cfg\<lparr>bankrollUsd := b,
                 paperBankrollUsd := map_option to_number (cfgPaperBankrollUsd r)\<rparr>,
               bankrollUpdatedAt := cfgUpdatedAt r,
               risk_tracker := updateBankroll (to_decimal b) (risk_tracker s)\<rparr>)"

text \<open>The effective configuration's text fields, as the numbers they parse to.\<close>

record effective_config =
  effBankrollUsd :: decimal
  effPaperBankrollUsd :: "decimal option"
  effRiskMaxPositionPct :: decimal
  effRiskMaxOpenPairs :: jsnum
  effRiskDailyLossPct :: decimal

definition reloadConfig :: "effective_config \<Rightarrow> 'a risk_state_scheme \<Rightarrow> 'a risk_state_scheme" where
  "reloadConfig eff s =
     (if xle (effBankrollUsd eff) (Fin 0) then s
      else if xle (effRiskMaxPositionPct eff) (Fin 0) \<or> xgt (effRiskMaxPositionPct eff) (Fin 1) then s
      else if \<not> is_integer (effRiskMaxOpenPairs eff) \<or> xle (effRiskMaxOpenPairs eff) (Fin 0) then s
      else if xle (effRiskDailyLossPct eff) (Fin 0) \<or> xgt (effRiskDailyLossPct eff) (Fin 1) then s
      else let cfg = risk_cfg s in
        s\<lparr>risk_cfg := cfg\<lparr>bankrollUsd := to_number (effBankrollUsd eff),
             paperBankrollUsd := map_option to_number (effPaperBankrollUsd eff),
             maxPositionPct := to_number (effRiskMaxPositionPct eff),
             maxOpenPairs := effRiskMaxOpenPairs eff,
             dailyLossPct := to_number (effRiskDailyLossPct eff)\<rparr>,
          risk_tracker := updateBankroll (effBankrollUsd eff) (risk_tracker s)\<rparr>)"

section \<open>Daily profit and loss\<close>

definition dailyLossLimitUsd :: "(rat \<Rightarrow> rat) \<Rightarrow> bool \<Rightarrow> 'a risk_state_scheme \<Rightarrow> decimal" where
  "dailyLossLimitUsd rd isPaper s =
     xmul rd (getBankrollForMode isPaper s) (to_decimal (dailyLossPct (risk_cfg s)))"

definition absLoss :: "decimal \<Rightarrow> decimal" where
  "absLoss pnl = (if is_negative pnl then xabs pnl else Fin 0)"

definition check_daily_loss ::
  "(rat \<Rightarrow> rat) \<Rightarrow> bool \<Rightarrow> decimal \<Rightarrow> mode_risk_state \<Rightarrow> mode_risk_state \<times> risk_effect list" where
  "check_daily_loss rd isPaper limit m =
     (let loss = absLoss (dailyPnl m);
          percentUsed = to_number (xdiv rd loss limit)
      in if xge percentUsed (Fin 1) then
           (let (m', hevs, halted) = applyHalt DAILY_LOSS_LIMIT isPaper m
            in (m', hevs @ (if halted
                 then [LimitBreached ''dailyLoss'' (to_number loss) (to_number limit)] else [])))
         else if xge percentUsed (js_lit (4/5)) \<and> xlt percentUsed (Fin 1)
              \<and> \<not> dailyLossApproachEmitted m then
           (m\<lparr>dailyLossApproachEmitted := True\<rparr>,
            [LimitApproached ''dailyLoss'' (to_number loss) (to_number limit) percentUsed])
         else (m, []))"

definition updateDailyPnl ::
  "(rat \<Rightarrow> rat) \<Rightarrow> reservation_data \<Rightarrow> decimal \<Rightarrow> bool \<Rightarrow> bool \<Rightarrow> 'a risk_state_scheme
     \<Rightarrow> 'a risk_state_scheme \<times> risk_effect list" where
  "updateDailyPnl rd prov delta isPaper skipPersist s =
     (let m = getState isPaper s;
          (m', evs) = check_daily_loss rd isPaper (dailyLossLimitUsd rd isPaper s)
            (m\<lparr>dailyPnl := xadd rd (dailyPnl m) delta\<rparr>);
          s' = put_state isPaper m' s
      in (s', evs @ (if skipPersist then [] else persistState prov isPaper s')))"

definition reset_mode :: "timestamp \<Rightarrow> bool \<Rightarrow> mode_risk_state \<Rightarrow> mode_risk_state \<times> risk_effect list" where
  "reset_mode now isLive m =
     (let (m', evs, _) = applyResume DAILY_LOSS_LIMIT isLive
            (m\<lparr>dailyPnl := Fin 0, lastResetTimestamp := Some (utc_midnight now),
               dailyLossApproachEmitted := False\<rparr>)
      in (m', evs))"

definition handleMidnightReset ::
  "reservation_data \<Rightarrow> timestamp \<Rightarrow> 'a risk_state_scheme \<Rightarrow> 'a risk_state_scheme \<times> risk_effect list" where
  "handleMidnightReset prov now s =
     (let (l, evl) = reset_mode now True (liveState s);
          (p, evp) = reset_mode now False (paperState s);
          s' = s\<lparr>liveState := l, paperState := p\<rparr>
      in (s', evl @ evp @ persistState prov False s' @ persistState prov True s'))"

section \<open>Restoration at start-up\<close>

definition known_halt_reason :: "string \<Rightarrow> bool" where
  "known_halt_reason r \<longleftrightarrow> r = DAILY_LOSS_LIMIT \<or> r = RECONCILIATION_DISCREPANCY"

definition restore_halts :: "bool \<Rightarrow> halt_column \<Rightarrow> string list \<times> risk_effect list" where
  "restore_halts isPaper col =
     (case col of
        NoHaltReason \<Rightarrow> ([], [])
      | HaltArray rs \<Rightarrow> if list_all known_halt_reason rs then (set_of_list rs, [])
                        else ([], [DataCorruptionDetected isPaper])
      | HaltString r \<Rightarrow> if r \<noteq> [] then ([r], []) else ([], [DataCorruptionDetected isPaper])
      | HaltOther \<Rightarrow> ([], [DataCorruptionDetected isPaper])
      | HaltRaw r \<Rightarrow> if r \<noteq> [] then ([r], []) else ([], []))"

definition restore_mode ::
  "(rat \<Rightarrow> rat) \<Rightarrow> reservation_data \<Rightarrow> timestamp \<Rightarrow> bool \<Rightarrow> risk_row option \<Rightarrow> 'a risk_state_scheme
     \<Rightarrow> 'a risk_state_scheme \<times> risk_effect list" where
  "restore_mode rd prov now isPaper row s =
     (let m = getState isPaper s; today = utc_midnight now in
      case row of
        None \<Rightarrow>
          let s' = put_state isPaper (m\<lparr>lastResetTimestamp := Some today\<rparr>) s
          in (s', persistState prov isPaper s')
      | Some r \<Rightarrow>
          let (halts, evs) = restore_halts isPaper (rowHaltReason r);
              m1 = m\<lparr>openPositionCount := rowOpenPositionCount r,
                     totalCapitalDeployed := rowTotalCapitalDeployed r,
                     dailyPnl := rowDailyPnl r, activeHaltReasons := halts\<rparr>
          in (case rowLastResetTimestamp r of
                Some t \<Rightarrow>
                  if t < today then
                    let s' = put_state isPaper (m1\<lparr>dailyPnl := Fin 0,
                          activeHaltReasons := set_delete DAILY_LOSS_LIMIT halts,
                          lastResetTimestamp := Some today, dailyLossApproachEmitted := False\<rparr>) s
                    in (s', evs @ persistState prov isPaper s')
                  else
                    let m2 = m1\<lparr>lastResetTimestamp := Some t\<rparr>
                    in (put_state isPaper
                          (if xge (absLoss (dailyPnl m2)) (dailyLossLimitUsd rd isPaper s)
                           then m2\<lparr>activeHaltReasons := set_add DAILY_LOSS_LIMIT halts\<rparr> else m2) s, evs)
              | None \<Rightarrow>
                  let m2 = m1\<lparr>lastResetTimestamp := Some today\<rparr>
                  in if \<not> is_zero (dailyPnl m2) then
                       let s' = put_state isPaper (m2\<lparr>dailyPnl := Fin 0,
                             activeHaltReasons := set_delete DAILY_LOSS_LIMIT halts\<rparr>) s
                       in (s', evs @ persistState prov isPaper s')
                     else (put_state isPaper m2 s, evs)))"

definition initializeStateFromDb ::
  "(rat \<Rightarrow> rat) \<Rightarrow> reservation_data \<Rightarrow> timestamp \<Rightarrow> risk_row option \<Rightarrow> risk_row option
     \<Rightarrow> 'a risk_state_scheme \<Rightarrow> 'a risk_state_scheme \<times> risk_effect list" where
  "initializeStateFromDb rd prov now liveRow paperRow s =
     (let (s1, ev1) = restore_mode rd prov now False liveRow s;
          (s2, ev2) = restore_mode rd prov now True paperRow s1
      in (s2, ev1 @ ev2))"

definition riskOnModuleInit ::
  "(rat \<Rightarrow> rat) \<Rightarrow> reservation_data \<Rightarrow> timestamp \<Rightarrow> env_config \<Rightarrow> engine_config_row option \<Rightarrow> engine_config_row
     \<Rightarrow> risk_row option \<Rightarrow> risk_row option \<Rightarrow> 'a risk_state_scheme
     \<Rightarrow> config_error + ('a risk_state_scheme \<times> risk_effect list)" where
  "riskOnModuleInit rd prov now env row seeded liveRow paperRow s =
     (let (b, pb, t) = loadBankrollFromDb row seeded;
          s1 = s\<lparr>bankrollUpdatedAt := t,
                 risk_tracker := updateBankroll (to_decimal b) (risk_tracker s)\<rparr>
      in and_then (validateRiskConfigValues (Some b) pb env)
           (\<lambda>cfg. Inr (initializeStateFromDb rd prov now liveRow paperRow (s1\<lparr>risk_cfg := cfg\<rparr>))))"

section \<open>Counters\<close>

definition floor0 :: "decimal \<Rightarrow> decimal" where
  "floor0 d = (if is_negative d then Fin 0 else d)"

definition decrementOpenPositions :: "(rat \<Rightarrow> rat) \<Rightarrow> decimal \<Rightarrow> bool \<Rightarrow> 'a risk_state_scheme \<Rightarrow> 'a risk_state_scheme" where
  "decrementOpenPositions rd capitalReturned isPaper s =
     (let m = getState isPaper s in
      put_state isPaper (m\<lparr>openPositionCount := max 0 (openPositionCount m - 1),
        totalCapitalDeployed := floor0 (xsub rd (totalCapitalDeployed m) capitalReturned)\<rparr>) s)"

definition adjustCapitalDeployed :: "(rat \<Rightarrow> rat) \<Rightarrow> decimal \<Rightarrow> bool \<Rightarrow> 'a risk_state_scheme \<Rightarrow> 'a risk_state_scheme" where
  "adjustCapitalDeployed rd capitalDelta isPaper s =
     (let m = getState isPaper s in
      put_state isPaper (m\<lparr>
        totalCapitalDeployed := floor0 (xsub rd (totalCapitalDeployed m) capitalDelta)\<rparr>) s)"

definition incrementOpenPositions :: "(rat \<Rightarrow> rat) \<Rightarrow> int \<Rightarrow> decimal \<Rightarrow> bool \<Rightarrow> 'a risk_state_scheme \<Rightarrow> 'a risk_state_scheme" where
  "incrementOpenPositions rd slots capitalAdded isPaper s =
     (let m = getState isPaper s in
      put_state isPaper (m\<lparr>openPositionCount := openPositionCount m + slots,
        totalCapitalDeployed := xadd rd (totalCapitalDeployed m) capitalAdded\<rparr>) s)"

definition recalculateFromPositions ::
  "reservation_data \<Rightarrow> int \<Rightarrow> decimal \<Rightarrow> bool \<Rightarrow> 'a risk_state_scheme \<Rightarrow> 'a risk_state_scheme \<times> risk_effect list" where
  "recalculateFromPositions prov openCount capitalDeployed isPaper s =
     (let m = getState isPaper s;
          s' = put_state isPaper (m\<lparr>openPositionCount := openCount,
                 totalCapitalDeployed := capitalDeployed\<rparr>) s
      in (s', persistState prov isPaper s'))"

record exposure_data =
  expOpenPositionCount :: int
  expTotalCapitalDeployed :: decimal
  expBankrollUsd :: decimal
  expDailyPnl :: decimal
  expDailyLossLimitUsd :: decimal
  expClusterExposures :: "cluster_exposure list"
  expAggregateClusterExposurePct :: decimal

definition getExposureData :: "(rat \<Rightarrow> rat) \<Rightarrow> bool \<Rightarrow> 'a risk_state_scheme \<Rightarrow> exposure_data" where
  "getExposureData rd isPaper s =
     (let m = getState isPaper s in
      \<lparr>expOpenPositionCount = openPositionCount m,
       expTotalCapitalDeployed = totalCapitalDeployed m,
       expBankrollUsd = getBankrollForMode isPaper s,
       expDailyPnl = dailyPnl m,
       expDailyLossLimitUsd = dailyLossLimitUsd rd isPaper s,
       expClusterExposures = clusterExposures (risk_tracker s),
       expAggregateClusterExposurePct = getAggregateExposurePct rd (risk_tracker s)\<rparr>)"

section \<open>Frame facts\<close>

lemma getState_put [simp]: "getState p (put_state q m s) = (if p = q then m else getState p s)"
  by (auto simp: getState_def put_state_def)

lemma put_state_cfg [simp]: "risk_cfg (put_state p m s) = risk_cfg s"
  and put_state_tracker [simp]: "risk_tracker (put_state p m s) = risk_tracker s"
  and put_state_bankroll [simp]: "getBankrollForMode q (put_state p m s) = getBankrollForMode q s"
  and put_state_limit [simp]: "dailyLossLimitUsd rd q (put_state p m s) = dailyLossLimitUsd rd q s"
  and put_state_more [simp]: "risk_state.more (put_state p m s) = risk_state.more s"
  by (simp_all add: put_state_def getBankrollForMode_def dailyLossLimitUsd_def split: option.splits)

lemma put_state_get [simp]: "put_state p (getState p s) s = s"
  by (simp add: put_state_def getState_def)

lemma put_state_put [simp]: "put_state p m (put_state p m' s) = put_state p m s"
  by (simp add: put_state_def)

lemma getState_modes: "getState False s = liveState s" "getState True s = paperState s"
  by (simp_all add: getState_def)

text \<open>What an update does to the mode it is about, and that it does nothing else.\<close>

lemma applyHalt_reasons: "applyHalt r p m = (m', evs, h) \<Longrightarrow>
    set (activeHaltReasons m') = insert r (set (activeHaltReasons m))
    \<and> dailyPnl m' = dailyPnl m \<and> totalCapitalDeployed m' = totalCapitalDeployed m
    \<and> openPositionCount m' = openPositionCount m
    \<and> dailyLossApproachEmitted m' = dailyLossApproachEmitted m
    \<and> lastResetTimestamp m' = lastResetTimestamp m"
  by (auto simp: applyHalt_def Let_def split: if_splits)

lemma check_daily_loss_frame:
  "check_daily_loss rd p L m = (m', evs) \<Longrightarrow>
     dailyPnl m' = dailyPnl m \<and> totalCapitalDeployed m' = totalCapitalDeployed m
     \<and> openPositionCount m' = openPositionCount m
     \<and> set (activeHaltReasons m) \<subseteq> set (activeHaltReasons m')"
  by (auto simp: check_daily_loss_def Let_def applyHalt_def split: if_splits)

lemma updateDailyPnl_other_mode:
  "q \<noteq> p \<Longrightarrow> getState q (fst (updateDailyPnl rd prov d p skip s)) = getState q s"
  by (simp add: updateDailyPnl_def Let_def split: prod.splits)

lemma updateDailyPnl_frame:
  "risk_cfg (fst (updateDailyPnl rd prov d p skip s)) = risk_cfg s"
  "risk_tracker (fst (updateDailyPnl rd prov d p skip s)) = risk_tracker s"
  "risk_state.more (fst (updateDailyPnl rd prov d p skip s)) = risk_state.more s"
  by (simp_all add: updateDailyPnl_def Let_def split: prod.splits)

lemma updateDailyPnl_mode:
  "dailyPnl (getState p (fst (updateDailyPnl rd prov d p skip s))) = xadd rd (dailyPnl (getState p s)) d"
  "totalCapitalDeployed (getState p (fst (updateDailyPnl rd prov d p skip s))) = totalCapitalDeployed (getState p s)"
  "openPositionCount (getState p (fst (updateDailyPnl rd prov d p skip s))) = openPositionCount (getState p s)"
  by (auto simp: updateDailyPnl_def Let_def dest: check_daily_loss_frame split: prod.splits)

lemma updateDailyPnl_reasons_mono:
  "set (activeHaltReasons (getState q s)) \<subseteq> set (activeHaltReasons (getState q (fst (updateDailyPnl rd prov d p skip s))))"
  by (auto simp: updateDailyPnl_def Let_def dest!: check_daily_loss_frame split: prod.splits)

section \<open>The daily loss limit\<close>

lemma b64_ge_1: "1 \<le> x \<Longrightarrow> 1 \<le> b64 x"
  using dbl.sr.fix_le_rd [of 1 x] by simp

context decimal_rounding
begin

lemma loss_ratio_ge_1:
  "0 < L \<Longrightarrow> L \<le> l \<Longrightarrow> xge (to_number (xdiv rd (Fin l) (Fin L))) (Fin 1)"
  using fix_le_rd [of 1 "l / L"] by (simp add: b64_ge_1)

end

text \<open>
  C12: a mode whose loss of the day reaches the daily limit (after the update of its profit and
  loss) is halted with the daily-loss reason; a live halt that is new is announced, before the
  breached limit.
\<close>
theorem daily_loss_limit_halts:
  assumes "decimal_rounding rd"
    and "dailyPnl (getState p (fst (updateDailyPnl rd prov d p skip s))) = Fin x"
    and "dailyLossLimitUsd rd p s = Fin L" "0 < L" "x \<le> - L"
  shows "DAILY_LOSS_LIMIT \<in> set (activeHaltReasons (getState p (fst (updateDailyPnl rd prov d p skip s))))
    \<and> isTradingHalted p (fst (updateDailyPnl rd prov d p skip s))
    \<and> (DAILY_LOSS_LIMIT \<notin> set (activeHaltReasons (getState p s)) \<longrightarrow>
        take (if p then 1 else 2) (snd (updateDailyPnl rd prov d p skip s)) =
          (if p then [] else [TradingHalted DAILY_LOSS_LIMIT (activeHaltReasons (getState p s) @ [DAILY_LOSS_LIMIT])])
          @ [LimitBreached ''dailyLoss'' (to_number (Fin (- x))) (to_number (Fin L))])"
proof -
  have pnl: "xadd rd (dailyPnl (getState p s)) d = Fin x"
    using assms(2) by (simp add: updateDailyPnl_mode)
  have "absLoss (Fin x) = Fin (- x)" using assms(4,5) by (simp add: absLoss_def)
  moreover have "xge (to_number (xdiv rd (Fin (- x)) (Fin L))) (Fin 1)"
    using assms(4,5) by (intro decimal_rounding.loss_ratio_ge_1 [OF assms(1)]) auto
  ultimately show ?thesis
    using assms(3) pnl
    by (cases "DAILY_LOSS_LIMIT \<in> set (activeHaltReasons (getState p s))")
      (simp_all add: updateDailyPnl_def check_daily_loss_def Let_def applyHalt_def set_add_def isTradingHalted_def
        split: prod.splits, auto)
qed

definition sample_mode :: mode_risk_state where
  "sample_mode = createDefaultModeRiskState\<lparr>lastResetTimestamp := Some 0\<rparr>"

definition sample_risk_state :: risk_state where
  "sample_risk_state = \<lparr>risk_cfg = \<lparr>bankrollUsd = Fin 1000, paperBankrollUsd = None,
       maxPositionPct = Fin (1/2), maxOpenPairs = Fin 10, dailyLossPct = Fin (1/2)\<rparr>,
     liveState = sample_mode, paperState = sample_mode, bankrollUpdatedAt = 0,
     risk_tracker = sample_tracker\<rparr>"

lemma sample_lits: "to_decimal (Fin (1/2)) = Fin (1/2)" "to_decimal (Fin 1000) = Fin 1000" "dec20 500 = 500"
  using shortest_one_digit [of 1 1000 3] b64_int [of 1000] dec20_int [of 500] by simp_all

lemma sample_limit: "dailyLossLimitUsd dec20 p sample_risk_state = Fin 500"
  using sample_lits by (simp add: dailyLossLimitUsd_def getBankrollForMode_def sample_risk_state_def)

lemma dec20_600: "dec20 (- 600) = - 600"
  using dec20_int [of "- 600"] by simp

theorem daily_loss_limit_halts_witness:
  "isTradingHalted False (fst (updateDailyPnl dec20 (\<lambda>_. (0, Fin 0)) (Fin (- 600)) False False sample_risk_state))"
proof -
  have "dailyPnl (getState False (fst (updateDailyPnl dec20 (\<lambda>_. (0, Fin 0)) (Fin (- 600)) False False
      sample_risk_state))) = Fin (- 600)"
    unfolding updateDailyPnl_mode
    by (simp add: sample_risk_state_def sample_mode_def createDefaultModeRiskState_def
        dec20_600 getState_def)
  from daily_loss_limit_halts [OF d20.decimal_rounding_axioms this sample_limit] show ?thesis
    by simp
qed

text \<open>
  One mode over a run of updates without a reset: the set of halt reasons only grows and the
  approach flag stays up, so each alert is sent at most once.
\<close>

fun run_updates ::
  "(rat \<Rightarrow> rat) \<Rightarrow> reservation_data \<Rightarrow> (decimal \<times> bool \<times> bool) list \<Rightarrow> 'a risk_state_scheme
     \<Rightarrow> 'a risk_state_scheme \<times> risk_effect list" where
  "run_updates rd prov [] s = (s, [])"
| "run_updates rd prov ((d, p, skip) # us) s =
     (let (s1, ev1) = updateDailyPnl rd prov d p skip s;
          (s2, ev2) = run_updates rd prov us s1
      in (s2, ev1 @ ev2))"

fun is_live_halt :: "risk_effect \<Rightarrow> bool" where
  "is_live_halt (TradingHalted r _) = (r = DAILY_LOSS_LIMIT)"
| "is_live_halt _ = False"

fun is_approach :: "risk_effect \<Rightarrow> bool" where
  "is_approach (LimitApproached _ _ _ _) = True"
| "is_approach _ = False"

fun is_breach :: "risk_effect \<Rightarrow> bool" where
  "is_breach (LimitBreached _ _ _) = True"
| "is_breach _ = False"

definition pending :: "bool \<Rightarrow> nat" where
  "pending b = (if b then 0 else 1)"

definition pending_halt :: "mode_risk_state \<Rightarrow> nat" where
  "pending_halt m = pending (DAILY_LOSS_LIMIT \<in> set (activeHaltReasons m))"

definition pending_approach :: "mode_risk_state \<Rightarrow> nat" where
  "pending_approach m = pending (dailyLossApproachEmitted m)"

lemmas pending_defs = pending_halt_def pending_approach_def pending_def

lemma check_alert_budget:
  "check_daily_loss rd p L m = (m', evs) \<Longrightarrow>
     length (filter is_live_halt evs) = (if p then 0 else pending_halt m - pending_halt m')
     \<and> length (filter is_breach evs) + pending_halt m' = pending_halt m
     \<and> length (filter is_approach evs) + pending_approach m' = pending_approach m
     \<and> pending_halt m' \<le> pending_halt m"
  by (auto simp: check_daily_loss_def Let_def applyHalt_def pending_defs split: if_splits)

lemma update_alert_budget:
  fixes s :: "'a risk_state_scheme"
  assumes "updateDailyPnl rd prov d p skip s = (s', evs)"
  shows "length (filter is_live_halt evs) + pending_halt (getState False s') = pending_halt (getState False s)"
    and "length (filter is_breach evs) + (pending_halt (getState False s') + pending_halt (getState True s'))
      = pending_halt (getState False s) + pending_halt (getState True s)"
    and "length (filter is_approach evs) + (pending_approach (getState False s') + pending_approach (getState True s'))
      = pending_approach (getState False s) + pending_approach (getState True s)"
proof -
  obtain m' evs' where c: "check_daily_loss rd p (dailyLossLimitUsd rd p s)
      ((getState p s)\<lparr>dailyPnl := xadd rd (dailyPnl (getState p s)) d\<rparr>) = (m', evs')" by fastforce
  have s': "s' = put_state p m' s" and f: "filter P evs = filter P evs'"
    if "\<And>q r. \<not> P (UpsertRiskRow q r)" for P
    using assms c that by (auto simp: updateDailyPnl_def Let_def persistState_def)
  note s' = s' [of "\<lambda>_. False", simplified]
  have "pending_halt ((getState p s)\<lparr>dailyPnl := x\<rparr>) = pending_halt (getState p s)"
    "pending_approach ((getState p s)\<lparr>dailyPnl := x\<rparr>) = pending_approach (getState p s)" for x
    by (simp_all add: pending_defs)
  with check_alert_budget [OF c] s' f [of is_live_halt] f [of is_breach] f [of is_approach]
  show "length (filter is_live_halt evs) + pending_halt (getState False s') = pending_halt (getState False s)"
    "length (filter is_breach evs) + (pending_halt (getState False s') + pending_halt (getState True s'))
      = pending_halt (getState False s) + pending_halt (getState True s)"
    "length (filter is_approach evs) + (pending_approach (getState False s') + pending_approach (getState True s'))
      = pending_approach (getState False s) + pending_approach (getState True s)"
    by (cases p; simp)+
qed

text \<open>
  over any run of profit-and-loss updates between two resets, in any order of modes, the
  live halt is announced at most once, and the breach and the approach of the daily limit at
  most once per mode.
\<close>
theorem daily_loss_alerts_once:
  "length (filter is_live_halt (snd (run_updates rd prov us s))) \<le> 1
   \<and> length (filter is_breach (snd (run_updates rd prov us s))) \<le> 2
   \<and> length (filter is_approach (snd (run_updates rd prov us s))) \<le> 2"
proof -
  have "length (filter is_live_halt (snd (run_updates rd prov us s))) \<le> pending_halt (getState False s)
   \<and> length (filter is_breach (snd (run_updates rd prov us s)))
       \<le> pending_halt (getState False s) + pending_halt (getState True s)
   \<and> length (filter is_approach (snd (run_updates rd prov us s)))
       \<le> pending_approach (getState False s) + pending_approach (getState True s)"
  proof (induction us arbitrary: s)
    case (Cons u us)
    obtain d p skip where u: "u = (d, p, skip)" by (cases u) auto
    obtain s1 ev1 where r: "updateDailyPnl rd prov d p skip s = (s1, ev1)"
      by (cases "updateDailyPnl rd prov d p skip s") auto
    obtain s2 ev2 where r2: "run_updates rd prov us s1 = (s2, ev2)"
      by (cases "run_updates rd prov us s1") auto
    show ?case
      using Cons.IH [of s1] update_alert_budget [OF r] by (simp add: u r r2)
  qed simp
  then show ?thesis by (simp add: pending_defs split: if_splits)
qed

section \<open>The midnight reset\<close>

text \<open>
  the midnight reset starts both modes' day at zero profit and loss and lifts the daily-loss
  halt only: every other halt reason, the deployed capital and the open count stay, and the
  live mode's resumption is announced exactly when it had that halt.
\<close>
theorem midnight_reset_lifts_daily_loss_only:
  "(\<forall>p. getState p (fst (handleMidnightReset prov now s)) =
        (getState p s)\<lparr>dailyPnl := Fin 0, lastResetTimestamp := Some (utc_midnight now),
          dailyLossApproachEmitted := False,
          activeHaltReasons := set_delete DAILY_LOSS_LIMIT (activeHaltReasons (getState p s))\<rparr>)
   \<and> snd (handleMidnightReset prov now s) =
       (if DAILY_LOSS_LIMIT \<in> set (activeHaltReasons (liveState s))
        then [TradingResumed DAILY_LOSS_LIMIT (set_delete DAILY_LOSS_LIMIT (activeHaltReasons (liveState s)))]
        else [])
       @ persistState prov False (fst (handleMidnightReset prov now s))
       @ persistState prov True (fst (handleMidnightReset prov now s))"
  by (auto simp: handleMidnightReset_def reset_mode_def applyResume_def Let_def getState_def
      split: prod.splits if_splits)

section \<open>Restart\<close>

lemma foldl_set_add_distinct:
  "distinct (acc @ xs) \<Longrightarrow> foldl (\<lambda>acc x. set_add x acc) acc xs = acc @ xs"
  by (induction xs arbitrary: acc) (auto simp: set_add_def)

lemma set_of_list_id: "distinct xs \<Longrightarrow> set_of_list xs = xs"
  by (simp add: set_of_list_def foldl_set_add_distinct)

lemma restore_halts_persisted:
  "distinct rs \<Longrightarrow> list_all known_halt_reason rs \<Longrightarrow> restore_halts p (HaltArray rs) = (rs, [])"
  by (simp add: restore_halts_def set_of_list_id)

text \<open>
  what a mode persists, a restart on the same UTC day restores: open count, capital, profit
  and loss and halt reasons.  Only the approach flag starts down again, and a loss at the limit
  is halted even when the row does not say so.  After midnight the day's profit and loss and the
  daily-loss halt are dropped, the rest is restored.
\<close>
theorem restart_restores_persisted_mode:
  assumes "distinct (activeHaltReasons m)" "list_all known_halt_reason (activeHaltReasons m)"
    and "lastResetTimestamp m = Some t"
    and "\<not> dailyLossApproachEmitted (getState p s)"
  shows "getState p (fst (restore_mode rd prov now p (Some (persisted_row r m)) s)) =
     (if t < utc_midnight now
      then m\<lparr>dailyPnl := Fin 0, activeHaltReasons := set_delete DAILY_LOSS_LIMIT (activeHaltReasons m),
             lastResetTimestamp := Some (utc_midnight now), dailyLossApproachEmitted := False\<rparr>
      else if xge (absLoss (dailyPnl m)) (dailyLossLimitUsd rd p s)
      then m\<lparr>activeHaltReasons := set_add DAILY_LOSS_LIMIT (activeHaltReasons m), dailyLossApproachEmitted := False\<rparr>
      else m\<lparr>dailyLossApproachEmitted := False\<rparr>)"
  using assms by (auto simp: restore_mode_def persisted_row_def restore_halts_persisted Let_def
      intro!: mode_risk_state.equality)

theorem restart_restores_persisted_mode_witness:
  "getState False (fst (restore_mode dec20 (\<lambda>_. (0, Fin 0)) 0 False
      (Some (persisted_row (0, Fin 0) (sample_mode\<lparr>activeHaltReasons := [DAILY_LOSS_LIMIT]\<rparr>))) sample_risk_state))
    = sample_mode\<lparr>activeHaltReasons := [DAILY_LOSS_LIMIT]\<rparr>"
  by (subst restart_restores_persisted_mode [where t = 0])
    (simp_all add: sample_limit, simp_all add: sample_mode_def createDefaultModeRiskState_def known_halt_reason_def
      sample_risk_state_def absLoss_def utc_midnight_def getState_modes)

section \<open>A reload never installs an invalid limit\<close>

definition valid_pct :: "xr \<Rightarrow> bool" where
  "valid_pct x \<longleftrightarrow> (case x of Fin q \<Rightarrow> 0 < q \<and> q \<le> 1 | _ \<Rightarrow> False)"

definition valid_config :: "risk_config \<Rightarrow> bool" where
  "valid_config c \<longleftrightarrow> (case bankrollUsd c of Fin b \<Rightarrow> 0 < b | _ \<Rightarrow> False)
     \<and> valid_pct (maxPositionPct c) \<and> valid_pct (dailyLossPct c)
     \<and> (\<exists>n. maxOpenPairs c = Fin (of_int n) \<and> 0 < n)"

lemma valid_pct_to_number: "valid_pct x \<Longrightarrow> valid_pct (to_number x)"
  using dbl.sr.rd_le_fix [of _ 1] by (cases x) (auto simp: valid_pct_def)

lemma is_integer_pos: "is_integer x \<Longrightarrow> \<not> xle x (Fin 0) \<Longrightarrow> \<exists>n. x = Fin (of_int n) \<and> 0 < n"
proof (cases x)
  case (Fin q)
  assume "is_integer x" "\<not> xle x (Fin 0)"
  with Fin have "q = of_int \<lfloor>q\<rfloor>" "0 < \<lfloor>q\<rfloor>"
    by (auto simp: is_integer_def)
  with Fin show ?thesis by (intro exI [of _ "\<lfloor>q\<rfloor>"]) auto
qed (auto simp: is_integer_def)

lemma valid_pct_iff: "is_fin x \<Longrightarrow> \<not> xle x (Fin 0) \<Longrightarrow> \<not> xgt x (Fin 1) \<Longrightarrow> valid_pct x"
  by (cases x) (auto simp: valid_pct_def)

text \<open>
  C14: a reload of the configuration either keeps the running one or installs one whose bankroll
  is positive, whose percentages lie in (0, 1] and whose pair limit is a positive integer (for
  any finite values in the database); in both cases a valid configuration stays valid, and the
  mode states are left alone.
\<close>
theorem reload_keeps_config_valid:
  assumes "valid_config (risk_cfg s)"
    and "is_fin (effBankrollUsd eff)" "is_fin (effRiskMaxPositionPct eff)" "is_fin (effRiskDailyLossPct eff)"
  shows "valid_config (risk_cfg (reloadConfig eff s))
    \<and> (\<forall>p. getState p (reloadConfig eff s) = getState p s)
    \<and> (reloadConfig eff s = s \<or>
       trackerBankrollUsd (risk_tracker (reloadConfig eff s)) = effBankrollUsd eff
       \<and> bankrollUsd (risk_cfg (reloadConfig eff s)) = to_number (effBankrollUsd eff))"
proof (cases "reloadConfig eff s = s")
  case True
  then show ?thesis using assms(1) by simp
next
  case False
  then have ok: "\<not> xle (effBankrollUsd eff) (Fin 0)" "valid_pct (effRiskMaxPositionPct eff)"
    "valid_pct (effRiskDailyLossPct eff)" "is_integer (effRiskMaxOpenPairs eff)"
    "\<not> xle (effRiskMaxOpenPairs eff) (Fin 0)"
    using assms(3,4) by (auto simp: reloadConfig_def valid_pct_iff split: if_splits)
  obtain b where b: "effBankrollUsd eff = Fin b" "0 < b"
    using ok(1) assms(2) by (cases "effBankrollUsd eff") auto
  from False ok(1) have "risk_cfg (reloadConfig eff s) = (risk_cfg s)\<lparr>bankrollUsd := to_number (effBankrollUsd eff),
             paperBankrollUsd := map_option to_number (effPaperBankrollUsd eff),
             maxPositionPct := to_number (effRiskMaxPositionPct eff),
             maxOpenPairs := effRiskMaxOpenPairs eff,
             dailyLossPct := to_number (effRiskDailyLossPct eff)\<rparr>"
    "risk_tracker (reloadConfig eff s) = updateBankroll (effBankrollUsd eff) (risk_tracker s)"
    "\<forall>p. getState p (reloadConfig eff s) = getState p s"
    by (auto simp: reloadConfig_def Let_def getState_def split: if_splits)
  with ok b show ?thesis
    by (auto simp: valid_config_def valid_pct_to_number is_integer_pos)
qed

definition sample_effective :: effective_config where
  "sample_effective = \<lparr>effBankrollUsd = Fin 2000, effPaperBankrollUsd = None,
     effRiskMaxPositionPct = Fin (1/20), effRiskMaxOpenPairs = Fin 5, effRiskDailyLossPct = Fin (1/10)\<rparr>"

lemma sample_config_valid: "valid_config (risk_cfg sample_risk_state)"
proof -
  have "\<exists>n. (10::rat) = of_int n \<and> 0 < n" by (rule exI [of _ 10]) simp
  then show ?thesis by (simp add: valid_config_def valid_pct_def sample_risk_state_def)
qed

theorem reload_keeps_config_valid_witness:
  "valid_config (risk_cfg (reloadConfig sample_effective sample_risk_state))"
  using reload_keeps_config_valid [OF sample_config_valid, of sample_effective]
  by (simp add: sample_effective_def)

end
