(* ===== verification/Budget.thy ===== *)
theory Budget
  imports RiskState
begin

text \<open>
  \<^verbatim>\<open>BudgetReservationService\<close>: the reservations of capital and position slots that
  stand between the approval of an opportunity and its execution.  Its state extends the risk
  state with the map of reservations and the set of active paper pairs.  The first part is the
  model of the operations; then a step relation over the operations and the invariant of
  the states they reach (capital deployed and held never exceeds the bankroll, open and held positions never
  exceed the pair limit), and an abstract ledger (per mode the open count, the capital
  deployed and the amounts held) in which each call of the service is one named move.
\<close>

section \<open>State\<close>

record budget_reservation =
  reservationId :: string
  resOpportunityId :: string
  resPairId :: string
  resIsPaper :: bool
  reservedPositionSlots :: int
  reservedCapitalUsd :: decimal
  correlationExposure :: decimal
  createdAt :: timestamp

record budget_state = risk_state +
  reservations :: "(string \<times> budget_reservation) list"
  paperActivePairIds :: "string list"

record reservation_request =
  reqOpportunityId :: string
  recommendedPositionSizeUsd :: decimal
  reqPairId :: string
  reqIsPaper :: bool

datatype risk_limit_error =
    TradingIsHalted
  | PaperPairActive string
  | MaxOpenPairsReached int jsnum
  | InsufficientCapital jsnum jsnum
  | ReservationNotFound string

section \<open>Operations\<close>

text \<open>An absent mode asks for both.\<close>

definition in_mode :: "bool option \<Rightarrow> budget_reservation \<Rightarrow> bool" where
  "in_mode isPaper r \<longleftrightarrow> isPaper = None \<or> isPaper = Some (resIsPaper r)"

definition getReservedPositionSlots :: "bool option \<Rightarrow> 'a budget_state_scheme \<Rightarrow> int" where
  "getReservedPositionSlots isPaper s =
     foldl (\<lambda>acc r. if in_mode isPaper r then acc + reservedPositionSlots r else acc) 0
       (map snd (reservations s))"

definition getReservedCapital :: "(rat \<Rightarrow> rat) \<Rightarrow> bool option \<Rightarrow> 'a budget_state_scheme \<Rightarrow> decimal" where
  "getReservedCapital rd isPaper s =
     foldl (\<lambda>acc r. if in_mode isPaper r then xadd rd acc (reservedCapitalUsd r) else acc) (Fin 0)
       (map snd (reservations s))"

text \<open>What the service registers with the risk state manager.\<close>

definition reservationData :: "(rat \<Rightarrow> rat) \<Rightarrow> 'a budget_state_scheme \<Rightarrow> reservation_data" where
  "reservationData rd s = (\<lambda>isPaper. (getReservedPositionSlots (Some isPaper) s, getReservedCapital rd (Some isPaper) s))"

definition clearStaleReservations :: "'a budget_state_scheme \<Rightarrow> 'a budget_state_scheme" where
  "clearStaleReservations s = s\<lparr>reservations := []\<rparr>"

definition restorePaperActivePairIds :: "position_row list \<Rightarrow> 'a budget_state_scheme \<Rightarrow> 'a budget_state_scheme" where
  "restorePaperActivePairIds db s = s\<lparr>paperActivePairIds := set_of_list (map positionPairId
     (filter (\<lambda>r. positionIsPaper r \<and> positionStatus r \<noteq> CLOSED) db))\<rparr>"

definition maxPositionSizeUsd :: "(rat \<Rightarrow> rat) \<Rightarrow> bool \<Rightarrow> 'a risk_state_scheme \<Rightarrow> decimal" where
  "maxPositionSizeUsd rd isPaper s =
     xmul rd (getBankrollForMode isPaper s) (to_decimal (maxPositionPct (risk_cfg s)))"

definition reserveBudget ::
  "(rat \<Rightarrow> rat) \<Rightarrow> string \<Rightarrow> timestamp \<Rightarrow> reservation_request \<Rightarrow> 'a budget_state_scheme
     \<Rightarrow> risk_limit_error + ('a budget_state_scheme \<times> risk_effect list \<times> budget_reservation)" where
  "reserveBudget rd uuid now req s =
     (let isPaper = reqIsPaper req;
          m = getState isPaper s;
          bankroll = getBankrollForMode isPaper s;
          cfg = risk_cfg s in
      if \<not> isPaper \<and> isTradingHalted False s then Inl TradingIsHalted
      else if isPaper \<and> reqPairId req \<in> set (paperActivePairIds s)
        then Inl (PaperPairActive (reqPairId req))
      else
        let maxSize = maxPositionSizeUsd rd isPaper s;
            reserveAmount = (if xle (recommendedPositionSizeUsd req) maxSize
              then recommendedPositionSizeUsd req else maxSize);
            effectiveOpenPairs = openPositionCount m + getReservedPositionSlots (Some isPaper) s in
        if xge (Fin (of_int effectiveOpenPairs)) (maxOpenPairs cfg)
          then Inl (MaxOpenPairsReached effectiveOpenPairs (maxOpenPairs cfg))
        else
          let modeReservedCapital = getReservedCapital rd (Some isPaper) s;
              availableCapital = xsub rd (xsub rd bankroll (totalCapitalDeployed m)) modeReservedCapital in
          if xlt availableCapital reserveAmount
            then Inl (InsufficientCapital (to_number availableCapital) (to_number reserveAmount))
          else
            let r = \<lparr>reservationId = uuid, resOpportunityId = reqOpportunityId req,
                     resPairId = reqPairId req, resIsPaper = isPaper, reservedPositionSlots = 1,
                     reservedCapitalUsd = reserveAmount, correlationExposure = Fin 0, createdAt = now\<rparr>;
                s' = s\<lparr>reservations := map_set uuid r (reservations s),
                       paperActivePairIds := (if isPaper
                         then set_add (reqPairId req) (paperActivePairIds s)
                         else paperActivePairIds s)\<rparr>
            in Inr (s', BudgetReserved uuid (reqOpportunityId req) reserveAmount #
                        persistState (reservationData rd s') isPaper s', r))"

definition commitReservation ::
  "(rat \<Rightarrow> rat) \<Rightarrow> string \<Rightarrow> 'a budget_state_scheme
     \<Rightarrow> risk_limit_error + ('a budget_state_scheme \<times> risk_effect list)" where
  "commitReservation rd rid s =
     (case map_of (reservations s) rid of
        None \<Rightarrow> Inl (ReservationNotFound rid)
      | Some r \<Rightarrow>
          let s1 = incrementOpenPositions rd (reservedPositionSlots r) (reservedCapitalUsd r) (resIsPaper r) s;
              s' = s1\<lparr>reservations := map_delete rid (reservations s1)\<rparr>
          in Inr (s', BudgetCommitted rid (resOpportunityId r) (reservedCapitalUsd r) #
                      persistState (reservationData rd s') (resIsPaper r) s'))"

definition releaseReservation ::
  "(rat \<Rightarrow> rat) \<Rightarrow> string \<Rightarrow> 'a budget_state_scheme
     \<Rightarrow> risk_limit_error + ('a budget_state_scheme \<times> risk_effect list)" where
  "releaseReservation rd rid s =
     (case map_of (reservations s) rid of
        None \<Rightarrow> Inl (ReservationNotFound rid)
      | Some r \<Rightarrow>
          let s' = s\<lparr>reservations := map_delete rid (reservations s),
                     paperActivePairIds := (if resIsPaper r
                       then set_delete (resPairId r) (paperActivePairIds s)
                       else paperActivePairIds s)\<rparr>
          in Inr (s', BudgetReleased rid (resOpportunityId r) (reservedCapitalUsd r) #
                      persistState (reservationData rd s') (resIsPaper r) s'))"

definition adjustReservation ::
  "(rat \<Rightarrow> rat) \<Rightarrow> string \<Rightarrow> decimal \<Rightarrow> 'a budget_state_scheme
     \<Rightarrow> risk_limit_error + ('a budget_state_scheme \<times> risk_effect list)" where
  "adjustReservation rd rid newCapital s =
     (case map_of (reservations s) rid of
        None \<Rightarrow> Inl (ReservationNotFound rid)
      | Some r \<Rightarrow>
          if xge newCapital (reservedCapitalUsd r) then Inr (s, [])
          else let s' = s\<lparr>reservations := map_set rid (r\<lparr>reservedCapitalUsd := newCapital\<rparr>) (reservations s)\<rparr>
            in Inr (s', persistState (reservationData rd s') (resIsPaper r) s'))"

definition closePosition ::
  "(rat \<Rightarrow> rat) \<Rightarrow> decimal \<Rightarrow> decimal \<Rightarrow> string option \<Rightarrow> bool \<Rightarrow> 'a budget_state_scheme
     \<Rightarrow> 'a budget_state_scheme \<times> risk_effect list" where
  "closePosition rd capitalReturned pnlDelta pairId isPaper s =
     (let s1 = (case pairId of
            Some p \<Rightarrow> if isPaper \<and> p \<noteq> []
              then s\<lparr>paperActivePairIds := set_delete p (paperActivePairIds s)\<rparr> else s
          | None \<Rightarrow> s);
          s2 = decrementOpenPositions rd capitalReturned isPaper s1;
          (s3, evs) = updateDailyPnl rd (reservationData rd s2) pnlDelta isPaper True s2
      in (s3, BudgetReleased ''position-close'' ''position-close'' capitalReturned #
              evs @ persistState (reservationData rd s3) isPaper s3))"

definition releasePartialCapital ::
  "(rat \<Rightarrow> rat) \<Rightarrow> decimal \<Rightarrow> decimal \<Rightarrow> bool \<Rightarrow> 'a budget_state_scheme
     \<Rightarrow> 'a budget_state_scheme \<times> risk_effect list" where
  "releasePartialCapital rd capitalReleased realizedPnl isPaper s =
     (let s2 = adjustCapitalDeployed rd capitalReleased isPaper s;
          (s3, evs) = updateDailyPnl rd (reservationData rd s2) realizedPnl isPaper True s2
      in (s3, BudgetReleased ''partial-exit'' ''partial-exit'' capitalReleased #
              evs @ persistState (reservationData rd s3) isPaper s3))"


section \<open>Exact sums\<close>

definition mode_reservations :: "bool \<Rightarrow> 'a budget_state_scheme \<Rightarrow> budget_reservation list" where
  "mode_reservations p s = filter (\<lambda>r. resIsPaper r = p) (map snd (reservations s))"

definition sound_amount :: "decimal \<Rightarrow> bool" where
  "sound_amount d \<longleftrightarrow> (case d of Fin q \<Rightarrow> 0 \<le> q \<and> grid q | _ \<Rightarrow> False)"

definition held :: "bool \<Rightarrow> 'a budget_state_scheme \<Rightarrow> rat" where
  "held p s = sum_list (map (\<lambda>r. fin_val (reservedCapitalUsd r)) (mode_reservations p s))"

definition deployed :: "bool \<Rightarrow> 'a risk_state_scheme \<Rightarrow> rat" where
  "deployed p s = fin_val (totalCapitalDeployed (getState p s))"

definition bankroll_of :: "bool \<Rightarrow> 'a risk_state_scheme \<Rightarrow> rat" where
  "bankroll_of p s = fin_val (getBankrollForMode p s)"

definition pair_limit :: "'a risk_state_scheme \<Rightarrow> rat" where
  "pair_limit s = fin_val (maxOpenPairs (risk_cfg s))"

lemma sound_amount_Fin [simp]: "sound_amount (Fin q) \<longleftrightarrow> 0 \<le> q \<and> grid q"
  by (simp add: sound_amount_def)

lemma sound_amountE:
  assumes "sound_amount d"
  obtains q where "d = Fin q" "0 \<le> q" "grid q"
  using assms by (cases d) (auto simp: sound_amount_def)

lemma sound_amount_val: "sound_amount d \<Longrightarrow> Fin (fin_val d) = d \<and> 0 \<le> fin_val d \<and> grid (fin_val d)"
  by (auto elim: sound_amountE)

lemma foldl_if_filter:
  "foldl (\<lambda>acc r. if P r then f acc r else acc) a xs = foldl f a (filter P xs)"
  by (induction xs arbitrary: a) auto

lemma in_mode_Some [simp]: "in_mode (Some p) r \<longleftrightarrow> resIsPaper r = p"
  by (auto simp: in_mode_def)

lemma slots_mode: "getReservedPositionSlots (Some p) s = foldl (\<lambda>acc r. acc + reservedPositionSlots r) 0 (mode_reservations p s)"
  by (simp add: getReservedPositionSlots_def mode_reservations_def foldl_if_filter)

lemma foldl_slots:
  "list_all (\<lambda>r. reservedPositionSlots r = 1) rs \<Longrightarrow> foldl (\<lambda>acc r. acc + reservedPositionSlots r) a rs = a + int (length rs)"
  by (induction rs arbitrary: a) auto

lemma slots_count:
  "list_all (\<lambda>r. reservedPositionSlots r = 1) (mode_reservations p s) \<Longrightarrow>
     getReservedPositionSlots (Some p) s = int (length (mode_reservations p s))"
  by (simp add: slots_mode foldl_slots)

lemma capital_mode: "getReservedCapital rd (Some p) s = xsum rd (map reservedCapitalUsd (mode_reservations p s))"
  by (simp add: getReservedCapital_def mode_reservations_def foldl_if_filter xsum_def foldl_map)

lemma sound_caps:
  assumes "list_all (\<lambda>r. sound_amount (reservedCapitalUsd r)) rs"
  shows "map reservedCapitalUsd rs = map Fin (map (\<lambda>r. fin_val (reservedCapitalUsd r)) rs)
    \<and> list_all grid (map (\<lambda>r. fin_val (reservedCapitalUsd r)) rs)
    \<and> list_all (\<lambda>x. 0 \<le> x) (map (\<lambda>r. fin_val (reservedCapitalUsd r)) rs)"
  using assms by (induction rs) (auto dest: sound_amount_val)

lemma sum_list_grid: "list_all grid xs \<Longrightarrow> grid (sum_list xs)"
  by (induction xs) auto

lemma held_props:
  assumes "list_all (\<lambda>r. sound_amount (reservedCapitalUsd r)) (mode_reservations p s)"
  shows "0 \<le> held p s \<and> grid (held p s)"
proof -
  let ?xs = "map (\<lambda>r. fin_val (reservedCapitalUsd r)) (mode_reservations p s)"
  have "list_all grid ?xs" "list_all (\<lambda>x. 0 \<le> x) ?xs"
    using sound_caps [OF assms] by blast+
  then show ?thesis
    unfolding held_def using sum_list_grid sum_list_nonneg [of ?xs] by (auto simp: list_all_iff)
qed

context decimal_rounding
begin

lemma capital_exact:
  assumes "list_all (\<lambda>r. sound_amount (reservedCapitalUsd r)) (mode_reservations p s)" "held p s \<le> 10 ^ 12"
  shows "getReservedCapital rd (Some p) s = Fin (held p s)"
proof -
  let ?xs = "map (\<lambda>r. fin_val (reservedCapitalUsd r)) (mode_reservations p s)"
  from sound_caps [OF assms(1)] have eq: "map reservedCapitalUsd (mode_reservations p s) = map Fin ?xs"
    and g: "list_all grid ?xs" "list_all (\<lambda>x. 0 \<le> x) ?xs"
    by blast+
  show ?thesis
    unfolding capital_mode held_def eq using g assms(2) by (intro xsum_exact) (simp_all add: held_def)
qed

end

section \<open>The invariant\<close>

text \<open>
  The bankrolls and the largest position are amounts of money: multiples of 1e-8 (the scale of
  the database columns) up to 1e12, so the sums below are exact.
\<close>

definition money_limits :: "(rat \<Rightarrow> rat) \<Rightarrow> 'a risk_state_scheme \<Rightarrow> bool" where
  "money_limits rd s \<longleftrightarrow>
     (\<forall>p \<in> {False, True}. sound_amount (getBankrollForMode p s) \<and> bankroll_of p s \<le> 10 ^ 12
        \<and> sound_amount (maxPositionSizeUsd rd p s) \<and> fin_val (maxPositionSizeUsd rd p s) \<le> 10 ^ 12)
     \<and> is_integer (maxOpenPairs (risk_cfg s))"

definition mode_sound :: "bool \<Rightarrow> 'a budget_state_scheme \<Rightarrow> bool" where
  "mode_sound p s \<longleftrightarrow>
     sound_amount (totalCapitalDeployed (getState p s))
     \<and> 0 \<le> openPositionCount (getState p s)
     \<and> list_all (\<lambda>r. sound_amount (reservedCapitalUsd r) \<and> reservedPositionSlots r = 1) (mode_reservations p s)
     \<and> deployed p s + held p s \<le> bankroll_of p s
     \<and> of_int (openPositionCount (getState p s) + int (length (mode_reservations p s))) \<le> pair_limit s"

definition budget_inv :: "(rat \<Rightarrow> rat) \<Rightarrow> 'a budget_state_scheme \<Rightarrow> bool" where
  "budget_inv rd s \<longleftrightarrow> money_limits rd s \<and> distinct (map fst (reservations s))
     \<and> mode_sound False s \<and> mode_sound True s"

lemma budget_inv_mode: "budget_inv rd s \<Longrightarrow> mode_sound p s"
  by (cases p) (auto simp: budget_inv_def)

lemma money_limits_mode: "money_limits rd s \<Longrightarrow>
    sound_amount (getBankrollForMode p s) \<and> bankroll_of p s \<le> 10 ^ 12 \<and> sound_amount (maxPositionSizeUsd rd p s)
    \<and> fin_val (maxPositionSizeUsd rd p s) \<le> 10 ^ 12"
  by (cases p) (auto simp: money_limits_def)

lemma is_integer_cases: "is_integer x \<Longrightarrow> \<exists>n. x = Fin (of_int n)"
  by (cases x) (auto simp: is_integer_def intro: sym)

lemma bankroll_cfg: "risk_cfg s' = risk_cfg s \<Longrightarrow> getBankrollForMode p s' = getBankrollForMode p s"
  by (simp add: getBankrollForMode_def split: option.splits)

lemma money_limits_cfg: "risk_cfg s' = risk_cfg s \<Longrightarrow> money_limits rd s \<Longrightarrow> money_limits rd s'"
  using bankroll_cfg [of s' s] by (simp add: money_limits_def bankroll_of_def maxPositionSizeUsd_def)

lemma limits_cfg: "risk_cfg s' = risk_cfg s \<Longrightarrow> bankroll_of p s' = bankroll_of p s \<and> pair_limit s' = pair_limit s"
  using bankroll_cfg [of s' s] by (simp add: bankroll_of_def pair_limit_def)

text \<open>The invariant depends on the mode states, the reservations and the configuration only.\<close>

lemma budget_invI:
  assumes "budget_inv rd s" "risk_cfg s' = risk_cfg s" "distinct (map fst (reservations s'))"
    and "\<And>q. q \<noteq> p \<Longrightarrow> getState q s' = getState q s \<and> mode_reservations q s' = mode_reservations q s"
    and "mode_sound p s'"
  shows "budget_inv rd s'"
proof -
  have "mode_sound q s'" for q
  proof (cases "q = p")
    case False
    then show ?thesis
      using assms(4) [OF False] budget_inv_mode [OF assms(1), of q] limits_cfg [OF assms(2)]
      by (simp add: mode_sound_def deployed_def held_def)
  qed (use assms(5) in simp)
  then show ?thesis
    using assms(1-3) money_limits_cfg [OF assms(2)] by (simp add: budget_inv_def)
qed


section \<open>How the operations change the totals\<close>

definition mode_val :: "bool \<Rightarrow> budget_reservation \<Rightarrow> rat" where
  "mode_val p r = (if resIsPaper r = p then fin_val (reservedCapitalUsd r) else 0)"

definition mode_count :: "bool \<Rightarrow> budget_reservation \<Rightarrow> nat" where
  "mode_count p r = (if resIsPaper r = p then 1 else 0)"

lemma mode_reservations_split:
  assumes "reservations s = xs @ (k, r) # ys"
  shows "mode_reservations p s =
    filter (\<lambda>r. resIsPaper r = p) (map snd xs) @ (if resIsPaper r = p then [r] else [])
      @ filter (\<lambda>r. resIsPaper r = p) (map snd ys)"
  by (simp add: mode_reservations_def assms)

lemma fresh_totals:
  assumes "map_of (reservations s) k = None" "reservations s' = map_set k r (reservations s)"
  shows "held p s' = held p s + mode_val p r"
    and "length (mode_reservations p s') = length (mode_reservations p s) + mode_count p r"
    and "set (mode_reservations p s') = (if resIsPaper r = p then {r} else {}) \<union> set (mode_reservations p s)"
    and "resIsPaper r \<noteq> p \<Longrightarrow> mode_reservations p s' = mode_reservations p s"
  using assms(2) unfolding map_set_fresh [OF assms(1)]
  by (auto simp: held_def mode_reservations_def mode_val_def mode_count_def)

lemma delete_totals:
  assumes "map_of (reservations s) k = Some r" "distinct (map fst (reservations s))"
    and "reservations s' = map_delete k (reservations s)"
  shows "held p s = held p s' + mode_val p r"
    and "length (mode_reservations p s) = length (mode_reservations p s') + mode_count p r"
    and "set (mode_reservations p s') \<subseteq> set (mode_reservations p s)"
    and "r \<in> set (mode_reservations (resIsPaper r) s)"
    and "resIsPaper r \<noteq> p \<Longrightarrow> mode_reservations p s' = mode_reservations p s"
proof -
  from map_of_split [OF assms(1,2)] obtain xs ys where
    s: "reservations s = xs @ (k, r) # ys" and n: "map_of xs k = None" "map_of ys k = None" .
  have s': "reservations s' = xs @ ys" using assms(3) map_delete_split [OF n] s by simp
  show "held p s = held p s' + mode_val p r"
    "length (mode_reservations p s) = length (mode_reservations p s') + mode_count p r"
    "set (mode_reservations p s') \<subseteq> set (mode_reservations p s)"
    "r \<in> set (mode_reservations (resIsPaper r) s)"
    "resIsPaper r \<noteq> p \<Longrightarrow> mode_reservations p s' = mode_reservations p s"
    by (auto simp: held_def mode_reservations_def s s' mode_val_def mode_count_def)
qed

lemma replace_totals:
  assumes "map_of (reservations s) k = Some r" "distinct (map fst (reservations s))"
    and "reservations s' = map_set k r' (reservations s)" "resIsPaper r' = resIsPaper r"
  shows "held p s' = held p s - mode_val p r + mode_val p r'"
    and "length (mode_reservations p s') = length (mode_reservations p s)"
    and "set (mode_reservations p s') \<subseteq> set (mode_reservations p s) \<union> (if resIsPaper r = p then {r'} else {})"
    and "resIsPaper r \<noteq> p \<Longrightarrow> mode_reservations p s' = mode_reservations p s"
proof -
  from map_of_split [OF assms(1,2)] obtain xs ys where
    s: "reservations s = xs @ (k, r) # ys" and n: "map_of xs k = None" "map_of ys k = None" .
  have s': "reservations s' = xs @ (k, r') # ys" using assms(3) map_set_split [OF n(1)] s by simp
  show "held p s' = held p s - mode_val p r + mode_val p r'"
    "length (mode_reservations p s') = length (mode_reservations p s)"
    "set (mode_reservations p s') \<subseteq> set (mode_reservations p s) \<union> (if resIsPaper r = p then {r'} else {})"
    "resIsPaper r \<noteq> p \<Longrightarrow> mode_reservations p s' = mode_reservations p s"
    using assms(4) by (auto simp: held_def mode_reservations_def s s' mode_val_def)
qed

lemma mode_soundD:
  assumes "mode_sound p s"
  shows "sound_amount (totalCapitalDeployed (getState p s))" "0 \<le> openPositionCount (getState p s)"
    and "list_all (\<lambda>r. sound_amount (reservedCapitalUsd r)) (mode_reservations p s)"
    and "list_all (\<lambda>r. reservedPositionSlots r = 1) (mode_reservations p s)"
    and "deployed p s + held p s \<le> bankroll_of p s"
    and "of_int (openPositionCount (getState p s) + int (length (mode_reservations p s))) \<le> pair_limit s"
    and "0 \<le> deployed p s" "grid (deployed p s)" "0 \<le> held p s" "grid (held p s)"
    and "totalCapitalDeployed (getState p s) = Fin (deployed p s)"
proof -
  show *: "sound_amount (totalCapitalDeployed (getState p s))" "0 \<le> openPositionCount (getState p s)"
    "list_all (\<lambda>r. sound_amount (reservedCapitalUsd r)) (mode_reservations p s)"
    "list_all (\<lambda>r. reservedPositionSlots r = 1) (mode_reservations p s)"
    "deployed p s + held p s \<le> bankroll_of p s"
    "of_int (openPositionCount (getState p s) + int (length (mode_reservations p s))) \<le> pair_limit s"
    using assms by (simp_all add: mode_sound_def list_all_iff)
  from held_props [OF *(3)] show "0 \<le> held p s" "grid (held p s)" by simp_all
  from sound_amount_val [OF *(1)] show "0 \<le> deployed p s" "grid (deployed p s)"
    "totalCapitalDeployed (getState p s) = Fin (deployed p s)"
    by (simp_all add: deployed_def)
qed

section \<open>Every operation keeps the invariant\<close>

lemma mode_soundI:
  assumes "sound_amount (totalCapitalDeployed (getState p s))" "0 \<le> openPositionCount (getState p s)"
    and "\<And>r. r \<in> set (mode_reservations p s) \<Longrightarrow> sound_amount (reservedCapitalUsd r) \<and> reservedPositionSlots r = 1"
    and "deployed p s + held p s \<le> bankroll_of p s"
    and "of_int (openPositionCount (getState p s) + int (length (mode_reservations p s))) \<le> pair_limit s"
  shows "mode_sound p s"
  using assms by (simp add: mode_sound_def list_all_iff)

text \<open>A mode stays sound when its totals do not grow.\<close>

lemma mode_sound_shrink:
  assumes "mode_sound p s" "risk_cfg s' = risk_cfg s"
    and "sound_amount (totalCapitalDeployed (getState p s'))" "0 \<le> openPositionCount (getState p s')"
    and "\<And>r. r \<in> set (mode_reservations p s') \<Longrightarrow> sound_amount (reservedCapitalUsd r) \<and> reservedPositionSlots r = 1"
    and "deployed p s' + held p s' \<le> deployed p s + held p s"
    and "openPositionCount (getState p s') + int (length (mode_reservations p s'))
      \<le> openPositionCount (getState p s) + int (length (mode_reservations p s))"
  shows "mode_sound p s'"
proof (rule mode_soundI)
  show "deployed p s' + held p s' \<le> bankroll_of p s'"
    using mode_soundD(5) [OF assms(1)] assms(6) limits_cfg [OF assms(2), of p] by linarith
  have "(of_int (openPositionCount (getState p s') + int (length (mode_reservations p s'))) :: rat)
      \<le> of_int (openPositionCount (getState p s) + int (length (mode_reservations p s)))"
    using assms(7) by (simp only: of_int_le_iff)
  then show "of_int (openPositionCount (getState p s') + int (length (mode_reservations p s'))) \<le> pair_limit s'"
    using mode_soundD(6) [OF assms(1)] limits_cfg [OF assms(2), of p] by linarith
qed (use assms(3,4,5) in auto)

lemma mode_sound_members:
  "mode_sound p s \<Longrightarrow> r \<in> set (mode_reservations p s) \<Longrightarrow> sound_amount (reservedCapitalUsd r) \<and> reservedPositionSlots r = 1"
  by (auto simp: mode_sound_def list_all_iff)

lemma mode_val_sound: "sound_amount (reservedCapitalUsd r) \<Longrightarrow> 0 \<le> mode_val p r \<and> grid (mode_val p r)"
  by (auto simp: mode_val_def dest: sound_amount_val)

lemma budget_inv_member:
  assumes "budget_inv rd s" "map_of (reservations s) k = Some r"
  shows "sound_amount (reservedCapitalUsd r) \<and> reservedPositionSlots r = 1"
proof -
  have "distinct (map fst (reservations s))" using assms(1) by (simp add: budget_inv_def)
  from delete_totals(4) [OF assms(2) this, of "s\<lparr>reservations := map_delete k (reservations s)\<rparr>"]
  have "r \<in> set (mode_reservations (resIsPaper r) s)" by simp
  then show ?thesis using mode_sound_members budget_inv_mode [OF assms(1)] by blast
qed

lemma getState_reservations [simp]: "getState p (s\<lparr>reservations := m\<rparr>) = getState p s"
  "getState p (s\<lparr>paperActivePairIds := a\<rparr>) = getState p s"
  by (simp_all add: getState_def)

lemma reservations_put [simp]: "reservations (put_state p m s) = reservations s"
  "paperActivePairIds (put_state p m s) = paperActivePairIds s"
  by (simp_all add: put_state_def)

lemma mode_reservations_cong: "reservations s' = reservations s \<Longrightarrow> mode_reservations p s' = mode_reservations p s"
  by (simp add: mode_reservations_def)

lemma reserve_result:
  assumes "reserveBudget rd uuid now req s = Inr (s', evs, r)"
  defines "p \<equiv> reqIsPaper req"
  shows "risk_cfg s' = risk_cfg s" "getState q s' = getState q s"
    and "reservations s' = map_set uuid r (reservations s)"
    and "resIsPaper r = p" "reservedPositionSlots r = 1" "reservationId r = uuid"
    and "reservedCapitalUsd r = (if xle (recommendedPositionSizeUsd req) (maxPositionSizeUsd rd p s)
           then recommendedPositionSizeUsd req else maxPositionSizeUsd rd p s)"
    and "\<not> xge (Fin (of_int (openPositionCount (getState p s) + getReservedPositionSlots (Some p) s)))
           (maxOpenPairs (risk_cfg s))"
    and "\<not> xlt (xsub rd (xsub rd (getBankrollForMode p s) (totalCapitalDeployed (getState p s)))
           (getReservedCapital rd (Some p) s)) (reservedCapitalUsd r)"
    and "\<not> (\<not> p \<and> isTradingHalted False s)" "\<not> (p \<and> reqPairId req \<in> set (paperActivePairIds s))"
    and "paperActivePairIds s' = (if p then set_add (reqPairId req) (paperActivePairIds s) else paperActivePairIds s)"
    and "resPairId r = reqPairId req"
  using assms(1) unfolding p_def
  by (auto simp: reserveBudget_def Let_def getState_def split: if_splits)

context decimal_rounding
begin

lemma available_exact:
  assumes "money_limits rd s" "mode_sound p s"
  shows "xsub rd (xsub rd (getBankrollForMode p s) (totalCapitalDeployed (getState p s)))
      (getReservedCapital rd (Some p) s) = Fin (bankroll_of p s - deployed p s - held p s)"
proof -
  note m = mode_soundD [OF assms(2)]
  from money_limits_mode [OF assms(1), of p] have B: "getBankrollForMode p s = Fin (bankroll_of p s)"
    "grid (bankroll_of p s)" "bankroll_of p s \<le> 10 ^ 12"
    by (auto simp: bankroll_of_def dest: sound_amount_val)
  have "held p s \<le> 10 ^ 12" using m(5,7) B(3) by linarith
  from capital_exact [OF m(3) this] have R: "getReservedCapital rd (Some p) s = Fin (held p s)" .
  have "rd (bankroll_of p s - deployed p s) = bankroll_of p s - deployed p s"
    using m B by (intro rd_grid) auto
  moreover have "rd (bankroll_of p s - deployed p s - held p s) = bankroll_of p s - deployed p s - held p s"
    using m B by (intro rd_grid) auto
  ultimately show ?thesis using R B(1) m(11) by simp
qed

lemma reserve_amount:
  assumes "reserveBudget rd uuid now req s = Inr (s', evs, r)" "budget_inv rd s"
    and "sound_amount (recommendedPositionSizeUsd req)"
  shows "sound_amount (reservedCapitalUsd r)"
    "fin_val (reservedCapitalUsd r) \<le> bankroll_of (reqIsPaper req) s - deployed (reqIsPaper req) s - held (reqIsPaper req) s"
    "fin_val (reservedCapitalUsd r) = min (fin_val (recommendedPositionSizeUsd req))
       (fin_val (maxPositionSizeUsd rd (reqIsPaper req) s))"
proof -
  let ?p = "reqIsPaper req"
  note r = reserve_result [OF assms(1)]
  from assms(2) have l: "money_limits rd s" by (simp add: budget_inv_def)
  obtain M where M: "maxPositionSizeUsd rd ?p s = Fin M" "0 \<le> M" "grid M"
    using money_limits_mode [OF l, of ?p] by (auto elim: sound_amountE)
  obtain x where x: "recommendedPositionSizeUsd req = Fin x" "0 \<le> x" "grid x"
    using assms(3) by (rule sound_amountE)
  show "sound_amount (reservedCapitalUsd r)"
    "fin_val (reservedCapitalUsd r) = min (fin_val (recommendedPositionSizeUsd req)) (fin_val (maxPositionSizeUsd rd ?p s))"
    using r(7) M x by (auto simp: min_def)
  then obtain c where c: "reservedCapitalUsd r = Fin c" by (auto elim: sound_amountE)
  show "fin_val (reservedCapitalUsd r) \<le> bankroll_of ?p s - deployed ?p s - held ?p s"
    using r(9) unfolding available_exact [OF l budget_inv_mode [OF assms(2)], of ?p] c by simp
qed

lemma reserve_inv:
  assumes "reserveBudget rd uuid now req s = Inr (s', evs, r)" "budget_inv rd s"
    and "sound_amount (recommendedPositionSizeUsd req)" "map_of (reservations s) uuid = None"
  shows "budget_inv rd s'"
proof (rule budget_invI [OF assms(2), where p = "reqIsPaper req"])
  let ?p = "reqIsPaper req"
  note r = reserve_result [OF assms(1)] and a = reserve_amount [OF assms(1-3)]
  note t = fresh_totals [OF assms(4) r(3)]
  note ms = budget_inv_mode [OF assms(2), of ?p]
  note m = mode_soundD [OF ms]
  show "risk_cfg s' = risk_cfg s" by (rule r)
  show "distinct (map fst (reservations s'))"
    using assms(2) by (simp add: r(3) budget_inv_def distinct_map_set)
  show "getState q s' = getState q s \<and> mode_reservations q s' = mode_reservations q s" if "q \<noteq> ?p" for q
    using that t(4) [of q] r(2,4) by simp
  have lim: "bankroll_of q s' = bankroll_of q s" "pair_limit s' = pair_limit s" for q
    using limits_cfg [OF r(1)] by simp_all
  obtain n where n: "maxOpenPairs (risk_cfg s) = Fin (of_int n)"
    using assms(2) is_integer_cases by (auto simp: budget_inv_def money_limits_def)
  have "openPositionCount (getState ?p s) + int (length (mode_reservations ?p s)) < n"
    using r(8) slots_count [OF m(4)] by (simp add: n del: of_int_add)
  then have cnt: "openPositionCount (getState ?p s) + int (length (mode_reservations ?p s)) + 1 \<le> n"
    by simp
  show "mode_sound ?p s'"
  proof (rule mode_soundI)
    show "sound_amount (totalCapitalDeployed (getState ?p s'))" "0 \<le> openPositionCount (getState ?p s')"
      using m(1,2) by (simp_all add: r(2))
    show "sound_amount (reservedCapitalUsd x) \<and> reservedPositionSlots x = 1"
      if "x \<in> set (mode_reservations ?p s')" for x
      using that t(3) [of ?p] a(1) r(4,5) mode_sound_members [OF ms] by (auto split: if_splits)
    show "deployed ?p s' + held ?p s' \<le> bankroll_of ?p s'"
      using a(2) t(1) [of ?p] r(4) by (simp add: lim deployed_def r(2) mode_val_def)
    show "of_int (openPositionCount (getState ?p s') + int (length (mode_reservations ?p s'))) \<le> pair_limit s'"
      using cnt t(2) [of ?p] r(4) by (simp add: r(1,2) mode_count_def pair_limit_def n del: of_int_add)
  qed
qed

lemma commit_result:
  assumes "commitReservation rd rid s = Inr (s', evs)" "budget_inv rd s"
  obtains r where "map_of (reservations s) rid = Some r" "risk_cfg s' = risk_cfg s"
    "reservations s' = map_delete rid (reservations s)"
    "\<And>q. getState q s' = (if q = resIsPaper r
       then (getState q s)\<lparr>openPositionCount := openPositionCount (getState q s) + 1,
              totalCapitalDeployed := Fin (deployed q s + fin_val (reservedCapitalUsd r))\<rparr>
       else getState q s)"
proof -
  from assms(1) obtain r where r: "map_of (reservations s) rid = Some r"
    by (auto simp: commitReservation_def split: option.splits)
  let ?p = "resIsPaper r" and ?x = "fin_val (reservedCapitalUsd r)"
  note m = mode_soundD [OF budget_inv_mode [OF assms(2), of ?p]]
  from budget_inv_member [OF assms(2) r]
  have x: "reservedCapitalUsd r = Fin ?x" "0 \<le> ?x" "grid ?x" and slot: "reservedPositionSlots r = 1"
    by (auto dest: sound_amount_val)
  have dist: "distinct (map fst (reservations s))" using assms(2) by (simp add: budget_inv_def)
  have "?x \<le> held ?p s"
    using delete_totals(1) [OF r dist, of "s\<lparr>reservations := map_delete rid (reservations s)\<rparr>" ?p]
      held_props [of ?p "s\<lparr>reservations := map_delete rid (reservations s)\<rparr>"] m(3)
      delete_totals(3) [OF r dist, of "s\<lparr>reservations := map_delete rid (reservations s)\<rparr>" ?p]
    by (auto simp: mode_val_def list_all_iff)
  moreover have "bankroll_of ?p s \<le> 10 ^ 12"
    using assms(2) money_limits_mode by (auto simp: budget_inv_def)
  ultimately have "rd (deployed ?p s + ?x) = deployed ?p s + ?x"
    using m x by (intro rd_grid) auto
  then have "xadd rd (totalCapitalDeployed (getState ?p s)) (reservedCapitalUsd r) = Fin (deployed ?p s + ?x)"
    using x(1) m(11) by (metis xadd.simps(1))
  with assms(1) r slot show ?thesis
    by (intro that [of r]) (auto simp: commitReservation_def incrementOpenPositions_def Let_def)
qed

lemma commit_inv:
  assumes "commitReservation rd rid s = Inr (s', evs)" "budget_inv rd s"
  shows "budget_inv rd s'"
proof -
  from commit_result [OF assms] obtain r where r: "map_of (reservations s) rid = Some r"
    "risk_cfg s' = risk_cfg s" "reservations s' = map_delete rid (reservations s)"
    and g: "\<And>q. getState q s' = (if q = resIsPaper r
       then (getState q s)\<lparr>openPositionCount := openPositionCount (getState q s) + 1,
              totalCapitalDeployed := Fin (deployed q s + fin_val (reservedCapitalUsd r))\<rparr>
       else getState q s)" by blast
  have dist: "distinct (map fst (reservations s))" using assms(2) by (simp add: budget_inv_def)
  let ?p = "resIsPaper r"
  note t = delete_totals [OF r(1) dist r(3)] and ms = budget_inv_mode [OF assms(2), of ?p]
  note m = mode_soundD [OF ms]
  have x: "0 \<le> fin_val (reservedCapitalUsd r)" "grid (fin_val (reservedCapitalUsd r))"
    using budget_inv_member [OF assms(2) r(1)] by (auto dest: sound_amount_val)
  have d: "deployed ?p s' = deployed ?p s + fin_val (reservedCapitalUsd r)"
    by (simp add: deployed_def g)
  show ?thesis
  proof (rule budget_invI [OF assms(2) r(2), where p = ?p])
    show "distinct (map fst (reservations s'))" by (simp add: r(3) distinct_map_delete dist)
    show "getState q s' = getState q s \<and> mode_reservations q s' = mode_reservations q s" if "q \<noteq> ?p" for q
      using that t(5) [of q] g by simp
    show "mode_sound ?p s'"
    proof (rule mode_sound_shrink [OF ms r(2)])
      show "sound_amount (totalCapitalDeployed (getState ?p s'))" "0 \<le> openPositionCount (getState ?p s')"
        using m x by (simp_all add: g)
      show "deployed ?p s' + held ?p s' \<le> deployed ?p s + held ?p s"
        using t(1) [of ?p] by (simp add: d mode_val_def)
      show "openPositionCount (getState ?p s') + int (length (mode_reservations ?p s'))
          \<le> openPositionCount (getState ?p s) + int (length (mode_reservations ?p s))"
        using t(2) [of ?p] by (simp add: g mode_count_def)
    qed (use t(3) [of ?p] mode_sound_members [OF ms] in blast)
  qed
qed

end

lemma release_result:
  assumes "releaseReservation rd rid s = Inr (s', evs)"
  obtains r where "map_of (reservations s) rid = Some r" "risk_cfg s' = risk_cfg s"
    "reservations s' = map_delete rid (reservations s)" "\<And>q. getState q s' = getState q s"
    "paperActivePairIds s' = (if resIsPaper r then set_delete (resPairId r) (paperActivePairIds s)
       else paperActivePairIds s)"
proof -
  from assms obtain r where r: "map_of (reservations s) rid = Some r"
    by (auto simp: releaseReservation_def split: option.splits)
  with assms have "s' = s\<lparr>reservations := map_delete rid (reservations s),
      paperActivePairIds := (if resIsPaper r
        then set_delete (resPairId r) (paperActivePairIds s) else paperActivePairIds s)\<rparr>"
    by (simp add: releaseReservation_def Let_def)
  then show ?thesis by (intro that [of r]) (simp_all add: r)
qed

lemma release_inv:
  assumes "releaseReservation rd rid s = Inr (s', evs)" "budget_inv rd s"
  shows "budget_inv rd s'"
proof -
  from release_result [OF assms(1)] obtain r where r: "map_of (reservations s) rid = Some r"
    "risk_cfg s' = risk_cfg s" "reservations s' = map_delete rid (reservations s)"
    and g: "\<And>q. getState q s' = getState q s" by blast
  have dist: "distinct (map fst (reservations s))" using assms(2) by (simp add: budget_inv_def)
  let ?p = "resIsPaper r"
  note t = delete_totals [OF r(1) dist r(3)] and ms = budget_inv_mode [OF assms(2), of ?p]
  have x: "0 \<le> mode_val ?p r" using budget_inv_member [OF assms(2) r(1)] mode_val_sound by blast
  show ?thesis
  proof (rule budget_invI [OF assms(2) r(2), where p = ?p])
    show "distinct (map fst (reservations s'))" by (simp add: r(3) distinct_map_delete dist)
    show "getState q s' = getState q s \<and> mode_reservations q s' = mode_reservations q s" if "q \<noteq> ?p" for q
      using that t(5) [of q] g by simp
    show "mode_sound ?p s'"
    proof (rule mode_sound_shrink [OF ms r(2)])
      show "sound_amount (totalCapitalDeployed (getState ?p s'))" "0 \<le> openPositionCount (getState ?p s')"
        using mode_soundD [OF ms] by (simp_all add: g)
      show "deployed ?p s' + held ?p s' \<le> deployed ?p s + held ?p s"
        using t(1) [of ?p] x by (simp add: deployed_def g)
      show "openPositionCount (getState ?p s') + int (length (mode_reservations ?p s'))
          \<le> openPositionCount (getState ?p s) + int (length (mode_reservations ?p s))"
        using t(2) [of ?p] by (simp add: g)
    qed (use t(3) [of ?p] mode_sound_members [OF ms] in blast)
  qed
qed

lemma adjust_result:
  assumes "adjustReservation rd rid c s = Inr (s', evs)"
  obtains r where "map_of (reservations s) rid = Some r" "xge c (reservedCapitalUsd r)" "s' = s" "evs = []"
  | r where "map_of (reservations s) rid = Some r" "\<not> xge c (reservedCapitalUsd r)" "risk_cfg s' = risk_cfg s"
    "reservations s' = map_set rid (r\<lparr>reservedCapitalUsd := c\<rparr>) (reservations s)"
    "\<And>q. getState q s' = getState q s" "paperActivePairIds s' = paperActivePairIds s"
proof -
  from assms obtain r where r: "map_of (reservations s) rid = Some r"
    by (auto simp: adjustReservation_def split: option.splits)
  show ?thesis
  proof (cases "xge c (reservedCapitalUsd r)")
    case True
    with assms r show ?thesis by (intro that(1) [of r]) (simp_all add: adjustReservation_def)
  next
    case False
    with assms r have "s' = s\<lparr>reservations := map_set rid (r\<lparr>reservedCapitalUsd := c\<rparr>) (reservations s)\<rparr>"
      by (simp add: adjustReservation_def Let_def)
    then show ?thesis using False by (intro that(2) [of r]) (simp_all add: r)
  qed
qed

lemma adjust_inv:
  assumes "adjustReservation rd rid c s = Inr (s', evs)" "budget_inv rd s" "sound_amount c"
  shows "budget_inv rd s'"
  using assms(1)
proof (cases rule: adjust_result)
  case (1 r)
  then show ?thesis using assms(2) by simp
next
  case (2 r)
  have dist: "distinct (map fst (reservations s))" using assms(2) by (simp add: budget_inv_def)
  let ?p = "resIsPaper r" and ?r = "r\<lparr>reservedCapitalUsd := c\<rparr>"
  note t = replace_totals [OF 2(1) dist 2(4), simplified] and ms = budget_inv_mode [OF assms(2), of ?p]
  have r: "sound_amount (reservedCapitalUsd r)" "reservedPositionSlots r = 1"
    using budget_inv_member [OF assms(2) 2(1)] by auto
  then have le: "mode_val ?p ?r \<le> mode_val ?p r"
    using assms(3) 2(2) by (auto simp: mode_val_def elim!: sound_amountE)
  show ?thesis
  proof (rule budget_invI [OF assms(2) 2(3), where p = ?p])
    show "distinct (map fst (reservations s'))" by (simp add: 2(4) distinct_map_set dist)
    show "getState q s' = getState q s \<and> mode_reservations q s' = mode_reservations q s" if "q \<noteq> ?p" for q
      using that t(4) [of q] 2(5) by simp
    show "mode_sound ?p s'"
    proof (rule mode_sound_shrink [OF ms 2(3)])
      show "sound_amount (totalCapitalDeployed (getState ?p s'))" "0 \<le> openPositionCount (getState ?p s')"
        using mode_soundD [OF ms] by (simp_all add: 2(5))
      show "deployed ?p s' + held ?p s' \<le> deployed ?p s + held ?p s"
        using t(1) [of ?p] le by (simp add: deployed_def 2(5))
      show "openPositionCount (getState ?p s') + int (length (mode_reservations ?p s'))
          \<le> openPositionCount (getState ?p s) + int (length (mode_reservations ?p s))"
        using t(2) [of ?p] by (simp add: 2(5))
      show "sound_amount (reservedCapitalUsd x) \<and> reservedPositionSlots x = 1"
        if "x \<in> set (mode_reservations ?p s')" for x
        using that t(3) [of ?p] r assms(3) mode_sound_members [OF ms, of x] by auto
    qed
  qed
qed

text \<open>An operation that leaves capital, counts, reservations and configuration alone.\<close>

lemma budget_inv_frame:
  assumes "budget_inv rd s" "risk_cfg s' = risk_cfg s" "reservations s' = reservations s"
    and "\<And>p. totalCapitalDeployed (getState p s') = totalCapitalDeployed (getState p s)"
    and "\<And>p. openPositionCount (getState p s') = openPositionCount (getState p s)"
  shows "budget_inv rd s'"
proof -
  have "mode_sound p s'" for p
    using budget_inv_mode [OF assms(1), of p] mode_reservations_cong [OF assms(3)] limits_cfg [OF assms(2)]
    by (simp add: mode_sound_def deployed_def held_def assms(4,5))
  then show ?thesis
    using assms(1) money_limits_cfg [OF assms(2)] by (simp add: budget_inv_def assms(3))
qed

lemma updateDailyPnl_reservations [simp]:
  "reservations (fst (updateDailyPnl rd prov d p skip s)) = reservations s"
  "paperActivePairIds (fst (updateDailyPnl rd prov d p skip s)) = paperActivePairIds s"
  by (simp_all add: updateDailyPnl_def Let_def split: prod.splits)

lemma updateDailyPnl_totals:
  "totalCapitalDeployed (getState q (fst (updateDailyPnl rd prov d p skip s))) = totalCapitalDeployed (getState q s)"
  "openPositionCount (getState q (fst (updateDailyPnl rd prov d p skip s))) = openPositionCount (getState q s)"
  by (cases "q = p"; simp add: updateDailyPnl_mode updateDailyPnl_other_mode)+

lemma updateDailyPnl_inv:
  assumes "budget_inv rd s"
  shows "budget_inv rd (fst (updateDailyPnl rd prov d p skip s))"
  by (rule budget_inv_frame [OF assms]) (simp_all add: updateDailyPnl_totals updateDailyPnl_frame)

lemma haltTrading_inv: "budget_inv rd s \<Longrightarrow> budget_inv rd (fst (haltTrading prov reason s))"
  by (erule budget_inv_frame) (auto simp: haltTrading_def applyHalt_def Let_def split: prod.splits if_splits)

lemma resumeTrading_inv: "budget_inv rd s \<Longrightarrow> budget_inv rd (fst (resumeTrading prov reason s))"
  by (erule budget_inv_frame) (auto simp: resumeTrading_def applyResume_def Let_def split: prod.splits if_splits)

lemma midnight_state: "getState p (fst (handleMidnightReset prov now s)) =
        (getState p s)\<lparr>dailyPnl := Fin 0, lastResetTimestamp := Some (utc_midnight now),
          dailyLossApproachEmitted := False,
          activeHaltReasons := set_delete DAILY_LOSS_LIMIT (activeHaltReasons (getState p s))\<rparr>"
  by (auto simp: handleMidnightReset_def reset_mode_def applyResume_def Let_def getState_def split: if_splits)

lemma midnight_inv: "budget_inv rd s \<Longrightarrow> budget_inv rd (fst (handleMidnightReset prov now s))"
  by (erule budget_inv_frame) (simp_all add: midnight_state, simp_all add: handleMidnightReset_def Let_def split: prod.splits)

lemma closePosition_state:
  "fst (closePosition rd c pnl pairId p s) = fst (updateDailyPnl rd prov pnl p True (decrementOpenPositions rd c p
     (case pairId of Some q \<Rightarrow> if p \<and> q \<noteq> [] then s\<lparr>paperActivePairIds := set_delete q (paperActivePairIds s)\<rparr> else s
      | None \<Rightarrow> s)))"
  by (simp add: closePosition_def Let_def updateDailyPnl_def split: prod.splits option.splits)

context decimal_rounding
begin

lemma floor0_sub:
  assumes "grid D" "grid c" "D \<le> 10 ^ 12" "0 \<le> c"
  shows "floor0 (xsub rd (Fin D) (Fin c)) = Fin (max 0 (D - c))"
proof (cases "D < c")
  case True
  then show ?thesis by (simp add: floor0_def)
next
  case False
  then have "rd (D - c) = D - c" using assms by (intro rd_grid) auto
  with False show ?thesis by (simp add: floor0_def)
qed

lemma deployed_le: "budget_inv rd s \<Longrightarrow> deployed p s \<le> 10 ^ 12"
  using mode_soundD(5,9) [OF budget_inv_mode, of rd s p] money_limits_mode [of rd s p]
  by (auto simp: budget_inv_def)

lemma return_capital:
  assumes "budget_inv rd s" "sound_amount c"
  shows "floor0 (xsub rd (totalCapitalDeployed (getState p s)) c) = Fin (max 0 (deployed p s - fin_val c))"
  using floor0_sub [of "deployed p s" "fin_val c"] mode_soundD [OF budget_inv_mode [OF assms(1), of p]]
    deployed_le [OF assms(1), of p] sound_amount_val [OF assms(2)]
  by (metis assms(2))

lemma shrink_mode_inv:
  assumes "budget_inv rd s" "sound_amount c" "reservations s' = reservations s" "risk_cfg s' = risk_cfg s"
    and "getState p s' = (getState p s)\<lparr>openPositionCount := n,
      totalCapitalDeployed := floor0 (xsub rd (totalCapitalDeployed (getState p s)) c)\<rparr>"
    and "0 \<le> n" "n \<le> openPositionCount (getState p s)"
    and "\<And>q. q \<noteq> p \<Longrightarrow> getState q s' = getState q s"
  shows "budget_inv rd s'"
proof (rule budget_invI [OF assms(1,4), where p = p])
  note ms = budget_inv_mode [OF assms(1), of p]
  note m = mode_soundD [OF ms] and c = return_capital [OF assms(1,2), of p]
  have d: "deployed p s' = max 0 (deployed p s - fin_val c)" by (simp add: deployed_def assms(5) c [unfolded deployed_def])
  note r = mode_reservations_cong [OF assms(3)]
  have v: "0 \<le> fin_val c" "grid (fin_val c)" using sound_amount_val [OF assms(2)] by auto
  show "distinct (map fst (reservations s'))" using assms(1) by (simp add: assms(3) budget_inv_def)
  show "getState q s' = getState q s \<and> mode_reservations q s' = mode_reservations q s" if "q \<noteq> p" for q
    using that assms(8) r by simp
  show "mode_sound p s'"
  proof (rule mode_sound_shrink [OF ms assms(4)])
    show "sound_amount (totalCapitalDeployed (getState p s'))"
      using m(8) v by (auto simp: assms(5) c max_def)
    show "deployed p s' + held p s' \<le> deployed p s + held p s"
      using m(7) v(1) by (simp add: d held_def r)
  qed (use assms(5-7) r mode_sound_members [OF ms] in auto)
qed

lemma decrement_inv:
  assumes "budget_inv rd s" "sound_amount c"
  shows "budget_inv rd (decrementOpenPositions rd c p s)"
  by (rule shrink_mode_inv [OF assms, of _ p "max 0 (openPositionCount (getState p s) - 1)"])
    (use mode_soundD(2) [OF budget_inv_mode [OF assms(1), of p]] in \<open>auto simp: decrementOpenPositions_def Let_def\<close>)

lemma adjustCapital_inv:
  assumes "budget_inv rd s" "sound_amount c"
  shows "budget_inv rd (adjustCapitalDeployed rd c p s)"
  by (rule shrink_mode_inv [OF assms, of _ p "openPositionCount (getState p s)"])
    (use mode_soundD(2) [OF budget_inv_mode [OF assms(1), of p]] in \<open>auto simp: adjustCapitalDeployed_def Let_def\<close>)

lemma releasePartialCapital_state:
  "fst (releasePartialCapital rd c pnl p s) = fst (updateDailyPnl rd prov pnl p True (adjustCapitalDeployed rd c p s))"
  by (simp add: releasePartialCapital_def Let_def updateDailyPnl_def split: prod.splits)

lemma paper_pairs_inv: "budget_inv rd s \<Longrightarrow> budget_inv rd (s\<lparr>paperActivePairIds := a\<rparr>)"
  by (erule budget_inv_frame) simp_all

lemma closePosition_inv:
  assumes "budget_inv rd s" "sound_amount c"
  shows "budget_inv rd (fst (closePosition rd c pnl pairId p s))"
  unfolding closePosition_state [where prov = "\<lambda>_. (0, Fin 0)"]
  by (intro updateDailyPnl_inv decrement_inv assms(2))
    (use assms(1) in \<open>auto intro: paper_pairs_inv split: option.splits\<close>)

lemma releasePartialCapital_inv:
  assumes "budget_inv rd s" "sound_amount c"
  shows "budget_inv rd (fst (releasePartialCapital rd c pnl p s))"
  unfolding releasePartialCapital_state [where prov = "\<lambda>_. (0, Fin 0)"]
  by (intro updateDailyPnl_inv adjustCapital_inv assms)

end

section \<open>All operations as one step relation\<close>

text \<open>
  Amounts come in as money (multiples of 1e-8, not negative); a reservation gets an id that is
  not in use, which is what \<^verbatim>\<open>randomUUID\<close> documents.  An operation that throws leaves the
  state as it was, so it is no step.
\<close>

inductive budget_step :: "(rat \<Rightarrow> rat) \<Rightarrow> budget_state \<Rightarrow> budget_state \<Rightarrow> bool" for rd where
  reserve: "reserveBudget rd uuid now req s = Inr (s', evs, r) \<Longrightarrow> map_of (reservations s) uuid = None
      \<Longrightarrow> sound_amount (recommendedPositionSizeUsd req) \<Longrightarrow> budget_step rd s s'"
| commit: "commitReservation rd rid s = Inr (s', evs) \<Longrightarrow> budget_step rd s s'"
| release: "releaseReservation rd rid s = Inr (s', evs) \<Longrightarrow> budget_step rd s s'"
| adjust: "adjustReservation rd rid c s = Inr (s', evs) \<Longrightarrow> sound_amount c \<Longrightarrow> budget_step rd s s'"
| close: "closePosition rd c pnl pairId p s = (s', evs) \<Longrightarrow> sound_amount c \<Longrightarrow> budget_step rd s s'"
| partial_release: "releasePartialCapital rd c pnl p s = (s', evs) \<Longrightarrow> sound_amount c \<Longrightarrow> budget_step rd s s'"
| pnl: "updateDailyPnl rd (reservationData rd s) d p skip s = (s', evs) \<Longrightarrow> budget_step rd s s'"
| halt: "haltTrading (reservationData rd s) reason s = (s', evs) \<Longrightarrow> budget_step rd s s'"
| resume: "resumeTrading (reservationData rd s) reason s = (s', evs) \<Longrightarrow> budget_step rd s s'"
| midnight: "handleMidnightReset (reservationData rd s) now s = (s', evs) \<Longrightarrow> budget_step rd s s'"

context decimal_rounding
begin

lemma budget_step_inv: "budget_step rd s s' \<Longrightarrow> budget_inv rd s \<Longrightarrow> budget_inv rd s'"
proof (induction rule: budget_step.induct)
  case (reserve uuid now req s s' evs r) then show ?case by (auto intro: reserve_inv)
next
  case (commit rid s s' evs) then show ?case by (auto intro: commit_inv)
next
  case (release rid s s' evs) then show ?case by (auto intro: release_inv)
next
  case (adjust rid c s s' evs) then show ?case by (auto intro: adjust_inv)
next
  case (close c pnl pairId p s s' evs)
  then show ?case using closePosition_inv [of s c pnl pairId p] by simp
next
  case (partial_release c pnl p s s' evs)
  then show ?case using releasePartialCapital_inv [of s c pnl p] by simp
next
  case (pnl s d p skip s' evs)
  then show ?case using updateDailyPnl_inv [of rd s "reservationData rd s" d p skip] by simp
next
  case (halt s reason s' evs)
  then show ?case using haltTrading_inv [of rd s "reservationData rd s" reason] by simp
next
  case (resume s reason s' evs)
  then show ?case using resumeTrading_inv [of rd s "reservationData rd s" reason] by simp
next
  case (midnight s now s' evs)
  then show ?case using midnight_inv [of rd s "reservationData rd s" now] by simp
qed

lemma budget_steps_inv: "(budget_step rd)\<^sup>*\<^sup>* s s' \<Longrightarrow> budget_inv rd s \<Longrightarrow> budget_inv rd s'"
  by (induction rule: rtranclp_induct) (auto intro: budget_step_inv)

end

context decimal_rounding
begin

lemma inv_reported:
  assumes "budget_inv rd s"
  shows "totalCapitalDeployed (getState p s) = Fin (deployed p s)
      \<and> getReservedCapital rd (Some p) s = Fin (held p s) \<and> getBankrollForMode p s = Fin (bankroll_of p s)
      \<and> getReservedPositionSlots (Some p) s = int (length (mode_reservations p s))"
proof -
  note m = mode_soundD [OF budget_inv_mode [OF assms, of p]]
  have b: "sound_amount (getBankrollForMode p s)" "bankroll_of p s \<le> 10 ^ 12"
    using assms money_limits_mode by (auto simp: budget_inv_def)
  then have "held p s \<le> 10 ^ 12" using m(5,7) by linarith
  then show ?thesis
    using m(11) capital_exact [OF m(3)] slots_count [OF m(4)] sound_amount_val [OF b(1)]
    by (simp add: bankroll_of_def)
qed

lemma overcommit:
  assumes "budget_inv rd s"
  shows "\<exists>D R B. totalCapitalDeployed (getState p s) = Fin D
      \<and> getReservedCapital rd (Some p) s = Fin R \<and> getBankrollForMode p s = Fin B
      \<and> 0 \<le> D \<and> 0 \<le> R \<and> D + R \<le> B
      \<and> of_int (openPositionCount (getState p s) + getReservedPositionSlots (Some p) s) \<le> pair_limit s"
  using inv_reported [OF assms, of p] mode_soundD [OF budget_inv_mode [OF assms, of p]] by simp

end

text \<open>
  C1: whatever sequence of reservations, commits, releases, adjustments, closes, partial exits,
  profit updates, halts, resumes and resets runs from a sound state, the capital each mode has
  deployed and reserved together stays within its bankroll, and its open and reserved positions
  within the pair limit.
\<close>
theorem budget_never_overcommitted:
  assumes "decimal_rounding rd" "budget_inv rd s" "(budget_step rd)\<^sup>*\<^sup>* s s'"
  shows "\<exists>D R B. totalCapitalDeployed (getState p s') = Fin D
      \<and> getReservedCapital rd (Some p) s' = Fin R \<and> getBankrollForMode p s' = Fin B
      \<and> 0 \<le> D \<and> 0 \<le> R \<and> D + R \<le> B
      \<and> of_int (openPositionCount (getState p s') + getReservedPositionSlots (Some p) s') \<le> pair_limit s'"
  by (rule decimal_rounding.overcommit [OF assms(1) decimal_rounding.budget_steps_inv [OF assms(1,3,2)]])

definition sample_budget :: budget_state where
  "sample_budget = \<lparr>risk_cfg = risk_cfg sample_risk_state, liveState = sample_mode, paperState = sample_mode,
     bankrollUpdatedAt = 0, risk_tracker = sample_tracker, reservations = [], paperActivePairIds = []\<rparr>"

definition sample_request :: reservation_request where
  "sample_request = \<lparr>reqOpportunityId = ''o1'', recommendedPositionSizeUsd = Fin 200, reqPairId = ''p1'',
     reqIsPaper = True\<rparr>"

definition sample_reservation :: budget_reservation where
  "sample_reservation = \<lparr>reservationId = ''r1'', resOpportunityId = ''o1'', resPairId = ''p1'', resIsPaper = True,
     reservedPositionSlots = 1, reservedCapitalUsd = Fin 200, correlationExposure = Fin 0, createdAt = 0\<rparr>"

definition sample_reserved :: budget_state where
  "sample_reserved = sample_budget\<lparr>reservations := [(''r1'', sample_reservation)], paperActivePairIds := [''p1'']\<rparr>"

lemma grid_int [simp]: "grid (of_int n)" "grid (numeral k)"
  unfolding grid_iff by (metis of_int_mult of_int_power of_int_numeral)+

lemma sample_figures:
  "getBankrollForMode p sample_budget = Fin 1000"
  "maxPositionSizeUsd dec20 p sample_budget = Fin 500"
  using sample_lits by (simp_all add: maxPositionSizeUsd_def getBankrollForMode_def sample_budget_def sample_risk_state_def)

lemma sample_inv: "budget_inv dec20 sample_budget"
proof -
  have "is_integer (Fin 10)" by (simp add: is_integer_def)
  moreover have "maxOpenPairs (risk_cfg sample_budget) = Fin 10"
    by (simp add: sample_budget_def sample_risk_state_def)
  moreover have "getState p sample_budget = sample_mode" for p by (simp add: getState_def sample_budget_def)
  ultimately show ?thesis
    by (simp add: budget_inv_def money_limits_def mode_sound_def sample_figures bankroll_of_def deployed_def held_def
        mode_reservations_def pair_limit_def sample_mode_def createDefaultModeRiskState_def)
      (simp add: sample_budget_def)
qed

lemma sample_reserve:
  "\<exists>evs. reserveBudget dec20 ''r1'' 0 sample_request sample_budget = Inr (sample_reserved, evs, sample_reservation)"
proof -
  have "getState p sample_budget = sample_mode" for p by (simp add: getState_def sample_budget_def)
  moreover have "getReservedCapital dec20 (Some True) sample_budget = Fin 0"
    "getReservedPositionSlots (Some True) sample_budget = 0" "paperActivePairIds sample_budget = []"
    "maxOpenPairs (risk_cfg sample_budget) = Fin 10"
    by (simp_all add: getReservedCapital_def getReservedPositionSlots_def sample_budget_def sample_risk_state_def)
  moreover have "dec20 1000 = 1000" using dec20_int [of 1000] by simp
  ultimately show ?thesis
    by (simp add: reserveBudget_def sample_request_def sample_figures sample_mode_def
        createDefaultModeRiskState_def Let_def sample_reserved_def sample_reservation_def set_add_def)
      (simp add: sample_budget_def)
qed

lemma sample_sound: "sound_amount (recommendedPositionSizeUsd sample_request)" "map_of (reservations sample_budget) k = None"
  by (simp_all add: sample_request_def sample_budget_def)

lemma sample_step: "budget_step dec20 sample_budget sample_reserved"
  using sample_reserve budget_step.reserve sample_sound by blast

theorem budget_never_overcommitted_witness:
  "\<exists>D R B. totalCapitalDeployed (getState True sample_reserved) = Fin D
      \<and> getReservedCapital dec20 (Some True) sample_reserved = Fin R \<and> getBankrollForMode True sample_reserved = Fin B
      \<and> 0 \<le> D \<and> 0 \<le> R \<and> D + R \<le> B
      \<and> of_int (openPositionCount (getState True sample_reserved) + getReservedPositionSlots (Some True) sample_reserved)
          \<le> pair_limit sample_reserved"
  using budget_never_overcommitted [OF d20.decimal_rounding_axioms sample_inv] sample_step by blast

context decimal_rounding
begin

lemma reserve_amount_value:
  assumes "budget_inv rd s" "sound_amount (recommendedPositionSizeUsd req)"
  shows "(if xle (recommendedPositionSizeUsd req) (maxPositionSizeUsd rd p s)
          then recommendedPositionSizeUsd req else maxPositionSizeUsd rd p s)
      = Fin (min (fin_val (recommendedPositionSizeUsd req)) (fin_val (maxPositionSizeUsd rd p s)))"
proof -
  obtain M where "maxPositionSizeUsd rd p s = Fin M"
    using assms(1) money_limits_mode [of rd s p] by (auto simp: budget_inv_def elim: sound_amountE)
  moreover obtain x where "recommendedPositionSizeUsd req = Fin x" using assms(2) by (rule sound_amountE)
  ultimately show ?thesis by (simp add: min_def)
qed

lemma reserve_decides:
  assumes "budget_inv rd s" "sound_amount (recommendedPositionSizeUsd req)"
  defines "p \<equiv> reqIsPaper req"
    and "amount \<equiv> min (fin_val (recommendedPositionSizeUsd req)) (fin_val (maxPositionSizeUsd rd (reqIsPaper req) s))"
  shows "(\<exists>s' evs r. reserveBudget rd uuid now req s = Inr (s', evs, r) \<and> reservedCapitalUsd r = Fin amount) \<longleftrightarrow>
      (if p then reqPairId req \<notin> set (paperActivePairIds s) else \<not> isTradingHalted False s)
      \<and> of_int (openPositionCount (getState p s) + int (length (mode_reservations p s))) < pair_limit s
      \<and> amount \<le> bankroll_of p s - deployed p s - held p s"
proof -
  note m = mode_soundD [OF budget_inv_mode [OF assms(1), of p]]
  from assms(1) have l: "money_limits rd s" by (simp add: budget_inv_def)
  obtain n where n: "maxOpenPairs (risk_cfg s) = Fin (of_int n)"
    using l is_integer_cases by (auto simp: money_limits_def)
  note av = available_exact [OF l budget_inv_mode [OF assms(1)], of p]
    and am = reserve_amount_value [OF assms(1,2), of p] and sl = slots_count [OF m(4)]
  show ?thesis
    unfolding reserveBudget_def Let_def p_def [symmetric] av am amount_def sl pair_limit_def n
    by (auto simp: p_def not_less not_le)
qed

end

section \<open>Refinement of the ledger\<close>

text \<open>
  What the service promises, without ids' order, opportunity names, halts or profit: per mode
  the open positions and the capital deployed, and per reservation the amount held. Every call of
  the service has a label and every move of the ledger has one; the refinement names the move that
  each call has to make, with its mode, its reservation and its amount.
\<close>

record ledger =
  l_open :: "bool \<Rightarrow> int"
  l_deployed :: "bool \<Rightarrow> rat"
  l_held :: "string \<Rightarrow> (bool \<times> rat) option"

datatype ledger_move = MHold string bool rat | MSettle string | MDrop string | MLower string rat
  | MClose bool rat | MGiveBack bool rat | MIdle

text \<open>a move is refused (None) when it names a reservation that is not held, or one that already is.\<close>

fun ledger_do :: "ledger_move \<Rightarrow> ledger \<Rightarrow> ledger option" where
  "ledger_do (MHold k p x) l = (case l_held l k of
       None \<Rightarrow> if 0 \<le> x then Some (l\<lparr>l_held := (l_held l)(k \<mapsto> (p, x))\<rparr>) else None
     | Some _ \<Rightarrow> None)"
| "ledger_do (MSettle k) l = (case l_held l k of
       Some (p, x) \<Rightarrow> Some (l\<lparr>l_open := (l_open l)(p := l_open l p + 1),
         l_deployed := (l_deployed l)(p := l_deployed l p + x), l_held := (l_held l)(k := None)\<rparr>)
     | None \<Rightarrow> None)"
| "ledger_do (MDrop k) l = (case l_held l k of
       Some _ \<Rightarrow> Some (l\<lparr>l_held := (l_held l)(k := None)\<rparr>) | None \<Rightarrow> None)"
| "ledger_do (MLower k y) l = (case l_held l k of
       Some (p, x) \<Rightarrow> Some (if y < x then l\<lparr>l_held := (l_held l)(k \<mapsto> (p, y))\<rparr> else l) | None \<Rightarrow> None)"
| "ledger_do (MClose p c) l = Some (l\<lparr>l_open := (l_open l)(p := max 0 (l_open l p - 1)),
       l_deployed := (l_deployed l)(p := max 0 (l_deployed l p - c))\<rparr>)"
| "ledger_do (MGiveBack p c) l = Some (l\<lparr>l_deployed := (l_deployed l)(p := max 0 (l_deployed l p - c))\<rparr>)"
| "ledger_do MIdle l = Some l"

definition abs_ledger :: "budget_state \<Rightarrow> ledger" where
  "abs_ledger s = \<lparr>l_open = (\<lambda>p. openPositionCount (getState p s)), l_deployed = (\<lambda>p. deployed p s),
     l_held = (\<lambda>k. map_option (\<lambda>r. (resIsPaper r, fin_val (reservedCapitalUsd r))) (map_of (reservations s) k))\<rparr>"

text \<open>
  What a reservation needs: the mode may open a position (live: no halt; paper: the pair is not active), a slot is
  left, and the free capital covers the amount, the smaller of the recommended and the largest size.
\<close>

definition reserve_amount_of :: "(rat \<Rightarrow> rat) \<Rightarrow> reservation_request \<Rightarrow> budget_state \<Rightarrow> rat" where
  "reserve_amount_of rd req s = min (fin_val (recommendedPositionSizeUsd req)) (fin_val (maxPositionSizeUsd rd (reqIsPaper req) s))"

definition reserve_admitted :: "(rat \<Rightarrow> rat) \<Rightarrow> reservation_request \<Rightarrow> budget_state \<Rightarrow> bool" where
  "reserve_admitted rd req s \<longleftrightarrow>
     (let p = reqIsPaper req in
      (if p then reqPairId req \<notin> set (paperActivePairIds s) else \<not> isTradingHalted False s)
      \<and> of_int (openPositionCount (getState p s) + int (length (mode_reservations p s))) < pair_limit s
      \<and> reserve_amount_of rd req s \<le> bankroll_of p s - deployed p s - held p s)"

datatype budget_call = CallReserve string int reservation_request | CallCommit string | CallRelease string
  | CallAdjust string decimal | CallClose decimal decimal "string option" bool | CallPartial decimal decimal bool
  | CallPnl decimal bool bool | CallHalt string | CallResume string | CallMidnight int

text \<open>the state after a call; None where the service throws.\<close>

fun budget_do :: "(rat \<Rightarrow> rat) \<Rightarrow> budget_call \<Rightarrow> budget_state \<Rightarrow> budget_state option" where
  "budget_do rd (CallReserve uuid now req) s = (case reserveBudget rd uuid now req s of Inl _ \<Rightarrow> None | Inr (s', _, _) \<Rightarrow> Some s')"
| "budget_do rd (CallCommit rid) s = (case commitReservation rd rid s of Inl _ \<Rightarrow> None | Inr (s', _) \<Rightarrow> Some s')"
| "budget_do rd (CallRelease rid) s = (case releaseReservation rd rid s of Inl _ \<Rightarrow> None | Inr (s', _) \<Rightarrow> Some s')"
| "budget_do rd (CallAdjust rid c) s = (case adjustReservation rd rid c s of Inl _ \<Rightarrow> None | Inr (s', _) \<Rightarrow> Some s')"
| "budget_do rd (CallClose c pnl pairId p) s = Some (fst (closePosition rd c pnl pairId p s))"
| "budget_do rd (CallPartial c pnl p) s = Some (fst (releasePartialCapital rd c pnl p s))"
| "budget_do rd (CallPnl d p skip) s = Some (fst (updateDailyPnl rd (reservationData rd s) d p skip s))"
| "budget_do rd (CallHalt reason) s = Some (fst (haltTrading (reservationData rd s) reason s))"
| "budget_do rd (CallResume reason) s = Some (fst (resumeTrading (reservationData rd s) reason s))"
| "budget_do rd (CallMidnight now) s = Some (fst (handleMidnightReset (reservationData rd s) now s))"

text \<open>amounts are non-negative decimals, and the id of a reservation is a fresh uuid.\<close>

fun sound_call :: "budget_call \<Rightarrow> budget_state \<Rightarrow> bool" where
  "sound_call (CallReserve uuid now req) s
     = (map_of (reservations s) uuid = None \<and> sound_amount (recommendedPositionSizeUsd req))"
| "sound_call (CallAdjust rid c) s = sound_amount c"
| "sound_call (CallClose c pnl pairId p) s = sound_amount c"
| "sound_call (CallPartial c pnl p) s = sound_amount c"
| "sound_call _ s = True"

text \<open>the move each call stands for.\<close>

fun call_move :: "(rat \<Rightarrow> rat) \<Rightarrow> budget_call \<Rightarrow> budget_state \<Rightarrow> ledger_move" where
  "call_move rd (CallReserve uuid now req) s = MHold uuid (reqIsPaper req) (reserve_amount_of rd req s)"
| "call_move rd (CallCommit rid) s = MSettle rid"
| "call_move rd (CallRelease rid) s = MDrop rid"
| "call_move rd (CallAdjust rid c) s = MLower rid (fin_val c)"
| "call_move rd (CallClose c pnl pairId p) s = MClose p (fin_val c)"
| "call_move rd (CallPartial c pnl p) s = MGiveBack p (fin_val c)"
| "call_move rd _ s = MIdle"

lemma budget_do_step: "budget_do rd c s = Some s' \<Longrightarrow> sound_call c s \<Longrightarrow> budget_step rd s s'"
  by (cases c) (auto split: sum.splits intro: budget_step.intros simp: prod_eq_iff)

lemma map_of_map_delete: "map_of (map_delete k m) = (map_of m)(k := None)"
  by (rule delete_conv')

lemma ledger_idle:
  assumes "\<And>p. totalCapitalDeployed (getState p s') = totalCapitalDeployed (getState p s)"
    "\<And>p. openPositionCount (getState p s') = openPositionCount (getState p s)" "reservations s' = reservations s"
  shows "abs_ledger s' = abs_ledger s"
  by (simp add: abs_ledger_def deployed_def assms)

lemma ledger_reserve:
  assumes "reservations s' = map_set k r (reservations s)" "map_of (reservations s) k = None"
    "\<And>p. getState p s' = getState p s" "sound_amount (reservedCapitalUsd r)"
  shows "ledger_do (MHold k (resIsPaper r) (fin_val (reservedCapitalUsd r))) (abs_ledger s) = Some (abs_ledger s')"
  using sound_amount_val [OF assms(4)] by (auto simp: abs_ledger_def deployed_def assms(1-3) update_conv')

lemma ledger_release:
  assumes "reservations s' = map_delete k (reservations s)" "map_of (reservations s) k = Some r"
    "\<And>p. getState p s' = getState p s"
  shows "ledger_do (MDrop k) (abs_ledger s) = Some (abs_ledger s')"
  by (auto simp: abs_ledger_def deployed_def assms map_of_map_delete)

lemma ledger_adjust:
  assumes "reservations s' = map_set k (r\<lparr>reservedCapitalUsd := c\<rparr>) (reservations s)" "map_of (reservations s) k = Some r"
    "\<And>p. getState p s' = getState p s" "sound_amount (reservedCapitalUsd r)" "sound_amount c"
    "\<not> xge c (reservedCapitalUsd r)"
  shows "ledger_do (MLower k (fin_val c)) (abs_ledger s) = Some (abs_ledger s')"
proof -
  have "fin_val c < fin_val (reservedCapitalUsd r)"
    using assms(4-6) by (auto elim!: sound_amountE)
  then show ?thesis by (auto simp: abs_ledger_def deployed_def assms(1-3) update_conv')
qed

lemma ledger_adjust_kept:
  assumes "map_of (reservations s) k = Some r" "sound_amount (reservedCapitalUsd r)" "sound_amount c"
    "xge c (reservedCapitalUsd r)"
  shows "ledger_do (MLower k (fin_val c)) (abs_ledger s) = Some (abs_ledger s)"
  using assms by (auto simp: abs_ledger_def elim!: sound_amountE)

lemma ledger_commit:
  assumes "reservations s' = map_delete k (reservations s)" "map_of (reservations s) k = Some r"
    and "\<And>q. getState q s' = (if q = resIsPaper r
       then (getState q s)\<lparr>openPositionCount := openPositionCount (getState q s) + 1,
              totalCapitalDeployed := Fin (deployed q s + fin_val (reservedCapitalUsd r))\<rparr>
       else getState q s)"
  shows "ledger_do (MSettle k) (abs_ledger s) = Some (abs_ledger s')"
  by (auto simp: abs_ledger_def deployed_def assms map_of_map_delete)

lemma ledger_refused:
  assumes "budget_do rd c s = None" "\<nexists>uuid now req. c = CallReserve uuid now req"
  shows "ledger_do (call_move rd c s) (abs_ledger s) = None"
  using assms by (cases c) (auto simp: commitReservation_def releaseReservation_def adjustReservation_def Let_def abs_ledger_def
    split: option.splits if_splits sum.splits)

context decimal_rounding
begin

lemma ledger_close:
  assumes "budget_inv rd s" "sound_amount c"
  shows "ledger_do (MClose p (fin_val c)) (abs_ledger s) = Some (abs_ledger (fst (closePosition rd c pnl pairId p s)))"
proof -
  let ?s = "fst (closePosition rd c pnl pairId p s)"
  let ?s1 = "case pairId of Some q \<Rightarrow> if p \<and> q \<noteq> [] then s\<lparr>paperActivePairIds := set_delete q (paperActivePairIds s)\<rparr> else s
      | None \<Rightarrow> s"
  have 1: "getState q ?s1 = getState q s" "reservations ?s1 = reservations s" for q
    by (simp_all split: option.splits)
  have "reservations ?s = reservations s"
    "openPositionCount (getState q ?s) = (if q = p then max 0 (openPositionCount (getState p s) - 1)
       else openPositionCount (getState q s))"
    "deployed q ?s = (if q = p then max 0 (deployed p s - fin_val c) else deployed q s)" for q
    using return_capital [OF assms, of p]
    by (simp_all add: closePosition_state [where prov = "\<lambda>_. (0, Fin 0)"] updateDailyPnl_totals deployed_def
        decrementOpenPositions_def Let_def 1)
  then show ?thesis by (auto simp: abs_ledger_def)
qed

lemma ledger_partial:
  assumes "budget_inv rd s" "sound_amount c"
  shows "ledger_do (MGiveBack p (fin_val c)) (abs_ledger s) = Some (abs_ledger (fst (releasePartialCapital rd c pnl p s)))"
proof -
  let ?s = "fst (releasePartialCapital rd c pnl p s)"
  have "reservations ?s = reservations s"
    "openPositionCount (getState q ?s) = openPositionCount (getState q s)"
    "deployed q ?s = (if q = p then max 0 (deployed p s - fin_val c) else deployed q s)" for q
    using return_capital [OF assms, of p]
    by (simp_all add: releasePartialCapital_state [where prov = "\<lambda>_. (0, Fin 0)"] updateDailyPnl_totals deployed_def
        adjustCapitalDeployed_def Let_def)
  then show ?thesis by (auto simp: abs_ledger_def)
qed

lemma reserve_refused:
  assumes "budget_inv rd s" "sound_call (CallReserve uuid now req) s"
  shows "budget_do rd (CallReserve uuid now req) s = None \<longleftrightarrow> \<not> reserve_admitted rd req s"
proof -
  have a: "sound_amount (recommendedPositionSizeUsd req)" using assms(2) by simp
  have "reservedCapitalUsd r = Fin (reserve_amount_of rd req s)"
    if "reserveBudget rd uuid now req s = Inr (s', evs, r)" for s' evs r
    using reserve_amount [OF that assms(1) a] by (auto simp: reserve_amount_of_def dest: sound_amount_val)
  then have "(\<exists>x. reserveBudget rd uuid now req s = Inr x) \<longleftrightarrow> reserve_admitted rd req s"
    using reserve_decides [OF assms(1) a, of uuid now]
    by (auto simp: reserve_admitted_def reserve_amount_of_def Let_def)
  then show ?thesis by (cases "reserveBudget rd uuid now req s") auto
qed

lemma call_ledger:
  assumes "budget_do rd c s = Some s'" "sound_call c s" "budget_inv rd s"
  shows "ledger_do (call_move rd c s) (abs_ledger s) = Some (abs_ledger s')"
proof (cases c)
  case (CallReserve uuid now req)
  with assms(1) obtain evs r where "reserveBudget rd uuid now req s = Inr (s', evs, r)" by (auto split: sum.splits)
  note r = reserve_result [OF this] and a = reserve_amount [OF this assms(3)]
  have c: "map_of (reservations s) uuid = None" "sound_amount (recommendedPositionSizeUsd req)"
    using assms(2) CallReserve by simp_all
  show ?thesis
    using ledger_reserve [OF r(3) c(1) r(2) a(1) [OF c(2)]]
    by (simp only: CallReserve call_move.simps reserve_amount_of_def r(4) a(3) [OF c(2)])
next
  case (CallCommit rid)
  with assms(1) obtain evs where "commitReservation rd rid s = Inr (s', evs)" by (auto split: sum.splits)
  then show ?thesis unfolding CallCommit call_move.simps
    by (rule commit_result [OF _ assms(3)]) (rule ledger_commit)
next
  case (CallRelease rid)
  with assms(1) obtain evs where "releaseReservation rd rid s = Inr (s', evs)" by (auto split: sum.splits)
  then show ?thesis unfolding CallRelease call_move.simps by (rule release_result) (rule ledger_release)
next
  case (CallAdjust rid x)
  with assms(1) obtain evs where a: "adjustReservation rd rid x s = Inr (s', evs)" by (auto split: sum.splits)
  have x: "sound_amount x" using assms(2) CallAdjust by simp
  from a show ?thesis
  proof (cases rule: adjust_result)
    case (1 r)
    from budget_inv_member [OF assms(3) 1(1)] ledger_adjust_kept [OF 1(1) _ x 1(2)] show ?thesis by (simp only: CallAdjust call_move.simps 1)
  next
    case (2 r)
    from budget_inv_member [OF assms(3) 2(1)] ledger_adjust [OF 2(4) 2(1) 2(5) _ x 2(2)] show ?thesis by (simp only: CallAdjust call_move.simps)
  qed
next
  case (CallHalt reason)
  with assms(1) have "abs_ledger s' = abs_ledger s"
    by (intro ledger_idle) (auto simp: haltTrading_def applyHalt_def Let_def split: if_splits)
  then show ?thesis by (simp add: CallHalt)
next
  case (CallResume reason)
  with assms(1) have "abs_ledger s' = abs_ledger s"
    by (intro ledger_idle) (auto simp: resumeTrading_def applyResume_def Let_def split: if_splits)
  then show ?thesis by (simp add: CallResume)
next
  case (CallPnl d p skip)
  with assms(1) have "s' = fst (updateDailyPnl rd (reservationData rd s) d p skip s)" by simp
  then have "abs_ledger s' = abs_ledger s" by (intro ledger_idle) (simp_all add: updateDailyPnl_totals)
  then show ?thesis by (simp add: CallPnl)
next
  case (CallMidnight now)
  with assms(1) have "s' = fst (handleMidnightReset (reservationData rd s) now s)" by simp
  then have "abs_ledger s' = abs_ledger s"
    by (intro ledger_idle) (simp_all add: midnight_state, simp add: handleMidnightReset_def Let_def split: prod.splits)
  then show ?thesis by (simp add: CallMidnight)
qed (use assms ledger_close ledger_partial in auto)

end

text \<open>
  C2: every call that the service answers makes exactly its own move of the abstract ledger: a
  reservation holds, for its mode and under its id, the smaller of the recommended and the largest
  position size; a commit turns exactly the amount held under its id into deployed capital and
  one open position of the mode that held it; a release drops exactly that hold; an adjustment lowers the hold and
  never raises it; a close takes one position and the returned capital out of its mode and a
  partial exit the capital alone, never below zero; profit, halt, resume and the midnight reset
  move nothing. A commit, a release or an adjustment is refused only where the ledger holds
  nothing under the id, and a reservation only where the live mode is halted or the paper pair is active, no slot is
  left, or the free capital of its mode does not cover the amount.
\<close>
theorem budget_step_refines_ledger:
  assumes "decimal_rounding rd" "budget_inv rd s" "sound_call c s"
  shows "case budget_do rd c s of
      Some s' \<Rightarrow> ledger_do (call_move rd c s) (abs_ledger s) = Some (abs_ledger s')
    | None \<Rightarrow> (case c of CallReserve uuid now req \<Rightarrow> \<not> reserve_admitted rd req s
        | _ \<Rightarrow> ledger_do (call_move rd c s) (abs_ledger s) = None)"
proof (cases "budget_do rd c s")
  case None
  show ?thesis
  proof (cases "\<exists>uuid now req. c = CallReserve uuid now req")
    case True
    then obtain uuid now req where c: "c = CallReserve uuid now req" by blast
    from decimal_rounding.reserve_refused [OF assms(1,2) assms(3) [unfolded c]] None show ?thesis by (simp only: c option.case budget_call.case simp_thms)
  next
    case False
    with ledger_refused [OF None] None show ?thesis by (cases c) simp_all
  qed
next
  case (Some s')
  from decimal_rounding.call_ledger [OF assms(1) Some assms(3,2)] Some show ?thesis by simp
qed

theorem budget_step_refines_ledger_witness:
  "ledger_do (MHold ''r1'' True 200) (abs_ledger sample_budget) = Some (abs_ledger sample_reserved)
   \<and> (\<exists>s'. budget_do dec20 (CallCommit ''r1'') sample_reserved = Some s'
        \<and> ledger_do (MSettle ''r1'') (abs_ledger sample_reserved) = Some (abs_ledger s'))
   \<and> budget_do dec20 (CallRelease ''r2'') sample_reserved = None
   \<and> ledger_do (MDrop ''r2'') (abs_ledger sample_reserved) = None"
proof -
  let ?c = "CallReserve ''r1'' 0 sample_request" and ?k = "CallCommit ''r1''" and ?n = "CallRelease ''r2''"
  have r: "budget_do dec20 ?c sample_budget = Some sample_reserved" using sample_reserve by auto
  have m: "call_move dec20 ?c sample_budget = MHold ''r1'' True 200"
    using sample_figures [of True] by (simp add: sample_request_def reserve_amount_of_def)
  have inv: "budget_inv dec20 sample_reserved" by (rule d20.budget_step_inv [OF sample_step sample_inv])
  have "\<exists>s'. budget_do dec20 ?k sample_reserved = Some s'"
    by (simp add: commitReservation_def sample_reserved_def Let_def)
  then obtain s' where k: "budget_do dec20 ?k sample_reserved = Some s'" by blast
  have n: "budget_do dec20 ?n sample_reserved = None" by (simp add: releaseReservation_def sample_reserved_def)
  note d = d20.decimal_rounding_axioms
  have "sound_call ?c sample_budget" using sample_sound by simp
  from budget_step_refines_ledger [OF d sample_inv this]
  have 1: "ledger_do (MHold ''r1'' True 200) (abs_ledger sample_budget) = Some (abs_ledger sample_reserved)"
    by (simp only: r m option.case)
  have "sound_call ?k sample_reserved" by simp
  from budget_step_refines_ledger [OF d inv this]
  have 2: "ledger_do (MSettle ''r1'') (abs_ledger sample_reserved) = Some (abs_ledger s')"
    by (simp only: k call_move.simps option.case)
  have "sound_call ?n sample_reserved" by simp
  from budget_step_refines_ledger [OF d inv this]
  have 3: "ledger_do (MDrop ''r2'') (abs_ledger sample_reserved) = None"
    by (simp only: n call_move.simps option.case budget_call.case)
  from 1 2 3 k n show ?thesis by blast
qed

section \<open>Single operations\<close>

text \<open>
  a reservation that is released before anything else happens leaves no trace: capital,
  slots, reservations and paper pairs are what they were.
\<close>
theorem reserve_release_roundtrip:
  assumes "reserveBudget rd uuid now req s = Inr (s1, evs1, r)"
    and "map_of (reservations s) uuid = None"
  shows "\<exists>evs2. releaseReservation rd uuid s1 = Inr (s, evs2)
    \<and> hd evs2 = BudgetReleased uuid (reqOpportunityId req) (reservedCapitalUsd r)"
proof -
  from assms(1) have s1: "s1 = s\<lparr>reservations := map_set uuid r (reservations s),
      paperActivePairIds := (if reqIsPaper req
        then set_add (reqPairId req) (paperActivePairIds s) else paperActivePairIds s)\<rparr>"
    and r: "resIsPaper r = reqIsPaper req" "resPairId r = reqPairId req" "resOpportunityId r = reqOpportunityId req"
    and fresh: "reqIsPaper req \<longrightarrow> reqPairId req \<notin> set (paperActivePairIds s)"
    by (auto simp: reserveBudget_def Let_def split: if_splits)
  have "s\<lparr>reservations := reservations s, paperActivePairIds := paperActivePairIds s\<rparr> = s" by simp
  then show ?thesis
    using fresh by (simp add: releaseReservation_def s1 update_conv' r map_delete_set_fresh [OF assms(2)] Let_def)
qed

theorem reserve_release_roundtrip_witness:
  "\<exists>evs2. releaseReservation dec20 ''r1'' sample_reserved = Inr (sample_budget, evs2)
    \<and> hd evs2 = BudgetReleased ''r1'' ''o1'' (Fin 200)"
proof -
  from sample_reserve obtain evs where
    "reserveBudget dec20 ''r1'' 0 sample_request sample_budget = Inr (sample_reserved, evs, sample_reservation)" ..
  from reserve_release_roundtrip [OF this sample_sound(2)] show ?thesis
    by (simp add: sample_request_def sample_reservation_def)
qed

text \<open>
  a reservation succeeds exactly when the mode may open a position (live: no halt; paper:
  the pair is not active), a slot is left, and the free capital covers the smaller of the
  recommended size and the position limit; that smaller amount is what is reserved.
\<close>
theorem reserve_outcome:
  assumes "decimal_rounding rd" "budget_inv rd s" "sound_amount (recommendedPositionSizeUsd req)"
  defines "p \<equiv> reqIsPaper req"
    and "amount \<equiv> min (fin_val (recommendedPositionSizeUsd req)) (fin_val (maxPositionSizeUsd rd (reqIsPaper req) s))"
  shows "(\<exists>s' evs r. reserveBudget rd uuid now req s = Inr (s', evs, r) \<and> reservedCapitalUsd r = Fin amount) \<longleftrightarrow>
      (if p then reqPairId req \<notin> set (paperActivePairIds s) else \<not> isTradingHalted False s)
      \<and> of_int (openPositionCount (getState p s) + int (length (mode_reservations p s))) < pair_limit s
      \<and> amount \<le> bankroll_of p s - deployed p s - held p s"
  unfolding p_def amount_def by (rule decimal_rounding.reserve_decides [OF assms(1-3)])

theorem reserve_outcome_witness:
  "(\<exists>s' evs r. reserveBudget dec20 ''r1'' 0 sample_request sample_budget = Inr (s', evs, r)
      \<and> reservedCapitalUsd r = Fin (min (fin_val (recommendedPositionSizeUsd sample_request))
          (fin_val (maxPositionSizeUsd dec20 (reqIsPaper sample_request) sample_budget)))) \<longleftrightarrow>
      (if reqIsPaper sample_request then reqPairId sample_request \<notin> set (paperActivePairIds sample_budget)
       else \<not> isTradingHalted False sample_budget)
      \<and> of_int (openPositionCount (getState (reqIsPaper sample_request) sample_budget)
          + int (length (mode_reservations (reqIsPaper sample_request) sample_budget))) < pair_limit sample_budget
      \<and> min (fin_val (recommendedPositionSizeUsd sample_request))
          (fin_val (maxPositionSizeUsd dec20 (reqIsPaper sample_request) sample_budget))
        \<le> bankroll_of (reqIsPaper sample_request) sample_budget - deployed (reqIsPaper sample_request) sample_budget
          - held (reqIsPaper sample_request) sample_budget"
  by (rule reserve_outcome [OF d20.decimal_rounding_axioms sample_inv sample_sound(1)])

text \<open>
  once a paper reservation of a pair is made, and after it is committed, no other paper
  reservation of that pair is granted, until a close that names the pair.
\<close>
theorem paper_pair_blocked_until_closed:
  assumes "reserveBudget rd uuid now req s = Inr (s1, evs1, r)" "reqIsPaper req"
    and "commitReservation rd uuid s1 = Inr (s2, evs2)"
    and "reqIsPaper req'" "reqPairId req' = reqPairId req" "reqPairId req \<noteq> []"
  shows "reserveBudget rd uuid' now' req' s1 = Inl (PaperPairActive (reqPairId req))
    \<and> reserveBudget rd uuid' now' req' s2 = Inl (PaperPairActive (reqPairId req))
    \<and> reqPairId req \<notin> set (paperActivePairIds (fst (closePosition rd c pnl (Some (reqPairId req)) True s2)))"
proof -
  note r = reserve_result [OF assms(1)]
  have 1: "reqPairId req \<in> set (paperActivePairIds s1)" using r(12) assms(2) by simp
  have "paperActivePairIds s2 = paperActivePairIds s1"
    using assms(3) by (auto simp: commitReservation_def incrementOpenPositions_def Let_def split: option.splits)
  with 1 have 2: "reqPairId req \<in> set (paperActivePairIds s2)" by simp
  show ?thesis
    using 1 2 assms(4-6)
    by (simp add: reserveBudget_def closePosition_state [where prov = "\<lambda>_. (0, Fin 0)"]
        decrementOpenPositions_def Let_def)
qed

lemma sample_commit: "\<exists>s2 evs2. commitReservation dec20 ''r1'' sample_reserved = Inr (s2, evs2)"
  by (simp add: commitReservation_def sample_reserved_def Let_def)

theorem paper_pair_blocked_until_closed_witness:
  "reserveBudget dec20 ''r2'' 5 sample_request sample_reserved = Inl (PaperPairActive ''p1'')"
proof -
  from sample_reserve obtain evs where
    a: "reserveBudget dec20 ''r1'' 0 sample_request sample_budget = Inr (sample_reserved, evs, sample_reservation)" ..
  from sample_commit obtain s2 evs2 where
    b: "commitReservation dec20 ''r1'' sample_reserved = Inr (s2, evs2)" by blast
  from paper_pair_blocked_until_closed [OF a _ b, of sample_request] show ?thesis
    by (simp add: sample_request_def)
qed

end
