(* ===== verification/RiskManager.thy ===== *)
theory RiskManager
  imports Budget
begin

text \<open>
  \<^verbatim>\<open>RiskManagerService\<close>: the decision on an opportunity (halt, confidence-adjusted
  size, pair limit, free capital, the cluster limits) and the operator's override.  A decision's
  reason is a constructor carrying the figures the code prints into its text.  The operations
  read the budget state and change nothing but what they emit, so they return the decision with
  the events in order.  The lemmas follow a decision through its branches; the main theorem says
  what an approval guarantees and that the budget then grants it.
\<close>

section \<open>Data\<close>

record cluster_limits =
  hardLimitPct :: decimal
  clusterSoftLimitPct :: decimal
  aggregateLimitPct :: decimal

text \<open>An opportunity arrives untyped: what the code finds when it looks for the pair.\<close>

datatype js_field = FString string | FNumber jsnum | FOther

record raw_pair_config =
  rawMatchId :: js_field
  rawClusterId :: js_field
  rawConfidenceScore :: js_field

datatype opportunity = NotAnObject | WithoutPairConfig | WithPairConfig raw_pair_config

record pair_context =
  ctxMatchId :: "string option"
  ctxClusterId :: "string option"
  ctxConfidenceScore :: "jsnum option"

datatype decision_reason =
    TradingHaltedReason
  | MaxOpenPairsReason int jsnum
  | InsufficientCapitalReason decimal decimal
  | AggregateLimitReason decimal decimal
  | ClusterHardLimitReason decimal decimal
  | ClusterProjectedReason decimal decimal
  | PositionSizingReason
  | WithinRiskLimits
  | OverrideDeniedReason
  | OverrideApprovedReason

record risk_decision =
  approved :: bool
  reason :: decision_reason
  decisionSizeUsd :: decimal
  currentOpenPairs :: int
  decisionDailyPnl :: "decimal option"
  overrideRationale :: "string option"
  adjustedSizeUsd :: "decimal option"
  clusterExposurePct :: "decimal option"
  triageRecommendations :: "triage_recommendation list option"
  confidenceScore :: "jsnum option"
  confidenceAdjustedSizeUsd :: "decimal option"

datatype decision_event =
    AggregateClusterLimitBreached jsnum jsnum
  | ClusterLimitBreached string string jsnum jsnum "triage_recommendation list"
  | ClusterSoftLimitApproached string string jsnum jsnum
  | OpenPairsApproached int jsnum jsnum
  | OverrideDenied string string
  | OverrideApplied string string decision_reason jsnum
  | OverrideLogged string string bool "decimal option"

definition plain_decision :: "bool \<Rightarrow> decision_reason \<Rightarrow> decimal \<Rightarrow> int \<Rightarrow> risk_decision" where
  "plain_decision ok why sz open_pairs = \<lparr>approved = ok, reason = why, decisionSizeUsd = sz,
     currentOpenPairs = open_pairs, decisionDailyPnl = None, overrideRationale = None,
     adjustedSizeUsd = None, clusterExposurePct = None, triageRecommendations = None,
     confidenceScore = None, confidenceAdjustedSizeUsd = None\<rparr>"

section \<open>Exposure\<close>

record risk_exposure =
  openPairCount :: int
  exposureCapitalDeployed :: decimal
  exposureBankrollUsd :: decimal
  availableCapital :: decimal
  exposureDailyPnl :: decimal
  exposureDailyLossLimitUsd :: decimal
  exposureClusters :: "cluster_exposure list"
  exposureAggregatePct :: decimal

definition getCurrentExposure :: "(rat \<Rightarrow> rat) \<Rightarrow> bool \<Rightarrow> 'a budget_state_scheme \<Rightarrow> risk_exposure" where
  "getCurrentExposure rd isPaper s =
     (let d = getExposureData rd isPaper s;
          reserved = getReservedCapital rd (Some isPaper) s;
          reservedSlots = getReservedPositionSlots (Some isPaper) s
      in \<lparr>openPairCount = expOpenPositionCount d + reservedSlots,
          exposureCapitalDeployed = xadd rd (expTotalCapitalDeployed d) reserved,
          exposureBankrollUsd = expBankrollUsd d,
          availableCapital = xsub rd (xsub rd (expBankrollUsd d) (expTotalCapitalDeployed d)) reserved,
          exposureDailyPnl = expDailyPnl d,
          exposureDailyLossLimitUsd = expDailyLossLimitUsd d,
          exposureClusters = expClusterExposures d,
          exposureAggregatePct = expAggregateClusterExposurePct d\<rparr>)"

section \<open>Cluster limits\<close>

definition str_field :: "js_field \<Rightarrow> string option" where
  "str_field f = (case f of FString s \<Rightarrow> Some s | _ \<Rightarrow> None)"

definition num_field :: "js_field \<Rightarrow> jsnum option" where
  "num_field f = (case f of FNumber n \<Rightarrow> Some n | _ \<Rightarrow> None)"

definition extractPairContext :: "opportunity \<Rightarrow> pair_context option" where
  "extractPairContext opp =
     (case opp of
        NotAnObject \<Rightarrow> None
      | WithoutPairConfig \<Rightarrow> None
      | WithPairConfig c \<Rightarrow> Some \<lparr>ctxMatchId = str_field (rawMatchId c),
          ctxClusterId = str_field (rawClusterId c),
          ctxConfidenceScore = num_field (rawConfidenceScore c)\<rparr>)"

definition uncategorized :: string where "uncategorized = ''Uncategorized''"

definition find_cluster :: "string \<Rightarrow> cluster_exposure list \<Rightarrow> cluster_exposure option" where
  "find_cluster c es = List.find (\<lambda>e. clusterId e = c) es"

definition find_uncategorized :: "cluster_exposure list \<Rightarrow> cluster_exposure option" where
  "find_uncategorized es = List.find (\<lambda>e. clusterName e = uncategorized) es"

definition clusterPct :: "string option \<Rightarrow> cluster_exposure list \<Rightarrow> decimal" where
  "clusterPct cid es =
     (case (if truthy cid then find_cluster (the cid) es else find_uncategorized es) of
        Some e \<Rightarrow> exposurePct e | None \<Rightarrow> Fin 0)"

definition effectiveClusterId :: "string option \<Rightarrow> cluster_exposure list \<Rightarrow> string option" where
  "effectiveClusterId cid es = (if truthy cid then cid else map_option clusterId (find_uncategorized es))"

definition resolveClusterName :: "string option \<Rightarrow> cluster_exposure list \<Rightarrow> string" where
  "resolveClusterName eff es =
     (case List.find (\<lambda>e. Some (clusterId e) = eff) es of Some e \<Rightarrow> clusterName e | None \<Rightarrow> ''Unknown'')"

definition fetchTriage :: "(rat \<Rightarrow> rat) \<Rightarrow> position_row list \<Rightarrow> string option \<Rightarrow> triage_recommendation list" where
  "fetchTriage rd db eff = (if truthy eff then getTriageRecommendations rd db (the eff) False else [])"

definition hardLimitEvents ::
  "(rat \<Rightarrow> rat) \<Rightarrow> position_row list \<Rightarrow> cluster_limits \<Rightarrow> string option \<Rightarrow> decimal \<Rightarrow> cluster_exposure list
     \<Rightarrow> decision_event list" where
  "hardLimitEvents rd db limits eff pct es =
     (if truthy eff then [ClusterLimitBreached (resolveClusterName eff es) (the eff) (to_number pct)
        (to_number (hardLimitPct limits)) (fetchTriage rd db eff)] else [])"

record cluster_clearance =
  clearedSizeUsd :: decimal
  clearedAdjustedSizeUsd :: "decimal option"
  clearedClusterPct :: "decimal option"

definition taper ::
  "(rat \<Rightarrow> rat) \<Rightarrow> cluster_limits \<Rightarrow> string option \<Rightarrow> decimal \<Rightarrow> cluster_exposure list \<Rightarrow> decimal
     \<Rightarrow> cluster_clearance \<times> decision_event list" where
  "taper rd limits eff pct es sz =
     (if xge pct (clusterSoftLimitPct limits) \<and> xlt pct (hardLimitPct limits) then
        let adjustmentFactor = xsub rd (Fin 1) (xdiv rd pct (hardLimitPct limits));
            sz' = xmul rd sz adjustmentFactor
        in (\<lparr>clearedSizeUsd = sz', clearedAdjustedSizeUsd = Some sz', clearedClusterPct = Some pct\<rparr>,
            if truthy eff then [ClusterSoftLimitApproached (resolveClusterName eff es) (the eff)
              (to_number pct) (to_number (clusterSoftLimitPct limits))] else [])
      else (\<lparr>clearedSizeUsd = sz, clearedAdjustedSizeUsd = None, clearedClusterPct = None\<rparr>, []))"

text \<open>The left side is a rejection with its decision, the right side lets the size through.\<close>

definition validateClusterLimits ::
  "(rat \<Rightarrow> rat) \<Rightarrow> position_row list \<Rightarrow> cluster_limits \<Rightarrow> tracker \<Rightarrow> pair_context \<Rightarrow> decimal \<Rightarrow> decimal \<Rightarrow> int
     \<Rightarrow> (risk_decision + cluster_clearance) \<times> decision_event list" where
  "validateClusterLimits rd db limits t ctx bankroll sz open_pairs =
     (let aggregate = getAggregateExposurePct rd t in
      if xge aggregate (aggregateLimitPct limits) then
        (Inl (plain_decision False (AggregateLimitReason aggregate (aggregateLimitPct limits)) sz open_pairs),
         [AggregateClusterLimitBreached (to_number aggregate) (to_number (aggregateLimitPct limits))])
      else
        let es = clusterExposures t;
            pct = clusterPct (ctxClusterId ctx) es;
            eff = effectiveClusterId (ctxClusterId ctx) es in
        if xge pct (hardLimitPct limits) then
          (Inl ((plain_decision False (ClusterHardLimitReason pct (hardLimitPct limits)) sz open_pairs)
             \<lparr>clusterExposurePct := Some pct, triageRecommendations := Some (fetchTriage rd db eff)\<rparr>),
           hardLimitEvents rd db limits eff pct es)
        else
          let (cl, evs) = taper rd limits eff pct es sz;
              projected = xadd rd pct (xdiv rd (clearedSizeUsd cl) bankroll) in
          if xge projected (hardLimitPct limits) then
            (Inl ((plain_decision False (ClusterProjectedReason projected (hardLimitPct limits)) (clearedSizeUsd cl) open_pairs)
               \<lparr>clusterExposurePct := Some pct, triageRecommendations := Some (fetchTriage rd db eff)\<rparr>),
             evs @ hardLimitEvents rd db limits eff pct es)
          else (Inr cl, evs))"

section \<open>The decision\<close>

text \<open>A score outside [0, 100] counts as none; NaN passes both comparisons.\<close>

definition usable_confidence :: "pair_context option \<Rightarrow> jsnum option" where
  "usable_confidence ctx =
     (case Option.bind ctx ctxConfidenceScore of
        None \<Rightarrow> None
      | Some c \<Rightarrow> if xlt c (Fin 0) \<or> xgt c (Fin 100) then None else Some c)"

definition confidenceMultiplier :: "(rat \<Rightarrow> rat) \<Rightarrow> jsnum option \<Rightarrow> decimal" where
  "confidenceMultiplier rd c = (case c of Some x \<Rightarrow> xdiv rd (to_decimal x) (Fin 100) | None \<Rightarrow> Fin 1)"

definition with_confidence :: "(rat \<Rightarrow> rat) \<Rightarrow> jsnum option \<Rightarrow> decimal \<Rightarrow> risk_decision \<Rightarrow> risk_decision" where
  "with_confidence rd c limitSize d = d\<lparr>confidenceScore := c,
     confidenceAdjustedSizeUsd := (case c of
       Some x \<Rightarrow> if xlt x (Fin 100) then Some (xmul rd limitSize (confidenceMultiplier rd c)) else None
     | None \<Rightarrow> None)\<rparr>"

definition js_floor :: "jsnum \<Rightarrow> jsnum" where
  "js_floor = xmap (\<lambda>q. of_int \<lfloor>q\<rfloor>)"

definition approachEvents :: "int \<Rightarrow> int \<Rightarrow> jsnum \<Rightarrow> decision_event list" where
  "approachEvents openCount effectiveOpenPairs maxPairs =
     (if xge (Fin (of_int effectiveOpenPairs)) (js_floor (xmul b64 maxPairs (js_lit (4/5))))
      then [OpenPairsApproached openCount maxPairs
        (xmul b64 (xdiv b64 (Fin (of_int effectiveOpenPairs)) maxPairs) (Fin 100))]
      else [])"

definition validatePosition ::
  "(rat \<Rightarrow> rat) \<Rightarrow> position_row list \<Rightarrow> cluster_limits \<Rightarrow> opportunity \<Rightarrow> bool \<Rightarrow> 'a budget_state_scheme
     \<Rightarrow> risk_decision \<times> decision_event list" where
  "validatePosition rd db limits opp isPaper s =
     (let m = getState isPaper s;
          bankroll = getBankrollForMode isPaper s;
          cfg = risk_cfg s in
      if isTradingHalted isPaper s then
        ((plain_decision False TradingHaltedReason (Fin 0) (openPositionCount m))
           \<lparr>decisionDailyPnl := Some (dailyPnl m)\<rparr>, [])
      else
        let limitSize = maxPositionSizeUsd rd isPaper s;
            ctx = extractPairContext opp;
            conf = usable_confidence ctx;
            sz = xmul rd limitSize (confidenceMultiplier rd conf);
            annotate = with_confidence rd conf limitSize;
            effectiveOpenPairs = openPositionCount m + getReservedPositionSlots (Some isPaper) s in
        if xge (Fin (of_int effectiveOpenPairs)) (maxOpenPairs cfg) then
          (annotate (plain_decision False (MaxOpenPairsReason effectiveOpenPairs (maxOpenPairs cfg)) sz (openPositionCount m)), [])
        else
          let available = xsub rd (xsub rd bankroll (totalCapitalDeployed m)) (getReservedCapital rd (Some isPaper) s) in
          if xlt available sz then
            (annotate (plain_decision False (InsufficientCapitalReason available sz) sz (openPositionCount m)), [])
          else
            (case (case ctx of
                     Some c \<Rightarrow> validateClusterLimits rd db limits (risk_tracker s) c bankroll sz (openPositionCount m)
                   | None \<Rightarrow> (Inr \<lparr>clearedSizeUsd = sz, clearedAdjustedSizeUsd = None, clearedClusterPct = None\<rparr>, [])) of
               (Inl d, evs) \<Rightarrow> (annotate d, evs)
             | (Inr cl, evs) \<Rightarrow>
                 (annotate ((plain_decision True WithinRiskLimits (clearedSizeUsd cl) (openPositionCount m))
                    \<lparr>adjustedSizeUsd := clearedAdjustedSizeUsd cl, clusterExposurePct := clearedClusterPct cl\<rparr>),
                  evs @ approachEvents (openPositionCount m) effectiveOpenPairs (maxOpenPairs cfg))))"

section \<open>The operator's override\<close>

text \<open>\<^verbatim>\<open>Position sizing limit\<close> is the code's answer when the pair limit is not the reason.\<close>

definition determineRejectionReason :: "'a budget_state_scheme \<Rightarrow> (int \<times> jsnum) option" where
  "determineRejectionReason s =
     (let effectiveOpenPairs = openPositionCount (liveState s) + getReservedPositionSlots None s
      in if xge (Fin (of_int effectiveOpenPairs)) (maxOpenPairs (risk_cfg s))
         then Some (effectiveOpenPairs, maxOpenPairs (risk_cfg s)) else None)"

definition override_reason :: "'a budget_state_scheme \<Rightarrow> decision_reason" where
  "override_reason s = (case determineRejectionReason s of
     Some (n, k) \<Rightarrow> MaxOpenPairsReason n k | None \<Rightarrow> PositionSizingReason)"

definition processOverride ::
  "(rat \<Rightarrow> rat) \<Rightarrow> string \<Rightarrow> string \<Rightarrow> 'a budget_state_scheme \<Rightarrow> risk_decision \<times> decision_event list" where
  "processOverride rd opportunity_id rationale s =
     (let m = liveState s in
      if isTradingHalted False s \<and> DAILY_LOSS_LIMIT \<in> set (activeHaltReasons m) then
        ((plain_decision False OverrideDeniedReason (Fin 0) (openPositionCount m))
           \<lparr>decisionDailyPnl := Some (dailyPnl m)\<rparr>,
         [OverrideDenied opportunity_id rationale, OverrideLogged opportunity_id rationale False None])
      else
        let sz = xmul rd (to_decimal (bankrollUsd (risk_cfg s))) (to_decimal (maxPositionPct (risk_cfg s)))
        in ((plain_decision True OverrideApprovedReason sz (openPositionCount m))
              \<lparr>decisionDailyPnl := Some (dailyPnl m), overrideRationale := Some rationale\<rparr>,
            [OverrideApplied opportunity_id rationale (override_reason s) (to_number sz),
             OverrideLogged opportunity_id rationale True (Some sz)]))"


section \<open>What an approval guarantees\<close>

definition sane_limits :: "cluster_limits \<Rightarrow> bool" where
  "sane_limits limits \<longleftrightarrow> (case (hardLimitPct limits, clusterSoftLimitPct limits) of
     (Fin h, Fin so) \<Rightarrow> 0 < h \<and> 0 \<le> so | _ \<Rightarrow> False)"

text \<open>The confidence the opportunity carries, if any, is a number.\<close>

definition confidence_ok :: "opportunity \<Rightarrow> bool" where
  "confidence_ok opp \<longleftrightarrow> Option.bind (extractPairContext opp) ctxConfidenceScore \<noteq> Some NaN"

lemma usable_confidence_range:
  assumes "confidence_ok opp" "usable_confidence (extractPairContext opp) = Some c"
  shows "\<exists>x. c = Fin x \<and> 0 \<le> x \<and> x \<le> 100"
  using assms by (cases c) (auto simp: usable_confidence_def confidence_ok_def split: option.splits if_splits)

lemma cluster_reject: "validateClusterLimits rd db limits t ctx b sz n = (Inl d, evs) \<Longrightarrow> \<not> approved d"
  by (auto simp: validateClusterLimits_def plain_decision_def Let_def split: if_splits prod.splits)

lemma cluster_clear:
  assumes "validateClusterLimits rd db limits t ctx b sz n = (Inr cl, evs)"
  defines "pct \<equiv> clusterPct (ctxClusterId ctx) (clusterExposures t)"
  shows "\<not> xge (getAggregateExposurePct rd t) (aggregateLimitPct limits)
    \<and> \<not> xge pct (hardLimitPct limits)
    \<and> taper rd limits (effectiveClusterId (ctxClusterId ctx) (clusterExposures t)) pct (clusterExposures t) sz = (cl, evs)
    \<and> \<not> xge (xadd rd pct (xdiv rd (clearedSizeUsd cl) b)) (hardLimitPct limits)"
  using assms(1) unfolding pct_def
  by (auto simp: validateClusterLimits_def Let_def split: if_splits prod.splits)

lemma approval_split:
  assumes "validatePosition rd db limits opp p s = (d, evs)" "approved d"
  defines "ctx \<equiv> extractPairContext opp"
    and "sz \<equiv> xmul rd (maxPositionSizeUsd rd p s) (confidenceMultiplier rd (usable_confidence (extractPairContext opp)))"
  obtains cl where "\<not> isTradingHalted p s"
    "\<not> xge (Fin (of_int (openPositionCount (getState p s) + getReservedPositionSlots (Some p) s))) (maxOpenPairs (risk_cfg s))"
    "\<not> xlt (xsub rd (xsub rd (getBankrollForMode p s) (totalCapitalDeployed (getState p s))) (getReservedCapital rd (Some p) s)) sz"
    "decisionSizeUsd d = clearedSizeUsd cl"
    "ctx = None \<and> clearedSizeUsd cl = sz \<or> (\<exists>c evs'. ctx = Some c \<and>
       validateClusterLimits rd db limits (risk_tracker s) c (getBankrollForMode p s) sz (openPositionCount (getState p s)) = (Inr cl, evs'))"
proof -
  have h: "\<not> isTradingHalted p s"
    using assms(1,2) by (auto simp: validatePosition_def plain_decision_def Let_def)
  have o: "\<not> xge (Fin (of_int (openPositionCount (getState p s) + getReservedPositionSlots (Some p) s))) (maxOpenPairs (risk_cfg s))"
    using assms(1,2) h by (auto simp: validatePosition_def plain_decision_def with_confidence_def Let_def)
  have a: "\<not> xlt (xsub rd (xsub rd (getBankrollForMode p s) (totalCapitalDeployed (getState p s))) (getReservedCapital rd (Some p) s)) sz"
    using assms(1,2) h o unfolding sz_def by (auto simp: validatePosition_def plain_decision_def with_confidence_def Let_def)
  note e = assms(1) [unfolded validatePosition_def Let_def ctx_def [symmetric], folded sz_def [folded ctx_def]]
  show ?thesis
  proof (cases ctx)
    case None
    then show ?thesis
      using that [of "\<lparr>clearedSizeUsd = sz, clearedAdjustedSizeUsd = None, clearedClusterPct = None\<rparr>"] h o a assms(1)
      by (auto simp: validatePosition_def plain_decision_def with_confidence_def Let_def ctx_def sz_def)
  next
    case (Some c)
    obtain out evs' where v: "validateClusterLimits rd db limits (risk_tracker s) c (getBankrollForMode p s) sz
        (openPositionCount (getState p s)) = (out, evs')" by fastforce
    show ?thesis
    proof (cases out)
      case (Inl d')
      from cluster_reject [OF v [unfolded this]] have "\<not> approved d'" .
      moreover have "approved d = approved d'"
        using assms(1) h o a Some v Inl
        by (auto simp: validatePosition_def with_confidence_def Let_def ctx_def sz_def)
      ultimately show ?thesis using assms(2) by simp
    next
      case (Inr cl)
      then have "decisionSizeUsd d = clearedSizeUsd cl"
        using assms(1) h o a Some v
        by (auto simp: validatePosition_def plain_decision_def with_confidence_def Let_def ctx_def sz_def)
      then show ?thesis using that [OF h o a] Some v Inr by blast
    qed
  qed
qed

context decimal_rounding
begin

lemma multiplier_unit:
  assumes "confidence_ok opp"
  shows "\<exists>m. confidenceMultiplier rd (usable_confidence (extractPairContext opp)) = Fin m \<and> 0 \<le> m \<and> m \<le> 1"
proof (cases "usable_confidence (extractPairContext opp)")
  case None
  then show ?thesis by (simp add: confidenceMultiplier_def)
next
  case (Some c)
  from usable_confidence_range [OF assms Some] obtain x where x: "c = Fin x" "0 \<le> x" "x \<le> 100" by blast
  have "shortest x \<le> 100" using shortest_le_pow10 [of x 2] x by simp
  then have "rd (shortest x / 100) \<le> 1" using rd_mono [of "shortest x / 100" 1] by simp
  with x Some show ?thesis by (simp add: confidenceMultiplier_def)
qed

lemma scaled_size:
  assumes "0 \<le> L" "grid L" "L \<le> 10 ^ 12" "0 \<le> m" "m \<le> 1"
  shows "0 \<le> rd (L * m) \<and> rd (L * m) \<le> L"
proof -
  have "rd L = L" using assms by (intro rd_grid) auto
  moreover have "L * m \<le> L" using assms by (simp add: mult_left_le)
  ultimately show ?thesis using assms rd_le_fix [of "L * m" L] by simp
qed

text \<open>A size below a representable bound stays below it when it is tapered.\<close>

lemma taper_size:
  assumes "sane_limits limits" "0 \<le> x" "x \<le> A" "rd A = A" "x \<le> M" "rd M = M"
    and "taper rd limits eff pct es (Fin x) = (cl, evs)"
  shows "\<exists>y. clearedSizeUsd cl = Fin y \<and> 0 \<le> y \<and> y \<le> A \<and> y \<le> M"
proof (cases "xge pct (clusterSoftLimitPct limits) \<and> xlt pct (hardLimitPct limits)")
  case False
  then have "clearedSizeUsd cl = Fin x" using assms(7) unfolding taper_def by (auto simp: Let_def)
  with assms show ?thesis by simp
next
  case True
  obtain h so where l: "hardLimitPct limits = Fin h" "clusterSoftLimitPct limits = Fin so" "0 < h" "0 \<le> so"
    using assms(1) by (auto simp: sane_limits_def split: xr.splits)
  obtain c where c: "pct = Fin c" "so \<le> c" "c < h" using True l by (cases pct) auto
  have "0 \<le> rd (c / h)" "rd (c / h) \<le> 1"
    using c l rd_mono [of "c / h" 1] by (simp_all add: divide_le_eq_1)
  then have f: "0 \<le> rd (1 - rd (c / h))" "rd (1 - rd (c / h)) \<le> 1"
    using rd_mono [of "1 - rd (c / h)" 1] by simp_all
  let ?y = "rd (x * rd (1 - rd (c / h)))"
  have "clearedSizeUsd cl = Fin ?y"
    using assms(7) True l c by (auto simp: taper_def Let_def)
  moreover have "x * rd (1 - rd (c / h)) \<le> x" using f assms(2) by (simp add: mult_left_le)
  then have "?y \<le> A" "?y \<le> M"
    using rd_le_fix [OF _ assms(4)] rd_le_fix [OF _ assms(6)] assms(3,5) by simp_all
  moreover have "0 \<le> ?y" using f(1) assms(2) by simp
  ultimately show ?thesis by blast
qed

lemma approval_size:
  assumes "budget_inv rd s" "sane_limits limits" "confidence_ok opp"
    and "validatePosition rd db limits opp p s = (d, evs)" "approved d"
  shows "\<not> isTradingHalted p s
    \<and> of_int (openPositionCount (getState p s) + int (length (mode_reservations p s))) < pair_limit s
    \<and> (\<exists>x. decisionSizeUsd d = Fin x \<and> 0 \<le> x \<and> x \<le> fin_val (maxPositionSizeUsd rd p s)
         \<and> x \<le> bankroll_of p s - deployed p s - held p s)"
proof -
  let ?L = "fin_val (maxPositionSizeUsd rd p s)" and ?A = "bankroll_of p s - deployed p s - held p s"
  from assms(1) have l: "money_limits rd s" by (simp add: budget_inv_def)
  note ms = budget_inv_mode [OF assms(1), of p] and ml = money_limits_mode [OF l, of p]
  note m = mode_soundD [OF ms]
  have L: "maxPositionSizeUsd rd p s = Fin ?L" "0 \<le> ?L" "grid ?L" "?L \<le> 10 ^ 12"
    using ml sound_amount_val by auto
  obtain mu where mu: "confidenceMultiplier rd (usable_confidence (extractPairContext opp)) = Fin mu"
    "0 \<le> mu" "mu \<le> 1" using multiplier_unit [OF assms(3)] by blast
  define x where "x = rd (?L * mu)"
  have x: "0 \<le> x" "x \<le> ?L" using scaled_size [OF L(2,3,4) mu(2,3)] by (simp_all add: x_def)
  have sz: "xmul rd (maxPositionSizeUsd rd p s) (Fin mu) = Fin x"
    by (metis L(1) x_def xmul.simps(1))
  have B: "grid (bankroll_of p s)" "bankroll_of p s \<le> 10 ^ 12" using ml sound_amount_val by (auto simp: bankroll_of_def)
  have rA: "rd ?A = ?A" using m B by (intro rd_grid) auto
  have rL: "rd ?L = ?L" using L by (intro rd_grid) auto
  obtain n where n: "maxOpenPairs (risk_cfg s) = Fin (of_int n)"
    using l is_integer_cases by (auto simp: money_limits_def)
  obtain cl where c: "\<not> isTradingHalted p s"
    "\<not> xge (Fin (of_int (openPositionCount (getState p s) + getReservedPositionSlots (Some p) s))) (maxOpenPairs (risk_cfg s))"
    "\<not> xlt (Fin ?A) (Fin x)" "decisionSizeUsd d = clearedSizeUsd cl"
    "extractPairContext opp = None \<and> clearedSizeUsd cl = Fin x \<or> (\<exists>c evs'. extractPairContext opp = Some c \<and>
       validateClusterLimits rd db limits (risk_tracker s) c (getBankrollForMode p s) (Fin x) (openPositionCount (getState p s)) = (Inr cl, evs'))"
    by (rule approval_split [OF assms(4,5), unfolded mu(1) sz available_exact [OF l ms]])
  have "\<exists>y. clearedSizeUsd cl = Fin y \<and> 0 \<le> y \<and> y \<le> ?A \<and> y \<le> ?L"
    using c(5)
  proof
    assume "\<exists>c evs'. extractPairContext opp = Some c \<and>
       validateClusterLimits rd db limits (risk_tracker s) c (getBankrollForMode p s) (Fin x) (openPositionCount (getState p s)) = (Inr cl, evs')"
    then show ?thesis
      using cluster_clear taper_size [OF assms(2) x(1) _ rA x(2) rL] c(3) by (meson not_le xlt.simps not_less) 
  qed (use x c(3) in auto)
  then show ?thesis using c(1,2,4) slots_count [OF m(4)] n by (auto simp: pair_limit_def)
qed

lemma approved_reserves:
  assumes "budget_inv rd s" "sane_limits limits" "confidence_ok opp"
    and "validatePosition rd db limits opp p s = (d, evs)" "approved d"
    and "reqIsPaper req = p" "recommendedPositionSizeUsd req = decisionSizeUsd d"
    and "p \<longrightarrow> reqPairId req \<notin> set (paperActivePairIds s)"
  shows "\<exists>s' evs r. reserveBudget rd uuid now req s = Inr (s', evs, r) \<and> reservedCapitalUsd r = decisionSizeUsd d"
proof -
  from assms(1) have l: "money_limits rd s" by (simp add: budget_inv_def)
  note ms = budget_inv_mode [OF assms(1), of p]
  note m = mode_soundD [OF ms]
  obtain L where L: "maxPositionSizeUsd rd p s = Fin L"
    using money_limits_mode [OF l, of p] by (auto elim: sound_amountE)
  obtain n where n: "maxOpenPairs (risk_cfg s) = Fin (of_int n)"
    using l is_integer_cases by (auto simp: money_limits_def)
  from approval_size [OF assms(1-5)] obtain x where a: "\<not> isTradingHalted p s"
    "of_int (openPositionCount (getState p s) + int (length (mode_reservations p s))) < pair_limit s"
    "decisionSizeUsd d = Fin x" "x \<le> L" "x \<le> bankroll_of p s - deployed p s - held p s"
    by (auto simp: L)
  show ?thesis
    using assms(6-8) a available_exact [OF l ms] slots_count [OF m(4)] n L
    by (auto simp: reserveBudget_def Let_def pair_limit_def)
qed

end

text \<open>
  C4: an approved opportunity comes with a size between zero and both the position limit and
  the free capital, and the budget grants exactly that size: a reservation for it succeeds
  (for paper, provided the pair is not active).
\<close>
theorem approved_opportunity_reserves:
  assumes "decimal_rounding rd" "budget_inv rd s" "sane_limits limits" "confidence_ok opp"
    and "validatePosition rd db limits opp p s = (d, evs)" "approved d"
    and "reqIsPaper req = p" "recommendedPositionSizeUsd req = decisionSizeUsd d"
    and "p \<longrightarrow> reqPairId req \<notin> set (paperActivePairIds s)"
  shows "\<exists>x. decisionSizeUsd d = Fin x \<and> 0 \<le> x \<and> x \<le> fin_val (maxPositionSizeUsd rd p s)
    \<and> x \<le> bankroll_of p s - deployed p s - held p s
    \<and> (\<exists>s' evs r. reserveBudget rd uuid now req s = Inr (s', evs, r) \<and> reservedCapitalUsd r = Fin x)"
  using decimal_rounding.approval_size [OF assms(1-6)] decimal_rounding.approved_reserves [OF assms(1-9)]
  by fastforce

definition sample_limits :: cluster_limits where
  "sample_limits = \<lparr>hardLimitPct = Fin (3/20), clusterSoftLimitPct = Fin (3/25), aggregateLimitPct = Fin (1/2)\<rparr>"

lemma sample_decision:
  "\<exists>d evs. validatePosition dec20 [] sample_limits WithoutPairConfig True sample_budget = (d, evs)
     \<and> approved d \<and> decisionSizeUsd d = Fin 500"
proof -
  have "getState p sample_budget = sample_mode" for p by (simp add: getState_def sample_budget_def)
  moreover have "getReservedCapital dec20 (Some True) sample_budget = Fin 0"
    "getReservedPositionSlots (Some True) sample_budget = 0"
    "maxOpenPairs (risk_cfg sample_budget) = Fin 10"
    by (simp_all add: getReservedCapital_def getReservedPositionSlots_def sample_budget_def sample_risk_state_def)
  moreover have "dec20 1000 = 1000" "dec20 500 = 500" using dec20_int [of 1000] dec20_int [of 500] by simp_all
  ultimately show ?thesis
    by (simp add: validatePosition_def sample_figures isTradingHalted_def sample_mode_def createDefaultModeRiskState_def
        extractPairContext_def usable_confidence_def confidenceMultiplier_def plain_decision_def with_confidence_def Let_def)
qed

theorem approved_opportunity_reserves_witness:
  "\<exists>s' evs r. reserveBudget dec20 ''r1'' 0 (sample_request\<lparr>recommendedPositionSizeUsd := Fin 500\<rparr>) sample_budget
     = Inr (s', evs, r)"
proof -
  from sample_decision obtain d evs where d: "validatePosition dec20 [] sample_limits WithoutPairConfig True sample_budget = (d, evs)"
    "approved d" "decisionSizeUsd d = Fin 500" by blast
  have "sane_limits sample_limits" by (simp add: sane_limits_def sample_limits_def)
  moreover have "confidence_ok WithoutPairConfig" by (simp add: confidence_ok_def extractPairContext_def)
  ultimately show ?thesis
    using approved_opportunity_reserves [OF d20.decimal_rounding_axioms sample_inv _ _ d(1,2),
        of "sample_request\<lparr>recommendedPositionSizeUsd := Fin 500\<rparr>" "''r1''" 0] d(3)
    by (auto simp: sample_request_def sample_budget_def)
qed

text \<open>
  C13: an approval respects the cluster limits by the code's own figures. For an opportunity that names
  its pair, the aggregate exposure before the approval is below its limit (the approved size is not added to
  it), the exposure of the opportunity's cluster is below the hard limit before the approval and still is
  when the approved size, as a share of the bankroll, is added; from the soft limit on the size is tapered by
  the share of the hard limit that is used. An opportunity that names no pair is approved for its size
  scaled by the confidence, without any of these checks.
\<close>
theorem approval_respects_cluster_limits:
  assumes "validatePosition rd db limits opp p s = (d, evs)" "approved d"
    and "sz = xmul rd (maxPositionSizeUsd rd p s) (confidenceMultiplier rd (usable_confidence (extractPairContext opp)))"
  shows "case extractPairContext opp of
      None \<Rightarrow> decisionSizeUsd d = sz
    | Some c \<Rightarrow>
        let pct = clusterPct (ctxClusterId c) (clusterExposures (risk_tracker s)) in
        \<not> xge (getAggregateExposurePct rd (risk_tracker s)) (aggregateLimitPct limits)
        \<and> \<not> xge pct (hardLimitPct limits)
        \<and> \<not> xge (xadd rd pct (xdiv rd (decisionSizeUsd d) (getBankrollForMode p s))) (hardLimitPct limits)
        \<and> decisionSizeUsd d =
            (if xge pct (clusterSoftLimitPct limits) \<and> xlt pct (hardLimitPct limits)
             then xmul rd sz (xsub rd (Fin 1) (xdiv rd pct (hardLimitPct limits))) else sz)"
proof (cases "extractPairContext opp")
  case None
  then show ?thesis
    by (rule_tac approval_split [OF assms(1,2), folded assms(3)]) (auto simp: None)
next
  case (Some c)
  define pct where "pct = clusterPct (ctxClusterId c) (clusterExposures (risk_tracker s))"
  obtain cl evs' where v: "validateClusterLimits rd db limits (risk_tracker s) c (getBankrollForMode p s) sz
      (openPositionCount (getState p s)) = (Inr cl, evs')" "decisionSizeUsd d = clearedSizeUsd cl"
    by (rule approval_split [OF assms(1,2), folded assms(3), unfolded Some]) auto
  note k = cluster_clear [OF v(1), folded pct_def]
  then have "clearedSizeUsd cl = (if xge pct (clusterSoftLimitPct limits) \<and> xlt pct (hardLimitPct limits)
         then xmul rd sz (xsub rd (Fin 1) (xdiv rd pct (hardLimitPct limits))) else sz)"
    by (auto simp: taper_def Let_def)
  with k v(2) show ?thesis by (simp add: Some pct_def Let_def)
qed

lemma dec20_half: "dec20 (1/2) = 1/2"
  using d20.sr.rd_exact [of 5 "- 1"] by (simp add: power_int_minus)

definition sample_opportunity :: opportunity where
  "sample_opportunity = WithPairConfig \<lparr>rawMatchId = FString ''m'', rawClusterId = FString ''c'', rawConfidenceScore = FOther\<rparr>"

definition wide_limits :: cluster_limits where
  "wide_limits = \<lparr>hardLimitPct = Fin 1, clusterSoftLimitPct = Fin 1, aggregateLimitPct = Fin 1\<rparr>"

theorem approval_respects_cluster_limits_witness:
  "\<exists>d evs. validatePosition dec20 [] wide_limits sample_opportunity True sample_budget = (d, evs) \<and> approved d
     \<and> \<not> xge (getAggregateExposurePct dec20 (risk_tracker sample_budget)) (aggregateLimitPct wide_limits)"
proof -
  have "getState p sample_budget = sample_mode" for p by (simp add: getState_def sample_budget_def)
  moreover have "getReservedCapital dec20 (Some True) sample_budget = Fin 0"
    "getReservedPositionSlots (Some True) sample_budget = 0"
    "maxOpenPairs (risk_cfg sample_budget) = Fin 10" "clusterExposures (risk_tracker sample_budget) = []"
    by (simp_all add: getReservedCapital_def getReservedPositionSlots_def sample_budget_def sample_risk_state_def sample_tracker_def)
  moreover have "dec20 1000 = 1000" "dec20 500 = 500" using dec20_int [of 1000] dec20_int [of 500] by simp_all
  ultimately have "\<exists>d evs. validatePosition dec20 [] wide_limits sample_opportunity True sample_budget = (d, evs) \<and> approved d"
    by (simp add: validatePosition_def sample_figures isTradingHalted_def sample_mode_def createDefaultModeRiskState_def
        extractPairContext_def usable_confidence_def confidenceMultiplier_def plain_decision_def with_confidence_def Let_def
        sample_opportunity_def validateClusterLimits_def getAggregateExposurePct_def wide_limits_def taper_def clusterPct_def
        str_field_def num_field_def truthy_def find_cluster_def dec20_half)
  then obtain d evs where d: "validatePosition dec20 [] wide_limits sample_opportunity True sample_budget = (d, evs)" "approved d"
    by blast
  have "\<exists>c. extractPairContext sample_opportunity = Some c"
    by (simp add: extractPairContext_def sample_opportunity_def)
  then obtain c where "extractPairContext sample_opportunity = Some c" ..
  with approval_respects_cluster_limits [OF d refl] d show ?thesis by (auto simp: Let_def)
qed

text \<open>
  an override is denied exactly while the live daily-loss halt stands, whatever other halts
  there are; a denial grants nothing and is logged as such, an approval grants the live
  position limit.
\<close>
theorem override_denied_iff_daily_loss:
  "(approved (fst (processOverride rd opp_id why s)) \<longleftrightarrow> DAILY_LOSS_LIMIT \<notin> set (activeHaltReasons (liveState s)))
   \<and> (DAILY_LOSS_LIMIT \<in> set (activeHaltReasons (liveState s)) \<longrightarrow>
        decisionSizeUsd (fst (processOverride rd opp_id why s)) = Fin 0
        \<and> snd (processOverride rd opp_id why s) = [OverrideDenied opp_id why, OverrideLogged opp_id why False None])
   \<and> (DAILY_LOSS_LIMIT \<notin> set (activeHaltReasons (liveState s)) \<longrightarrow>
        decisionSizeUsd (fst (processOverride rd opp_id why s)) = maxPositionSizeUsd rd False s)"
  by (auto simp: processOverride_def Let_def isTradingHalted_def getState_def plain_decision_def
      maxPositionSizeUsd_def getBankrollForMode_def)

theorem override_denied_iff_daily_loss_witness:
  "\<not> approved (fst (processOverride dec20 ''o'' ''w''
     (sample_budget\<lparr>liveState := sample_mode\<lparr>activeHaltReasons := [DAILY_LOSS_LIMIT]\<rparr>\<rparr>)))"
  using override_denied_iff_daily_loss [of dec20 "''o''" "''w''"
      "sample_budget\<lparr>liveState := sample_mode\<lparr>activeHaltReasons := [DAILY_LOSS_LIMIT]\<rparr>\<rparr>"]
  by simp

text \<open>
  the reported exposure balances: deployed and reserved capital together with the available
  capital are the mode's bankroll, to the last digit.
\<close>
theorem exposure_balances:
  assumes "decimal_rounding rd" "budget_inv rd s"
  shows "\<exists>C A B. exposureCapitalDeployed (getCurrentExposure rd p s) = Fin C
    \<and> availableCapital (getCurrentExposure rd p s) = Fin A
    \<and> exposureBankrollUsd (getCurrentExposure rd p s) = Fin B \<and> C + A = B \<and> 0 \<le> C \<and> 0 \<le> A"
proof -
  note i = decimal_rounding.inv_reported [OF assms, of p]
  note m = mode_soundD [OF budget_inv_mode [OF assms(2), of p]]
  have l: "money_limits rd s" using assms(2) by (simp add: budget_inv_def)
  note a = decimal_rounding.available_exact [OF assms(1) l budget_inv_mode [OF assms(2), of p]]
  have "bankroll_of p s \<le> 10 ^ 12" using money_limits_mode [OF l] by blast
  then have "rd (deployed p s + held p s) = deployed p s + held p s"
    using m by (intro decimal_rounding.rd_grid [OF assms(1)]) auto
  then show ?thesis
    using i a m by (simp add: getCurrentExposure_def getExposureData_def Let_def)
qed

theorem exposure_balances_witness:
  "\<exists>C A B. exposureCapitalDeployed (getCurrentExposure dec20 True sample_budget) = Fin C
    \<and> availableCapital (getCurrentExposure dec20 True sample_budget) = Fin A
    \<and> exposureBankrollUsd (getCurrentExposure dec20 True sample_budget) = Fin B \<and> C + A = B \<and> 0 \<le> C \<and> 0 \<le> A"
  by (rule exposure_balances [OF d20.decimal_rounding_axioms sample_inv])

end
