(* ===== verification/PairConcentration.thy ===== *)
theory PairConcentration
  imports Prelude
begin

text \<open>
  \<^verbatim>\<open>PairConcentrationFilterService\<close>: of the opportunities of one detection cycle, those of
  a pair that was traded too recently, has too many positions or more than its share are filtered
  out.  The two repository queries are arguments (\<open>None\<close> is a query that throws), the configured
  minutes and counts are integers.  The lemmas show that the filter splits its input without
  reordering, that every verdict has its reason, and that the pair limit counts the opportunities
  already let through in the same batch.
\<close>

section \<open>Data\<close>

record enriched_opportunity =
  matchId :: "string option"
  eventDescription :: string
  op_netEdge :: decimal
  annualizedReturn :: "decimal option"

datatype filter_reason = PairCooldownActive | PairMaxConcurrentReached | PairAboveAverage

record concentration_config =
  pairCooldownMinutes :: int
  pairMaxConcurrentPositions :: int
  pairDiversityThreshold :: int

record 'o filter_result =
  passed :: "'o list"
  filtered :: "('o \<times> filter_reason) list"

text \<open>The reasons to announce: an opportunity filtered out, or the queries failing.\<close>

record filtered_event =
  ev_description :: string
  ev_netEdge :: decimal
  ev_threshold :: decimal
  ev_reason :: filter_reason
  ev_matchId :: "string option"
  ev_annualizedReturn :: "jsnum option"

datatype filter_event = OpportunityFiltered filtered_event | FilterQueryFailed

definition pair_of :: "'a enriched_opportunity_scheme \<Rightarrow> string" where
  "pair_of op = (case matchId op of Some m \<Rightarrow> m | None \<Rightarrow> '''')"

definition get_count :: "(string \<times> nat) list \<Rightarrow> string \<Rightarrow> nat" where
  "get_count m k = (case map_of m k of Some n \<Rightarrow> n | None \<Rightarrow> 0)"

section \<open>The three checks\<close>

definition in_cooldown :: "concentration_config \<Rightarrow> (string \<times> timestamp) list \<Rightarrow> timestamp \<Rightarrow> string \<Rightarrow> bool" where
  "in_cooldown cfg latestDates now pid \<longleftrightarrow>
     0 < pairCooldownMinutes cfg
     \<and> (case map_of latestDates pid of
          Some d \<Rightarrow> now - d < pairCooldownMinutes cfg * 60000
        | None \<Rightarrow> False)"

definition at_max_concurrent :: "concentration_config \<Rightarrow> (string \<times> nat) list \<Rightarrow> (string \<times> nat) list \<Rightarrow> string \<Rightarrow> bool" where
  "at_max_concurrent cfg openCounts increments pid \<longleftrightarrow>
     0 < pairMaxConcurrentPositions cfg
     \<and> pairMaxConcurrentPositions cfg \<le> int (get_count openCounts pid + get_count increments pid)"

definition total_open :: "(string \<times> nat) list \<Rightarrow> nat" where
  "total_open openCounts = foldl (\<lambda>s c. s + c) 0 (map snd openCounts)"

definition average_open :: "(string \<times> nat) list \<Rightarrow> jsnum" where
  "average_open openCounts =
     (if 0 < length openCounts
      then xdiv b64 (Fin (of_nat (total_open openCounts))) (Fin (of_nat (length openCounts))) else Fin 0)"

definition above_average :: "concentration_config \<Rightarrow> (string \<times> nat) list \<Rightarrow> string \<Rightarrow> bool" where
  "above_average cfg openCounts pid \<longleftrightarrow>
     0 < pairDiversityThreshold cfg \<and> pairDiversityThreshold cfg \<le> int (total_open openCounts)
     \<and> xge (Fin (of_nat (get_count openCounts pid))) (average_open openCounts)"

definition filter_reason_of ::
  "concentration_config \<Rightarrow> (string \<times> timestamp) list \<Rightarrow> (string \<times> nat) list \<Rightarrow> timestamp
     \<Rightarrow> (string \<times> nat) list \<Rightarrow> string \<Rightarrow> filter_reason option" where
  "filter_reason_of cfg latestDates openCounts now increments pid =
     (if in_cooldown cfg latestDates now pid then Some PairCooldownActive
      else if at_max_concurrent cfg openCounts increments pid then Some PairMaxConcurrentReached
      else if above_average cfg openCounts pid then Some PairAboveAverage
      else None)"

definition emitFilteredEvent :: "concentration_config \<Rightarrow> 'a enriched_opportunity_scheme \<Rightarrow> filter_reason \<Rightarrow> filter_event" where
  "emitFilteredEvent cfg op reason = OpportunityFiltered
     \<lparr>ev_description = eventDescription op, ev_netEdge = op_netEdge op,
      ev_threshold = Fin (of_int (case reason of
        PairCooldownActive \<Rightarrow> pairCooldownMinutes cfg
      | PairMaxConcurrentReached \<Rightarrow> pairMaxConcurrentPositions cfg
      | PairAboveAverage \<Rightarrow> pairDiversityThreshold cfg)),
      ev_reason = reason, ev_matchId = matchId op,
      ev_annualizedReturn = map_option to_number (annualizedReturn op)\<rparr>"

section \<open>The filter\<close>

fun filter_loop ::
  "concentration_config \<Rightarrow> (string \<times> timestamp) list \<Rightarrow> (string \<times> nat) list \<Rightarrow> timestamp
     \<Rightarrow> 'a enriched_opportunity_scheme list \<Rightarrow> (string \<times> nat) list \<Rightarrow> 'a enriched_opportunity_scheme filter_result \<times> filter_event list" where
  "filter_loop cfg latestDates openCounts now [] increments = (\<lparr>passed = [], filtered = []\<rparr>, [])"
| "filter_loop cfg latestDates openCounts now (op # ops) increments =
     (case filter_reason_of cfg latestDates openCounts now increments (pair_of op) of
        Some reason \<Rightarrow>
          (case filter_loop cfg latestDates openCounts now ops increments of
             (r, evs) \<Rightarrow> (r\<lparr>filtered := (op, reason) # filtered r\<rparr>, emitFilteredEvent cfg op reason # evs))
      | None \<Rightarrow>
          (case filter_loop cfg latestDates openCounts now ops
                  (map_set (pair_of op) (get_count increments (pair_of op) + 1) increments) of
             (r, evs) \<Rightarrow> (r\<lparr>passed := op # passed r\<rparr>, evs)))"

text \<open>The pairs the query asks for: each once, those without an id left out.\<close>

definition queried_pairs :: "'a enriched_opportunity_scheme list \<Rightarrow> string list" where
  "queried_pairs ops = filter (\<lambda>p. p \<noteq> []) (set_of_list (map pair_of ops))"

definition filterOpportunities ::
  "concentration_config \<Rightarrow> (string list \<Rightarrow> (string \<times> timestamp) list option) \<Rightarrow> (string \<times> nat) list option
     \<Rightarrow> timestamp \<Rightarrow> 'a enriched_opportunity_scheme list \<Rightarrow> 'a enriched_opportunity_scheme filter_result \<times> filter_event list" where
  "filterOpportunities cfg getLatest activeCounts now ops =
     (if ops = [] then (\<lparr>passed = [], filtered = []\<rparr>, [])
      else
        case (getLatest (queried_pairs ops), activeCounts) of
          (Some latestDates, Some openCounts) \<Rightarrow> filter_loop cfg latestDates openCounts now ops []
        | _ \<Rightarrow> (\<lparr>passed = ops, filtered = []\<rparr>, [FilterQueryFailed]))"

section \<open>Facts\<close>

lemma get_count_set: "get_count (map_set k v m) k' = (if k' = k then v else get_count m k')"
  by (simp add: get_count_def update_conv')

definition passed_of :: "string \<Rightarrow> 'a enriched_opportunity_scheme list \<Rightarrow> nat" where
  "passed_of pid ops = length (filter (\<lambda>op. pair_of op = pid) ops)"

lemma filter_loop_Cons:
  "filter_reason_of cfg ld oc now inc (pair_of op) = Some reason \<Longrightarrow>
     filter_loop cfg ld oc now (op # ops) inc =
       (let res = filter_loop cfg ld oc now ops inc
        in ((fst res)\<lparr>filtered := (op, reason) # filtered (fst res)\<rparr>, emitFilteredEvent cfg op reason # snd res))"
  "filter_reason_of cfg ld oc now inc (pair_of op) = None \<Longrightarrow>
     filter_loop cfg ld oc now (op # ops) inc =
       (let res = filter_loop cfg ld oc now ops (map_set (pair_of op) (get_count inc (pair_of op) + 1) inc)
        in ((fst res)\<lparr>passed := op # passed (fst res)\<rparr>, snd res))"
  by (simp_all add: split_beta Let_def)

declare filter_loop.simps(2) [simp del]

lemma filter_loop_limit:
  assumes "0 < pairMaxConcurrentPositions cfg"
  shows "int (get_count oc pid + get_count inc pid + passed_of pid (passed (fst (filter_loop cfg ld oc now ops inc))))
    \<le> max (int (get_count oc pid + get_count inc pid)) (pairMaxConcurrentPositions cfg)"
proof (induction ops arbitrary: inc)
  case Nil
  show ?case by (simp add: passed_of_def)
next
  case (Cons op ops)
  show ?case
  proof (cases "filter_reason_of cfg ld oc now inc (pair_of op)")
    case None
    then have "\<not> at_max_concurrent cfg oc inc (pair_of op)"
      by (auto simp: filter_reason_of_def split: if_splits)
    then have "int (get_count oc (pair_of op) + get_count inc (pair_of op)) < pairMaxConcurrentPositions cfg"
      using assms by (simp add: at_max_concurrent_def)
    then show ?thesis
      using None Cons.IH [of "map_set (pair_of op) (get_count inc (pair_of op) + 1) inc"]
      by (cases "pair_of op = pid") (simp_all add: filter_loop_Cons Let_def passed_of_def get_count_set)
  next
    case (Some r)
    then show ?thesis using Cons.IH [of inc] by (simp add: filter_loop_Cons Let_def)
  qed
qed

lemma filter_loop_split:
  "ops \<in> shuffles (passed (fst (filter_loop cfg ld oc now ops inc)))
                  (map fst (filtered (fst (filter_loop cfg ld oc now ops inc))))
   \<and> snd (filter_loop cfg ld oc now ops inc) =
     map (\<lambda>(op, r). emitFilteredEvent cfg op r) (filtered (fst (filter_loop cfg ld oc now ops inc)))"
proof (induction ops arbitrary: inc)
  case (Cons op ops)
  from Cons.IH show ?case
    by (cases "filter_reason_of cfg ld oc now inc (pair_of op)")
      (simp_all add: filter_loop_Cons Let_def Cons_in_shuffles_leftI Cons_in_shuffles_rightI)
qed simp

definition verdicts_ok ::
  "concentration_config \<Rightarrow> (string \<times> timestamp) list \<Rightarrow> (string \<times> nat) list \<Rightarrow> timestamp
     \<Rightarrow> (string \<times> nat) list \<Rightarrow> 'a enriched_opportunity_scheme filter_result \<Rightarrow> bool" where
  "verdicts_ok cfg ld oc now inc r \<longleftrightarrow>
     (\<forall>op \<in> set (passed r). \<not> in_cooldown cfg ld now (pair_of op) \<and> \<not> above_average cfg oc (pair_of op))
     \<and> (\<forall>(op, x) \<in> set (filtered r).
          (x = PairCooldownActive \<longleftrightarrow> in_cooldown cfg ld now (pair_of op))
          \<and> (x = PairAboveAverage \<longrightarrow> above_average cfg oc (pair_of op))
          \<and> (x = PairMaxConcurrentReached \<longrightarrow> pairMaxConcurrentPositions cfg
               \<le> int (get_count oc (pair_of op) + get_count inc (pair_of op) + passed_of (pair_of op) (passed r))))"

lemma verdicts_pass:
  assumes "verdicts_ok cfg ld oc now (map_set (pair_of op) (get_count inc (pair_of op) + 1) inc) r"
    and "filter_reason_of cfg ld oc now inc (pair_of op) = None"
  shows "verdicts_ok cfg ld oc now inc (r\<lparr>passed := op # passed r\<rparr>)"
  using assms
  by (auto simp: verdicts_ok_def filter_reason_of_def get_count_set passed_of_def split: if_splits)

lemma verdicts_reject:
  assumes "verdicts_ok cfg ld oc now inc r"
    and "filter_reason_of cfg ld oc now inc (pair_of op) = Some x"
  shows "verdicts_ok cfg ld oc now inc (r\<lparr>filtered := (op, x) # filtered r\<rparr>)"
  using assms
  by (auto simp: verdicts_ok_def filter_reason_of_def at_max_concurrent_def split: if_splits)

lemma filter_loop_verdicts: "verdicts_ok cfg ld oc now inc (fst (filter_loop cfg ld oc now ops inc))"
proof (induction ops arbitrary: inc)
  case Nil
  show ?case by (simp add: verdicts_ok_def)
next
  case (Cons op ops)
  then show ?case
    by (cases "filter_reason_of cfg ld oc now inc (pair_of op)")
      (simp_all add: filter_loop_Cons Let_def verdicts_pass verdicts_reject)
qed

lemma filterOpportunities_cases:
  "filterOpportunities cfg getLatest counts now ops =
     (case (getLatest (queried_pairs ops), counts) of
        (Some ld, Some oc) \<Rightarrow> filter_loop cfg ld oc now ops []
      | _ \<Rightarrow> (\<lparr>passed = ops, filtered = []\<rparr>, if ops = [] then [] else [FilterQueryFailed]))"
  by (auto simp: filterOpportunities_def split: option.splits)

section \<open>Properties\<close>


definition sample_concentration :: concentration_config where
  "sample_concentration = \<lparr>pairCooldownMinutes = 30, pairMaxConcurrentPositions = 2, pairDiversityThreshold = 0\<rparr>"

definition sample_op :: "string \<Rightarrow> enriched_opportunity" where
  "sample_op m = \<lparr>matchId = Some m, eventDescription = ''event'', op_netEdge = Fin 1, annualizedReturn = None\<rparr>"


text \<open>
  the filter splits the opportunities without losing, repeating or reordering any, and
  announces exactly the filtered ones; when a query fails it lets everything pass and reports that.
\<close>
theorem concentration_filter_partitions:
  "case filterOpportunities cfg getLatest counts now ops of (r, evs) \<Rightarrow>
     ops \<in> shuffles (passed r) (map fst (filtered r))
     \<and> (if ops \<noteq> [] \<and> (getLatest (queried_pairs ops) = None \<or> counts = None)
        then passed r = ops \<and> evs = [FilterQueryFailed]
        else evs = map (\<lambda>(op, x). emitFilteredEvent cfg op x) (filtered r))"
  using filter_loop_split [of ops cfg "the (getLatest (queried_pairs ops))" "the counts" now "[]"]
  by (cases "getLatest (queried_pairs ops)"; cases counts; cases "ops = []")
    (simp_all add: filterOpportunities_cases split_beta)

text \<open>
  an opportunity passes only outside its pair's cooldown and, once enough positions are open,
  only with a pair below the average; one filtered out carries the check that holds: its pair is
  in cooldown, or has reached its limit with the opportunities of the batch that pass, or is above
  the average.
\<close>
theorem concentration_verdicts:
  assumes "getLatest (queried_pairs ops) = Some ld"
  shows "case filterOpportunities cfg getLatest (Some oc) now ops of (r, _) \<Rightarrow>
     (\<forall>op \<in> set (passed r). \<not> in_cooldown cfg ld now (pair_of op) \<and> \<not> above_average cfg oc (pair_of op))
     \<and> (\<forall>(op, x) \<in> set (filtered r).
          (x = PairCooldownActive \<longleftrightarrow> in_cooldown cfg ld now (pair_of op))
          \<and> (x = PairAboveAverage \<longrightarrow> above_average cfg oc (pair_of op))
          \<and> (x = PairMaxConcurrentReached \<longrightarrow> pairMaxConcurrentPositions cfg
               \<le> int (get_count oc (pair_of op) + passed_of (pair_of op) (passed r))))"
  using filter_loop_verdicts [of cfg ld oc now "[]" ops] assms
  by (simp add: filterOpportunities_cases verdicts_ok_def get_count_def [of "[]"] split_beta)

theorem concentration_verdicts_witness:
  "\<forall>op \<in> set (passed (fst (filterOpportunities sample_concentration (\<lambda>_. Some [(''m'', 0)]) (Some []) 60000
     [sample_op ''m'']))). \<not> in_cooldown sample_concentration [(''m'', 0)] 60000 (pair_of op)"
  using concentration_verdicts [where cfg = sample_concentration and getLatest = "\<lambda>_. Some [(''m'', 0)]"
      and oc = "[]" and ops = "[sample_op ''m'']" and now = 60000 and ld = "[(''m'', 0)]"]
  by (simp split: prod.splits)

end
