(* ===== verification/BacktestRuns.thy ===== *)
theory BacktestRuns
  imports Prelude
begin

text \<open>
  \<^verbatim>\<open>BacktestStateMachineService\<close>: the runs of the backtest engine, their states and the
  limit on concurrent ones.  Answers of the database are arguments.  \<open>createRun\<close> awaits the
  database between its check and its update, so it is also given in these two halves, which other
  calls can come between.  The lemmas are about histories of the calls the engine makes
  (\<^verbatim>\<open>backtest-engine.service.ts\<close>): the cap, the finality of a cancellation, and what
  interleaved creations do to the cap.
\<close>

section \<open>State\<close>

datatype run_state = IDLE | CONFIGURING | LOADING_DATA | SIMULATING | GENERATING_REPORT
  | COMPLETE | FAILED | CANCELLED

record run_status =
  runState :: run_state
  runError :: "string option"

record runs =
  runStatuses :: "(string \<times> run_status) list"
  cancelledRuns :: "string list"
  maxConcurrentRuns :: jsnum

datatype run_error = InvalidTransition run_state run_state | MaxConcurrentReached | StorageFailed

datatype run_effect =
    DbCreate string
  | DbStatus string run_state
  | StateChanged string run_state run_state
  | RunStarted string
  | RunCancelled string
  | RunFailed string int string

fun VALID_TRANSITIONS :: "run_state \<Rightarrow> run_state list" where
  "VALID_TRANSITIONS IDLE = [CONFIGURING]"
| "VALID_TRANSITIONS CONFIGURING = [LOADING_DATA, FAILED]"
| "VALID_TRANSITIONS LOADING_DATA = [SIMULATING, FAILED]"
| "VALID_TRANSITIONS SIMULATING = [GENERATING_REPORT, FAILED]"
| "VALID_TRANSITIONS GENERATING_REPORT = [COMPLETE, FAILED]"
| "VALID_TRANSITIONS COMPLETE = [IDLE]"
| "VALID_TRANSITIONS FAILED = [IDLE]"
| "VALID_TRANSITIONS CANCELLED = [IDLE]"

definition CANCELLABLE_STATES :: "run_state list" where
  "CANCELLABLE_STATES = [CONFIGURING, LOADING_DATA, SIMULATING, GENERATING_REPORT]"

text \<open>The configured limit as \<^verbatim>\<open>Number\<close> reads it (\<open>None\<close>: not set).\<close>

definition runs_init :: "jsnum option \<Rightarrow> runs" where
  "runs_init raw = \<lparr>runStatuses = [], cancelledRuns = [],
     maxConcurrentRuns = (case raw of
        Some (Fin x) \<Rightarrow> if 0 < x then Fin x else Fin 2
      | _ \<Rightarrow> Fin 2)\<rparr>"

section \<open>Operations\<close>

definition validateTransition :: "run_state \<Rightarrow> run_state \<Rightarrow> run_error + unit" where
  "validateTransition from to =
     (if to \<in> set (VALID_TRANSITIONS from) then Inr () else Inl (InvalidTransition from to))"

definition is_active :: "run_status \<Rightarrow> bool" where
  "is_active st \<longleftrightarrow> runState st \<noteq> COMPLETE \<and> runState st \<noteq> FAILED \<and> runState st \<noteq> CANCELLED"

definition getActiveRunCount :: "runs \<Rightarrow> nat" where
  "getActiveRunCount s = length (filter is_active (map snd (runStatuses s)))"

definition current_state :: "string \<Rightarrow> runs \<Rightarrow> run_state" where
  "current_state rid s = (case map_of (runStatuses s) rid of Some st \<Rightarrow> runState st | None \<Rightarrow> IDLE)"

definition isCancelled :: "string \<Rightarrow> runs \<Rightarrow> bool" where
  "isCancelled rid s \<longleftrightarrow> rid \<in> set (cancelledRuns s)"

definition createRun_admits :: "runs \<Rightarrow> bool" where
  "createRun_admits s \<longleftrightarrow> \<not> xge (Fin (of_nat (getActiveRunCount s))) (maxConcurrentRuns s)"

definition createRun_record :: "string \<Rightarrow> runs \<Rightarrow> runs \<times> run_effect list" where
  "createRun_record rid s =
     (s\<lparr>runStatuses := map_set rid \<lparr>runState = CONFIGURING, runError = None\<rparr> (runStatuses s)\<rparr>,
      [DbCreate rid, StateChanged rid IDLE CONFIGURING, RunStarted rid])"

text \<open>\<open>created\<close> is the id of the new row, \<open>None\<close> when the database throws.\<close>

definition createRun :: "string option \<Rightarrow> runs \<Rightarrow> runs \<times> run_effect list \<times> (run_error + string)" where
  "createRun created s =
     (if \<not> createRun_admits s then (s, [], Inl MaxConcurrentReached)
      else case created of
        None \<Rightarrow> (s, [], Inl StorageFailed)
      | Some rid \<Rightarrow> (case createRun_record rid s of (s', effs) \<Rightarrow> (s', effs, Inr rid)))"

definition transitionRun :: "string \<Rightarrow> run_state \<Rightarrow> runs \<Rightarrow> runs \<times> run_effect list \<times> (run_error + unit)" where
  "transitionRun rid to s =
     (let from = current_state rid s in
      case (if to = CANCELLED then Inr () else validateTransition from to) of
        Inl e \<Rightarrow> (s, [], Inl e)
      | Inr _ \<Rightarrow>
          (s\<lparr>runStatuses := map_set rid \<lparr>runState = to, runError = None\<rparr> (runStatuses s)\<rparr>,
           [StateChanged rid from to], Inr ()))"

definition cancelRun :: "string \<Rightarrow> bool \<Rightarrow> runs \<Rightarrow> runs \<times> run_effect list \<times> (run_error + unit)" where
  "cancelRun rid stored s =
     (case map_of (runStatuses s) rid of
        None \<Rightarrow> (s, [], Inr ())
      | Some st \<Rightarrow>
          if runState st \<notin> set CANCELLABLE_STATES then (s, [], Inr ())
          else
            case transitionRun rid CANCELLED (s\<lparr>cancelledRuns := set_add rid (cancelledRuns s)\<rparr>) of
              (s', effs, _) \<Rightarrow>
                if stored then (s', effs @ [DbStatus rid CANCELLED, RunCancelled rid], Inr ())
                else (s', effs, Inl StorageFailed))"

definition failRun :: "string \<Rightarrow> int \<Rightarrow> string \<Rightarrow> bool \<Rightarrow> runs \<Rightarrow> runs \<times> run_effect list" where
  "failRun rid code message stored s =
     (s\<lparr>runStatuses := map_set rid \<lparr>runState = FAILED, runError = Some message\<rparr> (runStatuses s)\<rparr>,
      StateChanged rid (current_state rid s) FAILED
        # (if stored then [DbStatus rid FAILED] else []) @ [RunFailed rid code message])"

definition cleanupRun :: "string \<Rightarrow> runs \<Rightarrow> runs" where
  "cleanupRun rid s = s\<lparr>runStatuses := map_delete rid (runStatuses s),
     cancelledRuns := set_delete rid (cancelledRuns s)\<rparr>"

definition onModuleDestroy :: "runs \<Rightarrow> runs" where
  "onModuleDestroy s = s\<lparr>runStatuses := [], cancelledRuns := []\<rparr>"

record orphan_row =
  orphanId :: string
  orphanState :: run_state
  orphanTimeoutS :: "jsnum option"
  orphanStartedAt :: timestamp

text \<open>The start-up recovery: the unfinished rows that are marked failed.\<close>

definition recover_orphans :: "timestamp \<Rightarrow> orphan_row list \<Rightarrow> run_effect list" where
  "recover_orphans now rows =
     [DbStatus (orphanId r) FAILED. r \<leftarrow> rows,
        orphanState r \<in> set CANCELLABLE_STATES,
        xgt (Fin (of_int (now - orphanStartedAt r)))
          (xmul b64 (xmul b64 (case orphanTimeoutS r of Some t \<Rightarrow> t | None \<Rightarrow> Fin 300) (Fin 2)) (Fin 1000))]"

section \<open>Histories\<close>

text \<open>
  The calls of the engine: the database gives each run it creates a new id, the engine advances a
  run through its four later states and fails one only while it is not cancelled.
\<close>

inductive run_step :: "runs \<Rightarrow> runs \<Rightarrow> bool" where
  create: "map_of (runStatuses s) rid = None \<Longrightarrow> run_step s (fst (createRun (Some rid) s))"
| advance: "to \<in> {LOADING_DATA, SIMULATING, GENERATING_REPORT, COMPLETE} \<Longrightarrow>
    run_step s (fst (transitionRun rid to s))"
| cancel: "run_step s (fst (cancelRun rid stored s))"
| fail: "\<not> isCancelled rid s \<Longrightarrow> run_step s (fst (failRun rid code message stored s))"
| cleanup: "run_step s (cleanupRun rid s)"
| destroy: "run_step s (onModuleDestroy s)"

definition runs_inv :: "runs \<Rightarrow> bool" where
  "runs_inv s \<longleftrightarrow> distinct (map fst (runStatuses s))
     \<and> (\<forall>rid \<in> set (cancelledRuns s). \<exists>st. map_of (runStatuses s) rid = Some st \<and> runState st = CANCELLED)
     \<and> (\<forall>x. maxConcurrentRuns s = Fin x \<longrightarrow> int (getActiveRunCount s) \<le> max 0 \<lceil>x\<rceil>)
     \<and> is_fin (maxConcurrentRuns s)"

text \<open>The active count along the updates of the map.\<close>

lemma active_set:
  "length (filter is_active (map snd (map_set rid st m))) \<le>
     length (filter is_active (map snd m)) + (if is_active st then 1 else 0)"
  by (induction m) auto

lemma active_set_known:
  assumes "map_of m rid = Some st0" "is_active st \<Longrightarrow> is_active st0"
  shows "length (filter is_active (map snd (map_set rid st m))) \<le> length (filter is_active (map snd m))"
  using assms by (induction m) (auto split: if_splits)

lemma active_delete:
  "length (filter is_active (map snd (map_delete rid m))) \<le> length (filter is_active (map snd m))"
  by (induction m) (auto simp: AList.delete_eq)

lemma advance_cases:
  assumes "to \<in> {LOADING_DATA, SIMULATING, GENERATING_REPORT, COMPLETE}"
  obtains (refused) "fst (transitionRun rid to s) = s"
  | (moved) st0 where "map_of (runStatuses s) rid = Some st0" "is_active st0" "runState st0 \<noteq> CANCELLED"
      "fst (transitionRun rid to s) =
         s\<lparr>runStatuses := map_set rid \<lparr>runState = to, runError = None\<rparr> (runStatuses s)\<rparr>"
proof (cases "to \<in> set (VALID_TRANSITIONS (current_state rid s))")
  case False
  then show ?thesis using assms refused by (auto simp: transitionRun_def validateTransition_def Let_def)
next
  case True
  with assms have c: "current_state rid s \<in> {CONFIGURING, LOADING_DATA, SIMULATING, GENERATING_REPORT}"
    by (cases "current_state rid s") auto
  then obtain st0 where "map_of (runStatuses s) rid = Some st0" "runState st0 = current_state rid s"
    by (auto simp: current_state_def split: option.splits)
  moreover from this c have "is_active st0" "runState st0 \<noteq> CANCELLED" by (auto simp: is_active_def)
  moreover have "to \<noteq> CANCELLED" using assms by auto
  ultimately show ?thesis using moved True
    by (simp add: transitionRun_def validateTransition_def Let_def)
qed

lemma cancelRun_state:
  "fst (cancelRun rid stored s) =
     (case map_of (runStatuses s) rid of
        Some st \<Rightarrow> if runState st \<in> set CANCELLABLE_STATES
          then s\<lparr>runStatuses := map_set rid \<lparr>runState = CANCELLED, runError = None\<rparr> (runStatuses s),
                 cancelledRuns := set_add rid (cancelledRuns s)\<rparr>
          else s
      | None \<Rightarrow> s)"
  by (auto simp: cancelRun_def transitionRun_def Let_def split: option.splits)

lemmas run_defs = runs_inv_def getActiveRunCount_def

text \<open>What an update of one run to an inactive or already counted state does to the invariant.\<close>

lemma inv_update_run:
  assumes "runs_inv s" "is_active st \<Longrightarrow> \<exists>st0. map_of (runStatuses s) rid = Some st0 \<and> is_active st0"
    and "rid \<in> set (cancelledRuns s) \<Longrightarrow> runState st = CANCELLED"
    and "set c \<subseteq> set (cancelledRuns s) \<or> set c \<subseteq> insert rid (set (cancelledRuns s)) \<and> runState st = CANCELLED"
  shows "runs_inv (s\<lparr>runStatuses := map_set rid st (runStatuses s), cancelledRuns := c\<rparr>)"
proof -
  have "length (filter is_active (map snd (map_set rid st (runStatuses s))))
    \<le> length (filter is_active (map snd (runStatuses s)))"
  proof (cases "is_active st")
    case True
    then obtain st0 where "map_of (runStatuses s) rid = Some st0" "is_active st0" using assms(2) by blast
    then show ?thesis by (intro active_set_known) simp_all
  next
    case False
    then show ?thesis using active_set [of rid st "runStatuses s"] by simp
  qed
  moreover have "\<exists>st'. map_of (map_set rid st (runStatuses s)) r = Some st' \<and> runState st' = CANCELLED"
    if "r \<in> set c" for r
    using that assms by (cases "r = rid") (auto simp: runs_inv_def update_conv')
  ultimately show ?thesis
    using assms(1) by (fastforce simp: run_defs distinct_map_set)
qed

lemma inv_step: "run_step s s' \<Longrightarrow> runs_inv s \<Longrightarrow> runs_inv s'"
proof (induction rule: run_step.induct)
  case (create s rid)
  obtain x where x: "maxConcurrentRuns s = Fin x" using create(2) by (auto simp: runs_inv_def elim: is_finE)
  show ?case
  proof (cases "createRun_admits s")
    case True
    then have "of_nat (getActiveRunCount s) < x" by (simp add: createRun_admits_def x)
    then have "int (getActiveRunCount s) < \<lceil>x\<rceil>" by (simp add: less_ceiling_iff)
    then have "int (length (filter is_active (map snd (map_set rid \<lparr>runState = CONFIGURING, runError = None\<rparr> (runStatuses s))))) \<le> \<lceil>x\<rceil>"
      using active_set [of rid "\<lparr>runState = CONFIGURING, runError = None\<rparr>" "runStatuses s"]
      by (simp add: getActiveRunCount_def is_active_def)
    moreover have "rid \<notin> set (cancelledRuns s)" using create by (auto simp: runs_inv_def)
    ultimately show ?thesis using create(2) True
      by (auto simp: createRun_def createRun_record_def run_defs distinct_map_set update_conv' x)
  next
    case False
    then show ?thesis using create(2) by (simp add: createRun_def)
  qed
next
  case (advance to s rid)
  from advance(1) show ?case
  proof (cases rule: advance_cases [of to rid s, case_names refused moved])
    case refused
    then show ?thesis using advance(2) by simp
  next
    case (moved st0)
    have "rid \<notin> set (cancelledRuns s)" using moved(1,3) advance(2) by (auto simp: runs_inv_def)
    then show ?thesis
      using inv_update_run [OF advance(2), of "\<lparr>runState = to, runError = None\<rparr>" rid "cancelledRuns s"] moved
      by auto
  qed
next
  case (cancel s rid stored)
  have "runs_inv (s\<lparr>runStatuses := map_set rid \<lparr>runState = CANCELLED, runError = None\<rparr> (runStatuses s),
                 cancelledRuns := set_add rid (cancelledRuns s)\<rparr>)"
    by (rule inv_update_run [OF cancel]) (auto simp: is_active_def)
  then show ?case using cancel by (simp add: cancelRun_state split: option.splits)
next
  case (fail rid s code message stored)
  then show ?case
    using inv_update_run [OF fail(2), of "\<lparr>runState = FAILED, runError = Some message\<rparr>" rid "cancelledRuns s"]
    by (auto simp: failRun_def is_active_def isCancelled_def)
next
  case (cleanup s rid)
  then show ?case using active_delete [of rid "runStatuses s"]
    by (fastforce simp: cleanupRun_def run_defs distinct_map_delete delete_conv')
next
  case (destroy s)
  then show ?case by (auto simp: onModuleDestroy_def run_defs)
qed

lemma inv_init: "runs_inv (runs_init raw)"
  by (cases raw rule: option.exhaust; cases "the raw") (auto simp: runs_init_def run_defs)

lemma inv_reachable: "run_step\<^sup>*\<^sup>* (runs_init raw) s \<Longrightarrow> runs_inv s"
  by (induction rule: rtranclp_induct) (auto intro: inv_init inv_step)

section \<open>Properties\<close>

text \<open>
  as long as each creation completes before the next call, no history of the engine's calls
  has more active runs than the configured maximum (rounded up).
\<close>
theorem active_runs_capped:
  assumes "run_step\<^sup>*\<^sup>* (runs_init raw) s" "maxConcurrentRuns s = Fin x"
  shows "int (getActiveRunCount s) \<le> max 0 \<lceil>x\<rceil>"
  using inv_reachable [OF assms(1)] assms(2) by (simp add: runs_inv_def)

theorem active_runs_capped_witness:
  "int (getActiveRunCount (fst (createRun (Some ''r'') (runs_init (Some (Fin 1)))))) \<le> 1"
proof -
  have step: "run_step (runs_init (Some (Fin 1))) (fst (createRun (Some ''r'') (runs_init (Some (Fin 1)))))"
    by (rule run_step.create) (simp add: runs_init_def)
  have "maxConcurrentRuns (fst (createRun (Some ''r'') (runs_init (Some (Fin 1))))) = Fin 1"
    by (simp add: runs_init_def createRun_def createRun_record_def)
  from active_runs_capped [OF r_into_rtranclp [where r = run_step, OF step] this] show ?thesis by simp
qed

text \<open>
  a cancelled run is final: while it is tracked it stays cancelled and inactive, every further
  advance is refused and changes nothing, and cancelling it again has no effect.
\<close>
theorem cancellation_is_final:
  assumes "run_step\<^sup>*\<^sup>* (runs_init raw) s" "isCancelled rid s"
    and "to \<in> {LOADING_DATA, SIMULATING, GENERATING_REPORT, COMPLETE}"
  shows "current_state rid s = CANCELLED
    \<and> transitionRun rid to s = (s, [], Inl (InvalidTransition CANCELLED to))
    \<and> cancelRun rid stored s = (s, [], Inr ())"
proof -
  obtain st where st: "map_of (runStatuses s) rid = Some st" "runState st = CANCELLED"
    using inv_reachable [OF assms(1)] assms(2) by (auto simp: runs_inv_def isCancelled_def)
  then have "current_state rid s = CANCELLED" by (simp add: current_state_def)
  then show ?thesis using assms(3) st
    by (auto simp: transitionRun_def validateTransition_def cancelRun_def CANCELLABLE_STATES_def Let_def)
qed

theorem cancellation_is_final_witness:
  "transitionRun ''r'' COMPLETE (fst (cancelRun ''r'' True (fst (createRun (Some ''r'') (runs_init None)))))
     = (fst (cancelRun ''r'' True (fst (createRun (Some ''r'') (runs_init None)))), [], Inl (InvalidTransition CANCELLED COMPLETE))"
  (is "transitionRun _ _ ?s = _")
proof -
  let ?c = "fst (createRun (Some ''r'') (runs_init None))"
  have "run_step (runs_init None) ?c" by (rule run_step.create) (simp add: runs_init_def)
  moreover have "run_step ?c ?s" by (rule run_step.cancel)
  ultimately have "run_step\<^sup>*\<^sup>* (runs_init None) ?s" by (rule converse_rtranclp_into_rtranclp [OF _ r_into_rtranclp])
  moreover have "isCancelled ''r'' ?s"
    by (simp add: isCancelled_def cancelRun_state createRun_def createRun_admits_def createRun_record_def runs_init_def
        getActiveRunCount_def CANCELLABLE_STATES_def)
  ultimately show ?thesis using cancellation_is_final [where rid = "''r''" and to = COMPLETE] by blast
qed

text \<open>
  two creations that both check before either records its run exceed the maximum: with a limit
  of one, both are admitted and two runs are active.
\<close>
theorem concurrent_creations_exceed_cap:
  "let s0 = runs_init (Some (Fin 1));
       s1 = fst (createRun_record ''a'' s0);
       s2 = fst (createRun_record ''b'' s1)
   in createRun_admits s0 \<and> maxConcurrentRuns s2 = Fin 1 \<and> getActiveRunCount s2 = 2"
  by (simp add: runs_init_def createRun_admits_def createRun_record_def getActiveRunCount_def is_active_def Let_def)

end
