(* ===== verification/DataQuality.thy ===== *)
theory DataQuality
  imports Financial
begin

text \<open>
  Two services that judge incoming market data.  \<^verbatim>\<open>DegradationProtocolService\<close>: a platform
  whose feed fails is degraded until it recovers, and meanwhile the edge thresholds on the other
  one are widened.  \<^verbatim>\<open>DataDivergenceService\<close>: the polled and the streamed book of a contract
  are compared at every update.  The clock is an argument.  Both are runs of operations over their
  state; the lemmas are invariants of every such run.
\<close>

section \<open>Degradation protocol\<close>

record degradation_state =
  degradedAt :: timestamp
  degradationReason :: string
  pollingCycleCount :: nat

record degradation =
  degradedPlatforms :: "(platform \<times> degradation_state) list"
  thresholdMultiplier :: jsnum

datatype degradation_event =
    Activated platform string "timestamp option" timestamp "platform list"
  | Deactivated platform int timestamp nat string

definition allPlatforms :: "platform list" where
  "allPlatforms = [Kalshi, Polymarket]"

definition isDegraded :: "platform \<Rightarrow> degradation \<Rightarrow> bool" where
  "isDegraded p s \<longleftrightarrow> map_of (degradedPlatforms s) p \<noteq> None"

definition getDegradationState :: "platform \<Rightarrow> degradation \<Rightarrow> degradation_state option" where
  "getDegradationState p s = map_of (degradedPlatforms s) p"

definition activateProtocol ::
  "platform \<Rightarrow> string \<Rightarrow> timestamp option \<Rightarrow> timestamp \<Rightarrow> degradation \<Rightarrow> degradation \<times> degradation_event list" where
  "activateProtocol p reason lastData now s =
     (if isDegraded p s then (s, [])
      else
        let s' = s\<lparr>degradedPlatforms := map_set p
              \<lparr>degradedAt = now, degradationReason = reason, pollingCycleCount = 0\<rparr> (degradedPlatforms s)\<rparr>;
            healthy = filter (\<lambda>q. \<not> isDegraded q s') allPlatforms
        in (s', [Activated p reason lastData now healthy]))"

definition deactivateProtocol :: "platform \<Rightarrow> timestamp \<Rightarrow> degradation \<Rightarrow> degradation \<times> degradation_event list" where
  "deactivateProtocol p now s =
     (case map_of (degradedPlatforms s) p of
        None \<Rightarrow> (s, [])
      | Some st \<Rightarrow>
          (s\<lparr>degradedPlatforms := map_delete p (degradedPlatforms s)\<rparr>,
           [Deactivated p (now - degradedAt st) now (pollingCycleCount st) (degradationReason st)]))"

definition getEdgeThresholdMultiplier :: "platform \<Rightarrow> degradation \<Rightarrow> jsnum" where
  "getEdgeThresholdMultiplier p s =
     (if isDegraded p s then Fin 1
      else if 0 < length (degradedPlatforms s) then thresholdMultiplier s
      else Fin 1)"

definition incrementPollingCycle :: "platform \<Rightarrow> degradation \<Rightarrow> degradation" where
  "incrementPollingCycle p s =
     (case map_of (degradedPlatforms s) p of
        Some st \<Rightarrow> s\<lparr>degradedPlatforms := map_set p (st\<lparr>pollingCycleCount := pollingCycleCount st + 1\<rparr>) (degradedPlatforms s)\<rparr>
      | None \<Rightarrow> s)"

text \<open>A history of calls and the events they announce.\<close>

datatype degradation_op =
    ActivateOp platform string "timestamp option" timestamp
  | DeactivateOp platform timestamp
  | PollOp platform

fun degradation_op_step :: "degradation_op \<Rightarrow> degradation \<Rightarrow> degradation \<times> degradation_event list" where
  "degradation_op_step (ActivateOp p r d t) s = activateProtocol p r d t s"
| "degradation_op_step (DeactivateOp p t) s = deactivateProtocol p t s"
| "degradation_op_step (PollOp p) s = (incrementPollingCycle p s, [])"

fun degradation_run :: "degradation_op list \<Rightarrow> degradation \<Rightarrow> degradation \<times> degradation_event list" where
  "degradation_run [] s = (s, [])"
| "degradation_run (x # xs) s =
     (case degradation_op_step x s of (s1, e1) \<Rightarrow>
        case degradation_run xs s1 of (s2, e2) \<Rightarrow> (s2, e1 @ e2))"

definition degradation_init :: "jsnum \<Rightarrow> degradation" where
  "degradation_init k = \<lparr>degradedPlatforms = [], thresholdMultiplier = k\<rparr>"

definition distinct_degraded :: "degradation \<Rightarrow> bool" where
  "distinct_degraded s \<longleftrightarrow> distinct (map fst (degradedPlatforms s))"

fun event_platform :: "degradation_event \<Rightarrow> platform" where
  "event_platform (Activated p _ _ _ _) = p"
| "event_platform (Deactivated p _ _ _ _) = p"

fun is_activation :: "degradation_event \<Rightarrow> bool" where
  "is_activation (Activated _ _ _ _ _) \<longleftrightarrow> True"
| "is_activation (Deactivated _ _ _ _ _) \<longleftrightarrow> False"

text \<open>The kinds of the events of one platform, in order: they alternate, starting with \<open>b\<close>.\<close>

fun alternates :: "bool \<Rightarrow> bool list \<Rightarrow> bool" where
  "alternates b [] \<longleftrightarrow> True"
| "alternates b (x # xs) \<longleftrightarrow> x = b \<and> alternates (\<not> b) xs"

definition kinds_of :: "platform \<Rightarrow> degradation_event list \<Rightarrow> bool list" where
  "kinds_of p evs = map is_activation (filter (\<lambda>e. event_platform e = p) evs)"

lemma kinds_of_append: "kinds_of p (xs @ ys) = kinds_of p xs @ kinds_of p ys"
  by (simp add: kinds_of_def)

lemma map_of_delete: "map_of (map_delete k m) x = (if x = k then None else map_of m x)"
  by (simp add: delete_conv')

lemma map_of_set: "map_of (map_set k v m) x = (if x = k then Some v else map_of m x)"
  by (simp add: update_conv')

lemmas degradation_defs = isDegraded_def activateProtocol_def deactivateProtocol_def
  incrementPollingCycle_def distinct_degraded_def Let_def

lemma degradation_step_effect:
  assumes "degradation_op_step x s = (s', evs)"
  shows "kinds_of p evs = (if isDegraded p s' = isDegraded p s then [] else [isDegraded p s'])"
    and "thresholdMultiplier s' = thresholdMultiplier s"
    and "distinct_degraded s \<Longrightarrow> distinct_degraded s'"
  using assms
  by (cases x; auto simp: degradation_defs kinds_of_def map_of_set map_of_delete
        distinct_map_set distinct_map_delete split: if_splits option.splits)+

lemma alternates_step: "alternates (\<not> y) xs \<Longrightarrow> alternates (\<not> x) ((if y = x then [] else [y]) @ xs)"
  by auto

text \<open>
  in any history of a freshly started service the activations and deactivations announced for
  a platform alternate, starting with an activation, and the platform is degraded exactly when the
  last of them is an activation.
\<close>
theorem degradation_events_alternate:
  "case degradation_run ops (degradation_init k) of (s, evs) \<Rightarrow>
     alternates True (kinds_of p evs)
     \<and> isDegraded p s = (kinds_of p evs \<noteq> [] \<and> last (kinds_of p evs))"
proof -
  have "case degradation_run ops s0 of (s, evs) \<Rightarrow>
     alternates (\<not> isDegraded p s0) (kinds_of p evs)
     \<and> isDegraded p s = (if kinds_of p evs = [] then isDegraded p s0 else last (kinds_of p evs))" for s0
  proof (induction ops arbitrary: s0)
    case (Cons x ops)
    obtain s1 e1 where s1: "degradation_op_step x s0 = (s1, e1)" by fastforce
    obtain s2 e2 where s2: "degradation_run ops s1 = (s2, e2)" by fastforce
    show ?case using Cons.IH [of s1] degradation_step_effect(1) [OF s1, of p]
      by (auto simp: s1 s2 kinds_of_append)
  qed (simp add: kinds_of_def)
  from this [of "degradation_init k"] show ?thesis
    by (simp add: split_beta isDegraded_def degradation_init_def)
qed

text \<open>
  after any history the threshold of a platform is widened exactly while that platform is
  healthy and the other one is degraded.
\<close>
theorem threshold_widened_iff_other_degraded:
  "case degradation_run ops (degradation_init k) of (s, _) \<Rightarrow>
     getEdgeThresholdMultiplier p s =
       (if \<not> isDegraded p s \<and> isDegraded (other_platform p) s then k else Fin 1)"
proof -
  have keep: "thresholdMultiplier (fst (degradation_run ops s)) = thresholdMultiplier s" for s
  proof (induction ops arbitrary: s)
    case (Cons x ops)
    obtain s1 e1 where s1: "degradation_op_step x s = (s1, e1)" by fastforce
    then show ?case using Cons.IH [of s1] degradation_step_effect(2) [OF s1] by (simp add: split_beta)
  qed simp
  have "0 < length (degradedPlatforms s) \<longleftrightarrow> isDegraded p s \<or> isDegraded (other_platform p) s" for s
  proof -
    have "degradedPlatforms s \<noteq> [] \<longleftrightarrow> (\<exists>q. isDegraded q s)"
      by (cases "degradedPlatforms s") (auto simp: isDegraded_def split: if_splits)
    moreover have "q = p \<or> q = other_platform p" for q by (cases p; cases q) auto
    ultimately show ?thesis by (metis length_greater_0_conv)
  qed
  then show ?thesis using keep [of "degradation_init k"]
    by (auto simp: getEdgeThresholdMultiplier_def degradation_init_def split_beta)
qed

section \<open>Polled against streamed data\<close>

record snapshot_data =
  snapBid :: decimal
  snapAsk :: decimal
  snapTime :: timestamp

record divergence =
  lastPollSnapshot :: "(string \<times> snapshot_data) list"
  lastWsSnapshot :: "(string \<times> snapshot_data) list"
  divergentContracts :: "string list"
  priceThreshold :: decimal
  stalenessThresholdMs :: jsnum

datatype divergence_event = DataDivergence platform string snapshot_data snapshot_data decimal jsnum

definition data_key :: "platform \<Rightarrow> string \<Rightarrow> string" where
  "data_key p c = platform_id p @ '':'' @ c"

definition price_delta :: "(rat \<Rightarrow> rat) \<Rightarrow> snapshot_data \<Rightarrow> snapshot_data \<Rightarrow> decimal" where
  "price_delta rd poll ws =
     xmax (xabs (xsub rd (snapBid poll) (snapBid ws))) (xabs (xsub rd (snapAsk poll) (snapAsk ws)))"

definition staleness_delta :: "snapshot_data \<Rightarrow> snapshot_data \<Rightarrow> jsnum" where
  "staleness_delta poll ws = Fin (of_int \<bar>snapTime poll - snapTime ws\<bar>)"

definition is_divergent :: "(rat \<Rightarrow> rat) \<Rightarrow> divergence \<Rightarrow> snapshot_data \<Rightarrow> snapshot_data \<Rightarrow> bool" where
  "is_divergent rd s poll ws \<longleftrightarrow>
     xgt (price_delta rd poll ws) (priceThreshold s) \<or> xgt (staleness_delta poll ws) (stalenessThresholdMs s)"

definition checkDivergence ::
  "(rat \<Rightarrow> rat) \<Rightarrow> platform \<Rightarrow> string \<Rightarrow> divergence \<Rightarrow> divergence \<times> divergence_event list" where
  "checkDivergence rd p c s =
     (let key = data_key p c in
      case (map_of (lastPollSnapshot s) key, map_of (lastWsSnapshot s) key) of
        (Some poll, Some ws) \<Rightarrow>
          let isDiv = is_divergent rd s poll ws; wasDiv = key \<in> set (divergentContracts s) in
          if isDiv \<and> \<not> wasDiv then
            (s\<lparr>divergentContracts := set_add key (divergentContracts s)\<rparr>,
             [DataDivergence p c poll ws (price_delta rd poll ws) (staleness_delta poll ws)])
          else if \<not> isDiv \<and> wasDiv then
            (s\<lparr>divergentContracts := set_delete key (divergentContracts s)\<rparr>, [])
          else (s, [])
      | _ \<Rightarrow> (s, []))"

definition book_snapshot :: "order_book \<Rightarrow> timestamp \<Rightarrow> snapshot_data" where
  "book_snapshot book t = \<lparr>snapBid = to_decimal (price (hd (bids book))),
     snapAsk = to_decimal (price (hd (asks book))), snapTime = t\<rparr>"

definition recordPollData ::
  "(rat \<Rightarrow> rat) \<Rightarrow> platform \<Rightarrow> string \<Rightarrow> order_book \<Rightarrow> timestamp \<Rightarrow> divergence \<Rightarrow> divergence \<times> divergence_event list" where
  "recordPollData rd p c book t s =
     (if bids book = [] \<or> asks book = [] then (s, [])
      else checkDivergence rd p c
        (s\<lparr>lastPollSnapshot := map_set (data_key p c) (book_snapshot book t) (lastPollSnapshot s)\<rparr>))"

definition recordWsData ::
  "(rat \<Rightarrow> rat) \<Rightarrow> platform \<Rightarrow> string \<Rightarrow> order_book \<Rightarrow> timestamp \<Rightarrow> divergence \<Rightarrow> divergence \<times> divergence_event list" where
  "recordWsData rd p c book t s =
     (if bids book = [] \<or> asks book = [] then (s, [])
      else checkDivergence rd p c
        (s\<lparr>lastWsSnapshot := map_set (data_key p c) (book_snapshot book t) (lastWsSnapshot s)\<rparr>))"

definition clearContractData :: "platform \<Rightarrow> string \<Rightarrow> divergence \<Rightarrow> divergence" where
  "clearContractData p c s =
     s\<lparr>lastPollSnapshot := map_delete (data_key p c) (lastPollSnapshot s),
       lastWsSnapshot := map_delete (data_key p c) (lastWsSnapshot s),
       divergentContracts := set_delete (data_key p c) (divergentContracts s)\<rparr>"

datatype divergence_status = NormalData | DivergentData

definition starts_with :: "string \<Rightarrow> string \<Rightarrow> bool" where
  "starts_with pre s \<longleftrightarrow> take (length pre) s = pre"

definition getDivergenceStatus :: "platform \<Rightarrow> divergence \<Rightarrow> divergence_status" where
  "getDivergenceStatus p s =
     (if list_ex (starts_with (platform_id p @ '':'')) (divergentContracts s) then DivergentData else NormalData)"

definition divergence_init :: "decimal \<Rightarrow> jsnum \<Rightarrow> divergence" where
  "divergence_init pt st = \<lparr>lastPollSnapshot = [], lastWsSnapshot = [], divergentContracts = [],
     priceThreshold = pt, stalenessThresholdMs = st\<rparr>"

inductive divergence_reachable :: "(rat \<Rightarrow> rat) \<Rightarrow> divergence \<Rightarrow> bool" for rd where
  start: "divergence_reachable rd (divergence_init pt st)"
| poll: "divergence_reachable rd s \<Longrightarrow> divergence_reachable rd (fst (recordPollData rd p c book t s))"
| ws: "divergence_reachable rd s \<Longrightarrow> divergence_reachable rd (fst (recordWsData rd p c book t s))"
| clear: "divergence_reachable rd s \<Longrightarrow> divergence_reachable rd (clearContractData p c s)"

definition contract_diverges :: "(rat \<Rightarrow> rat) \<Rightarrow> divergence \<Rightarrow> string \<Rightarrow> bool" where
  "contract_diverges rd s key \<longleftrightarrow>
     (case (map_of (lastPollSnapshot s) key, map_of (lastWsSnapshot s) key) of
        (Some poll, Some ws) \<Rightarrow> is_divergent rd s poll ws
      | _ \<Rightarrow> False)"

text \<open>
  The invariant: the flagged keys are those of contracts, and flagged or not as their latest two
  snapshots say; one key may be excepted, the one about to be checked.
\<close>

definition flags_right :: "(rat \<Rightarrow> rat) \<Rightarrow> string set \<Rightarrow> divergence \<Rightarrow> bool" where
  "flags_right rd except s \<longleftrightarrow>
     (\<forall>key. key \<notin> except \<longrightarrow> (key \<in> set (divergentContracts s) \<longleftrightarrow> contract_diverges rd s key))
     \<and> (\<forall>key \<in> except. map_of (lastPollSnapshot s) key = None \<or> map_of (lastWsSnapshot s) key = None
          \<longrightarrow> key \<notin> set (divergentContracts s))
     \<and> (\<forall>key \<in> set (divergentContracts s). \<exists>p c. key = data_key p c)"

lemma diverges_frame [simp]: "contract_diverges rd (s\<lparr>divergentContracts := d\<rparr>) key = contract_diverges rd s key"
  by (simp add: contract_diverges_def is_divergent_def split: option.splits)

definition comparable :: "divergence \<Rightarrow> string \<Rightarrow> bool" where
  "comparable s key \<longleftrightarrow> map_of (lastPollSnapshot s) key \<noteq> None \<and> map_of (lastWsSnapshot s) key \<noteq> None"

lemma comparable_frame [simp]: "comparable (s\<lparr>divergentContracts := d\<rparr>) key = comparable s key"
  by (simp add: comparable_def)

lemma diverges_comparable: "contract_diverges rd s key \<Longrightarrow> comparable s key"
  by (auto simp: contract_diverges_def comparable_def split: option.splits)

text \<open>The check in terms of what it compares.\<close>

lemma check_effect:
  obtains d where "fst (checkDivergence rd p c s) = s\<lparr>divergentContracts := d\<rparr>"
    "set d = (if contract_diverges rd s (data_key p c) then insert (data_key p c) (set (divergentContracts s))
              else if comparable s (data_key p c) then set (divergentContracts s) - {data_key p c}
              else set (divergentContracts s))"
    "snd (checkDivergence rd p c s) \<noteq> [] \<longleftrightarrow>
       contract_diverges rd s (data_key p c) \<and> data_key p c \<notin> set (divergentContracts s)"
    "length (snd (checkDivergence rd p c s)) \<le> 1"
proof (cases "comparable s (data_key p c)")
  case False
  then have "checkDivergence rd p c s = (s, [])"
    by (auto simp: checkDivergence_def comparable_def Let_def split: option.splits)
  moreover have "\<not> contract_diverges rd s (data_key p c)" using False diverges_comparable by blast
  ultimately show ?thesis using False that [of "divergentContracts s"] by simp
next
  case True
  then obtain q w where qw: "map_of (lastPollSnapshot s) (data_key p c) = Some q"
    "map_of (lastWsSnapshot s) (data_key p c) = Some w" by (auto simp: comparable_def)
  then have d: "contract_diverges rd s (data_key p c) = is_divergent rd s q w" by (simp add: contract_diverges_def)
  show ?thesis
  proof (cases "is_divergent rd s q w = (data_key p c \<in> set (divergentContracts s))")
    case eq: True
    then have "checkDivergence rd p c s = (s, [])" by (simp add: checkDivergence_def qw Let_def)
    then show ?thesis using eq True d that [of "divergentContracts s"]
      by (cases "data_key p c \<in> set (divergentContracts s)") (simp_all add: insert_absorb)
  next
    case False
    then show ?thesis using True d that
      by (cases "is_divergent rd s q w") (simp_all add: checkDivergence_def qw Let_def)
  qed
qed

lemma check_flags:
  assumes "flags_right rd {data_key p c} s"
  shows "flags_right rd {} (fst (checkDivergence rd p c s))"
proof -
  obtain d where d: "fst (checkDivergence rd p c s) = s\<lparr>divergentContracts := d\<rparr>"
    "set d = (if contract_diverges rd s (data_key p c) then insert (data_key p c) (set (divergentContracts s))
              else if comparable s (data_key p c) then set (divergentContracts s) - {data_key p c}
              else set (divergentContracts s))"
    by (rule check_effect)
  have "key \<in> set d \<longleftrightarrow> contract_diverges rd s key" for key
    using assms diverges_comparable [of rd s key]
    by (cases "key = data_key p c") (auto simp: d(2) flags_right_def comparable_def)
  moreover have "\<exists>p c. key = data_key p c" if "key \<in> set d" for key
    using that assms by (auto simp: d(2) flags_right_def split: if_splits)
  ultimately show ?thesis by (simp add: flags_right_def d(1))
qed

lemma record_flags:
  assumes "flags_right rd {} s"
  shows "flags_right rd {k} (s\<lparr>lastPollSnapshot := map_set k v (lastPollSnapshot s)\<rparr>)"
    and "flags_right rd {k} (s\<lparr>lastWsSnapshot := map_set k v (lastWsSnapshot s)\<rparr>)"
  using assms
  by (auto simp: flags_right_def contract_diverges_def is_divergent_def map_of_set split: option.splits)

lemma reachable_flags: "divergence_reachable rd s \<Longrightarrow> flags_right rd {} s"
proof (induction rule: divergence_reachable.induct)
  case (start pt st)
  show ?case by (simp add: flags_right_def contract_diverges_def divergence_init_def)
next
  case (poll s p c book t)
  then show ?case by (auto simp: recordPollData_def intro!: check_flags record_flags)
next
  case (ws s p c book t)
  then show ?case by (auto simp: recordWsData_def intro!: check_flags record_flags)
next
  case (clear s p c)
  then show ?case
    by (auto simp: flags_right_def clearContractData_def contract_diverges_def is_divergent_def map_of_delete
        split: option.splits)
qed

lemma starts_with_key: "starts_with (platform_id p @ '':'') (data_key q c) \<longleftrightarrow> p = q"
  by (cases p; cases q) (simp_all add: starts_with_def data_key_def)

lemma data_key_inj [simp]: "data_key p c = data_key q d \<longleftrightarrow> p = q \<and> c = d"
  by (cases p; cases q) (auto simp: data_key_def)

text \<open>
  in every reachable state a platform counts as divergent exactly while the latest polled and
  the latest streamed snapshot of one of its contracts differ beyond a threshold.
\<close>
theorem divergence_status_reflects_snapshots:
  assumes "divergence_reachable rd s"
  shows "getDivergenceStatus p s = DivergentData \<longleftrightarrow> (\<exists>c. contract_diverges rd s (data_key p c))"
proof -
  have f: "key \<in> set (divergentContracts s) \<longleftrightarrow> contract_diverges rd s key"
    "key \<in> set (divergentContracts s) \<Longrightarrow> \<exists>p c. key = data_key p c" for key
    using reachable_flags [OF assms] by (auto simp: flags_right_def)
  have "(\<exists>key \<in> set (divergentContracts s). starts_with (platform_id p @ '':'') key)
    \<longleftrightarrow> (\<exists>c. data_key p c \<in> set (divergentContracts s))"
    using f(2) starts_with_key by metis
  then show ?thesis by (simp add: getDivergenceStatus_def list_ex_iff f(1))
qed

definition sample_top :: "rat \<Rightarrow> rat \<Rightarrow> order_book" where
  "sample_top b a = \<lparr>bids = [\<lparr>price = Fin b, quantity = Fin 1\<rparr>], asks = [\<lparr>price = Fin a, quantity = Fin 1\<rparr>]\<rparr>"

theorem divergence_status_reflects_snapshots_witness:
  "getDivergenceStatus Kalshi (fst (recordWsData dec20 Kalshi ''K'' (sample_top 0 1) 100000
     (fst (recordPollData dec20 Kalshi ''K'' (sample_top 0 1) 0 (divergence_init (Fin 1) (Fin 90000)))))) = DivergentData"
  (is "getDivergenceStatus Kalshi ?s = _")
proof -
  have "divergence_reachable dec20 ?s" by (intro divergence_reachable.intros)
  moreover have "contract_diverges dec20 ?s (data_key Kalshi ''K'')"
    by (simp add: contract_diverges_def recordWsData_def recordPollData_def checkDivergence_def Let_def
        divergence_init_def sample_top_def book_snapshot_def is_divergent_def staleness_delta_def set_add_def)
  ultimately show ?thesis using divergence_status_reflects_snapshots [where p = Kalshi] by blast
qed

text \<open>
  a divergence is announced exactly when an update turns a contract from agreeing (or not yet
  comparable) to diverging, once.
\<close>
theorem divergence_announced_on_transition:
  assumes "divergence_reachable rd s"
    and "recordPollData rd p c book t s = (s', evs) \<or> recordWsData rd p c book t s = (s', evs)"
  shows "(evs \<noteq> [] \<longleftrightarrow> \<not> contract_diverges rd s (data_key p c) \<and> contract_diverges rd s' (data_key p c))
    \<and> length evs \<le> 1"
proof -
  have flag: "data_key p c \<in> set (divergentContracts s) \<longleftrightarrow> contract_diverges rd s (data_key p c)"
    using reachable_flags [OF assms(1)] by (auto simp: flags_right_def)
  show ?thesis
  proof (cases "bids book = [] \<or> asks book = []")
    case True
    then show ?thesis using assms(2) by (auto simp: recordPollData_def recordWsData_def)
  next
    case False
    then obtain u where u: "checkDivergence rd p c u = (s', evs)" "divergentContracts u = divergentContracts s"
      using assms(2) by (auto simp: recordPollData_def recordWsData_def)
    obtain d where "fst (checkDivergence rd p c u) = u\<lparr>divergentContracts := d\<rparr>"
      "snd (checkDivergence rd p c u) \<noteq> [] \<longleftrightarrow>
         contract_diverges rd u (data_key p c) \<and> data_key p c \<notin> set (divergentContracts u)"
      "length (snd (checkDivergence rd p c u)) \<le> 1"
      by (rule check_effect)
    then show ?thesis using flag by (simp add: u) blast
  qed
qed

theorem divergence_announced_on_transition_witness:
  "length (snd (recordPollData dec20 Kalshi ''K'' (sample_top 0 1) 0 (divergence_init (Fin 1) (Fin 90000)))) \<le> 1"
proof -
  obtain s' evs where r: "recordPollData dec20 Kalshi ''K'' (sample_top 0 1) 0 (divergence_init (Fin 1) (Fin 90000)) = (s', evs)"
    by fastforce
  have "recordPollData dec20 Kalshi ''K'' (sample_top 0 1) 0 (divergence_init (Fin 1) (Fin 90000)) = (s', evs)
    \<or> recordWsData dec20 Kalshi ''K'' (sample_top 0 1) 0 (divergence_init (Fin 1) (Fin 90000)) = (s', evs)"
    using r by blast
  from divergence_announced_on_transition [OF divergence_reachable.start this] show ?thesis by (simp add: r)
qed

end
