(* ===== verification/DepthGate.thy ===== *)
theory DepthGate
  imports DataQuality
begin

text \<open>
  \<^verbatim>\<open>DepthAnalysisService\<close>: how much of a book can be taken at a price or better, and the
  gate that asks both platforms before either leg is submitted.  The order book query is an
  argument: the book, or the name and message of the error it throws.  The lemmas show that the
  depth counts exactly the acceptable levels, that the configured ratio stays in its range, and
  that the gate fails closed.
\<close>

datatype order_side = Buy | Sell

fun opposite :: "order_side \<Rightarrow> order_side" where
  "opposite Buy = Sell"
| "opposite Sell = Buy"

lemma opposite_opposite [simp]: "opposite (opposite s) = s"
  by (cases s) simp_all

type_synonym book_answer = "(string \<times> string) + order_book"

record depth_failure =
  dfPlatform :: platform
  dfContract :: string
  dfSide :: order_side
  dfErrorType :: string
  dfErrorMessage :: string

section \<open>The configured ratio\<close>

definition ratio_ok :: "jsnum \<Rightarrow> bool" where
  "ratio_ok v \<longleftrightarrow> \<not> is_nan v \<and> xgt v (Fin 0) \<and> xle v (Fin 1)"

text \<open>The constructor refuses a ratio (\<open>None\<close>) that a reload would ignore.\<close>

definition initial_ratio :: "jsnum \<Rightarrow> jsnum option" where
  "initial_ratio v = (if is_nan v \<or> xle v (Fin 0) \<or> xgt v (Fin 1) then None else Some v)"

definition reload_ratio :: "jsnum option \<Rightarrow> jsnum \<Rightarrow> jsnum" where
  "reload_ratio setting old = (case setting of Some v \<Rightarrow> if ratio_ok v then v else old | None \<Rightarrow> old)"

section \<open>Depth\<close>

definition price_ok :: "order_side \<Rightarrow> jsnum \<Rightarrow> price_level \<Rightarrow> bool" where
  "price_ok side targetPrice level \<longleftrightarrow>
     (if side = Buy then xle (price level) targetPrice else xge (price level) targetPrice)"

definition book_levels :: "order_side \<Rightarrow> order_book \<Rightarrow> price_level list" where
  "book_levels side book = (if side = Buy then asks book else bids book)"

definition depth_at :: "(rat \<Rightarrow> rat) \<Rightarrow> order_side \<Rightarrow> jsnum \<Rightarrow> price_level list \<Rightarrow> decimal" where
  "depth_at rd side targetPrice levels =
     foldl (\<lambda>acc level. if price_ok side targetPrice level then xadd rd acc (to_decimal (quantity level)) else acc)
       (Fin 0) levels"

definition getAvailableDepth ::
  "(rat \<Rightarrow> rat) \<Rightarrow> book_answer \<Rightarrow> string \<Rightarrow> order_side \<Rightarrow> jsnum \<Rightarrow> platform \<Rightarrow> jsnum \<times> depth_failure list" where
  "getAvailableDepth rd answer contract side targetPrice p =
     (case answer of
        Inr book \<Rightarrow> (to_number (depth_at rd side targetPrice (book_levels side book)), [])
      | Inl (kind, msg) \<Rightarrow> (Fin 0, [\<lparr>dfPlatform = p, dfContract = contract, dfSide = side,
          dfErrorType = kind, dfErrorMessage = msg\<rparr>]))"

datatype data_source = WebSocket | Polling | StaleFallback

definition classifyDataSource :: "timestamp option \<Rightarrow> timestamp \<Rightarrow> jsnum \<Rightarrow> data_source" where
  "classifyDataSource lastWs now stalenessThreshold =
     (case lastWs of
        None \<Rightarrow> Polling
      | Some t \<Rightarrow> if xge (Fin (of_int (now - t))) stalenessThreshold then StaleFallback else WebSocket)"

section \<open>The gate\<close>

record leg_query =
  lqContract :: string
  lqSide :: order_side
  lqPrice :: jsnum
  lqPlatform :: platform

record dual_leg_result =
  gatePassed :: bool
  primaryDepth :: jsnum
  secondaryDepth :: jsnum
  minDepthRequired :: jsnum

definition js_ceil :: "jsnum \<Rightarrow> jsnum" where
  "js_ceil x = xmap (\<lambda>q. of_int \<lceil>q\<rceil>) x"

definition validateDualLegDepth ::
  "(rat \<Rightarrow> rat) \<Rightarrow> jsnum \<Rightarrow> leg_query \<Rightarrow> leg_query \<Rightarrow> (platform \<Rightarrow> book_answer) \<Rightarrow> jsnum
     \<Rightarrow> dual_leg_result \<times> depth_failure list" where
  "validateDualLegDepth rd minRatio primary secondary books idealCount =
     (let (pd, e1) = getAvailableDepth rd (books (lqPlatform primary)) (lqContract primary) (lqSide primary)
            (lqPrice primary) (lqPlatform primary);
          (sd, e2) = getAvailableDepth rd (books (lqPlatform secondary)) (lqContract secondary) (lqSide secondary)
            (lqPrice secondary) (lqPlatform secondary);
          required = js_ceil (xmul b64 idealCount minRatio)
      in (\<lparr>gatePassed = (\<not> (xlt pd required \<or> xlt sd required)), primaryDepth = pd, secondaryDepth = sd,
           minDepthRequired = required\<rparr>, e1 @ e2))"

record divergence_report =
  kalshiDivergence :: divergence_status
  polymarketDivergence :: divergence_status
  divergenceDetected :: bool

definition getDivergenceReport :: "divergence \<Rightarrow> divergence_report" where
  "getDivergenceReport s =
     (let k = getDivergenceStatus Kalshi s; p = getDivergenceStatus Polymarket s
      in \<lparr>kalshiDivergence = k, polymarketDivergence = p,
          divergenceDetected = (k = DivergentData \<or> p = DivergentData)\<rparr>)"

section \<open>Facts\<close>

lemma js_ceil_Fin [simp]: "js_ceil (Fin x) = Fin (of_int \<lceil>x\<rceil>)"
  by (simp add: js_ceil_def)

lemma ratio_okE:
  assumes "ratio_ok v"
  obtains r where "v = Fin r" "0 < r" "r \<le> 1"
  using assms by (cases v) (auto simp: ratio_ok_def)

lemma ratio_kept:
  "initial_ratio v = Some w \<Longrightarrow> ratio_ok w"
  "ratio_ok old \<Longrightarrow> ratio_ok (reload_ratio setting old)"
  by (cases v; auto simp: initial_ratio_def ratio_ok_def reload_ratio_def split: if_splits option.splits)+

text \<open>The least size that is worth a trade: between one and the ideal size.\<close>

lemma min_size_bounds:
  assumes "ratio_ok v" "0 < n" "n \<le> 2 ^ 53"
  obtains k :: int where "js_ceil (xmul b64 (Fin (of_int n)) v) = Fin (of_int k)" "1 \<le> k" "k \<le> n"
proof -
  obtain r where r: "v = Fin r" "0 < r" "r \<le> 1" using assms(1) by (rule ratio_okE)
  have "b64 (of_int n) = of_int n" using assms by (intro b64_int) auto
  moreover have "of_int n * r \<le> of_int n" using assms(2) r by (simp add: mult_left_le)
  ultimately have "b64 (of_int n * r) \<le> of_int n" using dbl.sr.rd_mono [of "of_int n * r" "of_int n"] by simp
  moreover have "0 < b64 (of_int n * r)" using assms(2) r by simp
  ultimately have "1 \<le> \<lceil>b64 (of_int n * r)\<rceil> \<and> \<lceil>b64 (of_int n * r)\<rceil> \<le> n"
    by (simp add: ceiling_le_iff one_le_ceiling)
  then show ?thesis using that [of "\<lceil>b64 (of_int n * r)\<rceil>"] by (simp add: r(1))
qed

definition acceptable_qty :: "order_side \<Rightarrow> jsnum \<Rightarrow> price_level list \<Rightarrow> rat list" where
  "acceptable_qty side t levels = map (\<lambda>l. fin_val (to_decimal (quantity l))) (filter (price_ok side t) levels)"

context decimal_rounding
begin

lemma depth_at_sum:
  assumes "list_all (\<lambda>l. is_fin (quantity l)) levels"
  shows "depth_at rd side t levels = xsum rd (map Fin (acceptable_qty side t levels))"
proof -
  have "foldl (\<lambda>acc level. if price_ok side t level then xadd rd acc (to_decimal (quantity level)) else acc) a levels
    = foldl (xadd rd) a (map Fin (acceptable_qty side t levels))" for a
    using assms by (induction levels arbitrary: a) (auto simp: acceptable_qty_def elim!: is_finE)
  then show ?thesis by (simp add: depth_at_def xsum_def)
qed

end

text \<open>
  the available depth is the sum of the quantities at the target price or better, exactly, for
  quantities of at most eight decimals; a query that fails counts as no depth and is reported.
\<close>
theorem available_depth_is_acceptable_sum:
  assumes "decimal_rounding rd"
    and "list_all (\<lambda>l. is_fin (quantity l)) (book_levels side book)"
    and "list_all grid (acceptable_qty side t (book_levels side book))"
    and "list_all (\<lambda>x. 0 \<le> x) (acceptable_qty side t (book_levels side book))"
    and "sum_list (acceptable_qty side t (book_levels side book)) \<le> 10 ^ 12"
  shows "getAvailableDepth rd (Inr book) c side t p =
      (to_number (Fin (sum_list (acceptable_qty side t (book_levels side book)))), [])
    \<and> fst (getAvailableDepth rd (Inl err) c side t p) = Fin 0
    \<and> snd (getAvailableDepth rd (Inl err) c side t p) \<noteq> []"
  using decimal_rounding.depth_at_sum [OF assms(1,2), of side t] decimal_rounding.xsum_exact [OF assms(1,3-5)]
  by (cases err) (simp add: getAvailableDepth_def)

theorem available_depth_is_acceptable_sum_witness:
  "fst (getAvailableDepth dec20 (Inr (sample_top 0 1)) ''K'' Buy (Fin 1) Kalshi) = Fin 1"
proof -
  have q: "acceptable_qty Buy (Fin 1) (book_levels Buy (sample_top 0 1)) = [1]"
    using shortest_one_digit [of 1 1 0] by (simp add: acceptable_qty_def book_levels_def sample_top_def price_ok_def)
  have "grid 1" unfolding grid_iff by (rule exI [of _ "100000000"]) simp
  moreover have "b64 1 = 1" using b64_int [of 1] by simp
  moreover have "list_all (\<lambda>l. is_fin (quantity l)) (book_levels Buy (sample_top 0 1))"
    by (simp add: book_levels_def sample_top_def)
  ultimately show ?thesis
    using available_depth_is_acceptable_sum [OF d20.decimal_rounding_axioms, of Buy "sample_top 0 1" "Fin 1" "''K''" Kalshi]
    by (simp add: q)
qed

text \<open>
  the dual-leg gate fails closed: for a positive size it passes only when both books were read
  and each has at least the required depth, which is at least one and at most the size.
\<close>
theorem dual_leg_gate_fails_closed:
  assumes "ratio_ok r" "0 < n" "n \<le> 2 ^ 53"
    and "validateDualLegDepth rd r primary secondary books (Fin (of_int n)) = (res, failures)"
    and "gatePassed res"
  shows "failures = [] \<and> (\<exists>k. minDepthRequired res = Fin (of_int k) \<and> 1 \<le> k \<and> k \<le> n
    \<and> \<not> xlt (primaryDepth res) (Fin (of_int k)) \<and> \<not> xlt (secondaryDepth res) (Fin (of_int k)))"
proof -
  obtain k where k: "js_ceil (xmul b64 (Fin (of_int n)) r) = Fin (of_int k)" "1 \<le> k" "k \<le> n"
    by (rule min_size_bounds [OF assms(1-3)])
  have failed: "snd (getAvailableDepth rd a c s t p) = []" if "\<not> xlt (fst (getAvailableDepth rd a c s t p)) (Fin (of_int k))"
    for a c s t p
    using that k(2) by (auto simp: getAvailableDepth_def split: sum.splits prod.splits)
  show ?thesis
    using assms(4,5) k failed by (auto simp: validateDualLegDepth_def split_beta Let_def)
qed

theorem dual_leg_gate_fails_closed_witness:
  "\<not> gatePassed (fst (validateDualLegDepth dec20 (Fin 1)
     \<lparr>lqContract = ''K'', lqSide = Buy, lqPrice = Fin 1, lqPlatform = Kalshi\<rparr>
     \<lparr>lqContract = ''P'', lqSide = Sell, lqPrice = Fin 1, lqPlatform = Polymarket\<rparr>
     (\<lambda>_. Inl (''Error'', ''timeout'')) (Fin (of_int 5))))"
  (is "\<not> gatePassed (fst ?v)")
proof
  assume "gatePassed (fst ?v)"
  moreover have "ratio_ok (Fin 1)" by (simp add: ratio_ok_def)
  ultimately have "snd ?v = []"
    using dual_leg_gate_fails_closed [of "Fin 1" 5, where res = "fst ?v" and failures = "snd ?v"] by simp
  then show False by (simp add: validateDualLegDepth_def getAvailableDepth_def)
qed

end
