(* ===== verification/Compliance.thy ===== *)
theory Compliance
  imports Prelude
begin

text \<open>
  \<^verbatim>\<open>ComplianceConfigLoaderService\<close> and \<^verbatim>\<open>ComplianceValidatorService\<close>: the matrix of
  blocked contract categories per platform and the gate that the execution asks before it trades.
  The file is an argument, as the value that the YAML parser returns; strings are ASCII.  The
  lemmas relate the gate to the loader's own notion of a blocked description and show what the
  spelling of the platform names does to the gate.
\<close>

section \<open>Strings\<close>

definition lower_char :: "char \<Rightarrow> char" where
  "lower_char c = (let n = of_char c :: nat in if 65 \<le> n \<and> n \<le> 90 then char_of (n + 32) else c)"

definition toLowerCase :: "string \<Rightarrow> string" where
  "toLowerCase s = map lower_char s"

fun str_includes :: "string \<Rightarrow> string \<Rightarrow> bool" where
  "str_includes [] sub = (sub = [])"
| "str_includes (c # cs) sub = (take (length sub) (c # cs) = sub \<or> str_includes cs sub)"

definition is_blank :: "string \<Rightarrow> bool" where
  "is_blank s = list_all (\<lambda>c. (of_char c :: nat) \<in> set [9, 10, 11, 12, 13, 32]) s"

section \<open>The matrix\<close>

datatype default_action = AllowByDefault | DenyByDefault

record compliance_rule =
  rulePlatform :: string
  blockedCategories :: "string list"

record compliance_config =
  defaultAction :: default_action
  rules :: "compliance_rule list"

text \<open>
  What the parser may return for the parts the loader looks at: a field of the wrong type or
  missing is \<open>None\<close>.
\<close>

record raw_rule =
  rawPlatform :: string
  rawCategories :: "string option list option"

record raw_matrix =
  rawDefaultAction :: "string option"
  rawRules :: "raw_rule list option"

datatype matrix_problem = DuplicatePlatform nat | CategoriesMissing nat | CategoryBlank nat nat

datatype matrix_error = ComplianceKeyMissing | BadDefaultAction | RulesMissing | Problems "matrix_problem list"

definition category_problems :: "nat \<Rightarrow> string option list \<Rightarrow> matrix_problem list" where
  "category_problems i cats = [CategoryBlank i j. (j, c) \<leftarrow> enumerate 0 cats,
     (case c of None \<Rightarrow> True | Some s \<Rightarrow> is_blank s)]"

fun rule_problems :: "nat \<Rightarrow> string list \<Rightarrow> raw_rule list \<Rightarrow> matrix_problem list" where
  "rule_problems i seen [] = []"
| "rule_problems i seen (r # rs) =
     (if rawPlatform r \<in> set seen then [DuplicatePlatform i] else [])
     @ (case rawCategories r of
          None \<Rightarrow> [CategoriesMissing i]
        | Some cats \<Rightarrow> if cats = [] then [CategoriesMissing i] else category_problems i cats)
     @ rule_problems (Suc i) (set_add (rawPlatform r) seen) rs"

definition validateConfig :: "raw_matrix option \<Rightarrow> matrix_error + compliance_config" where
  "validateConfig raw =
     (case raw of
        None \<Rightarrow> Inl ComplianceKeyMissing
      | Some m \<Rightarrow>
          if rawDefaultAction m \<noteq> Some ''allow'' \<and> rawDefaultAction m \<noteq> Some ''deny'' then Inl BadDefaultAction
          else case rawRules m of
            None \<Rightarrow> Inl RulesMissing
          | Some rs \<Rightarrow>
              if rs = [] then Inl RulesMissing
              else if rule_problems 0 [] rs \<noteq> [] then Inl (Problems (rule_problems 0 [] rs))
              else Inr \<lparr>defaultAction = (if rawDefaultAction m = Some ''deny'' then DenyByDefault else AllowByDefault),
                  rules = map (\<lambda>r. \<lparr>rulePlatform = rawPlatform r,
                    blockedCategories = map the (the (rawCategories r))\<rparr>) rs\<rparr>)"

section \<open>The gate\<close>

record violation =
  vioPlatform :: string
  vioCategory :: string
  vioDefaultDeny :: bool

record compliance_context =
  ctxPrimaryPlatform :: string
  ctxSecondaryPlatform :: string
  ctxEventDescription :: string

definition find_rule :: "compliance_config \<Rightarrow> string \<Rightarrow> compliance_rule option" where
  "find_rule cfg p = find (\<lambda>r. rulePlatform r = p) (rules cfg)"

definition isBlocked :: "compliance_config \<Rightarrow> string \<Rightarrow> string \<Rightarrow> bool" where
  "isBlocked cfg p desc =
     (case find_rule cfg p of
        None \<Rightarrow> defaultAction cfg = DenyByDefault
      | Some r \<Rightarrow> list_ex (\<lambda>cat. str_includes (toLowerCase desc) (toLowerCase cat)) (blockedCategories r))"

definition checkPlatform :: "compliance_config \<Rightarrow> string \<Rightarrow> string \<Rightarrow> violation list" where
  "checkPlatform cfg p desc =
     (case find_rule cfg p of
        None \<Rightarrow> if defaultAction cfg = DenyByDefault
          then [\<lparr>vioPlatform = p, vioCategory = ''*'', vioDefaultDeny = True\<rparr>] else []
      | Some r \<Rightarrow> [\<lparr>vioPlatform = p, vioCategory = cat, vioDefaultDeny = False\<rparr>.
          cat \<leftarrow> blockedCategories r, str_includes (toLowerCase desc) (toLowerCase cat)])"

text \<open>The decision: the violations, none of them meaning approved; they are announced if any.\<close>

definition validate :: "compliance_config \<Rightarrow> compliance_context \<Rightarrow> violation list" where
  "validate cfg ctx =
     checkPlatform cfg (ctxPrimaryPlatform ctx) (ctxEventDescription ctx)
     @ checkPlatform cfg (ctxSecondaryPlatform ctx) (ctxEventDescription ctx)"

definition approved :: "violation list \<Rightarrow> bool" where
  "approved vs \<longleftrightarrow> length vs = 0"

lemma checkPlatform_empty: "checkPlatform cfg p desc = [] \<longleftrightarrow> \<not> isBlocked cfg p desc"
  by (auto simp: checkPlatform_def isBlocked_def list_ex_iff concat_eq_Nil_conv split: option.splits if_splits)

text \<open>
  the gate approves a trade exactly when the description is blocked on neither of the two
  platforms, as the matrix defines it.
\<close>
theorem compliance_gate_iff_not_blocked:
  "approved (validate cfg ctx) \<longleftrightarrow>
     \<not> isBlocked cfg (ctxPrimaryPlatform ctx) (ctxEventDescription ctx)
     \<and> \<not> isBlocked cfg (ctxSecondaryPlatform ctx) (ctxEventDescription ctx)"
  by (simp add: approved_def validate_def checkPlatform_empty)

text \<open>A matrix that loads has its rules as written: no platform twice, no blank category.\<close>

lemma rule_problems_none:
  "rule_problems i seen rs = [] \<Longrightarrow>
     distinct (map rawPlatform rs) \<and> (\<forall>r \<in> set rs. rawPlatform r \<notin> set seen \<and>
       (\<exists>cats. rawCategories r = Some cats \<and> cats \<noteq> []
          \<and> (\<forall>c \<in> set cats. \<exists>s. c = Some s \<and> \<not> is_blank s)))"
proof (induction rs arbitrary: i seen)
  case (Cons r rs)
  have tail: "rule_problems (Suc i) (set_add (rawPlatform r) seen) rs = []" and fresh: "rawPlatform r \<notin> set seen"
    using Cons.prems by (auto split: if_splits)
  obtain cats where cats: "rawCategories r = Some cats" "cats \<noteq> []" "category_problems i cats = []"
    using Cons.prems by (auto split: option.splits if_splits)
  have "\<exists>s. c = Some s \<and> \<not> is_blank s" if c: "c \<in> set cats" for c
  proof -
    obtain j where "j < length cats" "cats ! j = c" using c by (auto simp: in_set_conv_nth)
    then have "(j, c) \<in> set (enumerate 0 cats)" by (simp add: in_set_enumerate_eq)
    then show ?thesis using cats(3)
      by (cases c) (auto simp: category_problems_def concat_eq_Nil_conv split: if_splits)
  qed
  then show ?case using Cons.IH [OF tail] fresh cats(1,2) by auto
qed simp

lemma loaded_matrix_wellformed:
  assumes "validateConfig raw = Inr cfg"
  shows "distinct (map rulePlatform (rules cfg)) \<and> rules cfg \<noteq> []
    \<and> (\<forall>r \<in> set (rules cfg). blockedCategories r \<noteq> [] \<and> (\<forall>c \<in> set (blockedCategories r). \<not> is_blank c))"
proof -
  obtain m rs where m: "raw = Some m" "rawRules m = Some rs" "rs \<noteq> []" "rule_problems 0 [] rs = []"
    and cfg: "rules cfg = map (\<lambda>r. \<lparr>rulePlatform = rawPlatform r, blockedCategories = map the (the (rawCategories r))\<rparr>) rs"
    using assms by (auto simp: validateConfig_def split: option.splits if_splits)
  note ok = rule_problems_none [OF m(4)]
  have "blockedCategories r \<noteq> [] \<and> (\<forall>c \<in> set (blockedCategories r). \<not> is_blank c)" if r: "r \<in> set (rules cfg)" for r
  proof -
    obtain w where w: "w \<in> set rs" "r = \<lparr>rulePlatform = rawPlatform w, blockedCategories = map the (the (rawCategories w))\<rparr>"
      using r by (auto simp: cfg)
    obtain cats where "rawCategories w = Some cats" "cats \<noteq> []" "\<forall>c \<in> set cats. \<exists>s. c = Some s \<and> \<not> is_blank s"
      using ok w(1) by blast
    then show ?thesis by (auto simp: w(2))
  qed
  then show ?thesis using ok m(3) by (simp add: cfg comp_def)
qed

section \<open>The platform names of the matrix and of the execution\<close>

definition execution_context :: "platform \<Rightarrow> string \<Rightarrow> compliance_context" where
  "execution_context primary desc = \<lparr>ctxPrimaryPlatform = platform_id primary,
     ctxSecondaryPlatform = platform_id (other_platform primary), ctxEventDescription = desc\<rparr>"

text \<open>
  the execution names its platforms in lower case and a rule is found by exact comparison, so
  with a matrix whose rules spell them in upper case, as its type demands, no rule ever applies:
  by default every trade is approved, whatever its description, or under the other default every
  trade is refused.
\<close>
theorem uppercase_rules_never_apply:
  assumes "\<forall>r \<in> set (rules cfg). rulePlatform r \<in> {''KALSHI'', ''POLYMARKET''}"
  shows "approved (validate cfg (execution_context p desc)) \<longleftrightarrow> defaultAction cfg = AllowByDefault"
proof -
  have "find_rule cfg (platform_id q) = None" for q
    using assms by (cases q) (auto simp: find_rule_def find_None_iff)
  then show ?thesis
    by (cases "defaultAction cfg")
      (simp_all add: approved_def validate_def checkPlatform_empty isBlocked_def execution_context_def)
qed

text \<open>The matrix of \<^verbatim>\<open>config/compliance-matrix.yaml\<close>.\<close>

definition shipped_matrix :: raw_matrix where
  "shipped_matrix = \<lparr>rawDefaultAction = Some ''allow'', rawRules = Some
     [\<lparr>rawPlatform = ''KALSHI'', rawCategories = Some [Some ''adult-content'', Some ''assassination'', Some ''terrorism'']\<rparr>,
      \<lparr>rawPlatform = ''POLYMARKET'', rawCategories = Some [Some ''adult-content'', Some ''assassination'', Some ''terrorism'']\<rparr>]\<rparr>"

definition shipped_config :: compliance_config where
  "shipped_config = \<lparr>defaultAction = AllowByDefault, rules =
     [\<lparr>rulePlatform = ''KALSHI'', blockedCategories = [''adult-content'', ''assassination'', ''terrorism'']\<rparr>,
      \<lparr>rulePlatform = ''POLYMARKET'', blockedCategories = [''adult-content'', ''assassination'', ''terrorism'']\<rparr>]\<rparr>"

lemma shipped_matrix_loads: "validateConfig (Some shipped_matrix) = Inr shipped_config"
  by (simp add: validateConfig_def shipped_matrix_def shipped_config_def category_problems_def is_blank_def set_add_def)

theorem uppercase_rules_never_apply_witness:
  "isBlocked shipped_config ''KALSHI'' ''Terrorism in 2026'' \<and>
   approved (validate shipped_config (execution_context Kalshi ''Terrorism in 2026''))"
proof
  show "isBlocked shipped_config ''KALSHI'' ''Terrorism in 2026''"
    by code_simp
  have "\<forall>r \<in> set (rules shipped_config). rulePlatform r \<in> {''KALSHI'', ''POLYMARKET''}"
    by (simp add: shipped_config_def)
  from uppercase_rules_never_apply [OF this, of Kalshi "''Terrorism in 2026''"]
  show "approved (validate shipped_config (execution_context Kalshi ''Terrorism in 2026''))"
    by (simp add: shipped_config_def)
qed

end
