(* ===== verification/ExecutionQueue.thy ===== *)
theory ExecutionQueue
  imports Budget
begin

text \<open>
  \<^verbatim>\<open>ExecutionLockService\<close> and \<^verbatim>\<open>ExecutionQueueService\<close>: opportunities are taken one
  at a time under a global lock; each reserves budget, is executed, and ends with a commit or a
  release.  The queue talks to the risk manager through an interface, so its model takes the
  four ledger operations and the execution engine as arguments; the locale \<open>risk_ledger\<close>
  states what the queue relies on, and the budget model is its interpretation.
\<close>

section \<open>The lock\<close>

record lock_state =
  lockPromise :: bool
  releaseFn :: bool
  lockTimeout :: bool

definition lock_free :: lock_state where
  "lock_free = \<lparr>lockPromise = False, releaseFn = False, lockTimeout = False\<rparr>"

text \<open>
  One turn of \<^verbatim>\<open>acquire\<close>'s loop: while the promise is there the caller waits, otherwise
  it takes the lock and arms the timer.
\<close>

definition try_acquire :: "lock_state \<Rightarrow> lock_state option" where
  "try_acquire l = (if lockPromise l then None
     else Some (l\<lparr>lockPromise := True, releaseFn := True, lockTimeout := True\<rparr>))"

definition lock_release :: "lock_state \<Rightarrow> lock_state" where
  "lock_release l =
     (let l1 = (if lockTimeout l then l\<lparr>lockTimeout := False\<rparr> else l)
      in if releaseFn l1 then l1\<lparr>releaseFn := False, lockPromise := False\<rparr> else l1)"

definition isLocked :: "lock_state \<Rightarrow> bool" where
  "isLocked l \<longleftrightarrow> lockPromise l"

text \<open>
  The lock with the callers that are between their \<^verbatim>\<open>acquire\<close> and their
  \<^verbatim>\<open>release\<close>.  The timer may fire while a caller is inside; whether it does is the
  parameter of the step relation.
\<close>

type_synonym lock_system = "lock_state \<times> nat list"

inductive lock_step :: "bool \<Rightarrow> lock_system \<Rightarrow> lock_system \<Rightarrow> bool" for timeouts where
  enter: "try_acquire l = Some l' \<Longrightarrow> i \<notin> set ins \<Longrightarrow> lock_step timeouts (l, ins) (l', i # ins)"
| leave: "i \<in> set ins \<Longrightarrow> lock_step timeouts (l, ins) (lock_release l, remove1 i ins)"
| fire: "timeouts \<Longrightarrow> lockTimeout l \<Longrightarrow> lock_step timeouts (l, ins) (lock_release l, ins)"

inductive_cases lock_stepE [elim]: "lock_step timeouts s s'"

definition lock_inv :: "lock_system \<Rightarrow> bool" where
  "lock_inv s \<longleftrightarrow> (let (l, ins) = s in
     length ins \<le> 1 \<and> (lockPromise l \<longleftrightarrow> ins \<noteq> []) \<and> (releaseFn l \<longleftrightarrow> ins \<noteq> [])
     \<and> (lockTimeout l \<longleftrightarrow> ins \<noteq> []))"

lemma lock_step_inv: "lock_step False s s' \<Longrightarrow> lock_inv s \<Longrightarrow> lock_inv s'"
  by (induction rule: lock_step.induct)
    (auto simp: lock_inv_def try_acquire_def lock_release_def Let_def length_remove1 le_Suc_eq length_Suc_conv
      split: if_splits)

text \<open>
  as long as no holder overstays the timeout, at most one caller is between acquire and
  release, and the lock is taken exactly while one is.
\<close>
theorem lock_mutual_exclusion:
  assumes "(lock_step False)\<^sup>*\<^sup>* (lock_free, []) (l, ins)"
  shows "length ins \<le> 1 \<and> (isLocked l \<longleftrightarrow> ins \<noteq> [])"
proof -
  have "lock_inv s" if "(lock_step False)\<^sup>*\<^sup>* (lock_free, []) s" for s
    using that
  proof (induction rule: rtranclp_induct)
    case base
    show ?case by (simp add: lock_inv_def lock_free_def)
  qed (auto intro: lock_step_inv)
  from this [OF assms] show ?thesis by (auto simp: lock_inv_def isLocked_def)
qed

lemma lock_enter_free: "lock_step t (lock_free, []) (\<lparr>lockPromise = True, releaseFn = True, lockTimeout = True\<rparr>, [i])"
  using lock_step.enter [of lock_free "\<lparr>lockPromise = True, releaseFn = True, lockTimeout = True\<rparr>" i "[]" t]
  by (simp add: try_acquire_def lock_free_def)

theorem lock_mutual_exclusion_witness:
  "length [7::nat] \<le> 1 \<and> (isLocked \<lparr>lockPromise = True, releaseFn = True, lockTimeout = True\<rparr> \<longleftrightarrow> [7::nat] \<noteq> [])"
  by (rule lock_mutual_exclusion, rule r_into_rtranclp, rule lock_enter_free)

text \<open>
  the timeout frees the lock under a caller that is still inside, and when that caller
  leaves, its release frees the lock of whoever came next: two callers are inside, then the
  lock is free with one of them still inside.
\<close>
theorem lock_timeout_breaks_exclusion:
  "\<exists>l l'. (lock_step True)\<^sup>*\<^sup>* (lock_free, []) (l, [2, 1]) \<and> isLocked l
    \<and> lock_step True (l, [2, 1]) (l', [2]) \<and> \<not> isLocked l'"
proof -
  let ?t = "\<lparr>lockPromise = True, releaseFn = True, lockTimeout = True\<rparr>"
  have r: "lock_release ?t = lock_free" by (simp add: lock_release_def lock_free_def)
  have 1: "lock_step True (lock_free, []) (?t, [1])" by (rule lock_enter_free)
  have 2: "lock_step True (?t, [1]) (lock_free, [1])"
    using lock_step.fire [of True ?t "[1]"] r by simp
  have 3: "lock_step True (lock_free, [1]) (?t, [2, 1])"
    using lock_step.enter [of lock_free ?t 2 "[1]" True] by (simp add: try_acquire_def lock_free_def)
  have 4: "lock_step True (?t, [2, 1]) (lock_free, [2])"
    using lock_step.leave [of 1 "[2, 1]" True ?t] r by simp
  from 1 have "(lock_step True)\<^sup>*\<^sup>* (lock_free, []) (?t, [1])" by (rule r_into_rtranclp)
  then have "(lock_step True)\<^sup>*\<^sup>* (lock_free, []) (lock_free, [1])" using 2 by (rule rtranclp.rtrancl_into_rtrancl)
  then have "(lock_step True)\<^sup>*\<^sup>* (lock_free, []) (?t, [2, 1])" using 3 by (rule rtranclp.rtrancl_into_rtrancl)
  moreover have "isLocked ?t" "\<not> isLocked lock_free" by (simp_all add: isLocked_def lock_free_def)
  ultimately show ?thesis using 4 by (intro exI [of _ ?t] exI [of _ lock_free]) simp
qed

section \<open>The queue\<close>

record execution_result =
  exec_success :: bool
  exec_partialFill :: bool
  actualCapitalUsed :: "decimal option"
  exec_error :: "string option"

datatype 'e queue_error = LedgerError 'e | ExecutionThrew string | ExecutionReported string

record 'e queue_result =
  q_reserved :: bool
  q_executed :: bool
  q_committed :: bool
  q_error :: "'e queue_error option"

text \<open>The interface of the risk manager, as the queue calls it.\<close>

record ('q, 'r, 'e, 's) risk_ops =
  op_reserve :: "'q \<Rightarrow> 's \<Rightarrow> 'e + ('s \<times> 'r)"
  op_adjust :: "'r \<Rightarrow> decimal \<Rightarrow> 's \<Rightarrow> 'e + 's"
  op_commit :: "'r \<Rightarrow> 's \<Rightarrow> 'e + 's"
  op_release :: "'r \<Rightarrow> 's \<Rightarrow> 'e + 's"
  op_capital :: "'r \<Rightarrow> decimal"

type_synonym ('q, 'r, 's) engine = "'q \<Rightarrow> 'r \<Rightarrow> 's \<Rightarrow> 's \<times> (string + execution_result)"

text \<open>An error after the reservation: release it if it is still there, report the error.\<close>

definition cleanup ::
  "('q, 'r, 'e, 's) risk_ops \<Rightarrow> 'r \<Rightarrow> 'e queue_error \<Rightarrow> 's \<Rightarrow> 's \<times> 'e queue_result" where
  "cleanup ops r e s =
     ((case op_release ops r s of Inl _ \<Rightarrow> s | Inr s' \<Rightarrow> s'),
      \<lparr>q_reserved = True, q_executed = False, q_committed = False, q_error = Some e\<rparr>)"

definition needs_adjust :: "decimal option \<Rightarrow> decimal \<Rightarrow> bool" where
  "needs_adjust used reserved = (case used of Some c \<Rightarrow> xlt c reserved | None \<Rightarrow> False)"

definition settle_execution ::
  "('q, 'r, 'e, 's) risk_ops \<Rightarrow> 'r \<Rightarrow> execution_result \<Rightarrow> 's \<Rightarrow> 's \<times> 'e queue_result" where
  "settle_execution ops r res s =
     (if exec_success res \<or> exec_partialFill res then
        (case (if needs_adjust (actualCapitalUsed res) (op_capital ops r)
               then op_adjust ops r (the (actualCapitalUsed res)) s else Inr s) of
           Inl e \<Rightarrow> cleanup ops r (LedgerError e) s
         | Inr s1 \<Rightarrow>
             (case op_commit ops r s1 of
                Inl e \<Rightarrow> cleanup ops r (LedgerError e) s1
              | Inr s2 \<Rightarrow> (s2, \<lparr>q_reserved = True, q_executed = exec_success res, q_committed = True,
                   q_error = map_option ExecutionReported (exec_error res)\<rparr>)))
      else
        (case op_release ops r s of
           Inl e \<Rightarrow> cleanup ops r (LedgerError e) s
         | Inr s1 \<Rightarrow> (s1, \<lparr>q_reserved = True, q_executed = False, q_committed = False,
              q_error = map_option ExecutionReported (exec_error res)\<rparr>)))"

text \<open>
  The queue waits for the lock, so an opportunity starts with it taken; the \<^verbatim>\<open>finally\<close>
  releases it on every path.
\<close>

definition processOneOpportunity ::
  "('q, 'r, 'e, 's) risk_ops \<Rightarrow> ('q, 'r, 's) engine \<Rightarrow> 'q \<Rightarrow> lock_state \<times> 's \<Rightarrow> (lock_state \<times> 's) \<times> 'e queue_result" where
  "processOneOpportunity ops execute q ls =
     (let (l, s) = ls;
          l1 = l\<lparr>lockPromise := True, releaseFn := True, lockTimeout := True\<rparr>;
          (s', result) =
            (case op_reserve ops q s of
               Inl e \<Rightarrow> (s, \<lparr>q_reserved = False, q_executed = False, q_committed = False,
                           q_error = Some (LedgerError e)\<rparr>)
             | Inr (s1, r) \<Rightarrow>
                 (case execute q r s1 of
                    (s2, Inl msg) \<Rightarrow> cleanup ops r (ExecutionThrew msg) s2
                  | (s2, Inr res) \<Rightarrow> settle_execution ops r res s2))
      in ((lock_release l1, s'), result))"

fun processOpportunities ::
  "('q, 'r, 'e, 's) risk_ops \<Rightarrow> ('q, 'r, 's) engine \<Rightarrow> 'q list \<Rightarrow> lock_state \<times> 's
     \<Rightarrow> (lock_state \<times> 's) \<times> 'e queue_result list" where
  "processOpportunities ops execute [] ls = (ls, [])"
| "processOpportunities ops execute (q # qs) ls =
     (let (ls1, result) = processOneOpportunity ops execute q ls;
          (ls2, results) = processOpportunities ops execute qs ls1
      in (ls2, result # results))"

section \<open>What the queue relies on\<close>

text \<open>
  The contract of the four operations: an invariant, the set of reservations that are held, and
  how each operation changes it.  \<open>adm\<close> says that a request brings an id that is not held.
\<close>

locale risk_ledger =
  fixes ops :: "('q, 'r, 'e, 's) risk_ops"
    and inv :: "'s \<Rightarrow> bool" and held_ids :: "'s \<Rightarrow> string set" and rid :: "'r \<Rightarrow> string"
    and adm :: "'q \<Rightarrow> 's \<Rightarrow> bool" and amount_ok :: "decimal \<Rightarrow> bool"
  assumes reserve_holds: "inv s \<Longrightarrow> adm q s \<Longrightarrow> op_reserve ops q s = Inr (s', r) \<Longrightarrow>
      inv s' \<and> rid r \<notin> held_ids s \<and> held_ids s' = insert (rid r) (held_ids s)"
    and adjust_keeps: "inv s \<Longrightarrow> amount_ok c \<Longrightarrow> rid r \<in> held_ids s \<Longrightarrow>
      \<exists>s'. op_adjust ops r c s = Inr s' \<and> inv s' \<and> held_ids s' = held_ids s"
    and commit_ends: "inv s \<Longrightarrow> rid r \<in> held_ids s \<Longrightarrow>
      \<exists>s'. op_commit ops r s = Inr s' \<and> inv s' \<and> held_ids s' = held_ids s - {rid r}"
    and release_ends: "inv s \<Longrightarrow> rid r \<in> held_ids s \<Longrightarrow>
      \<exists>s'. op_release ops r s = Inr s' \<and> inv s' \<and> held_ids s' = held_ids s - {rid r}"
    and adm_held: "adm q s \<Longrightarrow> held_ids s' = held_ids s \<Longrightarrow> adm q s'"
begin

text \<open>The engine may change the state, but keeps the invariant and the reservations.\<close>

definition engine_ok :: "('q, 'r, 's) engine \<Rightarrow> bool" where
  "engine_ok execute \<longleftrightarrow> (\<forall>q r s s' out. inv s \<longrightarrow> execute q r s = (s', out) \<longrightarrow>
     inv s' \<and> held_ids s' = held_ids s \<and>
     (\<forall>res c. out = Inr res \<longrightarrow> actualCapitalUsed res = Some c \<longrightarrow> amount_ok c))"

lemma cleanup_ends:
  assumes "inv s" "rid r \<in> held_ids s" "cleanup ops r e s = (s', result)"
  shows "inv s' \<and> held_ids s' = held_ids s - {rid r} \<and> q_reserved result \<and> \<not> q_committed result \<and> \<not> q_executed result"
proof -
  obtain t where "op_release ops r s = Inr t" "inv t" "held_ids t = held_ids s - {rid r}"
    using release_ends [OF assms(1,2)] by blast
  moreover from this assms(3) have "s' = t"
    "result = \<lparr>q_reserved = True, q_executed = False, q_committed = False, q_error = Some e\<rparr>"
    by (simp_all add: cleanup_def)
  ultimately show ?thesis by simp
qed

lemma settle_ends:
  assumes "inv s" "rid r \<in> held_ids s" "settle_execution ops r res s = (s', result)"
    and "\<And>c. actualCapitalUsed res = Some c \<Longrightarrow> amount_ok c"
  shows "inv s' \<and> held_ids s' = held_ids s - {rid r} \<and> q_reserved result
    \<and> (q_committed result \<longleftrightarrow> exec_success res \<or> exec_partialFill res)
    \<and> (q_executed result \<longleftrightarrow> exec_success res)
    \<and> q_error result = map_option ExecutionReported (exec_error res)"
proof (cases "exec_success res \<or> exec_partialFill res")
  case False
  obtain t where "op_release ops r s = Inr t" "inv t" "held_ids t = held_ids s - {rid r}"
    using release_ends [OF assms(1,2)] by blast
  moreover from this False assms(3) have "s' = t" "result = \<lparr>q_reserved = True, q_executed = False,
      q_committed = False, q_error = map_option ExecutionReported (exec_error res)\<rparr>"
    by (simp_all add: settle_execution_def)
  ultimately show ?thesis using False by simp
next
  case True
  obtain s1 where s1: "(if needs_adjust (actualCapitalUsed res) (op_capital ops r)
      then op_adjust ops r (the (actualCapitalUsed res)) s else Inr s) = Inr s1"
    "inv s1" "held_ids s1 = held_ids s"
  proof (cases "needs_adjust (actualCapitalUsed res) (op_capital ops r)")
    case True
    then obtain c where "actualCapitalUsed res = Some c" by (auto simp: needs_adjust_def split: option.splits)
    moreover obtain t where "op_adjust ops r c s = Inr t" "inv t" "held_ids t = held_ids s"
      using adjust_keeps [OF assms(1) assms(4) assms(2)] calculation by blast
    ultimately show ?thesis using that [of t] True by simp
  qed (use that [of s] assms(1) in simp)
  obtain s2 where "op_commit ops r s1 = Inr s2" "inv s2" "held_ids s2 = held_ids s - {rid r}"
    using commit_ends [OF s1(2), of r] assms(2) unfolding s1(3) by blast
  moreover from this True s1(1) assms(3) have "s' = s2" "result = \<lparr>q_reserved = True,
      q_executed = exec_success res, q_committed = True, q_error = map_option ExecutionReported (exec_error res)\<rparr>"
    by (simp_all add: settle_execution_def)
  ultimately show ?thesis using True by simp
qed

lemma one_ends:
  assumes "inv s" "adm q s" "engine_ok execute"
    and "processOneOpportunity ops execute q (l, s) = ((l', s'), result)"
  shows "inv s' \<and> held_ids s' = held_ids s \<and> \<not> isLocked l'
    \<and> (q_committed result \<longrightarrow> q_reserved result) \<and> (q_executed result \<longrightarrow> q_committed result)"
proof -
  have l': "\<not> isLocked l'"
    using assms(4) by (auto simp: processOneOpportunity_def lock_release_def isLocked_def Let_def split: prod.splits)
  show ?thesis
  proof (cases "op_reserve ops q s")
    case (Inl e)
    then show ?thesis using assms(1,4) l' by (auto simp: processOneOpportunity_def Let_def)
  next
    case (Inr sr)
    obtain s1 r where sr: "sr = (s1, r)" by (cases sr)
    note h = reserve_holds [OF assms(1,2) Inr [unfolded sr]]
    obtain s2 out where x: "execute q r s1 = (s2, out)" by (cases "execute q r s1")
    have s2: "inv s2" "held_ids s2 = insert (rid r) (held_ids s)"
      "\<And>res c. out = Inr res \<Longrightarrow> actualCapitalUsed res = Some c \<Longrightarrow> amount_ok c"
      using assms(3) h x unfolding engine_ok_def by blast+
    show ?thesis
    proof (cases out)
      case (Inl msg)
      with assms(4) Inr sr x have "cleanup ops r (ExecutionThrew msg) s2 = (s', result)"
        by (auto simp: processOneOpportunity_def Let_def split: prod.splits)
      moreover from s2(2) have "rid r \<in> held_ids s2" by simp
      ultimately have "inv s'" "held_ids s' = held_ids s2 - {rid r}" "\<not> q_committed result" "\<not> q_executed result"
        using cleanup_ends [OF s2(1)] by blast+
      with s2(2) h l' show ?thesis by simp
    next
      case (Inr res)
      with assms(4) \<open>op_reserve ops q s = Inr sr\<close> sr x have e: "settle_execution ops r res s2 = (s', result)"
        by (auto simp: processOneOpportunity_def Let_def split: prod.splits)
      from s2(2) have "rid r \<in> held_ids s2" by simp
      from settle_ends [OF s2(1) this e s2(3) [OF Inr]] s2(2) h l' show ?thesis by auto
    qed
  qed
qed

lemma all_end:
  assumes "inv s" "list_all (\<lambda>q. adm q s) qs" "engine_ok execute"
    and "processOpportunities ops execute qs (l, s) = ((l', s'), results)"
  shows "inv s' \<and> held_ids s' = held_ids s \<and> length results = length qs \<and> (qs \<noteq> [] \<longrightarrow> \<not> isLocked l')
    \<and> list_all (\<lambda>r. (q_committed r \<longrightarrow> q_reserved r) \<and> (q_executed r \<longrightarrow> q_committed r)) results"
  using assms(1,2,4)
proof (induction qs arbitrary: l s results)
  case (Cons q qs)
  obtain l1 s1 r1 where one: "processOneOpportunity ops execute q (l, s) = ((l1, s1), r1)"
    by (metis surj_pair)
  obtain rs where rest: "processOpportunities ops execute qs (l1, s1) = ((l', s'), rs)" "results = r1 # rs"
    using Cons.prems(3) one by (auto split: prod.splits)
  from Cons.prems(2) have "adm q s" by simp
  note o = one_ends [OF Cons.prems(1) this assms(3) one]
  have "list_all (\<lambda>q. adm q s1) qs"
    using Cons.prems(2) adm_held o by (auto simp: list_all_iff)
  from Cons.IH [OF _ this rest(1)] o rest(2) show ?case
    by (cases qs) (use rest(1) in auto)
qed simp

end


section \<open>The budget provides the contract\<close>

text \<open>A request of the queue is a reservation request with the id and the time it will get.\<close>

type_synonym queue_request = "string \<times> timestamp \<times> reservation_request"

definition budget_ops :: "(rat \<Rightarrow> rat) \<Rightarrow> (queue_request, budget_reservation, risk_limit_error, budget_state) risk_ops" where
  "budget_ops rd =
     \<lparr>op_reserve = (\<lambda>(uuid, now, req) s. and_then (reserveBudget rd uuid now req s) (\<lambda>(s', evs, r). Inr (s', r))),
      op_adjust = (\<lambda>r c s. map_sum id fst (adjustReservation rd (reservationId r) c s)),
      op_commit = (\<lambda>r s. map_sum id fst (commitReservation rd (reservationId r) s)),
      op_release = (\<lambda>r s. map_sum id fst (releaseReservation rd (reservationId r) s)),
      op_capital = reservedCapitalUsd\<rparr>"

definition held_reservations :: "budget_state \<Rightarrow> string set" where
  "held_reservations s = fst ` set (reservations s)"

definition request_ok :: "queue_request \<Rightarrow> budget_state \<Rightarrow> bool" where
  "request_ok q s \<longleftrightarrow> (case q of (uuid, now, req) \<Rightarrow>
     uuid \<notin> held_reservations s \<and> sound_amount (recommendedPositionSizeUsd req))"

lemma held_none: "k \<notin> held_reservations s \<longleftrightarrow> map_of (reservations s) k = None"
  by (simp add: held_reservations_def map_of_eq_None_iff)

lemma held_some: "k \<in> held_reservations s \<Longrightarrow> \<exists>r. map_of (reservations s) k = Some r"
  using held_none [of k s] by auto

lemma held_set: "reservations s' = map_set k r (reservations s) \<Longrightarrow> held_reservations s' = insert k (held_reservations s)"
  by (simp add: held_reservations_def dom_map_of_conv_image_fst [symmetric] update_conv')

lemma held_delete: "reservations s' = map_delete k (reservations s) \<Longrightarrow> held_reservations s' = held_reservations s - {k}"
  by (auto simp: held_reservations_def dom_map_of_conv_image_fst [symmetric] map_of_map_delete)

context decimal_rounding
begin

lemma budget_reserve_holds:
  assumes "budget_inv rd s" "request_ok q s" "op_reserve (budget_ops rd) q s = Inr (s', r)"
  shows "budget_inv rd s' \<and> reservationId r \<notin> held_reservations s
    \<and> held_reservations s' = insert (reservationId r) (held_reservations s)"
proof -
  obtain uuid now req where q: "q = (uuid, now, req)" by (cases q) auto
  from assms(3) obtain evs where res: "reserveBudget rd uuid now req s = Inr (s', evs, r)"
    by (auto simp: budget_ops_def q and_then_Inr)
  from assms(2) have ok: "map_of (reservations s) uuid = None" "sound_amount (recommendedPositionSizeUsd req)"
    "uuid \<notin> held_reservations s"
    by (simp_all add: request_ok_def q held_none)
  note rr = reserve_result [OF res]
  show ?thesis
    using reserve_inv [OF res assms(1) ok(2,1)] held_set [OF rr(3)] rr(6) ok(3) by simp
qed

lemma budget_adjust_keeps:
  assumes "budget_inv rd s" "sound_amount c" "reservationId r \<in> held_reservations s"
  shows "\<exists>s'. op_adjust (budget_ops rd) r c s = Inr s' \<and> budget_inv rd s' \<and> held_reservations s' = held_reservations s"
proof -
  from held_some [OF assms(3)] obtain x where x: "map_of (reservations s) (reservationId r) = Some x" ..
  then obtain s' evs where a: "adjustReservation rd (reservationId r) c s = Inr (s', evs)"
    by (cases "xge c (reservedCapitalUsd x)") (simp_all add: adjustReservation_def Let_def)
  have "held_reservations s' = held_reservations s"
    using a
  proof (cases rule: adjust_result)
    case (2 y)
    then show ?thesis using held_set [OF 2(4)] assms(3) by auto
  qed simp
  then show ?thesis using adjust_inv [OF a assms(1,2)] a by (simp add: budget_ops_def)
qed

lemma budget_commit_ends:
  assumes "budget_inv rd s" "reservationId r \<in> held_reservations s"
  shows "\<exists>s'. op_commit (budget_ops rd) r s = Inr s' \<and> budget_inv rd s'
    \<and> held_reservations s' = held_reservations s - {reservationId r}"
proof -
  from held_some [OF assms(2)] obtain x where "map_of (reservations s) (reservationId r) = Some x" ..
  then obtain s' evs where c: "commitReservation rd (reservationId r) s = Inr (s', evs)"
    by (auto simp: commitReservation_def Let_def)
  have "held_reservations s' = held_reservations s - {reservationId r}"
    by (rule commit_result [OF c assms(1)], rule held_delete)
  then show ?thesis using commit_inv [OF c assms(1)] c by (simp add: budget_ops_def)
qed

lemma budget_release_ends:
  assumes "budget_inv rd s" "reservationId r \<in> held_reservations s"
  shows "\<exists>s'. op_release (budget_ops rd) r s = Inr s' \<and> budget_inv rd s'
    \<and> held_reservations s' = held_reservations s - {reservationId r}"
proof -
  from held_some [OF assms(2)] obtain x where "map_of (reservations s) (reservationId r) = Some x" ..
  then obtain s' evs where c: "releaseReservation rd (reservationId r) s = Inr (s', evs)"
    by (auto simp: releaseReservation_def Let_def)
  have "held_reservations s' = held_reservations s - {reservationId r}"
    by (rule release_result [OF c], rule held_delete)
  then show ?thesis using release_inv [OF c assms(1)] c by (simp add: budget_ops_def)
qed

lemma budget_risk_ledger:
  "risk_ledger (budget_ops rd) (budget_inv rd) held_reservations reservationId request_ok sound_amount"
  by unfold_locales
    (blast dest: budget_reserve_holds, blast intro: budget_adjust_keeps, blast intro: budget_commit_ends,
      blast intro: budget_release_ends, simp add: request_ok_def)

end

interpretation bl: risk_ledger "budget_ops dec20" "budget_inv dec20" held_reservations reservationId
  request_ok sound_amount
  by (rule d20.budget_risk_ledger)

definition engine_keeps_budget ::
  "(rat \<Rightarrow> rat) \<Rightarrow> (queue_request, budget_reservation, budget_state) engine \<Rightarrow> bool" where
  "engine_keeps_budget rd execute \<longleftrightarrow> (\<forall>q r s s' out. budget_inv rd s \<longrightarrow> execute q r s = (s', out) \<longrightarrow>
     budget_inv rd s' \<and> held_reservations s' = held_reservations s \<and>
     (\<forall>res c. out = Inr res \<longrightarrow> actualCapitalUsed res = Some c \<longrightarrow> sound_amount c))"

text \<open>
  C3: a run of the queue leaks no reservation, whatever the executions return or throw: every
  budget it reserves is committed or released by the time it returns, other reservations are
  untouched, the budget invariant holds, the lock is free, one result per opportunity comes
  back, and an opportunity is reported committed only if it was reserved, executed only if it
  was committed.
\<close>
theorem queue_leaks_no_reservation:
  assumes "decimal_rounding rd" "budget_inv rd s" "list_all (\<lambda>q. request_ok q s) qs"
    and "engine_keeps_budget rd execute"
    and "processOpportunities (budget_ops rd) execute qs (l, s) = ((l', s'), results)"
  shows "budget_inv rd s' \<and> held_reservations s' = held_reservations s \<and> length results = length qs
    \<and> (qs \<noteq> [] \<longrightarrow> \<not> isLocked l')
    \<and> list_all (\<lambda>r. (q_committed r \<longrightarrow> q_reserved r) \<and> (q_executed r \<longrightarrow> q_committed r)) results"
proof -
  note bl = decimal_rounding.budget_risk_ledger [OF assms(1)]
  from assms(4) have "risk_ledger.engine_ok (budget_inv rd) held_reservations sound_amount execute"
    unfolding risk_ledger.engine_ok_def [OF bl] engine_keeps_budget_def .
  from risk_ledger.all_end [OF bl assms(2,3) this assms(5)] show ?thesis .
qed

definition sample_engine :: "(queue_request, budget_reservation, budget_state) engine" where
  "sample_engine = (\<lambda>q r s. (s, Inr \<lparr>exec_success = True, exec_partialFill = False, actualCapitalUsed = Some (Fin 150),
     exec_error = None\<rparr>))"

theorem queue_leaks_no_reservation_witness:
  "held_reservations (snd (fst (processOpportunities (budget_ops dec20) sample_engine
     [(''r1'', 0, sample_request)] (lock_free, sample_budget)))) = {}"
proof -
  obtain l' s' results where p: "processOpportunities (budget_ops dec20) sample_engine
     [(''r1'', 0, sample_request)] (lock_free, sample_budget) = ((l', s'), results)"
    by (metis surj_pair)
  have e: "held_reservations sample_budget = {}" by (simp add: held_reservations_def sample_budget_def)
  have "list_all (\<lambda>q. request_ok q sample_budget) [(''r1'', 0, sample_request)]"
    using sample_sound(1) by (simp add: request_ok_def e)
  moreover have "engine_keeps_budget dec20 sample_engine"
    by (auto simp: engine_keeps_budget_def sample_engine_def)
  ultimately show ?thesis
    using queue_leaks_no_reservation [OF d20.decimal_rounding_axioms sample_inv _ _ p] e unfolding p by simp
qed

end
