(* ===== verification/Effects.thy ===== *)
theory Effects
  imports Main
begin

text \<open>
  Operations with effects, shared by the components that talk to connectors, repositories and
  the event bus: an operation is the list of the effects it had, in order, with its outcome, which
  is a value or what stopped it (an early return or a thrown error).  What the outside answers is
  an argument of each operation.
\<close>

type_synonym ('e, 's, 'a) prog = "'e list \<times> ('s + 'a)"

definition act_return :: "'a \<Rightarrow> ('e, 's, 'a) prog" where
  "act_return a = ([], Inr a)"

definition act_stop :: "'s \<Rightarrow> ('e, 's, 'a) prog" where
  "act_stop s = ([], Inl s)"

definition act_tell :: "'e list \<Rightarrow> ('e, 's, unit) prog" where
  "act_tell effs = (effs, Inr ())"

definition act_bind :: "('e, 's, 'a) prog \<Rightarrow> ('a \<Rightarrow> ('e, 's, 'b) prog) \<Rightarrow> ('e, 's, 'b) prog" where
  "act_bind m f = (case m of
     (effs, Inl st) \<Rightarrow> (effs, Inl st)
   | (effs, Inr a) \<Rightarrow> (case f a of (effs', r) \<Rightarrow> (effs @ effs', r)))"

text \<open>A call that answers with an error or a value; the error is thrown on.\<close>

definition act_call :: "'s + 'a \<Rightarrow> ('e, 's, 'a) prog" where
  "act_call answer = (case answer of Inl msg \<Rightarrow> act_stop msg | Inr a \<Rightarrow> act_return a)"

text \<open>A call without a result, which is recorded when it succeeds; \<open>Some\<close> is its error.\<close>

definition act_do :: "'s option \<Rightarrow> 'e \<Rightarrow> ('e, 's, unit) prog" where
  "act_do answer e = (case answer of Some msg \<Rightarrow> act_stop msg | None \<Rightarrow> act_tell [e])"

section \<open>Laws\<close>

lemma bind_return [simp]: "act_bind (act_return a) f = f a"
  by (cases "f a") (simp add: act_bind_def act_return_def)

lemma bind_stop [simp]: "act_bind (effs, Inl st) f = (effs, Inl st)"
  by (simp add: act_bind_def)

lemma outcome_simps [simp]:
  "fst (act_return a) = []" "snd (act_return a) = Inr a"
  "fst (act_stop s) = []" "snd (act_stop s) = Inl s"
  "fst (act_tell effs) = effs" "snd (act_tell effs) = Inr ()"
  by (simp_all add: act_return_def act_stop_def act_tell_def)

lemma bind_act_stop [simp]: "act_bind (act_stop st) f = act_stop st"
  by (simp add: act_stop_def)

lemma bind_value: "act_bind (effs, Inr a) f = (effs @ fst (f a), snd (f a))"
  by (simp add: act_bind_def split_beta)

lemma bind_Inr:
  "snd (act_bind m f) = Inr b \<longleftrightarrow> (\<exists>a. snd m = Inr a \<and> snd (f a) = Inr b)"
  by (cases m; cases "snd m") (auto simp: act_bind_def split_beta)

lemma bind_assoc: "act_bind (act_bind m f) g = act_bind m (\<lambda>a. act_bind (f a) g)"
  by (cases m; cases "snd m") (auto simp: act_bind_def split: prod.splits sum.splits)

lemma bind_cong [fundef_cong]:
  "m = m' \<Longrightarrow> (\<And>a. snd m' = Inr a \<Longrightarrow> f a = f' a) \<Longrightarrow> act_bind m f = act_bind m' f'"
  by (cases m'; cases "snd m'") (auto simp: act_bind_def)

text \<open>
  A property of effect lists that holds of no effects and of a concatenation when it holds of the
  parts passes through sequencing.
\<close>

locale effect_property =
  fixes P :: "'e list \<Rightarrow> bool"
  assumes P_Nil: "P []"
    and P_append: "P xs \<Longrightarrow> P ys \<Longrightarrow> P (xs @ ys)"
begin

lemma P_return: "P (fst (act_return a))"
  by (simp add: act_return_def P_Nil)

lemma P_stop: "P (fst (act_stop s))"
  by (simp add: act_stop_def P_Nil)

lemma P_call: "P (fst (act_call answer))"
  by (cases answer) (simp_all add: act_call_def P_Nil)

lemma P_do: "P [e] \<Longrightarrow> P (fst (act_do answer e))"
  by (cases answer) (simp_all add: act_do_def P_Nil)

lemma P_bind: "P (fst m) \<Longrightarrow> (\<And>a. snd m = Inr a \<Longrightarrow> P (fst (f a))) \<Longrightarrow> P (fst (act_bind m f))"
  by (cases m; cases "snd m") (auto simp: act_bind_def P_append split: prod.splits)

lemmas P_rules = P_return P_stop P_call P_do P_bind

end

text \<open>A property of every single effect.\<close>

interpretation effects_all: effect_property "\<lambda>effs. \<forall>e \<in> set effs. Q e" for Q
  by unfold_locales auto

interpretation each: effect_property "list_all Q" for Q
  by unfold_locales auto

end
