(* ===== verification/Legs.thy ===== *)
theory Legs
  imports DepthGate Compliance ExecutionQueue Effects
begin

text \<open>
  What the two-leg execution works with, and \<^verbatim>\<open>LegSequencingService\<close>: which leg goes
  first, and what happens when only that one was filled.  An operation is the list of its effects
  (orders sent, rows written, events) with its outcome: a value, an early return of a final result,
  or a thrown error.  What the connectors and the database answer are fields of the environment.
  Log lines and the texts of events and errors are left out; an error is its code.
\<close>

section \<open>Orders, rows and events\<close>

record order_params =
  orContract :: string
  orSide :: order_side
  orQuantity :: jsnum
  orPrice :: jsnum

datatype order_status = OrderFilled | OrderPartial | OrderPending | OrderRejected

record order_result =
  orId :: string
  orStatus :: order_status
  filledQuantity :: jsnum
  filledPrice :: jsnum

datatype row_status = RowFilled | RowPartial | RowPending

record order_row =
  rowPlatform :: platform
  rowContract :: string
  rowPair :: string
  rowSide :: order_side
  rowPrice :: jsnum
  rowSize :: jsnum
  rowStatus :: row_status
  rowFillPrice :: "jsnum option"
  rowFillSize :: "jsnum option"
  rowIsPaper :: bool

record execution_metadata =
  mdPrimaryLeg :: platform
  mdLatencyOverride :: bool
  mdKalshiLatency :: "jsnum option"
  mdPolymarketLatency :: "jsnum option"
  mdIdealCount :: jsnum
  mdMatchedCount :: jsnum
  mdKalshiSource :: data_source
  mdPolymarketSource :: data_source
  mdDivergence :: bool

datatype position_status = PositionOpen | PositionSingleLegExposed

text \<open>The entry figures that only a position with both legs has.\<close>

record entry_figures =
  efClosePriceKalshi :: jsnum
  efClosePricePolymarket :: jsnum
  efFeeRateKalshi :: jsnum
  efFeeRatePolymarket :: jsnum
  efConfidence :: "jsnum option"
  efExitMode :: string

record opened_position =
  posPair :: string
  posKalshiOrder :: "string option"
  posPolymarketOrder :: "string option"
  posKalshiSide :: order_side
  posPolymarketSide :: order_side
  posKalshiPrice :: decimal
  posPolymarketPrice :: decimal
  posKalshiSize :: jsnum
  posPolymarketSize :: jsnum
  posExpectedEdge :: jsnum
  posStatus :: position_status
  posIsPaper :: bool
  posEntry :: "entry_figures option"
  posMetadata :: execution_metadata

datatype error_code = GENERIC_EXECUTION_FAILURE | INSUFFICIENT_LIQUIDITY | ORDER_REJECTED | ORDER_TIMEOUT
  | SINGLE_LEG_EXPOSURE | INVALID_POSITION_STATE | RETRY_FAILED | CLOSE_FAILED | PARTIAL_EXIT_FAILURE
  | COMPLIANCE_BLOCKED | EDGE_ERODED_BY_SIZE | LEG_SIZE_MISMATCH

fun error_number :: "error_code \<Rightarrow> int" where
  "error_number GENERIC_EXECUTION_FAILURE = 2000"
| "error_number INSUFFICIENT_LIQUIDITY = 2001"
| "error_number ORDER_REJECTED = 2002"
| "error_number ORDER_TIMEOUT = 2003"
| "error_number SINGLE_LEG_EXPOSURE = 2004"
| "error_number INVALID_POSITION_STATE = 2005"
| "error_number RETRY_FAILED = 2006"
| "error_number CLOSE_FAILED = 2007"
| "error_number PARTIAL_EXIT_FAILURE = 2008"
| "error_number COMPLIANCE_BLOCKED = 2009"
| "error_number EDGE_ERODED_BY_SIZE = 2010"
| "error_number LEG_SIZE_MISMATCH = 2011"

record sequencing_decision =
  sdPrimaryLeg :: platform
  sdOverride :: bool
  sdKalshiLatency :: "jsnum option"
  sdPolymarketLatency :: "jsnum option"

record filled_event =
  feOrderId :: string
  fePlatform :: platform
  feSide :: order_side
  fePrice :: jsnum
  feSize :: jsnum
  feFillPrice :: jsnum
  feFillSize :: jsnum
  fePosition :: string
  feIsPaper :: bool
  feMixedMode :: bool
  feFeeRate :: decimal
  feGas :: "decimal option"
  feSequencing :: "sequencing_decision option"

record single_leg_event =
  slPosition :: string
  slPair :: string
  slExpectedEdge :: jsnum
  slFilledPlatform :: platform
  slOrderId :: string
  slFilledSide :: order_side
  slPrice :: jsnum
  slSize :: jsnum
  slFilledPrice :: jsnum
  slFilledSize :: jsnum
  slFailedPlatform :: platform
  slReason :: error_code
  slAttemptedPrice :: jsnum
  slAttemptedSize :: jsnum
  slCurrentPrices :: "platform \<Rightarrow> jsnum option \<times> jsnum option"
  slIsPaper :: bool
  slMixedMode :: bool

datatype exec_event =
    OrderFilledEvent filled_event
  | ExecutionFailedEvent error_code string bool bool
  | OpportunityFilteredEvent string decimal decimal
  | ComplianceBlockedEvent "violation list" bool bool
  | DepthCheckFailedEvent depth_failure
  | SingleLegExposureEvent single_leg_event

datatype exec_effect =
    Submitted platform order_params "string + order_result"
  | OrderCreated order_row string
  | PositionCreated opened_position string
  | Emitted exec_event

section \<open>Results\<close>

record full_result = execution_result +
  frErrorCode :: "error_code option"
  frPosition :: "string option"
  frPrimaryOrder :: "order_result option"
  frSecondaryOrder :: "order_result option"

definition failure :: "error_code \<Rightarrow> full_result" where
  "failure code = \<lparr>exec_success = False, exec_partialFill = False, actualCapitalUsed = None,
     exec_error = Some [], frErrorCode = Some code, frPosition = None, frPrimaryOrder = None, frSecondaryOrder = None\<rparr>"

section \<open>Operations with effects\<close>

datatype exec_stop = Threw string | Done full_result

type_synonym 'a act = "(exec_effect, exec_stop, 'a) prog"

definition act_done :: "full_result \<Rightarrow> 'a act" where
  "act_done r = act_stop (Done r)"

definition act_throw :: "string \<Rightarrow> 'a act" where
  "act_throw msg = act_stop (Threw msg)"

text \<open>A call that may answer \<open>None\<close>, which is its throwing.\<close>

definition act_try :: "'a option \<Rightarrow> 'a act" where
  "act_try answer = (case answer of Some a \<Rightarrow> act_return a | None \<Rightarrow> act_throw [])"

section \<open>The environment\<close>

record exec_env =
  envAdaptive :: bool
  envLatency :: "platform \<Rightarrow> jsnum option"
  envLatencyThreshold :: jsnum
  envPaper :: "platform \<Rightarrow> bool"
  envCompliance :: compliance_config
  envGateBook :: "platform \<Rightarrow> book_answer"
  envLegBook :: "platform \<Rightarrow> book_answer"
  envCloseBook :: "platform \<Rightarrow> book_answer"
  envExposureBook :: "platform \<Rightarrow> order_book option"
  envLastWsUpdate :: "platform \<Rightarrow> timestamp option"
  envNow :: timestamp
  envWsThreshold :: jsnum
  envDivergence :: divergence
  envSubmit :: "platform \<Rightarrow> order_params \<Rightarrow> string + order_result"
  envCreateOrder :: "order_row \<Rightarrow> string option"
  envCreatePosition :: "opened_position \<Rightarrow> string option"
  envFeeSchedule :: "platform \<Rightarrow> fee_schedule option"
  envExitMode :: string

section \<open>Sequencing\<close>

text \<open>The connectors of the two legs are those of the platforms themselves.\<close>

definition resolveConnectors :: "platform \<Rightarrow> platform \<times> platform" where
  "resolveConnectors primaryLeg = (if primaryLeg = Kalshi then (Kalshi, Polymarket) else (Polymarket, Kalshi))"

definition determineSequencing :: "exec_env \<Rightarrow> platform \<Rightarrow> sequencing_decision" where
  "determineSequencing env staticLeg =
     (if \<not> envAdaptive env then
        \<lparr>sdPrimaryLeg = staticLeg, sdOverride = False, sdKalshiLatency = None, sdPolymarketLatency = None\<rparr>
      else
        let static = \<lparr>sdPrimaryLeg = staticLeg, sdOverride = False,
              sdKalshiLatency = envLatency env Kalshi, sdPolymarketLatency = envLatency env Polymarket\<rparr> in
        case (envLatency env Kalshi, envLatency env Polymarket) of
          (Some k, Some p) \<Rightarrow>
            if xgt (xabs (xsub b64 k p)) (envLatencyThreshold env)
            then static\<lparr>sdPrimaryLeg := (if xlt k p then Kalshi else Polymarket), sdOverride := True\<rparr>
            else static
        | _ \<Rightarrow> static)"

section \<open>A single leg\<close>

record single_leg_context =
  scPair :: string
  scPrimaryLeg :: platform
  scPrimaryOrderId :: string
  scPrimaryOrder :: order_result
  scPrimarySide :: order_side
  scSecondarySide :: order_side
  scPrimaryPrice :: decimal
  scSecondaryPrice :: decimal
  scSize :: jsnum
  scNetEdge :: decimal
  scErrorCode :: error_code
  scIsPaper :: bool
  scMixedMode :: bool
  scMetadata :: execution_metadata

definition on_leg :: "platform \<Rightarrow> platform \<Rightarrow> 'a \<Rightarrow> 'a \<Rightarrow> 'a" where
  "on_leg primary p a b = (if p = primary then a else b)"

definition single_leg_position :: "single_leg_context \<Rightarrow> opened_position" where
  "single_leg_position c =
     \<lparr>posPair = scPair c,
      posKalshiOrder = (if scPrimaryLeg c = Kalshi then Some (scPrimaryOrderId c) else None),
      posPolymarketOrder = (if scPrimaryLeg c = Polymarket then Some (scPrimaryOrderId c) else None),
      posKalshiSide = on_leg (scPrimaryLeg c) Kalshi (scPrimarySide c) (scSecondarySide c),
      posPolymarketSide = on_leg (scPrimaryLeg c) Polymarket (scPrimarySide c) (scSecondarySide c),
      posKalshiPrice = on_leg (scPrimaryLeg c) Kalshi (scPrimaryPrice c) (scSecondaryPrice c),
      posPolymarketPrice = on_leg (scPrimaryLeg c) Polymarket (scPrimaryPrice c) (scSecondaryPrice c),
      posKalshiSize = scSize c, posPolymarketSize = scSize c,
      posExpectedEdge = to_number (scNetEdge c), posStatus = PositionSingleLegExposed,
      posIsPaper = scIsPaper c, posEntry = None, posMetadata = scMetadata c\<rparr>"

definition best_prices :: "order_book option \<Rightarrow> jsnum option \<times> jsnum option" where
  "best_prices book = (case book of
     None \<Rightarrow> (None, None)
   | Some b \<Rightarrow> (map_option price (case bids b of [] \<Rightarrow> None | l # _ \<Rightarrow> Some l),
              map_option price (case asks b of [] \<Rightarrow> None | l # _ \<Rightarrow> Some l)))"

definition handleSingleLeg :: "(rat \<Rightarrow> rat) \<Rightarrow> exec_env \<Rightarrow> single_leg_context \<Rightarrow> full_result act" where
  "handleSingleLeg rd env c =
     (let row = single_leg_position c; p = scPrimaryLeg c; q = other_platform p in
      act_bind (act_try (envCreatePosition env row)) (\<lambda>pid.
      act_bind (act_tell [PositionCreated row pid]) (\<lambda>_.
      act_bind (act_try (envFeeSchedule env p)) (\<lambda>fee.
      act_bind (act_tell [Emitted (OrderFilledEvent
        \<lparr>feOrderId = scPrimaryOrderId c, fePlatform = p, feSide = scPrimarySide c,
         fePrice = to_number (scPrimaryPrice c), feSize = scSize c,
         feFillPrice = filledPrice (scPrimaryOrder c), feFillSize = filledQuantity (scPrimaryOrder c),
         fePosition = pid, feIsPaper = scIsPaper c, feMixedMode = scMixedMode c,
         feFeeRate = calculateTakerFeeRate rd (to_decimal (filledPrice (scPrimaryOrder c))) fee,
         feGas = None, feSequencing = None\<rparr>)]) (\<lambda>_.
      act_bind (act_try (envFeeSchedule env Kalshi)) (\<lambda>_.
      act_bind (act_try (envFeeSchedule env Polymarket)) (\<lambda>_.
      act_bind (act_tell [Emitted (SingleLegExposureEvent
        \<lparr>slPosition = pid, slPair = scPair c, slExpectedEdge = to_number (scNetEdge c),
         slFilledPlatform = p, slOrderId = scPrimaryOrderId c, slFilledSide = scPrimarySide c,
         slPrice = to_number (scPrimaryPrice c), slSize = scSize c,
         slFilledPrice = filledPrice (scPrimaryOrder c), slFilledSize = filledQuantity (scPrimaryOrder c),
         slFailedPlatform = q, slReason = scErrorCode c,
         slAttemptedPrice = to_number (scSecondaryPrice c), slAttemptedSize = scSize c,
         slCurrentPrices = (\<lambda>x. best_prices (envExposureBook env x)),
         slIsPaper = scIsPaper c, slMixedMode = scMixedMode c\<rparr>)]) (\<lambda>_.
      act_return \<lparr>exec_success = False, exec_partialFill = True, actualCapitalUsed = None, exec_error = Some [],
        frErrorCode = Some SINGLE_LEG_EXPOSURE, frPosition = Some pid,
        frPrimaryOrder = Some (scPrimaryOrder c), frSecondaryOrder = None\<rparr>))))))))"

section \<open>Facts\<close>

text \<open>The orders that a list of effects has sent.\<close>

definition submissions :: "exec_effect list \<Rightarrow> (platform \<times> order_params \<times> (string + order_result)) list" where
  "submissions effs = List.map_filter (\<lambda>e. case e of Submitted p q out \<Rightarrow> Some (p, q, out) | _ \<Rightarrow> None) effs"

lemma submissions_simps [simp]:
  "submissions [] = []"
  "submissions (Submitted p q out # effs) = (p, q, out) # submissions effs"
  "submissions (OrderCreated row i # effs) = submissions effs"
  "submissions (PositionCreated pr i # effs) = submissions effs"
  "submissions (Emitted ev # effs) = submissions effs"
  "submissions (effs @ effs') = submissions effs @ submissions effs'"
  by (simp_all add: submissions_def List.map_filter_def)

lemma submissions_emitted [simp]: "submissions (map Emitted evs) = []"
  by (induction evs) simp_all

text \<open>Operations that send no order, and ones that, if they stop, stop with a refusal.\<close>

definition quiet :: "'a act \<Rightarrow> bool" where
  "quiet m \<longleftrightarrow> submissions (fst m) = []"

definition refusal :: "full_result \<Rightarrow> bool" where
  "refusal r \<longleftrightarrow> \<not> exec_success r \<and> \<not> exec_partialFill r \<and> actualCapitalUsed r = None"

definition clean :: "'a act \<Rightarrow> bool" where
  "clean m \<longleftrightarrow> (\<forall>st. snd m = Inl st \<longrightarrow> (\<exists>r. st = Done r \<and> refusal r))"

lemma refusal_failure [simp]: "refusal (failure code)"
  by (simp add: refusal_def failure_def)

lemma act_basic [simp]:
  "quiet (act_return a)" "quiet (act_done r)" "quiet (act_throw msg)" "quiet (act_try x)"
  "quiet (act_tell (map Emitted evs))" "quiet (act_tell [Emitted ev])" "quiet (act_tell [PositionCreated pr i])"
  "clean (act_return a)" "clean (act_tell effs)" "clean (act_done (failure code))"
  by (simp_all add: quiet_def clean_def act_return_def act_done_def act_throw_def act_stop_def act_tell_def act_try_def
      split: option.splits)

lemma quiet_bind: "quiet m \<Longrightarrow> (\<And>a. snd m = Inr a \<Longrightarrow> quiet (f a)) \<Longrightarrow> quiet (act_bind m f)"
  by (cases m; cases "snd m") (auto simp: quiet_def act_bind_def split_beta)

lemma clean_bind: "clean m \<Longrightarrow> (\<And>a. snd m = Inr a \<Longrightarrow> clean (f a)) \<Longrightarrow> clean (act_bind m f)"
  by (cases m; cases "snd m") (auto simp: clean_def act_bind_def split_beta)

lemma quiet_single_leg: "quiet (handleSingleLeg rd env c)"
  unfolding handleSingleLeg_def Let_def by (intro quiet_bind) simp_all

lemma single_leg_result:
  assumes "snd (handleSingleLeg rd env c) = Inr r"
  shows "exec_partialFill r \<and> \<not> exec_success r \<and> frErrorCode r = Some SINGLE_LEG_EXPOSURE
    \<and> (\<exists>pid. frPosition r = Some pid \<and> PositionCreated (single_leg_position c) pid \<in> set (fst (handleSingleLeg rd env c)))"
proof -
  obtain pid where pid: "envCreatePosition env (single_leg_position c) = Some pid"
    using assms by (cases "envCreatePosition env (single_leg_position c)")
      (auto simp: handleSingleLeg_def Let_def act_try_def act_throw_def act_stop_def)
  show ?thesis using assms
    by (auto simp: handleSingleLeg_def Let_def pid act_try_def act_tell_def act_throw_def act_stop_def bind_value
        act_return_def split: option.splits)
qed

lemma single_leg_stop:
  "snd (handleSingleLeg rd env c) = Inl st \<Longrightarrow> \<exists>msg. st = Threw msg"
  by (auto simp: handleSingleLeg_def Let_def act_try_def act_tell_def act_throw_def act_stop_def bind_value act_return_def
      split: option.splits)

text \<open>
  the leg with the lower latency goes first exactly when adaptive sequencing is on, both
  latencies are known and they differ by more than the threshold; otherwise the configured leg does.
\<close>
theorem sequencing_decision_rule:
  "(sdOverride (determineSequencing env leg) \<longleftrightarrow> envAdaptive env \<and>
      (\<exists>k p. envLatency env Kalshi = Some k \<and> envLatency env Polymarket = Some p
         \<and> xgt (xabs (xsub b64 k p)) (envLatencyThreshold env)))
   \<and> (if sdOverride (determineSequencing env leg)
      then sdPrimaryLeg (determineSequencing env leg) =
        (if xlt (the (envLatency env Kalshi)) (the (envLatency env Polymarket)) then Kalshi else Polymarket)
      else sdPrimaryLeg (determineSequencing env leg) = leg)"
  by (auto simp: determineSequencing_def Let_def split: option.splits)

end
