(* ===== verification/Execution.thy ===== *)
theory Execution
  imports Legs
begin

text \<open>
  \<^verbatim>\<open>ExecutionService\<close>: the pipeline that turns a reserved opportunity into two orders.  It
  asks the compliance gate, sizes the trade by the collateral of both legs, asks both books for
  depth, sends the primary leg, then the secondary one, and records what was filled.  The lemmas
  say which orders a run can send and what its result tells about them, that the capital of a
  completed trade stays within the reservation, and what a failing database leaves behind.
\<close>

section \<open>Input\<close>

record pair_config =
  primaryLegCfg :: "platform option"
  kalshiContractId :: string
  polymarketContractId :: string
  polymarketClobTokenId :: string
  pairDescription :: string
  confidenceScoreCfg :: "jsnum option"
  matchIdCfg :: "string option"
  resolutionDateCfg :: "timestamp option"
  clusterIdCfg :: "string option"

record dislocation =
  pairConfig :: pair_config
  buyPlatformId :: platform
  buyPrice :: decimal
  sellPrice :: decimal

record enriched_input =
  enDislocation :: "dislocation option"
  enNetEdge :: decimal
  enGasFraction :: "decimal option"

record exec_config =
  minFillRatio :: jsnum
  minEdgeThreshold :: decimal
  dualLegMinDepthRatio :: jsnum

text \<open>The constructor and the reload; \<open>None\<close> is the constructor's refusal.\<close>

definition exec_config_init :: "jsnum \<Rightarrow> decimal option \<Rightarrow> jsnum \<Rightarrow> exec_config option" where
  "exec_config_init fillRatio edge depthRatio =
     (case (initial_ratio fillRatio, edge, initial_ratio depthRatio) of
        (Some f, Some e, Some d) \<Rightarrow>
          if xle e (Fin 0) then None
          else Some \<lparr>minFillRatio = f, minEdgeThreshold = e, dualLegMinDepthRatio = d\<rparr>
      | _ \<Rightarrow> None)"

definition exec_reloadConfig :: "jsnum option \<Rightarrow> jsnum option \<Rightarrow> exec_config \<Rightarrow> exec_config" where
  "exec_reloadConfig fillRatio depthRatio cfg =
     cfg\<lparr>minFillRatio := reload_ratio fillRatio (minFillRatio cfg),
         dualLegMinDepthRatio := reload_ratio depthRatio (dualLegMinDepthRatio cfg)\<rparr>"

record pipeline_state =
  psPair :: string
  psOpportunity :: string
  psReserved :: decimal
  psNetEdge :: decimal
  psGasFraction :: "decimal option"
  psConfidence :: "jsnum option"
  psSequencing :: sequencing_decision
  psPrimary :: platform
  psSecondary :: platform
  psIsPaper :: bool
  psMixedMode :: bool
  psPrimarySide :: order_side
  psSecondarySide :: order_side
  psTargetPrice :: decimal
  psSecondaryTargetPrice :: decimal
  psPrimaryContract :: string
  psSecondaryContract :: string
  psIdealCount :: jsnum
  psMetadata :: execution_metadata

section \<open>The gates before any order\<close>

definition validateCompliance ::
  "exec_env \<Rightarrow> platform \<Rightarrow> string \<Rightarrow> bool \<Rightarrow> bool \<Rightarrow> unit act" where
  "validateCompliance env primary desc isPaper mixed =
     (let vs = validate (envCompliance env) (execution_context primary desc) in
      if approved vs then act_return ()
      else act_bind (act_tell [Emitted (ComplianceBlockedEvent vs isPaper mixed)])
             (\<lambda>_. act_done (failure COMPLIANCE_BLOCKED)))"

definition leg_divisor :: "(rat \<Rightarrow> rat) \<Rightarrow> order_side \<Rightarrow> decimal \<Rightarrow> decimal" where
  "leg_divisor rd side target = (if side = Sell then xsub rd (Fin 1) target else target)"

definition xfloor :: "decimal \<Rightarrow> decimal" where
  "xfloor x = xmap (\<lambda>q. of_int \<lfloor>q\<rfloor>) x"

definition calculateIdealSize ::
  "(rat \<Rightarrow> rat) \<Rightarrow> order_side \<Rightarrow> order_side \<Rightarrow> decimal \<Rightarrow> decimal \<Rightarrow> decimal \<Rightarrow> string \<Rightarrow> bool \<Rightarrow> bool \<Rightarrow> jsnum act" where
  "calculateIdealSize rd side1 side2 price1 price2 reserved oppId isPaper mixed =
     (let combinedDivisor = xadd rd (leg_divisor rd side1 price1) (leg_divisor rd side2 price2) in
      if xle combinedDivisor (Fin 0) then
        act_bind (act_tell [Emitted (ExecutionFailedEvent GENERIC_EXECUTION_FAILURE oppId isPaper mixed)])
          (\<lambda>_. act_done (failure GENERIC_EXECUTION_FAILURE))
      else
        let idealCount = to_number (xfloor (xdiv rd reserved combinedDivisor)) in
        if xle idealCount (Fin 0) then act_done (failure GENERIC_EXECUTION_FAILURE)
        else act_return idealCount)"

definition min_fill_size :: "exec_config \<Rightarrow> jsnum \<Rightarrow> jsnum" where
  "min_fill_size cfg idealCount = js_ceil (xmul b64 idealCount (minFillRatio cfg))"

definition validateDualLegDepthGate ::
  "(rat \<Rightarrow> rat) \<Rightarrow> exec_config \<Rightarrow> exec_env \<Rightarrow> leg_query \<Rightarrow> leg_query \<Rightarrow> jsnum \<Rightarrow> string \<Rightarrow> string \<Rightarrow> decimal
     \<Rightarrow> bool \<Rightarrow> bool \<Rightarrow> unit act" where
  "validateDualLegDepthGate rd cfg env primary secondary idealCount pid oppId edge isPaper mixed =
     (let (res, failures) = validateDualLegDepth rd (dualLegMinDepthRatio cfg) primary secondary
            (envGateBook env) idealCount in
      act_bind (act_tell (map Emitted (map DepthCheckFailedEvent failures))) (\<lambda>_.
      if \<not> gatePassed res then
        act_bind (act_tell [Emitted (OpportunityFilteredEvent pid edge (to_decimal (minDepthRequired res)))])
          (\<lambda>_. act_done (failure INSUFFICIENT_LIQUIDITY))
      else if xlt (xmin (xmin idealCount (primaryDepth res)) (secondaryDepth res)) (min_fill_size cfg idealCount) then
        act_bind (act_tell [Emitted (ExecutionFailedEvent INSUFFICIENT_LIQUIDITY oppId isPaper mixed)])
          (\<lambda>_. act_done (failure INSUFFICIENT_LIQUIDITY))
      else act_return ()))"

text \<open>The sources of the data on Kalshi and on Polymarket, and whether they diverge.\<close>

definition classifyDataSources :: "exec_env \<Rightarrow> data_source \<times> data_source \<times> bool" where
  "classifyDataSources env =
     (let ds = (\<lambda>p. classifyDataSource (envLastWsUpdate env p) (envNow env) (envWsThreshold env))
      in (ds Kalshi, ds Polymarket, divergenceDetected (getDivergenceReport (envDivergence env))))"

text \<open>\<^verbatim>\<open>execute\<close> up to the point where the pipeline state is complete.\<close>

definition prepare ::
  "(rat \<Rightarrow> rat) \<Rightarrow> exec_config \<Rightarrow> exec_env \<Rightarrow> enriched_input \<Rightarrow> reservation_request \<Rightarrow> budget_reservation
     \<Rightarrow> pipeline_state act" where
  "prepare rd cfg env op req res =
     (case enDislocation op of
        None \<Rightarrow> act_done (failure GENERIC_EXECUTION_FAILURE)
      | Some dis \<Rightarrow>
          let pc = pairConfig dis;
              seqd = determineSequencing env (case primaryLegCfg pc of Some l \<Rightarrow> l | None \<Rightarrow> Kalshi);
              primary = fst (resolveConnectors (sdPrimaryLeg seqd));
              secondary = snd (resolveConnectors (sdPrimaryLeg seqd));
              isPaper = (envPaper env primary \<or> envPaper env secondary);
              mixed = (envPaper env primary \<noteq> envPaper env secondary);
              contract1 = (if primary = Kalshi then kalshiContractId pc else polymarketClobTokenId pc);
              contract2 = (if primary = Kalshi then polymarketClobTokenId pc else kalshiContractId pc)
          in
          act_bind (validateCompliance env primary (pairDescription pc) isPaper mixed) (\<lambda>_.
          let side1 = (if buyPlatformId dis = primary then Buy else Sell);
              side2 = (if side1 = Buy then Sell else Buy);
              price1 = (if side1 = Buy then buyPrice dis else sellPrice dis);
              price2 = (if side2 = Buy then buyPrice dis else sellPrice dis)
          in
          act_bind (calculateIdealSize rd side1 side2 price1 price2 (reservedCapitalUsd res)
              (reqOpportunityId req) isPaper mixed) (\<lambda>idealCount.
          act_bind (validateDualLegDepthGate rd cfg env
              \<lparr>lqContract = contract1, lqSide = side1, lqPrice = to_number price1, lqPlatform = primary\<rparr>
              \<lparr>lqContract = contract2, lqSide = side2, lqPrice = to_number price2, lqPlatform = secondary\<rparr>
              idealCount (reqPairId req) (reqOpportunityId req) (enNetEdge op) isPaper mixed) (\<lambda>_.
          let (kalshiSource, polymarketSource, diverged) = classifyDataSources env in
          act_return
            \<lparr>psPair = reqPairId req, psOpportunity = reqOpportunityId req,
             psReserved = reservedCapitalUsd res, psNetEdge = enNetEdge op,
             psGasFraction = enGasFraction op, psConfidence = confidenceScoreCfg pc,
             psSequencing = seqd, psPrimary = primary, psSecondary = secondary,
             psIsPaper = isPaper, psMixedMode = mixed, psPrimarySide = side1, psSecondarySide = side2,
             psTargetPrice = price1, psSecondaryTargetPrice = price2,
             psPrimaryContract = contract1, psSecondaryContract = contract2, psIdealCount = idealCount,
             psMetadata = \<lparr>mdPrimaryLeg = sdPrimaryLeg seqd, mdLatencyOverride = sdOverride seqd,
               mdKalshiLatency = sdKalshiLatency seqd, mdPolymarketLatency = sdPolymarketLatency seqd,
               mdIdealCount = idealCount, mdMatchedCount = Fin 0, mdKalshiSource = kalshiSource,
               mdPolymarketSource = polymarketSource, mdDivergence = diverged\<rparr>\<rparr>))))"

section \<open>Submitting the orders\<close>

definition checkPerLegDepth ::
  "(rat \<Rightarrow> rat) \<Rightarrow> exec_config \<Rightarrow> exec_env \<Rightarrow> pipeline_state \<Rightarrow> platform \<Rightarrow> string \<Rightarrow> order_side \<Rightarrow> decimal \<Rightarrow> jsnum act" where
  "checkPerLegDepth rd cfg env s p contract side target =
     (let (depth, failures) = getAvailableDepth rd (envLegBook env p) contract side (to_number target) p;
          capped = xmin (psIdealCount s) depth
      in
      act_bind (act_tell (map Emitted (map DepthCheckFailedEvent failures))) (\<lambda>_.
      if xlt capped (min_fill_size cfg (psIdealCount s)) then
        act_bind (act_tell [Emitted (ExecutionFailedEvent INSUFFICIENT_LIQUIDITY (psOpportunity s) (psIsPaper s) (psMixedMode s))])
          (\<lambda>_. act_done (failure INSUFFICIENT_LIQUIDITY))
      else act_return capped))"

definition combined_divisor :: "(rat \<Rightarrow> rat) \<Rightarrow> pipeline_state \<Rightarrow> decimal" where
  "combined_divisor rd s = xadd rd (leg_divisor rd (psPrimarySide s) (psTargetPrice s))
     (leg_divisor rd (psSecondarySide s) (psSecondaryTargetPrice s))"

definition adjusted_edge :: "(rat \<Rightarrow> rat) \<Rightarrow> pipeline_state \<Rightarrow> decimal \<Rightarrow> jsnum \<Rightarrow> decimal" where
  "adjusted_edge rd s gasFraction size' =
     (let conservativeSize = xmul rd (to_decimal size') (combined_divisor rd s);
          gasEstimate = xmul rd gasFraction (psReserved s);
          newGasFraction = xdiv rd gasEstimate conservativeSize
      in xsub rd (xadd rd (psNetEdge s) gasFraction) newGasFraction)"

definition validateEdgeAfterEqualization ::
  "(rat \<Rightarrow> rat) \<Rightarrow> exec_config \<Rightarrow> pipeline_state \<Rightarrow> jsnum \<Rightarrow> unit act" where
  "validateEdgeAfterEqualization rd cfg s size' =
     (case psGasFraction s of
        None \<Rightarrow> act_done (failure EDGE_ERODED_BY_SIZE)
      | Some g \<Rightarrow>
          if xlt (adjusted_edge rd s g size') (minEdgeThreshold cfg) then act_done (failure EDGE_ERODED_BY_SIZE)
          else act_return ())"

definition is_filled :: "order_result \<Rightarrow> bool" where
  "is_filled r \<longleftrightarrow> orStatus r = OrderFilled \<or> orStatus r = OrderPartial"

definition order_row_of ::
  "pipeline_state \<Rightarrow> platform \<Rightarrow> string \<Rightarrow> order_side \<Rightarrow> decimal \<Rightarrow> jsnum \<Rightarrow> order_result option \<Rightarrow> order_row" where
  "order_row_of s p contract side target size' result =
     \<lparr>rowPlatform = p, rowContract = contract, rowPair = psPair s, rowSide = side,
      rowPrice = to_number target, rowSize = size',
      rowStatus = (case result of None \<Rightarrow> RowPending
        | Some r \<Rightarrow> if orStatus r = OrderFilled then RowFilled else RowPartial),
      rowFillPrice = map_option filledPrice result, rowFillSize = map_option filledQuantity result,
      rowIsPaper = psIsPaper s\<rparr>"

definition create_order :: "exec_env \<Rightarrow> order_row \<Rightarrow> string act" where
  "create_order env row = act_bind (act_try (envCreateOrder env row))
     (\<lambda>i. act_bind (act_tell [OrderCreated row i]) (\<lambda>_. act_return i))"

definition submit_order :: "exec_env \<Rightarrow> platform \<Rightarrow> order_params \<Rightarrow> (string + order_result) act" where
  "submit_order env p q = act_bind (act_tell [Submitted p q (envSubmit env p q)]) (\<lambda>_. act_return (envSubmit env p q))"

record submit_success =
  sbPrimaryRow :: string
  sbSecondaryRow :: string
  sbPrimaryOrder :: order_result
  sbSecondaryOrder :: order_result
  sbEqualizedSize :: jsnum

definition handleExecutionFailure ::
  "(rat \<Rightarrow> rat) \<Rightarrow> exec_env \<Rightarrow> pipeline_state \<Rightarrow> string \<Rightarrow> order_result \<Rightarrow> jsnum \<Rightarrow> error_code \<Rightarrow> 'a act" where
  "handleExecutionFailure rd env s rowId order size' code =
     act_bind (handleSingleLeg rd env
       \<lparr>scPair = psPair s, scPrimaryLeg = psPrimary s, scPrimaryOrderId = rowId, scPrimaryOrder = order,
        scPrimarySide = psPrimarySide s, scSecondarySide = psSecondarySide s,
        scPrimaryPrice = psTargetPrice s, scSecondaryPrice = psSecondaryTargetPrice s, scSize = size',
        scNetEdge = psNetEdge s, scErrorCode = code, scIsPaper = psIsPaper s, scMixedMode = psMixedMode s,
        scMetadata = (psMetadata s)\<lparr>mdMatchedCount := size'\<rparr>\<rparr>) act_done"

definition leg_order :: "string \<Rightarrow> order_side \<Rightarrow> jsnum \<Rightarrow> decimal \<Rightarrow> order_params" where
  "leg_order contract side size' target =
     \<lparr>orContract = contract, orSide = side, orQuantity = size', orPrice = to_number target\<rparr>"

definition primary_order :: "pipeline_state \<Rightarrow> jsnum \<Rightarrow> order_params" where
  "primary_order s n = leg_order (psPrimaryContract s) (psPrimarySide s) n (psTargetPrice s)"

definition secondary_order :: "pipeline_state \<Rightarrow> jsnum \<Rightarrow> order_params" where
  "secondary_order s n = leg_order (psSecondaryContract s) (psSecondarySide s) n (psSecondaryTargetPrice s)"

text \<open>What follows the answer to the secondary order.\<close>

definition after_secondary ::
  "(rat \<Rightarrow> rat) \<Rightarrow> exec_env \<Rightarrow> pipeline_state \<Rightarrow> jsnum \<Rightarrow> string \<Rightarrow> order_result \<Rightarrow> string + order_result \<Rightarrow> submit_success act" where
  "after_secondary rd env s n rowId order answer =
     (case answer of
        Inl _ \<Rightarrow> handleExecutionFailure rd env s rowId order n ORDER_REJECTED
      | Inr second \<Rightarrow>
          let row = order_row_of s (psSecondary s) (psSecondaryContract s) (psSecondarySide s) (psSecondaryTargetPrice s) n
          in
          if \<not> is_filled second then
            act_bind (if orStatus second = OrderPending
                      then act_bind (create_order env (row None)) (\<lambda>_. act_return ()) else act_return ()) (\<lambda>_.
            handleExecutionFailure rd env s rowId order n
              (if orStatus second = OrderPending then ORDER_TIMEOUT else ORDER_REJECTED))
          else
            act_bind (create_order env (row (Some second))) (\<lambda>rowId2.
            act_return \<lparr>sbPrimaryRow = rowId, sbSecondaryRow = rowId2, sbPrimaryOrder = order,
              sbSecondaryOrder = second, sbEqualizedSize = n\<rparr>))"

text \<open>What follows the answer to the primary order: once it is filled and recorded, the secondary.\<close>

definition after_primary ::
  "(rat \<Rightarrow> rat) \<Rightarrow> exec_env \<Rightarrow> pipeline_state \<Rightarrow> jsnum \<Rightarrow> string + order_result \<Rightarrow> submit_success act" where
  "after_primary rd env s n answer =
     (case answer of
        Inl _ \<Rightarrow> act_done (failure ORDER_REJECTED)
      | Inr first \<Rightarrow>
          if \<not> is_filled first then
            act_done (failure (if orStatus first = OrderPending then ORDER_TIMEOUT else ORDER_REJECTED))
          else
            act_bind (create_order env (order_row_of s (psPrimary s) (psPrimaryContract s) (psPrimarySide s)
                (psTargetPrice s) n (Some first))) (\<lambda>rowId.
            act_bind (submit_order env (psSecondary s) (secondary_order s n)) (\<lambda>answer2.
            after_secondary rd env s n rowId first answer2)))"

definition submitOrderPair ::
  "(rat \<Rightarrow> rat) \<Rightarrow> exec_config \<Rightarrow> exec_env \<Rightarrow> pipeline_state \<Rightarrow> submit_success act" where
  "submitOrderPair rd cfg env s =
     act_bind (checkPerLegDepth rd cfg env s (psPrimary s) (psPrimaryContract s) (psPrimarySide s) (psTargetPrice s)) (\<lambda>capped1.
     act_bind (checkPerLegDepth rd cfg env s (psSecondary s) (psSecondaryContract s) (psSecondarySide s)
         (psSecondaryTargetPrice s)) (\<lambda>capped2.
     let equalizedSize = xmin capped1 capped2 in
     act_bind (if xlt equalizedSize (psIdealCount s)
               then validateEdgeAfterEqualization rd cfg s equalizedSize else act_return ()) (\<lambda>_.
     act_bind (submit_order env (psPrimary s) (primary_order s equalizedSize)) (\<lambda>answer.
     after_primary rd env s equalizedSize answer))))"

section \<open>The position\<close>

definition extractClosePrice :: "order_book \<Rightarrow> order_side \<Rightarrow> decimal \<Rightarrow> decimal" where
  "extractClosePrice book side fill =
     (case (if side = Buy then bids book else asks book) of
        level # _ \<Rightarrow> to_decimal (price level)
      | [] \<Rightarrow> fill)"

text \<open>Both books or, when one cannot be read, the fill prices.\<close>

definition close_prices :: "exec_env \<Rightarrow> pipeline_state \<Rightarrow> submit_success \<Rightarrow> decimal \<times> decimal" where
  "close_prices env s r =
     (let fill1 = to_decimal (filledPrice (sbPrimaryOrder r)); fill2 = to_decimal (filledPrice (sbSecondaryOrder r)) in
      case (envCloseBook env (psPrimary s), envCloseBook env (psSecondary s)) of
        (Inr book1, Inr book2) \<Rightarrow>
          (extractClosePrice book1 (psPrimarySide s) fill1, extractClosePrice book2 (psSecondarySide s) fill2)
      | _ \<Rightarrow> (fill1, fill2))"

definition entry_fee_rates :: "(rat \<Rightarrow> rat) \<Rightarrow> exec_env \<Rightarrow> decimal \<Rightarrow> decimal \<Rightarrow> decimal \<times> decimal" where
  "entry_fee_rates rd env kalshiClose polymarketClose =
     (case (envFeeSchedule env Kalshi, envFeeSchedule env Polymarket) of
        (Some k, Some p) \<Rightarrow> (calculateTakerFeeRate rd kalshiClose k, calculateTakerFeeRate rd polymarketClose p)
      | _ \<Rightarrow> (Fin (1/50), Fin (1/50)))"

definition position_of :: "(rat \<Rightarrow> rat) \<Rightarrow> exec_env \<Rightarrow> pipeline_state \<Rightarrow> submit_success \<Rightarrow> opened_position" where
  "position_of rd env s r =
     (let leg = on_leg (psPrimary s);
          (close1, close2) = close_prices env s r;
          kalshiClose = leg Kalshi close1 close2;
          polymarketClose = leg Polymarket close1 close2;
          (kalshiFee, polymarketFee) = entry_fee_rates rd env kalshiClose polymarketClose
      in \<lparr>posPair = psPair s,
          posKalshiOrder = Some (on_leg (psPrimary s) Kalshi (sbPrimaryRow r) (sbSecondaryRow r)),
          posPolymarketOrder = Some (on_leg (psPrimary s) Polymarket (sbPrimaryRow r) (sbSecondaryRow r)),
          posKalshiSide = on_leg (psPrimary s) Kalshi (psPrimarySide s) (psSecondarySide s),
          posPolymarketSide = on_leg (psPrimary s) Polymarket (psPrimarySide s) (psSecondarySide s),
          posKalshiPrice = leg Kalshi (psTargetPrice s) (psSecondaryTargetPrice s),
          posPolymarketPrice = leg Polymarket (psTargetPrice s) (psSecondaryTargetPrice s),
          posKalshiSize = sbEqualizedSize r, posPolymarketSize = sbEqualizedSize r,
          posExpectedEdge = to_number (psNetEdge s), posStatus = PositionOpen, posIsPaper = psIsPaper s,
          posEntry = Some \<lparr>efClosePriceKalshi = to_number kalshiClose, efClosePricePolymarket = to_number polymarketClose,
            efFeeRateKalshi = to_number kalshiFee, efFeeRatePolymarket = to_number polymarketFee,
            efConfidence = psConfidence s, efExitMode = envExitMode env\<rparr>,
          posMetadata = (psMetadata s)\<lparr>mdMatchedCount := sbEqualizedSize r\<rparr>\<rparr>)"

definition createPositionFromFills ::
  "(rat \<Rightarrow> rat) \<Rightarrow> exec_env \<Rightarrow> pipeline_state \<Rightarrow> submit_success \<Rightarrow> string act" where
  "createPositionFromFills rd env s r =
     (let row = position_of rd env s r in
      act_bind (act_try (envCreatePosition env row)) (\<lambda>pid.
      act_bind (act_tell [PositionCreated row pid]) (\<lambda>_. act_return pid)))"

definition filled_event_of ::
  "(rat \<Rightarrow> rat) \<Rightarrow> pipeline_state \<Rightarrow> string \<Rightarrow> platform \<Rightarrow> order_side \<Rightarrow> decimal \<Rightarrow> jsnum \<Rightarrow> order_result \<Rightarrow> string
     \<Rightarrow> fee_schedule \<Rightarrow> sequencing_decision option \<Rightarrow> exec_event" where
  "filled_event_of rd s rowId p side target size' order pid fee sq = OrderFilledEvent
     \<lparr>feOrderId = rowId, fePlatform = p, feSide = side, fePrice = to_number target, feSize = size',
      feFillPrice = filledPrice order, feFillSize = filledQuantity order, fePosition = pid,
      feIsPaper = psIsPaper s, feMixedMode = psMixedMode s,
      feFeeRate = calculateTakerFeeRate rd (to_decimal (filledPrice order)) fee,
      feGas = (case psGasFraction s of
         Some g \<Rightarrow> if is_zero g then None else Some (xmul rd g (psReserved s))
       | None \<Rightarrow> None),
      feSequencing = sq\<rparr>"

definition emitExecutionEvents ::
  "(rat \<Rightarrow> rat) \<Rightarrow> exec_env \<Rightarrow> pipeline_state \<Rightarrow> submit_success \<Rightarrow> string \<Rightarrow> unit act" where
  "emitExecutionEvents rd env s r pid =
     act_bind (act_try (envFeeSchedule env (psPrimary s))) (\<lambda>fee1.
     act_bind (act_try (envFeeSchedule env (psSecondary s))) (\<lambda>fee2.
     act_tell (map Emitted
       [filled_event_of rd s (sbPrimaryRow r) (psPrimary s) (psPrimarySide s) (psTargetPrice s) (sbEqualizedSize r)
          (sbPrimaryOrder r) pid fee1 (Some (psSequencing s)),
        filled_event_of rd s (sbSecondaryRow r) (psSecondary s) (psSecondarySide s) (psSecondaryTargetPrice s)
          (sbEqualizedSize r) (sbSecondaryOrder r) pid fee2 None])))"

section \<open>The whole run\<close>

definition leg_capital :: "(rat \<Rightarrow> rat) \<Rightarrow> order_side \<Rightarrow> decimal \<Rightarrow> jsnum \<Rightarrow> decimal" where
  "leg_capital rd side target size' =
     (if side = Sell then xmul rd (to_decimal size') (xsub rd (Fin 1) target) else xmul rd (to_decimal size') target)"

definition completed :: "(rat \<Rightarrow> rat) \<Rightarrow> pipeline_state \<Rightarrow> submit_success \<Rightarrow> string \<Rightarrow> full_result" where
  "completed rd s r pid =
     \<lparr>exec_success = True, exec_partialFill = False,
      actualCapitalUsed = Some (xadd rd (leg_capital rd (psPrimarySide s) (psTargetPrice s) (sbEqualizedSize r))
        (leg_capital rd (psSecondarySide s) (psSecondaryTargetPrice s) (sbEqualizedSize r))),
      exec_error = None, frErrorCode = None, frPosition = Some pid,
      frPrimaryOrder = Some (sbPrimaryOrder r), frSecondaryOrder = Some (sbSecondaryOrder r)\<rparr>"

definition finish :: "(rat \<Rightarrow> rat) \<Rightarrow> exec_env \<Rightarrow> pipeline_state \<Rightarrow> submit_success \<Rightarrow> full_result act" where
  "finish rd env s r =
     act_bind (createPositionFromFills rd env s r) (\<lambda>pid.
     act_bind (emitExecutionEvents rd env s r pid) (\<lambda>_. act_return (completed rd s r pid)))"

text \<open>The effects, and the result or the thrown error.\<close>

definition execute ::
  "(rat \<Rightarrow> rat) \<Rightarrow> exec_config \<Rightarrow> exec_env \<Rightarrow> enriched_input \<Rightarrow> reservation_request \<Rightarrow> budget_reservation
     \<Rightarrow> exec_effect list \<times> (string + full_result)" where
  "execute rd cfg env op req res =
     (case act_bind (prepare rd cfg env op req res) (\<lambda>s. act_bind (submitOrderPair rd cfg env s) (finish rd env s)) of
        (effs, Inr r) \<Rightarrow> (effs, Inr r)
      | (effs, Inl (Done r)) \<Rightarrow> (effs, Inr r)
      | (effs, Inl (Threw msg)) \<Rightarrow> (effs, Inl msg))"

section \<open>Which orders a run sends, and what its result tells about them\<close>

definition accepted :: "string + order_result \<Rightarrow> bool" where
  "accepted answer \<longleftrightarrow> (case answer of Inr r \<Rightarrow> is_filled r | Inl _ \<Rightarrow> False)"

lemma quiet_gates [simp]:
  "quiet (validateCompliance env p d isPaper mixed)"
  "quiet (calculateIdealSize rd s1 s2 p1 p2 c oid isPaper mixed)"
  "quiet (validateDualLegDepthGate rd cfg env l1 l2 n pid oid e isPaper mixed)"
  "quiet (checkPerLegDepth rd cfg env s p contract side target)"
  "quiet (validateEdgeAfterEqualization rd cfg s n)"
  unfolding validateCompliance_def calculateIdealSize_def validateDualLegDepthGate_def checkPerLegDepth_def
    validateEdgeAfterEqualization_def Let_def
  by (auto simp: split_beta simp del: map_map intro!: quiet_bind split: option.splits)

lemma clean_gates [simp]:
  "clean (validateCompliance env p d isPaper mixed)"
  "clean (calculateIdealSize rd s1 s2 p1 p2 c oid isPaper mixed)"
  "clean (validateDualLegDepthGate rd cfg env l1 l2 n pid oid e isPaper mixed)"
  "clean (checkPerLegDepth rd cfg env s p contract side target)"
  "clean (validateEdgeAfterEqualization rd cfg s n)"
  unfolding validateCompliance_def calculateIdealSize_def validateDualLegDepthGate_def checkPerLegDepth_def
    validateEdgeAfterEqualization_def Let_def
  by (auto simp: split_beta intro!: clean_bind split: option.splits)

lemma prepare_no_orders: "quiet (prepare rd cfg env op req res)" "clean (prepare rd cfg env op req res)"
  unfolding prepare_def Let_def
  by (auto simp: split_beta intro!: quiet_bind clean_bind split: option.splits)

lemma ideal_size_value:
  assumes "snd (calculateIdealSize rd s1 s2 p1 p2 c oid isPaper mixed) = Inr n"
  defines "d \<equiv> xadd rd (leg_divisor rd s1 p1) (leg_divisor rd s2 p2)"
  shows "n = to_number (xfloor (xdiv rd c d)) \<and> \<not> xle d (Fin 0) \<and> \<not> xle n (Fin 0)"
  using assms(1) unfolding d_def
  by (auto simp: calculateIdealSize_def Let_def act_return_def act_done_def act_stop_def act_tell_def act_bind_def
      split: if_splits)

text \<open>What the pipeline state knows.\<close>

lemma prepare_state:
  assumes "snd (prepare rd cfg env op req res) = Inr s"
  shows "psSecondary s = other_platform (psPrimary s) \<and> psSecondarySide s = opposite (psPrimarySide s)
    \<and> psReserved s = reservedCapitalUsd res
    \<and> psIdealCount s = to_number (xfloor (xdiv rd (psReserved s) (combined_divisor rd s)))
    \<and> \<not> xle (combined_divisor rd s) (Fin 0) \<and> \<not> xle (psIdealCount s) (Fin 0)
    \<and> (\<exists>dis. enDislocation op = Some dis
        \<and> psTargetPrice s = (if psPrimarySide s = Buy then buyPrice dis else sellPrice dis)
        \<and> psSecondaryTargetPrice s = (if psPrimarySide s = Buy then sellPrice dis else buyPrice dis))"
proof -
  obtain dis where dis: "enDislocation op = Some dis"
    using assms by (auto simp: prepare_def act_done_def act_stop_def split: option.splits)
  show ?thesis using assms
    by (auto simp: prepare_def dis Let_def bind_Inr act_return_def split_beta combined_divisor_def
        resolveConnectors_def dest: ideal_size_value)
qed

text \<open>The secondary leg: one more order, and what its answer leads to.\<close>

lemma handle_failure_cases:
  "\<exists>effs st. (handleExecutionFailure rd env s rowId order n code :: 'a act) = (effs, Inl st) \<and> submissions effs = []
     \<and> ((\<exists>r. st = Done r \<and> exec_partialFill r \<and> \<not> exec_success r) \<or> (\<exists>msg. st = Threw msg))"
proof -
  define c where "c = \<lparr>scPair = psPair s, scPrimaryLeg = psPrimary s, scPrimaryOrderId = rowId, scPrimaryOrder = order,
        scPrimarySide = psPrimarySide s, scSecondarySide = psSecondarySide s,
        scPrimaryPrice = psTargetPrice s, scSecondaryPrice = psSecondaryTargetPrice s, scSize = n,
        scNetEdge = psNetEdge s, scErrorCode = code, scIsPaper = psIsPaper s, scMixedMode = psMixedMode s,
        scMetadata = (psMetadata s)\<lparr>mdMatchedCount := n\<rparr>\<rparr>"
  have h: "(handleExecutionFailure rd env s rowId order n code :: 'a act) = act_bind (handleSingleLeg rd env c) act_done"
    by (simp add: handleExecutionFailure_def c_def)
  have q: "submissions (fst (handleSingleLeg rd env c)) = []" using quiet_single_leg by (simp add: quiet_def)
  obtain effs out where m: "handleSingleLeg rd env c = (effs, out)" by (cases "handleSingleLeg rd env c")
  have "snd (effs, out) = out" "submissions effs = []" using q m by simp_all
  show ?thesis
  proof (cases out)
    case (Inl st)
    then have "\<exists>msg. st = Threw msg" using single_leg_stop [of rd env c st] m by simp
    then show ?thesis unfolding h m Inl bind_stop using \<open>submissions effs = []\<close> by blast
  next
    case (Inr r)
    then have "exec_partialFill r \<and> \<not> exec_success r" using single_leg_result [of rd env c r] m by simp
    then show ?thesis unfolding h m Inr bind_value act_done_def act_stop_def using \<open>submissions effs = []\<close> by auto
  qed
qed

lemma create_order_cases:
  "(\<exists>i. envCreateOrder env row = Some i \<and> create_order env row = ([OrderCreated row i], Inr i)) \<or> (\<exists>msg. create_order env row = ([], Inl (Threw msg)))"
  by (cases "envCreateOrder env row")
    (auto simp: create_order_def act_try_def act_return_def act_throw_def act_stop_def act_tell_def act_bind_def)

lemma submit_bind:
  "act_bind (submit_order env p q) f =
     (Submitted p q (envSubmit env p q) # fst (f (envSubmit env p q)), snd (f (envSubmit env p q)))"
  by (simp add: submit_order_def act_tell_def act_return_def bind_value)

text \<open>What follows an answer sends no order and ends according to the answer.\<close>

definition secondary_outcome :: "jsnum \<Rightarrow> string + order_result \<Rightarrow> exec_stop + submit_success \<Rightarrow> bool" where
  "secondary_outcome n answer out \<longleftrightarrow> (case out of
       Inr b \<Rightarrow> accepted answer \<and> sbEqualizedSize b = n
     | Inl (Done r) \<Rightarrow> \<not> accepted answer \<and> exec_partialFill r \<and> \<not> exec_success r
     | Inl (Threw _) \<Rightarrow> True)"

lemma failure_outcome:
  assumes "\<not> accepted answer"
  shows "submissions (fst (handleExecutionFailure rd env s rowId order n code :: submit_success act)) = []"
    and "secondary_outcome n answer (snd (handleExecutionFailure rd env s rowId order n code))"
  using handle_failure_cases [where 'a = submit_success, of rd env s rowId order n code] assms
  by (auto simp: secondary_outcome_def)

lemma after_secondary_cases:
  "submissions (fst (after_secondary rd env s n rowId order answer)) = []
   \<and> secondary_outcome n answer (snd (after_secondary rd env s n rowId order answer))"
proof (cases answer)
  case (Inl msg)
  then show ?thesis using failure_outcome [of answer] by (simp add: after_secondary_def accepted_def)
next
  case (Inr r2)
  let ?row = "order_row_of s (psSecondary s) (psSecondaryContract s) (psSecondarySide s) (psSecondaryTargetPrice s) n"
  show ?thesis
  proof (cases "is_filled r2")
    case True
    then show ?thesis
      using create_order_cases [of env "?row (Some r2)"] Inr
      by (auto simp: after_secondary_def Let_def bind_value act_return_def accepted_def secondary_outcome_def)
  next
    case False
    then have "\<not> accepted answer" using Inr by (simp add: accepted_def)
    note f = failure_outcome [OF this]
    define code where "code = (if orStatus r2 = OrderPending then ORDER_TIMEOUT else ORDER_REJECTED)"
    have e: "after_secondary rd env s n rowId order answer =
      act_bind (if orStatus r2 = OrderPending
                then act_bind (create_order env (?row None)) (\<lambda>_. act_return ()) else act_return ())
        (\<lambda>_. handleExecutionFailure rd env s rowId order n code)"
      using False Inr by (simp add: after_secondary_def code_def)
    show ?thesis
    proof (cases "orStatus r2 = OrderPending")
      case True
      then show ?thesis unfolding e using create_order_cases [of env "?row None"] f
        by (auto simp: bind_value act_return_def secondary_outcome_def)
    next
      case False
      then show ?thesis unfolding e using f by simp
    qed
  qed
qed

text \<open>
  What a submission may send and how it may end: nothing, with a refusal; the primary order alone,
  refused or followed by a thrown error; or both orders.  \<open>n\<close> is the common quantity.
\<close>

definition pair_outcome ::
  "exec_env \<Rightarrow> pipeline_state \<Rightarrow> jsnum \<Rightarrow> (platform \<times> order_params \<times> (string + order_result)) list
     \<Rightarrow> exec_stop + submit_success \<Rightarrow> bool" where
  "pair_outcome env s n sent out \<longleftrightarrow>
     (let o1 = envSubmit env (psPrimary s) (primary_order s n);
          o2 = envSubmit env (psSecondary s) (secondary_order s n);
          first = (psPrimary s, primary_order s n, o1); second = (psSecondary s, secondary_order s n, o2) in
      (sent = [first] \<and> (if accepted o1 then \<exists>msg. out = Inl (Threw msg) else \<exists>r. out = Inl (Done r) \<and> refusal r))
      \<or> (sent = [first, second] \<and> accepted o1 \<and> (\<exists>row i. envCreateOrder env row = Some i)
        \<and> secondary_outcome n o2 out))"

lemma primary_outcome:
  "pair_outcome env s n
     (submissions (fst (act_bind (submit_order env (psPrimary s) (primary_order s n)) (after_primary rd env s n))))
     (snd (act_bind (submit_order env (psPrimary s) (primary_order s n)) (after_primary rd env s n)))"
proof (cases "envSubmit env (psPrimary s) (primary_order s n)")
  case (Inl msg)
  then show ?thesis
    by (simp add: submit_bind after_primary_def act_done_def act_stop_def pair_outcome_def accepted_def)
next
  case (Inr r1)
  show ?thesis
  proof (cases "is_filled r1")
    case False
    then show ?thesis using Inr
      by (simp add: submit_bind after_primary_def act_done_def act_stop_def pair_outcome_def accepted_def)
  next
    case True
    then show ?thesis
      using Inr create_order_cases [of env "order_row_of s (psPrimary s) (psPrimaryContract s) (psPrimarySide s)
        (psTargetPrice s) n (Some r1)"] after_secondary_cases
      by (auto simp: submit_bind after_primary_def pair_outcome_def accepted_def bind_value Let_def)
  qed
qed

lemma gate_step:
  assumes "quiet m" "clean m"
  obtains (stop) effs r where "m = (effs, Inl (Done r))" "refusal r" "submissions effs = []"
    | (go) effs a where "m = (effs, Inr a)" "submissions effs = []"
proof (cases m)
  case (Pair effs out)
  then have "submissions effs = []" using assms(1) by (simp add: quiet_def)
  then show ?thesis using Pair assms(2) stop go by (cases out) (auto simp: clean_def)
qed

text \<open>
  A submission either stops before the first order, or has a common quantity between the least
  fill and the ideal size, sends the primary order and goes on as above.
\<close>

definition sized :: "(rat \<Rightarrow> rat) \<Rightarrow> exec_config \<Rightarrow> exec_env \<Rightarrow> pipeline_state \<Rightarrow> jsnum \<Rightarrow> bool" where
  "sized rd cfg env s n \<longleftrightarrow> (\<exists>c1 c2.
     n = xmin (xmin (psIdealCount s) c1) (xmin (psIdealCount s) c2)
     \<and> (\<exists>k side t. c1 = fst (getAvailableDepth rd (envLegBook env (psPrimary s)) k side t (psPrimary s)))
     \<and> (\<exists>k side t. c2 = fst (getAvailableDepth rd (envLegBook env (psSecondary s)) k side t (psSecondary s)))
     \<and> \<not> xlt (xmin (psIdealCount s) c1) (min_fill_size cfg (psIdealCount s))
     \<and> \<not> xlt (xmin (psIdealCount s) c2) (min_fill_size cfg (psIdealCount s))
     \<and> (xlt n (psIdealCount s) \<longrightarrow>
          (\<exists>g. psGasFraction s = Some g \<and> \<not> xlt (adjusted_edge rd s g n) (minEdgeThreshold cfg))))"

lemma submit_pair_cases:
  obtains (none) effs r where "submitOrderPair rd cfg env s = (effs, Inl (Done r))" "refusal r" "submissions effs = []"
    | (sent) n where
        "pair_outcome env s n (submissions (fst (submitOrderPair rd cfg env s))) (snd (submitOrderPair rd cfg env s))"
        "sized rd cfg env s n"
proof -
  let ?m1 = "checkPerLegDepth rd cfg env s (psPrimary s) (psPrimaryContract s) (psPrimarySide s) (psTargetPrice s)"
  let ?m2 = "checkPerLegDepth rd cfg env s (psSecondary s) (psSecondaryContract s) (psSecondarySide s) (psSecondaryTargetPrice s)"
  have depth: "\<exists>c k side t. a = xmin (psIdealCount s) c \<and> c = fst (getAvailableDepth rd (envLegBook env p) k side t p)
      \<and> \<not> xlt a (min_fill_size cfg (psIdealCount s))"
    if "snd (checkPerLegDepth rd cfg env s p k side target) = Inr a" for p k side target a
    using that by (auto simp: checkPerLegDepth_def Let_def split_beta act_tell_def act_done_def act_stop_def act_return_def
        bind_value split: if_splits)
  have q1: "quiet ?m1" "clean ?m1" and q2: "quiet ?m2" "clean ?m2" by simp_all
  from q1 show ?thesis
  proof (cases rule: gate_step)
    case (stop effs r)
    then show ?thesis using none by (simp add: submitOrderPair_def)
  next
    case (go e1 a1)
    note m1 = this
    from q2 show ?thesis
    proof (cases rule: gate_step)
      case (stop effs r)
      then show ?thesis using none m1 by (simp add: submitOrderPair_def bind_value)
    next
      case (go e2 a2)
      note m2 = this
      let ?n = "xmin a1 a2"
      let ?m3 = "if xlt ?n (psIdealCount s) then validateEdgeAfterEqualization rd cfg s ?n else act_return ()"
      have q3: "quiet ?m3" "clean ?m3" by simp_all
      from q3 show ?thesis
      proof (cases rule: gate_step)
        case (stop effs r)
        then show ?thesis using none m1 m2 by (simp add: submitOrderPair_def bind_value)
      next
        case (go e3 u)
        let ?rest = "act_bind (submit_order env (psPrimary s) (primary_order s ?n)) (after_primary rd env s ?n)"
        have "submissions (fst (submitOrderPair rd cfg env s)) = submissions (fst ?rest)"
          "snd (submitOrderPair rd cfg env s) = snd ?rest"
          using m1 m2 go by (simp_all add: submitOrderPair_def bind_value Let_def)
        then have pair: "pair_outcome env s ?n (submissions (fst (submitOrderPair rd cfg env s)))
            (snd (submitOrderPair rd cfg env s))"
          using primary_outcome by simp
        obtain c1 where "a1 = xmin (psIdealCount s) c1"
          "\<exists>k side t. c1 = fst (getAvailableDepth rd (envLegBook env (psPrimary s)) k side t (psPrimary s))"
          "\<not> xlt a1 (min_fill_size cfg (psIdealCount s))"
          using depth m1(1) by (metis snd_conv)
        moreover obtain c2 where "a2 = xmin (psIdealCount s) c2"
          "\<exists>k side t. c2 = fst (getAvailableDepth rd (envLegBook env (psSecondary s)) k side t (psSecondary s))"
          "\<not> xlt a2 (min_fill_size cfg (psIdealCount s))"
          using depth m2(1) by (metis snd_conv)
        moreover have "\<exists>g. psGasFraction s = Some g \<and> \<not> xlt (adjusted_edge rd s g ?n) (minEdgeThreshold cfg)"
          if "xlt ?n (psIdealCount s)"
          using go(1) that by (auto simp: validateEdgeAfterEqualization_def act_done_def act_stop_def split: option.splits if_splits)
        ultimately have "sized rd cfg env s ?n" unfolding sized_def by blast
        then show ?thesis using sent pair by blast
      qed
    qed
  qed
qed

lemma finish_cases:
  obtains (thrown) effs msg where "finish rd env s b = (effs, Inl (Threw msg))" "submissions effs = []"
    | (filled) effs pid where "finish rd env s b = (effs, Inr (completed rd s b pid))" "submissions effs = []"
        "PositionCreated (position_of rd env s b) pid \<in> set effs"
proof (cases "envCreatePosition env (position_of rd env s b)")
  case None
  then have "finish rd env s b = ([], Inl (Threw []))"
    by (simp add: finish_def createPositionFromFills_def act_try_def act_throw_def act_stop_def)
  then show ?thesis using thrown by simp
next
  case (Some pid)
  have c: "createPositionFromFills rd env s b = ([PositionCreated (position_of rd env s b) pid], Inr pid)"
    by (simp add: createPositionFromFills_def Some act_try_def act_tell_def act_return_def bind_value Let_def)
  obtain effs out where e: "emitExecutionEvents rd env s b pid = (effs, out)" by fastforce
  have q: "submissions effs = [] \<and> (case out of Inl st \<Rightarrow> \<exists>msg. st = Threw msg | Inr _ \<Rightarrow> True)"
    using e by (auto simp: emitExecutionEvents_def act_try_def act_throw_def act_stop_def act_tell_def act_return_def bind_value
        split: option.splits)
  show ?thesis
  proof (cases out)
    case (Inl st)
    then show ?thesis using thrown c e q by (auto simp: finish_def bind_value)
  next
    case (Inr u)
    then show ?thesis using filled c e q by (auto simp: finish_def bind_value act_return_def)
  qed
qed

text \<open>The run in terms of its three parts.\<close>

lemma execute_cases:
  assumes "execute rd cfg env op req res = (effs, out)"
  obtains (refused) r where "submissions effs = []" "out = Inr r" "refusal r"
    | (stopped) s n r where "snd (prepare rd cfg env op req res) = Inr s" "sized rd cfg env s n"
        "out = Inr r" "pair_outcome env s n (submissions effs) (Inl (Done r))"
    | (thrown) s n msg out' where "snd (prepare rd cfg env op req res) = Inr s" "sized rd cfg env s n"
        "out = Inl msg" "pair_outcome env s n (submissions effs) out'" "\<And>r. out' \<noteq> Inl (Done r)"
    | (filled) s n b pid where "snd (prepare rd cfg env op req res) = Inr s" "sized rd cfg env s n"
        "out = Inr (completed rd s b pid)" "pair_outcome env s n (submissions effs) (Inr b)"
        "PositionCreated (position_of rd env s b) pid \<in> set effs"
proof -
  have "quiet (prepare rd cfg env op req res)" "clean (prepare rd cfg env op req res)"
    by (rule prepare_no_orders)+
  then show ?thesis
  proof (cases rule: gate_step)
    case (stop e r)
    then show ?thesis using assms refused by (auto simp: execute_def)
  next
    case (go e s)
    note prep = this
    have s: "snd (prepare rd cfg env op req res) = Inr s" using prep by simp
    show ?thesis
    proof (cases rule: submit_pair_cases [of rd cfg env s, case_names none sent])
      case (none e2 r)
      then show ?thesis using assms refused prep by (auto simp: execute_def bind_value)
    next
      case (sent n)
      obtain e2 out2 where sub: "submitOrderPair rd cfg env s = (e2, out2)" by fastforce
      show ?thesis
      proof (cases out2)
        case (Inl st)
        then show ?thesis using assms prep sub sent s stopped thrown
          by (cases st) (auto simp: execute_def bind_value)
      next
        case (Inr b)
        have p: "pair_outcome env s n (submissions e2) (Inr b)" using sent(1) sub Inr by simp
        show ?thesis
        proof (cases rule: finish_cases [of rd env s b, case_names thrown filled])
          case (thrown e3 msg)
          then show ?thesis using assms prep sub Inr p that(3) [OF s sent(2) _ _] 
            by (auto simp: execute_def bind_value)
        next
          case (filled e3 pid)
          then show ?thesis using assms prep sub Inr p that(4) [OF s sent(2)]
            by (auto simp: execute_def bind_value)
        qed
      qed
    qed
  qed
qed

lemma pair_outcome_orders:
  assumes "pair_outcome env s n sent out" "psSecondary s = other_platform (psPrimary s)"
    and "psSecondarySide s = opposite (psPrimarySide s)"
  obtains (one) p q o1 where "sent = [(p, q, o1)]" "orQuantity q = n" "accepted o1 \<Longrightarrow> \<exists>msg. out = Inl (Threw msg)"
      "\<not> accepted o1 \<Longrightarrow> \<exists>r. out = Inl (Done r) \<and> refusal r"
  | (two) p q1 o1 q2 o2 where "sent = [(p, q1, o1), (other_platform p, q2, o2)]" "accepted o1"
      "orQuantity q1 = n" "orQuantity q2 = n" "orSide q2 = opposite (orSide q1)" "secondary_outcome n o2 out"
      "\<exists>row i. envCreateOrder env row = Some i"
proof -
  define o1 where "o1 = envSubmit env (psPrimary s) (primary_order s n)"
  define o2 where "o2 = envSubmit env (psSecondary s) (secondary_order s n)"
  have q: "orQuantity (primary_order s n) = n" "orQuantity (secondary_order s n) = n"
    "orSide (secondary_order s n) = opposite (orSide (primary_order s n))"
    using assms(3) by (simp_all add: primary_order_def secondary_order_def leg_order_def)
  have "(sent = [(psPrimary s, primary_order s n, o1)]
      \<and> (if accepted o1 then \<exists>msg. out = Inl (Threw msg) else \<exists>r. out = Inl (Done r) \<and> refusal r))
    \<or> (sent = [(psPrimary s, primary_order s n, o1), (other_platform (psPrimary s), secondary_order s n, o2)]
      \<and> accepted o1 \<and> (\<exists>row i. envCreateOrder env row = Some i) \<and> secondary_outcome n o2 out)"
    using assms(1) unfolding pair_outcome_def Let_def o1_def o2_def assms(2) .
  then show ?thesis
  proof
    assume "sent = [(psPrimary s, primary_order s n, o1)]
      \<and> (if accepted o1 then \<exists>msg. out = Inl (Threw msg) else \<exists>r. out = Inl (Done r) \<and> refusal r)"
    then show ?thesis using one [of "psPrimary s" "primary_order s n" o1] q(1) by simp
  next
    assume "sent = [(psPrimary s, primary_order s n, o1), (other_platform (psPrimary s), secondary_order s n, o2)]
      \<and> accepted o1 \<and> (\<exists>row i. envCreateOrder env row = Some i) \<and> secondary_outcome n o2 out"
    then show ?thesis using two [of "psPrimary s" "primary_order s n" o1 "secondary_order s n" o2] q by simp
  qed
qed

lemma execute_shape:
  "case execute rd cfg env op req res of (effs, out) \<Rightarrow>
     (submissions effs = [] \<and> (\<exists>r. out = Inr r \<and> refusal r))
     \<or> (\<exists>p q o1. submissions effs = [(p, q, o1)]
          \<and> (if accepted o1 then \<exists>msg. out = Inl msg else \<exists>r. out = Inr r \<and> refusal r))
     \<or> (\<exists>p q1 o1 q2 o2. submissions effs = [(p, q1, o1), (other_platform p, q2, o2)] \<and> accepted o1
          \<and> orQuantity q2 = orQuantity q1 \<and> orSide q2 = opposite (orSide q1)
          \<and> (case out of
               Inl _ \<Rightarrow> True
             | Inr r \<Rightarrow> exec_success r = accepted o2 \<and> exec_partialFill r = (\<not> accepted o2)))"
proof -
  obtain effs out where e: "execute rd cfg env op req res = (effs, out)" by fastforce
  have st: "psSecondary s = other_platform (psPrimary s) \<and> psSecondarySide s = opposite (psPrimarySide s)"
    if "snd (prepare rd cfg env op req res) = Inr s" for s using prepare_state [OF that] by blast
  from e show ?thesis
  proof (cases rule: execute_cases)
    case (refused r)
    then show ?thesis by (simp add: e)
  next
    case (stopped s n r)
    from stopped(4) st [OF stopped(1), THEN conjunct1] st [OF stopped(1), THEN conjunct2] show ?thesis
      by (cases rule: pair_outcome_orders) (auto simp: e stopped(3) secondary_outcome_def)
  next
    case (thrown s n msg out')
    from thrown(4) st [OF thrown(1), THEN conjunct1] st [OF thrown(1), THEN conjunct2] show ?thesis
      by (cases rule: pair_outcome_orders) (use thrown(5) in \<open>auto simp: e thrown(3)\<close>)
  next
    case (filled s n b pid)
    from filled(4) st [OF filled(1), THEN conjunct1] st [OF filled(1), THEN conjunct2] show ?thesis
      by (cases rule: pair_outcome_orders) (auto simp: e filled(3) secondary_outcome_def completed_def)
  qed
qed


text \<open>The second order waits for the row of the first.\<close>

lemma second_order_needs_row:
  assumes "execute rd cfg env op req res = (effs, out)" "\<forall>row. envCreateOrder env row = None"
  shows "length (submissions effs) \<le> 1"
  using assms(1)
  by (cases rule: execute_cases) (auto simp: pair_outcome_def Let_def assms(2))

section \<open>The capital of a trade\<close>

context decimal_rounding
begin

text \<open>The quotient that sizes a trade never rounds up past an affordable count.\<close>

lemma floor_quotient_affordable:
  assumes "money R" "0 \<le> R" "R \<le> 10 ^ 8" "grid4 D" "0 < D" "D \<le> 1"
  shows "of_int \<lfloor>rd (R / D)\<rfloor> * D \<le> R" and "\<lfloor>rd (R / D)\<rfloor> \<le> 10 ^ 12"
proof -
  let ?N = "\<lfloor>rd (R / D)\<rfloor>"
  obtain r :: int where r: "R * 10 ^ 8 = of_int r" using assms(1) by (auto simp: money_iff grid_iff)
  obtain d :: int where d: "D * 10 ^ 4 = of_int d" using assms(4) by (auto simp: grid4_iff)
  have "0 < (of_int d :: rat)" using assms(5) by (simp flip: d)
  then have d1: "1 \<le> d" by simp
  then have D4: "1 \<le> D * 10 ^ 4" using d by simp
  then have "10 ^ 8 \<le> 10 ^ 8 * (D * 10 ^ 4)" by simp
  then have "R \<le> 10 ^ 12 * D" using assms(3) by simp
  then have "R / D \<le> 10 ^ 12" using assms(5) by (simp add: pos_divide_le_eq)
  moreover have "rd (10 ^ 12) = 10 ^ 12" using rd_int [of "10 ^ 12"] by simp
  ultimately have N12: "rd (R / D) \<le> 10 ^ 12" by (rule rd_le_fix)
  then show le12: "?N \<le> 10 ^ 12" using floor_mono [OF N12] by simp
  show "of_int ?N * D \<le> R"
  proof (rule ccontr)
    assume "\<not> of_int ?N * D \<le> R"
    then have lt: "R < of_int ?N * D" by simp
    then have "0 < of_int ?N * D" using assms(2) by simp
    then have N0: "0 < ?N" using assms(5) by (simp add: zero_less_mult_iff)
    have "of_int r < (of_int (?N * d * 10 ^ 4) :: rat)" using lt r d by (simp add: algebra_simps flip: r d)
    then have "r + 1 \<le> ?N * d * 10 ^ 4" by linarith
    then have "of_int r + 1 \<le> (of_int (?N * d * 10 ^ 4) :: rat)" by linarith
    then have "R * 10 ^ 8 + 1 \<le> of_int ?N * (D * 10 ^ 4) * 10 ^ 4" unfolding r d by simp
    then have "R * 10 ^ 8 + D \<le> of_int ?N * D * 10 ^ 8" using assms(6) by simp
    then have "R \<le> (of_int ?N - 1 / 10 ^ 8) * D" by (simp add: algebra_simps)
    then have "R / D \<le> of_int ?N - 1 / 10 ^ 8" using assms(5) by (simp add: pos_divide_le_eq)
    moreover have "rd (of_int ?N - 1 / 10 ^ 8) = of_int ?N - 1 / 10 ^ 8"
    proof (rule rd_grid)
      show "grid (of_int ?N - 1 / 10 ^ 8)"
        unfolding grid_iff by (rule exI [of _ "?N * 10 ^ 8 - 1"]) (simp add: algebra_simps)
      have "(of_int ?N :: rat) \<le> of_int (10 ^ 12)" using le12 by (rule of_int_le_iff [THEN iffD2])
      moreover have "(1 :: rat) \<le> of_int ?N" using N0 by simp
      moreover have "\<bar>x - 1 / 10 ^ 8\<bar> \<le> 10 ^ 12" if "1 \<le> x" "x \<le> of_int (10 ^ 12)" for x :: rat
        using that by (simp add: abs_le_iff)
      ultimately show "\<bar>of_int ?N - 1 / 10 ^ 8\<bar> \<le> (10 ^ 12 :: rat)" by blast
    qed
    ultimately have "rd (R / D) \<le> of_int ?N - 1 / 10 ^ 8" by (rule rd_le_fix)
    moreover have "of_int ?N \<le> rd (R / D)" by simp
    ultimately show False by simp
  qed
qed

lemma leg_divisor_value:
  assumes "grid4 x" "0 \<le> x" "x \<le> 1"
  shows "leg_divisor rd side (Fin x) = Fin (if side = Sell then 1 - x else x)"
proof -
  have "rd (1 - x) = 1 - x"
    using assms by (intro rd_grid grid4_grid grid4_diff grid4_1) (simp_all add: abs_le_iff)
  then show ?thesis by (simp add: leg_divisor_def)
qed

text \<open>Both legs' divisors, and their sum, for prices on the tick grid with the sale above the purchase.\<close>

lemma divisors_value:
  assumes "grid4 b" "grid4 s" "0 \<le> b" "b \<le> s" "s \<le> 1" "side2 = opposite side1"
  obtains d1 d2 where "leg_divisor rd side1 (if side1 = Buy then Fin b else Fin s) = Fin d1"
    "leg_divisor rd side2 (if side1 = Buy then Fin s else Fin b) = Fin d2"
    "xadd rd (Fin d1) (Fin d2) = Fin (b + 1 - s)" "d1 + d2 = b + 1 - s" "0 \<le> d1" "0 \<le> d2" "d1 \<le> 1" "d2 \<le> 1"
    "grid4 d1" "grid4 d2"
proof -
  have g: "grid4 (b + 1 - s)"
    using grid4_diff [OF assms(1) grid4_diff [OF assms(2) grid4_1]] by (simp add: algebra_simps)
  have "rd (b + 1 - s) = b + 1 - s" using assms g by (intro rd_grid grid4_grid) (simp_all add: abs_le_iff)
  then show ?thesis
    using that [of "if side1 = Buy then b else 1 - s" "if side1 = Buy then 1 - s else b"] assms
      leg_divisor_value [of b] leg_divisor_value [of s]
    by (cases side1) (simp_all add: algebra_simps grid4_diff grid4_1)
qed

lemma capital_bound:
  assumes "0 \<le> N" "N \<le> 10 ^ 12" "0 \<le> e" "e \<le> of_int N"
    and "grid4 d1" "grid4 d2" "0 \<le> d1" "0 \<le> d2" "d1 \<le> 1" "d2 \<le> 1" "d1 + d2 \<le> 1"
  shows "\<exists>c. xadd rd (xmul rd (to_decimal (Fin e)) (Fin d1)) (xmul rd (to_decimal (Fin e)) (Fin d2)) = Fin c
    \<and> 0 \<le> c \<and> c \<le> of_int N * (d1 + d2)"
proof -
  have N12: "(of_int N :: rat) \<le> 10 ^ 12"
    using of_int_le_iff [where 'a = rat, THEN iffD2, OF assms(2)] by simp
  have e: "0 \<le> shortest e" "shortest e \<le> of_int N"
    using assms(1-4) shortest_le_int [of e N] by simp_all
  have exact: "rd (of_int N * d) = of_int N * d" if "grid4 d" "0 \<le> d" "d \<le> 1" for d
  proof (rule rd_grid)
    show "grid (of_int N * d)" using grid4_grid [OF that(1)]
      unfolding grid_iff by (metis (no_types, opaque_lifting) mult.assoc of_int_mult)
    have "of_int N * d \<le> of_int N * 1" using that assms(1) by (intro mult_left_mono) simp_all
    then show "\<bar>of_int N * d\<bar> \<le> 10 ^ 12" using N12 that assms(1) by (simp add: abs_le_iff)
  qed
  have leg: "0 \<le> rd (shortest e * d) \<and> rd (shortest e * d) \<le> of_int N * d" if "grid4 d" "0 \<le> d" "d \<le> 1" for d
    using rd_le_fix [OF _ exact [OF that], of "shortest e * d"] e that by (simp add: mult_right_mono)
  have "rd (of_int N * (d1 + d2)) = of_int N * (d1 + d2)"
    using assms by (intro exact) (simp_all add: grid4_iff ring_distribs, metis of_int_add)
  moreover have "rd (shortest e * d1) + rd (shortest e * d2) \<le> of_int N * (d1 + d2)"
    using leg [of d1] leg [of d2] assms by (simp add: ring_distribs)
  ultimately have "rd (rd (shortest e * d1) + rd (shortest e * d2)) \<le> of_int N * (d1 + d2)" by (intro rd_le_fix)
  then show ?thesis using leg [of d1] leg [of d2] assms by simp
qed

end

definition finite_books :: "exec_env \<Rightarrow> bool" where
  "finite_books env \<longleftrightarrow> (\<forall>p. case envLegBook env p of
     Inr book \<Rightarrow> \<forall>l \<in> set (bids book) \<union> set (asks book). is_fin (quantity l)
   | Inl _ \<Rightarrow> True)"

lemma depth_finite:
  assumes "finite_books env"
  shows "is_fin (fst (getAvailableDepth rd (envLegBook env p) k side t p))"
proof (cases "envLegBook env p")
  case (Inl e)
  then show ?thesis by (cases e) (simp add: getAvailableDepth_def)
next
  case (Inr book)
  have "\<forall>l \<in> set (bids book) \<union> set (asks book). is_fin (quantity l)"
    using assms [unfolded finite_books_def, rule_format, of p] Inr by simp
  then have "\<forall>l \<in> set (book_levels side book). is_fin (quantity l)" by (simp add: book_levels_def)
  moreover have "is_fin a \<Longrightarrow> \<forall>l \<in> set ls. is_fin (quantity l) \<Longrightarrow> is_fin (foldl (\<lambda>acc level.
      if price_ok side t level then xadd rd acc (to_decimal (quantity level)) else acc) a ls)" for a ls
    by (induction ls arbitrary: a) (auto elim!: is_finE)
  ultimately have "is_fin (depth_at rd side t (book_levels side book))" by (simp add: depth_at_def)
  then obtain x where "depth_at rd side t (book_levels side book) = Fin x" by (rule is_finE)
  then show ?thesis by (simp add: getAvailableDepth_def Inr)
qed

lemma sized_bounds:
  assumes "sized rd cfg env s n" "finite_books env" "ratio_ok (minFillRatio cfg)"
    and "psIdealCount s = Fin (of_int N)" "0 < N" "N \<le> 2 ^ 53"
  shows "\<exists>e. n = Fin e \<and> 1 \<le> e \<and> e \<le> of_int N"
proof -
  obtain c1 c2 where n: "n = xmin (xmin (psIdealCount s) c1) (xmin (psIdealCount s) c2)"
    and c: "\<exists>k side t. c1 = fst (getAvailableDepth rd (envLegBook env (psPrimary s)) k side t (psPrimary s))"
      "\<exists>k side t. c2 = fst (getAvailableDepth rd (envLegBook env (psSecondary s)) k side t (psSecondary s))"
    and m: "\<not> xlt (xmin (psIdealCount s) c1) (min_fill_size cfg (psIdealCount s))"
      "\<not> xlt (xmin (psIdealCount s) c2) (min_fill_size cfg (psIdealCount s))"
    using assms(1) unfolding sized_def by blast
  have "is_fin c1" "is_fin c2" using c depth_finite [OF assms(2)] by auto
  then obtain x1 x2 where x: "c1 = Fin x1" "c2 = Fin x2" by (auto elim!: is_finE)
  obtain k where k: "js_ceil (xmul b64 (Fin (of_int N)) (minFillRatio cfg)) = Fin (of_int k)" "1 \<le> k"
    by (rule min_size_bounds [OF assms(3,5,6)])
  have "(1 :: rat) \<le> of_int k" using k(2) by simp
  moreover have "\<not> min (of_int N) x1 < of_int k" "\<not> min (of_int N) x2 < of_int k"
    using m by (simp_all add: x assms(4) min_fill_size_def k(1))
  ultimately have "1 \<le> min (min (of_int N) x1) (min (of_int N) x2)" by linarith
  then show ?thesis by (simp add: n x assms(4))
qed

text \<open>
  C6: with a valid fill ratio and prices on the tick grid, the purchase not above the sale, every
  order a run sends has a quantity of at least one whose collateral on both legs together stays
  within the reservation, and a run that succeeds reports a capital within the reservation.
\<close>
theorem execution_capital_within_reservation:
  assumes "decimal_rounding rd" "ratio_ok (minFillRatio cfg)" "finite_books env"
    and "reservedCapitalUsd res = Fin R" "money R" "0 \<le> R" "R \<le> 10 ^ 8"
    and "enDislocation op = Some dis" "buyPrice dis = Fin b" "sellPrice dis = Fin s"
    and "grid4 b" "grid4 s" "0 \<le> b" "b \<le> s" "s \<le> 1"
    and "execute rd cfg env op req res = (effs, out)"
  shows "(\<forall>(p, q, answer) \<in> set (submissions effs). \<exists>e. orQuantity q = Fin e \<and> 1 \<le> e \<and> e * (b + 1 - s) \<le> R)
    \<and> (\<forall>r. out = Inr r \<and> exec_success r \<longrightarrow> (\<exists>c. actualCapitalUsed r = Some (Fin c) \<and> 0 \<le> c \<and> c \<le> R))"
proof -
  have key: "\<exists>N e d1 d2. n = Fin e \<and> 1 \<le> e \<and> e \<le> of_int N \<and> of_int N * (d1 + d2) \<le> R \<and> d1 + d2 = b + 1 - s
      \<and> leg_divisor rd (psPrimarySide st) (psTargetPrice st) = Fin d1
      \<and> leg_divisor rd (psSecondarySide st) (psSecondaryTargetPrice st) = Fin d2
      \<and> grid4 d1 \<and> grid4 d2 \<and> 0 \<le> d1 \<and> 0 \<le> d2 \<and> d1 \<le> 1 \<and> d2 \<le> 1 \<and> 0 \<le> N \<and> N \<le> 10 ^ 12"
    if pr: "snd (prepare rd cfg env op req res) = Inr st" and sz: "sized rd cfg env st n" for st n
  proof -
    note ps = prepare_state [OF pr]
    have prices: "psTargetPrice st = (if psPrimarySide st = Buy then Fin b else Fin s)"
      "psSecondaryTargetPrice st = (if psPrimarySide st = Buy then Fin s else Fin b)"
      and opp: "psSecondarySide st = opposite (psPrimarySide st)"
      using ps assms(8-10) by auto
    obtain d1 d2 where d: "leg_divisor rd (psPrimarySide st) (psTargetPrice st) = Fin d1"
      "leg_divisor rd (psSecondarySide st) (psSecondaryTargetPrice st) = Fin d2"
      "xadd rd (Fin d1) (Fin d2) = Fin (b + 1 - s)" "d1 + d2 = b + 1 - s" "0 \<le> d1" "0 \<le> d2" "d1 \<le> 1" "d2 \<le> 1"
      "grid4 d1" "grid4 d2"
      unfolding prices by (rule decimal_rounding.divisors_value [OF assms(1,11-15) opp])
    let ?D = "b + 1 - s"
    have cd: "combined_divisor rd st = Fin ?D" unfolding combined_divisor_def d(1-3) ..
    have D0: "0 < ?D" using ps by (simp add: cd)
    have g: "grid4 ?D" using grid4_diff [OF assms(11) grid4_diff [OF assms(12) grid4_1]] by (simp add: algebra_simps)
    have "?D \<le> 1" using assms(14) by simp
    note aff = decimal_rounding.floor_quotient_affordable [OF assms(1,5,6,7) g D0 this]
    let ?N = "\<lfloor>rd (R / ?D)\<rfloor>"
    have ideal: "psIdealCount st = Fin (b64 (of_int ?N))"
      using ps D0 by (simp add: cd assms(4) xdiv_Fin xfloor_def)
    moreover have "\<not> xle (psIdealCount st) (Fin 0)" using ps by blast
    ultimately have "0 < b64 (of_int ?N)" by (simp only: xle.simps not_le)
    then have N0: "0 < ?N" by simp
    then have "b64 (of_int ?N) = of_int ?N" using aff(2) by (intro b64_int) simp
    then have "psIdealCount st = Fin (of_int ?N)" using ideal by simp
    then obtain e where "n = Fin e" "1 \<le> e" "e \<le> of_int ?N"
      using sized_bounds [OF sz assms(3,2) _ N0] aff(2) by auto
    then show ?thesis using d aff N0 by (intro exI [of _ ?N] exI [of _ e] exI [of _ d1] exI [of _ d2]) simp
  qed
  have orders: "\<forall>(p, q, answer) \<in> set sent. \<exists>e. orQuantity q = Fin e \<and> 1 \<le> e \<and> e * (b + 1 - s) \<le> R"
    if h: "snd (prepare rd cfg env op req res) = Inr st" "sized rd cfg env st n" "pair_outcome env st n sent out'"
    for st n sent out'
  proof -
    obtain N e d1 d2 where k: "n = Fin e" "1 \<le> e" "e \<le> of_int N" "of_int N * (d1 + d2) \<le> R" "d1 + d2 = b + 1 - s"
      "0 \<le> d1" "0 \<le> d2" using key [OF h(1,2)] by blast
    have "e * (d1 + d2) \<le> of_int N * (d1 + d2)" using k by (intro mult_right_mono) simp_all
    then have "e * (b + 1 - s) \<le> R" using k(4,5) by simp
    moreover have "psSecondary st = other_platform (psPrimary st)" "psSecondarySide st = opposite (psPrimarySide st)"
      using prepare_state [OF h(1)] by blast+
    ultimately show ?thesis using h(3) k(1,2)
      by (cases rule: pair_outcome_orders [OF h(3)]) auto
  qed
  from assms(16) show ?thesis
  proof (cases rule: execute_cases)
    case (refused r)
    then show ?thesis by (simp add: refusal_def)
  next
    case (stopped st n r)
    have "\<not> exec_success r" using stopped(4)
      by (auto simp: pair_outcome_def Let_def secondary_outcome_def refusal_def split: if_splits)
    then show ?thesis using orders [OF stopped(1,2,4)] stopped(3) by simp
  next
    case (thrown st n msg out')
    then show ?thesis using orders [OF thrown(1,2,4)] by simp
  next
    case (filled st n bs pid)
    obtain N e d1 d2 where k: "n = Fin e" "1 \<le> e" "e \<le> of_int N" "of_int N * (d1 + d2) \<le> R" "d1 + d2 = b + 1 - s"
      "leg_divisor rd (psPrimarySide st) (psTargetPrice st) = Fin d1"
      "leg_divisor rd (psSecondarySide st) (psSecondaryTargetPrice st) = Fin d2"
      "grid4 d1" "grid4 d2" "0 \<le> d1" "0 \<le> d2" "d1 \<le> 1" "d2 \<le> 1" "0 \<le> N" "N \<le> 10 ^ 12"
      using key [OF filled(1,2)] by blast
    have "sbEqualizedSize bs = n"
      using filled(4) by (auto simp: pair_outcome_def Let_def secondary_outcome_def split: if_splits)
    moreover have cap: "leg_capital rd side target m = xmul rd (to_decimal m) (leg_divisor rd side target)" for side target m
      by (simp add: leg_capital_def leg_divisor_def)
    moreover have "d1 + d2 \<le> 1" using k(5) assms(14) by simp
    then obtain c where "xadd rd (xmul rd (to_decimal (Fin e)) (Fin d1)) (xmul rd (to_decimal (Fin e)) (Fin d2)) = Fin c"
      "0 \<le> c" "c \<le> of_int N * (d1 + d2)"
      using decimal_rounding.capital_bound [OF assms(1) k(14,15) _ k(3) k(8-13)] k(2) by auto
    ultimately have "actualCapitalUsed (completed rd st bs pid) = Some (Fin c)" "0 \<le> c" "c \<le> R"
      using k by (simp_all add: completed_def)
    then show ?thesis using orders [OF filled(1,2,4)] filled(3) by simp
  qed
qed

text \<open>A run at concrete input: both legs of 200 contracts fill.\<close>

definition sample_pair :: pair_config where
  "sample_pair = \<lparr>primaryLegCfg = None, kalshiContractId = ''K'', polymarketContractId = ''M'', polymarketClobTokenId = ''P'',
     pairDescription = ''event'', confidenceScoreCfg = None,
     matchIdCfg = None, resolutionDateCfg = None, clusterIdCfg = None\<rparr>"

definition sample_enriched :: enriched_input where
  "sample_enriched = \<lparr>enDislocation = Some \<lparr>pairConfig = sample_pair, buyPlatformId = Kalshi,
     buyPrice = Fin 0, sellPrice = Fin 0\<rparr>, enNetEdge = Fin 1, enGasFraction = Some (Fin 0)\<rparr>"

definition deep_book :: order_book where
  "deep_book = \<lparr>bids = [\<lparr>price = Fin 0, quantity = Fin 500\<rparr>], asks = [\<lparr>price = Fin 0, quantity = Fin 500\<rparr>]\<rparr>"

definition sample_config :: exec_config where
  "sample_config = \<lparr>minFillRatio = Fin 1, minEdgeThreshold = Fin 0, dualLegMinDepthRatio = Fin 1\<rparr>"

definition sample_env :: exec_env where
  "sample_env = \<lparr>envAdaptive = False, envLatency = (\<lambda>_. None), envLatencyThreshold = Fin 200,
     envPaper = (\<lambda>_. True), envCompliance = shipped_config, envGateBook = (\<lambda>_. Inr deep_book),
     envLegBook = (\<lambda>_. Inr deep_book), envCloseBook = (\<lambda>_. Inr deep_book), envExposureBook = (\<lambda>_. None),
     envLastWsUpdate = (\<lambda>_. None), envNow = 0, envWsThreshold = Fin 60000,
     envDivergence = divergence_init (Fin 1) (Fin 90000),
     envSubmit = (\<lambda>p q. Inr \<lparr>orId = ''x'', orStatus = OrderFilled, filledQuantity = orQuantity q, filledPrice = orPrice q\<rparr>),
     envCreateOrder = (\<lambda>row. Some (platform_id (rowPlatform row))), envCreatePosition = (\<lambda>_. Some ''pos''),
     envFeeSchedule = (\<lambda>_. Some \<lparr>takerFeePercent = Fin 0, takerFeeForPrice = None\<rparr>), envExitMode = ''fixed''\<rparr>"

lemma sample_env_fields:
  "envSubmit sample_env p q = Inr \<lparr>orId = ''x'', orStatus = OrderFilled, filledQuantity = orQuantity q, filledPrice = orPrice q\<rparr>"
  "envCreateOrder sample_env row = Some (platform_id (rowPlatform row))" "envCreatePosition sample_env pr = Some ''pos''"
  "envFeeSchedule sample_env p = Some \<lparr>takerFeePercent = Fin 0, takerFeeForPrice = None\<rparr>"
  "envLegBook sample_env p = Inr deep_book"
  by (simp_all add: sample_env_def)

lemma sample_numbers:
  "dec20 200 = 200" "dec20 500 = 500" "b64 200 = 200" "b64 500 = 500" "shortest 500 = 500" "shortest 200 = 200" "dec20 1 = 1"
  "b64 1 = 1"
  using dec20_int [of 200] dec20_int [of 500] b64_int [of 200] b64_int [of 500] shortest_int [of 500] shortest_int [of 200] 
  dec20_int [of 1] b64_int [of 1]
  by simp_all

lemma sample_approved: "approved (validate shipped_config (execution_context Kalshi ''event''))"
  by code_simp

lemma sample_prepare:
  "\<exists>effs s. prepare dec20 sample_config sample_env sample_enriched sample_request sample_reservation = (effs, Inr s)
     \<and> psIdealCount s = Fin 200 \<and> psPrimary s = Kalshi \<and> psPrimarySide s = Buy \<and> psTargetPrice s = Fin 0
     \<and> psSecondaryTargetPrice s = Fin 0 \<and> psSecondarySide s = Sell \<and> psSecondary s = Polymarket"
proof -
  have comp: "validateCompliance sample_env Kalshi ''event'' True False = act_return ()"
    using sample_approved by (simp add: validateCompliance_def sample_env_def)
  have size: "calculateIdealSize dec20 Buy Sell (Fin 0) (Fin 0) (Fin 200) ''o1'' True False = act_return (Fin 200)"
    by (simp add: calculateIdealSize_def leg_divisor_def xfloor_def sample_numbers)
  have depth: "getAvailableDepth dec20 (Inr deep_book) c side (Fin 0) p = (Fin 500, [])" for c side p
    by (simp add: getAvailableDepth_def depth_at_def book_levels_def deep_book_def price_ok_def sample_numbers)
  show ?thesis
    using comp size
    by (simp add: prepare_def sample_enriched_def sample_pair_def determineSequencing_def sample_env_def
        resolveConnectors_def sample_reservation_def sample_request_def validateDualLegDepthGate_def
        validateDualLegDepth_def depth sample_config_def min_fill_size_def sample_numbers act_tell_def act_return_def
        bind_value classifyDataSources_def Let_def split_beta)
qed

text \<open>What comes before the first order does not ask the database.\<close>

lemma env_no_rows:
  "envPaper (env\<lparr>envCreateOrder := f\<rparr>) = envPaper env" "envAdaptive (env\<lparr>envCreateOrder := f\<rparr>) = envAdaptive env"
  "envLatency (env\<lparr>envCreateOrder := f\<rparr>) = envLatency env"
  "envLatencyThreshold (env\<lparr>envCreateOrder := f\<rparr>) = envLatencyThreshold env"
  by simp_all

lemma gates_no_rows:
  "validateCompliance (env\<lparr>envCreateOrder := f\<rparr>) = validateCompliance env"
  "validateDualLegDepthGate rd cfg (env\<lparr>envCreateOrder := f\<rparr>) = validateDualLegDepthGate rd cfg env"
  "classifyDataSources (env\<lparr>envCreateOrder := f\<rparr>) = classifyDataSources env"
  "determineSequencing (env\<lparr>envCreateOrder := f\<rparr>) = determineSequencing env"
  by (simp_all add: fun_eq_iff validateCompliance_def validateDualLegDepthGate_def classifyDataSources_def)
    (simp only: determineSequencing_def env_no_rows simp_thms)

lemma prepare_no_rows: "prepare rd cfg (env\<lparr>envCreateOrder := f\<rparr>) op req res = prepare rd cfg env op req res"
  unfolding prepare_def gates_no_rows env_no_rows ..

lemma sample_legs:
  assumes "psIdealCount s = Fin 200"
  shows "checkPerLegDepth dec20 sample_config (sample_env\<lparr>envCreateOrder := f\<rparr>) s p k side (Fin 0) = act_return (Fin 200)"
    "checkPerLegDepth dec20 sample_config sample_env s p k side (Fin 0) = act_return (Fin 200)"
proof -
  have "getAvailableDepth dec20 (Inr deep_book) c side (Fin 0) p = (Fin 500, [])" for c
    by (simp add: getAvailableDepth_def depth_at_def book_levels_def deep_book_def price_ok_def sample_numbers)
  then show "checkPerLegDepth dec20 sample_config (sample_env\<lparr>envCreateOrder := f\<rparr>) s p k side (Fin 0) = act_return (Fin 200)"
    "checkPerLegDepth dec20 sample_config sample_env s p k side (Fin 0) = act_return (Fin 200)"
    by (simp_all add: checkPerLegDepth_def sample_env_fields sample_config_def assms min_fill_size_def sample_numbers
        act_tell_def act_return_def bind_value)
qed

lemma sample_execute:
  "\<exists>effs r. execute dec20 sample_config sample_env sample_enriched sample_request sample_reservation = (effs, Inr r)
     \<and> exec_success r \<and> length (submissions effs) = 2"
proof -
  obtain effs s where p: "prepare dec20 sample_config sample_env sample_enriched sample_request sample_reservation = (effs, Inr s)"
    and s: "psIdealCount s = Fin 200" "psPrimary s = Kalshi" "psPrimarySide s = Buy" "psTargetPrice s = Fin 0"
      "psSecondaryTargetPrice s = Fin 0" "psSecondarySide s = Sell" "psSecondary s = Polymarket"
    using sample_prepare by blast
  have "submissions effs = []" using prepare_no_orders(1) p by (metis quiet_def fst_conv)
  show ?thesis
    using \<open>submissions effs = []\<close>
    by (simp add: execute_def p bind_value submitOrderPair_def sample_legs s submit_bind after_primary_def after_secondary_def
        sample_env_fields create_order_def act_try_def act_tell_def act_return_def is_filled_def Let_def
        finish_def createPositionFromFills_def emitExecutionEvents_def completed_def)
qed

text \<open>The same run while the database takes no order row.\<close>

definition deaf_env :: exec_env where
  "deaf_env = sample_env\<lparr>envCreateOrder := (\<lambda>_. None)\<rparr>"

lemma sample_deaf:
  "\<exists>effs msg p q answer. execute dec20 sample_config deaf_env sample_enriched sample_request sample_reservation
     = (effs, Inl msg) \<and> submissions effs = [(p, q, answer)] \<and> accepted answer"
proof -
  obtain effs s where p: "prepare dec20 sample_config sample_env sample_enriched sample_request sample_reservation = (effs, Inr s)"
    and s: "psIdealCount s = Fin 200" "psPrimary s = Kalshi" "psPrimarySide s = Buy" "psTargetPrice s = Fin 0"
      "psSecondaryTargetPrice s = Fin 0" "psSecondarySide s = Sell" "psSecondary s = Polymarket"
    using sample_prepare by blast
  have "submissions effs = []" using prepare_no_orders(1) p by (metis quiet_def fst_conv)
  then show ?thesis
    by (simp add: deaf_env_def execute_def prepare_no_rows p bind_value submitOrderPair_def sample_legs s submit_bind
        after_primary_def sample_env_fields create_order_def act_try_def act_throw_def act_stop_def is_filled_def Let_def accepted_def)
qed

theorem execution_capital_within_reservation_witness:
  "\<exists>effs r c. execute dec20 sample_config sample_env sample_enriched sample_request sample_reservation = (effs, Inr r)
     \<and> length (submissions effs) = 2 \<and> actualCapitalUsed r = Some (Fin c) \<and> 0 \<le> c \<and> c \<le> 200"
proof -
  obtain effs r where e: "execute dec20 sample_config sample_env sample_enriched sample_request sample_reservation = (effs, Inr r)"
    "exec_success r" "length (submissions effs) = 2"
    using sample_execute by blast
  have "ratio_ok (minFillRatio sample_config)" by (simp add: ratio_ok_def sample_config_def)
  moreover have "finite_books sample_env" by (simp add: finite_books_def sample_env_def deep_book_def)
  moreover have "money 200" by (simp add: money_iff)
  moreover have "grid4 0" by (simp add: grid4_iff)
  ultimately have "\<exists>c. actualCapitalUsed r = Some (Fin c) \<and> 0 \<le> c \<and> c \<le> 200"
    using execution_capital_within_reservation [OF d20.decimal_rounding_axioms _ _ _ _ _ _ _ _ _ _ _ _ _ _ e(1), of 200 _ 0 0] e(2)
    by (simp add: sample_reservation_def sample_enriched_def)
  then show ?thesis using e by blast
qed

end
