(* ===== verification/TradePipeline.thy ===== *)
theory TradePipeline
  imports Execution
begin

text \<open>
  The queue over the execution service: one opportunity reserves its budget, is executed, and its
  budget is committed or released by what the execution returned or threw.  The execution changes
  no budget itself, so it is an engine as the queue expects one.
\<close>

type_synonym opportunity_lookup = "reservation_request \<Rightarrow> enriched_input"

definition pipeline_engine ::
  "(rat \<Rightarrow> rat) \<Rightarrow> exec_config \<Rightarrow> exec_env \<Rightarrow> opportunity_lookup
     \<Rightarrow> (queue_request, budget_reservation, budget_state) engine" where
  "pipeline_engine rd cfg env look = (\<lambda>(uuid, now, req) r s.
     (s, map_sum id execution_result.truncate (snd (execute rd cfg env (look req) req r))))"

definition run_one ::
  "(rat \<Rightarrow> rat) \<Rightarrow> exec_config \<Rightarrow> exec_env \<Rightarrow> opportunity_lookup \<Rightarrow> queue_request \<Rightarrow> budget_state
     \<Rightarrow> budget_state \<times> risk_limit_error queue_result" where
  "run_one rd cfg env look q s =
     (case processOneOpportunity (budget_ops rd) (pipeline_engine rd cfg env look) q (lock_free, s) of
        ((l, s'), result) \<Rightarrow> (s', result))"

section \<open>What a run of the queue books\<close>

text \<open>The totals of a mode, which a released reservation leaves as they were.\<close>

definition same_books :: "budget_state \<Rightarrow> budget_state \<Rightarrow> bool" where
  "same_books s s' \<longleftrightarrow> held_reservations s' = held_reservations s
     \<and> (\<forall>p. getState p s' = getState p s \<and> held p s' = held p s)"

lemma capital_truncate [simp]:
  "exec_success (execution_result.truncate r) = exec_success r"
  "exec_partialFill (execution_result.truncate r) = exec_partialFill r"
  "actualCapitalUsed (execution_result.truncate r) = actualCapitalUsed r"
  "exec_error (execution_result.truncate r) = exec_error r"
  by (simp_all add: execution_result.truncate_def)

lemma held_after_release:
  fixes s s1 s2 :: budget_state
  assumes "map_of (reservations s) k = None" "distinct (map fst (reservations s))"
    and "reservations s1 = map_set k r (reservations s)" "reservations s2 = map_delete k (reservations s1)"
  shows "held_reservations s2 = held_reservations s" "held p s2 = held p s"
proof -
  have d: "distinct (map fst (reservations s1))" using assms by (simp add: distinct_map_set)
  have m: "map_of (reservations s1) k = Some r" by (simp add: assms(3) update_conv')
  note fresh = fresh_totals(1) [OF assms(1,3), of p] and gone = delete_totals(1) [OF m d assms(4), of p]
  show "held p s2 = held p s" using fresh gone by simp
  show "held_reservations s2 = held_reservations s"
    using held_delete [OF assms(4)] held_set [OF assms(3)] assms(1) by (auto simp: held_none)
qed


lemma reservation_left:
  assumes "map_of (reservations s) k = Some x"
  shows "\<exists>s' evs. adjustReservation rd k c s = Inr (s', evs) \<and> (\<exists>y. map_of (reservations s') k = Some y)"
    and "\<exists>s' evs. commitReservation rd k s = Inr (s', evs)"
    and "\<exists>s' evs. releaseReservation rd k s = Inr (s', evs)"
proof -
  show "\<exists>s' evs. adjustReservation rd k c s = Inr (s', evs) \<and> (\<exists>y. map_of (reservations s') k = Some y)"
    using assms by (cases "xge c (reservedCapitalUsd x)") (auto simp: adjustReservation_def Let_def update_conv')
qed (use assms in \<open>auto simp: commitReservation_def releaseReservation_def Let_def\<close>)

lemma budget_ops_fields:
  "op_adjust (budget_ops rd) r c s = map_sum id fst (adjustReservation rd (reservationId r) c s)"
  "op_commit (budget_ops rd) r s = map_sum id fst (commitReservation rd (reservationId r) s)"
  "op_release (budget_ops rd) r s = map_sum id fst (releaseReservation rd (reservationId r) s)"
  "op_capital (budget_ops rd) r = reservedCapitalUsd r"
  "op_reserve (budget_ops rd) (uuid, now, req) s =
     and_then (reserveBudget rd uuid now req s) (\<lambda>(s', evs, r). Inr (s', r))"
  by (simp_all add: budget_ops_def)

text \<open>One run of the queue, by what the execution returned or threw.\<close>

lemma run_one_cases:
  assumes "run_one rd cfg env look (uuid, now, req) s = (s', result)"
    and "budget_inv rd s" "map_of (reservations s) uuid = None"
  obtains (denied) e where "reserveBudget rd uuid now req s = Inl e" "s' = s" "\<not> q_reserved result"
      "\<not> q_committed result"
    | (freed) s1 evs r effs out where "reserveBudget rd uuid now req s = Inr (s1, evs, r)"
      "execute rd cfg env (look req) req r = (effs, out)" "same_books s s'" "q_reserved result" "\<not> q_committed result"
      "\<not> q_executed result" "\<forall>x. out = Inr x \<longrightarrow> \<not> exec_success x \<and> \<not> exec_partialFill x"
    | (booked) s1 evs r effs x where "reserveBudget rd uuid now req s = Inr (s1, evs, r)"
      "execute rd cfg env (look req) req r = (effs, Inr x)" "q_reserved result" "q_committed result"
      "q_executed result = exec_success x" "exec_success x \<or> exec_partialFill x"
proof (cases "reserveBudget rd uuid now req s")
  case (Inl e)
  then show ?thesis using denied [of e] assms(1)
    by (auto simp: run_one_def processOneOpportunity_def budget_ops_def Let_def)
next
  case (Inr sr)
  then obtain s1 evs r where res: "reserveBudget rd uuid now req s = Inr (s1, evs, r)" by (cases sr) auto
  note rr = reserve_result [OF res]
  have left: "map_of (reservations s1) (reservationId r) = Some r" by (simp add: rr(3,6) update_conv')
  have dist: "distinct (map fst (reservations s))" using assms(2) by (simp add: budget_inv_def)
  have undone: "same_books s s2" if "releaseReservation rd (reservationId r) s1 = Inr (s2, evs2)" for s2 evs2
  proof (rule release_result [OF that])
    fix y assume y: "reservations s2 = map_delete (reservationId r) (reservations s1)"
      and g: "\<And>q. getState q s2 = getState q s1"
    note rr(3) [folded rr(6)]
    from held_after_release [OF assms(3) [folded rr(6)] dist this y] g rr(2) show "same_books s s2"
      by (simp add: same_books_def)
  qed
  obtain s2 evs2 where rel: "releaseReservation rd (reservationId r) s1 = Inr (s2, evs2)"
    using reservation_left(3) [OF left] by blast
  obtain effs out where ex: "execute rd cfg env (look req) req r = (effs, out)" by fastforce
  show ?thesis
  proof (cases "\<exists>x. out = Inr x \<and> (exec_success x \<or> exec_partialFill x)")
    case False
    then have "s' = s2" "q_reserved result" "\<not> q_committed result" "\<not> q_executed result"
      using assms(1) res ex rel
      by (cases out; auto simp: run_one_def processOneOpportunity_def budget_ops_def Let_def pipeline_engine_def
          cleanup_def settle_execution_def)+
    then show ?thesis using freed [OF res ex] undone [OF rel] False by blast
  next
    case True
    then obtain x where x: "out = Inr x" "exec_success x \<or> exec_partialFill x" by blast
    obtain s3 where s3: "(if needs_adjust (actualCapitalUsed x) (reservedCapitalUsd r)
        then map_sum id fst (adjustReservation rd (reservationId r) (the (actualCapitalUsed x)) s1) else Inr s1) = Inr s3"
      "\<exists>y. map_of (reservations s3) (reservationId r) = Some y"
    proof (cases "needs_adjust (actualCapitalUsed x) (reservedCapitalUsd r)")
      case True
      from reservation_left(1) [OF left, of rd "the (actualCapitalUsed x)"] show ?thesis
        using that True by fastforce
    qed (use that left in simp)
    then obtain s4 evs4 where "commitReservation rd (reservationId r) s3 = Inr (s4, evs4)"
      using reservation_left(2) by blast
    with s3(1) x(2) have "settle_execution (budget_ops rd) r (execution_result.truncate x) s1 =
        (s4, \<lparr>q_reserved = True, q_executed = exec_success x, q_committed = True,
          q_error = map_option ExecutionReported (exec_error x)\<rparr>)"
      by (cases "needs_adjust (actualCapitalUsed x) (reservedCapitalUsd r)")
        (simp_all add: settle_execution_def budget_ops_fields)
    then have "q_reserved result" "q_committed result" "q_executed result = exec_success x"
      using assms(1) res ex x(1)
      by (auto simp: run_one_def processOneOpportunity_def budget_ops_fields Let_def pipeline_engine_def)
    then show ?thesis using booked [OF res _ _ _ _ x(2)] ex x(1) by blast
  qed
qed


section \<open>The books follow the fills\<close>

text \<open>
  C7: an opportunity commits its budget exactly when its execution returned after both orders were
  sent (the first one filled), and counts as executed exactly when the second was filled too; in
  every other case, a thrown error included, capital, positions and held budgets are as before.
\<close>
theorem budget_committed_iff_both_orders:
  assumes "budget_inv rd s" "request_ok (uuid, now, req) s"
    and "reserveBudget rd uuid now req s = Inr (s1, evs, r)"
    and "execute rd cfg env (look req) req r = (effs, out)"
    and "run_one rd cfg env look (uuid, now, req) s = (s', result)"
  shows "(q_committed result \<longleftrightarrow> (\<exists>x. out = Inr x) \<and> length (submissions effs) = 2)
    \<and> (q_committed result \<longrightarrow> (\<exists>p q1 o1 q2 o2. submissions effs = [(p, q1, o1), (other_platform p, q2, o2)]
          \<and> accepted o1 \<and> q_executed result = accepted o2))
    \<and> (\<not> q_committed result \<longrightarrow> same_books s s' \<and> \<not> q_executed result)"
proof -
  have fresh: "map_of (reservations s) uuid = None"
    using assms(2) by (simp add: request_ok_def held_none)
  note shape = execute_shape [of rd cfg env "look req" req r, unfolded assms(4)]
  from assms(5,1) fresh show ?thesis
  proof (cases rule: run_one_cases)
    case (denied e)
    then show ?thesis using assms(3) by simp
  next
    case (freed s1' evs' r' effs' out')
    then have "effs' = effs" "out' = out" using assms(3,4) by simp_all
    then show ?thesis using freed shape by (auto split: sum.splits)
  next
    case (booked s1' evs' r' effs' x)
    then have "effs' = effs" "out = Inr x" using assms(3,4) by simp_all
    then show ?thesis using booked shape by (auto simp: refusal_def split: if_splits)
  qed
qed

lemma sample_run:
  "\<exists>s' result. run_one dec20 sample_config sample_env (\<lambda>_. sample_enriched) (''r1'', 0, sample_request) sample_budget
     = (s', result)"
  by (metis surj_pair)

theorem budget_committed_iff_both_orders_witness:
  "\<exists>s' result. run_one dec20 sample_config sample_env (\<lambda>_. sample_enriched) (''r1'', 0, sample_request) sample_budget
     = (s', result) \<and> q_committed result"
proof -
  obtain s' result where run: "run_one dec20 sample_config sample_env (\<lambda>_. sample_enriched)
      (''r1'', 0, sample_request) sample_budget = (s', result)"
    using sample_run by blast
  obtain evs where res: "reserveBudget dec20 ''r1'' 0 sample_request sample_budget = Inr (sample_reserved, evs, sample_reservation)"
    using sample_reserve by blast
  obtain effs r where ex: "execute dec20 sample_config sample_env sample_enriched sample_request sample_reservation = (effs, Inr r)"
    "length (submissions effs) = 2" using sample_execute by blast
  have "request_ok (''r1'', 0, sample_request) sample_budget"
    using sample_sound by (simp add: request_ok_def held_none)
  from budget_committed_iff_both_orders [OF sample_inv this res _ run] ex
  have "q_committed result" by blast
  with run show ?thesis by blast
qed

text \<open>
  C8: when the database refuses the row of the primary order, the fill goes unrecorded: whatever the
  exchange answered, the run sends no other order, books nothing and gives the whole budget back, so
  the capital is offered to the next opportunity while the position stands on the exchange.
\<close>
theorem unrecorded_fill_frees_budget:
  assumes "budget_inv rd s" "request_ok (uuid, now, req) s" "\<forall>row. envCreateOrder env row = None"
    and "reserveBudget rd uuid now req s = Inr (s1, evs, r)"
    and "execute rd cfg env (look req) req r = (effs, out)"
    and "run_one rd cfg env look (uuid, now, req) s = (s', result)"
  shows "\<not> q_committed result \<and> same_books s s' \<and> length (submissions effs) \<le> 1"
proof -
  have fresh: "map_of (reservations s) uuid = None"
    using assms(2) by (simp add: request_ok_def held_none)
  have few: "length (submissions effs) \<le> 1" by (rule second_order_needs_row [OF assms(5,3)])
  note shape = execute_shape [of rd cfg env "look req" req r, unfolded assms(5)]
  from assms(6,1) fresh show ?thesis
  proof (cases rule: run_one_cases)
    case (denied e)
    then show ?thesis using assms(4) by simp
  next
    case (freed s1' evs' r' effs' out')
    then show ?thesis using few by simp
  next
    case (booked s1' evs' r' effs' x)
    then have "effs' = effs" "out = Inr x" using assms(4,5) by simp_all
    then show ?thesis using booked shape few by (auto simp: refusal_def split: if_splits)
  qed
qed

theorem unrecorded_fill_frees_budget_witness:
  "\<exists>s' result effs out p q answer.
     execute dec20 sample_config deaf_env sample_enriched sample_request sample_reservation = (effs, out)
     \<and> submissions effs = [(p, q, answer)] \<and> accepted answer
     \<and> run_one dec20 sample_config deaf_env (\<lambda>_. sample_enriched) (''r1'', 0, sample_request) sample_budget
       = (s', result) \<and> \<not> q_committed result \<and> same_books sample_budget s'"
proof -
  obtain effs msg p q answer where ex: "execute dec20 sample_config deaf_env sample_enriched sample_request sample_reservation
      = (effs, Inl msg)" "submissions effs = [(p, q, answer)]" "accepted answer"
    using sample_deaf by blast
  obtain s' result where run: "run_one dec20 sample_config deaf_env (\<lambda>_. sample_enriched)
      (''r1'', 0, sample_request) sample_budget = (s', result)"
    by (metis surj_pair)
  obtain evs where res: "reserveBudget dec20 ''r1'' 0 sample_request sample_budget = Inr (sample_reserved, evs, sample_reservation)"
    using sample_reserve by blast
  have "request_ok (''r1'', 0, sample_request) sample_budget"
    using sample_sound by (simp add: request_ok_def held_none)
  moreover have "\<forall>row. envCreateOrder deaf_env row = None" by (simp add: deaf_env_def)
  ultimately have "\<not> q_committed result \<and> same_books sample_budget s'"
    using unrecorded_fill_frees_budget [OF sample_inv _ _ res ex(1) run] by blast
  with ex run show ?thesis by blast
qed

end
