(* ===== verification/Detection.thy ===== *)
theory Detection
  imports Execution
begin

text \<open>
  \<^verbatim>\<open>DetectionService\<close> and \<^verbatim>\<open>EdgeCalculatorService\<close>: finding price
  dislocations between the two books of a pair and turning them into opportunities worth
  trading.  The lemmas say what a detected dislocation and an identified opportunity guarantee, how
  the effective threshold moves with the depth of the books, and that every dislocation ends in
  exactly one of the three outcomes.
\<close>

section \<open>Detection\<close>

record raw_dislocation = dislocation +
  sellPlatformId :: platform
  rawGrossEdge :: decimal
  buyOrderBook :: order_book
  sellOrderBook :: order_book
  detectedAt :: timestamp

text \<open>What the services answer while one pair is looked at; a book that cannot be read is \<open>None\<close>.\<close>

record detect_env =
  deStale :: "platform \<Rightarrow> string \<Rightarrow> bool"
  deDegradation :: degradation
  deBook :: "platform \<Rightarrow> string \<Rightarrow> order_book option"
  deNow :: timestamp

definition no_depth :: "order_book \<Rightarrow> bool" where
  "no_depth book \<longleftrightarrow> bids book = [] \<or> asks book = []"

definition buildDislocation ::
  "pair_config \<Rightarrow> platform \<Rightarrow> platform \<Rightarrow> decimal \<Rightarrow> decimal \<Rightarrow> decimal \<Rightarrow> order_book \<Rightarrow> order_book \<Rightarrow> timestamp
     \<Rightarrow> raw_dislocation" where
  "buildDislocation pc buyer seller buy sell edge buyBook sellBook now =
     \<lparr>pairConfig = pc, buyPlatformId = buyer, buyPrice = buy, sellPrice = sell, sellPlatformId = seller,
      rawGrossEdge = edge, buyOrderBook = buyBook, sellOrderBook = sellBook, detectedAt = now\<rparr>"

text \<open>Buying at the best ask of one platform and selling at the best bid of the other.\<close>

definition scenario ::
  "(rat \<Rightarrow> rat) \<Rightarrow> pair_config \<Rightarrow> platform \<Rightarrow> order_book \<Rightarrow> order_book \<Rightarrow> timestamp \<Rightarrow> fm_error + raw_dislocation list" where
  "scenario rd pc buyer buyBook sellBook now =
     (let buy = to_decimal (price (hd (asks buyBook))); sell = to_decimal (price (hd (bids sellBook))) in
      and_then (calculateGrossEdge rd buy sell) (\<lambda>edge.
      Inr (if xgt edge (Fin 0)
           then [buildDislocation pc buyer (other_platform buyer) buy sell edge buyBook sellBook now] else [])))"

text \<open>One pair: \<open>None\<close> if it is skipped.\<close>

definition detect_pair :: "(rat \<Rightarrow> rat) \<Rightarrow> detect_env \<Rightarrow> pair_config \<Rightarrow> fm_error + raw_dislocation list option" where
  "detect_pair rd env pc =
     (if deStale env Kalshi (kalshiContractId pc) \<or> deStale env Polymarket (polymarketClobTokenId pc)
         \<or> isDegraded Kalshi (deDegradation env) \<or> isDegraded Polymarket (deDegradation env) then Inr None
      else case (deBook env Kalshi (kalshiContractId pc), deBook env Polymarket (polymarketClobTokenId pc)) of
        (Some kalshiBook, Some polyBook) \<Rightarrow>
          if no_depth kalshiBook \<or> no_depth polyBook then Inr None
          else
            and_then (scenario rd pc Polymarket polyBook kalshiBook (deNow env)) (\<lambda>a.
            and_then (scenario rd pc Kalshi kalshiBook polyBook (deNow env)) (\<lambda>b.
            Inr (Some (a @ b))))
      | _ \<Rightarrow> Inr None)"

record detection_result =
  dislocations :: "raw_dislocation list"
  pairsEvaluated :: nat
  pairsSkipped :: nat

fun detectDislocations ::
  "(rat \<Rightarrow> rat) \<Rightarrow> (pair_config \<Rightarrow> detect_env) \<Rightarrow> pair_config list \<Rightarrow> fm_error + detection_result" where
  "detectDislocations rd env [] = Inr \<lparr>dislocations = [], pairsEvaluated = 0, pairsSkipped = 0\<rparr>"
| "detectDislocations rd env (pc # pcs) =
     and_then (detect_pair rd (env pc) pc) (\<lambda>found.
     and_then (detectDislocations rd env pcs) (\<lambda>r.
     Inr (case found of
        None \<Rightarrow> r\<lparr>pairsSkipped := pairsSkipped r + 1\<rparr>
      | Some ds \<Rightarrow> r\<lparr>dislocations := ds @ dislocations r, pairsEvaluated := pairsEvaluated r + 1\<rparr>)))"

section \<open>Edge calculation: configuration\<close>

text \<open>A setting is a text; \<open>None\<close> stands for one that is no number.\<close>

type_synonym setting = "decimal option"

definition setting_number :: "setting \<Rightarrow> jsnum" where
  "setting_number raw = (case raw of Some d \<Rightarrow> to_number d | None \<Rightarrow> NaN)"

record edge_config =
  ecMinEdge :: decimal
  ecMinFillRatio :: decimal
  ecScaling :: decimal
  ecMaxDynamic :: decimal
  ecMinAnnualized :: decimal
  ecGasEstimate :: decimal
  ecPositionSize :: decimal

definition nonnegative_number :: "jsnum \<Rightarrow> bool" where
  "nonnegative_number v \<longleftrightarrow> \<not> (is_nan v \<or> xlt v (Fin 0))"

definition unit_number :: "jsnum \<Rightarrow> bool" where
  "unit_number v \<longleftrightarrow> \<not> (is_nan v \<or> xle v (Fin 0) \<or> xgt v (Fin 1))"

text \<open>\<^verbatim>\<open>onModuleInit\<close>: \<open>None\<close> is a configuration error.\<close>

definition edge_init ::
  "setting \<Rightarrow> setting \<Rightarrow> setting \<Rightarrow> setting \<Rightarrow> setting \<Rightarrow> setting \<Rightarrow> setting \<Rightarrow> edge_config option" where
  "edge_init minEdge gas positionSize annualized fillRatio scaling maxDynamic =
     (if \<not> nonnegative_number (setting_number minEdge) \<or> \<not> nonnegative_number (setting_number gas)
         \<or> \<not> nonnegative_number (setting_number positionSize) then None
      else case annualized of
        None \<Rightarrow> None
      | Some a \<Rightarrow>
          if is_negative a \<or> xgt a (Fin 10) then None
          else if \<not> unit_number (setting_number fillRatio) \<or> \<not> nonnegative_number (setting_number scaling)
            \<or> \<not> unit_number (setting_number maxDynamic) then None
          else Some \<lparr>ecMinEdge = the minEdge, ecMinFillRatio = to_decimal (setting_number fillRatio),
                 ecScaling = to_decimal (setting_number scaling), ecMaxDynamic = to_decimal (setting_number maxDynamic),
                 ecMinAnnualized = a, ecGasEstimate = the gas, ecPositionSize = the positionSize\<rparr>)"

definition reloaded :: "(jsnum \<Rightarrow> bool) \<Rightarrow> setting option \<Rightarrow> decimal \<Rightarrow> decimal" where
  "reloaded ok raw old = (case raw of
     None \<Rightarrow> old
   | Some r \<Rightarrow> if ok (setting_number r) then to_decimal (setting_number r) else old)"

definition edge_reloadConfig ::
  "setting option \<Rightarrow> setting option \<Rightarrow> setting option \<Rightarrow> setting option \<Rightarrow> edge_config \<Rightarrow> edge_config" where
  "edge_reloadConfig minEdge fillRatio scaling maxDynamic cfg =
     cfg\<lparr>ecMinEdge := reloaded nonnegative_number minEdge (ecMinEdge cfg),
         ecMinFillRatio := reloaded unit_number fillRatio (ecMinFillRatio cfg),
         ecScaling := reloaded nonnegative_number scaling (ecScaling cfg),
         ecMaxDynamic := reloaded unit_number maxDynamic (ecMaxDynamic cfg)\<rparr>"

section \<open>Edge calculation: one dislocation\<close>

record platform_fees = fee_schedule +
  gasEstimateUsd :: "jsnum option"

definition computeDynamicThreshold :: "(rat \<Rightarrow> rat) \<Rightarrow> edge_config \<Rightarrow> decimal \<Rightarrow> decimal" where
  "computeDynamicThreshold rd cfg minDepth =
     (let scalingTerm = xdiv rd (ecScaling cfg) minDepth;
          dynamicBase = xmul rd (ecMinEdge cfg) (xadd rd (Fin 1) scalingTerm)
      in xmin dynamicBase (ecMaxDynamic cfg))"

text \<open>The first schedule that knows its gas decides.\<close>

definition getGasEstimateUsd :: "edge_config \<Rightarrow> platform_fees list \<Rightarrow> decimal" where
  "getGasEstimateUsd cfg schedules =
     (case List.map_filter gasEstimateUsd schedules of
        g # _ \<Rightarrow> to_decimal g
      | [] \<Rightarrow> ecGasEstimate cfg)"

record fee_breakdown =
  buyFeeCost :: decimal
  sellFeeCost :: decimal
  gasFraction :: decimal
  totalCosts :: decimal

definition buildFeeBreakdown ::
  "(rat \<Rightarrow> rat) \<Rightarrow> raw_dislocation \<Rightarrow> platform_fees \<Rightarrow> platform_fees \<Rightarrow> decimal \<Rightarrow> decimal \<Rightarrow> fee_breakdown" where
  "buildFeeBreakdown rd d buyFee sellFee gas positionSize =
     (let buyCost = xmul rd (buyPrice d) (calculateTakerFeeRate rd (buyPrice d) (fee_schedule.truncate buyFee));
          sellCost = xmul rd (sellPrice d) (calculateTakerFeeRate rd (sellPrice d) (fee_schedule.truncate sellFee));
          gasPart = xdiv rd gas positionSize
      in \<lparr>buyFeeCost = buyCost, sellFeeCost = sellCost, gasFraction = gasPart,
          totalCosts = xadd rd (xadd rd buyCost sellCost) gasPart\<rparr>)"

record liquidity_depth =
  buyBestAskSize :: jsnum
  sellBestAskSize :: jsnum
  buyBestBidSize :: jsnum
  sellBestBidSize :: jsnum
  buyTotalDepth :: jsnum
  sellTotalDepth :: jsnum

definition best_size :: "price_level list \<Rightarrow> jsnum" where
  "best_size levels = (case levels of l # _ \<Rightarrow> quantity l | [] \<Rightarrow> Fin 0)"

definition level_sum :: "price_level list \<Rightarrow> jsnum" where
  "level_sum levels = foldl (\<lambda>s l. xadd b64 s (quantity l)) (Fin 0) levels"

definition buildLiquidityDepth :: "raw_dislocation \<Rightarrow> liquidity_depth" where
  "buildLiquidityDepth d =
     \<lparr>buyBestAskSize = best_size (asks (buyOrderBook d)), sellBestAskSize = best_size (asks (sellOrderBook d)),
      buyBestBidSize = best_size (bids (buyOrderBook d)), sellBestBidSize = best_size (bids (sellOrderBook d)),
      buyTotalDepth = level_sum (asks (buyOrderBook d)), sellTotalDepth = level_sum (bids (sellOrderBook d))\<rparr>"

datatype edge_reason = InsufficientVwapDepth | NegativeEdge | BelowThreshold | NoResolutionDate
  | ResolutionDatePassed | AnnualizedReturnBelow decimal decimal

record filtered_dislocation =
  fdPair :: string
  fdNetEdge :: decimal
  fdThreshold :: "decimal option"
  fdReason :: edge_reason
  fdBestLevelNetEdge :: "decimal option"

record identified =
  idDislocation :: raw_dislocation
  idNetEdge :: decimal
  idGrossEdge :: decimal
  idBestLevelNetEdge :: decimal
  idVwapBuy :: decimal
  idVwapSell :: decimal
  idBuyFillRatio :: jsnum
  idSellFillRatio :: jsnum
  idFees :: fee_breakdown
  idDepth :: liquidity_depth
  idAnnualized :: decimal
  idEffectiveMinEdge :: decimal
  idEnrichedAt :: timestamp

datatype edge_outcome = Identified identified | FilteredOut filtered_dislocation

text \<open>The filter event carries figures of its own.\<close>

datatype edge_event =
    EdgeFiltered string decimal decimal edge_reason "string option" "jsnum option"
  | EdgeIdentified identified

definition filterInsufficientVwapDepth :: "raw_dislocation \<Rightarrow> edge_outcome \<times> edge_event list" where
  "filterInsufficientVwapDepth d =
     (FilteredOut \<lparr>fdPair = pairDescription (pairConfig d), fdNetEdge = Fin 0, fdThreshold = None,
        fdReason = InsufficientVwapDepth, fdBestLevelNetEdge = None\<rparr>,
      [EdgeFiltered (pairDescription (pairConfig d)) (Fin 0) (Fin 0) InsufficientVwapDepth (matchIdCfg (pairConfig d)) None])"

text \<open>The refusal, or the annualized return.\<close>

definition checkCapitalEfficiency ::
  "(rat \<Rightarrow> rat) \<Rightarrow> raw_dislocation \<Rightarrow> decimal \<Rightarrow> decimal \<Rightarrow> timestamp \<Rightarrow> (edge_outcome \<times> edge_event list) + decimal" where
  "checkCapitalEfficiency rd d netEdge threshold now =
     (let desc = pairDescription (pairConfig d);
          refuse = (\<lambda>shown reason annualized.
            (FilteredOut \<lparr>fdPair = desc, fdNetEdge = netEdge, fdThreshold = shown, fdReason = reason,
               fdBestLevelNetEdge = None\<rparr>,
             [EdgeFiltered desc netEdge threshold reason (matchIdCfg (pairConfig d)) annualized]))
      in case resolutionDateCfg (pairConfig d) of
        None \<Rightarrow> Inl (refuse None NoResolutionDate None)
      | Some date \<Rightarrow>
          let daysToResolution = xdiv rd (Fin (of_int (date - now))) (Fin 86400000) in
          if xle daysToResolution (Fin 0) then Inl (refuse None ResolutionDatePassed None)
          else
            let annualizedReturn = xmul rd netEdge (xdiv rd (Fin 365) daysToResolution) in
            if xlt annualizedReturn threshold
            then Inl (refuse (Some threshold) (AnnualizedReturnBelow annualizedReturn threshold) (Some (to_number annualizedReturn)))
            else Inr annualizedReturn)"

definition effective_threshold ::
  "(rat \<Rightarrow> rat) \<Rightarrow> edge_config \<Rightarrow> jsnum \<Rightarrow> vwap_fill_result \<Rightarrow> vwap_fill_result \<Rightarrow> decimal" where
  "effective_threshold rd cfg multiplier buy sell =
     (let minDepth = xmin (totalQtyAvailable buy) (totalQtyAvailable sell);
          dynamicBase = (if xgt (ecScaling cfg) (Fin 0) \<and> xgt minDepth (Fin 0)
            then computeDynamicThreshold rd cfg minDepth else ecMinEdge cfg)
      in xmul rd dynamicBase (to_decimal multiplier))"

text \<open>The number of contracts that the position size buys, rounded up.\<close>

definition target_contracts :: "(rat \<Rightarrow> rat) \<Rightarrow> edge_config \<Rightarrow> decimal \<Rightarrow> decimal" where
  "target_contracts rd cfg unitPrice = xmap (\<lambda>q. of_int \<lceil>q\<rceil>) (xdiv rd (ecPositionSize cfg) unitPrice)"

text \<open>Fees and degradation are what the connectors and the protocol answer; an error is a throw.\<close>

definition processSingleDislocation ::
  "(rat \<Rightarrow> rat) \<Rightarrow> edge_config \<Rightarrow> (platform \<Rightarrow> platform_fees option) \<Rightarrow> degradation \<Rightarrow> timestamp \<Rightarrow> raw_dislocation
     \<Rightarrow> fm_error option + (edge_outcome \<times> edge_event list)" where
  "processSingleDislocation rd cfg fees deg now d =
     (case (fees (buyPlatformId d), fees (sellPlatformId d)) of
        (Some buyFee, Some sellFee) \<Rightarrow>
          let gas = getGasEstimateUsd cfg [buyFee, sellFee];
              net = (\<lambda>edge buy sell. map_sum Some id (calculateNetEdge rd edge buy sell
                (fee_schedule.truncate buyFee) (fee_schedule.truncate sellFee) gas (ecPositionSize cfg)))
          in
          if is_zero (buyPrice d) \<or> is_zero (sellPrice d) then Inr (filterInsufficientVwapDepth d)
          else
            let buyTarget = target_contracts rd cfg (buyPrice d); sellTarget = target_contracts rd cfg (sellPrice d) in
            (case (calculateVwapWithFillInfo rd (buyOrderBook d) ''sell'' buyTarget,
                   calculateVwapWithFillInfo rd (sellOrderBook d) ''buy'' sellTarget) of
               (Some buy, Some sell) \<Rightarrow>
                 let buyRatio = xdiv rd (filledQty buy) buyTarget; sellRatio = xdiv rd (filledQty sell) sellTarget in
                 if xlt buyRatio (ecMinFillRatio cfg) \<or> xlt sellRatio (ecMinFillRatio cfg)
                 then Inr (filterInsufficientVwapDepth d)
                 else
                   and_then (net (rawGrossEdge d) (buyPrice d) (sellPrice d)) (\<lambda>bestLevel.
                   let gross = xsub rd (vwap sell) (vwap buy) in
                   and_then (net gross (vwap buy) (vwap sell)) (\<lambda>netEdge.
                   let threshold = effective_threshold rd cfg (getEdgeThresholdMultiplier (buyPlatformId d) deg) buy sell in
                   and_then (map_sum Some id (isAboveThreshold netEdge threshold)) (\<lambda>above.
                   if \<not> above then
                     let reason = (if is_negative netEdge then NegativeEdge else BelowThreshold) in
                     Inr (FilteredOut \<lparr>fdPair = pairDescription (pairConfig d), fdNetEdge = netEdge,
                            fdThreshold = Some threshold, fdReason = reason, fdBestLevelNetEdge = Some bestLevel\<rparr>,
                          [EdgeFiltered (pairDescription (pairConfig d)) netEdge threshold reason (matchIdCfg (pairConfig d)) None])
                   else
                     (case checkCapitalEfficiency rd d netEdge (ecMinAnnualized cfg) now of
                        Inl refused \<Rightarrow> Inr refused
                      | Inr annualized \<Rightarrow>
                          let op = \<lparr>idDislocation = d, idNetEdge = netEdge, idGrossEdge = gross,
                                idBestLevelNetEdge = bestLevel, idVwapBuy = vwap buy, idVwapSell = vwap sell,
                                idBuyFillRatio = to_number buyRatio, idSellFillRatio = to_number sellRatio,
                                idFees = buildFeeBreakdown rd d buyFee sellFee gas (ecPositionSize cfg),
                                idDepth = buildLiquidityDepth d, idAnnualized = annualized,
                                idEffectiveMinEdge = threshold, idEnrichedAt = now\<rparr>
                          in Inr (Identified op, [EdgeIdentified op])))))
             | _ \<Rightarrow> Inr (filterInsufficientVwapDepth d))
      | _ \<Rightarrow> Inl None)"

section \<open>Edge calculation: a batch\<close>

record edge_result =
  opportunities :: "identified list"
  filteredOut :: "filtered_dislocation list"
  totalInput :: nat
  skippedErrors :: nat

definition add_outcome :: "fm_error option + (edge_outcome \<times> edge_event list) \<Rightarrow> edge_result \<Rightarrow> edge_result" where
  "add_outcome out r = (case out of
     Inl _ \<Rightarrow> r\<lparr>skippedErrors := skippedErrors r + 1\<rparr>
   | Inr (Identified op, _) \<Rightarrow> r\<lparr>opportunities := opportunities r @ [op]\<rparr>
   | Inr (FilteredOut f, _) \<Rightarrow> r\<lparr>filteredOut := filteredOut r @ [f]\<rparr>)"

definition processDislocations ::
  "(rat \<Rightarrow> rat) \<Rightarrow> edge_config \<Rightarrow> (platform \<Rightarrow> platform_fees option) \<Rightarrow> degradation \<Rightarrow> timestamp \<Rightarrow> raw_dislocation list
     \<Rightarrow> edge_result \<times> edge_event list" where
  "processDislocations rd cfg fees deg now ds =
     (let outs = map (processSingleDislocation rd cfg fees deg now) ds in
      (foldl (\<lambda>r out. add_outcome out r)
         \<lparr>opportunities = [], filteredOut = [], totalInput = length ds, skippedErrors = 0\<rparr> outs,
       concat (map (\<lambda>out. case out of Inl _ \<Rightarrow> [] | Inr (_, evs) \<Rightarrow> evs) outs)))"


section \<open>What a detected dislocation guarantees\<close>

lemma validate_decimal_Inr: "validateDecimalInput x n = Inr u \<longleftrightarrow> is_fin x"
  by (cases x) simp_all

definition best_ask :: "order_book \<Rightarrow> decimal" where
  "best_ask book = to_decimal (price (hd (asks book)))"

definition best_bid :: "order_book \<Rightarrow> decimal" where
  "best_bid book = to_decimal (price (hd (bids book)))"

text \<open>The name a platform knows the contract of a pair by, and its book of that contract.\<close>

definition contract_of :: "pair_config \<Rightarrow> platform \<Rightarrow> string" where
  "contract_of pc p = (case p of Kalshi \<Rightarrow> kalshiContractId pc | Polymarket \<Rightarrow> polymarketClobTokenId pc)"

definition book_of :: "detect_env \<Rightarrow> pair_config \<Rightarrow> platform \<Rightarrow> order_book option" where
  "book_of env pc p = deBook env p (contract_of pc p)"

text \<open>
  A dislocation found for a pair: what it buys and sells, where, from which book, and that it pays.
\<close>

definition sound_dislocation :: "detect_env \<Rightarrow> raw_dislocation \<Rightarrow> bool" where
  "sound_dislocation env d \<longleftrightarrow>
     sellPlatformId d = other_platform (buyPlatformId d)
     \<and> book_of env (pairConfig d) (buyPlatformId d) = Some (buyOrderBook d)
     \<and> book_of env (pairConfig d) (sellPlatformId d) = Some (sellOrderBook d)
     \<and> (\<forall>p. \<not> isDegraded p (deDegradation env) \<and> \<not> deStale env p (contract_of (pairConfig d) p))
     \<and> buyPrice d = best_ask (buyOrderBook d) \<and> sellPrice d = best_bid (sellOrderBook d)
     \<and> asks (buyOrderBook d) \<noteq> [] \<and> bids (sellOrderBook d) \<noteq> []
     \<and> (\<exists>b s. buyPrice d = Fin b \<and> sellPrice d = Fin s \<and> b < s)"

context decimal_rounding
begin

lemma scenario_sound:
  assumes "scenario rd pc buyer buyBook sellBook now = Inr ds" "\<not> no_depth buyBook" "\<not> no_depth sellBook"
    and "\<forall>p. \<not> isDegraded p (deDegradation env) \<and> \<not> deStale env p (contract_of pc p)" "d \<in> set ds"
    and "book_of env pc buyer = Some buyBook" "book_of env pc (other_platform buyer) = Some sellBook"
  shows "sound_dislocation env d \<and> pairConfig d = pc \<and> buyPlatformId d = buyer"
proof -
  from assms(1,5) obtain edge where e: "calculateGrossEdge rd (best_ask buyBook) (best_bid sellBook) = Inr edge"
    "xgt edge (Fin 0)"
    and d: "d = buildDislocation pc buyer (other_platform buyer) (best_ask buyBook) (best_bid sellBook) edge buyBook sellBook now"
    by (auto simp: scenario_def Let_def and_then_Inr best_ask_def best_bid_def split: if_splits)
  from e(1) obtain b s where "best_ask buyBook = Fin b" "best_bid sellBook = Fin s" "edge = Fin (rd (s - b))"
    by (auto simp: calculateGrossEdge_def and_then_Inr validate_decimal_Inr is_fin_iff)
  with e(2) d assms(2-4,6,7) show ?thesis
    by (auto simp: buildDislocation_def sound_dislocation_def no_depth_def)
qed

lemma detect_pair_sound:
  assumes "detect_pair rd env pc = Inr (Some ds)" "d \<in> set ds"
  shows "sound_dislocation env d \<and> pairConfig d = pc"
proof -
  from assms(1) obtain k p a b where books: "deBook env Kalshi (kalshiContractId pc) = Some k"
      "deBook env Polymarket (polymarketClobTokenId pc) = Some p" "\<not> no_depth k" "\<not> no_depth p"
    and found: "scenario rd pc Polymarket p k (deNow env) = Inr a" "scenario rd pc Kalshi k p (deNow env) = Inr b" "ds = a @ b"
    by (auto simp: detect_pair_def and_then_Inr split: if_splits option.splits)
  have ok: "\<forall>q. \<not> isDegraded q (deDegradation env) \<and> \<not> deStale env q (contract_of pc q)"
    using assms(1) by (auto simp: detect_pair_def contract_of_def split: if_splits platform.splits)
  have of: "book_of env pc Kalshi = Some k" "book_of env pc Polymarket = Some p"
    using books by (simp_all add: book_of_def contract_of_def)
  from assms(2) found(3) consider "d \<in> set a" | "d \<in> set b" by auto
  then show ?thesis
  proof cases
    case 1
    from scenario_sound [OF found(1) books(4,3) ok 1] of show ?thesis by simp
  next
    case 2
    from scenario_sound [OF found(2) books(3,4) ok 2] of show ?thesis by simp
  qed
qed

end

lemma detected_sound:
  assumes "decimal_rounding rd" "detectDislocations rd env pcs = Inr r"
  shows "pairsEvaluated r + pairsSkipped r = length pcs
    \<and> list_all (\<lambda>d. pairConfig d \<in> set pcs \<and> sound_dislocation (env (pairConfig d)) d) (dislocations r)"
  using assms(2)
proof (induction pcs arbitrary: r)
  case Nil
  then show ?case by auto
next
  case (Cons pc pcs)
  from Cons.prems obtain found r' where f: "detect_pair rd (env pc) pc = Inr found"
    "detectDislocations rd env pcs = Inr r'"
    "r = (case found of None \<Rightarrow> r'\<lparr>pairsSkipped := pairsSkipped r' + 1\<rparr>
      | Some ds \<Rightarrow> r'\<lparr>dislocations := ds @ dislocations r', pairsEvaluated := pairsEvaluated r' + 1\<rparr>)"
    by (auto simp: and_then_Inr)
  from Cons.IH [OF f(2)] f(1,3) decimal_rounding.detect_pair_sound [OF assms(1)]
  show ?case by (cases found) (auto simp: list_all_iff)
qed

text \<open>
  C16: a detection cycle looks at every pair once, and each dislocation it reports belongs to a pair of the
  cycle, neither of whose platforms is degraded and neither of whose contracts is stale. It buys on one
  platform at the best ask of that platform's book of the pair's contract and sells on the other at the
  best bid of the other's book, the purchase price is finite and strictly below the sale price, and the
  books it carries are the books of the two platforms it names.
\<close>
theorem detected_dislocations_pay:
  assumes "decimal_rounding rd" "detectDislocations rd env pcs = Inr r"
  shows "pairsEvaluated r + pairsSkipped r = length pcs
    \<and> list_all (\<lambda>d. pairConfig d \<in> set pcs \<and> sound_dislocation (env (pairConfig d)) d) (dislocations r)"
  by (rule detected_sound [OF assms])

section \<open>What an identified opportunity guarantees\<close>

text \<open>The gates an opportunity has passed.\<close>

definition passes_gates :: "edge_config \<Rightarrow> timestamp \<Rightarrow> identified \<Rightarrow> bool" where
  "passes_gates cfg now op \<longleftrightarrow>
     xge (idNetEdge op) (idEffectiveMinEdge op)
     \<and> \<not> xlt (idAnnualized op) (ecMinAnnualized cfg)
     \<and> is_fin (idNetEdge op) \<and> is_fin (idEffectiveMinEdge op)
     \<and> (\<exists>date. resolutionDateCfg (pairConfig (idDislocation op)) = Some date \<and> now < date)"

lemma capital_efficiency_Inr:
  assumes "decimal_rounding rd" "checkCapitalEfficiency rd d e m now = Inr a"
  shows "\<not> xlt a m \<and> (\<exists>date. resolutionDateCfg (pairConfig d) = Some date \<and> now < date)"
proof -
  obtain date where "resolutionDateCfg (pairConfig d) = Some date"
    using assms(2) by (auto simp: checkCapitalEfficiency_def Let_def split: option.splits)
  moreover from this assms(2) have "\<not> rd (of_int (date - now) / 86400000) \<le> 0" "\<not> xlt a m"
    by (auto simp: checkCapitalEfficiency_def Let_def split: if_splits)
  moreover have "0 < rd (of_int (date - now) / 86400000) \<longleftrightarrow> (0 :: rat) < of_int (date - now) / 86400000"
    by (rule digit_rounding.rd_pos_iff [OF decimal_rounding.axioms(1) [OF assms(1)]])
  ultimately show ?thesis by (simp add: zero_less_divide_iff)
qed


lemma above_Inr: "isAboveThreshold e t = Inr b \<longleftrightarrow> is_fin e \<and> is_fin t \<and> b = xge e t"
  by (auto simp: isAboveThreshold_def and_then_Inr validate_decimal_Inr)

lemma map_sum_Inr: "map_sum f id m = Inr b \<longleftrightarrow> m = Inr b"
  by (cases m) auto

lemma capital_refusal:
  "checkCapitalEfficiency rd d e m now = Inl (out, evs) \<Longrightarrow> (\<exists>f. out = FilteredOut f) \<and> length evs = 1"
  by (auto simp: checkCapitalEfficiency_def Let_def split: option.splits if_splits)

text \<open>An identified opportunity with everything it was computed from.\<close>

lemma identified_cases:
  assumes "processSingleDislocation rd cfg fees deg now d = Inr (Identified op, evs)"
  obtains buyFee sellFee buy sell where
    "fees (buyPlatformId d) = Some buyFee" "fees (sellPlatformId d) = Some sellFee"
    "calculateVwapWithFillInfo rd (buyOrderBook d) ''sell'' (target_contracts rd cfg (buyPrice d)) = Some buy"
    "calculateVwapWithFillInfo rd (sellOrderBook d) ''buy'' (target_contracts rd cfg (sellPrice d)) = Some sell"
    "\<not> xlt (xdiv rd (filledQty buy) (target_contracts rd cfg (buyPrice d))) (ecMinFillRatio cfg)"
    "\<not> xlt (xdiv rd (filledQty sell) (target_contracts rd cfg (sellPrice d))) (ecMinFillRatio cfg)"
    "idDislocation op = d" "idEffectiveMinEdge op = effective_threshold rd cfg (getEdgeThresholdMultiplier (buyPlatformId d) deg) buy sell"
    "isAboveThreshold (idNetEdge op) (idEffectiveMinEdge op) = Inr True"
    "checkCapitalEfficiency rd d (idNetEdge op) (ecMinAnnualized cfg) now = Inr (idAnnualized op)"
    "calculateNetEdge rd (xsub rd (vwap sell) (vwap buy)) (vwap buy) (vwap sell) (fee_schedule.truncate buyFee)
       (fee_schedule.truncate sellFee) (getGasEstimateUsd cfg [buyFee, sellFee]) (ecPositionSize cfg) = Inr (idNetEdge op)"
    "evs = [EdgeIdentified op]"
  using assms
  by (auto simp: processSingleDislocation_def filterInsufficientVwapDepth_def Let_def and_then_Inr map_sum_Inr
      dest!: capital_refusal split: option.splits if_splits sum.splits)


lemma single_one_event:
  "processSingleDislocation rd cfg fees deg now d = Inr (out, evs) \<Longrightarrow> length evs = 1"
  by (auto simp: processSingleDislocation_def filterInsufficientVwapDepth_def Let_def and_then_Inr map_sum_Inr
      dest!: capital_refusal split: option.splits if_splits sum.splits)

lemma batch_opportunities:
  "set (opportunities (foldl (\<lambda>r out. add_outcome out r) r outs)) =
     set (opportunities r) \<union> {op. \<exists>evs. Inr (Identified op, evs) \<in> set outs}"
  "length (opportunities (foldl (\<lambda>r out. add_outcome out r) r outs))
     + length (filteredOut (foldl (\<lambda>r out. add_outcome out r) r outs))
     + skippedErrors (foldl (\<lambda>r out. add_outcome out r) r outs)
   = length (opportunities r) + length (filteredOut r) + skippedErrors r + length outs"
  "totalInput (foldl (\<lambda>r out. add_outcome out r) r outs) = totalInput r"
  by (induction outs arbitrary: r)
    (auto simp: add_outcome_def split: sum.splits prod.splits edge_outcome.splits)

lemma batch_events:
  assumes "\<And>out evs. Inr (out, evs) \<in> set outs \<Longrightarrow> length evs = 1"
  shows "length (concat (map (\<lambda>out. case out of Inl _ \<Rightarrow> [] | Inr (_, evs) \<Rightarrow> evs) outs))
      + skippedErrors (foldl (\<lambda>r out. add_outcome out r) r outs)
    = skippedErrors r + length outs"
  using assms
proof (induction outs arbitrary: r)
  case (Cons out outs)
  have "length (concat (map (\<lambda>out. case out of Inl _ \<Rightarrow> [] | Inr (_, evs) \<Rightarrow> evs) outs))
      + skippedErrors (foldl (\<lambda>r out. add_outcome out r) (add_outcome out r) outs)
    = skippedErrors (add_outcome out r) + length outs"
    by (rule Cons.IH) (use Cons.prems in auto)
  note IH = this
  show ?case
  proof (cases out)
    case (Inl e)
    then show ?thesis using IH by (simp add: add_outcome_def)
  next
    case (Inr x)
    obtain res evs where x: "x = (res, evs)" by (cases x)
    then have "length evs = 1" using Cons.prems Inr by auto
    then show ?thesis using IH Inr x by (cases res) (simp_all add: add_outcome_def)
  qed
qed simp

lemma identified_from:
  assumes "processDislocations rd cfg fees deg now ds = (r, evs)" "op \<in> set (opportunities r)"
  shows "idDislocation op \<in> set ds
    \<and> (\<exists>oevs. processSingleDislocation rd cfg fees deg now (idDislocation op) = Inr (Identified op, oevs))"
proof -
  let ?outs = "map (processSingleDislocation rd cfg fees deg now) ds"
  have "r = foldl (\<lambda>r out. add_outcome out r) \<lparr>opportunities = [], filteredOut = [], totalInput = length ds, skippedErrors = 0\<rparr> ?outs"
    using assms(1) by (auto simp: processDislocations_def Let_def)
  with assms(2) obtain oevs where "Inr (Identified op, oevs) \<in> set ?outs"
    by (auto simp: batch_opportunities(1))
  then obtain d where "d \<in> set ds" "Inr (Identified op, oevs) = processSingleDislocation rd cfg fees deg now d"
    unfolding set_map by blast
  then have d: "d \<in> set ds" "processSingleDislocation rd cfg fees deg now d = Inr (Identified op, oevs)"
    by simp_all
  from d(2) have "idDislocation op = d" by (rule identified_cases)
  with d show ?thesis by blast
qed

text \<open>
  the calculator drops no dislocation silently: each of a batch ends as an opportunity, as a
  filtered one or as a counted error, with one event for each of the first two; and an opportunity
  belongs to a dislocation of the batch, has a finite net edge of at least its effective threshold,
  reaches the least annualized return and resolves in the future.
\<close>
theorem identified_opportunities_pass_gates:
  assumes "decimal_rounding rd" "processDislocations rd cfg fees deg now ds = (r, evs)"
  shows "length (opportunities r) + length (filteredOut r) + skippedErrors r = totalInput r
    \<and> totalInput r = length ds
    \<and> length evs = length (opportunities r) + length (filteredOut r)
    \<and> list_all (\<lambda>op. idDislocation op \<in> set ds \<and> passes_gates cfg now op) (opportunities r)"
proof -
  let ?outs = "map (processSingleDislocation rd cfg fees deg now) ds"
  let ?r0 = "\<lparr>opportunities = [], filteredOut = [], totalInput = length ds, skippedErrors = 0\<rparr>"
  have r: "r = foldl (\<lambda>r out. add_outcome out r) ?r0 ?outs"
    and evs: "evs = concat (map (\<lambda>out. case out of Inl _ \<Rightarrow> [] | Inr (_, evs) \<Rightarrow> evs) ?outs)"
    using assms(2) by (auto simp: processDislocations_def Let_def)
  have "length evs = 1" if "Inr (out, evs) \<in> set ?outs" for out evs
    using that by (auto dest!: sym [of "Inr (out, evs)"] single_one_event)
  then have "length evs + skippedErrors r = length ds"
    using batch_events [of ?outs ?r0] unfolding r evs by simp
  moreover have "length (opportunities r) + length (filteredOut r) + skippedErrors r = length ds" "totalInput r = length ds"
    using batch_opportunities [where r = ?r0 and outs = ?outs] unfolding r by simp_all
  moreover have "idDislocation op \<in> set ds \<and> passes_gates cfg now op" if "op \<in> set (opportunities r)" for op
  proof -
    from identified_from [OF assms(2) that] obtain d oevs where
      d: "d \<in> set ds" "processSingleDislocation rd cfg fees deg now d = Inr (Identified op, oevs)" by blast
    from d(2) show ?thesis
    proof (rule identified_cases)
      assume i: "idDislocation op = d" "isAboveThreshold (idNetEdge op) (idEffectiveMinEdge op) = Inr True"
        and c: "checkCapitalEfficiency rd d (idNetEdge op) (ecMinAnnualized cfg) now = Inr (idAnnualized op)"
      from i c d(1) capital_efficiency_Inr [OF assms(1) c] show ?thesis
        by (auto simp: passes_gates_def above_Inr)
    qed
  qed
  ultimately show ?thesis by (simp add: list_all_iff)
qed

section \<open>The effective threshold\<close>

context decimal_rounding
begin

lemma scaled_edge_ge:
  assumes "money m" "0 \<le> m" "0 \<le> k" "0 < q"
  shows "m \<le> rd (m * rd (1 + rd (k / q)))"
proof -
  have "0 \<le> rd (k / q)" using assms by simp
  then have "1 \<le> rd (1 + rd (k / q))" by (intro fix_le_rd) simp_all
  then have "m * 1 \<le> m * rd (1 + rd (k / q))" using assms(2) by (rule mult_left_mono)
  then show ?thesis using rd_money [OF assms(1)] by (intro fix_le_rd) simp_all
qed

lemma threshold_bounds:
  assumes "ecMinEdge cfg = Fin m" "ecMaxDynamic cfg = Fin c" "money m" "money c" "0 \<le> m"
    and "ecScaling cfg = Fin k" "0 \<le> k" "totalQtyAvailable buy = Fin q1" "totalQtyAvailable sell = Fin q2"
  shows "\<exists>t. effective_threshold rd cfg (Fin 1) buy sell = Fin t \<and> min m c \<le> t \<and> t \<le> max m c"
proof -
  have one: "shortest 1 = 1" using shortest_int [of 1] by simp
  have exact: "rd m = m" "rd c = c" "rd (min m c) = min m c" "rd (max m c) = max m c"
    using rd_money [OF assms(3)] rd_money [OF assms(4)] by (simp_all add: min_def max_def)
  have mid: "min m c \<le> rd x \<and> rd x \<le> max m c" if "min m c \<le> x" "x \<le> max m c" for x
    using that exact rd_le_fix fix_le_rd by blast
  show ?thesis
  proof (cases "0 < k \<and> 0 < min q1 q2")
    case True
    let ?b = "rd (m * rd (1 + rd (k / min q1 q2)))"
    have "m \<le> ?b" using scaled_edge_ge [OF assms(3,5,7)] True by blast
    then have "min m c \<le> min ?b c" "min ?b c \<le> max m c" by auto
    then show ?thesis using mid [of "min ?b c"] True assms one
      by (auto simp: effective_threshold_def computeDynamicThreshold_def Let_def)
  next
    case False
    then show ?thesis using mid [of m] assms one by (auto simp: effective_threshold_def Let_def exact)
  qed
qed

end

text \<open>
  in a healthy market the effective threshold lies between the smaller and the larger of the
  configured edge and the configured cap, whatever the depth of the books: a thin book raises it at
  most to the cap, and a cap below the edge lowers it under the configured edge.
\<close>
theorem effective_threshold_bounds:
  assumes "decimal_rounding rd" "ecMinEdge cfg = Fin m" "ecMaxDynamic cfg = Fin c" "money m" "money c" "0 \<le> m"
    and "ecScaling cfg = Fin k" "0 \<le> k" "totalQtyAvailable buy = Fin q1" "totalQtyAvailable sell = Fin q2"
  shows "\<exists>t. effective_threshold rd cfg (Fin 1) buy sell = Fin t \<and> min m c \<le> t \<and> t \<le> max m c"
  using decimal_rounding.threshold_bounds [OF assms(1) assms(2-10)] .


text \<open>
  the widened threshold of the degradation protocol is never used by a detection cycle: while
  any platform is degraded every pair is skipped, so the multiplier is one for every dislocation.
\<close>
theorem detection_never_widens:
  assumes "decimal_rounding rd" "detectDislocations rd env pcs = Inr r"
  shows "list_all (\<lambda>d. getEdgeThresholdMultiplier p (deDegradation (env (pairConfig d))) = Fin 1) (dislocations r)"
  using assms(2)
proof (induction pcs arbitrary: r)
  case Nil
  then show ?case by auto
next
  case (Cons pc pcs)
  from Cons.prems obtain found r' where f: "detect_pair rd (env pc) pc = Inr found"
    "detectDislocations rd env pcs = Inr r'"
    "r = (case found of None \<Rightarrow> r'\<lparr>pairsSkipped := pairsSkipped r' + 1\<rparr>
      | Some ds \<Rightarrow> r'\<lparr>dislocations := ds @ dislocations r', pairsEvaluated := pairsEvaluated r' + 1\<rparr>)"
    by (auto simp: and_then_Inr)
  have "getEdgeThresholdMultiplier p (deDegradation (env (pairConfig d))) = Fin 1"
    if "found = Some ds" "d \<in> set ds" for ds d
  proof -
    have s: "sound_dislocation (env pc) d" "pairConfig d = pc"
      using decimal_rounding.detect_pair_sound [OF assms(1)] f(1) that by blast+
    then have none: "map_of (degradedPlatforms (deDegradation (env pc))) q = None" for q
      by (auto simp: sound_dislocation_def isDegraded_def)
    have "degradedPlatforms (deDegradation (env pc)) = []"
      by (cases "degradedPlatforms (deDegradation (env pc))") (use none [of "fst (hd (degradedPlatforms (deDegradation (env pc))))"] in auto)
    then show ?thesis using s(2) none by (simp add: getEdgeThresholdMultiplier_def isDegraded_def)
  qed
  with Cons.IH [OF f(2)] f(3) show ?case by (cases found) (auto simp: list_all_iff)
qed

section \<open>A cycle at concrete input\<close>

text \<open>Polymarket asks a half, Kalshi bids one; the other direction does not pay.\<close>

definition market_pair :: pair_config where
  "market_pair = sample_pair\<lparr>resolutionDateCfg := Some 31536000000, matchIdCfg := Some ''m1''\<rparr>"

definition flat_book :: "rat \<Rightarrow> rat \<Rightarrow> order_book" where
  "flat_book b a = \<lparr>bids = [\<lparr>price = Fin b, quantity = Fin 500\<rparr>], asks = [\<lparr>price = Fin a, quantity = Fin 500\<rparr>]\<rparr>"

definition market_env :: detect_env where
  "market_env = \<lparr>deStale = (\<lambda>_ _. False), deDegradation = degradation_init (Fin 1),
     deBook = (\<lambda>p _. Some (if p = Kalshi then flat_book 1 1 else flat_book (1/2) (1/2))), deNow = 0\<rparr>"

definition market_dislocation :: raw_dislocation where
  "market_dislocation = buildDislocation market_pair Polymarket Kalshi (Fin (1/2)) (Fin 1) (Fin (1/2))
     (flat_book (1/2) (1/2)) (flat_book 1 1) 0"

lemma market_numbers:
  "dec20 (1/2) = 1/2" "shortest 1 = 1" "shortest 500 = 500" "dec20 100 = 100" "dec20 200 = 200" "dec20 500 = 500"
  "dec20 365 = 365"
  using shortest_int [of 1] shortest_int [of 500] dec20_int [of 100] dec20_int [of 200] dec20_int [of 500] dec20_int [of 365]
  by (simp_all add: d20.rd_grid grid_def)

lemma market_detected:
  "detectDislocations dec20 (\<lambda>_. market_env) [market_pair]
     = Inr \<lparr>dislocations = [market_dislocation], pairsEvaluated = 1, pairsSkipped = 0\<rparr>"
  by (simp add: market_env_def detect_pair_def isDegraded_def degradation_init_def no_depth_def flat_book_def
      scenario_def calculateGrossEdge_def market_dislocation_def market_numbers Let_def del: One_nat_def)

theorem detected_dislocations_pay_witness:
  "\<exists>r d. detectDislocations dec20 (\<lambda>_. market_env) [market_pair] = Inr r \<and> dislocations r = [d]
     \<and> sound_dislocation market_env d"
  using detected_dislocations_pay [OF d20.decimal_rounding_axioms market_detected] market_detected by auto

theorem detection_never_widens_witness:
  "\<exists>r d. detectDislocations dec20 (\<lambda>_. market_env) [market_pair] = Inr r \<and> dislocations r = [d]
     \<and> getEdgeThresholdMultiplier Kalshi (deDegradation market_env) = Fin 1"
  using detection_never_widens [OF d20.decimal_rounding_axioms market_detected, of Kalshi] market_detected by auto

theorem effective_threshold_bounds_witness:
  "\<exists>t. effective_threshold dec20 \<lparr>ecMinEdge = Fin 1, ecMinFillRatio = Fin 1, ecScaling = Fin 10, ecMaxDynamic = Fin 3,
      ecMinAnnualized = Fin 0, ecGasEstimate = Fin 0, ecPositionSize = Fin 100\<rparr> (Fin 1)
      \<lparr>vwap = Fin 1, filledQty = Fin 1, totalQtyAvailable = Fin 5\<rparr>
      \<lparr>vwap = Fin 1, filledQty = Fin 1, totalQtyAvailable = Fin 4\<rparr> = Fin t \<and> 1 \<le> t \<and> t \<le> 3"
proof -
  have "money 1" "money 3" by (simp_all add: money_iff grid_def)
  from effective_threshold_bounds [OF d20.decimal_rounding_axioms _ _ this, of "\<lparr>ecMinEdge = Fin 1, ecMinFillRatio = Fin 1,
      ecScaling = Fin 10, ecMaxDynamic = Fin 3, ecMinAnnualized = Fin 0, ecGasEstimate = Fin 0, ecPositionSize = Fin 100\<rparr>"
      10 "\<lparr>vwap = Fin 1, filledQty = Fin 1, totalQtyAvailable = Fin 5\<rparr>" 5
      "\<lparr>vwap = Fin 1, filledQty = Fin 1, totalQtyAvailable = Fin 4\<rparr>" 4]
  show ?thesis by simp
qed

text \<open>The detected dislocation as an opportunity of 100 dollars, without fees.\<close>

definition market_config :: edge_config where
  "market_config = \<lparr>ecMinEdge = Fin 0, ecMinFillRatio = Fin 1, ecScaling = Fin 0, ecMaxDynamic = Fin 1,
     ecMinAnnualized = Fin 0, ecGasEstimate = Fin 0, ecPositionSize = Fin 100\<rparr>"

definition market_fees :: "platform \<Rightarrow> platform_fees option" where
  "market_fees p = Some \<lparr>takerFeePercent = Fin 0, takerFeeForPrice = None, gasEstimateUsd = None\<rparr>"

lemma market_identified:
  "\<exists>r evs op. processDislocations dec20 market_config market_fees (degradation_init (Fin 1)) 0 [market_dislocation] = (r, evs)
     \<and> opportunities r = [op]"
proof -
  have vw: "calculateVwapWithFillInfo dec20 (flat_book (1/2) (1/2)) ''sell'' (Fin 200)
      = Some \<lparr>vwap = Fin (1/2), filledQty = Fin 200, totalQtyAvailable = Fin 500\<rparr>"
    "calculateVwapWithFillInfo dec20 (flat_book 1 1) ''buy'' (Fin 100)
      = Some \<lparr>vwap = Fin 1, filledQty = Fin 100, totalQtyAvailable = Fin 500\<rparr>"
    by (simp_all add: calculateVwapWithFillInfo_def flat_book_def market_numbers xsum_def)
  have target: "target_contracts dec20 market_config (Fin (1/2)) = Fin 200" "target_contracts dec20 market_config (Fin 1) = Fin 100"
    by (simp_all add: target_contracts_def market_config_def market_numbers)
  have thr: "effective_threshold dec20 market_config (Fin 1) b s = Fin 0" for b s
    by (simp add: effective_threshold_def market_config_def)
  have mult: "getEdgeThresholdMultiplier p (degradation_init (Fin 1)) = Fin 1" for p
    by (simp add: getEdgeThresholdMultiplier_def isDegraded_def degradation_init_def)
  have gas: "getGasEstimateUsd market_config [\<lparr>takerFeePercent = Fin 0, takerFeeForPrice = None, gasEstimateUsd = None\<rparr>,
      \<lparr>takerFeePercent = Fin 0, takerFeeForPrice = None, gasEstimateUsd = None\<rparr>] = Fin 0"
    by (simp add: getGasEstimateUsd_def market_config_def List.map_filter_def)
  have net: "calculateNetEdge dec20 (Fin (1/2)) (Fin (1/2)) (Fin 1)
      (fee_schedule.truncate \<lparr>takerFeePercent = Fin 0, takerFeeForPrice = None, gasEstimateUsd = None\<rparr>)
      (fee_schedule.truncate \<lparr>takerFeePercent = Fin 0, takerFeeForPrice = None, gasEstimateUsd = None\<rparr>) (Fin 0) (Fin 100)
      = Inr (Fin (1/2))"
    by (simp add: calculateNetEdge_def fee_schedule.truncate_def calculateTakerFeeRate_def market_numbers)
  have eff: "checkCapitalEfficiency dec20 market_dislocation (Fin (1/2)) (Fin 0) 0 = Inr (Fin (1/2))"
    by (simp add: checkCapitalEfficiency_def market_dislocation_def buildDislocation_def market_pair_def sample_pair_def
        market_numbers Let_def)
  have parts: "buyPlatformId market_dislocation = Polymarket" "sellPlatformId market_dislocation = Kalshi"
    "buyPrice market_dislocation = Fin (1/2)" "sellPrice market_dislocation = Fin 1" "rawGrossEdge market_dislocation = Fin (1/2)"
    "buyOrderBook market_dislocation = flat_book (1/2) (1/2)" "sellOrderBook market_dislocation = flat_book 1 1"
    "ecPositionSize market_config = Fin 100" "ecMinAnnualized market_config = Fin 0" "ecMinFillRatio market_config = Fin 1"
    by (simp_all add: market_dislocation_def buildDislocation_def market_config_def)
  have "\<exists>op. processSingleDislocation dec20 market_config market_fees (degradation_init (Fin 1)) 0 market_dislocation
      = Inr (Identified op, [EdgeIdentified op])"
    by (simp add: processSingleDislocation_def market_fees_def parts target vw gas net thr mult eff market_numbers
        isAboveThreshold_def Let_def)
  then show ?thesis by (auto simp: processDislocations_def add_outcome_def)
qed

theorem identified_opportunities_pass_gates_witness:
  "\<exists>r evs op. processDislocations dec20 market_config market_fees (degradation_init (Fin 1)) 0 [market_dislocation] = (r, evs)
     \<and> opportunities r = [op] \<and> idDislocation op = market_dislocation \<and> passes_gates market_config 0 op"
proof -
  obtain r evs op where r: "processDislocations dec20 market_config market_fees (degradation_init (Fin 1)) 0
      [market_dislocation] = (r, evs)" "opportunities r = [op]"
    using market_identified by blast
  from identified_opportunities_pass_gates [OF d20.decimal_rounding_axioms r(1)] r show ?thesis by simp
qed

end
