(* ===== verification/ExitDataSource.thy ===== *)
theory ExitDataSource
  imports DepthGate
begin

text \<open>
  \<^verbatim>\<open>ExitDataSourceService\<close>: which feed a close price rests on, the close price of a
  leg, and how much of a book can be taken within the slippage tolerance when a leg is closed.
  The book query is an argument, as in the depth gate.  The lemmas show that the walk that stops
  at the first unacceptable level counts every acceptable level of the book.
\<close>

record exit_source_config =
  escWsThreshold :: jsnum
  escTolerance :: jsnum

definition reload_exit_source :: "jsnum option \<Rightarrow> jsnum option \<Rightarrow> exit_source_config \<Rightarrow> exit_source_config" where
  "reload_exit_source threshold tolerance c =
     c\<lparr>escWsThreshold := (case threshold of Some v \<Rightarrow> v | None \<Rightarrow> escWsThreshold c),
       escTolerance := (case tolerance of Some v \<Rightarrow> v | None \<Rightarrow> escTolerance c)\<rparr>"

section \<open>Data sources\<close>

definition classifyExitSource :: "exit_source_config \<Rightarrow> timestamp option \<Rightarrow> timestamp \<Rightarrow> data_source" where
  "classifyExitSource c lastWs now =
     (case lastWs of
        None \<Rightarrow> Polling
      | Some t \<Rightarrow> if xge (Fin (of_int (now - t))) (escWsThreshold c) then StaleFallback else WebSocket)"

fun source_precedence :: "data_source \<Rightarrow> nat" where
  "source_precedence WebSocket = 0"
| "source_precedence Polling = 1"
| "source_precedence StaleFallback = 2"

definition combineDataSources :: "data_source \<Rightarrow> data_source \<Rightarrow> data_source" where
  "combineDataSources a b = (if source_precedence a \<ge> source_precedence b then a else b)"

section \<open>Close prices\<close>

text \<open>The query may throw; a side without levels has no close price.\<close>

definition getClosePrice ::
  "(rat \<Rightarrow> rat) \<Rightarrow> book_answer \<Rightarrow> string \<Rightarrow> decimal option \<Rightarrow> (string \<times> string) + decimal option" where
  "getClosePrice rd answer originalSide positionSize =
     and_then answer (\<lambda>book.
       case close_levels book originalSide of
         [] \<Rightarrow> Inr None
       | level # _ \<Rightarrow>
           (case positionSize of
              None \<Rightarrow> Inr (Some (to_decimal (price level)))
            | Some sz \<Rightarrow> Inr (calculateVwapClosePrice rd book originalSide sz)))"

section \<open>Depth within the tolerance\<close>

definition exit_cutoff :: "(rat \<Rightarrow> rat) \<Rightarrow> exit_source_config \<Rightarrow> order_side \<Rightarrow> decimal \<Rightarrow> decimal" where
  "exit_cutoff rd c closeSide closePrice =
     xmul rd closePrice (if closeSide = Buy then xadd rd (Fin 1) (to_decimal (escTolerance c))
                         else xsub rd (Fin 1) (to_decimal (escTolerance c)))"

definition sorted_levels :: "order_side \<Rightarrow> order_book \<Rightarrow> price_level list" where
  "sorted_levels closeSide book =
     (if closeSide = Buy then sort_key price (asks book) else sort_key (\<lambda>l. xneg (price l)) (bids book))"

definition exit_price_ok :: "order_side \<Rightarrow> decimal \<Rightarrow> price_level \<Rightarrow> bool" where
  "exit_price_ok closeSide cutoff level \<longleftrightarrow>
     (if closeSide = Buy then xle (to_decimal (price level)) cutoff else xge (to_decimal (price level)) cutoff)"

fun exit_depth_loop :: "(rat \<Rightarrow> rat) \<Rightarrow> order_side \<Rightarrow> decimal \<Rightarrow> price_level list \<Rightarrow> decimal \<Rightarrow> decimal" where
  "exit_depth_loop rd closeSide cutoff [] depth = depth"
| "exit_depth_loop rd closeSide cutoff (level # levels) depth =
     (if exit_price_ok closeSide cutoff level
      then exit_depth_loop rd closeSide cutoff levels
        (if xgt (quantity level) (Fin 0) then xadd rd depth (to_decimal (quantity level)) else depth)
      else if xgt depth (Fin 0) then depth
      else exit_depth_loop rd closeSide cutoff levels depth)"

definition getAvailableExitDepth ::
  "(rat \<Rightarrow> rat) \<Rightarrow> exit_source_config \<Rightarrow> book_answer \<Rightarrow> order_side \<Rightarrow> decimal \<Rightarrow> (string \<times> string) + decimal" where
  "getAvailableExitDepth rd c answer closeSide closePrice =
     and_then answer (\<lambda>book.
       Inr (exit_depth_loop rd closeSide (exit_cutoff rd c closeSide closePrice) (sorted_levels closeSide book) (Fin 0)))"

section \<open>The early break loses nothing\<close>

text \<open>On doubles, printing and reading back keeps the order.\<close>

lemma b64_shortest:
  assumes "b64 x = x"
  shows "b64 (shortest x) = x"
proof (cases "List.find (\<lambda>k. b64 (sig_round 10 k half_up x) = x) [1..<18]")
  case (Some k)
  then have "b64 (sig_round 10 k half_up x) = x" by (auto simp: find_Some_iff)
  then show ?thesis using Some by (simp add: shortest_def)
next
  case None
  then show ?thesis using assms by (simp add: shortest_def)
qed

lemma shortest_mono:
  assumes "b64 x = x" "b64 y = y" "x \<le> y"
  shows "shortest x \<le> shortest y"
proof (cases "shortest x \<le> shortest y")
  case False
  then have "b64 (shortest y) \<le> b64 (shortest x)" by (intro dbl.sr.rd_mono) simp
  then have "y \<le> x" using assms by (simp add: b64_shortest)
  then show ?thesis using assms(3) by simp
qed simp

definition double_price :: "price_level \<Rightarrow> bool" where
  "double_price l \<longleftrightarrow> (case price l of Fin q \<Rightarrow> b64 q = q | _ \<Rightarrow> False)"

lemma price_ok_earlier:
  assumes "double_price a" "double_price b" "exit_price_ok s cutoff b"
    and "s = Buy \<Longrightarrow> price a \<le> price b" "s = Sell \<Longrightarrow> xneg (price a) \<le> xneg (price b)"
  shows "exit_price_ok s cutoff a"
proof -
  obtain x y where x: "price a = Fin x" "b64 x = x" and y: "price b = Fin y" "b64 y = y"
    using assms(1,2) by (cases "price a"; cases "price b") (auto simp: double_price_def)
  show ?thesis
  proof (cases s)
    case Buy
    then have "shortest x \<le> shortest y" using assms(4) x y by (intro shortest_mono) auto
    then show ?thesis using assms(3) Buy x y by (cases cutoff) (auto simp: exit_price_ok_def)
  next
    case Sell
    then have "shortest y \<le> shortest x" using assms(5) x y by (intro shortest_mono) auto
    then show ?thesis using assms(3) Sell x y by (cases cutoff) (auto simp: exit_price_ok_def)
  qed
qed

definition exit_counted :: "order_side \<Rightarrow> decimal \<Rightarrow> price_level \<Rightarrow> bool" where
  "exit_counted s cutoff l \<longleftrightarrow> exit_price_ok s cutoff l \<and> xgt (quantity l) (Fin 0)"

definition depth_sum :: "(rat \<Rightarrow> rat) \<Rightarrow> decimal \<Rightarrow> price_level list \<Rightarrow> decimal" where
  "depth_sum rd d ls = foldl (\<lambda>acc l. xadd rd acc (to_decimal (quantity l))) d ls"

lemma exit_depth_loop_filter:
  assumes "sorted_wrt (\<lambda>a b. exit_price_ok s cutoff b \<longrightarrow> exit_price_ok s cutoff a) ls"
  shows "exit_depth_loop rd s cutoff ls d = depth_sum rd d (filter (exit_counted s cutoff) ls)"
  using assms
proof (induction ls arbitrary: d)
  case (Cons l ls)
  show ?case
  proof (cases "exit_price_ok s cutoff l")
    case True
    then show ?thesis using Cons by (auto simp: exit_counted_def depth_sum_def)
  next
    case False
    then have "filter (exit_counted s cutoff) ls = []"
      using Cons.prems by (auto simp: filter_empty_conv exit_counted_def)
    then show ?thesis using False Cons by (auto simp: exit_counted_def depth_sum_def)
  qed
qed (simp add: depth_sum_def)

lemma sorted_levels_ok:
  assumes "list_all double_price (book_levels s book)"
  shows "sorted_wrt (\<lambda>a b. exit_price_ok s cutoff b \<longrightarrow> exit_price_ok s cutoff a) (sorted_levels s book)"
proof (cases s)
  case Buy
  have "sorted (map price (sorted_levels s book))" using Buy by (simp add: sorted_levels_def)
  then have "sorted_wrt (\<lambda>a b. price a \<le> price b) (sorted_levels s book)" by (simp add: sorted_map)
  then show ?thesis
    by (rule sorted_wrt_mono_rel [rotated])
      (use assms Buy in \<open>auto simp: sorted_levels_def book_levels_def list_all_iff intro: price_ok_earlier\<close>)
next
  case Sell
  have "sorted (map (\<lambda>l. xneg (price l)) (sorted_levels s book))" using Sell by (simp add: sorted_levels_def)
  then have "sorted_wrt (\<lambda>a b. xneg (price a) \<le> xneg (price b)) (sorted_levels s book)" by (simp add: sorted_map)
  then show ?thesis
    by (rule sorted_wrt_mono_rel [rotated])
      (use assms Sell in \<open>auto simp: sorted_levels_def book_levels_def list_all_iff intro: price_ok_earlier\<close>)
qed

text \<open>
  the exit depth of a book is the sum of every level within the slippage tolerance that offers a
  positive quantity, in sorted order: stopping at the first unacceptable level, and the order in
  which the connector delivers the book, change nothing.
\<close>
theorem exit_depth_counts_acceptable_levels:
  assumes "list_all double_price (book_levels s book)"
  shows "getAvailableExitDepth rd c (Inr book) s p =
    Inr (depth_sum rd (Fin 0) (filter (exit_counted s (exit_cutoff rd c s p)) (sorted_levels s book)))"
  by (simp add: getAvailableExitDepth_def exit_depth_loop_filter [OF sorted_levels_ok [OF assms]])

definition sample_exit_book :: order_book where
  "sample_exit_book = \<lparr>bids = [], asks = [\<lparr>price = Fin 1, quantity = Fin 7\<rparr>, \<lparr>price = Fin (1/2), quantity = Fin 5\<rparr>]\<rparr>"

lemma sample_exit_prices: "list_all double_price (asks sample_exit_book)"
  using b64_int [of 1] by (simp add: sample_exit_book_def double_price_def b64_half)

theorem exit_depth_counts_acceptable_levels_witness:
  "getAvailableExitDepth dec20 \<lparr>escWsThreshold = Fin 60000, escTolerance = Fin 0\<rparr> (Inr sample_exit_book) Buy (Fin (1/2)) = Inr (Fin 5)"
proof -
  have d: "dec20 1 = 1" "dec20 (1/2) = 1/2" "dec20 5 = 5"
    using dec20_int [of 1] dec20_int [of 5] d20.rd_grid [of "1/2"] by (simp_all add: grid_def)
  have s: "shortest 1 = 1" "shortest 5 = 5" using shortest_int [of 1] shortest_int [of 5] by simp_all
  have "exit_cutoff dec20 \<lparr>escWsThreshold = Fin 60000, escTolerance = Fin 0\<rparr> Buy (Fin (1/2)) = Fin (1/2)"
    by (simp add: exit_cutoff_def d)
  moreover have "sorted_levels Buy sample_exit_book =
      [\<lparr>price = Fin (1/2), quantity = Fin 5\<rparr>, \<lparr>price = Fin 1, quantity = Fin 7\<rparr>]"
    by (simp add: sorted_levels_def sample_exit_book_def sort_key_def)
  moreover have "list_all double_price (book_levels Buy sample_exit_book)"
    using sample_exit_prices by (simp add: book_levels_def)
  ultimately show ?thesis
    by (simp add: exit_depth_counts_acceptable_levels exit_counted_def exit_price_ok_def depth_sum_def d s)
qed

lemma combine_sources_worst:
  "source_precedence (combineDataSources a b) = max (source_precedence a) (source_precedence b)"
  by (simp add: combineDataSources_def max_def)

end
