(* ===== verification/ExitEffects.thy ===== *)
theory ExitEffects
  imports Legs ThresholdEvaluator
begin

text \<open>
  What the services that close positions share: the effects of an exit (orders sent and recorded,
  the status and the profit written, capital given back to the risk manager, events, the execution
  lock), and what a list of effects has sent and sold.  Texts of events are left out.
\<close>

section \<open>Data\<close>

record entry_order =
  eoFillPrice :: "decimal option"
  eoFillSize :: "decimal option"

record stored_order =
  soPrice :: decimal
  soSize :: decimal
  soFillPrice :: "decimal option"
  soFillSize :: "decimal option"

text \<open>Why a position is exited: an evaluation, or the operator.\<close>

datatype exit_reason = Evaluated exit_type | Manual

record exit_triggered =
  etPosition :: string
  etPair :: string
  etType :: "exit_reason option"
  etInitialEdge :: decimal
  etFinalEdge :: decimal
  etRealizedPnl :: decimal
  etKalshiOrder :: string
  etPolymarketOrder :: string
  etIsPaper :: bool
  etMixedMode :: bool
  etChunks :: "nat option"
  etIsPartial :: "bool option"

datatype risk_op = RiskClose | RiskPartialRelease

datatype resolution = Retried | LegClosed

record leg_resolved =
  lrPosition :: string
  lrPair :: string
  lrResolution :: resolution
  lrOrderId :: string
  lrPlatform :: platform
  lrStatus :: order_status
  lrFilledPrice :: jsnum
  lrFilledQuantity :: jsnum
  lrOriginalEdge :: jsnum
  lrNewEdge :: "jsnum option"
  lrRetryPrice :: "jsnum option"
  lrRealizedPnl :: "decimal option"
  lrIsPaper :: bool
  lrMixedMode :: bool

datatype unwind_action = UnwindClosed | UnwindSkipResolved | UnwindSkipLossLimit | UnwindFailed

record auto_unwind_event =
  auPosition :: string
  auPair :: string
  auAction :: unwind_action
  auEstimatedLossPct :: "jsnum option"
  auRealizedPnl :: "decimal option"
  auCloseOrderId :: "string option"
  auIsPaper :: bool
  auMixedMode :: bool

datatype exit_event =
    ExitExposed single_leg_event
  | ExitFilled filled_event
  | LegResolved leg_resolved
  | SizesCorrupted string
  | AutoUnwound auto_unwind_event
  | RiskDivergence string string risk_op string
  | ExitTriggered exit_triggered
  | ExitPartialChunked exit_triggered

datatype exit_effect =
    ExitSubmitted platform order_params "string + order_result"
  | ExitOrderCreated order_row string
  | StatusSet string
  | OrderLinked platform string
  | PositionClosed decimal
  | PnlAccumulated decimal decimal
  | CapitalReturned risk_op decimal decimal bool
  | ExitEmitted exit_event
  | LockTaken
  | LockReleased

definition num_or_zero :: "decimal option \<Rightarrow> jsnum" where
  "num_or_zero v = (case v of Some d \<Rightarrow> to_number d | None \<Rightarrow> Fin 0)"

definition exit_accepted :: "order_result \<Rightarrow> bool" where
  "exit_accepted res \<longleftrightarrow> orStatus res = OrderFilled \<or> orStatus res = OrderPartial"

text \<open>Capital goes back to the risk manager; its error is reported as a divergence.\<close>

definition return_capital ::
  "string option \<Rightarrow> string \<Rightarrow> string \<Rightarrow> risk_op \<Rightarrow> decimal \<Rightarrow> decimal \<Rightarrow> bool \<Rightarrow> (exit_effect, 's, unit) prog" where
  "return_capital answer posId pairId op capital pnl isPaper =
     (case answer of
        None \<Rightarrow> act_tell [CapitalReturned op capital pnl isPaper]
      | Some msg \<Rightarrow> act_tell [ExitEmitted (RiskDivergence posId pairId op msg)])"

section \<open>What was sent and sold\<close>

definition sent_orders :: "exit_effect list \<Rightarrow> (platform \<times> order_params \<times> (string + order_result)) list" where
  "sent_orders effs = List.map_filter (\<lambda>e. case e of ExitSubmitted p q out \<Rightarrow> Some (p, q, out) | _ \<Rightarrow> None) effs"

lemma sent_orders_simps [simp]:
  "sent_orders [] = []"
  "sent_orders (ExitSubmitted p q out # effs) = (p, q, out) # sent_orders effs"
  "sent_orders (ExitOrderCreated row i # effs) = sent_orders effs"
  "sent_orders (StatusSet s # effs) = sent_orders effs"
  "sent_orders (OrderLinked q' i # effs) = sent_orders effs"
  "sent_orders (LockTaken # effs) = sent_orders effs"
  "sent_orders (LockReleased # effs) = sent_orders effs"
  "sent_orders (PositionClosed d # effs) = sent_orders effs"
  "sent_orders (PnlAccumulated d d' # effs) = sent_orders effs"
  "sent_orders (CapitalReturned op d d' paper # effs) = sent_orders effs"
  "sent_orders (ExitEmitted ev # effs) = sent_orders effs"
  "sent_orders (effs @ effs') = sent_orders effs @ sent_orders effs'"
  by (simp_all add: sent_orders_def List.map_filter_def)

lemma return_capital_no_orders [simp]: "sent_orders (fst (return_capital answer i j op c pnl paper)) = []"
  by (simp add: return_capital_def split: option.splits)

interpretation no_orders: effect_property "\<lambda>effs. sent_orders effs = []"
  by unfold_locales simp_all

definition fill_of :: "string + order_result \<Rightarrow> rat" where
  "fill_of a = (case a of Inr res \<Rightarrow> (if exit_accepted res then fin_val (filledQuantity res) else 0) | Inl _ \<Rightarrow> 0)"

definition filled_by :: "platform \<Rightarrow> exit_effect list \<Rightarrow> rat" where
  "filled_by p effs = sum_list (map (\<lambda>(q, order, a). if q = p then fill_of a else 0) (sent_orders effs))"

lemma filled_by_append [simp]: "filled_by p (xs @ ys) = filled_by p xs + filled_by p ys"
  by (simp add: filled_by_def)

lemma filled_by_none: "sent_orders effs = [] \<Longrightarrow> filled_by p effs = 0"
  by (simp add: filled_by_def)

text \<open>No part of an exit but its last step closes the position.\<close>

definition closes :: "exit_effect \<Rightarrow> bool" where
  "closes e \<longleftrightarrow> (case e of PositionClosed _ \<Rightarrow> True | _ \<Rightarrow> False)"

lemma closes_simps [simp]:
  "closes (PositionClosed d)" "\<not> closes (ExitSubmitted p o' a)" "\<not> closes (ExitOrderCreated row i)"
  "\<not> closes (StatusSet s)" "\<not> closes (OrderLinked p i)" "\<not> closes LockTaken" "\<not> closes LockReleased" "\<not> closes (PnlAccumulated d d')" "\<not> closes (CapitalReturned op d d' paper)"
  "\<not> closes (ExitEmitted ev)"
  by (simp_all add: closes_def)

lemma return_capital_no_close [simp]: "\<forall>e \<in> set (fst (return_capital answer i j op c pnl paper)). \<not> closes e"
  by (simp add: return_capital_def split: option.splits)

end
