(* ===== verification/ExitExecution.thy ===== *)
theory ExitExecution
  imports ExitDataSource ExitEffects
begin

text \<open>
  \<^verbatim>\<open>ExitExecutionService\<close>: a triggered exit is sent in chunks, one order per leg and
  chunk, sized by the depth both books offer, until a leg is exhausted, a chunk fails or fifty
  chunks were tried; then the position is closed or marked as partially exited and the capital
  goes back to the risk manager.  What the connectors, the database and the risk manager answer
  are fields of the environment, per chunk where an answer can change between chunks.  Log lines
  and the texts of events are left out.
\<close>

section \<open>Data\<close>

record exit_position =
  xpId :: string
  xpPair :: string
  xpKalshiSide :: "string option"
  xpPolymarketSide :: "string option"
  xpKalshiOrder :: "entry_order option"
  xpPolymarketOrder :: "entry_order option"
  xpPrimaryLeg :: "string option"
  xpKalshiContract :: string
  xpPolymarketContract :: string
  xpExpectedEdge :: decimal
  xpRealizedPnl :: "decimal option"

type_synonym 'a exit_act = "(exit_effect, string, 'a) prog"

record exit_env =
  xeFresh :: "string + string option"
  xeBook :: "nat \<Rightarrow> platform \<Rightarrow> book_answer"
  xeSubmit :: "nat \<Rightarrow> platform \<Rightarrow> order_params \<Rightarrow> string + order_result"
  xeCreateOrder :: "nat \<Rightarrow> order_row \<Rightarrow> string + string"
  xeFindOrder :: "string \<Rightarrow> string + stored_order option"
  xeUpdateStatus :: "string option"
  xeClosePosition :: "string option"
  xeAccumulatePnl :: "string option"
  xeRisk :: "risk_op \<Rightarrow> string option"
  xeFee :: "platform \<Rightarrow> string + fee_schedule"
  xeSource :: exit_source_config
  xeMaxChunk :: jsnum

text \<open>The legs of an exit: \<open>pick(k, p)\<close> is the Kalshi or the Polymarket value of a leg.\<close>

record exit_legs =
  elPrimary :: platform
  elPrice :: "platform \<Rightarrow> decimal"
  elSize :: "platform \<Rightarrow> decimal"
  elEntry :: "platform \<Rightarrow> decimal"

definition exit_pick :: "'a \<Rightarrow> 'a \<Rightarrow> platform \<Rightarrow> 'a" where
  "exit_pick k p leg = (case leg of Kalshi \<Rightarrow> k | Polymarket \<Rightarrow> p)"

definition leg_side :: "exit_position \<Rightarrow> platform \<Rightarrow> string option" where
  "leg_side pos = exit_pick (xpKalshiSide pos) (xpPolymarketSide pos)"

definition leg_contract :: "exit_position \<Rightarrow> platform \<Rightarrow> string" where
  "leg_contract pos = exit_pick (xpKalshiContract pos) (xpPolymarketContract pos)"

definition close_side :: "exit_position \<Rightarrow> platform \<Rightarrow> order_side" where
  "close_side pos p = (if leg_side pos p = Some ''buy'' then Sell else Buy)"

section \<open>The size of a chunk\<close>

definition xmin_list :: "decimal \<Rightarrow> decimal list \<Rightarrow> decimal" where
  "xmin_list a bs = foldl xmin a bs"

definition calculateChunkSize ::
  "(rat \<Rightarrow> rat) \<Rightarrow> exit_env \<Rightarrow> exit_position \<Rightarrow> exit_legs \<Rightarrow> nat \<Rightarrow> decimal \<Rightarrow> decimal \<Rightarrow> decimal option" where
  "calculateChunkSize rd env pos legs i remainingPrimary remainingSecondary =
     (let p = elPrimary legs; q = other_platform p;
          depth = (\<lambda>x. getAvailableExitDepth rd (xeSource env) (xeBook env i x) (close_side pos x) (elPrice legs x)) in
      case (depth p, depth q) of
        (Inr pDepth, Inr sDepth) \<Rightarrow>
          if is_zero pDepth \<or> is_zero sDepth then None
          else
            let byDepth = xmin_list pDepth [sDepth, remainingPrimary, remainingSecondary];
                chunkSize = (if xgt (xeMaxChunk env) (Fin 0) then xmin byDepth (to_decimal (xeMaxChunk env)) else byDepth)
            in if is_zero chunkSize then None else Some chunkSize
      | _ \<Rightarrow> None)"

section \<open>Profit and loss of a chunk\<close>

definition exit_leg_pnl :: "(rat \<Rightarrow> rat) \<Rightarrow> string option \<Rightarrow> decimal \<Rightarrow> decimal \<Rightarrow> decimal \<Rightarrow> decimal" where
  "exit_leg_pnl rd side entryPrice closePrice sz =
     (if side = Some ''buy'' then xmul rd (xsub rd closePrice entryPrice) sz
      else xmul rd (xsub rd entryPrice closePrice) sz)"

definition exit_fee :: "(rat \<Rightarrow> rat) \<Rightarrow> decimal \<Rightarrow> decimal \<Rightarrow> fee_schedule \<Rightarrow> decimal" where
  "exit_fee rd closePrice sz fee = xmul rd (xmul rd closePrice sz) (calculateTakerFeeRate rd closePrice fee)"

definition computeChunkPnl ::
  "(rat \<Rightarrow> rat) \<Rightarrow> exit_env \<Rightarrow> exit_position \<Rightarrow> exit_legs \<Rightarrow> (platform \<Rightarrow> order_result) \<Rightarrow> decimal exit_act" where
  "computeChunkPnl rd env pos legs fill =
     (let sz = (\<lambda>p. to_decimal (filledQuantity (fill p)));
          closed = (\<lambda>p. to_decimal (filledPrice (fill p)));
          pnl = (\<lambda>p. exit_leg_pnl rd (leg_side pos p) (elEntry legs p) (closed p) (sz p)) in
      act_bind (act_call (xeFee env Kalshi)) (\<lambda>feeK.
      act_bind (act_call (xeFee env Polymarket)) (\<lambda>feeP.
      act_return (xsub rd (xsub rd (xadd rd (pnl Kalshi) (pnl Polymarket))
        (exit_fee rd (closed Kalshi) (sz Kalshi) feeK)) (exit_fee rd (closed Polymarket) (sz Polymarket) feeP)))))"

section \<open>One leg filled, the other not\<close>

definition handlePartialExit ::
  "exit_env \<Rightarrow> exit_position \<Rightarrow> string \<Rightarrow> platform \<Rightarrow> decimal \<Rightarrow> decimal \<Rightarrow> bool \<Rightarrow> bool \<Rightarrow> bool \<Rightarrow> unit exit_act" where
  "handlePartialExit env pos filledExitOrderId filledLeg failedPrice failedSize isPaper mixedMode skipStatusUpdate =
     act_bind (if skipStatusUpdate then act_return () else act_do (xeUpdateStatus env) (StatusSet ''EXIT_PARTIAL'')) (\<lambda>_.
     act_bind (act_call (xeFindOrder env filledExitOrderId)) (\<lambda>found.
     act_tell [ExitEmitted (ExitExposed
       \<lparr>slPosition = xpId pos, slPair = xpPair pos, slExpectedEdge = to_number (xpExpectedEdge pos),
        slFilledPlatform = filledLeg, slOrderId = filledExitOrderId, slFilledSide = close_side pos filledLeg,
        slPrice = num_or_zero (map_option soPrice found), slSize = num_or_zero (map_option soSize found),
        slFilledPrice = num_or_zero (Option.bind found soFillPrice),
        slFilledSize = num_or_zero (Option.bind found soFillSize),
        slFailedPlatform = other_platform filledLeg, slReason = PARTIAL_EXIT_FAILURE,
        slAttemptedPrice = to_number failedPrice, slAttemptedSize = to_number failedSize,
        slCurrentPrices = (\<lambda>_. (None, None)), slIsPaper = isPaper, slMixedMode = mixedMode\<rparr>)]))"

section \<open>A chunk\<close>

record chunk_state =
  csRemaining :: "platform \<Rightarrow> decimal"
  csPnl :: decimal
  csChunks :: nat
  csExited :: "platform \<Rightarrow> decimal"
  csLastOrder :: "platform \<Rightarrow> string option"

definition exit_order :: "exit_position \<Rightarrow> exit_legs \<Rightarrow> decimal \<Rightarrow> platform \<Rightarrow> order_params" where
  "exit_order pos legs chunkSize p =
     \<lparr>orContract = leg_contract pos p, orSide = close_side pos p, orQuantity = to_number chunkSize,
      orPrice = to_number (elPrice legs p)\<rparr>"

definition exit_row :: "exit_position \<Rightarrow> exit_legs \<Rightarrow> decimal \<Rightarrow> bool \<Rightarrow> platform \<Rightarrow> order_result \<Rightarrow> order_row" where
  "exit_row pos legs chunkSize isPaper p res =
     \<lparr>rowPlatform = p, rowContract = leg_contract pos p, rowPair = xpPair pos, rowSide = close_side pos p,
      rowPrice = to_number (elPrice legs p), rowSize = to_number chunkSize,
      rowStatus = (if orStatus res = OrderFilled then RowFilled else RowPartial),
      rowFillPrice = Some (filledPrice res), rowFillSize = Some (filledQuantity res), rowIsPaper = isPaper\<rparr>"

definition exit_submit :: "exit_env \<Rightarrow> nat \<Rightarrow> platform \<Rightarrow> order_params \<Rightarrow> (string + order_result) exit_act" where
  "exit_submit env i p order =
     act_bind (act_tell [ExitSubmitted p order (xeSubmit env i p order)]) (\<lambda>_. act_return (xeSubmit env i p order))"

definition exit_create :: "exit_env \<Rightarrow> nat \<Rightarrow> order_row \<Rightarrow> string exit_act" where
  "exit_create env i row =
     act_bind (act_call (xeCreateOrder env i row)) (\<lambda>oid.
     act_bind (act_tell [ExitOrderCreated row oid]) (\<lambda>_. act_return oid))"

text \<open>Both legs of a chunk were accepted; the answer says whether the loop goes on.\<close>

definition chunk_filled ::
  "(rat \<Rightarrow> rat) \<Rightarrow> exit_env \<Rightarrow> exit_position \<Rightarrow> exit_legs \<Rightarrow> chunk_state \<Rightarrow> (platform \<Rightarrow> order_result)
     \<Rightarrow> (platform \<Rightarrow> string) \<Rightarrow> (chunk_state \<times> bool) exit_act" where
  "chunk_filled rd env pos legs st fill oids =
     act_bind (computeChunkPnl rd env pos legs fill) (\<lambda>chunkPnl.
       let sz = (\<lambda>p. to_decimal (filledQuantity (fill p)));
           st1 = st\<lparr>csPnl := xadd rd (csPnl st) chunkPnl,
                    csExited := (\<lambda>p. xadd rd (csExited st p) (sz p)),
                    csLastOrder := (\<lambda>p. Some (oids p))\<rparr> in
       if is_zero (sz (elPrimary legs)) \<or> is_zero (sz (other_platform (elPrimary legs)))
       then act_return (st1, False)
       else act_return (st1\<lparr>csRemaining := (\<lambda>p. xsub rd (csRemaining st p) (sz p)),
                            csChunks := csChunks st + 1\<rparr>, True))"

definition on_legs :: "exit_legs \<Rightarrow> 'a \<Rightarrow> 'a \<Rightarrow> platform \<Rightarrow> 'a" where
  "on_legs legs a b p = (if p = elPrimary legs then a else b)"

text \<open>The secondary order was not accepted: the chunk ends with one leg closed.\<close>

definition chunk_unpaired :: "exit_env \<Rightarrow> exit_position \<Rightarrow> exit_legs \<Rightarrow> chunk_state \<Rightarrow> string \<Rightarrow> decimal \<Rightarrow> bool \<Rightarrow> bool
    \<Rightarrow> (chunk_state \<times> bool) exit_act" where
  "chunk_unpaired env pos legs st oid c isPaper mixed =
     act_bind (handlePartialExit env pos oid (elPrimary legs) (elPrice legs (other_platform (elPrimary legs))) c
       isPaper mixed (0 < csChunks st)) (\<lambda>_. act_return (st, False))"

text \<open>The rest of a chunk after the primary order was accepted and recorded.\<close>

definition chunk_secondary ::
  "(rat \<Rightarrow> rat) \<Rightarrow> exit_env \<Rightarrow> exit_position \<Rightarrow> exit_legs \<Rightarrow> bool \<Rightarrow> bool \<Rightarrow> nat \<Rightarrow> chunk_state \<Rightarrow> decimal
     \<Rightarrow> order_result \<Rightarrow> string \<Rightarrow> (chunk_state \<times> bool) exit_act" where
  "chunk_secondary rd env pos legs isPaper mixed i st c primaryResult primaryOid =
     (let q = other_platform (elPrimary legs) in
      act_bind (exit_submit env i q (exit_order pos legs c q)) (\<lambda>secondaryAnswer.
        case secondaryAnswer of
          Inl _ \<Rightarrow> chunk_unpaired env pos legs st primaryOid c isPaper mixed
        | Inr secondaryResult \<Rightarrow>
            if \<not> exit_accepted secondaryResult then chunk_unpaired env pos legs st primaryOid c isPaper mixed
            else
              act_bind (exit_create env i (exit_row pos legs c isPaper q secondaryResult)) (\<lambda>secondaryOid.
              chunk_filled rd env pos legs st (on_legs legs primaryResult secondaryResult)
                (on_legs legs primaryOid secondaryOid))))"

definition exit_chunk ::
  "(rat \<Rightarrow> rat) \<Rightarrow> exit_env \<Rightarrow> exit_position \<Rightarrow> exit_legs \<Rightarrow> bool \<Rightarrow> bool \<Rightarrow> nat \<Rightarrow> chunk_state
     \<Rightarrow> (chunk_state \<times> bool) exit_act" where
  "exit_chunk rd env pos legs isPaper mixed i st =
     (let p = elPrimary legs in
      case calculateChunkSize rd env pos legs i (csRemaining st p) (csRemaining st (other_platform p)) of
        None \<Rightarrow> act_return (st, False)
      | Some c \<Rightarrow>
          act_bind (exit_submit env i p (exit_order pos legs c p)) (\<lambda>primaryAnswer.
          case primaryAnswer of
            Inl _ \<Rightarrow> act_return (st, False)
          | Inr primaryResult \<Rightarrow>
              if \<not> exit_accepted primaryResult then act_return (st, False)
              else act_bind (exit_create env i (exit_row pos legs c isPaper p primaryResult)) (\<lambda>primaryOid.
                chunk_secondary rd env pos legs isPaper mixed i st c primaryResult primaryOid)))"

definition MAX_EXIT_CHUNK_ITERATIONS :: nat where
  "MAX_EXIT_CHUNK_ITERATIONS = 50"

definition chunks_left :: "exit_legs \<Rightarrow> nat \<Rightarrow> chunk_state \<Rightarrow> bool" where
  "chunks_left legs iterations st \<longleftrightarrow>
     xgt (csRemaining st (elPrimary legs)) (Fin 0) \<and> xgt (csRemaining st (other_platform (elPrimary legs))) (Fin 0)
     \<and> iterations < MAX_EXIT_CHUNK_ITERATIONS"

function chunk_loop ::
  "(rat \<Rightarrow> rat) \<Rightarrow> exit_env \<Rightarrow> exit_position \<Rightarrow> exit_legs \<Rightarrow> bool \<Rightarrow> bool \<Rightarrow> nat \<Rightarrow> chunk_state
     \<Rightarrow> chunk_state exit_act" where
  "chunk_loop rd env pos legs isPaper mixedMode iterations st =
     (if chunks_left legs iterations st
      then act_bind (exit_chunk rd env pos legs isPaper mixedMode (iterations + 1) st) (\<lambda>next.
             if snd next then chunk_loop rd env pos legs isPaper mixedMode (iterations + 1) (fst next)
             else act_return (fst next))
      else act_return st)"
  by pat_completeness auto
termination
  by (relation "measure (\<lambda>(rd, env, pos, legs, isPaper, mixedMode, iterations, st). MAX_EXIT_CHUNK_ITERATIONS - iterations)")
    (auto simp: chunks_left_def)

declare chunk_loop.simps [simp del]

section \<open>After the loop\<close>

definition finalizeExitStatus ::
  "(rat \<Rightarrow> rat) \<Rightarrow> exit_env \<Rightarrow> exit_position \<Rightarrow> exit_legs \<Rightarrow> threshold_result \<Rightarrow> decimal \<Rightarrow> bool \<Rightarrow> bool \<Rightarrow> chunk_state
     \<Rightarrow> unit exit_act" where
  "finalizeExitStatus rd env pos legs evalResult existingPnl isPaper mixedMode st =
     (let isFullExit = xle (csRemaining st Kalshi) (Fin 0) \<and> xle (csRemaining st Polymarket) (Fin 0);
          legCapital = (\<lambda>p. calculateLegCapital rd (or_default (leg_side pos p) ''buy'') (elEntry legs p) (csExited st p));
          exitedEntryCapital = xadd rd (legCapital Kalshi) (legCapital Polymarket);
          cyclePnl = xsub rd (csPnl st) existingPnl;
          capitalArg = xadd rd exitedEntryCapital cyclePnl;
          riskOp = (if isFullExit then RiskClose else RiskPartialRelease);
          event = \<lparr>etPosition = xpId pos, etPair = xpPair pos, etType = map_option Evaluated (res_type evalResult),
            etInitialEdge = to_fixed 8 (xpExpectedEdge pos), etFinalEdge = to_fixed 8 (res_currentEdge evalResult),
            etRealizedPnl = to_fixed 8 cyclePnl, etKalshiOrder = the (csLastOrder st Kalshi),
            etPolymarketOrder = the (csLastOrder st Polymarket), etIsPaper = isPaper, etMixedMode = mixedMode,
            etChunks = Some (csChunks st), etIsPartial = Some (\<not> isFullExit)\<rparr> in
      act_bind (if isFullExit then act_do (xeClosePosition env) (PositionClosed (csPnl st))
                else act_do (xeAccumulatePnl env) (PnlAccumulated cyclePnl existingPnl)) (\<lambda>_.
      act_bind (return_capital (xeRisk env riskOp) (xpId pos) (xpPair pos) riskOp capitalArg cyclePnl isPaper) (\<lambda>_.
      act_tell [ExitEmitted (if isFullExit then ExitTriggered event else ExitPartialChunked event)])))"

section \<open>The exit\<close>

definition non_null :: "'a option \<Rightarrow> string + 'a" where
  "non_null x = (case x of Some a \<Rightarrow> Inr a | None \<Rightarrow> Inl ''TypeError'')"

definition effective_size :: "decimal option \<Rightarrow> entry_order option \<Rightarrow> decimal exit_act" where
  "effective_size given order =
     (case given of Some d \<Rightarrow> act_return d | None \<Rightarrow> act_call (non_null (Option.bind order eoFillSize)))"

definition exit_primary :: "exit_position \<Rightarrow> platform" where
  "exit_primary pos = (if or_default (xpPrimaryLeg pos) ''kalshi'' = ''kalshi'' then Kalshi else Polymarket)"

definition initial_chunks :: "exit_legs \<Rightarrow> decimal \<Rightarrow> chunk_state" where
  "initial_chunks legs existingPnl =
     \<lparr>csRemaining = elSize legs, csPnl = existingPnl, csChunks = 0, csExited = (\<lambda>_. Fin 0), csLastOrder = (\<lambda>_. None)\<rparr>"

definition run_chunks ::
  "(rat \<Rightarrow> rat) \<Rightarrow> exit_env \<Rightarrow> exit_position \<Rightarrow> threshold_result \<Rightarrow> exit_legs \<Rightarrow> bool \<Rightarrow> bool \<Rightarrow> unit exit_act" where
  "run_chunks rd env pos evalResult legs isPaper mixedMode =
     (let existingPnl = or_default (xpRealizedPnl pos) (Fin 0) in
      if xle (elSize legs (elPrimary legs)) (Fin 0) \<or> xle (elSize legs (other_platform (elPrimary legs))) (Fin 0)
      then act_return ()
      else
        act_bind (chunk_loop rd env pos legs isPaper mixedMode 0 (initial_chunks legs existingPnl)) (\<lambda>st.
        if csChunks st = 0 then act_return ()
        else finalizeExitStatus rd env pos legs evalResult existingPnl isPaper mixedMode st))"

definition executeExit ::
  "(rat \<Rightarrow> rat) \<Rightarrow> exit_env \<Rightarrow> exit_position \<Rightarrow> threshold_result \<Rightarrow> decimal \<Rightarrow> decimal \<Rightarrow> bool \<Rightarrow> bool
     \<Rightarrow> decimal option \<Rightarrow> decimal option \<Rightarrow> unit exit_act" where
  "executeExit rd env pos evalResult kalshiClosePrice polymarketClosePrice isPaper mixedMode kalshiGiven polymarketGiven =
     act_bind (act_call (xeFresh env)) (\<lambda>status.
     if status \<noteq> Some ''OPEN'' \<and> status \<noteq> Some ''EXIT_PARTIAL'' then act_return ()
     else
       act_bind (effective_size kalshiGiven (xpKalshiOrder pos)) (\<lambda>kalshiFill.
       act_bind (effective_size polymarketGiven (xpPolymarketOrder pos)) (\<lambda>polymarketFill.
       act_bind (act_call (non_null (Option.bind (xpKalshiOrder pos) eoFillPrice))) (\<lambda>kalshiEntry.
       act_bind (act_call (non_null (Option.bind (xpPolymarketOrder pos) eoFillPrice))) (\<lambda>polymarketEntry.
       run_chunks rd env pos evalResult
         \<lparr>elPrimary = exit_primary pos, elPrice = exit_pick kalshiClosePrice polymarketClosePrice,
          elSize = exit_pick kalshiFill polymarketFill, elEntry = exit_pick kalshiEntry polymarketEntry\<rparr>
         isPaper mixedMode)))))"

section \<open>The orders of an exit\<close>

lemma partial_exit_no_orders: "sent_orders (fst (handlePartialExit env pos oid p pr sz isPaper mixed skip)) = []"
  unfolding handlePartialExit_def by (intro no_orders.P_rules) (auto intro: no_orders.P_rules)

lemma finalize_no_orders: "sent_orders (fst (finalizeExitStatus rd env pos legs ev pnl isPaper mixed st)) = []"
  unfolding finalizeExitStatus_def Let_def
  by (intro no_orders.P_rules) (auto intro!: no_orders.P_rules split: option.splits)

lemma chunk_pnl_no_effects: "fst (computeChunkPnl rd env pos legs fill) = []"
  by (cases "xeFee env Kalshi"; cases "xeFee env Polymarket")
    (simp_all add: computeChunkPnl_def act_call_def Let_def)

text \<open>What a chunk of a size \<open>c\<close> did: which orders it sent, and how it left the remaining sizes.\<close>

definition chunk_answer :: "exit_env \<Rightarrow> exit_position \<Rightarrow> exit_legs \<Rightarrow> nat \<Rightarrow> decimal \<Rightarrow> platform
    \<Rightarrow> string + order_result" where
  "chunk_answer env pos legs i c p = xeSubmit env i p (exit_order pos legs c p)"

definition chunk_pair :: "exit_env \<Rightarrow> exit_position \<Rightarrow> exit_legs \<Rightarrow> nat \<Rightarrow> decimal
    \<Rightarrow> (platform \<times> order_params \<times> (string + order_result)) list" where
  "chunk_pair env pos legs i c =
     map (\<lambda>p. (p, exit_order pos legs c p, chunk_answer env pos legs i c p))
       [elPrimary legs, other_platform (elPrimary legs)]"

definition remaining_after :: "(rat \<Rightarrow> rat) \<Rightarrow> chunk_state \<Rightarrow> (platform \<Rightarrow> string + order_result) \<Rightarrow> platform \<Rightarrow> decimal" where
  "remaining_after rd st answers p =
     (case answers p of Inr res \<Rightarrow> xsub rd (csRemaining st p) (to_decimal (filledQuantity res)) | Inl _ \<Rightarrow> csRemaining st p)"

definition answer_accepted :: "string + order_result \<Rightarrow> bool" where
  "answer_accepted a \<longleftrightarrow> (case a of Inr res \<Rightarrow> exit_accepted res | Inl _ \<Rightarrow> False)"

definition chunk_outcome ::
  "(rat \<Rightarrow> rat) \<Rightarrow> exit_env \<Rightarrow> exit_position \<Rightarrow> exit_legs \<Rightarrow> nat \<Rightarrow> decimal \<Rightarrow> chunk_state
     \<Rightarrow> (chunk_state \<times> bool) exit_act \<Rightarrow> bool" where
  "chunk_outcome rd env pos legs i c st m \<longleftrightarrow>
     (sent_orders (fst m) = take 1 (chunk_pair env pos legs i c) \<or> sent_orders (fst m) = chunk_pair env pos legs i c)
     \<and> (\<forall>st' cont. snd m = Inr (st', cont) \<longrightarrow>
          (if cont then sent_orders (fst m) = chunk_pair env pos legs i c
              \<and> (\<forall>p. answer_accepted (chunk_answer env pos legs i c p))
              \<and> csRemaining st' = remaining_after rd st (chunk_answer env pos legs i c)
           else csRemaining st' = csRemaining st))"

lemma on_legs_simps [simp]:
  "on_legs legs a b (elPrimary legs) = a" "on_legs legs a b (other_platform (elPrimary legs)) = b"
  by (cases "elPrimary legs"; simp add: on_legs_def)+

lemma all_legs: "(\<forall>p. Q p) \<longleftrightarrow> Q (elPrimary legs) \<and> Q (other_platform (elPrimary legs))"
  by (cases "elPrimary legs") (metis other_platform.simps platform.exhaust)+

lemma fun_on_legs: "f = g \<longleftrightarrow> f (elPrimary legs) = g (elPrimary legs)
    \<and> f (other_platform (elPrimary legs)) = g (other_platform (elPrimary legs))"
  using all_legs [of "\<lambda>p. f p = g p" legs] by (simp add: fun_eq_iff)

lemma filled_no_orders: "sent_orders (fst (chunk_filled rd env pos legs st fill oids)) = []"
  unfolding chunk_filled_def Let_def
  by (intro no_orders.P_bind) (simp_all add: chunk_pnl_no_effects)

lemma filled_outcome:
  assumes "snd (chunk_filled rd env pos legs st fill oids) = Inr (st', cont)"
  shows "csRemaining st' = (if cont then (\<lambda>p. xsub rd (csRemaining st p) (to_decimal (filledQuantity (fill p))))
           else csRemaining st)"
  using assms by (auto simp: chunk_filled_def Let_def bind_Inr split: if_splits)

lemma unpaired_outcome:
  assumes "snd (act_bind (handlePartialExit env pos oid p pr sz isPaper mixed skip) (\<lambda>_. act_return (st, False))) = Inr (st', cont)"
  shows "st' = st \<and> \<not> cont"
  using assms by (auto simp: bind_Inr)

lemma exit_submit_bind:
  "act_bind (exit_submit env i p o') f =
     (ExitSubmitted p o' (xeSubmit env i p o') # fst (f (xeSubmit env i p o')), snd (f (xeSubmit env i p o')))"
  by (simp add: exit_submit_def act_tell_def bind_value act_return_def bind_assoc split_beta)

lemma exit_create_bind:
  "act_bind (exit_create env i row) f =
     (case xeCreateOrder env i row of
        Inl msg \<Rightarrow> ([], Inl msg)
      | Inr oid \<Rightarrow> (ExitOrderCreated row oid # fst (f oid), snd (f oid)))"
  by (cases "xeCreateOrder env i row")
    (simp_all add: exit_create_def act_call_def act_tell_def bind_value act_return_def bind_assoc act_stop_def split_beta)

lemma unpaired_facts:
  "sent_orders (fst (chunk_unpaired env pos legs st oid c isPaper mixed)) = []"
  "snd (chunk_unpaired env pos legs st oid c isPaper mixed) = Inr (st', cont) \<Longrightarrow> st' = st \<and> \<not> cont"
  unfolding chunk_unpaired_def
  by (rule no_orders.P_bind; simp add: partial_exit_no_orders) (simp add: bind_Inr)

lemma secondary_outcome:
  fixes rd :: "rat \<Rightarrow> rat" and isPaper mixed :: bool and st :: chunk_state and oid :: string
  assumes p: "chunk_answer env pos legs i c (elPrimary legs) = Inr res" "exit_accepted res"
  defines "m \<equiv> chunk_secondary rd env pos legs isPaper mixed i st c res oid"
  shows "sent_orders (fst m) = drop 1 (chunk_pair env pos legs i c)"
    and "snd m = Inr (st', cont) \<Longrightarrow>
      (if cont then (\<forall>p. answer_accepted (chunk_answer env pos legs i c p))
          \<and> csRemaining st' = remaining_after rd st (chunk_answer env pos legs i c)
       else csRemaining st' = csRemaining st)"
proof -
  let ?q = "other_platform (elPrimary legs)"
  let ?a = "xeSubmit env i ?q (exit_order pos legs c ?q)"
  have m: "m = (ExitSubmitted ?q (exit_order pos legs c ?q) ?a # fst (case ?a of
        Inl _ \<Rightarrow> chunk_unpaired env pos legs st oid c isPaper mixed
      | Inr r \<Rightarrow> if \<not> exit_accepted r then chunk_unpaired env pos legs st oid c isPaper mixed
          else act_bind (exit_create env i (exit_row pos legs c isPaper ?q r)) (\<lambda>soid.
            chunk_filled rd env pos legs st (on_legs legs res r) (on_legs legs oid soid))),
      snd (case ?a of
        Inl _ \<Rightarrow> chunk_unpaired env pos legs st oid c isPaper mixed
      | Inr r \<Rightarrow> if \<not> exit_accepted r then chunk_unpaired env pos legs st oid c isPaper mixed
          else act_bind (exit_create env i (exit_row pos legs c isPaper ?q r)) (\<lambda>soid.
            chunk_filled rd env pos legs st (on_legs legs res r) (on_legs legs oid soid))))"
    by (simp add: m_def chunk_secondary_def Let_def exit_submit_bind)
  show "sent_orders (fst m) = drop 1 (chunk_pair env pos legs i c)"
    by (auto simp: m chunk_pair_def chunk_answer_def unpaired_facts exit_create_bind filled_no_orders split: sum.splits)
  show "snd m = Inr (st', cont) \<Longrightarrow>
      (if cont then (\<forall>p. answer_accepted (chunk_answer env pos legs i c p))
          \<and> csRemaining st' = remaining_after rd st (chunk_answer env pos legs i c)
       else csRemaining st' = csRemaining st)"
  proof (cases ?a)
    case (Inl msg)
    then show "snd m = Inr (st', cont) \<Longrightarrow> ?thesis" by (auto simp: m dest: unpaired_facts(2))
  next
    case (Inr r)
    assume o: "snd m = Inr (st', cont)"
    show ?thesis
    proof (cases "exit_accepted r")
      case False
      then show ?thesis using o Inr by (auto simp: m dest: unpaired_facts(2))
    next
      case True
      then obtain soid where "snd (chunk_filled rd env pos legs st (on_legs legs res r) (on_legs legs oid soid)) = Inr (st', cont)"
        using o Inr by (auto simp: m exit_create_bind split: sum.splits)
      from filled_outcome [OF this] show ?thesis using p Inr True
        by (auto simp: all_legs [of _ legs] fun_on_legs [of _ _ legs] remaining_after_def answer_accepted_def chunk_answer_def)
    qed
  qed
qed

lemma chunk_some:
  assumes c: "calculateChunkSize rd env pos legs i (csRemaining st (elPrimary legs))
      (csRemaining st (other_platform (elPrimary legs))) = Some c"
  shows "chunk_outcome rd env pos legs i c st (exit_chunk rd env pos legs isPaper mixed i st)"
proof (cases "xeSubmit env i (elPrimary legs) (exit_order pos legs c (elPrimary legs))")
  case (Inl msg)
  then show ?thesis
    by (simp add: chunk_outcome_def exit_chunk_def Let_def c exit_submit_bind chunk_pair_def chunk_answer_def)
next
  case (Inr res)
  show ?thesis
  proof (cases "exit_accepted res")
    case False
    then show ?thesis using Inr
      by (simp add: chunk_outcome_def exit_chunk_def Let_def c exit_submit_bind chunk_pair_def chunk_answer_def)
  next
    case True
    have a: "chunk_answer env pos legs i c (elPrimary legs) = Inr res" using Inr by (simp add: chunk_answer_def)
    note s = secondary_outcome [OF a True]
    show ?thesis
    proof (cases "xeCreateOrder env i (exit_row pos legs c isPaper (elPrimary legs) res)")
      case (Inl msg)
      then show ?thesis using Inr True
        by (simp add: chunk_outcome_def exit_chunk_def Let_def c exit_submit_bind exit_create_bind chunk_pair_def chunk_answer_def)
    next
      case oid: (Inr oid)
      have m: "exit_chunk rd env pos legs isPaper mixed i st =
          (ExitSubmitted (elPrimary legs) (exit_order pos legs c (elPrimary legs)) (Inr res)
            # ExitOrderCreated (exit_row pos legs c isPaper (elPrimary legs) res) oid
            # fst (chunk_secondary rd env pos legs isPaper mixed i st c res oid),
           snd (chunk_secondary rd env pos legs isPaper mixed i st c res oid))"
        using Inr True oid by (simp add: exit_chunk_def Let_def c exit_submit_bind exit_create_bind)
      have o: "sent_orders (fst (exit_chunk rd env pos legs isPaper mixed i st)) = chunk_pair env pos legs i c"
        using a by (simp add: m s(1)) (simp add: chunk_pair_def)
      show ?thesis unfolding chunk_outcome_def o using s(2) by (simp add: m)
    qed
  qed
qed

lemma chunk_orders_le: "length (sent_orders (fst (exit_chunk rd env pos legs isPaper mixed i st))) \<le> 2"
proof (cases "calculateChunkSize rd env pos legs i (csRemaining st (elPrimary legs)) (csRemaining st (other_platform (elPrimary legs)))")
  case (Some c)
  from chunk_some [OF this, of isPaper mixed] show ?thesis by (auto simp: chunk_outcome_def chunk_pair_def)
qed (simp add: exit_chunk_def)

lemma chunk_loop_stop: "\<not> chunks_left legs n st \<Longrightarrow> chunk_loop rd env pos legs isPaper mixed n st = act_return st"
  by (subst chunk_loop.simps) simp

lemma chunk_loop_go: "chunks_left legs n st \<Longrightarrow> chunk_loop rd env pos legs isPaper mixed n st =
    act_bind (exit_chunk rd env pos legs isPaper mixed (n + 1) st) (\<lambda>next.
      if snd next then chunk_loop rd env pos legs isPaper mixed (n + 1) (fst next) else act_return (fst next))"
  by (subst chunk_loop.simps) simp

lemma loop_orders_le:
  "length (sent_orders (fst (chunk_loop rd env pos legs isPaper mixed n st))) \<le> 2 * (MAX_EXIT_CHUNK_ITERATIONS - n)"
proof (induction rd env pos legs isPaper mixed n st rule: chunk_loop.induct)
  case (1 rd env pos legs isPaper mixed n st)
  let ?m = "exit_chunk rd env pos legs isPaper mixed (n + 1) st"
  show ?case
  proof (cases "chunks_left legs n st")
    case True
    note IH = "1.IH" [OF True]
    have "length (sent_orders (fst ?m)) \<le> 2" "n < MAX_EXIT_CHUNK_ITERATIONS"
      using True by (auto simp: chunks_left_def intro: chunk_orders_le)
    then show ?thesis using IH
      by (cases ?m; cases "snd ?m") (force simp: chunk_loop_go [OF True] bind_value)+
  qed (simp add: chunk_loop_stop)
qed

section \<open>What an exit sells\<close>

lemma filled_by_pair:
  "sent_orders effs = chunk_pair env pos legs i c \<Longrightarrow> filled_by p effs = fill_of (chunk_answer env pos legs i c p)"
  by (cases p; cases "elPrimary legs") (simp_all add: filled_by_def chunk_pair_def)

lemma filled_by_first:
  "sent_orders effs = take 1 (chunk_pair env pos legs i c) \<Longrightarrow>
     filled_by p effs = (if p = elPrimary legs then fill_of (chunk_answer env pos legs i c p) else 0)"
  by (simp add: filled_by_def chunk_pair_def)

text \<open>Whole contracts, at most a thousand million of them.\<close>

definition whole_size :: "decimal \<Rightarrow> bool" where
  "whole_size d \<longleftrightarrow> (case d of Fin q \<Rightarrow> of_int \<lfloor>q\<rfloor> = q \<and> 0 \<le> q \<and> q \<le> 10 ^ 9 | _ \<Rightarrow> False)"

lemma whole_sizeE:
  assumes "whole_size d"
  obtains n :: int where "d = Fin (of_int n)" "0 \<le> n" "n \<le> 10 ^ 9"
proof (cases d)
  case (Fin q)
  then have q: "of_int \<lfloor>q\<rfloor> = q" "0 \<le> q" "q \<le> 10 ^ 9" using assms by (simp_all add: whole_size_def)
  have "\<lfloor>q\<rfloor> \<le> 10 ^ 9" using q(3) floor_mono [OF q(3)] by simp
  then show ?thesis using that [of "\<lfloor>q\<rfloor>"] Fin q by simp
qed (use assms in \<open>simp_all add: whole_size_def\<close>)

lemma whole_size_int [simp]:
  "whole_size (Fin (of_int n)) \<longleftrightarrow> 0 \<le> n \<and> n \<le> 10 ^ 9"
proof -
  have "(of_int n :: rat) \<le> 10 ^ 9 \<longleftrightarrow> n \<le> 10 ^ 9"
    using of_int_le_iff [where ?'a = rat, of n "10 ^ 9"] by simp
  then show ?thesis by (simp add: whole_size_def)
qed

text \<open>
  What the exit relies on: the books quote whole contracts, the largest chunk is one, and no
  platform fills a negative or fractional quantity or more than was ordered.
\<close>

definition whole_book :: "order_book \<Rightarrow> bool" where
  "whole_book book \<longleftrightarrow> list_all (\<lambda>l. whole_size (quantity l)) (bids book @ asks book)"

definition fills_within :: "exit_env \<Rightarrow> bool" where
  "fills_within env \<longleftrightarrow> whole_size (xeMaxChunk env)
     \<and> (\<forall>i p book. xeBook env i p = Inr book \<longrightarrow> whole_book book)
     \<and> (\<forall>i p order res. xeSubmit env i p order = Inr res \<longrightarrow> exit_accepted res \<longrightarrow>
          whole_size (filledQuantity res) \<and> xle (filledQuantity res) (orQuantity order))"

lemma small_shortest: "0 \<le> n \<Longrightarrow> n \<le> 10 ^ 9 \<Longrightarrow> shortest (of_int n) = of_int n"
  by (rule shortest_int) auto

lemma small_b64: "0 \<le> n \<Longrightarrow> n \<le> 10 ^ 9 \<Longrightarrow> b64 (of_int n) = of_int n"
  by (rule b64_int) auto

definition deep_or_whole :: "decimal \<Rightarrow> bool" where
  "deep_or_whole d \<longleftrightarrow> whole_size d \<or> (\<exists>x. d = Fin x \<and> 10 ^ 9 \<le> x)"

lemma xmin_deep:
  assumes "deep_or_whole d" "whole_size r"
  shows "whole_size (xmin d r)" "xle (xmin d r) r" "xle (xmin d r) d"
proof -
  obtain n where n: "r = Fin (of_int n)" "0 \<le> n" "n \<le> 10 ^ 9" using assms(2) by (rule whole_sizeE)
  have le: "(of_int n :: rat) \<le> 10 ^ 9" using n(3) by (metis of_int_le_iff of_int_power of_int_numeral)
  consider "whole_size d" | x where "d = Fin x" "10 ^ 9 \<le> x"
    using assms(1) by (auto simp: deep_or_whole_def)
  then have "whole_size (xmin d r) \<and> xle (xmin d r) r \<and> xle (xmin d r) d"
  proof cases
    case 1
    then show ?thesis using assms(2) by (auto simp: min_def elim!: whole_sizeE)
  next
    case 2
    then have "xmin d r = r" using n le by (simp add: min_def)
    then show ?thesis using 2 n le assms(2) by simp
  qed
  then show "whole_size (xmin d r)" "xle (xmin d r) r" "xle (xmin d r) d" by auto
qed

context decimal_rounding
begin

lemma rd_small: "\<bar>n\<bar> \<le> 10 ^ 9 + 10 ^ 9 \<Longrightarrow> rd (of_int n) = of_int n"
  by (rule rd_int) simp

lemma depth_whole:
  assumes "list_all (\<lambda>l. whole_size (quantity l)) ls" "deep_or_whole d"
  shows "deep_or_whole (exit_depth_loop rd s cutoff ls d)"
  using assms
proof (induction ls arbitrary: d)
  case (Cons l ls)
  obtain n where n: "quantity l = Fin (of_int n)" "0 \<le> n" "n \<le> 10 ^ 9"
    using Cons.prems(1) by (auto elim: whole_sizeE)
  have "deep_or_whole (xadd rd d (to_decimal (quantity l)))"
  proof -
    have q: "to_decimal (quantity l) = Fin (of_int n)" using n by (simp add: small_shortest)
    consider m where "d = Fin (of_int m)" "0 \<le> m" "m \<le> 10 ^ 9" | x where "d = Fin x" "10 ^ 9 \<le> x"
      using Cons.prems(2) by (auto simp: deep_or_whole_def elim: whole_sizeE)
    then show ?thesis
    proof cases
      case 1
      have "rd (of_int (m + n)) = of_int (m + n)" using 1 n by (intro rd_small) simp
      then have e: "xadd rd d (to_decimal (quantity l)) = Fin (of_int (m + n))" using 1 q by simp
      have "(10 ^ 9 :: rat) \<le> of_int (m + n)" if "\<not> m + n \<le> 10 ^ 9"
        using that of_int_le_iff [where ?'a = rat, of "10 ^ 9" "m + n"] by simp
      then show ?thesis unfolding e deep_or_whole_def whole_size_int using 1 n by auto
    next
      case 2
      have "10 ^ 9 \<le> rd (x + of_int n)"
        using 2 n rd_int [of "10 ^ 9"] by (intro fix_le_rd) auto
      then show ?thesis using 2 q by (simp add: deep_or_whole_def)
    qed
  qed
  then show ?case using Cons by simp
qed simp

lemma chunk_size_whole:
  assumes env: "fills_within env" and r: "whole_size r1" "whole_size r2"
    and c: "calculateChunkSize rd env pos legs i r1 r2 = Some c"
  shows "whole_size c \<and> xle c r1 \<and> xle c r2 \<and> c \<noteq> Fin 0"
proof -
  let ?d = "\<lambda>x. getAvailableExitDepth rd (xeSource env) (xeBook env i x) (close_side pos x) (elPrice legs x)"
  have deep: "deep_or_whole d" if "?d x = Inr d" for x d
  proof (cases "xeBook env i x")
    case (Inr book)
    then have "whole_book book" using env by (auto simp: fills_within_def)
    then have "list_all (\<lambda>l. whole_size (quantity l)) (sorted_levels s book)" for s
      by (auto simp: whole_book_def sorted_levels_def list_all_iff)
    then show ?thesis using that Inr
      by (auto simp: getAvailableExitDepth_def deep_or_whole_def [of "Fin 0"] whole_size_def intro!: depth_whole)
  qed (use that in \<open>simp add: getAvailableExitDepth_def\<close>)
  obtain d1 d2 where d: "?d (elPrimary legs) = Inr d1" "?d (other_platform (elPrimary legs)) = Inr d2"
    using c by (auto simp: calculateChunkSize_def Let_def split: sum.splits)
  define m where "m = xmin (xmin (xmin d1 d2) r1) r2"
  have d12: "deep_or_whole (xmin d1 d2)"
    using deep [OF d(1)] deep [OF d(2)]
    by (auto simp: deep_or_whole_def whole_size_def min_def split: xr.splits)
  note a = xmin_deep [OF d12 r(1)]
  have b: "whole_size m" "xle m r2" "xle m (xmin (xmin d1 d2) r1)"
    unfolding m_def using xmin_deep [OF _ r(2)] a(1) by (auto simp: deep_or_whole_def)
  have "xle m r1" using b(1,3) a(1,2) r(1) by (auto elim!: whole_sizeE)
  moreover have "whole_size (to_decimal (xeMaxChunk env))"
    using env by (auto simp: fills_within_def small_shortest elim!: whole_sizeE)
  then have "whole_size (xmin m (to_decimal (xeMaxChunk env))) \<and> xle (xmin m (to_decimal (xeMaxChunk env))) m"
    using b(1) by (auto elim!: whole_sizeE simp: min_def)
  moreover have "c = m \<or> c = xmin m (to_decimal (xeMaxChunk env))" "c \<noteq> Fin 0"
    using c d by (auto simp: calculateChunkSize_def Let_def xmin_list_def m_def is_zero_def split: if_splits)
  ultimately show ?thesis using b r by (auto elim!: whole_sizeE)
qed

lemma fill_bounds:
  assumes env: "fills_within env" and c: "whole_size c"
  shows "0 \<le> fill_of (chunk_answer env pos legs i c p) \<and> fill_of (chunk_answer env pos legs i c p) \<le> fin_val c"
    and "answer_accepted (chunk_answer env pos legs i c p) \<Longrightarrow> whole_size r \<Longrightarrow> xle c r \<Longrightarrow>
      csRemaining st p = r \<Longrightarrow>
      whole_size (remaining_after rd st (chunk_answer env pos legs i c) p)
        \<and> fin_val (remaining_after rd st (chunk_answer env pos legs i c) p) = fin_val r - fill_of (chunk_answer env pos legs i c p)"
proof -
  obtain k where k: "c = Fin (of_int k)" "0 \<le> k" "k \<le> 10 ^ 9" using c by (rule whole_sizeE)
  let ?a = "chunk_answer env pos legs i c p"
  have f: "\<exists>n. filledQuantity res = Fin (of_int n) \<and> 0 \<le> n \<and> n \<le> k"
    if a: "?a = Inr res" "exit_accepted res" for res
  proof -
    have w: "whole_size (filledQuantity res)" "xle (filledQuantity res) (to_number c)"
      using env a unfolding fills_within_def chunk_answer_def by (metis exit_order_def order_params.select_convs(3))+
    then show ?thesis using k by (auto simp: small_b64 elim!: whole_sizeE)
  qed
  show "0 \<le> fill_of ?a \<and> fill_of ?a \<le> fin_val c"
    using f k by (cases ?a) (auto simp: fill_of_def)
  show "answer_accepted ?a \<Longrightarrow> whole_size r \<Longrightarrow> xle c r \<Longrightarrow> csRemaining st p = r \<Longrightarrow>
      whole_size (remaining_after rd st (chunk_answer env pos legs i c) p)
        \<and> fin_val (remaining_after rd st (chunk_answer env pos legs i c) p) = fin_val r - fill_of ?a"
  proof -
    assume a: "answer_accepted ?a" and r: "whole_size r" "xle c r" "csRemaining st p = r"
    obtain m where m: "r = Fin (of_int m)" "0 \<le> m" "m \<le> 10 ^ 9" using r(1) by (rule whole_sizeE)
    obtain res where res: "?a = Inr res" "exit_accepted res" using a by (auto simp: answer_accepted_def split: sum.splits)
    from f [OF res] obtain n where n: "filledQuantity res = Fin (of_int n)" "0 \<le> n" "n \<le> k" by blast
    have km: "k \<le> m" using r(2) m k by simp
    have "to_decimal (filledQuantity res) = Fin (of_int n)" using n k by (simp add: small_shortest)
    moreover have "rd (of_int (m - n)) = of_int (m - n)" using m n k km by (intro rd_small) simp
    ultimately have "remaining_after rd st (chunk_answer env pos legs i c) p = Fin (of_int (m - n))"
      using res r(3) m by (simp add: remaining_after_def)
    moreover have "fill_of ?a = of_int n" using res n by (simp add: fill_of_def)
    ultimately show ?thesis using m n km whole_size_int [of "m - n"] by (simp del: whole_size_int)
  qed
qed

definition whole_state :: "chunk_state \<Rightarrow> bool" where
  "whole_state st \<longleftrightarrow> whole_size (csRemaining st Kalshi) \<and> whole_size (csRemaining st Polymarket)"

lemma whole_stateD: "whole_state st \<Longrightarrow> whole_size (csRemaining st p)"
  by (cases p) (simp_all add: whole_state_def)

lemma chunk_sells:
  fixes legs :: exit_legs and pos :: exit_position and isPaper mixed :: bool and i :: nat
  assumes env: "fills_within env" and st: "whole_state st"
  defines "m \<equiv> exit_chunk rd env pos legs isPaper mixed i st"
  shows "0 \<le> filled_by p (fst m) \<and> filled_by p (fst m) \<le> fin_val (csRemaining st p)"
    and "snd m = Inr (st', True) \<Longrightarrow> whole_state st' \<and> filled_by p (fst m) = fin_val (csRemaining st p) - fin_val (csRemaining st' p)"
    and "snd m = Inr (st', False) \<Longrightarrow> csRemaining st' = csRemaining st"
proof -
  let ?P = "elPrimary legs" let ?Q = "other_platform (elPrimary legs)"
  have all: "(0 \<le> filled_by p (fst m) \<and> filled_by p (fst m) \<le> fin_val (csRemaining st p))
      \<and> (snd m = Inr (st', True) \<longrightarrow> whole_state st' \<and> filled_by p (fst m) = fin_val (csRemaining st p) - fin_val (csRemaining st' p))
      \<and> (snd m = Inr (st', False) \<longrightarrow> csRemaining st' = csRemaining st)" for p
  proof (cases "calculateChunkSize rd env pos legs i (csRemaining st ?P) (csRemaining st ?Q)")
    case None
    then have "m = act_return (st, False)" by (simp add: m_def exit_chunk_def)
    then show ?thesis using whole_stateD [OF st, of p] by (auto simp: filled_by_none elim!: whole_sizeE)
  next
    case (Some c)
    from chunk_size_whole [OF env whole_stateD [OF st] whole_stateD [OF st] Some]
    have c: "whole_size c" "xle c (csRemaining st x)" for x by (cases x; cases ?P; simp)+
    from chunk_some [OF Some, of isPaper mixed] have o: "chunk_outcome rd env pos legs i c st m" by (simp add: m_def)
    note b = fill_bounds(1) [OF env c(1)]
    have cr: "fin_val c \<le> fin_val (csRemaining st p)" "0 \<le> fin_val (csRemaining st p)"
      using c(1) c(2) [of p] whole_stateD [OF st, of p] by (auto elim!: whole_sizeE)
    have "0 \<le> filled_by p (fst m) \<and> filled_by p (fst m) \<le> fin_val c"
      using o b [of pos legs i p] by (auto simp: chunk_outcome_def filled_by_pair filled_by_first)
    moreover have "whole_state st' \<and> filled_by p (fst m) = fin_val (csRemaining st p) - fin_val (csRemaining st' p)"
      if "snd m = Inr (st', True)"
    proof -
      have *: "sent_orders (fst m) = chunk_pair env pos legs i c" "answer_accepted (chunk_answer env pos legs i c x)"
          "csRemaining st' = remaining_after rd st (chunk_answer env pos legs i c)" for x
        using o that by (auto simp: chunk_outcome_def)
      note f = fill_bounds(2) [OF env c(1) *(2) whole_stateD [OF st] c(2) refl]
      show ?thesis unfolding whole_state_def *(3) using f filled_by_pair [OF *(1), of p] by simp
    qed
    moreover have "csRemaining st' = csRemaining st" if "snd m = Inr (st', False)"
      using o that by (auto simp: chunk_outcome_def)
    ultimately show ?thesis using cr by auto
  qed
  show "0 \<le> filled_by p (fst m) \<and> filled_by p (fst m) \<le> fin_val (csRemaining st p)" using all by blast
  show "snd m = Inr (st', True) \<Longrightarrow> whole_state st' \<and> filled_by p (fst m) = fin_val (csRemaining st p) - fin_val (csRemaining st' p)"
    using all by blast
  show "snd m = Inr (st', False) \<Longrightarrow> csRemaining st' = csRemaining st" using all by blast
qed

lemma loop_sells:
  assumes "fills_within env" "whole_state st"
  shows "0 \<le> filled_by p (fst (chunk_loop rd env pos legs isPaper mixed n st))
      \<and> filled_by p (fst (chunk_loop rd env pos legs isPaper mixed n st)) \<le> fin_val (csRemaining st p)
      \<and> (\<forall>st'. snd (chunk_loop rd env pos legs isPaper mixed n st) = Inr st' \<longrightarrow> whole_state st'
          \<and> fin_val (csRemaining st p) - fin_val (csRemaining st' p)
             \<le> filled_by p (fst (chunk_loop rd env pos legs isPaper mixed n st)))"
  using assms
proof (induction "MAX_EXIT_CHUNK_ITERATIONS - n" arbitrary: n st)
  case 0
  then have "\<not> chunks_left legs n st" by (simp add: chunks_left_def)
  then show ?case using whole_stateD [OF 0(3), of p] 0(3) by (auto simp: chunk_loop_stop filled_by_none elim!: whole_sizeE)
next
  case (Suc k)
  show ?case
  proof (cases "chunks_left legs n st")
    case False
    then show ?thesis using whole_stateD [OF Suc(4), of p] Suc(4)
      by (auto simp: chunk_loop_stop filled_by_none elim!: whole_sizeE)
  next
    case True
    let ?m = "exit_chunk rd env pos legs isPaper mixed (n + 1) st"
    note s = chunk_sells(1,2) [OF Suc(3,4), where p = p and legs = legs and pos = pos and isPaper = isPaper and mixed = mixed and i = "n + 1"]
      chunk_sells(3) [OF Suc(3,4), where legs = legs and pos = pos and isPaper = isPaper and mixed = mixed and i = "n + 1"]
    show ?thesis
    proof (cases "snd ?m")
      case (Inl msg)
      then have "chunk_loop rd env pos legs isPaper mixed n st = (fst ?m, Inl msg)"
        by (cases ?m) (simp add: chunk_loop_go [OF True])
      then show ?thesis using s(1) by simp
    next
      case (Inr nxt)
      obtain st1 cont where nx: "nxt = (st1, cont)" by (cases nxt)
      show ?thesis
      proof (cases cont)
        case False
        then have "chunk_loop rd env pos legs isPaper mixed n st = (fst ?m, Inr st1)"
          using Inr nx by (cases ?m) (simp add: chunk_loop_go [OF True] bind_value)
        then show ?thesis using s(1) s(3) [of st1] Inr nx False Suc(4) by (simp add: whole_state_def)
      next
        case cont: True
        let ?r = "chunk_loop rd env pos legs isPaper mixed (n + 1) st1"
        have e: "chunk_loop rd env pos legs isPaper mixed n st = (fst ?m @ fst ?r, snd ?r)"
          using Inr nx cont by (cases ?m) (simp add: chunk_loop_go [OF True] bind_value)
        have st1: "whole_state st1" "filled_by p (fst ?m) = fin_val (csRemaining st p) - fin_val (csRemaining st1 p)"
          using s(2) [of st1] Inr nx cont by auto
        have "k = MAX_EXIT_CHUNK_ITERATIONS - (n + 1)" using Suc(2) by simp
        note IH = Suc(1) [OF this Suc(3) st1(1)]
        show ?thesis unfolding e using IH st1(2) s(1) by auto
      qed
    qed
  qed
qed

end

lemma partial_exit_no_close: "\<forall>e \<in> set (fst (handlePartialExit env pos oid p pr sz isPaper mixed skip)). \<not> closes e"
  unfolding handlePartialExit_def by (intro effects_all.P_rules) (auto intro!: effects_all.P_rules)

lemma chunk_no_close: "\<forall>e \<in> set (fst (exit_chunk rd env pos legs isPaper mixed i st)). \<not> closes e"
proof -
  have u: "\<forall>e \<in> set (fst (chunk_unpaired env pos legs st oid c isPaper mixed)). \<not> closes e" for oid c
    unfolding chunk_unpaired_def by (intro effects_all.P_bind partial_exit_no_close) simp
  have f: "\<forall>e \<in> set (fst (chunk_filled rd env pos legs st fill oids)). \<not> closes e" for fill oids
    unfolding chunk_filled_def Let_def by (intro effects_all.P_bind) (simp_all add: chunk_pnl_no_effects)
  have s: "\<forall>e \<in> set (fst (chunk_secondary rd env pos legs isPaper mixed i st c res oid)). \<not> closes e" for c res oid
    using u f by (auto simp: chunk_secondary_def Let_def exit_submit_bind exit_create_bind split: sum.splits)
  then show ?thesis
    by (auto simp: exit_chunk_def Let_def exit_submit_bind exit_create_bind split: option.splits sum.splits)
qed

lemma loop_no_close: "\<forall>e \<in> set (fst (chunk_loop rd env pos legs isPaper mixed n st)). \<not> closes e"
proof (induction rd env pos legs isPaper mixed n st rule: chunk_loop.induct)
  case (1 rd env pos legs isPaper mixed n st)
  show ?case
  proof (cases "chunks_left legs n st")
    case True
    show ?thesis unfolding chunk_loop_go [OF True]
      using "1.IH" [OF True] by (intro effects_all.P_bind chunk_no_close) (auto simp: split_beta)
  qed (simp add: chunk_loop_stop)
qed

lemma finalize_closes:
  assumes "e \<in> set (fst (finalizeExitStatus rd env pos legs ev pnl isPaper mixed st))" "closes e"
  shows "xle (csRemaining st p) (Fin 0)"
proof (cases "xle (csRemaining st Kalshi) (Fin 0) \<and> xle (csRemaining st Polymarket) (Fin 0)")
  case True
  then show ?thesis by (cases p) simp_all
next
  case False
  have "\<forall>e \<in> set (fst (finalizeExitStatus rd env pos legs ev pnl isPaper mixed st)). \<not> closes e"
    unfolding finalizeExitStatus_def Let_def if_not_P [OF False]
    by (intro effects_all.P_rules) (auto intro!: effects_all.P_rules split: option.splits)
  then show ?thesis using assms by blast
qed

context decimal_rounding
begin

lemma run_sells:
  fixes pos :: exit_position and ev :: threshold_result and isPaper mixed :: bool
  assumes env: "fills_within env" and w: "\<And>p. whole_size (elSize legs p)"
  defines "m \<equiv> run_chunks rd env pos ev legs isPaper mixed"
  shows "0 \<le> filled_by p (fst m) \<and> filled_by p (fst m) \<le> fin_val (elSize legs p)
    \<and> (PositionClosed pnl \<in> set (fst m) \<longrightarrow> filled_by p (fst m) = fin_val (elSize legs p))"
proof (cases "xle (elSize legs (elPrimary legs)) (Fin 0) \<or> xle (elSize legs (other_platform (elPrimary legs))) (Fin 0)")
  case True
  then have "m = act_return ()" by (simp add: m_def run_chunks_def Let_def)
  then show ?thesis using w [of p] by (auto simp: filled_by_none elim!: whole_sizeE)
next
  case False
  define pnl0 where "pnl0 = or_default (xpRealizedPnl pos) (Fin 0)"
  define st0 where "st0 = initial_chunks legs pnl0"
  let ?l = "chunk_loop rd env pos legs isPaper mixed 0 st0"
  have m: "m = act_bind ?l (\<lambda>st. if csChunks st = 0 then act_return ()
      else finalizeExitStatus rd env pos legs ev pnl0 isPaper mixed st)"
    by (simp only: m_def run_chunks_def Let_def st0_def pnl0_def if_not_P [OF False])
  have st0: "whole_state st0" "csRemaining st0 p = elSize legs p"
    using w by (simp_all add: st0_def initial_chunks_def whole_state_def)
  note s = loop_sells [OF env st0(1), of p pos legs isPaper mixed 0, unfolded st0(2)]
  show ?thesis
  proof (cases "snd ?l")
    case (Inl msg)
    then have "m = (fst ?l, Inl msg)" by (cases ?l) (simp add: m)
    then show ?thesis using s loop_no_close [of rd env pos legs isPaper mixed 0 st0] by fastforce
  next
    case (Inr st)
    define f where "f = (if csChunks st = 0 then act_return ()
      else finalizeExitStatus rd env pos legs ev pnl0 isPaper mixed st)"
    have e: "fst m = fst ?l @ fst f" using Inr by (cases ?l) (simp add: m bind_value f_def)
    have "sent_orders (fst f) = []" by (simp add: f_def finalize_no_orders)
    then have fb: "filled_by p (fst m) = filled_by p (fst ?l)" by (simp add: e filled_by_none)
    have "filled_by p (fst m) = fin_val (elSize legs p)" if "PositionClosed pnl \<in> set (fst m)"
    proof -
      have "PositionClosed pnl \<in> set (fst f)"
        using that loop_no_close [of rd env pos legs isPaper mixed 0 st0] by (auto simp: e)
      then have "xle (csRemaining st p) (Fin 0)"
        by (auto simp: f_def split: if_splits dest: finalize_closes)
      moreover have "whole_state st" using s Inr by blast
      ultimately have "fin_val (csRemaining st p) = 0" using whole_stateD [of st p] by (auto elim!: whole_sizeE)
      then show ?thesis using s Inr fb by fastforce
    qed
    then show ?thesis using s fb by auto
  qed
qed

lemma exit_sells:
  fixes ev :: threshold_result and isPaper mixed :: bool and priceK priceP :: decimal
  assumes "fills_within env"
    and "effective_size givenK (xpKalshiOrder pos) = act_return k" "whole_size k"
    and "effective_size givenP (xpPolymarketOrder pos) = act_return p" "whole_size p"
  defines "effs \<equiv> fst (executeExit rd env pos ev priceK priceP isPaper mixed givenK givenP)"
  shows "filled_by leg effs \<le> fin_val (exit_pick k p leg)
    \<and> (PositionClosed pnl \<in> set effs \<longrightarrow> filled_by leg effs = fin_val (exit_pick k p leg))"
proof -
  have z: "0 \<le> fin_val (exit_pick k p leg)"
    using assms(3,5) by (cases leg) (auto simp: exit_pick_def elim!: whole_sizeE)
  show ?thesis
  proof (cases "effs = []")
    case True
    then show ?thesis using z by (simp add: filled_by_none)
  next
    case False
    define legs where "legs a b = \<lparr>elPrimary = exit_primary pos, elPrice = exit_pick priceK priceP,
        elSize = exit_pick k p, elEntry = exit_pick a b\<rparr>" for a b
    obtain a b where "effs = fst (run_chunks rd env pos ev (legs a b) isPaper mixed)"
      using False assms(2,4)
      by (auto simp: effs_def executeExit_def act_call_def legs_def split: sum.splits if_splits)
    moreover have "elSize (legs a b) = exit_pick k p" by (simp add: legs_def)
    moreover have "whole_size (exit_pick k p x)" for x using assms(3,5) by (cases x) (simp_all add: exit_pick_def)
    ultimately show ?thesis using run_sells [OF assms(1), of "legs a b" leg pos ev isPaper mixed pnl] by simp
  qed
qed

end

section \<open>Properties\<close>

lemma orders_before_quiet:
  "(\<And>a. sent_orders (fst (f a)) = []) \<Longrightarrow> sent_orders (fst (act_bind m f)) = sent_orders (fst m)"
  by (cases m; cases "snd m") (auto simp: bind_value)

lemma run_chunks_orders_le: "length (sent_orders (fst (run_chunks rd env pos ev legs isPaper mixed))) \<le> 100"
proof -
  have "length (sent_orders (fst (chunk_loop rd env pos legs isPaper mixed 0 st))) \<le> 100" for st
    using loop_orders_le [of rd env pos legs isPaper mixed 0 st] by (simp add: MAX_EXIT_CHUNK_ITERATIONS_def)
  then show ?thesis
    by (simp add: run_chunks_def Let_def orders_before_quiet finalize_no_orders)
qed

text \<open>
  C18: an exit sends at most one hundred orders, two per chunk of at most fifty chunks, whatever the
  platforms answer: also when every order is filled by a fraction only.
\<close>
theorem exit_sends_at_most_fifty_chunks:
  "length (sent_orders (fst (executeExit rd env pos ev priceK priceP isPaper mixed givenK givenP))) \<le> 100"
proof -
  have e: "fst (executeExit rd env pos ev priceK priceP isPaper mixed givenK givenP) = []
      \<or> (\<exists>legs. fst (executeExit rd env pos ev priceK priceP isPaper mixed givenK givenP)
           = fst (run_chunks rd env pos ev legs isPaper mixed))"
    by (cases "xeFresh env"; cases givenK; cases givenP; cases "non_null (Option.bind (xpKalshiOrder pos) eoFillSize)";
        cases "non_null (Option.bind (xpPolymarketOrder pos) eoFillSize)";
        cases "non_null (Option.bind (xpKalshiOrder pos) eoFillPrice)";
        cases "non_null (Option.bind (xpPolymarketOrder pos) eoFillPrice)")
      (auto simp: executeExit_def act_call_def effective_size_def)
  then show ?thesis using run_chunks_orders_le by fastforce
qed

text \<open>
  when books and fills are in whole contracts and no platform fills more than was ordered, an
  exit never sells more of a leg than the position still holds, and it closes the position only
  when both legs were sold entirely.
\<close>
theorem exit_sells_within_position:
  assumes "decimal_rounding rd" "fills_within env"
    and "effective_size givenK (xpKalshiOrder pos) = act_return k" "whole_size k"
    and "effective_size givenP (xpPolymarketOrder pos) = act_return p" "whole_size p"
  shows "filled_by leg (fst (executeExit rd env pos ev priceK priceP isPaper mixed givenK givenP))
       \<le> fin_val (exit_pick k p leg)
    \<and> (PositionClosed pnl \<in> set (fst (executeExit rd env pos ev priceK priceP isPaper mixed givenK givenP)) \<longrightarrow>
         filled_by leg (fst (executeExit rd env pos ev priceK priceP isPaper mixed givenK givenP)) = fin_val (exit_pick k p leg))"
  by (rule decimal_rounding.exit_sells [OF assms])

definition sample_exit_position :: exit_position where
  "sample_exit_position = \<lparr>xpId = ''pos1'', xpPair = ''pair1'', xpKalshiSide = Some ''buy'', xpPolymarketSide = Some ''sell'',
     xpKalshiOrder = Some \<lparr>eoFillPrice = Some (Fin (1/2)), eoFillSize = Some (Fin 10)\<rparr>,
     xpPolymarketOrder = Some \<lparr>eoFillPrice = Some (Fin (1/2)), eoFillSize = Some (Fin 10)\<rparr>,
     xpPrimaryLeg = None, xpKalshiContract = ''k1'', xpPolymarketContract = ''p1'', xpExpectedEdge = Fin 0, xpRealizedPnl = None\<rparr>"

definition sample_exit_level :: price_level where
  "sample_exit_level = \<lparr>price = Fin (1/2), quantity = Fin 10\<rparr>"

text \<open>Both platforms fill an order of ten contracts, Polymarket as given.\<close>

definition sample_exit_env :: "order_result \<Rightarrow> exit_env" where
  "sample_exit_env poly = \<lparr>xeFresh = Inr (Some ''OPEN''),
     xeBook = (\<lambda>i p. Inr \<lparr>bids = [sample_exit_level], asks = [sample_exit_level]\<rparr>),
     xeSubmit = (\<lambda>i p order. if orQuantity order = Fin 10 then
        (case p of Kalshi \<Rightarrow> Inr \<lparr>orId = ''x1'', orStatus = OrderFilled, filledQuantity = Fin 10, filledPrice = Fin (1/2)\<rparr>
         | Polymarket \<Rightarrow> Inr poly) else Inl ''rejected''),
     xeCreateOrder = (\<lambda>i row. Inr (platform_id (rowPlatform row))), xeFindOrder = (\<lambda>oid. Inr None),
     xeUpdateStatus = None, xeClosePosition = None, xeAccumulatePnl = None, xeRisk = (\<lambda>op. None),
     xeFee = (\<lambda>p. Inr \<lparr>takerFeePercent = Fin 0, takerFeeForPrice = None\<rparr>),
     xeSource = \<lparr>escWsThreshold = Fin 60000, escTolerance = Fin 0\<rparr>, xeMaxChunk = Fin 0\<rparr>"

definition sample_exit_result :: "order_status \<Rightarrow> rat \<Rightarrow> order_result" where
  "sample_exit_result status q = \<lparr>orId = ''y1'', orStatus = status, filledQuantity = Fin q, filledPrice = Fin (1/2)\<rparr>"

definition sample_eval :: threshold_result where
  "sample_eval = \<lparr>res_triggered = True, res_type = Some StopLoss, res_currentEdge = Fin 0, res_currentPnl = Fin 0,
     res_capturedEdgePercent = Fin 0, res_dataSource = None, res_criteria = None, res_shadowModelResult = None\<rparr>"

abbreviation sample_exit :: "order_result \<Rightarrow> unit exit_act" where
  "sample_exit poly \<equiv> executeExit dec20 (sample_exit_env poly) sample_exit_position sample_eval (Fin (1/2)) (Fin (1/2))
     False False None None"

lemma sample_exit_numbers:
  "dec20 0 = 0" "dec20 1 = 1" "dec20 (1/2) = 1/2" "dec20 5 = 5" "dec20 10 = 10" "b64 10 = 10" "shortest 10 = 10" "shortest 1 = 1"
  "b64 (1/2) = 1/2"
  using dec20_int [of 1] dec20_int [of 5] dec20_int [of 10] b64_int [of 10] shortest_int [of 10] shortest_int [of 1]
    d20.rd_grid [of "1/2"] b64_half by (simp_all add: grid_def)

text \<open>The whole of a chunk whose two orders are accepted and recorded.\<close>

lemma chunk_both:
  assumes c: "calculateChunkSize rd env pos legs i (csRemaining st (elPrimary legs))
      (csRemaining st (other_platform (elPrimary legs))) = Some c"
    and p: "xeSubmit env i (elPrimary legs) (exit_order pos legs c (elPrimary legs)) = Inr res1" "exit_accepted res1"
      "xeCreateOrder env i (exit_row pos legs c isPaper (elPrimary legs) res1) = Inr oid1"
    and q: "xeSubmit env i (other_platform (elPrimary legs)) (exit_order pos legs c (other_platform (elPrimary legs))) = Inr res2"
      "exit_accepted res2"
      "xeCreateOrder env i (exit_row pos legs c isPaper (other_platform (elPrimary legs)) res2) = Inr oid2"
  shows "exit_chunk rd env pos legs isPaper mixed i st =
    ([ExitSubmitted (elPrimary legs) (exit_order pos legs c (elPrimary legs)) (Inr res1),
      ExitOrderCreated (exit_row pos legs c isPaper (elPrimary legs) res1) oid1,
      ExitSubmitted (other_platform (elPrimary legs)) (exit_order pos legs c (other_platform (elPrimary legs))) (Inr res2),
      ExitOrderCreated (exit_row pos legs c isPaper (other_platform (elPrimary legs)) res2) oid2]
       @ fst (chunk_filled rd env pos legs st (on_legs legs res1 res2) (on_legs legs oid1 oid2)),
     snd (chunk_filled rd env pos legs st (on_legs legs res1 res2) (on_legs legs oid1 oid2)))"
  using assms by (simp add: exit_chunk_def chunk_secondary_def Let_def exit_submit_bind exit_create_bind)

lemma chunk_filled_fees:
  assumes "xeFee env Kalshi = Inr feeK" "xeFee env Polymarket = Inr feeP"
  shows "\<exists>pnl. computeChunkPnl rd env pos legs fill = act_return pnl"
  using assms by (auto simp add: computeChunkPnl_def act_call_def Let_def)

lemma zero_fill_chunk:
  assumes "xeFee env Kalshi = Inr feeK" "xeFee env Polymarket = Inr feeP"
    and "is_zero (to_decimal (filledQuantity res2))"
  shows "\<exists>st1. chunk_filled rd env pos legs st (on_legs legs res1 res2) oids = act_return (st1, False)
    \<and> csChunks st1 = csChunks st"
  using chunk_filled_fees [OF assms(1,2), of rd pos legs "on_legs legs res1 res2"] assms(3)
  by (auto simp: chunk_filled_def Let_def)

text \<open>The legs of an exit whose data are complete.\<close>

definition legs_of :: "exit_position \<Rightarrow> decimal \<Rightarrow> decimal \<Rightarrow> decimal \<Rightarrow> decimal \<Rightarrow> decimal \<Rightarrow> decimal \<Rightarrow> exit_legs" where
  "legs_of pos priceK priceP sizeK sizeP entryK entryP =
     \<lparr>elPrimary = exit_primary pos, elPrice = exit_pick priceK priceP, elSize = exit_pick sizeK sizeP,
      elEntry = exit_pick entryK entryP\<rparr>"

lemma executeExit_runs:
  assumes "xeFresh env = Inr (Some status)" "status \<in> {''OPEN'', ''EXIT_PARTIAL''}"
    and "effective_size givenK (xpKalshiOrder pos) = act_return k" "effective_size givenP (xpPolymarketOrder pos) = act_return p"
    and "Option.bind (xpKalshiOrder pos) eoFillPrice = Some a" "Option.bind (xpPolymarketOrder pos) eoFillPrice = Some b"
  shows "executeExit rd env pos ev priceK priceP isPaper mixed givenK givenP =
    run_chunks rd env pos ev (legs_of pos priceK priceP k p a b) isPaper mixed"
  using assms by (auto simp: executeExit_def act_call_def non_null_def legs_of_def)

lemma zero_fill_run:
  fixes legs :: exit_legs
  defines "P \<equiv> elPrimary legs" and "Q \<equiv> other_platform (elPrimary legs)"
  assumes sz: "xgt (elSize legs P) (Fin 0)" "xgt (elSize legs Q) (Fin 0)"
    and c: "calculateChunkSize rd env pos legs 1 (elSize legs P) (elSize legs Q) = Some c"
    and p: "xeSubmit env 1 P (exit_order pos legs c P) = Inr res1" "exit_accepted res1"
      "xeCreateOrder env 1 (exit_row pos legs c isPaper P res1) = Inr oid1"
    and q: "xeSubmit env 1 Q (exit_order pos legs c Q) = Inr res2" "exit_accepted res2"
      "xeCreateOrder env 1 (exit_row pos legs c isPaper Q res2) = Inr oid2"
    and fee: "xeFee env Kalshi = Inr feeK" "xeFee env Polymarket = Inr feeP"
    and zero: "is_zero (to_decimal (filledQuantity res2))"
  shows "run_chunks rd env pos ev legs isPaper mixed =
    ([ExitSubmitted P (exit_order pos legs c P) (Inr res1), ExitOrderCreated (exit_row pos legs c isPaper P res1) oid1,
      ExitSubmitted Q (exit_order pos legs c Q) (Inr res2), ExitOrderCreated (exit_row pos legs c isPaper Q res2) oid2], Inr ())"
proof -
  let ?st = "initial_chunks legs (or_default (xpRealizedPnl pos) (Fin 0))"
  have r: "csRemaining ?st = elSize legs" "csChunks ?st = 0" by (simp_all add: initial_chunks_def)
  have PQ: "other_platform P = Q" by (simp add: P_def Q_def)
  have go: "chunks_left legs 0 ?st"
    using sz by (simp add: chunks_left_def r P_def Q_def MAX_EXIT_CHUNK_ITERATIONS_def)
  obtain st1 where st1: "chunk_filled rd env pos legs ?st (on_legs legs res1 res2) (on_legs legs oid1 oid2) = act_return (st1, False)"
      "csChunks st1 = 0"
    using zero_fill_chunk [OF fee zero, of rd pos legs ?st res1] r(2) by metis
  have "exit_chunk rd env pos legs isPaper mixed 1 ?st =
    ([ExitSubmitted P (exit_order pos legs c P) (Inr res1), ExitOrderCreated (exit_row pos legs c isPaper P res1) oid1,
      ExitSubmitted Q (exit_order pos legs c Q) (Inr res2), ExitOrderCreated (exit_row pos legs c isPaper Q res2) oid2], Inr (st1, False))"
    using chunk_both [of rd env pos legs 1 ?st c res1 isPaper oid1 res2 oid2 mixed] c p q st1(1)
    by (simp add: r P_def Q_def)
  moreover have "\<not> (xle (elSize legs P) (Fin 0) \<or> xle (elSize legs Q) (Fin 0))"
    using sz by (cases "elSize legs P"; cases "elSize legs Q") auto
  ultimately show ?thesis using st1(2)
    by (simp add: run_chunks_def Let_def P_def [symmetric] PQ chunk_loop_go [OF go] bind_value)
qed

text \<open>
  a zero fill is not reported: when the first chunk's primary order is filled and the platform of
  the other leg answers its order with a partial fill of zero, the exit ends after recording the
  two orders; the position keeps its status, no exposure is raised and no capital is released.
\<close>
theorem zero_fill_leaves_leg_unreported:
  fixes pos :: exit_position and priceK priceP k p a b :: decimal
  defines "L \<equiv> legs_of pos priceK priceP k p a b"
  assumes "xeFresh env = Inr (Some status)" "status \<in> {''OPEN'', ''EXIT_PARTIAL''}"
    and "effective_size givenK (xpKalshiOrder pos) = act_return k" "effective_size givenP (xpPolymarketOrder pos) = act_return p"
    and "Option.bind (xpKalshiOrder pos) eoFillPrice = Some a" "Option.bind (xpPolymarketOrder pos) eoFillPrice = Some b"
    and "xgt (elSize L (elPrimary L)) (Fin 0)" "xgt (elSize L (other_platform (elPrimary L))) (Fin 0)"
    and "calculateChunkSize rd env pos L 1 (elSize L (elPrimary L)) (elSize L (other_platform (elPrimary L))) = Some c"
    and "xeSubmit env 1 (elPrimary L) (exit_order pos L c (elPrimary L)) = Inr res1" "exit_accepted res1"
      "xeCreateOrder env 1 (exit_row pos L c isPaper (elPrimary L) res1) = Inr oid1"
    and "xeSubmit env 1 (other_platform (elPrimary L)) (exit_order pos L c (other_platform (elPrimary L))) = Inr res2"
      "exit_accepted res2"
      "xeCreateOrder env 1 (exit_row pos L c isPaper (other_platform (elPrimary L)) res2) = Inr oid2"
    and "xeFee env Kalshi = Inr feeK" "xeFee env Polymarket = Inr feeP"
    and "is_zero (to_decimal (filledQuantity res2))"
  shows "executeExit rd env pos ev priceK priceP isPaper mixed givenK givenP =
    ([ExitSubmitted (elPrimary L) (exit_order pos L c (elPrimary L)) (Inr res1),
      ExitOrderCreated (exit_row pos L c isPaper (elPrimary L) res1) oid1,
      ExitSubmitted (other_platform (elPrimary L)) (exit_order pos L c (other_platform (elPrimary L))) (Inr res2),
      ExitOrderCreated (exit_row pos L c isPaper (other_platform (elPrimary L)) res2) oid2], Inr ())"
  using executeExit_runs [OF assms(2-7)] zero_fill_run [OF assms(8-19)] by (simp add: L_def)

abbreviation sample_exit_legs :: exit_legs where
  "sample_exit_legs \<equiv> legs_of sample_exit_position (Fin (1/2)) (Fin (1/2)) (Fin 10) (Fin 10) (Fin (1/2)) (Fin (1/2))"

lemma sample_exit_data:
  "exit_primary sample_exit_position = Kalshi" "elPrimary sample_exit_legs = Kalshi" "elSize sample_exit_legs x = Fin 10"
  "elPrice sample_exit_legs x = Fin (1/2)" "elEntry sample_exit_legs x = Fin (1/2)"
  "close_side sample_exit_position Kalshi = Sell" "close_side sample_exit_position Polymarket = Buy"
  by (simp_all add: legs_of_def exit_primary_def or_default_def sample_exit_position_def exit_pick_def close_side_def
      leg_side_def split: platform.splits)

lemma sample_depth: "getAvailableExitDepth dec20 \<lparr>escWsThreshold = Fin 60000, escTolerance = Fin 0\<rparr>
    (Inr \<lparr>bids = [sample_exit_level], asks = [sample_exit_level]\<rparr>) s (Fin (1/2)) = Inr (Fin 10)"
  by (simp add: getAvailableExitDepth_def sorted_levels_def exit_price_ok_def exit_cutoff_def sample_exit_level_def
      sample_exit_numbers)

lemma sample_chunk_size:
  "calculateChunkSize dec20 (sample_exit_env poly) sample_exit_position sample_exit_legs i (Fin 10) (Fin 10) = Some (Fin 10)"
  by (simp add: calculateChunkSize_def sample_exit_data Let_def sample_exit_env_def sample_depth xmin_list_def)

lemma sample_submit:
  "xeSubmit (sample_exit_env poly) i Kalshi (exit_order pos legs (Fin 10) Kalshi)
     = Inr \<lparr>orId = ''x1'', orStatus = OrderFilled, filledQuantity = Fin 10, filledPrice = Fin (1/2)\<rparr>"
  "xeSubmit (sample_exit_env poly) i Polymarket (exit_order pos legs (Fin 10) Polymarket) = Inr poly"
  by (simp_all add: sample_exit_env_def exit_order_def sample_exit_numbers)

lemma sample_create: "xeCreateOrder (sample_exit_env poly) i row = Inr (platform_id (rowPlatform row))"
  by (simp add: sample_exit_env_def)

abbreviation sample_kalshi_fill :: order_result where
  "sample_kalshi_fill \<equiv> \<lparr>orId = ''x1'', orStatus = OrderFilled, filledQuantity = Fin 10, filledPrice = Fin (1/2)\<rparr>"

lemma sample_exit_facts:
  "xeFresh (sample_exit_env poly) = Inr (Some ''OPEN'')"
  "xeFee (sample_exit_env poly) x = Inr \<lparr>takerFeePercent = Fin 0, takerFeeForPrice = None\<rparr>"
  "Option.bind (xpKalshiOrder sample_exit_position) eoFillPrice = Some (Fin (1/2))"
  "Option.bind (xpPolymarketOrder sample_exit_position) eoFillPrice = Some (Fin (1/2))"
  "effective_size None (xpKalshiOrder sample_exit_position) = act_return (Fin 10)"
  "effective_size None (xpPolymarketOrder sample_exit_position) = act_return (Fin 10)"
  "rowPlatform (exit_row pos legs c paper q res) = q"
  "exit_accepted sample_kalshi_fill" "exit_accepted (sample_exit_result OrderPartial z)" "exit_accepted (sample_exit_result OrderFilled z)"
  "filledQuantity (sample_exit_result st z) = Fin z" "filledPrice (sample_exit_result st z) = Fin (1/2)"
  by (simp_all add: sample_exit_env_def sample_exit_position_def effective_size_def act_call_def non_null_def exit_row_def
      exit_accepted_def sample_exit_result_def)

theorem zero_fill_leaves_leg_unreported_witness:
  "filled_by Kalshi (fst (sample_exit (sample_exit_result OrderPartial 0))) = 10
   \<and> filled_by Polymarket (fst (sample_exit (sample_exit_result OrderPartial 0))) = 0
   \<and> list_all (\<lambda>e. case e of ExitSubmitted p q a \<Rightarrow> True | ExitOrderCreated row i \<Rightarrow> True | _ \<Rightarrow> False)
       (fst (sample_exit (sample_exit_result OrderPartial 0)))"
  using zero_fill_leaves_leg_unreported
      [where env = "sample_exit_env (sample_exit_result OrderPartial 0)" and pos = sample_exit_position
        and status = "''OPEN''" and givenK = None and givenP = None and k = "Fin 10" and p = "Fin 10"
        and a = "Fin (1/2)" and b = "Fin (1/2)" and priceK = "Fin (1/2)" and priceP = "Fin (1/2)" and rd = dec20
        and c = "Fin 10" and isPaper = False and mixed = False and ev = sample_eval
        and ?res1.0 = sample_kalshi_fill and ?res2.0 = "sample_exit_result OrderPartial 0"
        and ?oid1.0 = "''kalshi''" and ?oid2.0 = "''polymarket''"
        and feeK = "\<lparr>takerFeePercent = Fin 0, takerFeeForPrice = None\<rparr>"
        and feeP = "\<lparr>takerFeePercent = Fin 0, takerFeeForPrice = None\<rparr>"]
  by (simp add: sample_exit_data sample_chunk_size sample_submit sample_create sample_exit_facts filled_by_def fill_of_def)

text \<open>The run in which both legs of ten contracts are sold at once.\<close>

lemma sample_full_chunk:
  assumes "csRemaining st = (\<lambda>_. Fin 10)" "csPnl st = Fin 0" "csChunks st = 0"
  shows "\<exists>effs st1. exit_chunk dec20 (sample_exit_env (sample_exit_result OrderFilled 10)) sample_exit_position sample_exit_legs
      False False 1 st = (effs, Inr (st1, True)) \<and> csRemaining st1 = (\<lambda>_. Fin 0) \<and> csPnl st1 = Fin 0 \<and> csChunks st1 = 1"
proof -
  let ?env = "sample_exit_env (sample_exit_result OrderFilled 10)"
  have f: "on_legs sample_exit_legs sample_kalshi_fill (sample_exit_result OrderFilled 10) x
      = (case x of Kalshi \<Rightarrow> sample_kalshi_fill | Polymarket \<Rightarrow> sample_exit_result OrderFilled 10)" for x
    by (cases x) (simp_all add: on_legs_def sample_exit_data)
  have "computeChunkPnl dec20 ?env sample_exit_position sample_exit_legs
      (on_legs sample_exit_legs sample_kalshi_fill (sample_exit_result OrderFilled 10)) = act_return (Fin 0)"
    by (simp add: computeChunkPnl_def act_call_def sample_exit_facts f exit_leg_pnl_def exit_fee_def sample_exit_data
        calculateTakerFeeRate_def sample_exit_numbers Let_def)
  then obtain st1 where "chunk_filled dec20 ?env sample_exit_position sample_exit_legs st
      (on_legs sample_exit_legs sample_kalshi_fill (sample_exit_result OrderFilled 10))
      (on_legs sample_exit_legs ''kalshi'' ''polymarket'') = act_return (st1, True)"
      "csRemaining st1 = (\<lambda>_. Fin 0)" "csPnl st1 = Fin 0" "csChunks st1 = 1"
    using assms by (simp add: chunk_filled_def Let_def f sample_exit_data sample_exit_facts sample_exit_numbers fun_eq_iff
        split: platform.splits)
  then show ?thesis
    using chunk_both [of dec20 ?env sample_exit_position sample_exit_legs 1 st "Fin 10" sample_kalshi_fill False "''kalshi''"
        "sample_exit_result OrderFilled 10" "''polymarket''" False]
    by (simp add: assms sample_exit_data sample_chunk_size sample_submit sample_create sample_exit_facts act_return_def)
qed

lemma sample_full_run: "PositionClosed (Fin 0) \<in> set (fst (sample_exit (sample_exit_result OrderFilled 10)))"
proof -
  let ?env = "sample_exit_env (sample_exit_result OrderFilled 10)"
  let ?st = "initial_chunks sample_exit_legs (Fin 0)"
  have st: "csRemaining ?st = (\<lambda>_. Fin 10)" "csPnl ?st = Fin 0" "csChunks ?st = 0"
    by (simp_all add: initial_chunks_def sample_exit_data fun_eq_iff)
  from sample_full_chunk [OF this] obtain effs st1 where
    c: "exit_chunk dec20 ?env sample_exit_position sample_exit_legs False False 1 ?st = (effs, Inr (st1, True))"
      "csRemaining st1 = (\<lambda>_. Fin 0)" "csPnl st1 = Fin 0" "csChunks st1 = 1" by blast
  have go: "chunks_left sample_exit_legs 0 ?st" and stop: "\<not> chunks_left sample_exit_legs 1 st1"
    by (simp_all add: chunks_left_def st c(2) MAX_EXIT_CHUNK_ITERATIONS_def)
  have "chunk_loop dec20 ?env sample_exit_position sample_exit_legs False False 0 ?st = (effs, Inr st1)"
    using c(1) stop by (simp add: chunk_loop_go [OF go] bind_value chunk_loop_stop)
  moreover have "or_default (xpRealizedPnl sample_exit_position) (Fin 0) = Fin 0"
    by (simp add: or_default_def sample_exit_position_def)
  moreover have "xeClosePosition ?env = None" by (simp add: sample_exit_env_def)
  moreover have "sample_exit (sample_exit_result OrderFilled 10) =
      run_chunks dec20 ?env sample_exit_position sample_eval sample_exit_legs False False"
    by (rule executeExit_runs [where status = "''OPEN''"]) (simp_all add: sample_exit_facts)
  ultimately show ?thesis
    by (simp add: run_chunks_def Let_def sample_exit_data bind_value c finalizeExitStatus_def act_do_def act_tell_def)
qed

theorem exit_sells_within_position_witness:
  "filled_by Kalshi (fst (sample_exit (sample_exit_result OrderFilled 10))) = 10
   \<and> filled_by Polymarket (fst (sample_exit (sample_exit_result OrderFilled 10))) = 10"
proof -
  have "fills_within (sample_exit_env (sample_exit_result OrderFilled 10))"
    by (auto simp: fills_within_def sample_exit_env_def whole_book_def sample_exit_level_def whole_size_def
        sample_exit_result_def split: if_splits platform.splits)
  moreover have "whole_size (Fin 10)" by (simp add: whole_size_def)
  ultimately show ?thesis
    using exit_sells_within_position [OF d20.decimal_rounding_axioms, of "sample_exit_env (sample_exit_result OrderFilled 10)"
        None sample_exit_position "Fin 10" None "Fin 10" Kalshi sample_eval "Fin (1/2)" "Fin (1/2)" False False "Fin 0"]
      exit_sells_within_position [OF d20.decimal_rounding_axioms, of "sample_exit_env (sample_exit_result OrderFilled 10)"
        None sample_exit_position "Fin 10" None "Fin 10" Polymarket sample_eval "Fin (1/2)" "Fin (1/2)" False False "Fin 0"]
      sample_full_run
    by (simp add: sample_exit_facts exit_pick_def)
qed

end
