(* ===== verification/PositionClose.thy ===== *)
theory PositionClose
  imports ExitExecution
begin

text \<open>
  \<^verbatim>\<open>PositionCloseService\<close>: the operator closes a position, or all of them.  Under the
  execution lock the position is read again, both books give a close price, the primary and the
  secondary order are sent, and the position is closed, marked as partially exited or as exposed on
  one leg.  A thrown error ends in a result of its own, and the lock is given back.  The answers of
  connectors and repositories are fields of the environment; log lines and texts are left out.
\<close>

section \<open>Data\<close>

record close_position = exit_position +
  cpStatus :: string
  cpIsPaper :: bool
  cpKalshiOrderId :: "string option"
  cpPolymarketOrderId :: "string option"

datatype thrown = RateLimitThrown | OtherThrown

datatype close_code = NotFound | NotCloseable | ExecutionFailed | RateLimited

record close_result =
  clSuccess :: bool
  clError :: bool
  clCode :: "close_code option"
  clPnl :: "decimal option"

datatype close_stop = CloseReturned close_result | CloseThrew thrown

type_synonym 'a close_act = "(exit_effect, close_stop, 'a) prog"

record close_env =
  ceBefore :: "thrown + close_position option"
  ceAfter :: "thrown + close_position option"
  cePairOrders :: "thrown + pair_order list"
  ceBook :: "platform \<Rightarrow> thrown + order_book"
  ceFreshBook :: "platform \<Rightarrow> thrown + order_book"
  ceSubmit :: "platform \<Rightarrow> order_params \<Rightarrow> string + order_result"
  ceCreateOrder :: "order_row \<Rightarrow> thrown + string"
  ceFindOrder :: "string \<Rightarrow> thrown + stored_order option"
  ceUpdateStatus :: "thrown option"
  ceClosePosition :: "thrown option"
  ceAccumulatePnl :: "thrown option"
  ceRisk :: "risk_op \<Rightarrow> string option"
  ceFee :: "platform \<Rightarrow> thrown + fee_schedule"

definition close_failed :: "close_code option \<Rightarrow> close_result" where
  "close_failed code = \<lparr>clSuccess = False, clError = True, clCode = code, clPnl = None\<rparr>"

definition close_call :: "thrown + 'a \<Rightarrow> 'a close_act" where
  "close_call answer = act_call (map_sum CloseThrew id answer)"

definition close_do :: "thrown option \<Rightarrow> exit_effect \<Rightarrow> unit close_act" where
  "close_do answer e = act_do (map_option CloseThrew answer) e"

definition close_stop_with :: "close_result \<Rightarrow> 'a close_act" where
  "close_stop_with r = act_stop (CloseReturned r)"

section \<open>Sizes and prices\<close>

definition residual_of :: "close_position \<Rightarrow> residual_position" where
  "residual_of pos = \<lparr>kalshiOrderId = cpKalshiOrderId pos, polymarketOrderId = cpPolymarketOrderId pos,
     kalshiOrder = map_option eoFillSize (xpKalshiOrder pos),
     polymarketOrder = map_option eoFillSize (xpPolymarketOrder pos)\<rparr>"

text \<open>
  Nothing is left to close: the position is closed with the profit it already had.  The risk
  manager is called without a mode, which is the live one.
\<close>

definition close_exhausted :: "close_env \<Rightarrow> close_position \<Rightarrow> 'a close_act" where
  "close_exhausted env pos =
     act_bind (close_do (ceClosePosition env) (PositionClosed (or_default (xpRealizedPnl pos) (Fin 0)))) (\<lambda>_.
     act_bind (return_capital (ceRisk env RiskClose) (xpId pos) (xpPair pos) RiskClose (Fin 0) (Fin 0) False) (\<lambda>_.
     close_stop_with \<lparr>clSuccess = True, clError = False, clCode = None, clPnl = Some (Fin 0)\<rparr>))"

definition effective_sizes ::
  "(rat \<Rightarrow> rat) \<Rightarrow> close_env \<Rightarrow> close_position \<Rightarrow> decimal \<Rightarrow> decimal \<Rightarrow> (decimal \<times> decimal) close_act" where
  "effective_sizes rd env pos kalshiFill polymarketFill =
     (if cpStatus pos \<noteq> ''EXIT_PARTIAL'' then act_return (kalshiFill, polymarketFill)
      else
        act_bind (close_call (cePairOrders env)) (\<lambda>allPairOrders.
          let residual = getResidualSize rd (residual_of pos) allPairOrders;
              k = residual_kalshi residual; p = residual_polymarket residual in
          if is_zero k \<and> is_zero p then close_exhausted env pos
          else if is_zero k \<or> is_zero p then close_stop_with (close_failed (Some ExecutionFailed))
          else act_return (k, p)))"

definition computeVwap :: "(rat \<Rightarrow> rat) \<Rightarrow> price_level list \<Rightarrow> decimal \<Rightarrow> decimal option" where
  "computeVwap rd levels positionSize =
     (if levels = [] then None
      else
        let (remainingQty, totalCost) = vwap_walk rd levels positionSize (Fin 0);
            filled = xsub rd positionSize remainingQty
        in if is_zero filled then None else Some (xdiv rd totalCost filled))"

section \<open>One leg filled, the other not\<close>

definition handleSingleLegFailure ::
  "close_env \<Rightarrow> close_position \<Rightarrow> string \<Rightarrow> platform \<Rightarrow> decimal \<Rightarrow> decimal \<Rightarrow> close_result close_act" where
  "handleSingleLegFailure env pos filledOrderId filledLeg failedPrice failedSize =
     act_bind (close_do (ceUpdateStatus env) (StatusSet ''SINGLE_LEG_EXPOSED'')) (\<lambda>_.
     act_bind (close_call (ceFindOrder env filledOrderId)) (\<lambda>found.
     act_bind (act_tell [ExitEmitted (ExitExposed
       \<lparr>slPosition = xpId pos, slPair = xpPair pos, slExpectedEdge = to_number (xpExpectedEdge pos),
        slFilledPlatform = filledLeg, slOrderId = filledOrderId,
        slFilledSide = close_side (exit_position.truncate pos) filledLeg,
        slPrice = num_or_zero (map_option soPrice found), slSize = num_or_zero (map_option soSize found),
        slFilledPrice = num_or_zero (Option.bind found soFillPrice),
        slFilledSize = num_or_zero (Option.bind found soFillSize),
        slFailedPlatform = other_platform filledLeg, slReason = CLOSE_FAILED,
        slAttemptedPrice = to_number failedPrice, slAttemptedSize = to_number failedSize,
        slCurrentPrices = (\<lambda>_. (None, None)), slIsPaper = cpIsPaper pos, slMixedMode = False\<rparr>)]) (\<lambda>_.
     act_return (close_failed None))))"

section \<open>After both orders\<close>

text \<open>The entry capital is price times size on either side.\<close>

definition manual_capital :: "(rat \<Rightarrow> rat) \<Rightarrow> exit_legs \<Rightarrow> (platform \<Rightarrow> decimal) \<Rightarrow> decimal" where
  "manual_capital rd legs exited =
     xadd rd (xmul rd (elEntry legs Kalshi) (exited Kalshi)) (xmul rd (elEntry legs Polymarket) (exited Polymarket))"

definition manual_pnl ::
  "(rat \<Rightarrow> rat) \<Rightarrow> close_position \<Rightarrow> exit_legs \<Rightarrow> (platform \<Rightarrow> order_result) \<Rightarrow> (platform \<Rightarrow> fee_schedule) \<Rightarrow> decimal" where
  "manual_pnl rd pos legs fill fee =
     (let sz = (\<lambda>p. to_decimal (filledQuantity (fill p)));
          closed = (\<lambda>p. to_decimal (filledPrice (fill p)));
          pnl = (\<lambda>p. exit_leg_pnl rd (leg_side (exit_position.truncate pos) p) (elEntry legs p) (closed p) (sz p)) in
      xsub rd (xsub rd (xadd rd (pnl Kalshi) (pnl Polymarket)) (exit_fee rd (closed Kalshi) (sz Kalshi) (fee Kalshi)))
        (exit_fee rd (closed Polymarket) (sz Polymarket) (fee Polymarket)))"

definition manual_full_exit :: "exit_legs \<Rightarrow> (platform \<Rightarrow> decimal) \<Rightarrow> bool" where
  "manual_full_exit legs exited \<longleftrightarrow>
     xge (to_fixed 0 (exited Kalshi)) (to_fixed 0 (elSize legs Kalshi))
     \<and> xge (to_fixed 0 (exited Polymarket)) (to_fixed 0 (elSize legs Polymarket))"

definition settle_close ::
  "(rat \<Rightarrow> rat) \<Rightarrow> close_env \<Rightarrow> close_position \<Rightarrow> exit_legs \<Rightarrow> (platform \<Rightarrow> order_result) \<Rightarrow> (platform \<Rightarrow> string)
     \<Rightarrow> close_result close_act" where
  "settle_close rd env pos legs fill oids =
     act_bind (close_call (ceFee env Kalshi)) (\<lambda>feeK.
     act_bind (close_call (ceFee env Polymarket)) (\<lambda>feeP.
       let exited = (\<lambda>p. to_decimal (filledQuantity (fill p)));
           realizedPnl = manual_pnl rd pos legs fill (exit_pick feeK feeP);
           capitalReturned = xadd rd (manual_capital rd legs exited) realizedPnl;
           existingPnl = or_default (xpRealizedPnl pos) (Fin 0) in
       if manual_full_exit legs exited then
         act_bind (close_do (ceClosePosition env) (PositionClosed (xadd rd existingPnl realizedPnl))) (\<lambda>_.
         act_bind (return_capital (ceRisk env RiskClose) (xpId pos) (xpPair pos) RiskClose capitalReturned realizedPnl False) (\<lambda>_.
         act_bind (act_tell [ExitEmitted (ExitTriggered
           \<lparr>etPosition = xpId pos, etPair = xpPair pos, etType = Some Manual,
            etInitialEdge = to_fixed 8 (xpExpectedEdge pos), etFinalEdge = Fin 0,
            etRealizedPnl = to_fixed 8 realizedPnl, etKalshiOrder = oids Kalshi, etPolymarketOrder = oids Polymarket,
            etIsPaper = cpIsPaper pos, etMixedMode = False, etChunks = None, etIsPartial = None\<rparr>)]) (\<lambda>_.
         act_return \<lparr>clSuccess = True, clError = False, clCode = None, clPnl = Some (to_fixed 8 realizedPnl)\<rparr>)))
       else
         act_bind (close_do (ceAccumulatePnl env) (PnlAccumulated realizedPnl existingPnl)) (\<lambda>_.
         act_bind (return_capital (ceRisk env RiskPartialRelease) (xpId pos) (xpPair pos) RiskPartialRelease
           capitalReturned realizedPnl False) (\<lambda>_.
         act_return \<lparr>clSuccess = True, clError = True, clCode = None, clPnl = Some (to_fixed 8 realizedPnl)\<rparr>))))"

section \<open>The two orders\<close>

definition close_submit :: "close_env \<Rightarrow> platform \<Rightarrow> order_params \<Rightarrow> (string + order_result) close_act" where
  "close_submit env p order =
     act_bind (act_tell [ExitSubmitted p order (ceSubmit env p order)]) (\<lambda>_. act_return (ceSubmit env p order))"

definition close_create :: "close_env \<Rightarrow> order_row \<Rightarrow> string close_act" where
  "close_create env row =
     act_bind (close_call (ceCreateOrder env row)) (\<lambda>oid.
     act_bind (act_tell [ExitOrderCreated row oid]) (\<lambda>_. act_return oid))"

definition side_levels :: "close_position \<Rightarrow> platform \<Rightarrow> order_book \<Rightarrow> price_level list" where
  "side_levels pos p book = close_levels book (or_default (leg_side (exit_position.truncate pos) p) [])"

definition fresh_price :: "(rat \<Rightarrow> rat) \<Rightarrow> close_env \<Rightarrow> close_position \<Rightarrow> exit_legs \<Rightarrow> decimal \<Rightarrow> platform \<Rightarrow> decimal" where
  "fresh_price rd env pos legs exitSize q =
     (case ceFreshBook env q of
        Inl _ \<Rightarrow> elPrice legs q
      | Inr book \<Rightarrow> or_default (computeVwap rd (side_levels pos q book) exitSize) (elPrice legs q))"

definition close_secondary ::
  "(rat \<Rightarrow> rat) \<Rightarrow> close_env \<Rightarrow> close_position \<Rightarrow> exit_legs \<Rightarrow> decimal \<Rightarrow> order_result \<Rightarrow> string \<Rightarrow> close_result close_act" where
  "close_secondary rd env pos legs exitSize primaryResult primaryOid =
     (let p = elPrimary legs; q = other_platform p; fresh = fresh_price rd env pos legs exitSize q;
          legs' = legs\<lparr>elPrice := (elPrice legs)(q := fresh)\<rparr> in
      act_bind (close_submit env q (exit_order (exit_position.truncate pos) legs' exitSize q)) (\<lambda>secondaryAnswer.
        case secondaryAnswer of
          Inl _ \<Rightarrow> handleSingleLegFailure env pos primaryOid p fresh exitSize
        | Inr secondaryResult \<Rightarrow>
            if \<not> exit_accepted secondaryResult then handleSingleLegFailure env pos primaryOid p fresh exitSize
            else
              act_bind (close_create env (exit_row (exit_position.truncate pos) legs' exitSize (cpIsPaper pos) q secondaryResult))
                (\<lambda>secondaryOid. settle_close rd env pos legs' (on_legs legs primaryResult secondaryResult)
                  (on_legs legs primaryOid secondaryOid))))"

definition close_orders ::
  "(rat \<Rightarrow> rat) \<Rightarrow> close_env \<Rightarrow> close_position \<Rightarrow> exit_legs \<Rightarrow> close_result close_act" where
  "close_orders rd env pos legs =
     (let p = elPrimary legs; exitSize = xmin (elSize legs Kalshi) (elSize legs Polymarket) in
      act_bind (close_submit env p (exit_order (exit_position.truncate pos) legs exitSize p)) (\<lambda>primaryAnswer.
        case primaryAnswer of
          Inl _ \<Rightarrow> close_stop_with (close_failed (Some ExecutionFailed))
        | Inr primaryResult \<Rightarrow>
            if \<not> exit_accepted primaryResult then close_stop_with (close_failed (Some ExecutionFailed))
            else
              act_bind (close_create env (exit_row (exit_position.truncate pos) legs exitSize (cpIsPaper pos) p primaryResult))
                (\<lambda>primaryOid. close_secondary rd env pos legs exitSize primaryResult primaryOid)))"

section \<open>Closing a position\<close>

text \<open>The fill data and sides of a position, when all of them are there.\<close>

definition fill_data :: "close_position \<Rightarrow> (decimal \<times> decimal \<times> decimal \<times> decimal) option" where
  "fill_data pos =
     (case (Option.bind (xpKalshiOrder pos) eoFillPrice, Option.bind (xpPolymarketOrder pos) eoFillPrice,
            Option.bind (xpKalshiOrder pos) eoFillSize, Option.bind (xpPolymarketOrder pos) eoFillSize) of
        (Some priceK, Some priceP, Some sizeK, Some sizeP) \<Rightarrow> Some (priceK, priceP, sizeK, sizeP)
      | _ \<Rightarrow> None)"

definition side_given :: "string option \<Rightarrow> bool" where
  "side_given s \<longleftrightarrow> s \<noteq> None \<and> s \<noteq> Some []"

definition close_body :: "(rat \<Rightarrow> rat) \<Rightarrow> close_env \<Rightarrow> close_result close_act" where
  "close_body rd env =
     act_bind (close_call (ceAfter env)) (\<lambda>found.
     case found of
       None \<Rightarrow> close_stop_with (close_failed (Some NotFound))
     | Some pos \<Rightarrow>
         if cpStatus pos \<noteq> ''OPEN'' \<and> cpStatus pos \<noteq> ''EXIT_PARTIAL''
         then close_stop_with (close_failed (Some NotCloseable))
         else
           case fill_data pos of
             None \<Rightarrow> close_stop_with (close_failed (Some ExecutionFailed))
           | Some (priceK, priceP, sizeK, sizeP) \<Rightarrow>
               if \<not> side_given (xpKalshiSide pos) \<or> \<not> side_given (xpPolymarketSide pos)
               then close_stop_with (close_failed (Some ExecutionFailed))
               else
                 act_bind (effective_sizes rd env pos sizeK sizeP) (\<lambda>(k, p).
                 act_bind (close_call (ceBook env Kalshi)) (\<lambda>kalshiBook.
                 act_bind (close_call (ceBook env Polymarket)) (\<lambda>polymarketBook.
                 case (computeVwap rd (side_levels pos Kalshi kalshiBook) k,
                       computeVwap rd (side_levels pos Polymarket polymarketBook) p) of
                   (Some kalshiClosePrice, Some polymarketClosePrice) \<Rightarrow>
                     close_orders rd env pos (legs_of (exit_position.truncate pos) kalshiClosePrice polymarketClosePrice
                       k p priceK priceP)
                 | _ \<Rightarrow> close_stop_with (close_failed (Some ExecutionFailed))))))"

definition close_caught :: "close_stop + close_result \<Rightarrow> close_result" where
  "close_caught out =
     (case out of
        Inr r \<Rightarrow> r
      | Inl (CloseReturned r) \<Rightarrow> r
      | Inl (CloseThrew RateLimitThrown) \<Rightarrow> close_failed (Some RateLimited)
      | Inl (CloseThrew OtherThrown) \<Rightarrow> close_failed (Some ExecutionFailed))"

definition closePositionManually :: "(rat \<Rightarrow> rat) \<Rightarrow> close_env \<Rightarrow> (exit_effect, thrown, close_result) prog" where
  "closePositionManually rd env =
     (case ceBefore env of
        Inl e \<Rightarrow> act_stop e
      | Inr None \<Rightarrow> act_return (close_failed (Some NotFound))
      | Inr (Some _) \<Rightarrow>
          let (effs, out) = close_body rd env
          in ([LockTaken] @ effs @ [LockReleased], Inr (close_caught out)))"

section \<open>Closing all positions\<close>

datatype batch_status = BatchSuccess | BatchRateLimited | BatchFailure

record batch_result =
  brPosition :: string
  brStatus :: batch_status
  brPnl :: "decimal option"
  brError :: bool

definition batch_entry :: "string \<Rightarrow> thrown + close_result \<Rightarrow> batch_result" where
  "batch_entry i out =
     (case out of
        Inl _ \<Rightarrow> \<lparr>brPosition = i, brStatus = BatchFailure, brPnl = None, brError = True\<rparr>
      | Inr r \<Rightarrow> \<lparr>brPosition = i,
          brStatus = (if clSuccess r then BatchSuccess else if clCode r = Some RateLimited then BatchRateLimited else BatchFailure),
          brPnl = clPnl r, brError = clError r\<rparr>)"

text \<open>The positions of a batch, each with what the environment answers while it is closed.\<close>

fun processCloseAllBatch :: "(rat \<Rightarrow> rat) \<Rightarrow> (string \<times> close_env) list \<Rightarrow> exit_effect list \<times> batch_result list" where
  "processCloseAllBatch rd [] = ([], [])"
| "processCloseAllBatch rd ((i, env) # rest) =
     (let (effs, out) = closePositionManually rd env; (effs', results) = processCloseAllBatch rd rest
      in (effs @ effs', batch_entry i out # results))"

definition closeAllPositions :: "(rat \<Rightarrow> rat) \<Rightarrow> (string \<times> close_env) list \<Rightarrow> (string \<times> close_env) list
    \<Rightarrow> exit_effect list \<times> batch_result list" where
  "closeAllPositions rd livePositions paperPositions = processCloseAllBatch rd (livePositions @ paperPositions)"

section \<open>What a manual close does\<close>

text \<open>The effects a manual close can have: it never takes or gives back the lock inside, and gives
  capital back to the live mode only.\<close>

definition close_effect :: "exit_effect \<Rightarrow> bool" where
  "close_effect e \<longleftrightarrow> (case e of
      LockTaken \<Rightarrow> False | LockReleased \<Rightarrow> False | CapitalReturned op c pnl paper \<Rightarrow> \<not> paper | _ \<Rightarrow> True)"

lemma close_effect_simps [simp]:
  "close_effect (ExitSubmitted p o' a)" "close_effect (ExitOrderCreated row i)" "close_effect (StatusSet s)"
  "close_effect (PositionClosed d)" "close_effect (PnlAccumulated d d')" "close_effect (ExitEmitted ev)"
  "close_effect (CapitalReturned op c pnl paper) \<longleftrightarrow> \<not> paper" "\<not> close_effect LockTaken" "\<not> close_effect LockReleased"
  by (simp_all add: close_effect_def)

abbreviation close_effects :: "exit_effect list \<Rightarrow> bool" where
  "close_effects effs \<equiv> list_all close_effect effs"

lemma return_capital_close: "close_effects (fst (return_capital answer i j op c pnl False))"
  by (simp add: return_capital_def split: option.splits)

lemma close_basic:
  "close_effects (fst (close_call answer))" "close_effect e \<Longrightarrow> close_effects (fst (close_do answer' e))"
  "close_effects (fst (close_stop_with r))"
  unfolding close_call_def close_do_def close_stop_with_def
  by (rule each.P_rules, simp?)+

lemmas close_rules = each.P_bind each.P_return close_basic return_capital_close

lemma single_leg_close: "close_effects (fst (handleSingleLegFailure env pos oid leg pr sz))"
  unfolding handleSingleLegFailure_def by (intro close_rules) simp_all

lemma settle_close_effects: "close_effects (fst (settle_close rd env pos legs fill oids))"
  unfolding settle_close_def Let_def by (auto intro!: close_rules simp: split_beta)

lemma submit_create_close:
  "close_effects (fst (close_submit env p o'))" "close_effects (fst (close_create env row))"
  unfolding close_submit_def close_create_def by (auto intro!: close_rules)

lemma close_secondary_effects: "close_effects (fst (close_secondary rd env pos legs sz res oid))"
  unfolding close_secondary_def Let_def
  by (auto intro!: close_rules submit_create_close single_leg_close settle_close_effects split: sum.splits)

lemma close_orders_effects: "close_effects (fst (close_orders rd env pos legs))"
  unfolding close_orders_def Let_def
  by (auto intro!: close_rules submit_create_close close_secondary_effects split: sum.splits)

lemma effective_sizes_effects: "close_effects (fst (effective_sizes rd env pos k p))"
  unfolding effective_sizes_def close_exhausted_def Let_def by (auto intro!: close_rules)

lemma close_body_effects: "close_effects (fst (close_body rd env))"
  unfolding close_body_def
  by (auto intro!: close_rules close_orders_effects effective_sizes_effects split: option.splits prod.splits)

text \<open>
  the execution lock: a manual close either does nothing, or takes the lock first, gives it
  back last, and touches it nowhere else, whatever was thrown in between.
\<close>
theorem manual_close_returns_lock:
  "fst (closePositionManually rd env) = []
   \<or> (\<exists>effs. fst (closePositionManually rd env) = LockTaken # effs @ [LockReleased]
        \<and> LockTaken \<notin> set effs \<and> LockReleased \<notin> set effs)"
proof (cases "ceBefore env")
  case (Inr found)
  then show ?thesis
    using close_body_effects [of rd env] by (cases found) (auto simp: closePositionManually_def split_beta list_all_iff)
qed (simp add: closePositionManually_def)

text \<open>What the risk manager does with the capital that an exit gives back.\<close>

definition give_back :: "(rat \<Rightarrow> rat) \<Rightarrow> string \<Rightarrow> exit_effect \<Rightarrow> budget_state \<Rightarrow> budget_state" where
  "give_back rd pair e s =
     (case e of
        CapitalReturned RiskClose capital pnl isPaper \<Rightarrow> fst (closePosition rd capital pnl (Some pair) isPaper s)
      | CapitalReturned RiskPartialRelease capital pnl isPaper \<Rightarrow> fst (releasePartialCapital rd capital pnl isPaper s)
      | _ \<Rightarrow> s)"

definition give_back_all :: "(rat \<Rightarrow> rat) \<Rightarrow> string \<Rightarrow> exit_effect list \<Rightarrow> budget_state \<Rightarrow> budget_state" where
  "give_back_all rd pair effs s = fold (give_back rd pair) effs s"

lemma give_back_live:
  assumes "close_effect e"
  shows "getState True (give_back rd pair e s) = getState True s
    \<and> paperActivePairIds (give_back rd pair e s) = paperActivePairIds s"
proof (cases e)
  case (CapitalReturned op c pnl paper)
  have "\<not> paper" using assms CapitalReturned by simp
  then show ?thesis using CapitalReturned
    by (cases op) (simp_all add: give_back_def closePosition_def releasePartialCapital_def Let_def split_beta
        updateDailyPnl_other_mode decrementOpenPositions_def adjustCapitalDeployed_def)
qed (simp_all add: give_back_def)

lemma give_back_all_live:
  assumes "list_all close_effect effs"
  shows "getState True (give_back_all rd pair effs s) = getState True s
    \<and> paperActivePairIds (give_back_all rd pair effs s) = paperActivePairIds s"
  using assms unfolding give_back_all_def
  by (induction effs arbitrary: s) (auto simp: give_back_live)

lemma manual_close_capital:
  "getState True (give_back_all rd pair (fst (closePositionManually rd env)) s) = getState True s
   \<and> paperActivePairIds (give_back_all rd pair (fst (closePositionManually rd env)) s) = paperActivePairIds s"
proof -
  have "give_back_all rd pair (LockTaken # effs @ [LockReleased]) s = give_back_all rd pair effs s" for effs
    by (simp add: give_back_all_def give_back_def)
  then show ?thesis using give_back_all_live [OF close_body_effects [of rd env], of rd pair s]
    by (cases "ceBefore env" rule: sum.exhaust)
      (auto simp: closePositionManually_def split_beta give_back_all_def split: option.splits)
qed

text \<open>A paper position of ten contracts per leg that both platforms take over at once.\<close>

definition sample_close_position :: close_position where
  "sample_close_position = exit_position.extend sample_exit_position
     (close_position.fields ''OPEN'' True (Some ''ok'') (Some ''op''))"

definition sample_close_env :: close_env where
  "sample_close_env = \<lparr>ceBefore = Inr (Some sample_close_position), ceAfter = Inr (Some sample_close_position),
     cePairOrders = Inr [], ceBook = (\<lambda>p. Inr \<lparr>bids = [sample_exit_level], asks = [sample_exit_level]\<rparr>),
     ceFreshBook = (\<lambda>p. Inl OtherThrown),
     ceSubmit = (\<lambda>p order. Inr \<lparr>orId = platform_id p, orStatus = OrderFilled, filledQuantity = orQuantity order,
        filledPrice = orPrice order\<rparr>),
     ceCreateOrder = (\<lambda>row. Inr (platform_id (rowPlatform row))), ceFindOrder = (\<lambda>oid. Inr None),
     ceUpdateStatus = None, ceClosePosition = None, ceAccumulatePnl = None, ceRisk = (\<lambda>op. None),
     ceFee = (\<lambda>p. Inr \<lparr>takerFeePercent = Fin 0, takerFeeForPrice = None\<rparr>)\<rparr>"

section \<open>What a successful close has sent\<close>

lemma close_call_orders [simp]: "sent_orders (fst (close_call a)) = []" "sent_orders (fst (close_stop_with r)) = []"
  unfolding close_call_def close_stop_with_def by (rule no_orders.P_rules)+

lemma close_do_orders: "sent_orders [e] = [] \<Longrightarrow> sent_orders (fst (close_do a e)) = []"
  unfolding close_do_def by (rule no_orders.P_do)

lemma settle_no_orders: "sent_orders (fst (settle_close rd env pos legs fill oids)) = []"
  unfolding settle_close_def Let_def
  by (auto intro!: no_orders.P_rules simp: close_do_orders)

lemma single_leg_no_orders: "sent_orders (fst (handleSingleLegFailure env pos oid leg pr sz)) = []"
  unfolding handleSingleLegFailure_def by (auto intro!: no_orders.P_rules simp: close_do_orders)

lemma effective_sizes_no_orders: "sent_orders (fst (effective_sizes rd env pos k p)) = []"
  unfolding effective_sizes_def close_exhausted_def Let_def by (auto intro!: no_orders.P_rules simp: close_do_orders)

lemma single_leg_fails:
  "snd (handleSingleLegFailure env pos oid leg pr sz) = Inr r \<Longrightarrow> \<not> clSuccess r"
  by (auto simp: handleSingleLegFailure_def bind_Inr close_failed_def)

abbreviation closes_position :: "exit_effect list \<Rightarrow> bool" where
  "closes_position effs \<equiv> \<exists>x. PositionClosed x \<in> set effs"

text \<open>A successful outcome of a part that stops early, and of one that returns.\<close>

definition succeeds :: "close_stop + close_result \<Rightarrow> bool" where
  "succeeds out \<longleftrightarrow> clSuccess (close_caught out)"

lemma succeeds_simps [simp]:
  "succeeds (Inr r) \<longleftrightarrow> clSuccess r" "succeeds (Inl (CloseReturned r)) \<longleftrightarrow> clSuccess r"
  "\<not> succeeds (Inl (CloseThrew e))"
  by (cases e; simp add: succeeds_def close_caught_def close_failed_def)+

lemma call_not_succeeds: "snd (close_call a) = Inl st \<Longrightarrow> \<not> succeeds (Inl st)"
  by (cases a) (auto simp: close_call_def act_call_def)

lemma do_not_succeeds: "snd (close_do a e) = Inl st \<Longrightarrow> \<not> succeeds (Inl st)"
  by (cases a) (auto simp: close_do_def act_do_def)

lemma succeeds_bind:
  "succeeds (snd (act_bind m f)) \<longleftrightarrow> (\<exists>st. snd m = Inl st \<and> succeeds (Inl st)) \<or> (\<exists>a. snd m = Inr a \<and> succeeds (snd (f a)))"
  by (cases m; cases "snd m") (auto simp: bind_value)

lemma close_submit_bind:
  "act_bind (close_submit env p o') f =
     (ExitSubmitted p o' (ceSubmit env p o') # fst (f (ceSubmit env p o')), snd (f (ceSubmit env p o')))"
  by (simp add: close_submit_def act_tell_def bind_value act_return_def bind_assoc split_beta)

lemma close_create_bind:
  "act_bind (close_create env row) f =
     (case ceCreateOrder env row of
        Inl e \<Rightarrow> ([], Inl (CloseThrew e))
      | Inr oid \<Rightarrow> (ExitOrderCreated row oid # fst (f oid), snd (f oid)))"
  by (cases "ceCreateOrder env row")
    (simp_all add: close_create_def close_call_def act_call_def act_tell_def bind_value act_return_def bind_assoc
      act_stop_def split_beta)

definition both_accepted :: "platform \<Rightarrow> decimal \<Rightarrow> (platform \<times> order_params \<times> (string + order_result)) list \<Rightarrow> bool" where
  "both_accepted p sz orders \<longleftrightarrow>
     (case orders of
        [(a, o1, Inr r1), (b, o2, Inr r2)] \<Rightarrow> a = p \<and> b = other_platform p \<and> exit_accepted r1 \<and> exit_accepted r2
          \<and> orQuantity o1 = to_number sz \<and> orQuantity o2 = to_number sz
      | _ \<Rightarrow> False)"

lemma single_leg_not_succeeds: "\<not> succeeds (snd (handleSingleLegFailure env pos oid leg pr z))"
  using single_leg_fails [of env pos oid leg pr z] do_not_succeeds [of "ceUpdateStatus env" "StatusSet ''SINGLE_LEG_EXPOSED''"]
    call_not_succeeds [of "ceFindOrder env oid"]
  by (auto simp: handleSingleLegFailure_def succeeds_bind close_failed_def)

lemma secondary_success:
  assumes "succeeds (snd (close_secondary rd env pos legs sz res oid))"
  shows "\<exists>o2 r2. sent_orders (fst (close_secondary rd env pos legs sz res oid)) = [(other_platform (elPrimary legs), o2, Inr r2)]
    \<and> exit_accepted r2 \<and> orQuantity o2 = to_number sz"
  using assms single_leg_not_succeeds [of env pos oid]
  by (auto simp: close_secondary_def Let_def close_submit_bind close_create_bind exit_order_def settle_no_orders
      split: sum.splits if_splits)

lemma orders_success:
  assumes "succeeds (snd (close_orders rd env pos legs))"
  shows "both_accepted (elPrimary legs) (xmin (elSize legs Kalshi) (elSize legs Polymarket))
    (sent_orders (fst (close_orders rd env pos legs)))"
  using assms
  by (auto simp: close_orders_def Let_def close_submit_bind close_create_bind close_stop_with_def close_failed_def
      both_accepted_def exit_order_def split: sum.splits if_splits dest!: secondary_success)

text \<open>The sizes a manual close works with, if it gets to its orders.\<close>

lemma sizes_success:
  assumes "snd (effective_sizes rd env pos a b) = Inl st" "succeeds (Inl st)"
  shows "\<exists>d. PositionClosed d \<in> set (fst (effective_sizes rd env pos a b))"
  using assms do_not_succeeds [of "ceClosePosition env" "PositionClosed (or_default (xpRealizedPnl pos) (Fin 0))"]
  by (cases "ceClosePosition env"; cases "cePairOrders env"; cases "ceRisk env RiskClose")
    (auto simp: effective_sizes_def close_exhausted_def close_call_def act_call_def close_do_def act_do_def Let_def
      close_stop_with_def close_failed_def bind_value act_tell_def return_capital_def act_return_def act_stop_def
      split: if_splits)

lemma fst_bind_value: "snd m = Inr a \<Longrightarrow> fst (act_bind m f) = fst m @ fst (f a)"
  by (cases m) (simp add: bind_value)

lemma snd_bind_value: "snd m = Inr a \<Longrightarrow> snd (act_bind m f) = snd (f a)"
  by (cases m) (simp add: bind_value)

lemma snd_bind_stop: "snd m = Inl st \<Longrightarrow> snd (act_bind m f) = Inl st"
  by (cases m) simp

lemma fst_bind_stop: "snd m = Inl st \<Longrightarrow> fst (act_bind m f) = fst m"
  by (cases m) simp

text \<open>A body that succeeds stopped at the sizes, with nothing left, or went on to its orders.\<close>

lemma body_split:
  assumes "succeeds (snd (close_body rd env))"
  obtains pos a b st where "snd (effective_sizes rd env pos a b) = Inl st" "succeeds (Inl st)"
      "fst (close_body rd env) = fst (effective_sizes rd env pos a b)" "snd (close_body rd env) = Inl st"
  | pos priceK priceP sizeK sizeP ks legs where "ceAfter env = Inr (Some pos)" "fill_data pos = Some (priceK, priceP, sizeK, sizeP)"
      "snd (effective_sizes rd env pos sizeK sizeP) = Inr ks"
      "close_body rd env = (fst (effective_sizes rd env pos sizeK sizeP) @ fst (close_orders rd env pos legs), snd (close_orders rd env pos legs))"
      "succeeds (snd (close_orders rd env pos legs))" "elEntry legs = exit_pick priceK priceP"
proof -
  obtain pos where found: "ceAfter env = Inr (Some pos)"
    using assms by (cases "ceAfter env")
      (auto simp: close_body_def close_call_def act_call_def close_stop_with_def close_failed_def act_stop_def
        split: option.splits)
  obtain priceK priceP sizeK sizeP where data: "fill_data pos = Some (priceK, priceP, sizeK, sizeP)"
      "\<not> (\<not> side_given (xpKalshiSide pos) \<or> \<not> side_given (xpPolymarketSide pos))"
      "\<not> (cpStatus pos \<noteq> ''OPEN'' \<and> cpStatus pos \<noteq> ''EXIT_PARTIAL'')"
    using assms found by (auto simp: close_body_def close_call_def act_call_def close_stop_with_def close_failed_def
        act_stop_def split: option.splits if_splits)
  let ?sz = "effective_sizes rd env pos sizeK sizeP"
  define rest where "rest = (\<lambda>(k, p).
      act_bind (close_call (ceBook env Kalshi)) (\<lambda>kb. act_bind (close_call (ceBook env Polymarket)) (\<lambda>pb.
      case (computeVwap rd (side_levels pos Kalshi kb) k, computeVwap rd (side_levels pos Polymarket pb) p) of
        (Some a, Some b) \<Rightarrow> close_orders rd env pos (legs_of (exit_position.truncate pos) a b k p priceK priceP)
      | _ \<Rightarrow> close_stop_with (close_failed (Some ExecutionFailed)))))"
  have body: "close_body rd env = act_bind ?sz rest"
  proof -
    have "close_call (ceAfter env) = act_return (Some pos)" using found by (simp add: close_call_def act_call_def)
    then show ?thesis using data by (simp only: close_body_def rest_def bind_return option.case if_False prod.case simp_thms)
  qed
  show thesis
  proof (cases "snd ?sz")
    case (Inl st)
    then have "succeeds (Inl st)" using assms by (simp add: body succeeds_bind)
    with Inl show thesis by (intro that(1)) (simp_all add: body fst_bind_stop [OF Inl] snd_bind_stop [OF Inl])
  next
    case (Inr ks)
    obtain k p where ks: "ks = (k, p)" by (cases ks)
    have "succeeds (snd (rest (k, p)))" using assms Inr ks by (simp add: body succeeds_bind)
    then obtain a b where r: "rest (k, p) = close_orders rd env pos (legs_of (exit_position.truncate pos) a b k p priceK priceP)"
      by (cases "ceBook env Kalshi"; cases "ceBook env Polymarket")
        (auto simp: rest_def close_call_def act_call_def close_stop_with_def close_failed_def act_stop_def split: option.splits)
    with \<open>succeeds (snd (rest (k, p)))\<close> show thesis
      by (intro that(2) [OF found data(1) Inr])
        (auto simp: body ks legs_of_def prod_eq_iff fst_bind_value [OF Inr] snd_bind_value [OF Inr])
  qed
qed

lemma body_success:
  assumes "succeeds (snd (close_body rd env))"
  shows "(\<exists>p sz. both_accepted p sz (sent_orders (fst (close_body rd env))))
    \<or> sent_orders (fst (close_body rd env)) = [] \<and> (\<exists>d. PositionClosed d \<in> set (fst (close_body rd env)))"
proof (cases rule: body_split [OF assms])
  case (1 pos a b st)
  with sizes_success [OF 1(1,2)] show ?thesis by (simp add: effective_sizes_no_orders)
next
  case (2 pos priceK priceP sizeK sizeP ks legs)
  from orders_success [OF 2(5)] show ?thesis by (auto simp: 2(4) effective_sizes_no_orders)
qed

lemma close_run:
  assumes "snd (closePositionManually rd env) = Inr r" "clSuccess r"
  shows "fst (closePositionManually rd env) = LockTaken # fst (close_body rd env) @ [LockReleased]"
    "r = close_caught (snd (close_body rd env))" "succeeds (snd (close_body rd env))"
proof -
  obtain pos where "ceBefore env = Inr (Some pos)"
    using assms by (cases "ceBefore env") (auto simp: closePositionManually_def close_failed_def split: option.splits)
  then have "closePositionManually rd env = ([LockTaken] @ fst (close_body rd env) @ [LockReleased],
      Inr (close_caught (snd (close_body rd env))))"
    by (simp add: closePositionManually_def split_beta)
  then show "fst (closePositionManually rd env) = LockTaken # fst (close_body rd env) @ [LockReleased]"
    "r = close_caught (snd (close_body rd env))" "succeeds (snd (close_body rd env))"
    using assms by (auto simp: succeeds_def)
qed

text \<open>
  a manual close that reports success has sent both orders, of one size and each accepted by
  its platform, or has sent none and closed a position of which nothing was left.
\<close>
theorem manual_close_success:
  assumes "snd (closePositionManually rd env) = Inr r" "clSuccess r"
  shows "(\<exists>p sz. both_accepted p sz (sent_orders (fst (closePositionManually rd env))))
    \<or> sent_orders (fst (closePositionManually rd env)) = []
      \<and> (\<exists>d. PositionClosed d \<in> set (fst (closePositionManually rd env)))"
  using body_success [OF close_run(3) [OF assms]] by (simp add: close_run(1) [OF assms])

lemma sample_walk: "computeVwap dec20 (side_levels sample_close_position p \<lparr>bids = [sample_exit_level], asks = [sample_exit_level]\<rparr>)
    (Fin 10) = Some (Fin (1/2))"
  by (simp add: computeVwap_def side_levels_def close_levels_def sample_exit_level_def sample_exit_numbers)

lemma sample_close_data:
  "fill_data sample_close_position = Some (Fin (1/2), Fin (1/2), Fin 10, Fin 10)"
  "side_given (xpKalshiSide sample_close_position)" "side_given (xpPolymarketSide sample_close_position)"
  "cpStatus sample_close_position = ''OPEN''" "exit_position.truncate sample_close_position = sample_exit_position"
  by (simp_all add: sample_close_position_def exit_position.defs close_position.defs fill_data_def side_given_def
      sample_exit_position_def)

lemma sample_close_succeeds:
  "\<exists>r. snd (closePositionManually dec20 sample_close_env) = Inr r \<and> clSuccess r"
  and sample_close_sends: "sent_orders (fst (closePositionManually dec20 sample_close_env)) \<noteq> []"
  by (simp_all add: closePositionManually_def sample_close_env_def close_body_def close_call_def act_call_def
      sample_close_data effective_sizes_def sample_walk close_orders_def sample_exit_data Let_def close_submit_bind
      close_create_bind exit_accepted_def close_secondary_def exit_row_def settle_close_def close_do_def act_do_def
      return_capital_def bind_value act_tell_def act_return_def close_caught_def)

theorem manual_close_success_witness:
  "\<exists>p sz. both_accepted p sz (sent_orders (fst (closePositionManually dec20 sample_close_env)))"
  using manual_close_success [of dec20 sample_close_env] sample_close_succeeds sample_close_sends by blast

section \<open>What a successful close books\<close>

text \<open>What the effects give back to the risk manager: the operation, the capital, the profit and the mode.\<close>

definition capital_moves :: "exit_effect list \<Rightarrow> (risk_op \<times> decimal \<times> decimal \<times> bool) list" where
  "capital_moves effs = List.map_filter (\<lambda>e. case e of CapitalReturned op c d paper \<Rightarrow> Some (op, c, d, paper) | _ \<Rightarrow> None) effs"

lemma capital_moves_simps [simp]:
  "capital_moves [] = []"
  "capital_moves (CapitalReturned op c d paper # effs) = (op, c, d, paper) # capital_moves effs"
  "capital_moves (ExitSubmitted p q out # effs) = capital_moves effs"
  "capital_moves (ExitOrderCreated row i # effs) = capital_moves effs"
  "capital_moves (StatusSet st # effs) = capital_moves effs"
  "capital_moves (OrderLinked q' i # effs) = capital_moves effs"
  "capital_moves (LockTaken # effs) = capital_moves effs"
  "capital_moves (LockReleased # effs) = capital_moves effs"
  "capital_moves (PositionClosed d # effs) = capital_moves effs"
  "capital_moves (PnlAccumulated d d' # effs) = capital_moves effs"
  "capital_moves (ExitEmitted ev # effs) = capital_moves effs"
  "capital_moves (effs @ effs') = capital_moves effs @ capital_moves effs'"
  by (simp_all add: capital_moves_def List.map_filter_def)

definition book_move :: "(rat \<Rightarrow> rat) \<Rightarrow> string \<Rightarrow> risk_op \<times> decimal \<times> decimal \<times> bool \<Rightarrow> budget_state \<Rightarrow> budget_state" where
  "book_move rd pair m s = (case m of (op, c, d, paper) \<Rightarrow>
     (case op of RiskClose \<Rightarrow> fst (closePosition rd c d (Some pair) paper s)
      | RiskPartialRelease \<Rightarrow> fst (releasePartialCapital rd c d paper s)))"

lemma give_back_moves: "give_back_all rd pair effs s = fold (book_move rd pair) (capital_moves effs) s"
proof (induction effs arbitrary: s)
  case (Cons e effs)
  then show ?case by (cases e) (auto simp: give_back_all_def give_back_def book_move_def split: risk_op.splits)
qed (simp add: give_back_all_def)

lemma book_move_mode:
  assumes "s' = book_move rd pair (op, c, d, False) s"
  shows "totalCapitalDeployed (getState False s') = floor0 (xsub rd (totalCapitalDeployed (getState False s)) c)"
    "dailyPnl (getState False s') = xadd rd (dailyPnl (getState False s)) d"
    "openPositionCount (getState False s')
       = (if op = RiskClose then max 0 (openPositionCount (getState False s) - 1) else openPositionCount (getState False s))"
  by (cases op; simp add: assms book_move_def closePosition_def releasePartialCapital_def Let_def split_beta
      updateDailyPnl_mode decrementOpenPositions_def adjustCapitalDeployed_def split: option.splits)+

text \<open>
  The amounts of a close: nothing when it sent no order; otherwise the profit and the capital at the entry
  prices of the quantities that the two orders filled, with the profit on top.
\<close>

definition close_amounts ::
  "(rat \<Rightarrow> rat) \<Rightarrow> close_env \<Rightarrow> (platform \<times> order_params \<times> (string + order_result)) list \<Rightarrow> decimal \<Rightarrow> decimal \<Rightarrow> bool" where
  "close_amounts rd env orders capital pnl \<longleftrightarrow>
     (case orders of
        [] \<Rightarrow> capital = Fin 0 \<and> pnl = Fin 0
      | [(p, o1, Inr r1), (q, o2, Inr r2)] \<Rightarrow> q = other_platform p \<and> exit_accepted r1 \<and> exit_accepted r2
          \<and> (\<exists>pos legs priceK priceP sizeK sizeP feeK feeP. ceAfter env = Inr (Some pos)
               \<and> fill_data pos = Some (priceK, priceP, sizeK, sizeP) \<and> elEntry legs = exit_pick priceK priceP
               \<and> ceFee env Kalshi = Inr feeK \<and> ceFee env Polymarket = Inr feeP
               \<and> pnl = manual_pnl rd pos legs ((\<lambda>_. r2)(p := r1)) (exit_pick feeK feeP)
               \<and> capital = xadd rd (manual_capital rd legs (\<lambda>x. to_decimal (filledQuantity (((\<lambda>_. r2)(p := r1)) x)))) pnl)
      | _ \<Rightarrow> False)"

lemma on_legs_upd: "on_legs legs a b = (\<lambda>_. b)(elPrimary legs := a)"
  by (rule ext) (simp add: on_legs_def)

lemma legs_price_only [simp]:
  "manual_pnl rd pos (legs\<lparr>elPrice := x\<rparr>) = manual_pnl rd pos legs"
  "manual_capital rd (legs\<lparr>elPrice := x\<rparr>) = manual_capital rd legs"
  by (simp_all add: fun_eq_iff manual_pnl_def manual_capital_def)

text \<open>A part of a close that succeeds books one amount on the live mode and answers its profit.\<close>

definition books_live :: "risk_op \<Rightarrow> decimal \<Rightarrow> decimal \<Rightarrow> (exit_effect, close_stop, close_result) prog \<Rightarrow> bool" where
  "books_live op c d m \<longleftrightarrow> capital_moves (fst m) = [(op, c, d, False)]
     \<and> clPnl (close_caught (snd m)) = Some (to_fixed 8 d) \<and> (op = RiskClose \<longleftrightarrow> closes_position (fst m))"

lemma settle_books:
  assumes "succeeds (snd (settle_close rd env pos legs fill oids))" "\<And>op. ceRisk env op = None"
  shows "\<exists>op d feeK feeP. ceFee env Kalshi = Inr feeK \<and> ceFee env Polymarket = Inr feeP
    \<and> d = manual_pnl rd pos legs fill (exit_pick feeK feeP)
    \<and> books_live op (xadd rd (manual_capital rd legs (\<lambda>x. to_decimal (filledQuantity (fill x)))) d) d
        (settle_close rd env pos legs fill oids)"
proof -
  obtain feeK where K: "ceFee env Kalshi = Inr feeK"
    using assms(1) by (cases "ceFee env Kalshi") (auto simp: settle_close_def close_call_def act_call_def act_stop_def)
  obtain feeP where P: "ceFee env Polymarket = Inr feeP"
    using assms(1) K by (cases "ceFee env Polymarket") (auto simp: settle_close_def close_call_def act_call_def act_stop_def)
  let ?full = "manual_full_exit legs (\<lambda>p. to_decimal (filledQuantity (fill p)))"
  have "(?full \<longrightarrow> ceClosePosition env = None) \<and> (\<not> ?full \<longrightarrow> ceAccumulatePnl env = None)"
    using assms(1) by (cases "ceClosePosition env"; cases "ceAccumulatePnl env")
      (auto simp: settle_close_def close_call_def act_call_def act_stop_def close_do_def act_do_def Let_def K P split: if_splits)
  then have "books_live (if ?full then RiskClose else RiskPartialRelease)
      (xadd rd (manual_capital rd legs (\<lambda>x. to_decimal (filledQuantity (fill x)))) (manual_pnl rd pos legs fill (exit_pick feeK feeP)))
      (manual_pnl rd pos legs fill (exit_pick feeK feeP)) (settle_close rd env pos legs fill oids)"
    by (simp add: settle_close_def close_call_def act_call_def close_do_def act_do_def Let_def K P assms(2)
        return_capital_def act_tell_def bind_value act_return_def books_live_def close_caught_def)
  with K P show ?thesis by blast
qed

lemma secondary_books:
  assumes "succeeds (snd (close_secondary rd env pos legs sz res oid))" "\<And>op. ceRisk env op = None"
  obtains op d o2 r2 feeK feeP where "exit_accepted r2" "ceFee env Kalshi = Inr feeK" "ceFee env Polymarket = Inr feeP"
    "sent_orders (fst (close_secondary rd env pos legs sz res oid)) = [(other_platform (elPrimary legs), o2, Inr r2)]"
    "d = manual_pnl rd pos legs (on_legs legs res r2) (exit_pick feeK feeP)"
    "books_live op (xadd rd (manual_capital rd legs (\<lambda>x. to_decimal (filledQuantity (on_legs legs res r2 x)))) d) d
       (close_secondary rd env pos legs sz res oid)"
proof -
  let ?q = "other_platform (elPrimary legs)"
  let ?fresh = "fresh_price rd env pos legs sz ?q"
  let ?legs = "legs\<lparr>elPrice := (elPrice legs)(?q := ?fresh)\<rparr>"
  let ?o = "exit_order (exit_position.truncate pos) ?legs sz ?q"
  have f: "\<not> succeeds (snd (handleSingleLegFailure env pos oid leg pr z))" for leg pr z
    by (rule single_leg_not_succeeds)
  obtain r2 where r2: "ceSubmit env ?q ?o = Inr r2" "exit_accepted r2"
    using assms(1) f by (cases "ceSubmit env ?q ?o") (auto simp: close_secondary_def Let_def close_submit_bind split: if_splits)
  let ?row = "exit_row (exit_position.truncate pos) ?legs sz (cpIsPaper pos) ?q r2"
  obtain oid2 where oid2: "ceCreateOrder env ?row = Inr oid2"
    using assms(1) r2 by (cases "ceCreateOrder env ?row") (auto simp: close_secondary_def Let_def close_submit_bind close_create_bind)
  let ?m = "settle_close rd env pos ?legs (on_legs legs res r2) (on_legs legs oid oid2)"
  have m: "close_secondary rd env pos legs sz res oid
      = (ExitSubmitted ?q ?o (Inr r2) # ExitOrderCreated ?row oid2 # fst ?m, snd ?m)"
    using r2 oid2 by (simp add: close_secondary_def Let_def close_submit_bind close_create_bind)
  then have "succeeds (snd ?m)" using assms(1) by simp
  from settle_books [OF this assms(2)] obtain op d feeK feeP where
    s: "ceFee env Kalshi = Inr feeK" "ceFee env Polymarket = Inr feeP"
      "d = manual_pnl rd pos legs (on_legs legs res r2) (exit_pick feeK feeP)"
      "books_live op (xadd rd (manual_capital rd legs (\<lambda>x. to_decimal (filledQuantity (on_legs legs res r2 x)))) d) d ?m"
    by auto
  show ?thesis
  proof (rule that [OF r2(2) s(1,2) _ s(3)])
    show "sent_orders (fst (close_secondary rd env pos legs sz res oid)) = [(?q, ?o, Inr r2)]"
      by (simp add: m settle_no_orders)
    show "books_live op (xadd rd (manual_capital rd legs (\<lambda>x. to_decimal (filledQuantity (on_legs legs res r2 x)))) d) d
        (close_secondary rd env pos legs sz res oid)"
      using s(4) by (simp add: books_live_def m)
  qed
qed

lemma orders_books:
  assumes "succeeds (snd (close_orders rd env pos legs))" "\<And>op. ceRisk env op = None"
    and "ceAfter env = Inr (Some pos)" "fill_data pos = Some (priceK, priceP, sizeK, sizeP)"
    and "elEntry legs = exit_pick priceK priceP"
  shows "\<exists>op c d. close_amounts rd env (sent_orders (fst (close_orders rd env pos legs))) c d
    \<and> books_live op c d (close_orders rd env pos legs)"
proof -
  let ?p = "elPrimary legs" and ?sz = "xmin (elSize legs Kalshi) (elSize legs Polymarket)"
  let ?o = "exit_order (exit_position.truncate pos) legs ?sz ?p"
  obtain r1 where r1: "ceSubmit env ?p ?o = Inr r1" "exit_accepted r1"
    using assms(1) by (cases "ceSubmit env ?p ?o")
      (auto simp: close_orders_def Let_def close_submit_bind close_stop_with_def act_stop_def close_failed_def split: if_splits)
  let ?row = "exit_row (exit_position.truncate pos) legs ?sz (cpIsPaper pos) ?p r1"
  obtain oid where oid: "ceCreateOrder env ?row = Inr oid"
    using assms(1) r1 by (cases "ceCreateOrder env ?row") (auto simp: close_orders_def Let_def close_submit_bind close_create_bind)
  let ?m = "close_secondary rd env pos legs ?sz r1 oid"
  have m: "close_orders rd env pos legs = (ExitSubmitted ?p ?o (Inr r1) # ExitOrderCreated ?row oid # fst ?m, snd ?m)"
    using r1 oid by (simp add: close_orders_def Let_def close_submit_bind close_create_bind)
  then have "succeeds (snd ?m)" using assms(1) by simp
  then obtain op d o2 r2 feeK feeP where s: "exit_accepted r2" "ceFee env Kalshi = Inr feeK" "ceFee env Polymarket = Inr feeP"
    "sent_orders (fst ?m) = [(other_platform ?p, o2, Inr r2)]"
    "d = manual_pnl rd pos legs (on_legs legs r1 r2) (exit_pick feeK feeP)"
    "books_live op (xadd rd (manual_capital rd legs (\<lambda>x. to_decimal (filledQuantity (on_legs legs r1 r2 x)))) d) d ?m"
    by (rule secondary_books [OF _ assms(2)])
  let ?c = "xadd rd (manual_capital rd legs (\<lambda>x. to_decimal (filledQuantity (on_legs legs r1 r2 x)))) d"
  have "close_amounts rd env (sent_orders (fst (close_orders rd env pos legs))) ?c d"
    unfolding close_amounts_def m using s(1-5) r1(2) assms(3-5) by (simp add: on_legs_upd) blast
  moreover have "books_live op ?c d (close_orders rd env pos legs)" using s(6) by (simp add: books_live_def m)
  ultimately show ?thesis by blast
qed

lemma sizes_books:
  assumes "snd (effective_sizes rd env pos a b) = Inl st" "succeeds (Inl st)" "\<And>op. ceRisk env op = None"
  shows "capital_moves (fst (effective_sizes rd env pos a b)) = [(RiskClose, Fin 0, Fin 0, False)]
    \<and> clPnl (close_caught (Inl st)) = Some (Fin 0) \<and> closes_position (fst (effective_sizes rd env pos a b))"
  using assms
  by (cases "ceClosePosition env"; cases "cePairOrders env")
    (auto simp: effective_sizes_def close_exhausted_def close_call_def act_call_def close_do_def act_do_def Let_def
      close_stop_with_def close_failed_def bind_value act_tell_def return_capital_def act_return_def act_stop_def close_caught_def
      split: if_splits)

lemma effective_sizes_go:
  assumes "snd (effective_sizes rd env pos a b) = Inr ks"
  shows "capital_moves (fst (effective_sizes rd env pos a b)) = [] \<and> \<not> closes_position (fst (effective_sizes rd env pos a b))"
  using assms by (cases "cePairOrders env"; cases "ceClosePosition env")
    (auto simp: effective_sizes_def close_exhausted_def close_call_def act_call_def close_do_def act_do_def Let_def
      close_stop_with_def close_failed_def bind_value act_tell_def return_capital_def act_return_def act_stop_def
      split: if_splits option.splits)

lemma body_books:
  assumes "succeeds (snd (close_body rd env))" "\<And>op. ceRisk env op = None"
  shows "\<exists>op c d. close_amounts rd env (sent_orders (fst (close_body rd env))) c d \<and> books_live op c d (close_body rd env)"
proof (cases rule: body_split [OF assms(1)])
  case (1 pos a b st)
  from sizes_books [OF 1(1,2) assms(2)] have "books_live RiskClose (Fin 0) (Fin 0) (close_body rd env)"
    by (simp add: 1 books_live_def to_fixed_def)
  moreover have "close_amounts rd env (sent_orders (fst (close_body rd env))) (Fin 0) (Fin 0)"
    by (simp add: 1 close_amounts_def effective_sizes_no_orders)
  ultimately show ?thesis by blast
next
  case (2 pos priceK priceP sizeK sizeP ks legs)
  from orders_books [OF 2(5) assms(2) 2(1,2,6)] effective_sizes_go [OF 2(3)] show ?thesis
    by (auto simp: 2(4) books_live_def effective_sizes_no_orders)
qed

text \<open>
  C19: a manual close that reports success, which the risk manager accepts, gives its capital and its
  profit to the live mode, whatever mode the position was opened in: exactly once, the live deployed
  capital is lowered by the entry capital of what the two orders filled plus the profit (by nothing when no order was sent), never
  below zero, the live daily profit grows by the profit the answer reports, and one live position is closed
  if the position was. The paper state and the paper pairs stay as they were, so a pair that paper
  trading holds can still not be reserved for paper afterwards.
\<close>
theorem manual_close_leaves_paper_booked:
  assumes "snd (closePositionManually rd env) = Inr r" "clSuccess r" "\<forall>op. ceRisk env op = None"
    and "effs = fst (closePositionManually rd env)" "s' = give_back_all rd pair effs s"
  shows "(\<exists>op capital pnl. close_amounts rd env (sent_orders effs) capital pnl
      \<and> capital_moves effs = [(op, capital, pnl, False)] \<and> clPnl r = Some (to_fixed 8 pnl)
      \<and> (op = RiskClose \<longleftrightarrow> closes_position effs)
      \<and> totalCapitalDeployed (getState False s') = floor0 (xsub rd (totalCapitalDeployed (getState False s)) capital)
      \<and> dailyPnl (getState False s') = xadd rd (dailyPnl (getState False s)) pnl
      \<and> openPositionCount (getState False s') = (if op = RiskClose
          then max 0 (openPositionCount (getState False s) - 1) else openPositionCount (getState False s)))
    \<and> getState True s' = getState True s
    \<and> (reqIsPaper req \<and> reqPairId req \<in> set (paperActivePairIds s)
        \<longrightarrow> reserveBudget rd uuid now req s' = Inl (PaperPairActive (reqPairId req)))"
proof -
  note c = close_run [OF assms(1,2)]
  from body_books [OF c(3)] assms(3) obtain op k d where b: "close_amounts rd env (sent_orders (fst (close_body rd env))) k d"
    "books_live op k d (close_body rd env)" by blast
  have moves: "capital_moves effs = [(op, k, d, False)]" "clPnl r = Some (to_fixed 8 d)"
    "op = RiskClose \<longleftrightarrow> closes_position effs" "sent_orders effs = sent_orders (fst (close_body rd env))"
    using b(2) c(1,2) assms(4) by (auto simp: books_live_def)
  then have "s' = book_move rd pair (op, k, d, False) s"
    unfolding assms(5) by (simp add: give_back_moves)
  note live = book_move_mode [OF this]
  have paper: "getState True s' = getState True s" "paperActivePairIds s' = paperActivePairIds s"
    using manual_close_capital [of rd pair env s] assms(4,5) by simp_all
  then have "reqIsPaper req \<and> reqPairId req \<in> set (paperActivePairIds s)
      \<longrightarrow> reserveBudget rd uuid now req s' = Inl (PaperPairActive (reqPairId req))"
    by (simp add: reserveBudget_def Let_def)
  with paper live moves b(1) show ?thesis by (auto simp del: fold_simps)
qed

theorem manual_close_leaves_paper_booked_witness:
  "\<exists>op capital pnl. capital_moves (fst (closePositionManually dec20 sample_close_env)) = [(op, capital, pnl, False)]
   \<and> dailyPnl (getState False (give_back_all dec20 ''p1'' (fst (closePositionManually dec20 sample_close_env)) sample_reserved))
      = xadd dec20 (dailyPnl (getState False sample_reserved)) pnl
   \<and> reserveBudget dec20 ''r2'' 5 sample_request
     (give_back_all dec20 ''p1'' (fst (closePositionManually dec20 sample_close_env)) sample_reserved)
   = Inl (PaperPairActive ''p1'')"
proof -
  obtain r where r: "snd (closePositionManually dec20 sample_close_env) = Inr r" "clSuccess r"
    using sample_close_succeeds by blast
  have risk: "\<forall>op. ceRisk sample_close_env op = None" by (simp add: sample_close_env_def)
  show ?thesis
    using manual_close_leaves_paper_booked [OF r risk refl refl, of "''p1''" sample_reserved sample_request "''r2''" 5]
    by (auto simp: sample_request_def sample_reserved_def)
qed

end
