(* ===== verification/ExitMonitor.thy ===== *)
theory ExitMonitor
  imports PositionClose RiskManager
begin

text \<open>
  \<^verbatim>\<open>ExitMonitorService\<close>: every thirty seconds each open or partially exited position is
  evaluated: what is left of each leg, the current close prices, the age of the data, the input of
  the threshold evaluation, the recalculated edge, the shadow comparison, and the exit when the
  evaluation triggers.  An error stops the evaluation of its position only; after three cycles
  without a successful evaluation the next cycle is skipped.  What connectors and repositories
  answer for a position are fields of its environment; log lines are left out.
\<close>

section \<open>Data\<close>

record monitored_position = close_position +
  mpRecalculatedEdge :: "decimal option"
  mpEntryConfidence :: "jsnum option"
  mpEntryCloseKalshi :: "decimal option"
  mpEntryClosePolymarket :: "decimal option"
  mpEntryFeeKalshi :: "decimal option"
  mpEntryFeePolymarket :: "decimal option"
  mpResolutionDate :: "timestamp option"

record monitor_config =
  mcMode :: exit_mode
  mcEdgeEvapMultiplier :: jsnum
  mcConfidenceDropPct :: jsnum
  mcTimeDecayHorizonH :: jsnum
  mcTimeDecaySteepness :: jsnum
  mcTimeDecayTrigger :: jsnum
  mcRiskBudgetPct :: jsnum
  mcRiskRankCutoff :: jsnum
  mcMinDepth :: jsnum
  mcProfitCaptureRatio :: jsnum

text \<open>A settings update: a field that is not given keeps its value.\<close>

record monitor_settings =
  msMode :: "exit_mode option"
  msEdgeEvapMultiplier :: "jsnum option"
  msConfidenceDropPct :: "jsnum option"
  msTimeDecayHorizonH :: "jsnum option"
  msTimeDecaySteepness :: "jsnum option"
  msTimeDecayTrigger :: "jsnum option"
  msRiskBudgetPct :: "jsnum option"
  msRiskRankCutoff :: "jsnum option"
  msMinDepth :: "jsnum option"
  msProfitCaptureRatio :: "jsnum option"
  msMaxChunkSize :: "jsnum option"
  msWsStaleness :: "jsnum option"
  msDepthTolerance :: "jsnum option"

definition reload_monitor :: "monitor_settings \<Rightarrow> monitor_config \<Rightarrow> monitor_config" where
  "reload_monitor s c = \<lparr>
     mcMode = or_default (msMode s) (mcMode c),
     mcEdgeEvapMultiplier = or_default (msEdgeEvapMultiplier s) (mcEdgeEvapMultiplier c),
     mcConfidenceDropPct = or_default (msConfidenceDropPct s) (mcConfidenceDropPct c),
     mcTimeDecayHorizonH = or_default (msTimeDecayHorizonH s) (mcTimeDecayHorizonH c),
     mcTimeDecaySteepness = or_default (msTimeDecaySteepness s) (mcTimeDecaySteepness c),
     mcTimeDecayTrigger = or_default (msTimeDecayTrigger s) (mcTimeDecayTrigger c),
     mcRiskBudgetPct = or_default (msRiskBudgetPct s) (mcRiskBudgetPct c),
     mcRiskRankCutoff = or_default (msRiskRankCutoff s) (mcRiskRankCutoff c),
     mcMinDepth = or_default (msMinDepth s) (mcMinDepth c),
     mcProfitCaptureRatio = or_default (msProfitCaptureRatio s) (mcProfitCaptureRatio c)\<rparr>"

text \<open>The settings handed on to the execution and the data source of exits.\<close>

definition reload_children :: "monitor_settings \<Rightarrow> jsnum \<times> exit_source_config \<Rightarrow> jsnum \<times> exit_source_config" where
  "reload_children s = (\<lambda>(maxChunk, source).
     (or_default (msMaxChunkSize s) maxChunk, reload_exit_source (msWsStaleness s) (msDepthTolerance s) source))"

record connector_health =
  chDisconnected :: bool
  chPaper :: bool

record position_env =
  peOrders :: "string + pair_order list"
  peClosePosition :: "string option"
  peRisk :: "string option"
  peBook :: "platform \<Rightarrow> book_answer"
  peDepthBook :: "platform \<Rightarrow> book_answer"
  peLastWs :: "platform \<Rightarrow> timestamp option"
  peFee :: "platform \<Rightarrow> string + fee_schedule"
  peConfidence :: "string + jsnum option"
  peGas :: "string + decimal"
  pePersist :: "string option"
  peNow :: timestamp
  peExit :: exit_env

datatype decision = Hold | ExitAs "exit_type option"

record divergence_detail =
  ddTriggered :: "exit_criterion list"
  ddProximities :: "(exit_criterion \<times> decimal) list"
  ddFixedType :: "exit_type option"
  ddModelType :: "exit_type option"

record shadow_event =
  sePosition :: string
  sePair :: string
  seFixed :: "bool \<times> exit_type option \<times> decimal"
  seModel :: "bool \<times> exit_type option \<times> decimal"
  seCriteria :: "criterion_result list"
  seTimestamp :: timestamp
  seShadowDecision :: decision
  seModelDecision :: decision
  seAgreement :: bool
  seCurrentEdge :: decimal
  seDetail :: "divergence_detail option"

record recalculated =
  rcEdge :: decimal
  rcAt :: timestamp
  rcSource :: data_source
  rcCriteria :: "criterion_result list option"

datatype monitor_effect =
    MonExit exit_effect
  | DataFallback string string platform int
  | StaleSet string bool
  | EdgePersisted string recalculated
  | ShadowCompared shadow_event

type_synonym 'a mon_act = "(monitor_effect, string, 'a) prog"

definition as_exit :: "'a exit_act \<Rightarrow> 'a mon_act" where
  "as_exit m = (map MonExit (fst m), snd m)"

text \<open>A book query throws an error with its message.\<close>

definition mon_query :: "(string \<times> string) + 'a \<Rightarrow> 'a mon_act" where
  "mon_query answer = act_call (map_sum snd id answer)"

section \<open>What is left of a position\<close>

definition close_without_residual :: "position_env \<Rightarrow> monitored_position \<Rightarrow> bool \<Rightarrow> unit exit_act" where
  "close_without_residual env pos isPaper =
     act_bind (act_do (peClosePosition env) (PositionClosed (or_default (xpRealizedPnl pos) (Fin 0)))) (\<lambda>_.
     return_capital (peRisk env) (xpId pos) (xpPair pos) RiskClose (Fin 0) (Fin 0) isPaper)"

definition monitor_sizes ::
  "(rat \<Rightarrow> rat) \<Rightarrow> position_env \<Rightarrow> monitored_position \<Rightarrow> bool \<Rightarrow> decimal \<Rightarrow> decimal \<Rightarrow> (decimal \<times> decimal) option mon_act" where
  "monitor_sizes rd env pos isPaper kalshiFill polymarketFill =
     (if cpStatus pos \<noteq> ''EXIT_PARTIAL'' then act_return (Some (kalshiFill, polymarketFill))
      else
        act_bind (act_call (peOrders env)) (\<lambda>allPairOrders.
          let residual = getResidualSize rd (residual_of (close_position.truncate pos)) allPairOrders;
              k = residual_kalshi residual; p = residual_polymarket residual in
          if is_zero k \<and> is_zero p
          then act_bind (as_exit (close_without_residual env pos isPaper)) (\<lambda>_. act_return None)
          else if is_zero k \<or> is_zero p then act_return None
          else act_return (Some (k, p))))"

section \<open>Stale data\<close>

definition ws_age :: "timestamp \<Rightarrow> timestamp option \<Rightarrow> int" where
  "ws_age now lastWs = (case lastWs of Some t \<Rightarrow> now - t | None \<Rightarrow> 0)"

definition stale_platform :: "data_source \<Rightarrow> data_source \<Rightarrow> int \<Rightarrow> int \<Rightarrow> platform" where
  "stale_platform kalshiSource polymarketSource kalshiAge polyAge =
     (if kalshiSource = StaleFallback \<and> polymarketSource = StaleFallback
      then (if kalshiAge \<ge> polyAge then Kalshi else Polymarket)
      else if kalshiSource = StaleFallback then Kalshi else Polymarket)"

definition emitStaleFallbackIfNeeded ::
  "(string \<times> bool) list \<Rightarrow> monitored_position \<Rightarrow> data_source \<Rightarrow> data_source \<Rightarrow> data_source
     \<Rightarrow> timestamp option \<Rightarrow> timestamp option \<Rightarrow> timestamp \<Rightarrow> unit mon_act" where
  "emitStaleFallbackIfNeeded stale pos source kalshiSource polymarketSource kalshiLast polyLast now =
     (if source = StaleFallback then
        let kalshiAge = ws_age now kalshiLast; polyAge = ws_age now polyLast in
        act_bind (if or_default (map_of stale (xpId pos)) False then act_return ()
                  else act_tell [DataFallback (xpId pos) (xpPair pos)
                    (stale_platform kalshiSource polymarketSource kalshiAge polyAge) (max kalshiAge polyAge)]) (\<lambda>_.
        act_tell [StaleSet (xpId pos) True])
      else act_tell [StaleSet (xpId pos) False])"

fun source_name :: "data_source \<Rightarrow> string" where
  "source_name WebSocket = ''websocket''"
| "source_name Polling = ''polling''"
| "source_name StaleFallback = ''stale_fallback''"

section \<open>The input of the evaluation\<close>

definition mon_fees :: "(rat \<Rightarrow> rat) \<Rightarrow> position_env \<Rightarrow> decimal \<Rightarrow> decimal \<Rightarrow> (decimal \<times> decimal) mon_act" where
  "mon_fees rd env priceK priceP =
     act_bind (act_call (peFee env Kalshi)) (\<lambda>feeK.
     act_bind (act_call (peFee env Polymarket)) (\<lambda>feeP.
     act_return (calculateTakerFeeRate rd priceK feeK, calculateTakerFeeRate rd priceP feeP)))"

text \<open>The depths of both legs; when one of the queries throws, neither is known.\<close>

definition exit_depths ::
  "(rat \<Rightarrow> rat) \<Rightarrow> position_env \<Rightarrow> monitored_position \<Rightarrow> decimal \<Rightarrow> decimal \<Rightarrow> decimal option \<times> decimal option" where
  "exit_depths rd env pos priceK priceP =
     (let depth = (\<lambda>p pr. getAvailableExitDepth rd (xeSource (peExit env)) (peDepthBook env p)
            (close_side (exit_position.truncate pos) p) pr) in
      case (depth Kalshi priceK, depth Polymarket priceP) of
        (Inr k, Inr p) \<Rightarrow> (Some k, Some p)
      | _ \<Rightarrow> (None, None))"

definition buildCriteriaInputs ::
  "(rat \<Rightarrow> rat) \<Rightarrow> monitor_config \<Rightarrow> exit_mode \<Rightarrow> position_env \<Rightarrow> monitored_position \<Rightarrow> decimal \<Rightarrow> decimal
     \<Rightarrow> decimal \<times> decimal \<Rightarrow> decimal \<times> decimal \<Rightarrow> data_source \<Rightarrow> bool \<Rightarrow> (string \<times> (nat \<times> nat)) list
     \<Rightarrow> threshold_input mon_act" where
  "buildCriteriaInputs rd cfg mode env pos priceK priceP entries sizes source riskApproaching ranking =
     act_bind (mon_fees rd env priceK priceP) (\<lambda>(feeK, feeP).
       let modelled = mode = ModelMode \<or> mode = ShadowMode;
           depths = (if modelled then exit_depths rd env pos priceK priceP else (None, None));
           rank = map_of ranking (xpId pos) in
       act_return \<lparr>in_initialEdge = xpExpectedEdge pos,
         in_kalshiEntryPrice = fst entries, in_polymarketEntryPrice = snd entries,
         in_currentKalshiPrice = priceK, in_currentPolymarketPrice = priceP,
         in_kalshiSide = or_default (xpKalshiSide pos) [], in_polymarketSide = or_default (xpPolymarketSide pos) [],
         in_kalshiSize = fst sizes, in_polymarketSize = snd sizes, in_kalshiFee = feeK, in_polymarketFee = feeP,
         in_resolutionDate = mpResolutionDate pos, in_now = peNow env,
         in_entryClosePriceKalshi = mpEntryCloseKalshi pos, in_entryClosePricePolymarket = mpEntryClosePolymarket pos,
         in_entryKalshiFeeRate = mpEntryFeeKalshi pos, in_entryPolymarketFeeRate = mpEntryFeePolymarket pos,
         in_dataSource = Some (source_name source),
         in_entryConfidenceScore = (if modelled then mpEntryConfidence pos else None),
         in_currentConfidenceScore =
           (if modelled then (case peConfidence env of Inr c \<Rightarrow> c | Inl _ \<Rightarrow> None) else None),
         in_kalshiExitDepth = fst depths, in_polymarketExitDepth = snd depths,
         in_portfolioRiskApproaching = riskApproaching,
         in_edgeRankAmongOpen = map_option (\<lambda>(r, t). Fin (of_nat r)) rank,
         in_totalOpenPositions = map_option (\<lambda>(r, t). Fin (of_nat t)) rank,
         in_exitMode = Some mode, in_edgeEvapMultiplier = Some (mcEdgeEvapMultiplier cfg),
         in_confidenceDropPct = Some (mcConfidenceDropPct cfg),
         in_timeDecayHorizonH = Some (mcTimeDecayHorizonH cfg),
         in_timeDecaySteepness = Some (mcTimeDecaySteepness cfg),
         in_timeDecayTrigger = Some (mcTimeDecayTrigger cfg),
         in_riskRankCutoff = Some (mcRiskRankCutoff cfg), in_minDepth = Some (mcMinDepth cfg),
         in_profitCaptureRatio = Some (mcProfitCaptureRatio cfg)\<rparr>)"

section \<open>The recalculated edge and the shadow comparison\<close>

definition recalculated_edge :: "(rat \<Rightarrow> rat) \<Rightarrow> decimal \<Rightarrow> decimal \<Rightarrow> decimal \<times> decimal \<Rightarrow> decimal \<Rightarrow> decimal \<times> decimal \<Rightarrow> decimal \<Rightarrow> decimal" where
  "recalculated_edge rd priceK priceP sizes gross fees gas =
     (let positionValueUsd = xadd rd (xmul rd priceK (fst sizes)) (xmul rd priceP (snd sizes));
          gasFraction = (if is_zero positionValueUsd then Fin 0 else xdiv rd gas positionValueUsd) in
      xsub rd (xsub rd (xsub rd gross (xmul rd priceK (fst fees))) (xmul rd priceP (snd fees))) gasFraction)"

definition recalculateAndPersistEdge ::
  "(rat \<Rightarrow> rat) \<Rightarrow> exit_mode \<Rightarrow> position_env \<Rightarrow> monitored_position \<Rightarrow> decimal \<Rightarrow> decimal \<Rightarrow> decimal \<times> decimal
     \<Rightarrow> data_source \<Rightarrow> threshold_result \<Rightarrow> unit mon_act" where
  "recalculateAndPersistEdge rd mode env pos priceK priceP sizes source evalResult =
     act_bind (mon_fees rd env priceK priceP) (\<lambda>fees.
     act_bind (act_call (map_sum (\<lambda>_. ''FinancialMathError'') id (calculateGrossEdge rd priceK priceP))) (\<lambda>gross.
     act_bind (act_call (peGas env)) (\<lambda>gas.
       let update = \<lparr>rcEdge = to_fixed 8 (recalculated_edge rd priceK priceP sizes gross fees gas),
             rcAt = peNow env, rcSource = source,
             rcCriteria = (if mode = ModelMode \<or> mode = ShadowMode then res_criteria evalResult else None)\<rparr> in
       case pePersist env of
         None \<Rightarrow> act_tell [EdgePersisted (xpId pos) update]
       | Some _ \<Rightarrow> act_return ())))"

definition decision_of :: "bool \<Rightarrow> exit_type option \<Rightarrow> decision" where
  "decision_of triggered t = (if triggered then ExitAs t else Hold)"

definition divergence_of :: "threshold_result \<Rightarrow> shadow_result \<Rightarrow> criterion_result list \<Rightarrow> divergence_detail" where
  "divergence_of evalResult model criteria =
     \<lparr>ddTriggered = map cr_criterion (filter cr_triggered criteria),
      ddProximities = map (\<lambda>c. (cr_criterion c, to_fixed 8 (cr_proximity c))) criteria,
      ddFixedType = (if res_triggered evalResult then res_type evalResult else None),
      ddModelType = (if sh_triggered model then sh_type model else None)\<rparr>"

definition performShadowComparison :: "monitored_position \<Rightarrow> threshold_result \<Rightarrow> exit_mode \<Rightarrow> timestamp \<Rightarrow> unit mon_act" where
  "performShadowComparison pos evalResult mode now =
     (case (res_shadowModelResult evalResult, res_criteria evalResult) of
        (Some model, Some criteria) \<Rightarrow>
          if mode \<noteq> ShadowMode then act_return ()
          else
            let agreement = (res_triggered evalResult = sh_triggered model) in
            act_tell [ShadowCompared \<lparr>sePosition = xpId pos, sePair = xpPair pos,
              seFixed = (res_triggered evalResult, res_type evalResult, to_fixed 8 (res_currentPnl evalResult)),
              seModel = (sh_triggered model, sh_type model, to_fixed 8 (sh_currentPnl model)),
              seCriteria = map (\<lambda>c. c\<lparr>cr_proximity := to_fixed 8 (cr_proximity c)\<rparr>) criteria, seTimestamp = now,
              seShadowDecision = decision_of (res_triggered evalResult) (res_type evalResult),
              seModelDecision = decision_of (sh_triggered model) (sh_type model),
              seAgreement = agreement, seCurrentEdge = to_fixed 8 (res_currentEdge evalResult),
              seDetail = (if agreement then None else Some (divergence_of evalResult model criteria))\<rparr>]
      | _ \<Rightarrow> act_return ())"

section \<open>The evaluation of a position\<close>

definition mon_price ::
  "(rat \<Rightarrow> rat) \<Rightarrow> position_env \<Rightarrow> monitored_position \<Rightarrow> decimal \<Rightarrow> platform \<Rightarrow> decimal option mon_act" where
  "mon_price rd env pos sz p =
     mon_query (getClosePrice rd (peBook env p) (or_default (leg_side (exit_position.truncate pos) p) []) (Some sz))"

definition evaluate_priced ::
  "(rat \<Rightarrow> rat) \<Rightarrow> (jsnum \<Rightarrow> jsnum \<Rightarrow> jsnum) \<Rightarrow> monitor_config \<Rightarrow> exit_mode \<Rightarrow> position_env \<Rightarrow> monitored_position \<Rightarrow> bool \<Rightarrow> bool
     \<Rightarrow> bool \<Rightarrow> (string \<times> (nat \<times> nat)) list \<Rightarrow> (string \<times> bool) list \<Rightarrow> decimal \<times> decimal \<Rightarrow> decimal \<times> decimal
     \<Rightarrow> decimal \<Rightarrow> decimal \<Rightarrow> unit mon_act" where
  "evaluate_priced rd pow cfg mode env pos isPaper mixedMode riskApproaching ranking stale entries sizes priceK priceP =
     (let classify = (\<lambda>p. classifyExitSource (xeSource (peExit env)) (peLastWs env p) (peNow env));
          source = combineDataSources (classify Kalshi) (classify Polymarket) in
      act_bind (emitStaleFallbackIfNeeded stale pos source (classify Kalshi) (classify Polymarket)
        (peLastWs env Kalshi) (peLastWs env Polymarket) (peNow env)) (\<lambda>_.
      act_bind (buildCriteriaInputs rd cfg mode env pos priceK priceP entries sizes source riskApproaching ranking) (\<lambda>evalInput.
        let evalResult = evaluate rd pow evalInput in
        act_bind (recalculateAndPersistEdge rd mode env pos priceK priceP sizes source evalResult) (\<lambda>_.
        act_bind (performShadowComparison pos evalResult mode (peNow env)) (\<lambda>_.
        if res_triggered evalResult
        then as_exit (executeExit rd (peExit env) (exit_position.truncate pos) evalResult priceK priceP isPaper mixedMode
               (Some (fst sizes)) (Some (snd sizes)))
        else act_return ())))))"

definition evaluatePosition ::
  "(rat \<Rightarrow> rat) \<Rightarrow> (jsnum \<Rightarrow> jsnum \<Rightarrow> jsnum) \<Rightarrow> monitor_config \<Rightarrow> exit_mode \<Rightarrow> (platform \<Rightarrow> connector_health) \<Rightarrow> bool \<Rightarrow> bool
     \<Rightarrow> bool \<Rightarrow> (string \<times> (nat \<times> nat)) list \<Rightarrow> (string \<times> bool) list \<Rightarrow> position_env \<Rightarrow> monitored_position \<Rightarrow> unit mon_act" where
  "evaluatePosition rd pow cfg mode health isPaper mixedMode riskApproaching ranking stale env pos =
     (if chDisconnected (health Kalshi) \<or> chDisconnected (health Polymarket) then act_return ()
      else
        case fill_data (close_position.truncate pos) of
          None \<Rightarrow> act_return ()
        | Some (entryK, entryP, fillK, fillP) \<Rightarrow>
            if \<not> side_given (xpKalshiSide pos) \<or> \<not> side_given (xpPolymarketSide pos) then act_return ()
            else
              act_bind (monitor_sizes rd env pos isPaper fillK fillP) (\<lambda>left.
              case left of
                None \<Rightarrow> act_return ()
              | Some sizes \<Rightarrow>
                  act_bind (mon_price rd env pos (fst sizes) Kalshi) (\<lambda>priceK.
                  act_bind (mon_price rd env pos (snd sizes) Polymarket) (\<lambda>priceP.
                  case (priceK, priceP) of
                    (Some k, Some p) \<Rightarrow>
                      evaluate_priced rd pow cfg mode env pos isPaper mixedMode riskApproaching ranking stale
                        (entryK, entryP) sizes k p
                  | _ \<Rightarrow> act_return ()))))"

section \<open>A cycle\<close>

record cycle_env =
  cyHealth :: "platform \<Rightarrow> connector_health"
  cyPositions :: "string + monitored_position list"
  cyExposure :: "string + risk_exposure"
  cyFor :: "string \<Rightarrow> position_env"

record monitor =
  moFailures :: nat
  moSkip :: bool
  moStale :: "(string \<times> bool) list"
  moConfig :: monitor_config

definition CIRCUIT_BREAKER_THRESHOLD :: nat where
  "CIRCUIT_BREAKER_THRESHOLD = 3"

text \<open>Positions with a recalculated edge, by edge; equal edges share a rank.\<close>

fun dense_ranks :: "nat \<Rightarrow> (string \<times> decimal) option \<Rightarrow> (string \<times> decimal) list \<Rightarrow> (string \<times> nat) list" where
  "dense_ranks rank previous [] = []"
| "dense_ranks rank previous ((i, edge) # rest) =
     (let rank' = (case previous of Some (_, e) \<Rightarrow> (if xeq edge e then rank else Suc rank) | None \<Rightarrow> rank) in
      (i, rank') # dense_ranks rank' (Some (i, edge)) rest)"

definition positions_with_edge :: "monitored_position list \<Rightarrow> (string \<times> decimal) list" where
  "positions_with_edge positions =
     sort_key snd (List.map_filter (\<lambda>p. map_option (\<lambda>e. (xpId p, e)) (mpRecalculatedEdge p)) positions)"

definition edge_ranking :: "monitored_position list \<Rightarrow> (string \<times> (nat \<times> nat)) list" where
  "edge_ranking positions =
     (let withEdge = positions_with_edge positions in
      foldl (\<lambda>m (i, r). map_set i (r, length withEdge) m) [] (dense_ranks 1 None withEdge))"

definition risk_approaching :: "(rat \<Rightarrow> rat) \<Rightarrow> monitor_config \<Rightarrow> string + risk_exposure \<Rightarrow> bool" where
  "risk_approaching rd cfg exposure =
     (case exposure of
        Inl _ \<Rightarrow> False
      | Inr ex \<Rightarrow> \<not> is_zero (exposureBankrollUsd ex)
          \<and> xge (xdiv rd (exposureCapitalDeployed ex) (exposureBankrollUsd ex))
                (xdiv rd (to_decimal (mcRiskBudgetPct cfg)) (Fin 100)))"

text \<open>The stale flags after some effects.\<close>

definition note_stale :: "(string \<times> bool) list \<Rightarrow> monitor_effect \<Rightarrow> (string \<times> bool) list" where
  "note_stale stale e = (case e of StaleSet i b \<Rightarrow> map_set i b stale | _ \<Rightarrow> stale)"

fun evaluate_all ::
  "((string \<times> bool) list \<Rightarrow> monitored_position \<Rightarrow> unit mon_act) \<Rightarrow> monitored_position list \<Rightarrow> (string \<times> bool) list
     \<Rightarrow> monitor_effect list \<times> bool \<times> (string \<times> bool) list" where
  "evaluate_all ev [] stale = ([], False, stale)"
| "evaluate_all ev (p # ps) stale =
     (let (effs, out) = ev stale p;
          (effs', succeeded, stale') = evaluate_all ev ps (foldl note_stale stale effs)
      in (effs @ effs', \<not> isl out \<or> succeeded, stale'))"

text \<open>The risk and the edge ranking are computed once, then the positions are evaluated in turn.\<close>

definition evaluate_cycle ::
  "(rat \<Rightarrow> rat) \<Rightarrow> (jsnum \<Rightarrow> jsnum \<Rightarrow> jsnum) \<Rightarrow> cycle_env \<Rightarrow> monitor_config \<Rightarrow> monitored_position list \<Rightarrow> (string \<times> bool) list
     \<Rightarrow> monitor_effect list \<times> bool \<times> (string \<times> bool) list" where
  "evaluate_cycle rd pow env cfg positions stale =
     (let isPaper = (chPaper (cyHealth env Kalshi) \<or> chPaper (cyHealth env Polymarket));
          mixedMode = (chPaper (cyHealth env Kalshi) \<noteq> chPaper (cyHealth env Polymarket));
          mode = mcMode cfg; modelled = (mode = ModelMode \<or> mode = ShadowMode);
          riskApproaching = (modelled \<and> risk_approaching rd cfg (cyExposure env));
          ranking = (if modelled then edge_ranking positions else []) in
      evaluate_all (\<lambda>stale p. evaluatePosition rd pow cfg mode (cyHealth env) isPaper mixedMode
        riskApproaching ranking stale (cyFor env (xpId p)) p) positions stale)"

definition evaluatePositions ::
  "(rat \<Rightarrow> rat) \<Rightarrow> (jsnum \<Rightarrow> jsnum \<Rightarrow> jsnum) \<Rightarrow> cycle_env \<Rightarrow> monitor \<Rightarrow> monitor \<times> monitor_effect list" where
  "evaluatePositions rd pow env m =
     (if moSkip m then (m\<lparr>moSkip := False, moFailures := 0\<rparr>, [])
      else
        case cyPositions env of
          Inl _ \<Rightarrow> (m, [])
        | Inr positions \<Rightarrow>
            let known = filter (\<lambda>(i, _). i \<in> set (map xpId positions)) (moStale m) in
            if positions = [] then (m\<lparr>moStale := known\<rparr>, [])
            else
              let (effs, anySucceeded, stale) = evaluate_cycle rd pow env (moConfig m) positions known;
                  failures = (if anySucceeded then 0 else Suc (moFailures m)) in
              (m\<lparr>moStale := stale, moFailures := failures, moSkip := (failures \<ge> CIRCUIT_BREAKER_THRESHOLD)\<rparr>, effs))"

section \<open>The exits among the effects\<close>

definition exits :: "monitor_effect list \<Rightarrow> exit_effect list" where
  "exits effs = List.map_filter (\<lambda>e. case e of MonExit x \<Rightarrow> Some x | _ \<Rightarrow> None) effs"

lemma exits_simps [simp]:
  "exits [] = []" "exits (MonExit x # effs) = x # exits effs"
  "exits (DataFallback i j p a # effs) = exits effs" "exits (StaleSet i b # effs) = exits effs"
  "exits (EdgePersisted i u # effs) = exits effs" "exits (ShadowCompared ev # effs) = exits effs"
  "exits (xs @ ys) = exits xs @ exits ys"
  by (simp_all add: exits_def List.map_filter_def)

lemma exits_MonExit [simp]: "exits (map MonExit effs) = effs"
  by (induction effs) simp_all

interpretation no_exits: effect_property "\<lambda>effs. exits effs = []"
  by unfold_locales simp_all

lemma as_exit_effects [simp]: "exits (fst (as_exit m)) = fst m" "snd (as_exit m) = snd m"
  by (simp_all add: as_exit_def)

lemma exits_bind:
  "exits (fst m) = [] \<Longrightarrow>
     exits (fst (act_bind m f)) = (case snd m of Inr a \<Rightarrow> exits (fst (f a)) | Inl _ \<Rightarrow> [])"
  by (cases m; cases "snd m") (auto simp: bind_value)

lemma mon_query_no_exits [simp]: "exits (fst (mon_query answer)) = []"
  unfolding mon_query_def by (rule no_exits.P_call)

lemma mon_price_no_exits [simp]: "exits (fst (mon_price rd env pos sz p)) = []"
  by (simp add: mon_price_def)

lemma mon_fees_no_exits [simp]: "exits (fst (mon_fees rd env priceK priceP)) = []"
  unfolding mon_fees_def by (intro no_exits.P_rules)

lemma fallback_no_exits [simp]: "exits (fst (emitStaleFallbackIfNeeded stale pos s k p lk lp now)) = []"
  unfolding emitStaleFallbackIfNeeded_def Let_def
  by (auto intro!: no_exits.P_rules)

lemma inputs_no_exits [simp]: "exits (fst (buildCriteriaInputs rd cfg mode env pos priceK priceP es ss s r ranking)) = []"
  unfolding buildCriteriaInputs_def Let_def
  by (intro no_exits.P_rules) (auto intro!: no_exits.P_rules)

lemma edge_no_exits [simp]: "exits (fst (recalculateAndPersistEdge rd mode env pos priceK priceP ss s res)) = []"
  unfolding recalculateAndPersistEdge_def Let_def
  by (intro no_exits.P_rules) (auto intro!: no_exits.P_rules split: option.splits)

lemma shadow_no_exits [simp]: "exits (fst (performShadowComparison pos res mode now)) = []"
  by (auto simp: performShadowComparison_def Let_def split: option.splits)

text \<open>What is left of a position is known, or the position was closed without an order.\<close>

lemma sizes_no_orders: "sent_orders (exits (fst (monitor_sizes rd env pos isPaper k p))) = []"
proof -
  have "sent_orders (fst (close_without_residual env pos isPaper)) = []"
    unfolding close_without_residual_def by (auto intro!: no_orders.P_rules)
  then show ?thesis
    by (cases "peOrders env"; cases "snd (close_without_residual env pos isPaper)")
      (auto simp: monitor_sizes_def act_call_def Let_def act_bind_def as_exit_def act_return_def split_beta)
qed

lemma sizes_known_no_exits:
  "snd (monitor_sizes rd env pos isPaper k p) = Inr (Some s) \<Longrightarrow> exits (fst (monitor_sizes rd env pos isPaper k p)) = []"
  by (cases "peOrders env")
    (auto simp: monitor_sizes_def act_call_def Let_def bind_Inr split: if_splits)

section \<open>An exit is sent only when the evaluation triggers\<close>

lemma priced_exits:
  "exits (fst (evaluate_priced rd pow cfg mode env pos isPaper mixed risk ranking stale entries sizes priceK priceP)) = []
   \<or> (\<exists>source evalInput. snd (buildCriteriaInputs rd cfg mode env pos priceK priceP entries sizes source risk ranking) = Inr evalInput
        \<and> res_triggered (evaluate rd pow evalInput)
        \<and> exits (fst (evaluate_priced rd pow cfg mode env pos isPaper mixed risk ranking stale entries sizes priceK priceP))
          = fst (executeExit rd (peExit env) (exit_position.truncate pos) (evaluate rd pow evalInput) priceK priceP
              isPaper mixed (Some (fst sizes)) (Some (snd sizes))))"
  unfolding evaluate_priced_def Let_def
  by (simp add: exits_bind split: sum.splits) blast

lemma evaluation_exits:
  assumes effs_def: "effs = exits (fst (evaluatePosition rd pow cfg mode health isPaper mixed risk ranking stale env pos))"
    and sent: "sent_orders effs \<noteq> []"
  obtains entryK entryP fillK fillP sizes priceK priceP source evalInput where
    "\<not> chDisconnected (health Kalshi)" "\<not> chDisconnected (health Polymarket)"
    "fill_data (close_position.truncate pos) = Some (entryK, entryP, fillK, fillP)"
    "snd (monitor_sizes rd env pos isPaper fillK fillP) = Inr (Some sizes)"
    "snd (mon_price rd env pos (fst sizes) Kalshi) = Inr (Some priceK)"
    "snd (mon_price rd env pos (snd sizes) Polymarket) = Inr (Some priceP)"
    "snd (buildCriteriaInputs rd cfg mode env pos priceK priceP (entryK, entryP) sizes source risk ranking) = Inr evalInput"
    "res_triggered (evaluate rd pow evalInput)"
    "effs = fst (executeExit rd (peExit env) (exit_position.truncate pos) (evaluate rd pow evalInput) priceK priceP
       isPaper mixed (Some (fst sizes)) (Some (snd sizes)))"
proof -
  have c: "\<not> chDisconnected (health Kalshi)" "\<not> chDisconnected (health Polymarket)"
    using sent by (auto simp: effs_def evaluatePosition_def split: if_splits)
  obtain entryK entryP fillK fillP where f: "fill_data (close_position.truncate pos) = Some (entryK, entryP, fillK, fillP)"
    using sent c by (auto simp: effs_def evaluatePosition_def split: option.splits)
  have sides: "side_given (xpKalshiSide pos)" "side_given (xpPolymarketSide pos)"
    using sent c f by (auto simp: effs_def evaluatePosition_def split: if_splits)
  obtain sizes where s: "snd (monitor_sizes rd env pos isPaper fillK fillP) = Inr (Some sizes)"
  proof (cases "snd (monitor_sizes rd env pos isPaper fillK fillP)")
    case (Inl e)
    then have "effs = exits (fst (monitor_sizes rd env pos isPaper fillK fillP))"
      using c f sides by (cases "monitor_sizes rd env pos isPaper fillK fillP")
        (simp add: effs_def evaluatePosition_def)
    then show ?thesis using sent sizes_no_orders by simp
  next
    case (Inr left)
    have "left \<noteq> None"
    proof
      assume "left = None"
      then have "effs = exits (fst (monitor_sizes rd env pos isPaper fillK fillP))"
        using c f sides Inr by (cases "monitor_sizes rd env pos isPaper fillK fillP")
          (simp add: effs_def evaluatePosition_def bind_value)
      then show False using sent sizes_no_orders by simp
    qed
    then show ?thesis using that Inr by blast
  qed
  have e: "effs = exits (fst (act_bind (mon_price rd env pos (fst sizes) Kalshi) (\<lambda>priceK.
      act_bind (mon_price rd env pos (snd sizes) Polymarket) (\<lambda>priceP.
      case (priceK, priceP) of
        (Some k, Some p) \<Rightarrow> evaluate_priced rd pow cfg mode env pos isPaper mixed risk ranking stale (entryK, entryP) sizes k p
      | _ \<Rightarrow> act_return ()))))"
    using c f sides s by (simp add: effs_def evaluatePosition_def exits_bind sizes_known_no_exits)
  obtain priceK priceP where prices: "snd (mon_price rd env pos (fst sizes) Kalshi) = Inr (Some priceK)"
    "snd (mon_price rd env pos (snd sizes) Polymarket) = Inr (Some priceP)"
    using sent unfolding e by (auto simp: exits_bind split: sum.splits option.splits)
  then have "effs = exits (fst (evaluate_priced rd pow cfg mode env pos isPaper mixed risk ranking stale (entryK, entryP) sizes priceK priceP))"
    by (simp add: e exits_bind)
  then obtain source evalInput where
    "snd (buildCriteriaInputs rd cfg mode env pos priceK priceP (entryK, entryP) sizes source risk ranking) = Inr evalInput"
    "res_triggered (evaluate rd pow evalInput)"
    "effs = fst (executeExit rd (peExit env) (exit_position.truncate pos) (evaluate rd pow evalInput) priceK priceP
       isPaper mixed (Some (fst sizes)) (Some (snd sizes)))"
    using priced_exits [of rd pow cfg mode env pos isPaper mixed risk ranking stale "(entryK, entryP)" sizes priceK priceP]
      sent by auto
  then show ?thesis by (rule that [OF c f s prices])
qed

text \<open>
  C20: the monitor sends orders for a position only when both connectors are connected, its fill
  data and sides are complete, both books gave a close price for what is left of its legs, and the
  threshold evaluation of exactly these sizes and prices triggered; the orders are then those of
  the exit execution with these sizes and prices.
\<close>
theorem exit_only_when_triggered:
  assumes "effs = exits (fst (evaluatePosition rd pow cfg mode health isPaper mixed risk ranking stale env pos))"
    and "sent_orders effs \<noteq> []"
  shows "\<not> chDisconnected (health p) \<and> (\<exists>entryK entryP fillK fillP sizes priceK priceP source evalInput.
     fill_data (close_position.truncate pos) = Some (entryK, entryP, fillK, fillP)
     \<and> snd (monitor_sizes rd env pos isPaper fillK fillP) = Inr (Some sizes)
     \<and> snd (mon_price rd env pos (fst sizes) Kalshi) = Inr (Some priceK)
     \<and> snd (mon_price rd env pos (snd sizes) Polymarket) = Inr (Some priceP)
     \<and> snd (buildCriteriaInputs rd cfg mode env pos priceK priceP (entryK, entryP) sizes source risk ranking) = Inr evalInput
     \<and> res_triggered (evaluate rd pow evalInput)
     \<and> effs = fst (executeExit rd (peExit env) (exit_position.truncate pos) (evaluate rd pow evalInput) priceK priceP
         isPaper mixed (Some (fst sizes)) (Some (snd sizes))))"
  by (rule evaluation_exits [OF assms]; cases p; blast)

section \<open>What an evaluation sells\<close>

lemma whole_money: "whole_size d \<Longrightarrow> money_fill d"
  by (auto elim!: whole_sizeE simp: money_fill_def money_def)

lemma whole_sum: "list_all (\<lambda>o'. pred_option whole_size (fillSize o')) os \<Longrightarrow> exit_fills pl os \<in> \<int>"
  by (induction os) (auto simp: exit_fills_Cons fill_val_def split: option.splits elim!: whole_sizeE)

lemma whole_fills_money:
  "list_all (\<lambda>o'. pred_option whole_size (fillSize o')) os \<Longrightarrow> list_all (\<lambda>o'. pred_option money_fill (fillSize o')) os"
  by (auto simp: list_all_iff pred_option_def whole_money)

text \<open>The orders of the pair that count as exits of a position, and their platform's name.\<close>

fun order_platform_name :: "platform \<Rightarrow> string" where
  "order_platform_name Kalshi = ''KALSHI''"
| "order_platform_name Polymarket = ''POLYMARKET''"

abbreviation earlier_exits :: "monitored_position \<Rightarrow> pair_order list \<Rightarrow> platform \<Rightarrow> rat" where
  "earlier_exits pos os leg \<equiv>
     exit_fills (order_platform_name leg) (exit_orders (residual_of (close_position.truncate pos)) os)"

lemma fill_data_entry:
  assumes "fill_data cp = Some (entryK, entryP, fillK, fillP)"
  shows "entry_fill (kalshiOrder (residual_of cp)) = fillK" "entry_fill (polymarketOrder (residual_of cp)) = fillP"
  using assms by (auto simp: fill_data_def residual_of_def entry_fill_def bind_eq_Some_conv split: option.splits)

lemma whole_rest:
  assumes "whole_size d" "r \<in> \<int>" "0 \<le> r"
  shows "whole_size (Fin (max (fin_val d - r) 0))"
proof -
  obtain n where n: "d = Fin (of_int n)" "0 \<le> n" "n \<le> 10 ^ 9" using assms(1) by (elim whole_sizeE)
  obtain m where m: "r = of_int m" using assms(2) by (elim Ints_cases)
  have "max (fin_val d - r) 0 = of_int (max (n - m) 0)" by (simp add: n m of_int_max)
  moreover have "0 \<le> m" using assms(3) m by simp
  ultimately show ?thesis using n by simp
qed

text \<open>The residual of a partially exited position, in whole contracts.\<close>

lemma monitor_residual:
  assumes rd: "decimal_rounding rd"
    and f: "fill_data (close_position.truncate pos) = Some (entryK, entryP, fillK, fillP)"
    and w: "whole_size fillK" "whole_size fillP"
    and os: "list_all (\<lambda>o'. pred_option whole_size (fillSize o')) os"
    and tot: "\<And>leg. earlier_exits pos os leg \<le> 10 ^ 12"
  defines "res \<equiv> getResidualSize rd (residual_of (close_position.truncate pos)) os"
  shows "residual_kalshi res = Fin (max (fin_val fillK - earlier_exits pos os Kalshi) 0)"
    and "residual_polymarket res = Fin (max (fin_val fillP - earlier_exits pos os Polymarket) 0)"
    and "whole_size (residual_kalshi res)" "whole_size (residual_polymarket res)"
proof -
  note e = fill_data_entry [OF f]
  have r: "getResidualSize rd (residual_of (close_position.truncate pos)) os =
     \<lparr>residual_kalshi = Fin (max (fin_val (entry_fill (kalshiOrder (residual_of (close_position.truncate pos))))
         - exit_fills ''KALSHI'' (exit_orders (residual_of (close_position.truncate pos)) os)) 0),
      residual_polymarket = Fin (max (fin_val (entry_fill (polymarketOrder (residual_of (close_position.truncate pos))))
         - exit_fills ''POLYMARKET'' (exit_orders (residual_of (close_position.truncate pos)) os)) 0),
      floored = (fin_val (entry_fill (kalshiOrder (residual_of (close_position.truncate pos))))
           < exit_fills ''KALSHI'' (exit_orders (residual_of (close_position.truncate pos)) os)
        \<or> fin_val (entry_fill (polymarketOrder (residual_of (close_position.truncate pos))))
           < exit_fills ''POLYMARKET'' (exit_orders (residual_of (close_position.truncate pos)) os))\<rparr>"
    using tot [of Kalshi] tot [of Polymarket]
    by (intro residual_size_is_entry_minus_exits [OF rd]) (simp_all add: e whole_money w whole_fills_money [OF os])
  then show k: "residual_kalshi res = Fin (max (fin_val fillK - earlier_exits pos os Kalshi) 0)"
    and p: "residual_polymarket res = Fin (max (fin_val fillP - earlier_exits pos os Polymarket) 0)"
    by (simp_all add: res_def e)
  have "earlier_exits pos os leg \<in> \<int>" "0 \<le> earlier_exits pos os leg" for leg
    using whole_sum [OF list_all_exit_orders [OF os]] exit_fills_nonneg [OF list_all_exit_orders [OF whole_fills_money [OF os]]]
    by auto
  then show "whole_size (residual_kalshi res)" "whole_size (residual_polymarket res)"
    unfolding k p by (simp_all only: whole_rest w)
qed

lemma sizes_are_rest:
  assumes rd: "decimal_rounding rd"
    and f: "fill_data (close_position.truncate pos) = Some (entryK, entryP, fillK, fillP)"
    and w: "whole_size fillK" "whole_size fillP"
    and os: "peOrders env = Inr os" "list_all (\<lambda>o'. pred_option whole_size (fillSize o')) os"
    and tot: "\<And>leg. earlier_exits pos os leg \<le> 10 ^ 12"
    and s: "snd (monitor_sizes rd env pos isPaper fillK fillP) = Inr (Some sizes)"
  shows "whole_size (fst sizes) \<and> whole_size (snd sizes)
    \<and> fin_val (exit_pick (fst sizes) (snd sizes) leg)
      = (if cpStatus pos = ''EXIT_PARTIAL'' then max (fin_val (exit_pick fillK fillP leg) - earlier_exits pos os leg) 0
         else fin_val (exit_pick fillK fillP leg))"
  using s w monitor_residual [OF rd f w os(2) tot]
  by (cases leg) (auto simp: monitor_sizes_def os act_call_def Let_def bind_Inr exit_pick_def split: if_splits)

text \<open>
  C21: in whole contracts, with platforms that do not fill more than was ordered, one evaluation
  sells of a leg at most what the entry order filled, and for a partially exited position at most
  that less what the other orders of the pair filled.
\<close>
theorem monitored_exit_sells_at_most_rest:
  assumes "decimal_rounding rd" "fills_within (peExit env)"
    and "fill_data (close_position.truncate pos) = Some (entryK, entryP, fillK, fillP)"
    and "whole_size fillK" "whole_size fillP"
    and "peOrders env = Inr os" "list_all (\<lambda>o'. pred_option whole_size (fillSize o')) os"
    and "\<And>leg. earlier_exits pos os leg \<le> 10 ^ 12"
  shows "filled_by leg (exits (fst (evaluatePosition rd pow cfg mode health isPaper mixed risk ranking stale env pos)))
    \<le> (if cpStatus pos = ''EXIT_PARTIAL'' then max (fin_val (exit_pick fillK fillP leg) - earlier_exits pos os leg) 0
       else fin_val (exit_pick fillK fillP leg))"
proof -
  define effs where "effs = exits (fst (evaluatePosition rd pow cfg mode health isPaper mixed risk ranking stale env pos))"
  show ?thesis
  proof (cases "sent_orders effs = []")
    case True
    have "0 \<le> fin_val (exit_pick fillK fillP leg)" using assms(4,5) by (cases leg) (auto simp: exit_pick_def elim!: whole_sizeE)
    with True show ?thesis by (simp add: effs_def [symmetric] filled_by_none)
  next
    case False
    from evaluation_exits [OF effs_def this] show ?thesis
    proof cases
      case (1 ek ep fk fp sizes priceK priceP source evalInput)
      have eq: "fk = fillK" "fp = fillP" using 1(3) assms(3) by simp_all
      note s = sizes_are_rest [OF assms(1,3-8) 1(4) [unfolded eq]]
      have "effective_size (Some (fst sizes)) (xpKalshiOrder (exit_position.truncate pos)) = act_return (fst sizes)"
        "effective_size (Some (snd sizes)) (xpPolymarketOrder (exit_position.truncate pos)) = act_return (snd sizes)"
        by (simp_all add: effective_size_def)
      then have "filled_by leg effs \<le> fin_val (exit_pick (fst sizes) (snd sizes) leg)"
        unfolding 1(9) using s decimal_rounding.exit_sells [OF assms(1,2)] by blast
      then show ?thesis using s [of leg] by (simp add: effs_def)
    qed
  qed
qed

section \<open>Shadow mode trades as fixed mode does\<close>

lemma executeExit_cong:
  assumes "res_type ev = res_type ev'" "res_currentEdge ev = res_currentEdge ev'"
  shows "executeExit rd env pos ev priceK priceP isPaper mixed a b = executeExit rd env pos ev' priceK priceP isPaper mixed a b"
proof -
  have "finalizeExitStatus rd env pos legs ev pnl isPaper mixed st = finalizeExitStatus rd env pos legs ev' pnl isPaper mixed st"
    for legs pnl st by (simp add: finalizeExitStatus_def Let_def assms)
  then have "run_chunks rd env pos ev legs isPaper mixed = run_chunks rd env pos ev' legs isPaper mixed" for legs
    unfolding run_chunks_def by presburger
  then show ?thesis unfolding executeExit_def by presburger
qed

lemma same_fixed_evaluation:
  assumes "computeCommon rd p = computeCommon rd q" "in_resolutionDate p = in_resolutionDate q" "in_now p = in_now q"
    and "in_exitMode p = Some ShadowMode" "in_exitMode q = Some FixedMode"
  shows "res_triggered (evaluate rd pow p) = res_triggered (evaluate rd pow q)
    \<and> res_type (evaluate rd pow p) = res_type (evaluate rd pow q)
    \<and> res_currentEdge (evaluate rd pow p) = res_currentEdge (evaluate rd pow q)"
  using assms by (simp add: evaluate_def or_default_def Let_def evaluateFixed_def mk_result_def split: option.splits)

text \<open>Two programs with the same exits, the same stale flags and related outcomes.\<close>

definition alike :: "('a \<Rightarrow> 'b \<Rightarrow> bool) \<Rightarrow> 'a mon_act \<Rightarrow> 'b mon_act \<Rightarrow> bool" where
  "alike R m n \<longleftrightarrow> exits (fst m) = exits (fst n)
     \<and> (\<forall>st. foldl note_stale st (fst m) = foldl note_stale st (fst n)) \<and> rel_sum (=) R (snd m) (snd n)"

lemma alike_bind:
  assumes "alike R m n" "\<And>a b. R a b \<Longrightarrow> alike S (f a) (g b)"
  shows "alike S (act_bind m f) (act_bind n g)"
proof -
  obtain em om en on where m: "m = (em, om)" "n = (en, on)" by (cases m; cases n)
  show ?thesis using assms
    by (cases om; cases on) (auto simp: alike_def m bind_value)
qed

lemma alike_refl: "alike (=) m m"
  by (simp add: alike_def sum.rel_eq)

lemma alike_eq: "m = n \<Longrightarrow> alike (=) m n"
  by (simp add: alike_refl)

lemma inputs_alike:
  "alike (\<lambda>p q. computeCommon rd p = computeCommon rd q \<and> in_resolutionDate p = in_resolutionDate q \<and> in_now p = in_now q
       \<and> in_exitMode p = Some ShadowMode \<and> in_exitMode q = Some FixedMode)
     (buildCriteriaInputs rd cfg ShadowMode env pos priceK priceP entries sizes source risk ranking)
     (buildCriteriaInputs rd cfg' FixedMode env pos priceK priceP entries sizes source risk' ranking')"
  unfolding buildCriteriaInputs_def
  by (rule alike_bind [OF alike_refl]) (auto simp: alike_def act_return_def Let_def computeCommon_def baseline_params_def)

lemma edges_alike:
  "alike (=) (recalculateAndPersistEdge rd ShadowMode env pos priceK priceP sizes source res)
     (recalculateAndPersistEdge rd FixedMode env pos priceK priceP sizes source res')"
  unfolding recalculateAndPersistEdge_def
  by (intro alike_bind [OF alike_refl])
    (auto simp: alike_def act_return_def act_tell_def Let_def note_stale_def split: option.splits)

lemma shadow_alike:
  "alike (=) (performShadowComparison pos res ShadowMode now) (performShadowComparison pos res' FixedMode now)"
  by (auto simp: performShadowComparison_def alike_def act_return_def act_tell_def Let_def note_stale_def split: option.splits)

lemma priced_alike:
  "alike (=) (evaluate_priced rd pow cfg ShadowMode env pos isPaper mixed risk ranking stale entries sizes priceK priceP)
     (evaluate_priced rd pow cfg' FixedMode env pos isPaper mixed risk' ranking' stale entries sizes priceK priceP)"
  unfolding evaluate_priced_def Let_def
proof (intro alike_bind [OF alike_refl] alike_bind [OF inputs_alike] alike_bind [OF edges_alike] alike_bind [OF shadow_alike])
  fix p q :: threshold_input and a b :: unit
  assume "computeCommon rd p = computeCommon rd q \<and> in_resolutionDate p = in_resolutionDate q \<and> in_now p = in_now q
       \<and> in_exitMode p = Some ShadowMode \<and> in_exitMode q = Some FixedMode"
  then have same: "res_triggered (evaluate rd pow p) = res_triggered (evaluate rd pow q)"
    "res_type (evaluate rd pow p) = res_type (evaluate rd pow q)"
    "res_currentEdge (evaluate rd pow p) = res_currentEdge (evaluate rd pow q)"
    using same_fixed_evaluation [of rd p q pow] by simp_all
  show "alike (=)
     (if res_triggered (evaluate rd pow p)
      then as_exit (executeExit rd (peExit env) (exit_position.truncate pos) (evaluate rd pow p) priceK priceP isPaper mixed
             (Some (fst sizes)) (Some (snd sizes)))
      else act_return ())
     (if res_triggered (evaluate rd pow q)
      then as_exit (executeExit rd (peExit env) (exit_position.truncate pos) (evaluate rd pow q) priceK priceP isPaper mixed
             (Some (fst sizes)) (Some (snd sizes)))
      else act_return ())"
    unfolding same(1) executeExit_cong [OF same(2,3)] by (rule alike_refl)
qed

lemma evaluation_alike:
  "alike (=) (evaluatePosition rd pow cfg ShadowMode health isPaper mixed risk ranking stale env pos)
     (evaluatePosition rd pow cfg' FixedMode health isPaper mixed risk' ranking' stale env pos)"
  unfolding evaluatePosition_def
  by (auto intro!: alike_refl alike_bind [OF alike_refl] priced_alike split: option.splits)

lemma all_alike:
  assumes "\<And>st p. alike (=) (ev st p) (ev' st p)"
  shows "exits (fst (evaluate_all ev ps st)) = exits (fst (evaluate_all ev' ps st))
    \<and> snd (evaluate_all ev ps st) = snd (evaluate_all ev' ps st)"
proof (induction ps arbitrary: st)
  case (Cons p ps)
  have a: "exits (fst (ev st p)) = exits (fst (ev' st p))"
    "foldl note_stale st (fst (ev st p)) = foldl note_stale st (fst (ev' st p))" "snd (ev st p) = snd (ev' st p)"
    using assms [of st p] by (simp_all add: alike_def sum.rel_eq)
  then show ?case using Cons.IH [of "foldl note_stale st (fst (ev' st p))"]
    by (simp add: split_beta Let_def prod_eq_iff)
qed simp

fun monitor_cycles :: "(rat \<Rightarrow> rat) \<Rightarrow> (jsnum \<Rightarrow> jsnum \<Rightarrow> jsnum) \<Rightarrow> cycle_env list \<Rightarrow> monitor \<Rightarrow> monitor \<times> monitor_effect list" where
  "monitor_cycles rd pow [] m = (m, [])"
| "monitor_cycles rd pow (env # envs) m =
     (let (m1, effs) = evaluatePositions rd pow env m; (m2, effs') = monitor_cycles rd pow envs m1 in (m2, effs @ effs'))"

definition in_mode :: "exit_mode \<Rightarrow> monitor \<Rightarrow> monitor" where
  "in_mode mode m = m\<lparr>moConfig := (moConfig m)\<lparr>mcMode := mode\<rparr>\<rparr>"

lemma in_mode_simps [simp]:
  "moFailures (in_mode mode m) = moFailures m" "moSkip (in_mode mode m) = moSkip m"
  "moStale (in_mode mode m) = moStale m" "moConfig (in_mode mode m) = (moConfig m)\<lparr>mcMode := mode\<rparr>"
  by (simp_all add: in_mode_def)

lemma positions_alike:
  "exits (fst (evaluate_cycle rd pow env (cfg\<lparr>mcMode := ShadowMode\<rparr>) ps st))
     = exits (fst (evaluate_cycle rd pow env (cfg\<lparr>mcMode := FixedMode\<rparr>) ps st))
   \<and> snd (evaluate_cycle rd pow env (cfg\<lparr>mcMode := ShadowMode\<rparr>) ps st)
     = snd (evaluate_cycle rd pow env (cfg\<lparr>mcMode := FixedMode\<rparr>) ps st)"
  unfolding evaluate_cycle_def Let_def by (simp, rule all_alike, rule evaluation_alike)

lemma cycle_alike:
  "exits (snd (evaluatePositions rd pow env (in_mode ShadowMode m))) = exits (snd (evaluatePositions rd pow env (in_mode FixedMode m)))
   \<and> fst (evaluatePositions rd pow env (in_mode ShadowMode m)) = in_mode ShadowMode (fst (evaluatePositions rd pow env (in_mode FixedMode m)))"
  by (cases "cyPositions env")
    (simp_all add: evaluatePositions_def Let_def split_beta positions_alike in_mode_def)

lemma in_mode_in_mode [simp]: "in_mode a (in_mode b m) = in_mode a m"
  by (simp add: in_mode_def)

lemma cycle_keeps_config: "moConfig (fst (evaluatePositions rd pow env m)) = moConfig m"
  by (simp add: evaluatePositions_def Let_def split_beta split: sum.splits)

lemma in_mode_same: "mcMode (moConfig m) = mode \<Longrightarrow> in_mode mode m = m"
  by (cases "moConfig m") (simp add: in_mode_def)

text \<open>
  C22: over any sequence of cycles the shadow mode sends the orders, closes the positions and returns
  the capital that the fixed mode would, and its circuit breaker and stale flags are the same: the
  model's result, the risk budget and the edge ranking are only reported.
\<close>
theorem shadow_mode_trades_as_fixed:
  "exits (snd (monitor_cycles rd pow envs (in_mode ShadowMode m))) = exits (snd (monitor_cycles rd pow envs (in_mode FixedMode m)))
   \<and> fst (monitor_cycles rd pow envs (in_mode ShadowMode m))
     = in_mode ShadowMode (fst (monitor_cycles rd pow envs (in_mode FixedMode m)))"
proof (induction envs arbitrary: m)
  case (Cons env envs)
  define m1 where "m1 = fst (evaluatePositions rd pow env (in_mode FixedMode m))"
  have "moConfig m1 = moConfig (in_mode FixedMode m)" by (simp add: m1_def cycle_keeps_config)
  then have "in_mode FixedMode m1 = m1" by (intro in_mode_same) simp
  with Cons.IH [of m1] show ?case
    using cycle_alike [of rd pow env m] by (simp add: split_beta Let_def m1_def [symmetric])
qed simp

section \<open>A reopened pair\<close>

lemma fill_le_exit_fills:
  assumes "list_all (\<lambda>o'. pred_option money_fill (fillSize o')) os" "x \<in> set os" "order_platform x = pl"
  shows "fill_val x \<le> exit_fills pl os"
  using assms
proof (induction os)
  case (Cons o' os)
  have "0 \<le> exit_fills pl os" "0 \<le> fill_val o'" using Cons.prems(1) by (simp_all add: exit_fills_nonneg fill_val_nonneg)
  then show ?case using Cons by (auto simp: exit_fills_Cons)
qed simp

lemma zero_residual_close:
  assumes "\<not> chDisconnected (health Kalshi)" "\<not> chDisconnected (health Polymarket)"
    and "fill_data (close_position.truncate pos) = Some (entryK, entryP, fillK, fillP)"
    and "side_given (xpKalshiSide pos)" "side_given (xpPolymarketSide pos)" "cpStatus pos = ''EXIT_PARTIAL''"
    and "peOrders env = Inr os"
    and "is_zero (residual_kalshi (getResidualSize rd (residual_of (close_position.truncate pos)) os))"
      "is_zero (residual_polymarket (getResidualSize rd (residual_of (close_position.truncate pos)) os))"
    and "peClosePosition env = None" "peRisk env = None"
  shows "fst (evaluatePosition rd pow cfg mode health isPaper mixed risk ranking stale env pos) =
    [MonExit (PositionClosed (or_default (xpRealizedPnl pos) (Fin 0))),
     MonExit (CapitalReturned RiskClose (Fin 0) (Fin 0) isPaper)]"
  using assms
  by (simp add: evaluatePosition_def monitor_sizes_def act_call_def Let_def close_without_residual_def act_do_def
      return_capital_def as_exit_def act_tell_def bind_value act_return_def)

context decimal_rounding
begin

lemma close_for_nothing:
  assumes "budget_inv rd s"
  shows "deployed p (fst (closePosition rd (Fin 0) (Fin 0) q p s)) = deployed p s
    \<and> openPositionCount (getState p (fst (closePosition rd (Fin 0) (Fin 0) q p s))) = max 0 (openPositionCount (getState p s) - 1)"
proof -
  have z: "sound_amount (Fin 0)" by (simp add: sound_amount_def grid_def)
  have d: "0 \<le> deployed p s" using mode_soundD [OF budget_inv_mode [OF assms, of p]] by auto
  note r = return_capital [OF assms z, of p]
  define s1 where "s1 = (case q of Some i \<Rightarrow> if p \<and> i \<noteq> [] then s\<lparr>paperActivePairIds := set_delete i (paperActivePairIds s)\<rparr> else s
      | None \<Rightarrow> s)"
  have s1: "getState p s1 = getState p s" by (auto simp: s1_def getState_def split: option.splits)
  have cl: "fst (closePosition rd (Fin 0) (Fin 0) q p s)
      = fst (updateDailyPnl rd (\<lambda>_. (0, Fin 0)) (Fin 0) p True (decrementOpenPositions rd (Fin 0) p s1))"
    by (simp add: closePosition_state [where prov = "\<lambda>_. (0, Fin 0)"] s1_def)
  show ?thesis using r d
    by (simp add: cl s1 deployed_def updateDailyPnl_totals decrementOpenPositions_def Let_def)
qed

end

text \<open>
  C23: orders are looked up by pair.  When a pair was traded before, the orders of the earlier
  position count as exits of the later one: as soon as that one is partially exited and the earlier
  orders fill at least its legs, the monitor closes it without an order, and its capital stays
  deployed while the number of open positions drops.
\<close>
theorem reopened_pair_closed_unsold:
  assumes "decimal_rounding rd" "\<And>p. \<not> chDisconnected (health p)"
    and "fill_data (close_position.truncate pos) = Some (entryK, entryP, fillK, fillP)" "whole_size fillK" "whole_size fillP"
    and "side_given (xpKalshiSide pos)" "side_given (xpPolymarketSide pos)" "cpStatus pos = ''EXIT_PARTIAL''"
    and "peOrders env = Inr os" "list_all (\<lambda>o'. pred_option whole_size (fillSize o')) os"
    and "\<And>leg. earlier_exits pos os leg \<le> 10 ^ 12"
    and "\<And>leg. \<exists>x \<in> set (exit_orders (residual_of (close_position.truncate pos)) os).
      order_platform x = order_platform_name leg \<and> fin_val (exit_pick fillK fillP leg) \<le> fill_val x"
    and "peClosePosition env = None" "peRisk env = None" "budget_inv rd s"
    and "effs = exits (fst (evaluatePosition rd pow cfg mode health isPaper mixed risk ranking stale env pos))"
  shows "PositionClosed (or_default (xpRealizedPnl pos) (Fin 0)) \<in> set effs \<and> sent_orders effs = []
    \<and> deployed isPaper (give_back_all rd (xpPair pos) effs s) = deployed isPaper s
    \<and> openPositionCount (getState isPaper (give_back_all rd (xpPair pos) effs s))
      = max 0 (openPositionCount (getState isPaper s) - 1)"
proof -
  have cover: "fin_val (exit_pick fillK fillP leg) \<le> earlier_exits pos os leg" for leg
    using assms(12) [of leg] fill_le_exit_fills [OF list_all_exit_orders [OF whole_fills_money [OF assms(10)]]]
    by fastforce
  note res = monitor_residual [OF assms(1,3-5,10,11)]
  have "effs = [PositionClosed (or_default (xpRealizedPnl pos) (Fin 0)), CapitalReturned RiskClose (Fin 0) (Fin 0) isPaper]"
    using cover [of Kalshi] cover [of Polymarket]
    unfolding assms(16)
    by (subst zero_residual_close [OF assms(2) assms(2) assms(3,6,7,8,9) _ _ assms(13,14)])
      (simp_all add: res(1,2) exit_pick_def max_def)
  then show ?thesis
    using decimal_rounding.close_for_nothing [OF assms(1,15), of isPaper "Some (xpPair pos)"]
    by (simp add: give_back_all_def give_back_def)
qed

section \<open>The edge ranking\<close>

definition finite_edges :: "(string \<times> decimal) list \<Rightarrow> bool" where
  "finite_edges xs \<longleftrightarrow> list_all (\<lambda>(i, e). is_fin e) xs"

lemma xr_less_Fin [simp]: "(Fin x < Fin y) = (x < y)"
  by (simp add: less_xr_def)

lemma dense_ranks_from:
  assumes "finite_edges xs" "sorted (map snd xs)" "\<forall>e \<in> snd ` set xs. Fin q \<le> e"
    and "distinct (map fst xs)" "(i, e) \<in> set xs"
  shows "map_of (dense_ranks r (Some (j, Fin q)) xs) i = Some (r + card {e' \<in> snd ` set xs. Fin q < e' \<and> e' \<le> e})"
  using assms
proof (induction xs arbitrary: r q j)
  case (Cons x xs)
  obtain k y where x: "x = (k, Fin y)" using Cons.prems(1) by (cases x) (auto simp: finite_edges_def elim: is_finE)
  have y: "Fin q \<le> Fin y" using Cons.prems(3) by (simp add: x)
  have above: "\<forall>e' \<in> snd ` set xs. Fin y \<le> e'" using Cons.prems(2) by (auto simp: x)
  have up: "Fin q < b" if "y \<noteq> q" "Fin y \<le> b" for b
    using y that by (intro less_le_trans [of "Fin q" "Fin y" b]) simp_all
  define r' where "r' = (if y = q then r else Suc r)"
  have ranks: "dense_ranks r (Some (j, Fin q)) (x # xs) = (k, r') # dense_ranks r' (Some (k, Fin y)) xs"
    by (simp add: x r'_def Let_def)
  have fin: "finite {e' \<in> snd ` set xs. Fin y < e' \<and> e' \<le> e}" by simp
  show ?case
  proof (cases "i = k")
    case True
    then have e: "e = Fin y" using Cons.prems(4,5) by (force simp: x)
    have "{e' \<in> snd ` set (x # xs). Fin q < e' \<and> e' \<le> e} = (if y = q then {} else {Fin y})"
      using y above unfolding e x by (auto dest: antisym)
    then show ?thesis by (simp add: ranks True r'_def)
  next
    case False
    then have i: "(i, e) \<in> set xs" using Cons.prems(5) by (simp add: x)
    have "map_of (dense_ranks r' (Some (k, Fin y)) xs) i = Some (r' + card {e' \<in> snd ` set xs. Fin y < e' \<and> e' \<le> e})"
      using Cons.prems above i by (intro Cons.IH) (simp_all add: finite_edges_def)
    moreover have "Fin y \<le> e" using above i by force
    then have "{e' \<in> snd ` set (x # xs). Fin q < e' \<and> e' \<le> e}
        = (if y = q then {e' \<in> snd ` set xs. Fin y < e' \<and> e' \<le> e} else insert (Fin y) {e' \<in> snd ` set xs. Fin y < e' \<and> e' \<le> e})"
      using y above by (auto simp: x intro: up dest: antisym)
    then have "card {e' \<in> snd ` set (x # xs). Fin q < e' \<and> e' \<le> e} + r
        = r' + card {e' \<in> snd ` set xs. Fin y < e' \<and> e' \<le> e}"
      using fin by (simp add: r'_def)
    ultimately show ?thesis using False by (simp add: ranks add.commute)
  qed
qed simp

lemma dense_ranks_first:
  assumes "finite_edges xs" "sorted (map snd xs)" "distinct (map fst xs)" "(i, e) \<in> set xs"
  shows "map_of (dense_ranks 1 None xs) i = Some (card {e' \<in> snd ` set xs. e' \<le> e})"
proof (cases xs)
  case (Cons x ys)
  obtain k y where x: "x = (k, Fin y)" using assms(1) Cons by (cases x) (auto simp: finite_edges_def elim: is_finE)
  have above: "\<forall>e' \<in> snd ` set ys. Fin y \<le> e'" using assms(2) by (auto simp: Cons x)
  have e: "Fin y \<le> e" using above assms(4) by (force simp: Cons x)
  have "{e' \<in> snd ` set xs. e' \<le> e} = insert (Fin y) {e' \<in> snd ` set ys. Fin y < e' \<and> e' \<le> e}"
    using e above by (auto simp: Cons x dest: antisym)
  then have c: "card {e' \<in> snd ` set xs. e' \<le> e} = Suc (card {e' \<in> snd ` set ys. Fin y < e' \<and> e' \<le> e})" by simp
  show ?thesis
  proof (cases "i = k")
    case True
    then have "e = Fin y" using assms(3,4) by (force simp: Cons x)
    then have "{e' \<in> snd ` set ys. Fin y < e' \<and> e' \<le> e} = {}" by auto
    then show ?thesis using True c by (simp add: Cons x)
  next
    case False
    then have "map_of (dense_ranks 1 (Some (k, Fin y)) ys) i = Some (1 + card {e' \<in> snd ` set ys. Fin y < e' \<and> e' \<le> e})"
      using assms above by (intro dense_ranks_from) (auto simp: Cons x finite_edges_def)
    then show ?thesis using False c by (simp add: Cons x)
  qed
qed (use assms(4) in simp)

lemma ranking_lookup:
  assumes "distinct (map fst rs)" "\<And>i. i \<in> fst ` set rs \<Longrightarrow> map_of m i = None"
  shows "map_of (foldl (\<lambda>m (i, r). map_set i (r, n) m) m rs) i
    = (case map_of rs i of Some r \<Rightarrow> Some (r, n) | None \<Rightarrow> map_of m i)"
  using assms
proof (induction rs arbitrary: m)
  case (Cons x rs)
  obtain k r where x: "x = (k, r)" by (cases x)
  have "map_of (map_set k (r, n) m) j = None" if "j \<in> fst ` set rs" for j
    using Cons.prems that by (auto simp: x update_conv)
  then have "map_of (foldl (\<lambda>m (i, r). map_set i (r, n) m) (map_set k (r, n) m) rs) i
      = (case map_of rs i of Some r \<Rightarrow> Some (r, n) | None \<Rightarrow> map_of (map_set k (r, n) m) i)"
    using Cons.prems(1) by (intro Cons.IH) (simp_all add: x)
  moreover have "map_of rs k = None" using Cons.prems(1) by (simp add: x map_of_eq_None_iff)
  ultimately show ?case by (auto simp: x update_conv split: option.splits)
qed simp

lemma dense_ranks_keys [simp]: "map fst (dense_ranks r p xs) = map fst xs"
  by (induction r p xs rule: dense_ranks.induct) (simp_all add: Let_def split: option.splits)

lemma sum_of_edges: "set (positions_with_edge ps) = {(xpId p, e) | p e. p \<in> set ps \<and> mpRecalculatedEdge p = Some e}"
proof -
  have "set (List.map_filter (\<lambda>p. map_option (\<lambda>e. (xpId p, e)) (mpRecalculatedEdge p)) ps)
      = {(xpId p, e) | p e. p \<in> set ps \<and> mpRecalculatedEdge p = Some e}"
    by (induction ps) (auto simp: List.map_filter_def split: option.splits)
  then show ?thesis by (simp add: positions_with_edge_def)
qed

lemma edges_distinct: "distinct (map xpId ps) \<Longrightarrow> distinct (map fst (positions_with_edge ps))"
proof -
  assume d: "distinct (map xpId ps)"
  define raw where "raw = List.map_filter (\<lambda>p. map_option (\<lambda>e. (xpId p, e)) (mpRecalculatedEdge p)) ps"
  have "map fst raw = map xpId (filter (\<lambda>p. mpRecalculatedEdge p \<noteq> None) ps)"
    unfolding raw_def by (induction ps) (auto simp: List.map_filter_def)
  then have "distinct (map fst raw)" using d by (simp add: distinct_map_filter)
  then show "distinct (map fst (positions_with_edge ps))"
    by (simp add: positions_with_edge_def raw_def [symmetric] distinct_map)
qed

lemma edges_length: "length (positions_with_edge ps) = length (filter (\<lambda>p. mpRecalculatedEdge p \<noteq> None) ps)"
  unfolding positions_with_edge_def by (induction ps) (auto simp: List.map_filter_def)

text \<open>
  the rank of a position with a recalculated edge is the number of different edges up to its
  own, so equal edges share a rank and ranks have no gaps, whatever the order of the positions; the
  total is the number of positions with an edge.
\<close>
theorem edge_rank_counts_edges:
  assumes "distinct (map xpId ps)" "list_all (\<lambda>p. pred_option is_fin (mpRecalculatedEdge p)) ps"
    and "p \<in> set ps" "mpRecalculatedEdge p = Some e"
  shows "map_of (edge_ranking ps) (xpId p) =
    Some (card {e'. e' \<le> e \<and> Some e' \<in> mpRecalculatedEdge ` set ps}, length (filter (\<lambda>p. mpRecalculatedEdge p \<noteq> None) ps))"
proof -
  let ?xs = "positions_with_edge ps"
  have d: "distinct (map fst ?xs)" by (rule edges_distinct [OF assms(1)])
  have "finite_edges ?xs" using assms(2) by (auto simp: finite_edges_def list_all_iff sum_of_edges)
  moreover have "sorted (map snd ?xs)" by (simp add: positions_with_edge_def)
  moreover have "(xpId p, e) \<in> set ?xs" using assms(3,4) by (auto simp: sum_of_edges)
  ultimately have "map_of (dense_ranks 1 None ?xs) (xpId p) = Some (card {e' \<in> snd ` set ?xs. e' \<le> e})"
    by (intro dense_ranks_first d)
  moreover have "{e' \<in> snd ` set ?xs. e' \<le> e} = {e'. e' \<le> e \<and> Some e' \<in> mpRecalculatedEdge ` set ps}"
    by (auto simp: sum_of_edges image_iff) metis
  moreover have "map_of (edge_ranking ps) (xpId p)
      = (case map_of (dense_ranks 1 None ?xs) (xpId p) of Some r \<Rightarrow> Some (r, length ?xs) | None \<Rightarrow> map_of [] (xpId p))"
    unfolding edge_ranking_def Let_def by (rule ranking_lookup) (simp_all add: d)
  ultimately show ?thesis by (simp add: edges_length)
qed

section \<open>The circuit breaker\<close>

definition breaker_ok :: "monitor \<Rightarrow> bool" where
  "breaker_ok m \<longleftrightarrow> moFailures m \<le> CIRCUIT_BREAKER_THRESHOLD \<and> (moSkip m \<longleftrightarrow> moFailures m = CIRCUIT_BREAKER_THRESHOLD)"

lemma cycle_breaker: "breaker_ok m \<Longrightarrow> breaker_ok (fst (evaluatePositions rd pow env m))"
  by (auto simp: breaker_ok_def evaluatePositions_def Let_def split_beta CIRCUIT_BREAKER_THRESHOLD_def split: sum.splits)

lemma cycles_breaker: "breaker_ok m \<Longrightarrow> breaker_ok (fst (monitor_cycles rd pow envs m))"
  by (induction envs arbitrary: m) (auto simp: Let_def split_beta cycle_breaker)

text \<open>
  in every state the monitor reaches, a cycle is skipped only after three cycles in which every
  evaluation threw, it is the only one skipped, and the count starts again after it; so no two
  cycles in a row are skipped.
\<close>
theorem monitor_skips_single_cycles:
  assumes "moFailures m0 = 0" "\<not> moSkip m0"
  defines "m \<equiv> \<lambda>rd pow envs. fst (monitor_cycles rd pow envs m0)"
  shows "moFailures (m rd pow envs) \<le> CIRCUIT_BREAKER_THRESHOLD
    \<and> (moSkip (m rd pow envs) \<longleftrightarrow> moFailures (m rd pow envs) = CIRCUIT_BREAKER_THRESHOLD)
    \<and> (moSkip (m rd pow envs) \<longrightarrow> \<not> moSkip (fst (evaluatePositions rd pow env (m rd pow envs)))
        \<and> moFailures (fst (evaluatePositions rd pow env (m rd pow envs))) = 0)"
proof -
  have "breaker_ok m0" using assms(1,2) by (simp add: breaker_ok_def CIRCUIT_BREAKER_THRESHOLD_def)
  then have "breaker_ok (m rd pow envs)" by (simp add: m_def cycles_breaker)
  then show ?thesis by (auto simp: breaker_ok_def evaluatePositions_def)
qed

section \<open>Witnesses\<close>

definition sample_monitored :: "string \<Rightarrow> monitored_position" where
  "sample_monitored status = close_position.extend (sample_close_position\<lparr>cpStatus := status\<rparr>)
     (monitored_position.fields (Some (Fin 0)) None None None None None (Some 3600000))"

text \<open>Orders of the pair: the entry and the exit of an earlier position.\<close>

definition sample_earlier :: "pair_order list" where
  "sample_earlier = [\<lparr>orderId = ''e1'', order_platform = ''KALSHI'', fillSize = Some (Fin 10)\<rparr>,
     \<lparr>orderId = ''e2'', order_platform = ''POLYMARKET'', fillSize = Some (Fin 10)\<rparr>]"

definition sample_position_env :: "order_result \<Rightarrow> pair_order list \<Rightarrow> position_env" where
  "sample_position_env poly os = \<lparr>peOrders = Inr os, peClosePosition = None, peRisk = None,
     peBook = (\<lambda>p. Inr \<lparr>bids = [sample_exit_level], asks = [sample_exit_level]\<rparr>), peDepthBook = (\<lambda>p. Inl ([], [])),
     peLastWs = (\<lambda>p. None), peFee = (\<lambda>p. Inr \<lparr>takerFeePercent = Fin 0, takerFeeForPrice = None\<rparr>),
     peConfidence = Inr None, peGas = Inr (Fin 0), pePersist = None, peNow = 0, peExit = sample_exit_env poly\<rparr>"

definition sample_monitor_config :: monitor_config where
  "sample_monitor_config = \<lparr>mcMode = FixedMode, mcEdgeEvapMultiplier = Fin (- 1), mcConfidenceDropPct = Fin 20,
     mcTimeDecayHorizonH = Fin 168, mcTimeDecaySteepness = Fin 2, mcTimeDecayTrigger = Fin (4/5), mcRiskBudgetPct = Fin 85,
     mcRiskRankCutoff = Fin 1, mcMinDepth = Fin 5, mcProfitCaptureRatio = Fin (1/2)\<rparr>"

abbreviation sample_evaluation :: "string \<Rightarrow> order_result \<Rightarrow> pair_order list \<Rightarrow> unit mon_act" where
  "sample_evaluation status poly os \<equiv> evaluatePosition dec20 (\<lambda>_ _. Fin 0) sample_monitor_config FixedMode
     (\<lambda>_. \<lparr>chDisconnected = False, chPaper = False\<rparr>) False False False [] [] (sample_position_env poly os) (sample_monitored status)"

lemma sample_monitored_data:
  "exit_position.truncate (sample_monitored status) = sample_exit_position"
  "close_position.truncate (sample_monitored status) = sample_close_position\<lparr>cpStatus := status\<rparr>"
  "fill_data (sample_close_position\<lparr>cpStatus := status\<rparr>) = Some (Fin (1/2), Fin (1/2), Fin 10, Fin 10)"
  "side_given (xpKalshiSide (sample_monitored status))" "side_given (xpPolymarketSide (sample_monitored status))"
  "cpStatus (sample_monitored status) = status" "xpPair (sample_monitored status) = ''pair1''"
  "xpRealizedPnl (sample_monitored status) = None"
  "cpKalshiOrderId (sample_monitored status) = Some ''ok''" "cpPolymarketOrderId (sample_monitored status) = Some ''op''"
  by (simp_all add: sample_monitored_def sample_close_position_def sample_exit_position_def fill_data_def side_given_def
      exit_position.defs close_position.defs monitored_position.defs)

lemma sample_sizes_open:
  "monitor_sizes rd env (sample_monitored ''OPEN'') paper a b = act_return (Some (a, b))"
  by (simp add: monitor_sizes_def sample_monitored_data)

lemma sample_price:
  "mon_price dec20 (sample_position_env poly os) (sample_monitored status) (Fin 10) p = act_return (Some (Fin (1/2)))"
  by (cases p)
    (simp_all add: mon_price_def mon_query_def sample_position_env_def sample_monitored_data getClosePrice_def
      leg_side_def sample_exit_position_def exit_pick_def or_default_def close_levels_def calculateVwapClosePrice_def
      calculateVwapWithFillInfo_def sample_exit_level_def sample_exit_numbers act_call_def)

lemma sample_fees: "mon_fees dec20 (sample_position_env poly os) a b = act_return (Fin 0, Fin 0)"
  by (simp add: mon_fees_def sample_position_env_def act_call_def calculateTakerFeeRate_def)

lemma time_triggers:
  assumes "in_exitMode p = Some FixedMode" "in_resolutionDate p = Some d" "xle (hoursRemaining d (in_now p)) (Fin 48)"
  shows "res_triggered (evaluate rd pow p)"
  using assms by (simp add: evaluate_def or_default_def evaluateFixed_def mk_result_def Let_def)

text \<open>An open position an hour before resolution: the time criterion triggers and two orders are sent.\<close>

lemma sample_exit_orders:
  "sent_orders (fst (executeExit dec20 (sample_exit_env (sample_exit_result OrderPartial 0)) sample_exit_position ev
     (Fin (1/2)) (Fin (1/2)) False False (Some (Fin 10)) (Some (Fin 10)))) \<noteq> []"
proof -
  have "executeExit dec20 (sample_exit_env (sample_exit_result OrderPartial 0)) sample_exit_position ev
     (Fin (1/2)) (Fin (1/2)) False False (Some (Fin 10)) (Some (Fin 10))
    = run_chunks dec20 (sample_exit_env (sample_exit_result OrderPartial 0)) sample_exit_position ev sample_exit_legs False False"
    by (rule executeExit_runs [where status = "''OPEN''"]) (simp_all add: sample_exit_facts effective_size_def)
  then show ?thesis
    using zero_fill_run [where legs = sample_exit_legs and env = "sample_exit_env (sample_exit_result OrderPartial 0)"
        and pos = sample_exit_position and rd = dec20 and c = "Fin 10" and isPaper = False and mixed = False and ev = ev
        and ?res1.0 = sample_kalshi_fill and ?res2.0 = "sample_exit_result OrderPartial 0"
        and ?oid1.0 = "''kalshi''" and ?oid2.0 = "''polymarket''"
        and feeK = "\<lparr>takerFeePercent = Fin 0, takerFeeForPrice = None\<rparr>"
        and feeP = "\<lparr>takerFeePercent = Fin 0, takerFeeForPrice = None\<rparr>"]
    by (simp add: sample_exit_data sample_chunk_size sample_submit sample_create sample_exit_facts)
qed

lemma return_eq: "act_return a = act_return b \<longleftrightarrow> a = b"
  by (simp add: act_return_def)

lemma sample_inputs:
  "\<exists>evalInput. buildCriteriaInputs dec20 cfg FixedMode (sample_position_env poly os) (sample_monitored status) a b es ss s r ranking
     = act_return evalInput \<and> res_triggered (evaluate rd pow evalInput)"
proof -
  have "res_triggered (evaluate rd pow p)"
    if "in_exitMode p = Some FixedMode" "in_resolutionDate p = Some 3600000" "in_now p = 0" for p
    by (rule time_triggers [OF that(1,2)]) (simp add: that hoursRemaining_def)
  moreover have "mpResolutionDate (sample_monitored status) = Some 3600000" "peNow (sample_position_env poly os) = 0"
    by (simp_all add: sample_monitored_def sample_position_env_def close_position.defs monitored_position.defs)
  moreover from this have "\<exists>evalInput. buildCriteriaInputs dec20 cfg FixedMode (sample_position_env poly os) (sample_monitored status)
      a b es ss s r ranking = act_return evalInput
    \<and> in_exitMode evalInput = Some FixedMode \<and> in_resolutionDate evalInput = Some 3600000 \<and> in_now evalInput = 0"
    by (simp add: buildCriteriaInputs_def sample_fees Let_def return_eq)
  ultimately show ?thesis by blast
qed

lemma sample_recalculation:
  "snd (recalculateAndPersistEdge dec20 mode (sample_position_env poly os) pos (Fin (1/2)) (Fin (1/2)) ss s res) = Inr ()"
proof -
  have "peGas (sample_position_env poly os) = Inr (Fin 0)" "pePersist (sample_position_env poly os) = None"
    by (simp_all add: sample_position_env_def)
  then show ?thesis
    by (simp add: recalculateAndPersistEdge_def sample_fees calculateGrossEdge_def act_call_def Let_def)
qed

lemma sample_evaluation_sends: "sent_orders (exits (fst (sample_evaluation ''OPEN'' (sample_exit_result OrderPartial 0) os))) \<noteq> []"
proof -
  let ?env = "sample_position_env (sample_exit_result OrderPartial 0) os"
  have "\<forall>s. \<exists>i. buildCriteriaInputs dec20 sample_monitor_config FixedMode ?env (sample_monitored ''OPEN'') (Fin (1/2))
      (Fin (1/2)) (Fin (1/2), Fin (1/2)) (Fin 10, Fin 10) s False [] = act_return i
      \<and> res_triggered (evaluate dec20 (\<lambda>_ _. Fin 0) i)"
    using sample_inputs by blast
  from choice [OF this] obtain evalInput where
    i: "\<And>s. buildCriteriaInputs dec20 sample_monitor_config FixedMode ?env (sample_monitored ''OPEN'') (Fin (1/2))
      (Fin (1/2)) (Fin (1/2), Fin (1/2)) (Fin 10, Fin 10) s False [] = act_return (evalInput s)"
      "\<And>s. res_triggered (evaluate dec20 (\<lambda>_ _. Fin 0) (evalInput s))" by blast
  have f: "snd (emitStaleFallbackIfNeeded stale pos s k p lk lp now) = Inr ()" for stale pos s k p lk lp now
    by (simp add: emitStaleFallbackIfNeeded_def Let_def bind_Inr)
  have p: "performShadowComparison pos res FixedMode now = act_return ()" for pos res now
    by (simp add: performShadowComparison_def split: option.splits)
  have e: "peExit ?env = sample_exit_env (sample_exit_result OrderPartial 0)" by (simp add: sample_position_env_def)
  have "exits (fst (sample_evaluation ''OPEN'' (sample_exit_result OrderPartial 0) os))
    = exits (fst (evaluate_priced dec20 (\<lambda>_ _. Fin 0) sample_monitor_config FixedMode ?env (sample_monitored ''OPEN'') False False
        False [] [] (Fin (1/2), Fin (1/2)) (Fin 10, Fin 10) (Fin (1/2)) (Fin (1/2))))"
    by (simp add: evaluatePosition_def sample_monitored_data(2-5) sample_sizes_open sample_price)
  then show ?thesis
    unfolding evaluate_priced_def Let_def
    by (simp add: exits_bind f i p e sample_recalculation sample_exit_orders sample_monitored_data(1))
qed

theorem exit_only_when_triggered_witness:
  "\<exists>source evalInput. snd (buildCriteriaInputs dec20 sample_monitor_config FixedMode
       (sample_position_env (sample_exit_result OrderPartial 0) []) (sample_monitored ''OPEN'') (Fin (1/2)) (Fin (1/2))
       (Fin (1/2), Fin (1/2)) (Fin 10, Fin 10) source False []) = Inr evalInput
     \<and> res_triggered (evaluate dec20 (\<lambda>_ _. Fin 0) evalInput)"
  using exit_only_when_triggered [OF refl sample_evaluation_sends [of "[]"]]
  by (auto simp: sample_monitored_data sample_sizes_open sample_price)

lemma sample_fills_within: "fills_within (sample_exit_env (sample_exit_result OrderFilled 10))"
  by (auto simp: fills_within_def sample_exit_env_def whole_book_def sample_exit_level_def whole_size_def
      sample_exit_result_def split: if_splits platform.splits)

lemma sample_earlier_fills:
  "list_all (\<lambda>o'. pred_option whole_size (fillSize o')) sample_earlier"
  "exit_orders (residual_of (close_position.truncate (sample_monitored status))) sample_earlier = sample_earlier"
  "exit_fills (order_platform_name leg) sample_earlier = 10"
proof -
  show "list_all (\<lambda>o'. pred_option whole_size (fillSize o')) sample_earlier"
    by (simp add: sample_earlier_def whole_size_def)
  show "exit_orders (residual_of (close_position.truncate (sample_monitored status))) sample_earlier = sample_earlier"
    by (simp add: sample_earlier_def exit_orders_def sample_monitored_data residual_of_def truthy_id_def close_position.defs)
  show "exit_fills (order_platform_name leg) sample_earlier = 10"
    by (cases leg) (simp_all add: sample_earlier_def exit_fills_def fill_val_def)
qed

abbreviation sample_rest_evaluation :: "unit mon_act" where
  "sample_rest_evaluation \<equiv> sample_evaluation ''EXIT_PARTIAL'' (sample_exit_result OrderFilled 10) sample_earlier"

theorem monitored_exit_sells_at_most_rest_witness: "filled_by Kalshi (exits (fst sample_rest_evaluation)) \<le> 0"
proof -
  let ?env = "sample_position_env (sample_exit_result OrderFilled 10) sample_earlier"
  have e: "peExit ?env = sample_exit_env (sample_exit_result OrderFilled 10)" "peOrders ?env = Inr sample_earlier"
    by (simp_all add: sample_position_env_def)
  have w: "whole_size (Fin 10)" by (simp add: whole_size_def)
  have f: "fill_data (close_position.truncate (sample_monitored ''EXIT_PARTIAL'')) = Some (Fin (1/2), Fin (1/2), Fin 10, Fin 10)"
    by (simp add: sample_monitored_data)
  have b: "earlier_exits (sample_monitored ''EXIT_PARTIAL'') sample_earlier leg = 10" for leg
    by (simp add: sample_earlier_fills)
  then have "earlier_exits (sample_monitored ''EXIT_PARTIAL'') sample_earlier leg \<le> 10 ^ 12" for leg by simp
  from monitored_exit_sells_at_most_rest [OF d20.decimal_rounding_axioms sample_fills_within [folded e(1)] f w w e(2)
      sample_earlier_fills(1) this, where leg = Kalshi]
  show ?thesis using b [of Kalshi] by (simp add: sample_monitored_data exit_pick_def)
qed

theorem reopened_pair_closed_unsold_witness:
  "PositionClosed (Fin 0) \<in> set (exits (fst sample_rest_evaluation)) \<and> sent_orders (exits (fst sample_rest_evaluation)) = []
   \<and> deployed False (give_back_all dec20 ''pair1'' (exits (fst sample_rest_evaluation)) sample_budget) = deployed False sample_budget"
proof -
  let ?env = "sample_position_env (sample_exit_result OrderFilled 10) sample_earlier"
  have e: "peOrders ?env = Inr sample_earlier" "peClosePosition ?env = None" "peRisk ?env = None"
    by (simp_all add: sample_position_env_def)
  have w: "whole_size (Fin 10)" by (simp add: whole_size_def)
  have c: "\<not> chDisconnected ((\<lambda>_. \<lparr>chDisconnected = False, chPaper = False\<rparr>) p)" for p :: platform by simp
  have f: "fill_data (close_position.truncate (sample_monitored ''EXIT_PARTIAL'')) = Some (Fin (1/2), Fin (1/2), Fin 10, Fin 10)"
    by (simp add: sample_monitored_data)
  have b: "earlier_exits (sample_monitored ''EXIT_PARTIAL'') sample_earlier leg \<le> 10 ^ 12" for leg
    by (simp add: sample_earlier_fills)
  have x: "\<exists>x \<in> set (exit_orders (residual_of (close_position.truncate (sample_monitored ''EXIT_PARTIAL''))) sample_earlier).
      order_platform x = order_platform_name leg \<and> fin_val (exit_pick (Fin 10) (Fin 10) leg) \<le> fill_val x" for leg
    unfolding sample_earlier_fills by (cases leg) (simp_all add: sample_earlier_def exit_pick_def fill_val_def)
  from reopened_pair_closed_unsold [OF d20.decimal_rounding_axioms c f w w sample_monitored_data(4-6) e(1)
      sample_earlier_fills(1) b x e(2,3) sample_inv refl]
  show ?thesis by (simp add: sample_monitored_data or_default_def)
qed

theorem edge_rank_counts_edges_witness:
  "map_of (edge_ranking [sample_monitored ''OPEN'']) ''pos1'' = Some (1, 1)"
proof -
  have r: "mpRecalculatedEdge (sample_monitored ''OPEN'') = Some (Fin 0)" "xpId (sample_monitored ''OPEN'') = ''pos1''"
    by (simp_all add: sample_monitored_def sample_close_position_def sample_exit_position_def
        exit_position.defs close_position.defs monitored_position.defs)
  have "{e'. e' \<le> Fin 0 \<and> e' = Fin 0} = {Fin 0}" by auto
  then show ?thesis
    using edge_rank_counts_edges [of "[sample_monitored ''OPEN'']" "sample_monitored ''OPEN''" "Fin 0"] by (simp add: r)
qed

theorem monitor_skips_single_cycles_witness:
  "\<not> moSkip (fst (monitor_cycles dec20 (\<lambda>_ _. Fin 0) []
     \<lparr>moFailures = 0, moSkip = False, moStale = [], moConfig = sample_monitor_config\<rparr>))"
  using monitor_skips_single_cycles [of "\<lparr>moFailures = 0, moSkip = False, moStale = [], moConfig = sample_monitor_config\<rparr>"
      dec20 "\<lambda>_ _. Fin 0" "[]"] by (simp add: CIRCUIT_BREAKER_THRESHOLD_def)

end
