(* ===== verification/ShadowReport.thy ===== *)
theory ShadowReport
  imports ExitMonitor
begin

text \<open>
  \<^verbatim>\<open>ShadowComparisonService\<close>: the shadow comparisons of a day are kept, at most fifty
  thousand of them, an exit of a compared position adds an entry with the difference of the two
  results, and at midnight the counts are reported and the day starts empty.  An event's decimals
  travel as strings and are read back as they were.
\<close>

section \<open>State\<close>

record closed_entry =
  ceePosition :: string
  ceePair :: string
  ceePnlDelta :: decimal
  ceeModelExit :: timestamp
  ceeFixedExit :: timestamp
  ceeTrigger :: "exit_reason option"

record shadow_state =
  ssComparisons :: "shadow_event list"
  ssClosed :: "closed_entry list"

record daily_shadow =
  dsTotal :: nat
  dsFixedTriggers :: nat
  dsModelTriggers :: nat
  dsByCriterion :: "(exit_criterion \<times> nat) list"
  dsPnlDelta :: decimal
  dsAgree :: nat
  dsDisagree :: nat

definition MAX_SHADOW_COMPARISONS :: nat where
  "MAX_SHADOW_COMPARISONS = 50000"

section \<open>Operations\<close>

definition handleShadowComparison :: "shadow_event \<Rightarrow> shadow_state \<Rightarrow> shadow_state" where
  "handleShadowComparison ev s =
     (let comparisons = ssComparisons s @ [ev] in
      s\<lparr>ssComparisons := (if length comparisons > MAX_SHADOW_COMPARISONS
        then drop (length comparisons - MAX_SHADOW_COMPARISONS) comparisons else comparisons)\<rparr>)"

definition shadow_pnl_delta :: "(rat \<Rightarrow> rat) \<Rightarrow> shadow_event \<Rightarrow> decimal" where
  "shadow_pnl_delta rd c = xsub rd (snd (snd (seModel c))) (snd (snd (seFixed c)))"

definition handleExitTriggered ::
  "(rat \<Rightarrow> rat) \<Rightarrow> timestamp \<Rightarrow> exit_triggered \<Rightarrow> shadow_state \<Rightarrow> shadow_state" where
  "handleExitTriggered rd now ev s =
     (let own = filter (\<lambda>c. sePosition c = etPosition ev) (ssComparisons s) in
      if own = [] then s
      else s\<lparr>ssClosed := ssClosed s @ [\<lparr>ceePosition = etPosition ev, ceePair = etPair ev,
        ceePnlDelta = shadow_pnl_delta rd (last own), ceeModelExit = now,
        ceeFixedExit = (case List.find (\<lambda>c. fst (seFixed c)) own of Some c \<Rightarrow> seTimestamp c | None \<Rightarrow> now),
        ceeTrigger = etType ev\<rparr>]\<rparr>)"

definition handlePositionClose :: "closed_entry \<Rightarrow> shadow_state \<Rightarrow> shadow_state" where
  "handlePositionClose e s = s\<lparr>ssClosed := ssClosed s @ [e\<lparr>ceeTrigger := None\<rparr>]\<rparr>"

definition getComparisonStats :: "shadow_state \<Rightarrow> nat \<times> nat" where
  "getComparisonStats s = (length (ssComparisons s), length (ssClosed s))"

definition zero_counts :: "(exit_criterion \<times> nat) list" where
  "zero_counts = map (\<lambda>c. (c, 0)) [EdgeEvaporation, ModelConfidence, TimeDecay, RiskBudget, LiquidityDeterioration, ProfitCapture]"

definition count_criteria :: "criterion_result list \<Rightarrow> (exit_criterion \<times> nat) list \<Rightarrow> (exit_criterion \<times> nat) list" where
  "count_criteria crs counts =
     foldl (\<lambda>m c. if cr_triggered c then map_set (cr_criterion c) (Suc (or_default (map_of m (cr_criterion c)) 0)) m else m)
       counts crs"

definition add_comparison :: "(rat \<Rightarrow> rat) \<Rightarrow> daily_shadow \<Rightarrow> shadow_event \<Rightarrow> daily_shadow" where
  "add_comparison rd d c = d\<lparr>
     dsFixedTriggers := dsFixedTriggers d + (if fst (seFixed c) then 1 else 0),
     dsModelTriggers := dsModelTriggers d + (if fst (seModel c) then 1 else 0),
     dsAgree := dsAgree d + (if seAgreement c then 1 else 0),
     dsDisagree := dsDisagree d + (if seAgreement c then 0 else 1),
     dsByCriterion := count_criteria (seCriteria c) (dsByCriterion d),
     dsPnlDelta := xadd rd (dsPnlDelta d) (shadow_pnl_delta rd c)\<rparr>"

definition generateDailySummary :: "(rat \<Rightarrow> rat) \<Rightarrow> shadow_state \<Rightarrow> daily_shadow" where
  "generateDailySummary rd s =
     foldl (add_comparison rd)
       \<lparr>dsTotal = length (ssComparisons s), dsFixedTriggers = 0, dsModelTriggers = 0, dsByCriterion = zero_counts,
        dsPnlDelta = Fin 0, dsAgree = 0, dsDisagree = 0\<rparr> (ssComparisons s)"

definition emitDailySummary :: "(rat \<Rightarrow> rat) \<Rightarrow> shadow_state \<Rightarrow> shadow_state \<times> daily_shadow" where
  "emitDailySummary rd s =
     (let summary = generateDailySummary rd s in
      (\<lparr>ssComparisons = [], ssClosed = []\<rparr>, summary\<lparr>dsPnlDelta := to_fixed 8 (dsPnlDelta summary)\<rparr>))"

section \<open>What a summary counts\<close>

lemma summary_counts:
  "dsTotal (foldl (add_comparison rd) d cs) = dsTotal d"
  "dsFixedTriggers (foldl (add_comparison rd) d cs) = dsFixedTriggers d + length (filter (\<lambda>c. fst (seFixed c)) cs)"
  "dsModelTriggers (foldl (add_comparison rd) d cs) = dsModelTriggers d + length (filter (\<lambda>c. fst (seModel c)) cs)"
  "dsAgree (foldl (add_comparison rd) d cs) = dsAgree d + length (filter seAgreement cs)"
  "dsDisagree (foldl (add_comparison rd) d cs) = dsDisagree d + length (filter (\<lambda>c. \<not> seAgreement c) cs)"
  "dsByCriterion (foldl (add_comparison rd) d cs) = foldl (\<lambda>m c. count_criteria (seCriteria c) m) (dsByCriterion d) cs"
  by (induction cs arbitrary: d) (simp_all add: add_comparison_def)

lemma count_criteria_lookup:
  "or_default (map_of (count_criteria crs m) k) 0
     = or_default (map_of m k) 0 + length (filter (\<lambda>c. cr_triggered c \<and> cr_criterion c = k) crs)"
proof (induction crs arbitrary: m)
  case (Cons c crs)
  define m' where "m' = (if cr_triggered c then map_set (cr_criterion c) (Suc (or_default (map_of m (cr_criterion c)) 0)) m else m)"
  have "count_criteria (c # crs) m = count_criteria crs m'" by (simp add: count_criteria_def m'_def)
  moreover have "or_default (map_of m' k) 0 = or_default (map_of m k) 0 + (if cr_triggered c \<and> cr_criterion c = k then 1 else 0)"
    by (auto simp: m'_def update_conv or_default_def)
  ultimately show ?case using Cons.IH [of m'] by simp
qed (simp add: count_criteria_def)

lemma criterion_total:
  "or_default (map_of (foldl (\<lambda>m c. count_criteria (seCriteria c) m) m cs) k) 0
     = or_default (map_of m k) 0 + length (filter (\<lambda>c. cr_triggered c \<and> cr_criterion c = k) (concat (map seCriteria cs)))"
  by (induction cs arbitrary: m) (simp_all add: count_criteria_lookup)

section \<open>Fed by the monitor\<close>

definition shadow_events :: "monitor_effect list \<Rightarrow> shadow_event list" where
  "shadow_events effs = List.map_filter (\<lambda>e. case e of ShadowCompared ev \<Rightarrow> Some ev | _ \<Rightarrow> None) effs"

definition feed :: "monitor_effect list \<Rightarrow> shadow_state \<Rightarrow> shadow_state" where
  "feed effs s = foldl (\<lambda>s ev. handleShadowComparison ev s) s (shadow_events effs)"

definition agreement_sound :: "shadow_event \<Rightarrow> bool" where
  "agreement_sound ev \<longleftrightarrow> seAgreement ev = (fst (seFixed ev) = fst (seModel ev))
     \<and> (seAgreement ev \<longleftrightarrow> seDetail ev = None)"

definition sound_effect :: "monitor_effect \<Rightarrow> bool" where
  "sound_effect e \<longleftrightarrow> (case e of ShadowCompared ev \<Rightarrow> agreement_sound ev | _ \<Rightarrow> True)"

lemma sound_effect_simps [simp]:
  "sound_effect (MonExit x)" "sound_effect (DataFallback i j p a)" "sound_effect (StaleSet i b)" "sound_effect (EdgePersisted i u)"
  "sound_effect (ShadowCompared ev) = agreement_sound ev"
  by (simp_all add: sound_effect_def)

lemma as_exit_sound [simp]: "list_all sound_effect (fst (as_exit m))"
  by (simp add: as_exit_def list_all_iff)

lemma mon_query_sound [simp]: "list_all sound_effect (fst (mon_query a))"
  unfolding mon_query_def by (rule each.P_call)

lemma mon_fees_sound [simp]: "list_all sound_effect (fst (mon_fees rd env a b))"
  unfolding mon_fees_def by (intro each.P_rules)

lemma fallback_sound: "list_all sound_effect (fst (emitStaleFallbackIfNeeded stale pos s k p lk lp now))"
  unfolding emitStaleFallbackIfNeeded_def Let_def by (auto intro!: each.P_rules)

lemma inputs_sound: "list_all sound_effect (fst (buildCriteriaInputs rd cfg mode env pos a b es ss s r ranking))"
  unfolding buildCriteriaInputs_def Let_def by (intro each.P_rules) (auto intro!: each.P_rules)

lemma edge_sound: "list_all sound_effect (fst (recalculateAndPersistEdge rd mode env pos a b ss s res))"
  unfolding recalculateAndPersistEdge_def Let_def by (intro each.P_rules) (auto intro!: each.P_rules split: option.splits)

lemma shadow_sound: "list_all sound_effect (fst (performShadowComparison pos res mode now))"
  by (auto simp: performShadowComparison_def Let_def agreement_sound_def split: option.splits)

lemma sizes_sound: "list_all sound_effect (fst (monitor_sizes rd env pos paper k p))"
  unfolding monitor_sizes_def Let_def by (auto intro!: each.P_rules)

lemma priced_sound: "list_all sound_effect (fst (evaluate_priced rd pow cfg mode env pos paper mixed risk ranking stale es ss a b))"
  unfolding evaluate_priced_def Let_def
  by (auto intro!: each.P_rules fallback_sound inputs_sound edge_sound shadow_sound)

lemma evaluation_sound:
  "list_all sound_effect (fst (evaluatePosition rd pow cfg mode health paper mixed risk ranking stale env pos))"
  unfolding evaluatePosition_def mon_price_def
  by (auto intro!: each.P_rules sizes_sound priced_sound split: option.splits)

lemma all_sound:
  "(\<And>st p. list_all sound_effect (fst (ev st p))) \<Longrightarrow> list_all sound_effect (fst (evaluate_all ev ps st))"
  by (induction ps arbitrary: st) (simp_all add: split_beta Let_def)

lemma cycle_sound: "list_all sound_effect (snd (evaluatePositions rd pow env m))"
  by (auto simp: evaluatePositions_def evaluate_cycle_def Let_def split_beta intro: all_sound evaluation_sound split: sum.splits)

lemma sound_events: "list_all sound_effect effs \<Longrightarrow> list_all agreement_sound (shadow_events effs)"
  by (induction effs) (auto simp: shadow_events_def List.map_filter_def sound_effect_def split: monitor_effect.splits)

text \<open>The states of a day: cycles of the monitor, exits, and the report at midnight.\<close>

inductive shadow_day :: "(rat \<Rightarrow> rat) \<Rightarrow> monitor \<times> shadow_state \<Rightarrow> bool" for rd :: "rat \<Rightarrow> rat" where
  day_start: "shadow_day rd (m, \<lparr>ssComparisons = [], ssClosed = []\<rparr>)"
| day_cycle: "shadow_day rd (m, s) \<Longrightarrow> evaluatePositions rd pow env m = (m', effs) \<Longrightarrow> shadow_day rd (m', feed effs s)"
| day_exit: "shadow_day rd (m, s) \<Longrightarrow> shadow_day rd (m, handleExitTriggered rd now ev s)"
| day_report: "shadow_day rd (m, s) \<Longrightarrow> shadow_day rd (m, fst (emitDailySummary rd s))"

definition shadow_inv :: "shadow_state \<Rightarrow> bool" where
  "shadow_inv s \<longleftrightarrow> list_all agreement_sound (ssComparisons s) \<and> length (ssComparisons s) \<le> MAX_SHADOW_COMPARISONS"

lemma handle_inv: "agreement_sound ev \<Longrightarrow> shadow_inv s \<Longrightarrow> shadow_inv (handleShadowComparison ev s)"
  by (auto simp: shadow_inv_def handleShadowComparison_def Let_def list_all_iff dest: in_set_dropD)

lemma feed_events_inv:
  "list_all agreement_sound evs \<Longrightarrow> shadow_inv s \<Longrightarrow> shadow_inv (foldl (\<lambda>s ev. handleShadowComparison ev s) s evs)"
  by (induction evs arbitrary: s) (simp_all add: handle_inv)

lemma day_inv: "shadow_day rd x \<Longrightarrow> shadow_inv (snd x)"
proof (induction rule: shadow_day.induct)
  case (day_cycle m s pow env m' effs)
  have "list_all sound_effect effs" using cycle_sound [of rd pow env m] day_cycle.hyps(2) by simp
  then show ?case using day_cycle.IH by (simp add: feed_def feed_events_inv sound_events)
qed (auto simp: shadow_inv_def handleExitTriggered_def emitDailySummary_def Let_def)

lemma sound_disagreements:
  "list_all agreement_sound cs \<Longrightarrow> filter (\<lambda>c. \<not> seAgreement c) cs = filter (\<lambda>c. fst (seFixed c) \<noteq> fst (seModel c)) cs"
  by (induction cs) (auto simp: agreement_sound_def)

lemma triggers_differ:
  "length (filter P xs) \<le> length (filter Q xs) + length (filter (\<lambda>x. P x \<noteq> Q x) xs)"
  "length (filter Q xs) \<le> length (filter P xs) + length (filter (\<lambda>x. P x \<noteq> Q x) xs)"
  by (induction xs) auto

text \<open>
  at any moment the day's summary covers at most fifty thousand comparisons, each counted as an
  agreement or a disagreement; the disagreements are exactly those in which one of the two modes
  triggered alone, so the numbers of triggers differ by no more than them; and the count of a
  criterion is the number of its triggers over all kept comparisons.
\<close>
theorem shadow_summary_consistent:
  assumes "shadow_day rd (m, s)"
  defines "d \<equiv> generateDailySummary rd s"
  shows "dsAgree d + dsDisagree d = dsTotal d \<and> dsTotal d \<le> 50000
    \<and> dsDisagree d = length (filter (\<lambda>c. fst (seFixed c) \<noteq> fst (seModel c)) (ssComparisons s))
    \<and> dsFixedTriggers d \<le> dsModelTriggers d + dsDisagree d \<and> dsModelTriggers d \<le> dsFixedTriggers d + dsDisagree d
    \<and> or_default (map_of (dsByCriterion d) k) 0
        = length (filter (\<lambda>c. cr_triggered c \<and> cr_criterion c = k) (concat (map seCriteria (ssComparisons s))))"
proof -
  have inv: "list_all agreement_sound (ssComparisons s)" "length (ssComparisons s) \<le> 50000"
    using day_inv [OF assms(1)] by (simp_all add: shadow_inv_def MAX_SHADOW_COMPARISONS_def)
  have "or_default (map_of zero_counts k) 0 = 0" by (cases k) (simp_all add: zero_counts_def or_default_def)
  moreover have "length (filter seAgreement (ssComparisons s)) + length (filter (\<lambda>c. \<not> seAgreement c) (ssComparisons s))
      = length (ssComparisons s)" by (rule sum_length_filter_compl)
  ultimately show ?thesis
    using inv triggers_differ [where P = "\<lambda>c. fst (seFixed c)" and Q = "\<lambda>c. fst (seModel c)" and xs = "ssComparisons s"]
    by (simp add: d_def generateDailySummary_def summary_counts criterion_total sound_disagreements)
qed

theorem shadow_summary_consistent_witness:
  "dsTotal (generateDailySummary dec20 \<lparr>ssComparisons = [], ssClosed = []\<rparr>) \<le> 50000"
  using shadow_summary_consistent [OF day_start [of dec20 "\<lparr>moFailures = 0, moSkip = False, moStale = [], moConfig = sample_monitor_config\<rparr>"]] by blast

end
