(* ===== verification/Exposure.thy ===== *)
theory Exposure
  imports Prelude
begin

text \<open>
  \<^verbatim>\<open>ExposureTrackerService\<close>: single-leg exposures are counted per UTC month and per ISO
  week; more than five in a month and three breached weeks are reported.  At start-up the counters
  are rebuilt from the positions that are still exposed.  Keys are the numbers of their texts, year
  and month or year and week; dates are computed as ECMAScript defines them.
\<close>

section \<open>Dates\<close>

definition day_of :: "timestamp \<Rightarrow> int" where
  "day_of t = t div 86400000"

definition week_day :: "int \<Rightarrow> int" where
  "week_day d = (d + 4) mod 7"

definition day_from_year :: "int \<Rightarrow> int" where
  "day_from_year y = 365 * (y - 1970) + (y - 1969) div 4 - (y - 1901) div 100 + (y - 1601) div 400"

text \<open>The year of a day: the estimate of the average year, moved by one where it misses.\<close>

definition year_of_day :: "int \<Rightarrow> int" where
  "year_of_day d =
     (let y = 1970 + (d * 400) div 146097 in
      if d < day_from_year y then y - 1 else if day_from_year (y + 1) \<le> d then y + 1 else y)"

definition is_leap :: "int \<Rightarrow> bool" where
  "is_leap y \<longleftrightarrow> y mod 4 = 0 \<and> (y mod 100 \<noteq> 0 \<or> y mod 400 = 0)"

text \<open>The day of the year on which each month begins.\<close>

definition month_starts :: "int \<Rightarrow> int list" where
  "month_starts y = (let l = (if is_leap y then 1 else 0) in
     [0, 31, 59 + l, 90 + l, 120 + l, 151 + l, 181 + l, 212 + l, 243 + l, 273 + l, 304 + l, 334 + l])"

definition month_of_day :: "int \<Rightarrow> int" where
  "month_of_day d =
     (let y = year_of_day d in int (length (filter (\<lambda>s. s \<le> d - day_from_year y) (month_starts y))))"

definition getMonthKey :: "timestamp \<Rightarrow> int \<times> int" where
  "getMonthKey t = (year_of_day (day_of t), month_of_day (day_of t))"

definition iso_thursday :: "int \<Rightarrow> int" where
  "iso_thursday d = d + 4 - (if week_day d = 0 then 7 else week_day d)"

definition getIsoWeekKey :: "timestamp \<Rightarrow> int \<times> int" where
  "getIsoWeekKey t =
     (let thursday = iso_thursday (day_of t); y = year_of_day thursday in
      (y, \<lceil>(of_int (thursday - day_from_year y) + 1) / (7 :: rat)\<rceil>))"

section \<open>State\<close>

record exposure_state =
  monthlyExposures :: "((int \<times> int) \<times> nat) list"
  weeklyExposures :: "((int \<times> int) \<times> nat) list"
  consecutiveBreachedWeeks :: nat
  lastEvaluatedWeek :: "(int \<times> int) option"

datatype exposure_event =
    MonthlyExposure nat "int \<times> int"
  | WeeklyConsecutive nat nat "int \<times> int"

definition MONTHLY_THRESHOLD :: nat where "MONTHLY_THRESHOLD = 5"
definition WEEKLY_CONSECUTIVE_THRESHOLD :: nat where "WEEKLY_CONSECUTIVE_THRESHOLD = 3"

definition fresh_exposures :: exposure_state where
  "fresh_exposures = \<lparr>monthlyExposures = [], weeklyExposures = [], consecutiveBreachedWeeks = 0, lastEvaluatedWeek = None\<rparr>"

definition counted :: "('k \<times> nat) list \<Rightarrow> 'k \<Rightarrow> nat" where
  "counted m k = (case map_of m k of Some n \<Rightarrow> n | None \<Rightarrow> 0)"

definition bump :: "'k \<Rightarrow> ('k \<times> nat) list \<Rightarrow> ('k \<times> nat) list" where
  "bump k m = map_set k (counted m k + 1) m"

section \<open>An exposure\<close>

definition evaluateWeeklyConsecutive ::
  "int \<times> int \<Rightarrow> nat \<Rightarrow> exposure_state \<Rightarrow> exposure_state \<times> exposure_event list" where
  "evaluateWeeklyConsecutive week count s =
     (let consecutive = (case lastEvaluatedWeek s of
            Some w \<Rightarrow> (if w \<noteq> week then (if counted (weeklyExposures s) w > 1 then consecutiveBreachedWeeks s + 1 else 0)
                      else consecutiveBreachedWeeks s)
          | None \<Rightarrow> consecutiveBreachedWeeks s)
      in (s\<lparr>consecutiveBreachedWeeks := consecutive, lastEvaluatedWeek := Some week\<rparr>,
          if count > 1 \<and> consecutive \<ge> WEEKLY_CONSECUTIVE_THRESHOLD - 1
          then [WeeklyConsecutive (consecutive + 1) count week] else []))"

definition onExposure :: "timestamp \<Rightarrow> exposure_state \<Rightarrow> exposure_state \<times> exposure_event list" where
  "onExposure now s =
     (let month = getMonthKey now; week = getIsoWeekKey now;
          s1 = s\<lparr>monthlyExposures := bump month (monthlyExposures s), weeklyExposures := bump week (weeklyExposures s)\<rparr>;
          monthCount = counted (monthlyExposures s1) month; weekCount = counted (weeklyExposures s1) week;
          (s2, evs) = evaluateWeeklyConsecutive week weekCount s1
      in (s2, (if monthCount > MONTHLY_THRESHOLD then [MonthlyExposure monthCount month] else []) @ evs))"

section \<open>Weeks\<close>

text \<open>Weeks are numbered from Monday to Sunday; the key tells two weeks apart.\<close>

definition week_index :: "timestamp \<Rightarrow> int" where
  "week_index t = (day_of t + 3) div 7"

lemma iso_thursday_eq: "iso_thursday d = 7 * ((d + 3) div 7)"
proof -
  define q r where "q = (d + 4) div 7" and "r = (d + 4) mod 7"
  have d: "d + 3 = (r - 1) + q * 7" and r: "0 \<le> r" "r < 7" by (simp_all add: q_def r_def)
  have e: "(d + 3) div 7 = q + (r - 1) div 7" by (simp only: d div_mult_self1)
  show ?thesis
  proof (cases "r = 0")
    case True
    have "(r - 1) div 7 = - 1" by (simp add: True)
    then show ?thesis using d True unfolding iso_thursday_def week_day_def r_def [symmetric] e by simp
  next
    case False
    then have "(r - 1) div 7 = 0" using r by simp
    then show ?thesis using d False unfolding iso_thursday_def week_day_def r_def [symmetric] e by simp
  qed
qed

definition week_key :: "int \<Rightarrow> int \<times> int" where
  "week_key w = (let y = year_of_day (7 * w) in (y, \<lceil>(of_int (7 * w - day_from_year y) + 1) / (7 :: rat)\<rceil>))"

lemma getIsoWeekKey_eq: "getIsoWeekKey t = week_key (week_index t)"
  by (simp add: getIsoWeekKey_def week_key_def week_index_def iso_thursday_eq)

lemma ceiling_seventh: "\<lceil>of_int n / (7 :: rat)\<rceil> = (n + 6) div 7"
proof (rule ceiling_unique)
  define z where "z = (n + 6) div 7"
  have "7 * z - 7 < n" "n \<le> 7 * z" using pos_mod_bound [of 7 "n + 6"] pos_mod_sign [of 7 "n + 6"]
    by (simp_all add: z_def minus_mod_eq_mult_div [symmetric])
  then have "(of_int (7 * z - 7) :: rat) < of_int n" "(of_int n :: rat) \<le> of_int (7 * z)"
    by (simp_all only: of_int_less_iff of_int_le_iff)
  then show "of_int ((n + 6) div 7) - 1 < of_int n / (7 :: rat)" "of_int n / (7 :: rat) \<le> of_int ((n + 6) div 7)"
    by (simp_all add: z_def [symmetric])
qed

lemma inj_week_key: "inj week_key"
proof (rule injI)
  fix v w assume eq: "week_key v = week_key w"
  define y where "y = year_of_day (7 * w)"
  have "\<lceil>(of_int (7 * v - day_from_year y) + 1) / (7 :: rat)\<rceil> = \<lceil>(of_int (7 * w - day_from_year y) + 1) / (7 :: rat)\<rceil>"
    using eq unfolding week_key_def Let_def y_def by (metis prod.inject)
  then have "(7 * v - day_from_year y + 1 + 6) div 7 = (7 * w - day_from_year y + 1 + 6) div 7"
    using ceiling_seventh [of "7 * v - day_from_year y + 1"] ceiling_seventh [of "7 * w - day_from_year y + 1"] by simp
  moreover have "(7 * x - day_from_year y + 1 + 6) div 7 = x + (7 - day_from_year y) div 7" for x
    using div_mult_self1 [of 7 "7 - day_from_year y" x] by (simp add: algebra_simps)
  ultimately show "v = w" by simp
qed

lemma week_keys_agree: "getIsoWeekKey t = getIsoWeekKey t' \<longleftrightarrow> week_index t = week_index t'"
  by (simp add: getIsoWeekKey_eq inj_eq [OF inj_week_key])

lemma week_index_mono: "t \<le> t' \<Longrightarrow> week_index t \<le> week_index t'"
  by (simp add: week_index_def day_of_def zdiv_mono1)

section \<open>Counts\<close>

lemma counted_bump: "counted (bump k m) j = counted m j + (if j = k then 1 else 0)"
  by (auto simp: counted_def bump_def update_conv)

fun exposures :: "timestamp list \<Rightarrow> exposure_state \<Rightarrow> exposure_state \<times> exposure_event list" where
  "exposures [] s = (s, [])"
| "exposures (t # ts) s =
     (let (s1, evs) = onExposure t s; (s2, evs') = exposures ts s1 in (s2, evs @ evs'))"

definition exposed :: "timestamp list \<Rightarrow> exposure_state" where
  "exposed ts = fst (exposures ts fresh_exposures)"

lemma exposures_append:
  "fst (exposures (ts @ us) s) = fst (exposures us (fst (exposures ts s)))"
  by (induction ts arbitrary: s) (simp_all add: split_beta Let_def)

lemma exposed_snoc: "exposed (ts @ [t]) = fst (onExposure t (exposed ts))"
  by (simp add: exposed_def exposures_append split_beta Let_def)

lemma exposed_Nil: "exposed [] = fresh_exposures"
  by (simp add: exposed_def)

lemma onExposure_state:
  "monthlyExposures (fst (onExposure t s)) = bump (getMonthKey t) (monthlyExposures s)"
  "weeklyExposures (fst (onExposure t s)) = bump (getIsoWeekKey t) (weeklyExposures s)"
  "lastEvaluatedWeek (fst (onExposure t s)) = Some (getIsoWeekKey t)"
  by (simp_all add: onExposure_def evaluateWeeklyConsecutive_def Let_def split_beta)

lemma onExposure_consecutive:
  "consecutiveBreachedWeeks (fst (onExposure t s)) =
     (case lastEvaluatedWeek s of
        Some w \<Rightarrow> (if w \<noteq> getIsoWeekKey t
          then (if counted (weeklyExposures s) w > 1 then consecutiveBreachedWeeks s + 1 else 0) else consecutiveBreachedWeeks s)
      | None \<Rightarrow> consecutiveBreachedWeeks s)"
  by (auto simp: onExposure_def evaluateWeeklyConsecutive_def Let_def counted_bump split: option.splits)

lemma exposed_counts:
  "counted (monthlyExposures (exposed ts)) m = count_list (map getMonthKey ts) m"
  "counted (weeklyExposures (exposed ts)) w = count_list (map getIsoWeekKey ts) w"
  by (induction ts rule: rev_induct)
    (simp_all add: exposed_Nil exposed_snoc onExposure_state counted_bump, simp_all add: fresh_exposures_def counted_def)

section \<open>Consecutive weeks\<close>

text \<open>The weeks that saw an exposure, in order.\<close>

definition active_weeks :: "timestamp list \<Rightarrow> (int \<times> int) list" where
  "active_weeks ts = remdups_adj (map getIsoWeekKey ts)"

lemma distinct_remdups_adj_sorted: "sorted (xs :: int list) \<Longrightarrow> distinct (remdups_adj xs)"
proof -
  have "sorted xs \<Longrightarrow> sorted_wrt (<) (remdups_adj xs)"
  proof (induction xs rule: remdups_adj.induct)
    case (3 x y xs)
    then show ?case by (cases "x = y") (force simp: less_le)+
  qed simp_all
  then show "sorted xs \<Longrightarrow> distinct (remdups_adj xs)" by (simp add: strict_sorted_iff)
qed

lemma active_weeks_distinct:
  assumes "sorted ts"
  shows "distinct (active_weeks ts)"
proof -
  have "map getIsoWeekKey ts = map week_key (map week_index ts)" by (simp add: getIsoWeekKey_eq)
  then have "active_weeks ts = map week_key (remdups_adj (map week_index ts))"
    by (simp only: active_weeks_def remdups_adj_map_injective [OF inj_week_key])
  moreover have "sorted (map week_index ts)" using assms by (simp add: sorted_wrt_map sorted_wrt_mono_rel [OF week_index_mono])
  ultimately show ?thesis
    using distinct_remdups_adj_sorted by (simp add: distinct_map inj_on_subset [OF inj_week_key subset_UNIV])
qed

lemma active_weeks_snoc:
  assumes "ts \<noteq> []"
  shows "active_weeks (ts @ [t]) =
    (if last (active_weeks ts) = getIsoWeekKey t then active_weeks ts else active_weeks ts @ [getIsoWeekKey t])"
proof -
  have "remdups_adj (xs @ [x]) = (if last (remdups_adj xs) = x then remdups_adj xs else remdups_adj xs @ [x])"
    if "xs \<noteq> []" for xs :: "(int \<times> int) list" and x
    using that by (induction xs rule: remdups_adj.induct) (auto split: if_splits)
  then show ?thesis using assms by (simp add: active_weeks_def)
qed

lemma takeWhile_rev_cong: "(\<And>x. x \<in> set xs \<Longrightarrow> P x = Q x) \<Longrightarrow> takeWhile P (rev xs) = takeWhile Q (rev xs)"
  by (rule takeWhile_cong) auto

lemma active_weeks_set: "set (active_weeks ts) = getIsoWeekKey ` set ts"
  by (simp add: active_weeks_def)

lemma breached_weeks_count:
  assumes "sorted ts" "ts \<noteq> []"
  shows "lastEvaluatedWeek (exposed ts) = Some (last (active_weeks ts))
    \<and> consecutiveBreachedWeeks (exposed ts)
      = length (takeWhile (\<lambda>w. count_list (map getIsoWeekKey ts) w > 1) (rev (butlast (active_weeks ts))))"
  using assms
proof (induction ts rule: rev_induct)
  case (snoc t ts)
  show ?case
  proof (cases "ts = []")
    case True
    then show ?thesis
      by (simp add: exposed_def onExposure_state onExposure_consecutive active_weeks_def fresh_exposures_def split_beta Let_def)
  next
    case False
    let ?k = "getIsoWeekKey t"
    have s: "sorted ts" using snoc.prems(1) by (simp add: sorted_append)
    note IH = snoc.IH [OF s False]
    have ne: "active_weeks ts \<noteq> []" using False by (simp add: active_weeks_def)
    have d: "distinct (active_weeks (ts @ [t]))" by (rule active_weeks_distinct [OF snoc.prems(1)])
    show ?thesis
    proof (cases "last (active_weeks ts) = ?k")
      case True
      then have "?k \<notin> set (butlast (active_weeks ts))"
        using active_weeks_distinct [OF s] ne by (metis append_butlast_last_id distinct_append disjoint_iff list.set_intros(1))
      then have "takeWhile (\<lambda>w. count_list (map getIsoWeekKey (ts @ [t])) w > 1) (rev (butlast (active_weeks ts)))
          = takeWhile (\<lambda>w. count_list (map getIsoWeekKey ts) w > 1) (rev (butlast (active_weeks ts)))"
        by (intro takeWhile_rev_cong) auto
      then show ?thesis
        using IH True by (simp add: exposed_snoc onExposure_state onExposure_consecutive active_weeks_snoc [OF False])
    next
      case new: False
      then have k: "?k \<notin> set (active_weeks ts)" using d by (simp add: active_weeks_snoc [OF False])
      then have c: "count_list (map getIsoWeekKey (ts @ [t])) w = count_list (map getIsoWeekKey ts) w" if "w \<in> set (active_weeks ts)" for w
        using that by auto
      have l: "last (active_weeks ts) \<in> set (active_weeks ts)" using ne by simp
      have b: "active_weeks ts = butlast (active_weeks ts) @ [last (active_weeks ts)]" using ne by simp
      have tw: "takeWhile (\<lambda>w. count_list (map getIsoWeekKey (ts @ [t])) w > 1) (rev (active_weeks ts))
          = takeWhile (\<lambda>w. count_list (map getIsoWeekKey ts) w > 1) (rev (active_weeks ts))"
        by (intro takeWhile_rev_cong) (simp only: c)
      have r: "rev (active_weeks ts) = last (active_weeks ts) # rev (butlast (active_weeks ts))" by (subst b) simp
      have "length (takeWhile (\<lambda>w. count_list (map getIsoWeekKey (ts @ [t])) w > 1) (rev (butlast (active_weeks (ts @ [t])))))
          = consecutiveBreachedWeeks (exposed (ts @ [t]))"
        unfolding active_weeks_snoc [OF False] if_not_P [OF new] butlast_snoc tw
        unfolding r
        using IH new by (simp add: exposed_snoc onExposure_consecutive exposed_counts)
      then show ?thesis
        using new by (simp add: exposed_snoc onExposure_state active_weeks_snoc [OF False])
    qed
  qed
qed simp

text \<open>
  over exposures in time order the counter of breached weeks is the number of weeks with more
  than one exposure that end the list of weeks that saw any exposure, the last week left out:
  weeks without an exposure do not interrupt it.
\<close>
theorem breached_weeks_count_active_weeks:
  assumes "sorted ts" "ts \<noteq> []"
  shows "lastEvaluatedWeek (exposed ts) = Some (last (active_weeks ts))
    \<and> consecutiveBreachedWeeks (exposed ts)
      = length (takeWhile (\<lambda>w. count_list (map getIsoWeekKey ts) w > 1) (rev (butlast (active_weeks ts))))"
  by (rule breached_weeks_count [OF assms])

theorem breached_weeks_count_active_weeks_witness:
  "lastEvaluatedWeek (exposed [0, 1]) = Some (last (active_weeks [0, 1]))"
  using breached_weeks_count_active_weeks [of "[0, 1]"] by simp

lemma onExposure_events:
  assumes "counted (weeklyExposures s) (getIsoWeekKey t) \<ge> 1" "lastEvaluatedWeek s = Some (getIsoWeekKey t)"
    and "consecutiveBreachedWeeks s \<ge> 2"
  shows "WeeklyConsecutive (consecutiveBreachedWeeks s + 1) (counted (weeklyExposures s) (getIsoWeekKey t) + 1) (getIsoWeekKey t)
    \<in> set (snd (onExposure t s))"
  using assms by (simp add: onExposure_def evaluateWeeklyConsecutive_def Let_def split_beta counted_bump WEEKLY_CONSECUTIVE_THRESHOLD_def)

text \<open>
  two exposures in each of three weeks raise the alert of three consecutive weeks at the sixth
  exposure, however many quiet weeks lie between them.
\<close>
theorem breach_reported_across_gaps:
  assumes "sorted [t1, t2, t3, t4, t5, t6]"
    and "week_index t1 = week_index t2" "week_index t3 = week_index t4" "week_index t5 = week_index t6"
    and "week_index t2 < week_index t3" "week_index t4 < week_index t5"
  shows "WeeklyConsecutive 3 2 (getIsoWeekKey t6) \<in> set (snd (onExposure t6 (exposed [t1, t2, t3, t4, t5])))"
proof -
  have k: "getIsoWeekKey t1 = getIsoWeekKey t2" "getIsoWeekKey t3 = getIsoWeekKey t4" "getIsoWeekKey t5 = getIsoWeekKey t6"
    "getIsoWeekKey t2 \<noteq> getIsoWeekKey t4" "getIsoWeekKey t4 \<noteq> getIsoWeekKey t6" "getIsoWeekKey t2 \<noteq> getIsoWeekKey t6"
    using assms(2-6) by (auto simp: week_keys_agree)
  have "sorted [t1, t2, t3, t4, t5]" using assms(1) by simp
  then have c: "consecutiveBreachedWeeks (exposed [t1, t2, t3, t4, t5]) = 2"
    "lastEvaluatedWeek (exposed [t1, t2, t3, t4, t5]) = Some (getIsoWeekKey t6)"
    using breached_weeks_count [of "[t1, t2, t3, t4, t5]"] k by (auto simp: active_weeks_def)
  moreover have "counted (weeklyExposures (exposed [t1, t2, t3, t4, t5])) (getIsoWeekKey t6) = 1"
    using k by (simp add: exposed_counts)
  ultimately show ?thesis
    using onExposure_events [of "exposed [t1, t2, t3, t4, t5]" t6] by (simp add: numeral_eq_Suc)
qed

theorem breach_reported_across_gaps_witness:
  "WeeklyConsecutive 3 2 (getIsoWeekKey 7776000001)
     \<in> set (snd (onExposure 7776000001 (exposed [0, 1, 2592000000, 2592000001, 7776000000])))"
  by (rule breach_reported_across_gaps) (simp_all add: week_index_def day_of_def)

section \<open>The rebuild at start-up\<close>

text \<open>The walk goes back week by week while a week holds more than one exposed position.\<close>

definition WEEK_MS :: int where "WEEK_MS = 604800000"

lemma week_index_back: "week_index (t - WEEK_MS * int k) = week_index t - int k"
proof -
  have "t - WEEK_MS * int k = t + (- 7 * int k) * 86400000" by (simp add: WEEK_MS_def)
  then have "day_of (t - WEEK_MS * int k) = day_of t - 7 * int k"
    unfolding day_of_def using div_mult_self1 [of 86400000 t "- 7 * int k"] by (simp only:)
  then show ?thesis
    using div_mult_self1 [of 7 "day_of t + 3" "- int k"] by (simp add: week_index_def algebra_simps)
qed

definition breached_back :: "((int \<times> int) \<times> nat) list \<Rightarrow> timestamp \<Rightarrow> nat set" where
  "breached_back counts t = {k. counted counts (getIsoWeekKey (t - WEEK_MS * int k)) > 1}"

lemma finite_breached_back: "finite (breached_back counts t)"
proof (rule inj_on_finite)
  show "inj_on (\<lambda>k. getIsoWeekKey (t - WEEK_MS * int k)) (breached_back counts t)"
    by (rule inj_onI) (simp add: week_keys_agree week_index_back)
  show "(\<lambda>k. getIsoWeekKey (t - WEEK_MS * int k)) ` breached_back counts t \<subseteq> fst ` set counts"
  proof (rule image_subsetI)
    fix k assume "k \<in> breached_back counts t"
    then obtain n where "map_of counts (getIsoWeekKey (t - WEEK_MS * int k)) = Some n"
      by (auto simp: breached_back_def counted_def split: option.splits)
    then show "getIsoWeekKey (t - WEEK_MS * int k) \<in> fst ` set counts" by (force dest: map_of_SomeD)
  qed
qed simp

lemma breached_back_Suc: "breached_back counts (t - WEEK_MS) = {k. Suc k \<in> breached_back counts t}"
  by (simp add: breached_back_def algebra_simps)

lemma breached_back_less:
  assumes "counted counts (getIsoWeekKey t) > 1"
  shows "card (breached_back counts (t - WEEK_MS)) < card (breached_back counts t)"
proof -
  have "card (breached_back counts (t - WEEK_MS)) = card (Suc ` breached_back counts (t - WEEK_MS))"
    by (simp add: card_image)
  moreover have "Suc ` breached_back counts (t - WEEK_MS) \<subset> breached_back counts t"
  proof -
    have "0 \<in> breached_back counts t" using assms by (simp add: breached_back_def)
    then show ?thesis by (auto simp: breached_back_Suc)
  qed
  ultimately show ?thesis using psubset_card_mono [OF finite_breached_back] by metis
qed

function breached_walk :: "((int \<times> int) \<times> nat) list \<Rightarrow> timestamp \<Rightarrow> nat \<Rightarrow> nat" where
  "breached_walk counts t n =
     (if counted counts (getIsoWeekKey t) > 1 then breached_walk counts (t - WEEK_MS) (n + 1) else n)"
  by pat_completeness auto
termination
  by (relation "measure (\<lambda>(counts, t, n). card (breached_back counts t))") (simp_all add: breached_back_less)

declare breached_walk.simps [simp del]

text \<open>\<open>Inl\<close> is a failed query; the counters then stay as they are.\<close>

definition rebuildFromDb :: "string + timestamp list \<Rightarrow> timestamp \<Rightarrow> exposure_state \<Rightarrow> exposure_state" where
  "rebuildFromDb answer now s =
     (case answer of
        Inl _ \<Rightarrow> s
      | Inr created \<Rightarrow>
          let currentMonth = getMonthKey now; currentWeek = getIsoWeekKey now;
              monthly = foldl (\<lambda>m c. if getMonthKey c = currentMonth then bump (getMonthKey c) m else m) (monthlyExposures s) created;
              weekly = foldl (\<lambda>m c. if getIsoWeekKey c = currentWeek then bump (getIsoWeekKey c) m else m) (weeklyExposures s) created;
              weeklyCounts = foldl (\<lambda>m c. bump (getIsoWeekKey c) m) [] created;
              consecutive = breached_walk weeklyCounts (now - WEEK_MS) 0
          in \<lparr>monthlyExposures = monthly, weeklyExposures = weekly, consecutiveBreachedWeeks = consecutive,
              lastEvaluatedWeek = (if consecutive > 0 then Some currentWeek else lastEvaluatedWeek s)\<rparr>)"

lemma walk_counts:
  "\<exists>n. breached_walk counts t m = m + n \<and> (\<forall>k < n. k \<in> breached_back counts t) \<and> n \<notin> breached_back counts t"
proof (induction counts t m rule: breached_walk.induct)
  case (1 counts t m)
  show ?case
  proof (cases "counted counts (getIsoWeekKey t) > 1")
    case True
    from 1 [OF this] obtain n where n: "breached_walk counts (t - WEEK_MS) (m + 1) = m + 1 + n"
      "\<forall>k < n. k \<in> breached_back counts (t - WEEK_MS)" "n \<notin> breached_back counts (t - WEEK_MS)" by blast
    have "0 \<in> breached_back counts t" using True by (simp add: breached_back_def)
    then have "\<forall>k < Suc n. k \<in> breached_back counts t" using n(2) by (auto simp: breached_back_Suc less_Suc_eq_0_disj)
    then show ?thesis using n(1,3) True
      by (intro exI [of _ "Suc n"]) (simp add: breached_walk.simps [of counts t m] breached_back_Suc)
  next
    case False
    then show ?thesis by (intro exI [of _ 0]) (simp add: breached_walk.simps [of counts t m] breached_back_def)
  qed
qed

lemma counted_all: "counted (foldl (\<lambda>m c. bump (f c) m) m cs) k = counted m k + count_list (map f cs) k"
  by (induction cs arbitrary: m) (simp_all add: counted_bump)

lemma count_distinct_le: "distinct ks \<Longrightarrow> sum_list (map (count_list xs) ks) \<le> length xs"
proof (induction xs)
  case (Cons x xs)
  have "sum_list (map (count_list (x # xs)) ks) = sum_list (map (count_list xs) ks) + count_list ks x"
    by (induction ks) simp_all
  moreover have "count_list ks x \<le> 1" using Cons.prems by (induction ks) (auto simp: count_list_0_iff)
  ultimately show ?case using Cons.IH [OF Cons.prems] by (simp del: count_list.simps)
qed (simp add: sum_list_0)

text \<open>
  the start-up walk ends, after at most half as many weeks as there are exposed positions, and
  its count is the number of weeks directly before the current one that each hold more than one
  exposed position.
\<close>
theorem rebuild_walk_ends:
  "\<exists>n. consecutiveBreachedWeeks (rebuildFromDb (Inr created) now s) = n \<and> 2 * n \<le> length created
    \<and> list_all (\<lambda>k. count_list (map getIsoWeekKey created) (getIsoWeekKey (now - WEEK_MS * int (Suc k))) > 1) [0..<n]
    \<and> count_list (map getIsoWeekKey created) (getIsoWeekKey (now - WEEK_MS * int (Suc n))) \<le> 1"
proof -
  let ?counts = "foldl (\<lambda>m c. bump (getIsoWeekKey c) m) [] created"
  let ?key = "\<lambda>k. getIsoWeekKey (now - WEEK_MS * int (Suc k))"
  have c: "counted ?counts w = count_list (map getIsoWeekKey created) w" for w
    by (simp add: counted_all) (simp add: counted_def)
  have b: "k \<in> breached_back ?counts (now - WEEK_MS) \<longleftrightarrow> count_list (map getIsoWeekKey created) (?key k) > 1" for k
    by (simp add: breached_back_def c algebra_simps)
  obtain n where n: "breached_walk ?counts (now - WEEK_MS) 0 = n"
    "\<forall>k < n. count_list (map getIsoWeekKey created) (?key k) > 1" "\<not> count_list (map getIsoWeekKey created) (?key n) > 1"
    using walk_counts [of ?counts "now - WEEK_MS" 0] unfolding b by auto
  have d: "distinct (map ?key [0..<n])"
    by (simp add: distinct_map inj_on_def week_keys_agree week_index_back del: of_nat_Suc)
  have "2 * n = sum_list (map (\<lambda>k. 2) [0..<n])" by (simp add: sum_list_triv)
  also have "\<dots> \<le> sum_list (map (\<lambda>k. count_list (map getIsoWeekKey created) (?key k)) [0..<n])"
    using n(2) by (intro sum_list_mono) (auto simp: numeral_2_eq_2 Suc_le_eq)
  also have "\<dots> = sum_list (map (count_list (map getIsoWeekKey created)) (map ?key [0..<n]))" by (simp add: comp_def)
  also have "\<dots> \<le> length created" using count_distinct_le [OF d, of "map getIsoWeekKey created"] by (simp del: of_nat_Suc)
  finally show ?thesis using n by (auto simp: rebuildFromDb_def Let_def not_less list_all_iff)
qed

end
