(* ===== verification/Resolution.thy ===== *)
theory Resolution
  imports PositionClose
begin

text \<open>
  A position that is exposed on one leg: \<^verbatim>\<open>SingleLegResolutionService\<close> retries the
  missing leg or closes the filled one, \<^verbatim>\<open>single-leg-pnl.util\<close> estimates what either
  would give, and \<^verbatim>\<open>AutoUnwindService\<close> closes the filled leg by itself when an exposure
  is reported.  Connectors and repositories answer through the environment; log lines and the texts
  of errors are left out, so an estimate is its figures and an error its code.
\<close>

section \<open>Estimates\<close>

definition fee_rate_at :: "decimal \<Rightarrow> (jsnum \<Rightarrow> jsnum) option \<Rightarrow> jsnum \<Rightarrow> decimal" where
  "fee_rate_at flat f p = (case f of Some g \<Rightarrow> to_decimal (g p) | None \<Rightarrow> flat)"

text \<open>Two prices per platform, best bid and best ask.\<close>

type_synonym platform_prices = "platform \<Rightarrow> jsnum option \<times> jsnum option"

definition calcCloseNow ::
  "(rat \<Rightarrow> rat) \<Rightarrow> platform \<Rightarrow> order_side \<Rightarrow> jsnum \<Rightarrow> jsnum \<Rightarrow> platform_prices \<Rightarrow> decimal \<Rightarrow> (jsnum \<Rightarrow> jsnum) option
     \<Rightarrow> decimal option" where
  "calcCloseNow rd filledPlatform filledSide fillPrice fillSz prices takerFee takerFeeFor =
     (case (if filledSide = Buy then fst (prices filledPlatform) else snd (prices filledPlatform)) of
        None \<Rightarrow> None
      | Some unwindPrice \<Rightarrow>
          let f = to_decimal fillPrice; u = to_decimal unwindPrice; n = to_decimal fillSz;
              fee = fee_rate_at takerFee takerFeeFor unwindPrice;
              pnl = (if filledSide = Buy then xmul rd (xsub rd u f) n else xmul rd (xsub rd f u) n)
          in Some (to_fixed 2 (xsub rd pnl (xmul rd (xmul rd u n) fee))))"

text \<open>Whether a retry would yield an edge, and the percentage shown.\<close>

definition calcRetry ::
  "(rat \<Rightarrow> rat) \<Rightarrow> jsnum \<Rightarrow> platform \<Rightarrow> order_side \<Rightarrow> platform_prices \<Rightarrow> decimal \<Rightarrow> decimal
     \<Rightarrow> (jsnum \<Rightarrow> jsnum) option \<Rightarrow> (jsnum \<Rightarrow> jsnum) option \<Rightarrow> (bool \<times> decimal) option" where
  "calcRetry rd fillPrice secondaryPlatform secondarySide prices takerFee secondaryFee takerFeeFor secondaryFeeFor =
     (case (if secondarySide = Sell then fst (prices secondaryPlatform) else snd (prices secondaryPlatform)) of
        None \<Rightarrow> None
      | Some current \<Rightarrow>
          let f = to_decimal fillPrice; s = to_decimal current;
              grossEdge = xabs (xsub rd f s);
              filledFee = xmul rd f (fee_rate_at takerFee takerFeeFor fillPrice);
              otherFee = xmul rd s (fee_rate_at secondaryFee secondaryFeeFor current);
              netEdge = xsub rd (xsub rd grossEdge filledFee) otherFee;
              avgPrice = xdiv rd (xadd rd f s) (Fin 2);
              edgePercent = (if is_zero avgPrice then Fin 0 else xmul rd (xdiv rd netEdge avgPrice) (Fin 100))
          in Some (if xgt netEdge (Fin 0) then (True, to_fixed 2 edgePercent)
                   else (False, to_fixed 2 (xabs edgePercent))))"

text \<open>The exposure in USD, and whether no price at all is known.\<close>

definition calcHold :: "(rat \<Rightarrow> rat) \<Rightarrow> jsnum \<Rightarrow> jsnum \<Rightarrow> platform_prices \<Rightarrow> decimal \<times> bool" where
  "calcHold rd fillPrice fillSz prices =
     (to_fixed 2 (xmul rd (to_decimal fillPrice) (to_decimal fillSz)),
      prices Kalshi = (None, None) \<and> prices Polymarket = (None, None))"

record pnl_scenarios =
  psCloseNow :: "decimal option"
  psRetry :: "(bool \<times> decimal) option"
  psHold :: "decimal \<times> bool"

datatype recommended_action = RetrySecondary decimal | CloseFilled decimal | MonitorPosition

definition buildRecommendedActions :: "pnl_scenarios \<Rightarrow> recommended_action list" where
  "buildRecommendedActions s =
     (let yields = (case psRetry s of Some (True, _) \<Rightarrow> True | _ \<Rightarrow> False) in
      (case psRetry s of Some (True, pct) \<Rightarrow> [RetrySecondary pct] | _ \<Rightarrow> [])
      @ (case psCloseNow s of Some pnl \<Rightarrow> if yields then [] else [CloseFilled (to_fixed 2 (xabs pnl))] | None \<Rightarrow> [])
      @ [MonitorPosition])"

section \<open>Positions and environment\<close>

datatype leg_error = ExecutionErr error_code | PlatformErr | SystemErr

record leg_position = close_position +
  lpSizes :: "(decimal \<times> decimal) option"

record res_env =
  rsPosition :: "leg_error + leg_position option"
  rsFindOrder :: "string \<Rightarrow> leg_error + stored_order option"
  rsPaperMode :: "platform \<Rightarrow> bool"
  rsBook :: "platform \<Rightarrow> leg_error + order_book"
  rsScenarioBook :: "platform \<Rightarrow> order_book option"
  rsSubmit :: "platform \<Rightarrow> order_params \<Rightarrow> leg_error + order_result"
  rsCreateOrder :: "order_row \<Rightarrow> leg_error + string"
  rsLink :: "leg_error option"
  rsClosePosition :: "leg_error option"
  rsRisk :: "string option"
  rsFee :: "platform \<Rightarrow> leg_error + fee_schedule"

type_synonym 'a leg_act = "(exit_effect, leg_error, 'a) prog"

abbreviation leg_fail :: "error_code \<Rightarrow> 'a leg_act" where
  "leg_fail code \<equiv> act_stop (ExecutionErr code)"

definition getFailedPlatform :: "leg_position \<Rightarrow> platform leg_act" where
  "getFailedPlatform pos =
     (if cpKalshiOrderId pos = None then act_return Kalshi
      else if cpPolymarketOrderId pos = None then act_return Polymarket
      else leg_fail INVALID_POSITION_STATE)"

definition getFilledPlatform :: "leg_position \<Rightarrow> platform leg_act" where
  "getFilledPlatform pos =
     (if cpKalshiOrderId pos \<noteq> None then act_return Kalshi
      else if cpPolymarketOrderId pos \<noteq> None then act_return Polymarket
      else leg_fail INVALID_POSITION_STATE)"

abbreviation base_position :: "leg_position \<Rightarrow> exit_position" where
  "base_position pos \<equiv> exit_position.truncate (close_position.truncate pos)"

text \<open>The side columns hold \<^verbatim>\<open>buy\<close> or \<^verbatim>\<open>sell\<close>.\<close>

definition getSide :: "leg_position \<Rightarrow> platform \<Rightarrow> order_side" where
  "getSide pos p = (if leg_side (base_position pos) p = Some ''buy'' then Buy else Sell)"

definition entry_order_id :: "leg_position \<Rightarrow> platform \<Rightarrow> string" where
  "entry_order_id pos p = or_default (exit_pick (cpKalshiOrderId pos) (cpPolymarketOrderId pos) p) []"

definition resolvable :: "leg_position \<Rightarrow> bool" where
  "resolvable pos \<longleftrightarrow> cpStatus pos = ''SINGLE_LEG_EXPOSED'' \<or> cpStatus pos = ''EXIT_PARTIAL''"

definition is_paper :: "res_env \<Rightarrow> bool" where
  "is_paper env \<longleftrightarrow> rsPaperMode env Kalshi \<or> rsPaperMode env Polymarket"

definition mixed_mode :: "res_env \<Rightarrow> bool" where
  "mixed_mode env \<longleftrightarrow> rsPaperMode env Kalshi \<noteq> rsPaperMode env Polymarket"

definition leg_submit :: "res_env \<Rightarrow> platform \<Rightarrow> order_params \<Rightarrow> error_code \<Rightarrow> order_result leg_act" where
  "leg_submit env p order code =
     act_bind (act_tell [ExitSubmitted p order (map_sum (\<lambda>_. []) id (rsSubmit env p order))]) (\<lambda>_.
     case rsSubmit env p order of Inl _ \<Rightarrow> leg_fail code | Inr res \<Rightarrow> act_return res)"

definition leg_create :: "res_env \<Rightarrow> order_row \<Rightarrow> string leg_act" where
  "leg_create env row =
     act_bind (act_call (rsCreateOrder env row)) (\<lambda>oid. act_bind (act_tell [ExitOrderCreated row oid]) (\<lambda>_. act_return oid))"

text \<open>The rows are created without a mode, which is the live one.\<close>

definition leg_row :: "leg_position \<Rightarrow> platform \<Rightarrow> order_params \<Rightarrow> order_result \<Rightarrow> order_row" where
  "leg_row pos p order res =
     \<lparr>rowPlatform = p, rowContract = orContract order, rowPair = xpPair pos, rowSide = orSide order,
      rowPrice = orPrice order, rowSize = orQuantity order,
      rowStatus = (if orStatus res = OrderFilled then RowFilled else RowPartial),
      rowFillPrice = Some (filledPrice res), rowFillSize = Some (filledQuantity res), rowIsPaper = False\<rparr>"

section \<open>The estimates of a position\<close>

definition percent_fee :: "(rat \<Rightarrow> rat) \<Rightarrow> fee_schedule \<Rightarrow> decimal" where
  "percent_fee rd fee = to_decimal (to_number (xdiv rd (to_decimal (takerFeePercent fee)) (Fin 100)))"

definition buildPnlScenarios :: "(rat \<Rightarrow> rat) \<Rightarrow> res_env \<Rightarrow> leg_position \<Rightarrow> (pnl_scenarios \<times> recommended_action list) leg_act" where
  "buildPnlScenarios rd env pos =
     act_bind (getFilledPlatform pos) (\<lambda>filled.
     act_bind (getFailedPlatform pos) (\<lambda>failed.
     act_bind (act_call (rsFindOrder env (entry_order_id pos filled))) (\<lambda>found.
       let fillPrice = num_or_zero (Option.bind found soFillPrice); fillSz = num_or_zero (Option.bind found soFillSize);
           prices = (\<lambda>p. best_prices (rsScenarioBook env p)) in
     act_bind (act_call (rsFee env Kalshi)) (\<lambda>feeK.
     act_bind (act_call (rsFee env Polymarket)) (\<lambda>feeP.
       let fee = exit_pick feeK feeP;
           s = \<lparr>psCloseNow = calcCloseNow rd filled (getSide pos filled) fillPrice fillSz prices
                  (percent_fee rd (fee filled)) (takerFeeForPrice (fee filled)),
                psRetry = calcRetry rd fillPrice failed (getSide pos failed) prices (percent_fee rd (fee filled))
                  (percent_fee rd (fee failed)) (takerFeeForPrice (fee filled)) (takerFeeForPrice (fee failed)),
                psHold = calcHold rd fillPrice fillSz prices\<rparr>
       in act_return (s, buildRecommendedActions s))))))"

section \<open>Retrying the missing leg\<close>

datatype retry_result = RetryFilled string jsnum | RetryNotFilled order_status pnl_scenarios "recommended_action list"

definition find_resolvable :: "res_env \<Rightarrow> error_code \<Rightarrow> leg_position leg_act" where
  "find_resolvable env missing =
     act_bind (act_call (rsPosition env)) (\<lambda>found.
     case found of
       None \<Rightarrow> leg_fail missing
     | Some pos \<Rightarrow> if resolvable pos then act_return pos else leg_fail INVALID_POSITION_STATE)"

definition parse_sizes :: "leg_position \<Rightarrow> (decimal \<times> decimal) leg_act" where
  "parse_sizes pos =
     (case lpSizes pos of
        Some sizes \<Rightarrow> act_return sizes
      | None \<Rightarrow> act_bind (act_tell [ExitEmitted (SizesCorrupted (xpId pos))]) (\<lambda>_. act_stop SystemErr))"

definition retried ::
  "(rat \<Rightarrow> rat) \<Rightarrow> res_env \<Rightarrow> leg_position \<Rightarrow> platform \<Rightarrow> order_params \<Rightarrow> order_result \<Rightarrow> retry_result leg_act" where
  "retried rd env pos failed order res =
     act_bind (leg_create env (leg_row pos failed order res)) (\<lambda>oid.
     act_bind (act_do (rsLink env) (OrderLinked failed oid)) (\<lambda>_.
     act_bind (getFilledPlatform pos) (\<lambda>filled.
     act_bind (act_call (rsFindOrder env (entry_order_id pos filled))) (\<lambda>found.
       let entryFillPrice = (case found of Some o' \<Rightarrow> to_number (or_default (soFillPrice o') (Fin 0)) | None \<Rightarrow> Fin 0);
           newEdge = to_number (xabs (xsub rd (to_decimal entryFillPrice) (to_decimal (filledPrice res)))) in
     act_bind (act_call (rsFee env failed)) (\<lambda>fee.
     act_bind (act_tell [ExitEmitted (ExitFilled
         \<lparr>feOrderId = oid, fePlatform = failed, feSide = orSide order, fePrice = orPrice order, feSize = orQuantity order,
          feFillPrice = filledPrice res, feFillSize = filledQuantity res, fePosition = xpId pos, feIsPaper = is_paper env,
          feMixedMode = mixed_mode env, feFeeRate = calculateTakerFeeRate rd (to_decimal (filledPrice res)) fee,
          feGas = None, feSequencing = None\<rparr>),
        ExitEmitted (LegResolved
         \<lparr>lrPosition = xpId pos, lrPair = xpPair pos, lrResolution = Retried, lrOrderId = oid, lrPlatform = failed,
          lrStatus = orStatus res, lrFilledPrice = filledPrice res, lrFilledQuantity = filledQuantity res,
          lrOriginalEdge = to_number (xpExpectedEdge pos), lrNewEdge = Some newEdge, lrRetryPrice = Some (orPrice order),
          lrRealizedPnl = None, lrIsPaper = is_paper env, lrMixedMode = mixed_mode env\<rparr>)]) (\<lambda>_.
     act_return (RetryFilled oid newEdge)))))))"

definition retryLeg :: "(rat \<Rightarrow> rat) \<Rightarrow> res_env \<Rightarrow> jsnum \<Rightarrow> retry_result leg_act" where
  "retryLeg rd env retryPrice =
     act_bind (find_resolvable env INVALID_POSITION_STATE) (\<lambda>pos.
     act_bind (getFailedPlatform pos) (\<lambda>failed.
     act_bind (parse_sizes pos) (\<lambda>(sizeK, sizeP).
       let order = \<lparr>orContract = leg_contract (base_position pos) failed, orSide = getSide pos failed,
             orQuantity = to_number (exit_pick sizeK sizeP failed), orPrice = retryPrice\<rparr> in
     act_bind (leg_submit env failed order RETRY_FAILED) (\<lambda>res.
       if exit_accepted res then retried rd env pos failed order res
       else act_bind (buildPnlScenarios rd env pos) (\<lambda>(s, acts). act_return (RetryNotFilled (orStatus res) s acts))))))"

section \<open>Closing the filled leg\<close>

definition best_close_price :: "order_side \<Rightarrow> order_book \<Rightarrow> jsnum option" where
  "best_close_price filledSide book =
     (case (if filledSide = Buy then bids book else asks book) of [] \<Rightarrow> None | l # _ \<Rightarrow> Some (price l))"

text \<open>The profit is computed over the whole entry fill, whatever part of the close order was filled.\<close>

definition close_leg_pnl ::
  "(rat \<Rightarrow> rat) \<Rightarrow> order_side \<Rightarrow> decimal \<Rightarrow> decimal \<Rightarrow> decimal \<Rightarrow> fee_schedule \<Rightarrow> decimal" where
  "close_leg_pnl rd filledSide entryFillPrice closeFillPrice qty fee =
     (let closeFee = xmul rd (xmul rd closeFillPrice qty) (calculateTakerFeeRate rd closeFillPrice fee);
          rawPnl = (if filledSide = Buy then xmul rd (xsub rd closeFillPrice entryFillPrice) qty
                    else xmul rd (xsub rd entryFillPrice closeFillPrice) qty)
      in xsub rd rawPnl closeFee)"

record close_leg_result =
  cgOrderId :: string
  cgPnl :: decimal

definition close_leg_filled ::
  "(rat \<Rightarrow> rat) \<Rightarrow> res_env \<Rightarrow> leg_position \<Rightarrow> platform \<Rightarrow> decimal \<Rightarrow> decimal \<Rightarrow> order_params \<Rightarrow> order_result
     \<Rightarrow> close_leg_result leg_act" where
  "close_leg_filled rd env pos filled entryFillPrice qty order res =
     act_bind (leg_create env (leg_row pos filled order res)) (\<lambda>oid.
     act_bind (act_call (rsFee env filled)) (\<lambda>fee.
       let realizedPnl = close_leg_pnl rd (getSide pos filled) entryFillPrice (to_decimal (filledPrice res)) qty fee;
           capitalReturned = xadd rd (xmul rd entryFillPrice qty) realizedPnl in
     act_bind (act_do (rsClosePosition env) (PositionClosed realizedPnl)) (\<lambda>_.
     act_bind (return_capital (rsRisk env) (xpId pos) (xpPair pos) RiskClose capitalReturned realizedPnl False) (\<lambda>_.
     act_bind (act_tell [ExitEmitted (LegResolved
         \<lparr>lrPosition = xpId pos, lrPair = xpPair pos, lrResolution = LegClosed, lrOrderId = oid, lrPlatform = filled,
          lrStatus = orStatus res, lrFilledPrice = filledPrice res, lrFilledQuantity = filledQuantity res,
          lrOriginalEdge = to_number (xpExpectedEdge pos), lrNewEdge = None, lrRetryPrice = None,
          lrRealizedPnl = Some (to_fixed 8 realizedPnl), lrIsPaper = is_paper env, lrMixedMode = mixed_mode env\<rparr>)]) (\<lambda>_.
     act_return \<lparr>cgOrderId = oid, cgPnl = to_fixed 8 realizedPnl\<rparr>)))))"

definition entry_figures_of :: "stored_order option \<Rightarrow> (decimal \<times> decimal) leg_act" where
  "entry_figures_of found =
     (case (Option.bind found soFillPrice, Option.bind found soFillSize) of
        (Some entryPrice, Some qty) \<Rightarrow> act_return (entryPrice, qty)
      | _ \<Rightarrow> leg_fail CLOSE_FAILED)"

definition close_book :: "res_env \<Rightarrow> platform \<Rightarrow> order_book leg_act" where
  "close_book env p = (case rsBook env p of Inl _ \<Rightarrow> leg_fail CLOSE_FAILED | Inr book \<Rightarrow> act_return book)"

definition closeLeg :: "(rat \<Rightarrow> rat) \<Rightarrow> res_env \<Rightarrow> close_leg_result leg_act" where
  "closeLeg rd env =
     act_bind (find_resolvable env CLOSE_FAILED) (\<lambda>pos.
     act_bind (getFilledPlatform pos) (\<lambda>filled.
     act_bind (act_call (rsFindOrder env (entry_order_id pos filled))) (\<lambda>found.
     act_bind (entry_figures_of found) (\<lambda>(entryFillPrice, qty).
     act_bind (close_book env filled) (\<lambda>book.
     case best_close_price (getSide pos filled) book of
       None \<Rightarrow> leg_fail CLOSE_FAILED
     | Some closePrice \<Rightarrow>
         let order = \<lparr>orContract = leg_contract (base_position pos) filled, orSide = opposite (getSide pos filled),
               orQuantity = to_number qty, orPrice = closePrice\<rparr> in
         act_bind (leg_submit env filled order CLOSE_FAILED) (\<lambda>res.
           if exit_accepted res then close_leg_filled rd env pos filled entryFillPrice qty order res
           else leg_fail CLOSE_FAILED))))))"

section \<open>Unwinding by itself\<close>

record unwind_config =
  ucEnabled :: "bool option"
  ucMaxLossPct :: jsnum

record unwind_env =
  uwPosition :: "leg_error + leg_position option"
  uwHasPair :: bool
  uwHasClobToken :: bool
  uwFindOrder :: "string \<Rightarrow> leg_error + stored_order option"
  uwBook :: "platform \<Rightarrow> leg_error + order_book"
  uwClose :: res_env

definition MAX_IN_FLIGHT :: nat where
  "MAX_IN_FLIGHT = 100"

definition tryAcquireInFlight :: "string \<Rightarrow> string list \<Rightarrow> string list option" where
  "tryAcquireInFlight pid inFlight =
     (if pid \<in> set inFlight then None
      else if length inFlight \<ge> MAX_IN_FLIGHT then None
      else Some (set_add pid inFlight))"

definition loss_pct :: "(rat \<Rightarrow> rat) \<Rightarrow> order_side \<Rightarrow> decimal \<Rightarrow> decimal \<Rightarrow> decimal \<Rightarrow> jsnum" where
  "loss_pct rd filledSide entryPrice closePrice fillSz =
     (let loss = (if filledSide = Buy then xmul rd (xsub rd entryPrice closePrice) fillSz
                  else xmul rd (xsub rd closePrice entryPrice) fillSz);
          legValue = xmul rd entryPrice fillSz
      in to_number (if is_zero legValue then Fin 0 else to_fixed 2 (xmul rd (xdiv rd loss legValue) (Fin 100))))"

definition unwind_platform :: "leg_position \<Rightarrow> platform" where
  "unwind_platform pos = (if cpKalshiOrderId pos \<noteq> None then Kalshi else Polymarket)"

definition estimateCloseLoss :: "(rat \<Rightarrow> rat) \<Rightarrow> unwind_env \<Rightarrow> leg_position \<Rightarrow> leg_error + jsnum option" where
  "estimateCloseLoss rd env pos =
     (let filled = unwind_platform pos in
      and_then (uwFindOrder env (entry_order_id pos filled)) (\<lambda>found.
      case (Option.bind found soFillPrice, Option.bind found soFillSize) of
        (Some entryPrice, Some fillSz) \<Rightarrow>
          if \<not> uwHasPair env \<or> filled = Polymarket \<and> \<not> uwHasClobToken env then Inr None
          else
            (case uwBook env filled of
               Inl PlatformErr \<Rightarrow> Inr None
             | Inl e \<Rightarrow> Inl e
             | Inr book \<Rightarrow> Inr (map_option (\<lambda>best. loss_pct rd (getSide pos filled) entryPrice (to_decimal best) fillSz)
                 (best_close_price (getSide pos filled) book)))
      | _ \<Rightarrow> Inr None))"

definition unwind_report ::
  "single_leg_event \<Rightarrow> unwind_action \<Rightarrow> jsnum option \<Rightarrow> decimal option \<Rightarrow> string option \<Rightarrow> exit_effect" where
  "unwind_report ev action pct pnl oid =
     ExitEmitted (AutoUnwound \<lparr>auPosition = slPosition ev, auPair = slPair ev, auAction = action,
       auEstimatedLossPct = pct, auRealizedPnl = pnl, auCloseOrderId = oid,
       auIsPaper = slIsPaper ev, auMixedMode = slMixedMode ev\<rparr>)"

definition attempt_close :: "(rat \<Rightarrow> rat) \<Rightarrow> unwind_env \<Rightarrow> single_leg_event \<Rightarrow> jsnum option \<Rightarrow> exit_effect list" where
  "attempt_close rd env ev pct =
     (let (effs, out) = closeLeg rd (uwClose env) in
      effs @ [case out of
        Inr r \<Rightarrow> unwind_report ev UnwindClosed pct (Some (cgPnl r)) (Some (cgOrderId r))
      | Inl (ExecutionErr INVALID_POSITION_STATE) \<Rightarrow> unwind_report ev UnwindSkipResolved pct None None
      | Inl _ \<Rightarrow> unwind_report ev UnwindFailed pct None None])"

definition over_limit :: "unwind_config \<Rightarrow> jsnum \<Rightarrow> bool" where
  "over_limit cfg pct \<longleftrightarrow> xgt (ucMaxLossPct cfg) (Fin 0) \<and> xgt pct (ucMaxLossPct cfg)"

text \<open>What happens after the delay.\<close>

definition unwind_after_delay :: "(rat \<Rightarrow> rat) \<Rightarrow> unwind_config \<Rightarrow> unwind_env \<Rightarrow> single_leg_event \<Rightarrow> exit_effect list" where
  "unwind_after_delay rd cfg env ev =
     (case uwPosition env of
        Inr (Some pos) \<Rightarrow>
          if \<not> resolvable pos then [unwind_report ev UnwindSkipResolved None None None]
          else
            (case estimateCloseLoss rd env pos of
               Inl PlatformErr \<Rightarrow> attempt_close rd env ev None
             | Inl _ \<Rightarrow> [unwind_report ev UnwindFailed None None None]
             | Inr (Some pct) \<Rightarrow>
                 if over_limit cfg pct then [unwind_report ev UnwindSkipLossLimit (Some pct) None None]
                 else attempt_close rd env ev (Some pct)
             | Inr None \<Rightarrow> attempt_close rd env ev None)
      | _ \<Rightarrow> [unwind_report ev UnwindFailed None None None])"

definition onSingleLegExposure ::
  "(rat \<Rightarrow> rat) \<Rightarrow> unwind_config \<Rightarrow> unwind_env \<Rightarrow> single_leg_event \<Rightarrow> string list \<Rightarrow> exit_effect list \<times> string list" where
  "onSingleLegExposure rd cfg env ev inFlight =
     (if ucEnabled cfg \<noteq> Some True then ([], inFlight)
      else
        case tryAcquireInFlight (slPosition ev) inFlight of
          None \<Rightarrow> ([], inFlight)
        | Some inFlight' \<Rightarrow> (unwind_after_delay rd cfg env ev, set_delete (slPosition ev) inFlight'))"

text \<open>Handlers of several exposures overlap at their delays: each begins and later finishes.\<close>

inductive unwind_step :: "string list \<Rightarrow> string list \<Rightarrow> bool" where
  begins: "tryAcquireInFlight pid s = Some s' \<Longrightarrow> unwind_step s s'"
| finishes: "pid \<in> set s \<Longrightarrow> unwind_step s (set_delete pid s)"

inductive_cases unwind_stepE: "unwind_step s s'"

section \<open>What a close of the filled leg does\<close>

lemma leg_submit_bind:
  "act_bind (leg_submit env p order code) f =
     (ExitSubmitted p order (map_sum (\<lambda>_. []) id (rsSubmit env p order))
        # fst (case rsSubmit env p order of Inl _ \<Rightarrow> leg_fail code | Inr res \<Rightarrow> f res),
      snd (case rsSubmit env p order of Inl _ \<Rightarrow> leg_fail code | Inr res \<Rightarrow> f res))"
  by (cases "rsSubmit env p order") (simp_all add: leg_submit_def act_tell_def bind_value bind_assoc)

lemma leg_create_bind:
  "act_bind (leg_create env row) f =
     (case rsCreateOrder env row of
        Inl e \<Rightarrow> ([], Inl e)
      | Inr oid \<Rightarrow> (ExitOrderCreated row oid # fst (f oid), snd (f oid)))"
  by (cases "rsCreateOrder env row")
    (simp_all add: leg_create_def act_call_def act_tell_def bind_value act_return_def bind_assoc act_stop_def split_beta)

text \<open>A close that finds everything it needs, up to its order.\<close>

lemma closeLeg_order:
  assumes "rsPosition env = Inr (Some pos)" "resolvable pos"
    and "getFilledPlatform pos = act_return p" "rsFindOrder env (entry_order_id pos p) = Inr (Some entry)"
    and "soFillPrice entry = Some entryPrice" "soFillSize entry = Some qty"
    and "rsBook env p = Inr book" "best_close_price (getSide pos p) book = Some best"
  defines "order \<equiv> \<lparr>orContract = leg_contract (base_position pos) p, orSide = opposite (getSide pos p),
      orQuantity = to_number qty, orPrice = best\<rparr>"
  shows "closeLeg rd env = act_bind (leg_submit env p order CLOSE_FAILED) (\<lambda>res.
      if exit_accepted res then close_leg_filled rd env pos p entryPrice qty order res else leg_fail CLOSE_FAILED)"
  using assms(1-8) unfolding order_def
  by (simp add: closeLeg_def find_resolvable_def act_call_def entry_figures_of_def close_book_def Let_def)

lemma close_leg_filled_run:
  assumes "rsCreateOrder env (leg_row pos p order res) = Inr oid" "rsFee env p = Inr fee"
    and "rsClosePosition env = None"
  shows "\<exists>effs r. close_leg_filled rd env pos p entryPrice qty order res =
      (ExitOrderCreated (leg_row pos p order res) oid
         # PositionClosed (close_leg_pnl rd (getSide pos p) entryPrice (to_decimal (filledPrice res)) qty fee) # effs, Inr r)
    \<and> sent_orders effs = []"
  using assms
  by (cases "rsRisk env") (simp_all add: close_leg_filled_def leg_create_bind act_call_def Let_def act_do_def act_tell_def
      bind_value return_capital_def act_return_def)

text \<open>
  closing the filled leg of a partially exited position: both entry orders are there, so the
  Kalshi leg is taken for the filled one, whichever leg the exit had already sold; its whole entry
  size is sent again, and the position is closed although the other leg was never touched.
\<close>
theorem exit_partial_close_repeats_kalshi:
  assumes "rsPosition env = Inr (Some pos)" "cpStatus pos = ''EXIT_PARTIAL''" "cpKalshiOrderId pos = Some i"
    and "rsFindOrder env i = Inr (Some entry)" "soFillPrice entry = Some entryPrice" "soFillSize entry = Some qty"
    and "rsBook env Kalshi = Inr book" "best_close_price (getSide pos Kalshi) book = Some best"
    and "\<And>order. \<exists>res. rsSubmit env Kalshi order = Inr res \<and> exit_accepted res"
    and "\<And>row. \<exists>oid. rsCreateOrder env row = Inr oid" "rsFee env Kalshi = Inr fee" "rsClosePosition env = None"
  shows "\<exists>order res pnl. sent_orders (fst (closeLeg rd env)) = [(Kalshi, order, Inr res)]
    \<and> orQuantity order = to_number qty \<and> PositionClosed pnl \<in> set (fst (closeLeg rd env))"
proof -
  define order where "order = \<lparr>orContract = leg_contract (base_position pos) Kalshi, orSide = opposite (getSide pos Kalshi),
      orQuantity = to_number qty, orPrice = best\<rparr>"
  have "getFilledPlatform pos = act_return Kalshi" "entry_order_id pos Kalshi = i" "resolvable pos"
    using assms(2,3) by (simp_all add: getFilledPlatform_def entry_order_id_def exit_pick_def or_default_def resolvable_def)
  with assms have c: "closeLeg rd env = act_bind (leg_submit env Kalshi order CLOSE_FAILED) (\<lambda>res.
      if exit_accepted res then close_leg_filled rd env pos Kalshi entryPrice qty order res else leg_fail CLOSE_FAILED)"
    unfolding order_def by (intro closeLeg_order) simp_all
  obtain res where res: "rsSubmit env Kalshi order = Inr res" "exit_accepted res" using assms(9) by blast
  obtain oid where oid: "rsCreateOrder env (leg_row pos Kalshi order res) = Inr oid" using assms(10) by blast
  from close_leg_filled_run [OF oid assms(11,12), of rd entryPrice qty] res show ?thesis
    by (auto simp: c leg_submit_bind order_def)
qed

text \<open>
  retrying the missing leg of a partially exited position: with both entry orders there is no
  missing leg, so the retry that the exposure event recommends is always refused.
\<close>
theorem exit_partial_retry_refused:
  assumes "rsPosition env = Inr (Some pos)" "cpKalshiOrderId pos \<noteq> None" "cpPolymarketOrderId pos \<noteq> None"
  shows "retryLeg rd env retryPrice = ([], Inl (ExecutionErr INVALID_POSITION_STATE))"
  using assms by (auto simp: retryLeg_def find_resolvable_def act_call_def getFailedPlatform_def act_stop_def)

text \<open>What is booked on the position and with the risk manager.\<close>

definition booked :: "exit_effect \<Rightarrow> bool" where
  "booked e \<longleftrightarrow> (case e of PositionClosed _ \<Rightarrow> True | CapitalReturned _ _ _ _ \<Rightarrow> True | _ \<Rightarrow> False)"

lemma booked_simps [simp]:
  "booked (PositionClosed d)" "booked (CapitalReturned op c pnl paper)" "\<not> booked (ExitSubmitted p o' a)"
  "\<not> booked (ExitOrderCreated row i)" "\<not> booked (ExitEmitted ev)"
  by (simp_all add: booked_def)

text \<open>An environment whose platforms answer every order alike and whose orders are recorded.\<close>

definition answering :: "res_env \<Rightarrow> order_result \<Rightarrow> string \<Rightarrow> res_env" where
  "answering env res oid = env\<lparr>rsSubmit := (\<lambda>p order. Inr res), rsCreateOrder := (\<lambda>row. Inr oid)\<rparr>"

lemma answering_fields [simp]:
  "rsPosition (answering env res i) = rsPosition env" "rsFindOrder (answering env res i) = rsFindOrder env"
  "rsBook (answering env res i) = rsBook env" "rsSubmit (answering env res i) p order = Inr res"
  "rsCreateOrder (answering env res i) row = Inr i" "rsClosePosition (answering env res i) = rsClosePosition env"
  "rsRisk (answering env res i) = rsRisk env" "rsFee (answering env res i) = rsFee env"
  by (simp_all add: answering_def)

lemma filter_bind:
  assumes "filter P (fst m) = filter P (fst m')" "snd m = snd m'" "\<And>a. snd m = Inr a \<Longrightarrow> filter P (fst (f a)) = filter P (fst (f' a))"
  shows "filter P (fst (act_bind m f)) = filter P (fst (act_bind m' f'))"
  using assms by (cases m; cases m'; cases "snd m") (auto simp: bind_value)

lemma close_leg_filled_books:
  "filter booked (fst (close_leg_filled rd (answering env (res\<lparr>filledQuantity := f\<rparr>) i) pos p entryPrice qty order (res\<lparr>filledQuantity := f\<rparr>)))
   = filter booked (fst (close_leg_filled rd (answering env res i) pos p entryPrice qty order res))"
  by (cases "rsFee env p"; cases "rsClosePosition env"; cases "rsRisk env")
    (simp_all add: close_leg_filled_def leg_create_bind act_call_def Let_def act_do_def act_tell_def bind_value
      return_capital_def act_return_def act_stop_def)

text \<open>
  closing the filled leg books the whole leg: whatever part of the close order the platform
  filled, the position is closed with the same profit and the same capital goes back.
\<close>
theorem close_leg_ignores_filled_quantity:
  "filter booked (fst (closeLeg rd (answering env (res\<lparr>filledQuantity := f\<rparr>) i)))
   = filter booked (fst (closeLeg rd (answering env res i)))"
proof -
  have a: "exit_accepted (res\<lparr>filledQuantity := f\<rparr>) = exit_accepted res" by (simp add: exit_accepted_def)
  have find: "find_resolvable (answering env r i) code = find_resolvable env code" for r code
    by (simp add: find_resolvable_def)
  have book: "close_book (answering env r i) q = close_book env q" for r q by (simp add: close_book_def)
  show ?thesis unfolding closeLeg_def find book answering_fields Let_def
    by (intro filter_bind refl)
      (auto simp: leg_submit_bind a close_leg_filled_books split: option.splits intro!: filter_bind)
qed

section \<open>Unwinding by itself\<close>

definition reports :: "exit_effect \<Rightarrow> bool" where
  "reports e \<longleftrightarrow> (case e of ExitEmitted (AutoUnwound _) \<Rightarrow> True | _ \<Rightarrow> False)"

lemma reports_simps [simp]:
  "reports (unwind_report ev act pct pnl oid)" "\<not> reports (ExitSubmitted p o' a)"
  "\<not> reports (ExitEmitted (LegResolved l))" "\<not> reports (ExitEmitted (RiskDivergence i j op msg))"
  "\<not> reports (ExitOrderCreated row i)" "\<not> reports (PositionClosed d)" "\<not> reports (CapitalReturned op c d paper)"
  by (simp_all add: reports_def unwind_report_def)

lemma sent_report [simp]: "sent_orders (unwind_report ev act pct pnl oid # effs) = sent_orders effs"
  by (simp add: unwind_report_def)

lemma find_resolvable_quiet: "fst (find_resolvable env code) = []"
  by (cases "rsPosition env") (auto simp: find_resolvable_def act_call_def split: option.splits)

lemma close_leg_filled_orders: "sent_orders (fst (close_leg_filled rd env pos p a q order res)) = []"
  by (cases "rsCreateOrder env (leg_row pos p order res)"; cases "rsFee env p"; cases "rsClosePosition env"; cases "rsRisk env")
    (simp_all add: close_leg_filled_def leg_create_bind act_call_def Let_def act_do_def act_tell_def bind_value
      return_capital_def act_return_def act_stop_def)

lemma close_leg_filled_reports: "list_all (\<lambda>e. \<not> reports e) (fst (close_leg_filled rd env pos p a q order res))"
  by (cases "rsCreateOrder env (leg_row pos p order res)"; cases "rsFee env p"; cases "rsClosePosition env"; cases "rsRisk env")
    (simp_all add: close_leg_filled_def leg_create_bind act_call_def Let_def act_do_def act_tell_def bind_value
      return_capital_def act_return_def act_stop_def)

lemma closeLeg_orders_le: "length (sent_orders (fst (closeLeg rd env))) \<le> 1"
  and closeLeg_reports: "list_all (\<lambda>e. \<not> reports e) (fst (closeLeg rd env))"
proof -
  have *: "P [] \<Longrightarrow> (\<And>pos p qty best entryPrice. P (fst (act_bind (leg_submit env p
        \<lparr>orContract = leg_contract (base_position pos) p, orSide = opposite (getSide pos p), orQuantity = to_number qty, orPrice = best\<rparr>
        CLOSE_FAILED) (\<lambda>res. if exit_accepted res then close_leg_filled rd env pos p entryPrice qty
        \<lparr>orContract = leg_contract (base_position pos) p, orSide = opposite (getSide pos p), orQuantity = to_number qty, orPrice = best\<rparr> res
        else leg_fail CLOSE_FAILED)))) \<Longrightarrow> P (fst (closeLeg rd env))" for P
    unfolding closeLeg_def Let_def
    by (cases "find_resolvable env CLOSE_FAILED"; cases "snd (find_resolvable env CLOSE_FAILED)")
      (use find_resolvable_quiet [of env CLOSE_FAILED] in
        \<open>auto simp: bind_value getFilledPlatform_def act_call_def entry_figures_of_def close_book_def
          split: sum.splits option.splits\<close>)
  show "length (sent_orders (fst (closeLeg rd env))) \<le> 1"
    by (rule *) (auto simp: leg_submit_bind close_leg_filled_orders split: sum.splits)
  show "list_all (\<lambda>e. \<not> reports e) (fst (closeLeg rd env))"
    by (rule *) (auto simp: leg_submit_bind close_leg_filled_reports split: sum.splits)
qed

lemma attempt_close_reports: "length (filter reports (attempt_close rd env ev pct)) = 1"
  and attempt_close_orders: "sent_orders (attempt_close rd env ev pct) = sent_orders (fst (closeLeg rd (uwClose env)))"
proof -
  obtain effs out where c: "closeLeg rd (uwClose env) = (effs, out)" by (cases "closeLeg rd (uwClose env)")
  have "filter reports effs = []" using closeLeg_reports [of rd "uwClose env"] c
    by (simp add: list_all_iff filter_empty_conv)
  then show "length (filter reports (attempt_close rd env ev pct)) = 1"
    by (simp add: attempt_close_def c split: sum.splits leg_error.splits error_code.splits)
  show "sent_orders (attempt_close rd env ev pct) = sent_orders (fst (closeLeg rd (uwClose env)))"
    by (simp add: attempt_close_def c split: sum.splits leg_error.splits error_code.splits)
qed

text \<open>
  an unwinding that was begun reports exactly one outcome, whatever the platforms, the database
  or the close itself threw.
\<close>
theorem auto_unwind_reports_once:
  "length (filter reports (unwind_after_delay rd cfg env ev)) = 1"
  by (auto simp: unwind_after_delay_def attempt_close_reports [simplified] split: sum.splits option.splits leg_error.splits)

lemma unwind_sends:
  assumes "sent_orders (unwind_after_delay rd cfg env ev) \<noteq> []"
  shows "length (sent_orders (unwind_after_delay rd cfg env ev)) = 1
    \<and> (\<exists>pos. uwPosition env = Inr (Some pos) \<and> resolvable pos
        \<and> (case estimateCloseLoss rd env pos of
              Inr (Some pct) \<Rightarrow> \<not> over_limit cfg pct | Inr None \<Rightarrow> True | Inl e \<Rightarrow> e = PlatformErr))"
proof -
  have le: "length (sent_orders (fst (closeLeg rd (uwClose env)))) \<le> 1" by (rule closeLeg_orders_le)
  have "length (sent_orders (unwind_after_delay rd cfg env ev)) \<le> 1
      \<and> (\<exists>pos. uwPosition env = Inr (Some pos) \<and> resolvable pos
        \<and> (case estimateCloseLoss rd env pos of
              Inr (Some pct) \<Rightarrow> \<not> over_limit cfg pct | Inr None \<Rightarrow> True | Inl e \<Rightarrow> e = PlatformErr))"
    using assms le
    by (auto simp: unwind_after_delay_def attempt_close_orders split: sum.splits option.splits leg_error.splits if_splits)
  moreover have "length (sent_orders (unwind_after_delay rd cfg env ev)) \<noteq> 0" using assms by simp
  ultimately show ?thesis by (simp add: order.antisym Suc_leI)
qed

text \<open>
  an exposure makes the service send an order only when unwinding is switched on, no other
  handler works on the position and fewer than a hundred do at all, the position is still exposed
  or partially exited, and the estimated loss is within the limit or cannot be estimated; it is a
  single order then.
\<close>
theorem auto_unwind_sends_within_limit:
  assumes "sent_orders (fst (onSingleLegExposure rd cfg env ev inFlight)) \<noteq> []"
  shows "ucEnabled cfg = Some True \<and> slPosition ev \<notin> set inFlight \<and> length inFlight < 100
    \<and> length (sent_orders (fst (onSingleLegExposure rd cfg env ev inFlight))) = 1
    \<and> (\<exists>pos. uwPosition env = Inr (Some pos) \<and> resolvable pos
        \<and> (case estimateCloseLoss rd env pos of
              Inr (Some pct) \<Rightarrow> \<not> over_limit cfg pct | Inr None \<Rightarrow> True | Inl e \<Rightarrow> e = PlatformErr))"
proof -
  have "ucEnabled cfg = Some True" "slPosition ev \<notin> set inFlight" "length inFlight < 100"
      and e: "fst (onSingleLegExposure rd cfg env ev inFlight) = unwind_after_delay rd cfg env ev"
    using assms by (auto simp: onSingleLegExposure_def tryAcquireInFlight_def MAX_IN_FLIGHT_def split: if_splits)
  then show ?thesis using unwind_sends [of rd cfg env ev] assms by simp
qed

text \<open>
  however the handlers of several exposures overlap, no position is worked on twice and at
  most a hundred are at the same time.
\<close>
theorem in_flight_unwinds_bounded:
  assumes "unwind_step\<^sup>*\<^sup>* [] s"
  shows "distinct s \<and> length s \<le> 100"
  using assms
proof (induction rule: rtranclp_induct)
  case (step s s')
  from step.hyps(2) show ?case
  proof (rule unwind_stepE)
    fix pid assume "tryAcquireInFlight pid s = Some s'"
    then show ?thesis using step.IH
      by (auto simp: tryAcquireInFlight_def MAX_IN_FLIGHT_def set_add_def split: if_splits)
  next
    fix pid assume "s' = set_delete pid s"
    then show ?thesis using step.IH order.trans [OF length_filter_le [of "\<lambda>y. y \<noteq> pid" s]] by (simp add: set_delete_def)
  qed
qed simp

section \<open>Samples\<close>

text \<open>The position of the exit sample after its Kalshi leg was sold and the other order rejected.\<close>

definition sample_leg_position :: leg_position where
  "sample_leg_position = close_position.extend (sample_close_position\<lparr>cpStatus := ''EXIT_PARTIAL'', cpIsPaper := False\<rparr>)
     (leg_position.fields None)"

definition sample_stored :: stored_order where
  "sample_stored = \<lparr>soPrice = Fin (1/2), soSize = Fin 10, soFillPrice = Some (Fin (1/2)), soFillSize = Some (Fin 10)\<rparr>"

definition sample_res_env :: res_env where
  "sample_res_env = \<lparr>rsPosition = Inr (Some sample_leg_position), rsFindOrder = (\<lambda>i. Inr (Some sample_stored)),
     rsPaperMode = (\<lambda>p. False), rsBook = (\<lambda>p. Inr \<lparr>bids = [sample_exit_level], asks = [sample_exit_level]\<rparr>),
     rsScenarioBook = (\<lambda>p. None),
     rsSubmit = (\<lambda>p order. Inr \<lparr>orId = ''z'', orStatus = OrderFilled, filledQuantity = orQuantity order, filledPrice = orPrice order\<rparr>),
     rsCreateOrder = (\<lambda>row. Inr ''z''), rsLink = None, rsClosePosition = None, rsRisk = None,
     rsFee = (\<lambda>p. Inr \<lparr>takerFeePercent = Fin 0, takerFeeForPrice = None\<rparr>)\<rparr>"

lemma sample_leg_data:
  "cpStatus sample_leg_position = ''EXIT_PARTIAL''" "cpKalshiOrderId sample_leg_position = Some ''ok''"
  "cpPolymarketOrderId sample_leg_position = Some ''op''" "getSide sample_leg_position Kalshi = Buy"
  "resolvable sample_leg_position"
  by (simp_all add: sample_leg_position_def sample_close_position_def exit_position.defs close_position.defs
      leg_position.defs getSide_def leg_side_def exit_pick_def sample_exit_position_def resolvable_def)

lemma sample_res_data:
  "rsPosition sample_res_env = Inr (Some sample_leg_position)" "rsFindOrder sample_res_env i = Inr (Some sample_stored)"
  "rsBook sample_res_env p = Inr \<lparr>bids = [sample_exit_level], asks = [sample_exit_level]\<rparr>"
  "rsFee sample_res_env p = Inr \<lparr>takerFeePercent = Fin 0, takerFeeForPrice = None\<rparr>" "rsClosePosition sample_res_env = None"
  "rsSubmit sample_res_env p order = Inr \<lparr>orId = ''z'', orStatus = OrderFilled, filledQuantity = orQuantity order,
     filledPrice = orPrice order\<rparr>" "rsCreateOrder sample_res_env row = Inr ''z''"
  by (simp_all add: sample_res_env_def)

text \<open>The exit of the sample whose second order is rejected.\<close>

lemma sample_unpaired_run:
  "filled_by Kalshi (fst (sample_exit (sample_exit_result OrderRejected 0))) = 10
   \<and> StatusSet ''EXIT_PARTIAL'' \<in> set (fst (sample_exit (sample_exit_result OrderRejected 0)))"
proof -
  let ?env = "sample_exit_env (sample_exit_result OrderRejected 0)"
  let ?st = "initial_chunks sample_exit_legs (or_default (xpRealizedPnl sample_exit_position) (Fin 0))"
  have st: "csRemaining ?st = (\<lambda>_. Fin 10)" "csChunks ?st = 0"
    by (simp_all add: initial_chunks_def sample_exit_data fun_eq_iff)
  have go: "chunks_left sample_exit_legs 0 ?st" by (simp add: chunks_left_def st MAX_EXIT_CHUNK_ITERATIONS_def)
  have rej: "\<not> exit_accepted (sample_exit_result OrderRejected 0)" by (simp add: exit_accepted_def sample_exit_result_def)
  have env: "xeUpdateStatus ?env = None" "xeFindOrder ?env i = Inr None" for i by (simp_all add: sample_exit_env_def)
  have "\<exists>ev. exit_chunk dec20 ?env sample_exit_position sample_exit_legs False False 1 ?st =
      ([ExitSubmitted Kalshi (exit_order sample_exit_position sample_exit_legs (Fin 10) Kalshi) (Inr sample_kalshi_fill),
        ExitOrderCreated (exit_row sample_exit_position sample_exit_legs (Fin 10) False Kalshi sample_kalshi_fill) ''kalshi'',
        ExitSubmitted Polymarket (exit_order sample_exit_position sample_exit_legs (Fin 10) Polymarket)
          (Inr (sample_exit_result OrderRejected 0)),
        StatusSet ''EXIT_PARTIAL'', ExitEmitted ev], Inr (?st, False))"
    by (simp add: exit_chunk_def chunk_secondary_def chunk_unpaired_def handlePartialExit_def Let_def exit_submit_bind
        exit_create_bind sample_exit_data sample_chunk_size sample_submit sample_create sample_exit_facts st rej env
        act_do_def act_call_def act_tell_def bind_value act_return_def)
  moreover have "sample_exit (sample_exit_result OrderRejected 0) =
      run_chunks dec20 ?env sample_exit_position sample_eval sample_exit_legs False False"
    by (rule executeExit_runs [where status = "''OPEN''"]) (simp_all add: sample_exit_facts)
  ultimately show ?thesis
    by (auto simp: run_chunks_def Let_def sample_exit_data chunk_loop_go [OF go] bind_value st filled_by_def fill_of_def
        sample_exit_facts rej)
qed

lemma sample_close_leg: "filled_by Kalshi (fst (closeLeg dec20 sample_res_env)) = 10"
proof -
  have "closeLeg dec20 sample_res_env = act_bind (leg_submit sample_res_env Kalshi
      \<lparr>orContract = leg_contract (base_position sample_leg_position) Kalshi, orSide = opposite (getSide sample_leg_position Kalshi),
       orQuantity = to_number (Fin 10), orPrice = Fin (1/2)\<rparr> CLOSE_FAILED) (\<lambda>res.
      if exit_accepted res then close_leg_filled dec20 sample_res_env sample_leg_position Kalshi (Fin (1/2)) (Fin 10)
        \<lparr>orContract = leg_contract (base_position sample_leg_position) Kalshi, orSide = opposite (getSide sample_leg_position Kalshi),
         orQuantity = to_number (Fin 10), orPrice = Fin (1/2)\<rparr> res else leg_fail CLOSE_FAILED)"
    by (rule closeLeg_order [where pos = sample_leg_position and entry = sample_stored and book = "\<lparr>bids = [sample_exit_level], asks = [sample_exit_level]\<rparr>"]) (simp_all add: sample_leg_data sample_res_data sample_stored_def best_close_price_def
        sample_exit_level_def getFilledPlatform_def)
  then show "filled_by Kalshi (fst (closeLeg dec20 sample_res_env)) = 10"
    by (simp add: leg_submit_bind sample_res_data exit_accepted_def filled_by_def close_leg_filled_orders fill_of_def
        sample_exit_numbers)
qed

text \<open>
  Of the ten Kalshi contracts of the position the exit sells ten, and the close of the filled leg
  that follows the exposure sells ten more, while no Polymarket contract was sold and the position
  ends as closed.
\<close>

theorem exit_partial_close_repeats_kalshi_witness:
  "filled_by Kalshi (fst (sample_exit (sample_exit_result OrderRejected 0)) @ fst (closeLeg dec20 sample_res_env)) = 20
   \<and> (\<exists>pnl. PositionClosed pnl \<in> set (fst (closeLeg dec20 sample_res_env)))"
proof -
  have "\<exists>order res pnl. sent_orders (fst (closeLeg dec20 sample_res_env)) = [(Kalshi, order, Inr res)]
      \<and> orQuantity order = to_number (Fin 10) \<and> PositionClosed pnl \<in> set (fst (closeLeg dec20 sample_res_env))"
    by (rule exit_partial_close_repeats_kalshi [where pos = sample_leg_position and book = "\<lparr>bids = [sample_exit_level], asks = [sample_exit_level]\<rparr>" and i = "''ok''" and entry = sample_stored and entryPrice = "Fin (1/2)"
          and best = "Fin (1/2)"])
      (simp_all add: sample_leg_data sample_res_data sample_stored_def best_close_price_def sample_exit_level_def exit_accepted_def)
  then obtain order res pnl where o: "sent_orders (fst (closeLeg dec20 sample_res_env)) = [(Kalshi, order, Inr res)]"
      "orQuantity order = Fin 10" "PositionClosed pnl \<in> set (fst (closeLeg dec20 sample_res_env))"
    by (auto simp: sample_exit_numbers)
  show ?thesis using sample_unpaired_run sample_close_leg o(3) by auto
qed

theorem exit_partial_retry_refused_witness:
  "retryLeg dec20 sample_res_env (Fin (1/2)) = ([], Inl (ExecutionErr INVALID_POSITION_STATE))"
  by (rule exit_partial_retry_refused [where pos = sample_leg_position]) (simp_all add: sample_res_data sample_leg_data)

definition sample_unwind_env :: unwind_env where
  "sample_unwind_env = \<lparr>uwPosition = Inr (Some sample_leg_position), uwHasPair = True, uwHasClobToken = True,
     uwFindOrder = (\<lambda>i. Inr (Some sample_stored)), uwBook = (\<lambda>p. Inl PlatformErr), uwClose = sample_res_env\<rparr>"

definition sample_exposure :: single_leg_event where
  "sample_exposure = \<lparr>slPosition = ''pos1'', slPair = ''pair1'', slExpectedEdge = Fin 0, slFilledPlatform = Kalshi,
     slOrderId = ''kalshi'', slFilledSide = Sell, slPrice = Fin (1/2), slSize = Fin 10, slFilledPrice = Fin (1/2),
     slFilledSize = Fin 10, slFailedPlatform = Polymarket, slReason = PARTIAL_EXIT_FAILURE, slAttemptedPrice = Fin (1/2),
     slAttemptedSize = Fin 10, slCurrentPrices = (\<lambda>_. (None, None)), slIsPaper = False, slMixedMode = False\<rparr>"

theorem auto_unwind_sends_within_limit_witness:
  "length (sent_orders (fst (onSingleLegExposure dec20 \<lparr>ucEnabled = Some True, ucMaxLossPct = Fin 5\<rparr>
     sample_unwind_env sample_exposure []))) = 1"
proof -
  have "estimateCloseLoss dec20 sample_unwind_env sample_leg_position = Inr None"
    by (simp add: estimateCloseLoss_def Let_def sample_unwind_env_def sample_stored_def)
  moreover have "uwPosition sample_unwind_env = Inr (Some sample_leg_position)" "uwClose sample_unwind_env = sample_res_env"
    by (simp_all add: sample_unwind_env_def)
  ultimately have "sent_orders (unwind_after_delay dec20 \<lparr>ucEnabled = Some True, ucMaxLossPct = Fin 5\<rparr> sample_unwind_env sample_exposure)
      = sent_orders (fst (closeLeg dec20 sample_res_env))"
    by (simp add: unwind_after_delay_def sample_leg_data(5) attempt_close_orders)
  then have "sent_orders (fst (onSingleLegExposure dec20 \<lparr>ucEnabled = Some True, ucMaxLossPct = Fin 5\<rparr>
      sample_unwind_env sample_exposure [])) = sent_orders (fst (closeLeg dec20 sample_res_env))"
    by (simp add: onSingleLegExposure_def tryAcquireInFlight_def MAX_IN_FLIGHT_def)
  moreover have "sent_orders (fst (closeLeg dec20 sample_res_env)) \<noteq> []"
  proof -
    have "filled_by Kalshi (fst (closeLeg dec20 sample_res_env)) \<noteq> 0" by (simp add: sample_close_leg)
    then show ?thesis by (auto simp: filled_by_def)
  qed
  ultimately show ?thesis
    using auto_unwind_sends_within_limit [of dec20 "\<lparr>ucEnabled = Some True, ucMaxLossPct = Fin 5\<rparr>" sample_unwind_env
        sample_exposure "[]"] by simp
qed

theorem in_flight_unwinds_bounded_witness: "distinct [''a'', ''b''] \<and> length [''a'', ''b''] \<le> 100"
proof -
  have a: "unwind_step [] [''a'']"
    by (rule unwind_step.begins [of "''a''"]) (simp add: tryAcquireInFlight_def MAX_IN_FLIGHT_def set_add_def)
  have b: "unwind_step [''a''] [''a'', ''b'']"
    by (rule unwind_step.begins [of "''b''"]) (simp add: tryAcquireInFlight_def MAX_IN_FLIGHT_def set_add_def)
  have "unwind_step\<^sup>*\<^sup>* [] [''a'', ''b'']"
    by (rule converse_rtranclp_into_rtranclp [where r = unwind_step, OF a]) (rule r_into_rtranclp [where r = unwind_step, OF b])
  then show ?thesis by (rule in_flight_unwinds_bounded)
qed

end
