(* ===== verification/ExposureAlerts.thy ===== *)
theory ExposureAlerts
  imports Resolution
begin

text \<open>
  \<^verbatim>\<open>ExposureAlertScheduler\<close>: every minute the positions that are exposed on one leg or
  partially exited are reminded of, unless they were within the last 55 seconds, a connector is
  disconnected or the filled order is not complete.  An error ends the reminder of its position only.
\<close>

definition DEBOUNCE_MS :: int where "DEBOUNCE_MS = 55000"

record alert_env =
  alDisconnected :: "platform \<Rightarrow> bool"
  alPaper :: "platform \<Rightarrow> bool"
  alHasPair :: bool
  alNow :: timestamp
  alRes :: res_env

record reminder =
  rmEvent :: single_leg_event
  rmScenarios :: pnl_scenarios
  rmActions :: "recommended_action list"

text \<open>A timestamp of zero counts as none.\<close>

definition debounced :: "timestamp option \<Rightarrow> timestamp \<Rightarrow> bool" where
  "debounced lastEmittedAt now = (case lastEmittedAt of Some t \<Rightarrow> t \<noteq> 0 \<and> now - t < DEBOUNCE_MS | None \<Rightarrow> False)"

definition reminder_of ::
  "alert_env \<Rightarrow> leg_position \<Rightarrow> platform \<Rightarrow> string \<Rightarrow> stored_order \<Rightarrow> decimal \<Rightarrow> decimal \<Rightarrow> single_leg_event" where
  "reminder_of env pos filled oid order fillPrice fillSz =
     \<lparr>slPosition = xpId pos, slPair = xpPair pos, slExpectedEdge = to_number (xpExpectedEdge pos),
      slFilledPlatform = filled, slOrderId = oid, slFilledSide = getSide pos filled,
      slPrice = to_number (soPrice order), slSize = to_number (soSize order),
      slFilledPrice = to_number fillPrice, slFilledSize = to_number fillSz,
      slFailedPlatform = (if cpKalshiOrderId pos = None then Kalshi else Polymarket),
      slReason = SINGLE_LEG_EXPOSURE, slAttemptedPrice = Fin 0, slAttemptedSize = Fin 0,
      slCurrentPrices = (\<lambda>p. best_prices (rsScenarioBook (alRes env) p)),
      slIsPaper = (alPaper env Kalshi \<or> alPaper env Polymarket),
      slMixedMode = (alPaper env Kalshi \<noteq> alPaper env Polymarket)\<rparr>"

definition reEmitForPosition ::
  "(rat \<Rightarrow> rat) \<Rightarrow> alert_env \<Rightarrow> leg_position \<Rightarrow> timestamp option \<Rightarrow> (reminder, leg_error, unit) prog" where
  "reEmitForPosition rd env pos lastEmittedAt =
     (if debounced lastEmittedAt (alNow env) \<or> alDisconnected env Kalshi \<or> alDisconnected env Polymarket \<or> \<not> alHasPair env
      then act_return ()
      else
        let filled = (if cpKalshiOrderId pos \<noteq> None then Kalshi else Polymarket);
            filledOrderId = or_default (exit_pick (cpKalshiOrderId pos) (cpPolymarketOrderId pos) filled) [] in
        act_bind (act_call (rsFindOrder (alRes env) filledOrderId)) (\<lambda>found.
        case found of
          None \<Rightarrow> act_return ()
        | Some order \<Rightarrow>
            (case (soFillPrice order, soFillSize order) of
               (Some fillPrice, Some fillSz) \<Rightarrow>
                 act_bind ([], snd (buildPnlScenarios rd (alRes env) pos)) (\<lambda>(scenarios, actions).
                 act_tell [\<lparr>rmEvent = reminder_of env pos filled filledOrderId order fillPrice fillSz,
                   rmScenarios = scenarios, rmActions = actions\<rparr>])
             | _ \<Rightarrow> act_return ())))"

text \<open>The reminders of one check and the times kept for the next.\<close>

fun remind_all ::
  "(rat \<Rightarrow> rat) \<Rightarrow> (string \<Rightarrow> alert_env) \<Rightarrow> leg_position list \<Rightarrow> (string \<times> timestamp) list
     \<Rightarrow> reminder list \<times> (string \<times> timestamp) list" where
  "remind_all rd env [] sentAt = ([], sentAt)"
| "remind_all rd env (pos # ps) sentAt =
     (let sent = fst (reEmitForPosition rd (env (xpId pos)) pos (map_of sentAt (xpId pos)));
          sentAt' = (if sent = [] then sentAt else map_set (xpId pos) (alNow (env (xpId pos))) sentAt);
          (sents, sentAt'') = remind_all rd env ps sentAt'
      in (sent @ sents, sentAt''))"

definition checkExposedPositions ::
  "(rat \<Rightarrow> rat) \<Rightarrow> (string \<Rightarrow> alert_env) \<Rightarrow> leg_position list \<Rightarrow> (string \<times> timestamp) list
     \<Rightarrow> reminder list \<times> (string \<times> timestamp) list" where
  "checkExposedPositions rd env positions sentAt =
     (let (sents, sentAt') = remind_all rd env positions sentAt in
      (sents, filter (\<lambda>(i, _). i \<in> set (map xpId positions)) sentAt'))"

section \<open>Who is reminded\<close>

lemma no_failed_leg:
  assumes "cpKalshiOrderId pos \<noteq> None" "cpPolymarketOrderId pos \<noteq> None"
  shows "\<exists>e. snd (buildPnlScenarios rd env pos) = Inl e"
  using assms by (auto simp: buildPnlScenarios_def getFilledPlatform_def getFailedPlatform_def act_stop_def)

lemma both_orders_silent:
  assumes "cpKalshiOrderId pos \<noteq> None" "cpPolymarketOrderId pos \<noteq> None"
  shows "fst (reEmitForPosition rd env pos t) = []"
proof -
  obtain e where "snd (buildPnlScenarios rd (alRes env) pos) = Inl e" using no_failed_leg [OF assms] by blast
  then show ?thesis
    by (cases "rsFindOrder (alRes env) (or_default (cpKalshiOrderId pos) [])")
      (auto simp: reEmitForPosition_def Let_def act_call_def exit_pick_def assms split: option.splits)
qed

lemma reminder_position: "r \<in> set (fst (reEmitForPosition rd env pos t)) \<Longrightarrow> slPosition (rmEvent r) = xpId pos"
  by (cases "rsFindOrder (alRes env) (or_default (exit_pick (cpKalshiOrderId pos) (cpPolymarketOrderId pos)
        (if cpKalshiOrderId pos \<noteq> None then Kalshi else Polymarket)) [])";
      cases "snd (buildPnlScenarios rd (alRes env) pos)")
    (auto simp: reEmitForPosition_def Let_def act_call_def reminder_of_def bind_value split: if_splits option.splits)

lemma reminded_positions:
  "r \<in> set (fst (remind_all rd env ps sentAt)) \<Longrightarrow>
     \<exists>pos \<in> set ps. slPosition (rmEvent r) = xpId pos \<and> (cpKalshiOrderId pos = None \<or> cpPolymarketOrderId pos = None)"
proof (induction ps arbitrary: sentAt)
  case (Cons pos ps)
  define sent where "sent = fst (reEmitForPosition rd (env (xpId pos)) pos (map_of sentAt (xpId pos)))"
  define sentAt' where "sentAt' = (if sent = [] then sentAt else map_set (xpId pos) (alNow (env (xpId pos))) sentAt)"
  have "fst (remind_all rd env (pos # ps) sentAt) = sent @ fst (remind_all rd env ps sentAt')"
    by (simp add: sent_def sentAt'_def Let_def split_beta)
  then consider "r \<in> set sent" | "r \<in> set (fst (remind_all rd env ps sentAt'))" using Cons.prems by auto
  then show ?case
  proof cases
    case 1
    then have "cpKalshiOrderId pos = None \<or> cpPolymarketOrderId pos = None"
      using both_orders_silent [of pos rd] by (fastforce simp: sent_def)
    then show ?thesis using 1 by (auto simp: sent_def dest: reminder_position)
  next
    case 2
    then show ?thesis using Cons.IH by auto
  qed
qed simp

text \<open>
  the check asks for exposed and for partially exited positions, but a position that still has
  both entry orders, as every partially exited one has, is never reminded of: estimating its
  scenarios always throws, for it has no failed leg.
\<close>
theorem exit_partial_never_reminded:
  "list_all (\<lambda>r. \<exists>pos \<in> set positions. slPosition (rmEvent r) = xpId pos
      \<and> (cpKalshiOrderId pos = None \<or> cpPolymarketOrderId pos = None))
    (fst (checkExposedPositions rd env positions sentAt))"
  using reminded_positions [of _ rd env positions sentAt] by (auto simp: list_all_iff checkExposedPositions_def split_beta)

end
