(* ===== verification/Reconciliation.thy ===== *)
theory Reconciliation
  imports Budget "HOL-Library.Sublist"
begin

text \<open>
  \<^verbatim>\<open>StartupReconciliationService\<close> and its call in the engine's start-up: pending orders and
  the orders of active live positions are compared with the platforms; a discrepancy flags its
  position and halts live trading; the risk state is recalculated from the stored positions; an
  operator resolves a flagged position.  The two tables the service reads and writes are lists of
  rows, with the repository's queries over them.  A query or update may fail (\<open>reFails\<close>), a
  platform may answer late, with an error or never, and the clock is read as the code reads it.
  Log lines, message texts and the raw answers quoted in events are left out.
\<close>

section \<open>Tables\<close>

datatype db_order_status = DbPending | DbFilled | DbPartial | DbRejected | DbCancelled

datatype db_position_status = DbOpen | DbSingleLegExposed | DbExitPartial | DbClosed | DbReconciliationRequired

record recon_order =
  roId :: string
  roPlatform :: platform
  roPair :: string
  roSide :: string
  roStatus :: db_order_status
  roFillPrice :: "decimal option"
  roFillSize :: "decimal option"
  roPaper :: bool

datatype discrepancy_type = OrderStatusMismatch | OrderNotFound | PendingFilled | PlatformUnavailable

datatype report_status = RepFilled | RepPending | RepCancelled | RepRejected | RepPartial | RepNotFound

text \<open>The platform's side of a discrepancy is a status it reported, or that it was not available.\<close>

record recon_context =
  ctxRecommendedStatus :: db_position_status
  ctxType :: discrepancy_type
  ctxPlatformState :: "report_status option"
  ctxDetectedAt :: timestamp

text \<open>The JSON column: null, an object, or a JSON string, here one that holds a serialised context.\<close>

datatype context_column = ColumnNull | ColumnObject recon_context | ColumnString recon_context

record recon_position =
  rpId :: string
  rpPair :: string
  rpKalshiOrder :: "string option"
  rpPolymarketOrder :: "string option"
  rpKalshiSide :: "string option"
  rpPolymarketSide :: "string option"
  rpStatus :: db_position_status
  rpContext :: context_column
  rpPaper :: bool

record recon_db =
  dbOrders :: "recon_order list"
  dbPositions :: "recon_position list"

definition findPendingOrders :: "bool \<Rightarrow> recon_db \<Rightarrow> recon_order list" where
  "findPendingOrders isPaper db = filter (\<lambda>r. roStatus r = DbPending \<and> roPaper r = isPaper) (dbOrders db)"

definition findByStatus :: "db_position_status \<Rightarrow> bool \<Rightarrow> recon_db \<Rightarrow> recon_position list" where
  "findByStatus st isPaper db = filter (\<lambda>p. rpStatus p = st \<and> rpPaper p = isPaper) (dbPositions db)"

definition findActivePositions :: "bool \<Rightarrow> recon_db \<Rightarrow> recon_position list" where
  "findActivePositions isPaper db = filter (\<lambda>p. rpPaper p = isPaper \<and>
     rpStatus p \<in> {DbOpen, DbSingleLegExposed, DbExitPartial, DbReconciliationRequired}) (dbPositions db)"

definition findById :: "string \<Rightarrow> recon_db \<Rightarrow> recon_position option" where
  "findById pid db = find (\<lambda>p. rpId p = pid) (dbPositions db)"

definition included_order :: "recon_db \<Rightarrow> string option \<Rightarrow> recon_order option" where
  "included_order db i = Option.bind i (\<lambda>oid. find (\<lambda>r. roId r = oid) (dbOrders db))"

text \<open>Updating a row that does not exist throws.\<close>

definition update_order :: "string \<Rightarrow> (recon_order \<Rightarrow> recon_order) \<Rightarrow> recon_db \<Rightarrow> recon_db option" where
  "update_order oid f db = (if oid \<in> set (map roId (dbOrders db))
     then Some (db\<lparr>dbOrders := map (\<lambda>r. if roId r = oid then f r else r) (dbOrders db)\<rparr>) else None)"

definition update_position :: "string \<Rightarrow> (recon_position \<Rightarrow> recon_position) \<Rightarrow> recon_db \<Rightarrow> recon_db option" where
  "update_position pid f db = (if pid \<in> set (map rpId (dbPositions db))
     then Some (db\<lparr>dbPositions := map (\<lambda>p. if rpId p = pid then f p else p) (dbPositions db)\<rparr>) else None)"

definition updateOrderStatus :: "string \<Rightarrow> db_order_status \<Rightarrow> decimal option \<Rightarrow> decimal option \<Rightarrow> recon_db \<Rightarrow> recon_db option" where
  "updateOrderStatus oid st fillP sz = update_order oid (\<lambda>r. r\<lparr>roStatus := st,
     roFillPrice := (case fillP of None \<Rightarrow> roFillPrice r | Some _ \<Rightarrow> fillP),
     roFillSize := (case sz of None \<Rightarrow> roFillSize r | Some _ \<Rightarrow> sz)\<rparr>)"

section \<open>Platforms, clock and effects\<close>

record order_report =
  repStatus :: report_status
  repFillPrice :: "jsnum option"
  repFillSize :: "jsnum option"

text \<open>An answer with the time it takes; \<open>None\<close> never settles.\<close>

type_synonym order_answer = "(int \<times> (string + order_report)) option"

definition API_CALL_TIMEOUT_MS :: int where "API_CALL_TIMEOUT_MS = 10000"
definition OVERALL_TIMEOUT_MS :: int where "OVERALL_TIMEOUT_MS = 60000"

definition callWithTimeout :: "int \<Rightarrow> (int \<times> (string + 'a)) option \<Rightarrow> string + 'a" where
  "callWithTimeout limit answer = (case answer of
       None \<Rightarrow> Inl ''API call timed out''
     | Some (latency, r) \<Rightarrow> if latency < limit then r else Inl ''API call timed out'')"

datatype recon_query =
    QPending
  | QUpdateOrder string
  | QSingleLeg string
  | QConnect string
  | QActive
  | QFlag nat
  | QActiveFor bool
  | QPosition string
  | QUpdatePosition string
  | QFlagged
  | QCount

record recon_env =
  reHealth :: "platform \<Rightarrow> string"
  reNow :: "nat \<Rightarrow> timestamp"
  rePendingAnswer :: "string \<Rightarrow> order_answer"
  rePositionAnswer :: "string \<Rightarrow> platform \<Rightarrow> order_answer"
  reFails :: "recon_query \<Rightarrow> string option"
  reColumn :: "jsnum \<Rightarrow> decimal"

record discrepancy =
  dcPosition :: string
  dcPair :: string
  dcType :: discrepancy_type
  dcLocal :: db_order_status
  dcPlatform :: "report_status option"

record recon_result =
  rrPositionsChecked :: nat
  rrOrdersVerified :: nat
  rrPendingResolved :: nat
  rrDurationMs :: int
  rrUnavailable :: "platform list"
  rrDiscrepancies :: "discrepancy list"

datatype recon_effect =
    FillReported string platform string jsnum jsnum string
  | DiscrepancyReported discrepancy
  | HealthCritical nat
  | RiskEffect risk_effect
  | AuditCompleted recon_result bool
  | CompletionReported recon_result bool
  | AuditResolved string bool db_position_status

record recon =
  rcDb :: recon_db
  rcRisk :: budget_state
  rcReads :: nat
  rcTimedOut :: bool
  rcLastRun :: "(recon_result \<times> timestamp) option"
  rcEffects :: "recon_effect list"

definition tell :: "recon_effect list \<Rightarrow> recon \<Rightarrow> recon" where
  "tell effs st = st\<lparr>rcEffects := rcEffects st @ effs\<rparr>"

definition on_risk :: "(budget_state \<Rightarrow> budget_state \<times> risk_effect list) \<Rightarrow> recon \<Rightarrow> recon" where
  "on_risk f st = (let (s, evs) = f (rcRisk st) in tell (map RiskEffect evs) (st\<lparr>rcRisk := s\<rparr>))"

definition halt_reconciliation :: "(rat \<Rightarrow> rat) \<Rightarrow> recon \<Rightarrow> recon" where
  "halt_reconciliation rd = on_risk (\<lambda>s. haltTrading (reservationData rd s) RECONCILIATION_DISCREPANCY s)"

definition resume_reconciliation :: "(rat \<Rightarrow> rat) \<Rightarrow> recon \<Rightarrow> recon" where
  "resume_reconciliation rd = on_risk (\<lambda>s. resumeTrading (reservationData rd s) RECONCILIATION_DISCREPANCY s)"

definition read_clock :: "recon_env \<Rightarrow> recon \<Rightarrow> timestamp \<times> recon" where
  "read_clock env st = (reNow env (rcReads st), st\<lparr>rcReads := rcReads st + 1\<rparr>)"

definition checkTimeout :: "recon_env \<Rightarrow> timestamp \<Rightarrow> recon \<Rightarrow> bool \<times> recon" where
  "checkTimeout env startedAt st =
     (let (now, st1) = read_clock env st in
      if now - startedAt > OVERALL_TIMEOUT_MS then (True, st1\<lparr>rcTimedOut := True\<rparr>) else (False, st1))"

section \<open>Pending orders\<close>

text \<open>
  The missing leg of a single-leg position of the pair is connected; the fill is reported for
  that position either way.  The second component is false when an update throws.
\<close>

definition no_order :: "string option \<Rightarrow> bool" where
  "no_order i \<longleftrightarrow> i = None \<or> i = Some []"

definition connect_order :: "recon_order \<Rightarrow> recon_position \<Rightarrow> (recon_position \<Rightarrow> recon_position) option" where
  "connect_order r p =
     (if roPlatform r = Kalshi \<and> no_order (rpKalshiOrder p)
      then Some (\<lambda>q. q\<lparr>rpKalshiOrder := Some (roId r), rpStatus := DbOpen\<rparr>)
      else if roPlatform r \<noteq> Kalshi \<and> no_order (rpPolymarketOrder p)
      then Some (\<lambda>q. q\<lparr>rpPolymarketOrder := Some (roId r), rpStatus := DbOpen\<rparr>)
      else None)"

definition fill_report :: "recon_order \<Rightarrow> order_report \<Rightarrow> recon_position \<Rightarrow> recon_effect" where
  "fill_report r rep p = FillReported (roId r) (roPlatform r) (roSide r)
     (case repFillPrice rep of None \<Rightarrow> Fin 0 | Some x \<Rightarrow> x) (case repFillSize rep of None \<Rightarrow> Fin 0 | Some x \<Rightarrow> x) (rpId p)"

definition resolvePendingFilledOrder :: "recon_env \<Rightarrow> recon_order \<Rightarrow> order_report \<Rightarrow> recon \<Rightarrow> recon \<times> bool" where
  "resolvePendingFilledOrder env r rep st =
     (if reFails env (QSingleLeg (roId r)) \<noteq> None then (st, False)
      else case find (\<lambda>p. rpPair p = roPair r) (findByStatus DbSingleLegExposed False (rcDb st)) of
        None \<Rightarrow> (st, True)
      | Some p \<Rightarrow>
          (case connect_order r p of
             None \<Rightarrow> (tell [fill_report r rep p] st, True)
           | Some f \<Rightarrow>
               if reFails env (QConnect (roId r)) \<noteq> None then (st, False)
               else (case update_position (rpId p) f (rcDb st) of
                   None \<Rightarrow> (st, False)
                 | Some db \<Rightarrow> (tell [fill_report r rep p] (st\<lparr>rcDb := db\<rparr>), True))))"

record phase_result =
  phResolved :: nat
  phChecked :: nat
  phDiscrepancies :: "discrepancy list"

definition store_order :: "recon_env \<Rightarrow> recon_order \<Rightarrow> db_order_status \<Rightarrow> decimal option \<Rightarrow> decimal option \<Rightarrow> recon \<Rightarrow> recon option" where
  "store_order env r status fillP sz st =
     (if reFails env (QUpdateOrder (roId r)) \<noteq> None then None
      else map_option (\<lambda>db. st\<lparr>rcDb := db\<rparr>) (updateOrderStatus (roId r) status fillP sz (rcDb st)))"

definition missing_order :: "recon_order \<Rightarrow> recon_db \<Rightarrow> discrepancy" where
  "missing_order r db =
     \<lparr>dcPosition = (case find (\<lambda>p. rpPair p = roPair r) (findByStatus DbSingleLegExposed False db) of
         Some p \<Rightarrow> rpId p | None \<Rightarrow> roPair r),
      dcPair = roPair r, dcType = OrderNotFound, dcLocal = DbPending, dcPlatform = Some RepNotFound\<rparr>"

text \<open>One order; an error at any point is logged and leaves the counters.\<close>

definition reconcile_pending :: "recon_env \<Rightarrow> recon_order \<Rightarrow> recon \<times> phase_result \<Rightarrow> recon \<times> phase_result" where
  "reconcile_pending env r = (\<lambda>(st, ph).
     let resolved = ph\<lparr>phResolved := phResolved ph + 1\<rparr> in
     case callWithTimeout API_CALL_TIMEOUT_MS (rePendingAnswer env (roId r)) of
       Inl _ \<Rightarrow> (st, ph)
     | Inr rep \<Rightarrow>
         (case repStatus rep of
            RepFilled \<Rightarrow>
              (case store_order env r DbFilled (map_option (reColumn env) (repFillPrice rep)) (map_option (reColumn env) (repFillSize rep)) st of
                 None \<Rightarrow> (st, ph)
               | Some st1 \<Rightarrow> (case resolvePendingFilledOrder env r rep st1 of (st2, ok) \<Rightarrow> (st2, if ok then resolved else ph)))
          | RepCancelled \<Rightarrow> (case store_order env r DbCancelled None None st of None \<Rightarrow> (st, ph) | Some st1 \<Rightarrow> (st1, resolved))
          | RepRejected \<Rightarrow> (case store_order env r DbRejected None None st of None \<Rightarrow> (st, ph) | Some st1 \<Rightarrow> (st1, resolved))
          | RepNotFound \<Rightarrow>
              if reFails env (QSingleLeg (roId r)) \<noteq> None then (st, ph)
              else (st, ph\<lparr>phDiscrepancies := phDiscrepancies ph @ [missing_order r (rcDb st)]\<rparr>)
          | _ \<Rightarrow> (st, ph)))"

fun pending_loop :: "recon_env \<Rightarrow> timestamp \<Rightarrow> (platform \<Rightarrow> bool) \<Rightarrow> recon_order list \<Rightarrow> recon \<times> phase_result \<Rightarrow> recon \<times> phase_result" where
  "pending_loop env startedAt available [] acc = acc"
| "pending_loop env startedAt available (r # rs) (st, ph) =
     (case checkTimeout env startedAt st of (late, st1) \<Rightarrow>
        if late then (st1, ph)
        else if \<not> available (roPlatform r) then pending_loop env startedAt available rs (st1, ph)
        else pending_loop env startedAt available rs (reconcile_pending env r (st1, ph\<lparr>phChecked := phChecked ph + 1\<rparr>)))"

definition reconcilePendingOrders ::
  "recon_env \<Rightarrow> timestamp \<Rightarrow> (platform \<Rightarrow> bool) \<Rightarrow> recon \<Rightarrow> recon \<times> (string + phase_result)" where
  "reconcilePendingOrders env startedAt available st =
     (case reFails env QPending of
        Some e \<Rightarrow> (st, Inl e)
      | None \<Rightarrow> apsnd Inr (pending_loop env startedAt available (findPendingOrders False (rcDb st))
          (st, \<lparr>phResolved = 0, phChecked = 0, phDiscrepancies = []\<rparr>)))"

section \<open>Active positions\<close>

fun platformToLocalStatus :: "report_status \<Rightarrow> db_order_status option" where
  "platformToLocalStatus RepFilled = Some DbFilled"
| "platformToLocalStatus RepPending = Some DbPending"
| "platformToLocalStatus RepCancelled = Some DbCancelled"
| "platformToLocalStatus RepRejected = Some DbRejected"
| "platformToLocalStatus RepPartial = Some DbPartial"
| "platformToLocalStatus RepNotFound = None"

definition checkOrderDiscrepancy :: "recon_position \<Rightarrow> db_order_status \<Rightarrow> report_status \<Rightarrow> discrepancy option" where
  "checkOrderDiscrepancy p localStatus reported =
     (let d = \<lparr>dcPosition = rpId p, dcPair = rpPair p, dcType = OrderStatusMismatch, dcLocal = localStatus,
               dcPlatform = Some reported\<rparr> in
      if reported = RepNotFound then Some (d\<lparr>dcType := OrderNotFound\<rparr>)
      else case platformToLocalStatus reported of
        None \<Rightarrow> None
      | Some mapped \<Rightarrow>
          if mapped = localStatus then None
          else if localStatus = DbPending \<and> reported = RepFilled then Some (d\<lparr>dcType := PendingFilled\<rparr>)
          else Some d)"

text \<open>The verification of one leg: the number of verified orders and the discrepancies.\<close>

definition verify_leg :: "recon_env \<Rightarrow> (platform \<Rightarrow> bool) \<Rightarrow> recon_db \<Rightarrow> recon_position \<Rightarrow> platform \<Rightarrow> nat \<times> discrepancy list" where
  "verify_leg env available db p pl =
     (case included_order db (case pl of Kalshi \<Rightarrow> rpKalshiOrder p | Polymarket \<Rightarrow> rpPolymarketOrder p) of
        None \<Rightarrow> (0, [])
      | Some r \<Rightarrow>
          if \<not> available pl then
            (0, [\<lparr>dcPosition = rpId p, dcPair = rpPair p, dcType = PlatformUnavailable, dcLocal = roStatus r, dcPlatform = None\<rparr>])
          else case callWithTimeout API_CALL_TIMEOUT_MS (rePositionAnswer env (rpId p) pl) of
            Inl _ \<Rightarrow> (0, [])
          | Inr rep \<Rightarrow> (1, case checkOrderDiscrepancy p (roStatus r) (repStatus rep) of None \<Rightarrow> [] | Some d \<Rightarrow> [d]))"

definition verify_position :: "recon_env \<Rightarrow> (platform \<Rightarrow> bool) \<Rightarrow> recon_db \<Rightarrow> recon_position \<Rightarrow> nat \<times> discrepancy list" where
  "verify_position env available db p =
     (if rpStatus p = DbReconciliationRequired then (0, [])
      else let k = verify_leg env available db p Kalshi; q = verify_leg env available db p Polymarket
        in (fst k + fst q, snd k @ snd q))"

record position_phase =
  ppChecked :: nat
  ppVerified :: nat
  ppDiscrepancies :: "discrepancy list"

fun position_loop :: "recon_env \<Rightarrow> timestamp \<Rightarrow> (platform \<Rightarrow> bool) \<Rightarrow> recon_db \<Rightarrow> recon_position list \<Rightarrow> recon \<times> position_phase \<Rightarrow> recon \<times> position_phase" where
  "position_loop env startedAt available db [] acc = acc"
| "position_loop env startedAt available db (p # ps) (st, ph) =
     (case checkTimeout env startedAt st of (late, st1) \<Rightarrow>
        if late then (st1, ph)
        else case verify_position env available db p of (verified, ds) \<Rightarrow>
          position_loop env startedAt available db ps
            (st1, \<lparr>ppChecked = ppChecked ph + 1, ppVerified = ppVerified ph + verified,
                   ppDiscrepancies = ppDiscrepancies ph @ ds\<rparr>))"

definition reconcileActivePositions ::
  "recon_env \<Rightarrow> timestamp \<Rightarrow> (platform \<Rightarrow> bool) \<Rightarrow> recon \<Rightarrow> recon \<times> (string + position_phase)" where
  "reconcileActivePositions env startedAt available st =
     (case reFails env QActive of
        Some e \<Rightarrow> (st, Inl e)
      | None \<Rightarrow> apsnd Inr (position_loop env startedAt available (rcDb st) (findActivePositions False (rcDb st))
          (st, \<lparr>ppChecked = 0, ppVerified = 0, ppDiscrepancies = []\<rparr>)))"

section \<open>Discrepancies and the risk budget\<close>

fun getRecommendedStatus :: "discrepancy_type \<Rightarrow> db_position_status" where
  "getRecommendedStatus PendingFilled = DbOpen"
| "getRecommendedStatus OrderNotFound = DbClosed"
| "getRecommendedStatus OrderStatusMismatch = DbClosed"
| "getRecommendedStatus PlatformUnavailable = DbOpen"

definition flag_position :: "recon_context \<Rightarrow> recon_position \<Rightarrow> recon_position" where
  "flag_position ctx p = p\<lparr>rpStatus := DbReconciliationRequired, rpContext := ColumnString ctx\<rparr>"

text \<open>The context is written with \<^verbatim>\<open>JSON.stringify\<close>, so the JSON column receives a string.\<close>

definition flag_discrepancy :: "recon_env \<Rightarrow> nat \<Rightarrow> discrepancy \<Rightarrow> recon \<Rightarrow> recon" where
  "flag_discrepancy env i d st =
     (let (now, st1) = read_clock env st;
          ctx = \<lparr>ctxRecommendedStatus = getRecommendedStatus (dcType d), ctxType = dcType d,
                 ctxPlatformState = dcPlatform d, ctxDetectedAt = now\<rparr>;
          st2 = (if reFails env (QFlag i) \<noteq> None then st1
                 else case update_position (dcPosition d) (flag_position ctx) (rcDb st1) of
                     None \<Rightarrow> st1
                   | Some db \<Rightarrow> st1\<lparr>rcDb := db\<rparr>)
      in tell [DiscrepancyReported d] st2)"

fun flag_loop :: "recon_env \<Rightarrow> nat \<Rightarrow> discrepancy list \<Rightarrow> recon \<Rightarrow> recon" where
  "flag_loop env i [] st = st"
| "flag_loop env i (d # ds) st = flag_loop env (i + 1) ds (flag_discrepancy env i d st)"

definition handleDiscrepancies :: "(rat \<Rightarrow> rat) \<Rightarrow> recon_env \<Rightarrow> discrepancy list \<Rightarrow> recon \<Rightarrow> recon" where
  "handleDiscrepancies rd env ds st =
     halt_reconciliation rd (tell [HealthCritical (length ds)] (flag_loop env 0 ds st))"

definition recon_leg_capital :: "(rat \<Rightarrow> rat) \<Rightarrow> string option \<Rightarrow> recon_order option \<Rightarrow> decimal" where
  "recon_leg_capital rd side ord =
     (case ord of
        None \<Rightarrow> Fin 0
      | Some r \<Rightarrow>
          (case (roFillPrice r, roFillSize r) of
             (Some fillP, Some sz) \<Rightarrow>
               calculateLegCapital rd (case side of Some s \<Rightarrow> s | None \<Rightarrow> roSide r) fillP sz
           | _ \<Rightarrow> Fin 0))"

definition counted_open :: "recon_position \<Rightarrow> bool" where
  "counted_open p \<longleftrightarrow> rpStatus p \<in> {DbOpen, DbSingleLegExposed, DbExitPartial}"

definition add_position_capital :: "(rat \<Rightarrow> rat) \<Rightarrow> recon_db \<Rightarrow> decimal \<Rightarrow> recon_position \<Rightarrow> decimal" where
  "add_position_capital rd db acc p =
     xadd rd (xadd rd acc (recon_leg_capital rd (rpKalshiSide p) (included_order db (rpKalshiOrder p))))
       (recon_leg_capital rd (rpPolymarketSide p) (included_order db (rpPolymarketOrder p)))"

definition stored_count :: "bool \<Rightarrow> recon_db \<Rightarrow> int" where
  "stored_count isPaper db = int (length (filter counted_open (findActivePositions isPaper db)))"

definition stored_capital :: "(rat \<Rightarrow> rat) \<Rightarrow> bool \<Rightarrow> recon_db \<Rightarrow> decimal" where
  "stored_capital rd isPaper db = foldl (add_position_capital rd db) (Fin 0) (findActivePositions isPaper db)"

definition recalculate_mode :: "(rat \<Rightarrow> rat) \<Rightarrow> bool \<Rightarrow> recon \<Rightarrow> recon" where
  "recalculate_mode rd isPaper st =
     on_risk (\<lambda>s. recalculateFromPositions (reservationData rd s)
       (stored_count isPaper (rcDb st)) (stored_capital rd isPaper (rcDb st)) isPaper s) st"

definition recalculateRiskBudget :: "(rat \<Rightarrow> rat) \<Rightarrow> recon_env \<Rightarrow> recon \<Rightarrow> recon \<times> string option" where
  "recalculateRiskBudget rd env st =
     (case reFails env (QActiveFor False) of
        Some e \<Rightarrow> (st, Some e)
      | None \<Rightarrow>
          let st1 = recalculate_mode rd False st in
          (case reFails env (QActiveFor True) of
             Some e \<Rightarrow> (st1, Some e)
           | None \<Rightarrow> (recalculate_mode rd True st1, None)))"

section \<open>A reconciliation\<close>

definition available_on :: "recon_env \<Rightarrow> platform \<Rightarrow> bool" where
  "available_on env pl \<longleftrightarrow> reHealth env pl \<noteq> ''disconnected''"

definition pending_phase ::
  "recon_env \<Rightarrow> timestamp \<Rightarrow> recon \<Rightarrow> recon \<times> (string + phase_result)" where
  "pending_phase env startedAt st =
     (case checkTimeout env startedAt st of (late, st1) \<Rightarrow>
        if late then (st1, Inr \<lparr>phResolved = 0, phChecked = 0, phDiscrepancies = []\<rparr>)
        else reconcilePendingOrders env startedAt (available_on env) st1)"

definition positions_phase ::
  "recon_env \<Rightarrow> timestamp \<Rightarrow> recon \<Rightarrow> recon \<times> (string + position_phase)" where
  "positions_phase env startedAt st =
     (case checkTimeout env startedAt st of (late, st1) \<Rightarrow>
        if late then (st1, Inr \<lparr>ppChecked = 0, ppVerified = 0, ppDiscrepancies = []\<rparr>)
        else reconcileActivePositions env startedAt (available_on env) st1)"

text \<open>The last phase: halt or resume, recalculate, report.\<close>

definition settle_reconciliation ::
  "(rat \<Rightarrow> rat) \<Rightarrow> recon_env \<Rightarrow> timestamp \<Rightarrow> phase_result \<Rightarrow> position_phase \<Rightarrow> recon \<Rightarrow> recon \<times> (string + recon_result)" where
  "settle_reconciliation rd env startedAt ph pp st =
     (let ds = phDiscrepancies ph @ ppDiscrepancies pp;
          (now, st1) = read_clock env st;
          st2 = (if ds \<noteq> [] then handleDiscrepancies rd env ds st1 else resume_reconciliation rd st1)
      in case recalculateRiskBudget rd env st2 of
           (st3, Some e) \<Rightarrow> (st3, Inl e)
         | (st3, None) \<Rightarrow>
             let r = \<lparr>rrPositionsChecked = ppChecked pp, rrOrdersVerified = phChecked ph + ppVerified pp,
                      rrPendingResolved = phResolved ph, rrDurationMs = now - startedAt,
                      rrUnavailable = filter (\<lambda>pl. \<not> available_on env pl) [Kalshi, Polymarket],
                      rrDiscrepancies = ds\<rparr>;
                 (finished, st4) = read_clock env st3
             in (tell [AuditCompleted r (rcTimedOut st4), CompletionReported r (rcTimedOut st4)]
                   (st4\<lparr>rcLastRun := Some (r, finished)\<rparr>), Inr r))"

definition reconcile :: "(rat \<Rightarrow> rat) \<Rightarrow> recon_env \<Rightarrow> recon \<Rightarrow> recon \<times> (string + recon_result)" where
  "reconcile rd env st0 =
     (let (startedAt, st) = read_clock env (st0\<lparr>rcTimedOut := False\<rparr>) in
      case pending_phase env startedAt st of
        (st1, Inl e) \<Rightarrow> (st1, Inl e)
      | (st1, Inr ph) \<Rightarrow>
          (case positions_phase env startedAt st1 of
             (st2, Inl e) \<Rightarrow> (st2, Inl e)
           | (st2, Inr pp) \<Rightarrow> settle_reconciliation rd env startedAt ph pp st2))"


section \<open>Resolution by the operator\<close>

datatype resolution = Acknowledge | ForceClose

text \<open>\<^verbatim>\<open>parseJsonField\<close> with the schema of a nullable object.\<close>

fun parse_context :: "context_column \<Rightarrow> string + recon_context option" where
  "parse_context ColumnNull = Inr None"
| "parse_context (ColumnObject ctx) = Inr (Some ctx)"
| "parse_context (ColumnString _) = Inl ''Prisma JSON field validation failed''"

record resolution_result =
  rsPosition :: string
  rsNewStatus :: db_position_status
  rsRemaining :: nat

text \<open>The update leaves the context column as it is: an undefined value is not written.\<close>

definition set_status :: "recon_env \<Rightarrow> string \<Rightarrow> db_position_status \<Rightarrow> recon \<Rightarrow> string + recon" where
  "set_status env pid status st =
     (case reFails env (QUpdatePosition pid) of
        Some e \<Rightarrow> Inl e
      | None \<Rightarrow> (case update_position pid (\<lambda>p. p\<lparr>rpStatus := status\<rparr>) (rcDb st) of
            None \<Rightarrow> Inl ''Record to update not found''
          | Some db \<Rightarrow> Inr (st\<lparr>rcDb := db\<rparr>)))"

definition apply_resolution ::
  "(rat \<Rightarrow> rat) \<Rightarrow> recon_env \<Rightarrow> recon_position \<Rightarrow> resolution \<Rightarrow> recon \<Rightarrow> string + recon \<times> db_position_status" where
  "apply_resolution rd env p act st =
     (case act of
        Acknowledge \<Rightarrow>
          and_then (parse_context (rpContext p)) (\<lambda>ctx. case ctx of
             None \<Rightarrow> Inl ''No reconciliation context found for position''
           | Some c \<Rightarrow> and_then (set_status env (rpId p) (ctxRecommendedStatus c) st)
               (\<lambda>st1. Inr (st1, ctxRecommendedStatus c)))
      | ForceClose \<Rightarrow>
          and_then (set_status env (rpId p) DbClosed st)
            (\<lambda>st1. Inr (on_risk (closePosition rd (Fin 0) (Fin 0) (Some (rpPair p)) (rpPaper p)) st1, DbClosed)))"

definition settle_resolution ::
  "(rat \<Rightarrow> rat) \<Rightarrow> recon_env \<Rightarrow> string \<Rightarrow> db_position_status \<Rightarrow> recon \<Rightarrow> recon \<times> (string + resolution_result)" where
  "settle_resolution rd env pid status st =
     (case reFails env QFlagged of
        Some e \<Rightarrow> (st, Inl e)
      | None \<Rightarrow>
          let remaining = length (findByStatus DbReconciliationRequired False (rcDb st));
              st1 = (if remaining = 0 then resume_reconciliation rd st else st)
          in case recalculateRiskBudget rd env st1 of
               (st2, Some e) \<Rightarrow> (st2, Inl e)
             | (st2, None) \<Rightarrow> (st2, Inr \<lparr>rsPosition = pid, rsNewStatus = status, rsRemaining = remaining\<rparr>))"

definition resolveDiscrepancy ::
  "(rat \<Rightarrow> rat) \<Rightarrow> recon_env \<Rightarrow> string \<Rightarrow> resolution \<Rightarrow> recon \<Rightarrow> recon \<times> (string + resolution_result)" where
  "resolveDiscrepancy rd env pid act st =
     (case reFails env (QPosition pid) of
        Some e \<Rightarrow> (st, Inl e)
      | None \<Rightarrow>
          (case findById pid (rcDb st) of
             None \<Rightarrow> (st, Inl (''Position not found: '' @ pid))
           | Some p \<Rightarrow>
               if rpStatus p \<noteq> DbReconciliationRequired then (st, Inl (''Position '' @ pid @ '' is not in RECONCILIATION_REQUIRED state''))
               else (case apply_resolution rd env p act st of
                   Inl e \<Rightarrow> (st, Inl e)
                 | Inr (st1, status) \<Rightarrow>
                     settle_resolution rd env pid status (tell [AuditResolved pid (act = Acknowledge) status] st1))))"

section \<open>The call at start-up\<close>

text \<open>
  \<^verbatim>\<open>onApplicationBootstrap\<close> from the reconciliation on.  A reconciliation that throws halts
  live trading when live positions are open; \<open>Some\<close> is an error that ends the start-up.
\<close>

definition startup_reconciliation :: "(rat \<Rightarrow> rat) \<Rightarrow> recon_env \<Rightarrow> recon \<Rightarrow> recon \<times> string option" where
  "startup_reconciliation rd env st =
     (case reconcile rd env st of
        (st1, Inr r) \<Rightarrow> (if rrDiscrepancies r \<noteq> [] then st1 else resume_reconciliation rd st1, None)
      | (st1, Inl _) \<Rightarrow>
          (case reFails env QCount of
             Some e \<Rightarrow> (st1, Some e)
           | None \<Rightarrow>
               if length (filter (\<lambda>p. counted_open p \<and> \<not> rpPaper p) (dbPositions (rcDb st1))) > 0
               then (halt_reconciliation rd st1, None) else (st1, None)))"


section \<open>Endpoints\<close>

text \<open>
  \<^verbatim>\<open>ReconciliationController\<close>: the status code of a failed resolution is read off the
  message; a run is refused within thirty seconds of the last completed one.
\<close>

definition RUN_DEBOUNCE_MS :: int where "RUN_DEBOUNCE_MS = 30000"

definition resolution_code :: "string \<Rightarrow> nat" where
  "resolution_code message =
     (if sublist ''not found'' message then 404
      else if sublist ''not in RECONCILIATION_REQUIRED'' message then 409
      else 500)"

definition resolve_endpoint ::
  "(rat \<Rightarrow> rat) \<Rightarrow> recon_env \<Rightarrow> string \<Rightarrow> resolution \<Rightarrow> recon \<Rightarrow> recon \<times> (nat + resolution_result)" where
  "resolve_endpoint rd env pid act st =
     (case resolveDiscrepancy rd env pid act st of
        (st1, Inr r) \<Rightarrow> (st1, Inr r)
      | (st1, Inl e) \<Rightarrow> (st1, Inl (resolution_code e)))"

definition run_endpoint :: "(rat \<Rightarrow> rat) \<Rightarrow> recon_env \<Rightarrow> timestamp \<Rightarrow> recon \<Rightarrow> recon \<times> (nat + recon_result)" where
  "run_endpoint rd env now st =
     (if (case rcLastRun st of None \<Rightarrow> False | Some (_, at') \<Rightarrow> now - at' < RUN_DEBOUNCE_MS) then (st, Inl 429)
      else case reconcile rd env st of
        (st1, Inr r) \<Rightarrow> (st1, Inr r)
      | (st1, Inl _) \<Rightarrow> (st1, Inl 500))"

definition status_endpoint :: "recon \<Rightarrow> (recon_result \<times> timestamp) option \<times> nat" where
  "status_endpoint st = (rcLastRun st, length (findByStatus DbReconciliationRequired False (rcDb st)))"

section \<open>Frames\<close>

lemma tell_simps [simp]:
  "rcDb (tell es st) = rcDb st" "rcRisk (tell es st) = rcRisk st" "rcReads (tell es st) = rcReads st"
  "rcTimedOut (tell es st) = rcTimedOut st" "rcEffects (tell es st) = rcEffects st @ es"
  by (simp_all add: tell_def)

lemma on_risk_simps [simp]:
  "rcDb (on_risk f st) = rcDb st" "rcRisk (on_risk f st) = fst (f (rcRisk st))"
  "rcTimedOut (on_risk f st) = rcTimedOut st" "rcReads (on_risk f st) = rcReads st"
  by (simp_all add: on_risk_def split: prod.splits)

lemma read_clock_simps [simp]:
  "fst (read_clock env st) = reNow env (rcReads st)" "rcDb (snd (read_clock env st)) = rcDb st"
  "rcRisk (snd (read_clock env st)) = rcRisk st" "rcTimedOut (snd (read_clock env st)) = rcTimedOut st"
  by (simp_all add: read_clock_def)

definition live_halts :: "recon \<Rightarrow> string list" where
  "live_halts st = activeHaltReasons (liveState (rcRisk st))"

lemma halt_reconciliation_halts [simp]:
  "rcDb (halt_reconciliation rd st) = rcDb st"
  "rcTimedOut (halt_reconciliation rd st) = rcTimedOut st"
  "set (live_halts (halt_reconciliation rd st)) = insert RECONCILIATION_DISCREPANCY (set (live_halts st))"
  "paperState (rcRisk (halt_reconciliation rd st)) = paperState (rcRisk st)"
  by (auto simp: halt_reconciliation_def live_halts_def haltTrading_def applyHalt_def getState_def put_state_def Let_def set_add_def
      split: if_splits)

lemma resume_reconciliation_halts [simp]:
  "rcDb (resume_reconciliation rd st) = rcDb st"
  "rcTimedOut (resume_reconciliation rd st) = rcTimedOut st"
  "set (live_halts (resume_reconciliation rd st)) = set (live_halts st) - {RECONCILIATION_DISCREPANCY}"
  "paperState (rcRisk (resume_reconciliation rd st)) = paperState (rcRisk st)"
  by (auto simp: resume_reconciliation_def live_halts_def resumeTrading_def applyResume_def getState_def put_state_def Let_def set_delete_def
      split: if_splits)

lemma recalculate_mode_simps [simp]:
  "rcDb (recalculate_mode rd p st) = rcDb st"
  "rcTimedOut (recalculate_mode rd p st) = rcTimedOut st"
  "live_halts (recalculate_mode rd p st) = live_halts st"
  "getState q (rcRisk (recalculate_mode rd p st)) = (if q = p then (getState p (rcRisk st))
     \<lparr>openPositionCount := stored_count p (rcDb st), totalCapitalDeployed := stored_capital rd p (rcDb st)\<rparr> else getState q (rcRisk st))"
  by (auto simp: recalculate_mode_def recalculateFromPositions_def live_halts_def Let_def getState_def put_state_def)

text \<open>What the recalculation leaves: each mode has the stored count and capital.\<close>

definition in_sync :: "(rat \<Rightarrow> rat) \<Rightarrow> bool \<Rightarrow> recon \<Rightarrow> bool" where
  "in_sync rd isPaper st \<longleftrightarrow>
     openPositionCount (getState isPaper (rcRisk st)) = stored_count isPaper (rcDb st) \<and>
     totalCapitalDeployed (getState isPaper (rcRisk st)) = stored_capital rd isPaper (rcDb st)"

lemma recalculated:
  assumes "recalculateRiskBudget rd env st = (st', None)"
  shows "rcDb st' = rcDb st" "rcTimedOut st' = rcTimedOut st" "live_halts st' = live_halts st"
    "in_sync rd False st'" "in_sync rd True st'"
    "activeHaltReasons (paperState (rcRisk st')) = activeHaltReasons (paperState (rcRisk st))"
proof -
  from assms have st': "st' = recalculate_mode rd True (recalculate_mode rd False st)"
    by (auto simp: recalculateRiskBudget_def Let_def split: option.splits)
  show "rcDb st' = rcDb st" "rcTimedOut st' = rcTimedOut st" "live_halts st' = live_halts st"
    "in_sync rd False st'" "in_sync rd True st'"
    by (simp_all add: st' in_sync_def)
  show "activeHaltReasons (paperState (rcRisk st')) = activeHaltReasons (paperState (rcRisk st))"
    by (simp add: st' flip: getState_modes)
qed

lemma recalculation_frame:
  "rcDb (fst (recalculateRiskBudget rd env st)) = rcDb st"
  "live_halts (fst (recalculateRiskBudget rd env st)) = live_halts st"
  by (simp_all add: recalculateRiskBudget_def Let_def split: option.splits)

lemma checkTimeout_frame [simp]:
  "rcDb (snd (checkTimeout env t st)) = rcDb st" "rcRisk (snd (checkTimeout env t st)) = rcRisk st"
  by (simp_all add: checkTimeout_def Let_def split: prod.splits) (simp_all add: read_clock_def)

lemma flag_discrepancy_frame [simp]:
  "rcRisk (flag_discrepancy env i d st) = rcRisk st" "rcTimedOut (flag_discrepancy env i d st) = rcTimedOut st"
  by (simp_all add: flag_discrepancy_def read_clock_def split: option.splits)

lemma flag_loop_frame [simp]:
  "rcRisk (flag_loop env i ds st) = rcRisk st" "rcTimedOut (flag_loop env i ds st) = rcTimedOut st"
  by (induction ds arbitrary: i st) simp_all

lemma handleDiscrepancies_halts:
  "set (live_halts (handleDiscrepancies rd env ds st)) = insert RECONCILIATION_DISCREPANCY (set (live_halts st))"
  "rcTimedOut (handleDiscrepancies rd env ds st) = rcTimedOut st"
  "paperState (rcRisk (handleDiscrepancies rd env ds st)) = paperState (rcRisk st)"
  unfolding handleDiscrepancies_def by (simp_all) (simp_all add: live_halts_def)

lemma connected_risk [simp]: "rcRisk (fst (resolvePendingFilledOrder env r rep st)) = rcRisk st"
  by (simp add: resolvePendingFilledOrder_def split: option.splits)

lemma store_order_risk: "store_order env r s a b st = Some st' \<Longrightarrow> rcRisk st' = rcRisk st"
  by (auto simp: store_order_def split: if_splits)

lemma reconcile_pending_risk [simp]: "rcRisk (fst (reconcile_pending env r (st, ph))) = rcRisk st"
proof -
  have "rcRisk a = rcRisk st'" if "resolvePendingFilledOrder env r rep st' = (a, ok)" for rep st' a ok
    using that connected_risk [of env r rep st'] by simp
  then show ?thesis
    by (auto simp: reconcile_pending_def Let_def split: sum.splits report_status.splits option.splits prod.splits dest!: store_order_risk)
qed

lemma pending_loop_risk: "rcRisk (fst (pending_loop env t av rs (st, ph))) = rcRisk st"
proof (induction rs arbitrary: st ph)
  case (Cons r rs)
  obtain late st1 where c: "checkTimeout env t st = (late, st1)" by force
  then have r1: "rcRisk st1 = rcRisk st" using checkTimeout_frame(2) [of env t st] by simp
  obtain st2 ph2 where p: "reconcile_pending env r (st1, ph\<lparr>phChecked := phChecked ph + 1\<rparr>) = (st2, ph2)" by force
  then have "rcRisk st2 = rcRisk st1" using reconcile_pending_risk [of env r st1 "ph\<lparr>phChecked := phChecked ph + 1\<rparr>"] by simp
  then show ?case using Cons.IH c p r1 by simp
qed simp

lemma position_loop_frame:
  "rcRisk (fst (position_loop env t av db ps (st, ph))) = rcRisk st \<and> rcDb (fst (position_loop env t av db ps (st, ph))) = rcDb st"
proof (induction ps arbitrary: st ph)
  case (Cons p ps)
  obtain late st1 where c: "checkTimeout env t st = (late, st1)" by force
  then have "rcRisk st1 = rcRisk st" "rcDb st1 = rcDb st"
    using checkTimeout_frame [of env t st] by simp_all
  then show ?case using Cons.IH c by (simp split: prod.splits)
qed simp

lemma pending_phase_risk: "rcRisk (fst (pending_phase env t st)) = rcRisk st"
proof -
  obtain late st1 where c: "checkTimeout env t st = (late, st1)" by force
  moreover have "rcRisk st1 = rcRisk st" using checkTimeout_frame(2) [of env t st] c by simp
  ultimately show ?thesis
    by (simp add: pending_phase_def reconcilePendingOrders_def pending_loop_risk split: option.splits)
qed

lemma positions_phase_frame:
  "rcRisk (fst (positions_phase env t st)) = rcRisk st" "rcDb (fst (positions_phase env t st)) = rcDb st"
proof -
  obtain late st1 where c: "checkTimeout env t st = (late, st1)" by force
  moreover have "rcRisk st1 = rcRisk st" "rcDb st1 = rcDb st" using checkTimeout_frame [of env t st] c by simp_all
  ultimately show "rcRisk (fst (positions_phase env t st)) = rcRisk st" "rcDb (fst (positions_phase env t st)) = rcDb st"
    by (simp_all add: positions_phase_def reconcileActivePositions_def position_loop_frame split: option.splits)
qed

section \<open>The gate\<close>

lemma settled:
  assumes "settle_reconciliation rd env t ph pp st = (st', Inr r)"
  shows "rrDiscrepancies r = phDiscrepancies ph @ ppDiscrepancies pp"
    "set (live_halts st') = (if rrDiscrepancies r = [] then set (live_halts st) - {RECONCILIATION_DISCREPANCY}
       else insert RECONCILIATION_DISCREPANCY (set (live_halts st)))"
    "in_sync rd False st'" "in_sync rd True st'"
    "rcTimedOut st' = rcTimedOut st"
    "rrDiscrepancies r = [] \<Longrightarrow> rcDb st' = rcDb st"
    "activeHaltReasons (paperState (rcRisk st')) = activeHaltReasons (paperState (rcRisk st))"
proof -
  let ?ds = "phDiscrepancies ph @ ppDiscrepancies pp"
  obtain now st1 where c: "read_clock env st = (now, st1)" by force
  have st1: "rcDb st1 = rcDb st" "rcRisk st1 = rcRisk st" "rcTimedOut st1 = rcTimedOut st"
    using read_clock_simps(2-4) [of env st] by (simp_all add: c)
  let ?st2 = "if ?ds \<noteq> [] then handleDiscrepancies rd env ?ds st1 else resume_reconciliation rd st1"
  obtain st3 e where r3: "recalculateRiskBudget rd env ?st2 = (st3, e)" by force
  have "e = None"
  proof (cases e)
    case (Some x)
    then show ?thesis using assms r3 unfolding settle_reconciliation_def Let_def c prod.case by simp
  qed simp
  note r3 = r3 [unfolded this]
  have r: "rrDiscrepancies r = ?ds"
    and st': "rcDb st' = rcDb st3" "rcRisk st' = rcRisk st3" "rcTimedOut st' = rcTimedOut st3"
    using assms unfolding settle_reconciliation_def Let_def c prod.case r3 option.case
    by (auto simp: read_clock_def)
  note rc = recalculated [OF r3]
  have l1: "live_halts st1 = live_halts st" by (simp add: live_halts_def st1)
  show "rrDiscrepancies r = ?ds" by (fact r)
  show "set (live_halts st') = (if rrDiscrepancies r = [] then set (live_halts st) - {RECONCILIATION_DISCREPANCY}
       else insert RECONCILIATION_DISCREPANCY (set (live_halts st)))"
    using rc(3) st'(2) l1 unfolding r by (auto simp: live_halts_def [of st'] live_halts_def [of st3] handleDiscrepancies_halts)
  show "in_sync rd False st'" "in_sync rd True st'" using rc(4,5) st' by (simp_all add: in_sync_def)
  show "rcTimedOut st' = rcTimedOut st" using rc(2) st' st1 by (simp add: handleDiscrepancies_halts)
  show "rcDb st' = rcDb st" if "rrDiscrepancies r = []" using rc(1) st' st1 that r by simp
  show "activeHaltReasons (paperState (rcRisk st')) = activeHaltReasons (paperState (rcRisk st))"
    using rc(6) st' st1 by (simp add: handleDiscrepancies_halts)
qed

lemma reconcile_phases:
  assumes "reconcile rd env st = (st', Inr r)"
  obtains st0 st1 ph st2 pp where "rcRisk st0 = rcRisk st" "rcDb st0 = rcDb st" "rcReads st0 = rcReads st + 1" "\<not> rcTimedOut st0"
    "pending_phase env (reNow env (rcReads st)) st0 = (st1, Inr ph)"
    "positions_phase env (reNow env (rcReads st)) st1 = (st2, Inr pp)"
    "settle_reconciliation rd env (reNow env (rcReads st)) ph pp st2 = (st', Inr r)"
    "rcRisk st2 = rcRisk st" "rcDb st2 = rcDb st1"
proof -
  let ?st0 = "snd (read_clock env (st\<lparr>rcTimedOut := False\<rparr>))"
  from assms obtain st1 ph st2 pp where *: "pending_phase env (reNow env (rcReads st)) ?st0 = (st1, Inr ph)"
    "positions_phase env (reNow env (rcReads st)) st1 = (st2, Inr pp)"
    "settle_reconciliation rd env (reNow env (rcReads st)) ph pp st2 = (st', Inr r)"
    by (auto simp: reconcile_def read_clock_def split: prod.splits sum.splits)
  have "rcRisk st1 = rcRisk ?st0"
    using pending_phase_risk [of env "reNow env (rcReads st)" ?st0] by (simp only: * fst_conv)
  then have "rcRisk st2 = rcRisk st" "rcDb st2 = rcDb st1"
    using positions_phase_frame [of env "reNow env (rcReads st)" st1] by (simp_all add: * read_clock_def)
  then show thesis using that [OF _ _ _ _ *] by (simp add: read_clock_def)
qed

text \<open>
  C24: A reconciliation that completes halts live trading exactly when it found a discrepancy: the
  halt reason is then set, otherwise removed, every other halt reason stays, and the paper mode
  is never halted.  Both modes leave it with the count and the capital of their stored positions.
\<close>
theorem reconciliation_gates_trading:
  assumes "reconcile rd env st = (st', Inr r)"
  shows "(RECONCILIATION_DISCREPANCY \<in> set (activeHaltReasons (liveState (rcRisk st'))) \<longleftrightarrow> rrDiscrepancies r \<noteq> [])
    \<and> set (activeHaltReasons (liveState (rcRisk st'))) - {RECONCILIATION_DISCREPANCY}
         = set (activeHaltReasons (liveState (rcRisk st))) - {RECONCILIATION_DISCREPANCY}
    \<and> activeHaltReasons (paperState (rcRisk st')) = activeHaltReasons (paperState (rcRisk st))
    \<and> openPositionCount (getState isPaper (rcRisk st')) = stored_count isPaper (rcDb st')
    \<and> totalCapitalDeployed (getState isPaper (rcRisk st')) = stored_capital rd isPaper (rcDb st')"
proof -
  from assms obtain st2 ph pp t where s: "settle_reconciliation rd env t ph pp st2 = (st', Inr r)" "rcRisk st2 = rcRisk st"
    by (rule reconcile_phases) blast
  note f = settled [OF s(1)]
  have h: "live_halts st2 = live_halts st" by (simp add: live_halts_def s(2))
  have "in_sync rd isPaper st'" using f(3,4) by (cases isPaper) simp_all
  then show ?thesis
    using f(2) [unfolded h] f(7) s(2) by (auto simp: live_halts_def in_sync_def split: if_splits)
qed

section \<open>What a clean reconciliation has verified\<close>

lemma checkTimeout_late: "checkTimeout env t st = (late, st1) \<Longrightarrow> rcTimedOut st1 = (late \<or> rcTimedOut st)"
  by (auto simp: checkTimeout_def read_clock_def split: if_splits)

lemma position_loop_timeout: "rcTimedOut st \<Longrightarrow> rcTimedOut (fst (position_loop env t av db ps (st, ph)))"
proof (induction ps arbitrary: st ph)
  case (Cons p ps)
  obtain late st1 where c: "checkTimeout env t st = (late, st1)" by force
  then show ?case using Cons checkTimeout_late [OF c] by (simp split: prod.splits)
qed simp

lemma position_loop_complete:
  "\<not> rcTimedOut (fst (position_loop env t av db ps (st, ph))) \<Longrightarrow>
     ppDiscrepancies (snd (position_loop env t av db ps (st, ph)))
       = ppDiscrepancies ph @ concat (map (\<lambda>p. snd (verify_position env av db p)) ps)"
proof (induction ps arbitrary: st ph)
  case (Cons p ps)
  obtain late st1 where c: "checkTimeout env t st = (late, st1)" by force
  have "\<not> late" using Cons.prems checkTimeout_late [OF c] by (cases late) (simp_all add: c)
  then show ?case using Cons by (simp add: c split: prod.splits)
qed simp

lemma position_loop_within:
  "set (ppDiscrepancies (snd (position_loop env t av db ps (st, ph))))
     \<subseteq> set (ppDiscrepancies ph) \<union> (\<Union>p\<in>set ps. set (snd (verify_position env av db p)))"
proof (induction ps arbitrary: st ph)
  case (Cons p ps)
  obtain late st1 where c: "checkTimeout env t st = (late, st1)" by force
  obtain v ds where v: "verify_position env av db p = (v, ds)" by force
  show ?case using Cons.IH [of st1 "\<lparr>ppChecked = ppChecked ph + 1, ppVerified = ppVerified ph + v,
      ppDiscrepancies = ppDiscrepancies ph @ ds\<rparr>"] by (auto simp: c v)
qed simp

definition leg_verified :: "recon_env \<Rightarrow> recon_db \<Rightarrow> recon_position \<Rightarrow> platform \<Rightarrow> bool" where
  "leg_verified env db p pl =
     (case included_order db (case pl of Kalshi \<Rightarrow> rpKalshiOrder p | Polymarket \<Rightarrow> rpPolymarketOrder p) of
        None \<Rightarrow> True
      | Some r \<Rightarrow> available_on env pl \<and>
          (case callWithTimeout API_CALL_TIMEOUT_MS (rePositionAnswer env (rpId p) pl) of
             Inl _ \<Rightarrow> True
           | Inr rep \<Rightarrow> platformToLocalStatus (repStatus rep) = Some (roStatus r)))"

lemma no_discrepancy: "checkOrderDiscrepancy p st rep = None \<longleftrightarrow> platformToLocalStatus rep = Some st"
  by (cases rep; cases st) (simp_all add: checkOrderDiscrepancy_def)

lemma leg_without_discrepancy: "snd (verify_leg env (available_on env) db p pl) = [] \<Longrightarrow> leg_verified env db p pl"
  by (auto simp: verify_leg_def leg_verified_def no_discrepancy split: option.splits if_splits sum.splits)

lemma positions_phase_complete:
  assumes "positions_phase env t st = (st', Inr pp)" and "\<not> rcTimedOut st'"
  shows "ppDiscrepancies pp = concat (map (\<lambda>p. snd (verify_position env (available_on env) (rcDb st) p)) (findActivePositions False (rcDb st)))"
proof -
  obtain late st1 where c: "checkTimeout env t st = (late, st1)" by force
  have d: "rcDb st1 = rcDb st" using checkTimeout_frame(1) [of env t st] c by simp
  have l: "\<not> late" using assms checkTimeout_late [OF c] by (auto simp: positions_phase_def c)
  obtain a b where p: "position_loop env t (available_on env) (rcDb st1) (findActivePositions False (rcDb st1))
      (st1, \<lparr>ppChecked = 0, ppVerified = 0, ppDiscrepancies = []\<rparr>) = (a, b)" by force
  have "a = st'" "b = pp" using assms(1) l p by (auto simp: positions_phase_def reconcileActivePositions_def c split: option.splits)
  then show ?thesis using position_loop_complete [of env t "available_on env" "rcDb st1" "findActivePositions False (rcDb st1)" st1
      "\<lparr>ppChecked = 0, ppVerified = 0, ppDiscrepancies = []\<rparr>"] assms(2) by (simp add: p [unfolded d] d)
qed

lemma position_without_discrepancy:
  "snd (verify_position env (available_on env) db p) = [] \<Longrightarrow> rpStatus p \<noteq> DbReconciliationRequired \<Longrightarrow>
     leg_verified env db p Kalshi \<and> leg_verified env db p Polymarket"
  by (simp add: verify_position_def Let_def leg_without_discrepancy)

text \<open>
  When a reconciliation finds nothing and did not time out, every leg of every active live
  position that was not flagged before is on an available platform, and the platform's answer, if
  it came in time, is the stored status.
\<close>
theorem clean_reconciliation_verified:
  assumes "reconcile rd env st = (st', Inr r)" and "rrDiscrepancies r = []" and "\<not> rcTimedOut st'"
  shows "list_all (\<lambda>p. leg_verified env (rcDb st') p Kalshi \<and> leg_verified env (rcDb st') p Polymarket)
    (filter (\<lambda>p. rpStatus p \<noteq> DbReconciliationRequired) (findActivePositions False (rcDb st')))"
proof -
  from assms(1) obtain st1 st2 ph pp where s: "settle_reconciliation rd env (reNow env (rcReads st)) ph pp st2 = (st', Inr r)"
    and p: "positions_phase env (reNow env (rcReads st)) st1 = (st2, Inr pp)" and d: "rcDb st2 = rcDb st1"
    by (rule reconcile_phases) blast
  have "rcDb st' = rcDb st1" "ppDiscrepancies pp = []" "\<not> rcTimedOut st2"
    using settled [OF s] assms(2,3) d by simp_all
  with positions_phase_complete [OF p] have "\<forall>p \<in> set (findActivePositions False (rcDb st')). snd (verify_position env (available_on env) (rcDb st') p) = []"
    by simp
  then show ?thesis by (simp add: list_all_iff position_without_discrepancy)
qed

section \<open>Flagged positions\<close>

fun is_object :: "context_column \<Rightarrow> bool" where
  "is_object (ColumnObject _) = True"
| "is_object _ = False"

definition no_objects :: "recon_db \<Rightarrow> bool" where
  "no_objects db \<longleftrightarrow> list_all (\<lambda>p. \<not> is_object (rpContext p)) (dbPositions db)"

lemma update_no_objects:
  "update_position pid f db = Some db' \<Longrightarrow> (\<And>p. \<not> is_object (rpContext p) \<Longrightarrow> \<not> is_object (rpContext (f p))) \<Longrightarrow> no_objects db \<Longrightarrow> no_objects db'"
  by (auto simp: update_position_def no_objects_def list_all_iff split: if_splits)

lemma orders_no_objects: "updateOrderStatus i s a b db = Some db' \<Longrightarrow> no_objects db' = no_objects db"
  by (auto simp: updateOrderStatus_def update_order_def no_objects_def split: if_splits)

lemma connect_context: "connect_order r p = Some f \<Longrightarrow> rpContext (f q) = rpContext q"
  by (auto simp: connect_order_def split: if_splits)

lemma resolved_no_objects: "no_objects (rcDb st) \<Longrightarrow> no_objects (rcDb (fst (resolvePendingFilledOrder env r rep st)))"
  by (auto simp: resolvePendingFilledOrder_def connect_context split: option.splits elim!: update_no_objects)

lemma stored_no_objects: "store_order env r s a b st = Some st' \<Longrightarrow> no_objects (rcDb st') = no_objects (rcDb st)"
  by (auto simp: store_order_def orders_no_objects split: if_splits)

lemma pending_no_objects: "no_objects (rcDb st) \<Longrightarrow> no_objects (rcDb (fst (reconcile_pending env r (st, ph))))"
proof -
  assume n: "no_objects (rcDb st)"
  have "no_objects (rcDb a)" if "resolvePendingFilledOrder env r rep st' = (a, ok)" "no_objects (rcDb st')" for rep st' a ok
    using resolved_no_objects [OF that(2), of env r rep] that(1) by simp
  then show ?thesis using n
    by (auto simp: reconcile_pending_def Let_def stored_no_objects split: sum.splits report_status.splits option.splits prod.splits)
qed

lemma pending_loop_no_objects: "no_objects (rcDb st) \<Longrightarrow> no_objects (rcDb (fst (pending_loop env t av rs (st, ph))))"
proof (induction rs arbitrary: st ph)
  case (Cons r rs)
  obtain late st1 where c: "checkTimeout env t st = (late, st1)" by force
  then have n: "no_objects (rcDb st1)" using checkTimeout_frame(1) [of env t st] Cons.prems by simp
  obtain st2 ph2 where p: "reconcile_pending env r (st1, ph\<lparr>phChecked := phChecked ph + 1\<rparr>) = (st2, ph2)" by force
  then have "no_objects (rcDb st2)" using pending_no_objects [OF n, of env r "ph\<lparr>phChecked := phChecked ph + 1\<rparr>"] by simp
  then show ?case using Cons.IH c p n by simp
qed simp

lemma pending_phase_no_objects: "no_objects (rcDb st) \<Longrightarrow> no_objects (rcDb (fst (pending_phase env t st)))"
proof -
  assume n: "no_objects (rcDb st)"
  obtain late st1 where c: "checkTimeout env t st = (late, st1)" by force
  moreover have "no_objects (rcDb st1)" using checkTimeout_frame(1) [of env t st] c n by simp
  ultimately show ?thesis
    by (simp add: pending_phase_def reconcilePendingOrders_def pending_loop_no_objects split: option.splits)
qed

lemma flag_no_objects: "no_objects (rcDb st) \<Longrightarrow> no_objects (rcDb (flag_loop env i ds st))"
proof (induction ds arbitrary: i st)
  case (Cons d ds)
  have "no_objects (rcDb (flag_discrepancy env i d st))"
    using Cons.prems by (auto simp: flag_discrepancy_def read_clock_def flag_position_def split: option.splits elim!: update_no_objects)
  then show ?case using Cons.IH by simp
qed simp

lemma settled_no_objects: "no_objects (rcDb st) \<Longrightarrow> no_objects (rcDb (fst (settle_reconciliation rd env t ph pp st)))"
proof -
  assume n: "no_objects (rcDb st)"
  let ?ds = "phDiscrepancies ph @ ppDiscrepancies pp"
  obtain now st1 where c: "read_clock env st = (now, st1)" by force
  have n1: "no_objects (rcDb st1)" using read_clock_simps(2) [of env st] n by (simp add: c)
  let ?st2 = "if ?ds \<noteq> [] then handleDiscrepancies rd env ?ds st1 else resume_reconciliation rd st1"
  have n2: "no_objects (rcDb ?st2)" using n1 flag_no_objects [OF n1] by (simp add: handleDiscrepancies_def)
  obtain st3 e where r: "recalculateRiskBudget rd env ?st2 = (st3, e)" by force
  have "rcDb st3 = rcDb ?st2" using recalculation_frame(1) [of rd env ?st2] by (simp only: r fst_conv)
  with n2 have "no_objects (rcDb st3)" by (simp only:)
  then show ?thesis unfolding settle_reconciliation_def Let_def c prod.case r
    by (cases e) (simp_all add: read_clock_def)
qed

lemma reconcile_no_objects: "no_objects (rcDb st) \<Longrightarrow> no_objects (rcDb (fst (reconcile rd env st)))"
proof -
  assume n: "no_objects (rcDb st)"
  obtain t st0 where c: "read_clock env (st\<lparr>rcTimedOut := False\<rparr>) = (t, st0)" by force
  have n0: "no_objects (rcDb st0)" using read_clock_simps(2) [of env "st\<lparr>rcTimedOut := False\<rparr>"] n by (simp add: c)
  obtain st1 x where p: "pending_phase env t st0 = (st1, x)" by force
  have n1: "no_objects (rcDb st1)" using pending_phase_no_objects [OF n0, of env t] by (simp add: p)
  obtain st2 y where q: "positions_phase env t st1 = (st2, y)" by force
  have n2: "no_objects (rcDb st2)" using positions_phase_frame(2) [of env t st1] n1 by (simp add: q)
  show ?thesis using n1 n2 settled_no_objects [OF n2]
    unfolding reconcile_def Let_def c prod.case p by (cases x; cases y) (simp_all add: q)
qed

lemma resolve_no_objects: "no_objects (rcDb st) \<Longrightarrow> no_objects (rcDb (fst (resolveDiscrepancy rd env pid act st)))"
proof -
  assume n: "no_objects (rcDb st)"
  have s: "no_objects (rcDb st1)" if "set_status env q status st = Inr st1" for q status st1
    using that n by (auto simp: set_status_def split: option.splits elim!: update_no_objects)
  have a: "no_objects (rcDb st1)" if "apply_resolution rd env p act st = Inr (st1, status)" for p st1 status
    using that s by (cases act; cases "set_status env (rpId p) DbClosed st"; cases "parse_context (rpContext p)")
      (auto simp: apply_resolution_def and_then_Inr split: option.splits)
  have "no_objects (rcDb (fst (settle_resolution rd env pid status st1)))" if "no_objects (rcDb st1)" for status st1
    using that recalculation_frame(1) [of rd env st1] recalculation_frame(1) [of rd env "resume_reconciliation rd st1"]
    by (auto simp: settle_resolution_def Let_def split: option.splits prod.splits)
  with a n show ?thesis by (auto simp: resolveDiscrepancy_def split: option.splits sum.splits)
qed


text \<open>
  The runs of the service from a table without contexts, with any change by the rest of the
  program in between that writes no context of its own, as the rest of the program does not.
\<close>

inductive recon_run :: "(rat \<Rightarrow> rat) \<Rightarrow> recon \<Rightarrow> bool" for rd where
  start: "list_all (\<lambda>p. rpContext p = ColumnNull) (dbPositions (rcDb st)) \<Longrightarrow> recon_run rd st"
| reconciled: "recon_run rd st \<Longrightarrow> recon_run rd (fst (reconcile rd env st))"
| resolved: "recon_run rd st \<Longrightarrow> recon_run rd (fst (resolveDiscrepancy rd env pid act st))"
| traded: "recon_run rd st \<Longrightarrow>
    list_all (\<lambda>p. rpContext p = ColumnNull \<or> rpContext p \<in> rpContext ` set (dbPositions (rcDb st))) (dbPositions (rcDb st')) \<Longrightarrow>
    recon_run rd st'"

lemma run_no_objects: "recon_run rd st \<Longrightarrow> no_objects (rcDb st)"
proof (induction rule: recon_run.induct)
  case (start st)
  then show ?case by (auto simp: no_objects_def list_all_iff)
next
  case (traded st st')
  then show ?case by (fastforce simp: no_objects_def list_all_iff)
qed (simp_all add: reconcile_no_objects resolve_no_objects)

text \<open>
  In every run an acknowledgement is refused and changes nothing: a flagged position can only be
  resolved by closing it.  The context was stored as a JSON string and the schema it is read with
  accepts an object or null.
\<close>
theorem acknowledgement_always_refused:
  assumes "recon_run rd st"
  shows "\<exists>e. resolveDiscrepancy rd env pid Acknowledge st = (st, Inl e)"
proof -
  have "\<not> is_object (rpContext p)" if "findById pid (rcDb st) = Some p" for p
    using that run_no_objects [OF assms] by (auto simp: findById_def find_Some_iff no_objects_def list_all_iff)
  then have "\<exists>e. apply_resolution rd env p Acknowledge st = Inl e" if "findById pid (rcDb st) = Some p" for p
    using that by (cases "rpContext p") (force simp: apply_resolution_def)+
  then show ?thesis by (fastforce simp: resolveDiscrepancy_def split: option.splits)
qed

section \<open>Restarts\<close>

lemma recalculation_completes: "reFails env = (\<lambda>_. None) \<Longrightarrow> snd (recalculateRiskBudget rd env st) = None"
  by (simp add: recalculateRiskBudget_def Let_def)

lemma reconcile_completes:
  assumes "reFails env = (\<lambda>_. None)"
  shows "\<exists>r. snd (reconcile rd env st) = Inr r"
proof -
  obtain t st0 where c: "read_clock env (st\<lparr>rcTimedOut := False\<rparr>) = (t, st0)" by force
  have "\<exists>ph. snd (pending_phase env t st0) = Inr ph"
    by (simp add: pending_phase_def reconcilePendingOrders_def assms split: prod.splits)
  then obtain st1 ph where p: "pending_phase env t st0 = (st1, Inr ph)" by (metis prod.collapse)
  have "\<exists>pp. snd (positions_phase env t st1) = Inr pp"
    by (simp add: positions_phase_def reconcileActivePositions_def assms split: prod.splits)
  then obtain st2 pp where q: "positions_phase env t st1 = (st2, Inr pp)" by (metis prod.collapse)
  obtain now st3 where c2: "read_clock env st2 = (now, st3)" by force
  let ?ds = "phDiscrepancies ph @ ppDiscrepancies pp"
  let ?st4 = "if ?ds \<noteq> [] then handleDiscrepancies rd env ?ds st3 else resume_reconciliation rd st3"
  obtain st5 where r: "recalculateRiskBudget rd env ?st4 = (st5, None)"
    using recalculation_completes [OF assms, of rd ?st4] by (metis prod.collapse)
  have "\<exists>r. snd (settle_reconciliation rd env t ph pp st2) = Inr r"
    unfolding settle_reconciliation_def Let_def c2 prod.case r option.case by (simp split: prod.splits)
  then show ?thesis unfolding reconcile_def Let_def c prod.case p q sum.case .
qed

lemma quiet_pending_phase:
  assumes "findPendingOrders False (rcDb st) = []" and "pending_phase env t st = (st', Inr ph)"
  shows "rcDb st' = rcDb st" "phDiscrepancies ph = []"
proof -
  obtain late st1 where c: "checkTimeout env t st = (late, st1)" by force
  then have "rcDb st1 = rcDb st" using checkTimeout_frame(1) [of env t st] by simp
  then show "rcDb st' = rcDb st" "phDiscrepancies ph = []"
    using assms by (auto simp: pending_phase_def reconcilePendingOrders_def c split: if_splits option.splits)
qed

lemma positions_phase_within:
  assumes "positions_phase env t st = (st', Inr pp)"
  shows "set (ppDiscrepancies pp)
    \<subseteq> (\<Union>p\<in>set (findActivePositions False (rcDb st)). set (snd (verify_position env (available_on env) (rcDb st) p)))"
proof -
  obtain late st1 where c: "checkTimeout env t st = (late, st1)" by force
  then have d: "rcDb st1 = rcDb st" using checkTimeout_frame(1) [of env t st] by simp
  obtain a b where p: "position_loop env t (available_on env) (rcDb st) (findActivePositions False (rcDb st))
      (st1, \<lparr>ppChecked = 0, ppVerified = 0, ppDiscrepancies = []\<rparr>) = (a, b)" by force
  have "set (ppDiscrepancies b) \<subseteq> (\<Union>p\<in>set (findActivePositions False (rcDb st)). set (snd (verify_position env (available_on env) (rcDb st) p)))"
    using position_loop_within [of env t "available_on env" "rcDb st" "findActivePositions False (rcDb st)" st1
      "\<lparr>ppChecked = 0, ppVerified = 0, ppDiscrepancies = []\<rparr>"] by (simp add: p)
  moreover have "pp = b \<or> ppDiscrepancies pp = []"
    using assms by (auto simp: positions_phase_def reconcileActivePositions_def c d p split: if_splits option.splits)
  ultimately show ?thesis by auto
qed

lemma clean_keeps_db:
  assumes "reconcile rd env st = (st', Inr r)" and "rrDiscrepancies r = []" and "findPendingOrders False (rcDb st) = []"
  shows "rcDb st' = rcDb st"
proof -
  from assms(1) obtain st0 st1 ph st2 pp t where d0: "rcDb st0 = rcDb st" and p: "pending_phase env t st0 = (st1, Inr ph)"
    and s: "settle_reconciliation rd env t ph pp st2 = (st', Inr r)" and d2: "rcDb st2 = rcDb st1"
    by (rule reconcile_phases) blast
  show ?thesis using settled(6) [OF s assms(2)] quiet_pending_phase(1) [OF _ p] assms(3) d0 d2 by simp
qed

text \<open>
  A reconciliation lifts the halt although the flagged positions are unresolved, when no other
  live position is active and no live order is pending: a restart, or the operator's run, after
  a discrepancy resumes trading while the positions stay flagged.
\<close>
theorem rerun_lifts_unresolved_halt:
  assumes "findPendingOrders False (rcDb st) = []"
    and "list_all (\<lambda>p. rpStatus p = DbReconciliationRequired) (findActivePositions False (rcDb st))"
    and "reFails env = (\<lambda>_. None)"
  shows "RECONCILIATION_DISCREPANCY \<notin> set (activeHaltReasons (liveState (rcRisk (fst (reconcile rd env st)))))
    \<and> rcDb (fst (reconcile rd env st)) = rcDb st"
proof -
  obtain st' r where r: "reconcile rd env st = (st', Inr r)"
    using reconcile_completes [OF assms(3)] by (metis prod.collapse)
  then obtain st0 st1 ph st2 pp t where d0: "rcDb st0 = rcDb st" and p: "pending_phase env t st0 = (st1, Inr ph)"
    and q: "positions_phase env t st1 = (st2, Inr pp)" and s: "settle_reconciliation rd env t ph pp st2 = (st', Inr r)"
    and d2: "rcDb st2 = rcDb st1"
    by (rule reconcile_phases) blast
  note qp = quiet_pending_phase [OF _ p, unfolded d0, OF assms(1)]
  have "ppDiscrepancies pp = []"
    using positions_phase_within [OF q] assms(2) by (auto simp: qp verify_position_def list_all_iff)
  then have "rrDiscrepancies r = []" using settled(1) [OF s] qp by simp
  then show ?thesis using settled(2,6) [OF s] r d2 qp by (simp add: live_halts_def)
qed

lemma active_after_status:
  assumes "list_all (\<lambda>p. rpId p \<noteq> pid \<or> rpStatus p = DbOpen) (dbPositions db)"
    and "update_position pid (\<lambda>p. p\<lparr>rpStatus := DbExitPartial\<rparr>) db = Some db'"
  shows "findActivePositions m db' = map (\<lambda>p. if rpId p = pid then p\<lparr>rpStatus := DbExitPartial\<rparr> else p) (findActivePositions m db)"
    and "dbOrders db' = dbOrders db"
proof -
  let ?f = "\<lambda>p. if rpId p = pid then p\<lparr>rpStatus := DbExitPartial\<rparr> else p"
  have e: "dbPositions db' = map ?f (dbPositions db)" and "dbOrders db' = dbOrders db"
    using assms(2) by (auto simp: update_position_def split: if_splits)
  then show "dbOrders db' = dbOrders db" by simp
  show "findActivePositions m db' = map ?f (findActivePositions m db)"
    unfolding findActivePositions_def e filter_map comp_def
    by (rule arg_cong [where f = "map ?f"], rule filter_cong) (use assms(1) in \<open>auto simp: list_all_iff\<close>)
qed

lemma capital_ignores_partial_exit:
  assumes "list_all (\<lambda>p. rpId p \<noteq> pid \<or> rpStatus p = DbOpen) (dbPositions db)"
    and "update_position pid (\<lambda>p. p\<lparr>rpStatus := DbExitPartial\<rparr>) db = Some db'"
  shows "stored_capital rd m db' = stored_capital rd m db"
proof -
  have "add_position_capital rd db' acc (if rpId p = pid then p\<lparr>rpStatus := DbExitPartial\<rparr> else p) = add_position_capital rd db acc p" for acc p
    by (simp add: add_position_capital_def included_order_def active_after_status(2) [OF assms])
  then show ?thesis by (simp add: stored_capital_def active_after_status(1) [OF assms] foldl_map)
qed

text \<open>
  C25: A partial exit gives part of the capital back; the next reconciliation takes it again: it
  books the position with the size of its entry orders, so the deployed capital is what it was
  before the exit, whatever was released.
\<close>
theorem restart_takes_back_partial_release:
  assumes "totalCapitalDeployed (liveState s) = stored_capital rd False db"
    and "list_all (\<lambda>p. rpId p \<noteq> pid \<or> rpStatus p = DbOpen) (dbPositions db)"
    and "update_position pid (\<lambda>p. p\<lparr>rpStatus := DbExitPartial\<rparr>) db = Some db'"
    and "findPendingOrders False db' = []"
    and "reconcile rd env (st\<lparr>rcDb := db', rcRisk := fst (releasePartialCapital rd released pnl False s)\<rparr>) = (st', Inr r)"
    and "rrDiscrepancies r = []"
  shows "totalCapitalDeployed (liveState (rcRisk st')) = totalCapitalDeployed (liveState s)"
proof -
  have "rcDb st' = db'" using clean_keeps_db [OF assms(5,6)] assms(4) by simp
  moreover from assms(5) obtain st2 ph pp t where s: "settle_reconciliation rd env t ph pp st2 = (st', Inr r)"
    by (rule reconcile_phases) blast
  ultimately show ?thesis
    using settled(3) [OF s] capital_ignores_partial_exit [OF assms(2,3)] assms(1) by (simp add: in_sync_def getState_modes)
qed


section \<open>Witnesses\<close>

definition sample_stored_order :: "string \<Rightarrow> platform \<Rightarrow> recon_order" where
  "sample_stored_order oid pl = \<lparr>roId = oid, roPlatform = pl, roPair = ''pair'', roSide = ''buy'', roStatus = DbFilled,
     roFillPrice = Some (Fin 1), roFillSize = Some (Fin 10), roPaper = False\<rparr>"

definition sample_stored_position :: "db_position_status \<Rightarrow> recon_position" where
  "sample_stored_position status = \<lparr>rpId = ''p1'', rpPair = ''pair'', rpKalshiOrder = Some ''k1'', rpPolymarketOrder = Some ''m1'',
     rpKalshiSide = None, rpPolymarketSide = Some ''sell'', rpStatus = status, rpContext = ColumnNull, rpPaper = False\<rparr>"

definition sample_recon :: "db_position_status \<Rightarrow> recon" where
  "sample_recon status = \<lparr>rcDb = \<lparr>dbOrders = [sample_stored_order ''k1'' Kalshi, sample_stored_order ''m1'' Polymarket],
       dbPositions = [sample_stored_position status]\<rparr>,
     rcRisk = sample_budget, rcReads = 0, rcTimedOut = False, rcLastRun = None, rcEffects = []\<rparr>"

definition sample_recon_env :: "report_status \<Rightarrow> recon_env" where
  "sample_recon_env rep = \<lparr>reHealth = (\<lambda>_. ''connected''), reNow = (\<lambda>_. 0), rePendingAnswer = (\<lambda>_. None),
     rePositionAnswer = (\<lambda>_ pl. Some (5, Inr \<lparr>repStatus = (if pl = Kalshi then rep else RepFilled), repFillPrice = None, repFillSize = None\<rparr>)),
     reFails = (\<lambda>_. None), reColumn = (\<lambda>x. x)\<rparr>"

lemmas sample_recon_defs = sample_recon_def sample_recon_env_def sample_stored_position_def sample_stored_order_def

lemma sample_env_fails [simp]: "reFails (sample_recon_env rep) = (\<lambda>_. None)"
  by (simp add: sample_recon_env_def)

lemma sample_verification:
  assumes "status \<in> {DbOpen, DbExitPartial}"
  shows "concat (map (\<lambda>p. snd (verify_position (sample_recon_env rep) (available_on (sample_recon_env rep)) (rcDb (sample_recon status)) p))
      (findActivePositions False (rcDb (sample_recon status))))
    = (case checkOrderDiscrepancy (sample_stored_position status) DbFilled rep of None \<Rightarrow> [] | Some d \<Rightarrow> [d])"
  using assms
  by (auto simp: verify_position_def verify_leg_def Let_def included_order_def sample_recon_defs callWithTimeout_def findActivePositions_def
      API_CALL_TIMEOUT_MS_def available_on_def checkOrderDiscrepancy_def split: option.splits)

lemma sample_discrepancies:
  assumes "reconcile rd (sample_recon_env rep) st = (st', Inr r)" and st: "rcDb st = rcDb (sample_recon status)"
    and status: "status \<in> {DbOpen, DbExitPartial}"
  shows "rrDiscrepancies r = (case checkOrderDiscrepancy (sample_stored_position status) DbFilled rep of None \<Rightarrow> [] | Some d \<Rightarrow> [d])"
    "\<not> rcTimedOut st'"
proof -
  from assms(1) obtain st0 st1 ph st2 pp where d0: "rcDb st0 = rcDb (sample_recon status)" "\<not> rcTimedOut st0"
    and p: "pending_phase (sample_recon_env rep) 0 st0 = (st1, Inr ph)"
    and q: "positions_phase (sample_recon_env rep) 0 st1 = (st2, Inr pp)"
    and s: "settle_reconciliation rd (sample_recon_env rep) 0 ph pp st2 = (st', Inr r)"
    by (rule reconcile_phases) (simp add: sample_recon_env_def st)
  have n: "findPendingOrders False (rcDb st0) = []" by (simp add: d0 findPendingOrders_def sample_recon_defs)
  note qp = quiet_pending_phase [OF n p]
  have c: "checkTimeout (sample_recon_env rep) 0 x = (False, x\<lparr>rcReads := rcReads x + 1\<rparr>)" for x
    by (simp add: checkTimeout_def read_clock_def OVERALL_TIMEOUT_MS_def sample_recon_env_def)
  have l: "rcTimedOut (fst (position_loop (sample_recon_env rep) 0 av db ps (x, y))) = rcTimedOut x" for av db ps x y
    by (induction ps arbitrary: x y) (simp_all add: c split: prod.splits)
  have t1: "\<not> rcTimedOut st1" using p n d0 by (auto simp: pending_phase_def reconcilePendingOrders_def c)
  have "rcTimedOut (fst (positions_phase (sample_recon_env rep) 0 st1)) = rcTimedOut st1"
    by (simp add: positions_phase_def reconcileActivePositions_def c l)
  then have t2: "\<not> rcTimedOut st2" using t1 by (simp add: q)
  then show "\<not> rcTimedOut st'" using settled(5) [OF s] by simp
  show "rrDiscrepancies r = (case checkOrderDiscrepancy (sample_stored_position status) DbFilled rep of None \<Rightarrow> [] | Some d \<Rightarrow> [d])"
    using positions_phase_complete [OF q t2] settled(1) [OF s] qp(2) sample_verification [OF status, of rep]
    unfolding qp(1) d0(1) by simp
qed

lemma sample_completes:
  obtains st' r where "reconcile rd (sample_recon_env rep) st = (st', Inr r)"
proof -
  show thesis using that reconcile_completes [of "sample_recon_env rep" rd st] by (metis prod.collapse sample_env_fails)
qed

theorem reconciliation_gates_trading_witness:
  "RECONCILIATION_DISCREPANCY \<in> set (activeHaltReasons (liveState (rcRisk (fst (reconcile dec20 (sample_recon_env RepNotFound) (sample_recon DbOpen))))))"
proof -
  obtain st' r where r: "reconcile dec20 (sample_recon_env RepNotFound) (sample_recon DbOpen) = (st', Inr r)"
    by (rule sample_completes)
  have "rrDiscrepancies r \<noteq> []"
    using sample_discrepancies(1) [OF r refl] by (simp add: checkOrderDiscrepancy_def)
  then show ?thesis using reconciliation_gates_trading [OF r] r by simp
qed

theorem clean_reconciliation_verified_witness:
  "list_all (\<lambda>p. leg_verified (sample_recon_env RepFilled) (rcDb (sample_recon DbOpen)) p Kalshi)
     (findActivePositions False (rcDb (sample_recon DbOpen)))
   \<and> \<not> leg_verified (sample_recon_env RepRejected) (rcDb (sample_recon DbOpen)) (sample_stored_position DbOpen) Kalshi"
proof -
  obtain st' r where r: "reconcile dec20 (sample_recon_env RepFilled) (sample_recon DbOpen) = (st', Inr r)"
    by (rule sample_completes)
  have d: "rrDiscrepancies r = []" "\<not> rcTimedOut st'"
    using sample_discrepancies [OF r refl] by (simp_all add: checkOrderDiscrepancy_def)
  have "rcDb st' = rcDb (sample_recon DbOpen)"
    by (rule clean_keeps_db [OF r d(1)]) (simp add: findPendingOrders_def sample_recon_defs)
  moreover have "list_all (\<lambda>p. rpStatus p \<noteq> DbReconciliationRequired) (findActivePositions False (rcDb (sample_recon DbOpen)))"
    by (simp add: findActivePositions_def sample_recon_defs)
  ultimately show ?thesis using clean_reconciliation_verified [OF r d]
    by (auto simp: list_all_iff leg_verified_def included_order_def sample_recon_defs callWithTimeout_def API_CALL_TIMEOUT_MS_def)
qed

theorem acknowledgement_always_refused_witness:
  "\<exists>e. resolveDiscrepancy dec20 (sample_recon_env RepFilled) ''p1'' Acknowledge
      (fst (reconcile dec20 (sample_recon_env RepNotFound) (sample_recon DbOpen)))
    = (fst (reconcile dec20 (sample_recon_env RepNotFound) (sample_recon DbOpen)), Inl e)"
  by (rule acknowledgement_always_refused, rule recon_run.reconciled, rule recon_run.start)
    (simp add: sample_recon_def sample_stored_position_def)

theorem rerun_lifts_unresolved_halt_witness:
  "RECONCILIATION_DISCREPANCY \<notin> set (activeHaltReasons (liveState (rcRisk
      (fst (reconcile dec20 (sample_recon_env RepNotFound) (halt_reconciliation dec20 (sample_recon DbReconciliationRequired)))))))
   \<and> RECONCILIATION_DISCREPANCY \<in> set (live_halts (halt_reconciliation dec20 (sample_recon DbReconciliationRequired)))"
proof
  show "RECONCILIATION_DISCREPANCY \<notin> set (activeHaltReasons (liveState (rcRisk
      (fst (reconcile dec20 (sample_recon_env RepNotFound) (halt_reconciliation dec20 (sample_recon DbReconciliationRequired)))))))"
    by (rule rerun_lifts_unresolved_halt [THEN conjunct1])
      (simp_all add: findPendingOrders_def findActivePositions_def sample_recon_defs)
qed simp


definition sample_deployed :: "int \<Rightarrow> budget_state" where
  "sample_deployed n = sample_budget\<lparr>liveState := sample_mode\<lparr>totalCapitalDeployed := Fin (of_int n)\<rparr>\<rparr>"

lemma sample_capital: "stored_capital dec20 False (rcDb (sample_recon DbOpen)) = Fin 10"
proof -
  have "dec20 10 = 10" "dec20 0 = 0" using dec20_int [of 10] dec20_int [of 0] by simp_all
  then show ?thesis
    by (simp add: stored_capital_def findActivePositions_def add_position_capital_def recon_leg_capital_def included_order_def
        calculateLegCapital_def Let_def sample_recon_defs)
qed

lemma partial_release_capital:
  "totalCapitalDeployed (getState p (fst (releasePartialCapital rd c pnl p s))) = floor0 (xsub rd (totalCapitalDeployed (getState p s)) c)"
  using updateDailyPnl_mode(2) [of p rd "reservationData rd (adjustCapitalDeployed rd c p s)" pnl True "adjustCapitalDeployed rd c p s"]
  by (simp add: releasePartialCapital_def Let_def adjustCapitalDeployed_def case_prod_unfold)

lemma sample_released: "totalCapitalDeployed (liveState (fst (releasePartialCapital dec20 (Fin 4) (Fin 0) False (sample_deployed 10)))) = Fin 6"
  using partial_release_capital [of False dec20 "Fin 4" "Fin 0" "sample_deployed 10"] dec20_int [of 6]
  by (simp add: getState_modes sample_deployed_def floor0_def)

text \<open>Ten dollars are deployed, four are released by a partial exit, and ten are deployed after a restart.\<close>

theorem restart_takes_back_partial_release_witness:
  "\<exists>st' r. reconcile dec20 (sample_recon_env RepFilled)
      ((sample_recon DbOpen)\<lparr>rcDb := rcDb (sample_recon DbExitPartial),
         rcRisk := fst (releasePartialCapital dec20 (Fin 4) (Fin 0) False (sample_deployed 10))\<rparr>) = (st', Inr r)
    \<and> totalCapitalDeployed (liveState (rcRisk st')) = Fin 10
    \<and> totalCapitalDeployed (liveState (fst (releasePartialCapital dec20 (Fin 4) (Fin 0) False (sample_deployed 10)))) = Fin 6"
proof -
  let ?s = "fst (releasePartialCapital dec20 (Fin 4) (Fin 0) False (sample_deployed 10))"
  obtain st' r where r: "reconcile dec20 (sample_recon_env RepFilled)
      ((sample_recon DbOpen)\<lparr>rcDb := rcDb (sample_recon DbExitPartial), rcRisk := ?s\<rparr>) = (st', Inr r)"
    by (rule sample_completes)
  have d: "rrDiscrepancies r = []"
    using sample_discrepancies(1) [OF r, of DbExitPartial] by (simp add: checkOrderDiscrepancy_def)
  have "totalCapitalDeployed (liveState (rcRisk st')) = totalCapitalDeployed (liveState (sample_deployed 10))"
  proof (rule restart_takes_back_partial_release [OF _ _ _ _ r d])
    show "totalCapitalDeployed (liveState (sample_deployed 10)) = stored_capital dec20 False (rcDb (sample_recon DbOpen))"
      by (simp add: sample_capital sample_deployed_def)
    show "update_position ''p1'' (\<lambda>p. p\<lparr>rpStatus := DbExitPartial\<rparr>) (rcDb (sample_recon DbOpen)) = Some (rcDb (sample_recon DbExitPartial))"
      by (simp add: update_position_def sample_recon_def sample_stored_position_def)
  qed (simp_all add: findPendingOrders_def sample_recon_defs)
  moreover have "totalCapitalDeployed (liveState ?s) = Fin 6"
    by (simp add: sample_released)
  ultimately show ?thesis using r by (auto simp: sample_deployed_def)
qed

end
