(* ===== verification/BacktestPortfolio.thy ===== *)
theory BacktestPortfolio
  imports Financial
begin

text \<open>
  \<^verbatim>\<open>BacktestPortfolioService\<close>: the simulated portfolio of a backtest run with its capital,
  open and closed positions, equity, drawdown and running accumulators, and the aggregate metrics
  of a run.  \<^verbatim>\<open>decimal.js\<close>'s square root is the parameter \<open>sq\<close>.  The events a
  position emits are left out.
\<close>

section \<open>State\<close>

datatype backtest_exit = RESOLUTION_FORCE_CLOSE | INSUFFICIENT_DEPTH | PROFIT_CAPTURE | EDGE_EVAPORATION
  | TIME_DECAY | SIMULATION_END

record sim_position =
  spId :: string
  spPair :: string
  spKalshiContract :: string
  spPolymarketContract :: string
  spKalshiSide :: string
  spPolymarketSide :: string
  spKalshiEntry :: decimal
  spPolymarketEntry :: decimal
  spKalshiExit :: "decimal option"
  spPolymarketExit :: "decimal option"
  spSize :: decimal
  spEntryEdge :: decimal
  spExitEdge :: "decimal option"
  spEntryTime :: timestamp
  spExitTime :: "timestamp option"
  spExitReason :: "backtest_exit option"
  spRealizedPnl :: "decimal option"
  spHoldingHours :: "decimal option"

record portfolio =
  pfAvailable :: decimal
  pfDeployed :: decimal
  pfOpen :: "(string \<times> sim_position) list"
  pfClosed :: "sim_position list"
  pfPeakEquity :: decimal
  pfCurrentEquity :: decimal
  pfRealizedPnl :: decimal
  pfMaxDrawdown :: decimal

record accumulators =
  acTotal :: nat
  acWins :: nat
  acLosses :: nat
  acGrossWin :: decimal
  acGrossLoss :: decimal
  acHoldingHours :: decimal
  acDailyPnl :: "(int \<times> decimal) list"

record run_context =
  rxState :: portfolio
  rxBankroll :: decimal
  rxSnapshots :: "(timestamp \<times> decimal) list"
  rxAccumulators :: accumulators

record close_params =
  cpTime :: timestamp
  cpReason :: backtest_exit
  cpKalshiExit :: decimal
  cpPolymarketExit :: decimal
  cpExitEdge :: decimal

definition CAPITAL_SNAPSHOT_INTERVAL_MS :: int where "CAPITAL_SNAPSHOT_INTERVAL_MS = 3600000"

section \<open>Operations on one run\<close>

definition maybeAddSnapshot :: "timestamp \<Rightarrow> decimal \<Rightarrow> run_context \<Rightarrow> run_context" where
  "maybeAddSnapshot t deployed c =
     (if rxSnapshots c = [] \<or> t - fst (last (rxSnapshots c)) \<ge> CAPITAL_SNAPSHOT_INTERVAL_MS
      then c\<lparr>rxSnapshots := rxSnapshots c @ [(t, deployed)]\<rparr> else c)"

definition fresh_portfolio :: "decimal \<Rightarrow> portfolio" where
  "fresh_portfolio bankroll = \<lparr>pfAvailable = bankroll, pfDeployed = Fin 0, pfOpen = [], pfClosed = [],
     pfPeakEquity = bankroll, pfCurrentEquity = bankroll, pfRealizedPnl = Fin 0, pfMaxDrawdown = Fin 0\<rparr>"

definition fresh_accumulators :: accumulators where
  "fresh_accumulators = \<lparr>acTotal = 0, acWins = 0, acLosses = 0, acGrossWin = Fin 0, acGrossLoss = Fin 0,
     acHoldingHours = Fin 0, acDailyPnl = []\<rparr>"

definition fresh_run :: "decimal \<Rightarrow> run_context" where
  "fresh_run bankroll = \<lparr>rxState = fresh_portfolio bankroll, rxBankroll = bankroll, rxSnapshots = [],
     rxAccumulators = fresh_accumulators\<rparr>"

text \<open>\<open>None\<close> is the error that the bankroll must be positive.\<close>

definition initialize_run :: "decimal \<Rightarrow> run_context option" where
  "initialize_run bankroll = (if xle bankroll (Fin 0) then None else Some (fresh_run bankroll))"

definition portfolio_open :: "(rat \<Rightarrow> rat) \<Rightarrow> sim_position \<Rightarrow> run_context \<Rightarrow> run_context \<times> bool" where
  "portfolio_open rd p c =
     (let s = rxState c in
      if xlt (pfAvailable s) (spSize p) then (c, False)
      else
        let s' = s\<lparr>pfAvailable := xsub rd (pfAvailable s) (spSize p), pfDeployed := xadd rd (pfDeployed s) (spSize p),
                   pfOpen := map_set (spId p) p (pfOpen s)\<rparr>
        in (maybeAddSnapshot (spEntryTime p) (pfDeployed s') (c\<lparr>rxState := s'\<rparr>), True))"

text \<open>\<^verbatim>\<open>toLowerCase\<close> on the letters of the side.\<close>

definition lower_char :: "char \<Rightarrow> char" where
  "lower_char ch = (let n = (of_char ch :: nat) in if 65 \<le> n \<and> n \<le> 90 then char_of (n + 32) else ch)"

definition lower_case :: "string \<Rightarrow> string" where
  "lower_case = map lower_char"

definition position_pnl :: "(rat \<Rightarrow> rat) \<Rightarrow> sim_position \<Rightarrow> decimal \<Rightarrow> decimal \<Rightarrow> decimal \<times> decimal" where
  "position_pnl rd p kalshiPrice polymarketPrice =
     (calculateLegPnl rd (lower_case (spKalshiSide p)) (spKalshiEntry p) kalshiPrice (spSize p),
      calculateLegPnl rd (lower_case (spPolymarketSide p)) (spPolymarketEntry p) polymarketPrice (spSize p))"

definition realized_pnl :: "(rat \<Rightarrow> rat) \<Rightarrow> sim_position \<Rightarrow> close_params \<Rightarrow> decimal" where
  "realized_pnl rd p ps = (case position_pnl rd p (cpKalshiExit ps) (cpPolymarketExit ps) of (k, m) \<Rightarrow> xadd rd k m)"

definition holding_hours :: "(rat \<Rightarrow> rat) \<Rightarrow> sim_position \<Rightarrow> timestamp \<Rightarrow> decimal" where
  "holding_hours rd p t = xdiv rd (Fin (of_int (max 0 (t - spEntryTime p)))) (Fin (1000 * 60 * 60))"

text \<open>The equity and drawdown of a new current equity.\<close>

definition track_drawdown :: "(rat \<Rightarrow> rat) \<Rightarrow> decimal \<Rightarrow> portfolio \<Rightarrow> portfolio" where
  "track_drawdown rd equity s =
     (let s1 = s\<lparr>pfCurrentEquity := equity\<rparr>;
          s2 = (if xgt equity (pfPeakEquity s1) then s1\<lparr>pfPeakEquity := equity\<rparr> else s1)
      in if xgt (pfPeakEquity s2) (Fin 0) then
           (let drawdown = xdiv rd (xsub rd (pfPeakEquity s2) (pfCurrentEquity s2)) (pfPeakEquity s2)
            in if xgt drawdown (pfMaxDrawdown s2) then s2\<lparr>pfMaxDrawdown := drawdown\<rparr> else s2)
         else s2)"

definition updateDrawdown :: "(rat \<Rightarrow> rat) \<Rightarrow> portfolio \<Rightarrow> portfolio" where
  "updateDrawdown rd s = track_drawdown rd (xadd rd (pfAvailable s) (pfDeployed s)) s"

definition accumulate :: "(rat \<Rightarrow> rat) \<Rightarrow> decimal \<Rightarrow> decimal \<Rightarrow> int \<Rightarrow> accumulators \<Rightarrow> accumulators" where
  "accumulate rd pnl hours exitDay a =
     (let a1 = a\<lparr>acTotal := acTotal a + 1\<rparr>;
          a2 = (if xgt pnl (Fin 0) then a1\<lparr>acWins := acWins a1 + 1, acGrossWin := xadd rd (acGrossWin a1) pnl\<rparr>
                else if xlt pnl (Fin 0) then a1\<lparr>acLosses := acLosses a1 + 1, acGrossLoss := xadd rd (acGrossLoss a1) (xabs pnl)\<rparr>
                else a1);
          existing = (case map_of (acDailyPnl a2) exitDay of Some d \<Rightarrow> d | None \<Rightarrow> Fin 0)
      in a2\<lparr>acHoldingHours := xadd rd (acHoldingHours a2) hours,
            acDailyPnl := map_set exitDay (xadd rd existing pnl) (acDailyPnl a2)\<rparr>)"

text \<open>The calendar day (UTC) of an exit.\<close>

definition exit_day :: "timestamp \<Rightarrow> int" where
  "exit_day t = t div 86400000"

definition closed_position :: "(rat \<Rightarrow> rat) \<Rightarrow> sim_position \<Rightarrow> close_params \<Rightarrow> sim_position" where
  "closed_position rd p ps = p\<lparr>spExitTime := Some (cpTime ps), spExitReason := Some (cpReason ps),
     spKalshiExit := Some (cpKalshiExit ps), spPolymarketExit := Some (cpPolymarketExit ps),
     spExitEdge := Some (cpExitEdge ps), spRealizedPnl := Some (realized_pnl rd p ps),
     spHoldingHours := Some (holding_hours rd p (cpTime ps))\<rparr>"

definition portfolio_close :: "(rat \<Rightarrow> rat) \<Rightarrow> string \<Rightarrow> close_params \<Rightarrow> run_context \<Rightarrow> run_context" where
  "portfolio_close rd pid ps c =
     (let s = rxState c in
      case map_of (pfOpen s) pid of
        None \<Rightarrow> c
      | Some p \<Rightarrow>
          let pnl = realized_pnl rd p ps;
              s' = s\<lparr>pfOpen := map_delete pid (pfOpen s), pfDeployed := xsub rd (pfDeployed s) (spSize p),
                     pfAvailable := xadd rd (xadd rd (pfAvailable s) (spSize p)) pnl,
                     pfRealizedPnl := xadd rd (pfRealizedPnl s) pnl,
                     pfClosed := pfClosed s @ [closed_position rd p ps]\<rparr>;
              c1 = c\<lparr>rxState := s',
                     rxAccumulators := accumulate rd pnl (holding_hours rd p (cpTime ps)) (exit_day (cpTime ps)) (rxAccumulators c)\<rparr>;
              c2 = maybeAddSnapshot (cpTime ps) (pfDeployed s') c1
          in c2\<lparr>rxState := updateDrawdown rd (rxState c2)\<rparr>)"

definition unrealized_pnl :: "(rat \<Rightarrow> rat) \<Rightarrow> (string \<times> decimal \<times> decimal) list \<Rightarrow> (string \<times> sim_position) list \<Rightarrow> decimal" where
  "unrealized_pnl rd updates ps =
     foldl (\<lambda>acc (pid, p). case map_of updates pid of
         None \<Rightarrow> acc
       | Some (k, m) \<Rightarrow> (case position_pnl rd p k m of (pk, pm) \<Rightarrow> xadd rd (xadd rd acc pk) pm)) (Fin 0) ps"

definition portfolio_updateEquity :: "(rat \<Rightarrow> rat) \<Rightarrow> (string \<times> decimal \<times> decimal) list \<Rightarrow> run_context \<Rightarrow> run_context" where
  "portfolio_updateEquity rd updates c =
     (let s = rxState c in
      c\<lparr>rxState := track_drawdown rd
          (xadd rd (xadd rd (pfAvailable s) (pfDeployed s)) (unrealized_pnl rd updates (pfOpen s))) s\<rparr>)"

definition addFinalSnapshot :: "timestamp \<Rightarrow> run_context \<Rightarrow> run_context" where
  "addFinalSnapshot t c = c\<lparr>rxSnapshots := rxSnapshots c @ [(t, pfDeployed (rxState c))]\<rparr>"

definition clearFlushedPositions :: "run_context \<Rightarrow> run_context" where
  "clearFlushedPositions c = c\<lparr>rxState := (rxState c)\<lparr>pfClosed := []\<rparr>\<rparr>"

definition reset_run :: "run_context \<Rightarrow> run_context" where
  "reset_run c = fresh_run (rxBankroll c)"

section \<open>Metrics\<close>

record aggregate_metrics =
  amTotalPositions :: nat
  amWinCount :: nat
  amLossCount :: nat
  amTotalPnl :: decimal
  amMaxDrawdown :: decimal
  amSharpe :: "decimal option"
  amProfitFactor :: "decimal option"
  amAvgHoldingHours :: decimal
  amUtilization :: decimal

definition sharpe_of :: "(rat \<Rightarrow> rat) \<Rightarrow> (decimal \<Rightarrow> decimal) \<Rightarrow> decimal \<Rightarrow> decimal list \<Rightarrow> decimal option" where
  "sharpe_of rd sq bankroll daily =
     (let returns = map (\<lambda>r. xdiv rd r bankroll) daily; n = length returns in
      if n \<le> 1 then None
      else
        let mean = xdiv rd (xsum rd returns) (Fin (of_nat n));
            variance = xdiv rd (xsum rd (map (\<lambda>r. let d = xsub rd r mean in xmul rd d d) returns)) (Fin (of_nat (n - 1)));
            stddev = sq variance
        in if is_zero stddev then None
           else Some (xmul rd (xdiv rd mean stddev) (sq (Fin 252))))"

definition calculateSharpeRatioFromAccumulators :: "(rat \<Rightarrow> rat) \<Rightarrow> (decimal \<Rightarrow> decimal) \<Rightarrow> run_context \<Rightarrow> decimal option" where
  "calculateSharpeRatioFromAccumulators rd sq c =
     (if acTotal (rxAccumulators c) = 0 \<or> is_zero (rxBankroll c) then None
      else sharpe_of rd sq (rxBankroll c) (map snd (acDailyPnl (rxAccumulators c))))"

fun weighted_deployment :: "(rat \<Rightarrow> rat) \<Rightarrow> (timestamp \<times> decimal) list \<Rightarrow> decimal \<times> decimal \<Rightarrow> decimal \<times> decimal" where
  "weighted_deployment rd ((t, d) # (t', d') # rest) (w, n) =
     (let duration = Fin (of_int (t' - t)) in
      weighted_deployment rd ((t', d') # rest) (xadd rd w (xmul rd d duration), xadd rd n duration))"
| "weighted_deployment rd _ acc = acc"

definition calculateCapitalUtilization :: "(rat \<Rightarrow> rat) \<Rightarrow> run_context \<Rightarrow> decimal" where
  "calculateCapitalUtilization rd c =
     (if is_zero (rxBankroll c) then Fin 0
      else if length (rxSnapshots c) < 2 then xdiv rd (pfDeployed (rxState c)) (rxBankroll c)
      else case weighted_deployment rd (rxSnapshots c) (Fin 0, Fin 0) of (w, n) \<Rightarrow>
        if is_zero n then Fin 0 else xdiv rd (xdiv rd w n) (rxBankroll c))"

definition getAggregateMetrics :: "(rat \<Rightarrow> rat) \<Rightarrow> (decimal \<Rightarrow> decimal) \<Rightarrow> run_context \<Rightarrow> aggregate_metrics" where
  "getAggregateMetrics rd sq c =
     (let a = rxAccumulators c in
      \<lparr>amTotalPositions = acTotal a, amWinCount = acWins a, amLossCount = acLosses a,
       amTotalPnl = xsub rd (acGrossWin a) (acGrossLoss a),
       amMaxDrawdown = pfMaxDrawdown (rxState c),
       amSharpe = calculateSharpeRatioFromAccumulators rd sq c,
       amProfitFactor = (if xgt (acGrossLoss a) (Fin 0) then Some (xdiv rd (acGrossWin a) (acGrossLoss a)) else None),
       amAvgHoldingHours = (if acTotal a > 0 then xdiv rd (acHoldingHours a) (Fin (of_nat (acTotal a))) else Fin 0),
       amUtilization = calculateCapitalUtilization rd c\<rparr>)"

section \<open>The service\<close>

text \<open>The runs by id; an operation on an unknown run throws.\<close>

type_synonym portfolios = "(string \<times> run_context) list"

definition getRunContext :: "string \<Rightarrow> portfolios \<Rightarrow> string + run_context" where
  "getRunContext rid rs = (case map_of rs rid of Some c \<Rightarrow> Inr c | None \<Rightarrow> Inl ''run not initialized'')"

definition initialize :: "decimal \<Rightarrow> string \<Rightarrow> portfolios \<Rightarrow> string + portfolios" where
  "initialize bankroll rid rs =
     (case initialize_run bankroll of None \<Rightarrow> Inl ''bankrollUsd must be positive'' | Some c \<Rightarrow> Inr (map_set rid c rs))"

definition on_run :: "string \<Rightarrow> (run_context \<Rightarrow> run_context) \<Rightarrow> portfolios \<Rightarrow> string + portfolios" where
  "on_run rid f rs = and_then (getRunContext rid rs) (\<lambda>c. Inr (map_set rid (f c) rs))"

definition destroyRun :: "string \<Rightarrow> portfolios \<Rightarrow> portfolios" where
  "destroyRun rid rs = map_delete rid rs"


section \<open>Conservation of capital\<close>

fun is_grid :: "decimal \<Rightarrow> bool" where
  "is_grid (Fin x) = grid x"
| "is_grid _ = False"

text \<open>
  Amounts that a step adds up without rounding: multiples of \<open>10\<^sup>-\<^sup>8\<close> whose absolute
  values together stay below \<open>10\<^sup>1\<^sup>2\<close>.
\<close>

definition within_range :: "decimal list \<Rightarrow> bool" where
  "within_range xs \<longleftrightarrow> list_all is_grid xs \<and> sum_list (map (\<lambda>x. \<bar>fin_val x\<bar>) xs) \<le> 10 ^ 12"

definition run_amounts :: "run_context \<Rightarrow> decimal list" where
  "run_amounts c = [pfAvailable (rxState c), pfDeployed (rxState c), pfRealizedPnl (rxState c),
     acGrossWin (rxAccumulators c), acGrossLoss (rxAccumulators c)]"

inductive portfolio_run :: "(rat \<Rightarrow> rat) \<Rightarrow> decimal \<Rightarrow> run_context \<Rightarrow> bool" for rd bankroll where
  start: "initialize_run bankroll = Some c \<Longrightarrow> within_range [bankroll] \<Longrightarrow> portfolio_run rd bankroll c"
| opened: "portfolio_run rd bankroll c \<Longrightarrow> map_of (pfOpen (rxState c)) (spId p) = None \<Longrightarrow>
    within_range (spSize p # run_amounts c) \<Longrightarrow> portfolio_run rd bankroll (fst (portfolio_open rd p c))"
| closed: "portfolio_run rd bankroll c \<Longrightarrow> map_of (pfOpen (rxState c)) pid = Some p \<Longrightarrow>
    within_range (spSize p # realized_pnl rd p ps # run_amounts c) \<Longrightarrow> portfolio_run rd bankroll (portfolio_close rd pid ps c)"
| marked: "portfolio_run rd bankroll c \<Longrightarrow> portfolio_run rd bankroll (portfolio_updateEquity rd updates c)"
| snapshot: "portfolio_run rd bankroll c \<Longrightarrow> portfolio_run rd bankroll (addFinalSnapshot t c)"
| flushed: "portfolio_run rd bankroll c \<Longrightarrow> portfolio_run rd bankroll (clearFlushedPositions c)"

definition open_sizes :: "(string \<times> sim_position) list \<Rightarrow> rat" where
  "open_sizes ps = sum_list (map (\<lambda>(_, p). fin_val (spSize p)) ps)"

definition capital_ok :: "rat \<Rightarrow> run_context \<Rightarrow> bool" where
  "capital_ok b c \<longleftrightarrow> (\<exists>a d r w l. run_amounts c = [Fin a, Fin d, Fin r, Fin w, Fin l]
     \<and> a + d = b + r \<and> d = open_sizes (pfOpen (rxState c)) \<and> w - l = r \<and> grid r \<and> \<bar>r\<bar> \<le> 10 ^ 12
     \<and> acWins (rxAccumulators c) + acLosses (rxAccumulators c) \<le> acTotal (rxAccumulators c)
     \<and> distinct (map fst (pfOpen (rxState c))))"

definition equity_ok :: "run_context \<Rightarrow> bool" where
  "equity_ok c \<longleftrightarrow> \<not> xgt (pfCurrentEquity (rxState c)) (pfPeakEquity (rxState c))
     \<and> \<not> xlt (pfMaxDrawdown (rxState c)) (Fin 0)"

lemma snapshot_keeps [simp]:
  "rxState (maybeAddSnapshot t d c) = rxState c" "rxAccumulators (maybeAddSnapshot t d c) = rxAccumulators c"
  by (simp_all add: maybeAddSnapshot_def)

lemma track_keeps [simp]:
  "pfAvailable (track_drawdown rd e s) = pfAvailable s" "pfDeployed (track_drawdown rd e s) = pfDeployed s"
  "pfRealizedPnl (track_drawdown rd e s) = pfRealizedPnl s" "pfOpen (track_drawdown rd e s) = pfOpen s"
  by (simp_all add: track_drawdown_def Let_def)

lemma xlt_irrefl [simp]: "\<not> xlt x x"
  by (cases x) simp_all

lemma xlt_above_nonneg: "xlt m d \<Longrightarrow> \<not> xlt m (Fin 0) \<Longrightarrow> \<not> xlt d (Fin 0)"
  by (cases m; cases d) auto

lemma track_equity: "\<not> xlt (pfMaxDrawdown s) (Fin 0) \<Longrightarrow>
    \<not> xgt (pfCurrentEquity (track_drawdown rd e s)) (pfPeakEquity (track_drawdown rd e s))
    \<and> \<not> xlt (pfMaxDrawdown (track_drawdown rd e s)) (Fin 0)"
  by (auto simp: track_drawdown_def Let_def dest: xlt_above_nonneg)

lemma run_equity: "portfolio_run rd b c \<Longrightarrow> equity_ok c"
proof (induction rule: portfolio_run.induct)
  case (start c)
  then show ?case by (auto simp: initialize_run_def fresh_run_def fresh_portfolio_def equity_ok_def split: if_splits)
next
  case (opened c p)
  then show ?case by (simp add: portfolio_open_def equity_ok_def Let_def)
next
  case (closed c pid p ps)
  then show ?case by (simp add: portfolio_close_def equity_ok_def Let_def updateDrawdown_def track_equity)
next
  case (marked c updates)
  then show ?case by (simp add: portfolio_updateEquity_def equity_ok_def Let_def track_equity)
qed (simp_all add: equity_ok_def addFinalSnapshot_def clearFlushedPositions_def)

lemma open_sizes_set: "map_of ps i = None \<Longrightarrow> open_sizes (map_set i p ps) = open_sizes ps + fin_val (spSize p)"
  by (simp add: map_set_fresh open_sizes_def)

lemma open_sizes_delete:
  assumes "map_of ps i = Some p" "distinct (map fst ps)"
  shows "open_sizes (map_delete i ps) = open_sizes ps - fin_val (spSize p)"
proof -
  obtain xs ys where "ps = xs @ (i, p) # ys" "map_of xs i = None" "map_of ys i = None"
    by (rule map_of_split [OF assms])
  then show ?thesis by (simp add: map_delete_split open_sizes_def)
qed

context decimal_rounding
begin

lemma exact_add:
  assumes "grid x" "grid y" "\<bar>x\<bar> + \<bar>y\<bar> \<le> 10 ^ 12"
  shows "rd (x + y) = x + y" "rd (x - y) = x - y"
  using assms rd_grid [of "x + y"] rd_grid [of "x - y"] by (auto simp: abs_if split: if_splits)

lemma opened_capital:
  assumes "capital_ok b c" "map_of (pfOpen (rxState c)) (spId p) = None" "within_range (spSize p # run_amounts c)"
  shows "capital_ok b (fst (portfolio_open rd p c))"
proof (cases "xlt (pfAvailable (rxState c)) (spSize p)")
  case True
  then show ?thesis using assms(1) by (simp add: portfolio_open_def)
next
  case False
  from assms(1) obtain a d r w l where c: "run_amounts c = [Fin a, Fin d, Fin r, Fin w, Fin l]"
      "a + d = b + r" "d = open_sizes (pfOpen (rxState c))" "w - l = r" "grid r" "\<bar>r\<bar> \<le> 10 ^ 12"
      "acWins (rxAccumulators c) + acLosses (rxAccumulators c) \<le> acTotal (rxAccumulators c)"
      "distinct (map fst (pfOpen (rxState c)))"
    unfolding capital_ok_def by blast
  from assms(3) obtain z where z: "spSize p = Fin z" "grid z" by (cases "spSize p") (auto simp: within_range_def)
  have g: "grid a" "grid d" "\<bar>a\<bar> + \<bar>z\<bar> \<le> 10 ^ 12" "\<bar>d\<bar> + \<bar>z\<bar> \<le> 10 ^ 12"
    using assms(3) by (auto simp: within_range_def c(1) z)
  have "rd (a - z) = a - z" "rd (d + z) = d + z" using exact_add g z(2) by simp_all
  then show ?thesis using c False
    by (auto simp: capital_ok_def portfolio_open_def Let_def run_amounts_def z open_sizes_set [OF assms(2)] intro: distinct_map_set)
qed

lemma closed_capital:
  assumes "capital_ok b c" "map_of (pfOpen (rxState c)) pid = Some p"
    "within_range (spSize p # realized_pnl rd p ps # run_amounts c)"
  shows "capital_ok b (portfolio_close rd pid ps c)"
proof -
  from assms(1) obtain a d r w l where c: "run_amounts c = [Fin a, Fin d, Fin r, Fin w, Fin l]"
      "a + d = b + r" "d = open_sizes (pfOpen (rxState c))" "w - l = r" "grid r" "\<bar>r\<bar> \<le> 10 ^ 12"
      "acWins (rxAccumulators c) + acLosses (rxAccumulators c) \<le> acTotal (rxAccumulators c)"
      "distinct (map fst (pfOpen (rxState c)))"
    unfolding capital_ok_def by blast
  from assms(3) obtain z where z: "spSize p = Fin z" "grid z" by (cases "spSize p") (auto simp: within_range_def)
  from assms(3) obtain q where q: "realized_pnl rd p ps = Fin q" "grid q" by (cases "realized_pnl rd p ps") (auto simp: within_range_def)
  have g: "grid a" "grid d" "grid w" "grid l" "\<bar>z\<bar> + \<bar>q\<bar> + \<bar>a\<bar> + \<bar>d\<bar> + \<bar>r\<bar> + \<bar>w\<bar> + \<bar>l\<bar> \<le> 10 ^ 12"
    using assms(3) by (auto simp: within_range_def c(1) z q)
  have e1: "rd (d - z) = d - z" by (rule exact_add(2)) (use g z in auto)
  have e2: "rd (a + z) = a + z" by (rule exact_add(1)) (use g z in auto)
  have e3: "rd (a + z + q) = a + z + q" by (rule exact_add(1)) (use g z q in \<open>auto simp: abs_if split: if_splits\<close>)
  have rq: "\<bar>r\<bar> + \<bar>q\<bar> \<le> 10 ^ 12"
    using g(5) abs_ge_zero [of z] abs_ge_zero [of a] abs_ge_zero [of d] abs_ge_zero [of w] abs_ge_zero [of l] by linarith
  have e4: "rd (r + q) = r + q" by (rule exact_add(1) [OF c(5) q(2) rq])
  have e5: "rd (w + q) = w + q" by (rule exact_add(1)) (use g q in auto)
  have lq: "\<bar>l\<bar> + \<bar>\<bar>q\<bar>\<bar> \<le> 10 ^ 12" "grid \<bar>q\<bar>"
    using g(5) abs_ge_zero [of z] abs_ge_zero [of a] abs_ge_zero [of d] abs_ge_zero [of w] abs_ge_zero [of r] q(2)
    by (simp_all add: abs_if split: if_splits)
  have e6: "rd (l + \<bar>q\<bar>) = l + \<bar>q\<bar>" by (rule exact_add(1) [OF g(4) lq(2,1)])
  have "\<bar>r + q\<bar> \<le> 10 ^ 12" using rq abs_triangle_ineq [of r q] by linarith
  moreover have "grid (r + q)" using c(5) q(2) by simp
  ultimately show ?thesis using c e1 e2 e3 e4 e5 e6 g q(2)
    by (auto simp: capital_ok_def portfolio_close_def assms(2) Let_def run_amounts_def z q updateDrawdown_def accumulate_def
        open_sizes_delete [OF assms(2) c(8)] abs_if intro: distinct_map_delete)
qed

lemma run_capital: "portfolio_run rd (Fin b) c \<Longrightarrow> capital_ok b c"
proof (induction rule: portfolio_run.induct)
  case (start c)
  then show ?case
    by (auto simp: initialize_run_def fresh_run_def fresh_portfolio_def fresh_accumulators_def capital_ok_def run_amounts_def open_sizes_def
        split: if_splits)
next
  case (opened c p)
  then show ?case by (intro opened_capital)
next
  case (closed c pid p ps)
  then show ?case by (intro closed_capital)
qed (simp_all add: capital_ok_def run_amounts_def portfolio_updateEquity_def addFinalSnapshot_def clearFlushedPositions_def Let_def)

end

text \<open>
  C26: Capital of a backtest is conserved: available and deployed capital together are the bankroll
  plus the realised profit, deployed capital is the size of the open positions, and the reported
  total profit is the realised one even after the closed positions were flushed.  The current
  equity never exceeds the peak and the drawdown is never negative.
\<close>
theorem portfolio_conserves_capital:
  assumes "decimal_rounding rd" and "portfolio_run rd (Fin b) c"
  shows "\<exists>a d r. pfAvailable (rxState c) = Fin a \<and> pfDeployed (rxState c) = Fin d \<and> pfRealizedPnl (rxState c) = Fin r
    \<and> a + d = b + r \<and> d = open_sizes (pfOpen (rxState c))
    \<and> amTotalPnl (getAggregateMetrics rd sq c) = Fin r
    \<and> amWinCount (getAggregateMetrics rd sq c) + amLossCount (getAggregateMetrics rd sq c) \<le> amTotalPositions (getAggregateMetrics rd sq c)
    \<and> \<not> xgt (pfCurrentEquity (rxState c)) (pfPeakEquity (rxState c)) \<and> \<not> xlt (pfMaxDrawdown (rxState c)) (Fin 0)"
proof -
  from decimal_rounding.run_capital [OF assms] obtain a d r w l where c: "run_amounts c = [Fin a, Fin d, Fin r, Fin w, Fin l]"
      "a + d = b + r" "d = open_sizes (pfOpen (rxState c))" "w - l = r" "grid r" "\<bar>r\<bar> \<le> 10 ^ 12"
      "acWins (rxAccumulators c) + acLosses (rxAccumulators c) \<le> acTotal (rxAccumulators c)"
    unfolding capital_ok_def by blast
  have "rd (w - l) = r" using decimal_rounding.rd_grid [OF assms(1) c(5,6)] c(4) by simp
  then show ?thesis using c run_equity [OF assms(2)]
    by (simp add: run_amounts_def getAggregateMetrics_def Let_def equity_ok_def)
qed


definition sample_sim_position :: sim_position where
  "sample_sim_position = \<lparr>spId = ''s1'', spPair = ''k:m'', spKalshiContract = ''k'', spPolymarketContract = ''m'',
     spKalshiSide = ''BUY'', spPolymarketSide = ''SELL'', spKalshiEntry = Fin 0, spPolymarketEntry = Fin 1,
     spKalshiExit = None, spPolymarketExit = None, spSize = Fin 100, spEntryEdge = Fin 0, spExitEdge = None,
     spEntryTime = 0, spExitTime = None, spExitReason = None, spRealizedPnl = None, spHoldingHours = None\<rparr>"

definition sample_close :: close_params where
  "sample_close = \<lparr>cpTime = 3600000, cpReason = PROFIT_CAPTURE, cpKalshiExit = Fin 1, cpPolymarketExit = Fin 1, cpExitEdge = Fin 0\<rparr>"

lemma lower_sides [simp]: "lower_case ''BUY'' = ''buy''" "lower_case ''SELL'' = ''sell''"
  by code_simp+

lemma sample_pnl: "realized_pnl dec20 sample_sim_position sample_close = Fin 100"
  using dec20_int [of 100] dec20_int [of 1] dec20_int [of 0]
  by (simp add: realized_pnl_def position_pnl_def calculateLegPnl_def sample_sim_position_def sample_close_def)

text \<open>A hundred dollars earned on a position of a hundred out of a thousand.\<close>

theorem portfolio_conserves_capital_witness:
  "\<exists>a d r. pfAvailable (rxState (portfolio_close dec20 ''s1'' sample_close (fst (portfolio_open dec20 sample_sim_position (fresh_run (Fin 1000)))))) = Fin a
    \<and> pfDeployed (rxState (portfolio_close dec20 ''s1'' sample_close (fst (portfolio_open dec20 sample_sim_position (fresh_run (Fin 1000)))))) = Fin d
    \<and> pfRealizedPnl (rxState (portfolio_close dec20 ''s1'' sample_close (fst (portfolio_open dec20 sample_sim_position (fresh_run (Fin 1000)))))) = Fin r
    \<and> a + d = 1000 + r"
proof -
  let ?c0 = "fresh_run (Fin 1000)" and ?c1 = "fst (portfolio_open dec20 sample_sim_position (fresh_run (Fin 1000)))"
  have g: "grid 1000" "grid 100" "grid 900" by code_simp+
  have s: "portfolio_run dec20 (Fin 1000) ?c0"
    by (rule portfolio_run.start) (simp_all add: initialize_run_def within_range_def g)
  have o: "portfolio_run dec20 (Fin 1000) ?c1"
    by (rule portfolio_run.opened [OF s])
      (simp_all add: within_range_def run_amounts_def fresh_run_def fresh_portfolio_def fresh_accumulators_def sample_sim_position_def g)
  have st: "pfOpen (rxState ?c1) = [(''s1'', sample_sim_position)]"
    "run_amounts ?c1 = [Fin 900, Fin 100, Fin 0, Fin 0, Fin 0]"
    using dec20_int [of 900] dec20_int [of 100]
    by (simp_all add: run_amounts_def portfolio_open_def Let_def fresh_run_def fresh_portfolio_def fresh_accumulators_def sample_sim_position_def)
  have "portfolio_run dec20 (Fin 1000) (portfolio_close dec20 ''s1'' sample_close ?c1)"
    by (rule portfolio_run.closed [OF o, of _ sample_sim_position])
      (simp_all add: st sample_pnl within_range_def g, simp add: sample_sim_position_def g)
  from portfolio_conserves_capital [OF d20.decimal_rounding_axioms this, of "\<lambda>x. x"] show ?thesis by blast
qed

end
