(* ===== verification/BacktestEngine.thy ===== *)
theory BacktestEngine
  imports BacktestPortfolio
begin

text \<open>
  The simulation of a backtest: edges of aligned closing prices
  (\<^verbatim>\<open>edge-calculation.utils\<close>), the exit evaluator, the fill model with its depth
  lookup, and the loop of \<^verbatim>\<open>BacktestEngineService\<close> over time steps.  Stored depths are
  arguments; the memory of the lazy depth cache is left out, since the steps of a chunk fall on
  whole minutes and its keys are minutes.  A thrown error ends the loop with the state it has
  reached.
\<close>

section \<open>Prices and edges\<close>

record step_pair =
  bpPair :: string
  bpKalshiContract :: string
  bpPolymarketContract :: string
  bpKalshiClose :: decimal
  bpPolymarketClose :: decimal
  bpResolutionTime :: "timestamp option"

record time_step =
  tsTime :: timestamp
  tsPairs :: "step_pair list"

definition DEFAULT_KALSHI_FEE_SCHEDULE :: "(rat \<Rightarrow> rat) \<Rightarrow> fee_schedule" where
  "DEFAULT_KALSHI_FEE_SCHEDULE rd = \<lparr>takerFeePercent = Fin (b64 (7/4)),
     takerFeeForPrice = Some (\<lambda>p. if xle p (Fin 0) \<or> xge p (Fin 1) then Fin 0
       else to_number (xmul rd (to_decimal (Fin (b64 (7/100)))) (xsub rd (Fin 1) (to_decimal p))))\<rparr>"

definition DEFAULT_POLYMARKET_FEE_SCHEDULE :: fee_schedule where
  "DEFAULT_POLYMARKET_FEE_SCHEDULE = \<lparr>takerFeePercent = Fin 2, takerFeeForPrice = None\<rparr>"

definition calculateBestEdge :: "(rat \<Rightarrow> rat) \<Rightarrow> step_pair \<Rightarrow> fm_error + decimal \<times> platform" where
  "calculateBestEdge rd pd =
     and_then (calculateGrossEdge rd (bpKalshiClose pd) (xsub rd (Fin 1) (bpPolymarketClose pd))) (\<lambda>edgeA.
     and_then (calculateGrossEdge rd (bpPolymarketClose pd) (xsub rd (Fin 1) (bpKalshiClose pd))) (\<lambda>edgeB.
     Inr (if xgt edgeA edgeB then (edgeA, Kalshi) else (edgeB, Polymarket))))"

definition backtest_net_edge ::
  "(rat \<Rightarrow> rat) \<Rightarrow> decimal \<Rightarrow> step_pair \<Rightarrow> platform \<Rightarrow> decimal \<Rightarrow> decimal \<Rightarrow> fm_error + decimal" where
  "backtest_net_edge rd grossEdge pd buySide gasEstimate positionSizeUsd =
     (let k = DEFAULT_KALSHI_FEE_SCHEDULE rd; m = DEFAULT_POLYMARKET_FEE_SCHEDULE in
      if buySide = Kalshi
      then calculateNetEdge rd grossEdge (bpKalshiClose pd) (xsub rd (Fin 1) (bpPolymarketClose pd)) k m gasEstimate positionSizeUsd
      else calculateNetEdge rd grossEdge (bpPolymarketClose pd) (xsub rd (Fin 1) (bpKalshiClose pd)) m k gasEstimate positionSizeUsd)"

definition calculateCurrentEdge :: "(rat \<Rightarrow> rat) \<Rightarrow> step_pair \<Rightarrow> decimal \<Rightarrow> decimal \<Rightarrow> fm_error + decimal" where
  "calculateCurrentEdge rd pd gasEstimate positionSizeUsd =
     and_then (calculateBestEdge rd pd) (\<lambda>(bestEdge, buySide).
       backtest_net_edge rd bestEdge pd buySide gasEstimate positionSizeUsd)"

definition isInTradingWindow :: "timestamp \<Rightarrow> jsnum \<Rightarrow> jsnum \<Rightarrow> bool" where
  "isInTradingWindow t startHour endHour =
     (let hour = Fin (of_int (t div 3600000 mod 24)) in
      if xle startHour endHour then xge hour startHour \<and> xlt hour endHour
      else xge hour startHour \<or> xlt hour endHour)"

definition inferResolutionPrice :: "(rat \<Rightarrow> rat) \<Rightarrow> step_pair \<Rightarrow> decimal option" where
  "inferResolutionPrice rd pd =
     (let maxPrice = xmax (bpKalshiClose pd) (bpPolymarketClose pd);
          minPrice = xmin (bpKalshiClose pd) (xsub rd (Fin 1) (bpPolymarketClose pd))
      in if xge maxPrice (Fin (19/20)) then Some (Fin 1)
         else if xle minPrice (Fin (1/20)) then Some (Fin 0) else None)"

section \<open>Exits\<close>

record exit_params =
  epPosition :: sim_position
  epNetEdge :: decimal
  epTime :: timestamp
  epEvaporationPct :: decimal
  epTimeLimitHours :: jsnum
  epCapturePct :: decimal
  epResolutionTime :: "timestamp option"
  epResolutionPrice :: "decimal option"
  epHasDepth :: bool

fun EXIT_PRIORITY :: "backtest_exit \<Rightarrow> nat" where
  "EXIT_PRIORITY RESOLUTION_FORCE_CLOSE = 1"
| "EXIT_PRIORITY INSUFFICIENT_DEPTH = 2"
| "EXIT_PRIORITY PROFIT_CAPTURE = 3"
| "EXIT_PRIORITY EDGE_EVAPORATION = 4"
| "EXIT_PRIORITY TIME_DECAY = 5"
| "EXIT_PRIORITY SIMULATION_END = 6"

definition isResolutionTriggered :: "exit_params \<Rightarrow> bool" where
  "isResolutionTriggered ps = (case (epResolutionTime ps, epResolutionPrice ps) of
       (Some t, Some _) \<Rightarrow> epTime ps \<ge> t
     | _ \<Rightarrow> False)"

definition isProfitCaptureTriggered :: "(rat \<Rightarrow> rat) \<Rightarrow> exit_params \<Rightarrow> bool" where
  "isProfitCaptureTriggered rd ps =
     (let entryEdge = spEntryEdge (epPosition ps) in
      if xle entryEdge (Fin 0) then False
      else xge (xdiv rd (xsub rd entryEdge (epNetEdge ps)) entryEdge) (epCapturePct ps))"

definition isEdgeEvaporationTriggered :: "exit_params \<Rightarrow> bool" where
  "isEdgeEvaporationTriggered ps = xlt (epNetEdge ps) (epEvaporationPct ps)"

definition isTimeDecayTriggered :: "exit_params \<Rightarrow> bool" where
  "isTimeDecayTriggered ps =
     xgt (xdiv b64 (Fin (of_int (epTime ps - spEntryTime (epPosition ps)))) (Fin (1000 * 60 * 60))) (epTimeLimitHours ps)"

fun exit_triggered_by :: "(rat \<Rightarrow> rat) \<Rightarrow> exit_params \<Rightarrow> backtest_exit \<Rightarrow> bool" where
  "exit_triggered_by rd ps RESOLUTION_FORCE_CLOSE = isResolutionTriggered ps"
| "exit_triggered_by rd ps INSUFFICIENT_DEPTH = (\<not> epHasDepth ps)"
| "exit_triggered_by rd ps PROFIT_CAPTURE = isProfitCaptureTriggered rd ps"
| "exit_triggered_by rd ps EDGE_EVAPORATION = isEdgeEvaporationTriggered ps"
| "exit_triggered_by rd ps TIME_DECAY = isTimeDecayTriggered ps"
| "exit_triggered_by rd ps SIMULATION_END = False"

definition evaluateExits :: "(rat \<Rightarrow> rat) \<Rightarrow> exit_params \<Rightarrow> backtest_exit option" where
  "evaluateExits rd ps =
     (case sort_key EXIT_PRIORITY (filter (exit_triggered_by rd ps)
         [RESOLUTION_FORCE_CLOSE, INSUFFICIENT_DEPTH, PROFIT_CAPTURE, EDGE_EVAPORATION, TIME_DECAY]) of
        [] \<Rightarrow> None
      | r # _ \<Rightarrow> Some r)"

section \<open>Depths and fills\<close>

record depth_level =
  dlPrice :: rat
  dlSize :: rat

record depth =
  dpTime :: timestamp
  dpBids :: "depth_level list"
  dpAsks :: "depth_level list"

text \<open>
  The eager cache holds the depths of a contract in descending order of time; the lazy one asks
  the database.
\<close>

datatype depth_cache =
    Eager "((platform \<times> string) \<times> depth list) list"
  | Lazy "platform \<Rightarrow> string \<Rightarrow> timestamp \<Rightarrow> depth option"

text \<open>The binary search over \<open>entries\<close> between the indices \<open>lo\<close> and \<open>hi\<close>.\<close>

function depth_search :: "depth list \<Rightarrow> timestamp \<Rightarrow> int \<Rightarrow> int \<Rightarrow> depth option \<Rightarrow> depth option" where
  "depth_search entries query lo hi best =
     (if lo \<le> hi then
        let mid = (lo + hi) div 2 in
        if mid < 0 \<or> mid \<ge> int (length entries) then best
        else let entry = entries ! nat mid in
          if dpTime entry \<le> query then depth_search entries query lo (mid - 1) (Some entry)
          else depth_search entries query (mid + 1) hi best
      else best)"
  by pat_completeness auto
termination
  by (relation "measure (\<lambda>(entries, query, lo, hi, best). nat (hi - lo + 1))") auto

declare depth_search.simps [simp del]

definition findNearestDepthFromCache :: "depth_cache \<Rightarrow> platform \<Rightarrow> string \<Rightarrow> timestamp \<Rightarrow> depth option" where
  "findNearestDepthFromCache cache pl contract t =
     (case cache of
        Lazy loader \<Rightarrow> loader pl contract t
      | Eager m \<Rightarrow>
          (case map_of m (pl, contract) of
             None \<Rightarrow> None
           | Some entries \<Rightarrow> if entries = [] then None
               else depth_search entries t 0 (int (length entries) - 1) None))"

definition to_price_level :: "depth_level \<Rightarrow> price_level" where
  "to_price_level l = \<lparr>price = Fin (dlPrice l), quantity = Fin (dlSize l)\<rparr>"

definition adaptDepthToOrderBook :: "depth \<Rightarrow> order_book" where
  "adaptDepthToOrderBook d = \<lparr>bids = map to_price_level (sort_key (\<lambda>l. - dlPrice l) (dpBids d)),
     asks = map to_price_level (sort_key dlPrice (dpAsks d))\<rparr>"

text \<open>A market without depth fills entirely at its closing price.\<close>

definition modelFill ::
  "(rat \<Rightarrow> rat) \<Rightarrow> depth option \<Rightarrow> bool \<Rightarrow> decimal \<Rightarrow> decimal option \<Rightarrow> vwap_fill_result option" where
  "modelFill rd found isBuy positionSize closePrice =
     (case found of
        None \<Rightarrow>
          (case closePrice of
             Some p \<Rightarrow> if xgt p (Fin 0)
               then Some \<lparr>vwap = p, filledQty = xdiv rd positionSize p, totalQtyAvailable = xdiv rd positionSize p\<rparr>
               else None
           | None \<Rightarrow> None)
      | Some d \<Rightarrow> calculateVwapWithFillInfo rd (adaptDepthToOrderBook d) (if isBuy then ''sell'' else ''buy'') positionSize)"

section \<open>The loop\<close>

record bt_config =
  bcEdgeThresholdPct :: jsnum
  bcPositionSizePct :: jsnum
  bcMaxConcurrentPairs :: jsnum
  bcBankrollUsd :: decimal
  bcWindowStartHour :: jsnum
  bcWindowEndHour :: jsnum
  bcGasEstimateUsd :: decimal
  bcEvaporationPct :: jsnum
  bcTimeLimitHours :: jsnum
  bcCapturePct :: jsnum

text \<open>
  The position size of a run, and where its depths come from: a cache, or, when none is given,
  the database.
\<close>

definition position_size_usd :: "(rat \<Rightarrow> rat) \<Rightarrow> bt_config \<Rightarrow> decimal" where
  "position_size_usd rd cfg = xmul rd (to_decimal (bcPositionSizePct cfg)) (bcBankrollUsd cfg)"

definition resolution_exit :: "(rat \<Rightarrow> rat) \<Rightarrow> step_pair \<Rightarrow> backtest_exit \<Rightarrow> decimal \<times> decimal" where
  "resolution_exit rd pd reason =
     (case (reason, inferResolutionPrice rd pd) of
        (RESOLUTION_FORCE_CLOSE, Some r) \<Rightarrow> (r, xsub rd (Fin 1) r)
      | _ \<Rightarrow> (bpKalshiClose pd, bpPolymarketClose pd))"

definition exit_position ::
  "(rat \<Rightarrow> rat) \<Rightarrow> bt_config \<Rightarrow> depth_cache \<Rightarrow> time_step \<Rightarrow> string \<times> sim_position \<Rightarrow> run_context \<Rightarrow> fm_error + run_context" where
  "exit_position rd cfg cache step = (\<lambda>(pid, p) c.
     case find (\<lambda>pd. bpPair pd = spPair p) (tsPairs step) of
       None \<Rightarrow> Inr c
     | Some pd \<Rightarrow>
         and_then (calculateCurrentEdge rd pd (bcGasEstimateUsd cfg) (position_size_usd rd cfg)) (\<lambda>edge.
           let hasDepth = (findNearestDepthFromCache cache Kalshi (spKalshiContract p) (tsTime step) \<noteq> None
                         \<and> findNearestDepthFromCache cache Polymarket (spPolymarketContract p) (tsTime step) \<noteq> None)
           in case evaluateExits rd \<lparr>epPosition = p, epNetEdge = edge, epTime = tsTime step,
                  epEvaporationPct = to_decimal (bcEvaporationPct cfg), epTimeLimitHours = bcTimeLimitHours cfg,
                  epCapturePct = to_decimal (bcCapturePct cfg), epResolutionTime = bpResolutionTime pd,
                  epResolutionPrice = (case bpResolutionTime pd of None \<Rightarrow> None | Some _ \<Rightarrow> inferResolutionPrice rd pd),
                  epHasDepth = hasDepth\<rparr> of
                None \<Rightarrow> Inr c
              | Some reason \<Rightarrow>
                  (case resolution_exit rd pd reason of (k, m) \<Rightarrow>
                     Inr (portfolio_close rd pid \<lparr>cpTime = tsTime step, cpReason = reason, cpKalshiExit = k,
                            cpPolymarketExit = m, cpExitEdge = edge\<rparr> c))))"

text \<open>A loop that may throw keeps the state it has reached.\<close>

fun try_each :: "('a \<Rightarrow> 's \<Rightarrow> 'e + 's) \<Rightarrow> 'a list \<Rightarrow> 's \<Rightarrow> 's \<times> 'e option" where
  "try_each f [] s = (s, None)"
| "try_each f (x # xs) s = (case f x s of Inl e \<Rightarrow> (s, Some e) | Inr s' \<Rightarrow> try_each f xs s')"

definition evaluate_exits ::
  "(rat \<Rightarrow> rat) \<Rightarrow> bt_config \<Rightarrow> depth_cache \<Rightarrow> time_step \<Rightarrow> run_context \<Rightarrow> run_context \<times> fm_error option" where
  "evaluate_exits rd cfg cache step c = try_each (exit_position rd cfg cache step) (pfOpen (rxState c)) c"

definition createSimulatedPosition ::
  "string \<Rightarrow> step_pair \<Rightarrow> platform \<Rightarrow> decimal \<Rightarrow> decimal \<Rightarrow> timestamp \<Rightarrow> sim_position" where
  "createSimulatedPosition pid pd buySide sz netEdge t =
     \<lparr>spId = pid, spPair = bpPair pd, spKalshiContract = bpKalshiContract pd, spPolymarketContract = bpPolymarketContract pd,
      spKalshiSide = (if buySide = Kalshi then ''BUY'' else ''SELL''),
      spPolymarketSide = (if buySide = Kalshi then ''SELL'' else ''BUY''),
      spKalshiEntry = bpKalshiClose pd, spPolymarketEntry = bpPolymarketClose pd,
      spKalshiExit = None, spPolymarketExit = None, spSize = sz, spEntryEdge = netEdge, spExitEdge = None,
      spEntryTime = t, spExitTime = None, spExitReason = None, spRealizedPnl = None, spHoldingHours = None\<rparr>"

text \<open>\<^verbatim>\<open>String(n)\<close> of a whole number.\<close>

function digits_of :: "nat \<Rightarrow> string" where
  "digits_of n = (if n < 10 then [char_of (48 + n)] else digits_of (n div 10) @ [char_of (48 + n mod 10)])"
  by pat_completeness auto
termination by (relation "measure id") auto

declare digits_of.simps [simp del]

definition int_text :: "int \<Rightarrow> string" where
  "int_text i = (if i < 0 then ''-'' @ digits_of (nat (- i)) else digits_of (nat i))"

definition position_id :: "string \<Rightarrow> string \<Rightarrow> timestamp \<Rightarrow> string" where
  "position_id rid pair t = rid @ ''-'' @ pair @ ''-'' @ int_text t"

definition pairs_full :: "bt_config \<Rightarrow> run_context \<Rightarrow> bool" where
  "pairs_full cfg c = xge (Fin (of_nat (length (pfOpen (rxState c))))) (bcMaxConcurrentPairs cfg)"

definition has_position :: "string \<Rightarrow> run_context \<Rightarrow> bool" where
  "has_position pair c = list_ex (\<lambda>(_, p). spPair p = pair) (pfOpen (rxState c))"

text \<open>One pair of a step that is not yet held: its edge, its two fills, its position.\<close>

definition open_pair ::
  "(rat \<Rightarrow> rat) \<Rightarrow> string \<Rightarrow> bt_config \<Rightarrow> depth_cache \<Rightarrow> timestamp \<Rightarrow> step_pair \<Rightarrow> run_context \<Rightarrow> fm_error + run_context" where
  "open_pair rd rid cfg cache t pd c =
     (let sz = position_size_usd rd cfg in
      and_then (calculateBestEdge rd pd) (\<lambda>(bestEdge, buySide).
      and_then (backtest_net_edge rd bestEdge pd buySide (bcGasEstimateUsd cfg) sz) (\<lambda>netEdge.
      and_then (isAboveThreshold netEdge (to_decimal (bcEdgeThresholdPct cfg))) (\<lambda>above.
      if \<not> above then Inr c
      else
        let kalshiFill = modelFill rd (findNearestDepthFromCache cache Kalshi (bpKalshiContract pd) t)
              (buySide = Kalshi) sz (Some (bpKalshiClose pd));
            polyFill = modelFill rd (findNearestDepthFromCache cache Polymarket (bpPolymarketContract pd) t)
              (buySide \<noteq> Kalshi) sz (Some (bpPolymarketClose pd))
        in if kalshiFill = None \<or> polyFill = None \<or> xlt (pfAvailable (rxState c)) sz then Inr c
           else Inr (fst (portfolio_open rd
                  (createSimulatedPosition (position_id rid (bpPair pd) t) pd buySide sz netEdge t) c))))))"

fun detect_opportunities ::
  "(rat \<Rightarrow> rat) \<Rightarrow> string \<Rightarrow> bt_config \<Rightarrow> depth_cache \<Rightarrow> timestamp \<Rightarrow> step_pair list \<Rightarrow> run_context \<Rightarrow> run_context \<times> fm_error option" where
  "detect_opportunities rd rid cfg cache t [] c = (c, None)"
| "detect_opportunities rd rid cfg cache t (pd # pds) c =
     (if pairs_full cfg c then (c, None)
      else if has_position (bpPair pd) c then detect_opportunities rd rid cfg cache t pds c
      else case open_pair rd rid cfg cache t pd c of
          Inl e \<Rightarrow> (c, Some e)
        | Inr c' \<Rightarrow> detect_opportunities rd rid cfg cache t pds c')"

definition step_prices :: "time_step \<Rightarrow> (string \<times> sim_position) list \<Rightarrow> (string \<times> decimal \<times> decimal) list" where
  "step_prices step ps = foldl (\<lambda>m (pid, p). case find (\<lambda>pd. bpPair pd = spPair p) (tsPairs step) of
       None \<Rightarrow> m
     | Some pd \<Rightarrow> map_set pid (bpKalshiClose pd, bpPolymarketClose pd) m) [] ps"

definition step_equity :: "(rat \<Rightarrow> rat) \<Rightarrow> time_step \<Rightarrow> run_context \<Rightarrow> run_context" where
  "step_equity rd step c = portfolio_updateEquity rd (step_prices step (pfOpen (rxState c))) c"

definition simulate_step ::
  "(rat \<Rightarrow> rat) \<Rightarrow> string \<Rightarrow> bt_config \<Rightarrow> depth_cache \<Rightarrow> time_step \<Rightarrow> run_context \<Rightarrow> run_context \<times> fm_error option" where
  "simulate_step rd rid cfg cache step c =
     (if \<not> isInTradingWindow (tsTime step) (bcWindowStartHour cfg) (bcWindowEndHour cfg) then (c, None)
      else case evaluate_exits rd cfg cache step c of
          (c1, Some e) \<Rightarrow> (c1, Some e)
        | (c1, None) \<Rightarrow>
            (case detect_opportunities rd rid cfg cache (tsTime step) (tsPairs step) c1 of
               (c2, Some e) \<Rightarrow> (c2, Some e)
             | (c2, None) \<Rightarrow> (step_equity rd step c2, None)))"

text \<open>\<open>cancelled\<close> tells at each step whether the run was cancelled; a headless run never is.\<close>

fun runSimulationLoop ::
  "(rat \<Rightarrow> rat) \<Rightarrow> string \<Rightarrow> bt_config \<Rightarrow> depth_cache \<Rightarrow> (timestamp \<Rightarrow> bool) \<Rightarrow> time_step list \<Rightarrow> run_context \<Rightarrow> run_context \<times> fm_error option" where
  "runSimulationLoop rd rid cfg cache cancelled [] c = (c, None)"
| "runSimulationLoop rd rid cfg cache cancelled (step # steps) c =
     (if cancelled (tsTime step) then (c, None)
      else case simulate_step rd rid cfg cache step c of
          (c1, Some e) \<Rightarrow> (c1, Some e)
        | (c1, None) \<Rightarrow> runSimulationLoop rd rid cfg cache cancelled steps c1)"

definition closeRemainingPositions :: "(rat \<Rightarrow> rat) \<Rightarrow> timestamp \<Rightarrow> time_step list \<Rightarrow> run_context \<Rightarrow> run_context" where
  "closeRemainingPositions rd now steps c =
     foldl (\<lambda>c' (pid, p).
        let lastPair = (if steps = [] then None else find (\<lambda>pd. bpPair pd = spPair p) (tsPairs (last steps))) in
        portfolio_close rd pid \<lparr>cpTime = (if steps = [] then now else tsTime (last steps)), cpReason = SIMULATION_END,
          cpKalshiExit = (case lastPair of None \<Rightarrow> spKalshiEntry p | Some pd \<Rightarrow> bpKalshiClose pd),
          cpPolymarketExit = (case lastPair of None \<Rightarrow> spPolymarketEntry p | Some pd \<Rightarrow> bpPolymarketClose pd),
          cpExitEdge = Fin 0\<rparr> c') c (pfOpen (rxState c))"

text \<open>\<^verbatim>\<open>runHeadlessSimulation\<close>: the metrics of a run of its own, or what was thrown.\<close>

definition runHeadlessSimulation ::
  "(rat \<Rightarrow> rat) \<Rightarrow> (decimal \<Rightarrow> decimal) \<Rightarrow> string \<Rightarrow> bt_config \<Rightarrow> depth_cache \<Rightarrow> timestamp \<Rightarrow> time_step list \<Rightarrow> string + aggregate_metrics" where
  "runHeadlessSimulation rd sq rid cfg cache now steps =
     (case initialize_run (bcBankrollUsd cfg) of
        None \<Rightarrow> Inl ''bankrollUsd must be positive''
      | Some c \<Rightarrow>
          (case runSimulationLoop rd rid cfg cache (\<lambda>_. False) steps c of
             (_, Some _) \<Rightarrow> Inl ''simulation failed''
           | (c1, None) \<Rightarrow> Inr (getAggregateMetrics rd sq
               (addFinalSnapshot (if steps = [] then now else tsTime (last steps)) (closeRemainingPositions rd now steps c1)))))"


section \<open>The nearest depth\<close>

text \<open>What the loop of the binary search keeps: the entries before \<open>lo\<close> are too new, \<open>best\<close> is the first that is not, right of \<open>hi\<close>.\<close>

lemma depth_search_first:
  assumes "sorted_wrt (\<lambda>a b. dpTime a \<ge> dpTime b) entries" "0 \<le> lo" "hi < int (length entries)" "lo \<le> hi + 1"
    "\<forall>i < nat lo. dpTime (entries ! i) > query"
    "best = (if nat (hi + 1) < length entries then Some (entries ! nat (hi + 1)) else None)"
    "nat (hi + 1) < length entries \<Longrightarrow> dpTime (entries ! nat (hi + 1)) \<le> query"
  shows "depth_search entries query lo hi best = find (\<lambda>d. dpTime d \<le> query) entries"
  using assms
proof (induction entries query lo hi best rule: depth_search.induct)
  case (1 entries query lo hi best)
  show ?case
  proof (cases "lo \<le> hi")
    case False
    then have lo: "lo = hi + 1" using 1(6) by simp
    have "find (\<lambda>d. dpTime d \<le> query) entries = (if nat lo < length entries then Some (entries ! nat lo) else None)"
    proof (cases "nat lo < length entries")
      case True
      then show ?thesis using 1(7,9) lo by (auto simp: find_Some_iff intro!: exI [of _ "nat lo"])
    next
      case n: False
      have "dpTime d > query" if "d \<in> set entries" for d
        using that 1(7) n by (metis in_set_conv_nth not_less order_less_le_trans)
      then show ?thesis using n by (auto simp: find_None_iff not_le)
    qed
    then show ?thesis using False 1(8) lo by (simp add: depth_search.simps)
  next
    case True
    let ?mid = "(lo + hi) div 2"
    have m: "lo \<le> ?mid" "?mid \<le> hi" using True by simp_all
    then have b: "0 \<le> ?mid" "?mid < int (length entries)" using 1(4,5) by simp_all
    have nl: "nat ?mid < length entries" using b by simp
    have mono: "dpTime (entries ! i) \<ge> dpTime (entries ! j)" if "i \<le> j" "j < length entries" for i j
      using that sorted_wrt_nth_less [OF 1(3), of i j] by (cases "i = j") auto
    show ?thesis
    proof (cases "dpTime (entries ! nat ?mid) \<le> query")
      case le: True
      have "depth_search entries query lo (?mid - 1) (Some (entries ! nat ?mid)) = find (\<lambda>d. dpTime d \<le> query) entries"
        using b m nl le 1(3,4,5,7) by (intro 1(1) [OF True refl]) (auto simp: not_le)
      then show ?thesis using True b le by (simp add: depth_search.simps [of entries query lo hi] Let_def not_less)
    next
      case gt: False
      have "\<forall>i < nat (?mid + 1). dpTime (entries ! i) > query"
      proof (intro allI impI)
        fix i assume "i < nat (?mid + 1)"
        then have "i \<le> nat ?mid" by simp
        from mono [OF this nl] gt show "dpTime (entries ! i) > query" by simp
      qed
      then have "depth_search entries query (?mid + 1) hi best = find (\<lambda>d. dpTime d \<le> query) entries"
        using b m gt 1(3-9) by (intro 1(2) [OF True refl]) (auto simp: not_le)
      then show ?thesis using True b gt by (simp add: depth_search.simps [of entries query lo hi] Let_def not_less)
    qed
  qed
qed

text \<open>
  On depths in descending order of time the binary search finds what a scan would: the latest
  depth that is not newer than the query, or nothing.
\<close>
theorem nearest_depth_is_latest:
  assumes "map_of m (pl, contract) = Some entries"
    and "sorted_wrt (\<lambda>a b. dpTime a \<ge> dpTime b) entries"
  shows "findNearestDepthFromCache (Eager m) pl contract t = find (\<lambda>d. dpTime d \<le> t) entries"
  using assms depth_search_first [of entries 0 "int (length entries) - 1" t None]
  by (simp add: findNearestDepthFromCache_def)

definition sample_depths :: "depth list" where
  "sample_depths = map (\<lambda>t. \<lparr>dpTime = t, dpBids = [], dpAsks = []\<rparr>) [50, 40, 30, 20, 10]"

theorem nearest_depth_is_latest_witness:
  "map_option dpTime (findNearestDepthFromCache (Eager [((Kalshi, ''k''), sample_depths)]) Kalshi ''k'' 37) = Some 30"
  by (subst nearest_depth_is_latest [where entries = sample_depths]) (simp_all add: sample_depths_def)

section \<open>Properties of a simulation\<close>

text \<open>
  The interface between the loop and the portfolio: a property of the run that closing, marking
  and the opening of an admissible pair keep holds along the loop.
\<close>

locale simulation_property =
  fixes rd :: "rat \<Rightarrow> rat" and rid :: string and cfg :: bt_config and cache :: depth_cache
    and ok_pair :: "timestamp \<Rightarrow> step_pair \<Rightarrow> bool" and P :: "run_context \<Rightarrow> bool"
  assumes close: "P c \<Longrightarrow> P (portfolio_close rd pid ps c)"
    and equity: "P c \<Longrightarrow> P (portfolio_updateEquity rd updates c)"
    and opened: "P c \<Longrightarrow> ok_pair t pd \<Longrightarrow> isInTradingWindow t (bcWindowStartHour cfg) (bcWindowEndHour cfg) \<Longrightarrow>
      \<not> pairs_full cfg c \<Longrightarrow> \<not> has_position (bpPair pd) c \<Longrightarrow> open_pair rd rid cfg cache t pd c = Inr c' \<Longrightarrow> P c'"
begin

lemma exit_position: "P c \<Longrightarrow> exit_position rd cfg cache step pp c = Inr c' \<Longrightarrow> P c'"
  by (auto simp: exit_position_def and_then_Inr Let_def case_prod_unfold split: option.splits intro: close)

lemma try_exits: "P c \<Longrightarrow> P (fst (try_each (exit_position rd cfg cache step) pps c))"
  by (induction pps arbitrary: c) (auto split: sum.splits dest: exit_position)

lemma detect:
  "P c \<Longrightarrow> list_all (ok_pair t) pds \<Longrightarrow> isInTradingWindow t (bcWindowStartHour cfg) (bcWindowEndHour cfg) \<Longrightarrow>
     P (fst (detect_opportunities rd rid cfg cache t pds c))"
  by (induction pds arbitrary: c) (auto split: sum.splits intro: opened)

lemma simulated_step:
  assumes "P c" "list_all (ok_pair (tsTime step)) (tsPairs step)"
  shows "P (fst (simulate_step rd rid cfg cache step c))"
proof (cases "isInTradingWindow (tsTime step) (bcWindowStartHour cfg) (bcWindowEndHour cfg)")
  case True
  obtain c1 e1 where e: "evaluate_exits rd cfg cache step c = (c1, e1)" by force
  then have p1: "P c1" using try_exits [OF assms(1), of step "pfOpen (rxState c)"] by (simp add: evaluate_exits_def)
  obtain c2 e2 where d: "detect_opportunities rd rid cfg cache (tsTime step) (tsPairs step) c1 = (c2, e2)" by force
  then have "P c2" using detect [OF p1 assms(2) True] by simp
  then show ?thesis using True e d p1 by (cases e1; cases e2) (simp_all add: simulate_step_def step_equity_def equity)
qed (simp add: simulate_step_def assms)

lemma simulated:
  "P c \<Longrightarrow> list_all (\<lambda>s. list_all (ok_pair (tsTime s)) (tsPairs s)) steps \<Longrightarrow>
     P (fst (runSimulationLoop rd rid cfg cache cancelled steps c))"
proof (induction steps arbitrary: c)
  case (Cons s ss)
  obtain c1 e1 where s: "simulate_step rd rid cfg cache s c = (c1, e1)" by force
  then have "P c1" using simulated_step [of c s] Cons.prems by simp
  then show ?case using Cons s by (cases e1) simp_all
qed simp

lemma closed_remaining: "P c \<Longrightarrow> P (closeRemainingPositions rd now steps c)"
proof -
  have "P c \<Longrightarrow> P (foldl (\<lambda>c' (pid, p). portfolio_close rd pid (f p) c') c pps)" for f pps
    by (induction pps arbitrary: c) (auto simp: close)
  then show "P c \<Longrightarrow> ?thesis" unfolding closeRemainingPositions_def Let_def .
qed

end

section \<open>Limits of a simulation\<close>

definition held_pairs :: "run_context \<Rightarrow> string list" where
  "held_pairs c = map (\<lambda>(_, p). spPair p) (pfOpen (rxState c))"

definition limits_kept :: "bt_config \<Rightarrow> run_context \<Rightarrow> bool" where
  "limits_kept cfg c \<longleftrightarrow> distinct (held_pairs c)
     \<and> (\<forall>x. bcMaxConcurrentPairs cfg = Fin x \<longrightarrow> int (length (pfOpen (rxState c))) \<le> max 0 \<lceil>x\<rceil>)
     \<and> list_all (\<lambda>(_, p). isInTradingWindow (spEntryTime p) (bcWindowStartHour cfg) (bcWindowEndHour cfg)) (pfOpen (rxState c))"

lemma open_after_close: "pfOpen (rxState (portfolio_close rd pid ps c)) = map_delete pid (pfOpen (rxState c))"
  by (simp add: portfolio_close_def Let_def updateDrawdown_def map_delete_fresh split: option.splits)

lemma open_after_equity [simp]: "pfOpen (rxState (portfolio_updateEquity rd ups c)) = pfOpen (rxState c)"
  by (simp add: portfolio_updateEquity_def Let_def)

lemma open_after_opened:
  "pfOpen (rxState (fst (portfolio_open rd p c))) = (if snd (portfolio_open rd p c) then map_set (spId p) p (pfOpen (rxState c)) else pfOpen (rxState c))"
  by (simp add: portfolio_open_def Let_def)

lemma opened_pair:
  assumes "open_pair rd rid cfg cache t pd c = Inr c'"
  obtains "c' = c" | buySide e sz where "calculateBestEdge rd pd = Inr (e, buySide)"
    "c' = fst (portfolio_open rd (createSimulatedPosition (position_id rid (bpPair pd) t) pd buySide (position_size_usd rd cfg) sz t) c)"
  using assms by (auto simp: open_pair_def and_then_Inr Let_def split: if_splits)

lemma set_map_set: "set (map f (map_set i p m)) \<subseteq> insert (f (i, p)) (set (map f m))"
  by (induction m) auto

lemma distinct_map_set_values:
  "distinct (map f m) \<Longrightarrow> f (i, p) \<notin> set (map f m) \<Longrightarrow> distinct (map f (map_set i p m))"
proof (induction m)
  case (Cons x m)
  then show ?case using set_map_set [of f i p m] by (cases x) (auto split: if_splits)
qed simp

lemma length_map_set: "length (map_set i p m) \<le> Suc (length m)"
  by (induction m) auto

lemma map_delete_values: "distinct (map f m) \<Longrightarrow> distinct (map f (map_delete i m))" "length (map_delete i m) \<le> length m"
  "list_all Q m \<Longrightarrow> list_all Q (map_delete i m)"
  by (auto simp: AList.delete_eq list_all_iff distinct_map_filter)

interpretation limits: simulation_property rd rid cfg cache "\<lambda>_ _. True" "limits_kept cfg" for rd rid cfg cache
proof unfold_locales
  fix c pid ps assume "limits_kept cfg c"
  then show "limits_kept cfg (portfolio_close rd pid ps c)"
    using map_delete_values(2) [of pid "pfOpen (rxState c)"]
    by (auto simp: limits_kept_def held_pairs_def open_after_close map_delete_values(1,3))
next
  fix c updates assume "limits_kept cfg c"
  then show "limits_kept cfg (portfolio_updateEquity rd updates c)" by (simp add: limits_kept_def held_pairs_def)
next
  fix c t pd c'
  assume c: "limits_kept cfg c" and w: "isInTradingWindow t (bcWindowStartHour cfg) (bcWindowEndHour cfg)"
    and f: "\<not> pairs_full cfg c" and h: "\<not> has_position (bpPair pd) c" and o: "open_pair rd rid cfg cache t pd c = Inr c'"
  from o show "limits_kept cfg c'"
  proof (cases rule: opened_pair)
    case 1
    then show ?thesis using c by simp
  next
    case (2 buySide e sz)
    let ?p = "createSimulatedPosition (position_id rid (bpPair pd) t) pd buySide (position_size_usd rd cfg) sz t"
    have p: "spPair ?p = bpPair pd" "spEntryTime ?p = t" by (simp_all add: createSimulatedPosition_def)
    let ?m = "map_set (spId ?p) ?p (pfOpen (rxState c))"
    have d: "distinct (map (\<lambda>(_, p). spPair p) ?m)"
      using c h by (intro distinct_map_set_values) (auto simp: limits_kept_def held_pairs_def has_position_def list_ex_iff p)
    have "int (length ?m) \<le> max 0 \<lceil>x\<rceil>" if "bcMaxConcurrentPairs cfg = Fin x" for x
    proof -
      have "of_nat (length (pfOpen (rxState c))) < x" using f that by (simp add: pairs_full_def not_le)
      then have "int (length (pfOpen (rxState c))) < \<lceil>x\<rceil>" by linarith
      then show ?thesis using length_map_set [of "spId ?p" ?p "pfOpen (rxState c)"] by linarith
    qed
    moreover have "list_all (\<lambda>(_, p). isInTradingWindow (spEntryTime p) (bcWindowStartHour cfg) (bcWindowEndHour cfg)) ?m"
    proof -
      have "set ?m \<subseteq> insert (spId ?p, ?p) (set (pfOpen (rxState c)))" using set_map_set [of "\<lambda>x. x" "spId ?p" ?p "pfOpen (rxState c)"] by simp
      then show ?thesis using c w p(2) by (auto simp: limits_kept_def list_all_iff)
    qed
    ultimately show ?thesis using 2(2) c d by (auto simp: limits_kept_def held_pairs_def open_after_opened)
  qed
qed

text \<open>
  A simulation that starts without positions holds at most one position per pair and at most the
  configured number of them, and each was opened inside the trading window.
\<close>
theorem simulation_respects_limits:
  assumes "bcMaxConcurrentPairs cfg = Fin (of_int n)" and "0 \<le> n"
  shows "let c = fst (runSimulationLoop rd rid cfg cache cancelled steps (fresh_run bankroll)) in
    distinct (held_pairs c) \<and> int (length (pfOpen (rxState c))) \<le> n
    \<and> list_all (\<lambda>(_, p). isInTradingWindow (spEntryTime p) (bcWindowStartHour cfg) (bcWindowEndHour cfg)) (pfOpen (rxState c))"
proof -
  have "limits_kept cfg (fresh_run bankroll)"
    by (simp add: limits_kept_def held_pairs_def fresh_run_def fresh_portfolio_def)
  then have "limits_kept cfg (fst (runSimulationLoop rd rid cfg cache cancelled steps (fresh_run bankroll)))"
    by (rule limits.simulated) (simp add: list_all_iff)
  then show ?thesis using assms by (simp add: limits_kept_def Let_def)
qed


definition sample_bt_config :: bt_config where
  "sample_bt_config = \<lparr>bcEdgeThresholdPct = Fin 0, bcPositionSizePct = Fin 1, bcMaxConcurrentPairs = Fin 3,
     bcBankrollUsd = Fin 100, bcWindowStartHour = Fin 0, bcWindowEndHour = Fin 24, bcGasEstimateUsd = Fin 0,
     bcEvaporationPct = Fin 0, bcTimeLimitHours = Fin 72, bcCapturePct = Fin 1\<rparr>"

definition sample_step :: time_step where
  "sample_step = \<lparr>tsTime = 0, tsPairs = [\<lparr>bpPair = ''k:m'', bpKalshiContract = ''k'', bpPolymarketContract = ''m'',
     bpKalshiClose = Fin (1/4), bpPolymarketClose = Fin (1/4), bpResolutionTime = None\<rparr>]\<rparr>"

theorem simulation_respects_limits_witness:
  "int (length (pfOpen (rxState (fst (runSimulationLoop dec20 ''r'' sample_bt_config (Eager []) (\<lambda>_. False) [sample_step] (fresh_run (Fin 100))))))) \<le> 3"
proof -
  have "bcMaxConcurrentPairs sample_bt_config = Fin (of_int 3)" by (simp add: sample_bt_config_def)
  from simulation_respects_limits [OF this, of dec20 "''r''" "Eager []" "\<lambda>_. False" "[sample_step]" "Fin 100"]
  show ?thesis by (simp add: Let_def)
qed

section \<open>The direction of a simulated position\<close>

text \<open>A stored closing price: between zero and one with at most ten decimals.\<close>

fun close_price :: "decimal \<Rightarrow> bool" where
  "close_price (Fin x) \<longleftrightarrow> 0 \<le> x \<and> x \<le> 1 \<and> of_int \<lfloor>x * 10 ^ 10\<rfloor> = x * 10 ^ 10"
| "close_price _ \<longleftrightarrow> False"

definition stored_closes :: "step_pair \<Rightarrow> bool" where
  "stored_closes pd \<longleftrightarrow> close_price (bpKalshiClose pd) \<and> close_price (bpPolymarketClose pd)"

definition simulated_positions :: "run_context \<Rightarrow> sim_position list" where
  "simulated_positions c = map snd (pfOpen (rxState c)) @ pfClosed (rxState c)"

definition sells_kalshi :: "sim_position \<Rightarrow> bool" where
  "sells_kalshi p \<longleftrightarrow> spKalshiSide p = ''SELL'' \<and> spPolymarketSide p = ''BUY''"

context decimal_rounding
begin

lemma rd_ten_decimals:
  assumes "of_int n = x * 10 ^ 10" "\<bar>x\<bar> \<le> 10 ^ 10"
  shows "rd x = x"
proof -
  have x: "x = of_int n * of_nat 10 powi (- 10)" using assms(1) by (simp add: power_int_def power_one_over)
  have "of_int \<bar>n\<bar> = \<bar>x\<bar> * (10 ^ 10 :: rat)" using assms(1) by (simp add: abs_mult)
  also have "\<dots> \<le> 10 ^ 10 * 10 ^ 10" using assms(2) by (intro mult_right_mono) auto
  finally have "of_int \<bar>n\<bar> \<le> (of_int (10 ^ 20) :: rat)" by simp
  then have "\<bar>n\<bar> \<le> 10 ^ 20" by (simp only: of_int_le_iff)
  then show ?thesis unfolding x by (intro rd_exact) simp
qed

lemma best_edge:
  assumes "bpKalshiClose pd = Fin k" "bpPolymarketClose pd = Fin m" "stored_closes pd"
  shows "calculateBestEdge rd pd = Inr (Fin (1 - k - m), Polymarket)"
proof -
  from assms obtain i j where i: "of_int i = k * 10 ^ 10" "0 \<le> k" "k \<le> 1" and j: "of_int j = m * 10 ^ 10" "0 \<le> m" "m \<le> 1"
    by (auto simp: stored_closes_def)
  have "rd (1 - k) = 1 - k" by (rule rd_ten_decimals [of "10 ^ 10 - i"]) (use i in \<open>auto simp: algebra_simps\<close>)
  moreover have "rd (1 - m) = 1 - m" by (rule rd_ten_decimals [of "10 ^ 10 - j"]) (use j in \<open>auto simp: algebra_simps\<close>)
  moreover have *: "rd (1 - k - m) = 1 - k - m"
    by (rule rd_ten_decimals [of "10 ^ 10 - i - j"]) (use i j in \<open>auto simp: algebra_simps abs_if\<close>)
  moreover have "rd (1 - m - k) = 1 - k - m"
  proof -
    have e: "1 - m - k = 1 - k - m" by simp
    show ?thesis unfolding e by (rule *)
  qed
  ultimately show ?thesis by (simp add: calculateBestEdge_def calculateGrossEdge_def assms(1,2))
qed

lemma stored_best_edge: "stored_closes pd \<Longrightarrow> calculateBestEdge rd pd = Inr (e, s) \<Longrightarrow> s = Polymarket"
  by (cases "bpKalshiClose pd"; cases "bpPolymarketClose pd") (auto simp: best_edge stored_closes_def)

lemma direction: "simulation_property rd rid cfg cache (\<lambda>_. stored_closes) (\<lambda>c. list_all sells_kalshi (simulated_positions c))"
proof unfold_locales
  fix c pid ps assume a: "list_all sells_kalshi (simulated_positions c)"
  show "list_all sells_kalshi (simulated_positions (portfolio_close rd pid ps c))"
  proof (cases "map_of (pfOpen (rxState c)) pid")
    case None
    then show ?thesis using a by (simp add: portfolio_close_def)
  next
    case (Some p)
    then have "p \<in> snd ` set (pfOpen (rxState c))" by (force dest: map_of_SomeD)
    then have "sells_kalshi p" using a by (auto simp: simulated_positions_def list_all_iff)
    moreover have "pfClosed (rxState (portfolio_close rd pid ps c)) = pfClosed (rxState c) @ [closed_position rd p ps]"
      using Some by (simp add: portfolio_close_def Let_def updateDrawdown_def track_drawdown_def)
    ultimately show ?thesis using a
      by (auto simp: simulated_positions_def open_after_close list_all_iff AList.delete_eq sells_kalshi_def closed_position_def)
  qed
next
  fix c updates assume "list_all sells_kalshi (simulated_positions c)"
  moreover have "pfClosed (rxState (portfolio_updateEquity rd updates c)) = pfClosed (rxState c)"
    by (simp add: portfolio_updateEquity_def Let_def track_drawdown_def)
  ultimately show "list_all sells_kalshi (simulated_positions (portfolio_updateEquity rd updates c))"
    by (simp add: simulated_positions_def)
next
  fix c t pd c'
  assume a: "list_all sells_kalshi (simulated_positions c)" and k: "stored_closes pd" and o: "open_pair rd rid cfg cache t pd c = Inr c'"
  from o show "list_all sells_kalshi (simulated_positions c')"
  proof (cases rule: opened_pair)
    case (2 buySide e sz)
    let ?p = "createSimulatedPosition (position_id rid (bpPair pd) t) pd buySide (position_size_usd rd cfg) sz t"
    have "buySide = Polymarket" using stored_best_edge [OF k 2(1)] .
    then have "sells_kalshi ?p" by (simp add: sells_kalshi_def createSimulatedPosition_def)
    moreover have "pfClosed (rxState (fst (portfolio_open rd ?p c))) = pfClosed (rxState c)" by (simp add: portfolio_open_def Let_def)
    moreover have "snd ` set (map_set (spId ?p) ?p (pfOpen (rxState c))) \<subseteq> insert ?p (snd ` set (pfOpen (rxState c)))"
      using set_map_set [of snd "spId ?p" ?p "pfOpen (rxState c)"] by simp
    then have "\<forall>q \<in> snd ` set (map_set (spId ?p) ?p (pfOpen (rxState c))). q = ?p \<or> q \<in> snd ` set (pfOpen (rxState c))" by blast
    ultimately show ?thesis using a
      by (fastforce simp: 2(2) simulated_positions_def open_after_opened list_all_iff)
  qed (use a in simp)
qed

end

interpretation d20_direction: simulation_property dec20 rid cfg cache "\<lambda>_. stored_closes"
  "\<lambda>c. list_all sells_kalshi (simulated_positions c)" for rid cfg cache
  by (rule d20.direction)

text \<open>
  C27: The two edges a backtest compares are one number: what is left of a dollar after both closing
  prices.  So every position it opens sells on Kalshi and buys on Polymarket, whichever of the
  two is cheaper, and its entry edge does not depend on the gap between them.
\<close>
theorem backtest_never_buys_kalshi:
  assumes "decimal_rounding rd"
    and "list_all (\<lambda>s. list_all stored_closes (tsPairs s)) steps"
  shows "list_all sells_kalshi (simulated_positions
    (closeRemainingPositions rd now steps (fst (runSimulationLoop rd rid cfg cache cancelled steps (fresh_run bankroll)))))"
proof -
  note sp = decimal_rounding.direction [OF assms(1), of rid cfg cache]
  have "list_all sells_kalshi (simulated_positions (fresh_run bankroll))"
    by (simp add: simulated_positions_def fresh_run_def fresh_portfolio_def)
  from simulation_property.closed_remaining [OF sp simulation_property.simulated [OF sp this assms(2)]] show ?thesis .
qed

text \<open>Both contracts at a quarter: equal prices, and an edge of half a dollar.\<close>

theorem backtest_never_buys_kalshi_witness:
  "list_all sells_kalshi (simulated_positions (closeRemainingPositions dec20 0 [sample_step]
     (fst (runSimulationLoop dec20 ''r'' sample_bt_config (Eager []) (\<lambda>_. False) [sample_step] (fresh_run (Fin 100))))))
   \<and> calculateBestEdge dec20 (hd (tsPairs sample_step)) = Inr (Fin (1/2), Polymarket)"
proof
  show "list_all sells_kalshi (simulated_positions (closeRemainingPositions dec20 0 [sample_step]
     (fst (runSimulationLoop dec20 ''r'' sample_bt_config (Eager []) (\<lambda>_. False) [sample_step] (fresh_run (Fin 100))))))"
    by (rule backtest_never_buys_kalshi [OF d20.decimal_rounding_axioms]) (simp add: sample_step_def stored_closes_def)
  show "calculateBestEdge dec20 (hd (tsPairs sample_step)) = Inr (Fin (1/2), Polymarket)"
    using d20.best_edge [of "hd (tsPairs sample_step)" "1/4" "1/4"] by (simp add: sample_step_def stored_closes_def)
qed

end
