(* ===== verification/BacktestPipeline.thy ===== *)
theory BacktestPipeline
  imports BacktestEngine BacktestRuns
begin

text \<open>
  \<^verbatim>\<open>BacktestEngineService\<close> from the start of a run to its report: the chunks of the date
  range, the pipeline over them with its state machine and its portfolios, the walk-forward split
  and its comparison of metrics.  Answers of the database are arguments.  A cancellation can
  arrive at every awaited call; the environment says at which ones it does.  Message texts and
  the report itself are left out.
\<close>

section \<open>Chunks\<close>

definition ONE_DAY_MS :: int where "ONE_DAY_MS = 24 * 60 * 60 * 1000"

text \<open>The loop does not end when a chunk has no length; its value is then \<open>None\<close>.\<close>

partial_function (option) range_loop :: "int \<Rightarrow> int \<Rightarrow> int \<Rightarrow> (timestamp \<times> timestamp) list option" where
  "range_loop current endMs chunkMs =
     (if current < endMs then
        Option.bind (range_loop (min (current + chunkMs) endMs) endMs chunkMs)
          (\<lambda>rest. Some ((current, min (current + chunkMs) endMs) # rest))
      else Some [])"

declare range_loop.simps [code]

definition generateChunkRanges :: "timestamp \<Rightarrow> timestamp \<Rightarrow> int \<Rightarrow> (timestamp \<times> timestamp) list option" where
  "generateChunkRanges dateStart dateEnd days = range_loop dateStart dateEnd (days * ONE_DAY_MS)"

section \<open>Walk-forward\<close>

definition OVERFIT_THRESHOLD :: jsnum where "OVERFIT_THRESHOLD = Fin (b64 (3/10))"

definition splitTimeSteps :: "time_step list \<Rightarrow> jsnum \<Rightarrow> time_step list \<times> time_step list" where
  "splitTimeSteps steps trainPct =
     (let n = nat \<lfloor>fin_val (xmul b64 (Fin (of_nat (length steps))) trainPct)\<rfloor> in (take n steps, drop n steps))"

definition computeDegradation :: "(rat \<Rightarrow> rat) \<Rightarrow> decimal option \<Rightarrow> decimal option \<Rightarrow> jsnum option" where
  "computeDegradation rd train test =
     (case (train, test) of
        (Some a, Some b) \<Rightarrow> if is_zero a then None else Some (to_number (xdiv rd (xsub rd a b) (xabs a)))
      | _ \<Rightarrow> None)"

record degradation =
  dgProfitFactor :: "jsnum option"
  dgSharpe :: "jsnum option"
  dgTotalPnl :: "jsnum option"

datatype overfit_flag = FlagProfitFactor | FlagSharpe | FlagTotalPnl

definition overfit :: "jsnum option \<Rightarrow> bool" where
  "overfit d = (case d of None \<Rightarrow> False | Some x \<Rightarrow> xgt x OVERFIT_THRESHOLD)"

definition compareMetrics :: "(rat \<Rightarrow> rat) \<Rightarrow> aggregate_metrics \<Rightarrow> aggregate_metrics \<Rightarrow> degradation \<times> overfit_flag list" where
  "compareMetrics rd train test =
     (let d = \<lparr>dgProfitFactor = computeDegradation rd (amProfitFactor train) (amProfitFactor test),
               dgSharpe = computeDegradation rd (amSharpe train) (amSharpe test),
               dgTotalPnl = computeDegradation rd (Some (amTotalPnl train)) (Some (amTotalPnl test))\<rparr>
      in (d, (if overfit (dgProfitFactor d) then [FlagProfitFactor] else [])
           @ (if overfit (dgSharpe d) then [FlagSharpe] else [])
           @ (if overfit (dgTotalPnl d) then [FlagTotalPnl] else [])))"

section \<open>The pipeline\<close>

record pipeline_config =
  pcSimulation :: bt_config
  pcStart :: timestamp
  pcEnd :: timestamp
  pcChunkDays :: int
  pcWalkForward :: bool
  pcTrainPct :: jsnum

datatype pipeline_point =
    AtPairs | AtCoverage | AtPrices nat | AtDepths nat | AtStep nat timestamp | AtFlush nat
  | AtPersist | AtRest | AtWalkForward | AtReport

record pipeline_env =
  peCancel :: "pipeline_point \<Rightarrow> bool"
  pePairs :: "string + nat"
  peCoverage :: "string + bool \<times> jsnum"
  pePrices :: "nat \<Rightarrow> string + time_step list"
  peDepths :: "nat \<Rightarrow> string + depth_cache"
  peWrites :: "pipeline_point \<Rightarrow> bool"
  peStored :: bool
  peNow :: timestamp

datatype pipeline_effect =
    RunEffect run_effect
  | ChunkCompleted nat nat int int
  | PositionsWritten nat
  | ResultsPersisted aggregate_metrics
  | WalkForwardStored degradation "overfit_flag list"
  | RunCompleted aggregate_metrics

record pipeline =
  plRuns :: runs
  plPortfolios :: portfolios
  plEffects :: "pipeline_effect list"

text \<open>How a part of the pipeline ends early: it returns, or throws a code and a message.\<close>

datatype pipeline_stop = Returned | Thrown int string

type_synonym part = "pipeline \<times> pipeline_stop option"

definition pl_then :: "part \<Rightarrow> (pipeline \<Rightarrow> part) \<Rightarrow> part" where
  "pl_then m f = (case m of (s, None) \<Rightarrow> f s | (s, Some stop) \<Rightarrow> (s, Some stop))"

definition BACKTEST_STATE_ERROR :: int where "BACKTEST_STATE_ERROR = 4204"
definition BACKTEST_INVALID_CONFIGURATION :: int where "BACKTEST_INVALID_CONFIGURATION = 4212"
definition BACKTEST_INSUFFICIENT_DATA :: int where "BACKTEST_INSUFFICIENT_DATA = 4211"

definition pl_emit :: "pipeline_effect list \<Rightarrow> pipeline \<Rightarrow> pipeline" where
  "pl_emit effs s = s\<lparr>plEffects := plEffects s @ effs\<rparr>"

definition pl_await :: "pipeline_env \<Rightarrow> pipeline_point \<Rightarrow> string \<Rightarrow> pipeline \<Rightarrow> pipeline" where
  "pl_await env pt rid s =
     (if peCancel env pt then
        case cancelRun rid (peStored env) (plRuns s) of
          (r, effs, _) \<Rightarrow> pl_emit (map RunEffect effs) (s\<lparr>plRuns := r\<rparr>)
      else s)"

definition pl_advance :: "string \<Rightarrow> run_state \<Rightarrow> pipeline \<Rightarrow> part" where
  "pl_advance rid to s =
     (case transitionRun rid to (plRuns s) of
        (r, effs, Inl _) \<Rightarrow> (pl_emit (map RunEffect effs) (s\<lparr>plRuns := r\<rparr>), Some (Thrown BACKTEST_STATE_ERROR ''invalid transition''))
      | (r, effs, Inr _) \<Rightarrow> (pl_emit (map RunEffect effs) (s\<lparr>plRuns := r\<rparr>), None))"

definition pl_fail :: "pipeline_env \<Rightarrow> string \<Rightarrow> int \<Rightarrow> string \<Rightarrow> pipeline \<Rightarrow> pipeline" where
  "pl_fail env rid code message s =
     (case failRun rid code message (peStored env) (plRuns s) of
        (r, effs) \<Rightarrow> pl_emit (map RunEffect effs) (s\<lparr>plRuns := r\<rparr>))"

text \<open>An operation on the portfolio of a run; an unknown run throws.\<close>

definition pl_portfolio :: "string \<Rightarrow> (run_context \<Rightarrow> run_context) \<Rightarrow> pipeline \<Rightarrow> part" where
  "pl_portfolio rid f s =
     (case on_run rid f (plPortfolios s) of
        Inl e \<Rightarrow> (s, Some (Thrown BACKTEST_STATE_ERROR e))
      | Inr rs \<Rightarrow> (s\<lparr>plPortfolios := rs\<rparr>, None))"

definition pl_initialize :: "decimal \<Rightarrow> string \<Rightarrow> pipeline \<Rightarrow> part" where
  "pl_initialize bankroll rid s =
     (case initialize bankroll rid (plPortfolios s) of
        Inl e \<Rightarrow> (s, Some (Thrown BACKTEST_STATE_ERROR e))
      | Inr rs \<Rightarrow> (s\<lparr>plPortfolios := rs\<rparr>, None))"

definition train_id :: "string \<Rightarrow> string" where "train_id rid = rid @ ''-wf-train''"
definition test_id :: "string \<Rightarrow> string" where "test_id rid = rid @ ''-wf-test''"

text \<open>The simulation of a portfolio; what it reached before an error stays.\<close>

definition pl_simulate ::
  "(rat \<Rightarrow> rat) \<Rightarrow> string \<Rightarrow> bt_config \<Rightarrow> depth_cache \<Rightarrow> (timestamp \<Rightarrow> bool) \<Rightarrow> time_step list \<Rightarrow> pipeline \<Rightarrow> part" where
  "pl_simulate rd rid cfg cache cancelled steps s =
     (case getRunContext rid (plPortfolios s) of
        Inl e \<Rightarrow> (s, Some (Thrown BACKTEST_STATE_ERROR e))
      | Inr c \<Rightarrow>
          (case runSimulationLoop rd rid cfg cache cancelled steps c of
             (c', err) \<Rightarrow> (s\<lparr>plPortfolios := map_set rid c' (plPortfolios s)\<rparr>,
               case err of None \<Rightarrow> None | Some _ \<Rightarrow> Some (Thrown BACKTEST_STATE_ERROR ''simulation failed''))))"

definition main_cancelled :: "pipeline_env \<Rightarrow> nat \<Rightarrow> string \<Rightarrow> time_step list \<Rightarrow> pipeline \<Rightarrow> timestamp \<Rightarrow> bool" where
  "main_cancelled env i rid steps s t \<longleftrightarrow> isCancelled rid (plRuns s) \<or>
     list_ex (\<lambda>x. tsTime x \<le> t \<and> peCancel env (AtStep i (tsTime x))) steps"

definition await_steps :: "pipeline_env \<Rightarrow> nat \<Rightarrow> string \<Rightarrow> time_step list \<Rightarrow> pipeline \<Rightarrow> pipeline" where
  "await_steps env i rid steps s = foldl (\<lambda>s' x. pl_await env (AtStep i (tsTime x)) rid s') s steps"

text \<open>The end of the training range; \<open>None\<close> is an invalid date, with which no comparison holds.\<close>

definition day_start :: "timestamp \<Rightarrow> timestamp" where
  "day_start t = t div ONE_DAY_MS * ONE_DAY_MS"

definition toward_zero :: "rat \<Rightarrow> int" where
  "toward_zero q = (if q < 0 then \<lceil>q\<rceil> else \<lfloor>q\<rfloor>)"

definition train_end :: "pipeline_config \<Rightarrow> timestamp option" where
  "train_end cfg =
     (case xadd b64 (Fin (of_int (pcStart cfg))) (xmul b64 (Fin (of_int (pcEnd cfg - pcStart cfg))) (pcTrainPct cfg)) of
        Fin q \<Rightarrow>
          (let t = day_start (toward_zero q) in
           Some (if t \<le> pcStart cfg then day_start (pcStart cfg + ONE_DAY_MS) else t))
      | _ \<Rightarrow> None)"

record chunk_data =
  cdLast :: "time_step list"
  cdLastTrain :: "time_step list"
  cdLastTest :: "time_step list"

text \<open>The routing of a chunk to the training and the test portfolio.\<close>

definition route_train ::
  "(rat \<Rightarrow> rat) \<Rightarrow> string \<Rightarrow> bt_config \<Rightarrow> depth_cache \<Rightarrow> time_step list \<Rightarrow> chunk_data \<Rightarrow> pipeline \<Rightarrow> chunk_data \<times> part" where
  "route_train rd rid cfg cache steps d s =
     (case pl_simulate rd (train_id rid) cfg cache (\<lambda>_. False) steps s of
        (s', None) \<Rightarrow> (d\<lparr>cdLastTrain := steps\<rparr>, (s', None))
      | (s', Some e) \<Rightarrow> (d, (s', Some e)))"

definition route_test ::
  "(rat \<Rightarrow> rat) \<Rightarrow> string \<Rightarrow> bt_config \<Rightarrow> depth_cache \<Rightarrow> time_step list \<Rightarrow> chunk_data \<Rightarrow> pipeline \<Rightarrow> chunk_data \<times> part" where
  "route_test rd rid cfg cache steps d s =
     (case pl_simulate rd (test_id rid) cfg cache (\<lambda>_. False) steps s of
        (s', None) \<Rightarrow> (d\<lparr>cdLastTest := steps\<rparr>, (s', None))
      | (s', Some e) \<Rightarrow> (d, (s', Some e)))"

definition before_date :: "timestamp \<Rightarrow> timestamp option \<Rightarrow> bool" where
  "before_date t d = (case d of None \<Rightarrow> False | Some x \<Rightarrow> t < x)"

definition not_before_date :: "timestamp \<Rightarrow> timestamp option \<Rightarrow> bool" where
  "not_before_date t d = (case d of None \<Rightarrow> False | Some x \<Rightarrow> t \<ge> x)"

definition route_chunk ::
  "(rat \<Rightarrow> rat) \<Rightarrow> string \<Rightarrow> bt_config \<Rightarrow> depth_cache \<Rightarrow> timestamp option \<Rightarrow> timestamp \<times> timestamp \<Rightarrow> time_step list
     \<Rightarrow> chunk_data \<Rightarrow> pipeline \<Rightarrow> chunk_data \<times> part" where
  "route_chunk rd rid cfg cache trainEnd window steps d s =
     (if (case trainEnd of None \<Rightarrow> False | Some t \<Rightarrow> snd window \<le> t) then route_train rd rid cfg cache steps d s
      else if not_before_date (fst window) trainEnd then route_test rd rid cfg cache steps d s
      else
        let trainSteps = filter (\<lambda>x. before_date (tsTime x) trainEnd) steps;
            testSteps = filter (\<lambda>x. not_before_date (tsTime x) trainEnd) steps in
        case (if trainSteps = [] then (d, (s, None)) else route_train rd rid cfg cache trainSteps d s) of
          (d1, (s1, Some e)) \<Rightarrow> (d1, (s1, Some e))
        | (d1, (s1, None)) \<Rightarrow> (if testSteps = [] then (d1, (s1, None)) else route_test rd rid cfg cache testSteps d1 s1))"

definition position_counts :: "string \<Rightarrow> pipeline \<Rightarrow> int \<times> int" where
  "position_counts rid s = (case getRunContext rid (plPortfolios s) of
       Inl _ \<Rightarrow> (0, 0)
     | Inr c \<Rightarrow> (int (length (pfOpen (rxState c))), int (length (pfClosed (rxState c)))))"

text \<open>The flush of closed positions: kept for the next one when the write fails.\<close>

definition flush_positions :: "pipeline_env \<Rightarrow> nat \<Rightarrow> string \<Rightarrow> pipeline \<Rightarrow> part" where
  "flush_positions env i rid s =
     (let n = nat (snd (position_counts rid s)) in
      if n = 0 then (s, None)
      else
        let s1 = pl_await env (AtFlush i) rid s in
        if peWrites env (AtFlush i) then pl_portfolio rid clearFlushedPositions (pl_emit [PositionsWritten n] s1)
        else (s1, None))"

text \<open>A chunk after its cancellation check; an error in it is logged and the next chunk follows.\<close>

definition run_chunk ::
  "(rat \<Rightarrow> rat) \<Rightarrow> pipeline_env \<Rightarrow> string \<Rightarrow> pipeline_config \<Rightarrow> timestamp option \<Rightarrow> nat \<Rightarrow> nat \<Rightarrow> timestamp \<times> timestamp
     \<Rightarrow> chunk_data \<times> pipeline \<Rightarrow> chunk_data \<times> pipeline" where
  "run_chunk rd env rid cfg trainEnd chunks i window = (\<lambda>(d, s).
     let s1 = pl_await env (AtPrices i) rid s in
     case pePrices env i of
       Inl _ \<Rightarrow> (d, s1)
     | Inr steps \<Rightarrow>
         let s2 = pl_await env (AtDepths i) rid s1 in
         (case peDepths env i of
            Inl _ \<Rightarrow> (d, s2)
          | Inr cache \<Rightarrow>
              if steps = [] then (d, pl_emit [ChunkCompleted i chunks 0 0] s2)
              else
                let d1 = d\<lparr>cdLast := steps\<rparr>; prior = position_counts rid s2;
                    (s3, e3) = pl_simulate rd rid (pcSimulation cfg) cache (main_cancelled env i rid steps s2) steps s2;
                    s4 = await_steps env i rid steps s3 in
                if e3 \<noteq> None then (d1, s4)
                else
                  (case (if pcWalkForward cfg then route_chunk rd rid (pcSimulation cfg) cache trainEnd window steps d1 s4
                         else (d1, (s4, None))) of
                     (d2, (s5, Some _)) \<Rightarrow> (d2, s5)
                   | (d2, (s5, None)) \<Rightarrow>
                       let after = position_counts rid s5; closed = snd after - snd prior;
                           s6 = pl_emit [ChunkCompleted i chunks (fst after - fst prior + closed) closed] s5
                       in (d2, fst (flush_positions env i rid s6)))))"

text \<open>The chunk loop; \<open>True\<close> when it ended because the run was cancelled.\<close>

fun run_data_chunks ::
  "(rat \<Rightarrow> rat) \<Rightarrow> pipeline_env \<Rightarrow> string \<Rightarrow> pipeline_config \<Rightarrow> timestamp option \<Rightarrow> nat \<Rightarrow> nat \<Rightarrow> (timestamp \<times> timestamp) list
     \<Rightarrow> chunk_data \<times> pipeline \<Rightarrow> (chunk_data \<times> pipeline) \<times> bool" where
  "run_data_chunks rd env rid cfg trainEnd chunks i [] ds = (ds, False)"
| "run_data_chunks rd env rid cfg trainEnd chunks i (r # rs) ds =
     (if isCancelled rid (plRuns (snd ds)) then (ds, True)
      else run_data_chunks rd env rid cfg trainEnd chunks (i + 1) rs (run_chunk rd env rid cfg trainEnd chunks i r ds))"

definition last_time :: "timestamp \<Rightarrow> time_step list \<Rightarrow> timestamp" where
  "last_time now steps = (if steps = [] then now else tsTime (last steps))"

definition finish_portfolio :: "(rat \<Rightarrow> rat) \<Rightarrow> timestamp \<Rightarrow> time_step list \<Rightarrow> string \<Rightarrow> pipeline \<Rightarrow> part" where
  "finish_portfolio rd now steps rid =
     pl_portfolio rid (\<lambda>c. addFinalSnapshot (last_time now steps) (closeRemainingPositions rd now steps c))"

definition metrics_of :: "(rat \<Rightarrow> rat) \<Rightarrow> (decimal \<Rightarrow> decimal) \<Rightarrow> string \<Rightarrow> pipeline \<Rightarrow> aggregate_metrics option" where
  "metrics_of rd sq rid s = (case getRunContext rid (plPortfolios s) of Inl _ \<Rightarrow> None | Inr c \<Rightarrow> Some (getAggregateMetrics rd sq c))"

text \<open>The simulation part with its \<^verbatim>\<open>finally\<close>: the headless portfolios are destroyed however it ends.\<close>

definition destroy_headless :: "string \<Rightarrow> pipeline_config \<Rightarrow> pipeline \<Rightarrow> pipeline" where
  "destroy_headless rid cfg s =
     (if pcWalkForward cfg then s\<lparr>plPortfolios := destroyRun (test_id rid) (destroyRun (train_id rid) (plPortfolios s))\<rparr> else s)"

definition simulate_chunks ::
  "(rat \<Rightarrow> rat) \<Rightarrow> (decimal \<Rightarrow> decimal) \<Rightarrow> pipeline_env \<Rightarrow> string \<Rightarrow> pipeline_config \<Rightarrow> timestamp option \<Rightarrow> (timestamp \<times> timestamp) list
     \<Rightarrow> pipeline \<Rightarrow> part \<times> (aggregate_metrics \<times> aggregate_metrics) option" where
  "simulate_chunks rd sq env rid cfg trainEnd ranges s =
     (case run_data_chunks rd env rid cfg trainEnd (length ranges) 0 ranges (\<lparr>cdLast = [], cdLastTrain = [], cdLastTest = []\<rparr>, s) of
        ((d, s1), stopped) \<Rightarrow>
          if stopped \<or> isCancelled rid (plRuns s1) then ((destroy_headless rid cfg s1, Some Returned), None)
          else
            (case finish_portfolio rd (peNow env) (cdLast d) rid s1 of
               (s2, Some e) \<Rightarrow> ((destroy_headless rid cfg s2, Some e), None)
             | (s2, None) \<Rightarrow>
                 if \<not> pcWalkForward cfg then ((s2, None), None)
                 else
                   (case pl_then (finish_portfolio rd (peNow env) (cdLastTrain d) (train_id rid) s2)
                          (finish_portfolio rd (peNow env) (cdLastTest d) (test_id rid)) of
                      (s3, Some e) \<Rightarrow> ((destroy_headless rid cfg s3, Some e), None)
                    | (s3, None) \<Rightarrow>
                        ((destroy_headless rid cfg s3, None),
                         (case (metrics_of rd sq (train_id rid) s3, metrics_of rd sq (test_id rid) s3) of
                            (Some a, Some b) \<Rightarrow> Some (a, b) | _ \<Rightarrow> None)))))"

section \<open>Results\<close>

definition pl_write :: "pipeline_env \<Rightarrow> pipeline_point \<Rightarrow> string \<Rightarrow> pipeline_effect list \<Rightarrow> pipeline \<Rightarrow> part" where
  "pl_write env pt rid effs s =
     (let s1 = pl_await env pt rid s in
      if peWrites env pt then (pl_emit effs s1, None) else (s1, Some (Thrown BACKTEST_STATE_ERROR ''write failed'')))"

definition persistResults :: "(rat \<Rightarrow> rat) \<Rightarrow> (decimal \<Rightarrow> decimal) \<Rightarrow> pipeline_env \<Rightarrow> string \<Rightarrow> pipeline \<Rightarrow> part" where
  "persistResults rd sq env rid s =
     (case metrics_of rd sq rid s of
        None \<Rightarrow> (s, Some (Thrown BACKTEST_STATE_ERROR ''run not initialized''))
      | Some m \<Rightarrow>
          pl_then (pl_write env AtPersist rid [ResultsPersisted m] s) (\<lambda>s1.
            let n = nat (snd (position_counts rid s1)) in
            if n = 0 then (s1, None) else pl_write env AtRest rid [PositionsWritten n] s1))"

definition report_results ::
  "(rat \<Rightarrow> rat) \<Rightarrow> (decimal \<Rightarrow> decimal) \<Rightarrow> pipeline_env \<Rightarrow> string \<Rightarrow> (aggregate_metrics \<times> aggregate_metrics) option \<Rightarrow> pipeline \<Rightarrow> part" where
  "report_results rd sq env rid split s =
     (if isCancelled rid (plRuns s) then (s, Some Returned)
      else
        pl_then (pl_advance rid GENERATING_REPORT s) (\<lambda>s1.
        pl_then (persistResults rd sq env rid s1) (\<lambda>s2.
        pl_then (case split of
            None \<Rightarrow> (s2, None)
          | Some (train, test) \<Rightarrow> (case compareMetrics rd train test of
              (d, flags) \<Rightarrow> pl_write env AtWalkForward rid [WalkForwardStored d flags] s2)) (\<lambda>s3.
        let s4 = pl_await env AtReport rid s3 in
        pl_then (pl_advance rid COMPLETE s4) (\<lambda>s5.
          case metrics_of rd sq rid s5 of
            None \<Rightarrow> (s5, Some (Thrown BACKTEST_STATE_ERROR ''run not initialized''))
          | Some m \<Rightarrow> (pl_emit [RunCompleted m] s5, None))))))"

text \<open>The checks before the simulation.\<close>

definition check_data :: "pipeline_env \<Rightarrow> string \<Rightarrow> nat \<Rightarrow> pipeline \<Rightarrow> part" where
  "check_data env rid pairs s =
     (if pairs = 0 then (s, None)
      else
        let s1 = pl_await env AtCoverage rid s in
        case peCoverage env of
          Inl e \<Rightarrow> (s1, Some (Thrown BACKTEST_STATE_ERROR e))
        | Inr (hasData, pct) \<Rightarrow>
            if \<not> hasData then (pl_fail env rid BACKTEST_INSUFFICIENT_DATA ''no price data'' s1, Some Returned)
            else if xlt pct (Fin (1/2)) then (pl_fail env rid BACKTEST_INSUFFICIENT_DATA ''coverage below minimum'' s1, Some Returned)
            else (s1, None))"

definition setup_walk_forward :: "pipeline_env \<Rightarrow> string \<Rightarrow> pipeline_config \<Rightarrow> pipeline \<Rightarrow> part" where
  "setup_walk_forward env rid cfg s =
     (if \<not> pcWalkForward cfg then (s, None)
      else if (case train_end cfg of None \<Rightarrow> False | Some t \<Rightarrow> t \<ge> pcEnd cfg) then
        (pl_fail env rid BACKTEST_INVALID_CONFIGURATION ''date range too short'' s, Some Returned)
      else pl_then (pl_initialize (bcBankrollUsd (pcSimulation cfg)) (train_id rid) s)
             (pl_initialize (bcBankrollUsd (pcSimulation cfg)) (test_id rid)))"

definition prepare_run :: "pipeline_env \<Rightarrow> string \<Rightarrow> pipeline_config \<Rightarrow> pipeline \<Rightarrow> part" where
  "prepare_run env rid cfg s =
     pl_then (pl_advance rid LOADING_DATA s) (\<lambda>s1.
       let s2 = pl_await env AtPairs rid s1 in
       case pePairs env of
         Inl e \<Rightarrow> (s2, Some (Thrown BACKTEST_STATE_ERROR e))
       | Inr pairs \<Rightarrow>
           if pcEnd cfg - pcStart cfg \<le> 0
           then (pl_fail env rid BACKTEST_INVALID_CONFIGURATION ''dateRangeEnd must be after dateRangeStart'' s2, Some Returned)
           else check_data env rid pairs s2)"

definition pipeline_body ::
  "(rat \<Rightarrow> rat) \<Rightarrow> (decimal \<Rightarrow> decimal) \<Rightarrow> pipeline_env \<Rightarrow> string \<Rightarrow> pipeline_config \<Rightarrow> (timestamp \<times> timestamp) list \<Rightarrow> pipeline \<Rightarrow> part" where
  "pipeline_body rd sq env rid cfg ranges s =
     pl_then (setup_walk_forward env rid cfg s) (\<lambda>s1.
     pl_then (pl_advance rid SIMULATING s1) (\<lambda>s2.
     pl_then (pl_initialize (bcBankrollUsd (pcSimulation cfg)) rid s2) (\<lambda>s3.
       case simulate_chunks rd sq env rid cfg (train_end cfg) ranges s3 of
         ((s4, Some e), _) \<Rightarrow> (s4, Some e)
       | ((s4, None), split) \<Rightarrow> report_results rd sq env rid split s4)))"

text \<open>\<^verbatim>\<open>catch\<close> and \<^verbatim>\<open>finally\<close>; the range loop is the one place where the pipeline may not end.\<close>

definition pl_settle :: "pipeline_env \<Rightarrow> string \<Rightarrow> part \<Rightarrow> pipeline" where
  "pl_settle env rid m =
     (case m of (s, stop) \<Rightarrow>
       let s1 = (case stop of
            Some (Thrown code message) \<Rightarrow> if isCancelled rid (plRuns s) then s else pl_fail env rid code message s
          | _ \<Rightarrow> s)
       in s1\<lparr>plRuns := cleanupRun rid (plRuns s1), plPortfolios := destroyRun rid (plPortfolios s1)\<rparr>)"

definition executePipeline ::
  "(rat \<Rightarrow> rat) \<Rightarrow> (decimal \<Rightarrow> decimal) \<Rightarrow> pipeline_env \<Rightarrow> string \<Rightarrow> pipeline_config \<Rightarrow> pipeline \<Rightarrow> pipeline option" where
  "executePipeline rd sq env rid cfg s =
     (case prepare_run env rid cfg s of
        (s1, Some e) \<Rightarrow> Some (pl_settle env rid (s1, Some e))
      | (s1, None) \<Rightarrow>
          (case generateChunkRanges (pcStart cfg) (pcEnd cfg) (pcChunkDays cfg) of
             None \<Rightarrow> None
           | Some ranges \<Rightarrow> Some (pl_settle env rid (pipeline_body rd sq env rid cfg ranges s1))))"


section \<open>Chunk ranges\<close>

text \<open>Windows of width \<open>w\<close>, the last one perhaps shorter, that cover the range without gap or overlap.\<close>

fun tiles :: "int \<Rightarrow> timestamp \<Rightarrow> timestamp \<Rightarrow> (timestamp \<times> timestamp) list \<Rightarrow> bool" where
  "tiles w s e [] \<longleftrightarrow> e \<le> s"
| "tiles w s e ((a, b) # rs) \<longleftrightarrow> a = s \<and> a < b \<and> b \<le> e \<and> b - a \<le> w \<and> (b = e \<or> b - a = w) \<and> tiles w b e rs"

lemma chunk_loop_tiles: "0 < w \<Longrightarrow> \<exists>rs. range_loop s e w = Some rs \<and> tiles w s e rs"
proof (induction "nat (e - s)" arbitrary: s rule: less_induct)
  case less
  show ?case
  proof (cases "s < e")
    case True
    let ?b = "min (s + w) e"
    have "nat (e - ?b) < nat (e - s)" using True less.prems by auto
    from less.hyps [OF this less.prems] obtain rs where "range_loop ?b e w = Some rs" "tiles w ?b e rs" by blast
    then show ?thesis using True less.prems by (intro exI [of _ "(s, ?b) # rs"]) (auto simp: range_loop.simps [of s] min_def)
  next
    case False
    then show ?thesis by (intro exI [of _ "[]"]) (simp add: range_loop.simps)
  qed
qed

text \<open>With a window of at least a day the range loop ends, and its windows tile the date range.\<close>
theorem chunks_tile_range:
  assumes "0 < days"
  shows "\<exists>rs. generateChunkRanges dateStart dateEnd days = Some rs \<and> tiles (days * ONE_DAY_MS) dateStart dateEnd rs"
  unfolding generateChunkRanges_def by (rule chunk_loop_tiles) (use assms in \<open>simp add: ONE_DAY_MS_def\<close>)

theorem chunks_tile_range_witness:
  "\<exists>rs. generateChunkRanges 0 (3 * ONE_DAY_MS + 5) 2 = Some rs \<and> tiles (2 * ONE_DAY_MS) 0 (3 * ONE_DAY_MS + 5) rs"
  by (rule chunks_tile_range) simp

section \<open>Properties along the pipeline\<close>

fun quiet_effect :: "pipeline_effect \<Rightarrow> bool" where
  "quiet_effect (RunEffect _) = False"
| "quiet_effect (RunCompleted _) = False"
| "quiet_effect _ = True"

text \<open>
  A property of the pipeline's state that cancellations, transitions, changes of the portfolios
  and the effects of chunks and writes keep.
\<close>

locale pipeline_property =
  fixes env :: pipeline_env and rid :: string and P :: "pipeline \<Rightarrow> bool"
  assumes awaited: "P s \<Longrightarrow> P (pl_await env pt rid s)"
    and advanced: "P s \<Longrightarrow> to \<noteq> IDLE \<Longrightarrow> to \<noteq> FAILED \<Longrightarrow> P (fst (pl_advance rid to s))"
    and emitted: "P s \<Longrightarrow> list_all quiet_effect effs \<Longrightarrow> P (pl_emit effs s)"
    and stored: "P s \<Longrightarrow> P (s\<lparr>plPortfolios := rs\<rparr>)"
begin

lemma continued: "P (fst m) \<Longrightarrow> (\<And>s. P s \<Longrightarrow> P (fst (f s))) \<Longrightarrow> P (fst (pl_then m f))"
  by (auto simp: pl_then_def split: prod.splits option.splits)

lemma on_portfolio: "P s \<Longrightarrow> P (fst (pl_portfolio r f s))"
  by (simp add: pl_portfolio_def stored split: sum.splits)

lemma initialized: "P s \<Longrightarrow> P (fst (pl_initialize b r s))"
  by (simp add: pl_initialize_def stored split: sum.splits)

lemma simulated: "P s \<Longrightarrow> P (fst (pl_simulate rd r cfg cache cancelled steps s))"
  by (simp add: pl_simulate_def stored split: sum.splits prod.splits)

lemma steps_awaited: "P s \<Longrightarrow> P (await_steps env i rid steps s)"
  unfolding await_steps_def by (induction steps arbitrary: s) (simp_all add: awaited)

lemma routed_train: "P s \<Longrightarrow> P (fst (snd (route_train rd rid cfg cache steps d s)))"
  using simulated [of s rd "train_id rid" cfg cache "\<lambda>_. False" steps]
  by (auto simp: route_train_def split: prod.splits option.splits)

lemma routed_test: "P s \<Longrightarrow> P (fst (snd (route_test rd rid cfg cache steps d s)))"
  using simulated [of s rd "test_id rid" cfg cache "\<lambda>_. False" steps]
  by (auto simp: route_test_def split: prod.splits option.splits)

lemma routed: "P s \<Longrightarrow> P (fst (snd (route_chunk rd rid cfg cache trainEnd w steps d s)))"
proof -
  assume p: "P s"
  let ?tr = "filter (\<lambda>x. before_date (tsTime x) trainEnd) steps"
  obtain d1 s1 e where r: "(if ?tr = [] then (d, (s, None)) else route_train rd rid cfg cache ?tr d s) = (d1, (s1, e))" by (metis prod.exhaust)
  then have "P s1" using p routed_train [OF p, of rd cfg cache ?tr d] by (auto split: if_splits)
  then show ?thesis unfolding route_chunk_def Let_def r
    using p by (cases e) (auto simp: routed_train routed_test)
qed

lemma flushed: "P s \<Longrightarrow> P (fst (flush_positions env i rid s))"
  by (simp add: flush_positions_def Let_def awaited emitted on_portfolio)

lemma chunk_run: "P (snd ds) \<Longrightarrow> P (snd (run_chunk rd env rid cfg trainEnd n i w ds))"
proof -
  assume p: "P (snd ds)"
  obtain d s where ds: "ds = (d, s)" by force
  let ?s1 = "pl_await env (AtPrices i) rid s" and ?s2 = "pl_await env (AtDepths i) rid (pl_await env (AtPrices i) rid s)"
  have p1: "P ?s1" and p2: "P ?s2" using p ds by (simp_all add: awaited)
  show ?thesis
  proof (cases "pePrices env i")
    case (Inr steps)
    note pr = this
    show ?thesis
    proof (cases "peDepths env i")
      case (Inr cache)
      show ?thesis
      proof (cases "steps = []")
        case False
        obtain s3 e3 where sim: "pl_simulate rd rid (pcSimulation cfg) cache (main_cancelled env i rid steps ?s2) steps ?s2 = (s3, e3)" by force
        then have "P s3" using simulated [OF p2] by (metis fst_conv)
        then have p4: "P (await_steps env i rid steps s3)" by (rule steps_awaited)
        let ?d1 = "d\<lparr>cdLast := steps\<rparr>" and ?s4 = "await_steps env i rid steps s3"
        obtain d2 s5 e5 where r: "(if pcWalkForward cfg then route_chunk rd rid (pcSimulation cfg) cache trainEnd w steps ?d1 ?s4
            else (?d1, (?s4, None))) = (d2, (s5, e5))" by (metis prod.exhaust)
        then have p5: "P s5" using p4 routed [OF p4, of rd "pcSimulation cfg" cache trainEnd w steps ?d1] by (auto split: if_splits)
        show ?thesis
          using p1 p2 p4 p5 False
          by (cases e3; cases e5) (simp_all add: run_chunk_def ds pr Inr sim r Let_def flushed emitted)
      qed (use p2 in \<open>simp add: run_chunk_def ds pr Inr Let_def emitted\<close>)
    qed (use p2 in \<open>simp add: run_chunk_def ds pr Let_def\<close>)
  qed (use p1 in \<open>simp add: run_chunk_def ds Let_def\<close>)
qed

lemma chunks_run: "P (snd ds) \<Longrightarrow> P (snd (fst (run_data_chunks rd env rid cfg trainEnd n i rs ds)))"
  by (induction rs arbitrary: i ds) (simp_all add: chunk_run)

lemma headless_destroyed: "P s \<Longrightarrow> P (destroy_headless rid cfg s)"
  by (simp add: destroy_headless_def stored)

lemma finished: "P s \<Longrightarrow> P (fst (finish_portfolio rd now steps r s))"
  unfolding finish_portfolio_def by (rule on_portfolio)

lemma simulated_chunks: "P s \<Longrightarrow> P (fst (fst (simulate_chunks rd sq env rid cfg trainEnd rs s)))"
proof -
  assume p: "P s"
  obtain d s1 b where c: "run_data_chunks rd env rid cfg trainEnd (length rs) 0 rs (\<lparr>cdLast = [], cdLastTrain = [], cdLastTest = []\<rparr>, s) = ((d, s1), b)"
    by (metis prod.exhaust)
  then have p1: "P s1"
    using chunks_run [of "(\<lparr>cdLast = [], cdLastTrain = [], cdLastTest = []\<rparr>, s)" rd cfg trainEnd "length rs" 0 rs] p by simp
  obtain s2 e2 where f: "finish_portfolio rd (peNow env) (cdLast d) rid s1 = (s2, e2)" by force
  then have p2: "P s2" using finished [OF p1] by (metis fst_conv)
  obtain s3 e3 where g: "pl_then (finish_portfolio rd (peNow env) (cdLastTrain d) (train_id rid) s2)
      (finish_portfolio rd (peNow env) (cdLastTest d) (test_id rid)) = (s3, e3)" by force
  then have p3: "P s3" using continued [of "finish_portfolio rd (peNow env) (cdLastTrain d) (train_id rid) s2"] finished p2 by (metis fst_conv)
  show ?thesis unfolding simulate_chunks_def c prod.case f g
    using p1 p2 p3 by (cases e2; cases e3) (simp_all add: headless_destroyed)
qed

lemma written: "P s \<Longrightarrow> list_all quiet_effect effs \<Longrightarrow> P (fst (pl_write env pt rid effs s))"
  by (simp add: pl_write_def Let_def awaited emitted)

lemma persisted: "P s \<Longrightarrow> P (fst (persistResults rd sq env rid s))"
  by (auto simp: persistResults_def Let_def written intro!: continued split: option.splits)

lemma checked: "P s \<Longrightarrow> snd (check_data env rid n s) \<noteq> Some Returned \<Longrightarrow> P (fst (check_data env rid n s))"
  by (auto simp: check_data_def Let_def awaited split: sum.splits prod.splits if_splits)

lemma prepared: "P s \<Longrightarrow> snd (prepare_run env rid cfg s) \<noteq> Some Returned \<Longrightarrow> P (fst (prepare_run env rid cfg s))"
  using advanced [of s LOADING_DATA]
  by (auto simp: prepare_run_def pl_then_def Let_def awaited checked split: sum.splits prod.splits option.splits if_splits)

lemma walk_forward_set_up:
  "P s \<Longrightarrow> snd (setup_walk_forward env rid cfg s) \<noteq> Some Returned \<Longrightarrow> P (fst (setup_walk_forward env rid cfg s))"
  by (auto simp: setup_walk_forward_def initialized intro!: continued)

end

text \<open>
  Nothing is reported yet, a reported cancellation is in the set of cancelled runs and a run in
  that set is in the state \<open>CANCELLED\<close>, from which the pipeline has no transition.
\<close>

definition unreported :: "pipeline \<Rightarrow> bool" where
  "unreported s \<longleftrightarrow> (\<forall>m. RunCompleted m \<notin> set (plEffects s))"

definition undecided :: "string \<Rightarrow> pipeline \<Rightarrow> bool" where
  "undecided rid s \<longleftrightarrow> unreported s \<and> (\<forall>c msg. RunEffect (RunFailed rid c msg) \<notin> set (plEffects s))
     \<and> (RunEffect (RunCancelled rid) \<in> set (plEffects s) \<longrightarrow> isCancelled rid (plRuns s))
     \<and> (isCancelled rid (plRuns s) \<longrightarrow> current_state rid (plRuns s) = CANCELLED)"

definition cancel_reported :: "string \<Rightarrow> pipeline \<Rightarrow> bool" where
  "cancel_reported rid s \<longleftrightarrow> (isCancelled rid (plRuns s) \<longrightarrow> RunEffect (RunCancelled rid) \<in> set (plEffects s))"

lemmas pl_defs = pl_await_def pl_advance_def pl_emit_def cancelRun_def transitionRun_def validateTransition_def Let_def

lemma quiet_unreported: "list_all quiet_effect effs \<Longrightarrow> RunCompleted m \<notin> set effs"
  "list_all quiet_effect effs \<Longrightarrow> RunEffect e \<notin> set effs"
  by (auto simp: list_all_iff)

interpretation unrep: pipeline_property env rid unreported
  by unfold_locales (auto simp: unreported_def pl_defs quiet_unreported split: option.splits sum.splits if_splits)

lemma advance_from_cancelled:
  "current_state rid (plRuns s) = CANCELLED \<Longrightarrow> to \<noteq> IDLE \<Longrightarrow> to \<noteq> CANCELLED \<Longrightarrow>
     \<exists>code msg. pl_advance rid to s = (s, Some (Thrown code msg))"
  by (cases s) (auto simp: pl_defs)

interpretation final: pipeline_property env rid "undecided rid"
proof
  fix s pt show "undecided rid s \<Longrightarrow> undecided rid (pl_await env pt rid s)"
    by (auto simp: undecided_def unreported_def pl_defs isCancelled_def current_state_def update_conv' split: option.splits if_splits)
next
  fix s to assume u: "undecided rid s" "to \<noteq> IDLE" "to \<noteq> FAILED"
  show "undecided rid (fst (pl_advance rid to s))"
  proof (cases "isCancelled rid (plRuns s) \<and> to \<noteq> CANCELLED")
    case True
    then show ?thesis using advance_from_cancelled [of rid s to] u by (auto simp: undecided_def)
  next
    case False
    then show ?thesis using u
      by (auto simp: undecided_def unreported_def pl_defs isCancelled_def current_state_def update_conv' split: option.splits if_splits)
  qed
next
  fix s effs show "undecided rid s \<Longrightarrow> list_all quiet_effect effs \<Longrightarrow> undecided rid (pl_emit effs s)"
    by (auto simp: undecided_def unreported_def pl_emit_def quiet_unreported)
qed (simp add: undecided_def unreported_def)

lemma settle_reported:
  assumes "snd m \<noteq> None" "unreported (fst m)"
  shows "unreported (pl_settle env rid m)"
  using assms by (auto simp: pl_settle_def pl_fail_def failRun_def pl_emit_def unreported_def Let_def
      split: prod.splits option.splits pipeline_stop.splits)

lemma settle_uncompleted: "snd m \<noteq> Some Returned \<Longrightarrow> unreported (fst m) \<Longrightarrow> RunCompleted x \<notin> set (plEffects (pl_settle env rid m))"
  by (auto simp: pl_settle_def pl_fail_def failRun_def pl_emit_def unreported_def Let_def
      split: prod.splits option.splits pipeline_stop.splits)

text \<open>The report: the completion is its last effect, and the transition before it excludes a cancellation.\<close>

definition uncancelled_completion :: "string \<Rightarrow> part \<Rightarrow> bool" where
  "uncancelled_completion rid m \<longleftrightarrow> unreported (fst m) \<or>
     (snd m = None \<and> RunEffect (RunCancelled rid) \<notin> set (plEffects (fst m))
        \<and> (\<forall>c msg. RunEffect (RunFailed rid c msg) \<notin> set (plEffects (fst m))))"

lemma undecided_completion: "undecided rid (fst m) \<Longrightarrow> uncancelled_completion rid m"
  by (simp add: uncancelled_completion_def undecided_def)

lemma then_completion:
  assumes "undecided rid (fst m)" "\<And>s. undecided rid s \<Longrightarrow> uncancelled_completion rid (f s)"
  shows "uncancelled_completion rid (pl_then m f)"
  using assms by (cases m; cases "snd m") (auto simp: pl_then_def undecided_completion)

lemma advance_uncancelled:
  assumes "undecided rid s" "pl_advance rid COMPLETE s = (s', None)"
  shows "undecided rid s'" "\<not> isCancelled rid (plRuns s')"
proof -
  show "undecided rid s'" using final.advanced [OF assms(1), of COMPLETE] assms(2) by simp
  have "\<not> isCancelled rid (plRuns s)" using advance_from_cancelled [of rid s COMPLETE] assms by (auto simp: undecided_def)
  then show "\<not> isCancelled rid (plRuns s')" using assms(2)
    by (auto simp: pl_defs isCancelled_def split: if_splits)
qed

lemma report_completion:
  assumes "undecided rid s"
  shows "uncancelled_completion rid (report_results rd sq env rid split s)"
proof (cases "isCancelled rid (plRuns s)")
  case True
  then show ?thesis using assms by (simp add: report_results_def undecided_completion)
next
  case False
  have completes: "uncancelled_completion rid (pl_then (pl_advance rid COMPLETE s4) (\<lambda>s5.
          case metrics_of rd sq rid s5 of
            None \<Rightarrow> (s5, Some (Thrown BACKTEST_STATE_ERROR ''run not initialized''))
          | Some m \<Rightarrow> (pl_emit [RunCompleted m] s5, None)))" if u: "undecided rid s4" for s4
  proof (cases "snd (pl_advance rid COMPLETE s4)")
    case None
    then obtain s5 where s5: "pl_advance rid COMPLETE s4 = (s5, None)" by (metis prod.collapse)
    note a = advance_uncancelled [OF u s5]
    show ?thesis using a
      by (auto simp: pl_then_def s5 uncancelled_completion_def undecided_def pl_emit_def split: option.splits)
  next
    case (Some stop)
    then show ?thesis using final.advanced [OF u, of COMPLETE]
      by (auto simp: pl_then_def case_prod_unfold undecided_completion split: option.splits)
  qed
  show ?thesis
    using assms
    by (auto simp: report_results_def False Let_def case_prod_unfold
        intro!: then_completion final.advanced final.persisted final.written completes final.awaited split: option.splits)
qed

lemma body_completion:
  assumes "undecided rid s"
  shows "uncancelled_completion rid (pipeline_body rd sq env rid cfg ranges s)"
proof -
  have sim: "uncancelled_completion rid (case simulate_chunks rd sq env rid cfg (train_end cfg) ranges s3 of
         ((s4, Some e), _) \<Rightarrow> (s4, Some e)
       | ((s4, None), split) \<Rightarrow> report_results rd sq env rid split s4)" if "undecided rid s3" for s3
  proof -
    obtain s4 e sp where r: "simulate_chunks rd sq env rid cfg (train_end cfg) ranges s3 = ((s4, e), sp)" by (metis prod.exhaust)
    then have "undecided rid s4" using final.simulated_chunks [OF that] by (metis fst_conv)
    then show ?thesis unfolding r by (cases e) (auto simp: undecided_completion report_completion)
  qed
  show ?thesis
  proof (cases "snd (setup_walk_forward env rid cfg s) = Some Returned")
    case True
    have "unreported (fst (setup_walk_forward env rid cfg s))"
      using True assms by (auto simp: setup_walk_forward_def undecided_def pl_fail_def failRun_def pl_emit_def unreported_def
          pl_then_def pl_initialize_def split: if_splits sum.splits prod.splits option.splits)
    then show ?thesis using True
      by (auto simp: pipeline_body_def pl_then_def uncancelled_completion_def case_prod_unfold)
  next
    case False
    then show ?thesis unfolding pipeline_body_def
      by (auto intro!: then_completion final.walk_forward_set_up final.advanced final.initialized assms sim)
  qed
qed

lemma fail_unreported: "unreported s \<Longrightarrow> unreported (pl_fail env rid c msg s)"
  by (auto simp: pl_fail_def failRun_def pl_emit_def unreported_def)

lemma prepare_unreported: "unreported s \<Longrightarrow> unreported (fst (prepare_run env rid cfg s))"
proof -
  assume u: "unreported s"
  have c: "unreported (fst (check_data env rid n s'))" if "unreported s'" for s' n
    using that by (simp add: check_data_def Let_def unrep.awaited fail_unreported split: sum.splits prod.splits)
  show ?thesis unfolding prepare_run_def
    by (rule unrep.continued) (use u in \<open>simp_all add: unrep.advanced Let_def unrep.awaited c fail_unreported split: sum.splits\<close>)
qed

text \<open>
  a run that is reported complete is reported neither cancelled nor failed, whenever a
  cancellation arrives.
\<close>
theorem completed_run_not_cancelled:
  assumes "plEffects s = []" "\<not> isCancelled rid (plRuns s)" "executePipeline rd sq env rid cfg s = Some s'"
    and "RunCompleted m \<in> set (plEffects s')"
  shows "RunEffect (RunCancelled rid) \<notin> set (plEffects s') \<and> (\<forall>c msg. RunEffect (RunFailed rid c msg) \<notin> set (plEffects s'))"
proof -
  have u: "undecided rid s" using assms(1,2) by (simp add: undecided_def unreported_def)
  obtain s1 e where p: "prepare_run env rid cfg s = (s1, e)" by force
  have "unreported s1" using prepare_unreported [of s env rid cfg] u by (simp add: p undecided_def)
  have "e = None" using settle_reported [of "(s1, e)" env rid] \<open>unreported s1\<close> assms(3,4)
    by (cases e) (auto simp: executePipeline_def p unreported_def)
  then have "undecided rid s1" using final.prepared [OF u, of env cfg] by (simp add: p)
  with assms(3) p \<open>e = None\<close> obtain ranges where r: "s' = pl_settle env rid (pipeline_body rd sq env rid cfg ranges s1)"
    and b: "uncancelled_completion rid (pipeline_body rd sq env rid cfg ranges s1)"
    by (auto simp: executePipeline_def body_completion split: option.splits)
  obtain s2 e2 where m: "pipeline_body rd sq env rid cfg ranges s1 = (s2, e2)" by force
  have "\<not> unreported s2 \<and> e2 = None"
    using settle_reported [of "(s2, e2)" env rid] assms(4) b r
    by (cases e2) (auto simp: m uncancelled_completion_def unreported_def pl_settle_def)
  then show ?thesis using b r by (auto simp: m uncancelled_completion_def pl_settle_def)
qed

section \<open>Every run settles\<close>

definition settles :: "string \<Rightarrow> part \<Rightarrow> bool" where
  "settles rid m \<longleftrightarrow> cancel_reported rid (fst m) \<and>
     (snd m = Some Returned \<longrightarrow> isCancelled rid (plRuns (fst m)) \<or> (\<exists>c msg. RunEffect (RunFailed rid c msg) \<in> set (plEffects (fst m))))"

interpretation rep: pipeline_property "env\<lparr>peStored := True\<rparr>" rid "cancel_reported rid"
  by unfold_locales (auto simp: cancel_reported_def pl_defs isCancelled_def split: option.splits if_splits)

lemma settles_unless_returned: "cancel_reported rid (fst m) \<Longrightarrow> snd m \<noteq> Some Returned \<Longrightarrow> settles rid m"
  by (simp add: settles_def)

lemma settles_value: "cancel_reported rid s \<Longrightarrow> stop \<noteq> Some Returned \<Longrightarrow> settles rid (s, stop)"
  by (simp add: settles_def)

lemma failed_settles: "cancel_reported rid s \<Longrightarrow> settles rid (pl_fail env rid c msg s, stop)"
  by (auto simp: settles_def pl_fail_def failRun_def pl_emit_def cancel_reported_def isCancelled_def)

lemma then_settles:
  assumes "settles rid m" "\<And>s. cancel_reported rid s \<Longrightarrow> settles rid (f s)"
  shows "settles rid (pl_then m f)"
  using assms by (cases m; cases "snd m") (auto simp: pl_then_def settles_def)

lemma not_returned:
  "snd (pl_advance rid to s) \<noteq> Some Returned" "snd (pl_initialize b r s) \<noteq> Some Returned"
  "snd (pl_portfolio r f s) \<noteq> Some Returned" "snd (pl_write env pt rid effs s) \<noteq> Some Returned"
  by (auto simp: pl_advance_def pl_initialize_def pl_portfolio_def pl_write_def Let_def split: sum.splits prod.splits)

lemma advance_settles: "cancel_reported rid s \<Longrightarrow> to \<noteq> IDLE \<Longrightarrow> to \<noteq> FAILED \<Longrightarrow> settles rid (pl_advance rid to s)"
  using not_returned(1) rep.advanced by (intro settles_unless_returned) auto

lemma prepare_settles: "cancel_reported rid s \<Longrightarrow> settles rid (prepare_run (env\<lparr>peStored := True\<rparr>) rid cfg s)"
proof -
  assume r: "cancel_reported rid s"
  have c: "settles rid (check_data (env\<lparr>peStored := True\<rparr>) rid n s')" if "cancel_reported rid s'" for s' n
    using that rep.awaited [OF that, of env]
    by (auto simp: check_data_def Let_def failed_settles intro!: settles_value split: sum.splits prod.splits)
  show ?thesis unfolding prepare_run_def
    by (rule then_settles) (use r rep.awaited [of rid _ env] in
      \<open>auto simp: advance_settles Let_def c failed_settles intro!: settles_value split: sum.splits\<close>)
qed

lemma run_chunks_stopped: "run_data_chunks rd env rid cfg te n i rs ds = (ds', True) \<Longrightarrow> isCancelled rid (plRuns (snd ds'))"
  by (induction rs arbitrary: i ds) (auto split: if_splits)

lemma destroy_headless_runs [simp]: "plRuns (destroy_headless rid cfg s) = plRuns s"
  by (simp add: destroy_headless_def)

lemma finish_not_returned: "finish_portfolio rd now steps r s \<noteq> (s', Some Returned)"
  using not_returned(3) by (metis finish_portfolio_def snd_conv)

lemma simulate_returned:
  assumes "snd (fst (simulate_chunks rd sq env rid cfg te ranges s)) = Some Returned"
  shows "isCancelled rid (plRuns (fst (fst (simulate_chunks rd sq env rid cfg te ranges s))))"
proof -
  obtain d s1 b where c: "run_data_chunks rd env rid cfg te (length ranges) 0 ranges (\<lparr>cdLast = [], cdLastTrain = [], cdLastTest = []\<rparr>, s) = ((d, s1), b)"
    by (metis prod.exhaust)
  show ?thesis
  proof (cases "b \<or> isCancelled rid (plRuns s1)")
    case True
    then have "isCancelled rid (plRuns s1)" using run_chunks_stopped c by fastforce
    then show ?thesis by (simp add: simulate_chunks_def c)
  next
    case False
    obtain s2 e2 where f: "finish_portfolio rd (peNow env) (cdLast d) rid s1 = (s2, e2)" by force
    obtain s3 e3 where g: "pl_then (finish_portfolio rd (peNow env) (cdLastTrain d) (train_id rid) s2)
      (finish_portfolio rd (peNow env) (cdLastTest d) (test_id rid)) = (s3, e3)" by force
    have "e2 \<noteq> Some Returned" using f finish_not_returned by blast
    moreover have "e3 \<noteq> Some Returned" using g finish_not_returned
      by (auto simp: pl_then_def split: prod.splits option.splits)
    ultimately show ?thesis using assms unfolding simulate_chunks_def c prod.case f g if_not_P [OF False]
      by (cases e2; cases e3) (auto split: if_splits)
  qed
qed

lemma simulate_settles:
  "cancel_reported rid s \<Longrightarrow> settles rid (fst (simulate_chunks rd sq (env\<lparr>peStored := True\<rparr>) rid cfg te ranges s))"
  by (simp add: settles_def rep.simulated_chunks simulate_returned)

lemma report_settles:
  assumes "cancel_reported rid s"
  shows "settles rid (report_results rd sq (env\<lparr>peStored := True\<rparr>) rid split s)"
proof (cases "isCancelled rid (plRuns s)")
  case True
  then show ?thesis using assms by (simp add: report_results_def settles_def)
next
  case False
  have w: "settles rid (pl_write (env\<lparr>peStored := True\<rparr>) pt rid effs s')"
    if "cancel_reported rid s'" "list_all quiet_effect effs" for pt effs s'
    using that by (intro settles_unless_returned rep.written not_returned)
  have p: "settles rid (persistResults rd sq (env\<lparr>peStored := True\<rparr>) rid s')" if "cancel_reported rid s'" for s'
    using that by (auto simp: persistResults_def Let_def w intro!: then_settles settles_value split: option.splits)
  have e: "cancel_reported rid (pl_emit [RunCompleted m] s')" if "cancel_reported rid s'" for m s'
    using that by (auto simp: cancel_reported_def pl_emit_def)
  show ?thesis using assms
    by (auto simp: report_results_def False Let_def case_prod_unfold
        intro!: then_settles advance_settles p w e rep.awaited settles_value split: option.splits)
qed

lemma body_settles:
  assumes "cancel_reported rid s"
  shows "settles rid (pipeline_body rd sq (env\<lparr>peStored := True\<rparr>) rid cfg ranges s)"
proof -
  have i: "settles rid (pl_initialize b r s')" if "cancel_reported rid s'" for b r s'
    using that by (intro settles_unless_returned rep.initialized not_returned)
  have w: "settles rid (setup_walk_forward (env\<lparr>peStored := True\<rparr>) rid cfg s)"
    using assms by (auto simp: setup_walk_forward_def failed_settles i intro!: then_settles settles_value)
  have sim: "settles rid (case simulate_chunks rd sq (env\<lparr>peStored := True\<rparr>) rid cfg (train_end cfg) ranges s3 of
         ((s4, Some e), _) \<Rightarrow> (s4, Some e)
       | ((s4, None), split) \<Rightarrow> report_results rd sq (env\<lparr>peStored := True\<rparr>) rid split s4)" if "cancel_reported rid s3" for s3
    using simulate_settles [OF that, of rd sq env cfg "train_end cfg" ranges]
    by (auto simp: settles_def [of rid "(_, None)"] report_settles split: prod.splits option.splits)
  show ?thesis unfolding pipeline_body_def by (auto intro!: then_settles w advance_settles i sim)
qed

lemma then_done:
  "(\<And>s. snd (f s) = None \<Longrightarrow> Q (fst (f s))) \<Longrightarrow> snd (pl_then m f) = None \<Longrightarrow> Q (fst (pl_then m f))"
  by (auto simp: pl_then_def split: prod.splits option.splits)

definition completed :: "pipeline \<Rightarrow> bool" where
  "completed s \<longleftrightarrow> list_ex (\<lambda>e. case e of RunCompleted _ \<Rightarrow> True | _ \<Rightarrow> False) (plEffects s)"

lemma report_done: "snd (report_results rd sq env rid split s) = None \<Longrightarrow> completed (fst (report_results rd sq env rid split s))"
proof (cases "isCancelled rid (plRuns s)")
  case False
  show "snd (report_results rd sq env rid split s) = None \<Longrightarrow> completed (fst (report_results rd sq env rid split s))"
    unfolding report_results_def Let_def if_not_P [OF False]
    by ((rule then_done [where Q = completed, rotated], assumption)+, auto simp: pl_emit_def completed_def split: option.splits)
qed (simp add: report_results_def)

lemma body_done: "snd (pipeline_body rd sq env rid cfg ranges s) = None \<Longrightarrow> completed (fst (pipeline_body rd sq env rid cfg ranges s))"
  unfolding pipeline_body_def
  by ((rule then_done [where Q = completed, rotated], assumption)+, auto simp: report_done split: prod.splits option.splits)

lemma settle_removed:
  "map_of (runStatuses (plRuns (pl_settle env rid m))) rid = None"
  "\<not> isCancelled rid (plRuns (pl_settle env rid m))"
  "map_of (plPortfolios (pl_settle env rid m)) rid = None"
  by (simp_all add: pl_settle_def Let_def case_prod_unfold cleanupRun_def destroyRun_def isCancelled_def delete_conv')

text \<open>
  C28: with chunks of at least a day and a database that stores cancellations, the pipeline of a run
  always ends with one report of it at least (completed, failed or cancelled), and neither the
  run nor its portfolio is left in memory.
\<close>
theorem every_run_settles:
  assumes "0 < pcChunkDays cfg" "\<not> isCancelled rid (plRuns s)" "peStored env"
  shows "\<exists>s'. executePipeline rd sq env rid cfg s = Some s'
    \<and> (completed s' \<or> RunEffect (RunCancelled rid) \<in> set (plEffects s')
         \<or> (\<exists>c msg. RunEffect (RunFailed rid c msg) \<in> set (plEffects s')))
    \<and> map_of (runStatuses (plRuns s')) rid = None \<and> \<not> isCancelled rid (plRuns s') \<and> map_of (plPortfolios s') rid = None"
proof -
  have env: "env\<lparr>peStored := True\<rparr> = env" using assms(3) by (cases env) simp
  have r: "cancel_reported rid s" using assms(2) by (simp add: cancel_reported_def)
  obtain ranges where ranges: "generateChunkRanges (pcStart cfg) (pcEnd cfg) (pcChunkDays cfg) = Some ranges"
    using chunk_loop_tiles [of "pcChunkDays cfg * ONE_DAY_MS"] assms(1) by (force simp: generateChunkRanges_def ONE_DAY_MS_def)
  obtain s1 e where p: "prepare_run env rid cfg s = (s1, e)" by force
  have "settles rid (s1, e)" using prepare_settles [OF r, of env cfg] by (simp add: env p)
  then obtain m where m: "executePipeline rd sq env rid cfg s = Some (pl_settle env rid m)" "settles rid m"
    and d: "snd m = None \<Longrightarrow> completed (fst m)"
  proof (cases e)
    case None
    show thesis
    proof (rule that)
      show "executePipeline rd sq env rid cfg s = Some (pl_settle env rid (pipeline_body rd sq env rid cfg ranges s1))"
        by (simp add: executePipeline_def p None ranges)
      show "settles rid (pipeline_body rd sq env rid cfg ranges s1)"
        using body_settles [of rid s1 rd sq env cfg ranges] \<open>settles rid (s1, e)\<close> by (simp add: env settles_def)
    qed (rule body_done)
  next
    case (Some stop)
    show thesis by (rule that [of "(s1, e)"]) (use \<open>settles rid (s1, e)\<close> in \<open>simp_all add: executePipeline_def p Some\<close>)
  qed
  have "completed (pl_settle env rid m) \<or> RunEffect (RunCancelled rid) \<in> set (plEffects (pl_settle env rid m))
         \<or> (\<exists>c msg. RunEffect (RunFailed rid c msg) \<in> set (plEffects (pl_settle env rid m)))"
    using m(2) d by (cases m) (auto simp: pl_settle_def settles_def cancel_reported_def completed_def pl_fail_def failRun_def
        pl_emit_def Let_def split: option.splits pipeline_stop.splits)
  then show ?thesis using m(1) settle_removed by blast
qed

definition sample_pipeline_config :: pipeline_config where
  "sample_pipeline_config = \<lparr>pcSimulation = sample_bt_config, pcStart = 0, pcEnd = 3 * ONE_DAY_MS, pcChunkDays = 1,
     pcWalkForward = False, pcTrainPct = Fin (b64 (7/10))\<rparr>"

text \<open>A database that has data but loses the connection before the chunks are loaded.\<close>

definition lost_connection :: pipeline_env where
  "lost_connection = \<lparr>peCancel = (\<lambda>_. False), pePairs = Inr 1, peCoverage = Inr (True, Fin 1), pePrices = (\<lambda>_. Inl ''connection lost''),
     peDepths = (\<lambda>_. Inl ''connection lost''), peWrites = (\<lambda>_. True), peStored = True, peNow = 3 * ONE_DAY_MS\<rparr>"

definition created_run :: "string \<Rightarrow> pipeline" where
  "created_run rid = \<lparr>plRuns = fst (createRun (Some rid) (runs_init None)), plPortfolios = [], plEffects = []\<rparr>"

theorem every_run_settles_witness:
  "\<exists>s'. executePipeline dec20 (\<lambda>x. x) lost_connection ''r'' sample_pipeline_config (created_run ''r'') = Some s'
     \<and> map_of (plPortfolios s') ''r'' = None"
  using every_run_settles [of sample_pipeline_config "''r''" "created_run ''r''" lost_connection dec20 "\<lambda>x. x"]
  by (auto simp: sample_pipeline_config_def created_run_def lost_connection_def isCancelled_def createRun_def
      createRun_record_def createRun_admits_def runs_init_def)

lemma await_uncancelled [simp]: "\<not> peCancel env pt \<Longrightarrow> pl_await env pt rid s = s"
  by (simp add: pl_await_def)

lemma run_chunks_failed:
  assumes "peCancel env = (\<lambda>_. False)" "pePrices env = (\<lambda>_. Inl e)" "\<not> isCancelled rid (plRuns (snd ds))"
  shows "run_data_chunks rd env rid cfg te n i rs ds = (ds, False)"
  using assms by (induction rs arbitrary: i) (auto simp: run_chunk_def case_prod_unfold)

text \<open>A pipeline that tracks one run only.\<close>

definition tracked :: "string \<Rightarrow> run_state \<Rightarrow> portfolios \<Rightarrow> pipeline_effect list \<Rightarrow> pipeline" where
  "tracked rid st pf effs = \<lparr>plRuns = \<lparr>runStatuses = [(rid, \<lparr>runState = st, runError = None\<rparr>)], cancelledRuns = [], maxConcurrentRuns = Fin 2\<rparr>,
     plPortfolios = pf, plEffects = effs\<rparr>"

lemma tracked_simps [simp]:
  "\<not> isCancelled rid (plRuns (tracked rid st pf effs))" "plPortfolios (tracked rid st pf effs) = pf" "plEffects (tracked rid st pf effs) = effs"
  "(tracked rid st pf effs)\<lparr>plPortfolios := pf'\<rparr> = tracked rid st pf' effs"
  "pl_emit es (tracked rid st pf effs) = tracked rid st pf (effs @ es)"
  by (simp_all add: tracked_def isCancelled_def pl_emit_def)

lemma tracked_advance [simp]:
  "to \<in> set (VALID_TRANSITIONS st) \<Longrightarrow>
     pl_advance rid to (tracked rid st pf effs) = (tracked rid to pf (effs @ [RunEffect (StateChanged rid st to)]), None)"
  by (auto simp: tracked_def pl_defs current_state_def)

lemma tracked_settle [simp]: "plEffects (pl_settle env rid (tracked rid st pf effs, None)) = effs"
  by (simp add: pl_settle_def Let_def)

lemma tracked_created: "created_run rid = tracked rid CONFIGURING [] []"
  by (simp add: created_run_def tracked_def createRun_def createRun_record_def createRun_admits_def runs_init_def getActiveRunCount_def)

lemma ranges_exist: "0 < pcChunkDays cfg \<Longrightarrow> \<exists>rs. generateChunkRanges (pcStart cfg) (pcEnd cfg) (pcChunkDays cfg) = Some rs"
  using chunk_loop_tiles [of "pcChunkDays cfg * ONE_DAY_MS"] by (force simp: generateChunkRanges_def ONE_DAY_MS_def)

text \<open>A run of which no chunk can be loaded.\<close>

definition unloadable :: "pipeline_env \<Rightarrow> bool" where
  "unloadable env \<longleftrightarrow> peCancel env = (\<lambda>_. False) \<and> pePairs env = Inr 1 \<and> peCoverage env = Inr (True, Fin 1)
     \<and> pePrices env = (\<lambda>_. Inl ''connection lost'') \<and> peWrites env = (\<lambda>_. True)"

lemma failed_chunks_run:
  assumes env: "unloadable env"
    and cfg: "pcStart cfg < pcEnd cfg" "0 < pcChunkDays cfg" "\<not> pcWalkForward cfg" "bcBankrollUsd (pcSimulation cfg) = Fin b" "0 < b"
  shows "\<exists>s' m. executePipeline rd sq env rid cfg (created_run rid) = Some s' \<and> RunCompleted m \<in> set (plEffects s') \<and> amTotalPositions m = 0
    \<and> list_all (\<lambda>e. case e of RunEffect (RunFailed _ _ _) \<Rightarrow> False | _ \<Rightarrow> True) (plEffects s')"
proof -
  have prep: "prepare_run env rid cfg (created_run rid) = (tracked rid LOADING_DATA [] [RunEffect (StateChanged rid CONFIGURING LOADING_DATA)], None)"
    using env cfg by (simp add: prepare_run_def tracked_created pl_then_def unloadable_def check_data_def)
  obtain ranges where rs: "generateChunkRanges (pcStart cfg) (pcEnd cfg) (pcChunkDays cfg) = Some ranges" using ranges_exist [OF cfg(2)] by blast
  let ?c = "addFinalSnapshot (peNow env) (fresh_run (Fin b))"
  have init: "pl_initialize (Fin b) rid (tracked rid st [] effs) = (tracked rid st [(rid, fresh_run (Fin b))] effs, None)" for st effs
    using cfg by (simp add: pl_initialize_def initialize_def initialize_run_def)
  have chunks: "run_data_chunks rd env rid cfg te n 0 ranges (d, tracked rid st pf effs) = ((d, tracked rid st pf effs), False)" for te n d st pf effs
    using env by (intro run_chunks_failed) (auto simp: unloadable_def)
  have fin: "finish_portfolio rd (peNow env) [] rid (tracked rid st [(rid, fresh_run (Fin b))] effs) = (tracked rid st [(rid, ?c)] effs, None)" for st effs
    by (simp add: finish_portfolio_def pl_portfolio_def on_run_def getRunContext_def closeRemainingPositions_def
        last_time_def fresh_run_def fresh_portfolio_def)
  let ?m = "getAggregateMetrics rd sq ?c"
  have rep: "report_results rd sq env rid None (tracked rid SIMULATING [(rid, ?c)] effs) = (tracked rid COMPLETE [(rid, ?c)]
      (effs @ [RunEffect (StateChanged rid SIMULATING GENERATING_REPORT), ResultsPersisted ?m, RunEffect (StateChanged rid GENERATING_REPORT COMPLETE),
       RunCompleted ?m]), None)" for effs
    using env by (simp add: report_results_def pl_then_def persistResults_def metrics_of_def getRunContext_def pl_write_def Let_def
        unloadable_def position_counts_def addFinalSnapshot_def fresh_run_def fresh_portfolio_def)
  show ?thesis
    using cfg by (simp add: executePipeline_def prep rs pipeline_body_def pl_then_def setup_walk_forward_def init simulate_chunks_def chunks fin rep)
      (simp add: getAggregateMetrics_def Let_def addFinalSnapshot_def fresh_run_def fresh_accumulators_def)
qed

text \<open>
  a run of which no chunk can be loaded still completes: the errors of the chunks are only
  logged, so the run is reported complete with no positions and never failed.
\<close>
theorem failed_chunks_complete_run:
  assumes "unloadable env" "pcStart cfg < pcEnd cfg" "0 < pcChunkDays cfg" "\<not> pcWalkForward cfg"
    and "bcBankrollUsd (pcSimulation cfg) = Fin b" "0 < b"
  shows "\<exists>s' m. executePipeline rd sq env rid cfg (created_run rid) = Some s' \<and> RunCompleted m \<in> set (plEffects s') \<and> amTotalPositions m = 0
    \<and> list_all (\<lambda>e. case e of RunEffect (RunFailed _ _ _) \<Rightarrow> False | _ \<Rightarrow> True) (plEffects s')"
  by (rule failed_chunks_run [OF assms])

lemma sample_unloadable:
  "unloadable lost_connection" "pcStart sample_pipeline_config < pcEnd sample_pipeline_config" "0 < pcChunkDays sample_pipeline_config"
  "\<not> pcWalkForward sample_pipeline_config" "bcBankrollUsd (pcSimulation sample_pipeline_config) = Fin 100" "(0 :: rat) < 100"
  by (simp_all add: unloadable_def lost_connection_def sample_pipeline_config_def ONE_DAY_MS_def sample_bt_config_def)

theorem failed_chunks_complete_run_witness:
  "\<exists>s' m. executePipeline dec20 (\<lambda>x. x) lost_connection ''r'' sample_pipeline_config (created_run ''r'') = Some s'
     \<and> RunCompleted m \<in> set (plEffects s') \<and> amTotalPositions m = 0"
  using failed_chunks_complete_run [OF sample_unloadable, of dec20 "\<lambda>x. x" "''r''"] by blast

theorem completed_run_not_cancelled_witness:
  "\<exists>s'. executePipeline dec20 (\<lambda>x. x) lost_connection ''r'' sample_pipeline_config (created_run ''r'') = Some s'
     \<and> RunEffect (RunCancelled ''r'') \<notin> set (plEffects s')"
proof -
  obtain s' m where e: "executePipeline dec20 (\<lambda>x. x) lost_connection ''r'' sample_pipeline_config (created_run ''r'') = Some s'"
    and m: "RunCompleted m \<in> set (plEffects s')"
    using failed_chunks_run [OF sample_unloadable, of dec20 "\<lambda>x. x" "''r''"] by blast
  show ?thesis using completed_run_not_cancelled [OF _ _ e m] e by (simp add: tracked_created)
qed

section \<open>Cancellation during the checks\<close>

text \<open>A cancellation while the coverage of the data is read, and what the query answers.\<close>

definition cancelled_at_coverage :: "bool \<Rightarrow> jsnum \<Rightarrow> pipeline_env \<Rightarrow> bool" where
  "cancelled_at_coverage hasData pct env \<longleftrightarrow> (\<forall>pt. peCancel env pt \<longleftrightarrow> pt = AtCoverage) \<and> pePairs env = Inr 1
     \<and> peCoverage env = Inr (hasData, pct) \<and> peStored env"

lemma cancel_tracked:
  assumes "cancelled_at_coverage hasData pct env"
  shows "pl_await env AtCoverage rid (tracked rid LOADING_DATA [] effs) =
    \<lparr>plRuns = \<lparr>runStatuses = [(rid, \<lparr>runState = CANCELLED, runError = None\<rparr>)], cancelledRuns = [rid], maxConcurrentRuns = Fin 2\<rparr>, plPortfolios = [],
     plEffects = effs @ map RunEffect [StateChanged rid LOADING_DATA CANCELLED, DbStatus rid CANCELLED, RunCancelled rid]\<rparr>"
  using assms by (simp add: cancelled_at_coverage_def tracked_def pl_defs CANCELLABLE_STATES_def current_state_def set_add_def)

text \<open>
  a run that is cancelled while its data is checked, and for which there is no data, is reported
  cancelled and then marked and reported failed.
\<close>
theorem cancelled_run_marked_failed:
  assumes "cancelled_at_coverage False pct env" "pcStart cfg < pcEnd cfg"
  shows "map_option plEffects (executePipeline rd sq env rid cfg (created_run rid)) = Some (map RunEffect
    [StateChanged rid CONFIGURING LOADING_DATA, StateChanged rid LOADING_DATA CANCELLED, DbStatus rid CANCELLED, RunCancelled rid,
     StateChanged rid CANCELLED FAILED, DbStatus rid FAILED, RunFailed rid BACKTEST_INSUFFICIENT_DATA ''no price data''])"
  using assms cancel_tracked [OF assms(1), of rid]
  by (simp add: executePipeline_def prepare_run_def tracked_created pl_then_def cancelled_at_coverage_def check_data_def Let_def
      pl_fail_def failRun_def pl_emit_def current_state_def pl_settle_def)

theorem cancelled_run_marked_failed_witness:
  "map_option (last \<circ> plEffects) (executePipeline dec20 (\<lambda>x. x) (lost_connection\<lparr>peCancel := (\<lambda>p. p = AtCoverage), peCoverage := Inr (False, Fin 0)\<rparr>)
     ''r'' sample_pipeline_config (created_run ''r'')) = Some (RunEffect (RunFailed ''r'' BACKTEST_INSUFFICIENT_DATA ''no price data''))"
proof -
  let ?env = "lost_connection\<lparr>peCancel := (\<lambda>p. p = AtCoverage), peCoverage := Inr (False, Fin 0)\<rparr>"
  have "cancelled_at_coverage False (Fin 0) ?env" by (simp add: cancelled_at_coverage_def lost_connection_def)
  from cancelled_run_marked_failed [OF this sample_unloadable(2), of dec20 "\<lambda>x. x" "''r''"]
  show ?thesis by (auto simp: option.map_comp [symmetric])
qed

text \<open>
  a walk-forward run that is cancelled while its data is checked leaves the training and the test
  portfolio behind: they are made before the step that the cancellation refuses, and only the
  simulation destroys them.
\<close>
theorem cancelled_setup_leaks_portfolios:
  assumes "cancelled_at_coverage True (Fin 1) env" "pcStart cfg < pcEnd cfg" "0 < pcChunkDays cfg" "pcWalkForward cfg"
    and "train_end cfg = Some t" "t < pcEnd cfg" "bcBankrollUsd (pcSimulation cfg) = Fin b" "0 < b"
  shows "map_option plPortfolios (executePipeline rd sq env rid cfg (created_run rid)) =
    Some [(train_id rid, fresh_run (Fin b)), (test_id rid, fresh_run (Fin b))]"
proof -
  obtain ranges where rs: "generateChunkRanges (pcStart cfg) (pcEnd cfg) (pcChunkDays cfg) = Some ranges" using ranges_exist [OF assms(3)] by blast
  have ids: "train_id rid \<noteq> test_id rid" "train_id rid \<noteq> rid" "test_id rid \<noteq> rid" by (simp_all add: train_id_def test_id_def)
  let ?effs = "[RunEffect (StateChanged rid CONFIGURING LOADING_DATA)]"
  define s where "s = pl_await env AtCoverage rid (tracked rid LOADING_DATA [] ?effs)"
  note s = s_def [unfolded cancel_tracked [OF assms(1)]]
  have prep: "prepare_run env rid cfg (created_run rid) = (s, None)"
    using assms by (simp add: prepare_run_def tracked_created pl_then_def cancelled_at_coverage_def check_data_def Let_def s_def)
  let ?pf = "[(train_id rid, fresh_run (Fin b)), (test_id rid, fresh_run (Fin b))]"
  have wf: "setup_walk_forward env rid cfg s = (s\<lparr>plPortfolios := ?pf\<rparr>, None)"
    using assms(4-8) ids by (simp add: setup_walk_forward_def pl_then_def pl_initialize_def initialize_def initialize_run_def s)
  obtain code msg where adv: "pl_advance rid SIMULATING (s\<lparr>plPortfolios := ?pf\<rparr>) = (s\<lparr>plPortfolios := ?pf\<rparr>, Some (Thrown code msg))"
    using advance_from_cancelled [of rid "s\<lparr>plPortfolios := ?pf\<rparr>" SIMULATING] by (auto simp: s current_state_def)
  have "isCancelled rid (plRuns s)" by (simp add: s isCancelled_def)
  then show ?thesis using ids
    by (simp add: executePipeline_def prep rs pipeline_body_def wf adv pl_then_def pl_settle_def Let_def destroyRun_def)
qed

definition sample_walk_forward :: pipeline_config where
  "sample_walk_forward = sample_pipeline_config\<lparr>pcEnd := 4 * ONE_DAY_MS, pcWalkForward := True, pcTrainPct := Fin (1/2)\<rparr>"

theorem cancelled_setup_leaks_portfolios_witness:
  "map_option (length \<circ> plPortfolios) (executePipeline dec20 (\<lambda>x. x) (lost_connection\<lparr>peCancel := (\<lambda>p. p = AtCoverage)\<rparr>) ''r''
     sample_walk_forward (created_run ''r'')) = Some 2"
proof -
  let ?env = "lost_connection\<lparr>peCancel := (\<lambda>p. p = AtCoverage)\<rparr>"
  have env: "cancelled_at_coverage True (Fin 1) ?env" by (simp add: cancelled_at_coverage_def lost_connection_def)
  have half: "b64 172800000 = 172800000" using b64_int [of 172800000] by simp
  have toward_zero_eq: "toward_zero 172800000 = 172800000" by (simp add: toward_zero_def)
  have "train_end sample_walk_forward = Some (2 * ONE_DAY_MS)"
    by (simp add: train_end_def sample_walk_forward_def sample_pipeline_config_def ONE_DAY_MS_def half day_start_def Let_def)
      (simp add: toward_zero_eq)
  then show ?thesis
    using cancelled_setup_leaks_portfolios [OF env, of sample_walk_forward "2 * ONE_DAY_MS" 100 dec20 "\<lambda>x. x" "''r''"]
    by (auto simp: sample_walk_forward_def sample_pipeline_config_def ONE_DAY_MS_def sample_bt_config_def)
qed

end
