(* ===== verification/KalshiFeed.thy ===== *)
theory KalshiFeed
  imports Financial "HOL-Library.Multiset"
begin

text \<open>
  \<^verbatim>\<open>KalshiWebSocketClient\<close> and the subscription calls of \<^verbatim>\<open>KalshiConnector\<close>: the local order
  books that follow snapshots and deltas, the sequence check, subscriptions, reconnection and
  keepalive.  The texts of numbers are read by decimal.js: \<open>dec\<close> gives the value of a price
  text (\<open>None\<close> when it throws) and a quantity is its value in the same way.  The socket is
  outside: its events are operations, what is sent to it is an effect.
\<close>

section \<open>State\<close>

type_synonym wire_level = "string \<times> rat option"

record kalshi_book =
  kbSeq :: int
  kbYes :: "wire_level list"
  kbNo :: "wire_level list"

record kalshi_client =
  kcSocket :: bool
  kcBooks :: "(string \<times> kalshi_book) list"
  kcLastSeq :: "(string \<times> int) list"
  kcSubscriptions :: "string list"
  kcAttempt :: nat
  kcTimer :: bool
  kcConnected :: bool
  kcShouldReconnect :: bool
  kcCommandId :: nat
  kcPinging :: bool
  kcPongTimeout :: bool
  kcLastResubscribe :: "(string \<times> timestamp) list"
  kcSubscriptionId :: "int option"
  kcPending :: bool

datatype feed_effect =
    SendSubscribe nat string
  | SendAddMarkets nat int "string list"
  | SendDeleteMarkets nat int "string list"
  | EmitBook string int order_book
  | SendPing
  | TerminateSocket
  | CloseSocket
  | ReconnectIn jsnum

type_synonym fed = "kalshi_client \<times> feed_effect list"

definition MAX_ORDERBOOK_DEPTH :: nat where "MAX_ORDERBOOK_DEPTH = 50"
definition RESUBSCRIBE_COOLDOWN_MS :: int where "RESUBSCRIBE_COOLDOWN_MS = 1000"

definition kalshi_client_init :: kalshi_client where
  "kalshi_client_init = \<lparr>kcSocket = False, kcBooks = [], kcLastSeq = [], kcSubscriptions = [], kcAttempt = 0, kcTimer = False,
     kcConnected = False, kcShouldReconnect = True, kcCommandId = 0, kcPinging = False, kcPongTimeout = False,
     kcLastResubscribe = [], kcSubscriptionId = None, kcPending = False\<rparr>"

section \<open>Normalized levels\<close>

text \<open>\<^verbatim>\<open>normalizeKalshiLevels\<close>; \<open>None\<close> when a text is not a number.\<close>

fun wire_levels :: "(string \<Rightarrow> rat option) \<Rightarrow> (rat \<Rightarrow> rat) \<Rightarrow> wire_level list \<Rightarrow> (rat \<times> rat) list option" where
  "wire_levels dec conv [] = Some []"
| "wire_levels dec conv ((p, q) # ls) =
     (case (dec p, q, wire_levels dec conv ls) of
        (Some x, Some y, Some rest) \<Rightarrow> Some ((b64 (conv x), b64 y) # rest)
      | _ \<Rightarrow> None)"

definition to_level :: "rat \<times> rat \<Rightarrow> price_level" where
  "to_level = (\<lambda>(x, y). \<lparr>price = Fin x, quantity = Fin y\<rparr>)"

definition normalizeKalshiLevels :: "(string \<Rightarrow> rat option) \<Rightarrow> (rat \<Rightarrow> rat) \<Rightarrow> wire_level list \<Rightarrow> wire_level list \<Rightarrow> order_book option" where
  "normalizeKalshiLevels dec rd yes no =
     (case (wire_levels dec id yes, wire_levels dec (\<lambda>x. rd (1 - x)) no) of
        (Some bs, Some as) \<Rightarrow> Some \<lparr>bids = map to_level (sort_key (\<lambda>l. - fst l) bs), asks = map to_level (sort_key fst as)\<rparr>
      | _ \<Rightarrow> None)"

section \<open>Commands\<close>

definition sendSubscribe :: "string \<Rightarrow> kalshi_client \<Rightarrow> fed" where
  "sendSubscribe ticker s =
     (if \<not> kcSocket s then (s, [])
      else (s\<lparr>kcPending := True, kcCommandId := kcCommandId s + 1\<rparr>, [SendSubscribe (kcCommandId s + 1) ticker]))"

definition addMarkets :: "string list \<Rightarrow> kalshi_client \<Rightarrow> fed" where
  "addMarkets tickers s =
     (case kcSubscriptionId s of
        Some sid \<Rightarrow> if kcConnected s \<and> kcSocket s
          then (s\<lparr>kcCommandId := kcCommandId s + 1\<rparr>, [SendAddMarkets (kcCommandId s + 1) sid tickers]) else (s, [])
      | None \<Rightarrow> (s, []))"

definition removeMarkets :: "string list \<Rightarrow> kalshi_client \<Rightarrow> fed" where
  "removeMarkets tickers s =
     (case kcSubscriptionId s of
        Some sid \<Rightarrow> if kcConnected s \<and> kcSocket s
          then (s\<lparr>kcCommandId := kcCommandId s + 1\<rparr>, [SendDeleteMarkets (kcCommandId s + 1) sid tickers]) else (s, [])
      | None \<Rightarrow> (s, []))"

definition feed_subscribe :: "string \<Rightarrow> kalshi_client \<Rightarrow> fed" where
  "feed_subscribe ticker s =
     (if ticker \<in> set (kcSubscriptions s) then (s, [])
      else
        let s1 = s\<lparr>kcSubscriptions := set_add ticker (kcSubscriptions s)\<rparr> in
        if kcConnected s1 then sendSubscribe ticker s1 else (s1, []))"

definition feed_unsubscribe :: "string \<Rightarrow> kalshi_client \<Rightarrow> fed" where
  "feed_unsubscribe ticker s =
     (let s1 = s\<lparr>kcSubscriptions := set_delete ticker (kcSubscriptions s), kcBooks := map_delete ticker (kcBooks s),
                 kcLastSeq := map_delete ticker (kcLastSeq s), kcLastResubscribe := map_delete ticker (kcLastResubscribe s)\<rparr>
      in if kcConnected s1 \<and> kcSocket s1 then removeMarkets [ticker] s1 else (s1, []))"

text \<open>A list of calls in order.\<close>

fun fed_each :: "('a \<Rightarrow> kalshi_client \<Rightarrow> fed) \<Rightarrow> 'a list \<Rightarrow> kalshi_client \<Rightarrow> fed" where
  "fed_each f [] s = (s, [])"
| "fed_each f (x # xs) s = (case f x s of (s1, e1) \<Rightarrow> (case fed_each f xs s1 of (s2, e2) \<Rightarrow> (s2, e1 @ e2)))"

text \<open>The connector: both branches without a subscription subscribe ticker by ticker.\<close>

definition subscribeToContracts :: "string list \<Rightarrow> kalshi_client \<Rightarrow> fed" where
  "subscribeToContracts tickers s =
     (if kcSubscriptionId s \<noteq> None then addMarkets tickers s else fed_each feed_subscribe tickers s)"

definition unsubscribeFromContracts :: "string list \<Rightarrow> kalshi_client \<Rightarrow> fed" where
  "unsubscribeFromContracts = fed_each feed_unsubscribe"

definition debouncedResubscribe :: "timestamp \<Rightarrow> string \<Rightarrow> kalshi_client \<Rightarrow> fed" where
  "debouncedResubscribe now ticker s =
     (let lastTime = (case map_of (kcLastResubscribe s) ticker of Some t \<Rightarrow> t | None \<Rightarrow> 0) in
      if now - lastTime < RESUBSCRIBE_COOLDOWN_MS then (s, [])
      else
        let s1 = s\<lparr>kcLastResubscribe := map_set ticker now (kcLastResubscribe s)\<rparr> in
        if kcSubscriptionId s1 \<noteq> None then addMarkets [ticker] s1 else sendSubscribe ticker s1)"

section \<open>Messages\<close>

definition deduplicateLevels :: "wire_level list \<Rightarrow> wire_level list" where
  "deduplicateLevels ls = foldl (\<lambda>m (p, q). map_set p q m) [] ls"

definition emit_book :: "(string \<Rightarrow> rat option) \<Rightarrow> (rat \<Rightarrow> rat) \<Rightarrow> string \<Rightarrow> kalshi_book \<Rightarrow> feed_effect list" where
  "emit_book dec rd ticker b =
     (case normalizeKalshiLevels dec rd (kbYes b) (kbNo b) of None \<Rightarrow> [] | Some ob \<Rightarrow> [EmitBook ticker (kbSeq b) ob])"

definition handleSnapshot ::
  "(string \<Rightarrow> rat option) \<Rightarrow> (rat \<Rightarrow> rat) \<Rightarrow> string \<Rightarrow> int \<Rightarrow> wire_level list \<Rightarrow> wire_level list \<Rightarrow> kalshi_client \<Rightarrow> fed" where
  "handleSnapshot dec rd ticker sq yes no s =
     (let b = \<lparr>kbSeq = sq, kbYes = deduplicateLevels yes, kbNo = deduplicateLevels no\<rparr> in
      (s\<lparr>kcBooks := map_set ticker b (kcBooks s), kcLastSeq := map_set ticker sq (kcLastSeq s)\<rparr>, emit_book dec rd ticker b))"

text \<open>
  The levels of one side after a delta, and whether no error was thrown on the way.  Sorting two
  levels or more reads their prices.
\<close>

definition applyDelta :: "(string \<Rightarrow> rat option) \<Rightarrow> (rat \<Rightarrow> rat) \<Rightarrow> string \<Rightarrow> rat option \<Rightarrow> wire_level list \<Rightarrow> wire_level list \<times> bool" where
  "applyDelta dec rd p delta ls =
     (case delta of
        None \<Rightarrow> (ls, False)
      | Some d \<Rightarrow>
          (case map_of ls p of
             Some None \<Rightarrow> (ls, False)
           | Some (Some q) \<Rightarrow>
               if 0 < d then (map_set p (Some (rd (q + d))) ls, True)
               else if rd (q + d) \<le> 0 then (map_delete p ls, True)
               else (map_set p (Some (rd (q + d))) ls, True)
           | None \<Rightarrow>
               if 0 < d then
                 let ls1 = ls @ [(p, Some d)] in
                 if ls \<noteq> [] \<and> list_ex (\<lambda>(x, _). dec x = None) ls1 then (ls1, False)
                 else (take MAX_ORDERBOOK_DEPTH (sort_key (\<lambda>(x, _). - the (dec x)) ls1), True)
               else (ls, True)))"

definition book_side :: "bool \<Rightarrow> kalshi_book \<Rightarrow> wire_level list" where
  "book_side isYes b = (if isYes then kbYes b else kbNo b)"

definition set_side :: "bool \<Rightarrow> wire_level list \<Rightarrow> kalshi_book \<Rightarrow> kalshi_book" where
  "set_side isYes ls b = (if isYes then b\<lparr>kbYes := ls\<rparr> else b\<lparr>kbNo := ls\<rparr>)"

definition handleDelta ::
  "(string \<Rightarrow> rat option) \<Rightarrow> (rat \<Rightarrow> rat) \<Rightarrow> timestamp \<Rightarrow> string \<Rightarrow> int \<Rightarrow> string \<Rightarrow> rat option \<Rightarrow> bool \<Rightarrow> kalshi_client \<Rightarrow> fed" where
  "handleDelta dec rd now ticker sq p delta isYes s =
     (if (case map_of (kcLastSeq s) ticker of Some l \<Rightarrow> sq \<noteq> l + 1 | None \<Rightarrow> False) then debouncedResubscribe now ticker s
      else
        case map_of (kcBooks s) ticker of
          None \<Rightarrow> debouncedResubscribe now ticker s
        | Some b \<Rightarrow>
            (case applyDelta dec rd p delta (book_side isYes b) of
               (ls, ok) \<Rightarrow>
                 if \<not> ok then (s\<lparr>kcBooks := map_set ticker (set_side isYes ls b) (kcBooks s)\<rparr>, [])
                 else
                   let b1 = (set_side isYes ls b)\<lparr>kbSeq := sq\<rparr> in
                   (s\<lparr>kcBooks := map_set ticker b1 (kcBooks s), kcLastSeq := map_set ticker sq (kcLastSeq s)\<rparr>,
                    emit_book dec rd ticker b1)))"

datatype feed_message =
    FeedSnapshot string int "wire_level list" "wire_level list"
  | FeedDelta string int string "rat option" bool
  | FeedSubscribed int
  | FeedError
  | FeedUnparsed

fun handleMessage :: "(string \<Rightarrow> rat option) \<Rightarrow> (rat \<Rightarrow> rat) \<Rightarrow> timestamp \<Rightarrow> feed_message \<Rightarrow> kalshi_client \<Rightarrow> fed" where
  "handleMessage dec rd now (FeedSnapshot ticker sq yes no) s = handleSnapshot dec rd ticker sq yes no s"
| "handleMessage dec rd now (FeedDelta ticker sq p delta isYes) s = handleDelta dec rd now ticker sq p delta isYes s"
| "handleMessage dec rd now (FeedSubscribed sid) s = (s\<lparr>kcSubscriptionId := Some sid, kcPending := False\<rparr>, [])"
| "handleMessage dec rd now FeedError s = (s, [])"
| "handleMessage dec rd now FeedUnparsed s = (s, [])"

section \<open>Connection\<close>

definition clearPingTimers :: "kalshi_client \<Rightarrow> kalshi_client" where
  "clearPingTimers s = s\<lparr>kcPinging := False, kcPongTimeout := False\<rparr>"

definition feed_connect :: "kalshi_client \<Rightarrow> kalshi_client" where
  "feed_connect s = s\<lparr>kcSocket := True\<rparr>"

definition socket_open :: "kalshi_client \<Rightarrow> fed" where
  "socket_open s =
     (case fed_each sendSubscribe (kcSubscriptions s) (s\<lparr>kcConnected := True, kcAttempt := 0\<rparr>) of
        (s1, effs) \<Rightarrow> ((clearPingTimers s1)\<lparr>kcPinging := True\<rparr>, effs))"

text \<open>
  The delay before an attempt, from the strategy (one second, doubled up to a minute) and the
  random number; the number of attempts has no limit.
\<close>

definition reconnect_delay :: "nat \<Rightarrow> rat \<Rightarrow> jsnum" where
  "reconnect_delay attempt random =
     xmin (xmul b64 (Fin (min (1000 * 2 ^ attempt) 60000)) (xadd b64 (Fin (1/2)) (Fin random))) (Fin 60000)"

definition scheduleReconnect :: "rat \<Rightarrow> kalshi_client \<Rightarrow> fed" where
  "scheduleReconnect random s =
     (if \<not> kcShouldReconnect s then (s, [])
      else (s\<lparr>kcAttempt := kcAttempt s + 1, kcTimer := True\<rparr>, [ReconnectIn (reconnect_delay (kcAttempt s) random)]))"

definition socket_close :: "rat \<Rightarrow> kalshi_client \<Rightarrow> fed" where
  "socket_close random s = scheduleReconnect random (clearPingTimers (s\<lparr>kcConnected := False\<rparr>))"

definition socket_error :: "kalshi_client \<Rightarrow> kalshi_client" where
  "socket_error s = clearPingTimers s"

definition reconnect_fires :: "kalshi_client \<Rightarrow> kalshi_client" where
  "reconnect_fires s = feed_connect (s\<lparr>kcBooks := [], kcLastSeq := []\<rparr>)"

definition feed_disconnect :: "kalshi_client \<Rightarrow> fed" where
  "feed_disconnect s =
     ((clearPingTimers s)\<lparr>kcShouldReconnect := False, kcTimer := False, kcSocket := False, kcConnected := False,
        kcSubscriptionId := None, kcPending := False, kcBooks := [], kcLastSeq := [], kcLastResubscribe := []\<rparr>,
      if kcSocket s then [CloseSocket] else [])"

definition ping_tick :: "bool \<Rightarrow> kalshi_client \<Rightarrow> fed" where
  "ping_tick isOpen s = (if \<not> kcSocket s \<or> \<not> isOpen then (s, []) else (s\<lparr>kcPongTimeout := True\<rparr>, [SendPing]))"

definition pong_received :: "kalshi_client \<Rightarrow> kalshi_client" where
  "pong_received s = s\<lparr>kcPongTimeout := False\<rparr>"

definition pong_timeout :: "kalshi_client \<Rightarrow> fed" where
  "pong_timeout s = (s, if kcSocket s then [TerminateSocket] else [])"

section \<open>Emitted books\<close>

text \<open>Every event of the socket, every message and every call, in any order.\<close>

inductive feed_step :: "kalshi_client \<Rightarrow> kalshi_client \<Rightarrow> bool" where
  message: "feed_step s (fst (handleMessage dec rd now msg s))"
| subscribed: "feed_step s (fst (subscribeToContracts ts s))"
| unsubscribed: "feed_step s (fst (unsubscribeFromContracts ts s))"
| opened: "feed_step s (fst (socket_open s))"
| closed: "feed_step s (fst (socket_close random s))"
| errored: "feed_step s (socket_error s)"
| connected: "feed_step s (feed_connect s)"
| reconnected: "feed_step s (reconnect_fires s)"
| disconnected: "feed_step s (fst (feed_disconnect s))"
| ticked: "feed_step s (fst (ping_tick isOpen s))"
| ponged: "feed_step s (pong_received s)"
| timed_out: "feed_step s (fst (pong_timeout s))"

text \<open>The last sequence number of a ticker is that of its book.\<close>

definition sequences_agree :: "kalshi_client \<Rightarrow> bool" where
  "sequences_agree s \<longleftrightarrow> (\<forall>t. map_of (kcLastSeq s) t = map_option kbSeq (map_of (kcBooks s) t))"

lemma set_side_seq [simp]: "kbSeq (set_side i ls b) = kbSeq b"
  by (simp add: set_side_def)

lemma commands_keep_books [simp]:
  "kcBooks (fst (sendSubscribe t s)) = kcBooks s" "kcLastSeq (fst (sendSubscribe t s)) = kcLastSeq s"
  "kcBooks (fst (addMarkets ts s)) = kcBooks s" "kcLastSeq (fst (addMarkets ts s)) = kcLastSeq s"
  "kcBooks (fst (removeMarkets ts s)) = kcBooks s" "kcLastSeq (fst (removeMarkets ts s)) = kcLastSeq s"
  "kcBooks (fst (feed_subscribe t s)) = kcBooks s" "kcLastSeq (fst (feed_subscribe t s)) = kcLastSeq s"
  "kcBooks (fst (debouncedResubscribe now t s)) = kcBooks s" "kcLastSeq (fst (debouncedResubscribe now t s)) = kcLastSeq s"
  by (auto simp: sendSubscribe_def addMarkets_def removeMarkets_def feed_subscribe_def debouncedResubscribe_def Let_def
      split: option.splits)

lemma fed_each_keeps: "(\<And>x s. P s \<Longrightarrow> P (fst (f x s))) \<Longrightarrow> P s \<Longrightarrow> P (fst (fed_each f xs s))"
  by (induction xs arbitrary: s) (auto simp: case_prod_unfold)

lemma agree_congI: "kcBooks s' = kcBooks s \<Longrightarrow> kcLastSeq s' = kcLastSeq s \<Longrightarrow> sequences_agree s \<Longrightarrow> sequences_agree s'"
  by (simp add: sequences_agree_def)

lemma agree_delta: "sequences_agree s \<Longrightarrow> sequences_agree (fst (handleDelta dec rd now t sq p d i s))"
  by (auto simp: handleDelta_def sequences_agree_def Let_def update_conv' split: option.splits prod.splits if_splits)

lemma agree_unsubscribe: "sequences_agree s \<Longrightarrow> sequences_agree (fst (feed_unsubscribe t s))"
  by (auto simp: feed_unsubscribe_def sequences_agree_def Let_def delete_conv')

lemma agree_step: "feed_step s s' \<Longrightarrow> sequences_agree s \<Longrightarrow> sequences_agree s'"
proof (induction rule: feed_step.induct)
  case (message s dec rd now msg)
  then show ?case
  proof (cases msg)
    case (FeedDelta t sq p d i)
    show ?thesis using agree_delta [OF message] by (simp add: FeedDelta)
  qed (use message in \<open>auto simp: handleSnapshot_def Let_def sequences_agree_def update_conv'\<close>)
next
  case (subscribed s ts)
  have "sequences_agree (fst (fed_each feed_subscribe ts s))"
    by (rule fed_each_keeps [where P = sequences_agree]) (use subscribed agree_congI in auto)
  then show ?case using subscribed by (auto simp: subscribeToContracts_def elim: agree_congI [rotated 2])
next
  case (unsubscribed s ts)
  then show ?case unfolding unsubscribeFromContracts_def
    by (intro fed_each_keeps [where P = sequences_agree] agree_unsubscribe)
next
  case (opened s)
  have "sequences_agree (fst (fed_each sendSubscribe (kcSubscriptions s) (s\<lparr>kcConnected := True, kcAttempt := 0\<rparr>)))"
    by (rule fed_each_keeps [where P = sequences_agree]) (use opened in \<open>auto simp: sequences_agree_def\<close>)
  then show ?case by (auto simp: socket_open_def clearPingTimers_def sequences_agree_def case_prod_unfold)
qed (auto simp: sequences_agree_def socket_close_def scheduleReconnect_def clearPingTimers_def socket_error_def feed_connect_def
    reconnect_fires_def feed_disconnect_def ping_tick_def pong_received_def pong_timeout_def)

lemma agree_reachable: "feed_step\<^sup>*\<^sup>* kalshi_client_init s \<Longrightarrow> sequences_agree s"
proof (induction rule: rtranclp_induct)
  case base
  show ?case by (simp add: sequences_agree_def kalshi_client_init_def)
qed (rule agree_step)

lemma commands_emit_no_book:
  "EmitBook t n ob \<notin> set (snd (debouncedResubscribe now x s))"
  by (auto simp: sendSubscribe_def addMarkets_def debouncedResubscribe_def Let_def split: option.splits)

text \<open>
  C29: whatever happened before, a book is emitted only for a snapshot or for a delta whose sequence
  number is the one after the book it is applied to: no book is emitted across a gap.
\<close>
theorem emitted_books_in_sequence:
  assumes "feed_step\<^sup>*\<^sup>* kalshi_client_init s" "EmitBook t n ob \<in> set (snd (handleMessage dec rd now msg s))"
  shows "case msg of
      FeedSnapshot t' n' yes no \<Rightarrow> t' = t \<and> n' = n
    | FeedDelta t' n' p d i \<Rightarrow> t' = t \<and> n' = n \<and> map_option kbSeq (map_of (kcBooks s) t) = Some (n - 1)
    | _ \<Rightarrow> False"
  using assms(2) agree_reachable [OF assms(1)]
  by (cases msg) (auto simp: handleSnapshot_def handleDelta_def emit_book_def Let_def sequences_agree_def commands_emit_no_book
      split: option.splits prod.splits if_splits)

definition half :: "string \<Rightarrow> rat option" where
  "half p = Some (1/2)"

theorem emitted_books_in_sequence_witness:
  "map_option kbSeq (map_of (kcBooks (fst (handleMessage half dec20 0 (FeedSnapshot ''T'' 7 [] []) kalshi_client_init))) ''T'') = Some 7"
proof -
  let ?s = "fst (handleMessage half dec20 0 (FeedSnapshot ''T'' 7 [] []) kalshi_client_init)"
  have "feed_step\<^sup>*\<^sup>* kalshi_client_init ?s" by (rule r_into_rtranclp) (rule feed_step.message)
  moreover have "EmitBook ''T'' 8 \<lparr>bids = [], asks = []\<rparr> \<in> set (snd (handleMessage half dec20 1 (FeedDelta ''T'' 8 ''p'' (Some 0) True) ?s))"
    by (simp add: handleSnapshot_def handleDelta_def kalshi_client_init_def deduplicateLevels_def applyDelta_def book_side_def
        set_side_def emit_book_def normalizeKalshiLevels_def)
  ultimately show ?thesis using emitted_books_in_sequence [of ?s "''T''" 8] by fastforce
qed

section \<open>The books of the exchange\<close>

text \<open>
  A side of the exchange's book gives each price its quantity; a delta is added to it and an
  empty level disappears.
\<close>

definition exchange_delta :: "string \<Rightarrow> rat \<Rightarrow> (string \<Rightarrow> rat option) \<Rightarrow> string \<Rightarrow> rat option" where
  "exchange_delta p d m = (let q = (case m p of None \<Rightarrow> d | Some q \<Rightarrow> q + d) in m(p := if q \<le> 0 then None else Some q))"

definition exchange_book :: "wire_level list \<Rightarrow> string \<Rightarrow> rat option" where
  "exchange_book ls p = Option.bind (map_of ls p) id"

text \<open>A side that the local copy can hold: its prices are numbers, its quantities have few digits.\<close>

definition side_fits :: "(string \<Rightarrow> rat option) \<Rightarrow> (string \<Rightarrow> rat option) \<Rightarrow> bool" where
  "side_fits dec m \<longleftrightarrow> finite (dom m) \<and> card (dom m) \<le> MAX_ORDERBOOK_DEPTH
     \<and> (\<forall>p q. m p = Some q \<longrightarrow> dec p \<noteq> None \<and> grid q \<and> 0 \<le> q \<and> q \<le> 10 ^ 11)"

definition clean_levels :: "wire_level list \<Rightarrow> bool" where
  "clean_levels ls \<longleftrightarrow> distinct (map fst ls) \<and> list_all (\<lambda>l. snd l \<noteq> None) ls"

lemma clean_cases:
  assumes "clean_levels ls"
  obtains xs where "ls = map (apsnd Some) xs" "distinct (map fst xs)"
proof
  show "ls = map (apsnd Some) (map (apsnd the) ls)"
    using assms by (auto simp: clean_levels_def list_all_iff intro!: map_idI [symmetric])
  show "distinct (map fst (map (apsnd the) ls))" using assms by (simp add: clean_levels_def comp_def)
qed

lemma some_levels [simp]: "map_of (map (apsnd Some) xs) p = map_option Some (map_of xs p)"
  "exchange_book (map (apsnd Some) xs) = map_of xs" "distinct (map fst xs) \<Longrightarrow> clean_levels (map (apsnd Some) xs)"
proof -
  show m: "map_of (map (apsnd Some) xs) p = map_option Some (map_of xs p)" for p by (induction xs) auto
  show "exchange_book (map (apsnd Some) xs) = map_of xs" by (rule ext) (simp add: exchange_book_def m bind_map_option comp_def)
  show "distinct (map fst xs) \<Longrightarrow> clean_levels (map (apsnd Some) xs)" by (simp add: clean_levels_def comp_def list_all_iff)
qed

lemma some_levels_set [simp]: "map_set p (Some q) (map (apsnd Some) xs) = map (apsnd Some) (map_set p q xs)"
  by (induction xs) auto

lemma some_levels_delete [simp]: "map_delete p (map (apsnd Some) xs) = map (apsnd Some) (map_delete p xs)"
  by (induction xs) (auto simp: AList.delete_eq)

lemma dom_card: "distinct (map fst xs) \<Longrightarrow> card (dom (map_of xs)) = length xs"
  by (metis distinct_card dom_map_of_conv_image_fst length_map list.set_map)

lemma sort_some_levels: "sort_key f (map (apsnd Some) zs) = map (apsnd Some) (sort_key (\<lambda>z. f (apsnd Some z)) zs)"
proof -
  have "insort_key f (apsnd Some z) (map (apsnd Some) ys) = map (apsnd Some) (insort_key (\<lambda>z. f (apsnd Some z)) z ys)" for z ys
    by (induction ys) auto
  then show ?thesis by (induction zs) auto
qed

lemma map_of_sorted: "distinct (map fst zs) \<Longrightarrow> map_of (sort_key f zs) = map_of zs"
  by (subst map_of_inject_set) (simp_all add: distinct_map)

lemma applied_absent:
  assumes "map_of ls p = None" "0 < d" "list_all (\<lambda>l. dec (fst l) \<noteq> None) ls" "dec p \<noteq> None"
  shows "applyDelta dec rd p (Some d) ls = (take MAX_ORDERBOOK_DEPTH (sort_key (\<lambda>(x, _). - the (dec x)) (ls @ [(p, Some d)])), True)"
  using assms by (auto simp: applyDelta_def Let_def list_ex_iff list_all_iff case_prod_unfold)

context decimal_rounding
begin

lemma applied_new:
  assumes "distinct (map fst xs)" "p \<notin> fst ` set xs" "0 < d" "side_fits dec ((map_of xs)(p \<mapsto> d))"
  shows "\<exists>ys. applyDelta dec rd p (Some d) (map (apsnd Some) xs) = (map (apsnd Some) ys, True) \<and> distinct (map fst ys)
    \<and> map_of ys = (map_of xs)(p \<mapsto> d)"
proof -
  let ?zs = "xs @ [(p, d)]" and ?f = "\<lambda>(x, _). - the (dec x)"
  have dist: "distinct (map fst ?zs)" using assms(1,2) by simp
  have none: "map_of xs p = None" using assms(2) by (simp add: map_of_eq_None_iff)
  have new: "map_of ?zs = (map_of xs)(p \<mapsto> d)"
  proof (rule ext)
    show "map_of ?zs x = ((map_of xs)(p \<mapsto> d)) x" for x
      using none by (cases "x = p"; cases "map_of xs x") (simp_all add: map_add_def)
  qed
  have "length ?zs \<le> MAX_ORDERBOOK_DEPTH"
    using assms(4) dom_card [OF dist] unfolding new by (simp add: side_fits_def)
  then have take: "take MAX_ORDERBOOK_DEPTH (sort_key ?f (map (apsnd Some) ?zs)) = sort_key ?f (map (apsnd Some) ?zs)" by simp
  have "dec x \<noteq> None" if "x \<in> fst ` set ?zs" for x
  proof -
    have "map_of ?zs x \<noteq> None" using that by (simp only: map_of_eq_None_iff not_not)
    then obtain q where "map_of ?zs x = Some q" by blast
    then show ?thesis using assms(4) unfolding new by (auto simp: side_fits_def)
  qed
  then have "\<forall>z \<in> set ?zs. dec (fst z) \<noteq> None" by blast
  then have known: "\<not> list_ex (\<lambda>(x, _). dec x = None) (map (apsnd Some) xs @ [(p, Some d)])"
    by (simp add: list_ex_iff case_prod_unfold)
  let ?ys = "sort_key (\<lambda>z. ?f (apsnd Some z)) ?zs"
  have "applyDelta dec rd p (Some d) (map (apsnd Some) xs) = (map (apsnd Some) ?ys, True)"
    using take known assms(3) none by (auto simp: applyDelta_def Let_def sort_some_levels [symmetric])
  moreover have "distinct (map fst ?ys)" using dist unfolding distinct_map by (simp only: distinct_sort set_sort simp_thms)
  moreover have "map_of ?ys = (map_of xs)(p \<mapsto> d)" using map_of_sorted [OF dist] new by simp
  ultimately show ?thesis by blast
qed

lemma applied_side:
  assumes "distinct (map fst xs)" "side_fits dec (map_of xs)" "side_fits dec (exchange_delta p d (map_of xs))"
    and "grid d" "\<bar>d\<bar> \<le> 10 ^ 11"
  shows "\<exists>ys. applyDelta dec rd p (Some d) (map (apsnd Some) xs) = (map (apsnd Some) ys, True) \<and> distinct (map fst ys)
    \<and> map_of ys = exchange_delta p d (map_of xs)"
proof (cases "map_of xs p")
  case (Some q)
  then have q: "grid q" "0 \<le> q" "q \<le> 10 ^ 11" using assms(2) by (auto simp: side_fits_def)
  then have rd: "rd (q + d) = q + d" using assms(4,5) by (intro rd_grid) auto
  have "map_of (map_set p (q + d) xs) = (map_of xs)(p \<mapsto> q + d)" "map_of (map_delete p xs) = (map_of xs)(p := None)"
    by (auto simp: update_conv' delete_conv')
  then show ?thesis using Some rd q(2) assms(1)
    by (auto simp: applyDelta_def exchange_delta_def Let_def distinct_map_set distinct_map_delete)
next
  case None
  show ?thesis
  proof (cases "0 < d")
    case True
    have "p \<notin> fst ` set xs" using None by (simp add: map_of_eq_None_iff)
    then show ?thesis using applied_new [of xs p d dec] assms True None by (simp add: exchange_delta_def Let_def)
  next
    case False
    have "(map_of xs)(p := None) = map_of xs" using None by auto
    then show ?thesis using None False assms(1) by (auto simp: applyDelta_def exchange_delta_def Let_def)
  qed
qed

end

text \<open>A stream of deltas on both sides of a book, numbered from the one after the snapshot.\<close>

type_synonym delta_stream = "(string \<times> rat \<times> bool) list"

fun exchange_run :: "delta_stream \<Rightarrow> (bool \<Rightarrow> string \<Rightarrow> rat option) \<Rightarrow> bool \<Rightarrow> string \<Rightarrow> rat option" where
  "exchange_run [] m = m"
| "exchange_run ((p, d, i) # ds) m = exchange_run ds (m(i := exchange_delta p d (m i)))"

fun stream_fits :: "(string \<Rightarrow> rat option) \<Rightarrow> delta_stream \<Rightarrow> (bool \<Rightarrow> string \<Rightarrow> rat option) \<Rightarrow> bool" where
  "stream_fits dec [] m \<longleftrightarrow> side_fits dec (m True) \<and> side_fits dec (m False)"
| "stream_fits dec ((p, d, i) # ds) m \<longleftrightarrow> side_fits dec (m True) \<and> side_fits dec (m False) \<and> grid d \<and> \<bar>d\<bar> \<le> 10 ^ 11
     \<and> stream_fits dec ds (m(i := exchange_delta p d (m i)))"

fun receive_deltas ::
  "(string \<Rightarrow> rat option) \<Rightarrow> (rat \<Rightarrow> rat) \<Rightarrow> timestamp \<Rightarrow> string \<Rightarrow> int \<Rightarrow> delta_stream \<Rightarrow> kalshi_client \<Rightarrow> kalshi_client" where
  "receive_deltas dec rd now t n [] s = s"
| "receive_deltas dec rd now t n ((p, d, i) # ds) s =
     receive_deltas dec rd now t (n + 1) ds (fst (handleMessage dec rd now (FeedDelta t (n + 1) p (Some d) i) s))"

lemma stream_sides: "stream_fits dec ds m \<Longrightarrow> side_fits dec (m i)"
  by (cases ds; cases i) auto

text \<open>The local book of a ticker holds the numbers of both sides of \<open>m\<close>.\<close>

definition holds_book :: "kalshi_client \<Rightarrow> string \<Rightarrow> int \<Rightarrow> (bool \<Rightarrow> string \<Rightarrow> rat option) \<Rightarrow> bool" where
  "holds_book s t n m \<longleftrightarrow> map_of (kcLastSeq s) t = Some n \<and>
     (\<exists>b. map_of (kcBooks s) t = Some b \<and> kbSeq b = n \<and>
        (\<forall>i. \<exists>xs. book_side i b = map (apsnd Some) xs \<and> distinct (map fst xs) \<and> map_of xs = m i))"

lemma book_side_set [simp]: "book_side i (set_side j ls b) = (if i = j then ls else book_side i b)" "book_side i (b\<lparr>kbSeq := n\<rparr>) = book_side i b"
  by (auto simp: book_side_def set_side_def)

context decimal_rounding
begin

lemma holds_delta:
  assumes h: "holds_book s t n m" and f: "stream_fits dec ((p, d, i) # ds) m"
  shows "holds_book (fst (handleMessage dec rd now (FeedDelta t (n + 1) p (Some d) i) s)) t (n + 1) (m(i := exchange_delta p d (m i)))"
proof -
  obtain b where b: "map_of (kcBooks s) t = Some b" "map_of (kcLastSeq s) t = Some n"
    and sides: "\<And>j. \<exists>xs. book_side j b = map (apsnd Some) xs \<and> distinct (map fst xs) \<and> map_of xs = m j"
    using h by (auto simp: holds_book_def)
  obtain xs where xs: "book_side i b = map (apsnd Some) xs" "distinct (map fst xs)" "map_of xs = m i" using sides by blast
  have "side_fits dec (map_of xs)" "side_fits dec (exchange_delta p d (map_of xs))"
    using f stream_sides [of dec ds "m(i := exchange_delta p d (m i))" i] by (cases i; simp add: xs(3))+
  then obtain ys where ys: "applyDelta dec rd p (Some d) (book_side i b) = (map (apsnd Some) ys, True)" "distinct (map fst ys)"
      "map_of ys = exchange_delta p d (m i)"
    using applied_side [OF xs(2), of dec p d] f xs by auto
  show ?thesis using ys sides
    by (auto simp: holds_book_def handleDelta_def b Let_def update_conv' fun_upd_def)
qed

lemma holds_deltas:
  "holds_book s t n m \<Longrightarrow> stream_fits dec ds m \<Longrightarrow> holds_book (receive_deltas dec rd now t n ds s) t (n + int (length ds)) (exchange_run ds m)"
proof (induction ds arbitrary: s n m)
  case (Cons x ds)
  obtain p d i where x: "x = (p, d, i)" by (cases x)
  have f: "stream_fits dec ((p, d, i) # ds) m" using Cons.prems(2) by (simp add: x)
  have "holds_book (receive_deltas dec rd now t (n + 1) ds (fst (handleMessage dec rd now (FeedDelta t (n + 1) p (Some d) i) s))) t
      (n + 1 + int (length ds)) (exchange_run ds (m(i := exchange_delta p d (m i))))"
    using Cons.IH [OF holds_delta [OF Cons.prems(1) f]] f by (simp only: stream_fits.simps)
  then show ?case by (simp add: x ac_simps)
qed simp

end

lemma deduplicated: "distinct (map fst (deduplicateLevels ls))"
proof -
  have "distinct (map fst m) \<Longrightarrow> distinct (map fst (foldl (\<lambda>m (p, q). map_set p q m) m ls))" for m :: "wire_level list"
    by (induction ls arbitrary: m) (auto simp: distinct_map_set)
  then show ?thesis by (simp add: deduplicateLevels_def)
qed

definition snapshot_book :: "wire_level list \<Rightarrow> wire_level list \<Rightarrow> bool \<Rightarrow> string \<Rightarrow> rat option" where
  "snapshot_book yes no i = exchange_book (deduplicateLevels (if i then yes else no))"

lemma snapshot_holds:
  assumes "list_all (\<lambda>l. snd l \<noteq> None) (deduplicateLevels yes)" "list_all (\<lambda>l. snd l \<noteq> None) (deduplicateLevels no)"
  shows "holds_book (fst (handleMessage dec rd now (FeedSnapshot t n yes no) s)) t n (snapshot_book yes no)"
proof -
  have "\<exists>xs. deduplicateLevels ls = map (apsnd Some) xs \<and> distinct (map fst xs) \<and> map_of xs = exchange_book (deduplicateLevels ls)"
    if "list_all (\<lambda>l. snd l \<noteq> None) (deduplicateLevels ls)" for ls
    using clean_cases [of "deduplicateLevels ls"] that deduplicated [of ls] by (metis clean_levels_def some_levels(2))
  then show ?thesis using assms
    by (auto simp: holds_book_def handleSnapshot_def Let_def update_conv' snapshot_book_def book_side_def)
qed

text \<open>
  C30: the local book follows the exchange: after a snapshot and any number of consecutive deltas,
  each side holds exactly the prices and quantities of the exchange's book, as long as that
  book never has more than fifty levels on a side and its quantities have few digits.
\<close>
theorem local_book_follows_exchange:
  assumes "decimal_rounding rd"
    and "list_all (\<lambda>l. snd l \<noteq> None) (deduplicateLevels yes)" "list_all (\<lambda>l. snd l \<noteq> None) (deduplicateLevels no)"
    and "stream_fits dec ds (snapshot_book yes no)"
  shows "let s' = receive_deltas dec rd now t n ds (fst (handleMessage dec rd now (FeedSnapshot t n yes no) s)) in
    \<exists>b. map_of (kcBooks s') t = Some b \<and> kbSeq b = n + int (length ds)
      \<and> exchange_book (kbYes b) = exchange_run ds (snapshot_book yes no) True
      \<and> exchange_book (kbNo b) = exchange_run ds (snapshot_book yes no) False"
proof -
  let ?s = "receive_deltas dec rd now t n ds (fst (handleMessage dec rd now (FeedSnapshot t n yes no) s))"
  have "holds_book ?s t (n + int (length ds)) (exchange_run ds (snapshot_book yes no))"
    by (rule decimal_rounding.holds_deltas [OF assms(1) snapshot_holds [OF assms(2,3)] assms(4)])
  then obtain b where b: "map_of (kcBooks ?s) t = Some b" "kbSeq b = n + int (length ds)"
    and sides: "\<And>i. \<exists>xs. book_side i b = map (apsnd Some) xs \<and> map_of xs = exchange_run ds (snapshot_book yes no) i"
    unfolding holds_book_def by blast
  have "exchange_book (book_side i b) = exchange_run ds (snapshot_book yes no) i" for i
    using sides [of i] by (metis some_levels(2))
  from this [of True] this [of False] b show ?thesis by (simp add: book_side_def Let_def)
qed

theorem local_book_follows_exchange_witness:
  "exchange_book (kbYes (the (map_of (kcBooks (receive_deltas half dec20 0 ''T'' 7 [(''0.4'', 5, True), (''0.4'', - 2, True), (''0.3'', - 1, False)]
     (fst (handleMessage half dec20 0 (FeedSnapshot ''T'' 7 [(''0.5'', Some 10)] [(''0.3'', Some 1)]) kalshi_client_init)))) ''T''))) ''0.4'' = Some 3"
proof -
  let ?ds = "[(''0.4'', 5, True), (''0.4'', - 2, True), (''0.3'', - 1, False)] :: delta_stream"
  have g: "grid 1" "grid 2" "grid 3" "grid 5" "grid 10" by code_simp+
  have book: "snapshot_book [(''0.5'', Some 10)] [(''0.3'', Some 1)] = (\<lambda>i. if i then [''0.5'' \<mapsto> 10] else [''0.3'' \<mapsto> 1])"
    by (rule ext) (auto simp: snapshot_book_def exchange_book_def deduplicateLevels_def fun_eq_iff)
  have two: "{a. a \<noteq> ''0.5'' \<longrightarrow> a = ''0.4''} = {''0.5'', ''0.4''}" by auto
  have fits: "stream_fits half ?ds (snapshot_book [(''0.5'', Some 10)] [(''0.3'', Some 1)])"
    unfolding book by (simp add: side_fits_def half_def exchange_delta_def MAX_ORDERBOOK_DEPTH_def g dom_def two)
  have "list_all (\<lambda>l. snd l \<noteq> None) (deduplicateLevels [(''0.5'', Some (10 :: rat))])"
      "list_all (\<lambda>l. snd l \<noteq> None) (deduplicateLevels [(''0.3'', Some (1 :: rat))])"
    by (simp_all add: deduplicateLevels_def)
  from local_book_follows_exchange [OF d20.decimal_rounding_axioms this fits, of 0 "''T''" 7 kalshi_client_init]
  show ?thesis by (auto simp: Let_def book exchange_delta_def)
qed

section \<open>Where the copy loses the exchange\<close>

text \<open>A sorted side whose worst level is worse than a new one: the new one is sorted in before it.\<close>

lemma sort_before_last:
  assumes "f a < f w"  "sorted (map f (bs @ [w]))"
  shows "sort_key f ((bs @ [w]) @ [a]) = sort_key f (bs @ [a]) @ [w]"
proof (rule properties_for_sort_key)
  show "mset (sort_key f (bs @ [a]) @ [w]) = mset ((bs @ [w]) @ [a])" by simp
  show "filter (\<lambda>x. f k = f x) (sort_key f (bs @ [a]) @ [w]) = filter (\<lambda>x. f k = f x) ((bs @ [w]) @ [a])" for k
    using assms(1) sort_key_stable [where f = f and k = "f k" and xs = "bs @ [a]"]
    by (auto simp: eq_commute [of "f k"])
  have "\<forall>x \<in> set (bs @ [a]). f x \<le> f w" using assms by (auto simp: sorted_append)
  then show "sorted (map f (sort_key f (bs @ [a]) @ [w]))" by (simp add: sorted_append)
qed

definition full_side :: "(string \<Rightarrow> rat option) \<Rightarrow> wire_level list \<Rightarrow> bool" where
  "full_side dec ls \<longleftrightarrow> length ls = MAX_ORDERBOOK_DEPTH \<and> distinct (map fst ls) \<and> sorted (map (\<lambda>(x, _). - the (dec x)) ls)
     \<and> list_all (\<lambda>(x, _). dec x \<noteq> None) ls"

context decimal_rounding
begin

lemma dropped_level:
  assumes full: "full_side dec (bs @ [(w, Some q)])" and p: "dec p = Some x" "map_of (bs @ [(w, Some q)]) p = None" "the (dec w) < x"
    and pos: "0 < d" "0 < e"
  shows "\<exists>ls1 ls2 ls3. applyDelta dec rd p (Some d) (bs @ [(w, Some q)]) = (ls1, True) \<and> applyDelta dec rd p (Some (- d)) ls1 = (ls2, True)
    \<and> applyDelta dec rd w (Some e) ls2 = (ls3, True) \<and> map_of ls3 w = Some (Some e)"
proof -
  let ?f = "\<lambda>(y, _ :: rat option). - the (dec y)"
  let ?ls1 = "sort_key ?f (bs @ [(p, Some d)])"
  have pw: "p \<noteq> w" and pb: "map_of bs p = None" using p(2) by (auto simp: map_of_eq_None_iff)
  have wb: "w \<notin> fst ` set bs" and db: "distinct (map fst bs)" using full by (auto simp: full_side_def)
  have len: "length bs + 1 = MAX_ORDERBOOK_DEPTH" using full by (simp add: full_side_def)
  have known: "list_all (\<lambda>l. dec (fst l) \<noteq> None) (bs @ [(w, Some q)])" using full by (simp add: full_side_def case_prod_unfold)
  have sorted: "sort_key ?f ((bs @ [(w, Some q)]) @ [(p, Some d)]) = ?ls1 @ [(w, Some q)]"
    using full p by (intro sort_before_last) (auto simp: full_side_def)
  have 1: "applyDelta dec rd p (Some d) (bs @ [(w, Some q)]) = (?ls1, True)"
    using applied_absent [OF p(2) pos(1) known] p(1) len unfolding sorted by simp
  have d1: "distinct (map fst (bs @ [(p, Some d)]))" using db pb by (simp add: map_of_eq_None_iff)
  have m1: "map_of ?ls1 = map_of (bs @ [(p, Some d)])" by (rule map_of_sorted [OF d1])
  let ?ls2 = "map_delete p ?ls1"
  have 2: "applyDelta dec rd p (Some (- d)) ?ls1 = (?ls2, True)"
    using pos pb by (simp add: applyDelta_def m1 map_add_def)
  have m2: "map_of ?ls2 w = None" using pw wb by (simp add: delete_conv' m1 map_add_def map_of_eq_None_iff split: option.splits)
  have "\<forall>l \<in> set ?ls2. dec (fst l) \<noteq> None" using known p(1) by (auto simp: AList.delete_eq list_all_iff)
  then have k2: "list_all (\<lambda>l. dec (fst l) \<noteq> None) ?ls2" by (simp only: list_all_iff)
  have "length ?ls2 < length ?ls1" unfolding AList.delete_eq by (rule length_filter_less [where x = "(p, Some d)"]) simp_all
  then have len2: "length (?ls2 @ [(w, Some e)]) \<le> MAX_ORDERBOOK_DEPTH" using len by simp
  have w: "dec w \<noteq> None" using known by simp
  let ?ls3 = "sort_key ?f (?ls2 @ [(w, Some e)])"
  have 3: "applyDelta dec rd w (Some e) ?ls2 = (?ls3, True)"
    using applied_absent [OF m2 pos(2) k2 w] len2 by simp
  have "distinct (map fst ?ls1)" using d1 unfolding distinct_map by (simp only: distinct_sort set_sort simp_thms)
  then have "distinct (map fst (?ls2 @ [(w, Some e)]))" using m2 by (simp add: distinct_map_delete map_of_eq_None_iff)
  then have "map_of ?ls3 = map_of (?ls2 @ [(w, Some e)])" by (rule map_of_sorted)
  then have "map_of ?ls3 w = Some (Some e)" using m2 by (simp add: map_add_def)
  with 1 2 3 show ?thesis by blast
qed

end

text \<open>
  fifty levels are kept: when a better price comes to a full side and goes again, the worst level
  is lost, and a later increase of that level is stored as its whole quantity, although the
  exchange still has what was there before.
\<close>
theorem dropped_level_returns_short:
  assumes "decimal_rounding rd" "full_side dec (bs @ [(w, Some q)])" "dec p = Some x" "map_of (bs @ [(w, Some q)]) p = None"
    and "the (dec w) < x" "0 < d" "0 < e" "0 \<le> q"
  shows "\<exists>ls1 ls2 ls3. applyDelta dec rd p (Some d) (bs @ [(w, Some q)]) = (ls1, True) \<and> applyDelta dec rd p (Some (- d)) ls1 = (ls2, True)
    \<and> applyDelta dec rd w (Some e) ls2 = (ls3, True) \<and> exchange_book ls3 w = Some e
    \<and> exchange_delta w e (exchange_delta p (- d) (exchange_delta p d (exchange_book (bs @ [(w, Some q)])))) w = Some (q + e)"
proof -
  have "w \<noteq> p" "map_of bs w = None" using assms(2,4) by (auto simp: full_side_def map_of_eq_None_iff)
  then have "exchange_delta w e (exchange_delta p (- d) (exchange_delta p d (exchange_book (bs @ [(w, Some q)])))) w = Some (q + e)"
    using assms(7,8) by (simp add: exchange_delta_def exchange_book_def Let_def map_add_def)
  then show ?thesis using decimal_rounding.dropped_level [OF assms(1-7)] by (auto simp: exchange_book_def)
qed

text \<open>Prices in unary, to have a full side.\<close>

definition unary :: "string \<Rightarrow> rat option" where
  "unary p = Some (of_nat (length p))"

definition unary_side :: "wire_level list" where
  "unary_side = map (\<lambda>n. (replicate (50 - n) CHR ''i'', Some 7)) [0..<49]"

theorem dropped_level_returns_short_witness:
  "\<exists>ls1 ls2 ls3. applyDelta unary dec20 (replicate 60 CHR ''i'') (Some 1) (unary_side @ [(''i'', Some 7)]) = (ls1, True)
    \<and> applyDelta unary dec20 (replicate 60 CHR ''i'') (Some (- 1)) ls1 = (ls2, True)
    \<and> applyDelta unary dec20 ''i'' (Some 3) ls2 = (ls3, True) \<and> exchange_book ls3 ''i'' = Some 3"
proof -
  have "distinct (map (\<lambda>n. 50 - n) [0..<49] @ [1 :: nat])" by (auto simp: distinct_map intro!: inj_onI)
  then have "distinct (map length (map fst (unary_side @ [(''i'', Some 7)])))" by (simp add: unary_side_def comp_def)
  then have "distinct (map fst (unary_side @ [(''i'', Some 7)]))" unfolding distinct_map [of length] by (rule conjunct1)
  moreover have "sorted (map (\<lambda>n. - (of_nat (50 - n) :: rat)) [0..<49])"
    by (simp add: sorted_map sorted_wrt_iff_nth_less)
  ultimately have "full_side unary (unary_side @ [(''i'', Some 7)])"
    by (auto simp: full_side_def unary_def unary_side_def MAX_ORDERBOOK_DEPTH_def comp_def sorted_append list_all_iff)
  moreover have "map_of (unary_side @ [(''i'', Some 7)]) (replicate 60 CHR ''i'') = None"
    by (auto simp: map_of_eq_None_iff unary_side_def dest: arg_cong [of _ _ length])
  ultimately show ?thesis
    using dropped_level_returns_short [OF d20.decimal_rounding_axioms, of unary unary_side "''i''" 7 "replicate 60 CHR ''i''" 60 1 3]
    by (auto simp: unary_def)
qed

section \<open>Subscriptions across a reconnection\<close>

definition subscribed_tickers :: "feed_effect list \<Rightarrow> string list" where
  "subscribed_tickers effs = concat (map (\<lambda>e. case e of SendSubscribe _ t \<Rightarrow> [t] | SendAddMarkets _ _ ts \<Rightarrow> ts | _ \<Rightarrow> []) effs)"

lemma opened_tickers: "kcSocket s \<Longrightarrow> subscribed_tickers (snd (fed_each sendSubscribe ts s)) = ts"
  by (induction ts arbitrary: s) (auto simp: sendSubscribe_def subscribed_tickers_def case_prod_unfold)

text \<open>
  once the exchange has given a subscription its id, further contracts are only added to it and
  not remembered: after a reconnection the client subscribes again without them.
\<close>
theorem added_contracts_lost_on_reconnect:
  assumes "kcSubscriptionId s = Some sid" "kcConnected s" "kcSocket s" "t \<notin> set (kcSubscriptions s)"
  shows "let (s1, sent) = subscribeToContracts [t] s; s2 = reconnect_fires (fst (socket_close r s1)); (s3, resent) = socket_open s2 in
    subscribed_tickers sent = [t] \<and> t \<notin> set (subscribed_tickers resent) \<and> subscribed_tickers resent = kcSubscriptions s
      \<and> kcSubscriptionId s2 = Some sid"
proof -
  let ?s1 = "fst (subscribeToContracts [t] s)" and ?s2 = "reconnect_fires (fst (socket_close r (fst (subscribeToContracts [t] s))))"
  have s1: "subscribeToContracts [t] s = (s\<lparr>kcCommandId := kcCommandId s + 1\<rparr>, [SendAddMarkets (kcCommandId s + 1) sid [t]])"
    using assms by (simp add: subscribeToContracts_def addMarkets_def)
  have s2: "kcSubscriptions ?s2 = kcSubscriptions s" "kcSocket ?s2" "kcSubscriptionId ?s2 = Some sid"
    using assms by (simp_all add: s1 reconnect_fires_def feed_connect_def socket_close_def scheduleReconnect_def clearPingTimers_def)
  have "subscribed_tickers (snd (socket_open ?s2)) = kcSubscriptions s"
    using opened_tickers [of "?s2\<lparr>kcConnected := True, kcAttempt := 0\<rparr>" "kcSubscriptions s"] s2
    by (simp add: socket_open_def case_prod_unfold)
  moreover have "subscribed_tickers (snd (subscribeToContracts [t] s)) = [t]" by (simp add: s1 subscribed_tickers_def)
  ultimately show ?thesis using assms(4) s2(3) by (simp add: case_prod_unfold Let_def)
qed

theorem added_contracts_lost_on_reconnect_witness:
  "subscribed_tickers (snd (socket_open (reconnect_fires (fst (socket_close 0 (fst (subscribeToContracts [''B'']
     (kalshi_client_init\<lparr>kcSocket := True, kcConnected := True, kcSubscriptions := [''A''], kcSubscriptionId := Some 1\<rparr>)))))))) = [''A'']"
  using added_contracts_lost_on_reconnect [of "kalshi_client_init\<lparr>kcSocket := True, kcConnected := True, kcSubscriptions := [''A''], kcSubscriptionId := Some 1\<rparr>" 1 "''B''" 0]
  by (simp add: case_prod_unfold Let_def)

end
