(* ===== verification/PolymarketFeed.thy ===== *)
theory PolymarketFeed
  imports Financial
begin

text \<open>
  \<^verbatim>\<open>PolymarketWebSocketClient\<close>: books from snapshots, their first prices from price changes,
  subscriptions, reconnection and keepalive.  As for the other feed, \<open>dec\<close> reads the text of a
  price and a size is its value (\<open>None\<close> where decimal.js throws); the socket's events are
  operations and what is sent to it is an effect.
\<close>

section \<open>State\<close>

type_synonym text_level = "string \<times> decimal option"
type_synonym num_level = "jsnum \<times> jsnum"

record poly_book =
  pbBids :: "num_level list"
  pbAsks :: "num_level list"
  pbTimestamp :: timestamp

record poly_client =
  pcSocket :: bool
  pcBooks :: "(string \<times> poly_book) list"
  pcSubscriptions :: "string list"
  pcAttempt :: nat
  pcTimer :: bool
  pcConnected :: bool
  pcShouldReconnect :: bool
  pcPinging :: bool
  pcPongTimeout :: bool
  pcInitialSent :: bool

datatype poly_effect =
    PolyInitial "string list"
  | PolySubscribe string
  | PolyUnsubscribe string
  | PolyBook string poly_book
  | PolyStale string int
  | PolyPing
  | PolyTerminate
  | PolyClose
  | PolyReconnectIn jsnum

type_synonym poly_fed = "poly_client \<times> poly_effect list"

definition POLY_MAX_DEPTH :: nat where "POLY_MAX_DEPTH = 50"

definition poly_client_init :: poly_client where
  "poly_client_init = \<lparr>pcSocket = False, pcBooks = [], pcSubscriptions = [], pcAttempt = 0, pcTimer = False, pcConnected = False,
     pcShouldReconnect = True, pcPinging = False, pcPongTimeout = False, pcInitialSent = False\<rparr>"

section \<open>Subscriptions\<close>

definition poly_sendInitial :: "string list \<Rightarrow> poly_client \<Rightarrow> poly_fed" where
  "poly_sendInitial tokens s = (if \<not> pcSocket s then (s, []) else (s\<lparr>pcInitialSent := True\<rparr>, [PolyInitial tokens]))"

definition poly_sendSubscribe :: "string \<Rightarrow> poly_client \<Rightarrow> poly_fed" where
  "poly_sendSubscribe token s =
     (if \<not> pcSocket s then (s, [])
      else if \<not> pcInitialSent s then poly_sendInitial [token] s
      else (s, [PolySubscribe token]))"

definition poly_subscribe :: "string \<Rightarrow> poly_client \<Rightarrow> poly_fed" where
  "poly_subscribe token s =
     (let s1 = s\<lparr>pcSubscriptions := set_add token (pcSubscriptions s)\<rparr> in
      if pcConnected s1 then poly_sendSubscribe token s1 else (s1, []))"

definition poly_unsubscribe :: "string \<Rightarrow> poly_client \<Rightarrow> poly_fed" where
  "poly_unsubscribe token s =
     (s\<lparr>pcSubscriptions := set_delete token (pcSubscriptions s), pcBooks := map_delete token (pcBooks s)\<rparr>,
      if pcConnected s \<and> pcSocket s then [PolyUnsubscribe token] else [])"

section \<open>Messages\<close>

definition poly_deduplicate :: "text_level list \<Rightarrow> text_level list" where
  "poly_deduplicate ls = foldl (\<lambda>m (p, q). map_set p q m) [] ls"

text \<open>The numbers of a side, \<open>None\<close> when a text is none.\<close>

fun level_numbers :: "(string \<Rightarrow> decimal option) \<Rightarrow> text_level list \<Rightarrow> num_level list option" where
  "level_numbers dec [] = Some []"
| "level_numbers dec ((p, q) # ls) =
     (case (dec p, q, level_numbers dec ls) of
        (Some x, Some y, Some rest) \<Rightarrow> Some ((to_number x, to_number y) # rest)
      | _ \<Rightarrow> None)"

definition poly_emitUpdate :: "timestamp \<Rightarrow> string \<Rightarrow> poly_book \<Rightarrow> poly_effect list" where
  "poly_emitUpdate now token b =
     (if now - pbTimestamp b > 30000 then [PolyStale token (now - pbTimestamp b)] else [PolyBook token b])"

text \<open>The handlers also tell whether they threw nothing.\<close>

definition handleBookSnapshot ::
  "(string \<Rightarrow> decimal option) \<Rightarrow> timestamp \<Rightarrow> string \<Rightarrow> timestamp \<Rightarrow> text_level list \<Rightarrow> text_level list \<Rightarrow> poly_client \<Rightarrow> poly_client \<times> poly_effect list \<times> bool" where
  "handleBookSnapshot dec now token ts bs as s =
     (case (level_numbers dec (poly_deduplicate bs), level_numbers dec (poly_deduplicate as)) of
        (Some nb, Some na) \<Rightarrow>
          let b = \<lparr>pbBids = take POLY_MAX_DEPTH (sort_key (\<lambda>l. xneg (fst l)) nb), pbAsks = take POLY_MAX_DEPTH (sort_key fst na), pbTimestamp = ts\<rparr>
          in (s\<lparr>pcBooks := map_set token b (pcBooks s)\<rparr>, poly_emitUpdate now token b, True)
      | _ \<Rightarrow> (s, [], False))"

definition set_first_price :: "decimal \<Rightarrow> num_level list \<Rightarrow> num_level list" where
  "set_first_price best ls =
     (case ls of [] \<Rightarrow> [] | (p, q) # rest \<Rightarrow> if is_nan (to_number best) then ls else (to_number best, q) # rest)"

record price_entry =
  peAsset :: string
  peBestBid :: "decimal option"
  peBestAsk :: "decimal option"

fun apply_changes :: "timestamp \<Rightarrow> timestamp \<Rightarrow> price_entry list \<Rightarrow> poly_client \<Rightarrow> poly_client \<times> poly_effect list \<times> bool" where
  "apply_changes now ts [] s = (s, [], True)"
| "apply_changes now ts (e # es) s =
     (case map_of (pcBooks s) (peAsset e) of
        None \<Rightarrow> apply_changes now ts es s
      | Some b \<Rightarrow>
          if pbBids b = [] \<and> pbAsks b = [] then apply_changes now ts es s
          else
            (case (peBestBid e, peBestAsk e) of
               (Some x, Some y) \<Rightarrow>
                 let b1 = \<lparr>pbBids = set_first_price x (pbBids b), pbAsks = set_first_price y (pbAsks b), pbTimestamp = ts\<rparr>;
                     (s2, effs, ok) = apply_changes now ts es (s\<lparr>pcBooks := map_set (peAsset e) b1 (pcBooks s)\<rparr>)
                 in (s2, poly_emitUpdate now (peAsset e) b1 @ effs, ok)
             | _ \<Rightarrow> (s, [], False)))"

text \<open>\<open>ts\<close> is the number \<^verbatim>\<open>parseInt\<close> reads in the timestamp.\<close>

definition handlePriceChange :: "timestamp \<Rightarrow> int option \<Rightarrow> price_entry list \<Rightarrow> poly_client \<Rightarrow> poly_client \<times> poly_effect list \<times> bool" where
  "handlePriceChange now ts es s = apply_changes now (case ts of Some t \<Rightarrow> if t = 0 then now else t | None \<Rightarrow> now) es s"

datatype poly_message =
    BookMessage string timestamp "text_level list" "text_level list"
  | PriceChangeMessage "int option" "price_entry list"
  | OtherMessage

fun processMessage :: "(string \<Rightarrow> decimal option) \<Rightarrow> timestamp \<Rightarrow> poly_message \<Rightarrow> poly_client \<Rightarrow> poly_client \<times> poly_effect list \<times> bool" where
  "processMessage dec now (BookMessage token ts bs as) s = handleBookSnapshot dec now token ts bs as s"
| "processMessage dec now (PriceChangeMessage ts es) s = handlePriceChange now ts es s"
| "processMessage dec now OtherMessage s = (s, [], True)"

text \<open>The messages of a frame; an error ends it.\<close>

fun poly_handleMessage :: "(string \<Rightarrow> decimal option) \<Rightarrow> timestamp \<Rightarrow> poly_message list \<Rightarrow> poly_client \<Rightarrow> poly_fed" where
  "poly_handleMessage dec now [] s = (s, [])"
| "poly_handleMessage dec now (m # ms) s =
     (case processMessage dec now m s of
        (s1, effs, ok) \<Rightarrow> if \<not> ok then (s1, effs) else (case poly_handleMessage dec now ms s1 of (s2, effs2) \<Rightarrow> (s2, effs @ effs2)))"

section \<open>Connection\<close>

definition poly_clearPing :: "poly_client \<Rightarrow> poly_client" where
  "poly_clearPing s = s\<lparr>pcPinging := False, pcPongTimeout := False\<rparr>"

definition poly_connect :: "poly_client \<Rightarrow> poly_client" where
  "poly_connect s = s\<lparr>pcSocket := True\<rparr>"

definition poly_open :: "poly_client \<Rightarrow> poly_fed" where
  "poly_open s =
     (let s1 = s\<lparr>pcConnected := True, pcAttempt := 0, pcInitialSent := False\<rparr>;
          (s2, effs) = (if pcSubscriptions s1 \<noteq> [] then poly_sendInitial (pcSubscriptions s1) s1 else (s1, []))
      in ((poly_clearPing s2)\<lparr>pcPinging := True\<rparr>, effs))"

definition poly_delay :: "nat \<Rightarrow> rat \<Rightarrow> jsnum" where
  "poly_delay attempt random =
     xmin (xmul b64 (Fin (min (1000 * 2 ^ attempt) 60000)) (xadd b64 (Fin (1/2)) (Fin random))) (Fin 60000)"

definition poly_scheduleReconnect :: "rat \<Rightarrow> poly_client \<Rightarrow> poly_fed" where
  "poly_scheduleReconnect random s =
     (if \<not> pcShouldReconnect s then (s, [])
      else (s\<lparr>pcAttempt := pcAttempt s + 1, pcTimer := True\<rparr>, [PolyReconnectIn (poly_delay (pcAttempt s) random)]))"

definition poly_closed :: "rat \<Rightarrow> poly_client \<Rightarrow> poly_fed" where
  "poly_closed random s = poly_scheduleReconnect random (poly_clearPing (s\<lparr>pcConnected := False\<rparr>))"

definition poly_reconnect_fires :: "poly_client \<Rightarrow> poly_client" where
  "poly_reconnect_fires s = poly_connect (s\<lparr>pcBooks := []\<rparr>)"

definition poly_disconnect :: "poly_client \<Rightarrow> poly_fed" where
  "poly_disconnect s =
     ((poly_clearPing s)\<lparr>pcShouldReconnect := False, pcTimer := False, pcSocket := False, pcConnected := False, pcInitialSent := False,
        pcBooks := []\<rparr>, if pcSocket s then [PolyClose] else [])"

definition poly_ping_tick :: "bool \<Rightarrow> poly_client \<Rightarrow> poly_fed" where
  "poly_ping_tick isOpen s = (if \<not> pcSocket s \<or> \<not> isOpen then (s, []) else (s\<lparr>pcPongTimeout := True\<rparr>, [PolyPing]))"

definition poly_pong :: "poly_client \<Rightarrow> poly_client" where
  "poly_pong s = s\<lparr>pcPongTimeout := False\<rparr>"

definition poly_pong_timeout :: "poly_client \<Rightarrow> poly_fed" where
  "poly_pong_timeout s = (s, if pcSocket s then [PolyTerminate] else [])"

section \<open>Books on the way out\<close>

inductive poly_step :: "poly_client \<Rightarrow> poly_client \<Rightarrow> bool" where
  message: "poly_step s (fst (poly_handleMessage dec now ms s))"
| subscribed: "poly_step s (fst (poly_subscribe t s))"
| unsubscribed: "poly_step s (fst (poly_unsubscribe t s))"
| connected: "poly_step s (poly_connect s)"
| opened: "poly_step s (fst (poly_open s))"
| closed: "poly_step s (fst (poly_closed random s))"
| errored: "poly_step s (poly_clearPing s)"
| reconnected: "poly_step s (poly_reconnect_fires s)"
| disconnected: "poly_step s (fst (poly_disconnect s))"
| ticked: "poly_step s (fst (poly_ping_tick isOpen s))"
| ponged: "poly_step s (poly_pong s)"
| timed_out: "poly_step s (fst (poly_pong_timeout s))"

definition within_depth :: "poly_book \<Rightarrow> bool" where
  "within_depth b \<longleftrightarrow> length (pbBids b) \<le> POLY_MAX_DEPTH \<and> length (pbAsks b) \<le> POLY_MAX_DEPTH"

definition depths_kept :: "poly_client \<Rightarrow> bool" where
  "depths_kept s \<longleftrightarrow> (\<forall>t b. map_of (pcBooks s) t = Some b \<longrightarrow> within_depth b)"

definition fresh_effect :: "timestamp \<Rightarrow> poly_effect \<Rightarrow> bool" where
  "fresh_effect now e = (case e of PolyBook t b \<Rightarrow> now - pbTimestamp b \<le> 30000 \<and> within_depth b | _ \<Rightarrow> True)"

lemma length_set_first [simp]: "length (set_first_price x ls) = length ls"
  by (simp add: set_first_price_def split: list.splits prod.splits)

lemma depth_set: "depths_kept s \<Longrightarrow> within_depth b \<Longrightarrow> depths_kept (s\<lparr>pcBooks := map_set t b (pcBooks s)\<rparr>)"
  by (auto simp: depths_kept_def update_conv')

lemma fresh_emit: "within_depth b \<Longrightarrow> list_all (fresh_effect now) (poly_emitUpdate now t b)"
  by (simp add: poly_emitUpdate_def fresh_effect_def)

lemma changes_kept:
  "depths_kept s \<Longrightarrow> depths_kept (fst (apply_changes now ts es s)) \<and> list_all (fresh_effect now) (fst (snd (apply_changes now ts es s)))"
proof (induction es arbitrary: s)
  case (Cons e es)
  show ?case
  proof (cases "\<exists>b x y. map_of (pcBooks s) (peAsset e) = Some b \<and> \<not> (pbBids b = [] \<and> pbAsks b = []) \<and> peBestBid e = Some x \<and> peBestAsk e = Some y")
    case True
    then obtain b x y where b: "map_of (pcBooks s) (peAsset e) = Some b" "\<not> (pbBids b = [] \<and> pbAsks b = [])"
        "peBestBid e = Some x" "peBestAsk e = Some y" by blast
    let ?b = "\<lparr>pbBids = set_first_price x (pbBids b), pbAsks = set_first_price y (pbAsks b), pbTimestamp = ts\<rparr>"
    have w: "within_depth ?b" using Cons.prems b(1) by (auto simp: depths_kept_def within_depth_def)
    show ?thesis using Cons.IH [OF depth_set [OF Cons.prems w, of "peAsset e"]] fresh_emit [OF w] b
      by (auto simp: Let_def case_prod_unfold)
  qed (use Cons in \<open>auto split: option.splits\<close>)
qed simp

lemma process_kept:
  assumes "depths_kept s"
  shows "depths_kept (fst (processMessage dec now m s)) \<and> list_all (fresh_effect now) (fst (snd (processMessage dec now m s)))"
proof (cases m)
  case (BookMessage t ts bs as)
  then show ?thesis using assms depth_set fresh_emit
    by (auto simp: handleBookSnapshot_def Let_def within_depth_def split: option.splits)
next
  case (PriceChangeMessage ts es)
  then show ?thesis using changes_kept [OF assms] by (simp add: handlePriceChange_def)
qed (use assms in simp)

lemma frame_kept:
  "depths_kept s \<Longrightarrow> depths_kept (fst (poly_handleMessage dec now ms s)) \<and> list_all (fresh_effect now) (snd (poly_handleMessage dec now ms s))"
proof (induction ms arbitrary: s)
  case (Cons m ms)
  then show ?case using process_kept [OF Cons.prems, of dec now m]
    by (cases "processMessage dec now m s") (auto simp: case_prod_unfold Let_def)
qed simp

lemma depth_step: "poly_step s s' \<Longrightarrow> depths_kept s \<Longrightarrow> depths_kept s'"
proof (induction rule: poly_step.induct)
  case (message s dec now ms)
  then show ?case using frame_kept by blast
qed (auto simp: depths_kept_def poly_subscribe_def poly_sendSubscribe_def poly_sendInitial_def poly_unsubscribe_def poly_connect_def poly_open_def
    poly_closed_def poly_scheduleReconnect_def poly_clearPing_def poly_reconnect_fires_def poly_disconnect_def poly_ping_tick_def poly_pong_def
    poly_pong_timeout_def Let_def delete_conv')

lemma depth_reachable: "poly_step\<^sup>*\<^sup>* poly_client_init s \<Longrightarrow> depths_kept s"
proof (induction rule: rtranclp_induct)
  case base
  show ?case by (simp add: depths_kept_def poly_client_init_def)
qed (rule depth_step)

text \<open>
  whatever happened before, every book a frame hands to its subscribers is at most thirty seconds
  old and has at most fifty levels on a side.
\<close>
theorem emitted_books_fresh:
  assumes "poly_step\<^sup>*\<^sup>* poly_client_init s"
  shows "list_all (fresh_effect now) (snd (poly_handleMessage dec now ms s))"
  using frame_kept [OF depth_reachable [OF assms]] by blast

theorem emitted_books_fresh_witness:
  "list_all (fresh_effect 50000) (snd (poly_handleMessage (\<lambda>_. Some (Fin (1/2))) 50000 [BookMessage ''T'' 10000 [] []] poly_client_init))"
  using emitted_books_fresh [of poly_client_init 50000 "\<lambda>_. Some (Fin (1/2))" "[BookMessage ''T'' 10000 [] []]"] by simp

end
