(* ===== verification/Normalizer.thy ===== *)
theory Normalizer
  imports KalshiFeed PolymarketFeed
begin

text \<open>
  \<^verbatim>\<open>OrderBookNormalizerService\<close>: the books of both feeds in one form, with the checks on their
  prices and the window of latencies.  The texts that the Polymarket feed makes of its numbers
  are read back by \<^verbatim>\<open>parseFloat\<close>, which is exact on them: a text stands for the number it reads as.
\<close>

section \<open>Latency\<close>

record normalizer =
  latencySamples :: "int list"

definition MAX_LATENCY_SAMPLES :: nat where "MAX_LATENCY_SAMPLES = 100"

definition trackLatency :: "int \<Rightarrow> normalizer \<Rightarrow> normalizer" where
  "trackLatency ms n =
     (let samples = latencySamples n @ [ms] in
      n\<lparr>latencySamples := if MAX_LATENCY_SAMPLES < length samples then tl samples else samples\<rparr>)"

definition p95_index :: "nat \<Rightarrow> nat" where
  "p95_index n = nat \<lfloor>b64 (rat_of_nat n * b64 (95/100))\<rfloor>"

definition getP95Latency :: "normalizer \<Rightarrow> int" where
  "getP95Latency n =
     (if latencySamples n = [] then 0
      else
        let ss = sort (latencySamples n); i = p95_index (length ss) in
        if i < length ss then ss ! i else 0)"

section \<open>Books\<close>

record normalized_book =
  nbPlatform :: platform
  nbContract :: string
  nbBook :: order_book
  nbTimestamp :: timestamp
  nbSequence :: "int option"

datatype norm_note =
    InvalidNumber string
  | InvalidPrice string jsnum
  | CrossedMarket string
  | ZeroSpread string
  | SlowNormalization int

datatype norm_result = Normalized normalized_book | Discarded | NormalizeThrew

definition out_of_range :: "price_level \<Rightarrow> bool" where
  "out_of_range l \<longleftrightarrow> xlt (price l) (Fin 0) \<or> xlt (Fin 1) (price l)"

definition crossed_note :: "string \<Rightarrow> price_level list \<Rightarrow> price_level list \<Rightarrow> norm_note list" where
  "crossed_note c bs as =
     (case (bs, as) of (b # _, a # _) \<Rightarrow> if xlt (price a) (price b) then [CrossedMarket c] else [] | _ \<Rightarrow> [])"

definition zero_spread_note :: "string \<Rightarrow> price_level list \<Rightarrow> price_level list \<Rightarrow> norm_note list" where
  "zero_spread_note c bs as =
     (case (bs, as) of (b # _, a # _) \<Rightarrow> if \<not> is_nan (price b) \<and> price b = price a then [ZeroSpread c] else [] | _ \<Rightarrow> [])"

definition latency_note :: "normalizer \<Rightarrow> norm_note list" where
  "latency_note n = (if 500 < getP95Latency n then [SlowNormalization (getP95Latency n)] else [])"

text \<open>\<open>ms\<close> is the time between the two readings of the clock, \<open>now\<close> the reading for the result.\<close>

definition normalize ::
  "(string \<Rightarrow> rat option) \<Rightarrow> (rat \<Rightarrow> rat) \<Rightarrow> int \<Rightarrow> timestamp \<Rightarrow> string \<Rightarrow> kalshi_book \<Rightarrow> normalizer \<Rightarrow> normalizer \<times> norm_note list \<times> norm_result" where
  "normalize dec rd ms now ticker b n =
     (case normalizeKalshiLevels dec rd (kbYes b) (kbNo b) of
        None \<Rightarrow> (n, [], NormalizeThrew)
      | Some ob \<Rightarrow>
          (case find out_of_range (bids ob @ asks ob) of
             Some l \<Rightarrow> (n, [InvalidPrice ticker (price l)], Discarded)
           | None \<Rightarrow>
               let n1 = trackLatency ms n in
               (n1, crossed_note ticker (bids ob) (asks ob) @ latency_note n1,
                Normalized \<lparr>nbPlatform = Kalshi, nbContract = ticker, nbBook = ob, nbTimestamp = now, nbSequence = Some (kbSeq b)\<rparr>)))"

definition parsed_level :: "num_level \<Rightarrow> price_level" where
  "parsed_level = (\<lambda>(p, q). \<lparr>price = p, quantity = q\<rparr>)"

definition not_a_number :: "price_level \<Rightarrow> bool" where
  "not_a_number l \<longleftrightarrow> is_nan (price l) \<or> is_nan (quantity l)"

definition normalizePolymarket :: "int \<Rightarrow> string \<Rightarrow> poly_book \<Rightarrow> normalizer \<Rightarrow> normalizer \<times> norm_note list \<times> norm_result" where
  "normalizePolymarket ms token b n =
     (let bs = map parsed_level (pbBids b); as = map parsed_level (pbAsks b) in
      if list_ex not_a_number (bs @ as) then (n, [InvalidNumber token], Discarded)
      else
        case find out_of_range (bs @ as) of
          Some l \<Rightarrow> (n, [InvalidPrice token (price l)], Discarded)
        | None \<Rightarrow>
            let bs1 = sort_key (\<lambda>l. xneg (price l)) bs; as1 = sort_key price as; n1 = trackLatency ms n in
            (n1, crossed_note token bs1 as1 @ zero_spread_note token bs1 as1 @ latency_note n1,
             Normalized \<lparr>nbPlatform = Polymarket, nbContract = token, nbBook = \<lparr>bids = bs1, asks = as1\<rparr>,
                nbTimestamp = pbTimestamp b, nbSequence = None\<rparr>))"

section \<open>Normalized books\<close>

text \<open>Best prices first and every price a probability.\<close>

definition best_first :: "order_book \<Rightarrow> bool" where
  "best_first ob \<longleftrightarrow> sorted (map (\<lambda>l. xneg (price l)) (bids ob)) \<and> sorted (map price (asks ob))"

definition probability :: "price_level \<Rightarrow> bool" where
  "probability l \<longleftrightarrow> (case price l of Fin x \<Rightarrow> 0 \<le> x \<and> x \<le> 1 | _ \<Rightarrow> False)"

lemma in_range: "\<not> out_of_range l \<Longrightarrow> price l \<noteq> NaN \<Longrightarrow> probability l"
  by (cases "price l") (auto simp: out_of_range_def probability_def)

lemma level_price [simp]: "price (to_level (x, y)) = Fin x" "quantity (to_level (x, y)) = Fin y"
  by (simp_all add: to_level_def)

lemma kalshi_levels_sorted:
  assumes "normalizeKalshiLevels dec rd yes no = Some ob"
  shows "best_first ob" "list_all (\<lambda>l. price l \<noteq> NaN) (bids ob @ asks ob)"
proof -
  obtain bs as where "ob = \<lparr>bids = map to_level (sort_key (\<lambda>l. - fst l) bs), asks = map to_level (sort_key fst as)\<rparr>"
    using assms by (auto simp: normalizeKalshiLevels_def split: option.splits)
  moreover have mono: "sorted (map Fin xs)" if "sorted xs" for xs
    using that by (simp add: sorted_iff_nth_mono less_eq_xr_def)
  have "sorted (map Fin (map f (sort_key f zs)))" for f :: "rat \<times> rat \<Rightarrow> rat" and zs by (rule mono [OF sorted_sort_key])
  then have "sorted (map (\<lambda>l. Fin (f l)) (sort_key f zs))" for f :: "rat \<times> rat \<Rightarrow> rat" and zs by (simp add: comp_def)
  ultimately show "best_first ob" "list_all (\<lambda>l. price l \<noteq> NaN) (bids ob @ asks ob)"
    by (auto simp: best_first_def comp_def to_level_def case_prod_unfold list_all_iff)
qed

text \<open>The levels that went in.\<close>

definition same_levels :: "price_level list \<Rightarrow> num_level list \<Rightarrow> bool" where
  "same_levels ls ns \<longleftrightarrow> mset ls = mset (map parsed_level ns)"

lemma kalshi_normalized:
  assumes "snd (snd (normalize dec rd ms now t b n)) = Normalized nb"
  shows "best_first (nbBook nb) \<and> list_all probability (bids (nbBook nb) @ asks (nbBook nb))"
proof -
  obtain ob where ob: "normalizeKalshiLevels dec rd (kbYes b) (kbNo b) = Some ob" "find out_of_range (bids ob @ asks ob) = None" "nbBook nb = ob"
    using assms by (auto simp: normalize_def Let_def split: option.splits)
  then have "list_all (\<lambda>l. \<not> out_of_range l) (bids ob @ asks ob)"
    unfolding find_None_iff by (auto simp: list_all_iff)
  then show ?thesis using kalshi_levels_sorted [OF ob(1)] ob(3) in_range by (auto simp: list_all_iff)
qed

lemma polymarket_normalized:
  assumes "snd (snd (normalizePolymarket ms t b n)) = Normalized nb"
  shows "nbBook nb = \<lparr>bids = sort_key (\<lambda>l. xneg (price l)) (map parsed_level (pbBids b)), asks = sort_key price (map parsed_level (pbAsks b))\<rparr>"
    and "list_all probability (bids (nbBook nb) @ asks (nbBook nb))"
proof -
  show nb: "nbBook nb = \<lparr>bids = sort_key (\<lambda>l. xneg (price l)) (map parsed_level (pbBids b)), asks = sort_key price (map parsed_level (pbAsks b))\<rparr>"
    using assms by (auto simp: normalizePolymarket_def Let_def split: option.splits if_splits)
  let ?ls = "map parsed_level (pbBids b) @ map parsed_level (pbAsks b)"
  have "\<not> list_ex not_a_number ?ls" "find out_of_range ?ls = None"
    using assms by (auto simp: normalizePolymarket_def Let_def split: option.splits if_splits)
  then have "probability l" if "l \<in> set ?ls" for l
    using that in_range [of l] unfolding find_None_iff list_ex_iff not_a_number_def by (metis is_nan.simps(1))
  then have "list_all probability ?ls" unfolding list_all_iff by blast
  then show "list_all probability (bids (nbBook nb) @ asks (nbBook nb))" by (simp add: nb list_all_iff)
qed

text \<open>
  a normalized book has its best prices first, only prices between zero and one and, for
  Polymarket, exactly the levels of the book it was made from.
\<close>
theorem normalized_books_ordered:
  "(case snd (snd (normalize dec rd ms now t kb n)) of
      Normalized nb \<Rightarrow> best_first (nbBook nb) \<and> list_all probability (bids (nbBook nb) @ asks (nbBook nb)) | _ \<Rightarrow> True)
   \<and> (case snd (snd (normalizePolymarket ms t pb n)) of
      Normalized nb \<Rightarrow> best_first (nbBook nb) \<and> list_all probability (bids (nbBook nb) @ asks (nbBook nb))
        \<and> same_levels (bids (nbBook nb)) (pbBids pb) \<and> same_levels (asks (nbBook nb)) (pbAsks pb) | _ \<Rightarrow> True)"
  using kalshi_normalized [of dec rd ms now t kb n] polymarket_normalized [of ms t pb n]
  by (auto simp: best_first_def same_levels_def split: norm_result.splits)

section \<open>Latency window\<close>

lemma latencies_bounded: "length (latencySamples n) \<le> MAX_LATENCY_SAMPLES \<Longrightarrow> length (latencySamples (trackLatency ms n)) \<le> MAX_LATENCY_SAMPLES"
  by (auto simp: trackLatency_def Let_def)

text \<open>The index of every full or partial window lies inside it, so the fallback to zero is not used.\<close>

lemma p95_index_inside:
  assumes "0 < n" "n \<le> MAX_LATENCY_SAMPLES"
  shows "p95_index n < n"
proof -
  let ?x = "rat_of_nat n * b64 (95/100)"
  have exact: "b64 (of_int k / 32) = of_int k / 32" if "\<bar>k\<bar> \<le> 2 ^ 53" for k
    using dbl.sr.rd_exact [of k "- 5"] that by (simp add: power_int_minus field_simps)
  have "b64 (95/100) \<le> b64 (of_int 31 / 32)" by (rule dbl.sr.rd_mono) simp
  also have "\<dots> = 31/32" using exact [of 31] by simp
  finally have "?x \<le> rat_of_nat n * (31/32)" by (rule mult_left_mono) simp
  also have "\<dots> \<le> of_int (32 * int n - 1) / 32" using assms(1) by (simp add: field_simps)
  finally have "b64 ?x \<le> b64 (of_int (32 * int n - 1) / 32)" by (rule dbl.sr.rd_mono)
  also have "\<dots> = of_int (32 * int n - 1) / 32" by (rule exact) (use assms in \<open>simp add: MAX_LATENCY_SAMPLES_def\<close>)
  finally have "b64 ?x \<le> of_int (32 * int n - 1) / 32" .
  then have "b64 ?x < rat_of_nat n" by (simp add: field_simps)
  then show ?thesis using assms(1) unfolding p95_index_def by (simp add: floor_less_iff nat_less_iff)
qed

text \<open>
  on a window of any length the latency reported as the 95th percentile is a sample, and at least
  as many samples are at most as large as the index says.
\<close>
theorem p95_latency_is_sample:
  assumes "latencySamples n \<noteq> []" "length (latencySamples n) \<le> MAX_LATENCY_SAMPLES"
  shows "getP95Latency n \<in> set (latencySamples n)
    \<and> p95_index (length (latencySamples n)) < length (filter (\<lambda>x. x \<le> getP95Latency n) (latencySamples n))"
proof -
  let ?ss = "sort (latencySamples n)" and ?i = "p95_index (length (latencySamples n))"
  have i: "?i < length ?ss" using p95_index_inside assms by simp
  then have p: "getP95Latency n = ?ss ! ?i" using assms(1) by (simp add: getP95Latency_def Let_def)
  have "filter (\<lambda>x. x \<le> ?ss ! ?i) (take (Suc ?i) ?ss) = take (Suc ?i) ?ss"
    using i by (intro filter_True) (auto simp: in_set_conv_nth intro!: sorted_nth_mono)
  then have "Suc ?i \<le> length (filter (\<lambda>x. x \<le> ?ss ! ?i) (take (Suc ?i) ?ss @ drop (Suc ?i) ?ss))"
    using i unfolding filter_append by simp
  also have "\<dots> = length (filter (\<lambda>x. x \<le> ?ss ! ?i) (latencySamples n))"
    by (simp only: append_take_drop_id filter_sort length_sort)
  finally show ?thesis using p i by (metis Suc_le_eq length_sort nth_mem set_sort)
qed

theorem p95_latency_is_sample_witness: "getP95Latency \<lparr>latencySamples = [7, 3, 5]\<rparr> \<in> {3, 5, 7}"
  using p95_latency_is_sample [of "\<lparr>latencySamples = [7, 3, 5]\<rparr>"] by (auto simp: MAX_LATENCY_SAMPLES_def)

section \<open>Price changes\<close>

text \<open>
  a price change that reports a best bid below the second level only overwrites the price of the
  first: the book still holds the old second level, the normalizer sorts it to the front, and the
  best bid that trading sees is above the one the exchange reported.
\<close>
theorem reported_best_bid_not_best:
  assumes "map_of (pcBooks s) t = Some b" "pbBids b = (p1, q1) # (p2, q2) # rest" "to_number x < p2"
    and "PolyBook t b1 \<in> set (snd (poly_handleMessage dec now [PriceChangeMessage ts [\<lparr>peAsset = t, peBestBid = Some x, peBestAsk = y\<rparr>]] s))"
    and "snd (snd (normalizePolymarket ms t b1 n)) = Normalized nb"
  shows "fst (hd (pbBids b1)) = to_number x \<and> to_number x < price (hd (bids (nbBook nb)))"
proof -
  have x: "\<not> is_nan (to_number x)" using assms(3) by (cases "to_number x") (auto simp: less_xr_def)
  obtain z where "y = Some z" using assms(1,2,4) by (cases y) (auto simp: handlePriceChange_def)
  then have b1: "pbBids b1 = (to_number x, q1) # (p2, q2) # rest"
    using assms(1,2,4) x by (auto simp: handlePriceChange_def Let_def set_first_price_def poly_emitUpdate_def split: if_splits)
  let ?ls = "map parsed_level (pbBids b1)" and ?hd = "hd (bids (nbBook nb))"
  have bids: "bids (nbBook nb) = sort_key (\<lambda>l. xneg (price l)) ?ls" using polymarket_normalized(1) [OF assms(5)] by simp
  have p2: "parsed_level (p2, q2) \<in> set (bids (nbBook nb))" unfolding bids set_sort by (simp add: b1)
  have "xneg (price ?hd) \<le> xneg (price l)" if "l \<in> set (bids (nbBook nb))" for l
    using that sorted_sort_key [of "\<lambda>l. xneg (price l)" ?ls] unfolding bids [symmetric] by (cases "bids (nbBook nb)") auto
  from this [OF p2] have "xneg (price ?hd) \<le> xneg p2" by (simp add: parsed_level_def)
  moreover have "probability ?hd" "probability (parsed_level (p2, q2))"
    using polymarket_normalized(2) [OF assms(5)] p2 hd_in_set [of "bids (nbBook nb)"] by (cases "bids (nbBook nb)"; auto simp: list_all_iff)+
  ultimately have "p2 \<le> price ?hd"
    by (cases "price ?hd"; cases p2) (auto simp: probability_def parsed_level_def less_eq_xr_def)
  then show ?thesis using b1 assms(3) by simp
qed

definition stale_book :: poly_book where
  "stale_book = \<lparr>pbBids = [(Fin (1/2), Fin 8), (Fin (1/4), Fin 8)], pbAsks = [], pbTimestamp = 0\<rparr>"

theorem reported_best_bid_not_best_witness:
  "PolyBook ''T'' (stale_book\<lparr>pbBids := [(Fin (1/8), Fin 8), (Fin (1/4), Fin 8)]\<rparr>)
      \<in> set (snd (poly_handleMessage (\<lambda>_. None) 0 [PriceChangeMessage (Some 0) [\<lparr>peAsset = ''T'', peBestBid = Some (Fin (1/8)), peBestAsk = Some (Fin (3/4))\<rparr>]]
          (poly_client_init\<lparr>pcBooks := [(''T'', stale_book)]\<rparr>)))
    \<and> to_number (Fin (1/8)) < Fin (1/4)"
proof -
  let ?s = "poly_client_init\<lparr>pcBooks := [(''T'', stale_book)]\<rparr>"
    and ?b = "stale_book\<lparr>pbBids := [(Fin (1/8), Fin 8), (Fin (1/4), Fin 8)]\<rparr>"
  let ?ob = "\<lparr>bids = [\<lparr>price = Fin (1/4), quantity = Fin 8\<rparr>, \<lparr>price = Fin (1/8), quantity = Fin 8\<rparr>], asks = []\<rparr>"
  have sent: "PolyBook ''T'' ?b \<in> set (snd (poly_handleMessage (\<lambda>_. None) 0 [PriceChangeMessage (Some 0) [\<lparr>peAsset = ''T'', peBestBid = Some (Fin (1/8)), peBestAsk = Some (Fin (3/4))\<rparr>]] ?s))"
    by code_simp
  moreover have "snd (snd (normalizePolymarket 0 ''T'' ?b \<lparr>latencySamples = []\<rparr>)) = Normalized \<lparr>nbPlatform = Polymarket, nbContract = ''T'', nbBook = ?ob, nbTimestamp = 0, nbSequence = None\<rparr>"
    by code_simp
  moreover have "to_number (Fin (1/8)) < Fin (1/4)" by code_simp
  ultimately show ?thesis
    using reported_best_bid_not_best [of ?s "''T''" stale_book "Fin (1/2)" "Fin 8" "Fin (1/4)" "Fin 8" "[]" "Fin (1/8)" ?b] sent by (simp add: stale_book_def)
qed

end
