(* ===== verification/AuditLog.thy ===== *)
theory AuditLog
  imports Exposure "HOL-Library.Multiset" "HOL-Library.List_Lexorder" "HOL-Library.Char_ord"
begin

text \<open>
  \<^verbatim>\<open>AuditLogService\<close> over \<^verbatim>\<open>AuditLogRepository\<close>: every entry carries the hash of the
  one before it, and a verification recomputes the chain over a range of dates.  \<open>sha\<close> is the
  digest; \<open>db\<close> is the form in which the database gives the details back (it may order the keys
  of an object anew).  The write queue runs the appends one at a time.
\<close>

section \<open>Values\<close>

text \<open>A number is the text it prints as.\<close>

datatype json =
    JUndefined
  | JNull
  | JBool bool
  | JNum string
  | JStr string
  | JDate timestamp
  | JArr "json list"
  | JObj "(string \<times> json) list"

definition json_escape :: "char \<Rightarrow> string" where
  "json_escape c =
     (let n = (of_char c :: nat); hex = (\<lambda>d. if d < 10 then char_of (48 + d) else char_of (87 + d :: nat)) in
      if n = 34 then [char_of (92 :: nat), c] else if n = 92 then [c, c]
      else if n = 8 then char_of (92 :: nat) # ''b'' else if n = 9 then char_of (92 :: nat) # ''t''
      else if n = 10 then char_of (92 :: nat) # ''n'' else if n = 12 then char_of (92 :: nat) # ''f''
      else if n = 13 then char_of (92 :: nat) # ''r''
      else if n < 32 then char_of (92 :: nat) # ''u00'' @ [hex (n div 16), hex (n mod 16)]
      else [c])"

definition json_quote :: "string \<Rightarrow> string" where
  "json_quote s = char_of (34 :: nat) # concat (map json_escape s) @ [char_of (34 :: nat)]"

definition padded :: "nat \<Rightarrow> nat \<Rightarrow> string" where
  "padded w n = map (\<lambda>i. char_of (48 + n div 10 ^ (w - 1 - i) mod 10)) [0..<w]"

text \<open>\<^verbatim>\<open>Date.prototype.toISOString\<close>.\<close>

definition toISOString :: "timestamp \<Rightarrow> string" where
  "toISOString t =
     (let d = day_of t; y = year_of_day d; m = month_of_day d;
          day = d - day_from_year y - month_starts y ! nat (m - 1) + 1; ms = nat (t mod 86400000)
      in (if 0 \<le> y \<and> y \<le> 9999 then padded 4 (nat y) else (if y < 0 then ''-'' else ''+'') @ padded 6 (nat \<bar>y\<bar>))
         @ ''-'' @ padded 2 (nat m) @ ''-'' @ padded 2 (nat day) @ ''T'' @ padded 2 (ms div 3600000) @ '':''
         @ padded 2 (ms div 60000 mod 60) @ '':'' @ padded 2 (ms div 1000 mod 60) @ ''.'' @ padded 3 (ms mod 1000) @ ''Z'')"

fun joined :: "string list \<Rightarrow> string" where
  "joined [] = ''''"
| "joined [x] = x"
| "joined (x # xs) = x @ '','' @ joined xs"

text \<open>\<open>None\<close> is \<^verbatim>\<open>undefined\<close>; in a template it is its name, in a joined array nothing.\<close>

definition in_template :: "string option \<Rightarrow> string" where
  "in_template t = (case t of Some x \<Rightarrow> x | None \<Rightarrow> ''undefined'')"

definition in_join :: "string option \<Rightarrow> string" where
  "in_join t = (case t of Some x \<Rightarrow> x | None \<Rightarrow> '''')"

text \<open>The keys are sorted after the values are printed, which gives the same list.\<close>

fun sortedStringify :: "json \<Rightarrow> string option" and printed_items :: "json list \<Rightarrow> string list"
  and printed_fields :: "(string \<times> json) list \<Rightarrow> (string \<times> string) list" where
  "sortedStringify JUndefined = None"
| "sortedStringify JNull = Some ''null''"
| "sortedStringify (JBool b) = Some (if b then ''true'' else ''false'')"
| "sortedStringify (JNum n) = Some n"
| "sortedStringify (JStr s) = Some (json_quote s)"
| "sortedStringify (JDate t) = Some ''{}''"
| "sortedStringify (JArr xs) = Some (''['' @ joined (printed_items xs) @ '']'')"
| "sortedStringify (JObj fs) =
     Some (''{'' @ joined (map (\<lambda>(k, t). json_quote k @ '':'' @ t) (sort_key fst (printed_fields fs))) @ ''}'')"
| "printed_items [] = []"
| "printed_items (x # xs) = in_join (sortedStringify x) # printed_items xs"
| "printed_fields [] = []"
| "printed_fields ((k, x) # fs) = (k, in_template (sortedStringify x)) # printed_fields fs"

text \<open>What \<^verbatim>\<open>JSON.stringify\<close> keeps of a value: the form that is written.\<close>

fun written :: "json \<Rightarrow> json" and written_items :: "json list \<Rightarrow> json list" and written_fields :: "(string \<times> json) list \<Rightarrow> (string \<times> json) list" where
  "written JUndefined = JNull"
| "written (JDate t) = JStr (toISOString t)"
| "written (JArr xs) = JArr (written_items xs)"
| "written (JObj fs) = JObj (written_fields fs)"
| "written x = x"
| "written_items [] = []"
| "written_items (x # xs) = written x # written_items xs"
| "written_fields [] = []"
| "written_fields ((k, x) # fs) = (if x = JUndefined then written_fields fs else (k, written x) # written_fields fs)"

section \<open>Rows\<close>

record audit_row =
  arId :: string
  arEventType :: string
  arModule :: string
  arCorrelation :: "string option"
  arDetails :: json
  arPreviousHash :: string
  arCurrentHash :: string
  arCreatedAt :: timestamp

definition findLast :: "audit_row list \<Rightarrow> audit_row option" where
  "findLast rows = (case rev (sort_key arCreatedAt rows) of [] \<Rightarrow> None | r # _ \<Rightarrow> Some r)"

definition findByDateRange :: "timestamp \<Rightarrow> timestamp \<Rightarrow> audit_row list \<Rightarrow> audit_row list" where
  "findByDateRange startDate endDate rows = sort_key arCreatedAt (filter (\<lambda>r. startDate \<le> arCreatedAt r \<and> arCreatedAt r \<le> endDate) rows)"

definition findJustBefore :: "timestamp \<Rightarrow> audit_row list \<Rightarrow> audit_row option" where
  "findJustBefore date rows = findLast (filter (\<lambda>r. arCreatedAt r < date) rows)"

definition deleteOlderThan :: "timestamp \<Rightarrow> audit_row list \<Rightarrow> audit_row list" where
  "deleteOlderThan cutoff rows = filter (\<lambda>r. \<not> arCreatedAt r < cutoff) rows"

definition GENESIS_HASH :: string where
  "GENESIS_HASH = replicate 64 CHR ''0''"

definition computeHash :: "(string \<Rightarrow> string) \<Rightarrow> string \<Rightarrow> string \<Rightarrow> json \<Rightarrow> string \<Rightarrow> string" where
  "computeHash sha prev ev details ts = sha (prev @ ''|'' @ ev @ ''|'' @ ts @ ''|'' @ in_template (sortedStringify details))"

section \<open>Appending\<close>

record audit_entry =
  aeEventType :: string
  aeModule :: string
  aeCorrelation :: "string option"
  aeDetails :: json

record audit =
  auLastHash :: "string option"
  auRows :: "audit_row list"

datatype audit_event = AuditLogFailed string string | AuditChainBroken string string string

text \<open>The answer to a row: stored, refused, or stored although the call failed.\<close>

datatype create_answer = RowStored | RowRefused | RowStoredCallFailed

definition audit_init :: "bool \<Rightarrow> audit \<Rightarrow> audit" where
  "audit_init ok a = (if ok then a\<lparr>auLastHash := map_option arCurrentHash (findLast (auRows a))\<rparr> else a)"

definition new_row :: "(string \<Rightarrow> string) \<Rightarrow> (json \<Rightarrow> json) \<Rightarrow> string \<Rightarrow> audit_entry \<Rightarrow> timestamp \<Rightarrow> string \<Rightarrow> audit_row" where
  "new_row sha db rid e now prev = \<lparr>arId = rid, arEventType = aeEventType e, arModule = aeModule e, arCorrelation = aeCorrelation e,
     arDetails = db (written (aeDetails e)), arPreviousHash = prev,
     arCurrentHash = computeHash sha prev (aeEventType e) (aeDetails e) (toISOString now), arCreatedAt = now\<rparr>"

text \<open>\<open>found\<close> tells whether the query of the last row succeeds; the flag is whether nothing was thrown.\<close>

definition doAppend ::
  "(string \<Rightarrow> string) \<Rightarrow> (json \<Rightarrow> json) \<Rightarrow> string \<Rightarrow> audit_entry \<Rightarrow> timestamp \<Rightarrow> bool \<Rightarrow> create_answer \<Rightarrow> audit \<Rightarrow> audit \<times> bool" where
  "doAppend sha db rid e now found answer a =
     (if auLastHash a = None \<and> \<not> found then (a, False)
      else
        let prev = (case auLastHash a of Some h \<Rightarrow> h
                    | None \<Rightarrow> (case findLast (auRows a) of Some r \<Rightarrow> arCurrentHash r | None \<Rightarrow> GENESIS_HASH));
            a1 = a\<lparr>auLastHash := Some prev\<rparr>; r = new_row sha db rid e now prev
        in case answer of
             RowStored \<Rightarrow> (a1\<lparr>auLastHash := Some (arCurrentHash r), auRows := auRows a @ [r]\<rparr>, True)
           | RowRefused \<Rightarrow> (a1, False)
           | RowStoredCallFailed \<Rightarrow> (a1\<lparr>auRows := auRows a @ [r]\<rparr>, False))"

definition audit_append ::
  "(string \<Rightarrow> string) \<Rightarrow> (json \<Rightarrow> json) \<Rightarrow> string \<Rightarrow> audit_entry \<Rightarrow> timestamp \<Rightarrow> bool \<Rightarrow> create_answer \<Rightarrow> audit \<Rightarrow> audit \<times> audit_event list" where
  "audit_append sha db rid e now found answer a =
     (case doAppend sha db rid e now found answer a of
        (a1, ok) \<Rightarrow> (a1, if ok then [] else [AuditLogFailed (aeEventType e) (aeModule e)]))"

section \<open>Verification\<close>

record chain_result =
  cvValid :: bool
  cvChecked :: nat
  cvBroken :: "(string \<times> string \<times> string) option"

definition chain_broken :: "nat \<Rightarrow> audit_row \<Rightarrow> string \<Rightarrow> string \<Rightarrow> (chain_result \<times> audit_event list) option" where
  "chain_broken n r expected actual =
     Some (\<lparr>cvValid = False, cvChecked = n, cvBroken = Some (arId r, expected, actual)\<rparr>, [AuditChainBroken (arId r) expected actual])"

text \<open>The details read back; \<open>None\<close> when the schema refuses them.\<close>

definition parsed_details :: "json \<Rightarrow> json option" where
  "parsed_details d = (case d of JNull \<Rightarrow> Some (JObj []) | JObj fs \<Rightarrow> Some d | _ \<Rightarrow> None)"

fun verify_rows :: "(string \<Rightarrow> string) \<Rightarrow> nat \<Rightarrow> string \<Rightarrow> audit_row list \<Rightarrow> (chain_result \<times> audit_event list) option" where
  "verify_rows sha n expected [] = Some (\<lparr>cvValid = True, cvChecked = n, cvBroken = None\<rparr>, [])"
| "verify_rows sha n expected (r # rs) =
     (if arPreviousHash r \<noteq> expected then chain_broken (n + 1) r expected (arPreviousHash r)
      else
        case parsed_details (arDetails r) of
          None \<Rightarrow> None
        | Some d \<Rightarrow>
            let h = computeHash sha (arPreviousHash r) (arEventType r) d (toISOString (arCreatedAt r)) in
            if arCurrentHash r \<noteq> h then chain_broken (n + 1) r h (arCurrentHash r)
            else verify_rows sha (n + 1) (arCurrentHash r) rs)"

definition chain_anchor :: "audit_row option \<Rightarrow> audit_row \<Rightarrow> string" where
  "chain_anchor before_row r =
     (case before_row of Some b \<Rightarrow> arCurrentHash b
      | None \<Rightarrow> if arPreviousHash r = GENESIS_HASH then GENESIS_HASH else arPreviousHash r)"

definition verifyChain ::
  "(string \<Rightarrow> string) \<Rightarrow> timestamp \<Rightarrow> timestamp \<Rightarrow> audit_row list \<Rightarrow> (chain_result \<times> audit_event list) option" where
  "verifyChain sha startDate endDate rows =
     (case findByDateRange startDate endDate rows of
        [] \<Rightarrow> Some (\<lparr>cvValid = True, cvChecked = 0, cvBroken = None\<rparr>, [])
      | r # rs \<Rightarrow> verify_rows sha 0 (chain_anchor (findJustBefore (arCreatedAt r) rows) r) (r # rs))"

section \<open>The form of the database\<close>

text \<open>Equal up to the order of the keys of objects.\<close>

inductive same_json :: "json \<Rightarrow> json \<Rightarrow> bool" where
  same_leaf: "same_json x x"
| same_array: "list_all2 same_json xs ys \<Longrightarrow> same_json (JArr xs) (JArr ys)"
| same_object: "list_all2 (rel_prod (=) same_json) fs gs \<Longrightarrow> mset gs = mset hs \<Longrightarrow> distinct (map fst hs) \<Longrightarrow> same_json (JObj fs) (JObj hs)"

inductive_cases same_object_left: "same_json (JObj fs) y"

lemma printed_items_map: "printed_items xs = map (\<lambda>x. in_join (sortedStringify x)) xs"
  by (induction xs) auto

lemma printed_fields_map: "printed_fields fs = map (\<lambda>(k, x). (k, in_template (sortedStringify x))) fs"
  by (induction fs) auto

lemma sorted_keys_unique:
  fixes fs gs :: "(string \<times> string) list"
  assumes "mset fs = mset gs" "distinct (map fst gs)"
  shows "sort_key fst fs = sort_key fst gs"
proof (rule sort_key_eq_sort_key)
  show "inj_on fst (set fs)" using assms(2) mset_eq_setD [OF assms(1)] by (simp add: distinct_map)
qed (rule assms)

lemma related_items:
  "list_all2 (\<lambda>x y. R x y \<and> f x = f y) xs ys \<Longrightarrow> map (\<lambda>x. g (f x)) xs = map (\<lambda>x. g (f x)) ys"
  by (induction xs ys rule: list_all2_induct) auto

lemma related_fields:
  "list_all2 (rel_prod (=) (\<lambda>x y. R x y \<and> f x = f y)) fs gs \<Longrightarrow> map (\<lambda>(k, x). (k, g (f x))) fs = map (\<lambda>(k, x). (k, g (f x))) gs"
  by (induction fs gs rule: list_all2_induct) (auto simp: rel_prod_sel)

text \<open>The printed text does not depend on the order of keys, at any depth.\<close>

lemma canonical_text: "same_json x y \<Longrightarrow> sortedStringify x = sortedStringify y"
proof (induction rule: same_json.induct)
  case (same_array xs ys)
  then show ?case using related_items [of same_json sortedStringify xs ys in_join]
    by (simp only: sortedStringify.simps printed_items_map)
next
  case (same_object fs gs hs)
  have "printed_fields fs = printed_fields gs"
    using related_fields [OF same_object.IH, of in_template] by (simp only: printed_fields_map)
  moreover have "mset (printed_fields gs) = mset (printed_fields hs)" using same_object.hyps(1) by (simp add: printed_fields_map)
  moreover have "map fst (printed_fields hs) = map fst hs" by (simp add: printed_fields_map case_prod_unfold)
  ultimately have "sort_key fst (printed_fields fs) = sort_key fst (printed_fields hs)"
    using sorted_keys_unique [of "printed_fields gs" "printed_fields hs"] same_object.hyps(2) by (simp only:)
  then show ?case by (simp only: sortedStringify.simps)
qed (rule refl)

text \<open>Details without dates and undefined values.\<close>

fun plain_json :: "json \<Rightarrow> bool" where
  "plain_json JUndefined \<longleftrightarrow> False"
| "plain_json (JDate t) \<longleftrightarrow> False"
| "plain_json (JArr xs) \<longleftrightarrow> list_all plain_json xs"
| "plain_json (JObj fs) \<longleftrightarrow> list_all (\<lambda>(k, x). plain_json x) fs"
| "plain_json _ \<longleftrightarrow> True"

lemma plain_written: "plain_json x \<Longrightarrow> written x = x"
  "list_all plain_json xs \<Longrightarrow> written_items xs = xs"
  "list_all (\<lambda>(k, x). plain_json x) fs \<Longrightarrow> written_fields fs = fs"
  by (induction x and xs and fs rule: written_written_items_written_fields.induct) auto

section \<open>The chain\<close>

definition row_hash :: "(string \<Rightarrow> string) \<Rightarrow> audit_row \<Rightarrow> json \<Rightarrow> string" where
  "row_hash sha r d = computeHash sha (arPreviousHash r) (arEventType r) d (toISOString (arCreatedAt r))"

fun chained :: "(string \<Rightarrow> string) \<Rightarrow> string \<Rightarrow> audit_row list \<Rightarrow> bool" where
  "chained sha h [] \<longleftrightarrow> True"
| "chained sha h (r # rs) \<longleftrightarrow> arPreviousHash r = h
     \<and> (case parsed_details (arDetails r) of Some d \<Rightarrow> arCurrentHash r = row_hash sha r d | None \<Rightarrow> False)
     \<and> chained sha (arCurrentHash r) rs"

definition final_hash :: "string \<Rightarrow> audit_row list \<Rightarrow> string" where
  "final_hash h rows = (case rev rows of [] \<Rightarrow> h | r # _ \<Rightarrow> arCurrentHash r)"

lemma final_hash_simps [simp]: "final_hash h [] = h" "final_hash h (r # rs) = final_hash (arCurrentHash r) rs"
  "final_hash h (rows @ [r]) = arCurrentHash r"
  by (auto simp: final_hash_def split: list.splits)

lemma chained_append [simp]: "chained sha h (xs @ ys) \<longleftrightarrow> chained sha h xs \<and> chained sha (final_hash h xs) ys"
  by (induction xs arbitrary: h) auto

text \<open>The verification accepts exactly the chained rows, and counts them.\<close>

definition accepted :: "nat \<Rightarrow> (chain_result \<times> audit_event list) option" where
  "accepted n = Some (\<lparr>cvValid = True, cvChecked = n, cvBroken = None\<rparr>, [])"

lemma verify_chained: "chained sha h rows \<Longrightarrow> verify_rows sha n h rows = accepted (n + length rows)"
  by (induction rows arbitrary: n h) (auto simp: accepted_def row_hash_def Let_def split: option.splits)

lemma verified_chained: "verify_rows sha n h rows = Some (res, evs) \<Longrightarrow> cvValid res \<Longrightarrow> chained sha h rows"
  by (induction rows arbitrary: n h) (auto simp: chain_broken_def row_hash_def Let_def split: option.splits if_splits)

abbreviation in_order :: "audit_row list \<Rightarrow> bool" where
  "in_order rows \<equiv> sorted_wrt (\<lambda>r r'. arCreatedAt r < arCreatedAt r') rows"

lemma in_order_sort: "in_order rows \<Longrightarrow> sort_key arCreatedAt rows = rows"
  by (rule sort_key_id_if_sorted) (auto simp: sorted_map elim: sorted_wrt_mono_rel [rotated])

lemma findLast_in_order: "in_order rows \<Longrightarrow> findLast rows = (if rows = [] then None else Some (last rows))"
  by (cases rows rule: rev_cases) (simp_all add: findLast_def in_order_sort)

lemma in_order_filter_end: "in_order rows \<Longrightarrow> filter (\<lambda>r. arCreatedAt r \<le> t) rows = takeWhile (\<lambda>r. arCreatedAt r \<le> t) rows"
proof (induction rows)
  case (Cons r rows)
  then show ?case by (cases rows) auto
qed simp

lemma in_order_filter_start: "in_order rows \<Longrightarrow> filter (\<lambda>r. \<not> arCreatedAt r < t) rows = dropWhile (\<lambda>r. arCreatedAt r < t) rows"
proof (induction rows)
  case (Cons r rows)
  then show ?case by (cases rows) (auto intro!: filter_True)
qed simp

text \<open>A verification of any range of a chained table, pruned or not, accepts it.\<close>

lemma verify_range:
  assumes "chained sha h rows" "in_order rows"
  shows "verifyChain sha s t rows = accepted (length (findByDateRange s t rows))"
proof (cases "filter (\<lambda>r. s \<le> arCreatedAt r \<and> arCreatedAt r \<le> t) rows")
  case Nil
  then show ?thesis by (simp add: verifyChain_def findByDateRange_def accepted_def)
next
  case (Cons r rs)
  then obtain us vs where rows: "rows = us @ r # vs" and r: "s \<le> arCreatedAt r" "arCreatedAt r \<le> t"
    and rs: "rs = filter (\<lambda>r. s \<le> arCreatedAt r \<and> arCreatedAt r \<le> t) vs"
    by (auto simp: filter_eq_Cons_iff)
  have order: "in_order us" "in_order vs" "\<forall>u \<in> set us. arCreatedAt u < arCreatedAt r" "\<forall>v \<in> set vs. arCreatedAt r < arCreatedAt v"
    using assms(2) by (auto simp: rows sorted_wrt_append)
  have "rs = filter (\<lambda>r. arCreatedAt r \<le> t) vs" unfolding rs using order(4) r(1) by (intro filter_cong) auto
  then have rs': "rs = takeWhile (\<lambda>r. arCreatedAt r \<le> t) vs" using in_order_filter_end [OF order(2)] by simp
  have "in_order (r # rs)" using Cons sorted_wrt_filter [OF assms(2)] by (metis (no_types, lifting))
  then have range: "findByDateRange s t rows = r # rs" unfolding findByDateRange_def Cons by (rule in_order_sort)
  have "filter (\<lambda>x. arCreatedAt x < arCreatedAt r) rows = us"
    using order(3,4) by (auto simp: rows filter_empty_conv intro!: filter_True)
  then have just: "findJustBefore (arCreatedAt r) rows = (if us = [] then None else Some (last us))"
    by (simp add: findJustBefore_def findLast_in_order [OF order(1)])
  have "chained sha (final_hash h us) (r # rs @ dropWhile (\<lambda>r. arCreatedAt r \<le> t) vs)"
    using assms(1) by (simp add: rows rs' del: chained_append) simp
  then have c: "chained sha (final_hash h us) (r # rs)" by simp
  moreover have "chain_anchor (findJustBefore (arCreatedAt r) rows) r = final_hash h us"
    using c by (cases us rule: rev_cases) (auto simp: just chain_anchor_def)
  ultimately show ?thesis using verify_chained [of sha "final_hash h us" "r # rs" 0] by (simp add: verifyChain_def range)
qed

text \<open>A sequence of appends, each with its time, whether the query works and the answer to the row.\<close>

type_synonym append_call = "string \<times> audit_entry \<times> timestamp \<times> bool \<times> create_answer"

fun audit_run :: "(string \<Rightarrow> string) \<Rightarrow> (json \<Rightarrow> json) \<Rightarrow> append_call list \<Rightarrow> audit \<Rightarrow> audit" where
  "audit_run sha db [] a = a"
| "audit_run sha db ((rid, e, now, found, answer) # cs) a = audit_run sha db cs (fst (audit_append sha db rid e now found answer a))"

definition empty_log :: audit where
  "empty_log = \<lparr>auLastHash = None, auRows = []\<rparr>"

definition plain_call :: "append_call \<Rightarrow> bool" where
  "plain_call c = (case c of (_, e, _, _, answer) \<Rightarrow>
     plain_json (aeDetails e) \<and> (case aeDetails e of JObj _ \<Rightarrow> True | _ \<Rightarrow> False) \<and> answer \<noteq> RowStoredCallFailed)"

definition log_sound :: "(string \<Rightarrow> string) \<Rightarrow> timestamp \<Rightarrow> audit \<Rightarrow> bool" where
  "log_sound sha t a \<longleftrightarrow> chained sha GENESIS_HASH (auRows a) \<and> in_order (auRows a) \<and> (\<forall>r \<in> set (auRows a). arCreatedAt r \<le> t)
     \<and> (auLastHash a = None \<or> auLastHash a = Some (final_hash GENESIS_HASH (auRows a)))"

lemma stored_details:
  assumes "plain_json d" "d = JObj fs" "\<And>d. same_json d (db d)"
  shows "parsed_details (db (written d)) = Some (db d) \<and> sortedStringify (db d) = sortedStringify d"
proof -
  obtain gs where "db d = JObj gs" using assms(3) [of d] by (auto simp: assms(2) elim: same_object_left)
  then show ?thesis using canonical_text [OF assms(3) [of d]] plain_written(1) [OF assms(1)] by (simp add: parsed_details_def)
qed

lemma append_sound:
  assumes "log_sound sha t a" "t < now" "plain_call (rid, e, now, found, answer)" "\<And>d. same_json d (db d)"
  shows "log_sound sha now (fst (audit_append sha db rid e now found answer a))"
proof -
  obtain fs where "plain_json (aeDetails e)" "aeDetails e = JObj fs"
    using assms(3) by (auto simp: plain_call_def split: json.splits)
  note d = stored_details [OF this assms(4)]
  have last: "findLast (auRows a) = (if auRows a = [] then None else Some (last (auRows a)))"
    using assms(1) findLast_in_order by (simp add: log_sound_def)
  have prev: "(case auLastHash a of Some h \<Rightarrow> h
      | None \<Rightarrow> (case findLast (auRows a) of Some r \<Rightarrow> arCurrentHash r | None \<Rightarrow> GENESIS_HASH)) = final_hash GENESIS_HASH (auRows a)"
    using assms(1) unfolding last by (cases "auRows a" rule: rev_cases) (auto simp: log_sound_def)
  show ?thesis
    using assms(1-3) d unfolding audit_append_def doAppend_def Let_def prev
    by (cases answer) (auto simp: log_sound_def plain_call_def new_row_def row_hash_def computeHash_def sorted_wrt_append)
qed

lemma run_sound:
  assumes "\<And>d. same_json d (db d)"
  shows "log_sound sha t a \<Longrightarrow> list_all plain_call cs \<Longrightarrow> sorted_wrt (<) (t # map (\<lambda>(_, _, now, _, _). now) cs)
    \<Longrightarrow> \<exists>t'. log_sound sha t' (audit_run sha db cs a)"
proof (induction cs arbitrary: t a)
  case (Cons c cs)
  obtain rid e now found answer where c: "c = (rid, e, now, found, answer)" by (cases c) auto
  then show ?case using Cons.IH [of now] append_sound [OF Cons.prems(1) _ _ assms] Cons.prems by auto
qed auto

text \<open>
  C31: after appends of plain details at increasing times, whatever queries and writes were refused, a
  verification of any range accepts all its entries, before and after old entries are pruned.
\<close>
theorem appended_log_verifies:
  assumes "\<And>d. same_json d (db d)" "list_all plain_call cs" "sorted_wrt (<) (map (\<lambda>(_, _, now, _, _). now) cs)"
  shows "let rows = deleteOlderThan cutoff (auRows (audit_run sha db cs empty_log)) in
    verifyChain sha s t rows = accepted (length (findByDateRange s t rows))"
proof -
  let ?t = "(case cs of [] \<Rightarrow> 0 | (_, _, now, _, _) # _ \<Rightarrow> now - 1)" and ?rows = "auRows (audit_run sha db cs empty_log)"
  have "log_sound sha ?t empty_log" by (simp add: log_sound_def empty_log_def)
  moreover have "sorted_wrt (<) (?t # map (\<lambda>(_, _, now, _, _). now) cs)" using assms(3) by (cases cs) fastforce+
  ultimately obtain t' where "log_sound sha t' (audit_run sha db cs empty_log)" using run_sound [OF assms(1)] assms(2) by blast
  then have rows: "chained sha GENESIS_HASH ?rows" "in_order ?rows" by (simp_all add: log_sound_def)
  let ?us = "takeWhile (\<lambda>r. arCreatedAt r < cutoff) ?rows" and ?vs = "dropWhile (\<lambda>r. arCreatedAt r < cutoff) ?rows"
  have pruned: "deleteOlderThan cutoff ?rows = ?vs" using in_order_filter_start [OF rows(2)] by (simp add: deleteOlderThan_def)
  have "chained sha GENESIS_HASH (?us @ ?vs)" "in_order (?us @ ?vs)" using rows by (simp_all only: takeWhile_dropWhile_id)
  then have "chained sha (final_hash GENESIS_HASH ?us) ?vs" "in_order ?vs" unfolding chained_append sorted_wrt_append by simp_all
  then show ?thesis unfolding Let_def pruned by (rule verify_range)
qed


definition sample_entry :: "string \<Rightarrow> audit_entry" where
  "sample_entry ev = \<lparr>aeEventType = ev, aeModule = ''m'', aeCorrelation = None, aeDetails = JObj [(''a'', JNull)]\<rparr>"

theorem appended_log_verifies_witness:
  "verifyChain id 0 9 (auRows (audit_run id (\<lambda>d. d)
     [(''1'', sample_entry ''x'', 3, True, RowStored), (''2'', sample_entry ''y'', 5, False, RowRefused), (''3'', sample_entry ''z'', 7, False, RowStored)] empty_log))
   = accepted 2"
proof -
  let ?cs = "[(''1'', sample_entry ''x'', 3 :: timestamp, True, RowStored), (''2'', sample_entry ''y'', 5, False, RowRefused), (''3'', sample_entry ''z'', 7, False, RowStored)]"
  have "list_all plain_call ?cs" by (simp add: plain_call_def sample_entry_def)
  moreover have "sorted_wrt (<) (map (\<lambda>(_, _, now, _, _). now) ?cs)" by simp
  ultimately show ?thesis
    using appended_log_verifies [where db = "\<lambda>d. d" and cs = ?cs and sha = id and cutoff = 0 and s = 0 and t = 9, OF same_leaf]
    by (simp add: deleteOlderThan_def audit_append_def doAppend_def empty_log_def findLast_def new_row_def Let_def findByDateRange_def numeral_2_eq_2)
qed

section \<open>Tampering\<close>

text \<open>What the hash of a row covers: previous hash, event type, time and printed details.\<close>

definition row_text :: "audit_row \<Rightarrow> string" where
  "row_text r = in_template (map_option (\<lambda>d. in_template (sortedStringify d)) (parsed_details (arDetails r)))"

definition covered :: "audit_row \<Rightarrow> string \<times> string \<times> string \<times> string" where
  "covered r = (arPreviousHash r, arEventType r, toISOString (arCreatedAt r), row_text r)"

definition row_payload :: "audit_row \<Rightarrow> string" where
  "row_payload r = arPreviousHash r @ ''|'' @ arEventType r @ ''|'' @ toISOString (arCreatedAt r) @ ''|'' @ row_text r"

lemma chained_hash: "chained sha h (rows @ [r]) \<Longrightarrow> arCurrentHash r = sha (row_payload r) \<and> arPreviousHash r = final_hash h rows"
  by (auto simp: row_hash_def computeHash_def row_payload_def row_text_def in_template_def [of "Some _"] split: option.splits)

lemma split_at:
  assumes "xs @ c # as = ys @ c # bs" "c \<notin> set xs" "c \<notin> set ys"
  shows "xs = ys \<and> as = bs"
  using assms by (induction xs arbitrary: ys) (auto simp: Cons_eq_append_conv append_eq_Cons_conv)

lemma no_bar_padded: "CHR ''|'' \<notin> set (padded w n)"
proof -
  have digit: "char_of (48 + k mod 10) \<noteq> CHR ''|''" for k :: nat
  proof
    assume "char_of (48 + k mod 10) = CHR ''|''"
    then have "of_char (char_of (48 + k mod 10)) = (of_char (CHR ''|'') :: nat)" by simp
    moreover have "48 + k mod 10 < (256 :: nat)" using mod_less_divisor [of 10 k] by linarith
    ultimately have "48 + k mod 10 = (124 :: nat)" by (simp only: of_char_of take_bit_eq_mod) simp
    then show False using mod_less_divisor [of 10 k] by linarith
  qed
  show ?thesis unfolding padded_def using digit [THEN not_sym] by (simp add: image_iff)
qed

lemma no_bar_iso: "CHR ''|'' \<notin> set (toISOString t)"
  by (auto simp: toISOString_def Let_def no_bar_padded)

lemma payload_covered:
  assumes "row_payload r = row_payload r'" "length (arPreviousHash r) = length (arPreviousHash r')"
    and "CHR ''|'' \<notin> set (arEventType r)" "CHR ''|'' \<notin> set (arEventType r')"
  shows "covered r = covered r'"
proof -
  have p: "arPreviousHash r = arPreviousHash r'
      \<and> ''|'' @ arEventType r @ ''|'' @ toISOString (arCreatedAt r) @ ''|'' @ row_text r
        = ''|'' @ arEventType r' @ ''|'' @ toISOString (arCreatedAt r') @ ''|'' @ row_text r'"
    using assms(1) append_eq_append_conv [OF disjI1 [OF assms(2)]] unfolding row_payload_def by blast
  then have "arEventType r @ CHR ''|'' # toISOString (arCreatedAt r) @ CHR ''|'' # row_text r
      = arEventType r' @ CHR ''|'' # toISOString (arCreatedAt r') @ CHR ''|'' # row_text r'" by simp
  note ev = split_at [OF this assms(3,4)]
  from split_at [OF conjunct2 [OF ev] no_bar_iso no_bar_iso] show ?thesis using p ev by (simp add: covered_def)
qed

lemma final_length:
  assumes "chained sha h xs" "\<And>x. length (sha x) = length h"
  shows "length (final_hash h xs) = length h"
proof (cases xs rule: rev_cases)
  case (snoc ys y)
  then show ?thesis using chained_hash [of sha h ys y] assms by simp
qed simp

text \<open>
  C32: if two logs of the same length verify from the same hash and end in the same one, they agree in
  everything the hashes cover, unless the digest collides on their texts.
\<close>
theorem tampering_detected:
  assumes "verify_rows sha n h rows = Some (res, evs)" "cvValid res" "verify_rows sha n h rows' = Some (res', evs')" "cvValid res'"
    and "length rows = length rows'" "final_hash h rows = final_hash h rows'"
    and "inj_on sha (row_payload ` (set rows \<union> set rows'))" "\<And>x. length (sha x) = length h"
    and "list_all (\<lambda>r. CHR ''|'' \<notin> set (arEventType r)) (rows @ rows')"
  shows "map covered rows = map covered rows'"
proof -
  have "chained sha h rows" "chained sha h rows'" using verified_chained assms(1-4) by blast+
  then show ?thesis using assms(5,6,7,9)
  proof (induction rows arbitrary: rows' rule: rev_induct)
    case (snoc r rows)
    then obtain q r' where rows': "rows' = q @ [r']" by (cases rows' rule: rev_cases) auto
    note h = chained_hash [OF snoc.prems(1)] chained_hash [OF snoc.prems(2) [unfolded rows']]
    have same: "sha (row_payload r) = sha (row_payload r')" using snoc.prems(4) h by (simp add: rows')
    have "row_payload r = row_payload r'" by (rule inj_onD [OF snoc.prems(5) same]) (simp_all add: rows')
    moreover have "length (arPreviousHash r) = length (arPreviousHash r')"
      using h final_length [where sha = sha and h = h, OF _ assms(8)] snoc.prems(1,2) by (simp add: rows')
    ultimately have c: "covered r = covered r'" using snoc.prems(6) by (intro payload_covered) (auto simp: rows')
    moreover have "map covered rows = map covered q"
      using snoc.prems h c by (intro snoc.IH) (auto simp: rows' covered_def elim: inj_on_subset)
    ultimately show ?case by (simp add: rows')
  qed simp
qed

definition sample_row :: audit_row where
  "sample_row = \<lparr>arId = ''1'', arEventType = ''x'', arModule = ''m'', arCorrelation = None, arDetails = JObj [], arPreviousHash = ''h'',
     arCurrentHash = ''a'', arCreatedAt = 0\<rparr>"

theorem tampering_detected_witness:
  "map covered [sample_row] = map covered [sample_row\<lparr>arModule := ''n''\<rparr>]"
proof -
  have "verify_rows (\<lambda>_. ''a'') 0 ''h'' [sample_row] = accepted 1" "verify_rows (\<lambda>_. ''a'') 0 ''h'' [sample_row\<lparr>arModule := ''n''\<rparr>] = accepted 1"
    by (simp_all add: sample_row_def parsed_details_def computeHash_def accepted_def)
  then show ?thesis
    using tampering_detected [of "\<lambda>_. ''a''" 0 "''h''" "[sample_row]" _ _ "[sample_row\<lparr>arModule := ''n''\<rparr>]"]
    unfolding accepted_def by (simp add: sample_row_def row_payload_def row_text_def)
qed

text \<open>
  when a row is stored but its insertion reports an error, the next row is chained to the row
  before it, and a verification reports a broken chain that nobody tampered with.
\<close>
theorem lost_answer_breaks_chain:
  assumes "\<And>d. same_json d (db d)" "plain_call (i, e, t, True, RowStored)" "t < t'"
    and "computeHash sha GENESIS_HASH (aeEventType e) (aeDetails e) (toISOString t) \<noteq> GENESIS_HASH"
  shows "let h = computeHash sha GENESIS_HASH (aeEventType e) (aeDetails e) (toISOString t);
      rows = auRows (audit_run sha db [(i, e, t, True, RowStoredCallFailed), (i', e', t', found, RowStored)] empty_log) in
    verifyChain sha t t' rows = Some (\<lparr>cvValid = False, cvChecked = 2, cvBroken = Some (i', h, GENESIS_HASH)\<rparr>, [AuditChainBroken i' h GENESIS_HASH])"
proof -
  obtain fs where "plain_json (aeDetails e)" "aeDetails e = JObj fs"
    using assms(2) by (auto simp: plain_call_def split: json.splits)
  note d = stored_details [OF this assms(1)]
  have rows: "auRows (audit_run sha db [(i, e, t, True, RowStoredCallFailed), (i', e', t', found, RowStored)] empty_log)
      = [new_row sha db i e t GENESIS_HASH, new_row sha db i' e' t' GENESIS_HASH]"
    by (simp add: audit_append_def doAppend_def empty_log_def findLast_def Let_def)
  show ?thesis
    using d assms(3,4) unfolding Let_def rows
    by (simp add: verifyChain_def findByDateRange_def findJustBefore_def findLast_def chain_anchor_def new_row_def computeHash_def chain_broken_def
        numeral_2_eq_2)
qed

theorem lost_answer_breaks_chain_witness:
  "cvValid (fst (the (verifyChain (\<lambda>x. ''a'' @ x) 1 2 (auRows (audit_run (\<lambda>x. ''a'' @ x) (\<lambda>d. d)
     [(''1'', sample_entry ''x'', 1, True, RowStoredCallFailed), (''2'', sample_entry ''y'', 2, True, RowStored)] empty_log))))) = False"
proof -
  have "computeHash (\<lambda>x. ''a'' @ x) GENESIS_HASH (aeEventType (sample_entry ''x'')) (aeDetails (sample_entry ''x'')) (toISOString 1) \<noteq> GENESIS_HASH"
    by (simp add: computeHash_def GENESIS_HASH_def numeral_eq_Suc)
  moreover have "plain_call (''1'', sample_entry ''x'', 1, True, RowStored)" by (simp add: plain_call_def sample_entry_def)
  ultimately show ?thesis
    using lost_answer_breaks_chain [where db = "\<lambda>d. d" and i = "''1''" and e = "sample_entry ''x''" and t = 1 and t' = 2
        and sha = "\<lambda>x. ''a'' @ x" and i' = "''2''" and e' = "sample_entry ''y''" and found = True, OF same_leaf]
    by (simp add: Let_def)
qed

text \<open>
  the module and the correlation id of a row are outside its hash: a table in which they were
  changed verifies exactly as before.
\<close>
theorem module_not_covered:
  "verifyChain sha s t (map (\<lambda>r. r\<lparr>arModule := f r, arCorrelation := g r\<rparr>) rows) = verifyChain sha s t rows"
proof -
  let ?f = "\<lambda>r. r\<lparr>arModule := f r, arCorrelation := g r\<rparr>"
  have ins: "insort_key arCreatedAt (?f r) (map ?f rs) = map ?f (insort_key arCreatedAt r rs)" for r rs by (induction rs) auto
  have sorted: "sort_key arCreatedAt (map ?f rs) = map ?f (sort_key arCreatedAt rs)" for rs by (induction rs) (auto simp: ins)
  have filtered: "filter (\<lambda>r. P (arCreatedAt r)) (map ?f rs) = map ?f (filter (\<lambda>r. P (arCreatedAt r)) rs)" for P rs by (induction rs) auto
  have found: "findByDateRange s t (map ?f rows) = map ?f (findByDateRange s t rows)"
    unfolding findByDateRange_def filtered [where P = "\<lambda>c. s \<le> c \<and> c \<le> t"] sorted ..
  have just: "findJustBefore d (map ?f rows) = map_option ?f (findJustBefore d rows)" for d
    unfolding findJustBefore_def findLast_def filtered [where P = "\<lambda>c. c < d"] sorted
    by (simp add: rev_map split: list.splits)
  have rows: "verify_rows sha n h (map ?f rs) = verify_rows sha n h rs" for n h rs
    by (induction rs arbitrary: n h) (auto simp: chain_broken_def Let_def split: option.splits)
  have anchor: "chain_anchor (map_option ?f b) (?f r) = chain_anchor b r" for b r by (simp add: chain_anchor_def split: option.splits)
  show ?thesis
    unfolding verifyChain_def found
    using rows [of 0 _ "_ # _"] by (cases "findByDateRange s t rows") (simp_all add: just anchor)
qed

end
