(* ===== verification/EventConsumer.thy ===== *)
theory EventConsumer
  imports Alerting
begin

text \<open>
  \<^verbatim>\<open>EventConsumerService\<close> and \<^verbatim>\<open>TelegramAlertService\<close>: every event is counted, may become an
  alert, a row of the trade log and an entry of the audit log; alerts are batched per event name
  unless they are critical.  An event is its name and the fields these services read; texts of
  alerts come from \<open>fmt\<close>, which may fail.  What leaves the services is an effect.
\<close>

section \<open>Severities\<close>

definition CRITICAL_EVENTS :: "string list" where
  "CRITICAL_EVENTS = [''execution.single_leg.exposure'', ''risk.limit.breached'', ''system.trading.halted'', ''system.health.critical'',
     ''system.reconciliation.discrepancy'', ''time.drift.halt'', ''contract.match.resolution.diverged'', ''risk.cluster.limit_breached'',
     ''risk.cluster.aggregate_breached'', ''execution.auto_unwind.attempted'']"

definition WARNING_EVENTS :: "string list" where
  "WARNING_EVENTS = [''execution.order.failed'', ''risk.limit.approached'', ''platform.health.degraded'', ''time.drift.critical'',
     ''time.drift.warning'', ''degradation.protocol.activated'', ''platform.orderbook.stale'', ''platform.data.divergence'', ''platform.data.fallback'']"

definition TELEGRAM_ELIGIBLE_INFO_EVENTS :: "string list" where
  "TELEGRAM_ELIGIBLE_INFO_EVENTS = [''execution.order.filled'', ''execution.exit.triggered'', ''execution.single_leg.resolved'',
     ''detection.opportunity.identified'', ''platform.health.recovered'', ''system.trading.resumed'', ''contract.match.resolution.poll_completed'',
     ''contract.match.calibration.completed'', ''platform.orderbook.recovered'', ''config.bankroll.updated'', ''execution.exit.shadow_daily_summary'',
     ''timescale.retention.completed'']"

definition classifyEventSeverity :: "string \<Rightarrow> severity" where
  "classifyEventSeverity name =
     (if name \<in> set CRITICAL_EVENTS then Critical else if name \<in> set WARNING_EVENTS then Warning else Info)"

section \<open>Batches of alerts\<close>

record alert_batch =
  abMessages :: "string list"
  abSeverity :: severity

record telegram =
  tgEnabled :: bool
  tgBatches :: "(string \<times> alert_batch) list"

datatype telegram_effect =
    SendAlert severity string "string list"
  | StartBatchTimer string

definition MAX_MESSAGES_PER_BATCH :: nat where "MAX_MESSAGES_PER_BATCH = 10"

text \<open>
  An effect \<open>SendAlert\<close> has the messages that go out together: one as it is, several as one
  text that shows the first ten and the number of the others.
\<close>

definition addToBatch :: "string \<Rightarrow> string \<Rightarrow> severity \<Rightarrow> telegram \<Rightarrow> telegram \<times> telegram_effect list" where
  "addToBatch name msg sev t =
     (if sev = Critical then (t, [SendAlert sev name [msg]])
      else
        case map_of (tgBatches t) name of
          Some b \<Rightarrow> (t\<lparr>tgBatches := map_set name \<lparr>abMessages = abMessages b @ [msg],
              abSeverity = (if SEVERITY_PRIORITY (abSeverity b) < SEVERITY_PRIORITY sev then sev else abSeverity b)\<rparr> (tgBatches t)\<rparr>, [])
        | None \<Rightarrow> (t\<lparr>tgBatches := map_set name \<lparr>abMessages = [msg], abSeverity = sev\<rparr> (tgBatches t)\<rparr>, [StartBatchTimer name]))"

definition flushBatch :: "string \<Rightarrow> telegram \<Rightarrow> telegram \<times> telegram_effect list" where
  "flushBatch name t =
     (case map_of (tgBatches t) name of
        None \<Rightarrow> (t, [])
      | Some b \<Rightarrow> (t\<lparr>tgBatches := map_delete name (tgBatches t)\<rparr>, [SendAlert (abSeverity b) name (abMessages b)]))"

definition telegram_destroy :: "telegram \<Rightarrow> telegram \<times> telegram_effect list" where
  "telegram_destroy t =
     (t\<lparr>tgBatches := []\<rparr>, map (\<lambda>(n, b). SendAlert (abSeverity b) n (abMessages b)) (filter (\<lambda>(n, b). abMessages b \<noteq> []) (tgBatches t)))"

definition telegram_init :: "string \<Rightarrow> string \<Rightarrow> telegram" where
  "telegram_init token chat = \<lparr>tgEnabled = (token \<noteq> '''' \<and> chat \<noteq> ''''), tgBatches = []\<rparr>"

text \<open>The alert of an event: the text of its formatter, or the fallback when that fails.\<close>

definition sendEventAlert :: "(string \<Rightarrow> string option) \<Rightarrow> string \<Rightarrow> telegram \<Rightarrow> telegram \<times> telegram_effect list" where
  "sendEventAlert fmt name t =
     (if \<not> tgEnabled t then (t, [])
      else addToBatch name (case fmt name of Some m \<Rightarrow> m | None \<Rightarrow> ''Alert format error'') (classifyEventSeverity name) t)"

section \<open>Events\<close>

record any_event =
  evName :: string
  evOpportunityPair :: "string option"
  evPair :: "string option"

record consumer =
  coTotal :: nat
  coEventCounts :: "(string \<times> nat) list"
  coSeverityCounts :: "severity \<Rightarrow> nat"
  coErrors :: nat
  coDepth :: nat
  coPaper :: bool
  coNotified :: "string list"

datatype consumer_effect =
    SendTelegram string
  | AuditSuppressed string
  | TradeRow string
  | AuditEvent string string

definition MAX_NOTIFIED_PAIRS :: nat where "MAX_NOTIFIED_PAIRS = 1000"

definition extractPairIdFromEvent :: "any_event \<Rightarrow> string option" where
  "extractPairIdFromEvent e =
     (if evName e = ''detection.opportunity.identified'' then evOpportunityPair e
      else if evName e = ''execution.exit.triggered'' \<or> evName e = ''execution.single_leg.resolved'' then evPair e
      else None)"

definition extractModule :: "string \<Rightarrow> string" where
  "extractModule name = takeWhile (\<lambda>c. c \<noteq> CHR ''.'') name"

definition has_trade_row :: "string \<Rightarrow> bool" where
  "has_trade_row name \<longleftrightarrow> name \<in> {''execution.order.filled'', ''execution.exit.triggered'', ''execution.exit.shadow_comparison'',
     ''execution.exit.shadow_daily_summary'', ''execution.auto_unwind.attempted''}"

definition begins_with :: "string \<Rightarrow> string \<Rightarrow> bool" where
  "begins_with p s \<longleftrightarrow> take (length p) s = p"

definition count_event :: "any_event \<Rightarrow> consumer \<Rightarrow> consumer" where
  "count_event e s =
     (let sev = classifyEventSeverity (evName e) in
      s\<lparr>coTotal := coTotal s + 1,
        coEventCounts := map_set (evName e) ((case map_of (coEventCounts s) (evName e) of Some n \<Rightarrow> n | None \<Rightarrow> 0) + 1) (coEventCounts s),
        coSeverityCounts := (coSeverityCounts s)(sev := coSeverityCounts s sev + 1)\<rparr>)"

definition wants_telegram :: "string \<Rightarrow> bool" where
  "wants_telegram name \<longleftrightarrow> classifyEventSeverity name \<noteq> Info \<or> name \<in> set TELEGRAM_ELIGIBLE_INFO_EVENTS"

text \<open>The pair of an opportunity in paper mode that was notified before is not alerted again.\<close>

definition dedup_opportunity :: "any_event \<Rightarrow> consumer \<Rightarrow> consumer \<times> bool \<times> consumer_effect list" where
  "dedup_opportunity e s =
     (if \<not> wants_telegram (evName e) then (s, False, [])
      else if \<not> coPaper s \<or> evName e \<noteq> ''detection.opportunity.identified'' then (s, True, [])
      else
        case extractPairIdFromEvent e of
          None \<Rightarrow> (s, True, [])
        | Some p \<Rightarrow>
            if p = '''' then (s, True, [])
            else if p \<in> set (coNotified s) then (s, False, [AuditSuppressed p])
            else (s\<lparr>coNotified := set_add p (if MAX_NOTIFIED_PAIRS \<le> length (coNotified s) then [] else coNotified s)\<rparr>, True, []))"

definition forget_pair :: "any_event \<Rightarrow> consumer \<Rightarrow> consumer" where
  "forget_pair e s =
     (if coPaper s \<and> (evName e = ''execution.exit.triggered'' \<or> evName e = ''execution.single_leg.resolved'') then
        case extractPairIdFromEvent e of Some p \<Rightarrow> s\<lparr>coNotified := set_delete p (coNotified s)\<rparr> | None \<Rightarrow> s
      else s)"

text \<open>
  The alert is sent between raising and lowering the depth; an event that arrives in that time
  finds the depth raised.  The flag is whether a row can be built without an error.
\<close>

definition consumer_handleEvent :: "bool \<Rightarrow> any_event \<Rightarrow> consumer \<Rightarrow> consumer \<times> consumer_effect list" where
  "consumer_handleEvent rowOk e s =
     (case dedup_opportunity e (count_event e s) of
        (s1, send, effs1) \<Rightarrow>
          let s2 = forget_pair e s1 in
          if send \<and> 0 < coDepth s2 then (s2, effs1)
          else
            let effs2 = effs1 @ (if send then [SendTelegram (evName e)] else []) in
            if has_trade_row (evName e) \<and> \<not> rowOk then (s2\<lparr>coErrors := coErrors s2 + 1\<rparr>, effs2)
            else (s2, effs2 @ (if has_trade_row (evName e) then [TradeRow (evName e)] else [])
                    @ (if begins_with ''monitoring.audit.'' (evName e) then [] else [AuditEvent (evName e) (extractModule (evName e))])))"

definition fresh_consumer :: "string \<Rightarrow> string \<Rightarrow> consumer" where
  "fresh_consumer kalshiMode polymarketMode =
     \<lparr>coTotal = 0, coEventCounts = [], coSeverityCounts = (\<lambda>_. 0), coErrors = 0, coDepth = 0,
      coPaper = (kalshiMode = ''paper'' \<or> polymarketMode = ''paper''), coNotified = []\<rparr>"

definition resetMetrics :: "consumer \<Rightarrow> consumer" where
  "resetMetrics s = s\<lparr>coTotal := 0, coEventCounts := [], coSeverityCounts := (\<lambda>_. 0), coErrors := 0\<rparr>"

definition consumer_destroy :: "consumer \<Rightarrow> consumer" where
  "consumer_destroy s = s\<lparr>coNotified := []\<rparr>"

text \<open>Events one after the other, each with whether its row can be built.\<close>

fun consume :: "(any_event \<times> bool) list \<Rightarrow> consumer \<Rightarrow> consumer \<times> consumer_effect list" where
  "consume [] s = (s, [])"
| "consume ((e, ok) # es) s =
     (case consumer_handleEvent ok e s of (s1, effs1) \<Rightarrow> (case consume es s1 of (s2, effs2) \<Rightarrow> (s2, effs1 @ effs2)))"

section \<open>What an event leads to\<close>

lemma count_event_simps [simp]: "coNotified (count_event e s) = coNotified s" "coPaper (count_event e s) = coPaper s" "coDepth (count_event e s) = coDepth s"
  by (simp_all add: count_event_def Let_def)

lemma forget_simps [simp]: "coPaper (forget_pair e s) = coPaper s" "coDepth (forget_pair e s) = coDepth s"
  by (simp_all add: forget_pair_def split: option.splits)

lemma dedup_simps [simp]: "coPaper (fst (dedup_opportunity e s)) = coPaper s" "coDepth (fst (dedup_opportunity e s)) = coDepth s"
  by (simp_all add: dedup_opportunity_def split: option.splits)

lemma handled_frame [simp]: "coPaper (fst (consumer_handleEvent ok e s)) = coPaper s" "coDepth (fst (consumer_handleEvent ok e s)) = coDepth s"
  using dedup_simps [of e "count_event e s"] by (auto simp: consumer_handleEvent_def Let_def case_prod_unfold)

text \<open>
  outside paper mode an event is alerted exactly when it is critical, a warning or one of the
  listed ones, and it is written to the audit log unless it is an event of that log itself or its
  row of the trade log cannot be built.
\<close>
theorem event_routed:
  assumes "coDepth s = 0" "\<not> coPaper s"
  shows "snd (consumer_handleEvent ok e s) =
    (if classifyEventSeverity (evName e) \<noteq> Info \<or> evName e \<in> set TELEGRAM_ELIGIBLE_INFO_EVENTS then [SendTelegram (evName e)] else [])
    @ (if has_trade_row (evName e) \<and> \<not> ok then []
       else (if has_trade_row (evName e) then [TradeRow (evName e)] else [])
         @ (if begins_with ''monitoring.audit.'' (evName e) then [] else [AuditEvent (evName e) (extractModule (evName e))]))"
  using assms by (simp add: consumer_handleEvent_def dedup_opportunity_def wants_telegram_def Let_def)

theorem event_routed_witness:
  "snd (consumer_handleEvent True \<lparr>evName = ''time.drift.halt'', evOpportunityPair = None, evPair = None\<rparr> (fresh_consumer ''live'' ''live''))
   = [SendTelegram ''time.drift.halt'', AuditEvent ''time.drift.halt'' ''time'']"
  using event_routed [of "fresh_consumer ''live'' ''live''" True "\<lparr>evName = ''time.drift.halt'', evOpportunityPair = None, evPair = None\<rparr>"]
  by (simp add: fresh_consumer_def classifyEventSeverity_def CRITICAL_EVENTS_def has_trade_row_def begins_with_def extractModule_def)

text \<open>
  a broken audit chain and a failed audit write lead to nothing, and an alarm of the stress test
  to an audit entry only: nobody is alerted.
\<close>
theorem alarms_without_alert:
  "snd (consumer_handleEvent ok (e\<lparr>evName := ''monitoring.audit.chain_broken''\<rparr>) s) = []
   \<and> snd (consumer_handleEvent ok (e\<lparr>evName := ''monitoring.audit.write_failed''\<rparr>) s) = []
   \<and> snd (consumer_handleEvent ok (e\<lparr>evName := ''risk.stress_test.alert''\<rparr>) s) = [AuditEvent ''risk.stress_test.alert'' ''risk'']"
  by (simp add: consumer_handleEvent_def dedup_opportunity_def wants_telegram_def classifyEventSeverity_def CRITICAL_EVENTS_def WARNING_EVENTS_def
      TELEGRAM_ELIGIBLE_INFO_EVENTS_def has_trade_row_def begins_with_def extractModule_def Let_def)

section \<open>Repeated opportunities\<close>

definition opportunity_of :: "string \<Rightarrow> any_event \<Rightarrow> bool" where
  "opportunity_of p e \<longleftrightarrow> evName e = ''detection.opportunity.identified'' \<and> evOpportunityPair e = Some p"

definition closes_pair :: "string \<Rightarrow> any_event \<Rightarrow> bool" where
  "closes_pair p e \<longleftrightarrow> (evName e = ''execution.exit.triggered'' \<or> evName e = ''execution.single_leg.resolved'') \<and> evPair e = Some p"

text \<open>The number of alerts sent for opportunities of a pair.\<close>

fun opportunity_alerts :: "string \<Rightarrow> (any_event \<times> bool) list \<Rightarrow> consumer \<Rightarrow> nat" where
  "opportunity_alerts p [] s = 0"
| "opportunity_alerts p ((e, ok) # es) s =
     (case consumer_handleEvent ok e s of
        (s1, effs) \<Rightarrow> (if opportunity_of p e \<and> SendTelegram (evName e) \<in> set effs then 1 else 0) + opportunity_alerts p es s1)"

lemma handled_notified:
  "coNotified (fst (consumer_handleEvent ok e s)) = coNotified (forget_pair e (fst (dedup_opportunity e (count_event e s))))"
  by (simp add: consumer_handleEvent_def Let_def case_prod_unfold)

lemma handled_alert:
  "SendTelegram n \<in> set (snd (consumer_handleEvent ok e s)) \<Longrightarrow> fst (snd (dedup_opportunity e (count_event e s)))"
  by (auto simp: consumer_handleEvent_def dedup_opportunity_def Let_def split: option.splits if_splits)

lemma opportunity_wanted: "wants_telegram ''detection.opportunity.identified''"
  by (simp add: wants_telegram_def TELEGRAM_ELIGIBLE_INFO_EVENTS_def)

lemma notified_length:
  assumes "length (coNotified s) < MAX_NOTIFIED_PAIRS"
  shows "length (coNotified (fst (consumer_handleEvent ok e s))) \<le> length (coNotified s) + 1"
proof -
  have l: "length (set_delete q xs) \<le> length xs" "length (set_add q xs) \<le> Suc (length xs)" for q :: string and xs
    by (simp_all add: set_delete_def set_add_def)
  have "length (coNotified (fst (dedup_opportunity e (count_event e s)))) \<le> Suc (length (coNotified s))"
    using assms l by (auto simp: dedup_opportunity_def split: option.splits)
  moreover have "length (coNotified (forget_pair e s1)) \<le> length (coNotified s1)" for s1
    using l by (auto simp: forget_pair_def split: option.splits)
  ultimately show ?thesis unfolding handled_notified by (metis Suc_eq_plus1 le_trans)
qed

lemma notified_kept:
  assumes "length (coNotified s) < MAX_NOTIFIED_PAIRS" "p \<in> set (coNotified s)" "\<not> closes_pair p e"
  shows "p \<in> set (coNotified (fst (consumer_handleEvent ok e s)))"
proof -
  have "p \<in> set (coNotified (fst (dedup_opportunity e (count_event e s))))"
    using assms(1,2) by (auto simp: dedup_opportunity_def split: option.splits)
  then show ?thesis using assms(3)
    by (auto simp: handled_notified forget_pair_def closes_pair_def extractPairIdFromEvent_def split: option.splits)
qed

lemma alerted_new:
  assumes "coPaper s" "p \<noteq> ''''" "opportunity_of p e" "SendTelegram n \<in> set (snd (consumer_handleEvent ok e s))"
  shows "p \<notin> set (coNotified s) \<and> p \<in> set (coNotified (fst (consumer_handleEvent ok e s)))"
  using handled_alert [OF assms(4)] assms(1-3) opportunity_wanted
  by (auto simp: handled_notified dedup_opportunity_def forget_pair_def opportunity_of_def extractPairIdFromEvent_def split: if_splits)

definition closings :: "string \<Rightarrow> (any_event \<times> bool) list \<Rightarrow> nat" where
  "closings p es = length (filter (\<lambda>(e, _). closes_pair p e) es)"

lemma alerts_bounded:
  "coPaper s \<Longrightarrow> p \<noteq> '''' \<Longrightarrow> length (coNotified s) + length es \<le> MAX_NOTIFIED_PAIRS
    \<Longrightarrow> opportunity_alerts p es s \<le> closings p es + (if p \<in> set (coNotified s) then 0 else 1)"
proof (induction es arbitrary: s)
  case (Cons x es)
  obtain e ok where x: "x = (e, ok)" by (cases x)
  let ?s = "fst (consumer_handleEvent ok e s)"
  have len: "length (coNotified s) < MAX_NOTIFIED_PAIRS" using Cons.prems(3) by simp
  have "length (coNotified ?s) + length es \<le> MAX_NOTIFIED_PAIRS" using notified_length [OF len, of ok e] Cons.prems(3) by simp
  then have IH: "opportunity_alerts p es ?s \<le> closings p es + (if p \<in> set (coNotified ?s) then 0 else 1)"
    using Cons.IH [of ?s] Cons.prems(1,2) by simp
  show ?case
  proof (cases "opportunity_of p e \<and> SendTelegram (evName e) \<in> set (snd (consumer_handleEvent ok e s))")
    case True
    then show ?thesis using IH alerted_new [of s p e "evName e" ok] Cons.prems(1,2) by (auto simp: x case_prod_unfold closings_def split: if_splits)
  next
    case False
    then show ?thesis using IH notified_kept [OF len, of p e ok] by (auto simp: x case_prod_unfold closings_def split: if_splits)
  qed
qed (simp add: closings_def)

text \<open>
  in paper mode, over up to a thousand events, a pair's opportunities are alerted at most once
  more than the pair is closed.
\<close>
theorem paper_alerts_bounded:
  assumes "kalshiMode = ''paper'' \<or> polymarketMode = ''paper''" "p \<noteq> ''''" "length es \<le> MAX_NOTIFIED_PAIRS"
  shows "opportunity_alerts p es (fresh_consumer kalshiMode polymarketMode) \<le> closings p es + 1"
  using alerts_bounded [of "fresh_consumer kalshiMode polymarketMode" p es] assms by (simp add: fresh_consumer_def)

theorem paper_alerts_bounded_witness:
  "opportunity_alerts ''P'' (replicate 3 (\<lparr>evName = ''detection.opportunity.identified'', evOpportunityPair = Some ''P'', evPair = None\<rparr>, True))
     (fresh_consumer ''paper'' ''live'') \<le> 1"
  using paper_alerts_bounded [of "''paper''" "''live''" "''P''" "replicate 3 (\<lparr>evName = ''detection.opportunity.identified'', evOpportunityPair = Some ''P'', evPair = None\<rparr>, True)"]
  by (simp add: MAX_NOTIFIED_PAIRS_def closings_def closes_pair_def)

section \<open>No alert is lost before the breaker\<close>

datatype telegram_op = AlertOp string | FlushOp string | DestroyOp

fun telegram_step :: "(string \<Rightarrow> string option) \<Rightarrow> telegram_op \<Rightarrow> telegram \<Rightarrow> telegram \<times> telegram_effect list" where
  "telegram_step fmt (AlertOp n) t = sendEventAlert fmt n t"
| "telegram_step fmt (FlushOp n) t = flushBatch n t"
| "telegram_step fmt DestroyOp t = telegram_destroy t"

fun telegram_run :: "(string \<Rightarrow> string option) \<Rightarrow> telegram_op list \<Rightarrow> telegram \<Rightarrow> telegram \<times> telegram_effect list" where
  "telegram_run fmt [] t = (t, [])"
| "telegram_run fmt (x # xs) t =
     (case telegram_step fmt x t of (t1, e1) \<Rightarrow> (case telegram_run fmt xs t1 of (t2, e2) \<Rightarrow> (t2, e1 @ e2)))"

text \<open>The events whose alerts were sent, and those whose alerts wait.\<close>

definition sent_alerts :: "telegram_effect list \<Rightarrow> string multiset" where
  "sent_alerts effs = (\<Sum>e\<leftarrow>effs. case e of SendAlert _ n ms \<Rightarrow> mset (map (\<lambda>_. n) ms) | StartBatchTimer _ \<Rightarrow> {#})"

definition waiting_alerts :: "telegram \<Rightarrow> string multiset" where
  "waiting_alerts t = (\<Sum>(n, b)\<leftarrow>tgBatches t. mset (map (\<lambda>_. n) (abMessages b)))"

definition raised_alerts :: "telegram_op list \<Rightarrow> string multiset" where
  "raised_alerts ops = mset (concat (map (\<lambda>x. case x of AlertOp n \<Rightarrow> [n] | _ \<Rightarrow> []) ops))"

definition distinct_batches :: "telegram \<Rightarrow> bool" where
  "distinct_batches t \<longleftrightarrow> distinct (map fst (tgBatches t))"

lemma sent_simps [simp]: "sent_alerts [] = {#}" "sent_alerts (a @ b) = sent_alerts a + sent_alerts b"
  "sent_alerts [SendAlert sev n ms] = mset (map (\<lambda>_. n) ms)" "sent_alerts [StartBatchTimer n] = {#}"
  by (simp_all add: sent_alerts_def)

lemma waiting_simps [simp]: "waiting_alerts \<lparr>tgEnabled = b, tgBatches = []\<rparr> = {#}" "waiting_alerts (t\<lparr>tgBatches := []\<rparr>) = {#}"
  by (simp_all add: waiting_alerts_def)

lemma added_alert:
  assumes "distinct_batches t" "addToBatch n msg sev t = (t1, effs)"
  shows "distinct_batches t1 \<and> sent_alerts effs + waiting_alerts t1 = waiting_alerts t + {#n#} \<and> tgEnabled t1 = tgEnabled t"
proof (cases "map_of (tgBatches t) n")
  case None
  then show ?thesis using assms by (auto simp: addToBatch_def waiting_alerts_def map_set_fresh distinct_batches_def distinct_map_set split: if_splits)
next
  case (Some b)
  obtain xs ys where bs: "tgBatches t = xs @ (n, b) # ys" "map_of xs n = None" "map_of ys n = None"
    using map_of_split [OF Some] assms(1) by (auto simp: distinct_batches_def)
  let ?b = "\<lparr>abMessages = abMessages b @ [msg], abSeverity = (if SEVERITY_PRIORITY (abSeverity b) < SEVERITY_PRIORITY sev then sev else abSeverity b)\<rparr>"
  have "addToBatch n msg sev t = (if sev = Critical then (t, [SendAlert sev n [msg]]) else (t\<lparr>tgBatches := xs @ (n, ?b) # ys\<rparr>, []))"
    using map_set_split [OF bs(2)] by (simp add: addToBatch_def Some) (simp add: bs(1))
  then show ?thesis using assms by (auto simp: waiting_alerts_def distinct_batches_def bs(1) split: if_splits)
qed

lemma flushed_alerts:
  assumes "distinct_batches t" "flushBatch n t = (t1, effs)"
  shows "distinct_batches t1 \<and> sent_alerts effs + waiting_alerts t1 = waiting_alerts t \<and> tgEnabled t1 = tgEnabled t"
proof (cases "map_of (tgBatches t) n")
  case None
  then show ?thesis using assms by (auto simp: flushBatch_def)
next
  case (Some b)
  obtain xs ys where bs: "tgBatches t = xs @ (n, b) # ys" "map_of xs n = None" "map_of ys n = None"
    using map_of_split [OF Some] assms(1) by (auto simp: distinct_batches_def)
  have "flushBatch n t = (t\<lparr>tgBatches := xs @ ys\<rparr>, [SendAlert (abSeverity b) n (abMessages b)])"
    using map_delete_split [OF bs(2,3)] by (simp add: flushBatch_def Some) (simp add: bs(1))
  then show ?thesis using assms by (auto simp: waiting_alerts_def distinct_batches_def bs(1))
qed

lemma destroyed_alerts: "sent_alerts (snd (telegram_destroy t)) = waiting_alerts t"
proof -
  have "sent_alerts (map (\<lambda>(n, b). SendAlert (abSeverity b) n (abMessages b)) (filter (\<lambda>(n, b). abMessages b \<noteq> []) bs))
      = (\<Sum>(n, b)\<leftarrow>bs. mset (map (\<lambda>_. n) (abMessages b)))" for bs
    by (induction bs) (auto simp: sent_alerts_def)
  then show ?thesis by (simp add: telegram_destroy_def waiting_alerts_def)
qed

lemma telegram_step_alerts:
  assumes "distinct_batches t" "tgEnabled t" "telegram_step fmt x t = (t1, effs)"
  shows "distinct_batches t1 \<and> sent_alerts effs + waiting_alerts t1 = waiting_alerts t + raised_alerts [x] \<and> tgEnabled t1"
proof (cases x)
  case (AlertOp n)
  then show ?thesis using assms added_alert [OF assms(1)] by (auto simp: sendEventAlert_def raised_alerts_def)
next
  case (FlushOp n)
  then show ?thesis using assms flushed_alerts [OF assms(1)] by (auto simp: raised_alerts_def)
next
  case DestroyOp
  then show ?thesis using assms destroyed_alerts [of t] by (auto simp: telegram_destroy_def raised_alerts_def distinct_batches_def)
qed

lemma telegram_run_alerts:
  "distinct_batches t \<Longrightarrow> tgEnabled t \<Longrightarrow> sent_alerts (snd (telegram_run fmt ops t)) + waiting_alerts (fst (telegram_run fmt ops t))
     = waiting_alerts t + raised_alerts ops"
proof (induction ops arbitrary: t)
  case (Cons x ops)
  obtain t1 e1 where s: "telegram_step fmt x t = (t1, e1)" by fastforce
  have split: "raised_alerts (x # ops) = raised_alerts [x] + raised_alerts ops" by (simp add: raised_alerts_def)
  show ?case using Cons.IH [of t1] telegram_step_alerts [OF Cons.prems s]
    by (simp add: s case_prod_unfold split) (metis union_assoc union_commute)
qed (simp add: raised_alerts_def)

text \<open>
  C33: with a token and a chat, every alert raised is handed to the circuit breaker or waits in a batch
  whose timer runs, exactly once, whatever the order of alerts, timers and shutdown.
\<close>
theorem alerts_handed_over_once:
  assumes "token \<noteq> ''''" "chat \<noteq> ''''"
  shows "case telegram_run fmt ops (telegram_init token chat) of (t, effs) \<Rightarrow> sent_alerts effs + waiting_alerts t = raised_alerts ops"
  using telegram_run_alerts [of "telegram_init token chat" fmt ops] assms
  by (simp add: telegram_init_def distinct_batches_def case_prod_unfold)

theorem alerts_handed_over_once_witness:
  "sent_alerts (snd (telegram_run Some [AlertOp ''a'', AlertOp ''a'', FlushOp ''a''] (telegram_init ''t'' ''c''))) = {#''a'', ''a''#}"
  using alerts_handed_over_once [where token = "''t''" and chat = "''c''" and fmt = Some and ops = "[AlertOp ''a'', AlertOp ''a'', FlushOp ''a'']"]
  by (simp add: telegram_init_def sendEventAlert_def addToBatch_def flushBatch_def classifyEventSeverity_def CRITICAL_EVENTS_def WARNING_EVENTS_def
      raised_alerts_def waiting_alerts_def)

end
