(* ===== verification/PlatformHealth.thy ===== *)
theory PlatformHealth
  imports DataQuality Normalizer
begin

text \<open>
  \<^verbatim>\<open>PlatformHealthService\<close>: the age and latency of each platform's data, staleness of
  contracts, and the periodic check that drives the degradation protocol.  The check returns in its
  first statement; what follows it in the source is \<open>health_tick\<close>, so that both can be compared.
  A connector always counts as connected, as in the source.  \<open>now\<close> is the clock of a call.
\<close>

section \<open>State\<close>

datatype health_status = HealthyStatus | DegradedStatus | DisconnectedStatus | InitializingStatus

record health_report =
  hrPlatform :: platform
  hrStatus :: health_status
  hrHeartbeat :: "timestamp option"
  hrLatency :: "int option"
  hrReason :: "string option"

record platform_health =
  phLastUpdate :: "(platform \<times> timestamp) list"
  phLatencies :: "(platform \<times> int list) list"
  phPrevious :: "(platform \<times> health_status) list"
  phUnhealthyTicks :: "(platform \<times> nat) list"
  phHealthyTicks :: "(platform \<times> nat) list"
  phStale :: "(platform \<times> bool) list"
  phStaleStart :: "(platform \<times> timestamp) list"
  phStaleThreshold :: jsnum
  phContracts :: "(string \<times> timestamp) list"
  phWsMessages :: "(platform \<times> timestamp) list"

definition STALENESS_THRESHOLD :: int where "STALENESS_THRESHOLD = 60000"
definition DEGRADED_LATENCY_THRESHOLD :: int where "DEGRADED_LATENCY_THRESHOLD = 2000"
definition DATA_FRESHNESS_THRESHOLD :: int where "DATA_FRESHNESS_THRESHOLD = 30000"
definition UNHEALTHY_TICKS :: nat where "UNHEALTHY_TICKS = 2"
definition HEALTHY_TICKS :: nat where "HEALTHY_TICKS = 2"

definition platform_health_init :: "jsnum \<Rightarrow> platform_health" where
  "platform_health_init threshold = \<lparr>phLastUpdate = [], phLatencies = [], phPrevious = [],
     phUnhealthyTicks = [(Kalshi, 0), (Polymarket, 0)], phHealthyTicks = [(Kalshi, 0), (Polymarket, 0)],
     phStale = [(Kalshi, False), (Polymarket, False)], phStaleStart = [], phStaleThreshold = threshold, phContracts = [], phWsMessages = []\<rparr>"

text \<open>\<^verbatim>\<open>map.get(key) ?? d\<close>.\<close>

definition get_or :: "'v \<Rightarrow> ('k \<times> 'v) list \<Rightarrow> 'k \<Rightarrow> 'v" where
  "get_or d m k = (case map_of m k of Some v \<Rightarrow> v | None \<Rightarrow> d)"

section \<open>Updates\<close>

definition recordUpdate :: "timestamp \<Rightarrow> platform \<Rightarrow> int \<Rightarrow> platform_health \<Rightarrow> platform_health" where
  "recordUpdate now p ms s =
     (let samples = get_or [] (phLatencies s) p @ [ms] in
      s\<lparr>phLastUpdate := map_set p now (phLastUpdate s),
        phLatencies := map_set p (if 100 < length samples then tl samples else samples) (phLatencies s)\<rparr>)"

definition recordContractUpdate :: "timestamp \<Rightarrow> platform \<Rightarrow> string \<Rightarrow> int \<Rightarrow> bool \<Rightarrow> platform_health \<Rightarrow> platform_health" where
  "recordContractUpdate now p c ms fromWs s =
     (let s1 = recordUpdate now p ms (s\<lparr>phContracts := map_set (data_key p c) now (phContracts s)\<rparr>) in
      if fromWs then s1\<lparr>phWsMessages := map_set p now (phWsMessages s1)\<rparr> else s1)"

definition removeContractTracking :: "platform \<Rightarrow> string \<Rightarrow> platform_health \<Rightarrow> platform_health" where
  "removeContractTracking p c s = s\<lparr>phContracts := map_delete (data_key p c) (phContracts s)\<rparr>"

section \<open>Queries\<close>

text \<open>The age of stale data, \<open>None\<close> when it is not stale.\<close>

definition stale_age :: "timestamp \<Rightarrow> timestamp \<Rightarrow> platform_health \<Rightarrow> int option" where
  "stale_age now t s = (if xgt (Fin (of_int (now - t))) (phStaleThreshold s) then Some (now - t) else None)"

definition getOrderbookStaleness :: "timestamp \<Rightarrow> platform \<Rightarrow> platform_health \<Rightarrow> int option" where
  "getOrderbookStaleness now p s =
     (let lastUpdate = get_or 0 (phLastUpdate s) p in if lastUpdate = 0 then None else stale_age now lastUpdate s)"

definition getContractStaleness :: "timestamp \<Rightarrow> platform \<Rightarrow> string \<Rightarrow> platform_health \<Rightarrow> int option" where
  "getContractStaleness now p c s =
     (case map_of (phContracts s) (data_key p c) of None \<Rightarrow> None | Some t \<Rightarrow> stale_age now t s)"

definition getWsLastMessageTimestamp :: "platform \<Rightarrow> platform_health \<Rightarrow> timestamp option" where
  "getWsLastMessageTimestamp p s = map_of (phWsMessages s) p"

definition calculateP95Latency :: "platform \<Rightarrow> platform_health \<Rightarrow> int option" where
  "calculateP95Latency p s =
     (let samples = get_or [] (phLatencies s) p; ss = sort samples; i = p95_index (length ss) in
      if samples = [] \<or> length ss \<le> i \<or> ss ! i = 0 then None else Some (ss ! i))"

definition calculateHealth :: "timestamp \<Rightarrow> platform \<Rightarrow> platform_health \<Rightarrow> health_report" where
  "calculateHealth now p s =
     (let lastUpdate = get_or 0 (phLastUpdate s) p; p95 = calculateP95Latency p s in
      if lastUpdate = 0 then
        \<lparr>hrPlatform = p, hrStatus = InitializingStatus, hrHeartbeat = None, hrLatency = None, hrReason = Some ''no_data_received''\<rparr>
      else if STALENESS_THRESHOLD < now - lastUpdate then
        \<lparr>hrPlatform = p, hrStatus = DegradedStatus, hrHeartbeat = Some lastUpdate, hrLatency = p95, hrReason = Some ''stale_data''\<rparr>
      else if (case p95 of Some l \<Rightarrow> DEGRADED_LATENCY_THRESHOLD < l | None \<Rightarrow> False) then
        \<lparr>hrPlatform = p, hrStatus = DegradedStatus, hrHeartbeat = Some lastUpdate, hrLatency = p95, hrReason = Some ''high_latency''\<rparr>
      else \<lparr>hrPlatform = p, hrStatus = HealthyStatus, hrHeartbeat = Some lastUpdate, hrLatency = p95, hrReason = None\<rparr>)"

definition getAggregatedHealth :: "timestamp \<Rightarrow> platform_health \<Rightarrow> (platform \<times> health_report) list" where
  "getAggregatedHealth now s = map (\<lambda>p. (p, calculateHealth now p s)) [Kalshi, Polymarket]"

section \<open>The periodic check\<close>

datatype health_event =
    HealthLogRow platform health_status
  | HealthUpdated health_report
  | HealthDegraded platform health_status
  | HealthRecovered platform
  | HealthDisconnected platform
  | OrderbookStale platform timestamp int
  | OrderbookRecovered platform int
  | Protocol degradation_event

definition publishHealth :: "platform_health \<times> degradation \<Rightarrow> (platform_health \<times> degradation) \<times> health_event list" where
  "publishHealth s = (s, [])"

definition unhealthy :: "health_status \<Rightarrow> bool" where
  "unhealthy st \<longleftrightarrow> st = DegradedStatus \<or> st = DisconnectedStatus"

definition count_tick :: "platform \<Rightarrow> health_status \<Rightarrow> platform_health \<Rightarrow> platform_health" where
  "count_tick p st s =
     (if unhealthy st then
        s\<lparr>phUnhealthyTicks := map_set p (get_or 0 (phUnhealthyTicks s) p + 1) (phUnhealthyTicks s), phHealthyTicks := map_set p 0 (phHealthyTicks s)\<rparr>
      else
        s\<lparr>phHealthyTicks := map_set p (get_or 0 (phHealthyTicks s) p + 1) (phHealthyTicks s), phUnhealthyTicks := map_set p 0 (phUnhealthyTicks s)\<rparr>)"

definition transition_events :: "platform \<Rightarrow> health_status \<Rightarrow> health_status \<Rightarrow> health_event list" where
  "transition_events p before_status st =
     (if st = DegradedStatus \<and> before_status \<noteq> DegradedStatus \<and> before_status \<noteq> InitializingStatus then [HealthDegraded p before_status]
      else if st = HealthyStatus \<and> before_status = DegradedStatus then [HealthRecovered p]
      else if st = DisconnectedStatus \<and> before_status \<noteq> DisconnectedStatus then [HealthDisconnected p]
      else [])"

definition check_stale :: "timestamp \<Rightarrow> platform \<Rightarrow> platform_health \<Rightarrow> platform_health \<times> health_event list" where
  "check_stale now p s =
     (let lastUpdate = get_or 0 (phLastUpdate s) p; age = now - lastUpdate;
          isNowStale = (0 < lastUpdate \<and> xgt (Fin (of_int age)) (phStaleThreshold s)); wasStale = get_or False (phStale s) p
      in if isNowStale \<and> \<not> wasStale then
           (s\<lparr>phStale := map_set p True (phStale s), phStaleStart := map_set p now (phStaleStart s)\<rparr>, [OrderbookStale p lastUpdate age])
         else if \<not> isNowStale \<and> wasStale then
           (s\<lparr>phStale := map_set p False (phStale s), phStaleStart := map_delete p (phStaleStart s)\<rparr>,
            [OrderbookRecovered p (now - get_or now (phStaleStart s) p)])
         else (s, []))"

definition check_protocol :: "timestamp \<Rightarrow> platform \<Rightarrow> platform_health \<Rightarrow> degradation \<Rightarrow> degradation \<times> degradation_event list" where
  "check_protocol now p s d =
     (let lastUpdate = get_or 0 (phLastUpdate s) p;
          (d1, e1) = (if UNHEALTHY_TICKS \<le> get_or 0 (phUnhealthyTicks s) p \<and> \<not> isDegraded p d
                      then activateProtocol p ''websocket_timeout'' (if 0 < lastUpdate then Some lastUpdate else None) now d else (d, []));
          (d2, e2) = (if HEALTHY_TICKS \<le> get_or 0 (phHealthyTicks s) p \<and> isDegraded p d1 \<and> now - lastUpdate \<le> DATA_FRESHNESS_THRESHOLD
                      then deactivateProtocol p now d1 else (d1, []))
      in (d2, e1 @ e2))"

definition check_platform :: "timestamp \<Rightarrow> platform \<Rightarrow> platform_health \<times> degradation \<Rightarrow> (platform_health \<times> degradation) \<times> health_event list" where
  "check_platform now p = (\<lambda>(s, d).
     (let before_status = get_or InitializingStatus (phPrevious s) p; report = calculateHealth now p s; st = hrStatus report;
          s1 = count_tick p st s; (s2, e2) = check_stale now p s1; (d1, e3) = check_protocol now p s2 d
      in ((s2\<lparr>phPrevious := map_set p st (phPrevious s2)\<rparr>, d1),
          (if st \<noteq> before_status then [HealthLogRow p st] else []) @ [HealthUpdated report] @ transition_events p before_status st @ e2 @ map Protocol e3)))"

definition health_tick :: "timestamp \<Rightarrow> platform_health \<times> degradation \<Rightarrow> (platform_health \<times> degradation) \<times> health_event list" where
  "health_tick now sd =
     (case check_platform now Kalshi sd of (sd1, e1) \<Rightarrow> (case check_platform now Polymarket sd1 of (sd2, e2) \<Rightarrow> (sd2, e1 @ e2)))"

section \<open>Health\<close>

text \<open>
  a platform is reported healthy exactly when data has arrived, the last of it at most a minute
  ago, and the 95th percentile of its latencies, where there is one, is at most two seconds.
\<close>
theorem healthy_iff_fresh_and_fast:
  "hrStatus (calculateHealth now p s) = HealthyStatus \<longleftrightarrow>
     get_or 0 (phLastUpdate s) p \<noteq> 0 \<and> now - get_or 0 (phLastUpdate s) p \<le> 60000
     \<and> (case calculateP95Latency p s of Some l \<Rightarrow> l \<le> 2000 | None \<Rightarrow> True)"
  by (auto simp: calculateHealth_def Let_def STALENESS_THRESHOLD_def DEGRADED_LATENCY_THRESHOLD_def split: option.splits)

section \<open>The protocol is never activated\<close>

text \<open>Every call of the service and of the polling cycle, in any order.\<close>

inductive service_step :: "platform_health \<times> degradation \<Rightarrow> platform_health \<times> degradation \<Rightarrow> bool" where
  updated: "service_step (s, d) (recordUpdate now p ms s, d)"
| contract_updated: "service_step (s, d) (recordContractUpdate now p c ms w s, d)"
| untracked: "service_step (s, d) (removeContractTracking p c s, d)"
| published: "service_step sd (fst (publishHealth sd))"
| polled: "service_step (s, d) (s, incrementPollingCycle p d)"

lemma steps_keep_protocol: "service_step sd sd' \<Longrightarrow> degradedPlatforms (snd sd) = [] \<Longrightarrow> degradedPlatforms (snd sd') = []"
  by (induction rule: service_step.induct) (auto simp: publishHealth_def incrementPollingCycle_def)

text \<open>
  no sequence of calls degrades a platform or widens a threshold, even while its health is
  degraded and its order books are stale: the check that would do so returns at once.
\<close>
theorem stale_platform_never_degraded:
  assumes "service_step\<^sup>*\<^sup>* (platform_health_init threshold, degradation_init k) (s, d)"
  shows "\<not> isDegraded p d \<and> getEdgeThresholdMultiplier p d = Fin 1"
proof -
  have "degradedPlatforms (snd (s, d)) = []"
    using assms by (induction rule: rtranclp_induct) (auto simp: degradation_init_def elim: steps_keep_protocol)
  then show ?thesis by (simp add: isDegraded_def getEdgeThresholdMultiplier_def)
qed

theorem stale_platform_never_degraded_witness:
  "let s = recordUpdate 1000 Kalshi 50 (platform_health_init (Fin 90000)) in
     hrStatus (calculateHealth 200000 Kalshi s) = DegradedStatus \<and> getOrderbookStaleness 200000 Kalshi s = Some 199000
     \<and> \<not> isDegraded Kalshi (degradation_init (Fin 2))"
proof -
  let ?s = "recordUpdate 1000 Kalshi 50 (platform_health_init (Fin 90000))"
  have "service_step\<^sup>*\<^sup>* (platform_health_init (Fin 90000), degradation_init (Fin 2)) (?s, degradation_init (Fin 2))"
    by (rule r_into_rtranclp) (rule service_step.updated)
  from stale_platform_never_degraded [OF this, of Kalshi] show ?thesis
    by (simp add: recordUpdate_def platform_health_init_def calculateHealth_def get_or_def Let_def STALENESS_THRESHOLD_def
        getOrderbookStaleness_def stale_age_def)
qed

section \<open>The check behind the return\<close>

lemma get_or_set [simp]: "get_or d (map_set k v m) k' = (if k = k' then v else get_or d m k')"
  by (simp add: get_or_def update_conv')

lemma stale_keeps [simp]:
  "phUnhealthyTicks (fst (check_stale now p s)) = phUnhealthyTicks s" "phHealthyTicks (fst (check_stale now p s)) = phHealthyTicks s"
  "phLastUpdate (fst (check_stale now p s)) = phLastUpdate s"
  by (simp_all add: check_stale_def Let_def)

lemma ticks [simp]:
  "get_or 0 (phUnhealthyTicks (count_tick p st s)) p = (if unhealthy st then get_or 0 (phUnhealthyTicks s) p + 1 else 0)"
  "get_or 0 (phHealthyTicks (count_tick p st s)) p = (if unhealthy st then 0 else get_or 0 (phHealthyTicks s) p + 1)"
  "phLastUpdate (count_tick p st s) = phLastUpdate s"
  by (simp_all add: count_tick_def)

lemma protocol_degraded:
  "isDegraded p (fst (check_protocol now p s d)) =
     ((UNHEALTHY_TICKS \<le> get_or 0 (phUnhealthyTicks s) p \<or> isDegraded p d)
      \<and> \<not> (HEALTHY_TICKS \<le> get_or 0 (phHealthyTicks s) p \<and> now - get_or 0 (phLastUpdate s) p \<le> DATA_FRESHNESS_THRESHOLD))"
  by (auto simp: check_protocol_def activateProtocol_def deactivateProtocol_def isDegraded_def Let_def update_conv' delete_conv'
      split: option.splits if_splits)

text \<open>
  the check behind the return: after it a platform is degraded when it was unhealthy at least
  twice in a row or was already degraded, unless it was healthy at least twice in a row and its
  data is at most thirty seconds old.
\<close>
theorem check_hysteresis:
  "case fst (check_platform now p (s, d)) of (s', d') \<Rightarrow>
    isDegraded p d' =
      (if unhealthy (hrStatus (calculateHealth now p s)) then 1 \<le> get_or 0 (phUnhealthyTicks s) p \<or> isDegraded p d
       else isDegraded p d \<and> (get_or 0 (phHealthyTicks s) p = 0 \<or> 30000 < now - get_or 0 (phLastUpdate s) p))"
  by (auto simp: check_platform_def Let_def case_prod_unfold protocol_degraded UNHEALTHY_TICKS_def HEALTHY_TICKS_def
      DATA_FRESHNESS_THRESHOLD_def)

end
