(* ===== verification/RateLimiter.thy ===== *)
theory RateLimiter
  imports DepthGate
begin

text \<open>
  \<^verbatim>\<open>RateLimiter\<close>: two token buckets of a connector.  An acquisition refills, waits when there
  is less than one token, and takes one; other acquisitions run between these parts, because even an
  acquisition that need not wait gives up control before it takes its token.
\<close>

section \<open>Buckets\<close>

record rate_limiter =
  rlMaxRead :: jsnum
  rlMaxWrite :: jsnum
  rlReadRate :: jsnum
  rlWriteRate :: jsnum
  rlReadTokens :: jsnum
  rlWriteTokens :: jsnum
  rlLastRefill :: timestamp

datatype rate_bucket = ReadBucket | WriteBucket

fun RATE_LIMIT_TIERS :: "string \<Rightarrow> (rat \<times> rat) option" where
  "RATE_LIMIT_TIERS tier =
     (if tier = ''BASIC'' then Some (20, 10) else if tier = ''ADVANCED'' then Some (30, 30)
      else if tier = ''PREMIER'' then Some (100, 100) else if tier = ''PRIME'' then Some (400, 400) else None)"

definition SAFETY_BUFFER :: jsnum where "SAFETY_BUFFER = js_lit (8/10)"
definition ALERT_THRESHOLD :: jsnum where "ALERT_THRESHOLD = js_lit (7/10)"
definition BURST_MULTIPLIER :: jsnum where "BURST_MULTIPLIER = Fin (3/2)"

definition new_limiter :: "jsnum \<Rightarrow> jsnum \<Rightarrow> jsnum \<Rightarrow> jsnum \<Rightarrow> timestamp \<Rightarrow> rate_limiter" where
  "new_limiter maxRead maxWrite readRate writeRate now =
     \<lparr>rlMaxRead = maxRead, rlMaxWrite = maxWrite, rlReadRate = readRate, rlWriteRate = writeRate,
      rlReadTokens = maxRead, rlWriteTokens = maxWrite, rlLastRefill = now\<rparr>"

definition fromLimits :: "jsnum \<Rightarrow> jsnum \<Rightarrow> timestamp \<Rightarrow> string + rate_limiter" where
  "fromLimits readLimit writeLimit now =
     (if xle readLimit (Fin 0) \<or> xle writeLimit (Fin 0) then Inl ''Invalid rate limits''
      else Inr (new_limiter (js_ceil (xmul b64 readLimit BURST_MULTIPLIER)) (js_ceil (xmul b64 writeLimit BURST_MULTIPLIER))
             (xmul b64 readLimit SAFETY_BUFFER) (xmul b64 writeLimit SAFETY_BUFFER) now))"

definition fromTier :: "string \<Rightarrow> timestamp \<Rightarrow> string + rate_limiter" where
  "fromTier tier now =
     (case RATE_LIMIT_TIERS tier of None \<Rightarrow> Inl ''Unknown rate limit tier'' | Some (r, w) \<Rightarrow> fromLimits (Fin r) (Fin w) now)"

definition refill :: "timestamp \<Rightarrow> rate_limiter \<Rightarrow> rate_limiter" where
  "refill now s =
     (let elapsed = xdiv b64 (Fin (of_int (now - rlLastRefill s))) (Fin 1000);
          readToAdd = xmul b64 elapsed (rlReadRate s); writeToAdd = xmul b64 elapsed (rlWriteRate s)
      in if xge readToAdd (js_lit (1/100)) \<or> xge writeToAdd (js_lit (1/100)) then
           s\<lparr>rlReadTokens := xmin (rlMaxRead s) (xadd b64 (rlReadTokens s) readToAdd),
             rlWriteTokens := xmin (rlMaxWrite s) (xadd b64 (rlWriteTokens s) writeToAdd), rlLastRefill := now\<rparr>
         else s)"

definition bucket_tokens :: "rate_bucket \<Rightarrow> rate_limiter \<Rightarrow> jsnum" where
  "bucket_tokens b s = (case b of ReadBucket \<Rightarrow> rlReadTokens s | WriteBucket \<Rightarrow> rlWriteTokens s)"

definition bucket_max :: "rate_bucket \<Rightarrow> rate_limiter \<Rightarrow> jsnum" where
  "bucket_max b s = (case b of ReadBucket \<Rightarrow> rlMaxRead s | WriteBucket \<Rightarrow> rlMaxWrite s)"

definition bucket_rate :: "rate_bucket \<Rightarrow> rate_limiter \<Rightarrow> jsnum" where
  "bucket_rate b s = (case b of ReadBucket \<Rightarrow> rlReadRate s | WriteBucket \<Rightarrow> rlWriteRate s)"

text \<open>The first part of an acquisition and the wait it starts, if any.\<close>

definition waitIfNeeded :: "jsnum \<Rightarrow> jsnum \<Rightarrow> jsnum option" where
  "waitIfNeeded tokens rate = (if xlt tokens (Fin 1) then Some (xmul b64 (xdiv b64 (Fin 1) rate) (Fin 1000)) else None)"

definition acquire_begin :: "rate_bucket \<Rightarrow> timestamp \<Rightarrow> rate_limiter \<Rightarrow> rate_limiter \<times> jsnum option" where
  "acquire_begin b now s = (let s1 = refill now s in (s1, waitIfNeeded (bucket_tokens b s1) (bucket_rate b s1)))"

definition checkUtilization :: "jsnum \<Rightarrow> jsnum \<Rightarrow> bool" where
  "checkUtilization tokens maxTokens \<longleftrightarrow> xge (xsub b64 (Fin 1) (xdiv b64 tokens maxTokens)) ALERT_THRESHOLD"

text \<open>The last part; the flag is whether a warning is logged.\<close>

definition acquire_take :: "rate_bucket \<Rightarrow> rate_limiter \<Rightarrow> rate_limiter \<times> bool" where
  "acquire_take b s =
     (let t = xsub b64 (bucket_tokens b s) (Fin 1) in
      (case b of ReadBucket \<Rightarrow> s\<lparr>rlReadTokens := t\<rparr> | WriteBucket \<Rightarrow> s\<lparr>rlWriteTokens := t\<rparr>, checkUtilization t (bucket_max b s)))"

definition getUtilization :: "timestamp \<Rightarrow> rate_limiter \<Rightarrow> rate_limiter \<times> jsnum \<times> jsnum" where
  "getUtilization now s =
     (let s1 = refill now s; f = (\<lambda>t m. xmul b64 (xsub b64 (Fin 1) (xdiv b64 t m)) (Fin 100)) in
      (s1, f (rlReadTokens s1) (rlMaxRead s1), f (rlWriteTokens s1) (rlMaxWrite s1)))"

definition getReadRate :: "rate_limiter \<Rightarrow> jsnum" where
  "getReadRate = rlReadRate"

section \<open>The buckets do not overflow\<close>

datatype limiter_op = BeginOp rate_bucket timestamp | WokenOp timestamp | TakeOp rate_bucket | UtilizationOp timestamp

fun limiter_step :: "limiter_op \<Rightarrow> rate_limiter \<Rightarrow> rate_limiter" where
  "limiter_step (BeginOp b now) s = fst (acquire_begin b now s)"
| "limiter_step (WokenOp now) s = refill now s"
| "limiter_step (TakeOp b) s = fst (acquire_take b s)"
| "limiter_step (UtilizationOp now) s = fst (getUtilization now s)"

definition within_bucket :: "jsnum \<Rightarrow> jsnum \<Rightarrow> bool" where
  "within_bucket t m \<longleftrightarrow> (\<exists>x n. t = Fin x \<and> m = Fin (of_int n) \<and> x \<le> of_int n \<and> 0 \<le> n \<and> n \<le> 2 ^ 53)"

definition limiter_sound :: "rate_limiter \<Rightarrow> bool" where
  "limiter_sound s \<longleftrightarrow> within_bucket (rlReadTokens s) (rlMaxRead s) \<and> within_bucket (rlWriteTokens s) (rlMaxWrite s)
     \<and> is_fin (rlReadRate s) \<and> is_fin (rlWriteRate s)"

lemma refilled_within: "within_bucket t m \<Longrightarrow> is_fin a \<Longrightarrow> within_bucket (xmin m (xadd b64 t a)) m"
  by (auto simp: within_bucket_def is_fin_iff)

lemma taken_within:
  assumes "within_bucket t m"
  shows "within_bucket (xsub b64 t (Fin 1)) m"
proof -
  obtain x n where x: "t = Fin x" "m = Fin (of_int n)" "x \<le> of_int n" "0 \<le> n" "n \<le> 2 ^ 53" using assms by (auto simp: within_bucket_def)
  have "b64 (x - 1) \<le> b64 (of_int n)" by (rule dbl.sr.rd_mono) (use x(3) in simp)
  also have "\<dots> = of_int n" using x(4,5) by (intro b64_int) simp
  finally show ?thesis using x by (auto simp: within_bucket_def)
qed

lemma refill_sound: "limiter_sound s \<Longrightarrow> limiter_sound (refill now s)"
  by (auto simp: refill_def limiter_sound_def Let_def is_fin_iff intro!: refilled_within)

lemma limiter_step_sound: "limiter_sound s \<Longrightarrow> limiter_sound (limiter_step op s)"
proof (cases op)
  case (TakeOp b)
  assume "limiter_sound s"
  then show ?thesis by (cases b) (auto simp: TakeOp acquire_take_def Let_def bucket_tokens_def limiter_sound_def taken_within)
qed (simp_all add: acquire_begin_def getUtilization_def Let_def refill_sound)

lemma limiter_from:
  assumes "fromLimits (Fin r) (Fin w) now = Inr s" "r \<le> 10 ^ 9" "w \<le> 10 ^ 9"
  shows "limiter_sound s"
proof -
  have "within_bucket (js_ceil (xmul b64 (Fin q) BURST_MULTIPLIER)) (js_ceil (xmul b64 (Fin q) BURST_MULTIPLIER))" if "0 < q" "q \<le> 10 ^ 9" for q
  proof -
    have "b64 (q * (3/2)) \<le> b64 (of_int (2 ^ 53))" by (rule dbl.sr.rd_mono) (use that in simp)
    also have "\<dots> = of_int (2 ^ 53)" by (rule b64_int) simp
    finally have "\<lceil>b64 (q * (3/2))\<rceil> \<le> 2 ^ 53" by (simp only: ceiling_le_iff)
    moreover have "0 \<le> b64 (q * (3/2))" using dbl.sr.rd_mono [of 0 "q * (3/2)"] that(1) by simp
    then have "- 1 < b64 (q * (3/2))" by linarith
    ultimately show ?thesis by (auto simp: within_bucket_def BURST_MULTIPLIER_def js_ceil_def)
  qed
  then show ?thesis using assms by (auto simp: fromLimits_def new_limiter_def limiter_sound_def SAFETY_BUFFER_def js_lit_def split: if_splits)
qed

text \<open>
  whatever the order of acquisitions, wake-ups and queries and whatever the clock shows, a bucket
  never holds more tokens than its burst size.
\<close>
theorem buckets_never_overflow:
  assumes "fromLimits (Fin r) (Fin w) now = Inr s" "r \<le> 10 ^ 9" "w \<le> 10 ^ 9"
  shows "xle (bucket_tokens b (fold limiter_step ops s)) (bucket_max b (fold limiter_step ops s))"
proof -
  have "limiter_sound (fold limiter_step ops s)"
    using limiter_from [OF assms] by (induction ops arbitrary: s) (auto intro: limiter_step_sound)
  then show ?thesis by (cases b) (auto simp: limiter_sound_def within_bucket_def bucket_tokens_def bucket_max_def)
qed

section \<open>Concurrent acquisitions\<close>

text \<open>
  any number of acquisitions that start together pass without a wait as soon as one token is
  there, and then take their tokens below zero.
\<close>
theorem concurrent_acquisitions_overdraw:
  assumes "rlLastRefill s = now" "is_fin (rlReadRate s)" "is_fin (rlWriteRate s)"
    and "rlReadTokens s = Fin (of_int n)" "1 \<le> n" "n \<le> 2 ^ 52" "k \<le> 2 ^ 52"
  shows "map snd (map (\<lambda>_. acquire_begin ReadBucket now s) [0..<k]) = replicate k None
    \<and> fst (acquire_begin ReadBucket now s) = s
    \<and> rlReadTokens (((\<lambda>s. fst (acquire_take ReadBucket s)) ^^ k) s) = Fin (of_int (n - int k))"
proof -
  have "b64 (1/100) > 0" using dbl.sr.rd_mono [of "of_int 1 * 2 powi - 7" "1/100"] dbl.sr.rd_exact [of 1 "- 7"] by (simp add: power_int_minus)
  then have same: "refill now s = s" using assms(1-3) by (auto simp: refill_def Let_def is_fin_iff js_lit_def)
  have "k \<le> 2 ^ 52 \<Longrightarrow> rlReadTokens (((\<lambda>s. fst (acquire_take ReadBucket s)) ^^ k) s) = Fin (of_int (n - int k))"
  proof (induction k)
    case (Suc k)
    have "b64 (of_int (n - int k - 1)) = of_int (n - int k - 1)" using assms(5,6) Suc.prems by (intro b64_int) simp
    then show ?case using Suc by (simp add: acquire_take_def Let_def bucket_tokens_def algebra_simps)
  qed (simp add: assms(4))
  then show ?thesis using assms(4,5,7) same by (simp add: acquire_begin_def Let_def bucket_tokens_def waitIfNeeded_def map_replicate_trivial)
qed


definition basic_limiter :: rate_limiter where
  "basic_limiter = new_limiter (Fin 30) (Fin 15) (Fin 16) (Fin 8) 0"

theorem buckets_never_overflow_witness:
  "case fromLimits (Fin 20) (Fin 10) 0 of Inr s \<Rightarrow> xle (bucket_tokens ReadBucket (refill 900 s)) (bucket_max ReadBucket (refill 900 s)) | Inl _ \<Rightarrow> False"
proof -
  let ?s = "new_limiter (js_ceil (xmul b64 (Fin 20) BURST_MULTIPLIER)) (js_ceil (xmul b64 (Fin 10) BURST_MULTIPLIER))
      (xmul b64 (Fin 20) SAFETY_BUFFER) (xmul b64 (Fin 10) SAFETY_BUFFER) 0"
  have "fromLimits (Fin 20) (Fin 10) 0 = Inr ?s" by (simp add: fromLimits_def)
  moreover from this have "xle (bucket_tokens ReadBucket (fold limiter_step [WokenOp 900] ?s)) (bucket_max ReadBucket (fold limiter_step [WokenOp 900] ?s))"
    by (rule buckets_never_overflow) simp_all
  ultimately show ?thesis by simp
qed

theorem concurrent_acquisitions_overdraw_witness:
  "rlReadTokens (((\<lambda>s. fst (acquire_take ReadBucket s)) ^^ 100) basic_limiter) = Fin (of_int (- 70))"
  using concurrent_acquisitions_overdraw [of basic_limiter 0 30 100] by (simp add: basic_limiter_def new_limiter_def)

end
