(* ===== verification/Connectors.thy ===== *)
theory Connectors
  imports Execution Normalizer Alerting RateLimiter
begin

text \<open>
  \<^verbatim>\<open>KalshiConnector\<close> and \<^verbatim>\<open>PolymarketConnector\<close>: orders, cancellations, order states, order
  books and errors over the clients of the platforms.  What a client returns is an argument, one
  answer per attempt where the call is retried; the orders that a platform has accepted are the
  state that the attempts thread.  \<open>dec\<close> reads the text of a number, the waits of the rate limiter and
  of the retries are left out.
\<close>

section \<open>Errors\<close>

text \<open>An error is one of the connector's own, with its code, or any other, with its HTTP status.\<close>

datatype conn_error = PlatformApiError nat string | OtherError "nat option" string

fun error_message :: "conn_error \<Rightarrow> string" where
  "error_message (PlatformApiError c m) = m"
| "error_message (OtherError st m) = m"

fun contains_text :: "string \<Rightarrow> string \<Rightarrow> bool" where
  "contains_text p [] \<longleftrightarrow> p = []"
| "contains_text p (c # s) \<longleftrightarrow> take (length p) (c # s) = p \<or> contains_text p s"

fun kalshi_mapError :: "conn_error \<Rightarrow> conn_error" where
  "kalshi_mapError (PlatformApiError c m) = PlatformApiError c m"
| "kalshi_mapError (OtherError st m) =
     (if contains_text ''UNAUTHORIZED'' m \<or> contains_text ''401'' m then PlatformApiError 1001 m
      else if contains_text ''429'' m \<or> contains_text ''rate limit'' m then PlatformApiError 1002 m
      else if contains_text ''not found'' m \<or> contains_text ''404'' m then PlatformApiError 1004 m
      else PlatformApiError 1003 m)"

fun poly_mapError :: "conn_error \<Rightarrow> conn_error" where
  "poly_mapError (PlatformApiError c m) = PlatformApiError c m"
| "poly_mapError (OtherError st m) =
     (if st = Some 401 \<or> contains_text ''UNAUTHORIZED'' m \<or> contains_text ''401'' m then PlatformApiError 1008 m
      else if st = Some 429 \<or> contains_text ''429'' m \<or> contains_text ''rate limit'' m then PlatformApiError 1009 m
      else if st = Some 404 \<or> contains_text ''not found'' m \<or> contains_text ''404'' m then PlatformApiError 1011 m
      else PlatformApiError 1010 m)"

text \<open>An answer that the schema does not admit is \<open>None\<close>.\<close>

definition parse_response :: "string \<Rightarrow> string \<Rightarrow> 'r option \<Rightarrow> conn_error + 'r" where
  "parse_response pf op answer =
     (case answer of Some r \<Rightarrow> Inr r
      | None \<Rightarrow> Inl (PlatformApiError 1007 (''Unexpected API response schema from '' @ pf @ '' ('' @ op @ '')'')))"

definition NETWORK_RETRIES :: nat where "NETWORK_RETRIES = 3"

section \<open>Kalshi orders\<close>

record kalshi_order =
  koId :: string
  koStatus :: string
  koRemaining :: "decimal option"
  koFills :: "decimal option"
  koTakerFills :: "decimal option"
  koTakerCost :: "decimal option"

record kalshi_request =
  krTicker :: string
  krAction :: order_side
  krCount :: jsnum
  krPrice :: decimal

text \<open>An attempt: answered, lost after the exchange took the order, or failed before.\<close>

datatype 'r attempt_answer = Answered 'r | AcceptedThenLost conn_error | FailedBefore conn_error

definition place_attempt :: "(nat \<Rightarrow> 'r attempt_answer) \<Rightarrow> 'q \<Rightarrow> nat \<Rightarrow> 'q list \<Rightarrow> 'q list \<times> (conn_error + 'r)" where
  "place_attempt answers q attempt placed =
     (case answers attempt of Answered r \<Rightarrow> (placed @ [q], Inr r) | AcceptedThenLost e \<Rightarrow> (placed @ [q], Inl e) | FailedBefore e \<Rightarrow> (placed, Inl e))"

text \<open>\<^verbatim>\<open>toFixed(2, ROUND_DOWN)\<close>.\<close>

definition cents_down :: "decimal \<Rightarrow> decimal" where
  "cents_down = xmap (\<lambda>x. sgn x * of_int \<lfloor>\<bar>x\<bar> * 100\<rfloor> / 100)"

definition kalshi_request_of :: "order_params \<Rightarrow> kalshi_request" where
  "kalshi_request_of q = \<lparr>krTicker = orContract q, krAction = orSide q, krCount = orQuantity q, krPrice = cents_down (to_decimal (orPrice q))\<rparr>"

definition submit_status :: "string \<Rightarrow> jsnum \<Rightarrow> order_status" where
  "submit_status st remaining =
     (if st = ''executed'' then if xgt remaining (Fin 0) then OrderPartial else OrderFilled
      else if st = ''canceled'' then OrderRejected else OrderPending)"

definition bad_number :: conn_error where
  "bad_number = OtherError None ''[DecimalError] Invalid argument''"

definition kalshi_result :: "(rat \<Rightarrow> rat) \<Rightarrow> kalshi_order \<Rightarrow> conn_error + order_result" where
  "kalshi_result rd k =
     (case (koRemaining k, koTakerFills k) of
        (Some remaining, Some fills) \<Rightarrow>
          (case (if xgt fills (Fin 0) then map_option (\<lambda>c. to_number (xdiv rd c fills)) (koTakerCost k) else Some (Fin 0)) of
             Some p \<Rightarrow> Inr \<lparr>orId = koId k, orStatus = submit_status (koStatus k) (to_number remaining), filledQuantity = to_number fills, filledPrice = p\<rparr>
           | None \<Rightarrow> Inl bad_number)
      | _ \<Rightarrow> Inl bad_number)"

definition kalshi_submitOrder ::
  "(rat \<Rightarrow> rat) \<Rightarrow> (nat \<Rightarrow> kalshi_order option attempt_answer) \<Rightarrow> order_params \<Rightarrow> kalshi_request list \<Rightarrow> kalshi_request list \<times> (conn_error + order_result)" where
  "kalshi_submitOrder rd answers q placed =
     (case withRetry (place_attempt answers (kalshi_request_of q)) NETWORK_RETRIES placed of
        (placed1, Inl e) \<Rightarrow> (placed1, Inl (kalshi_mapError e))
      | (placed1, Inr w) \<Rightarrow>
          (placed1, map_sum kalshi_mapError id (and_then (parse_response ''kalshi'' ''submitOrder'' w) (kalshi_result rd))))"

datatype cancel_status = Cancelled | AlreadyFilled | CancelNotFound

text \<open>A call that changes nothing of the state, with its retries.\<close>

definition retried :: "(nat \<Rightarrow> conn_error + 'r) \<Rightarrow> conn_error + 'r" where
  "retried answers = snd (withRetry (\<lambda>attempt (). ((), answers attempt)) NETWORK_RETRIES ())"

definition not_found_message :: "conn_error \<Rightarrow> bool" where
  "not_found_message e \<longleftrightarrow> contains_text ''not found'' (error_message e) \<or> contains_text ''404'' (error_message e)"

definition kalshi_cancelOrder :: "bool \<Rightarrow> (nat \<Rightarrow> conn_error + string option) \<Rightarrow> conn_error + cancel_status" where
  "kalshi_cancelOrder isConnected answers =
     (if \<not> isConnected then Inl (PlatformApiError 1003 ''Kalshi connector not connected'')
      else
        case (case and_then (retried answers) (parse_response ''kalshi'' ''cancelOrder'') of
            Inl e \<Rightarrow> Inl e
          | Inr st \<Rightarrow> if st = ''canceled'' then Inr Cancelled else if st = ''executed'' then Inr AlreadyFilled
              else Inl (PlatformApiError 1003 (''Unexpected order status after cancel: '' @ st))) of
          Inl e \<Rightarrow> if not_found_message e then Inr CancelNotFound else Inl (kalshi_mapError e)
        | Inr c \<Rightarrow> Inr c)"

datatype state_status = StatePending | StateCancelled | StateFilled | StatePartial | StateNotFound

record order_state =
  osStatus :: state_status
  osFillPrice :: "jsnum option"
  osFillSize :: "jsnum option"

definition kalshi_state :: "(rat \<Rightarrow> rat) \<Rightarrow> kalshi_order \<Rightarrow> conn_error + order_state" where
  "kalshi_state rd k =
     (case (koRemaining k, koFills k) of
        (Some remaining, Some fills) \<Rightarrow>
          let st = (if koStatus k = ''resting'' then StatePending else if koStatus k = ''canceled'' then StateCancelled
                    else if koStatus k = ''executed'' then (if xgt (to_number remaining) (Fin 0) then StatePartial else StateFilled) else StatePending);
              n = to_number fills
          in (case (if xgt fills (Fin 0) then map_option (\<lambda>c. Some (to_number (xdiv rd c fills))) (koTakerCost k) else Some None) of
                Some p \<Rightarrow> Inr \<lparr>osStatus = st, osFillPrice = p, osFillSize = (if xgt n (Fin 0) then Some n else None)\<rparr>
              | None \<Rightarrow> Inl bad_number)
      | _ \<Rightarrow> Inl bad_number)"

definition state_or_missing :: "(conn_error \<Rightarrow> conn_error) \<Rightarrow> conn_error + order_state \<Rightarrow> conn_error + order_state" where
  "state_or_missing mapError r =
     (case r of
        Inl e \<Rightarrow> if not_found_message e then Inr \<lparr>osStatus = StateNotFound, osFillPrice = None, osFillSize = None\<rparr> else Inl (mapError e)
      | Inr s \<Rightarrow> Inr s)"

definition kalshi_getOrder :: "(rat \<Rightarrow> rat) \<Rightarrow> bool \<Rightarrow> (nat \<Rightarrow> conn_error + kalshi_order option) \<Rightarrow> conn_error + order_state" where
  "kalshi_getOrder rd isConnected answers =
     (if \<not> isConnected then Inl (PlatformApiError 1003 ''Kalshi connector not connected'')
      else state_or_missing kalshi_mapError (and_then (and_then (retried answers) (parse_response ''kalshi'' ''getOrder'')) (kalshi_state rd)))"

text \<open>The sides of a book, empty where the answer has none.\<close>

definition kalshi_getOrderBook ::
  "(string \<Rightarrow> rat option) \<Rightarrow> (rat \<Rightarrow> rat) \<Rightarrow> (nat \<Rightarrow> conn_error + wire_level list option \<times> wire_level list option) \<Rightarrow> conn_error + order_book" where
  "kalshi_getOrderBook dec rd answers =
     (case retried answers of
        Inl e \<Rightarrow> Inl (kalshi_mapError e)
      | Inr (yes, no) \<Rightarrow>
          (case normalizeKalshiLevels dec rd (case yes of Some ls \<Rightarrow> ls | None \<Rightarrow> []) (case no of Some ls \<Rightarrow> ls | None \<Rightarrow> []) of
             Some ob \<Rightarrow> Inr ob | None \<Rightarrow> Inl (kalshi_mapError bad_number)))"

definition kalshi_takerFeeForPrice :: "(rat \<Rightarrow> rat) \<Rightarrow> jsnum \<Rightarrow> jsnum" where
  "kalshi_takerFeeForPrice rd p =
     (if xle p (Fin 0) \<or> xge p (Fin 1) then Fin 0
      else to_number (xmul rd (to_decimal (js_lit (7/100))) (xsub rd (Fin 1) (to_decimal p))))"

section \<open>Connection state\<close>

datatype connector_health = ConnectorHealthy | ConnectorDegraded | ConnectorDisconnected

definition connector_getHealth :: "bool \<Rightarrow> bool \<Rightarrow> connector_health" where
  "connector_getHealth isConnected wsConnected =
     (if isConnected \<and> wsConnected then ConnectorHealthy else if isConnected \<or> wsConnected then ConnectorDegraded else ConnectorDisconnected)"

record kalshi_conn =
  kxConnected :: bool
  kxLimiter :: rate_limiter
  kxHeartbeat :: "timestamp option"
  kxWsUpdates :: "(string \<times> timestamp) list"

definition kalshi_connect :: "timestamp \<Rightarrow> conn_error option \<Rightarrow> kalshi_conn \<Rightarrow> kalshi_conn \<times> conn_error option" where
  "kalshi_connect now err s =
     (case err of None \<Rightarrow> (s\<lparr>kxConnected := True, kxHeartbeat := Some now\<rparr>, None) | Some e \<Rightarrow> (s\<lparr>kxConnected := False\<rparr>, Some (kalshi_mapError e)))"

definition kalshi_disconnect :: "kalshi_conn \<Rightarrow> kalshi_conn" where
  "kalshi_disconnect s = s\<lparr>kxWsUpdates := [], kxConnected := False\<rparr>"

definition initializeRateLimiterFromApi :: "timestamp \<Rightarrow> (jsnum \<times> jsnum) option \<Rightarrow> kalshi_conn \<Rightarrow> kalshi_conn" where
  "initializeRateLimiterFromApi now limits s =
     (case limits of
        None \<Rightarrow> s
      | Some (r, w) \<Rightarrow>
          if is_nan r \<or> is_nan w \<or> xle r (Fin 0) \<or> xle w (Fin 0) then s
          else (case fromLimits r w now of Inr l \<Rightarrow> s\<lparr>kxLimiter := l\<rparr> | Inl _ \<Rightarrow> s))"

definition kalshi_wsUpdate :: "timestamp \<Rightarrow> string \<Rightarrow> kalshi_conn \<Rightarrow> kalshi_conn" where
  "kalshi_wsUpdate now c s = s\<lparr>kxWsUpdates := map_set c now (kxWsUpdates s)\<rparr>"

definition getOrderBookFreshness :: "string \<Rightarrow> kalshi_conn \<Rightarrow> timestamp option" where
  "getOrderBookFreshness c s = map_of (kxWsUpdates s) c"

section \<open>Polymarket orders\<close>

record poly_order =
  poStatus :: "string option"
  poFilledSize :: "jsnum option"
  poFilledPrice :: "jsnum option"

definition not_connected :: conn_error where
  "not_connected = PlatformApiError 1015 ''Polymarket connector not connected''"

record post_answer =
  paOrderID :: "string option"
  paId :: "string option"
  paStatus :: "string option"

text \<open>The schema asks for one identifier that is not empty; the code takes the first that is there.\<close>

definition post_admitted :: "post_answer \<Rightarrow> bool" where
  "post_admitted a \<longleftrightarrow> paOrderID a \<notin> {None, Some []} \<or> paId a \<notin> {None, Some []}"

definition posted_id :: "string \<Rightarrow> post_answer \<Rightarrow> string" where
  "posted_id made a = (case paOrderID a of Some x \<Rightarrow> x | None \<Rightarrow> (case paId a of Some x \<Rightarrow> x | None \<Rightarrow> made))"

text \<open>The answers of the polls that begin before the timeout, \<open>None\<close> for one that fails.\<close>

fun poll_fill :: "string \<Rightarrow> order_params \<Rightarrow> poly_order option list \<Rightarrow> order_result" where
  "poll_fill oid q [] = \<lparr>orId = oid, orStatus = OrderPending, filledQuantity = Fin 0, filledPrice = Fin 0\<rparr>"
| "poll_fill oid q (None # rest) = poll_fill oid q rest"
| "poll_fill oid q (Some k # rest) =
     (if poStatus k = Some ''matched'' \<or> poStatus k = Some ''filled'' then
        \<lparr>orId = oid, orStatus = OrderFilled, filledQuantity = (case poFilledSize k of Some x \<Rightarrow> x | None \<Rightarrow> orQuantity q),
         filledPrice = (case poFilledPrice k of Some x \<Rightarrow> x | None \<Rightarrow> orPrice q)\<rparr>
      else if poStatus k = Some ''canceled'' \<or> poStatus k = Some ''cancelled'' \<or> poStatus k = Some ''rejected'' then
        \<lparr>orId = oid, orStatus = OrderRejected, filledQuantity = Fin 0, filledPrice = Fin 0\<rparr>
      else poll_fill oid q rest)"

text \<open>The order is posted once; \<open>made\<close> is the identifier made from the clock.\<close>

definition poly_submitOrder ::
  "bool \<Rightarrow> string \<Rightarrow> conn_error + post_answer option \<Rightarrow> poly_order option list \<Rightarrow> order_params \<Rightarrow> conn_error + order_result" where
  "poly_submitOrder isConnected made post polls q =
     (if \<not> isConnected then Inl not_connected
      else
        map_sum poly_mapError id
          (and_then
            (and_then post
              (\<lambda>w. parse_response ''polymarket'' ''submitOrder'' (case w of Some a \<Rightarrow> if post_admitted a then w else None | None \<Rightarrow> None)))
            (\<lambda>a. let oid = posted_id made a in
               Inr (if paStatus a = Some ''matched'' \<or> paStatus a = Some ''filled'' then
                      \<lparr>orId = oid, orStatus = OrderFilled, filledQuantity = orQuantity q, filledPrice = orPrice q\<rparr>
                    else poll_fill oid q polls))))"

text \<open>The message is taken in lower case.\<close>

definition poly_cancelOrder :: "(string \<Rightarrow> string) \<Rightarrow> bool \<Rightarrow> (nat \<Rightarrow> conn_error + unit) \<Rightarrow> conn_error + cancel_status" where
  "poly_cancelOrder lower isConnected answers =
     (if \<not> isConnected then Inl not_connected
      else
        case retried answers of
          Inr () \<Rightarrow> Inr Cancelled
        | Inl e \<Rightarrow>
            let m = lower (error_message e) in
            if contains_text ''not found'' m \<or> contains_text ''404'' m then Inr CancelNotFound
            else if contains_text ''matched'' m then Inr AlreadyFilled else Inl (poly_mapError e))"

definition poly_state :: "poly_order \<Rightarrow> order_state" where
  "poly_state k =
     (let st = (if poStatus k = Some ''MATCHED'' \<or> poStatus k = Some ''matched'' then StateFilled
                else if poStatus k = Some ''LIVE'' \<or> poStatus k = Some ''live'' then StatePending
                else if poStatus k = Some ''CANCELED'' \<or> poStatus k = Some ''canceled'' \<or> poStatus k = Some ''cancelled'' then StateCancelled
                else StatePending)
      in \<lparr>osStatus = st, osFillPrice = poFilledPrice k, osFillSize = poFilledSize k\<rparr>)"

definition poly_getOrder :: "bool \<Rightarrow> conn_error + poly_order option \<Rightarrow> conn_error + order_state" where
  "poly_getOrder isConnected answer =
     (if \<not> isConnected then Inl not_connected else state_or_missing poly_mapError (map_sum id poly_state (and_then answer (parse_response ''polymarket'' ''getOrder''))))"

text \<open>Books: one that cannot be normalized is an error of a single request and left out of a batch.\<close>

definition poly_getOrderBook :: "int \<Rightarrow> bool \<Rightarrow> (nat \<Rightarrow> conn_error + poly_book) \<Rightarrow> string \<Rightarrow> normalizer \<Rightarrow> normalizer \<times> (conn_error + normalized_book)" where
  "poly_getOrderBook ms hasClient answers c n =
     (if \<not> hasClient then (n, Inl (PlatformApiError 1008 ''ClobClient not initialized -- call connect() first''))
      else
        case retried answers of
          Inl e \<Rightarrow> (n, Inl (poly_mapError e))
        | Inr b \<Rightarrow>
            (case normalizePolymarket ms c b n of
               (n1, _, Normalized nb) \<Rightarrow> (n1, Inr nb)
             | (n1, _, _) \<Rightarrow> (n1, Inl (PlatformApiError 1010 ''Invalid order book data from Polymarket API''))))"

record batch_book =
  bbAsset :: string
  bbEpoch :: "int option"
  bbParsed :: "int option"
  bbLevels :: poly_book

definition batch_timestamp :: "int \<Rightarrow> batch_book \<Rightarrow> int" where
  "batch_timestamp now b =
     (case bbEpoch b of
        Some e \<Rightarrow> if 0 < e then e else (case bbParsed b of Some p \<Rightarrow> p | None \<Rightarrow> now)
      | None \<Rightarrow> (case bbParsed b of Some p \<Rightarrow> p | None \<Rightarrow> now))"

fun normalize_batch :: "int \<Rightarrow> int \<Rightarrow> batch_book list \<Rightarrow> normalizer \<Rightarrow> normalizer \<times> normalized_book list" where
  "normalize_batch ms now [] n = (n, [])"
| "normalize_batch ms now (b # bs) n =
     (case normalizePolymarket ms (bbAsset b) ((bbLevels b)\<lparr>pbTimestamp := batch_timestamp now b\<rparr>) n of
        (n1, _, r) \<Rightarrow> (case normalize_batch ms now bs n1 of (n2, nbs) \<Rightarrow> (n2, (case r of Normalized nb \<Rightarrow> [nb] | _ \<Rightarrow> []) @ nbs)))"

definition poly_getOrderBooks ::
  "int \<Rightarrow> int \<Rightarrow> bool \<Rightarrow> (nat \<Rightarrow> conn_error + batch_book list) \<Rightarrow> string list \<Rightarrow> normalizer \<Rightarrow> normalizer \<times> (conn_error + normalized_book list)" where
  "poly_getOrderBooks ms now hasClient answers cs n =
     (if cs = [] then (n, Inr [])
      else if \<not> hasClient then (n, Inl (PlatformApiError 1008 ''ClobClient not initialized -- call connect() first''))
      else
        case retried answers of
          Inl e \<Rightarrow> (n, Inl (poly_mapError e))
        | Inr bs \<Rightarrow> (case normalize_batch ms now bs n of (n1, nbs) \<Rightarrow> (n1, Inr nbs)))"

section \<open>Orders sent and results reported\<close>

lemma place_attempt_answers:
  "answers i = Answered r \<Longrightarrow> place_attempt answers q i placed = (placed @ [q], Inr r)"
  "answers i = AcceptedThenLost e \<Longrightarrow> place_attempt answers q i placed = (placed @ [q], Inl e)"
  "answers i = FailedBefore e \<Longrightarrow> place_attempt answers q i placed = (placed, Inl e)"
  by (simp_all add: place_attempt_def)

lemma retry_places:
  "\<exists>n \<le> Suc left. fst (retry_loop (place_attempt answers q) attempt left placed) = placed @ replicate n q
     \<and> (case snd (retry_loop (place_attempt answers q) attempt left placed) of Inr _ \<Rightarrow> 1 \<le> n | Inl _ \<Rightarrow> True)"
proof (induction left arbitrary: attempt placed)
  case 0
  then show ?case
    by (cases "answers attempt") (auto simp: place_attempt_answers intro: exI [of _ "0::nat"] exI [of _ "1::nat"])
next
  case (Suc left)
  show ?case
  proof (cases "answers attempt")
    case (Answered r)
    then show ?thesis by (auto simp: place_attempt_answers intro: exI [of _ "1::nat"])
  next
    case (AcceptedThenLost e)
    obtain n where "n \<le> Suc left"
      "fst (retry_loop (place_attempt answers q) (Suc attempt) left (placed @ [q])) = (placed @ [q]) @ replicate n q"
      using Suc.IH by meson
    then show ?thesis
      using AcceptedThenLost by (auto simp: place_attempt_answers intro!: exI [of _ "Suc n"] split: sum.splits)
  next
    case (FailedBefore e)
    obtain n where "n \<le> Suc left"
      "fst (retry_loop (place_attempt answers q) (Suc attempt) left placed) = placed @ replicate n q"
      "case snd (retry_loop (place_attempt answers q) (Suc attempt) left placed) of Inr _ \<Rightarrow> 1 \<le> n | Inl _ \<Rightarrow> True"
      using Suc.IH by meson
    then show ?thesis
      using FailedBefore by (auto simp: place_attempt_answers intro!: exI [of _ n])
  qed
qed

text \<open>
  one call sends the platform between none and four copies of its order, at least one when it
  reports a result.
\<close>
lemma kalshi_orders_of_one_call:
  "\<exists>n \<le> Suc NETWORK_RETRIES. fst (kalshi_submitOrder rd answers q placed) = placed @ replicate n (kalshi_request_of q)
     \<and> (case snd (kalshi_submitOrder rd answers q placed) of Inr _ \<Rightarrow> 1 \<le> n | Inl _ \<Rightarrow> True)"
  using retry_places [of NETWORK_RETRIES answers "kalshi_request_of q" 0 placed]
  by (fastforce simp: kalshi_submitOrder_def withRetry_def split: prod.splits sum.splits)

text \<open>
  C35: a call whose first answer is lost places its order again: the platform holds two orders, and the
  one result that the caller sees is that of the second.
\<close>
theorem lost_answer_sends_order_again:
  assumes "answers 0 = AcceptedThenLost e" "answers 1 = Answered (Some k)"
  shows "kalshi_submitOrder rd answers q placed
    = (placed @ [kalshi_request_of q, kalshi_request_of q], map_sum kalshi_mapError id (kalshi_result rd k))"
  using assms by (simp add: kalshi_submitOrder_def withRetry_def NETWORK_RETRIES_def place_attempt_def parse_response_def eval_nat_numeral)

definition sample_kalshi_order :: kalshi_order where
  "sample_kalshi_order = \<lparr>koId = ''k2'', koStatus = ''executed'', koRemaining = Some (Fin 0), koFills = Some (Fin 10),
     koTakerFills = Some (Fin 10), koTakerCost = Some (Fin 5)\<rparr>"

definition sample_kalshi_params :: order_params where
  "sample_kalshi_params = \<lparr>orContract = ''K'', orSide = Buy, orQuantity = Fin 10, orPrice = Fin (1/2)\<rparr>"

theorem lost_answer_sends_order_again_witness:
  "kalshi_submitOrder id ((\<lambda>_. Answered (Some sample_kalshi_order))(0 := AcceptedThenLost (OtherError None ''socket hang up''))) sample_kalshi_params []
     = ([kalshi_request_of sample_kalshi_params, kalshi_request_of sample_kalshi_params],
        Inr \<lparr>orId = ''k2'', orStatus = OrderFilled, filledQuantity = to_number (Fin 10), filledPrice = to_number (Fin (1/2))\<rparr>)"
  by (subst lost_answer_sends_order_again [where e = "OtherError None ''socket hang up''" and k = sample_kalshi_order])
    (simp_all add: kalshi_result_def sample_kalshi_order_def submit_status_def)

text \<open>
  an order that Kalshi cancelled after it had filled in part is reported rejected, with a quantity
  that was bought.
\<close>
theorem cancelled_partial_fill_rejected:
  assumes "koStatus k = ''canceled''" "koTakerFills k = Some (Fin n)" "koTakerCost k = Some c" "koRemaining k = Some m" "0 < n"
  shows "\<exists>r. kalshi_result rd k = Inr r \<and> \<not> is_filled r \<and> orStatus r = OrderRejected
    \<and> filledQuantity r = to_number (Fin n) \<and> filledPrice r = to_number (xdiv rd c (Fin n))"
  using assms by (simp add: kalshi_result_def submit_status_def is_filled_def)

theorem cancelled_partial_fill_rejected_witness:
  "\<exists>r. kalshi_result id (sample_kalshi_order\<lparr>koStatus := ''canceled'', koRemaining := Some (Fin 6), koTakerFills := Some (Fin 4), koTakerCost := Some (Fin 2)\<rparr>) = Inr r
     \<and> \<not> is_filled r \<and> orStatus r = OrderRejected \<and> filledQuantity r = to_number (Fin 4) \<and> filledPrice r = to_number (xdiv id (Fin 2) (Fin 4))"
  by (rule cancelled_partial_fill_rejected) (simp_all add: sample_kalshi_order_def)

text \<open>The limit that is sent is the price cut to cents, for a sale too.\<close>

lemma limit_within_cent:
  assumes "orPrice q = Fin p" "0 \<le> shortest p"
  shows "\<exists>x. krPrice (kalshi_request_of q) = Fin x \<and> x \<le> shortest p \<and> shortest p < x + 1/100"
proof -
  let ?y = "shortest p * 100"
  have eq: "sgn (shortest p) * of_int \<lfloor>\<bar>shortest p\<bar> * 100\<rfloor> / 100 = of_int \<lfloor>?y\<rfloor> / 100"
    using assms(2) by (cases "shortest p = 0") (simp_all add: sgn_if)
  have "of_int \<lfloor>?y\<rfloor> \<le> ?y" "?y < of_int \<lfloor>?y\<rfloor> + 1" by linarith+
  then have "of_int \<lfloor>?y\<rfloor> / 100 \<le> shortest p" "shortest p < of_int \<lfloor>?y\<rfloor> / 100 + 1/100" by simp_all
  then show ?thesis
    using assms(1) eq by (intro exI [of _ "of_int \<lfloor>?y\<rfloor> / 100"]) (simp add: kalshi_request_of_def cents_down_def)
qed

lemma poll_upper: "list_all (\<lambda>w. w = None \<or> w = Some k) ws \<Longrightarrow> poStatus k = Some ''MATCHED''
   \<Longrightarrow> poll_fill oid q ws = \<lparr>orId = oid, orStatus = OrderPending, filledQuantity = Fin 0, filledPrice = Fin 0\<rparr>"
  by (induction oid q ws rule: poll_fill.induct) auto

text \<open>
  an order that rests first and that every poll then finds \<^verbatim>\<open>MATCHED\<close> is reported pending with nothing
  filled, although the same answer is a filled order to \<^verbatim>\<open>getOrder\<close>.
\<close>
theorem uppercase_match_stays_pending:
  assumes "list_all (\<lambda>w. w = None \<or> w = Some k) polls" "poStatus k = Some ''MATCHED''"
    and "post_admitted a" "paStatus a = Some ''live''"
  shows "poly_submitOrder True made (Inr (Some a)) polls q
      = Inr \<lparr>orId = posted_id made a, orStatus = OrderPending, filledQuantity = Fin 0, filledPrice = Fin 0\<rparr>
    \<and> map_sum id osStatus (poly_getOrder True (Inr (Some k))) = Inr StateFilled"
  using assms poll_upper [OF assms(1,2)]
  by (simp add: poly_submitOrder_def parse_response_def poly_getOrder_def state_or_missing_def poly_state_def)

theorem uppercase_match_stays_pending_witness:
  "poly_submitOrder True ''pm-1'' (Inr (Some \<lparr>paOrderID = Some ''o1'', paId = None, paStatus = Some ''live''\<rparr>))
       [None, Some \<lparr>poStatus = Some ''MATCHED'', poFilledSize = Some (Fin 10), poFilledPrice = Some (Fin (1/2))\<rparr>] sample_kalshi_params
     = Inr \<lparr>orId = ''o1'', orStatus = OrderPending, filledQuantity = Fin 0, filledPrice = Fin 0\<rparr>"
  using uppercase_match_stays_pending
    [of "\<lparr>poStatus = Some ''MATCHED'', poFilledSize = Some (Fin 10), poFilledPrice = Some (Fin (1/2))\<rparr>"
        "[None, Some \<lparr>poStatus = Some ''MATCHED'', poFilledSize = Some (Fin 10), poFilledPrice = Some (Fin (1/2))\<rparr>]"
        "\<lparr>paOrderID = Some ''o1'', paId = None, paStatus = Some ''live''\<rparr>" "''pm-1''" sample_kalshi_params]
  by (simp add: post_admitted_def posted_id_def)

end
