(* ===== verification/StressTest.thy ===== *)
theory StressTest
  imports Correlation
begin

text \<open>
  \<^verbatim>\<open>StressTestService\<close>: shocks on the prices of the open legs, random and adverse, and what they
  say of the bankroll.  \<open>draws\<close> are the values of \<^verbatim>\<open>Math.random\<close> in order and an operation that
  takes some returns the place of the next; \<open>probit\<close>, \<open>quantile\<close> and \<open>deviation\<close> are functions of the
  statistics package, \<open>rho'\<close> is the square root of the complement of the correlation.
\<close>

section \<open>Legs\<close>

datatype vol_source = HistoricalVol | DefaultVol

record stress_leg =
  slContract :: string
  slPlatform :: string
  slSide :: string
  slEntry :: decimal
  slSize :: decimal
  slCluster :: "string option"
  slVol :: jsnum
  slVolSource :: vol_source

text \<open>A position as the query returns it; a missing or empty text is \<open>None\<close>.\<close>

record stress_position =
  spStatus :: position_status
  spIsPaper :: bool
  spPolymarketSide :: "string option"
  spKalshiSide :: "string option"
  spPolymarketEntry :: "decimal option"
  spKalshiEntry :: "decimal option"
  spPolymarketSize :: "decimal option"
  spKalshiSize :: "decimal option"
  spPolymarketContract :: string
  spKalshiContract :: string
  spCluster :: "string option"

record stress_settings =
  ssScenarios :: nat
  ssDefaultVol :: jsnum
  ssMinSnapshots :: nat
  ssMaxPositionPct :: jsnum
  ssMaxOpenPairs :: jsnum

definition CLUSTER_CORRELATION_RHO :: jsnum where "CLUSTER_CORRELATION_RHO = js_lit (7/10)"

definition stress_query :: "stress_position list \<Rightarrow> stress_position list" where
  "stress_query ps = filter (\<lambda>p. spStatus p \<in> {OPEN, SINGLE_LEG_EXPOSED, EXIT_PARTIAL, RECONCILIATION_REQUIRED}) ps"

section \<open>Volatility\<close>

definition book_midpoint :: "price_level list \<times> price_level list \<Rightarrow> jsnum" where
  "book_midpoint = (\<lambda>(bs, as). xdiv b64 (xadd b64 (case bs of b # _ \<Rightarrow> price b | [] \<Rightarrow> Fin 0) (case as of a # _ \<Rightarrow> price a | [] \<Rightarrow> Fin 1)) (Fin 2))"

fun additive_returns :: "jsnum list \<Rightarrow> jsnum list" where
  "additive_returns (x # y # zs) = xsub b64 y x # additive_returns (y # zs)"
| "additive_returns _ = []"

type_synonym vol_cache = "((string \<times> string) \<times> jsnum \<times> vol_source) list"

definition getVolatility ::
  "(jsnum list \<Rightarrow> jsnum) \<Rightarrow> (string \<Rightarrow> string \<Rightarrow> (price_level list \<times> price_level list) list) \<Rightarrow> stress_settings
   \<Rightarrow> string \<Rightarrow> string \<Rightarrow> vol_cache \<Rightarrow> (jsnum \<times> vol_source) \<times> vol_cache" where
  "getVolatility deviation snapshots st platform contract cache =
     (case map_of cache (platform, contract) of
        Some v \<Rightarrow> (v, cache)
      | None \<Rightarrow>
          let rows = snapshots platform contract; returns = additive_returns (map book_midpoint rows);
              v = (if ssMinSnapshots st \<le> length rows \<and> 1 < length returns
                   then (xmax (deviation returns) (js_lit (1/1000)), HistoricalVol) else (ssDefaultVol st, DefaultVol))
          in (v, map_set (platform, contract) v cache))"

definition build_leg ::
  "(vol_cache \<Rightarrow> (jsnum \<times> vol_source) \<times> vol_cache) \<Rightarrow> string \<Rightarrow> string \<Rightarrow> string option \<Rightarrow> decimal option \<Rightarrow> decimal option \<Rightarrow> string option
   \<Rightarrow> vol_cache \<Rightarrow> stress_leg list \<times> vol_cache" where
  "build_leg vol platform contract side entry qty cluster cache =
     (case (side, entry, qty) of
        (Some sd, Some e, Some q) \<Rightarrow>
          if sd = '''' then ([], cache)
          else (case vol cache of
                  ((v, src), cache1) \<Rightarrow>
                    ([\<lparr>slContract = contract, slPlatform = platform, slSide = sd, slEntry = e, slSize = q, slCluster = cluster, slVol = v, slVolSource = src\<rparr>], cache1))
      | _ \<Rightarrow> ([], cache))"

fun buildPositionLegs ::
  "(jsnum list \<Rightarrow> jsnum) \<Rightarrow> (string \<Rightarrow> string \<Rightarrow> (price_level list \<times> price_level list) list) \<Rightarrow> stress_settings
   \<Rightarrow> stress_position list \<Rightarrow> vol_cache \<Rightarrow> stress_leg list" where
  "buildPositionLegs deviation snapshots st [] cache = []"
| "buildPositionLegs deviation snapshots st (p # ps) cache =
     (let (l1, cache1) = build_leg (getVolatility deviation snapshots st ''POLYMARKET'' (spPolymarketContract p)) ''POLYMARKET'' (spPolymarketContract p)
            (spPolymarketSide p) (spPolymarketEntry p) (spPolymarketSize p) (spCluster p) cache;
          (l2, cache2) = build_leg (getVolatility deviation snapshots st ''KALSHI'' (spKalshiContract p)) ''KALSHI'' (spKalshiContract p)
            (spKalshiSide p) (spKalshiEntry p) (spKalshiSize p) (spCluster p) cache1
      in l1 @ l2 @ buildPositionLegs deviation snapshots st ps cache2)"

section \<open>Scenarios\<close>

definition normalRandom :: "(jsnum \<Rightarrow> jsnum) \<Rightarrow> (nat \<Rightarrow> jsnum) \<Rightarrow> nat \<Rightarrow> jsnum \<times> nat" where
  "normalRandom probit draws k =
     (probit (xmax (js_lit (1 / 10 ^ 10)) (xmin (xsub b64 (Fin 1) (js_lit (1 / 10 ^ 10))) (draws k))), k + 1)"

fun draw_factors :: "(jsnum \<Rightarrow> jsnum) \<Rightarrow> (nat \<Rightarrow> jsnum) \<Rightarrow> string list \<Rightarrow> nat \<Rightarrow> (string \<times> jsnum) list \<times> nat" where
  "draw_factors probit draws [] k = ([], k)"
| "draw_factors probit draws (c # cs) k =
     (case normalRandom probit draws k of (x, k1) \<Rightarrow> (case draw_factors probit draws cs k1 of (m, k2) \<Rightarrow> ((c, x) # m, k2)))"

definition in_cluster :: "stress_leg \<Rightarrow> bool" where
  "in_cluster l \<longleftrightarrow> slCluster l \<noteq> None \<and> slCluster l \<noteq> Some ''''"

definition adverse_shock :: "jsnum \<Rightarrow> stress_leg \<Rightarrow> jsnum" where
  "adverse_shock multiplier l = xmul b64 (xmul b64 (xmul b64 (Fin (if slSide l = ''BUY'' then - 1 else 1)) (Fin 3)) (slVol l)) multiplier"

definition random_shock :: "jsnum \<Rightarrow> (jsnum \<Rightarrow> jsnum) \<Rightarrow> (nat \<Rightarrow> jsnum) \<Rightarrow> (string \<times> jsnum) list \<Rightarrow> stress_leg \<Rightarrow> nat \<Rightarrow> jsnum \<times> nat" where
  "random_shock rho' probit draws factors l k =
     (case normalRandom probit draws k of
        (idio, k1) \<Rightarrow>
          let factor = (if in_cluster l then (case map_of factors (the (slCluster l)) of Some f \<Rightarrow> f | None \<Rightarrow> Fin 0) else Fin 0);
              shock = (if in_cluster l then xadd b64 (xmul b64 factor CLUSTER_CORRELATION_RHO) (xmul b64 idio rho') else idio)
          in (xmul b64 shock (slVol l), k1))"

definition stress_leg_pnl :: "(rat \<Rightarrow> rat) \<Rightarrow> jsnum \<Rightarrow> stress_leg \<Rightarrow> decimal" where
  "stress_leg_pnl rd shock l =
     (let newPrice = xmax (Fin 0) (xmin (Fin 1) (xadd b64 (to_number (slEntry l)) shock));
          delta = xsub rd (to_decimal newPrice) (slEntry l)
      in if slSide l = ''BUY'' then xmul rd delta (slSize l) else xmul rd (xneg delta) (slSize l))"

text \<open>The shock of each leg comes from \<open>shock\<close>, adverse or random.\<close>

fun scenario_pnl :: "(rat \<Rightarrow> rat) \<Rightarrow> (stress_leg \<Rightarrow> nat \<Rightarrow> jsnum \<times> nat) \<Rightarrow> stress_leg list \<Rightarrow> decimal \<Rightarrow> nat \<Rightarrow> decimal \<times> nat" where
  "scenario_pnl rd shock [] acc k = (acc, k)"
| "scenario_pnl rd shock (l # ls) acc k =
     (case shock l k of (x, k1) \<Rightarrow> scenario_pnl rd shock ls (xadd rd acc (stress_leg_pnl rd x l)) k1)"

definition simulateScenario :: "(rat \<Rightarrow> rat) \<Rightarrow> (stress_leg \<Rightarrow> nat \<Rightarrow> jsnum \<times> nat) \<Rightarrow> stress_leg list \<Rightarrow> nat \<Rightarrow> jsnum \<times> nat" where
  "simulateScenario rd shock legs k = (case scenario_pnl rd shock legs (Fin 0) k of (pnl, k1) \<Rightarrow> (to_number pnl, k1))"

definition adverse :: "jsnum \<Rightarrow> stress_leg \<Rightarrow> nat \<Rightarrow> jsnum \<times> nat" where
  "adverse multiplier l k = (adverse_shock multiplier l, k)"

record stress_env =
  seRho :: jsnum
  seProbit :: "jsnum \<Rightarrow> jsnum"
  seDraws :: "nat \<Rightarrow> jsnum"
  seQuantile :: "jsnum list \<Rightarrow> jsnum \<Rightarrow> jsnum"
  seDeviation :: "jsnum list \<Rightarrow> jsnum"
  seSnapshots :: "string \<Rightarrow> string \<Rightarrow> (price_level list \<times> price_level list) list"

fun random_scenarios :: "(rat \<Rightarrow> rat) \<Rightarrow> stress_env \<Rightarrow> stress_leg list \<Rightarrow> string list \<Rightarrow> nat \<Rightarrow> nat \<Rightarrow> jsnum list \<times> nat" where
  "random_scenarios rd env legs cs 0 k = ([], k)"
| "random_scenarios rd env legs cs (Suc n) k =
     (case draw_factors (seProbit env) (seDraws env) cs k of
        (factors, k1) \<Rightarrow>
          (case simulateScenario rd (random_shock (seRho env) (seProbit env) (seDraws env) factors) legs k1 of
             (x, k2) \<Rightarrow> (case random_scenarios rd env legs cs n k2 of (xs, k3) \<Rightarrow> (x # xs, k3))))"

text \<open>The profit of a synthetic scenario is rounded to cents.\<close>

fun cluster_blowups :: "(rat \<Rightarrow> rat) \<Rightarrow> stress_env \<Rightarrow> stress_leg list \<Rightarrow> string list \<Rightarrow> string list \<Rightarrow> nat \<Rightarrow> (string \<times> jsnum) list" where
  "cluster_blowups rd env legs cs [] k = []"
| "cluster_blowups rd env legs cs (c # rest) k =
     (let (clusterPnl, k1) = simulateScenario rd (adverse (Fin 1)) (filter (\<lambda>l. slCluster l = Some c) legs) k;
          (factors, k2) = draw_factors (seProbit env) (seDraws env) (filter (\<lambda>x. x \<noteq> c) cs) k1;
          (otherPnl, k3) = simulateScenario rd (random_shock (seRho env) (seProbit env) (seDraws env) factors) (filter (\<lambda>l. slCluster l \<noteq> Some c) legs) k2
      in (''cluster-blowup-'' @ c, to_fixed 2 (xadd b64 clusterPnl otherPnl)) # cluster_blowups rd env legs cs rest k3)"

definition runSyntheticScenarios :: "(rat \<Rightarrow> rat) \<Rightarrow> stress_env \<Rightarrow> stress_leg list \<Rightarrow> string list \<Rightarrow> nat \<Rightarrow> (string \<times> jsnum) list" where
  "runSyntheticScenarios rd env legs cs k =
     (''correlation-1-stress'', to_fixed 2 (fst (simulateScenario rd (adverse (Fin 1)) legs k)))
     # cluster_blowups rd env legs cs cs k
     @ [(''liquidity-gap'', to_fixed 2 (fst (simulateScenario rd (adverse (xdiv b64 (Fin 2) (Fin 3))) legs k)))]"

section \<open>A run\<close>

datatype stress_suggestion =
    ReduceCluster string decimal
  | ReducePositionSize jsnum
  | ReduceOpenPairs nat jsnum
  | ReduceDeployment decimal
  | ReviewLimits

record stress_exposure =
  sxOpenPairs :: nat
  sxDeployed :: decimal
  sxBankroll :: decimal
  sxClusters :: "cluster_exposure list"

record stress_result =
  srScenarios :: nat
  srPositions :: nat
  srBankroll :: decimal
  srVar95 :: decimal
  srVar99 :: decimal
  srWorst :: decimal
  srDrawdown15 :: decimal
  srDrawdown20 :: decimal
  srDrawdown25 :: decimal
  srAlert :: bool
  srSuggestions :: "stress_suggestion list"
  srSynthetic :: "(string \<times> jsnum) list"

datatype stress_event =
    StressAlert decimal decimal decimal decimal "stress_suggestion list"
  | StressCompleted nat nat decimal decimal decimal decimal
  | StressRow stress_result

definition generateSuggestions :: "(rat \<Rightarrow> rat) \<Rightarrow> stress_settings \<Rightarrow> stress_exposure \<Rightarrow> nat \<Rightarrow> stress_suggestion list" where
  "generateSuggestions rd st x openPairCount =
     (let clusters = map (\<lambda>c. ReduceCluster (clusterName c) (exposurePct c)) (filter (\<lambda>c. xgt (exposurePct c) (Fin (1/10))) (sxClusters x));
          sizes = (if xgt (ssMaxPositionPct st) (js_lit (2/100)) \<and> xgt (sxBankroll x) (Fin 0) then [ReducePositionSize (ssMaxPositionPct st)] else []);
          pairs = (if xgt (Fin (of_nat openPairCount)) (xmul b64 (ssMaxOpenPairs st) (js_lit (8/10))) then [ReduceOpenPairs openPairCount (ssMaxOpenPairs st)] else []);
          share = xdiv rd (sxDeployed x) (sxBankroll x);
          deployed = (if xgt (sxBankroll x) (Fin 0) \<and> xgt share (Fin (1/2)) then [ReduceDeployment share] else []);
          all = clusters @ sizes @ pairs @ deployed
      in if all = [] then [ReviewLimits] else all)"

text \<open>The row is written before the event of completion; \<open>None\<close> is a write that throws.\<close>

definition persistResult :: "bool \<Rightarrow> stress_result \<Rightarrow> stress_event list \<times> stress_result option" where
  "persistResult stored r =
     (if stored then ([StressRow r, StressCompleted (srScenarios r) (srPositions r) (srVar95 r) (srVar99 r) (srWorst r) (srDrawdown20 r)], Some r)
      else ([], None))"

definition persistAndEmitNeutralResult :: "bool \<Rightarrow> decimal \<Rightarrow> nat \<Rightarrow> stress_event list \<times> stress_result option" where
  "persistAndEmitNeutralResult stored bankroll n =
     persistResult stored \<lparr>srScenarios = n, srPositions = 0, srBankroll = bankroll, srVar95 = Fin 0, srVar99 = Fin 0, srWorst = Fin 0,
       srDrawdown15 = Fin 0, srDrawdown20 = Fin 0, srDrawdown25 = Fin 0, srAlert = False, srSuggestions = [], srSynthetic = []\<rparr>"

definition drawdown_count :: "jsnum \<Rightarrow> jsnum \<Rightarrow> jsnum list \<Rightarrow> nat" where
  "drawdown_count bankroll limit pnls = length (filter (\<lambda>x. xlt x (Fin 0) \<and> xgt (xdiv b64 (xneg x) bankroll) limit) pnls)"

definition drawdown_share :: "jsnum \<Rightarrow> jsnum \<Rightarrow> jsnum list \<Rightarrow> decimal" where
  "drawdown_share bankroll limit pnls =
     to_decimal (xdiv b64 (Fin (of_nat (drawdown_count bankroll limit pnls))) (Fin (of_nat (length pnls))))"

definition loss_at :: "jsnum \<Rightarrow> decimal" where
  "loss_at x = to_decimal (xmax (Fin 0) (xneg x))"

definition stress_clusters :: "stress_leg list \<Rightarrow> string list" where
  "stress_clusters legs = set_of_list (map (\<lambda>l. the (slCluster l)) (filter in_cluster legs))"

definition measured :: "(rat \<Rightarrow> rat) \<Rightarrow> stress_env \<Rightarrow> stress_settings \<Rightarrow> stress_exposure \<Rightarrow> nat \<Rightarrow> jsnum list \<Rightarrow> (string \<times> jsnum) list \<Rightarrow> stress_result" where
  "measured rd env st x n pnls synthetic =
     (let ss = sort pnls; bankroll = to_number (sxBankroll x); d20 = drawdown_share bankroll (js_lit (2/10)) pnls; alert = xgt d20 (Fin (5/100)) in
      \<lparr>srScenarios = length pnls, srPositions = n, srBankroll = sxBankroll x,
        srVar95 = loss_at (seQuantile env ss (js_lit (5/100))), srVar99 = loss_at (seQuantile env ss (js_lit (1/100))),
        srWorst = loss_at (case ss of y # _ \<Rightarrow> y | [] \<Rightarrow> Fin 0),
        srDrawdown15 = drawdown_share bankroll (js_lit (15/100)) pnls, srDrawdown20 = d20, srDrawdown25 = drawdown_share bankroll (Fin (1/4)) pnls,
        srAlert = alert, srSuggestions = (if alert then generateSuggestions rd st x n else []), srSynthetic = synthetic\<rparr>)"

definition stress_pnls :: "(rat \<Rightarrow> rat) \<Rightarrow> stress_env \<Rightarrow> stress_settings \<Rightarrow> stress_leg list \<Rightarrow> jsnum list \<times> (string \<times> jsnum) list" where
  "stress_pnls rd env st legs =
     (let cs = stress_clusters legs; (xs, k) = random_scenarios rd env legs cs (ssScenarios st) 0; synthetic = runSyntheticScenarios rd env legs cs k
      in (xs @ map (to_number \<circ> snd) synthetic, synthetic))"

definition runSimulation ::
  "(rat \<Rightarrow> rat) \<Rightarrow> stress_env \<Rightarrow> stress_settings \<Rightarrow> stress_exposure \<Rightarrow> stress_position list \<Rightarrow> bool \<Rightarrow> stress_event list \<times> stress_result option" where
  "runSimulation rd env st x table stored =
     (let positions = stress_query table in
      if xle (sxBankroll x) (Fin 0) then persistAndEmitNeutralResult stored (sxBankroll x) (ssScenarios st)
      else if positions = [] then persistAndEmitNeutralResult stored (sxBankroll x) (ssScenarios st)
      else
        let legs = buildPositionLegs (seDeviation env) (seSnapshots env) st positions [];
            (pnls, synthetic) = stress_pnls rd env st legs;
            r = measured rd env st x (length positions) pnls synthetic;
            alert = (if srAlert r then [StressAlert (srVar95 r) (srVar99 r) (srWorst r) (srDrawdown20 r) (srSuggestions r)] else []);
            (effs, out) = persistResult stored r
        in (alert @ effs, out))"

section \<open>Sides\<close>

text \<open>The sides of the positions that the execution stores are lower case.\<close>

definition stored_sides :: "stress_position \<Rightarrow> bool" where
  "stored_sides p \<longleftrightarrow> spPolymarketSide p \<in> {Some ''buy'', Some ''sell''} \<and> spKalshiSide p \<in> {Some ''buy'', Some ''sell''}"

definition sold :: "stress_leg \<Rightarrow> stress_leg" where
  "sold l = l\<lparr>slSide := ''SELL''\<rparr>"

definition all_sold :: "stress_position \<Rightarrow> stress_position" where
  "all_sold p = p\<lparr>spPolymarketSide := Some ''SELL'', spKalshiSide := Some ''SELL''\<rparr>"

lemma built_sold:
  "list_all stored_sides ps \<Longrightarrow> buildPositionLegs dev snaps st (map all_sold ps) cache = map sold (buildPositionLegs dev snaps st ps cache)
     \<and> list_all (\<lambda>l. slSide l \<noteq> ''BUY'') (buildPositionLegs dev snaps st ps cache)"
proof (induction ps arbitrary: cache)
  case (Cons p ps)
  then show ?case
    by (auto simp: stored_sides_def all_sold_def sold_def build_leg_def Let_def case_prod_unfold split: option.splits)
qed simp

lemma sold_leg: "slSide l \<noteq> ''BUY'' \<Longrightarrow> stress_leg_pnl rd x (sold l) = stress_leg_pnl rd x l"
  "slSide l \<noteq> ''BUY'' \<Longrightarrow> adverse m (sold l) = adverse m l" "random_shock r p d f (sold l) = random_shock r p d f l"
  by (auto simp: stress_leg_pnl_def sold_def adverse_def adverse_shock_def random_shock_def in_cluster_def Let_def fun_eq_iff)

lemma sold_scenario:
  "list_all (\<lambda>l. slSide l \<noteq> ''BUY'' \<and> shock (sold l) = shock l) ls \<Longrightarrow> scenario_pnl rd shock (map sold ls) acc k = scenario_pnl rd shock ls acc k"
  by (induction ls arbitrary: acc k) (auto simp: sold_leg case_prod_unfold)

lemma sold_simulation:
  assumes "list_all (\<lambda>l. slSide l \<noteq> ''BUY'') ls"
  shows "simulateScenario rd (adverse m) (map sold ls) k = simulateScenario rd (adverse m) ls k"
    "simulateScenario rd (random_shock r p d f) (map sold ls) k = simulateScenario rd (random_shock r p d f) ls k"
  using assms sold_scenario [of "adverse m" ls] sold_scenario [of "random_shock r p d f" ls]
  by (auto simp: simulateScenario_def sold_leg list_all_iff)

lemma sold_random: "list_all (\<lambda>l. slSide l \<noteq> ''BUY'') ls \<Longrightarrow> random_scenarios rd env (map sold ls) cs n k = random_scenarios rd env ls cs n k"
  by (induction n arbitrary: k) (simp_all add: sold_simulation case_prod_unfold)

lemma sold_clusters: "filter (\<lambda>l. P (slCluster l)) (map sold ls) = map sold (filter (\<lambda>l. P (slCluster l)) ls)"
  by (induction ls) (auto simp: sold_def)

lemma sold_blowups:
  "list_all (\<lambda>l. slSide l \<noteq> ''BUY'') ls \<Longrightarrow> cluster_blowups rd env (map sold ls) cs rest k = cluster_blowups rd env ls cs rest k"
proof (induction rest arbitrary: k)
  case (Cons c rest)
  have f: "list_all (\<lambda>l. slSide l \<noteq> ''BUY'') (filter P ls)" for P using Cons.prems by (auto simp: list_all_iff)
  show ?case
    using Cons sold_clusters [where P = "\<lambda>x. x = Some c"] sold_clusters [where P = "\<lambda>x. x \<noteq> Some c"]
    by (simp add: sold_simulation [OF f] Let_def case_prod_unfold)
qed simp

lemma sold_pnls: "list_all (\<lambda>l. slSide l \<noteq> ''BUY'') ls \<Longrightarrow> stress_pnls rd env st (map sold ls) = stress_pnls rd env st ls"
proof -
  have "in_cluster (sold l) = in_cluster l" "slCluster (sold l) = slCluster l" for l by (simp_all add: in_cluster_def sold_def)
  then have "stress_clusters (map sold ls) = stress_clusters ls" by (simp add: stress_clusters_def filter_map comp_def)
  moreover assume "list_all (\<lambda>l. slSide l \<noteq> ''BUY'') ls"
  ultimately show ?thesis by (simp add: stress_pnls_def runSyntheticScenarios_def sold_random sold_blowups sold_simulation)
qed

text \<open>
  C34: for positions with the sides that the execution stores, the whole run is the same as if every
  leg had been sold: a bought leg is shocked upwards and loses when its price rises.
\<close>
theorem stress_test_takes_all_legs_as_sold:
  assumes "list_all stored_sides table"
  shows "runSimulation rd env st x table stored = runSimulation rd env st x (map all_sold table) stored"
proof -
  have q: "stress_query (map all_sold table) = map all_sold (stress_query table)"
    by (simp add: stress_query_def filter_map comp_def all_sold_def)
  have "list_all stored_sides (stress_query table)" using assms by (auto simp: stress_query_def list_all_iff)
  from built_sold [OF this] sold_pnls show ?thesis by (simp add: runSimulation_def Let_def q)
qed

definition sample_env :: stress_env where
  "sample_env = \<lparr>seRho = Fin (1/2), seProbit = id, seDraws = (\<lambda>_. Fin (1/2)), seQuantile = (\<lambda>_ _. Fin 0), seDeviation = (\<lambda>_. Fin 0), seSnapshots = (\<lambda>_ _. [])\<rparr>"

definition sample_settings :: stress_settings where
  "sample_settings = \<lparr>ssScenarios = 2, ssDefaultVol = Fin (1/32), ssMinSnapshots = 30, ssMaxPositionPct = Fin (1/32), ssMaxOpenPairs = Fin 10\<rparr>"

definition sample_exposure :: stress_exposure where
  "sample_exposure = \<lparr>sxOpenPairs = 1, sxDeployed = Fin 100, sxBankroll = Fin 1000, sxClusters = []\<rparr>"

definition sample_position :: stress_position where
  "sample_position = \<lparr>spStatus = OPEN, spIsPaper = False, spPolymarketSide = Some ''buy'', spKalshiSide = Some ''sell'', spPolymarketEntry = Some (Fin (1/2)),
     spKalshiEntry = Some (Fin (3/4)), spPolymarketSize = Some (Fin 100), spKalshiSize = Some (Fin 100), spPolymarketContract = ''p'',
     spKalshiContract = ''k'', spCluster = None\<rparr>"

theorem stress_test_takes_all_legs_as_sold_witness:
  "runSimulation dec20 sample_env sample_settings sample_exposure [sample_position] True
   = runSimulation dec20 sample_env sample_settings sample_exposure
       [sample_position\<lparr>spPolymarketSide := Some ''SELL'', spKalshiSide := Some ''SELL''\<rparr>] True"
  using stress_test_takes_all_legs_as_sold [of "[sample_position]" dec20 sample_env sample_settings sample_exposure True]
  by (simp add: all_sold_def stored_sides_def sample_position_def)

section \<open>Measures and alerts\<close>

lemma drawdown_count_mono:
  assumes "\<And>y. xgt y limit \<Longrightarrow> xgt y limit'"
  shows "drawdown_count bankroll limit pnls \<le> drawdown_count bankroll limit' pnls"
  using assms by (induction pnls) (auto simp: drawdown_count_def)

lemma above_smaller: "xgt y (Fin q) \<Longrightarrow> r \<le> q \<Longrightarrow> xgt y (Fin r)"
  by (cases y) auto

text \<open>
  the scenarios beyond a drawdown of a quarter are among those beyond a fifth, these among those
  beyond fifteen percent, and these among all.
\<close>
theorem drawdown_counts_nested:
  "drawdown_count bankroll (Fin (1/4)) pnls \<le> drawdown_count bankroll (js_lit (2/10)) pnls
   \<and> drawdown_count bankroll (js_lit (2/10)) pnls \<le> drawdown_count bankroll (js_lit (15/100)) pnls
   \<and> drawdown_count bankroll (js_lit (15/100)) pnls \<le> length pnls"
proof -
  have "b64 (1/4) = 1/4" using dbl.sr.rd_exact [of 1 "- 2"] by (simp add: power_int_minus)
  then have "b64 (2/10) \<le> 1/4" "b64 (15/100) \<le> b64 (2/10)"
    using dbl.sr.rd_mono [of "2/10" "1/4"] dbl.sr.rd_mono [of "15/100" "2/10"] by simp_all
  then show ?thesis
    unfolding js_lit_def by (intro conjI drawdown_count_mono) (auto elim: above_smaller simp: drawdown_count_def)
qed

text \<open>
  a run whose result cannot be stored returns nothing and reports no completion, but the alert
  about it has already been given when more than a twentieth of the scenarios lose a fifth of the
  bankroll.
\<close>
theorem unstored_run_may_alert:
  assumes "\<not> xle (sxBankroll x) (Fin 0)" "stress_query table \<noteq> []"
  shows "let (pnls, synthetic) = stress_pnls rd env st (buildPositionLegs (seDeviation env) (seSnapshots env) st (stress_query table) []);
      share = drawdown_share (to_number (sxBankroll x)) (js_lit (2/10)) pnls; (events, out) = runSimulation rd env st x table False in
    out = None \<and> length events = (if xgt share (Fin (1/20)) then 1 else 0) \<and> list_all (\<lambda>e. case e of StressAlert _ _ _ _ _ \<Rightarrow> True | _ \<Rightarrow> False) events"
  using assms by (simp add: runSimulation_def persistResult_def measured_def Let_def case_prod_unfold)

theorem unstored_run_may_alert_witness:
  "snd (runSimulation dec20 sample_env sample_settings sample_exposure [sample_position] False) = None"
proof -
  have "\<not> xle (sxBankroll sample_exposure) (Fin 0)" by (simp add: sample_exposure_def)
  moreover have "stress_query [sample_position] \<noteq> []" by (simp add: stress_query_def sample_position_def)
  ultimately show ?thesis using unstored_run_may_alert [of sample_exposure "[sample_position]" dec20 sample_env sample_settings]
    by (simp add: Let_def case_prod_unfold)
qed

end
