(* ===== verification/DataIngestion.thy ===== *)
theory DataIngestion
  imports PlatformHealth RateLimiter Normalizer
begin

text \<open>
  \<^verbatim>\<open>DataIngestionService\<close>: the polling path, the path of the feeds, the fallback for degraded
  platforms and the subscriptions of the pairs that have positions.  What the connectors and the
  database answer is an argument; the answers of concurrent fetches come in the order in which the
  fetches complete.
\<close>

section \<open>State\<close>

record ingestion =
  diFailures :: nat
  diSubscriptions :: "(string \<times> (string \<times> string)) list"
  diRefs :: "(string \<times> int) list"
  diHealth :: platform_health
  diDegradation :: degradation
  diDivergence :: divergence
  diKalshiConcurrency :: jsnum
  diPolymarketConcurrency :: jsnum

datatype ingest_effect =
    FeedSubscribe platform string
  | FeedUnsubscribe platform string
  | BookUpdated platform string order_book bool
  | DivergenceSeen divergence_event
  | HealthSeen health_event
  | FetchFailed platform string string

definition ingestion_init :: "jsnum \<Rightarrow> jsnum \<Rightarrow> platform_health \<Rightarrow> degradation \<Rightarrow> divergence \<Rightarrow> ingestion" where
  "ingestion_init kc pc h dg dv = \<lparr>diFailures = 0, diSubscriptions = [], diRefs = [], diHealth = h, diDegradation = dg,
     diDivergence = dv, diKalshiConcurrency = kc, diPolymarketConcurrency = pc\<rparr>"

definition ingestion_reloadConfig :: "jsnum option \<Rightarrow> jsnum option \<Rightarrow> ingestion \<Rightarrow> ingestion" where
  "ingestion_reloadConfig kc pc s =
     s\<lparr>diKalshiConcurrency := (case kc of Some x \<Rightarrow> x | None \<Rightarrow> diKalshiConcurrency s),
       diPolymarketConcurrency := (case pc of Some x \<Rightarrow> x | None \<Rightarrow> diPolymarketConcurrency s)\<rparr>"

section \<open>Snapshots\<close>

datatype snapshot_error = SnapshotWrite string | PersistentSnapshotFailure nat

fun snapshot_message :: "snapshot_error \<Rightarrow> string" where
  "snapshot_message (SnapshotWrite m) = m"
| "snapshot_message (PersistentSnapshotFailure n) = ''Persistent snapshot write failure''"

text \<open>\<open>refused\<close> is the error of the database, if any.\<close>

definition persistSnapshot :: "string option \<Rightarrow> ingestion \<Rightarrow> ingestion \<times> snapshot_error option" where
  "persistSnapshot refused s =
     (case refused of
        None \<Rightarrow> (s\<lparr>diFailures := 0\<rparr>, None)
      | Some m \<Rightarrow>
          let n = Suc (diFailures s) in
          (s\<lparr>diFailures := n\<rparr>, Some (if 10 \<le> n then PersistentSnapshotFailure n else SnapshotWrite m)))"

section \<open>One book\<close>

record book_answer =
  baContract :: string
  baBook :: "string + normalized_book"
  baRefused :: "string option"
  baNow :: timestamp
  baMs :: int

definition emit_ingested ::
  "(rat \<Rightarrow> rat) \<Rightarrow> platform \<Rightarrow> string \<Rightarrow> bool \<Rightarrow> book_answer \<Rightarrow> normalized_book \<Rightarrow> ingestion \<Rightarrow> ingestion \<times> ingest_effect list" where
  "emit_ingested rd p c fromWs a nb s =
     (let record_data = (if fromWs then recordWsData else recordPollData);
          r = record_data rd p (nbContract nb) (nbBook nb) (nbTimestamp nb) (diDivergence s)
      in (s\<lparr>diHealth := recordContractUpdate (baNow a) p c (baMs a) fromWs (diHealth s), diDivergence := fst r\<rparr>,
          BookUpdated (nbPlatform nb) (nbContract nb) (nbBook nb) False # map DivergenceSeen (snd r)))"

text \<open>Stored first, announced after; the flag tells whether the book went through.\<close>

definition ingest_book ::
  "(rat \<Rightarrow> rat) \<Rightarrow> platform \<Rightarrow> string \<Rightarrow> bool \<Rightarrow> book_answer \<Rightarrow> normalized_book \<Rightarrow> ingestion \<Rightarrow> ingestion \<times> ingest_effect list \<times> bool" where
  "ingest_book rd p c fromWs a nb s =
     (case persistSnapshot (baRefused a) s of
        (s1, Some e) \<Rightarrow> (s1, [FetchFailed p c (snapshot_message e)], False)
      | (s1, None) \<Rightarrow> (case emit_ingested rd p c fromWs a nb s1 of (s2, effs) \<Rightarrow> (s2, effs, True)))"

section \<open>Polling\<close>

fun poll_kalshi :: "(rat \<Rightarrow> rat) \<Rightarrow> book_answer list \<Rightarrow> ingestion \<Rightarrow> ingestion \<times> ingest_effect list" where
  "poll_kalshi rd [] s = (s, [])"
| "poll_kalshi rd (a # as) s =
     (case (case baBook a of
          Inl m \<Rightarrow> (s, [FetchFailed Kalshi (baContract a) m], False)
        | Inr nb \<Rightarrow> ingest_book rd Kalshi (baContract a) False a nb s) of
        (s1, effs, _) \<Rightarrow> (case poll_kalshi rd as s1 of (s2, effs2) \<Rightarrow> (s2, effs @ effs2)))"

text \<open>The batch of Polymarket is one loop, which the first snapshot that cannot be stored ends.\<close>

fun poll_batch :: "(rat \<Rightarrow> rat) \<Rightarrow> (book_answer \<times> normalized_book) list \<Rightarrow> ingestion \<Rightarrow> ingestion \<times> ingest_effect list" where
  "poll_batch rd [] s = (s, [])"
| "poll_batch rd ((a, nb) # as) s =
     (case ingest_book rd Polymarket (nbContract nb) False a nb s of
        (s1, effs, False) \<Rightarrow> (s1, effs)
      | (s1, effs, True) \<Rightarrow> (case poll_batch rd as s1 of (s2, effs2) \<Rightarrow> (s2, effs @ effs2)))"

definition poll_polymarket :: "(rat \<Rightarrow> rat) \<Rightarrow> string + (book_answer \<times> normalized_book) list \<Rightarrow> ingestion \<Rightarrow> ingestion \<times> ingest_effect list" where
  "poll_polymarket rd answer s =
     (case answer of Inl m \<Rightarrow> (s, [FetchFailed Polymarket [] m]) | Inr as \<Rightarrow> poll_batch rd as s)"

fun degraded_book :: "platform \<Rightarrow> book_answer \<Rightarrow> ingestion \<Rightarrow> ingestion \<times> ingest_effect list" where
  "degraded_book p a s =
     (case baBook a of
        Inl m \<Rightarrow> (s, [FetchFailed p (baContract a) m])
      | Inr nb \<Rightarrow>
          (case persistSnapshot (baRefused a) s of
             (s1, Some e) \<Rightarrow> (s1, [FetchFailed p (baContract a) (snapshot_message e)])
           | (s1, None) \<Rightarrow>
               (s1\<lparr>diHealth := recordContractUpdate (baNow a) p (baContract a) (baMs a) False (diHealth s1),
                   diDegradation := incrementPollingCycle p (diDegradation s1)\<rparr>,
                [BookUpdated (nbPlatform nb) (nbContract nb) (nbBook nb) True])))"

fun degraded_books :: "platform \<Rightarrow> book_answer list \<Rightarrow> ingestion \<Rightarrow> ingestion \<times> ingest_effect list" where
  "degraded_books p [] s = (s, [])"
| "degraded_books p (a # as) s =
     (case degraded_book p a s of (s1, e1) \<Rightarrow> (case degraded_books p as s1 of (s2, e2) \<Rightarrow> (s2, e1 @ e2)))"

definition pollDegradedPlatforms :: "(platform \<Rightarrow> book_answer list) \<Rightarrow> ingestion \<Rightarrow> ingestion \<times> ingest_effect list" where
  "pollDegradedPlatforms answers s =
     (case (if isDegraded Kalshi (diDegradation s) then degraded_books Kalshi (answers Kalshi) s else (s, [])) of
        (s1, e1) \<Rightarrow>
          (case (if isDegraded Polymarket (diDegradation s1) then degraded_books Polymarket (answers Polymarket) s1 else (s1, [])) of
             (s2, e2) \<Rightarrow> (s2, e1 @ e2)))"

record ingest_env =
  ieKalshi :: "book_answer list"
  iePolymarket :: "string + (book_answer \<times> normalized_book) list"
  ieDegraded :: "platform \<Rightarrow> book_answer list"

definition ingestCurrentOrderBooks :: "(rat \<Rightarrow> rat) \<Rightarrow> nat \<Rightarrow> ingest_env \<Rightarrow> ingestion \<Rightarrow> ingestion \<times> ingest_effect list" where
  "ingestCurrentOrderBooks rd pairs env s =
     (if pairs = 0 then (s, [])
      else
        case (if isDegraded Kalshi (diDegradation s) then (s, []) else poll_kalshi rd (ieKalshi env) s) of
          (s1, e1) \<Rightarrow>
            (case (if isDegraded Polymarket (diDegradation s1) then (s1, []) else poll_polymarket rd (iePolymarket env) s1) of
               (s2, e2) \<Rightarrow>
                 (case pollDegradedPlatforms (ieDegraded env) s2 of
                    (s3, e3) \<Rightarrow>
                      (case publishHealth (diHealth s3, diDegradation s3) of
                         ((h, dg), evs) \<Rightarrow> (s3\<lparr>diHealth := h, diDegradation := dg\<rparr>, e1 @ e2 @ e3 @ map HealthSeen evs)))))"

text \<open>A book of a feed; the error goes back to the callback, which logs it.\<close>

definition processWebSocketUpdate :: "(rat \<Rightarrow> rat) \<Rightarrow> book_answer \<Rightarrow> normalized_book \<Rightarrow> ingestion \<Rightarrow> ingestion \<times> ingest_effect list \<times> bool" where
  "processWebSocketUpdate rd a nb s = ingest_book rd (nbPlatform nb) (nbContract nb) True a nb s"

section \<open>Subscriptions\<close>

definition retain_contract :: "platform \<Rightarrow> string \<Rightarrow> ingestion \<Rightarrow> ingestion \<times> ingest_effect list" where
  "retain_contract p c s =
     (let n = get_or 0 (diRefs s) (data_key p c) + 1
      in (s\<lparr>diRefs := map_set (data_key p c) n (diRefs s)\<rparr>, if n = 1 then [FeedSubscribe p c] else []))"

definition subscribeForPosition :: "string \<Rightarrow> string \<Rightarrow> string \<Rightarrow> ingestion \<Rightarrow> ingestion \<times> ingest_effect list" where
  "subscribeForPosition pair kc pc s =
     (if map_of (diSubscriptions s) pair \<noteq> None then (s, [])
      else
        case retain_contract Kalshi kc (s\<lparr>diSubscriptions := map_set pair (kc, pc) (diSubscriptions s)\<rparr>) of
          (s1, e1) \<Rightarrow> (case retain_contract Polymarket pc s1 of (s2, e2) \<Rightarrow> (s2, e1 @ e2)))"

definition release_contract :: "platform \<Rightarrow> string \<Rightarrow> ingestion \<Rightarrow> ingestion \<times> ingest_effect list" where
  "release_contract p c s =
     (let n = get_or 1 (diRefs s) (data_key p c) - 1
      in if n \<le> 0 then
           (s\<lparr>diRefs := map_delete (data_key p c) (diRefs s), diDivergence := clearContractData p c (diDivergence s),
              diHealth := removeContractTracking p c (diHealth s)\<rparr>, [FeedUnsubscribe p c])
         else (s\<lparr>diRefs := map_set (data_key p c) n (diRefs s)\<rparr>, []))"

definition unsubscribeForPosition :: "string \<Rightarrow> ingestion \<Rightarrow> ingestion \<times> ingest_effect list" where
  "unsubscribeForPosition pair s =
     (case map_of (diSubscriptions s) pair of
        None \<Rightarrow> (s, [])
      | Some (kc, pc) \<Rightarrow>
          (case release_contract Kalshi kc (s\<lparr>diSubscriptions := map_delete pair (diSubscriptions s)\<rparr>) of
             (s1, e1) \<Rightarrow> (case release_contract Polymarket pc s1 of (s2, e2) \<Rightarrow> (s2, e1 @ e2))))"

definition getActiveSubscriptionCount :: "platform \<Rightarrow> ingestion \<Rightarrow> nat" where
  "getActiveSubscriptionCount p s = length (filter (starts_with (platform_id p @ '':'')) (map fst (diRefs s)))"

text \<open>A position with its pair; a contract that the pair does not have is \<open>None\<close> or empty.\<close>

record paired_position =
  ppPair :: string
  ppOpen :: bool
  ppKalshi :: "string option"
  ppPolymarket :: "string option"

definition pair_contracts :: "paired_position \<Rightarrow> (string \<times> string) option" where
  "pair_contracts q =
     (case (ppKalshi q, ppPolymarket q) of
        (Some kc, Some pc) \<Rightarrow> if kc = [] \<or> pc = [] then None else Some (kc, pc)
      | _ \<Rightarrow> None)"

text \<open>\<open>found\<close> is the answer of the database, \<open>None\<close> when it fails or has no such position.\<close>

definition handleOrderFilled :: "paired_position option \<Rightarrow> ingestion \<Rightarrow> ingestion \<times> ingest_effect list" where
  "handleOrderFilled found s =
     (case found of
        None \<Rightarrow> (s, [])
      | Some q \<Rightarrow>
          if \<not> ppOpen q then (s, [])
          else case pair_contracts q of None \<Rightarrow> (s, []) | Some (kc, pc) \<Rightarrow> subscribeForPosition (ppPair q) kc pc s)"

definition handleSingleLegResolved :: "bool \<Rightarrow> string \<Rightarrow> ingestion \<Rightarrow> ingestion \<times> ingest_effect list" where
  "handleSingleLegResolved isClosed pair s = (if isClosed then unsubscribeForPosition pair s else (s, []))"

fun rehydrate :: "paired_position list \<Rightarrow> ingestion \<Rightarrow> ingestion \<times> ingest_effect list" where
  "rehydrate [] s = (s, [])"
| "rehydrate (q # qs) s =
     (case (case pair_contracts q of None \<Rightarrow> (s, []) | Some (kc, pc) \<Rightarrow> subscribeForPosition (ppPair q) kc pc s) of
        (s1, e1) \<Rightarrow> (case rehydrate qs s1 of (s2, e2) \<Rightarrow> (s2, e1 @ e2)))"

text \<open>The estimate of the start-up warning, in seconds.\<close>

definition estimated_cycle :: "nat \<Rightarrow> jsnum \<Rightarrow> ingestion \<Rightarrow> jsnum" where
  "estimated_cycle pairs readRate s =
     (let r = xmin (diKalshiConcurrency s) readRate
      in if xgt r (Fin 0) then js_ceil (xdiv b64 (Fin (of_nat pairs)) r) else Fin 0)"

definition ingestion_onModuleInit ::
  "(paired_position list \<times> paired_position list) option \<Rightarrow> nat \<Rightarrow> jsnum \<Rightarrow> ingestion \<Rightarrow> ingestion \<times> ingest_effect list \<times> bool" where
  "ingestion_onModuleInit answer pairs readRate s =
     (case (case answer of None \<Rightarrow> (s, []) | Some (live, paper) \<Rightarrow> rehydrate (live @ paper) s) of
        (s1, effs) \<Rightarrow> (s1, effs, xgt (estimated_cycle pairs readRate s1) (Fin 60)))"

section \<open>Runs\<close>

datatype ingest_op =
    StartIngestion "(paired_position list \<times> paired_position list) option" nat jsnum
  | ReloadIngestion "jsnum option" "jsnum option"
  | PollBooks nat ingest_env
  | FeedBook book_answer normalized_book
  | OrderFilledSeen "paired_position option"
  | ExitSeen string
  | SingleLegSeen bool string

fun ingest_step :: "(rat \<Rightarrow> rat) \<Rightarrow> ingest_op \<Rightarrow> ingestion \<Rightarrow> ingestion \<times> ingest_effect list" where
  "ingest_step rd (StartIngestion qs n r) s = (case ingestion_onModuleInit qs n r s of (s1, effs, _) \<Rightarrow> (s1, effs))"
| "ingest_step rd (ReloadIngestion kc pc) s = (ingestion_reloadConfig kc pc s, [])"
| "ingest_step rd (PollBooks n env) s = ingestCurrentOrderBooks rd n env s"
| "ingest_step rd (FeedBook a nb) s = (case processWebSocketUpdate rd a nb s of (s1, effs, _) \<Rightarrow> (s1, effs))"
| "ingest_step rd (OrderFilledSeen q) s = handleOrderFilled q s"
| "ingest_step rd (ExitSeen pair) s = unsubscribeForPosition pair s"
| "ingest_step rd (SingleLegSeen isClosed pair) s = handleSingleLegResolved isClosed pair s"

fun ingest_run :: "(rat \<Rightarrow> rat) \<Rightarrow> ingest_op list \<Rightarrow> ingestion \<Rightarrow> ingestion \<times> ingest_effect list" where
  "ingest_run rd [] s = (s, [])"
| "ingest_run rd (x # xs) s =
     (case ingest_step rd x s of (s1, e1) \<Rightarrow> (case ingest_run rd xs s1 of (s2, e2) \<Rightarrow> (s2, e1 @ e2)))"

section \<open>Contracts in the feed\<close>

text \<open>Whether a contract is in the feed of its platform after the effects.\<close>

fun feed_after :: "platform \<Rightarrow> string \<Rightarrow> bool \<Rightarrow> ingest_effect \<Rightarrow> bool" where
  "feed_after p c b (FeedSubscribe q d) \<longleftrightarrow> b \<or> (p, c) = (q, d)"
| "feed_after p c b (FeedUnsubscribe q d) \<longleftrightarrow> b \<and> (p, c) \<noteq> (q, d)"
| "feed_after p c b e \<longleftrightarrow> b"

definition in_feed :: "platform \<Rightarrow> string \<Rightarrow> bool \<Rightarrow> ingest_effect list \<Rightarrow> bool" where
  "in_feed p c b effs = foldl (feed_after p c) b effs"

lemma in_feed_simps [simp]:
  "in_feed p c b [] = b"
  "in_feed p c b (e # es) = in_feed p c (feed_after p c b e) es"
  "in_feed p c b (xs @ ys) = in_feed p c (in_feed p c b xs) ys"
  by (simp_all add: in_feed_def)

definition names_contract :: "platform \<Rightarrow> string \<Rightarrow> string \<times> string \<times> string \<Rightarrow> bool" where
  "names_contract p c e \<longleftrightarrow> (case p of Kalshi \<Rightarrow> fst (snd e) = c | Polymarket \<Rightarrow> snd (snd e) = c)"

definition users_in :: "(string \<times> string \<times> string) list \<Rightarrow> platform \<Rightarrow> string \<Rightarrow> nat" where
  "users_in subs p c = length (filter (names_contract p c) subs)"

text \<open>A count is stored exactly for the contracts in use, and it is the number of their pairs.\<close>

definition refs_match :: "(string \<times> int) list \<Rightarrow> (platform \<Rightarrow> string \<Rightarrow> nat) \<Rightarrow> bool" where
  "refs_match refs f \<longleftrightarrow> (\<forall>p c. map_of refs (data_key p c) = (if f p c = 0 then None else Some (int (f p c))))"

definition counts_ok :: "ingestion \<Rightarrow> bool" where
  "counts_ok s \<longleftrightarrow> distinct (map fst (diSubscriptions s)) \<and> refs_match (diRefs s) (users_in (diSubscriptions s))"

definition feed_moves :: "(platform \<Rightarrow> string \<Rightarrow> nat) \<Rightarrow> ingest_effect list \<Rightarrow> (platform \<Rightarrow> string \<Rightarrow> nat) \<Rightarrow> bool" where
  "feed_moves f effs g \<longleftrightarrow> (\<forall>p c. in_feed p c (0 < f p c) effs \<longleftrightarrow> 0 < g p c)"

definition bump :: "platform \<Rightarrow> string \<Rightarrow> (platform \<Rightarrow> string \<Rightarrow> nat) \<Rightarrow> platform \<Rightarrow> string \<Rightarrow> nat" where
  "bump p c f = (\<lambda>q d. if (q, d) = (p, c) then Suc (f q d) else f q d)"

lemma bump_commute: "bump p c (bump q d f) = bump q d (bump p c f)"
  by (auto simp: bump_def fun_eq_iff)

lemma feed_moves_trans: "feed_moves f e1 g \<Longrightarrow> feed_moves g e2 h \<Longrightarrow> feed_moves f (e1 @ e2) h"
  by (simp add: feed_moves_def)

lemma users_append [simp]: "users_in (xs @ ys) p c = users_in xs p c + users_in ys p c"
  by (simp add: users_in_def)

lemma users_one: "users_in (xs @ (pair, kc, pc) # ys) = bump Polymarket pc (bump Kalshi kc (users_in (xs @ ys)))"
  by (auto simp: users_in_def names_contract_def bump_def fun_eq_iff split: platform.splits)

lemma retain_counts:
  assumes "refs_match (diRefs s) f" "retain_contract p c s = (s1, effs)"
  shows "refs_match (diRefs s1) (bump p c f)" "feed_moves f effs (bump p c f)" "diSubscriptions s1 = diSubscriptions s"
proof -
  have n: "get_or 0 (diRefs s) (data_key p c) = int (f p c)"
    using assms(1) by (simp add: refs_match_def get_or_def)
  show "refs_match (diRefs s1) (bump p c f)"
    using assms n by (auto simp: refs_match_def retain_contract_def Let_def bump_def update_conv')
  show "feed_moves f effs (bump p c f)"
    using assms(2) n by (auto simp: feed_moves_def retain_contract_def Let_def bump_def split: if_splits)
  show "diSubscriptions s1 = diSubscriptions s" using assms(2) by (auto simp: retain_contract_def Let_def)
qed

lemma release_counts:
  assumes "refs_match (diRefs s) (bump p c f)" "release_contract p c s = (s1, effs)"
  shows "refs_match (diRefs s1) f" "feed_moves (bump p c f) effs f" "diSubscriptions s1 = diSubscriptions s"
proof -
  have n: "get_or 1 (diRefs s) (data_key p c) = int (Suc (f p c))"
    using assms(1) by (simp add: refs_match_def get_or_def bump_def)
  show "refs_match (diRefs s1) f" unfolding refs_match_def
  proof (intro allI)
    fix q d
    have "map_of (diRefs s) (data_key q d) = (if bump p c f q d = 0 then None else Some (int (bump p c f q d)))"
      using assms(1) unfolding refs_match_def by blast
    then show "map_of (diRefs s1) (data_key q d) = (if f q d = 0 then None else Some (int (f q d)))"
      using assms(2) n by (auto simp: release_contract_def Let_def bump_def map_of_delete map_of_set split: if_splits)
  qed
  show "feed_moves (bump p c f) effs f"
    using assms(2) n by (auto simp: feed_moves_def release_contract_def Let_def bump_def split: if_splits)
  show "diSubscriptions s1 = diSubscriptions s" using assms(2) by (auto simp: release_contract_def Let_def split: if_splits)
qed

definition step_ok :: "ingestion \<Rightarrow> ingestion \<times> ingest_effect list \<Rightarrow> bool" where
  "step_ok s r \<longleftrightarrow> (counts_ok s \<longrightarrow>
     counts_ok (fst r) \<and> feed_moves (users_in (diSubscriptions s)) (snd r) (users_in (diSubscriptions (fst r))))"

lemma step_ok_refl [simp]: "step_ok s (s, [])"
  by (simp add: step_ok_def feed_moves_def)

lemma step_ok_trans: "step_ok s (s1, e1) \<Longrightarrow> step_ok s1 (s2, e2) \<Longrightarrow> step_ok s (s2, e1 @ e2)"
  by (auto simp: step_ok_def dest: feed_moves_trans)

lemma step_ok_subscribe: "step_ok s (subscribeForPosition pair kc pc s)"
proof (cases "map_of (diSubscriptions s) pair")
  case None
  obtain s1 e1 where 1: "retain_contract Kalshi kc (s\<lparr>diSubscriptions := map_set pair (kc, pc) (diSubscriptions s)\<rparr>) = (s1, e1)" by fastforce
  obtain s2 e2 where 2: "retain_contract Polymarket pc s1 = (s2, e2)" by fastforce
  have res: "subscribeForPosition pair kc pc s = (s2, e1 @ e2)" using None 1 2 by (simp add: subscribeForPosition_def)
  show ?thesis unfolding step_ok_def res fst_conv snd_conv
  proof (intro impI)
    assume ok: "counts_ok s"
    let ?f = "users_in (diSubscriptions s)"
    have subs: "map_set pair (kc, pc) (diSubscriptions s) = diSubscriptions s @ [(pair, kc, pc)]" by (rule map_set_fresh [OF None])
    have g: "users_in (diSubscriptions s @ [(pair, kc, pc)]) = bump Polymarket pc (bump Kalshi kc ?f)"
      using users_one [of "diSubscriptions s" pair kc pc "[]"] by simp
    have a: "refs_match (diRefs (s\<lparr>diSubscriptions := map_set pair (kc, pc) (diSubscriptions s)\<rparr>)) ?f" using ok by (simp add: counts_ok_def)
    note r1 = retain_counts [OF a 1] and r2 = retain_counts [OF retain_counts(1) [OF a 1] 2]
    have "pair \<notin> fst ` set (diSubscriptions s)" using None by (simp add: map_of_eq_None_iff)
    then have "distinct (map fst (diSubscriptions s2))" using r1(3) r2(3) subs ok by (simp add: counts_ok_def)
    then show "counts_ok s2 \<and> feed_moves ?f (e1 @ e2) (users_in (diSubscriptions s2))"
      using r1 r2 subs g by (auto simp: counts_ok_def intro: feed_moves_trans)
  qed
qed (simp add: subscribeForPosition_def)

lemma step_ok_unsubscribe: "step_ok s (unsubscribeForPosition pair s)"
proof (cases "map_of (diSubscriptions s) pair")
  case (Some kp)
  obtain kc pc where kp: "kp = (kc, pc)" by fastforce
  obtain s1 e1 where 1: "release_contract Kalshi kc (s\<lparr>diSubscriptions := map_delete pair (diSubscriptions s)\<rparr>) = (s1, e1)" by fastforce
  obtain s2 e2 where 2: "release_contract Polymarket pc s1 = (s2, e2)" by fastforce
  have res: "unsubscribeForPosition pair s = (s2, e1 @ e2)" using Some kp 1 2 by (simp add: unsubscribeForPosition_def)
  show ?thesis unfolding step_ok_def res fst_conv snd_conv
  proof (intro impI)
    assume ok: "counts_ok s"
    then obtain xs ys where subs: "diSubscriptions s = xs @ (pair, kc, pc) # ys" "map_of xs pair = None" "map_of ys pair = None"
      using map_of_split [OF Some] kp by (auto simp: counts_ok_def)
    have del: "map_delete pair (diSubscriptions s) = xs @ ys" using map_delete_split subs by simp
    have f: "users_in (diSubscriptions s) = bump Kalshi kc (bump Polymarket pc (users_in (xs @ ys)))"
      unfolding subs(1) users_one by (rule bump_commute)
    have a: "refs_match (diRefs (s\<lparr>diSubscriptions := map_delete pair (diSubscriptions s)\<rparr>)) (bump Kalshi kc (bump Polymarket pc (users_in (xs @ ys))))"
      using ok f by (simp add: counts_ok_def)
    note r1 = release_counts [OF a 1] and r2 = release_counts [OF release_counts(1) [OF a 1] 2]
    have "distinct (map fst (xs @ ys))" using ok subs(1) by (auto simp: counts_ok_def)
    then have "counts_ok s2" using r1(3) r2(1,3) del by (simp add: counts_ok_def)
    moreover have "feed_moves (users_in (diSubscriptions s)) (e1 @ e2) (users_in (diSubscriptions s2))"
      using feed_moves_trans [OF r1(2) r2(2)] r1(3) r2(3) del f by simp
    ultimately show "counts_ok s2 \<and> feed_moves (users_in (diSubscriptions s)) (e1 @ e2) (users_in (diSubscriptions s2))" by blast
  qed
qed (simp add: unsubscribeForPosition_def)

section \<open>Polling leaves the subscriptions alone\<close>

definition feed_kept :: "ingestion \<Rightarrow> ingestion \<times> ingest_effect list \<Rightarrow> bool" where
  "feed_kept s r \<longleftrightarrow> diSubscriptions (fst r) = diSubscriptions s \<and> diRefs (fst r) = diRefs s
     \<and> list_all (\<lambda>e. case e of FeedSubscribe _ _ \<Rightarrow> False | FeedUnsubscribe _ _ \<Rightarrow> False | _ \<Rightarrow> True) (snd r)"

lemma feed_kept_refl [simp]: "feed_kept s (s, [])"
  by (simp add: feed_kept_def)

lemma feed_kept_trans: "feed_kept s (s1, e1) \<Longrightarrow> feed_kept s1 (s2, e2) \<Longrightarrow> feed_kept s (s2, e1 @ e2)"
  by (simp add: feed_kept_def)

lemma quiet_effects:
  "list_all (\<lambda>e. case e of FeedSubscribe _ _ \<Rightarrow> False | FeedUnsubscribe _ _ \<Rightarrow> False | _ \<Rightarrow> True) es \<Longrightarrow> in_feed p c b es = b"
  by (induction es arbitrary: b) (auto split: ingest_effect.splits)

lemma step_ok_kept: "feed_kept s r \<Longrightarrow> step_ok s r"
  by (auto simp: feed_kept_def step_ok_def counts_ok_def feed_moves_def quiet_effects)

lemma persist_kept: "persistSnapshot x s = (s1, r) \<Longrightarrow> diSubscriptions s1 = diSubscriptions s \<and> diRefs s1 = diRefs s"
  by (auto simp: persistSnapshot_def Let_def split: option.splits)

lemma book_kept: "ingest_book rd p c w a nb s = (s1, effs, b) \<Longrightarrow> feed_kept s (s1, effs)"
  by (auto simp: ingest_book_def emit_ingested_def Let_def feed_kept_def list_all_iff split: prod.splits option.splits dest!: persist_kept)

lemma poll_kalshi_kept: "feed_kept s (poll_kalshi rd as s)"
proof (induction as arbitrary: s)
  case (Cons a as)
  obtain s1 effs b where 1: "(case baBook a of Inl m \<Rightarrow> (s, [FetchFailed Kalshi (baContract a) m], False)
      | Inr nb \<Rightarrow> ingest_book rd Kalshi (baContract a) False a nb s) = (s1, effs, b)" by (metis prod_cases3)
  then have "feed_kept s (s1, effs)" by (auto simp: feed_kept_def split: sum.splits dest!: book_kept)
  then show ?case using Cons.IH [of s1] 1 by (cases "poll_kalshi rd as s1") (auto intro: feed_kept_trans)
qed simp

lemma poll_batch_kept: "feed_kept s (poll_batch rd as s)"
proof (induction rd as s rule: poll_batch.induct)
  case (2 rd a nb as s)
  obtain s1 effs b where 1: "ingest_book rd Polymarket (nbContract nb) False a nb s = (s1, effs, b)" by (metis prod_cases3)
  have "feed_kept s (s1, effs)" by (rule book_kept [OF 1])
  then show ?case
    using 2 [OF 1 [symmetric]] 1 by (cases b; cases "poll_batch rd as s1") (auto intro: feed_kept_trans)
qed simp

lemma poll_polymarket_kept: "feed_kept s (poll_polymarket rd answer s)"
  using poll_batch_kept by (auto simp: poll_polymarket_def feed_kept_def split: sum.splits)

lemma degraded_books_kept: "feed_kept s (degraded_books p as s)"
proof (induction as arbitrary: s)
  case (Cons a as)
  obtain s1 effs where 1: "degraded_book p a s = (s1, effs)" by fastforce
  then have "feed_kept s (s1, effs)"
    by (auto simp: feed_kept_def split: sum.splits prod.splits option.splits dest!: persist_kept)
  then show ?case using Cons.IH [of s1] 1 by (cases "degraded_books p as s1") (auto intro: feed_kept_trans)
qed simp

lemma degraded_kept: "feed_kept s (pollDegradedPlatforms answers s)"
proof -
  let ?r = "\<lambda>p s. if isDegraded p (diDegradation s) then degraded_books p (answers p) s else (s, [])"
  have k: "feed_kept s (?r p s)" for p s by (simp add: degraded_books_kept)
  obtain s1 e1 where 1: "?r Kalshi s = (s1, e1)" by fastforce
  obtain s2 e2 where 2: "?r Polymarket s1 = (s2, e2)" by fastforce
  have "pollDegradedPlatforms answers s = (s2, e1 @ e2)"
    unfolding pollDegradedPlatforms_def 1 using 2 by simp
  then show ?thesis using feed_kept_trans k [of s Kalshi] k [of s1 Polymarket] unfolding 1 2 by simp
qed

lemma ingest_kept: "feed_kept s (ingestCurrentOrderBooks rd n env s)"
proof -
  let ?k = "if isDegraded Kalshi (diDegradation s) then (s, []) else poll_kalshi rd (ieKalshi env) s"
  obtain s1 e1 where 1: "?k = (s1, e1)" by fastforce
  let ?p = "if isDegraded Polymarket (diDegradation s1) then (s1, []) else poll_polymarket rd (iePolymarket env) s1"
  obtain s2 e2 where 2: "?p = (s2, e2)" by fastforce
  obtain s3 e3 where 3: "pollDegradedPlatforms (ieDegraded env) s2 = (s3, e3)" by fastforce
  have "feed_kept s ?k" "feed_kept s1 ?p" by (simp_all add: poll_kalshi_kept poll_polymarket_kept)
  then have "feed_kept s (s1, e1)" "feed_kept s1 (s2, e2)" unfolding 1 2 .
  moreover have "feed_kept s2 (s3, e3)" using degraded_kept [of s2 "ieDegraded env"] 3 by simp
  ultimately have "feed_kept s (s3, e1 @ e2 @ e3)" by (intro feed_kept_trans)
  moreover have "ingestCurrentOrderBooks rd n env s
      = (if n = 0 then (s, []) else (s3\<lparr>diHealth := diHealth s3, diDegradation := diDegradation s3\<rparr>, e1 @ e2 @ e3))"
    unfolding ingestCurrentOrderBooks_def 1 using 2 3 by (simp add: publishHealth_def)
  ultimately show ?thesis by (simp add: feed_kept_def)
qed

lemma step_ok_rehydrate: "step_ok s (rehydrate qs s)"
proof (induction qs arbitrary: s)
  case (Cons q qs)
  obtain s1 e1 where 1: "(case pair_contracts q of None \<Rightarrow> (s, []) | Some (kc, pc) \<Rightarrow> subscribeForPosition (ppPair q) kc pc s) = (s1, e1)"
    by fastforce
  then have "step_ok s (s1, e1)" using step_ok_subscribe [of s] by (auto split: option.splits) metis
  then show ?case using Cons.IH [of s1] 1 by (cases "rehydrate qs s1") (auto intro: step_ok_trans)
qed simp

lemma step_ok_step: "step_ok s (ingest_step rd x s)"
proof (cases x)
  case (StartIngestion answer n r)
  then show ?thesis using step_ok_rehydrate by (auto simp: ingestion_onModuleInit_def split: option.splits prod.splits) metis
next
  case (ReloadIngestion kc pc)
  then show ?thesis by (simp add: step_ok_kept feed_kept_def ingestion_reloadConfig_def)
next
  case (PollBooks n env)
  then show ?thesis by (simp add: step_ok_kept ingest_kept)
next
  case (FeedBook a nb)
  then show ?thesis
    by (auto simp: processWebSocketUpdate_def intro: step_ok_kept dest!: book_kept split: prod.splits)
next
  case (OrderFilledSeen q)
  then show ?thesis by (auto simp: handleOrderFilled_def step_ok_subscribe split: option.splits)
next
  case (ExitSeen pair)
  then show ?thesis by (simp add: step_ok_unsubscribe)
next
  case (SingleLegSeen c pair)
  then show ?thesis by (simp add: handleSingleLegResolved_def step_ok_unsubscribe)
qed

lemma step_ok_run: "step_ok s (ingest_run rd ops s)"
proof (induction ops arbitrary: s)
  case (Cons x ops)
  obtain s1 e1 where 1: "ingest_step rd x s = (s1, e1)" by fastforce
  then have "step_ok s (s1, e1)" using step_ok_step [of s rd x] by simp
  then show ?case using Cons.IH [of s1] 1 by (cases "ingest_run rd ops s1") (auto intro: step_ok_trans)
qed simp

lemma counts_ok_init: "counts_ok (ingestion_init kc pc h dg dv)"
  by (simp add: counts_ok_def ingestion_init_def refs_match_def users_in_def)

text \<open>
  C36: whatever happens after a start, a contract is in the feed of its platform exactly while a pair
  that is subscribed names it, and the stored count of a contract is the number of these pairs.
\<close>
theorem feed_serves_subscribed_pairs:
  assumes "ingest_run rd ops (ingestion_init kc pc h dg dv) = (s, effs)"
  shows "(in_feed p c False effs \<longleftrightarrow> list_ex (names_contract p c) (diSubscriptions s))
    \<and> map_of (diRefs s) (data_key p c)
        = (if list_ex (names_contract p c) (diSubscriptions s) then Some (int (users_in (diSubscriptions s) p c)) else None)
    \<and> distinct (map fst (diSubscriptions s))"
proof -
  have pos: "0 < users_in xs p c \<longleftrightarrow> list_ex (names_contract p c) xs" for xs
    by (simp add: users_in_def list_ex_iff filter_empty_conv)
  have "counts_ok s" "feed_moves (users_in []) effs (users_in (diSubscriptions s))"
    using step_ok_run [of "ingestion_init kc pc h dg dv" rd ops] counts_ok_init [of kc pc h dg dv] assms
    by (auto simp: step_ok_def ingestion_init_def)
  then have "counts_ok s" "in_feed p c (0 < users_in [] p c) effs \<longleftrightarrow> 0 < users_in (diSubscriptions s) p c"
    unfolding feed_moves_def by blast+
  moreover have "\<not> 0 < users_in [] p c" by (simp add: users_in_def)
  ultimately show ?thesis
    using pos [of "diSubscriptions s"] by (auto simp: counts_ok_def refs_match_def)
qed

definition sample_ingestion :: ingestion where
  "sample_ingestion = ingestion_init (Fin 10) (Fin 5) (platform_health_init (Fin 90000)) (degradation_init (Fin (3/2)))
     (divergence_init (Fin (1/50)) (Fin 90000))"

definition sample_paired :: paired_position where
  "sample_paired = \<lparr>ppPair = ''p1'', ppOpen = True, ppKalshi = Some ''K1'', ppPolymarket = Some ''T1''\<rparr>"

lemma platform_id_distinct [simp]: "platform_id Kalshi \<noteq> platform_id Polymarket" "platform_id Polymarket \<noteq> platform_id Kalshi"
  by simp_all

theorem feed_serves_subscribed_pairs_witness:
  "in_feed Kalshi ''K1'' False (snd (ingest_run dec20 [OrderFilledSeen (Some sample_paired)] sample_ingestion))"
proof -
  let ?r = "ingest_run dec20 [OrderFilledSeen (Some sample_paired)] sample_ingestion"
  have "list_ex (names_contract Kalshi ''K1'') (diSubscriptions (fst ?r))"
    by (simp add: handleOrderFilled_def sample_paired_def pair_contracts_def subscribeForPosition_def retain_contract_def Let_def
        sample_ingestion_def ingestion_init_def names_contract_def)
  then show ?thesis
    using feed_serves_subscribed_pairs [of dec20 "[OrderFilledSeen (Some sample_paired)]" "Fin 10" "Fin 5" "platform_health_init (Fin 90000)"
        "degradation_init (Fin (3/2))" "divergence_init (Fin (1/50)) (Fin 90000)" "fst ?r" "snd ?r" Kalshi "''K1''"]
    by (simp add: sample_ingestion_def)
qed

text \<open>
  C37: two positions of one pair share its subscription: the exit of one of them takes both contracts of
  the pair out of the feeds while the other is open, unless another pair names them.
\<close>
theorem exit_cuts_other_position:
  assumes "ingest_run rd ops (ingestion_init kc pc h dg dv) = (s, effs)"
    and "map_of (diSubscriptions s) pair = None" "\<not> list_ex (names_contract p c) (diSubscriptions s)"
    and "ppPair q1 = pair" "ppOpen q1" "pair_contracts q1 = Some (k, m)"
    and "ppPair q2 = pair" "ppOpen q2" "pair_contracts q2 = Some (k, m)"
    and "ingest_run rd [OrderFilledSeen (Some q1), OrderFilledSeen (Some q2), ExitSeen pair] s = (s1, effs1)"
  shows "\<not> in_feed p c False (effs @ effs1) \<and> map_of (diSubscriptions s1) pair = None"
proof -
  obtain s0 e0 where 0: "subscribeForPosition pair k m s = (s0, e0)" by fastforce
  have subs0: "diSubscriptions s0 = diSubscriptions s @ [(pair, k, m)]" "map_of (diSubscriptions s0) pair = Some (k, m)"
    using 0 assms(2) by (auto simp: subscribeForPosition_def retain_contract_def Let_def map_set_fresh map_add_def split: prod.splits)
  have again: "subscribeForPosition pair k m s0 = (s0, [])" using subs0(2) by (simp add: subscribeForPosition_def)
  have run: "unsubscribeForPosition pair s0 = (s1, drop (length e0) effs1)" "effs1 = e0 @ drop (length e0) effs1"
    using assms(4-10) 0 again by (auto simp: handleOrderFilled_def split: prod.splits)
  have subs1: "diSubscriptions s1 = diSubscriptions s"
    using run(1) subs0 assms(2)
    by (auto simp: unsubscribeForPosition_def release_contract_def Let_def map_delete_append map_delete_fresh split: prod.splits if_splits)
  have ok: "step_ok (ingestion_init kc pc h dg dv) (s1, effs @ effs1)"
    using step_ok_run [of "ingestion_init kc pc h dg dv" rd ops] step_ok_run [of s rd "[OrderFilledSeen (Some q1), OrderFilledSeen (Some q2), ExitSeen pair]"]
      assms(1,10) by (auto intro: step_ok_trans)
  then have "feed_moves (users_in []) (effs @ effs1) (users_in (diSubscriptions s))"
    using counts_ok_init [of kc pc h dg dv] subs1 by (auto simp: step_ok_def ingestion_init_def)
  moreover have "users_in (diSubscriptions s) p c = 0" using assms(3) by (simp add: users_in_def filter_empty_conv list_ex_iff)
  ultimately show ?thesis using assms(2) subs1 by (auto simp: feed_moves_def users_in_def)
qed

theorem exit_cuts_other_position_witness:
  "\<not> in_feed Kalshi ''K1'' False
      (snd (ingest_run dec20 [OrderFilledSeen (Some sample_paired), OrderFilledSeen (Some sample_paired), ExitSeen ''p1''] sample_ingestion))"
proof -
  let ?r = "ingest_run dec20 [OrderFilledSeen (Some sample_paired), OrderFilledSeen (Some sample_paired), ExitSeen ''p1''] sample_ingestion"
  show ?thesis
    using exit_cuts_other_position [of dec20 "[]" "Fin 10" "Fin 5" "platform_health_init (Fin 90000)"
        "degradation_init (Fin (3/2))" "divergence_init (Fin (1/50)) (Fin 90000)" sample_ingestion "[]" "''p1''" Kalshi "''K1''"
        sample_paired "''K1''" "''T1''" sample_paired "fst ?r" "snd ?r"]
    by (simp add: sample_ingestion_def ingestion_init_def sample_paired_def pair_contracts_def)
qed

section \<open>Snapshots that cannot be stored\<close>

text \<open>
  a snapshot that cannot be stored ends the batch of Polymarket: no book after it is announced or
  recorded, whatever they are.
\<close>
theorem refused_snapshot_drops_batch:
  assumes "baRefused a = Some m" "iePolymarket env = Inr ((a, nb) # rest)" "iePolymarket env' = Inr ((a, nb) # rest')"
    and "ieKalshi env = ieKalshi env'" "ieDegraded env = ieDegraded env'"
  shows "ingestCurrentOrderBooks rd n env s = ingestCurrentOrderBooks rd n env' s"
proof -
  have eq: "poll_polymarket rd (iePolymarket env) = poll_polymarket rd (iePolymarket env')"
    using assms(1-3) by (simp add: fun_eq_iff poll_polymarket_def ingest_book_def persistSnapshot_def Let_def)
  show ?thesis unfolding ingestCurrentOrderBooks_def assms(4,5) eq ..
qed

text \<open>The failures in a row at the end of a sequence of answers, and the errors they give.\<close>

fun persist_run :: "string option list \<Rightarrow> ingestion \<Rightarrow> ingestion \<times> snapshot_error option list" where
  "persist_run [] s = (s, [])"
| "persist_run (x # xs) s =
     (case persistSnapshot x s of (s1, r) \<Rightarrow> (case persist_run xs s1 of (s2, rs) \<Rightarrow> (s2, r # rs)))"

lemma persist_run_append:
  "persist_run (xs @ [x]) s = (case persist_run xs s of (s1, rs) \<Rightarrow> (case persistSnapshot x s1 of (s2, r) \<Rightarrow> (s2, rs @ [r])))"
  by (induction xs arbitrary: s) (auto split: prod.splits)

lemma failures_count:
  "diFailures s = 0 \<Longrightarrow> diFailures (fst (persist_run xs s)) = length (takeWhile (\<lambda>x. x \<noteq> None) (rev xs))"
proof (induction xs rule: rev_induct)
  case (snoc x xs)
  then show ?case by (cases "persist_run xs s") (auto simp: persist_run_append persistSnapshot_def Let_def split: option.splits)
qed simp

lemma persistent_failure_reported:
  assumes "diFailures s = 0" "persist_run (xs @ [Some m]) s = (s1, rs)"
  shows "(\<exists>n. last rs = Some (PersistentSnapshotFailure n)) \<longleftrightarrow> 9 \<le> length (takeWhile (\<lambda>x. x \<noteq> None) (rev xs))"
  using assms failures_count [OF assms(1), of xs]
  by (cases "persist_run xs s") (auto simp: persist_run_append persistSnapshot_def Let_def split: if_splits)

end
