(* ===== verification/TradingCycle.thy ===== *)
theory TradingCycle
  imports Reconciliation TradePipeline Detection PairConcentration RiskManager DataIngestion
begin

text \<open>
  \<^verbatim>\<open>TradingEngineService\<close>, \<^verbatim>\<open>SchedulerService\<close> and \<^verbatim>\<open>EngineLifecycleService\<close>: the trading
  cycle composed of the modelled stages, the polling timer with its window, the clock checks,
  start-up and shutdown.  \<^verbatim>\<open>executeCycle\<close> returns in its first statement; the statements after it
  are \<open>trading_cycle\<close>.
\<close>

section \<open>Opportunities of a cycle\<close>

record cycle_opportunity = enriched_opportunity +
  coIdentified :: identified

record ranked_opportunity =
  rkOpportunity :: cycle_opportunity
  rkNetEdge :: decimal
  rkRequest :: reservation_request

definition cycle_config :: "cycle_opportunity \<Rightarrow> pair_config" where
  "cycle_config op = pairConfig (idDislocation (coIdentified op))"

definition to_cycle :: "identified \<Rightarrow> cycle_opportunity" where
  "to_cycle i = \<lparr>matchId = matchIdCfg (pairConfig (idDislocation i)), eventDescription = pairDescription (pairConfig (idDislocation i)),
     op_netEdge = idNetEdge i, annualizedReturn = Some (idAnnualized i), coIdentified = i\<rparr>"

text \<open>What the risk manager finds in an opportunity.\<close>

definition opt_field :: "('a \<Rightarrow> js_field) \<Rightarrow> 'a option \<Rightarrow> js_field" where
  "opt_field f x = (case x of Some a \<Rightarrow> f a | None \<Rightarrow> FOther)"

definition risk_view :: "cycle_opportunity \<Rightarrow> opportunity" where
  "risk_view op = WithPairConfig \<lparr>rawMatchId = opt_field FString (matchIdCfg (cycle_config op)),
     rawClusterId = opt_field FString (clusterIdCfg (cycle_config op)),
     rawConfidenceScore = opt_field FNumber (confidenceScoreCfg (cycle_config op))\<rparr>"

definition execution_view :: "cycle_opportunity \<Rightarrow> enriched_input" where
  "execution_view op =
     (let d = idDislocation (coIdentified op) in
      \<lparr>enDislocation = Some (dislocation.truncate d), enNetEdge = idNetEdge (coIdentified op),
       enGasFraction = Some (gasFraction (idFees (coIdentified op)))\<rparr>)"

section \<open>The stages\<close>

text \<open>\<open>view i\<close> is what the risk manager sees when it is asked for the \<open>i\<close>-th time: the positions in the
  database and its own state.  \<open>clock\<close> is the text of the time.\<close>

type_synonym risk_snapshots = "nat \<Rightarrow> position_row list \<times> budget_state"

definition rank_opportunity :: "string \<Rightarrow> bool \<Rightarrow> risk_decision \<Rightarrow> string \<Rightarrow> cycle_opportunity \<Rightarrow> ranked_opportunity" where
  "rank_opportunity clock isPaper d m op =
     \<lparr>rkOpportunity = op, rkNetEdge = op_netEdge op,
      rkRequest = \<lparr>reqOpportunityId = polymarketContractId (cycle_config op) @ '':'' @ kalshiContractId (cycle_config op) @ '':'' @ clock,
        recommendedPositionSizeUsd = decisionSizeUsd d, reqPairId = m, reqIsPaper = isPaper\<rparr>\<rparr>"

definition approve_one :: "bool \<Rightarrow> risk_decision \<Rightarrow> string \<Rightarrow> cycle_opportunity \<Rightarrow> ranked_opportunity list" where
  "approve_one isPaper d clock op =
     (if approved d then
        (case matchIdCfg (cycle_config op) of
           Some m \<Rightarrow> if m = [] then [] else [rank_opportunity clock isPaper d m op]
         | None \<Rightarrow> [])
      else [])"

fun approve_all ::
  "(rat \<Rightarrow> rat) \<Rightarrow> cluster_limits \<Rightarrow> bool \<Rightarrow> risk_snapshots \<Rightarrow> (nat \<Rightarrow> string) \<Rightarrow> nat \<Rightarrow> cycle_opportunity list \<Rightarrow> ranked_opportunity list" where
  "approve_all rd limits isPaper view clock i [] = []"
| "approve_all rd limits isPaper view clock i (op # ops) =
     approve_one isPaper (fst (validatePosition rd (fst (view i)) limits (risk_view op) isPaper (snd (view i)))) (clock i) op
       @ approve_all rd limits isPaper view clock (Suc i) ops"

definition by_net_edge :: "ranked_opportunity list \<Rightarrow> ranked_opportunity list" where
  "by_net_edge rs = sort_key (\<lambda>r. xneg (rkNetEdge r)) rs"

text \<open>The queue, with the identifier and the time of the \<open>i\<close>-th reservation and the answers of the platforms to its execution.\<close>

fun queue_all ::
  "(rat \<Rightarrow> rat) \<Rightarrow> exec_config \<Rightarrow> (nat \<Rightarrow> exec_env) \<Rightarrow> (nat \<Rightarrow> string \<times> timestamp) \<Rightarrow> nat \<Rightarrow> ranked_opportunity list \<Rightarrow> budget_state
     \<Rightarrow> budget_state \<times> risk_limit_error queue_result list" where
  "queue_all rd cfg env stamp i [] s = (s, [])"
| "queue_all rd cfg env stamp i (r # rs) s =
     (case run_one rd cfg (env i) (\<lambda>_. execution_view (rkOpportunity r)) (fst (stamp i), snd (stamp i), rkRequest r) s of
        (s1, x) \<Rightarrow> (case queue_all rd cfg env stamp (Suc i) rs s1 of (s2, xs) \<Rightarrow> (s2, x # xs)))"

record cycle_env =
  cePairs :: "nat option"
  ceIngest :: ingest_env
  cePairConfigs :: "pair_config list"
  ceDetect :: "pair_config \<Rightarrow> detect_env"
  ceEdge :: edge_config
  ceFees :: "platform \<Rightarrow> platform_fees option"
  ceNow :: timestamp
  ceConcentration :: concentration_config
  ceLatest :: "string list \<Rightarrow> (string \<times> timestamp) list option"
  ceCounts :: "(string \<times> nat) list option"
  cePaper :: "platform \<Rightarrow> bool"
  ceLimits :: cluster_limits
  ceView :: risk_snapshots
  ceClock :: "nat \<Rightarrow> string"
  ceExec :: exec_config
  ceExecEnv :: "nat \<Rightarrow> exec_env"
  ceStamp :: "nat \<Rightarrow> string \<times> timestamp"

record engine_state =
  esShuttingDown :: bool
  esHalted :: bool
  esInflight :: nat
  esBudget :: budget_state
  esIngestion :: ingestion

text \<open>What a cycle hands to the queue and what the queue answers.\<close>

record cycle_report =
  crRanked :: "ranked_opportunity list"
  crResults :: "risk_limit_error queue_result list"

definition either_paper :: "cycle_env \<Rightarrow> bool" where
  "either_paper env \<longleftrightarrow> cePaper env Kalshi \<or> cePaper env Polymarket"

definition rank_identified :: "(rat \<Rightarrow> rat) \<Rightarrow> cycle_env \<Rightarrow> identified list \<Rightarrow> ranked_opportunity list" where
  "rank_identified rd env is =
     by_net_edge (approve_all rd (ceLimits env) (either_paper env) (ceView env) (ceClock env) 0
       (passed (fst (filterOpportunities (ceConcentration env) (ceLatest env) (ceCounts env) (ceNow env) (map to_cycle is)))))"

text \<open>The stages after the ingestion.  An error of a stage ends the cycle and is logged.\<close>

definition cycle_stages :: "(rat \<Rightarrow> rat) \<Rightarrow> cycle_env \<Rightarrow> engine_state \<Rightarrow> engine_state \<times> cycle_report option" where
  "cycle_stages rd env s =
     (case detectDislocations rd (ceDetect env) (cePairConfigs env) of
        Inl e \<Rightarrow> (s, None)
      | Inr found \<Rightarrow>
          let edges = fst (processDislocations rd (ceEdge env) (ceFees env) (diDegradation (esIngestion s)) (ceNow env) (dislocations found));
              ranked = rank_identified rd env (opportunities edges)
          in (case queue_all rd (ceExec env) (ceExecEnv env) (ceStamp env) 0 ranked (esBudget s) of
                (b, results) \<Rightarrow> (s\<lparr>esBudget := b\<rparr>, Some \<lparr>crRanked = ranked, crResults = results\<rparr>)))"

definition trading_cycle :: "(rat \<Rightarrow> rat) \<Rightarrow> cycle_env \<Rightarrow> engine_state \<Rightarrow> engine_state \<times> cycle_report option" where
  "trading_cycle rd env s =
     (if esShuttingDown s \<or> esHalted s then (s, None)
      else
        case cePairs env of
          None \<Rightarrow> (s, None)
        | Some n \<Rightarrow> cycle_stages rd env (s\<lparr>esIngestion := fst (ingestCurrentOrderBooks rd n (ceIngest env) (esIngestion s))\<rparr>))"

definition executeCycle :: "cycle_env \<Rightarrow> engine_state \<Rightarrow> engine_state \<times> cycle_report option" where
  "executeCycle env s = (s, None)"

definition isCycleInProgress :: "engine_state \<Rightarrow> bool" where
  "isCycleInProgress s \<longleftrightarrow> 0 < esInflight s"

datatype engine_event = SystemTradingHalted jsnum | DriftWarning jsnum | DriftCritical jsnum | DriftHalt jsnum

definition handleTimeHalt :: "jsnum \<Rightarrow> engine_state \<Rightarrow> engine_state \<times> engine_event list" where
  "handleTimeHalt drift s = (s\<lparr>esHalted := True\<rparr>, [SystemTradingHalted drift])"

definition engine_resume :: "engine_state \<Rightarrow> engine_state" where
  "engine_resume s = s\<lparr>esHalted := False\<rparr>"

definition initiateShutdown :: "engine_state \<Rightarrow> engine_state" where
  "initiateShutdown s = s\<lparr>esShuttingDown := True\<rparr>"

section \<open>Shutdown\<close>

text \<open>
  What the loop sees: \<open>obs k\<close> is the number of operations in flight and the time when it looks for the
  \<open>k\<close>-th time.  The result is the number of looks and whether it gave up; \<open>None\<close> when it goes on for ever.
\<close>

partial_function (option) wait_loop :: "(nat \<Rightarrow> nat \<times> int) \<Rightarrow> int \<Rightarrow> int \<Rightarrow> nat \<Rightarrow> (nat \<times> bool) option" where
  "wait_loop obs start timeoutMs k =
     (if fst (obs k) = 0 then Some (k, False)
      else if timeoutMs \<le> snd (obs k) - start then Some (k, True)
      else wait_loop obs start timeoutMs (Suc k))"

definition SHUTDOWN_CHECK_INTERVAL_MS :: int where "SHUTDOWN_CHECK_INTERVAL_MS = 100"

definition waitForShutdown :: "(nat \<Rightarrow> nat \<times> int) \<Rightarrow> int \<Rightarrow> int \<Rightarrow> (nat \<times> bool) option" where
  "waitForShutdown obs start timeoutMs = wait_loop obs start timeoutMs 0"

definition onApplicationShutdown :: "(nat \<Rightarrow> nat \<times> int) \<Rightarrow> int \<Rightarrow> engine_state \<Rightarrow> engine_state \<times> (nat \<times> bool) option" where
  "onApplicationShutdown obs start s = (initiateShutdown s, waitForShutdown obs start 12000)"

section \<open>The scheduler\<close>

record scheduler =
  scWindowStart :: jsnum
  scWindowEnd :: jsnum
  scInterval :: "jsnum option"

definition window_ok :: "jsnum \<Rightarrow> jsnum \<Rightarrow> bool" where
  "window_ok a b \<longleftrightarrow> is_integer a \<and> \<not> xlt a (Fin 0) \<and> \<not> xgt a (Fin 23)
     \<and> is_integer b \<and> \<not> xlt b (Fin 1) \<and> \<not> xgt b (Fin 24) \<and> a \<noteq> b"

definition scheduler_onModuleInit :: "jsnum \<Rightarrow> jsnum \<Rightarrow> jsnum \<Rightarrow> scheduler option" where
  "scheduler_onModuleInit interval a b = (if window_ok a b then Some \<lparr>scWindowStart = a, scWindowEnd = b, scInterval = Some interval\<rparr> else None)"

text \<open>The registry drops the old timer before it takes the new one, so neither call fails.\<close>

definition reloadPollingInterval :: "jsnum \<Rightarrow> scheduler \<Rightarrow> scheduler" where
  "reloadPollingInterval ms s = (if \<not> is_integer ms \<or> xlt ms (Fin 1000) then s else s\<lparr>scInterval := Some ms\<rparr>)"

definition reloadTradingWindow :: "jsnum option \<Rightarrow> jsnum option \<Rightarrow> scheduler \<Rightarrow> scheduler" where
  "reloadTradingWindow a b s =
     (let a1 = (case a of Some x \<Rightarrow> x | None \<Rightarrow> scWindowStart s); b1 = (case b of Some x \<Rightarrow> x | None \<Rightarrow> scWindowEnd s)
      in if window_ok a1 b1 then s\<lparr>scWindowStart := a1, scWindowEnd := b1\<rparr> else s)"

definition isWithinTradingWindow :: "nat \<Rightarrow> scheduler \<Rightarrow> bool" where
  "isWithinTradingWindow hour s \<longleftrightarrow>
     (let h = Fin (of_nat hour); a = scWindowStart s; b = scWindowEnd s in
      if a = Fin 0 \<and> b = Fin 24 then True
      else if xlt a b then xge h a \<and> xlt h b
      else xge h a \<or> xlt h b)"

definition handlePollingCycle :: "nat \<Rightarrow> cycle_env \<Rightarrow> scheduler \<Rightarrow> engine_state \<Rightarrow> engine_state \<times> cycle_report option" where
  "handlePollingCycle hour env sc s =
     (if \<not> isWithinTradingWindow hour sc \<or> isCycleInProgress s then (s, None) else executeCycle env s)"

text \<open>The event of a halt is handled by the engine at once.\<close>

definition handleNtpCheck :: "jsnum option \<Rightarrow> engine_state \<Rightarrow> engine_state \<times> engine_event list" where
  "handleNtpCheck drift s =
     (case drift of
        None \<Rightarrow> (s, [])
      | Some d \<Rightarrow>
          if xlt d (Fin 100) then (s, [])
          else if xlt d (Fin 500) then (s, [DriftWarning d])
          else if xlt d (Fin 1000) then (s, [DriftCritical d])
          else (case handleTimeHalt d s of (s1, evs) \<Rightarrow> (s1, DriftHalt d # evs)))"

section \<open>Start-up\<close>

datatype startup_error = DatabaseDown | BadPollingInterval jsnum | HealthUnavailable | MixedModeRefused | CountFailed string

definition validateConfiguration :: "jsnum \<Rightarrow> bool" where
  "validateConfiguration ms \<longleftrightarrow> \<not> xlt ms (Fin 1000) \<and> \<not> xgt ms (Fin 300000)"

text \<open>\<open>modes\<close> says which platforms are in paper mode, \<open>None\<close> when their health cannot be read.\<close>

definition validatePlatformModes :: "(platform \<Rightarrow> bool) option \<Rightarrow> bool \<Rightarrow> startup_error option" where
  "validatePlatformModes modes allowMixed =
     (case modes of
        None \<Rightarrow> Some HealthUnavailable
      | Some paper \<Rightarrow> if paper Kalshi \<noteq> paper Polymarket \<and> \<not> allowMixed then Some MixedModeRefused else None)"

definition startup_drift :: "jsnum option \<Rightarrow> engine_state \<Rightarrow> engine_state \<times> engine_event list" where
  "startup_drift drift s =
     (case drift of
        Some d \<Rightarrow> if xge d (Fin 1000) then (case handleTimeHalt d s of (s1, evs) \<Rightarrow> (s1, DriftHalt d # evs)) else (s, [])
      | None \<Rightarrow> (s, []))"

text \<open>The checks, the clock, and the reconciliation on the risk state of the engine.\<close>

definition onApplicationBootstrap ::
  "(rat \<Rightarrow> rat) \<Rightarrow> bool \<Rightarrow> jsnum \<Rightarrow> (platform \<Rightarrow> bool) option \<Rightarrow> bool \<Rightarrow> jsnum option \<Rightarrow> recon_env \<Rightarrow> engine_state \<times> recon
     \<Rightarrow> (engine_state \<times> recon) \<times> startup_error option" where
  "onApplicationBootstrap rd dbUp interval modes allowMixed drift env = (\<lambda>(s, st).
     if \<not> dbUp then ((s, st), Some DatabaseDown)
     else if \<not> validateConfiguration interval then ((s, st), Some (BadPollingInterval interval))
     else
       case validatePlatformModes modes allowMixed of
         Some e \<Rightarrow> ((s, st), Some e)
       | None \<Rightarrow>
           (case startup_drift drift s of
              (s1, _) \<Rightarrow>
                (case startup_reconciliation rd env (st\<lparr>rcRisk := esBudget s1\<rparr>) of
                   (st1, e) \<Rightarrow> ((s1\<lparr>esBudget := rcRisk st1\<rparr>, st1), map_option CountFailed e))))"

section \<open>Runs of the engine\<close>

datatype engine_op =
    PollingTick nat cycle_env
  | NtpTick "jsnum option"
  | OperatorResume
  | ShutdownSignal
  | IntervalReload jsnum
  | WindowReload "jsnum option" "jsnum option"

fun engine_step :: "engine_op \<Rightarrow> scheduler \<times> engine_state \<Rightarrow> (scheduler \<times> engine_state) \<times> cycle_report option" where
  "engine_step (PollingTick h env) (sc, s) = (case handlePollingCycle h env sc s of (s1, r) \<Rightarrow> ((sc, s1), r))"
| "engine_step (NtpTick drift) (sc, s) = ((sc, fst (handleNtpCheck drift s)), None)"
| "engine_step OperatorResume (sc, s) = ((sc, engine_resume s), None)"
| "engine_step ShutdownSignal (sc, s) = ((sc, initiateShutdown s), None)"
| "engine_step (IntervalReload ms) (sc, s) = ((reloadPollingInterval ms sc, s), None)"
| "engine_step (WindowReload a b) (sc, s) = ((reloadTradingWindow a b sc, s), None)"

fun engine_run :: "engine_op list \<Rightarrow> scheduler \<times> engine_state \<Rightarrow> (scheduler \<times> engine_state) \<times> cycle_report option list" where
  "engine_run [] s = (s, [])"
| "engine_run (x # xs) s = (case engine_step x s of (s1, r) \<Rightarrow> (case engine_run xs s1 of (s2, rs) \<Rightarrow> (s2, r # rs)))"

lemma engine_step_idle:
  "snd (engine_step x p) = None \<and> esBudget (snd (fst (engine_step x p))) = esBudget (snd p)
     \<and> esIngestion (snd (fst (engine_step x p))) = esIngestion (snd p)"
  by (cases "(x, p)" rule: engine_step.cases)
    (auto simp: handlePollingCycle_def executeCycle_def handleNtpCheck_def handleTimeHalt_def engine_resume_def initiateShutdown_def
      split: option.splits)

text \<open>
  no cycle is ever run, because \<^verbatim>\<open>executeCycle\<close> returns in its first statement: whatever the timer, the
  clock checks, the operator and the settings do, no request reaches the queue, no book is ingested by
  polling and the budget stays as it is.
\<close>
theorem trading_never_starts:
  "case engine_run ops (sc, s) of ((sc', s'), reports) \<Rightarrow>
     list_all (\<lambda>r. r = None) reports \<and> length reports = length ops \<and> esBudget s' = esBudget s \<and> esIngestion s' = esIngestion s"
proof (induction ops arbitrary: sc s)
  case (Cons x ops)
  obtain sc1 s1 r where 1: "engine_step x (sc, s) = ((sc1, s1), r)" by (metis surj_pair)
  then have "r = None" "esBudget s1 = esBudget s" "esIngestion s1 = esIngestion s"
    using engine_step_idle [of x "(sc, s)"] by simp_all
  then show ?case using Cons.IH [where sc = sc1 and s = s1] 1 by (auto split: prod.splits)
qed simp

section \<open>What a cycle hands over\<close>

text \<open>An opportunity that the risk manager approved when it was asked, with the size and the pair of its request.\<close>

definition cleared :: "(rat \<Rightarrow> rat) \<Rightarrow> cycle_env \<Rightarrow> ranked_opportunity \<Rightarrow> bool" where
  "cleared rd env r \<longleftrightarrow>
     (\<exists>j m. let op = rkOpportunity r;
             d = fst (validatePosition rd (fst (ceView env j)) (ceLimits env) (risk_view op) (either_paper env) (snd (ceView env j)))
         in approved d \<and> matchIdCfg (cycle_config op) = Some m \<and> m \<noteq> [] \<and> r = rank_opportunity (ceClock env j) (either_paper env) d m op)"

lemma rank_fields [simp]:
  "rkOpportunity (rank_opportunity c p d m op) = op" "rkNetEdge (rank_opportunity c p d m op) = op_netEdge op"
  "reqPairId (rkRequest (rank_opportunity c p d m op)) = m"
  "recommendedPositionSizeUsd (rkRequest (rank_opportunity c p d m op)) = decisionSizeUsd d"
  by (simp_all add: rank_opportunity_def)

lemma approve_one_cases:
  obtains "approve_one p d clock op = []"
  | m where "approved d" "matchIdCfg (cycle_config op) = Some m" "m \<noteq> []" "approve_one p d clock op = [rank_opportunity clock p d m op]"
proof (cases "approved d")
  case True
  note ok = True
  show ?thesis
  proof (cases "matchIdCfg (cycle_config op)")
    case None
    with ok show ?thesis by (intro that(1)) (simp add: approve_one_def)
  next
    case (Some m)
    with ok show ?thesis by (cases "m = []") (auto simp: approve_one_def intro: that)
  qed
qed (auto simp: approve_one_def intro: that)

lemma approve_one_member:
  assumes "r \<in> set (approve_one p d clock op)"
  obtains m where "approved d" "matchIdCfg (cycle_config op) = Some m" "m \<noteq> []" "r = rank_opportunity clock p d m op"
  using assms by (cases rule: approve_one_cases [of p d clock op]) (simp_all add: that)

lemma approve_all_cleared:
  "r \<in> set (approve_all rd (ceLimits env) (either_paper env) (ceView env) (ceClock env) i ops)
     \<Longrightarrow> rkOpportunity r \<in> set ops \<and> cleared rd env r"
proof (induction ops arbitrary: i)
  case (Cons op ops)
  let ?d = "fst (validatePosition rd (fst (ceView env i)) (ceLimits env) (risk_view op) (either_paper env) (snd (ceView env i)))"
  from Cons.prems consider "r \<in> set (approve_one (either_paper env) ?d (ceClock env i) op)"
    | "r \<in> set (approve_all rd (ceLimits env) (either_paper env) (ceView env) (ceClock env) (Suc i) ops)"
    unfolding approve_all.simps set_append by blast
  then show ?case
  proof cases
    case 1
    then obtain m where m: "approved ?d" "matchIdCfg (cycle_config op) = Some m" "m \<noteq> []"
        "r = rank_opportunity (ceClock env i) (either_paper env) ?d m op"
      by (rule approve_one_member)
    then have "cleared rd env r" unfolding cleared_def Let_def by (intro exI [of _ i] exI [of _ m]) simp
    then show ?thesis using m by simp
  next
    case 2
    then show ?thesis using Cons.IH by fastforce
  qed
qed simp

lemma passed_subset: "set (passed (fst (filterOpportunities cfg l c now ops))) \<subseteq> set ops"
proof -
  have "set (passed (fst (filter_loop cfg ld oc now ops []))) \<subseteq> set ops" for ld oc
    using filter_loop_split [of ops cfg ld oc now "[]"] by (auto dest: set_shuffles)
  then show ?thesis by (auto simp: filterOpportunities_def split: option.splits)
qed

lemma filter_by_net_edge: "length (filter P (by_net_edge rs)) = length (filter P rs)"
proof -
  have "mset (filter P (by_net_edge rs)) = mset (filter P rs)" by (simp add: by_net_edge_def)
  then show ?thesis by (rule mset_eq_length)
qed

lemma queue_all_length: "length (snd (queue_all rd cfg env stamp i rs s)) = length rs"
proof (induction rs arbitrary: i s)
  case (Cons r rs)
  obtain s1 x where 1: "run_one rd cfg (env i) (\<lambda>_. execution_view (rkOpportunity r)) (fst (stamp i), snd (stamp i), rkRequest r) s = (s1, x)"
    by fastforce
  then show ?case using Cons.IH [of "Suc i" s1] by (auto split: prod.splits)
qed simp

lemma cycle_report:
  assumes "trading_cycle rd env s = (s', Some r)"
  obtains found edges evs where "detectDislocations rd (ceDetect env) (cePairConfigs env) = Inr found"
    "processDislocations rd (ceEdge env) (ceFees env) (diDegradation (esIngestion s')) (ceNow env) (dislocations found) = (edges, evs)"
    "crRanked r = rank_identified rd env (opportunities edges)" "length (crResults r) = length (crRanked r)"
    "\<not> esHalted s" "\<not> esShuttingDown s"
proof -
  from assms obtain n where n: "cePairs env = Some n" "\<not> esHalted s" "\<not> esShuttingDown s"
    by (auto simp: trading_cycle_def split: if_splits option.splits)
  let ?s = "s\<lparr>esIngestion := fst (ingestCurrentOrderBooks rd n (ceIngest env) (esIngestion s))\<rparr>"
  have c: "cycle_stages rd env ?s = (s', Some r)" using assms n by (simp add: trading_cycle_def)
  then obtain found where f: "detectDislocations rd (ceDetect env) (cePairConfigs env) = Inr found"
    by (auto simp: cycle_stages_def split: sum.splits)
  obtain edges evs where e: "processDislocations rd (ceEdge env) (ceFees env) (diDegradation (esIngestion ?s)) (ceNow env) (dislocations found) = (edges, evs)"
    by fastforce
  obtain b res where q: "queue_all rd (ceExec env) (ceExecEnv env) (ceStamp env) 0 (rank_identified rd env (opportunities edges)) (esBudget ?s) = (b, res)"
    by fastforce
  have "r = \<lparr>crRanked = rank_identified rd env (opportunities edges), crResults = res\<rparr>" and s': "s' = ?s\<lparr>esBudget := b\<rparr>"
    using c f e q by (simp_all add: cycle_stages_def Let_def)
  moreover have "length res = length (rank_identified rd env (opportunities edges))"
    using queue_all_length [of rd "ceExec env" "ceExecEnv env" "ceStamp env" 0 "rank_identified rd env (opportunities edges)" "esBudget ?s"] q
    by simp
  moreover have "diDegradation (esIngestion ?s) = diDegradation (esIngestion s')" by (simp add: s')
  ultimately show ?thesis using that [OF f] e n by simp
qed

lemma to_cycle_identified [simp]: "coIdentified (to_cycle i) = i"
  by (simp add: to_cycle_def)

text \<open>
  An opportunity of this cycle: the edge calculator identified it in a dislocation that the detection of
  this cycle found for a configured pair, on the books of the two platforms.
\<close>

definition of_this_cycle :: "(rat \<Rightarrow> rat) \<Rightarrow> cycle_env \<Rightarrow> degradation \<Rightarrow> raw_dislocation list \<Rightarrow> cycle_opportunity \<Rightarrow> bool" where
  "of_this_cycle rd env dg found op \<longleftrightarrow>
     (let i = coIdentified op; d = idDislocation i in
      op = to_cycle i \<and> d \<in> set found \<and> pairConfig d \<in> set (cePairConfigs env)
      \<and> sound_dislocation (ceDetect env (pairConfig d)) d
      \<and> (\<exists>evs. processSingleDislocation rd (ceEdge env) (ceFees env) dg (ceNow env) d = Inr (Identified i, evs)))"

text \<open>
  C10: a cycle that runs hands to the queue, the best net edge first and with one answer each, only
  opportunities of this cycle: the detection of this cycle found the dislocation, of a configured pair and on the
  current books of its two platforms, the edge calculator identified the opportunity in it with the degradation after
  this cycle's ingestion and it passes its gates, and the risk manager approved it, with the size it
  approved and the pair it belongs to in the request; a halted or stopping engine hands over nothing.
\<close>
theorem cycle_requests_cleared:
  assumes "decimal_rounding rd" "trading_cycle rd env s = (s', Some r)"
  shows "\<exists>found. detectDislocations rd (ceDetect env) (cePairConfigs env) = Inr found
    \<and> list_all (\<lambda>x. of_this_cycle rd env (diDegradation (esIngestion s')) (dislocations found) (rkOpportunity x)
          \<and> passes_gates (ceEdge env) (ceNow env) (coIdentified (rkOpportunity x)) \<and> cleared rd env x) (crRanked r)
    \<and> sorted (map (\<lambda>x. xneg (rkNetEdge x)) (crRanked r)) \<and> length (crResults r) = length (crRanked r)
    \<and> \<not> esHalted s \<and> \<not> esShuttingDown s"
proof -
  obtain found edges evs where c: "detectDislocations rd (ceDetect env) (cePairConfigs env) = Inr found"
    "processDislocations rd (ceEdge env) (ceFees env) (diDegradation (esIngestion s')) (ceNow env) (dislocations found) = (edges, evs)"
    "crRanked r = rank_identified rd env (opportunities edges)" "length (crResults r) = length (crRanked r)"
    "\<not> esHalted s" "\<not> esShuttingDown s"
    by (rule cycle_report [OF assms(2)])
  note gates = identified_opportunities_pass_gates [OF assms(1) c(2)]
  note sound = detected_sound [OF assms(1) c(1)]
  have "of_this_cycle rd env (diDegradation (esIngestion s')) (dislocations found) (rkOpportunity x)
      \<and> passes_gates (ceEdge env) (ceNow env) (coIdentified (rkOpportunity x)) \<and> cleared rd env x"
    if x: "x \<in> set (crRanked r)" for x
  proof -
    from x have "rkOpportunity x \<in> to_cycle ` set (opportunities edges)" "cleared rd env x"
      unfolding c(3) rank_identified_def by_net_edge_def set_sort
      using approve_all_cleared passed_subset by fastforce+
    then obtain i where i: "rkOpportunity x = to_cycle i" "i \<in> set (opportunities edges)" and "cleared rd env x" by auto
    then show ?thesis using gates sound identified_from [OF c(2) i(2)]
      by (auto simp: of_this_cycle_def list_all_iff to_cycle_identified Let_def)
  qed
  moreover have "sorted (map (\<lambda>x. xneg (rkNetEdge x)) (crRanked r))"
    unfolding c(3) rank_identified_def by_net_edge_def by (rule sorted_sort_key)
  ultimately show ?thesis using c(1,4-6) by (auto simp: list_all_iff)
qed

lemma approve_all_pairs:
  "list_all (\<lambda>op. matchId op = matchIdCfg (cycle_config op)) ops \<Longrightarrow>
     length (filter (\<lambda>x. reqPairId (rkRequest x) = pid) (approve_all rd limits p view clock i ops)) \<le> passed_of pid ops"
proof (induction ops arbitrary: i)
  case (Cons op ops)
  then have "length (filter (\<lambda>x. reqPairId (rkRequest x) = pid) (approve_all rd limits p view clock (Suc i) ops)) \<le> passed_of pid ops"
    by simp
  moreover have "length (filter (\<lambda>x. reqPairId (rkRequest x) = pid) (approve_one p d c op)) \<le> (if pair_of op = pid then 1 else 0)" for d c
  proof -
    have "matchId op = matchIdCfg (cycle_config op)" using Cons.prems by simp
    then show ?thesis by (cases rule: approve_one_cases [of p d c op]) (simp_all add: pair_of_def)
  qed
  moreover have "passed_of pid (op # ops) = (if pair_of op = pid then 1 else 0) + passed_of pid ops" by (simp add: passed_of_def)
  ultimately show ?case unfolding approve_all.simps filter_append length_append by (metis add_mono)
qed (simp add: passed_of_def)

text \<open>
  while the database answers, the open positions of a pair and the requests of one cycle for it are
  together at most the limit of positions per pair, unless the open ones alone exceed it.
\<close>
theorem cycle_respects_pair_limit:
  assumes "trading_cycle rd env s = (s', Some r)" "0 < pairMaxConcurrentPositions (ceConcentration env)"
    and "ceCounts env = Some oc" "ceLatest env = (\<lambda>ps. Some (latest ps))"
  shows "int (get_count oc pid + length (filter (\<lambda>x. reqPairId (rkRequest x) = pid) (crRanked r)))
    \<le> max (int (get_count oc pid)) (pairMaxConcurrentPositions (ceConcentration env))"
proof -
  obtain found edges evs where c: "detectDislocations rd (ceDetect env) (cePairConfigs env) = Inr found"
    "processDislocations rd (ceEdge env) (ceFees env) (diDegradation (esIngestion s')) (ceNow env) (dislocations found) = (edges, evs)"
    "crRanked r = rank_identified rd env (opportunities edges)" "length (crResults r) = length (crRanked r)"
    "\<not> esHalted s" "\<not> esShuttingDown s"
    by (rule cycle_report [OF assms(1)])
  let ?ops = "map to_cycle (opportunities edges)"
  let ?ps = "passed (fst (filterOpportunities (ceConcentration env) (ceLatest env) (ceCounts env) (ceNow env) ?ops))"
  have "list_all (\<lambda>op. matchId op = matchIdCfg (cycle_config op)) ?ps"
    using passed_subset [of "ceConcentration env" "ceLatest env" "ceCounts env" "ceNow env" ?ops]
    by (auto simp: list_all_iff to_cycle_def cycle_config_def)
  from approve_all_pairs [OF this] have "length (filter (\<lambda>x. reqPairId (rkRequest x) = pid) (crRanked r)) \<le> passed_of pid ?ps"
    unfolding c(3) rank_identified_def filter_by_net_edge .
  moreover have "int (get_count oc pid + passed_of pid ?ps) \<le> max (int (get_count oc pid)) (pairMaxConcurrentPositions (ceConcentration env))"
    using filter_loop_limit [OF assms(2), of oc pid "[]" "latest (queried_pairs ?ops)" "ceNow env" ?ops] assms(3,4)
    by (simp add: filterOpportunities_cases get_count_def)
  ultimately show ?thesis by linarith
qed

section \<open>The wait for operations in flight\<close>

lemma wait_loop_ends:
  assumes "\<And>j. snd (obs j) + SHUTDOWN_CHECK_INTERVAL_MS \<le> snd (obs (Suc j))" "timeoutMs - (snd (obs k) - start) \<le> int n * SHUTDOWN_CHECK_INTERVAL_MS"
  shows "\<exists>j gaveUp. wait_loop obs start timeoutMs k = Some (j, gaveUp) \<and> j \<le> k + n \<and> (gaveUp \<longleftrightarrow> 0 < fst (obs j))"
  using assms(2)
proof (induction n arbitrary: k)
  case 0
  then show ?case by (subst wait_loop.simps) auto
next
  case (Suc n)
  show ?case
  proof (cases "fst (obs k) = 0 \<or> timeoutMs \<le> snd (obs k) - start")
    case True
    then show ?thesis by (subst wait_loop.simps) auto
  next
    case False
    have "timeoutMs - (snd (obs (Suc k)) - start) \<le> int n * SHUTDOWN_CHECK_INTERVAL_MS"
      using Suc.prems assms(1) [of k] by (simp add: algebra_simps)
    from Suc.IH [OF this] show ?thesis using False by (subst wait_loop.simps) auto
  qed
qed

text \<open>
  the wait of a shutdown ends after at most 121 looks, and gives up exactly when operations are still
  in flight at the last one, on every clock on which a timer of 100 milliseconds takes at least that.
\<close>
theorem shutdown_wait_ends:
  assumes "\<And>j. snd (obs j) + SHUTDOWN_CHECK_INTERVAL_MS \<le> snd (obs (Suc j))" "start \<le> snd (obs 0)"
  shows "\<exists>k gaveUp. onApplicationShutdown obs start s = (s\<lparr>esShuttingDown := True\<rparr>, Some (k, gaveUp))
    \<and> k \<le> 120 \<and> (gaveUp \<longleftrightarrow> 0 < fst (obs k))"
proof -
  have "12000 - (snd (obs 0) - start) \<le> int 120 * SHUTDOWN_CHECK_INTERVAL_MS"
    using assms(2) by (simp add: SHUTDOWN_CHECK_INTERVAL_MS_def)
  from wait_loop_ends [OF assms(1) this] show ?thesis
    by (auto simp: onApplicationShutdown_def initiateShutdown_def waitForShutdown_def)
qed

section \<open>The trading window\<close>

text \<open>The hours of a window that the settings admit are those from its start to its end, around midnight if need be.\<close>

lemma window_hours:
  assumes "window_ok (Fin (of_nat a)) (Fin (of_nat b))" "scWindowStart s = Fin (of_nat a)" "scWindowEnd s = Fin (of_nat b)" "h < 24"
  shows "isWithinTradingWindow h s \<longleftrightarrow> (h + (24 - a)) mod 24 < (if b \<le> a then b + 24 - a else b - a)"
proof -
  have "a \<le> 23" "b \<le> 24" "1 \<le> b" "a \<noteq> b" using assms(1) by (auto simp: window_ok_def)
  moreover have "isWithinTradingWindow h s \<longleftrightarrow> (a = 0 \<and> b = 24) \<or> (if a < b then a \<le> h \<and> h < b else a \<le> h \<or> h < b)"
    using assms(2,3) by (auto simp: isWithinTradingWindow_def Let_def)
  moreover have "(h + (24 - a)) mod 24 = (if a \<le> h then h - a else h + 24 - a)" if "a \<le> 23" for a :: nat
    using that assms(4) by (auto simp: mod_if)
  ultimately show ?thesis using assms(4) by auto
qed

section \<open>A market with one opportunity\<close>

definition market_cycle :: cycle_env where
  "market_cycle = \<lparr>cePairs = Some 1, ceIngest = \<lparr>ieKalshi = [], iePolymarket = Inr [], ieDegraded = (\<lambda>_. [])\<rparr>,
     cePairConfigs = [market_pair], ceDetect = (\<lambda>_. market_env), ceEdge = market_config, ceFees = market_fees, ceNow = 0,
     ceConcentration = sample_concentration, ceLatest = (\<lambda>_. Some []), ceCounts = Some [], cePaper = (\<lambda>_. True),
     ceLimits = wide_limits, ceView = (\<lambda>_. ([], sample_budget)), ceClock = (\<lambda>_. ''0''), ceExec = sample_config,
     ceExecEnv = (\<lambda>_. deaf_env), ceStamp = (\<lambda>_. (''r1'', 0))\<rparr>"

definition market_engine :: engine_state where
  "market_engine = \<lparr>esShuttingDown = False, esHalted = False, esInflight = 0, esBudget = sample_budget,
     esIngestion = sample_ingestion\<lparr>diDegradation := degradation_init (Fin 1)\<rparr>\<rparr>"

lemma market_approved:
  "approved (fst (validatePosition dec20 [] wide_limits
     (WithPairConfig \<lparr>rawMatchId = FString ''m1'', rawClusterId = FOther, rawConfidenceScore = FOther\<rparr>) True sample_budget))"
proof -
  have "getState p sample_budget = sample_mode" for p by (simp add: getState_def sample_budget_def)
  moreover have "getReservedCapital dec20 (Some True) sample_budget = Fin 0"
    "getReservedPositionSlots (Some True) sample_budget = 0"
    "maxOpenPairs (risk_cfg sample_budget) = Fin 10" "clusterExposures (risk_tracker sample_budget) = []"
    by (simp_all add: getReservedCapital_def getReservedPositionSlots_def sample_budget_def sample_risk_state_def sample_tracker_def)
  moreover have "dec20 1000 = 1000" "dec20 500 = 500" using dec20_int [of 1000] dec20_int [of 500] by simp_all
  ultimately show ?thesis
    by (simp add: validatePosition_def sample_figures isTradingHalted_def sample_mode_def createDefaultModeRiskState_def
        extractPairContext_def usable_confidence_def confidenceMultiplier_def plain_decision_def with_confidence_def Let_def
        validateClusterLimits_def getAggregateExposurePct_def wide_limits_def taper_def clusterPct_def
        str_field_def num_field_def truthy_def find_cluster_def find_uncategorized_def dec20_half)
qed

lemma market_ranked:
  "\<exists>s' r x. trading_cycle dec20 market_cycle market_engine = (s', Some r) \<and> crRanked r = [x] \<and> reqPairId (rkRequest x) = ''m1''"
proof -
  obtain r evs op where e: "processDislocations dec20 market_config market_fees (degradation_init (Fin 1)) 0 [market_dislocation] = (r, evs)"
    "opportunities r = [op]"
    using market_identified by blast
  have op: "idDislocation op = market_dislocation"
    using identified_opportunities_pass_gates [OF d20.decimal_rounding_axioms e(1)] e(2) by simp
  then have pc: "pairConfig (idDislocation op) = market_pair" by (simp add: market_dislocation_def buildDislocation_def)
  have passed: "passed (fst (filterOpportunities sample_concentration (\<lambda>_. Some []) (Some []) 0 [to_cycle op])) = [to_cycle op]"
    by (simp add: filterOpportunities_def sample_concentration_def filter_loop.simps(2) filter_reason_of_def in_cooldown_def
        at_max_concurrent_def above_average_def get_count_def Let_def)
  have view: "risk_view (to_cycle op) = WithPairConfig \<lparr>rawMatchId = FString ''m1'', rawClusterId = FOther, rawConfidenceScore = FOther\<rparr>"
    using pc by (simp add: risk_view_def cycle_config_def to_cycle_def opt_field_def market_pair_def sample_pair_def)
  have m: "matchIdCfg (cycle_config (to_cycle op)) = Some ''m1''"
    using pc by (simp add: cycle_config_def to_cycle_def market_pair_def)
  have ranked: "\<exists>x. rank_identified dec20 market_cycle [op] = [x] \<and> reqPairId (rkRequest x) = ''m1''"
    using market_approved m
    by (simp add: rank_identified_def market_cycle_def either_paper_def passed view approve_one_def by_net_edge_def)
  have "isDegraded p (degradation_init k) = False" for p k by (simp add: isDegraded_def degradation_init_def)
  then have deg: "diDegradation (fst (ingestCurrentOrderBooks dec20 1 (ceIngest market_cycle) (esIngestion market_engine))) = degradation_init (Fin 1)"
    by (simp add: ingestCurrentOrderBooks_def market_cycle_def market_engine_def poll_polymarket_def pollDegradedPlatforms_def publishHealth_def)
  have detect: "detectDislocations dec20 (ceDetect market_cycle) (cePairConfigs market_cycle)
      = Inr \<lparr>dislocations = [market_dislocation], pairsEvaluated = 1, pairsSkipped = 0\<rparr>"
    unfolding market_cycle_def by (simp only: cycle_env.simps market_detected)
  have go: "cePairs market_cycle = Some 1" "ceEdge market_cycle = market_config" "ceFees market_cycle = market_fees" "ceNow market_cycle = 0"
    "\<not> esShuttingDown market_engine" "\<not> esHalted market_engine"
    by (simp_all add: market_cycle_def market_engine_def)
  show ?thesis
    using ranked by (auto simp: trading_cycle_def cycle_stages_def go detect deg [unfolded One_nat_def] e Let_def split: prod.splits)
qed

theorem cycle_requests_cleared_witness:
  "\<exists>s' r x. trading_cycle dec20 market_cycle market_engine = (s', Some r) \<and> crRanked r = [x]
     \<and> idDislocation (coIdentified (rkOpportunity x)) = market_dislocation
     \<and> passes_gates market_config 0 (coIdentified (rkOpportunity x)) \<and> cleared dec20 market_cycle x"
proof -
  obtain s' r x where r: "trading_cycle dec20 market_cycle market_engine = (s', Some r)" "crRanked r = [x]"
    using market_ranked by blast
  have c: "cePairConfigs market_cycle = [market_pair]" "ceDetect market_cycle = (\<lambda>_. market_env)" "ceEdge market_cycle = market_config"
    "ceNow market_cycle = 0" by (simp_all add: market_cycle_def)
  note d = cycle_requests_cleared [OF d20.decimal_rounding_axioms r(1), unfolded c market_detected]
  then have "idDislocation (coIdentified (rkOpportunity x)) \<in> {market_dislocation}"
    by (auto simp: r(2) of_this_cycle_def Let_def simp del: detectDislocations.simps)
  with d r show ?thesis by (auto simp del: detectDislocations.simps)
qed

theorem cycle_respects_pair_limit_witness:
  "\<exists>s' r. trading_cycle dec20 market_cycle market_engine = (s', Some r)
     \<and> 1 \<le> length (filter (\<lambda>x. reqPairId (rkRequest x) = ''m1'') (crRanked r))
     \<and> length (filter (\<lambda>x. reqPairId (rkRequest x) = ''m1'') (crRanked r)) \<le> 2"
proof -
  obtain s' r x where r: "trading_cycle dec20 market_cycle market_engine = (s', Some r)" "crRanked r = [x]" "reqPairId (rkRequest x) = ''m1''"
    using market_ranked by blast
  have "int (get_count [] ''m1'' + length (filter (\<lambda>x. reqPairId (rkRequest x) = ''m1'') (crRanked r)))
      \<le> max (int (get_count [] ''m1'')) (pairMaxConcurrentPositions (ceConcentration market_cycle))"
    by (rule cycle_respects_pair_limit [OF r(1), of _ "\<lambda>_. []"]) (simp_all add: market_cycle_def sample_concentration_def)
  with r show ?thesis by (auto simp: market_cycle_def sample_concentration_def get_count_def)
qed

theorem shutdown_wait_ends_witness:
  "\<exists>k gaveUp. onApplicationShutdown (\<lambda>j. (1, 100 * int j)) 0 market_engine = (market_engine\<lparr>esShuttingDown := True\<rparr>, Some (k, gaveUp))
     \<and> k \<le> 120 \<and> gaveUp"
  using shutdown_wait_ends [of "\<lambda>j. (1, 100 * int j)" 0 market_engine] by (simp add: SHUTDOWN_CHECK_INTERVAL_MS_def)

end
