(* ===== verification/Matching.thy ===== *)
theory Matching
  imports Connectors
begin

text \<open>
  The matching of contracts, \<^verbatim>\<open>modules/contract-matching\<close>: title similarity, the check of the
  direction of outcomes, enrichment of external pairs, discovery and ingestion of pairs with their
  automatic approval, the pairs that trading uses, the operator's decisions, and what is recorded
  when contracts resolve.  The scores of the language model, the text similarity of the pre-filter,
  the catalogs and the cluster of a match are arguments; the table of matches is the state.  The
  candidates that the code handles side by side are taken in the order in which their rows are written;
  what each sees of the others is part of its answers.
\<close>

section \<open>Text\<close>

definition is_blank :: "char \<Rightarrow> bool" where
  "is_blank c \<longleftrightarrow> of_char c \<in> {9, 10, 11, 12, 13, 32, 160 :: nat}"

definition lower_of :: "char \<Rightarrow> char" where
  "lower_of c = (let n = of_char c :: nat in if 65 \<le> n \<and> n \<le> 90 \<or> 192 \<le> n \<and> n \<le> 222 \<and> n \<noteq> 215 then char_of (n + 32) else c)"

definition lower_text :: "string \<Rightarrow> string" where
  "lower_text s = map lower_of s"

definition trim_text :: "string \<Rightarrow> string" where
  "trim_text s = rev (dropWhile is_blank (rev (dropWhile is_blank s)))"

fun split_blank :: "string \<Rightarrow> string \<Rightarrow> string list" where
  "split_blank acc [] = [acc]"
| "split_blank acc (c # s) = (if is_blank c then acc # split_blank [] s else split_blank (acc @ [c]) s)"

definition plain_char :: "char \<Rightarrow> bool" where
  "plain_char c \<longleftrightarrow> (let n = of_char c :: nat in 97 \<le> n \<and> n \<le> 122 \<or> 48 \<le> n \<and> n \<le> 57) \<or> is_blank c"

definition normalizeTitle :: "string \<Rightarrow> string list" where
  "normalizeTitle title = filter (\<lambda>t. 2 \<le> length t) (split_blank [] (filter plain_char (lower_text title)))"

definition computeTitleSimilarity :: "string \<Rightarrow> string \<Rightarrow> jsnum" where
  "computeTitleSimilarity t1 t2 =
     (let a = set_of_list (normalizeTitle t1); b = set_of_list (normalizeTitle t2)
      in if a = [] \<or> b = [] then Fin 0
         else xdiv b64 (Fin (of_nat (length (filter (\<lambda>t. t \<in> set b) a)))) (Fin (of_nat (max (length a) (length b)))))"

section \<open>Contracts of a catalog\<close>

record outcome_token =
  otToken :: string
  otLabel :: string

record contract_summary =
  csContract :: string
  csTitle :: string
  csDescription :: string
  csCategory :: "string option"
  csSettlement :: "timestamp option"
  csToken :: "string option"
  csLabel :: "string option"
  csTokens :: "outcome_token list"

section \<open>Direction of outcomes\<close>

text \<open>
  \<open>plain\<close> stands for the Unicode normalization that drops diacritical marks.  \<open>llm i\<close> is the score that
  the \<open>i\<close>-th call gives, \<open>None\<close> when it fails.
\<close>

definition LLM_ALIGNMENT_THRESHOLD :: jsnum where "LLM_ALIGNMENT_THRESHOLD = Fin 60"
definition MIN_NAME_LENGTH :: nat where "MIN_NAME_LENGTH = 4"

definition ends_with :: "string \<Rightarrow> string \<Rightarrow> bool" where
  "ends_with w s \<longleftrightarrow> drop (length s - length w) s = w \<and> length w \<le> length s"

text \<open>A suffix goes with the blanks before it, of which there must be one.\<close>

definition drop_suffix :: "string \<Rightarrow> string" where
  "drop_suffix s =
     (case find (\<lambda>w. ends_with w s \<and> length w < length s \<and> is_blank (s ! (length s - length w - 1))) [''wins'', ''will win'', ''to win''] of
        Some w \<Rightarrow> take (length s - length w) s
      | None \<Rightarrow> s)"

definition normalize_label :: "(string \<Rightarrow> string) \<Rightarrow> string \<Rightarrow> string" where
  "normalize_label plain label = trim_text (drop_suffix (lower_text (plain (trim_text label))))"

datatype alignment = Aligned | Misaligned | Inconclusive

record direction_result =
  drAligned :: alignment
  drToken :: "string option"
  drLabel :: "string option"

definition uncorrected :: "alignment \<Rightarrow> direction_result" where
  "uncorrected a = \<lparr>drAligned = a, drToken = None, drLabel = None\<rparr>"

definition corrected_by :: "outcome_token \<Rightarrow> direction_result" where
  "corrected_by t = \<lparr>drAligned = Aligned, drToken = Some (otToken t), drLabel = Some (otLabel t)\<rparr>"

definition llmCompare :: "jsnum option \<Rightarrow> alignment" where
  "llmCompare answer = (case answer of Some sc \<Rightarrow> if xge sc LLM_ALIGNMENT_THRESHOLD then Aligned else Misaligned | None \<Rightarrow> Inconclusive)"

definition shorter :: "string \<Rightarrow> string \<Rightarrow> string" where
  "shorter a b = (if length a \<le> length b then a else b)"

definition longer :: "string \<Rightarrow> string \<Rightarrow> string" where
  "longer a b = (if length a \<le> length b then b else a)"

definition contained :: "string \<Rightarrow> string \<Rightarrow> bool" where
  "contained a b \<longleftrightarrow> MIN_NAME_LENGTH \<le> length (shorter a b) \<and> contains_text (shorter a b) (longer a b)"

fun llm_tokens :: "(nat \<Rightarrow> jsnum option) \<Rightarrow> nat \<Rightarrow> outcome_token list \<Rightarrow> direction_result" where
  "llm_tokens llm i [] = uncorrected Misaligned"
| "llm_tokens llm i (t # ts) = (if llmCompare (llm i) = Aligned then corrected_by t else llm_tokens llm (Suc i) ts)"

definition attemptSelfCorrection :: "(string \<Rightarrow> string) \<Rightarrow> (nat \<Rightarrow> jsnum option) \<Rightarrow> contract_summary \<Rightarrow> string \<Rightarrow> direction_result" where
  "attemptSelfCorrection plain llm p kalshiNorm =
     (if csTokens p = [] then uncorrected (llmCompare (llm 0))
      else
        case find (\<lambda>t. normalize_label plain (otLabel t) = kalshiNorm \<or> contained (normalize_label plain (otLabel t)) kalshiNorm) (csTokens p) of
          Some t \<Rightarrow> corrected_by t
        | None \<Rightarrow> llm_tokens llm 0 (csTokens p))"

definition no_label :: "string option \<Rightarrow> bool" where
  "no_label l \<longleftrightarrow> l = None \<or> l = Some []"

definition validateDirection :: "(string \<Rightarrow> string) \<Rightarrow> (nat \<Rightarrow> jsnum option) \<Rightarrow> contract_summary \<Rightarrow> contract_summary \<Rightarrow> direction_result" where
  "validateDirection plain llm p k =
     (if no_label (csLabel p) \<or> no_label (csLabel k) then uncorrected Inconclusive
      else
        let a = normalize_label plain (the (csLabel p)); b = normalize_label plain (the (csLabel k)) in
        if a = b then uncorrected Aligned
        else if MIN_NAME_LENGTH \<le> length (shorter a b) then
          if contains_text (shorter a b) (longer a b) then uncorrected Aligned
          else attemptSelfCorrection plain llm p b
        else uncorrected (llmCompare (llm 0)))"

section \<open>Enrichment of external pairs\<close>

record external_pair =
  epPolymarketId :: "string option"
  epKalshiId :: "string option"
  epPolymarketTitle :: string
  epKalshiTitle :: string
  epSettlement :: "timestamp option"
  epCategory :: "string option"
  epToken :: "string option"
  epPolymarketLabel :: "string option"
  epKalshiLabel :: "string option"

definition present :: "string option \<Rightarrow> bool" where
  "present x \<longleftrightarrow> \<not> no_label x"

definition first_of :: "'a option \<Rightarrow> 'a option \<Rightarrow> 'a option" where
  "first_of a b = (case a of Some _ \<Rightarrow> a | None \<Rightarrow> b)"

definition catalog_similarity :: "string \<Rightarrow> contract_summary \<Rightarrow> jsnum" where
  "catalog_similarity title c =
     xmax (computeTitleSimilarity title (csTitle c)) (if csDescription c = [] then Fin 0 else computeTitleSimilarity title (csDescription c))"

text \<open>The first contract with the greatest similarity.\<close>

fun best_match :: "string \<Rightarrow> (contract_summary \<times> jsnum) option \<Rightarrow> contract_summary list \<Rightarrow> (contract_summary \<times> jsnum) option" where
  "best_match title best [] = best"
| "best_match title best (c # cs) =
     (let sim = catalog_similarity title c
      in best_match title (case best of None \<Rightarrow> Some (c, sim) | Some (_, m) \<Rightarrow> if xgt sim m then Some (c, sim) else best) cs)"

definition findBestMatch :: "string \<Rightarrow> contract_summary list \<Rightarrow> (contract_summary \<times> jsnum) option" where
  "findBestMatch title cs = (case best_match title None cs of Some (c, m) \<Rightarrow> if m = Fin 0 then None else Some (c, m) | None \<Rightarrow> None)"

definition csToken_of :: "contract_summary option \<Rightarrow> string option" where
  "csToken_of c = (case c of Some x \<Rightarrow> csToken x | None \<Rightarrow> None)"

definition enrich_known :: "contract_summary list \<Rightarrow> contract_summary list \<Rightarrow> external_pair \<Rightarrow> external_pair" where
  "enrich_known ps ks e =
     (let p = find (\<lambda>c. Some (csContract c) = epPolymarketId e) ps; k = find (\<lambda>c. Some (csContract c) = epKalshiId e) ks;
          field = (\<lambda>f c. case c of Some x \<Rightarrow> f x | None \<Rightarrow> None)
      in if present (epToken e) \<or> \<not> present (csToken_of p) then e
         else e\<lparr>epToken := csToken_of p, epPolymarketLabel := first_of (field csLabel p) (epPolymarketLabel e),
                epKalshiLabel := first_of (field csLabel k) (epKalshiLabel e),
                epSettlement := first_of (epSettlement e) (first_of (case p of Some x \<Rightarrow> csSettlement x | None \<Rightarrow> None) (case k of Some x \<Rightarrow> csSettlement x | None \<Rightarrow> None)),
                epCategory := first_of (epCategory e) (first_of (field csCategory p) (field csCategory k))\<rparr>)"

definition enrich_pair :: "jsnum \<Rightarrow> contract_summary list \<Rightarrow> contract_summary list \<Rightarrow> external_pair \<Rightarrow> external_pair" where
  "enrich_pair threshold ps ks e =
     (if present (epPolymarketId e) \<and> present (epKalshiId e) then enrich_known ps ks e
      else
        case (findBestMatch (epPolymarketTitle e) ps, findBestMatch (epKalshiTitle e) ks) of
          (Some (p, m), Some (k, n)) \<Rightarrow>
            if xge m threshold \<and> xge n threshold then
              e\<lparr>epPolymarketId := Some (csContract p), epKalshiId := Some (csContract k),
                epSettlement := first_of (csSettlement p) (csSettlement k), epCategory := first_of (csCategory p) (csCategory k),
                epToken := csToken p, epPolymarketLabel := csLabel p, epKalshiLabel := csLabel k\<rparr>
            else e
        | _ \<Rightarrow> e)"

text \<open>\<open>None\<close> when the catalogs cannot be read.\<close>

definition needs_enrichment :: "external_pair \<Rightarrow> bool" where
  "needs_enrichment e \<longleftrightarrow> \<not> present (epPolymarketId e) \<or> \<not> present (epKalshiId e) \<or> \<not> present (epToken e)"

definition enrichPairs :: "jsnum \<Rightarrow> (contract_summary list \<times> contract_summary list) option \<Rightarrow> external_pair list \<Rightarrow> external_pair list" where
  "enrichPairs threshold catalogs es =
     (if \<not> list_ex needs_enrichment es then es
      else
        case catalogs of
          None \<Rightarrow> es
        | Some (ps, ks) \<Rightarrow> if ps = [] \<or> ks = [] then es else map (enrich_pair threshold ps ks) es)"

section \<open>The table of matches\<close>

datatype match_origin = Discovered | Predexon | OddsPipe | Manual

record contract_match =
  cmId :: string
  cmPolymarket :: string
  cmKalshi :: string
  cmToken :: "string option"
  cmPolymarketText :: "string option"
  cmKalshiText :: "string option"
  cmApproved :: bool
  cmApprovedAt :: "timestamp option"
  cmRationale :: "string option"
  cmScore :: "jsnum option"
  cmResolutionDate :: "timestamp option"
  cmPolymarketResult :: "string option"
  cmKalshiResult :: "string option"
  cmResolvedAt :: "timestamp option"
  cmDiverged :: "bool option"
  cmNotes :: "string option"
  cmLeg :: "platform option"
  cmCluster :: "string option"
  cmOrigin :: match_origin
  cmCreated :: timestamp

type_synonym match_db = "contract_match list"

datatype match_event =
    MatchApproved string
  | MatchAutoApproved string jsnum
  | MatchPendingReview string jsnum
  | MatchRejected string
  | ClusterAssigned string string
  | ResolutionDiverged string string string

definition find_match :: "string \<Rightarrow> match_db \<Rightarrow> contract_match option" where
  "find_match i db = find (\<lambda>m. cmId m = i) db"

text \<open>The unique constraints: the identifier, and the pair of contracts.\<close>

definition row_taken :: "string \<Rightarrow> string \<Rightarrow> string \<Rightarrow> match_db \<Rightarrow> bool" where
  "row_taken i p k db \<longleftrightarrow> list_ex (\<lambda>m. cmId m = i \<or> cmPolymarket m = p \<and> cmKalshi m = k) db"

definition update_match :: "string \<Rightarrow> (contract_match \<Rightarrow> contract_match) \<Rightarrow> match_db \<Rightarrow> match_db" where
  "update_match i f db = map (\<lambda>m. if cmId m = i then f m else m) db"

section \<open>Scores and automatic approval\<close>

record match_config =
  mcAuto :: jsnum
  mcMinReview :: jsnum
  mcDedup :: jsnum
  mcWindowDays :: jsnum
  mcPreFilter :: jsnum
  mcMaxCandidates :: nat
  mcCatalog :: jsnum

text \<open>Both services refuse a review threshold that is not below the approval threshold.\<close>

definition thresholds_ok :: "match_config \<Rightarrow> bool" where
  "thresholds_ok cfg \<longleftrightarrow> \<not> xge (mcMinReview cfg) (mcAuto cfg)"

datatype scoring = Scored jsnum | ScoringFailed | ScoringThrew

record match_stats =
  msScored :: nat
  msAutoApproved :: nat
  msAutoRejected :: nat
  msPendingReview :: nat
  msFailures :: nat
  msDeduplicated :: nat
  msUnresolvable :: nat

definition no_stats :: match_stats where
  "no_stats = \<lparr>msScored = 0, msAutoApproved = 0, msAutoRejected = 0, msPendingReview = 0, msFailures = 0, msDeduplicated = 0, msUnresolvable = 0\<rparr>"

type_synonym matching = "match_db \<times> match_stats"

text \<open>How a new row is decided and which figure each decision counts.\<close>

datatype match_decision = AutoApprove | AutoReject | AwaitReview

definition decide_match :: "match_config \<Rightarrow> jsnum \<Rightarrow> bool \<Rightarrow> match_decision" where
  "decide_match cfg score maybe =
     (if xge score (mcAuto cfg) \<and> maybe then AutoApprove else if xlt score (mcMinReview cfg) then AutoReject else AwaitReview)"

definition decision_rationale :: "match_decision \<Rightarrow> string option" where
  "decision_rationale d = (case d of AutoApprove \<Rightarrow> Some ''Auto-approved'' | AutoReject \<Rightarrow> Some ''Auto-rejected'' | AwaitReview \<Rightarrow> None)"

definition count_decision :: "match_decision \<Rightarrow> match_stats \<Rightarrow> match_stats" where
  "count_decision d st =
     (case d of AutoApprove \<Rightarrow> st\<lparr>msAutoApproved := msAutoApproved st + 1\<rparr>
      | AutoReject \<Rightarrow> st\<lparr>msAutoRejected := msAutoRejected st + 1\<rparr>
      | AwaitReview \<Rightarrow> st\<lparr>msPendingReview := msPendingReview st + 1\<rparr>)"

definition decision_events :: "match_decision \<Rightarrow> string \<Rightarrow> jsnum \<Rightarrow> match_event list" where
  "decision_events d i score =
     (case d of AutoApprove \<Rightarrow> [MatchApproved i, MatchAutoApproved i score] | AutoReject \<Rightarrow> [] | AwaitReview \<Rightarrow> [MatchPendingReview i score])"

text \<open>A new row, its cluster unless it is rejected, and what is announced; \<open>cluster\<close> is \<open>None\<close> when the classification fails.\<close>

definition store_match :: "contract_match \<Rightarrow> match_decision \<Rightarrow> string option \<Rightarrow> jsnum \<Rightarrow> matching \<Rightarrow> matching \<times> match_event list" where
  "store_match row d cluster announced = (\<lambda>(db, st).
     let db1 = db @ [row];
         c = (if d = AutoReject then None else cluster);
         db2 = (case c of Some x \<Rightarrow> update_match (cmId row) (\<lambda>m. m\<lparr>cmCluster := Some x\<rparr>) db1 | None \<Rightarrow> db1)
     in ((db2, count_decision d (st\<lparr>msScored := msScored st + 1\<rparr>)),
         (case c of Some x \<Rightarrow> [ClusterAssigned (cmId row) x] | None \<Rightarrow> []) @ decision_events d (cmId row) announced))"

section \<open>Discovery\<close>

text \<open>What comes from outside for one candidate; \<open>caKnown\<close> is the answer of the database to the
  first look and \<open>caSeen\<close> the number of texts of matches that are there at that time.\<close>

record candidate_answer =
  caKnown :: bool
  caSeen :: nat
  caScore :: scoring
  caLlm :: "nat \<Rightarrow> jsnum option"
  caId :: string
  caNow :: timestamp
  caCluster :: "string option"

definition effective_score :: "direction_result \<Rightarrow> jsnum \<Rightarrow> jsnum" where
  "effective_score dir score = (if drAligned dir = Misaligned then xmin score (Fin 50) else score)"

definition discovered_row :: "contract_summary \<Rightarrow> contract_summary \<Rightarrow> direction_result \<Rightarrow> jsnum \<Rightarrow> match_decision \<Rightarrow> string \<Rightarrow> timestamp \<Rightarrow> contract_match" where
  "discovered_row p k dir score d i now =
     \<lparr>cmId = i, cmPolymarket = csContract p, cmKalshi = csContract k,
      cmToken = (case drToken dir of Some t \<Rightarrow> if drAligned dir \<noteq> Misaligned \<and> t \<noteq> [] then Some t else csToken p | None \<Rightarrow> csToken p),
      cmPolymarketText = Some (csDescription p), cmKalshiText = Some (csDescription k), cmApproved = (d = AutoApprove),
      cmApprovedAt = (if d = AutoApprove then Some now else None), cmRationale = decision_rationale d, cmScore = Some score,
      cmResolutionDate = first_of (csSettlement p) (csSettlement k), cmPolymarketResult = None, cmKalshiResult = None, cmResolvedAt = None,
      cmDiverged = None, cmNotes = (if drAligned dir = Misaligned then Some ''Direction mismatch'' else None), cmLeg = Some Kalshi,
      cmCluster = None, cmOrigin = Discovered, cmCreated = now\<rparr>"

text \<open>The flag says that an error reaches the loop, which counts it.\<close>

definition processCandidate ::
  "(string \<Rightarrow> string) \<Rightarrow> match_config \<Rightarrow> candidate_answer \<Rightarrow> contract_summary \<Rightarrow> contract_summary \<Rightarrow> matching \<Rightarrow> (matching \<times> match_event list) \<times> bool" where
  "processCandidate plain cfg a p k = (\<lambda>(db, st).
     if caKnown a then (((db, st), []), False)
     else
       case caScore a of
         ScoringFailed \<Rightarrow> (((db, st\<lparr>msFailures := msFailures st + 1\<rparr>), []), False)
       | ScoringThrew \<Rightarrow> (((db, st), []), True)
       | Scored score \<Rightarrow>
           let dir = validateDirection plain (caLlm a) p k;
               eff = effective_score dir score;
               d = decide_match cfg eff (drAligned dir \<noteq> Misaligned)
           in if row_taken (caId a) (csContract p) (csContract k) db then (((db, st), []), False)
              else (store_match (discovered_row p k dir eff d (caId a) (caNow a)) d (caCluster a) score (db, st), False))"

definition isWithinSettlementWindow :: "jsnum \<Rightarrow> timestamp option \<Rightarrow> timestamp option \<Rightarrow> bool" where
  "isWithinSettlementWindow days a b =
     (case (a, b) of (Some x, Some y) \<Rightarrow> xle (xdiv b64 (Fin (of_int \<bar>x - y\<bar>)) (Fin 86400000)) days | _ \<Rightarrow> False)"

text \<open>\<open>sim\<close> is the combined score of the pre-filter for two texts.\<close>

definition filterCandidates :: "(string \<Rightarrow> string \<Rightarrow> jsnum) \<Rightarrow> jsnum \<Rightarrow> string \<Rightarrow> (string \<times> string) list \<Rightarrow> (string \<times> jsnum) list" where
  "filterCandidates sim threshold source cs =
     sort_key (\<lambda>c. xneg (snd c)) (filter (\<lambda>c. xge (snd c) threshold) (map (\<lambda>(i, text). (i, sim source text)) cs))"

definition candidate_pairs :: "match_config \<Rightarrow> (string \<Rightarrow> string \<Rightarrow> jsnum) \<Rightarrow> contract_summary list \<Rightarrow> contract_summary \<Rightarrow> contract_summary list" where
  "candidate_pairs cfg sim ks p =
     (let near = filter (\<lambda>k. isWithinSettlementWindow (mcWindowDays cfg) (csSettlement p) (csSettlement k)) ks;
          ranked = filterCandidates sim (mcPreFilter cfg) (csTitle p)
            (map (\<lambda>k. (csContract k, if csTitle k = [] then csDescription k else csTitle k)) near)
      in map (\<lambda>c. the (find (\<lambda>k. csContract k = fst c) ks)) (take (mcMaxCandidates cfg) ranked))"

fun process_candidates ::
  "(string \<Rightarrow> string) \<Rightarrow> match_config \<Rightarrow> (nat \<Rightarrow> candidate_answer) \<Rightarrow> nat \<Rightarrow> (contract_summary \<times> contract_summary) list \<Rightarrow> matching
     \<Rightarrow> matching \<times> match_event list" where
  "process_candidates plain cfg ans i [] s = (s, [])"
| "process_candidates plain cfg ans i ((p, k) # pairs) s =
     (case processCandidate plain cfg (ans i) p k s of
        (((db, st), evs), threw) \<Rightarrow>
          (case process_candidates plain cfg ans (Suc i) pairs (db, if threw then st\<lparr>msFailures := msFailures st + 1\<rparr> else st) of
             (s2, evs2) \<Rightarrow> (s2, evs @ evs2)))"

text \<open>A run needs both catalogs; \<open>externalRunning\<close> is the guard of the other service, \<open>None\<close> where it is not injected.\<close>

definition runDiscovery ::
  "(string \<Rightarrow> string) \<Rightarrow> match_config \<Rightarrow> (string \<Rightarrow> string \<Rightarrow> jsnum) \<Rightarrow> bool option \<Rightarrow> (contract_summary list \<times> contract_summary list) option
     \<Rightarrow> (nat \<Rightarrow> candidate_answer) \<Rightarrow> match_db \<Rightarrow> matching \<times> match_event list" where
  "runDiscovery plain cfg sim externalRunning catalogs ans db =
     (if externalRunning = Some True then ((db, no_stats), [])
      else
        case catalogs of
          None \<Rightarrow> ((db, no_stats), [])
        | Some (ps, ks) \<Rightarrow>
            process_candidates plain cfg ans 0 (concat (map (\<lambda>p. map (Pair p) (candidate_pairs cfg sim ks p)) ps)) (db, no_stats))"

section \<open>External pairs\<close>

datatype pair_source = FromOddsPipe | FromPredexon

text \<open>Both catalogs, Kalshi's first; a platform that fails leaves its catalog out.\<close>

definition syncCatalogs :: "contract_summary list option \<Rightarrow> contract_summary list option \<Rightarrow> (contract_summary list \<times> contract_summary list) option" where
  "syncCatalogs kalshi poly = (case (kalshi, poly) of (Some ks, Some ps) \<Rightarrow> Some (ps, ks) | _ \<Rightarrow> None)"

definition origin_of :: "pair_source \<Rightarrow> match_origin" where
  "origin_of s = (case s of FromOddsPipe \<Rightarrow> OddsPipe | FromPredexon \<Rightarrow> Predexon)"

definition fuzzy_duplicate :: "match_config \<Rightarrow> external_pair \<Rightarrow> (string option \<times> string option) list \<Rightarrow> bool" where
  "fuzzy_duplicate cfg e descriptions =
     list_ex (\<lambda>(p, k). present p \<and> present k \<and> xge (computeTitleSimilarity (epPolymarketTitle e) (the p)) (mcDedup cfg)
        \<and> xge (computeTitleSimilarity (epKalshiTitle e) (the k)) (mcDedup cfg)) descriptions"

definition external_row :: "external_pair \<Rightarrow> pair_source \<Rightarrow> jsnum \<Rightarrow> match_decision \<Rightarrow> string \<Rightarrow> timestamp \<Rightarrow> contract_match" where
  "external_row e src score d i now =
     \<lparr>cmId = i, cmPolymarket = the (epPolymarketId e), cmKalshi = the (epKalshiId e), cmToken = epToken e,
      cmPolymarketText = Some (epPolymarketTitle e), cmKalshiText = Some (epKalshiTitle e), cmApproved = (d = AutoApprove),
      cmApprovedAt = (if d = AutoApprove then Some now else None), cmRationale = decision_rationale d, cmScore = Some score,
      cmResolutionDate = epSettlement e, cmPolymarketResult = None, cmKalshiResult = None, cmResolvedAt = None, cmDiverged = None,
      cmNotes = Some ''Direction validation skipped'', cmLeg = Some Kalshi, cmCluster = None, cmOrigin = origin_of src, cmCreated = now\<rparr>"

text \<open>The texts of the matches, read once, grow with each new row.\<close>

definition processPair ::
  "match_config \<Rightarrow> candidate_answer \<Rightarrow> pair_source \<Rightarrow> external_pair \<Rightarrow> (string option \<times> string option) list \<Rightarrow> matching
     \<Rightarrow> (matching \<times> match_event list) \<times> (string option \<times> string option) list" where
  "processPair cfg a src e texts = (\<lambda>(db, st).
     if \<not> present (epPolymarketId e) \<or> \<not> present (epKalshiId e) then (((db, st\<lparr>msUnresolvable := msUnresolvable st + 1\<rparr>), []), texts)
     else if caKnown a \<or> src = FromOddsPipe \<and> fuzzy_duplicate cfg e (take (caSeen a) texts) then (((db, st\<lparr>msDeduplicated := msDeduplicated st + 1\<rparr>), []), texts)
     else
       case caScore a of
         ScoringFailed \<Rightarrow> (((db, st\<lparr>msFailures := msFailures st + 1\<rparr>), []), texts)
       | ScoringThrew \<Rightarrow> (((db, st\<lparr>msFailures := msFailures st + 1\<rparr>), []), texts)
       | Scored score \<Rightarrow>
           if row_taken (caId a) (the (epPolymarketId e)) (the (epKalshiId e)) db then (((db, st\<lparr>msDeduplicated := msDeduplicated st + 1\<rparr>), []), texts)
           else
             let d = decide_match cfg score True
             in (store_match (external_row e src score d (caId a) (caNow a)) d (caCluster a) score (db, st),
                 texts @ [(Some (epPolymarketTitle e), Some (epKalshiTitle e))]))"

fun process_pairs ::
  "match_config \<Rightarrow> (nat \<Rightarrow> candidate_answer) \<Rightarrow> nat \<Rightarrow> (pair_source \<times> external_pair) list \<Rightarrow> (string option \<times> string option) list \<Rightarrow> matching
     \<Rightarrow> matching \<times> match_event list" where
  "process_pairs cfg ans i [] texts s = (s, [])"
| "process_pairs cfg ans i ((src, e) # es) texts s =
     (case processPair cfg (ans i) src e texts s of
        ((s1, evs), texts1) \<Rightarrow> (case process_pairs cfg ans (Suc i) es texts1 s1 of (s2, evs2) \<Rightarrow> (s2, evs @ evs2)))"

text \<open>A provider that fails gives no pairs.  The pairs are taken in the order in which they come; statistics are kept together.\<close>

definition processAllProviders ::
  "match_config \<Rightarrow> (contract_summary list \<times> contract_summary list) option \<Rightarrow> external_pair list option \<Rightarrow> external_pair list option
     \<Rightarrow> (nat \<Rightarrow> candidate_answer) \<Rightarrow> match_db \<Rightarrow> matching \<times> match_event list" where
  "processAllProviders cfg catalogs oddspipe predexon ans db =
     (let tagged = map (Pair FromOddsPipe) (case oddspipe of Some es \<Rightarrow> es | None \<Rightarrow> [])
            @ map (Pair FromPredexon) (case predexon of Some es \<Rightarrow> es | None \<Rightarrow> []);
          enriched = zip (map fst tagged) (enrichPairs (mcCatalog cfg) catalogs (map snd tagged))
      in process_pairs cfg ans 0 enriched (map (\<lambda>m. (cmPolymarketText m, cmKalshiText m)) db) (db, no_stats))"

text \<open>The scheduled run; the last flag says that it warns because every provider failed.\<close>

definition ingestion_handleCron ::
  "bool \<Rightarrow> bool \<Rightarrow> bool \<Rightarrow> match_config \<Rightarrow> (contract_summary list \<times> contract_summary list) option \<Rightarrow> external_pair list option
     \<Rightarrow> external_pair list option \<Rightarrow> (nat \<Rightarrow> candidate_answer) \<Rightarrow> match_db \<Rightarrow> (matching \<times> match_event list) \<times> bool" where
  "ingestion_handleCron enabled isRunning discoveryRunning cfg catalogs oddspipe predexon ans db =
     (if \<not> enabled \<or> isRunning \<or> discoveryRunning then (((db, no_stats), []), False)
      else (processAllProviders cfg catalogs oddspipe predexon ans db, oddspipe = None \<and> predexon = None))"

section \<open>Pairs for trading\<close>

definition match_config_of :: "contract_match \<Rightarrow> pair_config" where
  "match_config_of m =
     \<lparr>primaryLegCfg = Some (case cmLeg m of Some l \<Rightarrow> l | None \<Rightarrow> Kalshi), kalshiContractId = cmKalshi m, polymarketContractId = cmPolymarket m,
      polymarketClobTokenId = the (cmToken m),
      pairDescription = (case cmPolymarketText m of Some t \<Rightarrow> t | None \<Rightarrow> (case cmKalshiText m of Some t \<Rightarrow> t | None \<Rightarrow> ''Unknown event'')),
      confidenceScoreCfg = cmScore m, matchIdCfg = Some (cmId m), resolutionDateCfg = cmResolutionDate m, clusterIdCfg = cmCluster m\<rparr>"

definition pair_key :: "pair_config \<Rightarrow> string" where
  "pair_key c = polymarketContractId c @ ''::'' @ kalshiContractId c"

definition filterValidPairs :: "pair_config list \<Rightarrow> pair_config list" where
  "filterValidPairs cs = filter (\<lambda>c. polymarketClobTokenId c \<noteq> []) cs"

definition tradable_match :: "contract_match \<Rightarrow> bool" where
  "tradable_match m \<longleftrightarrow> cmApproved m \<and> cmToken m \<noteq> None"

definition getActivePairs :: "pair_config list \<Rightarrow> match_db \<Rightarrow> pair_config list" where
  "getActivePairs yaml db =
     (let ys = filterValidPairs yaml
      in ys @ filter (\<lambda>c. pair_key c \<notin> set (map pair_key ys)) (map match_config_of (filter tradable_match db)))"

definition findPairByContractId :: "string \<Rightarrow> pair_config list \<Rightarrow> match_db \<Rightarrow> pair_config option" where
  "findPairByContractId c yaml db =
     (case find (\<lambda>p. polymarketContractId p = c \<or> kalshiContractId p = c) yaml of
        Some p \<Rightarrow> Some p
      | None \<Rightarrow> map_option match_config_of (find (\<lambda>m. tradable_match m \<and> (cmPolymarket m = c \<or> cmKalshi m = c)) db))"

text \<open>
  The pairs of the configuration file become approved matches at start-up, and take the identifier of
  their row.  \<open>verified\<close> is the time at which the operator verified the pair; \<open>new i\<close> gives
  the identifier of a new row and the time, \<open>None\<close> when the database fails, which ends the loop.
\<close>

definition same_as_row :: "pair_config \<Rightarrow> timestamp \<Rightarrow> contract_match \<Rightarrow> bool" where
  "same_as_row c verified m \<longleftrightarrow> cmApproved m \<and> cmPolymarketText m = Some (pairDescription c) \<and> cmKalshiText m = Some (pairDescription c)
     \<and> cmApprovedAt m = Some verified \<and> cmToken m = Some (polymarketClobTokenId c) \<and> cmResolutionDate m = resolutionDateCfg c"

definition manual_row :: "pair_config \<Rightarrow> timestamp \<Rightarrow> string \<Rightarrow> timestamp \<Rightarrow> contract_match" where
  "manual_row c verified i now =
     \<lparr>cmId = i, cmPolymarket = polymarketContractId c, cmKalshi = kalshiContractId c, cmToken = Some (polymarketClobTokenId c),
      cmPolymarketText = Some (pairDescription c), cmKalshiText = Some (pairDescription c), cmApproved = True, cmApprovedAt = Some verified,
      cmRationale = None, cmScore = None, cmResolutionDate = resolutionDateCfg c, cmPolymarketResult = None, cmKalshiResult = None,
      cmResolvedAt = None, cmDiverged = None, cmNotes = None, cmLeg = None, cmCluster = None, cmOrigin = Manual, cmCreated = now\<rparr>"

definition overwrite_row :: "pair_config \<Rightarrow> timestamp \<Rightarrow> contract_match \<Rightarrow> contract_match" where
  "overwrite_row c verified m =
     m\<lparr>cmApproved := True, cmApprovedAt := Some verified, cmPolymarketText := Some (pairDescription c), cmKalshiText := Some (pairDescription c),
       cmToken := Some (polymarketClobTokenId c), cmOrigin := Manual, cmResolutionDate := resolutionDateCfg c\<rparr>"

record sync_counts =
  scInserted :: nat
  scUpdated :: nat
  scUnchanged :: nat

definition sync_pair ::
  "(pair_config \<times> timestamp) \<Rightarrow> string \<Rightarrow> timestamp \<Rightarrow> match_db \<times> sync_counts \<Rightarrow> ((match_db \<times> sync_counts) \<times> pair_config) option" where
  "sync_pair = (\<lambda>(c, verified) i now (db, n).
     case find (\<lambda>m. cmPolymarket m = polymarketContractId c \<and> cmKalshi m = kalshiContractId c) db of
       Some m \<Rightarrow>
         if same_as_row c verified m then Some ((db, n\<lparr>scUnchanged := scUnchanged n + 1\<rparr>), c\<lparr>matchIdCfg := Some (cmId m)\<rparr>)
         else Some ((update_match (cmId m) (overwrite_row c verified) db, n\<lparr>scUpdated := scUpdated n + 1\<rparr>), c\<lparr>matchIdCfg := Some (cmId m)\<rparr>)
     | None \<Rightarrow>
         if row_taken i (polymarketContractId c) (kalshiContractId c) db then None
         else Some ((db @ [manual_row c verified i now], n\<lparr>scInserted := scInserted n + 1\<rparr>), c\<lparr>matchIdCfg := Some i\<rparr>))"

fun sync_loop ::
  "(nat \<Rightarrow> (string \<times> timestamp) option) \<Rightarrow> nat \<Rightarrow> (pair_config \<times> timestamp) list \<Rightarrow> match_db \<times> sync_counts
     \<Rightarrow> (match_db \<times> sync_counts) \<times> pair_config list" where
  "sync_loop new i [] s = (s, [])"
| "sync_loop new i (c # cs) s =
     (case (case new i of None \<Rightarrow> None | Some (x, now) \<Rightarrow> sync_pair c x now s) of
        None \<Rightarrow> (s, map fst (c # cs))
      | Some (s1, c1) \<Rightarrow> (case sync_loop new (Suc i) cs s1 of (s2, cs2) \<Rightarrow> (s2, c1 # cs2)))"

definition syncPairsToDatabase ::
  "(nat \<Rightarrow> (string \<times> timestamp) option) \<Rightarrow> (pair_config \<times> timestamp) list \<Rightarrow> match_db \<Rightarrow> (match_db \<times> sync_counts) \<times> pair_config list" where
  "syncPairsToDatabase new cs db =
     sync_loop new 0 (filter (\<lambda>c. polymarketClobTokenId (fst c) \<noteq> []) cs) (db, \<lparr>scInserted = 0, scUpdated = 0, scUnchanged = 0\<rparr>)"

section \<open>The operator and the scorer\<close>

datatype match_error = MatchNotFound | MatchAlreadyApproved | InvalidScore | EmptyResolution

definition approveMatch :: "string \<Rightarrow> string \<Rightarrow> timestamp option \<Rightarrow> timestamp \<Rightarrow> match_db \<Rightarrow> match_error + match_db \<times> match_event list" where
  "approveMatch i why date now db =
     (case find_match i db of
        None \<Rightarrow> Inl MatchNotFound
      | Some m \<Rightarrow>
          if cmApproved m then Inl MatchAlreadyApproved
          else Inr (update_match i (\<lambda>m. m\<lparr>cmApproved := True, cmRationale := Some why, cmApprovedAt := Some now,
                 cmResolutionDate := first_of date (cmResolutionDate m)\<rparr>) db, [MatchApproved i]))"

definition rejectMatch :: "string \<Rightarrow> string \<Rightarrow> timestamp \<Rightarrow> match_db \<Rightarrow> match_error + match_db \<times> match_event list" where
  "rejectMatch i why now db =
     (case find_match i db of
        None \<Rightarrow> Inl MatchNotFound
      | Some m \<Rightarrow>
          if cmApproved m then Inl MatchAlreadyApproved
          else Inr (update_match i (\<lambda>m. m\<lparr>cmApproved := False, cmRationale := Some why, cmApprovedAt := Some now\<rparr>) db, [MatchRejected i]))"

datatype match_filter = PendingMatches | ApprovedMatches | RejectedMatches | AllMatches

definition status_filter :: "match_filter \<Rightarrow> contract_match \<Rightarrow> bool" where
  "status_filter f m =
     (case f of PendingMatches \<Rightarrow> \<not> cmApproved m \<and> cmRationale m = None
      | ApprovedMatches \<Rightarrow> cmApproved m
      | RejectedMatches \<Rightarrow> \<not> cmApproved m \<and> cmRationale m \<noteq> None
      | AllMatches \<Rightarrow> True)"

definition updateConfidenceScore :: "string \<Rightarrow> jsnum \<Rightarrow> match_db \<Rightarrow> match_error + match_db" where
  "updateConfidenceScore i score db =
     (if \<not> is_fin score \<or> xlt score (Fin 0) \<or> xgt score (Fin 100) then Inl InvalidScore
      else if find_match i db = None then Inl MatchNotFound
      else Inr (update_match i (\<lambda>m. m\<lparr>cmScore := Some score\<rparr>) db))"

text \<open>\<open>answer\<close> is the score of the model, \<open>None\<close> when it fails; the result is \<open>None\<close> when nothing is scored.\<close>

definition scoreMatch :: "jsnum \<Rightarrow> string \<Rightarrow> jsnum option \<Rightarrow> timestamp \<Rightarrow> match_db \<Rightarrow> (match_error + match_db \<times> match_event list) option" where
  "scoreMatch auto i answer now db =
     (case find_match i db of
        None \<Rightarrow> Some (Inl MatchNotFound)
      | Some m \<Rightarrow>
          if cmApproved m \<or> \<not> present (cmPolymarketText m) \<or> \<not> present (cmKalshiText m) then Some (Inr (db, []))
          else
            case answer of
              None \<Rightarrow> None
            | Some score \<Rightarrow>
                (case updateConfidenceScore i score db of
                   Inl e \<Rightarrow> Some (Inl e)
                 | Inr db1 \<Rightarrow>
                     Some (Inr (if xge score auto then
                       (update_match i (\<lambda>m. m\<lparr>cmApproved := True, cmRationale := Some ''Auto-approved'', cmApprovedAt := Some now\<rparr>) db1,
                        [MatchApproved i, MatchAutoApproved i score])
                     else (db1, [MatchPendingReview i score])))))"

section \<open>Resolutions\<close>

definition recordResolution :: "string \<Rightarrow> string \<Rightarrow> string \<Rightarrow> string option \<Rightarrow> timestamp \<Rightarrow> match_db \<Rightarrow> match_error + match_db \<times> match_event list" where
  "recordResolution i p k notes now db =
     (if trim_text p = [] \<or> trim_text k = [] then Inl EmptyResolution
      else if find_match i db = None then Inl MatchNotFound
      else
        let a = trim_text (lower_text p); b = trim_text (lower_text k)
        in Inr (update_match i (\<lambda>m. m\<lparr>cmPolymarketResult := Some a, cmKalshiResult := Some b, cmResolvedAt := Some now,
                 cmDiverged := Some (a \<noteq> b), cmNotes := notes\<rparr>) db,
               if a \<noteq> b then [ResolutionDiverged i a b] else []))"

definition resolved_count :: "match_db \<Rightarrow> nat" where
  "resolved_count db = length (filter (\<lambda>m. cmResolvedAt m \<noteq> None) db)"

definition diverged_count :: "match_db \<Rightarrow> nat" where
  "diverged_count db = length (filter (\<lambda>m. cmDiverged m = Some True) db)"

record resolution_context =
  rxResolved :: nat
  rxDiverged :: nat
  rxRate :: jsnum
  rxValidated :: int

definition getResolutionContext :: "match_db \<Rightarrow> resolution_context" where
  "getResolutionContext db =
     (let n = resolved_count db; d = diverged_count db
      in \<lparr>rxResolved = n, rxDiverged = d, rxRate = (if 0 < n then xdiv b64 (Fin (of_nat d)) (Fin (of_nat n)) else Fin 0), rxValidated = int n - int d\<rparr>)"

datatype market_outcome = OutcomeYes | OutcomeNo | OutcomeInvalid

fun outcome_text :: "market_outcome \<Rightarrow> string" where
  "outcome_text OutcomeYes = ''yes''"
| "outcome_text OutcomeNo = ''no''"
| "outcome_text OutcomeInvalid = ''invalid''"

text \<open>What a platform answers: nothing, or an outcome, if it has one, and whether the market is settled.\<close>

type_synonym resolution_answer = "(market_outcome option \<times> bool) option"

record poll_stats =
  psChecked :: nat
  psResolved :: nat
  psDivergedNow :: nat
  psInvalid :: nat
  psPending :: nat
  psErrors :: nat

definition no_polls :: poll_stats where
  "no_polls = \<lparr>psChecked = 0, psResolved = 0, psDivergedNow = 0, psInvalid = 0, psPending = 0, psErrors = 0\<rparr>"

text \<open>A settled market without an outcome makes the code read a missing text, which is an error.\<close>

definition poll_match ::
  "timestamp \<Rightarrow> (string \<Rightarrow> resolution_answer) \<Rightarrow> (string \<Rightarrow> resolution_answer) \<Rightarrow> contract_match \<Rightarrow> match_db \<times> poll_stats
     \<Rightarrow> (match_db \<times> poll_stats) \<times> match_event list" where
  "poll_match now kalshi poly m = (\<lambda>(db, st0).
     let st = st0\<lparr>psChecked := psChecked st0 + 1\<rparr>; failed = ((db, st\<lparr>psErrors := psErrors st + 1\<rparr>), []) in
     case (kalshi (cmKalshi m), poly (cmPolymarket m)) of
       (Some (ko, ks), Some (po, ps)) \<Rightarrow>
         if ko = Some OutcomeInvalid \<or> po = Some OutcomeInvalid then
           ((update_match (cmId m) (\<lambda>x. x\<lparr>cmNotes := Some ''Platform voided market'', cmResolvedAt := Some now\<rparr>) db,
             st\<lparr>psInvalid := psInvalid st + 1\<rparr>), [])
         else if \<not> ks \<or> \<not> ps then ((db, st\<lparr>psPending := psPending st + 1\<rparr>), [])
         else
           (case (po, ko) of
              (Some a, Some b) \<Rightarrow>
                (case recordResolution (cmId m) (outcome_text a) (outcome_text b) None now db of
                   Inl e \<Rightarrow> failed
                 | Inr (db1, evs) \<Rightarrow>
                     ((db1, st\<lparr>psResolved := psResolved st + 1, psDivergedNow := psDivergedNow st + (if a \<noteq> b then 1 else 0)\<rparr>), evs))
            | _ \<Rightarrow> failed)
     | _ \<Rightarrow> failed)"

fun poll_matches ::
  "timestamp \<Rightarrow> (string \<Rightarrow> resolution_answer) \<Rightarrow> (string \<Rightarrow> resolution_answer) \<Rightarrow> contract_match list \<Rightarrow> match_db \<times> poll_stats
     \<Rightarrow> (match_db \<times> poll_stats) \<times> match_event list" where
  "poll_matches now kalshi poly [] s = (s, [])"
| "poll_matches now kalshi poly (m # ms) s =
     (case poll_match now kalshi poly m s of (s1, e1) \<Rightarrow> (case poll_matches now kalshi poly ms s1 of (s2, e2) \<Rightarrow> (s2, e1 @ e2)))"

text \<open>Approved matches past their date and not resolved, the oldest date first, at most a batch of them.\<close>

definition due_match :: "timestamp \<Rightarrow> contract_match \<Rightarrow> bool" where
  "due_match now m \<longleftrightarrow> cmApproved m \<and> cmResolvedAt m = None \<and> (case cmResolutionDate m of Some d \<Rightarrow> d < now | None \<Rightarrow> False)"

definition due_matches :: "nat \<Rightarrow> timestamp \<Rightarrow> match_db \<Rightarrow> contract_match list" where
  "due_matches batch now db = take batch (sort_key (\<lambda>m. the (cmResolutionDate m)) (filter (due_match now) db))"

definition runPoll ::
  "nat \<Rightarrow> bool \<Rightarrow> timestamp \<Rightarrow> (string \<Rightarrow> resolution_answer) \<Rightarrow> (string \<Rightarrow> resolution_answer) \<Rightarrow> match_db
     \<Rightarrow> (match_db \<times> poll_stats) \<times> match_event list" where
  "runPoll batch isRunning now kalshi poly db =
     (if isRunning then ((db, no_polls), []) else poll_matches now kalshi poly (due_matches batch now db) (db, no_polls))"

section \<open>Runs\<close>

datatype matching_op =
    DiscoverOp "string \<Rightarrow> string \<Rightarrow> jsnum" "bool option" "(contract_summary list \<times> contract_summary list) option" "nat \<Rightarrow> candidate_answer"
  | ExternalOp bool "(contract_summary list \<times> contract_summary list) option" "external_pair list option" "external_pair list option" "nat \<Rightarrow> candidate_answer"
  | SyncOp "nat \<Rightarrow> (string \<times> timestamp) option" "(pair_config \<times> timestamp) list"
  | OperatorApproves string string "timestamp option" timestamp
  | OperatorRejects string string timestamp
  | ResolutionPoll nat timestamp "string \<Rightarrow> resolution_answer" "string \<Rightarrow> resolution_answer"

definition db_after :: "match_db \<Rightarrow> match_error + match_db \<times> match_event list \<Rightarrow> match_db" where
  "db_after db r = (case r of Inr (db1, _) \<Rightarrow> db1 | Inl _ \<Rightarrow> db)"

fun matching_step :: "(string \<Rightarrow> string) \<Rightarrow> match_config \<Rightarrow> matching_op \<Rightarrow> match_db \<Rightarrow> match_db" where
  "matching_step plain cfg (DiscoverOp sim g cat ans) db = fst (fst (runDiscovery plain cfg sim g cat ans db))"
| "matching_step plain cfg (ExternalOp on cat es1 es2 ans) db = fst (fst (fst (ingestion_handleCron on False False cfg cat es1 es2 ans db)))"
| "matching_step plain cfg (SyncOp new cs) db = fst (fst (syncPairsToDatabase new cs db))"
| "matching_step plain cfg (OperatorApproves i why date now) db = db_after db (approveMatch i why date now db)"
| "matching_step plain cfg (OperatorRejects i why now) db = db_after db (rejectMatch i why now db)"
| "matching_step plain cfg (ResolutionPoll n now k p) db = fst (fst (runPoll n False now k p db))"

definition matching_run :: "(string \<Rightarrow> string) \<Rightarrow> match_config \<Rightarrow> matching_op list \<Rightarrow> match_db \<Rightarrow> match_db" where
  "matching_run plain cfg ops db = foldl (\<lambda>db x. matching_step plain cfg x db) db ops"

fun approved_by :: "matching_op \<Rightarrow> string list" where
  "approved_by (OperatorApproves i why date now) = [i]"
| "approved_by _ = []"

section \<open>Approvals\<close>

text \<open>A row that trading may use: by the operator, from the configuration file, or by its score.\<close>

definition justified :: "match_config \<Rightarrow> string set \<Rightarrow> contract_match \<Rightarrow> bool" where
  "justified cfg ids m \<longleftrightarrow>
     (cmApproved m \<longrightarrow> cmId m \<in> ids \<or> cmOrigin m = Manual \<or> (\<exists>x. cmScore m = Some x \<and> xge x (mcAuto cfg)))
     \<and> (cmApproved m \<and> cmOrigin m = Discovered \<and> cmNotes m = Some ''Direction mismatch'' \<longrightarrow> cmId m \<in> ids)"

definition db_sound :: "match_config \<Rightarrow> string set \<Rightarrow> match_db \<Rightarrow> bool" where
  "db_sound cfg ids db \<longleftrightarrow> distinct (map cmId db) \<and> (\<forall>m \<in> set db. justified cfg ids m)"

lemma update_ids [simp]: "(\<And>m. cmId (f m) = cmId m) \<Longrightarrow> map cmId (update_match i f db) = map cmId db"
  by (simp add: update_match_def)

lemma sound_update:
  assumes "db_sound cfg ids db" "\<And>m. cmId (f m) = cmId m" "\<And>m. m \<in> set db \<Longrightarrow> cmId m = i \<Longrightarrow> justified cfg ids m \<Longrightarrow> justified cfg ids (f m)"
  shows "db_sound cfg ids (update_match i f db)"
proof -
  have "distinct (map cmId (update_match i f db))" using assms(1,2) by (simp add: db_sound_def)
  moreover have "justified cfg ids m" if "m \<in> set (update_match i f db)" for m
    using that assms(1,3) by (auto simp: update_match_def db_sound_def)
  ultimately show ?thesis by (simp add: db_sound_def)
qed

lemma sound_more: "db_sound cfg ids db \<Longrightarrow> ids \<subseteq> ids' \<Longrightarrow> db_sound cfg ids' db"
  by (auto simp: db_sound_def justified_def)

lemma sound_new:
  assumes "db_sound cfg ids db" "\<not> row_taken (cmId row) p k db" "justified cfg ids row"
  shows "db_sound cfg ids (db @ [row])"
  using assms by (auto simp: db_sound_def row_taken_def list_ex_iff)

lemma sound_store:
  assumes "db_sound cfg ids db" "\<not> row_taken (cmId row) p k db" "justified cfg ids row"
  shows "db_sound cfg ids (fst (fst (store_match row d c x (db, st))))"
  using sound_new [OF assms]
  by (auto simp: store_match_def Let_def justified_def intro!: sound_update split: option.splits)

lemma decided_approve: "decide_match cfg x b = AutoApprove \<longleftrightarrow> xge x (mcAuto cfg) \<and> b"
  by (auto simp: decide_match_def)

lemma discovered_justified:
  "justified cfg ids (discovered_row p k dir x (decide_match cfg x (drAligned dir \<noteq> Misaligned)) i now)"
  by (auto simp: justified_def discovered_row_def decided_approve)

lemma external_justified: "justified cfg ids (external_row e src x (decide_match cfg x True) i now)"
  by (auto simp: justified_def external_row_def decided_approve origin_of_def split: pair_source.splits)

lemma sound_candidate:
  assumes "db_sound cfg ids (fst s)"
  shows "db_sound cfg ids (fst (fst (fst (processCandidate plain cfg a p k s))))"
proof (cases s)
  case (Pair db st)
  have "cmId (discovered_row p k dir x d (caId a) now) = caId a" for dir x d now by (simp add: discovered_row_def)
  then show ?thesis
    using assms Pair discovered_justified sound_store [where p = "csContract p" and k = "csContract k" and db = db and st = st and cfg = cfg and ids = ids]
    by (auto simp: processCandidate_def Let_def split: scoring.splits)
qed

lemma sound_candidates: "db_sound cfg ids (fst s) \<Longrightarrow> db_sound cfg ids (fst (fst (process_candidates plain cfg ans i ps s)))"
proof (induction ps arbitrary: i s)
  case (Cons pk ps)
  obtain p k where pk: "pk = (p, k)" by fastforce
  obtain db st evs threw where 1: "processCandidate plain cfg (ans i) p k s = (((db, st), evs), threw)" by (metis prod.exhaust)
  have "db_sound cfg ids db" using sound_candidate [OF Cons.prems, of plain "ans i" p k] 1 by simp
  then show ?case
    using Cons.IH [of "(db, if threw then st\<lparr>msFailures := msFailures st + 1\<rparr> else st)" "Suc i"] pk 1 by (auto split: prod.splits)
qed simp

lemma sound_pair:
  assumes "db_sound cfg ids (fst s)"
  shows "db_sound cfg ids (fst (fst (fst (processPair cfg a src e texts s))))"
proof (cases s)
  case (Pair db st)
  have "cmId (external_row e src x d (caId a) now) = caId a" for x d now by (simp add: external_row_def)
  then show ?thesis
    using assms Pair external_justified
      sound_store [where p = "the (epPolymarketId e)" and k = "the (epKalshiId e)" and db = db and st = st and cfg = cfg and ids = ids]
    by (auto simp: processPair_def Let_def split: scoring.splits)
qed

lemma sound_pairs: "db_sound cfg ids (fst s) \<Longrightarrow> db_sound cfg ids (fst (fst (process_pairs cfg ans i es texts s)))"
proof (induction es arbitrary: i texts s)
  case (Cons e es)
  obtain src x where e: "e = (src, x)" by fastforce
  obtain s1 evs texts1 where 1: "processPair cfg (ans i) src x texts s = ((s1, evs), texts1)" by (metis prod.exhaust)
  have "db_sound cfg ids (fst s1)" using sound_pair [OF Cons.prems, of "ans i" src x texts] 1 by simp
  then show ?case using Cons.IH [of s1 "Suc i" texts1] e 1 by (auto split: prod.splits)
qed simp

lemma sound_sync:
  assumes "db_sound cfg ids (fst s)" "sync_pair c i now s = Some (s1, c1)"
  shows "db_sound cfg ids (fst s1)"
proof -
  obtain db n pc v where s: "s = (db, n)" "c = (pc, v)" by (metis surj_pair)
  have "justified cfg ids (overwrite_row pc v m)" "justified cfg ids (manual_row pc v i now)" for m
    by (simp_all add: justified_def overwrite_row_def manual_row_def)
  moreover have "cmId (overwrite_row pc v m) = cmId m" "cmId (manual_row pc v i now) = i" for m
    by (simp_all add: overwrite_row_def manual_row_def)
  moreover have "db_sound cfg ids db" using assms(1) s by simp
  ultimately have "db_sound cfg ids (update_match j (overwrite_row pc v) db)"
    and "\<not> row_taken i (polymarketContractId pc) (kalshiContractId pc) db \<Longrightarrow> db_sound cfg ids (db @ [manual_row pc v i now])" for j
    by (auto intro: sound_update sound_new [where p = "polymarketContractId pc" and k = "kalshiContractId pc"])
  then show ?thesis
    using assms s by (auto simp: sync_pair_def split: option.splits if_splits)
qed

lemma sound_sync_loop: "db_sound cfg ids (fst s) \<Longrightarrow> db_sound cfg ids (fst (fst (sync_loop new i cs s)))"
proof (induction cs arbitrary: i s)
  case (Cons c cs)
  show ?case
  proof (cases "case new i of None \<Rightarrow> None | Some (x, now) \<Rightarrow> sync_pair c x now s")
    case None
    then show ?thesis using Cons.prems by simp
  next
    case (Some r)
    obtain s1 c1 where r: "r = (s1, c1)" by fastforce
    then obtain x now where "sync_pair c x now s = Some (s1, c1)" using Some by (auto split: option.splits)
    then have "db_sound cfg ids (fst s1)" by (rule sound_sync [OF Cons.prems])
    then show ?thesis using Cons.IH [of s1 "Suc i"] Some r by (auto split: prod.splits)
  qed
qed simp

lemma sound_operator:
  assumes "db_sound cfg ids db" "i \<in> ids"
  shows "db_sound cfg ids (db_after db (approveMatch i why date now db))"
  using assms
  by (auto simp: approveMatch_def db_after_def justified_def intro!: sound_update split: option.splits)

lemma sound_rejection: "db_sound cfg ids db \<Longrightarrow> db_sound cfg ids (db_after db (rejectMatch i why now db))"
  by (auto simp: rejectMatch_def db_after_def justified_def intro!: sound_update split: option.splits)

lemma sound_resolution:
  "db_sound cfg ids db \<Longrightarrow> recordResolution i p k None now db = Inr (db1, evs) \<Longrightarrow> db_sound cfg ids db1"
  by (auto simp: recordResolution_def Let_def justified_def intro!: sound_update split: if_splits)

lemma sound_poll: "db_sound cfg ids (fst s) \<Longrightarrow> db_sound cfg ids (fst (fst (poll_match now kalshi poly m s)))"
  by (cases s)
    (auto simp: poll_match_def Let_def justified_def intro!: sound_update dest: sound_resolution
      split: option.splits sum.splits prod.splits)

lemma sound_polls: "db_sound cfg ids (fst s) \<Longrightarrow> db_sound cfg ids (fst (fst (poll_matches now kalshi poly ms s)))"
proof (induction ms arbitrary: s)
  case (Cons m ms)
  obtain s1 e1 where 1: "poll_match now kalshi poly m s = (s1, e1)" by fastforce
  have "db_sound cfg ids (fst s1)" using sound_poll [OF Cons.prems, of now kalshi poly m] 1 by simp
  then show ?case using Cons.IH [of s1] 1 by (auto split: prod.splits)
qed simp

lemma sound_step:
  "db_sound cfg ids db \<Longrightarrow> set (approved_by x) \<subseteq> ids \<Longrightarrow> db_sound cfg ids (matching_step plain cfg x db)"
  by (cases x)
    (auto simp: runDiscovery_def ingestion_handleCron_def processAllProviders_def syncPairsToDatabase_def runPoll_def Let_def sound_candidates sound_pairs
      sound_sync_loop sound_polls sound_operator sound_rejection split: option.splits)

lemma sound_run:
  "db_sound cfg ids db \<Longrightarrow> set (concat (map approved_by ops)) \<subseteq> ids \<Longrightarrow> db_sound cfg ids (matching_run plain cfg ops db)"
  by (induction ops arbitrary: db) (simp_all add: matching_run_def sound_step)

section \<open>What is traded\<close>

lemma active_pair_row:
  assumes "c \<in> set (getActivePairs yaml db)" "c \<notin> set (filterValidPairs yaml)"
  obtains m where "m \<in> set db" "c = match_config_of m" "cmApproved m" "cmToken m \<noteq> None"
  using assms by (auto simp: getActivePairs_def Let_def tradable_match_def)

lemma find_fresh: "(\<And>m. m \<in> set db \<Longrightarrow> cmId m \<noteq> i) \<Longrightarrow> find_match i (db @ xs) = find_match i xs"
  by (induction db) (auto simp: find_match_def)

lemma update_fresh: "(\<And>m. m \<in> set db \<Longrightarrow> cmId m \<noteq> i) \<Longrightarrow> update_match i f (db @ xs) = db @ update_match i f xs"
  by (induction db) (auto simp: update_match_def)

definition stored_row :: "contract_match \<Rightarrow> match_decision \<Rightarrow> string option \<Rightarrow> contract_match" where
  "stored_row row d c = (if d = AutoReject then row else case c of Some y \<Rightarrow> row\<lparr>cmCluster := Some y\<rparr> | None \<Rightarrow> row)"

lemma stored_row_fields [simp]:
  "cmId (stored_row row d c) = cmId row" "cmApproved (stored_row row d c) = cmApproved row" "cmToken (stored_row row d c) = cmToken row"
  "cmPolymarket (stored_row row d c) = cmPolymarket row" "cmKalshi (stored_row row d c) = cmKalshi row"
  "cmScore (stored_row row d c) = cmScore row"
  by (auto simp: stored_row_def split: option.splits)

lemma store_appends:
  assumes "\<not> row_taken (cmId row) p k db"
  shows "fst (fst (store_match row d c x (db, st))) = db @ [stored_row row d c]"
proof -
  have "m \<in> set db \<Longrightarrow> cmId m \<noteq> cmId row" for m using assms by (auto simp: row_taken_def list_ex_iff)
  from update_fresh [OF this] show ?thesis
    by (auto simp: store_match_def stored_row_def Let_def update_match_def split: option.splits)
qed

lemma stored_found:
  assumes "\<not> row_taken (cmId row) p k db"
  shows "find_match (cmId row) (db @ [stored_row row d c]) = Some (stored_row row d c)"
proof -
  have "m \<in> set db \<Longrightarrow> cmId m \<noteq> cmId row" for m using assms by (auto simp: row_taken_def list_ex_iff)
  from find_fresh [OF this] show ?thesis by (simp add: find_match_def)
qed

lemma enriched_by_titles:
  assumes "epPolymarketId e = None" "findBestMatch (epPolymarketTitle e) ps = Some (p, m)" "findBestMatch (epKalshiTitle e) ks = Some (k, n)"
    and "xge m threshold" "xge n threshold"
  shows "enrich_pair threshold ps ks e =
           e\<lparr>epPolymarketId := Some (csContract p), epKalshiId := Some (csContract k), epSettlement := first_of (csSettlement p) (csSettlement k),
             epCategory := first_of (csCategory p) (csCategory k), epToken := csToken p, epPolymarketLabel := csLabel p, epKalshiLabel := csLabel k\<rparr>"
  using assms by (simp add: enrich_pair_def present_def no_label_def)

lemma found_catalog: "findBestMatch title ps = Some r \<Longrightarrow> ps \<noteq> []"
  by (auto simp: findBestMatch_def)

lemma external_approved:
  assumes "present (epPolymarketId e)" "present (epKalshiId e)" "\<not> caKnown a" "\<not> (src = FromOddsPipe \<and> fuzzy_duplicate cfg e (take (caSeen a) texts))"
    and "caScore a = Scored x" "xge x (mcAuto cfg)" "\<not> row_taken (caId a) (the (epPolymarketId e)) (the (epKalshiId e)) db"
  shows "fst (fst (fst (processPair cfg a src e texts (db, st)))) =
           db @ [stored_row (external_row e src x AutoApprove (caId a) (caNow a)) AutoApprove (caCluster a)]"
proof -
  have row: "cmId (external_row e src x d (caId a) now) = caId a" for d now by (simp add: external_row_def)
  show ?thesis
    using assms store_appends [where row = "external_row e src x AutoApprove (caId a) (caNow a)" and p = "the (epPolymarketId e)" and k = "the (epKalshiId e)"]
    by (simp add: processPair_def decide_match_def Let_def row)
qed

lemma misaligned_stored:
  assumes "\<not> caKnown a" "caScore a = Scored x" "drAligned (validateDirection plain (caLlm a) p k) = Misaligned"
    and "\<not> row_taken (caId a) (csContract p) (csContract k) db"
  shows "\<exists>r. find_match (caId a) (fst (fst (fst (processCandidate plain cfg a p k (db, st))))) = Some r \<and> \<not> cmApproved r"
proof -
  have row: "cmId (discovered_row p k dir s d (caId a) now) = caId a" for dir s d now by (simp add: discovered_row_def)
  let ?d = "decide_match cfg (effective_score (validateDirection plain (caLlm a) p k) x) False"
  let ?r = "discovered_row p k (validateDirection plain (caLlm a) p k) (effective_score (validateDirection plain (caLlm a) p k) x) ?d (caId a) (caNow a)"
  have "fst (fst (fst (processCandidate plain cfg a p k (db, st)))) = db @ [stored_row ?r ?d (caCluster a)]"
    using assms store_appends [where row = ?r and p = "csContract p" and k = "csContract k"] by (simp add: processCandidate_def Let_def row)
  moreover have "?d \<noteq> AutoApprove" by (simp add: decided_approve)
  ultimately show ?thesis using stored_found [where row = ?r and p = "csContract p" and k = "csContract k" and db = db] assms(4)
    by (simp add: row) (simp add: discovered_row_def)
qed

section \<open>The poller\<close>

lemma sort_key_split: "sort_key f xs = sort_key f (filter (\<lambda>x. f x < c) xs) @ sort_key f (filter (\<lambda>x. \<not> f x < c) xs)"
proof (rule properties_for_sort_key)
  show "mset (sort_key f (filter (\<lambda>x. f x < c) xs) @ sort_key f (filter (\<lambda>x. \<not> f x < c) xs)) = mset xs" by simp
next
  fix k
  show "filter (\<lambda>x. f k = f x) (sort_key f (filter (\<lambda>x. f x < c) xs) @ sort_key f (filter (\<lambda>x. \<not> f x < c) xs)) = filter (\<lambda>x. f k = f x) xs"
  proof -
    have "f k < c \<Longrightarrow> filter (\<lambda>x. f x < c \<and> f x = f k) xs = filter (\<lambda>x. f x = f k) xs"
      "\<not> f k < c \<Longrightarrow> filter (\<lambda>x. \<not> f x < c \<and> f x = f k) xs = filter (\<lambda>x. f x = f k) xs"
      by (auto intro: filter_cong)
    moreover have "f k < c \<Longrightarrow> filter (\<lambda>x. \<not> f x < c \<and> f x = f k) xs = []" "\<not> f k < c \<Longrightarrow> filter (\<lambda>x. f x < c \<and> f x = f k) xs = []"
      by (auto simp: filter_empty_conv)
    ultimately show ?thesis unfolding eq_commute [of "f k"] filter_append sort_key_stable by (cases "f k < c") simp_all
  qed
next
  show "sorted (map f (sort_key f (filter (\<lambda>x. f x < c) xs) @ sort_key f (filter (\<lambda>x. \<not> f x < c) xs)))"
    by (auto simp: sorted_append)
qed

lemma due_stays:
  assumes "now \<le> now'" "batch \<le> length (filter (due_match now) db)"
  shows "due_matches batch now' db = due_matches batch now db"
proof -
  have later: "filter (\<lambda>m. the (cmResolutionDate m) < now) (filter (due_match now') db) = filter (due_match now) db"
    using assms(1) by (auto simp: due_match_def intro!: filter_cong split: option.splits)
  show ?thesis
    using assms(2) unfolding due_matches_def
    by (subst sort_key_split [where c = now]) (simp only: later take_append length_sort, simp)
qed

text \<open>A match that the platforms have not settled, or do not answer for.\<close>

definition unsettled_match :: "(string \<Rightarrow> resolution_answer) \<Rightarrow> (string \<Rightarrow> resolution_answer) \<Rightarrow> contract_match \<Rightarrow> bool" where
  "unsettled_match kalshi poly m \<longleftrightarrow>
     (case (kalshi (cmKalshi m), poly (cmPolymarket m)) of
        (Some (ko, ks), Some (po, ps)) \<Rightarrow> ko \<noteq> Some OutcomeInvalid \<and> po \<noteq> Some OutcomeInvalid \<and> \<not> (ks \<and> ps)
      | _ \<Rightarrow> True)"

lemma unsettled_unchanged: "unsettled_match kalshi poly m \<Longrightarrow> fst (fst (poll_match now kalshi poly m s)) = fst s"
  by (cases s) (auto simp: unsettled_match_def poll_match_def Let_def split: option.splits)

lemma unsettled_polls: "(\<And>m. m \<in> set ms \<Longrightarrow> unsettled_match kalshi poly m) \<Longrightarrow> fst (fst (poll_matches now kalshi poly ms s)) = fst s"
proof (induction ms arbitrary: s)
  case (Cons m ms)
  obtain s1 e1 where 1: "poll_match now kalshi poly m s = (s1, e1)" by fastforce
  then have "fst s1 = fst s" using unsettled_unchanged [of kalshi poly m now s] Cons.prems by simp
  then show ?case using Cons.IH [of s1] Cons.prems 1 by (auto split: prod.splits)
qed simp

section \<open>Labels\<close>

lemma missing_label_inconclusive: "no_label (csLabel p) \<Longrightarrow> drAligned (validateDirection plain llm p k) = Inconclusive"
  by (simp add: validateDirection_def uncorrected_def)

lemma inconclusive_approved:
  assumes "no_label (csLabel p)" "\<not> caKnown a" "caScore a = Scored x" "xge x (mcAuto cfg)"
    and "\<not> row_taken (caId a) (csContract p) (csContract k) db"
  shows "\<exists>r. find_match (caId a) (fst (fst (fst (processCandidate plain cfg a p k (db, st))))) = Some r \<and> cmApproved r"
proof -
  have row: "cmId (discovered_row p k dir s d (caId a) now) = caId a" for dir s d now by (simp add: discovered_row_def)
  have dir: "drAligned (validateDirection plain (caLlm a) p k) = Inconclusive" using assms(1) by (rule missing_label_inconclusive)
  let ?r = "discovered_row p k (validateDirection plain (caLlm a) p k) x AutoApprove (caId a) (caNow a)"
  have "fst (fst (fst (processCandidate plain cfg a p k (db, st)))) = db @ [stored_row ?r AutoApprove (caCluster a)]"
    using assms dir store_appends [where row = ?r and p = "csContract p" and k = "csContract k"]
    by (simp add: processCandidate_def Let_def row effective_score_def decide_match_def)
  then show ?thesis using stored_found [where row = ?r and p = "csContract p" and k = "csContract k" and db = db] assms(5)
    by (simp add: row) (simp add: discovered_row_def)
qed

definition sample_contract :: "string \<Rightarrow> string \<Rightarrow> string option \<Rightarrow> contract_summary" where
  "sample_contract i title label =
     \<lparr>csContract = i, csTitle = title, csDescription = title, csCategory = None, csSettlement = Some 1000, csToken = Some (i @ ''t''),
       csLabel = label, csTokens = []\<rparr>"

lemma negated_label_aligned:
  "drAligned (validateDirection (\<lambda>s. s) llm (sample_contract ''p'' ''a'' (Some ''Trump'')) (sample_contract ''k'' ''b'' (Some ''Not Trump''))) = Aligned"
  by code_simp

lemma other_name_misaligned:
  "drAligned (validateDirection (\<lambda>s. s) (\<lambda>i. Some (Fin 10)) (sample_contract ''p'' ''fed cuts rates'' (Some ''Cuts'')) (sample_contract ''k'' ''fed cuts rates'' (Some ''Holds''))) = Misaligned"
  by code_simp

lemma same_title_found:
  "findBestMatch ''fed cuts rates'' [sample_contract i ''fed cuts rates'' l] = Some (sample_contract i ''fed cuts rates'' l, Fin 1)"
proof -
  have "computeTitleSimilarity ''fed cuts rates'' ''fed cuts rates'' = Fin 1" by code_simp
  then show ?thesis by (simp add: findBestMatch_def catalog_similarity_def sample_contract_def)
qed

text \<open>A pair that is taken out of the configuration file goes on being traded, from its row, with Kalshi first.\<close>

lemma removed_pair_still_traded:
  assumes "polymarketClobTokenId c \<noteq> []" "new 0 = Some (i, now)"
  shows "\<exists>c' \<in> set (getActivePairs [] (fst (fst (syncPairsToDatabase new [(c, v)] [])))).
           kalshiContractId c' = kalshiContractId c \<and> polymarketContractId c' = polymarketContractId c \<and> primaryLegCfg c' = Some Kalshi"
  using assms
  by (simp add: syncPairsToDatabase_def sync_pair_def row_taken_def getActivePairs_def filterValidPairs_def tradable_match_def
      match_config_of_def manual_row_def)

text \<open>A market that a platform voids counts as a pattern that held.\<close>

lemma voided_market_validates:
  assumes "kalshi (cmKalshi m) = Some (Some OutcomeInvalid, ks)" "poly (cmPolymarket m) = Some (po, ps)"
    and "cmResolvedAt m = None" "cmDiverged m = None"
  shows "rxValidated (getResolutionContext (fst (fst (poll_match now kalshi poly m ([m], st))))) = 1"
  using assms by (simp add: poll_match_def update_match_def getResolutionContext_def resolved_count_def diverged_count_def Let_def)

section \<open>The properties\<close>

text \<open>
  C17: A pair that trading gets and that is not in the configuration file is a stored match that the
  operator approved, or that came from the file at start-up, or whose score is at least the threshold; one that discovery found with
  outcomes of opposite direction is there only if the operator approved it.
\<close>
theorem approvals_justified:
  assumes "c \<in> set (getActivePairs yaml (matching_run plain cfg ops []))" "c \<notin> set (filterValidPairs yaml)"
  shows "\<exists>m \<in> set (matching_run plain cfg ops []). c = match_config_of m \<and> cmApproved m \<and> cmToken m \<noteq> None
    \<and> (cmId m \<in> set (concat (map approved_by ops)) \<or> cmOrigin m = Manual \<or> (\<exists>x. cmScore m = Some x \<and> xge x (mcAuto cfg)))
    \<and> (cmOrigin m = Discovered \<and> cmNotes m = Some ''Direction mismatch'' \<longrightarrow> cmId m \<in> set (concat (map approved_by ops)))"
proof -
  have "db_sound cfg (set (concat (map approved_by ops))) (matching_run plain cfg ops [])"
    by (rule sound_run) (simp_all add: db_sound_def)
  moreover from assms obtain m where "m \<in> set (matching_run plain cfg ops [])" "c = match_config_of m" "cmApproved m" "cmToken m \<noteq> None"
    by (rule active_pair_row)
  ultimately show ?thesis unfolding db_sound_def justified_def by (intro bexI [of _ m]) simp_all
qed

definition sample_match_config :: match_config where
  "sample_match_config = \<lparr>mcAuto = Fin 85, mcMinReview = Fin 40, mcDedup = Fin (9/10), mcWindowDays = Fin 7, mcPreFilter = Fin (1/4),
     mcMaxCandidates = 20, mcCatalog = Fin (1/2)\<rparr>"

definition sample_answer :: "string \<Rightarrow> rat \<Rightarrow> candidate_answer" where
  "sample_answer i x = \<lparr>caKnown = False, caSeen = 0, caScore = Scored (Fin x), caLlm = (\<lambda>i. Some (Fin 10)), caId = i, caNow = 5, caCluster = None\<rparr>"

definition sample_external :: "string option \<Rightarrow> string option \<Rightarrow> string option \<Rightarrow> external_pair" where
  "sample_external p k t =
     \<lparr>epPolymarketId = p, epKalshiId = k, epPolymarketTitle = ''fed cuts rates'', epKalshiTitle = ''fed cuts rates'', epSettlement = None,
       epCategory = None, epToken = t, epPolymarketLabel = None, epKalshiLabel = None\<rparr>"

definition sample_match_ops :: "matching_op list" where
  "sample_match_ops =
     [ExternalOp True None (Some [sample_external (Some ''p'') (Some ''k'') (Some ''t'')]) None (\<lambda>i. sample_answer ''m'' 60),
      OperatorApproves ''m'' ''seen'' None 7]"

lemma sample_match_run:
  "map (\<lambda>m. (cmId m, cmApproved m, cmToken m)) (matching_run (\<lambda>s. s) sample_match_config sample_match_ops []) = [(''m'', True, Some ''t'')]"
  by code_simp

theorem approvals_justified_witness:
  "\<exists>m \<in> set (matching_run (\<lambda>s. s) sample_match_config sample_match_ops []). cmApproved m \<and> cmToken m \<noteq> None
    \<and> (cmId m \<in> set (concat (map approved_by sample_match_ops)) \<or> cmOrigin m = Manual \<or> (\<exists>x. cmScore m = Some x \<and> xge x (Fin 85)))"
proof -
  obtain m where m: "matching_run (\<lambda>s. s) sample_match_config sample_match_ops [] = [m]" "cmApproved m" "cmToken m = Some ''t''"
    using sample_match_run by (auto simp: map_eq_Cons_conv)
  then have "match_config_of m \<in> set (getActivePairs [] (matching_run (\<lambda>s. s) sample_match_config sample_match_ops []))"
    by (simp add: getActivePairs_def filterValidPairs_def tradable_match_def)
  from approvals_justified [OF this] show ?thesis by (auto simp: filterValidPairs_def sample_match_config_def)
qed

text \<open>
  C38: Of two contracts whose outcomes are opposite, discovery stores a match that is not traded,
  whatever the score; the same contracts found by the titles of an external pair are approved
  by the score alone and are traded at once.
\<close>
theorem external_pair_traded_unchecked:
  assumes "drAligned (validateDirection plain (caLlm a) p k) = Misaligned"
    and "\<not> caKnown a" "caScore a = Scored x" "xge x (mcAuto cfg)" "\<not> row_taken (caId a) (csContract p) (csContract k) db"
    and "epPolymarketId e = None" "csContract p \<noteq> []" "csContract k \<noteq> []" "csToken p = Some t"
    and "findBestMatch (epPolymarketTitle e) ps = Some (p, m)" "findBestMatch (epKalshiTitle e) ks = Some (k, n)"
    and "xge m (mcCatalog cfg)" "xge n (mcCatalog cfg)"
    and "\<not> fuzzy_duplicate cfg e (take (caSeen a) (map (\<lambda>m. (cmPolymarketText m, cmKalshiText m)) db))"
  shows "(\<exists>r. find_match (caId a) (fst (fst (fst (processCandidate plain cfg a p k (db, st))))) = Some r \<and> \<not> cmApproved r)
    \<and> (\<exists>c \<in> set (getActivePairs [] (fst (fst (processAllProviders cfg (Some (ps, ks)) (Some [e]) None (\<lambda>i. a) db)))).
           matchIdCfg c = Some (caId a) \<and> polymarketContractId c = csContract p \<and> kalshiContractId c = csContract k \<and> polymarketClobTokenId c = t)"
proof (intro conjI)
  show "\<exists>r. find_match (caId a) (fst (fst (fst (processCandidate plain cfg a p k (db, st))))) = Some r \<and> \<not> cmApproved r"
    using assms(1-3,5) by (intro misaligned_stored) simp_all
next
  let ?e = "enrich_pair (mcCatalog cfg) ps ks e"
  let ?r = "stored_row (external_row ?e FromOddsPipe x AutoApprove (caId a) (caNow a)) AutoApprove (caCluster a)"
  have e: "epPolymarketId ?e = Some (csContract p)" "epKalshiId ?e = Some (csContract k)" "epToken ?e = Some t"
    "fuzzy_duplicate cfg ?e ts = fuzzy_duplicate cfg e ts" for ts
    using enriched_by_titles [OF assms(6,10-13)] assms(9) by (simp_all add: fuzzy_duplicate_def)
  have "enrichPairs (mcCatalog cfg) (Some (ps, ks)) [e] = [?e]"
    using assms(6) found_catalog [OF assms(10)] found_catalog [OF assms(11)]
    by (simp add: enrichPairs_def needs_enrichment_def present_def no_label_def)
  moreover have "fst (fst (fst (processPair cfg a FromOddsPipe ?e (map (\<lambda>m. (cmPolymarketText m, cmKalshiText m)) db) (db, no_stats)))) = db @ [?r]"
    using assms(2-5,7,8,14) by (intro external_approved) (simp_all add: e present_def no_label_def)
  ultimately have "fst (fst (processAllProviders cfg (Some (ps, ks)) (Some [e]) None (\<lambda>i. a) db)) = db @ [?r]"
    by (auto simp: processAllProviders_def split: prod.splits)
  then show "\<exists>c \<in> set (getActivePairs [] (fst (fst (processAllProviders cfg (Some (ps, ks)) (Some [e]) None (\<lambda>i. a) db)))).
           matchIdCfg c = Some (caId a) \<and> polymarketContractId c = csContract p \<and> kalshiContractId c = csContract k \<and> polymarketClobTokenId c = t"
    using e by (intro bexI [of _ "match_config_of ?r"])
      (simp_all add: getActivePairs_def filterValidPairs_def tradable_match_def match_config_of_def external_row_def)
qed

theorem external_pair_traded_unchecked_witness:
  "\<exists>c \<in> set (getActivePairs [] (fst (fst (processAllProviders sample_match_config
        (Some ([sample_contract ''p'' ''fed cuts rates'' (Some ''Cuts'')], [sample_contract ''k'' ''fed cuts rates'' (Some ''Holds'')]))
        (Some [sample_external None None None]) None (\<lambda>i. sample_answer ''m'' 90) [])))). polymarketClobTokenId c = ''pt''"
  using external_pair_traded_unchecked [where plain = "\<lambda>s. s" and a = "sample_answer ''m'' 90" and db = "[]" and x = "Fin 90" and t = "''pt''"
      and cfg = sample_match_config and p = "sample_contract ''p'' ''fed cuts rates'' (Some ''Cuts'')" and m = "Fin 1" and n = "Fin 1"
      and k = "sample_contract ''k'' ''fed cuts rates'' (Some ''Holds'')" and e = "sample_external None None None"
      and ps = "[sample_contract ''p'' ''fed cuts rates'' (Some ''Cuts'')]" and ks = "[sample_contract ''k'' ''fed cuts rates'' (Some ''Holds'')]"]
    other_name_misaligned same_title_found [of "''p''" "Some ''Cuts''"] same_title_found [of "''k''" "Some ''Holds''"]
  by (auto simp: sample_answer_def sample_match_config_def sample_external_def row_taken_def sample_contract_def fuzzy_duplicate_def)

text \<open>
  C39: When the oldest matches that are due fill a batch and the platforms have settled none of them,
  a poll leaves every match as it is, however late it comes and whatever is settled behind them.
\<close>
theorem blocked_batch_starves_poller:
  assumes "now \<le> now'" "batch \<le> length (filter (due_match now) db)"
    and "\<And>m. m \<in> set (due_matches batch now db) \<Longrightarrow> unsettled_match kalshi poly m"
  shows "fst (fst (runPoll batch False now' kalshi poly db)) = db"
  using unsettled_polls [OF assms(3), of "due_matches batch now db" now' "(db, no_polls)"]
  by (simp add: runPoll_def due_stays [OF assms(1,2)])

definition sample_due :: "string \<Rightarrow> timestamp \<Rightarrow> contract_match" where
  "sample_due i date =
     (manual_row \<lparr>primaryLegCfg = None, kalshiContractId = i, polymarketContractId = i, polymarketClobTokenId = ''t'', pairDescription = ''x'',
        confidenceScoreCfg = None, matchIdCfg = None, resolutionDateCfg = Some date, clusterIdCfg = None\<rparr> 0 i 0)"

theorem blocked_batch_starves_poller_witness:
  "fst (fst (runPoll 1 False 100 (\<lambda>i. if i = ''a'' then None else Some (Some OutcomeYes, True)) (\<lambda>i. Some (Some OutcomeYes, True))
      [sample_due ''b'' 6, sample_due ''a'' 5])) = [sample_due ''b'' 6, sample_due ''a'' 5]"
  by (rule blocked_batch_starves_poller [where now = 10])
    (simp_all add: sample_due_def manual_row_def due_match_def due_matches_def unsettled_match_def)

end
