(* ===== verification/Clusters.thy ===== *)
theory Clusters
  imports Matching
begin

text \<open>
  The correlation cluster of a match, \<^verbatim>\<open>contract-matching/cluster-classifier.service.ts\<close>: by the
  categories of the two platforms when both are mapped to one cluster, otherwise by a language model
  whose answer creates the cluster and maps the categories for the next time.  The tables of clusters
  and mappings are the state; the answer of the model, a new identifier and the point at which the
  database fails, if it does, are arguments.
\<close>

section \<open>State\<close>

record cluster_row =
  crId :: string
  crName :: string
  crSlug :: string

record tag_row =
  tgCluster :: string
  tgPlatform :: platform
  tgCategory :: string

record cluster_db =
  cdClusters :: "cluster_row list"
  cdTags :: "tag_row list"

record cluster_assignment =
  caCluster' :: string
  caName :: string
  caRaw :: "(platform \<times> string) list"
  caByModel :: bool

definition is_alnum :: "char \<Rightarrow> bool" where
  "is_alnum c \<longleftrightarrow> (let n = of_char c :: nat in 97 \<le> n \<and> n \<le> 122 \<or> 48 \<le> n \<and> n \<le> 57)"

text \<open>Runs of other characters become one hyphen; the flag says that one is already there.\<close>

fun hyphenate :: "bool \<Rightarrow> string \<Rightarrow> string" where
  "hyphenate after [] = []"
| "hyphenate after (c # s) = (if is_alnum c then c # hyphenate False s else if after then hyphenate True s else CHR ''-'' # hyphenate True s)"

definition generateSlug :: "string \<Rightarrow> string" where
  "generateSlug name =
     (let s = hyphenate False (lower_text name);
          t = (case s of c # rest \<Rightarrow> if c = CHR ''-'' then rest else s | [] \<Rightarrow> [])
      in if t \<noteq> [] \<and> last t = CHR ''-'' then butlast t else t)"

definition find_slug :: "string \<Rightarrow> cluster_db \<Rightarrow> cluster_row option" where
  "find_slug slug db = find (\<lambda>c. crSlug c = slug) (cdClusters db)"

definition find_cluster :: "string \<Rightarrow> cluster_db \<Rightarrow> cluster_row option" where
  "find_cluster i db = find (\<lambda>c. crId c = i) (cdClusters db)"

section \<open>Operations\<close>

text \<open>At start-up the default cluster is there or is created.\<close>

definition classifier_onModuleInit :: "string \<Rightarrow> cluster_db \<Rightarrow> cluster_db \<times> string" where
  "classifier_onModuleInit new db =
     (case find_slug ''uncategorized'' db of
        Some c \<Rightarrow> (db, crId c)
      | None \<Rightarrow> (db\<lparr>cdClusters := cdClusters db @ [\<lparr>crId = new, crName = ''Uncategorized'', crSlug = ''uncategorized''\<rparr>]\<rparr>, new))"

text \<open>\<open>None\<close> when the row cannot be created: the name or the identifier is taken under another slug.\<close>

definition getOrCreateCluster :: "string \<Rightarrow> string \<Rightarrow> string \<Rightarrow> cluster_db \<Rightarrow> (cluster_db \<times> string) option" where
  "getOrCreateCluster unc name new db =
     (let slug = generateSlug name
      in if slug = [] then Some (db, unc)
         else
           case find_slug slug db of
             Some c \<Rightarrow> Some (db, crId c)
           | None \<Rightarrow>
               if list_ex (\<lambda>c. crName c = name \<or> crId c = new) (cdClusters db) then None
               else Some (db\<lparr>cdClusters := cdClusters db @ [\<lparr>crId = new, crName = name, crSlug = slug\<rparr>]\<rparr>, new))"

definition mappings :: "platform \<Rightarrow> string option \<Rightarrow> cluster_db \<Rightarrow> tag_row list" where
  "mappings p category db = (if present category then filter (\<lambda>t. tgPlatform t = p \<and> tgCategory t = the category) (cdTags db) else [])"

definition raw_categories :: "string option \<Rightarrow> string option \<Rightarrow> (platform \<times> string) list" where
  "raw_categories poly kalshi =
     (if present kalshi then [(Kalshi, the kalshi)] else []) @ (if present poly then [(Polymarket, the poly)] else [])"

definition cluster_name :: "string \<Rightarrow> string \<Rightarrow> cluster_db \<Rightarrow> string" where
  "cluster_name i otherwise db = (case find_cluster i db of Some c \<Rightarrow> crName c | None \<Rightarrow> otherwise)"

definition tryFastPath :: "string option \<Rightarrow> string option \<Rightarrow> cluster_db \<Rightarrow> cluster_assignment option" where
  "tryFastPath poly kalshi db =
     (case (mappings Kalshi kalshi db, mappings Polymarket poly db) of
        ([k], [p]) \<Rightarrow>
          if tgCluster k = tgCluster p then
            Some \<lparr>caCluster' = tgCluster k, caName = cluster_name (tgCluster k) [] db, caRaw = raw_categories poly kalshi, caByModel = False\<rparr>
          else None
      | _ \<Rightarrow> None)"

text \<open>A mapping that is there already is taken as stored.\<close>

definition safeInsertTagMapping :: "string \<Rightarrow> platform \<Rightarrow> string option \<Rightarrow> cluster_db \<Rightarrow> cluster_db" where
  "safeInsertTagMapping i p category db =
     (if present category then
        (let t = \<lparr>tgCluster = i, tgPlatform = p, tgCategory = the category\<rparr>
         in if t \<in> set (cdTags db) then db else db\<lparr>cdTags := cdTags db @ [t]\<rparr>)
      else db)"

text \<open>The statements at which the database may fail.\<close>

datatype cluster_failure = NoFailure | FastPathFails | NamesFail | ClusterFails | KalshiTagFails | PolymarketTagFails | FinalReadFails

record cluster_answer =
  clModel :: "string option"
  clNew :: string
  clFailure :: cluster_failure

text \<open>The tables as they are when the call ends, with the assignment unless it fails.\<close>

definition classifyViaLlm :: "string \<Rightarrow> cluster_answer \<Rightarrow> string option \<Rightarrow> string option \<Rightarrow> cluster_db \<Rightarrow> cluster_db \<times> cluster_assignment option" where
  "classifyViaLlm unc a poly kalshi db =
     (if clFailure a = NamesFail then (db, None)
      else
        case clModel a of
          None \<Rightarrow> (db, None)
        | Some answer \<Rightarrow>
            let name = trim_text answer in
            if answer = [] \<or> clFailure a = ClusterFails then (db, None)
            else
              case getOrCreateCluster unc name (clNew a) db of
                None \<Rightarrow> (db, None)
              | Some (db1, i) \<Rightarrow>
                  if clFailure a = KalshiTagFails \<and> present kalshi then (db1, None)
                  else
                    let db2 = safeInsertTagMapping i Kalshi kalshi db1 in
                    if clFailure a = PolymarketTagFails \<and> present poly then (db2, None)
                    else
                      let db3 = safeInsertTagMapping i Polymarket poly db2 in
                      if clFailure a = FinalReadFails then (db3, None)
                      else (db3, Some \<lparr>caCluster' = i, caName = cluster_name i name db3, caRaw = raw_categories poly kalshi, caByModel = True\<rparr>))"

definition uncategorizedAssignment :: "string \<Rightarrow> cluster_assignment" where
  "uncategorizedAssignment unc = \<lparr>caCluster' = unc, caName = ''Uncategorized'', caRaw = [], caByModel = False\<rparr>"

definition classifyMatch :: "string \<Rightarrow> cluster_answer \<Rightarrow> string option \<Rightarrow> string option \<Rightarrow> cluster_db \<Rightarrow> cluster_db \<times> cluster_assignment" where
  "classifyMatch unc a poly kalshi db =
     (if clFailure a = FastPathFails then (db, uncategorizedAssignment unc)
      else
        case tryFastPath poly kalshi db of
          Some r \<Rightarrow> (db, r)
        | None \<Rightarrow>
            (case classifyViaLlm unc a poly kalshi db of
               (db1, Some r) \<Rightarrow> (db1, r)
             | (db1, None) \<Rightarrow> (db1, uncategorizedAssignment unc)))"

text \<open>The operator's correction, which leaves the mappings alone; the second part is the old cluster.\<close>

definition reassignCluster :: "string \<Rightarrow> string \<Rightarrow> cluster_db \<Rightarrow> match_db \<Rightarrow> match_error + match_db \<times> string option" where
  "reassignCluster i cluster cdb db =
     (case find_match i db of
        None \<Rightarrow> Inl MatchNotFound
      | Some m \<Rightarrow>
          if find_cluster cluster cdb = None then Inl MatchNotFound
          else Inr (update_match i (\<lambda>m. m\<lparr>cmCluster := Some cluster\<rparr>) db, if present (cmCluster m) then cmCluster m else None))"

section \<open>Consistency\<close>

definition cluster_ids :: "cluster_db \<Rightarrow> string set" where
  "cluster_ids db = set (map crId (cdClusters db))"

text \<open>The unique columns, and mappings that name clusters.\<close>

definition clusters_ok :: "cluster_db \<Rightarrow> bool" where
  "clusters_ok db \<longleftrightarrow> distinct (map crId (cdClusters db)) \<and> distinct (map crSlug (cdClusters db)) \<and> distinct (cdTags db)
     \<and> (\<forall>t \<in> set (cdTags db). tgCluster t \<in> cluster_ids db)"

lemma no_slug: "find_slug s db = None \<longleftrightarrow> s \<notin> set (map crSlug (cdClusters db))"
  by (auto simp: find_slug_def find_None_iff)

lemma slug_id: "find_slug s db = Some c \<Longrightarrow> crId c \<in> cluster_ids db"
  by (auto simp: find_slug_def cluster_ids_def find_Some_iff)

lemma cluster_found:
  assumes "getOrCreateCluster unc name new db = Some (db1, i)" "clusters_ok db" "unc \<in> cluster_ids db"
  shows "clusters_ok db1" "i \<in> cluster_ids db1" "cluster_ids db \<subseteq> cluster_ids db1" "cdTags db1 = cdTags db"
  using assms
  by (auto simp: getOrCreateCluster_def Let_def clusters_ok_def cluster_ids_def no_slug list_ex_iff dest: slug_id
      split: if_splits option.splits)

lemma tag_inserted:
  assumes "clusters_ok db" "i \<in> cluster_ids db"
  shows "clusters_ok (safeInsertTagMapping i p c db)"
  using assms by (auto simp: safeInsertTagMapping_def clusters_ok_def cluster_ids_def Let_def)

lemma tag_clusters [simp]: "cdClusters (safeInsertTagMapping i p c db) = cdClusters db"
  by (simp add: safeInsertTagMapping_def Let_def)

lemma tag_cluster_ids [simp]: "cluster_ids (safeInsertTagMapping i p c db) = cluster_ids db"
  by (simp add: cluster_ids_def)

lemma mapping_stored: "mappings p c db = [t] \<Longrightarrow> t \<in> set (cdTags db)"
proof -
  have "set (mappings p c db) \<subseteq> set (cdTags db)" by (auto simp: mappings_def)
  then show "mappings p c db = [t] \<Longrightarrow> t \<in> set (cdTags db)" by simp
qed

lemma fast_path_existing:
  assumes "clusters_ok db" "tryFastPath poly kalshi db = Some r"
  shows "caCluster' r \<in> cluster_ids db" "\<not> caByModel r"
proof -
  obtain k p where "mappings Kalshi kalshi db = [k]" "mappings Polymarket poly db = [p]" "tgCluster k = tgCluster p" "caCluster' r = tgCluster k" "\<not> caByModel r"
    using assms(2) unfolding tryFastPath_def by (auto split: list.splits if_splits)
  moreover from this have "k \<in> set (cdTags db)" by (intro mapping_stored)
  ultimately show "caCluster' r \<in> cluster_ids db" "\<not> caByModel r" using assms(1) by (auto simp: clusters_ok_def)
qed

lemma model_consistent:
  assumes "classifyViaLlm unc a poly kalshi db = (db1, r)" "clusters_ok db" "unc \<in> cluster_ids db"
  shows "clusters_ok db1" "cluster_ids db \<subseteq> cluster_ids db1" "\<And>x. r = Some x \<Longrightarrow> caCluster' x \<in> cluster_ids db1"
  using assms cluster_found [OF _ assms(2,3)]
  unfolding classifyViaLlm_def Let_def
  by (auto split: if_splits option.splits prod.splits intro!: tag_inserted) blast+

lemma classified_consistent:
  assumes "classifyMatch unc a poly kalshi db = (db1, r)" "clusters_ok db" "unc \<in> cluster_ids db"
  shows "clusters_ok db1" "unc \<in> cluster_ids db1" "caCluster' r \<in> cluster_ids db1"
  using assms model_consistent [OF _ assms(2,3), of a poly kalshi] fast_path_existing [OF assms(2)]
  unfolding classifyMatch_def
  by (auto simp: uncategorizedAssignment_def split: if_splits option.splits prod.splits)

section \<open>What a classification leaves behind\<close>

lemma tag_unmapped: "mappings p c db = [] \<Longrightarrow> present c \<Longrightarrow> mappings p c (safeInsertTagMapping i p c db) = [\<lparr>tgCluster = i, tgPlatform = p, tgCategory = the c\<rparr>]"
  by (auto simp: mappings_def safeInsertTagMapping_def Let_def filter_empty_conv)

lemma tag_other: "p \<noteq> q \<Longrightarrow> mappings p c (safeInsertTagMapping i q d db) = mappings p c db"
  by (auto simp: mappings_def safeInsertTagMapping_def Let_def)

lemma created_mappings: "getOrCreateCluster unc name new db = Some (db1, i) \<Longrightarrow> mappings p c db1 = mappings p c db"
  by (auto simp: getOrCreateCluster_def mappings_def Let_def split: if_splits option.splits)

lemma model_maps:
  assumes "classifyViaLlm unc a poly kalshi db = (db1, Some r)" "present poly" "present kalshi"
    and "mappings Kalshi kalshi db = []" "mappings Polymarket poly db = []"
  shows "mappings Kalshi kalshi db1 = [\<lparr>tgCluster = caCluster' r, tgPlatform = Kalshi, tgCategory = the kalshi\<rparr>]"
    and "mappings Polymarket poly db1 = [\<lparr>tgCluster = caCluster' r, tgPlatform = Polymarket, tgCategory = the poly\<rparr>]"
  using assms unfolding classifyViaLlm_def Let_def
  by (auto simp: tag_unmapped tag_other created_mappings split: if_splits option.splits)

text \<open>
  The first answer of the model for a pair of categories decides for all later matches with these
  categories: whatever their descriptions and the model would answer, they get the same cluster.
\<close>
theorem first_classification_sticks:
  assumes "present poly" "present kalshi" "mappings Kalshi kalshi db = []" "mappings Polymarket poly db = []"
    and "classifyMatch unc a poly kalshi db = (db1, r)" "caByModel r" "clFailure a' \<noteq> FastPathFails"
  shows "fst (classifyMatch unc a' poly kalshi db1) = db1
    \<and> caCluster' (snd (classifyMatch unc a' poly kalshi db1)) = caCluster' r \<and> \<not> caByModel (snd (classifyMatch unc a' poly kalshi db1))"
proof -
  have "tryFastPath poly kalshi db = None" using assms(3) by (simp add: tryFastPath_def)
  then have "classifyViaLlm unc a poly kalshi db = (db1, Some r)"
    using assms(5,6) unfolding classifyMatch_def by (auto simp: uncategorizedAssignment_def split: if_splits prod.splits option.splits)
  from model_maps [OF this assms(1-4)] show ?thesis using assms(7) by (simp add: classifyMatch_def tryFastPath_def)
qed

definition sample_cluster_db :: cluster_db where
  "sample_cluster_db = \<lparr>cdClusters = [\<lparr>crId = ''u'', crName = ''Uncategorized'', crSlug = ''uncategorized''\<rparr>], cdTags = []\<rparr>"

definition cluster_says :: "string \<Rightarrow> cluster_answer" where
  "cluster_says name = \<lparr>clModel = Some name, clNew = name, clFailure = NoFailure\<rparr>"

lemma sample_classified:
  "caByModel (snd (classifyMatch ''u'' (cluster_says ''FIFA'') (Some ''Sports'') (Some ''Sports'') sample_cluster_db))"
  "caCluster' (snd (classifyMatch ''u'' (cluster_says ''FIFA'') (Some ''Sports'') (Some ''Sports'') sample_cluster_db)) = ''FIFA''"
  by code_simp+

theorem first_classification_sticks_witness:
  "caCluster' (snd (classifyMatch ''u'' (cluster_says ''NHL'') (Some ''Sports'') (Some ''Sports'')
     (fst (classifyMatch ''u'' (cluster_says ''FIFA'') (Some ''Sports'') (Some ''Sports'') sample_cluster_db)))) = ''FIFA''"
  using first_classification_sticks [OF _ _ _ _ prod.collapse [symmetric] sample_classified(1), of "cluster_says ''NHL''"] sample_classified(2)
  by (simp add: present_def no_label_def mappings_def sample_cluster_db_def cluster_says_def)

text \<open>Any classifications: the invariant, and assigned clusters that exist.\<close>

type_synonym cluster_call = "cluster_answer \<times> string option \<times> string option"

fun classify_all :: "string \<Rightarrow> cluster_call list \<Rightarrow> cluster_db \<Rightarrow> cluster_db \<times> cluster_assignment list" where
  "classify_all unc [] db = (db, [])"
| "classify_all unc ((a, poly, kalshi) # cs) db =
     (case classifyMatch unc a poly kalshi db of (db1, r) \<Rightarrow> (case classify_all unc cs db1 of (db2, rs) \<Rightarrow> (db2, r # rs)))"

lemma ids_grow:
  assumes "classifyMatch unc a poly kalshi db = (db1, r)" "clusters_ok db" "unc \<in> cluster_ids db"
  shows "cluster_ids db \<subseteq> cluster_ids db1"
  using assms model_consistent(2) [OF _ assms(2,3), of a poly kalshi]
  unfolding classifyMatch_def by (auto split: if_splits option.splits prod.splits)

lemma classify_all_consistent:
  "classify_all unc cs db = (db1, rs) \<Longrightarrow> clusters_ok db \<Longrightarrow> unc \<in> cluster_ids db
     \<Longrightarrow> clusters_ok db1 \<and> cluster_ids db \<subseteq> cluster_ids db1 \<and> (\<forall>r \<in> set rs. caCluster' r \<in> cluster_ids db1)"
proof (induction cs arbitrary: db db1 rs)
  case (Cons c cs)
  obtain a poly kalshi where c: "c = (a, poly, kalshi)" by (cases c)
  obtain d r where 1: "classifyMatch unc a poly kalshi db = (d, r)" by fastforce
  obtain d2 rs2 where 2: "classify_all unc cs d = (d2, rs2)" by fastforce
  have "clusters_ok d" "unc \<in> cluster_ids d" "caCluster' r \<in> cluster_ids d" "cluster_ids db \<subseteq> cluster_ids d"
    using classified_consistent [OF 1 Cons.prems(2,3)] ids_grow [OF 1 Cons.prems(2,3)] by blast+
  then show ?case using Cons.IH [OF 2] Cons.prems(1) c 1 2 by auto
qed simp

text \<open>
  From the start-up on, whatever is classified, identifiers and slugs stay unique, every mapping
  names a cluster of the table and so does every assignment, failed ones included.
\<close>
theorem clusters_stay_consistent:
  assumes "clusters_ok db" "new \<notin> cluster_ids db" "classifier_onModuleInit new db = (db0, unc)" "classify_all unc cs db0 = (db1, rs)"
  shows "clusters_ok db1 \<and> unc \<in> cluster_ids db1 \<and> (\<forall>r \<in> set rs. caCluster' r \<in> cluster_ids db1)"
proof -
  have "clusters_ok db0" "unc \<in> cluster_ids db0"
    using assms(1-3) slug_id [of "''uncategorized''" db] no_slug [of "''uncategorized''" db]
    by (auto simp: classifier_onModuleInit_def clusters_ok_def cluster_ids_def split: option.splits)
  then show ?thesis using classify_all_consistent [OF assms(4)] by blast
qed

theorem clusters_stay_consistent_witness:
  "clusters_ok (fst (classify_all ''u'' [(cluster_says ''FIFA'', Some ''Sports'', None), (cluster_says ''NHL'', Some ''Sports'', Some ''x'')]
     (fst (classifier_onModuleInit ''u'' \<lparr>cdClusters = [], cdTags = []\<rparr>))))"
proof -
  have "snd (classifier_onModuleInit ''u'' \<lparr>cdClusters = [], cdTags = []\<rparr>) = ''u''" by (simp add: classifier_onModuleInit_def find_slug_def)
  moreover have "clusters_ok \<lparr>cdClusters = [], cdTags = []\<rparr>" "''u'' \<notin> cluster_ids \<lparr>cdClusters = [], cdTags = []\<rparr>"
    by (simp_all add: clusters_ok_def cluster_ids_def)
  ultimately show ?thesis
    using clusters_stay_consistent [OF _ _ prod.collapse [symmetric] prod.collapse [symmetric], of "\<lparr>cdClusters = [], cdTags = []\<rparr>" "''u''"]
    by (simp del: classify_all.simps)
qed

text \<open>A name without Latin letters or digits stands for the default cluster, to which its categories are then mapped.\<close>

lemma unnameable_is_default:
  assumes "clModel a = Some x" "x \<noteq> []" "generateSlug (trim_text x) = []" "clFailure a = NoFailure" "present kalshi" "present poly"
    and "mappings Kalshi kalshi db = []" "mappings Polymarket poly db = []"
  shows "fst (classifyMatch unc a poly kalshi db) = safeInsertTagMapping unc Polymarket poly (safeInsertTagMapping unc Kalshi kalshi db)"
  using assms by (simp add: classifyMatch_def tryFastPath_def classifyViaLlm_def getOrCreateCluster_def Let_def)

end
