(* ===== verification/MatchValidation.thy ===== *)
theory MatchValidation
  imports Matching
begin

text \<open>
  The validation of the stored matches against two external sources,
  \<^verbatim>\<open>modules/backtesting/validation/match-validation.service.ts\<close>: pairs of the sources are attributed to
  matches by identifier or title, sources that contradict each other are found, and every match and
  every unattributed pair becomes an entry of a report.  What the sources and the database answer is
  an argument; descriptions of conflicts are the two Kalshi labels.
\<close>

section \<open>Titles\<close>

definition STOP_WORDS :: "string list" where
  "STOP_WORDS =
     [''the'', ''a'', ''an'', ''and'', ''or'', ''but'', ''in'', ''on'', ''at'', ''to'', ''for'', ''of'', ''with'', ''by'', ''from'', ''is'',
      ''are'', ''was'', ''were'', ''be'', ''been'', ''will'', ''would'', ''could'', ''should'', ''may'', ''might'', ''can'', ''do'', ''does'',
      ''did'', ''has'', ''have'', ''had'', ''this'', ''that'', ''these'', ''those'', ''it'', ''its'', ''not'', ''if'', ''than'', ''then'',
      ''so'', ''as'', ''up'']"

definition tokenize_title :: "string \<Rightarrow> string list" where
  "tokenize_title t =
     filter (\<lambda>w. w \<noteq> [] \<and> w \<notin> set STOP_WORDS)
       (split_blank [] (map (\<lambda>c. if plain_char c then c else CHR '' '') (lower_text t)))"

definition tokenOverlap :: "string list \<Rightarrow> string list \<Rightarrow> jsnum" where
  "tokenOverlap a b =
     (if a = [] \<or> b = [] then Fin 0
      else xdiv b64 (Fin (of_nat (length (filter (\<lambda>t. t \<in> set b) a)))) (Fin (of_nat (max (length a) (length b)))))"

definition text_of :: "string option \<Rightarrow> string" where
  "text_of t = (case t of Some x \<Rightarrow> x | None \<Rightarrow> [])"

section \<open>Attribution\<close>

record sourced_pair = external_pair +
  vpSource :: pair_source

record our_maps =
  omByPolymarket :: "(string \<times> contract_match) list"
  omByKalshi :: "(string \<times> contract_match) list"
  omByComposite :: "(string \<times> contract_match) list"

definition match_key :: "contract_match \<Rightarrow> string" where
  "match_key m = cmPolymarket m @ CHR 0x00 # cmKalshi m"

definition buildLookupMaps :: "match_db \<Rightarrow> our_maps" where
  "buildLookupMaps db =
     foldl (\<lambda>o1 m. o1\<lparr>omByPolymarket := map_set (cmPolymarket m) m (omByPolymarket o1), omByKalshi := map_set (cmKalshi m) m (omByKalshi o1),
         omByComposite := map_set (match_key m) m (omByComposite o1)\<rparr>)
       \<lparr>omByPolymarket = [], omByKalshi = [], omByComposite = []\<rparr> db"

fun fuzzy_best :: "jsnum \<Rightarrow> string list \<Rightarrow> string list \<Rightarrow> contract_match option \<times> jsnum \<Rightarrow> contract_match list \<Rightarrow> contract_match option" where
  "fuzzy_best threshold pm k (best, score) [] = best"
| "fuzzy_best threshold pm k (best, score) (m # ms) =
     (let combined = xdiv b64 (xadd b64 (tokenOverlap pm (tokenize_title (text_of (cmPolymarketText m))))
                (tokenOverlap k (tokenize_title (text_of (cmKalshiText m))))) (Fin 2)
      in fuzzy_best threshold pm k (if xge combined threshold \<and> xgt combined score then (Some m, combined) else (best, score)) ms)"

definition fuzzyTitleMatch :: "jsnum \<Rightarrow> sourced_pair \<Rightarrow> our_maps \<Rightarrow> contract_match option" where
  "fuzzyTitleMatch threshold e maps =
     fuzzy_best threshold (tokenize_title (epPolymarketTitle e)) (tokenize_title (epKalshiTitle e)) (None, Fin 0) (map snd (omByPolymarket maps))"

definition by_id :: "string option \<Rightarrow> (string \<times> contract_match) list \<Rightarrow> contract_match option" where
  "by_id i ms = (if present i then map_of ms (the i) else None)"

definition matchExternalPair :: "jsnum \<Rightarrow> sourced_pair \<Rightarrow> our_maps \<Rightarrow> contract_match option" where
  "matchExternalPair threshold e maps =
     (case by_id (epPolymarketId e) (omByPolymarket maps) of
        Some m \<Rightarrow> Some m
      | None \<Rightarrow>
          (case by_id (epKalshiId e) (omByKalshi maps) of
             Some m \<Rightarrow> Some m
           | None \<Rightarrow> fuzzyTitleMatch threshold e maps))"

record pair_aggregation =
  agOur :: "contract_match option"
  agOddsPipe :: "sourced_pair option"
  agPredexon :: "sourced_pair option"
  agConflict :: "(string \<times> string) option"

type_synonym aggregations = "(string \<times> pair_aggregation) list"

definition fresh_aggregation :: "contract_match option \<Rightarrow> pair_aggregation" where
  "fresh_aggregation m = \<lparr>agOur = m, agOddsPipe = None, agPredexon = None, agConflict = None\<rparr>"

definition put_source :: "sourced_pair \<Rightarrow> pair_aggregation \<Rightarrow> pair_aggregation" where
  "put_source e a = (case vpSource e of FromOddsPipe \<Rightarrow> a\<lparr>agOddsPipe := Some e\<rparr> | FromPredexon \<Rightarrow> a\<lparr>agPredexon := Some e\<rparr>)"

definition external_key :: "sourced_pair \<Rightarrow> string" where
  "external_key e = ''ext'' @ CHR 0x00 # (case epPolymarketId e of Some i \<Rightarrow> i | None \<Rightarrow> epPolymarketTitle e)"

definition addExternalPair :: "jsnum \<Rightarrow> our_maps \<Rightarrow> aggregations \<Rightarrow> sourced_pair \<Rightarrow> aggregations" where
  "addExternalPair threshold maps agg e =
     (let (k, start) = (case matchExternalPair threshold e maps of
            Some m \<Rightarrow> (match_key m, fresh_aggregation (Some m))
          | None \<Rightarrow> (external_key e, fresh_aggregation None))
      in map_set k (put_source e (case map_of agg k of Some a \<Rightarrow> a | None \<Rightarrow> start)) agg)"

definition aggregatePairs :: "jsnum \<Rightarrow> match_db \<Rightarrow> sourced_pair list \<Rightarrow> sourced_pair list \<Rightarrow> aggregations" where
  "aggregatePairs threshold db oddspipe predexon =
     foldl (addExternalPair threshold (buildLookupMaps db))
       (foldl (\<lambda>agg m. map_set (match_key m) (fresh_aggregation (Some m)) agg) [] db) (oddspipe @ predexon)"

section \<open>Contradictions between the sources\<close>

definition kalshi_label :: "sourced_pair \<Rightarrow> string" where
  "kalshi_label e = (case epKalshiId e of Some i \<Rightarrow> i | None \<Rightarrow> epKalshiTitle e)"

definition mark_conflict :: "pair_aggregation \<Rightarrow> pair_aggregation" where
  "mark_conflict a =
     (case (agOur a, agOddsPipe a, agPredexon a) of
        (None, Some x, Some y) \<Rightarrow> if kalshi_label x \<noteq> kalshi_label y then a\<lparr>agConflict := Some (kalshi_label x, kalshi_label y)\<rparr> else a
      | _ \<Rightarrow> a)"

definition norm_title :: "sourced_pair \<Rightarrow> string" where
  "norm_title e = trim_text (lower_text (epPolymarketTitle e))"

type_synonym title_map = "(string \<times> string \<times> sourced_pair) list"

text \<open>The entries of one source alone, by title: key and pair.\<close>

definition oddspipe_titles :: "aggregations \<Rightarrow> title_map" where
  "oddspipe_titles agg =
     foldl (\<lambda>ts (k, a). case (agOur a, agOddsPipe a, agPredexon a) of (None, Some e, None) \<Rightarrow> map_set (norm_title e) (k, e) ts | _ \<Rightarrow> ts) [] agg"

definition predexon_titles :: "aggregations \<Rightarrow> title_map" where
  "predexon_titles agg =
     foldl (\<lambda>ts (k, a). case (agOur a, agOddsPipe a, agPredexon a) of (None, None, Some e) \<Rightarrow> map_set (norm_title e) (k, e) ts | _ \<Rightarrow> ts) [] agg"

definition conflict_of :: "sourced_pair \<Rightarrow> sourced_pair \<Rightarrow> (string \<times> string) option" where
  "conflict_of x y =
     (case (epKalshiId x, epKalshiId y) of
        (Some i, Some j) \<Rightarrow> if i \<noteq> j then Some (i, j) else None
      | (None, None) \<Rightarrow> if epKalshiTitle x \<noteq> epKalshiTitle y then Some (epKalshiTitle x, epKalshiTitle y) else None
      | _ \<Rightarrow> None)"

definition merge_titles :: "title_map \<Rightarrow> aggregations \<Rightarrow> string \<times> string \<times> sourced_pair \<Rightarrow> aggregations" where
  "merge_titles predexon agg = (\<lambda>(title, k, x).
     case map_of predexon title of
       None \<Rightarrow> agg
     | Some (k2, y) \<Rightarrow>
         (case conflict_of x y of
            None \<Rightarrow> agg
          | Some c \<Rightarrow> map_set (''conflict'' @ CHR 0x00 # title) \<lparr>agOur = None, agOddsPipe = Some x, agPredexon = Some y, agConflict = Some c\<rparr>
              (map_delete k2 (map_delete k agg))))"

definition detectCrossExternalConflicts :: "aggregations \<Rightarrow> aggregations" where
  "detectCrossExternalConflicts agg0 =
     (let agg = map (map_prod id mark_conflict) agg0
      in foldl (merge_titles (predexon_titles agg)) agg (oddspipe_titles agg))"

section \<open>The report\<close>

datatype validation_category = Confirmed | OurOnly | ExternalOnly | Conflicting

record validation_entry =
  veCategory :: validation_category
  veCandidate :: bool
  veOur :: "contract_match option"
  veOddsPipe :: "sourced_pair option"
  vePredexon :: "sourced_pair option"
  veConflict :: "(string \<times> string) option"

definition buildEntry :: "validation_category \<Rightarrow> pair_aggregation \<Rightarrow> (string \<times> string) option \<Rightarrow> validation_entry" where
  "buildEntry c a labels =
     \<lparr>veCategory = c, veCandidate = (c = ExternalOnly), veOur = agOur a, veOddsPipe = agOddsPipe a, vePredexon = agPredexon a, veConflict = labels\<rparr>"

definition predexon_conflict :: "contract_match \<Rightarrow> sourced_pair option \<Rightarrow> (string \<times> string) option" where
  "predexon_conflict m p =
     (case p of Some e \<Rightarrow> if present (epKalshiId e) \<and> epKalshiId e \<noteq> Some (cmKalshi m) then Some (cmKalshi m, the (epKalshiId e)) else None
      | None \<Rightarrow> None)"

definition oddspipe_conflict :: "jsnum \<Rightarrow> contract_match \<Rightarrow> sourced_pair option \<Rightarrow> (string \<times> string) option" where
  "oddspipe_conflict threshold m p =
     (case p of
        Some e \<Rightarrow>
          if xlt (tokenOverlap (tokenize_title (epKalshiTitle e)) (tokenize_title (text_of (cmKalshiText m)))) threshold
          then Some (text_of (cmKalshiText m), epKalshiTitle e) else None
      | None \<Rightarrow> None)"

definition categorize :: "jsnum \<Rightarrow> pair_aggregation \<Rightarrow> validation_entry" where
  "categorize threshold a =
     (let external = agOddsPipe a \<noteq> None \<or> agPredexon a \<noteq> None in
      case agOur a of
        None \<Rightarrow>
          if agConflict a \<noteq> None then buildEntry Conflicting a (agConflict a)
          else if external then buildEntry ExternalOnly a None else buildEntry OurOnly a None
      | Some m \<Rightarrow>
          (case predexon_conflict m (agPredexon a) of
             Some c \<Rightarrow> buildEntry Conflicting a (Some c)
           | None \<Rightarrow>
               (case oddspipe_conflict threshold m (agOddsPipe a) of
                  Some c \<Rightarrow> buildEntry Conflicting a (Some c)
                | None \<Rightarrow> if external then buildEntry Confirmed a None else buildEntry OurOnly a None)))"

definition categorizeAll :: "jsnum \<Rightarrow> aggregations \<Rightarrow> validation_entry list" where
  "categorizeAll threshold agg = map (\<lambda>(k, a). categorize threshold a) agg"

definition count_category :: "validation_category \<Rightarrow> validation_entry list \<Rightarrow> nat" where
  "count_category c es = length (filter (\<lambda>e. veCategory e = c) es)"

record validation_report =
  vrEntries :: "validation_entry list"
  vrConfirmed :: nat
  vrOurOnly :: nat
  vrExternalOnly :: nat
  vrConflict :: nat
  vrOur :: nat
  vrOddsPipe :: nat
  vrPredexon :: nat

definition validation_entries :: "jsnum \<Rightarrow> match_db \<Rightarrow> sourced_pair list \<Rightarrow> sourced_pair list \<Rightarrow> validation_entry list" where
  "validation_entries threshold db oddspipe predexon =
     categorizeAll threshold (detectCrossExternalConflicts (aggregatePairs threshold db oddspipe predexon))"

datatype validation_error = ValidationAlreadyRunning | SourceFailed | ReportNotStored
datatype validation_event = ValidationCompleted nat nat nat nat | ConflictWarning nat

definition getEffectiveSources :: "pair_source list option \<Rightarrow> pair_source list" where
  "getEffectiveSources s = (case s of Some (x # xs) \<Rightarrow> x # xs | _ \<Rightarrow> [FromOddsPipe, FromPredexon])"

text \<open>The flag that a run is on, and the report with its events, or the error; \<open>stored\<close> is the answer to the report's row.\<close>

definition runValidation ::
  "jsnum \<Rightarrow> bool \<Rightarrow> pair_source list option \<Rightarrow> match_db \<Rightarrow> sourced_pair list option \<Rightarrow> sourced_pair list option \<Rightarrow> bool
     \<Rightarrow> bool \<times> (validation_error + validation_report \<times> validation_event list)" where
  "runValidation threshold isRunning include db oddspipe predexon stored =
     (if isRunning then (True, Inl ValidationAlreadyRunning)
      else
        let sources = getEffectiveSources include;
            op = (if FromOddsPipe \<in> set sources then oddspipe else Some []);
            pd = (if FromPredexon \<in> set sources then predexon else Some [])
        in (False,
            case (op, pd) of
              (Some os, Some ps) \<Rightarrow>
                let es = validation_entries threshold db os ps;
                    n = (\<lambda>c. count_category c es)
                in if \<not> stored then Inl ReportNotStored
                   else Inr (\<lparr>vrEntries = es, vrConfirmed = n Confirmed, vrOurOnly = n OurOnly, vrExternalOnly = n ExternalOnly,
                              vrConflict = n Conflicting, vrOur = length db, vrOddsPipe = length os, vrPredexon = length ps\<rparr>,
                            ValidationCompleted (n Confirmed) (n OurOnly) (n ExternalOnly) (n Conflicting)
                              # (if 0 < n Conflicting then [ConflictWarning (n Conflicting)] else []))
            | _ \<Rightarrow> Inl SourceFailed))"

section \<open>Matches in the report\<close>

text \<open>The entries of matches of ours, in order.\<close>

definition our_entries :: "aggregations \<Rightarrow> (string \<times> contract_match) list" where
  "our_entries agg = map (\<lambda>(k, a). (k, the (agOur a))) (filter (\<lambda>(k, a). agOur a \<noteq> None) agg)"

lemma our_entries_simps [simp]:
  "our_entries [] = []"
  "our_entries ((k, a) # agg) = (case agOur a of Some m \<Rightarrow> (k, m) # our_entries agg | None \<Rightarrow> our_entries agg)"
  by (auto simp: our_entries_def split: option.splits)

lemma our_entries_member: "(k, a) \<in> set agg \<Longrightarrow> agOur a = Some m \<Longrightarrow> (k, m) \<in> set (our_entries agg)"
  by (induction agg) (auto split: option.splits)

lemma our_entries_set_none:
  "k \<notin> set (map fst (our_entries agg)) \<Longrightarrow> agOur v = None \<Longrightarrow> our_entries (map_set k v agg) = our_entries agg"
  by (induction agg) (auto split: option.splits if_splits)

lemma our_entries_set_same:
  "map_of agg k = Some a \<Longrightarrow> agOur v = agOur a \<Longrightarrow> our_entries (map_set k v agg) = our_entries agg"
  by (induction agg) (auto split: option.splits if_splits)

lemma our_entries_delete: "k \<notin> set (map fst (our_entries agg)) \<Longrightarrow> our_entries (map_delete k agg) = our_entries agg"
  by (induction agg) (auto simp: AList.delete_eq split: option.splits if_splits)

lemma our_entries_mark: "our_entries (map (map_prod id mark_conflict) agg) = our_entries agg"
proof -
  have "agOur (mark_conflict a) = agOur a" for a by (simp add: mark_conflict_def split: option.splits)
  then show ?thesis by (induction agg) (auto split: option.splits)
qed

lemma map_set_values: "(i, m) \<in> set (map_set k v xs) \<Longrightarrow> m = v \<or> (i, m) \<in> set xs"
  by (induction xs) (auto split: if_splits)

lemma lookup_values:
  assumes "\<And>i m. (i, m) \<in> set (omByPolymarket o1) \<union> set (omByKalshi o1) \<Longrightarrow> m \<in> D" "set db \<subseteq> D"
    and "(i, m) \<in> set (omByPolymarket r) \<union> set (omByKalshi r)"
    and "r = foldl (\<lambda>o1 m. o1\<lparr>omByPolymarket := map_set (cmPolymarket m) m (omByPolymarket o1), omByKalshi := map_set (cmKalshi m) m (omByKalshi o1),
         omByComposite := map_set (match_key m) m (omByComposite o1)\<rparr>) o1 db"
  shows "m \<in> D"
  using assms
proof (induction db arbitrary: o1)
  case (Cons x db)
  show ?case
  proof (rule Cons.IH [OF _ _ Cons.prems(3)])
    show "m \<in> D" if "(i, m) \<in> set (omByPolymarket (o1\<lparr>omByPolymarket := map_set (cmPolymarket x) x (omByPolymarket o1),
        omByKalshi := map_set (cmKalshi x) x (omByKalshi o1), omByComposite := map_set (match_key x) x (omByComposite o1)\<rparr>))
      \<union> set (omByKalshi (o1\<lparr>omByPolymarket := map_set (cmPolymarket x) x (omByPolymarket o1),
        omByKalshi := map_set (cmKalshi x) x (omByKalshi o1), omByComposite := map_set (match_key x) x (omByComposite o1)\<rparr>))" for i m
      using that Cons.prems(1,2) by (auto dest!: map_set_values)
  qed (use Cons.prems in auto)
qed auto

lemma lookup_members: "(i, m) \<in> set (omByPolymarket (buildLookupMaps db)) \<union> set (omByKalshi (buildLookupMaps db)) \<Longrightarrow> m \<in> set db"
  by (rule lookup_values [OF _ subset_refl _ buildLookupMaps_def]) auto

lemma fuzzy_member: "fuzzy_best threshold pm k bs ms = Some m \<Longrightarrow> (\<And>x. fst bs = Some x \<Longrightarrow> x \<in> D) \<Longrightarrow> set ms \<subseteq> D \<Longrightarrow> m \<in> D"
  by (induction threshold pm k bs ms rule: fuzzy_best.induct) (auto simp: Let_def split: if_splits)

lemma attributed_member: "matchExternalPair threshold e (buildLookupMaps db) = Some m \<Longrightarrow> m \<in> set db"
proof -
  have "fuzzyTitleMatch threshold e (buildLookupMaps db) = Some m \<Longrightarrow> m \<in> set db"
    unfolding fuzzyTitleMatch_def by (erule fuzzy_member) (auto intro: lookup_members)
  moreover have "by_id i (omByPolymarket (buildLookupMaps db)) = Some m \<Longrightarrow> m \<in> set db"
    "by_id i (omByKalshi (buildLookupMaps db)) = Some m \<Longrightarrow> m \<in> set db" for i
    by (auto simp: by_id_def intro: lookup_members dest!: map_of_SomeD split: if_splits)
  ultimately show "matchExternalPair threshold e (buildLookupMaps db) = Some m \<Longrightarrow> m \<in> set db"
    by (auto simp: matchExternalPair_def split: option.splits)
qed

text \<open>Identifiers that cannot be taken for the keys of other entries.\<close>

definition plain_match :: "contract_match \<Rightarrow> bool" where
  "plain_match m \<longleftrightarrow> CHR 0x00 \<notin> set (cmPolymarket m) \<and> cmPolymarket m \<noteq> ''ext'' \<and> cmPolymarket m \<noteq> ''conflict''"

definition keyed :: "match_db \<Rightarrow> (string \<times> contract_match) list" where
  "keyed db = map (\<lambda>m. (match_key m, m)) db"

lemma key_split: "x @ c # y = u @ c # v \<Longrightarrow> c \<notin> set x \<Longrightarrow> c \<notin> set u \<Longrightarrow> x = u"
proof (induction x arbitrary: u)
  case Nil
  then show ?case by (cases u) auto
next
  case (Cons a x)
  then show ?case by (cases u) auto
qed

lemma plain_keys:
  assumes "\<forall>m \<in> set db. plain_match m"
  shows "''ext'' @ CHR 0x00 # t \<notin> set (map fst (keyed db))" "''conflict'' @ CHR 0x00 # t \<notin> set (map fst (keyed db))"
proof -
  have "prefix @ CHR 0x00 # t \<notin> set (map fst (keyed db))" if "CHR 0x00 \<notin> set prefix" "\<forall>m \<in> set db. cmPolymarket m \<noteq> prefix" for prefix
    using assms that key_split [of prefix "CHR 0x00" t] unfolding keyed_def plain_match_def match_key_def by fastforce
  then show "''ext'' @ CHR 0x00 # t \<notin> set (map fst (keyed db))" "''conflict'' @ CHR 0x00 # t \<notin> set (map fst (keyed db))"
    using assms by (simp_all add: plain_match_def del: append.simps)
qed

lemma seeded:
  assumes "distinct (map match_key (seen @ db))"
  shows "foldl (\<lambda>agg m. map_set (match_key m) (fresh_aggregation (Some m)) agg) (map (\<lambda>m. (match_key m, fresh_aggregation (Some m))) seen) db
           = map (\<lambda>m. (match_key m, fresh_aggregation (Some m))) (seen @ db)"
  using assms
proof (induction db arbitrary: seen)
  case (Cons m db)
  have "map_of (map (\<lambda>m. (match_key m, fresh_aggregation (Some m))) seen) (match_key m) = None"
    using Cons.prems by (auto simp: map_of_eq_None_iff)
  then show ?case using Cons.IH [of "seen @ [m]"] Cons.prems by (simp add: map_set_fresh)
qed simp

lemma seeded_entries: "our_entries (map (\<lambda>m. (match_key m, fresh_aggregation (Some m))) db) = keyed db"
  by (induction db) (simp_all add: keyed_def fresh_aggregation_def)

lemma put_our [simp]: "agOur (put_source e a) = agOur a"
  by (simp add: put_source_def split: pair_source.splits)

lemma added_entries:
  assumes "our_entries agg = keyed db" "distinct (map fst agg)" "\<forall>m \<in> set db. plain_match m"
  shows "our_entries (addExternalPair threshold (buildLookupMaps db) agg e) = keyed db
    \<and> distinct (map fst (addExternalPair threshold (buildLookupMaps db) agg e))"
proof (cases "matchExternalPair threshold e (buildLookupMaps db)")
  case None
  have k: "external_key e \<notin> set (map fst (our_entries agg))" unfolding assms(1) external_key_def by (rule plain_keys [OF assms(3)])
  have "agOur a = None" if "map_of agg (external_key e) = Some a" for a
    using our_entries_member [OF map_of_SomeD [OF that]] k by (cases "agOur a") force+
  then have "agOur (case map_of agg (external_key e) of Some a \<Rightarrow> a | None \<Rightarrow> fresh_aggregation None) = None"
    by (auto simp: fresh_aggregation_def split: option.splits)
  then show ?thesis
    using None assms k by (simp add: addExternalPair_def our_entries_set_none distinct_map_set)
next
  case (Some m)
  then have "(match_key m, m) \<in> set (our_entries agg)" using attributed_member unfolding assms(1) keyed_def by fastforce
  then obtain a where "(match_key m, a) \<in> set agg" "agOur a = Some m" by (force simp: our_entries_def)
  then have "map_of agg (match_key m) = Some a" using assms(2) by simp
  then show ?thesis
    using Some assms our_entries_set_same [of agg "match_key m" a "put_source e a"]
    by (simp add: addExternalPair_def distinct_map_set)
qed

lemma aggregated_entries:
  assumes "distinct (map match_key db)" "\<forall>m \<in> set db. plain_match m"
  shows "our_entries (aggregatePairs threshold db oddspipe predexon) = keyed db" "distinct (map fst (aggregatePairs threshold db oddspipe predexon))"
proof -
  have "our_entries (foldl (addExternalPair threshold (buildLookupMaps db)) agg es) = keyed db
      \<and> distinct (map fst (foldl (addExternalPair threshold (buildLookupMaps db)) agg es))"
    if "our_entries agg = keyed db" "distinct (map fst agg)" for agg es
    using that by (induction es arbitrary: agg) (simp_all add: added_entries assms(2))
  then show "our_entries (aggregatePairs threshold db oddspipe predexon) = keyed db" "distinct (map fst (aggregatePairs threshold db oddspipe predexon))"
    using seeded [of "[]" db] assms(1) seeded_entries [of db] unfolding aggregatePairs_def by (simp_all add: comp_def)
qed

text \<open>The entries that contradictions replace are none of ours.\<close>

definition outside_keys :: "string set \<Rightarrow> title_map \<Rightarrow> bool" where
  "outside_keys K ts \<longleftrightarrow> (\<forall>(t, k, e) \<in> set ts. k \<notin> K)"

lemma outside_set: "outside_keys K ts \<Longrightarrow> k \<notin> K \<Longrightarrow> outside_keys K (map_set t (k, e) ts)"
  by (induction ts) (auto simp: outside_keys_def split: if_splits)

lemma outside_fold:
  assumes "\<And>ts x. x \<in> set agg \<Longrightarrow> outside_keys K ts \<Longrightarrow> outside_keys K (f ts x)" "outside_keys K ts"
  shows "outside_keys K (foldl f ts agg)"
  using assms by (induction agg arbitrary: ts) simp_all

lemma titles_outside:
  assumes "\<And>k a. (k, a) \<in> set agg \<Longrightarrow> agOur a = None \<Longrightarrow> k \<notin> K"
  shows "outside_keys K (oddspipe_titles agg)" "outside_keys K (predexon_titles agg)"
proof -
  have "outside_keys K []" by (simp add: outside_keys_def)
  then show "outside_keys K (oddspipe_titles agg)" "outside_keys K (predexon_titles agg)"
    unfolding oddspipe_titles_def predexon_titles_def
    by (auto intro!: outside_fold split: option.splits) (rule outside_set; use assms in blast)+
qed

lemma merged_entries:
  assumes "our_entries agg = keyed db" "\<forall>m \<in> set db. plain_match m" "k \<notin> set (map fst (keyed db))"
    and "outside_keys (set (map fst (keyed db))) predexon"
  shows "our_entries (merge_titles predexon agg (t, k, x)) = keyed db"
proof (cases "map_of predexon t")
  case None
  then show ?thesis using assms(1) by (simp add: merge_titles_def)
next
  case (Some ky)
  obtain k2 y where ky: "ky = (k2, y)" by fastforce
  then have "k2 \<notin> set (map fst (keyed db))" using map_of_SomeD [OF Some] assms(4) by (auto simp: outside_keys_def)
  then have "our_entries (map_delete k2 (map_delete k agg)) = keyed db"
    using our_entries_delete [of k agg] our_entries_delete [of k2 "map_delete k agg"] assms(1,3) by simp
  moreover have "''conflict'' @ CHR 0x00 # t \<notin> set (map fst (keyed db))" by (rule plain_keys [OF assms(2)])
  ultimately show ?thesis
    using Some ky assms(1) by (simp add: merge_titles_def our_entries_set_none del: append.simps split: option.splits)
qed

lemma merged_all:
  assumes "our_entries agg = keyed db" "\<forall>m \<in> set db. plain_match m"
    and "outside_keys (set (map fst (keyed db))) predexon" "outside_keys (set (map fst (keyed db))) ts"
  shows "our_entries (foldl (merge_titles predexon) agg ts) = keyed db"
  using assms(1,4)
proof (induction ts arbitrary: agg)
  case (Cons x ts)
  obtain t k e where x: "x = (t, k, e)" by (cases x)
  then have "our_entries (merge_titles predexon agg x) = keyed db"
    using Cons.prems merged_entries [OF _ assms(2) _ assms(3)] by (simp add: outside_keys_def)
  then show ?case using Cons.IH Cons.prems(2) by (simp add: outside_keys_def)
qed simp

lemma detected_entries:
  assumes "our_entries agg = keyed db" "distinct (map fst agg)" "\<forall>m \<in> set db. plain_match m"
  shows "our_entries (detectCrossExternalConflicts agg) = keyed db"
proof -
  let ?agg = "map (map_prod id mark_conflict) agg" and ?K = "set (map fst (keyed db))"
  have marked: "our_entries ?agg = keyed db" using assms(1) by (simp add: our_entries_mark)
  have "map fst ?agg = map fst agg" by simp
  then have dist: "distinct (map fst ?agg)" using assms(2) by (simp only:)
  have "k \<notin> ?K" if "(k, a) \<in> set ?agg" "agOur a = None" for k a
  proof
    assume "k \<in> ?K"
    then obtain m where "(k, m) \<in> set (our_entries ?agg)" unfolding marked by auto
    then obtain a' where "(k, a') \<in> set ?agg" "agOur a' = Some m" unfolding our_entries_def by force
    then show False using that dist eq_key_imp_eq_value [of ?agg k a a'] by simp
  qed
  note titles = titles_outside [OF this, of ?agg]
  from merged_all [OF marked assms(3) titles(2,1)] show ?thesis by (simp only: detectCrossExternalConflicts_def Let_def)
qed

lemma categorized_our [simp]: "veOur (categorize threshold a) = agOur a"
  by (simp add: categorize_def buildEntry_def Let_def split: option.splits)

lemma report_ours: "filter (\<lambda>m. m \<noteq> None) (map veOur (categorizeAll threshold agg)) = map (\<lambda>(k, m). Some m) (our_entries agg)"
  by (induction agg) (auto simp: categorizeAll_def split: option.splits)

lemma categories_partition:
  "count_category Confirmed es + count_category OurOnly es + count_category ExternalOnly es + count_category Conflicting es = length es"
proof -
  have "count_category c (e # es) = (if veCategory e = c then 1 else 0) + count_category c es" for c e es by (simp add: count_category_def)
  moreover have "count_category c [] = 0" for c by (simp add: count_category_def)
  ultimately show ?thesis
  proof (induction es)
    case (Cons e es)
    then show ?case by (cases "veCategory e") simp_all
  qed simp
qed

text \<open>
  C40: Whatever the sources say, the report has exactly one entry for each match of ours, in their order,
  and its four counts add up to its entries.
\<close>
theorem every_match_reported_once:
  assumes "distinct (map match_key db)" "\<forall>m \<in> set db. plain_match m"
    and "runValidation threshold isRunning srcs db oddspipe predexon stored = (b, Inr (r, evs))"
  shows "filter (\<lambda>m. m \<noteq> None) (map veOur (vrEntries r)) = map Some db
    \<and> vrConfirmed r + vrOurOnly r + vrExternalOnly r + vrConflict r = length (vrEntries r) \<and> \<not> b"
proof -
  obtain os ps where r: "vrEntries r = validation_entries threshold db os ps" "\<not> b" "vrConfirmed r = count_category Confirmed (vrEntries r)"
    "vrOurOnly r = count_category OurOnly (vrEntries r)" "vrExternalOnly r = count_category ExternalOnly (vrEntries r)"
    "vrConflict r = count_category Conflicting (vrEntries r)"
    using assms(3) unfolding runValidation_def Let_def by (auto split: if_splits option.splits)
  have "our_entries (detectCrossExternalConflicts (aggregatePairs threshold db os ps)) = keyed db"
    using aggregated_entries [OF assms(1,2)] assms(2) by (intro detected_entries)
  then have "filter (\<lambda>m. m \<noteq> None) (map veOur (vrEntries r)) = map Some db"
    unfolding r(1) validation_entries_def report_ours by (simp add: keyed_def)
  then show ?thesis using r(2-6) categories_partition by simp
qed

definition sample_row :: "string \<Rightarrow> string \<Rightarrow> contract_match" where
  "sample_row p k =
     (manual_row \<lparr>primaryLegCfg = None, kalshiContractId = k, polymarketContractId = p, polymarketClobTokenId = ''t'', pairDescription = ''x'',
        confidenceScoreCfg = None, matchIdCfg = None, resolutionDateCfg = None, clusterIdCfg = None\<rparr> 0 p 0)"

definition sample_sourced :: "pair_source \<Rightarrow> string option \<Rightarrow> string option \<Rightarrow> sourced_pair" where
  "sample_sourced s p k =
     \<lparr>epPolymarketId = p, epKalshiId = k, epPolymarketTitle = ''fed cuts'', epKalshiTitle = ''fed cuts'', epSettlement = None, epCategory = None,
       epToken = None, epPolymarketLabel = None, epKalshiLabel = None, vpSource = s\<rparr>"

text \<open>A source that pairs our Kalshi contract with another Polymarket contract is counted as a confirmation.\<close>

lemma polymarket_conflict_confirmed:
  "map veCategory (validation_entries (Fin (3/5)) [sample_row ''p1'' ''k1''] [] [sample_sourced FromPredexon (Some ''p9'') (Some ''k1'')]) = [Confirmed]"
  by code_simp

text \<open>Of two matches of one Polymarket contract the last one gets every pair of it, so that a pair that confirms the first is a conflict.\<close>

lemma confirmation_taken_as_conflict:
  "map veCategory (validation_entries (Fin (3/5)) [sample_row ''p1'' ''k1'', sample_row ''p1'' ''k2''] [] [sample_sourced FromPredexon (Some ''p1'') (Some ''k1'')])
     = [OurOnly, Conflicting]"
  by code_simp

theorem every_match_reported_once_witness:
  "case snd (runValidation (Fin (3/5)) False None [sample_row ''p1'' ''k1'', sample_row ''p2'' ''k2''] (Some [sample_sourced FromOddsPipe None None])
      (Some [sample_sourced FromPredexon (Some ''p9'') (Some ''k1'')]) True) of
     Inr (r, evs) \<Rightarrow> filter (\<lambda>m. m \<noteq> None) (map veOur (vrEntries r)) = [Some (sample_row ''p1'' ''k1''), Some (sample_row ''p2'' ''k2'')]
   | Inl e \<Rightarrow> False"
proof -
  let ?db = "[sample_row ''p1'' ''k1'', sample_row ''p2'' ''k2'']"
  have ok: "distinct (map match_key ?db)" "\<forall>m \<in> set ?db. plain_match m"
    by (simp_all add: match_key_def plain_match_def sample_row_def manual_row_def)
  obtain b x where run: "runValidation (Fin (3/5)) False None ?db (Some [sample_sourced FromOddsPipe None None])
      (Some [sample_sourced FromPredexon (Some ''p9'') (Some ''k1'')]) True = (b, x)" by fastforce
  moreover obtain r evs where "x = Inr (r, evs)"
    using run unfolding runValidation_def getEffectiveSources_def by (auto simp: Let_def)
  ultimately show ?thesis using every_match_reported_once [OF ok, of "Fin (3/5)" False None _ _ True b r evs] by simp
qed

end
