(* ===== verification/PaperTrading.thy ===== *)
theory PaperTrading
  imports Connectors Execution
begin

text \<open>
  Paper trading, \<^verbatim>\<open>connectors/paper\<close>: orders are filled at once by the simulator, which keeps the last
  ones in memory; everything else a paper connector passes on to the connector it wraps.  The new
  identifier and the time are arguments; the wait before a fill changes nothing.
\<close>

section \<open>The simulator\<close>

record paper_config =
  ptPlatform :: platform
  ptLatencyMs :: jsnum
  ptSlippageBps :: jsnum

datatype simulated_status = SimFilled | SimCancelled

record simulated_order =
  soOrder :: string
  soPlatform :: platform
  soContract :: string
  soSide :: order_side
  soRequestedPrice :: jsnum
  soFilledPrice :: jsnum
  soQuantity :: jsnum
  soStatus :: simulated_status
  soTime :: timestamp

type_synonym paper_orders = "(string \<times> simulated_order) list"

definition PAPER_MAX_ORDERS :: nat where "PAPER_MAX_ORDERS = 10000"

definition applySlippage :: "(rat \<Rightarrow> rat) \<Rightarrow> paper_config \<Rightarrow> jsnum \<Rightarrow> order_side \<Rightarrow> jsnum" where
  "applySlippage rd cfg p side =
     (let part = xdiv rd (to_decimal (ptSlippageBps cfg)) (Fin 10000);
          multiplier = (if side = Buy then xadd rd (Fin 1) part else xsub rd (Fin 1) part)
      in to_number (xmul rd (to_decimal p) multiplier))"

definition evictIfNeeded :: "paper_orders \<Rightarrow> paper_orders" where
  "evictIfNeeded orders =
     (if PAPER_MAX_ORDERS \<le> length orders then
        (case orders of (k, _) # _ \<Rightarrow> if k = [] then orders else map_delete k orders | [] \<Rightarrow> [])
      else orders)"

definition simulated_of :: "(rat \<Rightarrow> rat) \<Rightarrow> paper_config \<Rightarrow> order_params \<Rightarrow> string \<Rightarrow> timestamp \<Rightarrow> simulated_order" where
  "simulated_of rd cfg q i now =
     \<lparr>soOrder = i, soPlatform = ptPlatform cfg, soContract = orContract q, soSide = orSide q, soRequestedPrice = orPrice q,
      soFilledPrice = applySlippage rd cfg (orPrice q) (orSide q), soQuantity = orQuantity q, soStatus = SimFilled, soTime = now\<rparr>"

definition simulateFill ::
  "(rat \<Rightarrow> rat) \<Rightarrow> paper_config \<Rightarrow> order_params \<Rightarrow> string \<Rightarrow> timestamp \<Rightarrow> paper_orders \<Rightarrow> paper_orders \<times> order_result" where
  "simulateFill rd cfg q i now orders =
     (let d = simulated_of rd cfg q i now
      in (map_set i d (evictIfNeeded orders),
          \<lparr>orId = i, orStatus = OrderFilled, filledQuantity = orQuantity q, filledPrice = soFilledPrice d\<rparr>))"

definition paper_getOrder :: "string \<Rightarrow> paper_orders \<Rightarrow> order_state" where
  "paper_getOrder i orders =
     (case map_of orders i of
        None \<Rightarrow> \<lparr>osStatus = StateNotFound, osFillPrice = None, osFillSize = None\<rparr>
      | Some d \<Rightarrow> \<lparr>osStatus = (case soStatus d of SimFilled \<Rightarrow> StateFilled | SimCancelled \<Rightarrow> StateCancelled),
          osFillPrice = Some (soFilledPrice d), osFillSize = Some (soQuantity d)\<rparr>)"

definition paper_cancelOrder :: "string \<Rightarrow> paper_orders \<Rightarrow> cancel_status" where
  "paper_cancelOrder i orders =
     (case map_of orders i of None \<Rightarrow> CancelNotFound | Some d \<Rightarrow> if soStatus d = SimFilled then AlreadyFilled else CancelNotFound)"

section \<open>Sequences of orders\<close>

type_synonym paper_call = "order_params \<times> string \<times> timestamp"

definition paper_entry :: "(rat \<Rightarrow> rat) \<Rightarrow> paper_config \<Rightarrow> paper_call \<Rightarrow> string \<times> simulated_order" where
  "paper_entry rd cfg = (\<lambda>(q, i, now). (i, simulated_of rd cfg q i now))"

definition call_id :: "paper_call \<Rightarrow> string" where
  "call_id c = fst (snd c)"

definition paper_run :: "(rat \<Rightarrow> rat) \<Rightarrow> paper_config \<Rightarrow> paper_call list \<Rightarrow> paper_orders" where
  "paper_run rd cfg calls = foldl (\<lambda>orders (q, i, now). fst (simulateFill rd cfg q i now orders)) [] calls"

definition recent_calls :: "paper_call list \<Rightarrow> paper_call list" where
  "recent_calls calls = drop (length calls - PAPER_MAX_ORDERS) calls"

lemma fst_paper_entry [simp]: "fst (paper_entry rd cfg c) = call_id c"
  by (cases c) (simp add: paper_entry_def call_id_def)

lemma comp_paper_entry [simp]: "fst \<circ> paper_entry rd cfg = call_id"
  by (simp add: fun_eq_iff)

lemma entry_absent: "map_of (map (paper_entry rd cfg) calls) i = None \<longleftrightarrow> i \<notin> set (map call_id calls)"
  by (simp add: map_of_eq_None_iff image_image)

lemma recent_ids: "set (map call_id (recent_calls calls)) \<subseteq> set (map call_id calls)"
  using set_drop_subset [of "length calls - PAPER_MAX_ORDERS" calls] unfolding recent_calls_def by auto

lemma recent_snoc:
  "recent_calls (calls @ [c]) = (if length calls < PAPER_MAX_ORDERS then calls else tl (recent_calls calls)) @ [c]"
proof (cases "length calls < PAPER_MAX_ORDERS")
  case False
  then have "Suc (length calls) - PAPER_MAX_ORDERS = Suc (length calls - PAPER_MAX_ORDERS)" by (simp add: Suc_diff_le)
  moreover have "Suc 0 - PAPER_MAX_ORDERS = 0" by (simp add: PAPER_MAX_ORDERS_def)
  ultimately show ?thesis using False by (simp add: recent_calls_def drop_Suc tl_drop)
qed (simp add: recent_calls_def)

lemma recent_length: "length (recent_calls calls) = min (length calls) PAPER_MAX_ORDERS"
  by (auto simp: recent_calls_def)

lemma evict_recent:
  assumes "distinct (map call_id calls)" "[] \<notin> set (map call_id calls)"
  shows "evictIfNeeded (map (paper_entry rd cfg) (recent_calls calls)) =
           map (paper_entry rd cfg) (if length calls < PAPER_MAX_ORDERS then calls else tl (recent_calls calls))"
proof (cases "length calls < PAPER_MAX_ORDERS")
  case True
  then show ?thesis by (simp add: evictIfNeeded_def recent_calls_def)
next
  case False
  then have len: "length (recent_calls calls) = PAPER_MAX_ORDERS" by (simp add: recent_length)
  then obtain c cs where cs: "recent_calls calls = c # cs" by (cases "recent_calls calls") (auto simp: PAPER_MAX_ORDERS_def)
  have "distinct (map call_id (recent_calls calls))" using assms(1) by (simp add: recent_calls_def drop_map [symmetric])
  then have "map_of (map (paper_entry rd cfg) cs) (call_id c) = None" unfolding entry_absent by (simp add: cs)
  moreover have "call_id c \<noteq> []" using assms(2) recent_ids [of calls] cs by auto
  moreover obtain k d where "paper_entry rd cfg c = (k, d)" "k = call_id c" by (metis fst_paper_entry prod.collapse)
  ultimately show ?thesis
    using len False map_delete_fresh [of "map (paper_entry rd cfg) cs" "call_id c"] by (simp add: evictIfNeeded_def cs)
qed

lemma run_recent:
  assumes "distinct (map call_id calls)" "[] \<notin> set (map call_id calls)"
  shows "paper_run rd cfg calls = map (paper_entry rd cfg) (recent_calls calls)"
  using assms
proof (induction calls rule: rev_induct)
  case (snoc c calls)
  obtain q i now where c: "c = (q, i, now)" by (cases c)
  have IH: "paper_run rd cfg calls = map (paper_entry rd cfg) (recent_calls calls)" using snoc by simp
  let ?kept = "if length calls < PAPER_MAX_ORDERS then calls else tl (recent_calls calls)"
  have "set ?kept \<subseteq> set calls"
    unfolding recent_calls_def by (auto dest: in_set_dropD list.set_sel(2) [rotated] simp: tl_drop drop_Suc [symmetric] simp del: drop_Suc)
  then have "i \<notin> set (map call_id ?kept)" using snoc.prems(1) c by (auto simp: call_id_def)
  then have "map_of (map (paper_entry rd cfg) ?kept) i = None" unfolding entry_absent .
  then have "map_set i (simulated_of rd cfg q i now) (map (paper_entry rd cfg) ?kept) = map (paper_entry rd cfg) (?kept @ [c])"
    by (simp add: map_set_fresh c) (simp add: paper_entry_def)
  then show ?case
    using evict_recent [of calls rd cfg] snoc.prems IH
    by (simp add: paper_run_def c simulateFill_def Let_def) (simp add: recent_snoc c)
qed (simp add: paper_run_def recent_calls_def)

section \<open>The properties\<close>

text \<open>
  C11: After any orders with non-empty identifiers of their own the simulator holds exactly the last ten
  thousand; each of them is found filled with its whole quantity at the price with slippage and
  can no longer be cancelled, and an older one is not found. No order is removed when it is filled.
\<close>
theorem paper_orders_last_kept:
  assumes "distinct (map call_id calls)" "[] \<notin> set (map call_id calls)" "(q, i, now) \<in> set calls"
  shows "length (paper_run rd cfg calls) = min (length calls) PAPER_MAX_ORDERS
    \<and> (if (q, i, now) \<in> set (recent_calls calls)
       then paper_getOrder i (paper_run rd cfg calls) =
              \<lparr>osStatus = StateFilled, osFillPrice = Some (applySlippage rd cfg (orPrice q) (orSide q)), osFillSize = Some (orQuantity q)\<rparr>
            \<and> paper_cancelOrder i (paper_run rd cfg calls) = AlreadyFilled
       else osStatus (paper_getOrder i (paper_run rd cfg calls)) = StateNotFound \<and> paper_cancelOrder i (paper_run rd cfg calls) = CancelNotFound)"
proof -
  have d: "distinct (map call_id (recent_calls calls))" using assms(1) by (simp add: recent_calls_def drop_map [symmetric])
  have run: "paper_run rd cfg calls = map (paper_entry rd cfg) (recent_calls calls)" by (rule run_recent [OF assms(1,2)])
  have "map_of (paper_run rd cfg calls) i = (if (q, i, now) \<in> set (recent_calls calls) then Some (simulated_of rd cfg q i now) else None)"
  proof (cases "(q, i, now) \<in> set (recent_calls calls)")
    case True
    then have "(i, simulated_of rd cfg q i now) \<in> set (paper_run rd cfg calls)"
      unfolding run set_map by (rule rev_image_eqI) (simp add: paper_entry_def)
    then show ?thesis using True d by (intro trans [OF map_of_is_SomeI]) (simp_all add: run)
  next
    case False
    have "i \<notin> set (map call_id (recent_calls calls))"
    proof
      assume "i \<in> set (map call_id (recent_calls calls))"
      then obtain c where c: "c \<in> set (recent_calls calls)" "call_id c = call_id (q, i, now)" by (auto simp: call_id_def)
      then have "c \<in> set calls" unfolding recent_calls_def by (blast dest: in_set_dropD)
      then have "c = (q, i, now)" using assms(1,3) c(2) unfolding distinct_map inj_on_def by blast
      then show False using c(1) False by simp
    qed
    then show ?thesis using False by (simp add: run entry_absent)
  qed
  then show ?thesis
    by (simp add: paper_getOrder_def paper_cancelOrder_def simulated_of_def) (simp add: run recent_length)
qed

definition sample_paper :: paper_config where
  "sample_paper = \<lparr>ptPlatform = Kalshi, ptLatencyMs = Fin 150, ptSlippageBps = Fin 5\<rparr>"

definition sample_params :: order_params where
  "sample_params = \<lparr>orContract = ''c'', orSide = Buy, orQuantity = Fin 10, orPrice = Fin (1/2)\<rparr>"

theorem paper_orders_last_kept_witness:
  "osStatus (paper_getOrder ''a'' (paper_run dec20 sample_paper [(sample_params, ''a'', 1), (sample_params, ''b'', 2)])) = StateFilled"
  using paper_orders_last_kept [of "[(sample_params, ''a'', 1), (sample_params, ''b'', 2)]" sample_params "''a''" 1 dec20 sample_paper]
  by (simp add: call_id_def recent_calls_def PAPER_MAX_ORDERS_def)

text \<open>An order is filled whole, whatever the book offers.\<close>

lemma paper_always_fills:
  "orStatus (snd (simulateFill rd cfg q i now orders)) = OrderFilled \<and> filledQuantity (snd (simulateFill rd cfg q i now orders)) = orQuantity q"
  by (simp add: simulateFill_def Let_def)

section \<open>Executions over paper connectors\<close>

text \<open>Both platforms answer from their simulator: \<open>cfg p\<close>, \<open>ids p\<close> and \<open>orders p\<close> are those of platform \<open>p\<close>.\<close>

definition paper_submitOrder ::
  "(rat \<Rightarrow> rat) \<Rightarrow> (platform \<Rightarrow> paper_config) \<Rightarrow> (platform \<Rightarrow> string) \<Rightarrow> timestamp \<Rightarrow> (platform \<Rightarrow> paper_orders)
     \<Rightarrow> platform \<Rightarrow> order_params \<Rightarrow> string + order_result" where
  "paper_submitOrder rd cfg ids now orders p q = Inr (snd (simulateFill rd (cfg p) q (ids p) now (orders p)))"

lemma paper_accepted [simp]: "Execution.accepted (paper_submitOrder rd cfg ids now orders p q)"
  by (simp add: paper_submitOrder_def Execution.accepted_def is_filled_def simulateFill_def Let_def)

text \<open>
  C9: Over paper connectors no execution reports a single leg: one that returns either sent no
  order and is refused, or sent both and succeeded; any other throws.
\<close>
theorem paper_trades_never_single_legged:
  "case execute rd cfg (env\<lparr>envSubmit := paper_submitOrder rdp pc ids now orders\<rparr>) op req res of (effs, out) \<Rightarrow>
     (case out of
        Inr r \<Rightarrow> \<not> exec_partialFill r \<and> (if exec_success r then length (submissions effs) = 2 else submissions effs = [])
      | Inl msg \<Rightarrow> submissions effs \<noteq> [])"
proof -
  let ?env = "env\<lparr>envSubmit := paper_submitOrder rdp pc ids now orders\<rparr>"
  obtain effs out where e: "execute rd cfg ?env op req res = (effs, out)" by fastforce
  from e show ?thesis
  proof (cases rule: execute_cases)
    case (refused r)
    then show ?thesis by (simp add: e refusal_def)
  next
    case (stopped s n r)
    then show ?thesis by (auto simp: e pair_outcome_def Let_def secondary_outcome_def)
  next
    case (thrown s n msg out')
    then show ?thesis by (auto simp: e pair_outcome_def Let_def)
  next
    case (filled s n b pid)
    then show ?thesis by (auto simp: e pair_outcome_def Let_def completed_def)
  qed
qed

end
