(* ===== verification/Spec2Isabelle.thy ===== *)
theory Spec2Isabelle
  imports ThresholdEvaluator Alerting RiskManager PairConcentration BacktestRuns TradePipeline Detection
    ShadowReport Exposure ExposureAlerts Reconciliation BacktestPipeline Normalizer
    AuditLog EventConsumer PlatformHealth Connectors StressTest TradingCycle
    Clusters MatchValidation PaperTrading
begin

text \<open>
  A verification library for the arbitrage engine, a service that buys the cheap side of one
  prediction market contract on one platform and the opposite side on another.

  \<^bold>\<open>The program.\<close>  A cycle finds price dislocations between the order books of Kalshi and
  Polymarket, keeps those with enough edge, lets the risk manager size and reserve each, and
  executes them one at a time: two orders, one per platform.  Open positions are evaluated
  against exit criteria and closed in chunks; a position with only one leg is resolved by the
  operator or unwound automatically.  Money limits live in the risk manager: deployed capital per
  mode (live and paper), reservations, daily loss, correlation clusters.

  \<^bold>\<open>How the code is translated.\<close>  Numbers keep their precision: \<^verbatim>\<open>Numerics\<close> has the two
  number systems, doubles (53 bits, half to even) and \<^verbatim>\<open>decimal.js\<close> values (20 digits, half
  up), both with \<^verbatim>\<open>NaN\<close> and the infinities, so every \<^verbatim>\<open>.mul\<close> rounds as the source's
  does.  The operations take the rounding as a parameter \<^verbatim>\<open>rd\<close>; the theorems assume the laws
  of \<^verbatim>\<open>decimal_rounding\<close> and the interpretation \<^verbatim>\<open>d20\<close> gives them for \<^verbatim>\<open>dec20\<close>.
  \<^verbatim>\<open>Prelude\<close> has JavaScript's insertion-ordered \<^verbatim>\<open>Map\<close>.  A component's state is a record
  that its operations return updated; a thrown error is the left part of a sum; a call to
  code outside the repository (connector, database, Telegram) is an answer that the operation
  takes as an argument, success or error, so the theorems hold for every answer.  Operations that
  talk to the outside are programs of \<^verbatim>\<open>Effects\<close>: the list of their effects in order and
  their outcome; its locale \<^verbatim>\<open>effect_property\<close> carries a property of effects through sequencing.
  Times are milliseconds; an awaited gap in which other handlers run is a step of a step relation.

  \<^bold>\<open>Which theory models which source\<close> (paths under \<^verbatim>\<open>src/src/\<close>; MOD is \<^verbatim>\<open>modules\<close>):
  \<^item> \<^verbatim>\<open>Financial\<close>: \<^verbatim>\<open>common/utils/financial-math.ts\<close> and its neighbours: edges, fees, VWAP,
    leg capital, residual sizes.
  \<^item> \<^verbatim>\<open>Correlation, RiskState, Budget, RiskManager\<close>: MOD\<^verbatim>\<open>/risk-management\<close>.  Cluster
    exposure; mode states, halts, daily loss and persistence; reservations, commit, release,
    close; the decision on an opportunity and the operator's override.
  \<^item> \<^verbatim>\<open>ExecutionQueue\<close>: the execution lock and the queue over an abstract risk manager, the
    locale \<^verbatim>\<open>risk_ledger\<close>, interpreted on \<^verbatim>\<open>Budget\<close>.
  \<^item> \<^verbatim>\<open>Compliance, DepthGate, Legs, Execution, TradePipeline\<close>: MOD\<^verbatim>\<open>/execution\<close>, from the
    compliance gate over depth, sizing and the two orders to the single-leg case; the last theory
    composes the queue, the budget and the execution service.
  \<^item> \<^verbatim>\<open>Detection, PairConcentration\<close>: MOD\<^verbatim>\<open>/arbitrage-detection\<close>: dislocations, edge,
    capital efficiency, dynamic thresholds; limits per pair.
  \<^item> \<^verbatim>\<open>DataQuality\<close>: MOD\<^verbatim>\<open>/data-ingestion\<close>: degradation protocol, divergence of feeds.
  \<^item> \<^verbatim>\<open>ThresholdEvaluator, ExitDataSource, ExitEffects, ExitExecution\<close>: MOD\<^verbatim>\<open>/exit-management\<close>:
    when to exit, at which price and depth, and the chunked exit.
  \<^item> \<^verbatim>\<open>ExitMonitor, ShadowReport\<close>: the polling cycle that evaluates every open position, with
    its breaker, the comparison of the fixed and the model decision and its daily summary.
  \<^item> \<^verbatim>\<open>PositionClose, Resolution\<close>: MOD\<^verbatim>\<open>/execution\<close>: manual close, retry and close of one leg,
    automatic unwinding.
  \<^item> \<^verbatim>\<open>Exposure, ExposureAlerts\<close>: MOD\<^verbatim>\<open>/execution\<close>: counts of single-leg exposures by calendar
    month and ISO week, and the reminders for exposed positions.
  \<^item> \<^verbatim>\<open>Reconciliation\<close>: \<^verbatim>\<open>reconciliation\<close> and its call in \<^verbatim>\<open>core\<close>: stored orders against the
    platforms at start-up, flagged positions, the halt, the recalculated risk state.
  \<^item> \<^verbatim>\<open>KalshiFeed, PolymarketFeed, Normalizer\<close>: the WebSocket clients of \<^verbatim>\<open>connectors\<close>, which keep
    local order books from snapshots and changes, and the normalizer of MOD\<^verbatim>\<open>/data-ingestion\<close>.
  \<^item> \<^verbatim>\<open>Connectors\<close>: orders, order states, books, errors and connection state of
    \<^verbatim>\<open>connectors/kalshi/kalshi.connector.ts\<close> and \<^verbatim>\<open>connectors/polymarket/polymarket.connector.ts\<close>.  What a
    client answers to each attempt is an argument, and the orders the exchange has taken are the state.
  \<^item> \<^verbatim>\<open>RateLimiter\<close>: the token buckets of the connectors, \<^verbatim>\<open>common/utils/rate-limiter.ts\<close>.
  \<^item> \<^verbatim>\<open>PlatformHealth\<close>: age and latency of each platform's data in MOD\<^verbatim>\<open>/data-ingestion\<close>, and the
    periodic check over \<^verbatim>\<open>DataQuality\<close>.
  \<^item> \<^verbatim>\<open>DataIngestion\<close>: polling, feeds and subscriptions of MOD\<^verbatim>\<open>/data-ingestion\<close>, over the
    health, degradation and divergence services.
  \<^item> \<^verbatim>\<open>TradingCycle\<close>: \<^verbatim>\<open>core\<close>, the cycle that composes ingestion, detection, concentration filter,
    risk manager and queue, the timer that starts it, clock checks, start-up and shutdown.
  \<^item> \<^verbatim>\<open>Matching\<close>: MOD\<^verbatim>\<open>/contract-matching\<close> and \<^verbatim>\<open>dashboard/match-approval.service.ts\<close>: which pairs
    of contracts become matches, which of them are approved and traded, and how their resolutions are
    recorded.  The table of matches is the state; scores, catalogs and clusters are arguments.
  \<^item> \<^verbatim>\<open>Clusters\<close>: the cluster of a match, \<^verbatim>\<open>cluster-classifier.service.ts\<close>, over the tables of clusters
    and mapped categories.
  \<^item> \<^verbatim>\<open>MatchValidation\<close>: MOD\<^verbatim>\<open>/backtesting/validation\<close>, the report that compares the matches with two
    external sources.
  \<^item> \<^verbatim>\<open>PaperTrading\<close>: \<^verbatim>\<open>connectors/paper\<close>, simulated fills, and the executions over them.
  \<^item> \<^verbatim>\<open>StressTest\<close>: the scenarios of MOD\<^verbatim>\<open>/risk-management/stress-test.service.ts\<close>.
  \<^item> \<^verbatim>\<open>Alerting, EventConsumer, AuditLog\<close>: MOD\<^verbatim>\<open>/monitoring\<close>: the circuit breaker of the alerts, what
    every event leads to, batches of alerts, and the hash chain of the audit log.
  \<^item> \<^verbatim>\<open>BacktestRuns, BacktestPortfolio, BacktestEngine, BacktestPipeline\<close>: MOD\<^verbatim>\<open>/backtesting\<close>: the
    state machine of the runs, the portfolio of a run and its metrics, the simulation over time
    steps, and the pipeline of a run with its chunks, walk-forward split and cancellations.

  \<^bold>\<open>What the lemmas show.\<close>  For the budget: an invariant of all reachable states, a refinement to
  an abstract ledger in which every call has its own move, and through \<^verbatim>\<open>risk_ledger\<close> that the queue leaks no reservation whatever an
  execution does.  For the execution: which orders can be sent, their size and capital, and what
  the budget becomes.  For exits: what is sold, that the loop ends, what a manual or automatic close
  books, and on which mode.  For the deciding components: the exact condition of each decision, limits they keep and
  the direction in which they fail.  Where the code does not do what it says, the theorem states
  what it does.

  \<^bold>\<open>Bounds.\<close>  No operation runs on fuel.  Loops are structural recursions, or \<^verbatim>\<open>function\<close>s with a
  measure; the chunk loop of an exit is bounded by the code's own fifty iterations and the in-flight
  set of the unwinding by its hundred entries; the walk over past weeks has the number of breached
  weeks before its start as measure; the window of shadow comparisons keeps the code's 50 000.
  The binary search over depths shrinks its interval; the loop over the chunks of a date range is a
  partial function, since a window of no days never ends, and is proved to end for one of a day; so is
  the wait of a shutdown, which ends on every clock that advances with its timer.

  \<^bold>\<open>Not modelled.\<close>  Code whose content is a conversation with the outside: the clients that the
  connectors call, catalog and historical data fetchers, repositories, controllers, the gateway and the
  DTOs of the dashboard, Telegram texts, the CSV writer, the LLM strategy.  Log lines and the
  texts of events are left out everywhere.  The backtest's queries, downloads and reports
  are not modelled; nor is what the matching of contracts takes from the language model and
  from the frequencies of words.
\<close>

end
